(* ===== verification/Prelude.thy ===== *)
theory Prelude
  imports Complex_Main "HOL-Library.Word" "HOL-Library.Numeral_Type" "HOL-Library.Log_Nat"
    "HOL-Library.Multiset"
begin

text \<open>
  Facts shared by every component: powers of two over the rationals, division and
  remainder of natural numbers by a block size, conversions between small natural numbers and
  32-bit words, and folds. The collections declared here are filled by the theories that
  define the operations they speak of.
\<close>

named_theorems fp_simps \<open>evaluation of floating-point operations on their classes of values\<close>
named_theorems word_nat \<open>a 32-bit word expression over small naturals as the image of a natural\<close>

section \<open>Powers of two\<close>

abbreviation pow2 :: "int \<Rightarrow> rat" where
  "pow2 e \<equiv> (2::rat) powi e"

lemma pow2_pos [simp]: "0 < pow2 e"
  by (simp add: zero_less_power_int)

lemma pow2_nonneg [simp]: "0 \<le> pow2 e"
  by (simp add: zero_le_power_int)

lemma pow2_nz [simp]: "pow2 e \<noteq> 0"
  by simp

lemma pow2_add: "pow2 (a + b) = pow2 a * pow2 b"
  by (rule power_int_add) simp

lemma pow2_diff: "pow2 (a - b) = pow2 a / pow2 b"
  by (rule power_int_diff) simp

lemma pow2_Suc: "pow2 (a + 1) = 2 * pow2 a"
  by (simp add: pow2_add)

lemma pow2_mono: "a \<le> b \<Longrightarrow> pow2 a \<le> pow2 b"
  by (rule power_int_increasing) simp_all

lemma pow2_strict_mono: "a < b \<Longrightarrow> pow2 a < pow2 b"
  by (rule power_int_strict_increasing) simp_all

lemma pow2_le_iff: "pow2 a \<le> pow2 b \<longleftrightarrow> a \<le> b"
  using pow2_mono pow2_strict_mono by (meson linorder_not_le)

lemma pow2_less_iff: "pow2 a < pow2 b \<longleftrightarrow> a < b"
  using pow2_le_iff by (meson linorder_not_le)

lemma pow2_nat: "0 \<le> e \<Longrightarrow> pow2 e = of_int (2 ^ nat e)"
  by (simp add: power_int_nonneg_exp)

lemma pow2_of_nat: "pow2 (int n) = of_int (2 ^ n)"
  by (simp add: pow2_nat)

end
