(* ===== verification/Rounding.thy ===== *)
theory Rounding
  imports Prelude
begin

text \<open>
  Rounding of a rational to the nearest binary floating-point number, ties to even: the
  arithmetic that ECMAScript prescribes for its Number type (binary64) and that WGSL
  prescribes for \<open>f32\<close> (binary32). A format is a precision \<open>p\<close> and a least exponent
  \<open>em\<close>; overflow is the business of the operations, not of this theory.
\<close>

section \<open>The exponent of a rational\<close>

definition ilog2 :: "rat \<Rightarrow> int" where
  "ilog2 x = (case quotient_of x of (a, b) \<Rightarrow>
     let k = bitlen a - bitlen b in if pow2 k \<le> x then k else k - 1)"

lemma bitlen_rat_bounds:
  assumes "0 < a"
  shows "pow2 (bitlen a - 1) \<le> of_int a" and "of_int a < pow2 (bitlen a)"
proof -
  have pos: "1 \<le> bitlen a"
    using assms bitlen_nonneg[of a] bitlen_eq_zero_iff[of a] by linarith
  have "of_int (2 ^ nat (bitlen a - 1)) \<le> (of_int a :: rat)"
    and "(of_int a :: rat) < of_int (2 ^ nat (bitlen a))"
    using bitlen_bounds[OF assms] by (metis of_int_le_iff, metis of_int_less_iff)
  then show "pow2 (bitlen a - 1) \<le> of_int a" and "of_int a < pow2 (bitlen a)"
    using pos by (simp_all add: pow2_nat)
qed

lemma ilog2_bounds:
  assumes "0 < x"
  shows "pow2 (ilog2 x) \<le> x" and "x < pow2 (ilog2 x + 1)"
proof -
  obtain a b where ab: "quotient_of x = (a, b)" by (cases "quotient_of x")
  have x: "x = of_int a / of_int b" and b: "0 < b"
    using quotient_of_div[OF ab] quotient_of_denom_pos[OF ab] by auto
  have a: "0 < a" using assms x b by (simp add: zero_less_divide_iff)
  define k where "k = bitlen a - bitlen b"
  have "pow2 (k - 1) = pow2 (bitlen a - 1) / pow2 (bitlen b)"
    by (simp add: k_def pow2_diff)
  also have "\<dots> \<le> of_int a / of_int b"
    using bitlen_rat_bounds[OF a] bitlen_rat_bounds[OF b] b a
    by (intro frac_le) auto
  finally have lo: "pow2 (k - 1) \<le> x" using x by simp
  have "of_int a / of_int b < pow2 (bitlen a) / pow2 (bitlen b - 1)"
    using bitlen_rat_bounds[OF a] bitlen_rat_bounds[OF b] b a
    by (intro frac_less) auto
  also have "\<dots> = pow2 (k + 1)"
    by (simp add: k_def flip: pow2_diff) (simp add: algebra_simps)
  finally have hi: "x < pow2 (k + 1)" using x by simp
  show "pow2 (ilog2 x) \<le> x" and "x < pow2 (ilog2 x + 1)"
    using lo hi by (auto simp: ilog2_def ab Let_def simp flip: k_def)
qed

lemma ilog2_unique:
  assumes "pow2 e \<le> x" and "x < pow2 (e + 1)"
  shows "ilog2 x = e"
proof -
  have x: "0 < x" using assms(1) pow2_pos[of e] by linarith
  have "pow2 e < pow2 (ilog2 x + 1)" and "pow2 (ilog2 x) < pow2 (e + 1)"
    using ilog2_bounds[OF x] assms by linarith+
  then show ?thesis by (simp add: pow2_less_iff)
qed

lemma ilog2_mono: "0 < x \<Longrightarrow> x \<le> y \<Longrightarrow> ilog2 x \<le> ilog2 y"
proof -
  assume x: "0 < x" "x \<le> y"
  have "pow2 (ilog2 x) < pow2 (ilog2 y + 1)"
    using ilog2_bounds(1)[OF x(1)] ilog2_bounds(2)[of y] x by linarith
  then show ?thesis by (simp add: pow2_less_iff)
qed

lemma ilog2_less: "0 < x \<Longrightarrow> x < pow2 e \<Longrightarrow> ilog2 x < e"
  using ilog2_bounds(1)[of x] by (metis order_le_less_trans pow2_less_iff)

lemma ilog2_ge: "pow2 e \<le> x \<Longrightarrow> e \<le> ilog2 x"
  using ilog2_bounds(2)[of x] pow2_pos[of e] pow2_less_iff[of e "ilog2 x + 1"] by fastforce

section \<open>Rounding to an integer, ties to even\<close>

definition rne :: "rat \<Rightarrow> int" where
  "rne x = (let f = \<lfloor>x\<rfloor>; d = x - of_int f in
     if d < 1/2 then f else if 1/2 < d then f + 1 else if even f then f else f + 1)"

lemma rne_of_int [simp]: "rne (of_int n) = n"
  by (simp add: rne_def)

lemma rne_floor_cases: "rne x = \<lfloor>x\<rfloor> \<or> rne x = \<lfloor>x\<rfloor> + 1"
  by (simp add: rne_def Let_def)

lemma rne_mono:
  assumes "x \<le> y"
  shows "rne x \<le> rne y"
proof (cases "\<lfloor>x\<rfloor> = \<lfloor>y\<rfloor>")
  case True
  then show ?thesis using assms by (auto simp: rne_def Let_def)
next
  case False
  then have "\<lfloor>x\<rfloor> + 1 \<le> \<lfloor>y\<rfloor>" using floor_mono[OF assms] by linarith
  then show ?thesis using rne_floor_cases[of x] rne_floor_cases[of y] by linarith
qed

lemma rne_le: "x \<le> of_int n \<Longrightarrow> rne x \<le> n"
  using rne_mono[of x "of_int n"] by simp

lemma rne_ge: "of_int n \<le> x \<Longrightarrow> n \<le> rne x"
  using rne_mono[of "of_int n" x] by simp

lemma floor_uminus_frac:
  fixes x :: rat
  assumes "x \<noteq> of_int \<lfloor>x\<rfloor>"
  shows "\<lfloor>- x\<rfloor> = - \<lfloor>x\<rfloor> - 1"
  using assms by linarith

lemma rne_minus: "rne (- x) = - rne x"
proof (cases "x = of_int \<lfloor>x\<rfloor>")
  case True
  then show ?thesis using rne_of_int[of "\<lfloor>x\<rfloor>"] rne_of_int[of "- \<lfloor>x\<rfloor>"]
    by (metis of_int_minus)
next
  case False
  have fl: "\<lfloor>- x\<rfloor> = - \<lfloor>x\<rfloor> - 1" by (rule floor_uminus_frac[OF False])
  show ?thesis unfolding rne_def Let_def fl by auto
qed

lemma rne_error: "\<bar>of_int (rne x) - x\<bar> \<le> 1/2"
  using floor_correct[of x] by (simp add: rne_def Let_def abs_if) linarith

section \<open>Rounding to a format\<close>

definition quantum :: "nat \<Rightarrow> int \<Rightarrow> rat \<Rightarrow> int" where
  "quantum p em x = max em (ilog2 \<bar>x\<bar>) - int p + 1"

definition round_to :: "nat \<Rightarrow> int \<Rightarrow> rat \<Rightarrow> rat" where
  "round_to p em x =
     (if x = 0 then 0
      else let q = pow2 (quantum p em x) in of_int (rne (x / q)) * q)"

lemma round_to_0 [simp]: "round_to p em 0 = 0"
  by (simp add: round_to_def)

lemma quantum_minus [simp]: "quantum p em (- x) = quantum p em x"
  by (simp add: quantum_def)

lemma round_to_minus [simp]: "round_to p em (- x) = - round_to p em x"
  by (simp add: round_to_def Let_def rne_minus)

lemma round_to_nonneg: "0 \<le> x \<Longrightarrow> 0 \<le> round_to p em x"
  by (auto simp: round_to_def Let_def intro!: mult_nonneg_nonneg rne_ge)

lemma round_to_nonpos: "x \<le> 0 \<Longrightarrow> round_to p em x \<le> 0"
  using round_to_nonneg[of "- x" p em] by simp

lemma round_to_grid:
  assumes x: "x = of_int n * pow2 k" and k: "quantum p em x \<le> k"
  shows "round_to p em x = x"
proof (cases "x = 0")
  case False
  define q where "q = quantum p em x"
  have "x / pow2 q = of_int n * pow2 (k - q)"
    by (simp add: x pow2_diff)
  also have "\<dots> = of_int (n * 2 ^ nat (k - q))"
    using k by (simp add: q_def pow2_nat)
  finally have "rne (x / pow2 q) = n * 2 ^ nat (k - q)" by (simp only: rne_of_int)
  then have "round_to p em x = of_int n * pow2 (k - q) * pow2 q"
    using False k by (simp add: round_to_def Let_def q_def pow2_nat flip: q_def)
  then show ?thesis by (simp add: x pow2_diff)
qed simp

lemma round_to_upper:
  assumes "0 < x" and "x < pow2 (e + 1)" and "em \<le> e" and "1 \<le> p"
  shows "round_to p em x \<le> pow2 (e + 1)"
proof -
  define q where "q = quantum p em x"
  define n where "n = nat (e + 1 - q)"
  have "q \<le> e + 1" using ilog2_less[OF assms(1,2)] assms by (simp add: q_def quantum_def)
  then have "pow2 (e + 1) = pow2 (int n) * pow2 q"
    by (simp add: n_def flip: pow2_add)
  then have n: "pow2 (e + 1) = of_int (2 ^ n) * pow2 q"
    by (simp only: pow2_of_nat)
  have "x / pow2 q \<le> of_int (2 ^ n)" using assms(2) by (simp add: n divide_le_eq)
  then have "rne (x / pow2 q) \<le> 2 ^ n" by (rule rne_le)
  then have "(of_int (rne (x / pow2 q)) :: rat) \<le> of_int (2 ^ n)"
    by (simp only: of_int_le_iff)
  then have "of_int (rne (x / pow2 q)) * pow2 q \<le> pow2 (e + 1)"
    unfolding n by (rule mult_right_mono) simp
  then show ?thesis using assms(1) by (simp add: round_to_def Let_def q_def)
qed

lemma round_to_lower:
  assumes "pow2 e \<le> x" and "em \<le> e" and "1 \<le> p"
  shows "pow2 e \<le> round_to p em x"
proof -
  have x: "0 < x" using assms(1) pow2_pos[of e] by linarith
  define l where "l = ilog2 x"
  have l: "e \<le> l" "pow2 l \<le> x" using ilog2_ge[OF assms(1)] ilog2_bounds[OF x] by (auto simp: l_def)
  define q where "q = l - int p + 1"
  have qq: "quantum p em x = q" using l assms(2) x by (simp add: quantum_def q_def l_def)
  have "of_int (2 ^ nat (l - q)) = pow2 l / pow2 q"
    using assms(3) by (subst pow2_diff[symmetric]) (simp add: pow2_nat q_def)
  also have "\<dots> \<le> x / pow2 q" using l(2) by (simp add: divide_right_mono)
  finally have "2 ^ nat (l - q) \<le> rne (x / pow2 q)" by (rule rne_ge)
  then have "(of_int (2 ^ nat (l - q)) :: rat) \<le> of_int (rne (x / pow2 q))"
    by (simp only: of_int_le_iff)
  then have "pow2 (l - q) \<le> of_int (rne (x / pow2 q))"
    using assms(3) by (simp add: pow2_nat q_def)
  then have "pow2 (l - q) * pow2 q \<le> of_int (rne (x / pow2 q)) * pow2 q"
    by (rule mult_right_mono) simp
  then have "pow2 l \<le> round_to p em x" using x qq by (simp add: round_to_def Let_def pow2_diff)
  then show ?thesis using pow2_mono[OF l(1)] by linarith
qed

lemma round_to_mono_pos:
  assumes "0 < x" and "x \<le> y" and "1 \<le> p"
  shows "round_to p em x \<le> round_to p em y"
proof (cases "quantum p em x = quantum p em y")
  case True
  define q where "q = quantum p em y"
  have "rne (x / pow2 q) \<le> rne (y / pow2 q)"
    by (rule rne_mono) (simp add: assms(2) divide_right_mono)
  then have "(of_int (rne (x / pow2 q)) :: rat) \<le> of_int (rne (y / pow2 q))"
    by (simp only: of_int_le_iff)
  then show ?thesis using assms(1,2) True
    by (simp add: round_to_def Let_def mult_right_mono flip: q_def)
next
  case False
  define e where "e = max em (ilog2 x)"
  have y: "0 < y" using assms by linarith
  have lt: "e < ilog2 y"
    using False ilog2_mono[OF assms(1,2)] assms(1) y by (auto simp: quantum_def e_def)
  have "x < pow2 (ilog2 x + 1)" by (rule ilog2_bounds(2)[OF assms(1)])
  also have "\<dots> \<le> pow2 (e + 1)" by (rule pow2_mono) (simp add: e_def)
  finally have "round_to p em x \<le> pow2 (e + 1)"
    using assms(3) by (intro round_to_upper[OF assms(1)]) (simp_all add: e_def)
  also have "\<dots> \<le> round_to p em y"
  proof (rule round_to_lower)
    show "pow2 (e + 1) \<le> y"
      using ilog2_bounds(1)[OF y] lt pow2_mono[of "e + 1" "ilog2 y"] by linarith
  qed (use assms(3) in \<open>simp_all add: e_def\<close>)
  finally show ?thesis .
qed

lemma round_to_mono:
  assumes "x \<le> y" and p: "1 \<le> p"
  shows "round_to p em x \<le> round_to p em y"
proof -
  consider "0 < x" | "x \<le> 0" "0 \<le> y" | "y < 0" by linarith
  then show ?thesis
  proof cases
    case 1
    then show ?thesis by (rule round_to_mono_pos[OF _ assms])
  next
    case 2
    then show ?thesis using round_to_nonneg[of y p em] round_to_nonpos[of x p em] by linarith
  next
    case 3
    then have "round_to p em (- y) \<le> round_to p em (- x)"
      using assms by (intro round_to_mono_pos) simp_all
    then show ?thesis by simp
  qed
qed

section \<open>Representable numbers\<close>

definition repr :: "nat \<Rightarrow> int \<Rightarrow> rat \<Rightarrow> bool" where
  "repr p em x \<longleftrightarrow> round_to p em x = x"

lemma repr_round: "repr p em x \<Longrightarrow> round_to p em x = x"
  by (simp add: repr_def)

lemma repr_0 [simp]: "repr p em 0"
  by (simp add: repr_def)

lemma repr_minus [simp]: "repr p em (- x) \<longleftrightarrow> repr p em x"
  by (simp add: repr_def)

lemma repr_pow2: "em \<le> e \<Longrightarrow> 1 \<le> p \<Longrightarrow> repr p em (pow2 e)"
  unfolding repr_def
  by (rule round_to_grid[of _ 1 e])
    (simp_all add: quantum_def ilog2_unique[of e] pow2_Suc)

lemma round_to_bound:
  assumes "\<bar>x\<bar> \<le> b" and "repr p em b" and "1 \<le> p"
  shows "\<bar>round_to p em x\<bar> \<le> b"
  using round_to_mono[of x b p em] round_to_mono[of "- b" x p em] assms repr_round[OF assms(2)]
  by (simp add: abs_le_iff)

lemma repr_round_to:
  assumes p: "1 \<le> p"
  shows "repr p em (round_to p em x)"
proof -
  have pos: "repr p em (round_to p em x)" if x: "0 < x" for x
  proof (cases "round_to p em x = 0")
    case nz: False
    define r where "r = round_to p em x"
    define e where "e = max em (ilog2 x)"
    have "x < pow2 (e + 1)"
      using ilog2_bounds(2)[OF x] pow2_mono[of "ilog2 x + 1" "e + 1"] by (simp add: e_def)
    then have up: "r \<le> pow2 (e + 1)"
      unfolding r_def using p by (intro round_to_upper[OF x]) (simp_all add: e_def)
    have rpos: "0 < r" using nz round_to_nonneg[of x p em] x by (simp add: r_def)
    show ?thesis
    proof (cases "r = pow2 (e + 1)")
      case True
      then show ?thesis using repr_pow2[of em "e + 1" p] p by (simp add: r_def e_def)
    next
      case False
      then have "ilog2 r \<le> e" using up ilog2_less[OF rpos, of "e + 1"] by linarith
      then have "quantum p em r \<le> e - int p + 1" using rpos by (simp add: quantum_def e_def)
      moreover have "r = of_int (rne (x / pow2 (e - int p + 1))) * pow2 (e - int p + 1)"
        using x by (simp add: r_def round_to_def Let_def quantum_def e_def)
      ultimately show ?thesis using round_to_grid by (simp add: repr_def flip: r_def)
    qed
  qed simp
  show ?thesis
  proof (cases "x = 0")
    case False
    then consider "0 < x" | "0 < - x" by linarith
    then show ?thesis using pos[of x] pos[of "- x"] by cases simp_all
  qed simp
qed

lemma round_to_idem [simp]: "1 \<le> p \<Longrightarrow> round_to p em (round_to p em x) = round_to p em x"
  using repr_round_to by (simp add: repr_def)

lemma repr_of_int:
  assumes "\<bar>n\<bar> \<le> 2 ^ p" and "em \<le> 0" and "1 \<le> p"
  shows "repr p em (of_int n)"
proof -
  have small: "repr p em (of_int n)" if n: "0 < n" "n < 2 ^ p" for n :: int
  proof -
    have "(of_int n :: rat) < of_int (2 ^ p)" using n(2) by (simp only: of_int_less_iff)
    then have "ilog2 (of_int n) < int p"
      using n(1) by (intro ilog2_less) (simp_all add: pow2_of_nat)
    then have "quantum p em (of_int n) \<le> 0" using n assms by (simp add: quantum_def)
    then show ?thesis unfolding repr_def by (intro round_to_grid[of _ n 0]) simp_all
  qed
  have "repr p em (of_int (2 ^ p))"
    using repr_pow2[of em "int p" p] assms by (simp add: pow2_of_nat)
  then have pos: "repr p em (of_int n)" if "0 < n" "n \<le> 2 ^ p" for n :: int
    using that small[of n] by (cases "n = 2 ^ p") auto
  consider "n = 0" | "0 < n" | "0 < - n" by linarith
  then show ?thesis
  proof cases
    case 3
    then show ?thesis using pos[of "- n"] assms by simp
  qed (use pos assms in auto)
qed

lemma repr_double:
  assumes "repr p em x"
  shows "repr p em (2 * x)"
proof (cases "x = 0")
  case False
  define n where "n = rne (x / pow2 (quantum p em x))"
  have x: "x = of_int n * pow2 (quantum p em x)"
    using False repr_round[OF assms] by (simp add: round_to_def Let_def n_def)
  have "0 < \<bar>x\<bar>" using False by simp
  then have "ilog2 (2 * \<bar>x\<bar>) = ilog2 \<bar>x\<bar> + 1"
    using ilog2_bounds[of "\<bar>x\<bar>"] pow2_Suc[of "ilog2 \<bar>x\<bar>"] pow2_Suc[of "ilog2 \<bar>x\<bar> + 1"]
    by (intro ilog2_unique) simp_all
  then have "quantum p em (2 * x) \<le> quantum p em x + 1"
    by (simp add: quantum_def abs_mult)
  moreover have "2 * x = of_int n * pow2 (quantum p em x + 1)"
    by (subst x) (simp add: pow2_Suc)
  ultimately show ?thesis unfolding repr_def by (intro round_to_grid)
qed simp

lemma repr_multiple:
  assumes "repr p em x"
  shows "\<exists>i. x = of_int i * pow2 (em - int p + 1)"
proof (cases "x = 0")
  case False
  define u where "u = quantum p em x"
  have x: "x = of_int (rne (x / pow2 u)) * pow2 u"
    using assms False by (simp add: repr_def round_to_def Let_def u_def)
  have "em - int p + 1 \<le> u" by (simp add: u_def quantum_def)
  then have "pow2 (u - (em - int p + 1)) = of_int (2 ^ nat (u - (em - int p + 1)))" by (intro pow2_nat) simp
  moreover have "pow2 u = pow2 (u - (em - int p + 1)) * pow2 (em - int p + 1)" by (simp add: pow2_add[symmetric])
  ultimately have "pow2 u = of_int (2 ^ nat (u - (em - int p + 1))) * pow2 (em - int p + 1)" by (simp only:)
  then have "x = of_int (rne (x / pow2 u) * 2 ^ nat (u - (em - int p + 1))) * pow2 (em - int p + 1)"
    by (subst x) simp
  then show ?thesis by blast
qed (auto intro!: exI[of _ 0])

text \<open>Numbers of a format are equal or at least the least positive number of the format apart.\<close>

lemma repr_apart:
  assumes "repr p em x" and "repr p em y" and "y < x"
  shows "pow2 (em - int p + 1) \<le> x - y"
proof -
  let ?q = "pow2 (em - int p + 1)"
  obtain i j where ij: "x = of_int i * ?q" "y = of_int j * ?q" using repr_multiple assms(1,2) by blast
  have "j < i" using assms(3) unfolding ij by (simp add: mult_less_cancel_right)
  then have "1 \<le> i - j" by simp
  then have "of_int 1 * ?q \<le> of_int (i - j) * ?q" by (intro mult_right_mono) (simp_all only: of_int_le_iff pow2_nonneg)
  then show ?thesis by (simp add: ij algebra_simps)
qed

lemma repr_least: "1 \<le> p \<Longrightarrow> repr p em (pow2 (em - int p + 1))"
proof -
  assume p: "1 \<le> p"
  have "pow2 (em - int p + 1) = of_int 1 * pow2 (em - int p + 1)" by simp
  moreover have "ilog2 (pow2 e) = e" for e by (rule ilog2_unique) (simp_all add: pow2_strict_mono)
  then have "quantum p em (pow2 (em - int p + 1)) \<le> em - int p + 1"
    using p by (simp add: quantum_def abs_of_pos)
  ultimately show ?thesis unfolding repr_def by (rule round_to_grid)
qed

text \<open>Integers of at most p bits, scaled.\<close>

lemma repr_int_pow2:
  assumes "\<bar>m\<bar> < 2 ^ p" and "em - int p + 1 \<le> e"
  shows "repr p em (of_int m * pow2 e)"
proof (cases "m = 0")
  case False
  have "\<bar>of_int m :: rat\<bar> = of_int \<bar>m\<bar>" by simp
  also have "\<dots> < of_int (2 ^ p)" using assms(1) by (simp only: of_int_less_iff)
  finally have "\<bar>of_int m :: rat\<bar> < pow2 (int p)" by (simp only: pow2_of_nat)
  then have "\<bar>of_int m * pow2 e\<bar> < pow2 (int p) * pow2 e" by (simp add: abs_mult)
  then have "\<bar>of_int m * pow2 e\<bar> < pow2 (int p + e)" by (simp add: pow2_add)
  then have "ilog2 \<bar>of_int m * pow2 e\<bar> < int p + e" using False by (intro ilog2_less) simp_all
  then have "quantum p em (of_int m * pow2 e) \<le> e" using False assms(2) by (simp add: quantum_def)
  then show ?thesis unfolding repr_def by (intro round_to_grid) simp
qed simp

end
