(* ===== verification/Ieee.thy ===== *)
theory Ieee
  imports Rounding
begin

text \<open>
  IEEE-754 floating-point numbers, round to nearest, ties to even: ECMAScript's Number type
  is \<open>f64\<close>, the elements of a \<open>Float32Array\<close> and WGSL's \<open>f32\<close> are \<open>f32\<close>. A value is
  not-a-number, an infinity, a finite rational, or the negative zero (\<open>Fin 0\<close> is the
  positive one). The two type parameters are the precision in bits and the width of the
  exponent field. WGSL lets an implementation flush subnormals and contract operations; the
  model takes the correctly rounded operation, which WGSL always allows.
\<close>

section \<open>Values\<close>

datatype ('p, 'w) fp = NaN | PInf | MInf | Fin rat | NZero

type_synonym f32 = "(24, 8) fp"
type_synonym f64 = "(53, 11) fp"

definition emax :: "('p, 'w::len) fp itself \<Rightarrow> int" where
  "emax _ = 2 ^ (LENGTH('w) - 1) - 1"

definition emin :: "('p, 'w::len) fp itself \<Rightarrow> int" where
  "emin t = 1 - emax t"

lemma emax_f32 [simp]: "emax TYPE(f32) = 127" and emin_f32 [simp]: "emin TYPE(f32) = - 126"
  by (simp_all add: emax_def emin_def)

lemma emax_f64 [simp]: "emax TYPE(f64) = 1023" and emin_f64 [simp]: "emin TYPE(f64) = - 1022"
  by (simp_all add: emax_def emin_def)

primrec is_nan :: "('p, 'w) fp \<Rightarrow> bool" where
  "is_nan NaN = True" | "is_nan PInf = False" | "is_nan MInf = False"
| "is_nan (Fin x) = False" | "is_nan NZero = False"

primrec is_inf :: "('p, 'w) fp \<Rightarrow> bool" where
  "is_inf NaN = False" | "is_inf PInf = True" | "is_inf MInf = True"
| "is_inf (Fin x) = False" | "is_inf NZero = False"

definition is_fin :: "('p, 'w) fp \<Rightarrow> bool" where
  "is_fin a \<longleftrightarrow> \<not> is_nan a \<and> \<not> is_inf a"

primrec val :: "('p, 'w) fp \<Rightarrow> rat" where
  "val NaN = 0" | "val PInf = 0" | "val MInf = 0" | "val (Fin x) = x" | "val NZero = 0"

primrec neg :: "('p, 'w) fp \<Rightarrow> bool" where
  "neg NaN = False" | "neg PInf = False" | "neg MInf = True" | "neg (Fin x) = (x < 0)"
| "neg NZero = True"

primrec rank :: "('p, 'w) fp \<Rightarrow> int" where
  "rank NaN = 0" | "rank PInf = 1" | "rank MInf = - 1" | "rank (Fin x) = 0" | "rank NZero = 0"

lemma is_fin_simps [simp]:
  "\<not> is_fin NaN" "\<not> is_fin PInf" "\<not> is_fin MInf" "is_fin (Fin x)" "is_fin NZero"
  by (simp_all add: is_fin_def)

definition zero_of :: "bool \<Rightarrow> ('p, 'w) fp" where
  "zero_of s = (if s then NZero else Fin 0)"

definition inf_of :: "bool \<Rightarrow> ('p, 'w) fp" where
  "inf_of s = (if s then MInf else PInf)"

lemma zero_of_simps [simp]:
  "\<not> is_nan (zero_of s)" "is_fin (zero_of s)" "val (zero_of s) = 0" "rank (zero_of s) = 0"
  "neg (zero_of s) = s"
  by (simp_all add: zero_of_def)

lemma inf_of_simps [simp]: "\<not> is_nan (inf_of s)" "is_inf (inf_of s)" "val (inf_of s) = 0"
  by (simp_all add: inf_of_def)

text \<open>The rounding of an exact result; \<open>s\<close> is the sign of a zero result.\<close>

definition rnd :: "bool \<Rightarrow> rat \<Rightarrow> ('p::len, 'w::len) fp" where
  "rnd s x = (let r = round_to LENGTH('p) (emin TYPE(('p, 'w) fp)) x;
                  m = pow2 (emax TYPE(('p, 'w) fp) + 1)
     in if r = 0 then zero_of s else if m \<le> r then PInf else if r \<le> - m then MInf else Fin r)"

text \<open>The values a format can hold.\<close>

primrec is_fp :: "('p::len, 'w::len) fp \<Rightarrow> bool" where
  "is_fp NaN = True" | "is_fp PInf = True" | "is_fp MInf = True" | "is_fp NZero = True"
| "is_fp (Fin x :: ('p, 'w) fp) \<longleftrightarrow>
     repr LENGTH('p) (emin TYPE(('p, 'w) fp)) x \<and> \<bar>x\<bar> < pow2 (emax TYPE(('p, 'w) fp) + 1)"

section \<open>Arithmetic and comparison\<close>

instantiation fp :: (len, len) "{zero, one, plus, minus, uminus, times, inverse, ord}"
begin

definition zero_fp :: "('a, 'b) fp" where
  "zero_fp = Fin 0"

definition one_fp :: "('a, 'b) fp" where
  "one_fp = Fin 1"

definition uminus_fp :: "('a, 'b) fp \<Rightarrow> ('a, 'b) fp" where
  "uminus_fp a = (case a of NaN \<Rightarrow> NaN | PInf \<Rightarrow> MInf | MInf \<Rightarrow> PInf
     | Fin x \<Rightarrow> if x = 0 then NZero else Fin (- x) | NZero \<Rightarrow> Fin 0)"

definition plus_fp :: "('a, 'b) fp \<Rightarrow> ('a, 'b) fp \<Rightarrow> ('a, 'b) fp" where
  "plus_fp a b =
     (if is_nan a \<or> is_nan b then NaN
      else if is_inf a then (if is_inf b \<and> a \<noteq> b then NaN else a)
      else if is_inf b then b
      else if a = NZero \<and> b = NZero then NZero
      else rnd (val a + val b < 0) (val a + val b))"

definition minus_fp :: "('a, 'b) fp \<Rightarrow> ('a, 'b) fp \<Rightarrow> ('a, 'b) fp" where
  "minus_fp a b = a + - b"

definition times_fp :: "('a, 'b) fp \<Rightarrow> ('a, 'b) fp \<Rightarrow> ('a, 'b) fp" where
  "times_fp a b =
     (if is_nan a \<or> is_nan b then NaN
      else if is_inf a \<or> is_inf b then
        (if is_fin a \<and> val a = 0 \<or> is_fin b \<and> val b = 0 then NaN else inf_of (neg a \<noteq> neg b))
      else rnd (neg a \<noteq> neg b) (val a * val b))"

definition divide_fp :: "('a, 'b) fp \<Rightarrow> ('a, 'b) fp \<Rightarrow> ('a, 'b) fp" where
  "divide_fp a b =
     (if is_nan a \<or> is_nan b then NaN
      else if is_inf a then (if is_inf b then NaN else inf_of (neg a \<noteq> neg b))
      else if is_inf b then zero_of (neg a \<noteq> neg b)
      else if val b = 0 then (if val a = 0 then NaN else inf_of (neg a \<noteq> neg b))
      else rnd (neg a \<noteq> neg b) (val a / val b))"

definition inverse_fp :: "('a, 'b) fp \<Rightarrow> ('a, 'b) fp" where
  "inverse_fp a = divide 1 a"

definition less_fp :: "('a, 'b) fp \<Rightarrow> ('a, 'b) fp \<Rightarrow> bool" where
  "less_fp a b \<longleftrightarrow> \<not> is_nan a \<and> \<not> is_nan b \<and> (rank a < rank b \<or> rank a = rank b \<and> val a < val b)"

definition less_eq_fp :: "('a, 'b) fp \<Rightarrow> ('a, 'b) fp \<Rightarrow> bool" where
  "less_eq_fp a b \<longleftrightarrow> \<not> is_nan a \<and> \<not> is_nan b \<and> (rank a < rank b \<or> rank a = rank b \<and> val a \<le> val b)"

instance ..

end

text \<open>The equality of IEEE-754, JavaScript and WGSL: not-a-number differs from itself and the zeros are equal.\<close>

definition feq :: "('p::len, 'w::len) fp \<Rightarrow> ('p, 'w) fp \<Rightarrow> bool" where
  "feq a b \<longleftrightarrow> \<not> is_nan a \<and> \<not> is_nan b \<and> rank a = rank b \<and> val a = val b"

text \<open>A decimal literal of the source, rounded to the format.\<close>

definition lit :: "rat \<Rightarrow> ('p::len, 'w::len) fp" where
  "lit x = rnd (x < 0) x"

lemma uminus_fp_simps [simp]:
  "- NaN = (NaN :: ('p::len, 'w::len) fp)" "- PInf = (MInf :: ('p, 'w) fp)"
  "- MInf = (PInf :: ('p, 'w) fp)" "- NZero = (Fin 0 :: ('p, 'w) fp)"
  "- Fin x = (if x = 0 then NZero else Fin (- x) :: ('p, 'w) fp)"
  by (simp_all add: uminus_fp_def)

section \<open>Order\<close>

lemma minus_minus_fp [simp]: "- (- a) = (a :: ('p::len, 'w::len) fp)"
  by (cases a) simp_all

lemma uminus_fp_fields [simp]:
  "is_nan (- a) = is_nan a" "is_inf (- a) = is_inf a" "val (- a) = - val a" "rank (- a) = - rank a"
  for a :: "('p::len, 'w::len) fp"
  by (cases a; simp)+

lemma uminus_less_fp [simp]: "- a < - b \<longleftrightarrow> b < (a :: ('p::len, 'w::len) fp)"
  by (auto simp: less_fp_def)

lemma less_fp_irrefl [simp]: "\<not> a < (a :: ('p::len, 'w::len) fp)"
  by (simp add: less_fp_def)

lemma less_fp_trans: "a < b \<Longrightarrow> b < c \<Longrightarrow> a < (c :: ('p::len, 'w::len) fp)"
  by (auto simp: less_fp_def)

lemma less_fp_asym: "a < b \<Longrightarrow> \<not> b < (a :: ('p::len, 'w::len) fp)"
  by (auto simp: less_fp_def)

lemma less_fp_cotrans:
  "a < c \<Longrightarrow> \<not> is_nan b \<Longrightarrow> a < b \<or> b < (c :: ('p::len, 'w::len) fp)"
  by (auto simp: less_fp_def)

lemma not_less_fp: "\<not> is_nan a \<Longrightarrow> \<not> is_nan b \<Longrightarrow> \<not> a < b \<longleftrightarrow> b \<le> (a :: ('p::len, 'w::len) fp)"
  by (auto simp: less_fp_def less_eq_fp_def)

lemma less_fp_nan [simp]: "\<not> NaN < a" "\<not> a < (NaN :: ('p::len, 'w::len) fp)"
  by (simp_all add: less_fp_def)

lemma less_fp_simps [simp]:
  "(Fin x :: ('p::len, 'w::len) fp) < Fin y \<longleftrightarrow> x < y" "(Fin x :: ('p, 'w) fp) < NZero \<longleftrightarrow> x < 0"
  "(NZero :: ('p, 'w) fp) < Fin y \<longleftrightarrow> 0 < y" "\<not> PInf < (a :: ('p, 'w) fp)"
  "\<not> (a :: ('p, 'w) fp) < MInf"
  "(Fin x :: ('p, 'w) fp) < PInf" "(MInf :: ('p, 'w) fp) < Fin x"
  by (cases a; simp add: less_fp_def)+

lemma feq_refl: "\<not> is_nan a \<Longrightarrow> feq a a"
  by (simp add: feq_def)

lemma feq_sym: "feq a b \<Longrightarrow> feq b a"
  by (simp add: feq_def)

lemma feq_trans: "feq a b \<Longrightarrow> feq b c \<Longrightarrow> feq a c"
  by (simp add: feq_def)

lemma feq_not_less: "\<not> is_nan a \<Longrightarrow> \<not> is_nan b \<Longrightarrow> feq a b \<longleftrightarrow> \<not> a < b \<and> \<not> b < a"
  by (auto simp: feq_def less_fp_def)

lemma feq_less_cong: "feq a a' \<Longrightarrow> feq b b' \<Longrightarrow> a < b \<longleftrightarrow> a' < b'"
  by (auto simp: feq_def less_fp_def)

lemma feq_eq: "feq a b \<Longrightarrow> a \<noteq> NZero \<Longrightarrow> b \<noteq> NZero \<Longrightarrow> a = b"
  by (cases a; cases b) (simp_all add: feq_def)

section \<open>Closure: the operations only produce values of the format\<close>

lemma prec_pos [simp]: "Suc 0 \<le> LENGTH('p::len)"
  using len_gt_0[where 'a = 'p] by linarith

lemma is_fp_zero_of [simp]: "is_fp (zero_of s)"
  by (simp add: zero_of_def)

lemma is_fp_inf_of [simp]: "is_fp (inf_of s)"
  by (simp add: inf_of_def)

lemma is_fp_rnd [simp]: "is_fp (rnd s x)"
  by (auto simp: rnd_def Let_def abs_if repr_round_to)

lemma is_fp_uminus [simp]: "is_fp (- a) \<longleftrightarrow> is_fp a"
  by (cases a) auto

lemma is_fp_plus [simp]: "is_fp a \<Longrightarrow> is_fp b \<Longrightarrow> is_fp (a + b)"
  by (auto simp: plus_fp_def)

lemma is_fp_minus [simp]: "is_fp a \<Longrightarrow> is_fp b \<Longrightarrow> is_fp (a - b)"
  by (simp add: minus_fp_def)

lemma is_fp_times [simp]: "is_fp (a * b)"
  by (auto simp: times_fp_def)

lemma is_fp_divide [simp]: "is_fp (a / b)"
  by (auto simp: divide_fp_def)

lemma is_fp_lit [simp]: "is_fp (lit x)"
  by (simp add: lit_def)

lemma rnd_exact: "is_fp (Fin x :: ('p::len, 'w::len) fp) \<Longrightarrow>
    (rnd s x :: ('p, 'w) fp) = (if x = 0 then zero_of s else Fin x)"
  by (auto simp: rnd_def Let_def repr_def abs_if split: if_splits)

lemma rnd_0 [simp]: "rnd s 0 = zero_of s"
  by (simp add: rnd_def)

lemma not_nan_rnd [simp]: "\<not> is_nan (rnd s x)"
  by (simp add: rnd_def Let_def)

lemma is_fp_of_int:
  assumes "\<bar>n\<bar> \<le> 2 ^ LENGTH('p)" and "int LENGTH('p) \<le> emax TYPE(('p::len, 'w::len) fp)"
  shows "is_fp (Fin (of_int n) :: ('p, 'w) fp)"
proof -
  have em: "emin TYPE(('p, 'w) fp) \<le> 0"
    using assms(2) prec_pos[where 'p = 'p] unfolding emin_def by linarith
  have "\<bar>of_int n :: rat\<bar> = of_int \<bar>n\<bar>" by simp
  also have "\<dots> \<le> of_int (2 ^ LENGTH('p))" using assms(1) by (simp only: of_int_le_iff)
  also have "\<dots> = pow2 (int LENGTH('p))" by (simp only: pow2_of_nat)
  also have "\<dots> < pow2 (emax TYPE(('p, 'w) fp) + 1)"
    by (rule pow2_strict_mono) (use assms(2) in simp)
  finally show ?thesis
    using assms(1) em by (simp add: repr_of_int)
qed

lemma is_fp_f64_of_int: "\<bar>n\<bar> \<le> 2 ^ 53 \<Longrightarrow> is_fp (Fin (of_int n) :: f64)"
  by (rule is_fp_of_int) simp_all

lemma is_fp_f32_of_int: "\<bar>n\<bar> \<le> 2 ^ 24 \<Longrightarrow> is_fp (Fin (of_int n) :: f32)"
  by (rule is_fp_of_int) simp_all

lemma lit_exact: "is_fp (Fin x :: ('p::len, 'w::len) fp) \<Longrightarrow> (lit x :: ('p, 'w) fp) = Fin x"
  by (simp add: lit_def rnd_exact zero_of_def)

section \<open>Rounded results keep the order of the exact ones\<close>

lemma rnd_order:
  assumes "x \<le> y"
  shows "\<not> (rnd t y :: ('p::len, 'w::len) fp) < rnd s x"
proof -
  define rx ry m where "rx = round_to LENGTH('p) (emin TYPE(('p, 'w) fp)) x"
    and "ry = round_to LENGTH('p) (emin TYPE(('p, 'w) fp)) y"
    and "m = pow2 (emax TYPE(('p, 'w) fp) + 1)"
  have "rx \<le> ry" unfolding rx_def ry_def by (rule round_to_mono[OF assms]) simp
  moreover have "0 < m" by (simp add: m_def)
  ultimately show ?thesis
    unfolding rnd_def Let_def less_fp_def zero_of_def rx_def[symmetric] ry_def[symmetric] m_def[symmetric]
    by (simp split: if_splits)
qed

lemma rnd_le_exact:
  assumes "x \<le> y" and "is_fp (Fin y :: ('p::len, 'w::len) fp)"
  shows "(rnd s x :: ('p, 'w) fp) \<le> Fin y"
  using rnd_order[OF assms(1), where 'p = 'p and 'w = 'w and s = s and t = False]
    rnd_exact[OF assms(2), of False]
  by (auto simp: less_fp_def less_eq_fp_def zero_of_def split: if_splits)

lemma rnd_ge_exact:
  assumes "y \<le> x" and "is_fp (Fin y :: ('p::len, 'w::len) fp)"
  shows "Fin y \<le> (rnd s x :: ('p, 'w) fp)"
  using rnd_order[OF assms(1), where 'p = 'p and 'w = 'w and t = s and s = False]
    rnd_exact[OF assms(2), of False]
  by (auto simp: less_fp_def less_eq_fp_def zero_of_def split: if_splits)

section \<open>Neutral operands\<close>

lemma zero_fp_simps [simp]: "\<not> is_nan (0 :: ('p::len, 'w::len) fp)" "\<not> is_inf (0 :: ('p, 'w) fp)" "is_fin (0 :: ('p, 'w) fp)"
  "is_fp (0 :: ('p, 'w) fp)" "val (0 :: ('p, 'w) fp) = 0" "rank (0 :: ('p, 'w) fp) = 0"
  "(0 :: ('p, 'w) fp) \<noteq> NZero" "zero_of False = (0 :: ('p, 'w) fp)"
  by (simp_all add: zero_fp_def zero_of_def)

lemma times_one_fp: "is_fp a \<Longrightarrow> a * 1 = (a :: ('p::len, 'w::len) fp)"
  by (cases a) (simp_all add: times_fp_def one_fp_def inf_of_def rnd_exact zero_of_def)

lemma times_zero_fp: "is_fin a \<Longrightarrow> a * 0 = (zero_of (neg a) :: ('p::len, 'w::len) fp)"
  by (cases a) (simp_all add: times_fp_def zero_fp_def)

lemma plus_zero_of: "is_fp a \<Longrightarrow> a \<noteq> NZero \<Longrightarrow> a + zero_of s = (a :: ('p::len, 'w::len) fp)"
  by (cases a) (auto simp: plus_fp_def zero_of_def rnd_exact zero_fp_def)

lemma plus_zero_fp: "is_fp a \<Longrightarrow> a \<noteq> NZero \<Longrightarrow> a + 0 = (a :: ('p::len, 'w::len) fp)"
  using plus_zero_of[of a False] by simp

lemma zero_plus_fp: "is_fp a \<Longrightarrow> 0 + a = (if a = NZero then 0 else a :: ('p::len, 'w::len) fp)"
  by (cases a) (auto simp: plus_fp_def zero_of_def rnd_exact zero_fp_def)

section \<open>The sign of a difference\<close>

text \<open>A difference never rounds to zero unless the operands are equal.\<close>

lemma rnd_pos:
  assumes "repr LENGTH('p) (emin TYPE(('p::len, 'w::len) fp)) x" and "repr LENGTH('p) (emin TYPE(('p, 'w) fp)) y" and "y < x"
    and least: "is_fp (Fin (pow2 (emin TYPE(('p, 'w) fp) - int LENGTH('p) + 1)) :: ('p, 'w) fp)"
  shows "(0 :: ('p, 'w) fp) < rnd s (x - y)"
proof -
  let ?q = "pow2 (emin TYPE(('p, 'w) fp) - int LENGTH('p) + 1)"
  have "Fin ?q \<le> (rnd s (x - y) :: ('p, 'w) fp)" by (rule rnd_ge_exact[OF repr_apart[OF assms(1-3)] least])
  moreover have "0 < ?q" by simp
  ultimately show ?thesis
    by (auto simp: less_fp_def less_eq_fp_def zero_fp_def intro: order_less_le_trans[of 0 ?q])
qed

lemma least_fp:
  assumes "1 < LENGTH('w::len)"
  shows "is_fp (Fin (pow2 (emin TYPE(('p::len, 'w) fp) - int LENGTH('p) + 1)) :: ('p, 'w) fp)"
proof -
  have e: "1 \<le> emax TYPE(('p, 'w) fp)"
  proof -
    have "(2 :: int) ^ 1 \<le> 2 ^ (LENGTH('w) - 1)" by (rule power_increasing) (use assms in auto)
    then show ?thesis by (simp add: emax_def)
  qed
  have "emin TYPE(('p, 'w) fp) - int LENGTH('p) + 1 < emax TYPE(('p, 'w) fp) + 1"
    using e prec_pos[where 'p = 'p] by (simp add: emin_def)
  then show ?thesis using repr_least[of "LENGTH('p)"] prec_pos[where 'p = 'p] by (simp add: pow2_strict_mono)
qed

lemma is_fp_val: "is_fp (a :: ('p::len, 'w::len) fp) \<Longrightarrow> repr LENGTH('p) (emin TYPE(('p, 'w) fp)) (val a)"
  by (cases a) simp_all

lemma diff_pos:
  fixes a b :: "('p::len, 'w::len) fp"
  assumes "1 < LENGTH('w)" and "is_fin a" and "is_fin b" and "is_fp a" and "is_fp b"
  shows "0 < a - b \<longleftrightarrow> b < a"
proof -
  have r: "repr LENGTH('p) (emin TYPE(('p, 'w) fp)) (val a)" "repr LENGTH('p) (emin TYPE(('p, 'w) fp)) (val b)"
    using is_fp_val assms(4,5) by blast+
  have d: "a - b = (if a = NZero \<and> - b = NZero then NZero else rnd (val a - val b < 0) (val a - val b))"
    using assms(2,3) by (auto simp: minus_fp_def plus_fp_def is_fin_def)
  have lt: "b < a \<longleftrightarrow> val b < val a" using assms(2,3) by (cases a; cases b) (simp_all add: less_fp_def)
  show ?thesis
  proof (cases "val b < val a")
    case True
    have "(0 :: ('p, 'w) fp) < rnd (val a - val b < 0) (val a - val b)"
      by (rule rnd_pos[OF r(1,2) True least_fp[OF assms(1)]])
    moreover have nz: "\<not> (a = NZero \<and> - b = NZero)" using True by (cases b) (auto split: if_splits)
    ultimately show ?thesis using True lt unfolding d if_not_P[OF nz] by simp
  next
    case False
    have "\<not> (0 :: ('p, 'w) fp) < rnd (val a - val b < 0) (val a - val b)"
      using rnd_order[of "val a - val b" 0, where s = "val a - val b < 0" and t = False and 'p = 'p and 'w = 'w] False by simp
    moreover have "\<not> (0 :: ('p, 'w) fp) < NZero" by (simp add: zero_fp_def)
    ultimately show ?thesis using False lt d by simp
  qed
qed

end
