(* ===== verification/Wgsl.thy ===== *)
theory Wgsl
  imports Ieee
begin

text \<open>
  The execution model of a WGSL compute shader, as far as the kernels of
  \<open>server/cherum/static/net.js\<close> use it: storage buffers and their loads and stores, the 32-bit
  integer operations, conversions, and the dispatch of a grid of workgroups. The shaders give
  no order to the invocations of a dispatch, so a dispatch is a relation: any order of all the
  stores. The locale \<open>kernel_contract\<close> says when the outcome does not depend on that order.
\<close>

section \<open>Buffers\<close>

type_synonym i32 = "32 word"

text \<open>
  A storage buffer: its elements, and what a load outside of them yields. WGSL leaves that
  value open, so the model keeps it as an arbitrary function and no result may depend on it.
\<close>

record 'a buf =
  cells :: "'a list"
  stray :: "i32 \<Rightarrow> 'a"

definition in_range :: "'a list \<Rightarrow> i32 \<Rightarrow> bool" where
  "in_range xs i \<longleftrightarrow> 0 \<le> sint i \<and> nat (sint i) < length xs"

definition rd :: "'a buf \<Rightarrow> i32 \<Rightarrow> 'a" where
  "rd b i = (if in_range (cells b) i then cells b ! nat (sint i) else stray b i)"

section \<open>Expressions\<close>

definition select :: "'a \<Rightarrow> 'a \<Rightarrow> bool \<Rightarrow> 'a" where
  "select f t c = (if c then t else f)"

definition i32_of_bool :: "bool \<Rightarrow> i32" where
  "i32_of_bool b = (if b then 1 else 0)"

definition f32_of_bool :: "bool \<Rightarrow> f32" where
  "f32_of_bool b = (if b then 1 else 0)"

definition f32_of_i32 :: "i32 \<Rightarrow> f32" where
  "f32_of_i32 i = lit (of_int (sint i))"

text \<open>Signed division and remainder truncate towards zero.\<close>

definition i32_div :: "i32 \<Rightarrow> i32 \<Rightarrow> i32" where
  "i32_div a b = word_of_int (sgn (sint a) * sgn (sint b) * (\<bar>sint a\<bar> div \<bar>sint b\<bar>))"

definition i32_mod :: "i32 \<Rightarrow> i32 \<Rightarrow> i32" where
  "i32_mod a b = a - i32_div a b * b"

text \<open>The loop \<open>for (var i = 0; i < n; i++)\<close> over the mutable variables \<open>s\<close>.\<close>

definition for_loop :: "nat \<Rightarrow> (i32 \<Rightarrow> 's \<Rightarrow> 's) \<Rightarrow> 's \<Rightarrow> 's" where
  "for_loop n body s = fold body (map of_nat [0..<n]) s"

section \<open>Grids and dispatches\<close>

type_synonym dim = "nat \<times> nat \<times> nat"
type_synonym vec3 = "i32 \<times> i32 \<times> i32"
type_synonym 'a stores = "(i32 \<times> 'a) list"

definition vec :: "dim \<Rightarrow> vec3" where
  "vec g = (case g of (x, y, z) \<Rightarrow> (of_nat x, of_nat y, of_nat z))"

definition vx :: "vec3 \<Rightarrow> i32" where "vx v = fst v"
definition vy :: "vec3 \<Rightarrow> i32" where "vy v = fst (snd v)"
definition vz :: "vec3 \<Rightarrow> i32" where "vz v = snd (snd v)"

definition dims :: "dim \<Rightarrow> dim list" where
  "dims G = (case G of (nx, ny, nz) \<Rightarrow> [(x, y, z). z \<leftarrow> [0..<nz], y \<leftarrow> [0..<ny], x \<leftarrow> [0..<nx]])"

definition invocations :: "dim \<Rightarrow> dim \<Rightarrow> (dim \<times> dim) list" where
  "invocations G L = [(g, l). g \<leftarrow> dims G, l \<leftarrow> dims L]"

definition launch :: "(vec3 \<Rightarrow> vec3 \<Rightarrow> 'a stores) \<Rightarrow> dim \<Rightarrow> dim \<Rightarrow> 'a stores" where
  "launch k g l = k (vec g) (vec l)"

definition all_stores :: "dim \<Rightarrow> dim \<Rightarrow> (dim \<Rightarrow> dim \<Rightarrow> 'a stores) \<Rightarrow> 'a stores" where
  "all_stores G L k = concat (map (\<lambda>(g, l). k g l) (invocations G L))"

text \<open>A store outside of the buffer may be dropped or may hit any element of it.\<close>

inductive store_step :: "i32 \<times> 'a \<Rightarrow> 'a list \<Rightarrow> 'a list \<Rightarrow> bool" where
  hit: "in_range xs i \<Longrightarrow> store_step (i, v) xs (xs[nat (sint i) := v])"
| dropped: "\<not> in_range xs i \<Longrightarrow> store_step (i, v) xs xs"
| clobbered: "\<not> in_range xs i \<Longrightarrow> j < length xs \<Longrightarrow> store_step (i, v) xs (xs[j := v])"

inductive store_steps :: "'a stores \<Rightarrow> 'a list \<Rightarrow> 'a list \<Rightarrow> bool" where
  none: "store_steps [] xs xs"
| more: "store_step s xs ys \<Longrightarrow> store_steps ss ys zs \<Longrightarrow> store_steps (s # ss) xs zs"

inductive_cases store_stepE: "store_step (i, v) xs ys"
inductive_cases store_steps_NilE: "store_steps [] xs ys"
inductive_cases store_steps_ConsE: "store_steps (s # ss) xs ys"

definition dispatched :: "dim \<Rightarrow> dim \<Rightarrow> (dim \<Rightarrow> dim \<Rightarrow> 'a stores) \<Rightarrow> 'a list \<Rightarrow> 'a list \<Rightarrow> bool" where
  "dispatched G L k xs ys \<longleftrightarrow> (\<exists>ss. mset ss = mset (all_stores G L k) \<and> store_steps ss xs ys)"

text \<open>One order, to compute with.\<close>

definition wr :: "i32 \<times> 'a \<Rightarrow> 'a list \<Rightarrow> 'a list" where
  "wr s xs = (if in_range xs (fst s) then xs[nat (sint (fst s)) := snd s] else xs)"

definition dispatch :: "dim \<Rightarrow> dim \<Rightarrow> (dim \<Rightarrow> dim \<Rightarrow> 'a stores) \<Rightarrow> 'a list \<Rightarrow> 'a list" where
  "dispatch G L k xs = fold wr (all_stores G L k) xs"

lemma store_step_wr: "store_step s xs (wr s xs)"
  by (cases s) (auto simp: wr_def intro: store_step.intros)

lemma store_steps_fold: "store_steps ss xs (fold wr ss xs)"
  by (induction ss arbitrary: xs) (auto intro: store_steps.intros store_step_wr)

lemma dispatched_dispatch: "dispatched G L k xs (dispatch G L k xs)"
  unfolding dispatched_def dispatch_def using store_steps_fold by blast

section \<open>Words that stand for small naturals\<close>

lemma vec_simps [simp]: "vx (vec (a, b, c)) = of_nat a" "vy (vec (a, b, c)) = of_nat b"
  "vz (vec (a, b, c)) = of_nat c"
  by (simp_all add: vec_def vx_def vy_def vz_def)

lemma select_simps [simp]: "select f t True = t" "select f t False = f"
  by (simp_all add: select_def)

lemma sint_of_nat_i32: "n < 2 ^ 31 \<Longrightarrow> sint (of_nat n :: i32) = int n"
  using signed_take_bit_int_eq_self[of 31 "int n"] by (simp add: signed_of_nat)

lemma in_range_of_nat: "length xs \<le> 2 ^ 31 \<Longrightarrow> j < 2 ^ 31 \<Longrightarrow> in_range xs (of_nat j) \<longleftrightarrow> j < length xs"
  by (simp add: in_range_def sint_of_nat_i32)

lemma rd_of_nat: "j < length (cells b) \<Longrightarrow> length (cells b) \<le> 2 ^ 31 \<Longrightarrow> rd b (of_nat j) = cells b ! j"
  by (simp add: rd_def in_range_def sint_of_nat_i32)

lemma sless_of_nat: "a < 2 ^ 31 \<Longrightarrow> b < 2 ^ 31 \<Longrightarrow> (of_nat a :: i32) <s of_nat b \<longleftrightarrow> a < b"
  by (simp add: word_sless_alt sint_of_nat_i32)

lemma of_nat_i32_inject: "a < 2 ^ 31 \<Longrightarrow> b < 2 ^ 31 \<Longrightarrow> (of_nat a :: i32) = of_nat b \<longleftrightarrow> a = b"
  using sint_of_nat_i32 by (metis of_nat_eq_iff)

lemma i32_div_of_nat:
  "a < 2 ^ 31 \<Longrightarrow> b < 2 ^ 31 \<Longrightarrow> i32_div (of_nat a) (of_nat b) = of_nat (a div b)"
proof (cases "a = 0 \<or> b = 0")
  case False
  assume "a < 2 ^ 31" "b < 2 ^ 31"
  then have "i32_div (of_nat a) (of_nat b) = word_of_int (int a div int b)"
    using False by (simp add: i32_div_def sint_of_nat_i32)
  then show ?thesis by (simp flip: zdiv_int)
qed (auto simp: i32_div_def)

lemma i32_mod_of_nat:
  assumes "a < 2 ^ 31" and "b < 2 ^ 31"
  shows "i32_mod (of_nat a) (of_nat b) = of_nat (a mod b)"
proof -
  have "(of_nat a :: i32) = of_nat (a div b * b + a mod b)" by simp
  then have "(of_nat a :: i32) = of_nat (a div b) * of_nat b + of_nat (a mod b)"
    by (simp only: of_nat_add of_nat_mult)
  then show ?thesis using i32_div_of_nat[OF assms] by (simp add: i32_mod_def)
qed

lemma push_bit_of_nat_i32 [word_nat]: "push_bit n (of_nat a :: i32) = of_nat (2 ^ n * a)"
  by (simp add: push_bit_eq_mult)

lemma dims_iff: "(x, y, z) \<in> set (dims (nx, ny, nz)) \<longleftrightarrow> x < nx \<and> y < ny \<and> z < nz"
  by (force simp: dims_def image_iff)

lemma dimsE:
  assumes "g \<in> set (dims (nx, ny, nz))"
  obtains x y z where "g = (x, y, z)" and "x < nx" and "y < ny" and "z < nz"
  using assms dims_iff by (metis prod_cases3)

lemma all_stores_iff:
  "s \<in> set (all_stores G L k) \<longleftrightarrow> (\<exists>g\<in>set (dims G). \<exists>l\<in>set (dims L). s \<in> set (k g l))"
  by (force simp: all_stores_def invocations_def)

section \<open>Kernels whose result does not depend on the schedule\<close>

text \<open>
  The contract of a kernel that fills a buffer of \<open>n\<close> elements: every store of every
  invocation writes the value \<open>F\<close> prescribes for its position, and every position is written.
\<close>

locale kernel_contract =
  fixes G L :: dim and k :: "dim \<Rightarrow> dim \<Rightarrow> 'a stores" and n :: nat and F :: "nat \<Rightarrow> 'a"
  assumes small: "n \<le> 2 ^ 31"
    and sound: "g \<in> set (dims G) \<Longrightarrow> l \<in> set (dims L) \<Longrightarrow> (i, v) \<in> set (k g l) \<Longrightarrow>
      \<exists>j<n. i = of_nat j \<and> v = F j"
    and cover: "j < n \<Longrightarrow> \<exists>g\<in>set (dims G). \<exists>l\<in>set (dims L). (of_nat j, F j) \<in> set (k g l)"
begin

lemma store_steps_fill:
  assumes "store_steps ss xs ys" and "length xs = n"
    and "\<And>i v. (i, v) \<in> set ss \<Longrightarrow> \<exists>j<n. i = of_nat j \<and> v = F j"
    and "\<And>j. j < n \<Longrightarrow> xs ! j = F j \<or> (of_nat j, F j) \<in> set ss"
  shows "ys = map F [0..<n]"
  using assms
proof (induction ss xs ys rule: store_steps.induct)
  case (none xs)
  then show ?case by (intro nth_equalityI) auto
next
  case (more s xs ys ss zs)
  obtain i v where s: "s = (i, v)" by (cases s)
  then obtain j where j: "j < n" "i = of_nat j" "v = F j" using more.prems(2) by auto
  have small_j: "j < 2 ^ 31" using j(1) small by linarith
  have "in_range xs i" using j more.prems(1) small small_j by (simp add: in_range_of_nat)
  then have ys: "ys = xs[j := F j]"
    using more.hyps(1) j small_j by (auto simp: s sint_of_nat_i32 elim!: store_stepE)
  show ?case
  proof (rule more.IH)
    fix m assume m: "m < n"
    then have "m < 2 ^ 31" using small by linarith
    then show "ys ! m = F m \<or> (of_nat m, F m) \<in> set ss"
      using more.prems(3)[OF m] ys more.prems(1) m j small_j
      by (auto simp: s nth_list_update of_nat_i32_inject)
  qed (use more.prems ys in auto)
qed

lemma result: "dispatched G L k xs ys \<Longrightarrow> length xs = n \<Longrightarrow> ys = map F [0..<n]"
  unfolding dispatched_def
proof (elim exE conjE)
  fix ss assume ss: "mset ss = mset (all_stores G L k)" "store_steps ss xs ys" and len: "length xs = n"
  have set: "set ss = set (all_stores G L k)" by (rule mset_eq_setD[OF ss(1)])
  show ?thesis
    by (rule store_steps_fill[OF ss(2) len])
      (use sound cover in \<open>auto simp: set all_stores_iff\<close>)
qed

lemma dispatch_result: "length xs = n \<Longrightarrow> dispatch G L k xs = map F [0..<n]"
  by (rule result[OF dispatched_dispatch])

lemma deterministic: "length xs = n \<Longrightarrow> dispatched G L k xs ys \<longleftrightarrow> ys = map F [0..<n]"
  using result dispatched_dispatch[of G L k xs] dispatch_result by metis

end

end
