(* ===== verification/Device.thy ===== *)
theory Device
  imports Wgsl
begin

text \<open>
  The GPU as \<open>addComputePass\<close> and the inference closure of \<open>setupNet\<close>
  (\<open>server/cherum/static/net.js\<close>) drive it: named buffers, shaders, and a command list that
  binds buffers to a shader and dispatches a grid of workgroups. A pass replaces the buffer at
  its first binding by an outcome of the dispatch and leaves the others alone; the passes of a
  command buffer run in order.
\<close>

section \<open>Buffers and shaders\<close>

text \<open>The buffers \<open>setupNet\<close> creates: \<open>input0\<close>, \<open>output0\<close> and \<open>buf_0\<close> to \<open>buf_352\<close>.\<close>

datatype bufname = Input | Output | Buf nat

text \<open>
  The elements of every buffer. The generated shaders view a buffer at one element type
  throughout, so the \<open>f32\<close> and the \<open>i32\<close> buffers are kept apart.
\<close>

record device =
  fmem :: "bufname \<Rightarrow> f32 list"
  imem :: "bufname \<Rightarrow> i32 list"

text \<open>
  A shader: its workgroup size and its code over the buffers it is bound to, numbered from 0,
  the one it writes (the uniform with the infinity, at binding 0 of the program, is left out).
\<close>

type_synonym 'a code = "(nat \<Rightarrow> f32 buf) \<Rightarrow> (nat \<Rightarrow> i32 buf) \<Rightarrow> vec3 \<Rightarrow> vec3 \<Rightarrow> 'a stores"

text \<open>
  Two shaders also have workgroup memory: their first part, up to the barrier, stores to it, and
  only the second part, which may read it, stores to \<open>data0\<close>. The number is its size.
\<close>

datatype shader = FShader dim "f32 code" | IShader dim "i32 code"
  | FGroup dim nat "f32 code" "f32 buf \<Rightarrow> f32 code"
  | IGroup dim nat "i32 code" "i32 buf \<Rightarrow> f32 code"

section \<open>Passes\<close>

definition views :: "(bufname \<Rightarrow> 'a list) \<Rightarrow> (nat \<Rightarrow> i32 \<Rightarrow> 'a) \<Rightarrow> bufname list \<Rightarrow> nat \<Rightarrow> 'a buf" where
  "views m w bs n = \<lparr>cells = m (bs ! n), stray = w n\<rparr>"

text \<open>
  What the first part may leave in the memory of workgroup \<open>g\<close>, whatever was there before: the
  barrier separates it from the second part, and the stores before it come in any order.
\<close>

definition group_memory :: "dim \<Rightarrow> nat \<Rightarrow> (dim \<Rightarrow> dim \<Rightarrow> 'a stores) \<Rightarrow> dim \<Rightarrow> 'a buf \<Rightarrow> bool" where
  "group_memory L n k g t \<longleftrightarrow> (\<exists>xs. length xs = n \<and> dispatched (1, 1, 1) L (\<lambda>_. k g) xs (cells t))"

inductive addComputePass :: "shader \<Rightarrow> bufname list \<Rightarrow> dim \<Rightarrow> device \<Rightarrow> device \<Rightarrow> bool" where
  f32_pass: "dispatched grid L (launch (code (views (fmem D) v bs) (views (imem D) w bs))) (fmem D (bs ! 0)) ys \<Longrightarrow>
    addComputePass (FShader L code) bs grid D (D\<lparr>fmem := (fmem D)(bs ! 0 := ys)\<rparr>)"
| i32_pass: "dispatched grid L (launch (code (views (fmem D) v bs) (views (imem D) w bs))) (imem D (bs ! 0)) ys \<Longrightarrow>
    addComputePass (IShader L code) bs grid D (D\<lparr>imem := (imem D)(bs ! 0 := ys)\<rparr>)"

| f32_group_pass: "(\<And>g. group_memory L n (launch (part (views (fmem D) v bs) (views (imem D) w bs))) g (tmp g)) \<Longrightarrow>
    dispatched grid L (\<lambda>g. launch (code (tmp g) (views (fmem D) v bs) (views (imem D) w bs)) g) (fmem D (bs ! 0)) ys \<Longrightarrow>
    addComputePass (FGroup L n part code) bs grid D (D\<lparr>fmem := (fmem D)(bs ! 0 := ys)\<rparr>)"
| i32_group_pass: "(\<And>g. group_memory L n (launch (part (views (fmem D) v bs) (views (imem D) w bs))) g (tmp g)) \<Longrightarrow>
    dispatched grid L (\<lambda>g. launch (code (tmp g) (views (fmem D) v bs) (views (imem D) w bs)) g) (fmem D (bs ! 0)) ys \<Longrightarrow>
    addComputePass (IGroup L n part code) bs grid D (D\<lparr>fmem := (fmem D)(bs ! 0 := ys)\<rparr>)"

inductive_cases f32_passE: "addComputePass (FShader L code) bs grid D D'"
inductive_cases i32_passE: "addComputePass (IShader L code) bs grid D D'"
inductive_cases f32_group_passE: "addComputePass (FGroup L n part code) bs grid D D'"
inductive_cases i32_group_passE: "addComputePass (IGroup L n part code) bs grid D D'"

type_synonym pass = "shader \<times> bufname list \<times> dim"

inductive runs :: "pass list \<Rightarrow> device \<Rightarrow> device \<Rightarrow> bool" where
  no_pass: "runs [] D D"
| pass: "addComputePass s bs G D D' \<Longrightarrow> runs ps D' D'' \<Longrightarrow> runs ((s, bs, G) # ps) D D''"

inductive_cases runs_NilE: "runs [] D D'"
inductive_cases runs_ConsE: "runs ((s, bs, G) # ps) D D'"

lemma runs_append: "runs (ps @ qs) D D'' \<longleftrightarrow> (\<exists>D'. runs ps D D' \<and> runs qs D' D'')"
proof
  show "runs (ps @ qs) D D'' \<Longrightarrow> \<exists>D'. runs ps D D' \<and> runs qs D' D''"
  proof (induction ps arbitrary: D)
    case Nil
    then show ?case by (auto intro: runs.no_pass)
  next
    case (Cons p ps)
    obtain s bs G where p: "p = (s, bs, G)" by (cases p)
    then obtain E where E: "addComputePass s bs G D E" "runs (ps @ qs) E D''"
      using Cons.prems by (auto elim: runs_ConsE)
    then show ?case using Cons.IH[OF E(2)] p by (auto intro: runs.pass)
  qed
next
  have "runs ps D D' \<Longrightarrow> runs qs D' D'' \<Longrightarrow> runs (ps @ qs) D D''" for D'
    by (induction rule: runs.induct) (auto intro: runs.pass)
  then show "\<exists>D'. runs ps D D' \<and> runs qs D' D'' \<Longrightarrow> runs (ps @ qs) D D''" by blast
qed

text \<open>Every pass can be carried out, so every command list has an outcome.\<close>

lemma group_memory_total: "\<exists>t. group_memory L n k g t"
proof -
  have "dispatched (1, 1, 1) L (\<lambda>_. k g) (replicate n x)
      (cells \<lparr>cells = dispatch (1, 1, 1) L (\<lambda>_. k g) (replicate n x), stray = \<lambda>_. x\<rparr>)" for x
    by (simp add: dispatched_dispatch)
  then show ?thesis unfolding group_memory_def by (meson length_replicate)
qed

lemma group_memories: "\<exists>tmp. \<forall>g. group_memory L n k g (tmp g)"
  by (intro choice allI group_memory_total)

lemma addComputePass_total: "\<exists>D'. addComputePass s bs G D D'"
proof (cases s)
  case (FGroup L n part code)
  define c where "c = launch (part (views (fmem D) (\<lambda>_ _. NaN) bs) (views (imem D) (\<lambda>_ _. 0) bs))"
  obtain tmp where "\<forall>g. group_memory L n c g (tmp g)" using group_memories by blast
  then have "group_memory L n c g (tmp g)" for g by blast
  then show ?thesis
    unfolding FGroup c_def by (intro exI) (rule f32_group_pass, assumption, rule dispatched_dispatch)
next
  case (IGroup L n part code)
  define c where "c = launch (part (views (fmem D) (\<lambda>_ _. NaN) bs) (views (imem D) (\<lambda>_ _. 0) bs))"
  obtain tmp where "\<forall>g. group_memory L n c g (tmp g)" using group_memories by blast
  then have "group_memory L n c g (tmp g)" for g by blast
  then show ?thesis
    unfolding IGroup c_def by (intro exI) (rule i32_group_pass, assumption, rule dispatched_dispatch)
qed (blast intro: f32_pass i32_pass dispatched_dispatch)+

lemma runs_total: "\<exists>D'. runs ps D D'"
proof (induction ps arbitrary: D)
  case (Cons p ps)
  obtain s bs G where "p = (s, bs, G)" by (cases p)
  then show ?case using addComputePass_total[of s bs G D] Cons.IH by (blast intro: runs.pass)
qed (auto intro: runs.no_pass)

section \<open>Passes with a determined outcome\<close>

text \<open>The effect of a shader on the buffer at binding 0, when the bound buffers satisfy \<open>pre\<close>.\<close>

lemma f32_pass_result:
  assumes "addComputePass (FShader L code) bs G D D'" and "length (fmem D (bs ! 0)) = n"
    and "\<And>v w. kernel_contract G L (launch (code (views (fmem D) v bs) (views (imem D) w bs))) n F"
  shows "D' = D\<lparr>fmem := (fmem D)(bs ! 0 := map F [0..<n])\<rparr>"
  using assms(1) by (elim f32_passE) (use kernel_contract.result[OF assms(3)] assms(2) in blast)

lemma i32_pass_result:
  assumes "addComputePass (IShader L code) bs G D D'" and "length (imem D (bs ! 0)) = n"
    and "\<And>v w. kernel_contract G L (launch (code (views (fmem D) v bs) (views (imem D) w bs))) n F"
  shows "D' = D\<lparr>imem := (imem D)(bs ! 0 := map F [0..<n])\<rparr>"
  using assms(1) by (elim i32_passE) (use kernel_contract.result[OF assms(3)] assms(2) in blast)

end
