(* ===== verification/Buffers.thy ===== *)
theory Buffers
  imports Device
begin

text \<open>
  The buffers that \<open>setupNet\<close> (\<open>server/cherum/static/net.js\<close>) creates empty, with their sizes
  in bytes, in the order of the source. All elements are 4 bytes wide. Passes never change the
  size of a buffer.
\<close>

definition empty_bufs :: "(bufname \<times> nat) list" where
  "empty_bufs =
   [(Buf 0, 320), (Buf 1, 160), (Buf 2, 80), (Buf 3, 6553600), (Input, 4915200), (Buf 9, 33600),
    (Buf 10, 236), (Buf 11, 33600), (Buf 12, 3276800), (Buf 18, 3276800), (Buf 24, 1638400), (Buf 30, 1638400),
    (Buf 36, 4915200), (Buf 52, 819200), (Buf 58, 819200), (Buf 69, 819200), (Buf 90, 409600), (Buf 96, 409600),
    (Buf 107, 409600), (Buf 128, 204800), (Buf 134, 204800), (Buf 140, 614400), (Buf 151, 204800), (Buf 152, 204800),
    (Buf 158, 2457600), (Buf 174, 1228800), (Buf 205, 1638400), (Buf 228, 1510400), (Buf 266, 409600), (Buf 279, 377600),
    (Buf 302, 102400), (Buf 308, 102400), (Buf 314, 102400), (Buf 327, 94400), (Buf 330, 134400), (Buf 331, 1982400),
    (Buf 332, 134400), (Buf 333, 134400), (Buf 335, 67200), (Buf 336, 67200), (Buf 337, 33600), (Buf 338, 33600),
    (Buf 339, 33600), (Buf 340, 33600), (Buf 341, 33600), (Buf 342, 33600), (Buf 343, 65536), (Buf 344, 33600),
    (Buf 345, 201600), (Buf 346, 65536), (Buf 347, 33600), (Buf 348, 33600), (Buf 349, 1200), (Buf 350, 7200),
    (Buf 351, 1200), (Buf 352, 1200), (Output, 7200)]"

definition sized :: "device \<Rightarrow> bool" where
  "sized D \<longleftrightarrow> list_all (\<lambda>(b, n). length (fmem D b) = n div 4 \<and> length (imem D b) = n div 4) empty_bufs"

lemma sized_lengths:
  assumes "sized D"
  shows "length (fmem D (Buf 9)) = 8400" "length (fmem D (Buf 331)) = 495600"
    "length (fmem D (Buf 337)) = 8400" "length (fmem D (Buf 338)) = 8400" "length (fmem D (Buf 339)) = 8400"
    "length (fmem D (Buf 340)) = 8400" "length (fmem D (Buf 341)) = 8400" "length (fmem D (Buf 342)) = 8400"
    "length (fmem D (Buf 343)) = 16384" "length (fmem D (Buf 345)) = 50400" "length (fmem D (Buf 346)) = 16384"
    "length (fmem D (Buf 350)) = 1800" "length (fmem D (Buf 351)) = 300" "length (fmem D (Buf 352)) = 300"
    "length (fmem D Output) = 1800" "length (imem D (Buf 10)) = 59" "length (imem D (Buf 11)) = 8400"
    "length (imem D (Buf 344)) = 8400" "length (imem D (Buf 347)) = 8400" "length (imem D (Buf 348)) = 8400"
    "length (imem D (Buf 349)) = 300"
  using assms by (simp_all add: sized_def empty_bufs_def)

section \<open>Passes keep the sizes\<close>

lemma store_step_length: "store_step s xs ys \<Longrightarrow> length ys = length xs"
  by (induction rule: store_step.induct) simp_all

lemma store_steps_length: "store_steps ss xs ys \<Longrightarrow> length ys = length xs"
  by (induction rule: store_steps.induct) (simp_all add: store_step_length)

lemma dispatched_length: "dispatched G L k xs ys \<Longrightarrow> length ys = length xs"
  unfolding dispatched_def using store_steps_length by blast

lemma addComputePass_lengths:
  "addComputePass s bs G D D' \<Longrightarrow> length (fmem D' b) = length (fmem D b) \<and> length (imem D' b) = length (imem D b)"
  by (induction rule: addComputePass.induct) (auto dest: dispatched_length)

lemma runs_lengths:
  "runs ps D D' \<Longrightarrow> length (fmem D' b) = length (fmem D b) \<and> length (imem D' b) = length (imem D b)"
  by (induction rule: runs.induct) (auto dest: addComputePass_lengths)

lemma sized_pass: "addComputePass s bs G D D' \<Longrightarrow> sized D \<Longrightarrow> sized D'"
  using addComputePass_lengths[of s bs G D D'] by (simp add: sized_def)

lemma sized_runs: "runs ps D D' \<Longrightarrow> sized D \<Longrightarrow> sized D'"
  using runs_lengths[of ps D D'] by (simp add: sized_def)

section \<open>Passes only write their first buffer\<close>

lemma addComputePass_frame:
  "addComputePass s bs G D D' \<Longrightarrow> b \<noteq> bs ! 0 \<Longrightarrow> fmem D' b = fmem D b \<and> imem D' b = imem D b"
  by (induction rule: addComputePass.induct) auto

lemma runs_frame:
  "runs ps D D' \<Longrightarrow> b \<notin> set (map (\<lambda>(s, bs, G). bs ! 0) ps) \<Longrightarrow> fmem D' b = fmem D b \<and> imem D' b = imem D b"
proof (induction rule: runs.induct)
  case (pass s bs G D D' ps D'')
  then show ?case using addComputePass_frame[OF pass.hyps(1), of b] by auto
qed simp

lemma runs_Cons: "runs ((s, bs, G) # ps) D D' \<longleftrightarrow> (\<exists>E. addComputePass s bs G D E \<and> runs ps E D')"
  by (auto intro: runs.pass elim: runs_ConsE)

lemma runs_Nil: "runs [] D D' \<longleftrightarrow> D' = D"
  by (auto intro: runs.no_pass elim: runs_NilE)

end
