(* ===== verification/Tensors.thy ===== *)
theory Tensors
  imports Buffers
begin

text \<open>
  The layers of the network (\<open>server/cherum/static/net.js\<close>, passes 3 and 7 to 84) as functions on
  tensors of planes, rows and columns, and the locales for the kernels that compute them: every
  invocation writes a tile of four neighbouring columns of one or four planes, and the locales
  differ in how the planes, rows and columns are shared out over the grid and the workgroup.
\<close>

section \<open>Kernels that write tensors\<close>

text \<open>The element of a tensor with \<open>H\<close> rows and \<open>W\<close> columns at a position of the buffer.\<close>

definition tensor_at :: "nat \<Rightarrow> nat \<Rightarrow> (nat \<Rightarrow> nat \<Rightarrow> nat \<Rightarrow> 'a) \<Rightarrow> nat \<Rightarrow> 'a" where
  "tensor_at H W F j = F (j div (H * W)) (j mod (H * W) div W) (j mod W)"

text \<open>The stores to \<open>t\<close> planes from plane \<open>t * a\<close>, in row \<open>y\<close>, to four columns from column \<open>4 * b\<close>.\<close>

definition tile :: "nat \<Rightarrow> nat \<Rightarrow> nat \<Rightarrow> (nat \<Rightarrow> nat \<Rightarrow> nat \<Rightarrow> 'a) \<Rightarrow> nat \<Rightarrow> nat \<Rightarrow> nat \<Rightarrow> (i32 \<times> 'a) set" where
  "tile t H W F a y b = (\<lambda>(q, p). (of_nat (H * W * (t * a + q) + (W * y + (4 * b + p))), F (t * a + q) y (4 * b + p))) ` ({..<t} \<times> {..<4})"

locale tensor_kernel =
  fixes t A H B :: nat and G L :: dim and k :: "dim \<Rightarrow> dim \<Rightarrow> 'a stores" and F :: "nat \<Rightarrow> nat \<Rightarrow> nat \<Rightarrow> 'a"
    and place :: "nat \<Rightarrow> nat \<Rightarrow> nat \<Rightarrow> dim \<times> dim"
  assumes pos: "0 < t" and fits: "H * (4 * B) * (t * A) \<le> 2 ^ 31"
    and place: "a < A \<Longrightarrow> y < H \<Longrightarrow> b < B \<Longrightarrow> fst (place a y b) \<in> set (dims G) \<and> snd (place a y b) \<in> set (dims L)"
    and placed: "g \<in> set (dims G) \<Longrightarrow> l \<in> set (dims L) \<Longrightarrow> \<exists>a<A. \<exists>y<H. \<exists>b<B. place a y b = (g, l)"
    and stores: "a < A \<Longrightarrow> y < H \<Longrightarrow> b < B \<Longrightarrow> set (k (fst (place a y b)) (snd (place a y b))) = tile t H (4 * B) F a y b"

lemma tensor_position:
  fixes o' y x H W O' :: nat
  assumes "o' < O'" and "y < H" and "x < W"
  defines "j \<equiv> H * W * o' + (W * y + x)"
  shows "j < H * W * O'" "j div (H * W) = o'" "j mod (H * W) div W = y" "j mod W = x"
proof -
  have "W * y + x < W * (y + 1)" using assms(3) by simp
  also have "\<dots> \<le> W * H" by (rule mult_le_mono2) (use assms(2) in simp)
  finally have r: "W * y + x < H * W" by (simp add: mult.commute)
  then have "j < H * W * (o' + 1)" by (simp add: j_def)
  also have "\<dots> \<le> H * W * O'" by (rule mult_le_mono2) (use assms(1) in simp)
  finally show "j < H * W * O'" .
  have "n < m \<Longrightarrow> (m * o' + n) div m = o' \<and> (m * o' + n) mod m = n" for m n :: nat by simp
  from this[OF r] have d: "j div (H * W) = o'" "j mod (H * W) = W * y + x" by (simp_all only: j_def)
  show "j div (H * W) = o'" by (rule d(1))
  note d(2)
  then show "j mod (H * W) div W = y" using assms(3) by simp
  have "j = x + W * (H * o' + y)" by (simp add: j_def algebra_simps)
  then show "j mod W = x" using assms(3) by simp
qed

lemma tensor_decompose:
  fixes j H B t A :: nat
  assumes "j < H * (4 * B) * (t * A)" and "0 < t"
  obtains a q y b p where "a < A" "q < t" "y < H" "b < B" "p < 4" "j = H * (4 * B) * (t * a + q) + (4 * B * y + (4 * b + p))"
proof -
  define S W where "S = H * (4 * B)" and "W = 4 * B"
  have W: "0 < W" "0 < S" using assms(1) by (auto simp: S_def W_def intro!: Nat.gr0I)
  define c r where "c = j div S" and "r = j mod S"
  have c: "c < t * A" using assms(1) by (simp add: c_def S_def less_mult_imp_div_less mult.commute)
  have r: "r < H * W" using W(2) by (simp add: r_def S_def W_def)
  show thesis
  proof
    show "c div t < A" using c by (simp add: less_mult_imp_div_less mult.commute)
    show "c mod t < t" using assms(2) by simp
    show "r div W < H" using r by (simp add: less_mult_imp_div_less)
    have "r mod W < 4 * B" using W(1) by (simp add: W_def)
    then show "r mod W div 4 < B" by (simp add: less_mult_imp_div_less mult.commute)
    show "r mod W mod 4 < 4" by simp
    have "j = S * c + r" by (simp add: c_def r_def)
    moreover have "r = W * (r div W) + r mod W" by simp
    ultimately show "j = H * (4 * B) * (t * (c div t) + c mod t) + (4 * B * (r div W) + (4 * (r mod W div 4) + r mod W mod 4))"
      by (simp add: S_def W_def)
  qed
qed

sublocale tensor_kernel \<subseteq> kernel_contract G L k "H * (4 * B) * (t * A)" "tensor_at H (4 * B) F"
proof
  show "H * (4 * B) * (t * A) \<le> 2 ^ 31" by (rule fits)
next
  fix g l i v
  assume "g \<in> set (dims G)" "l \<in> set (dims L)" and iv: "(i, v) \<in> set (k g l)"
  then obtain a y b where gl: "a < A" "y < H" "b < B" "place a y b = (g, l)" using placed by blast
  then obtain q p where qp: "q < t" "p < 4" "i = of_nat (H * (4 * B) * (t * a + q) + (4 * B * y + (4 * b + p)))"
      "v = F (t * a + q) y (4 * b + p)"
    using iv stores[OF gl(1-3)] by (auto simp: tile_def)
  have "t * a + q < t * (a + 1)" using qp(1) by simp
  also have "\<dots> \<le> t * A" by (rule mult_le_mono2) (use gl(1) in simp)
  finally have "t * a + q < t * A" .
  moreover have "4 * b + p < 4 * B" using gl(3) qp(2) by simp
  ultimately show "\<exists>j<H * (4 * B) * (t * A). i = of_nat j \<and> v = tensor_at H (4 * B) F j"
    using tensor_position[of "t * a + q" "t * A" y H "4 * b + p" "4 * B"] gl(2) qp(3,4) by (auto simp: tensor_at_def)
next
  fix j assume "j < H * (4 * B) * (t * A)"
  then obtain a q y b p where d: "a < A" "q < t" "y < H" "b < B" "p < 4"
      "j = H * (4 * B) * (t * a + q) + (4 * B * y + (4 * b + p))"
    using tensor_decompose pos by metis
  have "4 * b + p < 4 * B" using d(4,5) by simp
  then have "tensor_at H (4 * B) F j = F (t * a + q) y (4 * b + p)"
    unfolding d(6) tensor_at_def using tensor_position(2-4)[of "t * a + q" "Suc (t * a + q)" y H "4 * b + p" "4 * B"] d(3) by simp
  then have "(of_nat j, tensor_at H (4 * B) F j) \<in> set (k (fst (place a y b)) (snd (place a y b)))"
    unfolding stores[OF d(1,3,4)] tile_def using d(2,5,6) by (intro image_eqI[where x = "(q, p)"]) auto
  then show "\<exists>g\<in>set (dims G). \<exists>l\<in>set (dims L). (of_nat j, tensor_at H (4 * B) F j) \<in> set (k g l)"
    using place[OF d(1,3,4)] by blast
qed

section \<open>How the tiles are shared out\<close>

text \<open>Planes over z, rows over y, columns over x.\<close>

locale spatial_kernel =
  fixes M N P X Y Z t :: nat and k :: "dim \<Rightarrow> dim \<Rightarrow> 'a stores" and F :: "nat \<Rightarrow> nat \<Rightarrow> nat \<Rightarrow> 'a"
  assumes sizes: "0 < M" "0 < N" "0 < P" "0 < t" and room: "N * Y * (4 * (P * X)) * (t * (M * Z)) \<le> 2 ^ 31"
    and written: "gx < X \<Longrightarrow> gy < Y \<Longrightarrow> gz < Z \<Longrightarrow> lx < M \<Longrightarrow> ly < N \<Longrightarrow> lz < P \<Longrightarrow>
      set (k (gx, gy, gz) (lx, ly, lz)) = tile t (N * Y) (4 * (P * X)) F (M * gz + lx) (N * gy + ly) (P * gx + lz)"

lemma split_less: "a < M * Z \<Longrightarrow> a div M < Z" for a M Z :: nat
  by (simp add: less_mult_imp_div_less mult.commute)

lemma join_less:
  fixes g l P X :: nat
  assumes "g < X" and "l < P"
  shows "P * g + l < P * X"
proof -
  have "P * g + l < P * (g + 1)" using assms(2) by simp
  also have "\<dots> \<le> P * X" by (rule mult_le_mono2) (use assms(1) in simp)
  finally show ?thesis .
qed

sublocale spatial_kernel \<subseteq> tensor_kernel t "M * Z" "N * Y" "P * X" "(X, Y, Z)" "(M, N, P)" k F
  "\<lambda>a y b. ((b div P, y div N, a div M), (a mod M, y mod N, b mod P))"
proof
  fix a y b assume "a < M * Z" "y < N * Y" "b < P * X"
  then have l: "b div P < X" "y div N < Y" "a div M < Z" "a mod M < M" "y mod N < N" "b mod P < P"
    using sizes by (simp_all add: split_less)
  show "fst ((b div P, y div N, a div M), (a mod M, y mod N, b mod P)) \<in> set (dims (X, Y, Z)) \<and>
      snd ((b div P, y div N, a div M), (a mod M, y mod N, b mod P)) \<in> set (dims (M, N, P))"
    using l by (simp add: dims_iff)
  show "set (k (fst ((b div P, y div N, a div M), (a mod M, y mod N, b mod P)))
      (snd ((b div P, y div N, a div M), (a mod M, y mod N, b mod P)))) = tile t (N * Y) (4 * (P * X)) F a y b"
    using written[OF l] by simp
next
  fix g l assume "g \<in> set (dims (X, Y, Z))" "l \<in> set (dims (M, N, P))"
  then obtain gx gy gz lx ly lz where gl: "g = (gx, gy, gz)" "gx < X" "gy < Y" "gz < Z" "l = (lx, ly, lz)" "lx < M" "ly < N" "lz < P"
    by (metis dimsE)
  then show "\<exists>a<M * Z. \<exists>y<N * Y. \<exists>b<P * X. ((b div P, y div N, a div M), (a mod M, y mod N, b mod P)) = (g, l)"
    by (intro exI[of _ "M * gz + lx"] exI[of _ "N * gy + ly"] exI[of _ "P * gx + lz"] conjI) (simp_all add: join_less)
qed (use sizes room in simp_all)

text \<open>Planes over z, rows and columns over y and x.\<close>

locale rows_kernel =
  fixes M N X Y Z t :: nat and k :: "dim \<Rightarrow> dim \<Rightarrow> 'a stores" and F :: "nat \<Rightarrow> nat \<Rightarrow> nat \<Rightarrow> 'a"
  assumes sizes: "0 < M" "0 < N" "0 < t" and room: "M * Y * (4 * (N * X)) * (t * Z) \<le> 2 ^ 31"
    and written: "gx < X \<Longrightarrow> gy < Y \<Longrightarrow> gz < Z \<Longrightarrow> lx < M \<Longrightarrow> ly < N \<Longrightarrow>
      set (k (gx, gy, gz) (lx, ly, 0)) = tile t (M * Y) (4 * (N * X)) F gz (M * gy + lx) (N * gx + ly)"

sublocale rows_kernel \<subseteq> tensor_kernel t Z "M * Y" "N * X" "(X, Y, Z)" "(M, N, 1)" k F
  "\<lambda>a y b. ((b div N, y div M, a), (y mod M, b mod N, 0))"
proof
  fix a y b assume a: "a < Z" "y < M * Y" "b < N * X"
  then have l: "b div N < X" "y div M < Y" "a < Z" "y mod M < M" "b mod N < N"
    using sizes by (simp_all add: split_less)
  show "fst ((b div N, y div M, a), (y mod M, b mod N, 0)) \<in> set (dims (X, Y, Z)) \<and>
      snd ((b div N, y div M, a), (y mod M, b mod N, 0)) \<in> set (dims (M, N, 1))"
    using l by (simp add: dims_iff)
  show "set (k (fst ((b div N, y div M, a), (y mod M, b mod N, 0)))
      (snd ((b div N, y div M, a), (y mod M, b mod N, 0)))) = tile t (M * Y) (4 * (N * X)) F a y b"
    using written[OF l] by simp
next
  fix g l assume "g \<in> set (dims (X, Y, Z))" "l \<in> set (dims (M, N, 1))"
  then obtain gx gy gz lx ly where gl: "g = (gx, gy, gz)" "gx < X" "gy < Y" "gz < Z" "l = (lx, ly, 0)" "lx < M" "ly < N"
    by (metis dimsE less_one)
  then show "\<exists>a<Z. \<exists>y<M * Y. \<exists>b<N * X. ((b div N, y div M, a), (y mod M, b mod N, 0)) = (g, l)"
    by (intro exI[of _ gz] exI[of _ "M * gy + lx"] exI[of _ "N * gx + ly"] conjI) (simp_all add: join_less)
qed (use sizes room in simp_all)

text \<open>Planes over y, the positions of a plane over x.\<close>

locale flat_kernel =
  fixes M N X Y t :: nat and k :: "dim \<Rightarrow> dim \<Rightarrow> 'a stores" and F :: "nat \<Rightarrow> nat \<Rightarrow> nat \<Rightarrow> 'a"
  assumes sizes: "0 < M" "0 < N" "0 < t" and room: "4 * (N * X) * (t * (M * Y)) \<le> 2 ^ 31"
    and written: "gx < X \<Longrightarrow> gy < Y \<Longrightarrow> lx < M \<Longrightarrow> ly < N \<Longrightarrow>
      set (k (gx, gy, 0) (lx, ly, 0)) = tile t 1 (4 * (N * X)) F (M * gy + lx) 0 (N * gx + ly)"

sublocale flat_kernel \<subseteq> tensor_kernel t "M * Y" 1 "N * X" "(X, Y, 1)" "(M, N, 1)" k F
  "\<lambda>a y b. ((b div N, a div M, 0), (a mod M, b mod N, 0))"
proof
  fix a y b assume a: "a < M * Y" "y < (1 :: nat)" "b < N * X"
  then have l: "b div N < X" "a div M < Y" "a mod M < M" "b mod N < N"
    using sizes by (simp_all add: split_less)
  show "fst ((b div N, a div M, 0), (a mod M, b mod N, 0)) \<in> set (dims (X, Y, 1)) \<and>
      snd ((b div N, a div M, 0), (a mod M, b mod N, 0)) \<in> set (dims (M, N, 1))"
    using l by (simp add: dims_iff)
  show "set (k (fst ((b div N, a div M, 0), (a mod M, b mod N, 0)))
      (snd ((b div N, a div M, 0), (a mod M, b mod N, 0)))) = tile t 1 (4 * (N * X)) F a y b"
    using written[OF l] a(2) by simp
next
  fix g l assume "g \<in> set (dims (X, Y, 1))" "l \<in> set (dims (M, N, 1))"
  then obtain gx gy lx ly where gl: "g = (gx, gy, 0)" "gx < X" "gy < Y" "l = (lx, ly, 0)" "lx < M" "ly < N"
    by (metis dimsE less_one)
  then have "((((N * gx + ly) div N, (M * gy + lx) div M, 0), ((M * gy + lx) mod M, (N * gx + ly) mod N, 0))) = (g, l)" by simp
  moreover have "M * gy + lx < M * Y" "N * gx + ly < N * X" using gl by (simp_all add: join_less)
  ultimately show "\<exists>a<M * Y. \<exists>y<1::nat. \<exists>b<N * X. ((b div N, a div M, 0), (a mod M, b mod N, 0)) = (g, l)"
    by (blast intro: zero_less_one)
qed (use sizes room in simp_all)

text \<open>The same with one-dimensional workgroups.\<close>

locale strip_kernel =
  fixes N X Y t :: nat and k :: "dim \<Rightarrow> dim \<Rightarrow> 'a stores" and F :: "nat \<Rightarrow> nat \<Rightarrow> nat \<Rightarrow> 'a"
  assumes sizes: "0 < N" "0 < t" and room: "4 * (N * X) * (t * Y) \<le> 2 ^ 31"
    and written: "gx < X \<Longrightarrow> gy < Y \<Longrightarrow> lx < N \<Longrightarrow>
      set (k (gx, gy, 0) (lx, 0, 0)) = tile t 1 (4 * (N * X)) F gy 0 (N * gx + lx)"

sublocale strip_kernel \<subseteq> tensor_kernel t Y 1 "N * X" "(X, Y, 1)" "(N, 1, 1)" k F
  "\<lambda>a y b. ((b div N, a, 0), (b mod N, 0, 0))"
proof
  fix a y b assume a: "a < Y" "y < (1 :: nat)" "b < N * X"
  then have l: "b div N < X" "a < Y" "b mod N < N" using sizes by (simp_all add: split_less)
  show "fst ((b div N, a, 0), (b mod N, 0, 0)) \<in> set (dims (X, Y, 1)) \<and>
      snd ((b div N, a, 0), (b mod N, 0, 0)) \<in> set (dims (N, 1, 1))"
    using l by (simp add: dims_iff)
  show "set (k (fst ((b div N, a, 0), (b mod N, 0, 0))) (snd ((b div N, a, 0), (b mod N, 0, 0)))) = tile t 1 (4 * (N * X)) F a y b"
    using written[OF l] a(2) by simp
next
  fix g l assume "g \<in> set (dims (X, Y, 1))" "l \<in> set (dims (N, 1, 1))"
  then obtain gx gy lx where gl: "g = (gx, gy, 0)" "gx < X" "gy < Y" "l = (lx, 0, 0)" "lx < N"
    by (metis dimsE less_one)
  then have "(((N * gx + lx) div N, gy, 0), ((N * gx + lx) mod N, 0, 0)) = (g, l)" by simp
  moreover have "N * gx + lx < N * X" using gl by (simp add: join_less)
  ultimately show "\<exists>a<Y. \<exists>y<1::nat. \<exists>b<N * X. ((b div N, a, 0), (b mod N, 0, 0)) = (g, l)"
    using gl(3) by (blast intro: zero_less_one)
qed (use sizes room in simp_all)

section \<open>Tiles in the order of the stores\<close>

lemma tile_list:
  assumes "set qps = {..<t} \<times> {..<4}"
    and "xs = map (\<lambda>(q, p). (of_nat (H * W * (t * a + q) + (W * y + (4 * b + p))), F (t * a + q) y (4 * b + p))) qps"
  shows "set xs = tile t H W F a y b"
  using assms by (simp add: tile_def)

lemma upto_4: "{..<4} = {0, 1, 2, 3 :: nat}"
  by auto

text \<open>Planes first, columns first, one plane, one plane with the columns swapped.\<close>

lemma planes_order: "set [(0, 0), (1, 0), (2, 0), (3, 0), (0, 1), (1, 1), (2, 1), (3, 1), (0, 2), (1, 2), (2, 2), (3, 2),
    (0, 3), (1, 3), (2, 3), (3, 3)] = {..<4 :: nat} \<times> {..<4 :: nat}"
  unfolding upto_4 by auto

lemma columns_order: "set [(0, 0), (0, 1), (0, 2), (0, 3), (1, 0), (1, 1), (1, 2), (1, 3), (2, 0), (2, 1), (2, 2), (2, 3),
    (3, 0), (3, 1), (3, 2), (3, 3)] = {..<4 :: nat} \<times> {..<4 :: nat}"
  unfolding upto_4 by auto

lemma plane_order: "set [(0, 0), (0, 1), (0, 2), (0, 3)] = {..<1 :: nat} \<times> {..<4 :: nat}"
  unfolding upto_4 by auto

lemma swapped_order: "set [(0, 2), (0, 3), (0, 0), (0, 1)] = {..<1 :: nat} \<times> {..<4 :: nat}"
  unfolding upto_4 by auto

lemmas tile_planes = tile_list[OF planes_order]
lemmas tile_columns = tile_list[OF columns_order]
lemmas tile_plane = tile_list[OF plane_order]
lemmas tile_swapped = tile_list[OF swapped_order]

section \<open>Loops over several accumulators\<close>

lemma for_loop_0: "for_loop 0 f s = s"
  by (simp add: for_loop_def)

lemma for_loop_Suc: "for_loop (Suc n) f s = f (of_nat n) (for_loop n f s)"
  by (simp add: for_loop_def)

lemma for_loop_4: "for_loop n (\<lambda>i (a, b, c, d). (f0 i a, f1 i b, f2 i c, f3 i d)) (z0, z1, z2, z3) =
   (for_loop n f0 z0, for_loop n f1 z1, for_loop n f2 z2, for_loop n f3 z3)"
  by (induction n) (simp_all add: for_loop_0 for_loop_Suc)

lemma for_loop_16:
  "for_loop n (\<lambda>i (s0, s1, s2, s3, s4, s5, s6, s7, s8, s9, s10, s11, s12, s13, s14, s15).
     (f0 i s0, f1 i s1, f2 i s2, f3 i s3, f4 i s4, f5 i s5, f6 i s6, f7 i s7, f8 i s8, f9 i s9, f10 i s10, f11 i s11,
      f12 i s12, f13 i s13, f14 i s14, f15 i s15))
     (z0, z1, z2, z3, z4, z5, z6, z7, z8, z9, z10, z11, z12, z13, z14, z15) =
   (for_loop n f0 z0, for_loop n f1 z1, for_loop n f2 z2, for_loop n f3 z3, for_loop n f4 z4, for_loop n f5 z5,
    for_loop n f6 z6, for_loop n f7 z7, for_loop n f8 z8, for_loop n f9 z9, for_loop n f10 z10, for_loop n f11 z11,
    for_loop n f12 z12, for_loop n f13 z13, for_loop n f14 z14, for_loop n f15 z15)"
  by (induction n) (simp_all add: for_loop_0 for_loop_Suc)

end
