(* ===== verification/Tiles.thy ===== *)
theory Tiles
  imports Device
begin

text \<open>
  Kernels on a one-dimensional grid in which every invocation writes its own tile of \<open>c\<close>
  neighbouring elements, the shape of almost all element-wise kernels of
  \<open>server/cherum/static/net.js\<close>, and the laws of the loops they contain.
\<close>

section \<open>Buffers as functions of the position\<close>

definition arr :: "'a buf \<Rightarrow> nat \<Rightarrow> 'a" where
  "arr b j = rd b (of_nat j)"

lemma arr_views: "j < length (m (bs ! n)) \<Longrightarrow> length (m (bs ! n)) \<le> 2 ^ 31 \<Longrightarrow> arr (views m w bs n) j = m (bs ! n) ! j"
  by (simp add: arr_def views_def rd_of_nat)

text \<open>The elements of a list as a function of the position, zero outside.\<close>

definition elem :: "'a::zero list \<Rightarrow> nat \<Rightarrow> 'a" where
  "elem xs j = (if j < length xs then xs ! j else 0)"

lemma elem_map [simp]: "elem (map f [0..<n]) j = (if j < n then f j else 0)"
  by (simp add: elem_def)

lemma elem_nth: "j < length xs \<Longrightarrow> elem xs j = xs ! j"
  by (simp add: elem_def)

lemma arr_elem: "j < length (m (bs ! n)) \<Longrightarrow> length (m (bs ! n)) \<le> 2 ^ 31 \<Longrightarrow> arr (views m w bs n) j = elem (m (bs ! n)) j"
  by (simp add: arr_views elem_def)

section \<open>The effect of a pass, in terms of the bound buffers\<close>

lemma kernel_contract_cong:
  assumes "kernel_contract G L k n F" and "\<And>j. j < n \<Longrightarrow> F j = F' j"
  shows "kernel_contract G L k n F'"
proof
    show "n \<le> 2 ^ 31" by (rule kernel_contract.small[OF assms(1)])
  next
    fix g l i v
    assume "g \<in> set (dims G)" "l \<in> set (dims L)" "(i, v) \<in> set (k g l)"
    then show "\<exists>j<n. i = of_nat j \<and> v = F' j"
      using kernel_contract.sound[OF assms(1)] assms(2) by metis
  next
    fix j assume "j < n"
    then show "\<exists>g\<in>set (dims G). \<exists>l\<in>set (dims L). (of_nat j, F' j) \<in> set (k g l)"
      using kernel_contract.cover[OF assms(1)] assms(2) by metis
qed

lemma f32_effect:
  assumes "addComputePass (FShader L code) bs G D D'" and "length (fmem D (bs ! 0)) = n"
    and "\<And>v w. kernel_contract G L (launch (code (views (fmem D) v bs) (views (imem D) w bs))) n (F v w)"
    and "\<And>v w j. j < n \<Longrightarrow> F v w j = F' j"
  shows "D' = D\<lparr>fmem := (fmem D)(bs ! 0 := map F' [0..<n])\<rparr>"
  by (rule f32_pass_result[OF assms(1,2)]) (rule kernel_contract_cong[OF assms(3,4)])

lemma i32_effect:
  assumes "addComputePass (IShader L code) bs G D D'" and "length (imem D (bs ! 0)) = n"
    and "\<And>v w. kernel_contract G L (launch (code (views (fmem D) v bs) (views (imem D) w bs))) n (F v w)"
    and "\<And>v w j. j < n \<Longrightarrow> F v w j = F' j"
  shows "D' = D\<lparr>imem := (imem D)(bs ! 0 := map F' [0..<n])\<rparr>"
  by (rule i32_pass_result[OF assms(1,2)]) (rule kernel_contract_cong[OF assms(3,4)])

lemma f32_group_effect:
  assumes "addComputePass (FGroup L m part code) bs G D D'" and "length (fmem D (bs ! 0)) = n"
    and "\<And>v w g. kernel_contract (1, 1, 1) L (\<lambda>_. launch (part (views (fmem D) v bs) (views (imem D) w bs)) g) m (T v w g)"
    and "\<And>v w tmp. (\<And>g. cells (tmp g) = map (T v w g) [0..<m]) \<Longrightarrow>
      kernel_contract G L (\<lambda>g. launch (code (tmp g) (views (fmem D) v bs) (views (imem D) w bs)) g) n (F v w)"
    and "\<And>v w j. j < n \<Longrightarrow> F v w j = F' j"
  shows "D' = D\<lparr>fmem := (fmem D)(bs ! 0 := map F' [0..<n])\<rparr>"
  using assms(1)
proof (rule f32_group_passE)
  fix v :: "nat \<Rightarrow> i32 \<Rightarrow> f32" and w :: "nat \<Rightarrow> i32 \<Rightarrow> i32" and tmp ys
  assume D': "D' = D\<lparr>fmem := (fmem D)(bs ! 0 := ys)\<rparr>"
    and mem: "\<And>g. group_memory L m (launch (part (views (fmem D) v bs) (views (imem D) w bs))) g (tmp g)"
    and d: "dispatched G L (\<lambda>g. launch (code (tmp g) (views (fmem D) v bs) (views (imem D) w bs)) g) (fmem D (bs ! 0)) ys"
  have "cells (tmp g) = map (T v w g) [0..<m]" for g
    using mem[of g] kernel_contract.result[OF assms(3)] unfolding group_memory_def by blast
  from kernel_contract.result[OF assms(4)[OF this] d assms(2)]
  have "ys = map (F v w) [0..<n]" .
  then have "ys = map F' [0..<n]" using assms(5) by auto
  then show ?thesis using D' by simp
qed

lemma i32_group_effect:
  assumes "addComputePass (IGroup L m part code) bs G D D'" and "length (fmem D (bs ! 0)) = n"
    and "\<And>v w g. kernel_contract (1, 1, 1) L (\<lambda>_. launch (part (views (fmem D) v bs) (views (imem D) w bs)) g) m (T v w g)"
    and "\<And>v w tmp. (\<And>g. cells (tmp g) = map (T v w g) [0..<m]) \<Longrightarrow>
      kernel_contract G L (\<lambda>g. launch (code (tmp g) (views (fmem D) v bs) (views (imem D) w bs)) g) n (F v w)"
    and "\<And>v w j. j < n \<Longrightarrow> F v w j = F' j"
  shows "D' = D\<lparr>fmem := (fmem D)(bs ! 0 := map F' [0..<n])\<rparr>"
  using assms(1)
proof (rule i32_group_passE)
  fix v :: "nat \<Rightarrow> i32 \<Rightarrow> f32" and w :: "nat \<Rightarrow> i32 \<Rightarrow> i32" and tmp ys
  assume D': "D' = D\<lparr>fmem := (fmem D)(bs ! 0 := ys)\<rparr>"
    and mem: "\<And>g. group_memory L m (launch (part (views (fmem D) v bs) (views (imem D) w bs))) g (tmp g)"
    and d: "dispatched G L (\<lambda>g. launch (code (tmp g) (views (fmem D) v bs) (views (imem D) w bs)) g) (fmem D (bs ! 0)) ys"
  have "cells (tmp g) = map (T v w g) [0..<m]" for g
    using mem[of g] kernel_contract.result[OF assms(3)] unfolding group_memory_def by blast
  from kernel_contract.result[OF assms(4)[OF this] d assms(2)]
  have "ys = map (F v w) [0..<n]" .
  then have "ys = map F' [0..<n]" using assms(5) by auto
  then show ?thesis using D' by simp
qed

section \<open>Loops\<close>

lemma for_loop_nat: "for_loop n f s = fold (\<lambda>m. f (of_nat m)) [0..<n] s"
  unfolding for_loop_def by (simp add: fold_map comp_def)

lemma for_loop_cong: "(\<And>m s. m < n \<Longrightarrow> f (of_nat m) s = g (of_nat m) s) \<Longrightarrow> for_loop n f s = for_loop n g s"
  unfolding for_loop_nat by (rule fold_cong) auto

lemma fold_triple:
  "fold (\<lambda>m (a, b, c). (f m a, g m b, h m c)) ms (x, y, z) = (fold f ms x, fold g ms y, fold h ms z)"
  by (induction ms arbitrary: x y z) auto

lemma for_loop_triple:
  "for_loop n (\<lambda>m (a, b, c). (f m a, g m b, h m c)) (x, y, z) = (for_loop n f x, for_loop n g y, for_loop n h z)"
  unfolding for_loop_def by (rule fold_triple)

section \<open>Tiles\<close>

lemma tile_bound:
  fixes c B N gx lx i :: nat
  assumes "gx < N" and "lx < B" and "i < c"
  shows "c * (B * gx + lx) + i < c * (B * N)"
proof -
  have "B * (gx + 1) \<le> B * N" using assms(1) by (intro mult_le_mono) auto
  then have "B * gx + lx + 1 \<le> B * N" using assms(2) by (simp add: algebra_simps)
  then have "c * (B * gx + lx + 1) \<le> c * (B * N)" by (rule mult_le_mono2)
  then show ?thesis using assms(3) by (simp add: algebra_simps)
qed

lemma tile_decompose:
  fixes c B N j :: nat
  assumes "j < c * (B * N)" and "0 < c" and "0 < B"
  shows "j div c div B < N" and "j div c mod B < B" and "j mod c < c"
    and "j = c * (B * (j div c div B) + j div c mod B) + j mod c"
  using assms by (auto simp: less_mult_imp_div_less mult_ac)

lemma dims_line: "g \<in> set (dims (N, 1, 1)) \<longleftrightarrow> (\<exists>x<N. g = (x, 0, 0))"
  by (cases g) (auto simp: dims_iff)

locale tiled_kernel =
  fixes N B c :: nat and k :: "dim \<Rightarrow> dim \<Rightarrow> 'a stores" and F :: "nat \<Rightarrow> 'a"
  assumes pos: "0 < c" "0 < B" and fits: "c * (B * N) \<le> 2 ^ 31"
    and stores: "gx < N \<Longrightarrow> lx < B \<Longrightarrow> set (k (gx, 0, 0) (lx, 0, 0)) =
      (\<lambda>i. (of_nat (c * (B * gx + lx) + i), F (c * (B * gx + lx) + i))) ` {..<c}"

sublocale tiled_kernel \<subseteq> kernel_contract "(N, 1, 1)" "(B, 1, 1)" k "c * (B * N)" F
proof
  show "c * (B * N) \<le> 2 ^ 31" by (rule fits)
next
  fix g l i v
  assume "g \<in> set (dims (N, 1, 1))" "l \<in> set (dims (B, 1, 1))" and iv: "(i, v) \<in> set (k g l)"
  then obtain gx lx where gl: "g = (gx, 0, 0)" "l = (lx, 0, 0)" "gx < N" "lx < B"
    unfolding dims_line by blast
  then obtain e where "e < c" "i = of_nat (c * (B * gx + lx) + e)" "v = F (c * (B * gx + lx) + e)"
    using iv stores[OF gl(3,4)] by auto
  then show "\<exists>j<c * (B * N). i = of_nat j \<and> v = F j" using tile_bound[OF gl(3,4)] by blast
next
  fix j assume j: "j < c * (B * N)"
  note d = tile_decompose[OF j pos]
  have "(of_nat j, F j) \<in> set (k (j div c div B, 0, 0) (j div c mod B, 0, 0))"
    unfolding stores[OF d(1,2)] using d(3,4) by (metis (no_types, lifting) imageI lessThan_iff)
  then show "\<exists>g\<in>set (dims (N, 1, 1)). \<exists>l\<in>set (dims (B, 1, 1)). (of_nat j, F j) \<in> set (k g l)"
    using d(1,2) by (intro bexI; assumption?) (simp_all only: dims_line, blast+)
qed

lemma tiles [simp]: "{..<Suc 0} = {0}" "{..<3::nat} = {0, 1, 2}" "{..<4::nat} = {0, 1, 2, 3}"
  "{..<6::nat} = {0, 1, 2, 3, 4, 5}"
  by auto

end
