(* ===== verification/Scores.thy ===== *)
theory Scores
  imports Tiles
begin

unbundle bit_operations_syntax

text \<open>
  The kernels of \<open>server/cherum/static/net.js\<close> that turn the class probabilities of the 8400
  anchors into one score and one class per anchor: the maximum over the 59 classes, the
  confidence threshold, and the first class that reaches the maximum.
\<close>

section \<open>Infinity\<close>

text \<open>\<open>createInfinityUniformBuf\<close> passes the infinity to the shaders, which have no literal for it.\<close>

definition INFINITY :: f32 where
  "INFINITY = PInf"

section \<open>Kernels\<close>

definition r_59_59 :: "vec3 \<Rightarrow> vec3 \<Rightarrow> i32 stores" where
  "r_59_59 gindex lindex =
    (let gidx0 = vx gindex
     in [(gidx0, 59 - gidx0)])"

definition r_175_16_59_3 :: "f32 buf \<Rightarrow> vec3 \<Rightarrow> vec3 \<Rightarrow> f32 stores" where
  "r_175_16_59_3 data4 gindex lindex =
    (let gidx0 = vx gindex;
         lidx0 = vx lindex;
         alu0 = gidx0 * 48 + lidx0 * 3;
         acc0 = - INFINITY;
         acc1 = - INFINITY;
         acc2 = - INFINITY;
         (acc0, acc1, acc2) = for_loop 59 (\<lambda>ridx2 (acc0, acc1, acc2).
             let alu1 = alu0 + ridx2 * 8400;
                 val0 = rd data4 alu1;
                 val1 = rd data4 (alu1 + 1);
                 val2 = rd data4 (alu1 + 2);
                 alu2 = select acc0 val0 (acc0 < val0);
                 alu3 = select acc1 val1 (acc1 < val1);
                 alu4 = select acc2 val2 (acc2 < val2);
                 acc0 = alu2;
                 acc1 = alu3;
                 acc2 = alu4
             in (acc0, acc1, acc2)) (acc0, acc1, acc2)
     in [(alu0, acc0),
         (alu0 + 1, acc1),
         (alu0 + 2, acc2)])"

definition E_175_16_3n5 :: "f32 buf \<Rightarrow> vec3 \<Rightarrow> vec3 \<Rightarrow> f32 stores" where
  "E_175_16_3n5 data1 gindex lindex =
    (let gidx0 = vx gindex;
         lidx0 = vx lindex;
         alu0 = gidx0 * 48 + lidx0 * 3;
         val0 = rd data1 alu0;
         alu1 = alu0 + 1;
         val1 = rd data1 alu1;
         alu2 = alu0 + 2;
         val2 = rd data1 alu2;
         alu3 = select val1 0 (val1 < (lit (1 / 4)));
         alu5 = select val2 0 (val2 < (lit (1 / 4)));
         alu7 = select val0 0 (val0 < (lit (1 / 4)))
     in [(alu1, alu3),
         (alu2, alu5),
         (alu0, alu7)])"

definition r_175_16_59_3n1 :: "f32 buf \<Rightarrow> f32 buf \<Rightarrow> i32 buf \<Rightarrow> vec3 \<Rightarrow> vec3 \<Rightarrow> f32 stores" where
  "r_175_16_59_3n1 data4 data5 data6 gindex lindex =
    (let gidx0 = vx gindex;
         lidx0 = vx lindex;
         alu0 = gidx0 * 48 + lidx0 * 3;
         alu1 = alu0 + 2;
         alu2 = alu0 + 1;
         val0 = rd data5 alu2;
         val1 = rd data5 alu1;
         val2 = rd data5 alu0;
         acc0 = (- 2147483648 :: i32);
         acc1 = (- 2147483648 :: i32);
         acc2 = (- 2147483648 :: i32);
         (acc0, acc1, acc2) = for_loop 59 (\<lambda>ridx2 (acc0, acc1, acc2).
             let val3 = rd data6 ridx2;
                 alu3 = alu0 + ridx2 * 8400;
                 val4 = rd data4 alu3;
                 val5 = rd data4 (alu3 + 1);
                 val6 = rd data4 (alu3 + 2);
                 alu4 = (i32_of_bool (\<not> (\<not> feq val5 val0))) * val3;
                 alu5 = (i32_of_bool (\<not> (\<not> feq val6 val1))) * val3;
                 alu6 = (i32_of_bool (\<not> (\<not> feq val4 val2))) * val3;
                 alu7 = select acc0 alu6 (acc0 <s alu6);
                 alu8 = select acc1 alu4 (acc1 <s alu4);
                 alu9 = select acc2 alu5 (acc2 <s alu5);
                 acc0 = alu7;
                 acc1 = alu8;
                 acc2 = alu9
             in (acc0, acc1, acc2)) (acc0, acc1, acc2)
     in [(alu0, f32_of_i32 (59 - acc0)),
         (alu2, f32_of_i32 (59 - acc1)),
         (alu1, f32_of_i32 (59 - acc2))])"

section \<open>What they compute\<close>

definition class_score :: "(nat \<Rightarrow> f32) \<Rightarrow> nat \<Rightarrow> nat \<Rightarrow> f32" where
  "class_score s j m = s (j + 8400 * m)"

definition max_score :: "(nat \<Rightarrow> f32) \<Rightarrow> nat \<Rightarrow> f32" where
  "max_score s j = fold (\<lambda>m a. select a (class_score s j m) (a < class_score s j m)) [0..<59] (- INFINITY)"

definition confident :: "f32 \<Rightarrow> f32" where
  "confident x = select x 0 (x < lit (1 / 4))"

definition class_code :: "(nat \<Rightarrow> f32) \<Rightarrow> f32 \<Rightarrow> (nat \<Rightarrow> i32) \<Rightarrow> nat \<Rightarrow> i32" where
  "class_code s t code j = fold (\<lambda>m a. let b = i32_of_bool (feq (class_score s j m) t) * code m
     in select a b (a <s b)) [0..<59] (- 2147483648)"

lemmas tile_kernel = launch_def Let_def for_loop_nat fold_triple arr_def

interpretation codes: tiled_kernel 59 1 1 "launch r_59_59" "\<lambda>j. 59 - of_nat j"
  by unfold_locales (auto simp: tile_kernel r_59_59_def)

interpretation maxima: tiled_kernel 175 16 3 "launch (r_175_16_59_3 c)" "max_score (arr c)" for c
  by unfold_locales
    (simp_all add: tile_kernel r_175_16_59_3_def max_score_def class_score_def algebra_simps)

interpretation thresholds: tiled_kernel 175 16 3 "launch (E_175_16_3n5 c)" "\<lambda>j. confident (arr c j)" for c
  by unfold_locales (simp_all add: tile_kernel E_175_16_3n5_def confident_def algebra_simps insert_commute)

interpretation classes: tiled_kernel 175 16 3 "launch (r_175_16_59_3n1 c t code)"
  "\<lambda>j. f32_of_i32 (59 - class_code (arr c) (arr t j) (arr code) j)" for c t code
  by unfold_locales (simp_all add: tile_kernel r_175_16_59_3n1_def class_code_def class_score_def algebra_simps insert_commute)

section \<open>The score of an anchor\<close>

text \<open>The running maximum is never not-a-number, whatever the class scores are.\<close>

abbreviation running_max :: "(nat \<Rightarrow> f32) \<Rightarrow> nat \<Rightarrow> f32 \<Rightarrow> f32" where
  "running_max f m a \<equiv> select a (f m) (a < f m)"

lemma fold_max_not_nan: "\<not> is_nan a \<Longrightarrow> \<not> is_nan (fold (running_max f) ms a)"
  by (induction ms arbitrary: a) (auto simp: select_def less_fp_def)

lemma fold_max_ge:
  assumes "\<not> is_nan a"
  shows "a \<le> fold (running_max f) ms a \<and> (\<forall>m\<in>set ms. \<not> is_nan (f m) \<longrightarrow> f m \<le> fold (running_max f) ms a)"
  using assms
proof (induction ms arbitrary: a)
  case Nil
  then show ?case by (simp add: less_eq_fp_def)
next
  case (Cons m ms)
  let ?b = "running_max f m a"
  have b: "\<not> is_nan ?b" "a \<le> ?b" "\<not> is_nan (f m) \<longrightarrow> f m \<le> ?b"
    using Cons.prems by (auto simp: select_def less_fp_def less_eq_fp_def)
  show ?case using Cons.IH[OF b(1)] b(2,3) by (auto simp: less_eq_fp_def)
qed

lemma fold_max_in: "fold (running_max f) ms a = a \<or> fold (running_max f) ms a \<in> f ` set ms"
proof (induction ms arbitrary: a)
  case (Cons m ms)
  then show ?case using Cons.IH[of "running_max f m a"] by (auto simp: select_def)
qed simp

lemma minus_infinity [simp]: "- INFINITY = (MInf :: f32)"
  by (simp add: INFINITY_def)

lemma max_score_not_nan: "\<not> is_nan (max_score s j)"
  unfolding max_score_def by (rule fold_max_not_nan) simp

lemma max_score_ge: "m < 59 \<Longrightarrow> \<not> is_nan (class_score s j m) \<Longrightarrow> class_score s j m \<le> max_score s j"
  unfolding max_score_def using fold_max_ge[of "- INFINITY" "class_score s j" "[0..<59]"] by simp

lemma max_score_in: "max_score s j = MInf \<or> (\<exists>m<59. max_score s j = class_score s j m)"
  unfolding max_score_def using fold_max_in[of "class_score s j" "[0..<59]" "- INFINITY"] by auto

text \<open>With class scores that are numbers above minus infinity it is one of them.\<close>

lemma max_score_attained:
  assumes "\<And>m. m < 59 \<Longrightarrow> is_fin (class_score s j m)"
  shows "\<exists>m<59. max_score s j = class_score s j m"
proof (rule ccontr)
  assume "\<not> ?thesis"
  then have "max_score s j = MInf" using max_score_in by blast
  then have "class_score s j 0 \<le> MInf"
    using max_score_ge[of 0 s j] assms[of 0] by (simp add: is_fin_def)
  then show False using assms[of 0] by (cases "class_score s j 0") (simp_all add: less_eq_fp_def)
qed

lemma lit_quarter: "lit (1 / 4) = (Fin (1 / 4) :: f32)"
proof (rule lit_exact)
  have "repr 24 (- 126) (pow2 (- 2))" by (rule repr_pow2) simp_all
  moreover have "pow2 (- 2) = 1 / 4" by (simp add: power_int_minus)
  moreover have "(1 / 4 :: rat) < pow2 128" using pow2_strict_mono[of "- 2" 128] by (simp add: power_int_minus)
  ultimately show "is_fp (Fin (1 / 4) :: f32)" by simp
qed

text \<open>Keys of the sort: never not-a-number, never the negative zero, never minus infinity.\<close>

lemma confident_cases: "\<not> is_nan x \<Longrightarrow> confident x = 0 \<or> confident x = x \<and> lit (1 / 4) \<le> x"
  by (auto simp: confident_def select_def lit_quarter less_fp_def less_eq_fp_def)

lemma confident_key:
  assumes "\<not> is_nan x"
  shows "\<not> is_nan (confident x)" and "confident x \<noteq> NZero" and "confident x \<noteq> MInf"
  using confident_cases[OF assms] by (auto simp: lit_quarter less_eq_fp_def zero_fp_def)

lemma confident_fp: "is_fp x \<Longrightarrow> is_fp (confident x)"
  by (simp add: confident_def select_def)

lemma confident_fin: "is_fin x \<Longrightarrow> is_fin (confident x)"
  by (simp add: confident_def select_def)

section \<open>The class of an anchor\<close>

text \<open>The first class that reaches the score, or 59 when none does.\<close>

definition best_class :: "(nat \<Rightarrow> f32) \<Rightarrow> nat \<Rightarrow> nat" where
  "best_class s j = (case find (\<lambda>m. feq (class_score s j m) (max_score s j)) [0..<59] of
     None \<Rightarrow> 59 | Some m \<Rightarrow> m)"

lemma find_append: "find P (xs @ ys) = (case find P xs of None \<Rightarrow> find P ys | Some x \<Rightarrow> Some x)"
  by (induction xs) auto

lemma fold_code:
  assumes "n \<le> 59" and "\<And>m. m < n \<Longrightarrow> code m = 59 - of_nat m"
  shows "fold (\<lambda>m a. let b = i32_of_bool (P m) * code m in select a b (a <s b)) [0..<n] (- 2147483648) =
    (if n = 0 then - 2147483648 else (case find P [0..<n] of None \<Rightarrow> (0 :: i32) | Some m \<Rightarrow> of_nat (59 - m)))"
  using assms
proof (induction n)
  case (Suc n)
  define old :: nat where "old = (case find P [0..<n] of None \<Rightarrow> 0 | Some m \<Rightarrow> 59 - m)"
  have small: "old < 2 ^ 31" "59 - n < (2 ^ 31 :: nat)" by (auto simp: old_def split: option.splits)
  have code: "code n = of_nat (59 - n)" using Suc.prems by (simp add: of_nat_diff)
  have prev: "fold (\<lambda>m a. let b = i32_of_bool (P m) * code m in select a b (a <s b)) [0..<n] (- 2147483648) =
      (if n = 0 then - 2147483648 else of_nat old)"
    using Suc by (auto simp: old_def split: option.splits)
  have found: "m < n" if "find P [0..<n] = Some m" for m
    using that by (auto simp: find_Some_iff)
  have cmp: "(of_nat old :: i32) <s of_nat b \<longleftrightarrow> old < b" if "b < 2 ^ 31" for b
    using sless_of_nat[OF small(1) that] .
  have low: "(- 2147483648 :: i32) <s of_nat b" if "b < 2 ^ 31" for b
    using that by (simp add: word_sless_alt sint_of_nat_i32)
  show ?case
  proof (cases "P n")
    case True
    have "old < 59 - n \<longleftrightarrow> find P [0..<n] = None"
      using Suc.prems(1) found by (auto simp: old_def split: option.splits)
    then show ?thesis
      using True code prev cmp[OF small(2)] low[OF small(2)]
      by (cases "n = 0") (auto simp: i32_of_bool_def select_def old_def find_append Let_def split: option.splits)
  next
    case False
    then show ?thesis
      using prev cmp[of 0] low[of 0] by (cases "n = 0") (auto simp: i32_of_bool_def select_def old_def find_append Let_def split: option.splits)
  qed
qed simp

lemma class_code_best:
  assumes "\<And>m. m < 59 \<Longrightarrow> code m = 59 - of_nat m"
  shows "class_code s (max_score s j) code j = of_nat (59 - best_class s j)"
  unfolding class_code_def best_class_def using fold_code[of 59 code] assms
  by (auto split: option.splits)

lemma best_class_le: "best_class s j \<le> 59"
  by (auto simp: best_class_def find_Some_iff split: option.splits)

lemma class_value:
  assumes "\<And>m. m < 59 \<Longrightarrow> code m = 59 - of_nat m"
  shows "f32_of_i32 (59 - class_code s (max_score s j) code j) = Fin (of_nat (best_class s j))"
proof -
  have "(59 :: i32) - of_nat (59 - best_class s j) = of_nat (best_class s j)"
    using best_class_le[of s j] by (simp add: of_nat_diff)
  moreover have "best_class s j < 2 ^ 31" using best_class_le[of s j] by simp
  moreover have "(lit (of_int (int (best_class s j))) :: f32) = Fin (of_int (int (best_class s j)))"
    by (rule lit_exact, rule is_fp_f32_of_int) (use best_class_le[of s j] in simp)
  ultimately show ?thesis
    by (simp add: f32_of_i32_def class_code_best[OF assms] sint_of_nat_i32)
qed

lemma best_class_first:
  assumes "best_class s j < 59"
  shows "feq (class_score s j (best_class s j)) (max_score s j)"
    and "m < best_class s j \<Longrightarrow> \<not> feq (class_score s j m) (max_score s j)"
proof -
  obtain b where b: "find (\<lambda>m. feq (class_score s j m) (max_score s j)) [0..<59] = Some b"
    using assms by (auto simp: best_class_def split: option.splits)
  then have e: "best_class s j = b" by (simp add: best_class_def)
  show "feq (class_score s j (best_class s j)) (max_score s j)"
    using b unfolding e by (auto simp: find_Some_iff)
  show "m < best_class s j \<Longrightarrow> \<not> feq (class_score s j m) (max_score s j)"
    using b unfolding e find_Some_iff by auto
qed

lemma best_class_exists:
  assumes "\<And>m. m < 59 \<Longrightarrow> is_fin (class_score s j m)"
  shows "best_class s j < 59"
proof -
  obtain m where m: "m < 59" "max_score s j = class_score s j m" using max_score_attained[OF assms] by blast
  then have "feq (class_score s j m) (max_score s j)" using assms[OF m(1)] by (simp add: feq_refl is_fin_def)
  then have "find (\<lambda>m. feq (class_score s j m) (max_score s j)) [0..<59] \<noteq> None"
    using m(1) by (auto simp: find_None_iff)
  then show ?thesis by (auto simp: best_class_def find_Some_iff split: option.splits)
qed

end
