(* ===== verification/TopK.thy ===== *)
theory TopK
  imports Scores
begin

unbundle bit_operations_syntax

text \<open>
  The kernels of \<open>server/cherum/static/net.js\<close> that find the anchors of the 300 best scores:
  the positions, the running counts of equal keys before and after the sort, the recovery of
  the positions from them, the rows of the candidates and the gathering of the best rows.
\<close>

section \<open>Kernels\<close>

definition r_175_16_2100_3_4 :: "vec3 \<Rightarrow> vec3 \<Rightarrow> i32 stores" where
  "r_175_16_2100_3_4 gindex lindex =
    (let gidx0 = vx gindex;
         lidx0 = vx lindex;
         alu0 = gidx0 * 48 + lidx0 * 3;
         alu2 = alu0 + 1;
         alu4 = alu0 + 2
     in [(alu0, alu0),
         (alu2, alu2),
         (alu4, alu4)])"

definition r_175_16_2100_3_4n1 :: "i32 buf \<Rightarrow> f32 buf \<Rightarrow> vec3 \<Rightarrow> vec3 \<Rightarrow> i32 stores" where
  "r_175_16_2100_3_4n1 data1 data2 gindex lindex =
    (let gidx0 = vx gindex;
         lidx0 = vx lindex;
         alu0 = gidx0 * 48 + lidx0 * 3;
         alu1 = alu0 + 2;
         alu2 = alu0 + 1;
         val0 = rd data1 alu2;
         val1 = rd data1 alu1;
         val2 = rd data1 alu0;
         val3 = rd data2 alu2;
         val4 = rd data2 alu1;
         val5 = rd data2 alu0;
         acc0 = (0 :: i32);
         acc1 = (0 :: i32);
         acc2 = (0 :: i32);
         (acc0, acc1, acc2) = for_loop 2100 (\<lambda>ridx2 (acc0, acc1, acc2).
             let precast0 = ridx2;
                 precast1 = push_bit 2 precast0;
                 cast0 = precast1;
                 val6 = rd data1 cast0;
                 val7 = rd data2 cast0;
                 alu3 = cast0 + 1;
                 val8 = rd data1 alu3;
                 val9 = rd data2 alu3;
                 alu4 = cast0 + 2;
                 val10 = rd data1 alu4;
                 val11 = rd data2 alu4;
                 alu5 = cast0 + 3;
                 val12 = rd data1 alu5;
                 val13 = rd data2 alu5;
                 acc0 = (i32_of_bool ((\<not> (val2 <s val12)) \<and> (\<not> (\<not> feq val13 val5)))) + (i32_of_bool ((\<not> (val2 <s val10)) \<and> (\<not> (\<not> feq val11 val5)))) + (i32_of_bool ((\<not> (val2 <s val8)) \<and> (\<not> (\<not> feq val9 val5)))) + acc0 + (i32_of_bool ((\<not> (val2 <s val6)) \<and> (\<not> (\<not> feq val7 val5))));
                 acc1 = (i32_of_bool ((\<not> (val0 <s val12)) \<and> (\<not> (\<not> feq val13 val3)))) + (i32_of_bool ((\<not> (val0 <s val10)) \<and> (\<not> (\<not> feq val11 val3)))) + (i32_of_bool ((\<not> (val0 <s val8)) \<and> (\<not> (\<not> feq val9 val3)))) + acc1 + (i32_of_bool ((\<not> (val0 <s val6)) \<and> (\<not> (\<not> feq val7 val3))));
                 acc2 = (i32_of_bool ((\<not> (val1 <s val12)) \<and> (\<not> (\<not> feq val13 val4)))) + (i32_of_bool ((\<not> (val1 <s val10)) \<and> (\<not> (\<not> feq val11 val4)))) + (i32_of_bool ((\<not> (val1 <s val8)) \<and> (\<not> (\<not> feq val9 val4)))) + acc2 + (i32_of_bool ((\<not> (val1 <s val6)) \<and> (\<not> (\<not> feq val7 val4))))
             in (acc0, acc1, acc2)) (acc0, acc1, acc2)
     in [(alu2, acc1),
         (alu1, acc2),
         (alu0, acc0)])"

definition r_175_16_2100_3_4n2 :: "i32 buf \<Rightarrow> f32 buf \<Rightarrow> vec3 \<Rightarrow> vec3 \<Rightarrow> i32 stores" where
  "r_175_16_2100_3_4n2 data1 data2 gindex lindex =
    (let gidx0 = vx gindex;
         lidx0 = vx lindex;
         alu0 = gidx0 * 48 + lidx0 * 3;
         alu1 = alu0 + 2;
         alu2 = alu0 + 1;
         val0 = rd data1 alu2;
         val1 = rd data1 alu1;
         val2 = rd data1 alu0;
         val3 = rd data2 alu2;
         val4 = rd data2 alu1;
         val5 = rd data2 alu0;
         acc0 = (0 :: i32);
         acc1 = (0 :: i32);
         acc2 = (0 :: i32);
         (acc0, acc1, acc2) = for_loop 2100 (\<lambda>ridx2 (acc0, acc1, acc2).
             let precast0 = ridx2;
                 precast1 = push_bit 2 precast0;
                 cast0 = precast1;
                 val6 = rd data1 cast0;
                 val7 = rd data2 cast0;
                 alu3 = cast0 + 1;
                 val8 = rd data1 alu3;
                 val9 = rd data2 alu3;
                 alu4 = cast0 + 2;
                 val10 = rd data1 alu4;
                 val11 = rd data2 alu4;
                 alu5 = cast0 + 3;
                 val12 = rd data1 alu5;
                 val13 = rd data2 alu5;
                 acc0 = (i32_of_bool ((\<not> (val2 <s val12)) \<and> (\<not> (\<not> feq val13 val5)))) + (i32_of_bool ((\<not> (val2 <s val10)) \<and> (\<not> (\<not> feq val11 val5)))) + (i32_of_bool ((\<not> (val2 <s val8)) \<and> (\<not> (\<not> feq val9 val5)))) + acc0 + (i32_of_bool ((\<not> (val2 <s val6)) \<and> (\<not> (\<not> feq val7 val5))));
                 acc1 = (i32_of_bool ((\<not> (val0 <s val12)) \<and> (\<not> (\<not> feq val13 val3)))) + (i32_of_bool ((\<not> (val0 <s val10)) \<and> (\<not> (\<not> feq val11 val3)))) + (i32_of_bool ((\<not> (val0 <s val8)) \<and> (\<not> (\<not> feq val9 val3)))) + acc1 + (i32_of_bool ((\<not> (val0 <s val6)) \<and> (\<not> (\<not> feq val7 val3))));
                 acc2 = (i32_of_bool ((\<not> (val1 <s val12)) \<and> (\<not> (\<not> feq val13 val4)))) + (i32_of_bool ((\<not> (val1 <s val10)) \<and> (\<not> (\<not> feq val11 val4)))) + (i32_of_bool ((\<not> (val1 <s val8)) \<and> (\<not> (\<not> feq val9 val4)))) + acc2 + (i32_of_bool ((\<not> (val1 <s val6)) \<and> (\<not> (\<not> feq val7 val4))))
             in (acc0, acc1, acc2)) (acc0, acc1, acc2)
     in [(alu2, acc1),
         (alu1, acc2),
         (alu0, acc0)])"

definition r_175_16_2100_3_4n3 :: "f32 buf \<Rightarrow> f32 buf \<Rightarrow> i32 buf \<Rightarrow> i32 buf \<Rightarrow> i32 buf \<Rightarrow> vec3 \<Rightarrow> vec3 \<Rightarrow> i32 stores" where
  "r_175_16_2100_3_4n3 data1 data2 data3 data4 data5 gindex lindex =
    (let gidx0 = vx gindex;
         lidx0 = vx lindex;
         alu0 = gidx0 * 48 + lidx0 * 3;
         alu1 = alu0 + 2;
         alu2 = alu0 + 1;
         val0 = rd data4 alu2;
         val1 = rd data4 alu1;
         val2 = rd data4 alu0;
         val3 = rd data2 alu2;
         val4 = rd data2 alu1;
         val5 = rd data2 alu0;
         acc0 = (0 :: i32);
         acc1 = (0 :: i32);
         acc2 = (0 :: i32);
         (acc0, acc1, acc2) = for_loop 2100 (\<lambda>ridx2 (acc0, acc1, acc2).
             let precast0 = ridx2;
                 precast1 = push_bit 2 precast0;
                 cast0 = precast1;
                 val6 = rd data3 cast0;
                 val7 = rd data5 cast0;
                 val8 = rd data1 cast0;
                 alu3 = cast0 + 1;
                 val9 = rd data3 alu3;
                 val10 = rd data5 alu3;
                 val11 = rd data1 alu3;
                 alu4 = cast0 + 2;
                 val12 = rd data3 alu4;
                 val13 = rd data5 alu4;
                 val14 = rd data1 alu4;
                 alu5 = cast0 + 3;
                 val15 = rd data3 alu5;
                 val16 = rd data5 alu5;
                 val17 = rd data1 alu5;
                 acc0 = acc0 + (i32_of_bool ((\<not> (\<not> feq val8 val5)) \<and> (\<not> (val6 \<noteq> val2)))) * val7 + (i32_of_bool ((\<not> (\<not> feq val11 val5)) \<and> (\<not> (val9 \<noteq> val2)))) * val10 + (i32_of_bool ((\<not> (\<not> feq val14 val5)) \<and> (\<not> (val12 \<noteq> val2)))) * val13 + (i32_of_bool ((\<not> (\<not> feq val17 val5)) \<and> (\<not> (val15 \<noteq> val2)))) * val16;
                 acc1 = acc1 + (i32_of_bool ((\<not> (\<not> feq val8 val3)) \<and> (\<not> (val6 \<noteq> val0)))) * val7 + (i32_of_bool ((\<not> (\<not> feq val11 val3)) \<and> (\<not> (val9 \<noteq> val0)))) * val10 + (i32_of_bool ((\<not> (\<not> feq val14 val3)) \<and> (\<not> (val12 \<noteq> val0)))) * val13 + (i32_of_bool ((\<not> (\<not> feq val17 val3)) \<and> (\<not> (val15 \<noteq> val0)))) * val16;
                 acc2 = acc2 + (i32_of_bool ((\<not> (\<not> feq val8 val4)) \<and> (\<not> (val6 \<noteq> val1)))) * val7 + (i32_of_bool ((\<not> (\<not> feq val11 val4)) \<and> (\<not> (val9 \<noteq> val1)))) * val10 + (i32_of_bool ((\<not> (\<not> feq val14 val4)) \<and> (\<not> (val12 \<noteq> val1)))) * val13 + (i32_of_bool ((\<not> (\<not> feq val17 val4)) \<and> (\<not> (val15 \<noteq> val1)))) * val16
             in (acc0, acc1, acc2)) (acc0, acc1, acc2)
     in [(alu2, acc1),
         (alu1, acc2),
         (alu0, acc0)])"

definition E_25_3_4 :: "i32 buf \<Rightarrow> vec3 \<Rightarrow> vec3 \<Rightarrow> i32 stores" where
  "E_25_3_4 data1 gindex lindex =
    (let gidx0 = vx gindex;
         lidx0 = vx lindex;
         precast0 = lidx0;
         precast1 = push_bit 2 precast0;
         alu0 = gidx0 * 12 + precast1;
         val0 = rd data1 alu0;
         alu1 = alu0 + 1;
         val1 = rd data1 alu1;
         alu2 = alu0 + 2;
         val2 = rd data1 alu2;
         alu3 = alu0 + 3;
         val3 = rd data1 alu3;
         alu4 = select val1 (val1 + 8400) (val1 <s 0);
         alu6 = select val2 (val2 + 8400) (val2 <s 0);
         alu8 = select val3 (val3 + 8400) (val3 <s 0);
         alu10 = select val0 (val0 + 8400) (val0 <s 0)
     in [(alu1, alu4),
         (alu2, alu6),
         (alu3, alu8),
         (alu0, alu10)])"

definition E_525_16_6 :: "f32 buf \<Rightarrow> f32 buf \<Rightarrow> f32 buf \<Rightarrow> f32 buf \<Rightarrow> f32 buf \<Rightarrow> f32 buf \<Rightarrow> vec3 \<Rightarrow> vec3 \<Rightarrow> f32 stores" where
  "E_525_16_6 data1 data2 data3 data4 data5 data6 gindex lindex =
    (let gidx0 = vx gindex;
         lidx0 = vx lindex;
         precast0 = gidx0;
         precast1 = push_bit 4 precast0;
         alu0 = lidx0 + precast1;
         val0 = rd data1 alu0;
         val1 = rd data2 alu0;
         val2 = rd data3 alu0;
         val3 = rd data4 alu0;
         val4 = rd data5 alu0;
         val5 = rd data6 alu0;
         alu1 = gidx0 * 96 + lidx0 * 6
     in [(alu1, val0),
         (alu1 + 1, val1),
         (alu1 + 2, val2),
         (alu1 + 3, val3),
         (alu1 + 4, val4),
         (alu1 + 5, val5)])"

section \<open>What they compute\<close>

text \<open>The loops take four elements at a time; the order of the additions does not matter for words.\<close>

lemma fold_quads:
  fixes f :: "nat \<Rightarrow> 'a::comm_monoid_add"
  shows "fold (\<lambda>m a. f (4 * m + 3) + f (4 * m + 2) + f (4 * m + 1) + a + f (4 * m)) [0..<n] 0 = (\<Sum>j<4 * n. f j)"
    and "fold (\<lambda>m a. a + f (4 * m) + f (4 * m + 1) + f (4 * m + 2) + f (4 * m + 3)) [0..<n] 0 = (\<Sum>j<4 * n. f j)"
proof -
  have e: "4 * Suc n = Suc (Suc (Suc (Suc (4 * n))))" for n by simp
  show "fold (\<lambda>m a. f (4 * m + 3) + f (4 * m + 2) + f (4 * m + 1) + a + f (4 * m)) [0..<n] 0 = (\<Sum>j<4 * n. f j)"
    by (induction n) (simp_all only: e sum.lessThan_Suc, simp_all add: ac_simps numeral_eq_Suc)
  show "fold (\<lambda>m a. a + f (4 * m) + f (4 * m + 1) + f (4 * m + 2) + f (4 * m + 3)) [0..<n] 0 = (\<Sum>j<4 * n. f j)"
    by (induction n) (simp_all only: e sum.lessThan_Suc, simp_all add: ac_simps numeral_eq_Suc)
qed

text \<open>Positions at most \<open>i\<close> whose key equals the key at \<open>i\<close>, as the shader counts them.\<close>

definition tally :: "(nat \<Rightarrow> i32) \<Rightarrow> (nat \<Rightarrow> f32) \<Rightarrow> nat \<Rightarrow> i32" where
  "tally pos key i = (\<Sum>j<8400. i32_of_bool (\<not> pos i <s pos j \<and> feq (key j) (key i)))"

definition matching :: "(nat \<Rightarrow> f32) \<Rightarrow> (nat \<Rightarrow> f32) \<Rightarrow> (nat \<Rightarrow> i32) \<Rightarrow> (nat \<Rightarrow> i32) \<Rightarrow> (nat \<Rightarrow> i32) \<Rightarrow> nat \<Rightarrow> i32" where
  "matching key srt cin cout pos r =
     (\<Sum>j<8400. i32_of_bool (feq (key j) (srt r) \<and> cin j = cout r) * pos j)"

definition wrapped :: "i32 \<Rightarrow> i32" where
  "wrapped i = select i (i + 8400) (i <s 0)"

definition row_of :: "(nat \<Rightarrow> f32) list \<Rightarrow> nat \<Rightarrow> f32" where
  "row_of cols j = (cols ! (j mod 6)) (j div 6)"

interpretation positions: tiled_kernel 175 16 3 "launch r_175_16_2100_3_4" "\<lambda>j. of_nat j"
  by unfold_locales (simp_all add: tile_kernel r_175_16_2100_3_4_def algebra_simps)

lemma tally_fold: "tally pos key i = fold (\<lambda>m a.
    i32_of_bool (\<not> pos i <s pos (4 * m + 3) \<and> feq (key (4 * m + 3)) (key i)) +
    i32_of_bool (\<not> pos i <s pos (4 * m + 2) \<and> feq (key (4 * m + 2)) (key i)) +
    i32_of_bool (\<not> pos i <s pos (4 * m + 1) \<and> feq (key (4 * m + 1)) (key i)) + a +
    i32_of_bool (\<not> pos i <s pos (4 * m) \<and> feq (key (4 * m)) (key i))) [0..<2100] 0"
  unfolding tally_def using fold_quads(1)[of "\<lambda>j. i32_of_bool (\<not> pos i <s pos j \<and> feq (key j) (key i))" 2100]
  by simp

lemma matching_fold: "matching key srt cin cout pos r = fold (\<lambda>m a. a +
    i32_of_bool (feq (key (4 * m)) (srt r) \<and> cin (4 * m) = cout r) * pos (4 * m) +
    i32_of_bool (feq (key (4 * m + 1)) (srt r) \<and> cin (4 * m + 1) = cout r) * pos (4 * m + 1) +
    i32_of_bool (feq (key (4 * m + 2)) (srt r) \<and> cin (4 * m + 2) = cout r) * pos (4 * m + 2) +
    i32_of_bool (feq (key (4 * m + 3)) (srt r) \<and> cin (4 * m + 3) = cout r) * pos (4 * m + 3)) [0..<2100] 0"
  unfolding matching_def
  using fold_quads(2)[of "\<lambda>j. i32_of_bool (feq (key j) (srt r) \<and> cin j = cout r) * pos j" 2100] by simp

interpretation tallies: tiled_kernel 175 16 3 "launch (r_175_16_2100_3_4n1 p c)" "tally (arr p) (arr c)" for p c
  by unfold_locales
    (simp_all add: tile_kernel r_175_16_2100_3_4n1_def tally_fold push_bit_eq_mult algebra_simps insert_commute)

interpretation tallies2: tiled_kernel 175 16 3 "launch (r_175_16_2100_3_4n2 p c)" "tally (arr p) (arr c)" for p c
  by unfold_locales
    (simp_all add: tile_kernel r_175_16_2100_3_4n2_def tally_fold push_bit_eq_mult algebra_simps insert_commute)

interpretation matches: tiled_kernel 175 16 3 "launch (r_175_16_2100_3_4n3 key srt cin cout p)"
  "matching (arr key) (arr srt) (arr cin) (arr cout) (arr p)" for key srt cin cout p
  by unfold_locales
    (simp_all add: tile_kernel r_175_16_2100_3_4n3_def matching_fold push_bit_eq_mult algebra_simps insert_commute)

interpretation wraps: tiled_kernel 25 3 4 "launch (E_25_3_4 p)" "\<lambda>j. wrapped (arr p j)" for p
  by unfold_locales
    (simp_all add: tile_kernel E_25_3_4_def wrapped_def push_bit_eq_mult algebra_simps insert_commute)

lemma row_of_tile: "(b::nat) < 6 \<Longrightarrow> row_of cols (6 * a + b) = (cols ! b) a"
  by (simp add: row_of_def)

interpretation rows: tiled_kernel 525 16 6 "launch (E_525_16_6 c1 c2 c3 c4 c5 c6)"
  "row_of [arr c1, arr c2, arr c3, arr c4, arr c5, arr c6]" for c1 c2 c3 c4 c5 c6
proof (unfold_locales, goal_cases)
  case (4 gx lx)
  let ?cols = "[arr c1, arr c2, arr c3, arr c4, arr c5, arr c6]" and ?a = "16 * gx + lx"
  have "(\<lambda>i. (of_nat (6 * ?a + i) :: i32, row_of ?cols (6 * ?a + i))) ` {..<6} =
      (\<lambda>i. (of_nat (6 * ?a + i), (?cols ! i) ?a)) ` {..<6}"
    by (intro image_cong refl) (simp only: lessThan_iff row_of_tile)
  then show ?case
    by (simp only:) (simp add: tile_kernel E_525_16_6_def push_bit_eq_mult algebra_simps)
qed simp_all

end
