(* ===== verification/Anchors.thy ===== *)
theory Anchors
  imports TopK
begin

text \<open>
  The anchors of the detector, passes 0 to 2 and 4 of \<open>server/cherum/static/net.js\<close>: the
  coordinates of the cell centres of the 80, 40 and 20 wide grids, in cells, and the size of a
  cell in pixels of each of the 8400 anchors. The kernels are constants; what looks like
  arithmetic in them is a cumulative sum that the compiler has unrolled.
\<close>

section \<open>Kernels\<close>

definition r_80_16_5_shared :: "vec3 \<Rightarrow> vec3 \<Rightarrow> i32 stores" where
  "r_80_16_5_shared gindex lindex =
    (let gidx0 = vx gindex;
         lidx0 = vx lindex;
         alu0 = gidx0 + lidx0 * 5 + (- 74);
         alu1 = select alu0 0 (alu0 <s 0);
         alu2 = - alu1;
         alu3 = select alu2 (- 5) (alu2 <s (- 5))
     in [(lidx0, - alu3)])"

definition r_80_16_5 :: "i32 buf \<Rightarrow> vec3 \<Rightarrow> vec3 \<Rightarrow> f32 stores" where
  "r_80_16_5 temp0 gindex lindex =
    (let gidx0 = vx gindex;
         lidx0 = vx lindex;
         alu0 = gidx0 + lidx0 * 5 + (- 74);
         alu1 = select alu0 0 (alu0 <s 0);
         alu2 = - alu1;
         alu3 = select alu2 (- 5) (alu2 <s (- 5))
     in if (\<not> (lidx0 \<noteq> 0)) then
       (let acc0 = (0 :: i32);
            acc0 = for_loop 16 (\<lambda>ridx1001 acc0.
                 let val0 = rd temp0 ridx1001;
                     acc0 = acc0 + val0
                 in acc0) acc0
        in [(gidx0, (f32_of_i32 (acc0 + (- 1))) + (lit (1 / 2)))])
     else [])"

definition r_5_8_10_4 :: "vec3 \<Rightarrow> vec3 \<Rightarrow> f32 stores" where
  "r_5_8_10_4 gindex lindex =
    (let gidx0 = vx gindex;
         lidx0 = vx lindex;
         precast0 = gidx0;
         precast1 = push_bit 3 precast0;
         alu0 = lidx0 + precast1
     in [(alu0, (f32_of_i32 alu0) + (lit (1 / 2)))])"

definition r_5_4_20 :: "vec3 \<Rightarrow> vec3 \<Rightarrow> f32 stores" where
  "r_5_4_20 gindex lindex =
    (let gidx0 = vx gindex;
         lidx0 = vx lindex;
         precast0 = gidx0;
         precast1 = push_bit 2 precast0;
         alu0 = lidx0 + precast1;
         alu1 = select 1 0 (gidx0 <s 1);
         alu2 = select 1 0 (gidx0 <s 2);
         alu3 = select 1 0 (gidx0 <s 3);
         alu4 = select 1 0 (gidx0 <s 4);
         alu5 = select 1 0 (alu0 <s 1);
         alu6 = select 1 0 (alu0 <s 2);
         alu7 = select 1 0 (alu0 <s 3);
         alu8 = select 1 0 (alu0 <s 5);
         alu9 = select 1 0 (alu0 <s 6);
         alu10 = select 1 0 (alu0 <s 7);
         alu11 = select 1 0 (alu0 <s 9);
         alu12 = select 1 0 (alu0 <s 10);
         alu13 = select 1 0 (alu0 <s 11);
         alu14 = select 1 0 (alu0 <s 13);
         alu15 = select 1 0 (alu0 <s 14);
         alu16 = select 1 0 (alu0 <s 15);
         alu17 = select 1 0 (alu0 <s 17);
         alu18 = select 1 0 (alu0 <s 18);
         alu19 = select 1 0 (alu0 <s 19)
     in [(alu0, (f32_of_i32 (alu18 + alu19 + alu17 + alu4 + alu16 + alu15 + alu14 + alu3 + alu13 + alu12 + alu11 + alu2 + alu10 + alu9 + alu8 + alu1 + alu7 + alu6 + alu5)) + (lit (1 / 2)))])"

definition E_175_16_3 :: "vec3 \<Rightarrow> vec3 \<Rightarrow> f32 stores" where
  "E_175_16_3 gindex lindex =
    (let gidx0 = vx gindex;
         lidx0 = vx lindex;
         precast0 = gidx0;
         alu0 = gidx0 * 48 + lidx0 * 3;
         precast1 = push_bit 4 precast0;
         alu1 = lidx0 + precast1;
         alu2 = alu1 <s 2133;
         alu3 = alu1 <s 2666;
         alu4 = alu0 <s 6398;
         alu5 = alu0 <s 6400;
         alu6 = alu0 <s 7999;
         alu7 = alu0 <s 8000;
         alu8 = select 0 8 alu2;
         alu9 = select 32 0 alu3;
         alu10 = select 0 8 alu4;
         alu11 = select 0 8 alu5;
         alu12 = select 32 0 alu6;
         alu13 = select 32 0 alu7;
         alu14 = select 0 16 ((\<not> alu2) \<and> alu6);
         alu16 = select 0 16 ((\<not> alu4) \<and> alu3);
         alu18 = select 0 16 ((\<not> alu5) \<and> alu7)
     in [(alu0 + 1, f32_of_i32 (alu8 + alu14 + alu12)),
         (alu0 + 2, f32_of_i32 (alu10 + alu16 + alu9)),
         (alu0, f32_of_i32 (alu11 + alu18 + alu13))])"

section \<open>Cell centres\<close>

definition centre :: "nat \<Rightarrow> f32" where
  "centre n = Fin (of_nat n + 1 / 2)"

lemma is_fp_centre: "n < 2 ^ 20 \<Longrightarrow> is_fp (centre n)"
proof -
  assume n: "n < 2 ^ 20"
  have x: "of_nat n + 1 / 2 = (of_int (2 * int n + 1) * pow2 (- 1) :: rat)" by (simp add: power_int_minus)
  have "\<bar>2 * int n + 1\<bar> < 2 ^ 24" using n by simp
  from repr_int_pow2[OF this, of "- 126" "- 1"] have "repr 24 (- 126) (of_nat n + 1 / 2)" unfolding x by simp
  moreover have "of_nat n + 1 / 2 < pow2 128"
  proof -
    have "(of_nat n :: rat) < of_nat (2 ^ 20)" using n by (simp only: of_nat_less_iff)
    then have "of_nat n + 1 / 2 < (2097152 :: rat)" by simp
    moreover have "(2097152 :: rat) = pow2 21" by simp
    moreover have "pow2 21 < pow2 128" by (rule pow2_strict_mono) simp
    ultimately show ?thesis by linarith
  qed
  ultimately show ?thesis by (simp add: centre_def)
qed

lemma f32_of_nat_half: "n < 2 ^ 20 \<Longrightarrow> f32_of_i32 (of_nat n) + lit (1 / 2) = centre n"
proof -
  assume n: "n < 2 ^ 20"
  have "is_fp (centre 0)" by (rule is_fp_centre) simp
  then have h: "(lit (1 / 2) :: f32) = Fin (1 / 2)" by (intro lit_exact) (simp add: centre_def)
  have "\<bar>int n\<bar> \<le> 2 ^ 24" using n by simp
  from is_fp_f32_of_int[OF this] have i: "f32_of_i32 (of_nat n) = Fin (of_nat n)"
    using n by (simp add: f32_of_i32_def sint_of_nat_i32 lit_exact)
  have "(rnd s (of_nat n + 1 / 2) :: f32) = centre n" for s
    using rnd_exact[OF is_fp_centre[OF n, unfolded centre_def], of s] by (simp add: centre_def)
  then show ?thesis unfolding h i by (simp add: plus_fp_def)
qed

lemma lane_index: "(of_nat lx + push_bit b (of_nat gx) :: i32) = of_nat (2 ^ b * gx + lx)"
  by (simp add: push_bit_of_nat_i32)

lemma sless_numeral: "a < 2 ^ 31 \<Longrightarrow> numeral k < (2 :: nat) ^ 31 \<Longrightarrow> (of_nat a :: i32) <s numeral k \<longleftrightarrow> a < numeral k"
  using sless_of_nat[of a "numeral k"] by simp

lemma sless_one: "a < 2 ^ 31 \<Longrightarrow> (of_nat a :: i32) <s 1 \<longleftrightarrow> a < 1"
  using sless_of_nat[of a 1] by simp

lemma grid40_value:
  assumes "gx < 5" and "lx < 8"
  shows "launch r_5_8_10_4 (gx, gy, gz) (lx, ly, lz) = [(of_nat (8 * gx + lx), centre (8 * gx + lx))]"
  unfolding r_5_8_10_4_def launch_def Let_def vec_simps lane_index using f32_of_nat_half[of "8 * gx + lx"] assms by simp

interpretation grid40: tiled_kernel 5 8 1 "launch r_5_8_10_4" centre
  by unfold_locales (simp_all add: grid40_value)

text \<open>The thresholds that the sum of comparisons leaves out are those the groups of four jump over.\<close>

lemma grid20_value:
  assumes "gx < 5" and "lx < 4"
  shows "launch r_5_4_20 (gx, gy, gz) (lx, ly, lz) = [(of_nat (4 * gx + lx), centre (4 * gx + lx))]"
proof -
  define a where "a = 2 ^ 2 * gx + lx"
  have a: "a < 20" "gx = a div 4" "4 * gx + lx = a" using assms by (auto simp: a_def)
  have step: "select 1 0 (b < k) = (of_nat (of_bool (k \<le> b)) :: i32)" for b k :: nat by (simp add: select_def)
  have all: "\<forall>a<20. of_bool (18 \<le> a) + of_bool (19 \<le> a) + of_bool (17 \<le> a) + of_bool (4 \<le> a div 4) + of_bool (15 \<le> a) + of_bool (14 \<le> a) + of_bool (13 \<le> a) + of_bool (3 \<le> a div 4) + of_bool (11 \<le> a) + of_bool (10 \<le> a) + of_bool (9 \<le> a) + of_bool (2 \<le> a div 4) + of_bool (7 \<le> a) + of_bool (6 \<le> a) + of_bool (5 \<le> a) + of_bool (1 \<le> a div 4) + of_bool (3 \<le> a) + of_bool (2 \<le> a) + of_bool (1 \<le> a) = (a :: nat)"
    by code_simp
  have "launch r_5_4_20 (gx, gy, gz) (lx, ly, lz) = [(of_nat a, f32_of_i32 (of_nat (of_bool (18 \<le> a) + of_bool (19 \<le> a) + of_bool (17 \<le> a) + of_bool (4 \<le> a div 4) + of_bool (15 \<le> a) + of_bool (14 \<le> a) + of_bool (13 \<le> a) + of_bool (3 \<le> a div 4) + of_bool (11 \<le> a) + of_bool (10 \<le> a) + of_bool (9 \<le> a) + of_bool (2 \<le> a div 4) + of_bool (7 \<le> a) + of_bool (6 \<le> a) + of_bool (5 \<le> a) + of_bool (1 \<le> a div 4) + of_bool (3 \<le> a) + of_bool (2 \<le> a) + of_bool (1 \<le> a))) + lit (1 / 2))]"
    unfolding r_5_4_20_def launch_def Let_def vec_simps lane_index a_def[symmetric]
    using a by (simp add: sless_numeral sless_one step del: of_nat_of_bool)
  also have "\<dots> = [(of_nat a, centre a)]" using all a(1) f32_of_nat_half[of a] by simp
  finally show ?thesis by (simp only: a(3))
qed

interpretation grid20: tiled_kernel 5 4 1 "launch r_5_4_20" centre
  by unfold_locales (simp_all add: grid20_value)

text \<open>The cumulative sum over 16 lanes, each of which adds at most five ones.\<close>

definition ones :: "nat \<Rightarrow> nat \<Rightarrow> nat" where
  "ones g l = min 5 (g + 5 * l - 74)"

lemma ones_sum: "g < 80 \<Longrightarrow> fold (\<lambda>l a. a + ones g l) [0..<16] 0 = Suc g"
proof -
  have "\<forall>g<80. fold (\<lambda>l a. a + ones g l) [0..<16] 0 = Suc g" by code_simp
  then show "g < 80 \<Longrightarrow> ?thesis" by blast
qed

lemma sint_minus_of_nat: "n < 2 ^ 31 \<Longrightarrow> sint (- of_nat n :: i32) = - int n"
  using signed_take_bit_int_eq_self[of 31 "- int n"] by (simp add: signed_of_int[symmetric, of 31] sint_word_ariths(4)[of "of_nat n :: i32"] sint_of_nat_i32)

definition lane_word :: "nat \<Rightarrow> nat \<Rightarrow> i32" where
  "lane_word gx lx = (let a = of_nat gx + of_nat lx * 5 + (- 74); b = select a 0 (a <s 0)
     in - select (- b) (- 5) ((- b) <s (- 5)))"

interpretation lane_counts: tiled_kernel 1 16 1 "\<lambda>_. launch r_80_16_5_shared (gx, gy, gz)" "lane_word gx" for gx gy gz
  by unfold_locales (simp_all add: tile_kernel r_80_16_5_shared_def lane_word_def)

lemma lane_ones:
  assumes "gx < 80" and "lx < 16"
  shows "lane_word gx lx = of_nat (ones gx lx)"
proof (cases "74 \<le> gx + 5 * lx")
  case True
  define d where "d = gx + 5 * lx - 74"
  have d: "d < 2 ^ 31" using assms by (simp add: d_def)
  have "(of_nat gx + of_nat lx * 5 + - 74 :: i32) = of_nat (gx + 5 * lx) - of_nat 74" by simp
  also have "\<dots> = of_nat d" unfolding d_def by (rule of_nat_diff[OF True, symmetric])
  finally have a: "(of_nat gx + of_nat lx * 5 + - 74 :: i32) = of_nat d" .
  have c: "\<not> (of_nat d :: i32) <s 0" "(- of_nat d :: i32) <s - 5 \<longleftrightarrow> 5 < d"
    using d sint_of_nat_i32[OF d] sint_minus_of_nat[OF d] sint_minus_of_nat[of 5] by (simp_all add: word_sless_alt)
  show ?thesis
    unfolding lane_word_def Let_def a using c by (simp add: select_def ones_def d_def)
next
  case False
  define d where "d = 74 - (gx + 5 * lx)"
  have d: "d < 2 ^ 31" "0 < d" using False by (simp_all add: d_def)
  have "(of_nat gx + of_nat lx * 5 + - 74 :: i32) = - (of_nat 74 - of_nat (gx + 5 * lx))" by simp
  also have "\<dots> = - of_nat d" unfolding d_def using False by (subst of_nat_diff) simp_all
  finally have a: "(of_nat gx + of_nat lx * 5 + - 74 :: i32) = - of_nat d" .
  have c: "(- of_nat d :: i32) <s 0" "\<not> (0 :: i32) <s - 5"
    using d sint_minus_of_nat[OF d(1)] sint_minus_of_nat[of 5] by (simp_all add: word_sless_alt)
  have "ones gx lx = 0" using False by (simp add: ones_def)
  then show ?thesis
    unfolding lane_word_def Let_def a using c by (simp add: select_def)
qed

lemma grid80_value:
  assumes "cells t = map (lane_word gx) [0..<16]" and "gx < 80" and "lx < 16"
  shows "launch (r_80_16_5 t) (gx, gy, gz) (lx, ly, lz) = (if lx = 0 then [(of_nat gx, centre gx)] else [])"
proof -
  have "fold (\<lambda>q a. a + rd t (of_nat q)) [0..<16] 0 = fold (\<lambda>q a. a + of_nat (ones gx q)) [0..<16] (0 :: i32)"
    by (rule fold_cong) (simp_all add: rd_of_nat assms(1) lane_ones assms(2))
  also have "\<dots> = of_nat (fold (\<lambda>l a. a + ones gx l) [0..<16] 0)"
  proof -
    have "fold (\<lambda>q a. a + of_nat (ones gx q)) ls (of_nat b :: i32) = of_nat (fold (\<lambda>l a. a + ones gx l) ls b)" for ls b
      by (induction ls arbitrary: b) (simp_all flip: of_nat_add)
    from this[of "[0..<16]" 0] show ?thesis by simp
  qed
  finally have "fold (\<lambda>q a. a + rd t (of_nat q)) [0..<16] 0 + - 1 = (of_nat gx :: i32)"
    using ones_sum[OF assms(2)] by simp
  moreover have "(of_nat lx :: i32) = 0 \<longleftrightarrow> lx = 0" using of_nat_i32_inject[of lx 0] assms(3) by simp
  ultimately show ?thesis using f32_of_nat_half[of gx] assms(2)
    unfolding r_80_16_5_def launch_def Let_def vec_simps for_loop_nat by simp
qed

lemma grid80_contract:
  assumes "\<And>g. cells (tmp g) = map (lane_word (fst g)) [0..<16]"
  shows "kernel_contract (80, 1, 1) (16, 1, 1) (\<lambda>g. launch (r_80_16_5 (tmp g)) g) 80 centre"
proof
  fix g l :: dim and i :: i32 and v :: f32
  assume "g \<in> set (dims (80, 1, 1))" "l \<in> set (dims (16, 1, 1))" and iv: "(i, v) \<in> set (launch (r_80_16_5 (tmp g)) g l)"
  then obtain gx lx where gl: "g = (gx, 0, 0)" "gx < 80" "l = (lx, 0, 0)" "lx < 16" by (elim dimsE) auto
  then show "\<exists>j<80. i = of_nat j \<and> v = centre j"
    using iv grid80_value[OF _ gl(2,4), of "tmp g" 0 0 0 0] assms[of g] by (auto split: if_splits)
next
  fix j :: nat
  assume j: "j < 80"
  have "(j, 0, 0) \<in> set (dims (80, 1, 1))" "(0, 0, 0) \<in> set (dims (16, 1, 1))" using j by (simp_all add: dims_iff)
  moreover have "(of_nat j, centre j) \<in> set (launch (r_80_16_5 (tmp (j, 0, 0))) (j, 0, 0) (0, 0, 0))"
    using grid80_value[OF _ j, of "tmp (j, 0, 0)" 0 0 0 0 0] assms[of "(j, 0, 0)"] j by simp
  ultimately show "\<exists>g\<in>set (dims (80, 1, 1)). \<exists>l\<in>set (dims (16, 1, 1)). (of_nat j, centre j) \<in> set (launch (r_80_16_5 (tmp g)) g l)"
    by blast
qed simp

section \<open>Cell sizes\<close>

definition stride :: "nat \<Rightarrow> f32" where
  "stride a = Fin (if a < 6400 then 8 else if a < 8000 then 16 else 32)"

lemma tile_index: "(of_nat gx * 48 + of_nat lx * 3 :: i32) = of_nat (3 * (16 * gx + lx))"
  by simp

text \<open>The three levels as sums of guarded constants.\<close>

lemma stride_sum:
  assumes "c8 \<longleftrightarrow> a < 6400" and "c16 \<longleftrightarrow> a < 8000"
  shows "f32_of_i32 (select 0 8 c8 + select 0 16 (\<not> c8 \<and> c16) + select 32 0 c16) = stride a"
proof -
  have "(lit (of_int (sint (of_nat n :: i32))) :: f32) = Fin (of_nat n)" if "n < 2 ^ 20" for n
  proof -
    have "\<bar>int n\<bar> \<le> 2 ^ 24" "n < 2 ^ 31" using that by simp_all
    then show ?thesis using is_fp_f32_of_int[of "int n"] by (simp add: sint_of_nat_i32 lit_exact)
  qed
  from this[of 8] this[of 16] this[of 32] show ?thesis
    using assms by (auto simp: select_def stride_def f32_of_i32_def)
qed

text \<open>The tests the kernels make for the three anchors of an invocation.\<close>

lemma level_tests:
  assumes "b < 2800"
  shows "(of_nat b :: i32) <s 2133 \<longleftrightarrow> 3 * b + 1 < 6400" and "(of_nat b :: i32) <s 2666 \<longleftrightarrow> 3 * b + 2 < 8000"
    and "(of_nat (3 * b) :: i32) <s 6398 \<longleftrightarrow> 3 * b + 2 < 6400" and "(of_nat (3 * b) :: i32) <s 6400 \<longleftrightarrow> 3 * b < 6400"
    and "(of_nat (3 * b) :: i32) <s 7999 \<longleftrightarrow> 3 * b + 1 < 8000" and "(of_nat (3 * b) :: i32) <s 8000 \<longleftrightarrow> 3 * b < 8000"
  using assms sless_of_nat[of b 2133] sless_of_nat[of b 2666] sless_of_nat[of "3 * b" 6398]
    sless_of_nat[of "3 * b" 6400] sless_of_nat[of "3 * b" 7999] sless_of_nat[of "3 * b" 8000]
  by (simp_all del: of_nat_mult)

lemma stride_value:
  assumes "gx < 175" and "lx < 16"
  defines "a \<equiv> 3 * (16 * gx + lx)"
  shows "launch E_175_16_3 (gx, gy, gz) (lx, ly, lz) =
    [(of_nat (a + 1), stride (a + 1)), (of_nat (a + 2), stride (a + 2)), (of_nat a, stride a)]"
proof -
  define b where "b = 16 * gx + lx"
  have b: "b < 2800" "a = 3 * b" "2 ^ 4 * gx + lx = b" using assms(1,2) by (simp_all add: b_def a_def)
  note c = level_tests[OF b(1), folded b(2)]
  show ?thesis
    unfolding E_175_16_3_def launch_def Let_def vec_simps lane_index tile_index a_def[symmetric] b(3)
    using stride_sum[OF c(1,5)] stride_sum[OF c(3,2)] stride_sum[OF c(4,6)] by (simp add: of_nat_add)
qed

interpretation strides: tiled_kernel 175 16 3 "launch E_175_16_3" stride
  by unfold_locales (auto simp: stride_value insert_commute)

end
