(* ===== verification/Nms.thy ===== *)
theory Nms
  imports TopK
begin

unbundle bit_operations_syntax

text \<open>
  The non-maximum suppression of the detector (\<open>server/cherum/static/net.js\<close>): the areas of the
  300 best boxes, the flag of each box that no better box of its class overlaps it by more than
  0.45 (intersection over union), and the rows with the suppressed boxes set to zero.
\<close>

section \<open>Kernels\<close>

definition E_25_3_4n1 :: "f32 buf \<Rightarrow> vec3 \<Rightarrow> vec3 \<Rightarrow> f32 stores" where
  "E_25_3_4n1 data1 gindex lindex =
    (let gidx0 = vx gindex;
         lidx0 = vx lindex;
         alu0 = gidx0 * 72 + lidx0 * 24;
         val0 = rd data1 alu0;
         val1 = rd data1 (alu0 + 1);
         val2 = rd data1 (alu0 + 2);
         val3 = rd data1 (alu0 + 3);
         val4 = rd data1 (alu0 + 6);
         val5 = rd data1 (alu0 + 7);
         val6 = rd data1 (alu0 + 8);
         val7 = rd data1 (alu0 + 9);
         val8 = rd data1 (alu0 + 12);
         val9 = rd data1 (alu0 + 13);
         val10 = rd data1 (alu0 + 14);
         val11 = rd data1 (alu0 + 15);
         val12 = rd data1 (alu0 + 18);
         val13 = rd data1 (alu0 + 19);
         val14 = rd data1 (alu0 + 20);
         val15 = rd data1 (alu0 + 21);
         precast0 = lidx0;
         precast1 = push_bit 2 precast0;
         alu1 = gidx0 * 12 + precast1
     in [(alu1, (val2 - val0) * (val3 - val1)),
         (alu1 + 1, (val6 - val4) * (val7 - val5)),
         (alu1 + 2, (val10 - val8) * (val11 - val9)),
         (alu1 + 3, (val14 - val12) * (val15 - val13))])"

definition r_75_4_75_4 :: "f32 buf \<Rightarrow> f32 buf \<Rightarrow> vec3 \<Rightarrow> vec3 \<Rightarrow> f32 stores" where
  "r_75_4_75_4 data1 data2 gindex lindex =
    (let gidx0 = vx gindex;
         lidx0 = vx lindex;
         precast0 = gidx0;
         precast1 = push_bit 2 precast0;
         alu0 = lidx0 + precast1;
         val0 = rd data2 alu0;
         alu1 = gidx0 * 24 + lidx0 * 6;
         val1 = rd data1 alu1;
         val2 = rd data1 (alu1 + 1);
         val3 = rd data1 (alu1 + 2);
         val4 = rd data1 (alu1 + 3);
         val5 = rd data1 (alu1 + 5);
         alu2 = - val3;
         alu3 = - val4;
         acc0 = (0 :: i32);
         acc0 = for_loop 75 (\<lambda>ridx2 acc0.
             let precast2 = ridx2;
                 alu4 = ridx2 * 24;
                 val6 = rd data1 alu4;
                 val7 = rd data1 (alu4 + 1);
                 val8 = rd data1 (alu4 + 2);
                 val9 = rd data1 (alu4 + 3);
                 val10 = rd data1 (alu4 + 5);
                 val11 = rd data1 (alu4 + 6);
                 val12 = rd data1 (alu4 + 7);
                 val13 = rd data1 (alu4 + 8);
                 val14 = rd data1 (alu4 + 9);
                 val15 = rd data1 (alu4 + 11);
                 val16 = rd data1 (alu4 + 12);
                 val17 = rd data1 (alu4 + 13);
                 val18 = rd data1 (alu4 + 14);
                 val19 = rd data1 (alu4 + 15);
                 val20 = rd data1 (alu4 + 17);
                 val21 = rd data1 (alu4 + 18);
                 val22 = rd data1 (alu4 + 19);
                 val23 = rd data1 (alu4 + 20);
                 val24 = rd data1 (alu4 + 21);
                 val25 = rd data1 (alu4 + 23);
                 precast3 = push_bit 2 precast2;
                 cast0 = precast3;
                 val26 = rd data2 cast0;
                 val27 = rd data2 (cast0 + 1);
                 val28 = rd data2 (cast0 + 2);
                 val29 = rd data2 (cast0 + 3);
                 alu5 = - val8;
                 alu6 = - val9;
                 alu7 = - val13;
                 alu8 = - val14;
                 alu9 = - val18;
                 alu10 = - val19;
                 alu11 = - val23;
                 alu12 = - val24;
                 alu13 = alu0 + ridx2 * 1194;
                 alu14 = select alu5 alu2 (alu5 < alu2);
                 alu15 = select alu6 alu3 (alu6 < alu3);
                 alu16 = select alu7 alu2 (alu7 < alu2);
                 alu17 = select alu8 alu3 (alu8 < alu3);
                 alu18 = select alu9 alu2 (alu9 < alu2);
                 alu19 = select alu10 alu3 (alu10 < alu3);
                 alu20 = select alu11 alu2 (alu11 < alu2);
                 alu21 = select alu12 alu3 (alu12 < alu3);
                 alu22 = select val7 val2 (val7 < val2);
                 alu23 = (- alu15) - alu22;
                 alu24 = select val11 val1 (val11 < val1);
                 alu25 = (- alu16) - alu24;
                 alu26 = select val12 val2 (val12 < val2);
                 alu27 = (- alu17) - alu26;
                 alu28 = select val16 val1 (val16 < val1);
                 alu29 = (- alu18) - alu28;
                 alu30 = select val17 val2 (val17 < val2);
                 alu31 = (- alu19) - alu30;
                 alu32 = select val21 val1 (val21 < val1);
                 alu33 = (- alu20) - alu32;
                 alu34 = select val22 val2 (val22 < val2);
                 alu35 = (- alu21) - alu34;
                 alu36 = select val6 val1 (val6 < val1);
                 alu37 = (- alu14) - alu36;
                 alu38 = select 0 alu37 (0 < alu37);
                 alu39 = select 0 alu23 (0 < alu23);
                 alu40 = alu38 * alu39;
                 alu41 = select 0 (alu40 * (1 / ((val26 + val0) - alu40))) ((i32_mod (alu13 + 1197) 1198) <s 599);
                 alu42 = select 0 alu25 (0 < alu25);
                 alu43 = select 0 alu27 (0 < alu27);
                 alu44 = alu42 * alu43;
                 alu45 = select 0 (alu44 * (1 / ((val27 + val0) - alu44))) ((i32_mod (alu13 + 1196) 1198) <s 599);
                 alu46 = select 0 alu29 (0 < alu29);
                 alu47 = select 0 alu31 (0 < alu31);
                 alu48 = alu46 * alu47;
                 alu49 = select 0 (alu48 * (1 / ((val28 + val0) - alu48))) ((i32_mod (alu13 + 1195) 1198) <s 599);
                 alu50 = select 0 alu33 (0 < alu33);
                 alu51 = select 0 alu35 (0 < alu35);
                 alu52 = alu50 * alu51;
                 alu53 = select 0 (alu52 * (1 / ((val29 + val0) - alu52))) ((i32_mod (alu13 + 1194) 1198) <s 599);
                 acc0 = (i32_of_bool (((lit (9 / 20)) < alu53) \<and> (\<not> (\<not> feq val25 val5)))) + (i32_of_bool (((lit (9 / 20)) < alu49) \<and> (\<not> (\<not> feq val20 val5)))) + (i32_of_bool (((lit (9 / 20)) < alu45) \<and> (\<not> (\<not> feq val15 val5)))) + acc0 + (i32_of_bool (((lit (9 / 20)) < alu41) \<and> (\<not> (\<not> feq val10 val5))))
             in acc0) acc0
     in [(alu0, f32_of_bool (\<not> (acc0 \<noteq> 0)))])"

definition E_75_4_2_3 :: "f32 buf \<Rightarrow> f32 buf \<Rightarrow> vec3 \<Rightarrow> vec3 \<Rightarrow> f32 stores" where
  "E_75_4_2_3 data1 data2 gindex lindex =
    (let gidx0 = vx gindex;
         lidx0 = vx lindex;
         lidx1 = vy lindex;
         precast0 = gidx0;
         alu0 = gidx0 * 24 + lidx0 * 6 + lidx1 * 3;
         val0 = rd data1 alu0;
         alu1 = alu0 + 1;
         val1 = rd data1 alu1;
         alu2 = alu0 + 2;
         val2 = rd data1 alu2;
         precast1 = push_bit 2 precast0;
         val3 = rd data2 (lidx0 + precast1)
     in [(alu1, val1 * val3),
         (alu2, val2 * val3),
         (alu0, val0 * val3)])"

section \<open>What they compute\<close>

definition box_area :: "(nat \<Rightarrow> f32) \<Rightarrow> nat \<Rightarrow> f32" where
  "box_area row i = (row (6 * i + 2) - row (6 * i)) * (row (6 * i + 3) - row (6 * i + 1))"

definition larger :: "f32 \<Rightarrow> f32 \<Rightarrow> f32" where
  "larger a b = select a b (a < b)"

definition positive_part :: "f32 \<Rightarrow> f32" where
  "positive_part x = select 0 x (0 < x)"

text \<open>The length of the overlap of two intervals given by their lower and upper ends.\<close>

definition shared_length :: "f32 \<Rightarrow> f32 \<Rightarrow> f32 \<Rightarrow> f32 \<Rightarrow> f32" where
  "shared_length lo hi lo' hi' = positive_part (- larger (- hi') (- hi) - larger lo' lo)"

definition box_iou :: "(nat \<Rightarrow> f32) \<Rightarrow> (nat \<Rightarrow> f32) \<Rightarrow> nat \<Rightarrow> nat \<Rightarrow> f32" where
  "box_iou row area i j =
     (let both = shared_length (row (6 * i)) (row (6 * i + 2)) (row (6 * j)) (row (6 * j + 2)) *
            shared_length (row (6 * i + 1)) (row (6 * i + 3)) (row (6 * j + 1)) (row (6 * j + 3))
      in both * (1 / ((area j + area i) - both)))"

text \<open>Box \<open>j\<close> suppresses box \<open>i\<close>, as one bit of the shader's sum.\<close>

definition beats :: "(nat \<Rightarrow> f32) \<Rightarrow> (nat \<Rightarrow> f32) \<Rightarrow> nat \<Rightarrow> nat \<Rightarrow> bool" where
  "beats row area i j \<longleftrightarrow> lit (9 / 20) < select 0 (box_iou row area i j) (j < i) \<and>
     feq (row (6 * j + 5)) (row (6 * i + 5))"

definition kept_flag :: "(nat \<Rightarrow> f32) \<Rightarrow> (nat \<Rightarrow> f32) \<Rightarrow> nat \<Rightarrow> f32" where
  "kept_flag row area i = f32_of_bool ((\<Sum>j<300. i32_of_bool (beats row area i j)) = 0)"

interpretation areas: tiled_kernel 25 3 4 "launch (E_25_3_4n1 c)" "box_area (arr c)" for c
  by unfold_locales
    (simp_all add: tile_kernel E_25_3_4n1_def box_area_def push_bit_eq_mult algebra_simps)

text \<open>The test that \<open>j < i\<close>, as the shader computes it.\<close>

lemma earlier_test:
  assumes "i < 300" and "m < 75" and "e < 4"
  shows "i32_mod (of_nat (i + 1194 * m + (1197 - e))) 1198 <s 599 \<longleftrightarrow> 4 * m + e < i"
proof -
  have "i32_mod (of_nat (i + 1194 * m + (1197 - e))) 1198 = of_nat ((i + 1194 * m + (1197 - e)) mod 1198)"
    using i32_mod_of_nat[of "i + 1194 * m + (1197 - e)" 1198] assms by simp
  moreover have "(of_nat ((i + 1194 * m + (1197 - e)) mod 1198) :: i32) <s of_nat 599 \<longleftrightarrow>
      (i + 1194 * m + (1197 - e)) mod 1198 < 599" by (rule sless_of_nat) simp_all
  moreover have "(i + 1194 * m + (1197 - e)) mod 1198 < 599 \<longleftrightarrow> 4 * m + e < i"
  proof (cases "4 * m + e < i")
    case True
    then have "i + 1194 * m + (1197 - e) = (i - (4 * m + e) - 1) + 1198 * (m + 1)" using assms by simp
    then have "(i + 1194 * m + (1197 - e)) mod 1198 = (i - (4 * m + e) - 1) mod 1198"
      by (simp only: mod_mult_self2)
    then show ?thesis using True assms by simp
  next
    case False
    then have "i + 1194 * m + (1197 - e) = (1197 - (4 * m + e - i)) + 1198 * m" using assms by simp
    then have "(i + 1194 * m + (1197 - e)) mod 1198 = (1197 - (4 * m + e - i)) mod 1198"
      by (simp only: mod_mult_self2)
    then show ?thesis using False assms by simp
  qed
  ultimately show ?thesis by simp
qed

lemma keep_store:
  assumes "gx < 75" and "lx < 4"
  shows "launch (r_75_4_75_4 c a) (gx, 0, 0) (lx, 0, 0) =
    [(of_nat (4 * gx + lx), kept_flag (arr c) (arr a) (4 * gx + lx))]"
proof -
  define i where "i = 4 * gx + lx"
  have i: "i < 300" using assms by (simp add: i_def)
  have test: "i32_mod (of_nat lx + of_nat gx * 4 + of_nat m * 1194 + 1197) 1198 <s 599 \<longleftrightarrow> 4 * m < i"
    "i32_mod (of_nat lx + of_nat gx * 4 + of_nat m * 1194 + 1196) 1198 <s 599 \<longleftrightarrow> 4 * m + 1 < i"
    "i32_mod (of_nat lx + of_nat gx * 4 + of_nat m * 1194 + 1195) 1198 <s 599 \<longleftrightarrow> 4 * m + 2 < i"
    "i32_mod (of_nat lx + of_nat gx * 4 + of_nat m * 1194 + 1194) 1198 <s 599 \<longleftrightarrow> 4 * m + 3 < i"
    if "m < 75" for m
    using earlier_test[OF i that, of 0] earlier_test[OF i that, of 1] earlier_test[OF i that, of 2]
      earlier_test[OF i that, of 3] by (simp_all add: i_def algebra_simps)
  let ?bit = "\<lambda>m e w. i32_of_bool (lit (9 / 20) < select 0 (box_iou (arr c) (arr a) i (4 * m + e))
      (i32_mod (of_nat lx + of_nat gx * 4 + of_nat m * 1194 + w) 1198 <s 599) \<and>
      feq (arr c (6 * (4 * m + e) + 5)) (arr c (6 * i + 5)))"
  have "(\<Sum>j<300. i32_of_bool (beats (arr c) (arr a) i j)) = fold (\<lambda>m t.
      i32_of_bool (beats (arr c) (arr a) i (4 * m + 3)) + i32_of_bool (beats (arr c) (arr a) i (4 * m + 2)) +
      i32_of_bool (beats (arr c) (arr a) i (4 * m + 1)) + t + i32_of_bool (beats (arr c) (arr a) i (4 * m))) [0..<75] 0"
    using fold_quads(1)[of "\<lambda>j. i32_of_bool (beats (arr c) (arr a) i j)" 75] by simp
  also have "\<dots> = fold (\<lambda>m t. ?bit m 3 1194 + ?bit m 2 1195 + ?bit m 1 1196 + t + ?bit m 0 1197) [0..<75] 0"
    by (intro fold_cong refl ext) (simp add: beats_def test)
  finally have sum: "(\<Sum>j<300. i32_of_bool (beats (arr c) (arr a) i j)) =
      fold (\<lambda>m t. ?bit m 3 1194 + ?bit m 2 1195 + ?bit m 1 1196 + t + ?bit m 0 1197) [0..<75] 0" .
  show ?thesis
    unfolding kept_flag_def i_def[symmetric] sum
    by (simp add: tile_kernel r_75_4_75_4_def box_iou_def shared_length_def positive_part_def
      larger_def push_bit_eq_mult i_def algebra_simps)
qed

interpretation keeps: tiled_kernel 75 4 1 "launch (r_75_4_75_4 c a)" "kept_flag (arr c) (arr a)" for c a
  by unfold_locales (simp_all add: keep_store)

text \<open>The rows, multiplied by the flag of their box.\<close>

definition masked :: "(nat \<Rightarrow> f32) \<Rightarrow> (nat \<Rightarrow> f32) \<Rightarrow> nat \<Rightarrow> f32" where
  "masked row flag j = row j * flag (j div 6)"

lemma mask_stores:
  assumes "gx < 75" and "lx < 4" and "ly < 2"
  shows "set (launch (E_75_4_2_3 c k) (gx, gy, gz) (lx, ly, lz)) =
    (\<lambda>e. (of_nat (6 * (4 * gx + lx) + 3 * ly + e), masked (arr c) (arr k) (6 * (4 * gx + lx) + 3 * ly + e))) ` {..<3}"
proof -
  have "(\<lambda>e. (of_nat (6 * (4 * gx + lx) + 3 * ly + e) :: i32, masked (arr c) (arr k) (6 * (4 * gx + lx) + 3 * ly + e))) ` {..<3} =
      (\<lambda>e. (of_nat (6 * (4 * gx + lx) + 3 * ly + e), arr c (6 * (4 * gx + lx) + 3 * ly + e) * arr k (4 * gx + lx))) ` {..<3}"
  proof (intro image_cong refl)
    fix e :: nat assume "e \<in> {..<3}"
    then have "e < 3" by (simp only: lessThan_iff)
    then have "3 * ly + e < 6" using assms(3) by simp
    then have "((3 * ly + e) + 6 * (4 * gx + lx)) div 6 = 4 * gx + lx" by (subst div_mult_self2) simp_all
    then have "(6 * (4 * gx + lx) + 3 * ly + e) div 6 = 4 * gx + lx" by (simp only: ac_simps)
    then show "(of_nat (6 * (4 * gx + lx) + 3 * ly + e) :: i32, masked (arr c) (arr k) (6 * (4 * gx + lx) + 3 * ly + e)) =
        (of_nat (6 * (4 * gx + lx) + 3 * ly + e), arr c (6 * (4 * gx + lx) + 3 * ly + e) * arr k (4 * gx + lx))"
      by (simp only: masked_def)
  qed
  then show ?thesis
    by (simp only:) (simp add: tile_kernel E_75_4_2_3_def push_bit_eq_mult algebra_simps insert_commute)
qed

interpretation masks: kernel_contract "(75, 1, 1)" "(4, 2, 1)" "launch (E_75_4_2_3 c k)" 1800
  "masked (arr c) (arr k)" for c k
proof
  fix g l :: dim and i :: i32 and v :: f32
  assume "g \<in> set (dims (75, 1, 1))" "l \<in> set (dims (4, 2, 1))"
    and iv: "(i, v) \<in> set (launch (E_75_4_2_3 c k) g l)"
  then obtain gx lx ly where gl: "g = (gx, 0, 0)" "gx < 75" "l = (lx, ly, 0)" "lx < 4" "ly < 2"
    by (elim dimsE) auto
  obtain e where e: "e < 3" "i = of_nat (6 * (4 * gx + lx) + 3 * ly + e)"
    "v = masked (arr c) (arr k) (6 * (4 * gx + lx) + 3 * ly + e)"
    using iv unfolding gl(1,3) mask_stores[OF gl(2,4,5)] by blast
  have "6 * (4 * gx + lx) + 3 * ly + e < 1800" using gl e(1) by simp
  then show "\<exists>j<1800. i = of_nat j \<and> v = masked (arr c) (arr k) j" using e by blast
next
  fix j :: nat
  assume j: "j < 1800"
  define q r where "q = j div 6" and "r = j mod 6"
  have d: "q div 4 < 75" "q mod 4 < 4" "r div 3 < 2" "r mod 3 < 3"
    using j by (simp_all add: q_def r_def less_mult_imp_div_less)
  have "6 * (4 * (q div 4) + q mod 4) + 3 * (r div 3) + r mod 3 = j"
    using div_mult_mod_eq[of j 6] by (simp add: q_def r_def)
  then have "(of_nat j, masked (arr c) (arr k) j) \<in> set (launch (E_75_4_2_3 c k) (q div 4, 0, 0) (q mod 4, r div 3, 0))"
    unfolding mask_stores[OF d(1-3)] using d(4) by (metis (no_types, lifting) imageI lessThan_iff)
  moreover have "(q div 4, 0, 0) \<in> set (dims (75, 1, 1))" "(q mod 4, r div 3, 0) \<in> set (dims (4, 2, 1))"
    using d by (simp_all add: dims_iff)
  ultimately show "\<exists>g\<in>set (dims (75, 1, 1)). \<exists>l\<in>set (dims (4, 2, 1)).
      (of_nat j, masked (arr c) (arr k) j) \<in> set (launch (E_75_4_2_3 c k) g l)" by blast
qed simp

section \<open>The meaning of the flag\<close>

text \<open>Sums of bits are counts, and 300 bits do not overflow.\<close>

lemma sum_bits: "(\<Sum>j<(n::nat). i32_of_bool (P j)) = of_nat (card {j. j < n \<and> P j})"
proof (induction n)
  case (Suc n)
  have "{j. j < Suc n \<and> P j} = (if P n then insert n {j. j < n \<and> P j} else {j. j < n \<and> P j})"
    by (auto simp: less_Suc_eq)
  then show ?case using Suc by (simp add: i32_of_bool_def)
qed simp

lemma sum_bits_0: "(n::nat) < 2 ^ 31 \<Longrightarrow> (\<Sum>j<n. i32_of_bool (P j)) = 0 \<longleftrightarrow> (\<forall>j<n. \<not> P j)"
proof -
  assume n: "n < 2 ^ 31"
  have "card {j. j < n \<and> P j} \<le> card {..<n}" by (rule card_mono) auto
  then have "(of_nat (card {j. j < n \<and> P j}) :: i32) = of_nat 0 \<longleftrightarrow> card {j. j < n \<and> P j} = 0"
    using n by (intro of_nat_i32_inject) simp_all
  then show ?thesis by (auto simp: sum_bits)
qed

text \<open>
  A box is kept when no box before it, in the order of the scores, has the same class and
  overlaps it by more than 0.45.
\<close>

definition overlaps :: "(nat \<Rightarrow> f32) \<Rightarrow> (nat \<Rightarrow> f32) \<Rightarrow> nat \<Rightarrow> nat \<Rightarrow> bool" where
  "overlaps row area i j \<longleftrightarrow> lit (9 / 20) < box_iou row area i j \<and> feq (row (6 * j + 5)) (row (6 * i + 5))"

lemma not_lit_less_0: "\<not> lit (9 / 20) < (0 :: f32)"
  using rnd_order[of 0 "9 / 20" False False, where 'p = 24 and 'w = 8] by (simp add: lit_def)

lemma kept_flag_eq:
  "i < 300 \<Longrightarrow> kept_flag row area i = (if \<exists>j<i. overlaps row area i j then 0 else 1)"
proof -
  assume i: "i < 300"
  have "beats row area i j \<longleftrightarrow> j < i \<and> overlaps row area i j" for j
    using not_lit_less_0 by (cases "j < i") (simp_all add: beats_def overlaps_def)
  then have "(\<Sum>j<300. i32_of_bool (beats row area i j)) = 0 \<longleftrightarrow> \<not> (\<exists>j<i. overlaps row area i j)"
    using i sum_bits_0[of 300 "beats row area i"] by auto
  then show ?thesis unfolding kept_flag_def f32_of_bool_def by (auto simp del: not_ex)
qed

end
