(* ===== verification/Heads.thy ===== *)
theory Heads
  imports Anchors Nms
begin

text \<open>
  The heads of the detector, passes 85 to 88 of \<open>server/cherum/static/net.js\<close>. Three tensors, one
  per grid, are read as one with 8400 anchors; for the classes a sigmoid is applied to each value,
  and for each side of the box the expectation of a softmax over 16 bins is formed in three
  passes: the maximum of the logits, the inverse of the sum of the exponentials, the weighted sum.
  The exponential \<open>exp2\<close> of the GPU is a parameter.
\<close>

section \<open>Kernels that write planes of anchors\<close>

locale planes_kernel =
  fixes N B c P :: nat and G L :: dim and k :: "dim \<Rightarrow> dim \<Rightarrow> 'a stores" and F :: "nat \<Rightarrow> nat \<Rightarrow> 'a"
    and place :: "nat \<Rightarrow> nat \<Rightarrow> nat \<Rightarrow> dim \<times> dim"
  assumes pos: "0 < c" "0 < B" and fits: "c * (B * N) * P \<le> 2 ^ 31"
    and place: "gx < N \<Longrightarrow> lx < B \<Longrightarrow> p < P \<Longrightarrow> fst (place gx lx p) \<in> set (dims G) \<and> snd (place gx lx p) \<in> set (dims L)"
    and placed: "g \<in> set (dims G) \<Longrightarrow> l \<in> set (dims L) \<Longrightarrow> \<exists>gx<N. \<exists>lx<B. \<exists>p<P. place gx lx p = (g, l)"
    and stores: "gx < N \<Longrightarrow> lx < B \<Longrightarrow> p < P \<Longrightarrow> set (k (fst (place gx lx p)) (snd (place gx lx p))) =
      (\<lambda>i. (of_nat (c * (B * N) * p + (c * (B * gx + lx) + i)), F p (c * (B * gx + lx) + i))) ` {..<c}"

sublocale planes_kernel \<subseteq> kernel_contract G L k "c * (B * N) * P" "\<lambda>j. F (j div (c * (B * N))) (j mod (c * (B * N)))"
proof
  show "c * (B * N) * P \<le> 2 ^ 31" by (rule fits)
next
  fix g l i v
  assume "g \<in> set (dims G)" "l \<in> set (dims L)" and iv: "(i, v) \<in> set (k g l)"
  then obtain gx lx p where gl: "gx < N" "lx < B" "p < P" "place gx lx p = (g, l)" using placed by blast
  then obtain e where e: "e < c" "i = of_nat (c * (B * N) * p + (c * (B * gx + lx) + e))" "v = F p (c * (B * gx + lx) + e)"
    using iv stores[OF gl(1-3)] by auto
  define a n where "a = c * (B * gx + lx) + e" and "n = c * (B * N)"
  have a: "a < n" unfolding a_def n_def by (rule tile_bound[OF gl(1,2) e(1)])
  have "n * (p + 1) \<le> n * P" using gl(3) by (intro mult_le_mono) auto
  then have "n * p + a < n * P" using a by simp
  moreover have "(n * p + a) div n = p" "(n * p + a) mod n = a" using a by simp_all
  ultimately show "\<exists>j<c * (B * N) * P. i = of_nat j \<and> v = F (j div (c * (B * N))) (j mod (c * (B * N)))"
    using e(2,3) unfolding a_def[symmetric] n_def[symmetric] by (intro exI[of _ "n * p + a"]) simp
next
  fix j assume j: "j < c * (B * N) * P"
  define n where "n = c * (B * N)"
  have n: "0 < n" using j unfolding n_def by (cases "c * (B * N) = 0") auto
  have p: "j div n < P" using j unfolding n_def[symmetric] by (simp add: less_mult_imp_div_less mult.commute)
  have "j mod n < c * (B * N)" using n by (simp add: n_def)
  note d = tile_decompose[OF this pos]
  let ?gx = "j mod n div c div B" and ?lx = "j mod n div c mod B"
  have jn: "n * (j div n) + (c * (B * ?gx + ?lx) + j mod n mod c) = j" using d(4) by simp
  have "(of_nat j, F (j div n) (j mod n)) \<in> set (k (fst (place ?gx ?lx (j div n))) (snd (place ?gx ?lx (j div n))))"
    unfolding stores[OF d(1,2) p] n_def[symmetric]
    by (rule image_eqI[where x = "j mod n mod c"]) (use d(3) jn d(4) in simp_all)
  then show "\<exists>g\<in>set (dims G). \<exists>l\<in>set (dims L). (of_nat j, F (j div (c * (B * N))) (j mod (c * (B * N)))) \<in> set (k g l)"
    using place[OF d(1,2) p] unfolding n_def[symmetric] by blast
qed

section \<open>The three grids as one\<close>

definition joined :: "f32 buf \<Rightarrow> f32 buf \<Rightarrow> f32 buf \<Rightarrow> nat \<Rightarrow> nat \<Rightarrow> f32" where
  "joined b0 b1 b2 c a = select 0 (rd b0 (of_nat (6400 * c + a))) (a < 6400) +
     select 0 (rd b1 (of_nat (1600 * c + a) - 6400)) (\<not> a < 6400 \<and> a < 8000) +
     select 0 (rd b2 (of_nat (400 * c + a) - 8000)) (\<not> a < 8000)"

lemma joined_tile:
  "joined b0 b1 b2 c (a + e) = select 0 (rd b0 (of_nat a + of_nat c * 6400 + of_nat e)) (a + e < 6400) +
     select 0 (rd b1 (of_nat a + of_nat c * 1600 + (of_nat e - 6400))) (\<not> a + e < 6400 \<and> a + e < 8000) +
     select 0 (rd b2 (of_nat a + of_nat c * 400 + (of_nat e - 8000))) (\<not> a + e < 8000)"
  by (simp add: joined_def algebra_simps)

definition bin :: "f32 buf \<Rightarrow> f32 buf \<Rightarrow> f32 buf \<Rightarrow> nat \<Rightarrow> nat \<Rightarrow> nat \<Rightarrow> f32" where
  "bin b0 b1 b2 p k a = joined b0 b1 b2 (16 * p + k) a"

lemma bin_tile:
  "bin b0 b1 b2 p k (a + e) = select 0 (rd b0 (of_nat a + of_nat p * 102400 + of_nat (6400 * k + e))) (a + e < 6400) +
     select 0 (rd b1 (of_nat a + of_nat p * 25600 + (of_nat (1600 * k + e) - 6400))) (\<not> a + e < 6400 \<and> a + e < 8000) +
     select 0 (rd b2 (of_nat a + of_nat p * 6400 + (of_nat (400 * k + e) - 8000))) (\<not> a + e < 8000)"
  by (simp add: bin_def joined_def algebra_simps)

section \<open>Class probabilities\<close>

definition E_59_175_16_3 :: "(f32 \<Rightarrow> f32) \<Rightarrow> f32 buf \<Rightarrow> f32 buf \<Rightarrow> f32 buf \<Rightarrow> vec3 \<Rightarrow> vec3 \<Rightarrow> f32 stores" where
  "E_59_175_16_3 exp2 data2 data4 data6 gindex lindex =
    (let gidx0 = vx gindex;
         gidx1 = vy gindex;
         lidx0 = vx lindex;
         precast0 = gidx0;
         alu0 = gidx0 * 48;
         alu1 = lidx0 * 3;
         alu2 = alu0 + alu1;
         alu3 = alu2 + gidx1 * 400;
         alu4 = alu2 + gidx1 * 1600;
         alu5 = alu2 + gidx1 * 6400;
         precast1 = push_bit 4 precast0;
         alu6 = lidx0 + precast1;
         alu7 = alu6 <s 2133;
         val0 = select 0 (rd data2 (alu5 + 1)) alu7;
         alu8 = alu6 <s 2666;
         alu9 = alu2 <s 6398;
         val1 = select 0 (rd data2 (alu5 + 2)) alu9;
         alu10 = alu2 <s 6400;
         val2 = select 0 (rd data2 alu5) alu10;
         alu11 = alu2 <s 7999;
         alu12 = alu2 <s 8000;
         val3 = select 0 (rd data6 (alu3 + (- 7998))) (\<not> alu8);
         val4 = select 0 (rd data6 (alu3 + (- 7999))) (\<not> alu11);
         val5 = select 0 (rd data6 (alu3 + (- 8000))) (\<not> alu12);
         val6 = select 0 (rd data4 (alu4 + (- 6399))) ((\<not> alu7) \<and> alu11);
         val7 = select 0 (rd data4 (alu4 + (- 6398))) ((\<not> alu9) \<and> alu8);
         val8 = select 0 (rd data4 (alu4 + (- 6400))) ((\<not> alu10) \<and> alu12);
         alu13 = alu0 + gidx1 * 8400 + alu1
     in [(alu13 + 1, 1 / (1 + (exp2 ((val0 + val6 + val4) * (- (lit (14426950408889634 / 10000000000000000))))))),
         (alu13 + 2, 1 / (1 + (exp2 ((val1 + val7 + val3) * (- (lit (14426950408889634 / 10000000000000000))))))),
         (alu13, 1 / (1 + (exp2 ((val2 + val8 + val5) * (- (lit (14426950408889634 / 10000000000000000)))))))])"

definition log2_e :: f32 where
  "log2_e = lit (14426950408889634 / 10000000000000000)"

definition sigmoid :: "(f32 \<Rightarrow> f32) \<Rightarrow> f32 \<Rightarrow> f32" where
  "sigmoid exp2 x = 1 / (1 + exp2 (x * - log2_e))"

lemma class_stores:
  assumes "gx < 175" and "lx < 16"
  defines "a \<equiv> 3 * (16 * gx + lx)"
  shows "set (launch (E_59_175_16_3 exp2 b0 b1 b2) (gx, p, gz) (lx, ly, lz)) =
    (\<lambda>i. (of_nat (8400 * p + (a + i)), sigmoid exp2 (joined b0 b1 b2 p (a + i)))) ` {..<3}"
proof -
  define b where "b = 16 * gx + lx"
  have b: "b < 2800" "a = 3 * b" "2 ^ 4 * gx + lx = b" using assms(1,2) by (simp_all add: b_def a_def)
  note c = level_tests[OF b(1), folded b(2)]
  have s: "of_nat gx * 48 + of_nat p * 8400 + of_nat lx * 3 = (of_nat a + of_nat p * 8400 :: i32)"
    by (simp add: a_def)
  have t: "{..<3} = {0, 1, 2 :: nat}" by auto
  show ?thesis
    unfolding E_59_175_16_3_def launch_def Let_def vec_simps lane_index tile_index s a_def[symmetric] b(3) c
      log2_e_def[symmetric] sigmoid_def[symmetric] t image_insert image_empty joined_tile
    by (simp add: algebra_simps insert_commute)
qed

section \<open>The sides of the boxes\<close>

definition r_175_4_16_3_16 :: "f32 buf \<Rightarrow> f32 buf \<Rightarrow> f32 buf \<Rightarrow> vec3 \<Rightarrow> vec3 \<Rightarrow> f32 stores" where
  "r_175_4_16_3_16 data1 data3 data5 gindex lindex =
    (let gidx0 = vx gindex;
         lidx0 = vx lindex;
         lidx1 = vy lindex;
         precast0 = gidx0;
         alu0 = gidx0 * 48;
         alu1 = lidx1 * 3;
         alu2 = alu0 + alu1;
         alu3 = alu2 + lidx0 * 6400;
         alu4 = alu2 + lidx0 * 25600;
         alu5 = alu2 + lidx0 * 102400;
         precast1 = push_bit 4 precast0;
         alu6 = lidx1 + precast1;
         alu7 = alu6 <s 2133;
         val0 = select 0 (rd data1 (alu5 + 1)) alu7;
         val1 = select 0 (rd data1 (alu5 + 6401)) alu7;
         val2 = select 0 (rd data1 (alu5 + 12801)) alu7;
         val3 = select 0 (rd data1 (alu5 + 19201)) alu7;
         val4 = select 0 (rd data1 (alu5 + 25601)) alu7;
         val5 = select 0 (rd data1 (alu5 + 32001)) alu7;
         val6 = select 0 (rd data1 (alu5 + 38401)) alu7;
         val7 = select 0 (rd data1 (alu5 + 44801)) alu7;
         val8 = select 0 (rd data1 (alu5 + 51201)) alu7;
         val9 = select 0 (rd data1 (alu5 + 57601)) alu7;
         val10 = select 0 (rd data1 (alu5 + 64001)) alu7;
         val11 = select 0 (rd data1 (alu5 + 70401)) alu7;
         val12 = select 0 (rd data1 (alu5 + 76801)) alu7;
         val13 = select 0 (rd data1 (alu5 + 83201)) alu7;
         val14 = select 0 (rd data1 (alu5 + 89601)) alu7;
         val15 = select 0 (rd data1 (alu5 + 96001)) alu7;
         alu8 = alu6 <s 2666;
         alu9 = alu2 <s 6398;
         val16 = select 0 (rd data1 (alu5 + 2)) alu9;
         val17 = select 0 (rd data1 (alu5 + 6402)) alu9;
         val18 = select 0 (rd data1 (alu5 + 12802)) alu9;
         val19 = select 0 (rd data1 (alu5 + 19202)) alu9;
         val20 = select 0 (rd data1 (alu5 + 25602)) alu9;
         val21 = select 0 (rd data1 (alu5 + 32002)) alu9;
         val22 = select 0 (rd data1 (alu5 + 38402)) alu9;
         val23 = select 0 (rd data1 (alu5 + 44802)) alu9;
         val24 = select 0 (rd data1 (alu5 + 51202)) alu9;
         val25 = select 0 (rd data1 (alu5 + 57602)) alu9;
         val26 = select 0 (rd data1 (alu5 + 64002)) alu9;
         val27 = select 0 (rd data1 (alu5 + 70402)) alu9;
         val28 = select 0 (rd data1 (alu5 + 76802)) alu9;
         val29 = select 0 (rd data1 (alu5 + 83202)) alu9;
         val30 = select 0 (rd data1 (alu5 + 89602)) alu9;
         val31 = select 0 (rd data1 (alu5 + 96002)) alu9;
         alu10 = alu2 <s 6400;
         val32 = select 0 (rd data1 (alu5 + 6400)) alu10;
         val33 = select 0 (rd data1 alu5) alu10;
         val34 = select 0 (rd data1 (alu5 + 12800)) alu10;
         val35 = select 0 (rd data1 (alu5 + 19200)) alu10;
         val36 = select 0 (rd data1 (alu5 + 25600)) alu10;
         val37 = select 0 (rd data1 (alu5 + 32000)) alu10;
         val38 = select 0 (rd data1 (alu5 + 38400)) alu10;
         val39 = select 0 (rd data1 (alu5 + 44800)) alu10;
         val40 = select 0 (rd data1 (alu5 + 51200)) alu10;
         val41 = select 0 (rd data1 (alu5 + 57600)) alu10;
         val42 = select 0 (rd data1 (alu5 + 64000)) alu10;
         val43 = select 0 (rd data1 (alu5 + 70400)) alu10;
         val44 = select 0 (rd data1 (alu5 + 76800)) alu10;
         val45 = select 0 (rd data1 (alu5 + 83200)) alu10;
         val46 = select 0 (rd data1 (alu5 + 89600)) alu10;
         val47 = select 0 (rd data1 (alu5 + 96000)) alu10;
         alu11 = alu2 <s 7999;
         alu12 = alu2 <s 8000;
         alu13 = \<not> alu8;
         val48 = select 0 (rd data5 (alu3 + (- 7998))) alu13;
         val49 = select 0 (rd data5 (alu3 + (- 7598))) alu13;
         val50 = select 0 (rd data5 (alu3 + (- 7198))) alu13;
         val51 = select 0 (rd data5 (alu3 + (- 6798))) alu13;
         val52 = select 0 (rd data5 (alu3 + (- 6398))) alu13;
         val53 = select 0 (rd data5 (alu3 + (- 5998))) alu13;
         val54 = select 0 (rd data5 (alu3 + (- 5598))) alu13;
         val55 = select 0 (rd data5 (alu3 + (- 5198))) alu13;
         val56 = select 0 (rd data5 (alu3 + (- 4798))) alu13;
         val57 = select 0 (rd data5 (alu3 + (- 4398))) alu13;
         val58 = select 0 (rd data5 (alu3 + (- 3998))) alu13;
         val59 = select 0 (rd data5 (alu3 + (- 3598))) alu13;
         val60 = select 0 (rd data5 (alu3 + (- 3198))) alu13;
         val61 = select 0 (rd data5 (alu3 + (- 2798))) alu13;
         val62 = select 0 (rd data5 (alu3 + (- 2398))) alu13;
         val63 = select 0 (rd data5 (alu3 + (- 1998))) alu13;
         alu14 = \<not> alu11;
         val64 = select 0 (rd data5 (alu3 + (- 7999))) alu14;
         val65 = select 0 (rd data5 (alu3 + (- 7599))) alu14;
         val66 = select 0 (rd data5 (alu3 + (- 7199))) alu14;
         val67 = select 0 (rd data5 (alu3 + (- 6799))) alu14;
         val68 = select 0 (rd data5 (alu3 + (- 6399))) alu14;
         val69 = select 0 (rd data5 (alu3 + (- 5999))) alu14;
         val70 = select 0 (rd data5 (alu3 + (- 5599))) alu14;
         val71 = select 0 (rd data5 (alu3 + (- 5199))) alu14;
         val72 = select 0 (rd data5 (alu3 + (- 4799))) alu14;
         val73 = select 0 (rd data5 (alu3 + (- 4399))) alu14;
         val74 = select 0 (rd data5 (alu3 + (- 3999))) alu14;
         val75 = select 0 (rd data5 (alu3 + (- 3599))) alu14;
         val76 = select 0 (rd data5 (alu3 + (- 3199))) alu14;
         val77 = select 0 (rd data5 (alu3 + (- 2799))) alu14;
         val78 = select 0 (rd data5 (alu3 + (- 2399))) alu14;
         val79 = select 0 (rd data5 (alu3 + (- 1999))) alu14;
         alu15 = \<not> alu12;
         val80 = select 0 (rd data5 (alu3 + (- 8000))) alu15;
         val81 = select 0 (rd data5 (alu3 + (- 7600))) alu15;
         val82 = select 0 (rd data5 (alu3 + (- 7200))) alu15;
         val83 = select 0 (rd data5 (alu3 + (- 6800))) alu15;
         val84 = select 0 (rd data5 (alu3 + (- 6400))) alu15;
         val85 = select 0 (rd data5 (alu3 + (- 6000))) alu15;
         val86 = select 0 (rd data5 (alu3 + (- 5600))) alu15;
         val87 = select 0 (rd data5 (alu3 + (- 5200))) alu15;
         val88 = select 0 (rd data5 (alu3 + (- 4800))) alu15;
         val89 = select 0 (rd data5 (alu3 + (- 4400))) alu15;
         val90 = select 0 (rd data5 (alu3 + (- 4000))) alu15;
         val91 = select 0 (rd data5 (alu3 + (- 3600))) alu15;
         val92 = select 0 (rd data5 (alu3 + (- 3200))) alu15;
         val93 = select 0 (rd data5 (alu3 + (- 2800))) alu15;
         val94 = select 0 (rd data5 (alu3 + (- 2400))) alu15;
         val95 = select 0 (rd data5 (alu3 + (- 2000))) alu15;
         alu16 = (\<not> alu7) \<and> alu11;
         val96 = select 0 (rd data3 (alu4 + (- 6399))) alu16;
         val97 = select 0 (rd data3 (alu4 + (- 4799))) alu16;
         val98 = select 0 (rd data3 (alu4 + (- 3199))) alu16;
         val99 = select 0 (rd data3 (alu4 + (- 1599))) alu16;
         val100 = select 0 (rd data3 (alu4 + 1)) alu16;
         val101 = select 0 (rd data3 (alu4 + 1601)) alu16;
         val102 = select 0 (rd data3 (alu4 + 3201)) alu16;
         val103 = select 0 (rd data3 (alu4 + 4801)) alu16;
         val104 = select 0 (rd data3 (alu4 + 6401)) alu16;
         val105 = select 0 (rd data3 (alu4 + 8001)) alu16;
         val106 = select 0 (rd data3 (alu4 + 9601)) alu16;
         val107 = select 0 (rd data3 (alu4 + 11201)) alu16;
         val108 = select 0 (rd data3 (alu4 + 12801)) alu16;
         val109 = select 0 (rd data3 (alu4 + 14401)) alu16;
         val110 = select 0 (rd data3 (alu4 + 16001)) alu16;
         val111 = select 0 (rd data3 (alu4 + 17601)) alu16;
         alu17 = (\<not> alu9) \<and> alu8;
         val112 = select 0 (rd data3 (alu4 + (- 6398))) alu17;
         val113 = select 0 (rd data3 (alu4 + (- 4798))) alu17;
         val114 = select 0 (rd data3 (alu4 + (- 3198))) alu17;
         val115 = select 0 (rd data3 (alu4 + (- 1598))) alu17;
         val116 = select 0 (rd data3 (alu4 + 2)) alu17;
         val117 = select 0 (rd data3 (alu4 + 1602)) alu17;
         val118 = select 0 (rd data3 (alu4 + 3202)) alu17;
         val119 = select 0 (rd data3 (alu4 + 4802)) alu17;
         val120 = select 0 (rd data3 (alu4 + 6402)) alu17;
         val121 = select 0 (rd data3 (alu4 + 8002)) alu17;
         val122 = select 0 (rd data3 (alu4 + 9602)) alu17;
         val123 = select 0 (rd data3 (alu4 + 11202)) alu17;
         val124 = select 0 (rd data3 (alu4 + 12802)) alu17;
         val125 = select 0 (rd data3 (alu4 + 14402)) alu17;
         val126 = select 0 (rd data3 (alu4 + 16002)) alu17;
         val127 = select 0 (rd data3 (alu4 + 17602)) alu17;
         alu18 = (\<not> alu10) \<and> alu12;
         val128 = select 0 (rd data3 (alu4 + (- 4800))) alu18;
         val129 = select 0 (rd data3 (alu4 + (- 6400))) alu18;
         val130 = select 0 (rd data3 (alu4 + (- 3200))) alu18;
         val131 = select 0 (rd data3 (alu4 + (- 1600))) alu18;
         val132 = select 0 (rd data3 alu4) alu18;
         val133 = select 0 (rd data3 (alu4 + 1600)) alu18;
         val134 = select 0 (rd data3 (alu4 + 3200)) alu18;
         val135 = select 0 (rd data3 (alu4 + 4800)) alu18;
         val136 = select 0 (rd data3 (alu4 + 6400)) alu18;
         val137 = select 0 (rd data3 (alu4 + 8000)) alu18;
         val138 = select 0 (rd data3 (alu4 + 9600)) alu18;
         val139 = select 0 (rd data3 (alu4 + 11200)) alu18;
         val140 = select 0 (rd data3 (alu4 + 12800)) alu18;
         val141 = select 0 (rd data3 (alu4 + 14400)) alu18;
         val142 = select 0 (rd data3 (alu4 + 16000)) alu18;
         val143 = select 0 (rd data3 (alu4 + 17600)) alu18;
         alu19 = val0 + val96 + val64;
         alu20 = val16 + val112 + val48;
         alu21 = val32 + val128 + val81;
         alu22 = val1 + val97 + val65;
         alu23 = val17 + val113 + val49;
         alu24 = val34 + val130 + val82;
         alu25 = val2 + val98 + val66;
         alu26 = val18 + val114 + val50;
         alu27 = val35 + val131 + val83;
         alu28 = val3 + val99 + val67;
         alu29 = val19 + val115 + val51;
         alu30 = val36 + val132 + val84;
         alu31 = val4 + val100 + val68;
         alu32 = val20 + val116 + val52;
         alu33 = val37 + val133 + val85;
         alu34 = val5 + val101 + val69;
         alu35 = val21 + val117 + val53;
         alu36 = val38 + val134 + val86;
         alu37 = val6 + val102 + val70;
         alu38 = val22 + val118 + val54;
         alu39 = val39 + val135 + val87;
         alu40 = val7 + val103 + val71;
         alu41 = val23 + val119 + val55;
         alu42 = val40 + val136 + val88;
         alu43 = val8 + val104 + val72;
         alu44 = val24 + val120 + val56;
         alu45 = val41 + val137 + val89;
         alu46 = val9 + val105 + val73;
         alu47 = val25 + val121 + val57;
         alu48 = val42 + val138 + val90;
         alu49 = val10 + val106 + val74;
         alu50 = val26 + val122 + val58;
         alu51 = val43 + val139 + val91;
         alu52 = val11 + val107 + val75;
         alu53 = val27 + val123 + val59;
         alu54 = val44 + val140 + val92;
         alu55 = val12 + val108 + val76;
         alu56 = val28 + val124 + val60;
         alu57 = val45 + val141 + val93;
         alu58 = val13 + val109 + val77;
         alu59 = val29 + val125 + val61;
         alu60 = val46 + val142 + val94;
         alu61 = val14 + val110 + val78;
         alu62 = val30 + val126 + val62;
         alu63 = val47 + val143 + val95;
         alu64 = val15 + val111 + val79;
         alu65 = val31 + val127 + val63;
         alu66 = val33 + val129 + val80;
         alu67 = alu0 + lidx0 * 8400 + alu1;
         alu68 = select alu19 alu22 (alu19 < alu22);
         alu69 = select alu20 alu23 (alu20 < alu23);
         alu70 = select alu66 alu21 (alu66 < alu21);
         alu71 = select alu68 alu25 (alu68 < alu25);
         alu72 = select alu69 alu26 (alu69 < alu26);
         alu73 = select alu70 alu24 (alu70 < alu24);
         alu74 = select alu71 alu28 (alu71 < alu28);
         alu75 = select alu72 alu29 (alu72 < alu29);
         alu76 = select alu73 alu27 (alu73 < alu27);
         alu77 = select alu74 alu31 (alu74 < alu31);
         alu78 = select alu75 alu32 (alu75 < alu32);
         alu79 = select alu76 alu30 (alu76 < alu30);
         alu80 = select alu77 alu34 (alu77 < alu34);
         alu81 = select alu78 alu35 (alu78 < alu35);
         alu82 = select alu79 alu33 (alu79 < alu33);
         alu83 = select alu80 alu37 (alu80 < alu37);
         alu84 = select alu81 alu38 (alu81 < alu38);
         alu85 = select alu82 alu36 (alu82 < alu36);
         alu86 = select alu83 alu40 (alu83 < alu40);
         alu87 = select alu84 alu41 (alu84 < alu41);
         alu88 = select alu85 alu39 (alu85 < alu39);
         alu89 = select alu86 alu43 (alu86 < alu43);
         alu90 = select alu87 alu44 (alu87 < alu44);
         alu91 = select alu88 alu42 (alu88 < alu42);
         alu92 = select alu89 alu46 (alu89 < alu46);
         alu93 = select alu90 alu47 (alu90 < alu47);
         alu94 = select alu91 alu45 (alu91 < alu45);
         alu95 = select alu92 alu49 (alu92 < alu49);
         alu96 = select alu93 alu50 (alu93 < alu50);
         alu97 = select alu94 alu48 (alu94 < alu48);
         alu98 = select alu95 alu52 (alu95 < alu52);
         alu99 = select alu96 alu53 (alu96 < alu53);
         alu100 = select alu97 alu51 (alu97 < alu51);
         alu101 = select alu98 alu55 (alu98 < alu55);
         alu102 = select alu99 alu56 (alu99 < alu56);
         alu103 = select alu100 alu54 (alu100 < alu54);
         alu104 = select alu101 alu58 (alu101 < alu58);
         alu105 = select alu102 alu59 (alu102 < alu59);
         alu106 = select alu103 alu57 (alu103 < alu57);
         alu107 = select alu104 alu61 (alu104 < alu61);
         alu108 = select alu105 alu62 (alu105 < alu62);
         alu109 = select alu106 alu60 (alu106 < alu60);
         alu110 = select alu107 alu64 (alu107 < alu64);
         alu112 = select alu108 alu65 (alu108 < alu65);
         alu114 = select alu109 alu63 (alu109 < alu63)
     in [(alu67 + 1, alu110),
         (alu67 + 2, alu112),
         (alu67, alu114)])"

definition r_175_4_16_3_16n1 :: "(f32 \<Rightarrow> f32) \<Rightarrow> f32 buf \<Rightarrow> f32 buf \<Rightarrow> f32 buf \<Rightarrow> f32 buf \<Rightarrow> vec3 \<Rightarrow> vec3 \<Rightarrow> f32 stores" where
  "r_175_4_16_3_16n1 exp2 data1 data3 data5 data7 gindex lindex =
    (let gidx0 = vx gindex;
         lidx0 = vx lindex;
         lidx1 = vy lindex;
         precast0 = gidx0;
         alu0 = gidx0 * 48;
         alu1 = lidx1 * 3;
         alu2 = alu0 + lidx0 * 8400 + alu1;
         val0 = rd data7 alu2;
         alu3 = alu2 + 1;
         val1 = rd data7 alu3;
         alu4 = alu2 + 2;
         val2 = rd data7 alu4;
         alu5 = alu0 + alu1;
         alu6 = alu5 + lidx0 * 6400;
         alu7 = alu5 + lidx0 * 25600;
         alu8 = alu5 + lidx0 * 102400;
         precast1 = push_bit 4 precast0;
         alu9 = lidx1 + precast1;
         alu10 = alu9 <s 2133;
         val3 = select 0 (rd data1 (alu8 + 1)) alu10;
         val4 = select 0 (rd data1 (alu8 + 6401)) alu10;
         val5 = select 0 (rd data1 (alu8 + 12801)) alu10;
         val6 = select 0 (rd data1 (alu8 + 19201)) alu10;
         val7 = select 0 (rd data1 (alu8 + 25601)) alu10;
         val8 = select 0 (rd data1 (alu8 + 32001)) alu10;
         val9 = select 0 (rd data1 (alu8 + 38401)) alu10;
         val10 = select 0 (rd data1 (alu8 + 44801)) alu10;
         val11 = select 0 (rd data1 (alu8 + 51201)) alu10;
         val12 = select 0 (rd data1 (alu8 + 57601)) alu10;
         val13 = select 0 (rd data1 (alu8 + 64001)) alu10;
         val14 = select 0 (rd data1 (alu8 + 70401)) alu10;
         val15 = select 0 (rd data1 (alu8 + 76801)) alu10;
         val16 = select 0 (rd data1 (alu8 + 83201)) alu10;
         val17 = select 0 (rd data1 (alu8 + 89601)) alu10;
         val18 = select 0 (rd data1 (alu8 + 96001)) alu10;
         alu11 = alu9 <s 2666;
         alu12 = alu5 <s 6398;
         val19 = select 0 (rd data1 (alu8 + 2)) alu12;
         val20 = select 0 (rd data1 (alu8 + 6402)) alu12;
         val21 = select 0 (rd data1 (alu8 + 12802)) alu12;
         val22 = select 0 (rd data1 (alu8 + 19202)) alu12;
         val23 = select 0 (rd data1 (alu8 + 25602)) alu12;
         val24 = select 0 (rd data1 (alu8 + 32002)) alu12;
         val25 = select 0 (rd data1 (alu8 + 38402)) alu12;
         val26 = select 0 (rd data1 (alu8 + 44802)) alu12;
         val27 = select 0 (rd data1 (alu8 + 51202)) alu12;
         val28 = select 0 (rd data1 (alu8 + 57602)) alu12;
         val29 = select 0 (rd data1 (alu8 + 64002)) alu12;
         val30 = select 0 (rd data1 (alu8 + 70402)) alu12;
         val31 = select 0 (rd data1 (alu8 + 76802)) alu12;
         val32 = select 0 (rd data1 (alu8 + 83202)) alu12;
         val33 = select 0 (rd data1 (alu8 + 89602)) alu12;
         val34 = select 0 (rd data1 (alu8 + 96002)) alu12;
         alu13 = alu5 <s 6400;
         val35 = select 0 (rd data1 alu8) alu13;
         val36 = select 0 (rd data1 (alu8 + 6400)) alu13;
         val37 = select 0 (rd data1 (alu8 + 12800)) alu13;
         val38 = select 0 (rd data1 (alu8 + 19200)) alu13;
         val39 = select 0 (rd data1 (alu8 + 25600)) alu13;
         val40 = select 0 (rd data1 (alu8 + 32000)) alu13;
         val41 = select 0 (rd data1 (alu8 + 38400)) alu13;
         val42 = select 0 (rd data1 (alu8 + 44800)) alu13;
         val43 = select 0 (rd data1 (alu8 + 51200)) alu13;
         val44 = select 0 (rd data1 (alu8 + 57600)) alu13;
         val45 = select 0 (rd data1 (alu8 + 64000)) alu13;
         val46 = select 0 (rd data1 (alu8 + 70400)) alu13;
         val47 = select 0 (rd data1 (alu8 + 76800)) alu13;
         val48 = select 0 (rd data1 (alu8 + 83200)) alu13;
         val49 = select 0 (rd data1 (alu8 + 89600)) alu13;
         val50 = select 0 (rd data1 (alu8 + 96000)) alu13;
         alu14 = alu5 <s 7999;
         alu15 = alu5 <s 8000;
         alu16 = \<not> alu11;
         val51 = select 0 (rd data5 (alu6 + (- 7998))) alu16;
         val52 = select 0 (rd data5 (alu6 + (- 7598))) alu16;
         val53 = select 0 (rd data5 (alu6 + (- 7198))) alu16;
         val54 = select 0 (rd data5 (alu6 + (- 6798))) alu16;
         val55 = select 0 (rd data5 (alu6 + (- 6398))) alu16;
         val56 = select 0 (rd data5 (alu6 + (- 5998))) alu16;
         val57 = select 0 (rd data5 (alu6 + (- 5598))) alu16;
         val58 = select 0 (rd data5 (alu6 + (- 5198))) alu16;
         val59 = select 0 (rd data5 (alu6 + (- 4798))) alu16;
         val60 = select 0 (rd data5 (alu6 + (- 4398))) alu16;
         val61 = select 0 (rd data5 (alu6 + (- 3998))) alu16;
         val62 = select 0 (rd data5 (alu6 + (- 3598))) alu16;
         val63 = select 0 (rd data5 (alu6 + (- 3198))) alu16;
         val64 = select 0 (rd data5 (alu6 + (- 2798))) alu16;
         val65 = select 0 (rd data5 (alu6 + (- 2398))) alu16;
         val66 = select 0 (rd data5 (alu6 + (- 1998))) alu16;
         alu17 = \<not> alu14;
         val67 = select 0 (rd data5 (alu6 + (- 7999))) alu17;
         val68 = select 0 (rd data5 (alu6 + (- 7599))) alu17;
         val69 = select 0 (rd data5 (alu6 + (- 7199))) alu17;
         val70 = select 0 (rd data5 (alu6 + (- 6799))) alu17;
         val71 = select 0 (rd data5 (alu6 + (- 6399))) alu17;
         val72 = select 0 (rd data5 (alu6 + (- 5999))) alu17;
         val73 = select 0 (rd data5 (alu6 + (- 5599))) alu17;
         val74 = select 0 (rd data5 (alu6 + (- 5199))) alu17;
         val75 = select 0 (rd data5 (alu6 + (- 4799))) alu17;
         val76 = select 0 (rd data5 (alu6 + (- 4399))) alu17;
         val77 = select 0 (rd data5 (alu6 + (- 3999))) alu17;
         val78 = select 0 (rd data5 (alu6 + (- 3599))) alu17;
         val79 = select 0 (rd data5 (alu6 + (- 3199))) alu17;
         val80 = select 0 (rd data5 (alu6 + (- 2799))) alu17;
         val81 = select 0 (rd data5 (alu6 + (- 2399))) alu17;
         val82 = select 0 (rd data5 (alu6 + (- 1999))) alu17;
         alu18 = \<not> alu15;
         val83 = select 0 (rd data5 (alu6 + (- 8000))) alu18;
         val84 = select 0 (rd data5 (alu6 + (- 7600))) alu18;
         val85 = select 0 (rd data5 (alu6 + (- 7200))) alu18;
         val86 = select 0 (rd data5 (alu6 + (- 6800))) alu18;
         val87 = select 0 (rd data5 (alu6 + (- 6400))) alu18;
         val88 = select 0 (rd data5 (alu6 + (- 6000))) alu18;
         val89 = select 0 (rd data5 (alu6 + (- 5600))) alu18;
         val90 = select 0 (rd data5 (alu6 + (- 5200))) alu18;
         val91 = select 0 (rd data5 (alu6 + (- 4800))) alu18;
         val92 = select 0 (rd data5 (alu6 + (- 4400))) alu18;
         val93 = select 0 (rd data5 (alu6 + (- 4000))) alu18;
         val94 = select 0 (rd data5 (alu6 + (- 3600))) alu18;
         val95 = select 0 (rd data5 (alu6 + (- 3200))) alu18;
         val96 = select 0 (rd data5 (alu6 + (- 2800))) alu18;
         val97 = select 0 (rd data5 (alu6 + (- 2400))) alu18;
         val98 = select 0 (rd data5 (alu6 + (- 2000))) alu18;
         alu19 = (\<not> alu10) \<and> alu14;
         val99 = select 0 (rd data3 (alu7 + (- 6399))) alu19;
         val100 = select 0 (rd data3 (alu7 + (- 4799))) alu19;
         val101 = select 0 (rd data3 (alu7 + (- 3199))) alu19;
         val102 = select 0 (rd data3 (alu7 + (- 1599))) alu19;
         val103 = select 0 (rd data3 (alu7 + 1)) alu19;
         val104 = select 0 (rd data3 (alu7 + 1601)) alu19;
         val105 = select 0 (rd data3 (alu7 + 3201)) alu19;
         val106 = select 0 (rd data3 (alu7 + 4801)) alu19;
         val107 = select 0 (rd data3 (alu7 + 6401)) alu19;
         val108 = select 0 (rd data3 (alu7 + 8001)) alu19;
         val109 = select 0 (rd data3 (alu7 + 9601)) alu19;
         val110 = select 0 (rd data3 (alu7 + 11201)) alu19;
         val111 = select 0 (rd data3 (alu7 + 12801)) alu19;
         val112 = select 0 (rd data3 (alu7 + 14401)) alu19;
         val113 = select 0 (rd data3 (alu7 + 16001)) alu19;
         val114 = select 0 (rd data3 (alu7 + 17601)) alu19;
         alu20 = (\<not> alu12) \<and> alu11;
         val115 = select 0 (rd data3 (alu7 + (- 6398))) alu20;
         val116 = select 0 (rd data3 (alu7 + (- 4798))) alu20;
         val117 = select 0 (rd data3 (alu7 + (- 3198))) alu20;
         val118 = select 0 (rd data3 (alu7 + (- 1598))) alu20;
         val119 = select 0 (rd data3 (alu7 + 2)) alu20;
         val120 = select 0 (rd data3 (alu7 + 1602)) alu20;
         val121 = select 0 (rd data3 (alu7 + 3202)) alu20;
         val122 = select 0 (rd data3 (alu7 + 4802)) alu20;
         val123 = select 0 (rd data3 (alu7 + 6402)) alu20;
         val124 = select 0 (rd data3 (alu7 + 8002)) alu20;
         val125 = select 0 (rd data3 (alu7 + 9602)) alu20;
         val126 = select 0 (rd data3 (alu7 + 11202)) alu20;
         val127 = select 0 (rd data3 (alu7 + 12802)) alu20;
         val128 = select 0 (rd data3 (alu7 + 14402)) alu20;
         val129 = select 0 (rd data3 (alu7 + 16002)) alu20;
         val130 = select 0 (rd data3 (alu7 + 17602)) alu20;
         alu21 = (\<not> alu13) \<and> alu15;
         val131 = select 0 (rd data3 (alu7 + (- 6400))) alu21;
         val132 = select 0 (rd data3 (alu7 + (- 4800))) alu21;
         val133 = select 0 (rd data3 (alu7 + (- 3200))) alu21;
         val134 = select 0 (rd data3 (alu7 + (- 1600))) alu21;
         val135 = select 0 (rd data3 alu7) alu21;
         val136 = select 0 (rd data3 (alu7 + 1600)) alu21;
         val137 = select 0 (rd data3 (alu7 + 3200)) alu21;
         val138 = select 0 (rd data3 (alu7 + 4800)) alu21;
         val139 = select 0 (rd data3 (alu7 + 6400)) alu21;
         val140 = select 0 (rd data3 (alu7 + 8000)) alu21;
         val141 = select 0 (rd data3 (alu7 + 9600)) alu21;
         val142 = select 0 (rd data3 (alu7 + 11200)) alu21;
         val143 = select 0 (rd data3 (alu7 + 12800)) alu21;
         val144 = select 0 (rd data3 (alu7 + 14400)) alu21;
         val145 = select 0 (rd data3 (alu7 + 16000)) alu21;
         val146 = select 0 (rd data3 (alu7 + 17600)) alu21
     in [(alu3, 1 / ((exp2 (((val3 + val99 + val67) - val1) * (lit (14426950408889634 / 10000000000000000)))) + (exp2 (((val4 + val100 + val68) - val1) * (lit (14426950408889634 / 10000000000000000)))) + (exp2 (((val5 + val101 + val69) - val1) * (lit (14426950408889634 / 10000000000000000)))) + (exp2 (((val6 + val102 + val70) - val1) * (lit (14426950408889634 / 10000000000000000)))) + (exp2 (((val7 + val103 + val71) - val1) * (lit (14426950408889634 / 10000000000000000)))) + (exp2 (((val8 + val104 + val72) - val1) * (lit (14426950408889634 / 10000000000000000)))) + (exp2 (((val9 + val105 + val73) - val1) * (lit (14426950408889634 / 10000000000000000)))) + (exp2 (((val10 + val106 + val74) - val1) * (lit (14426950408889634 / 10000000000000000)))) + (exp2 (((val11 + val107 + val75) - val1) * (lit (14426950408889634 / 10000000000000000)))) + (exp2 (((val12 + val108 + val76) - val1) * (lit (14426950408889634 / 10000000000000000)))) + (exp2 (((val13 + val109 + val77) - val1) * (lit (14426950408889634 / 10000000000000000)))) + (exp2 (((val14 + val110 + val78) - val1) * (lit (14426950408889634 / 10000000000000000)))) + (exp2 (((val15 + val111 + val79) - val1) * (lit (14426950408889634 / 10000000000000000)))) + (exp2 (((val16 + val112 + val80) - val1) * (lit (14426950408889634 / 10000000000000000)))) + (exp2 (((val17 + val113 + val81) - val1) * (lit (14426950408889634 / 10000000000000000)))) + (exp2 (((val18 + val114 + val82) - val1) * (lit (14426950408889634 / 10000000000000000)))))),
         (alu4, 1 / ((exp2 (((val19 + val115 + val51) - val2) * (lit (14426950408889634 / 10000000000000000)))) + (exp2 (((val20 + val116 + val52) - val2) * (lit (14426950408889634 / 10000000000000000)))) + (exp2 (((val21 + val117 + val53) - val2) * (lit (14426950408889634 / 10000000000000000)))) + (exp2 (((val22 + val118 + val54) - val2) * (lit (14426950408889634 / 10000000000000000)))) + (exp2 (((val23 + val119 + val55) - val2) * (lit (14426950408889634 / 10000000000000000)))) + (exp2 (((val24 + val120 + val56) - val2) * (lit (14426950408889634 / 10000000000000000)))) + (exp2 (((val25 + val121 + val57) - val2) * (lit (14426950408889634 / 10000000000000000)))) + (exp2 (((val26 + val122 + val58) - val2) * (lit (14426950408889634 / 10000000000000000)))) + (exp2 (((val27 + val123 + val59) - val2) * (lit (14426950408889634 / 10000000000000000)))) + (exp2 (((val28 + val124 + val60) - val2) * (lit (14426950408889634 / 10000000000000000)))) + (exp2 (((val29 + val125 + val61) - val2) * (lit (14426950408889634 / 10000000000000000)))) + (exp2 (((val30 + val126 + val62) - val2) * (lit (14426950408889634 / 10000000000000000)))) + (exp2 (((val31 + val127 + val63) - val2) * (lit (14426950408889634 / 10000000000000000)))) + (exp2 (((val32 + val128 + val64) - val2) * (lit (14426950408889634 / 10000000000000000)))) + (exp2 (((val33 + val129 + val65) - val2) * (lit (14426950408889634 / 10000000000000000)))) + (exp2 (((val34 + val130 + val66) - val2) * (lit (14426950408889634 / 10000000000000000)))))),
         (alu2, 1 / ((exp2 (((val35 + val131 + val83) - val0) * (lit (14426950408889634 / 10000000000000000)))) + (exp2 (((val36 + val132 + val84) - val0) * (lit (14426950408889634 / 10000000000000000)))) + (exp2 (((val37 + val133 + val85) - val0) * (lit (14426950408889634 / 10000000000000000)))) + (exp2 (((val38 + val134 + val86) - val0) * (lit (14426950408889634 / 10000000000000000)))) + (exp2 (((val39 + val135 + val87) - val0) * (lit (14426950408889634 / 10000000000000000)))) + (exp2 (((val40 + val136 + val88) - val0) * (lit (14426950408889634 / 10000000000000000)))) + (exp2 (((val41 + val137 + val89) - val0) * (lit (14426950408889634 / 10000000000000000)))) + (exp2 (((val42 + val138 + val90) - val0) * (lit (14426950408889634 / 10000000000000000)))) + (exp2 (((val43 + val139 + val91) - val0) * (lit (14426950408889634 / 10000000000000000)))) + (exp2 (((val44 + val140 + val92) - val0) * (lit (14426950408889634 / 10000000000000000)))) + (exp2 (((val45 + val141 + val93) - val0) * (lit (14426950408889634 / 10000000000000000)))) + (exp2 (((val46 + val142 + val94) - val0) * (lit (14426950408889634 / 10000000000000000)))) + (exp2 (((val47 + val143 + val95) - val0) * (lit (14426950408889634 / 10000000000000000)))) + (exp2 (((val48 + val144 + val96) - val0) * (lit (14426950408889634 / 10000000000000000)))) + (exp2 (((val49 + val145 + val97) - val0) * (lit (14426950408889634 / 10000000000000000)))) + (exp2 (((val50 + val146 + val98) - val0) * (lit (14426950408889634 / 10000000000000000))))))])"

definition r_175_4_16_3_16n2 :: "(f32 \<Rightarrow> f32) \<Rightarrow> f32 buf \<Rightarrow> f32 buf \<Rightarrow> f32 buf \<Rightarrow> f32 buf \<Rightarrow> f32 buf \<Rightarrow> f32 buf \<Rightarrow> vec3 \<Rightarrow> vec3 \<Rightarrow> f32 stores" where
  "r_175_4_16_3_16n2 exp2 data1 data3 data5 data7 data8 data9 gindex lindex =
    (let gidx0 = vx gindex;
         lidx0 = vx lindex;
         lidx1 = vy lindex;
         precast0 = gidx0;
         val0 = rd data9 0;
         val1 = rd data9 1;
         val2 = rd data9 2;
         val3 = rd data9 3;
         val4 = rd data9 4;
         val5 = rd data9 5;
         val6 = rd data9 6;
         val7 = rd data9 7;
         val8 = rd data9 8;
         val9 = rd data9 9;
         val10 = rd data9 10;
         val11 = rd data9 11;
         val12 = rd data9 12;
         val13 = rd data9 13;
         val14 = rd data9 14;
         val15 = rd data9 15;
         alu0 = gidx0 * 48;
         alu1 = lidx1 * 3;
         alu2 = alu0 + lidx0 * 8400 + alu1;
         val16 = rd data7 alu2;
         val17 = rd data8 alu2;
         alu3 = alu2 + 1;
         val18 = rd data7 alu3;
         val19 = rd data8 alu3;
         alu4 = alu2 + 2;
         val20 = rd data7 alu4;
         val21 = rd data8 alu4;
         alu5 = alu0 + alu1;
         alu6 = alu5 + lidx0 * 6400;
         alu7 = alu5 + lidx0 * 25600;
         alu8 = alu5 + lidx0 * 102400;
         precast1 = push_bit 4 precast0;
         alu9 = lidx1 + precast1;
         alu10 = alu9 <s 2133;
         val22 = select 0 (rd data1 (alu8 + 1)) alu10;
         val23 = select 0 (rd data1 (alu8 + 6401)) alu10;
         val24 = select 0 (rd data1 (alu8 + 12801)) alu10;
         val25 = select 0 (rd data1 (alu8 + 19201)) alu10;
         val26 = select 0 (rd data1 (alu8 + 25601)) alu10;
         val27 = select 0 (rd data1 (alu8 + 32001)) alu10;
         val28 = select 0 (rd data1 (alu8 + 38401)) alu10;
         val29 = select 0 (rd data1 (alu8 + 44801)) alu10;
         val30 = select 0 (rd data1 (alu8 + 51201)) alu10;
         val31 = select 0 (rd data1 (alu8 + 57601)) alu10;
         val32 = select 0 (rd data1 (alu8 + 64001)) alu10;
         val33 = select 0 (rd data1 (alu8 + 70401)) alu10;
         val34 = select 0 (rd data1 (alu8 + 76801)) alu10;
         val35 = select 0 (rd data1 (alu8 + 83201)) alu10;
         val36 = select 0 (rd data1 (alu8 + 89601)) alu10;
         val37 = select 0 (rd data1 (alu8 + 96001)) alu10;
         alu11 = alu9 <s 2666;
         alu12 = alu5 <s 6398;
         val38 = select 0 (rd data1 (alu8 + 2)) alu12;
         val39 = select 0 (rd data1 (alu8 + 6402)) alu12;
         val40 = select 0 (rd data1 (alu8 + 12802)) alu12;
         val41 = select 0 (rd data1 (alu8 + 19202)) alu12;
         val42 = select 0 (rd data1 (alu8 + 25602)) alu12;
         val43 = select 0 (rd data1 (alu8 + 32002)) alu12;
         val44 = select 0 (rd data1 (alu8 + 38402)) alu12;
         val45 = select 0 (rd data1 (alu8 + 44802)) alu12;
         val46 = select 0 (rd data1 (alu8 + 51202)) alu12;
         val47 = select 0 (rd data1 (alu8 + 57602)) alu12;
         val48 = select 0 (rd data1 (alu8 + 64002)) alu12;
         val49 = select 0 (rd data1 (alu8 + 70402)) alu12;
         val50 = select 0 (rd data1 (alu8 + 76802)) alu12;
         val51 = select 0 (rd data1 (alu8 + 83202)) alu12;
         val52 = select 0 (rd data1 (alu8 + 89602)) alu12;
         val53 = select 0 (rd data1 (alu8 + 96002)) alu12;
         alu13 = alu5 <s 6400;
         val54 = select 0 (rd data1 alu8) alu13;
         val55 = select 0 (rd data1 (alu8 + 6400)) alu13;
         val56 = select 0 (rd data1 (alu8 + 12800)) alu13;
         val57 = select 0 (rd data1 (alu8 + 19200)) alu13;
         val58 = select 0 (rd data1 (alu8 + 25600)) alu13;
         val59 = select 0 (rd data1 (alu8 + 32000)) alu13;
         val60 = select 0 (rd data1 (alu8 + 38400)) alu13;
         val61 = select 0 (rd data1 (alu8 + 44800)) alu13;
         val62 = select 0 (rd data1 (alu8 + 51200)) alu13;
         val63 = select 0 (rd data1 (alu8 + 57600)) alu13;
         val64 = select 0 (rd data1 (alu8 + 64000)) alu13;
         val65 = select 0 (rd data1 (alu8 + 70400)) alu13;
         val66 = select 0 (rd data1 (alu8 + 76800)) alu13;
         val67 = select 0 (rd data1 (alu8 + 83200)) alu13;
         val68 = select 0 (rd data1 (alu8 + 89600)) alu13;
         val69 = select 0 (rd data1 (alu8 + 96000)) alu13;
         alu14 = alu5 <s 7999;
         alu15 = alu5 <s 8000;
         alu16 = \<not> alu11;
         val70 = select 0 (rd data5 (alu6 + (- 7998))) alu16;
         val71 = select 0 (rd data5 (alu6 + (- 7598))) alu16;
         val72 = select 0 (rd data5 (alu6 + (- 7198))) alu16;
         val73 = select 0 (rd data5 (alu6 + (- 6798))) alu16;
         val74 = select 0 (rd data5 (alu6 + (- 6398))) alu16;
         val75 = select 0 (rd data5 (alu6 + (- 5998))) alu16;
         val76 = select 0 (rd data5 (alu6 + (- 5598))) alu16;
         val77 = select 0 (rd data5 (alu6 + (- 5198))) alu16;
         val78 = select 0 (rd data5 (alu6 + (- 4798))) alu16;
         val79 = select 0 (rd data5 (alu6 + (- 4398))) alu16;
         val80 = select 0 (rd data5 (alu6 + (- 3998))) alu16;
         val81 = select 0 (rd data5 (alu6 + (- 3598))) alu16;
         val82 = select 0 (rd data5 (alu6 + (- 3198))) alu16;
         val83 = select 0 (rd data5 (alu6 + (- 2798))) alu16;
         val84 = select 0 (rd data5 (alu6 + (- 2398))) alu16;
         val85 = select 0 (rd data5 (alu6 + (- 1998))) alu16;
         alu17 = \<not> alu14;
         val86 = select 0 (rd data5 (alu6 + (- 7999))) alu17;
         val87 = select 0 (rd data5 (alu6 + (- 7599))) alu17;
         val88 = select 0 (rd data5 (alu6 + (- 7199))) alu17;
         val89 = select 0 (rd data5 (alu6 + (- 6799))) alu17;
         val90 = select 0 (rd data5 (alu6 + (- 6399))) alu17;
         val91 = select 0 (rd data5 (alu6 + (- 5999))) alu17;
         val92 = select 0 (rd data5 (alu6 + (- 5599))) alu17;
         val93 = select 0 (rd data5 (alu6 + (- 5199))) alu17;
         val94 = select 0 (rd data5 (alu6 + (- 4799))) alu17;
         val95 = select 0 (rd data5 (alu6 + (- 4399))) alu17;
         val96 = select 0 (rd data5 (alu6 + (- 3999))) alu17;
         val97 = select 0 (rd data5 (alu6 + (- 3599))) alu17;
         val98 = select 0 (rd data5 (alu6 + (- 3199))) alu17;
         val99 = select 0 (rd data5 (alu6 + (- 2799))) alu17;
         val100 = select 0 (rd data5 (alu6 + (- 2399))) alu17;
         val101 = select 0 (rd data5 (alu6 + (- 1999))) alu17;
         alu18 = \<not> alu15;
         val102 = select 0 (rd data5 (alu6 + (- 8000))) alu18;
         val103 = select 0 (rd data5 (alu6 + (- 7600))) alu18;
         val104 = select 0 (rd data5 (alu6 + (- 7200))) alu18;
         val105 = select 0 (rd data5 (alu6 + (- 6800))) alu18;
         val106 = select 0 (rd data5 (alu6 + (- 6400))) alu18;
         val107 = select 0 (rd data5 (alu6 + (- 6000))) alu18;
         val108 = select 0 (rd data5 (alu6 + (- 5600))) alu18;
         val109 = select 0 (rd data5 (alu6 + (- 5200))) alu18;
         val110 = select 0 (rd data5 (alu6 + (- 4800))) alu18;
         val111 = select 0 (rd data5 (alu6 + (- 4400))) alu18;
         val112 = select 0 (rd data5 (alu6 + (- 4000))) alu18;
         val113 = select 0 (rd data5 (alu6 + (- 3600))) alu18;
         val114 = select 0 (rd data5 (alu6 + (- 3200))) alu18;
         val115 = select 0 (rd data5 (alu6 + (- 2800))) alu18;
         val116 = select 0 (rd data5 (alu6 + (- 2400))) alu18;
         val117 = select 0 (rd data5 (alu6 + (- 2000))) alu18;
         alu19 = (\<not> alu10) \<and> alu14;
         val118 = select 0 (rd data3 (alu7 + (- 6399))) alu19;
         val119 = select 0 (rd data3 (alu7 + (- 4799))) alu19;
         val120 = select 0 (rd data3 (alu7 + (- 3199))) alu19;
         val121 = select 0 (rd data3 (alu7 + (- 1599))) alu19;
         val122 = select 0 (rd data3 (alu7 + 1)) alu19;
         val123 = select 0 (rd data3 (alu7 + 1601)) alu19;
         val124 = select 0 (rd data3 (alu7 + 3201)) alu19;
         val125 = select 0 (rd data3 (alu7 + 4801)) alu19;
         val126 = select 0 (rd data3 (alu7 + 6401)) alu19;
         val127 = select 0 (rd data3 (alu7 + 8001)) alu19;
         val128 = select 0 (rd data3 (alu7 + 9601)) alu19;
         val129 = select 0 (rd data3 (alu7 + 11201)) alu19;
         val130 = select 0 (rd data3 (alu7 + 12801)) alu19;
         val131 = select 0 (rd data3 (alu7 + 14401)) alu19;
         val132 = select 0 (rd data3 (alu7 + 16001)) alu19;
         val133 = select 0 (rd data3 (alu7 + 17601)) alu19;
         alu20 = (\<not> alu12) \<and> alu11;
         val134 = select 0 (rd data3 (alu7 + (- 6398))) alu20;
         val135 = select 0 (rd data3 (alu7 + (- 4798))) alu20;
         val136 = select 0 (rd data3 (alu7 + (- 3198))) alu20;
         val137 = select 0 (rd data3 (alu7 + (- 1598))) alu20;
         val138 = select 0 (rd data3 (alu7 + 2)) alu20;
         val139 = select 0 (rd data3 (alu7 + 1602)) alu20;
         val140 = select 0 (rd data3 (alu7 + 3202)) alu20;
         val141 = select 0 (rd data3 (alu7 + 4802)) alu20;
         val142 = select 0 (rd data3 (alu7 + 6402)) alu20;
         val143 = select 0 (rd data3 (alu7 + 8002)) alu20;
         val144 = select 0 (rd data3 (alu7 + 9602)) alu20;
         val145 = select 0 (rd data3 (alu7 + 11202)) alu20;
         val146 = select 0 (rd data3 (alu7 + 12802)) alu20;
         val147 = select 0 (rd data3 (alu7 + 14402)) alu20;
         val148 = select 0 (rd data3 (alu7 + 16002)) alu20;
         val149 = select 0 (rd data3 (alu7 + 17602)) alu20;
         alu21 = (\<not> alu13) \<and> alu15;
         val150 = select 0 (rd data3 (alu7 + (- 6400))) alu21;
         val151 = select 0 (rd data3 (alu7 + (- 4800))) alu21;
         val152 = select 0 (rd data3 (alu7 + (- 3200))) alu21;
         val153 = select 0 (rd data3 (alu7 + (- 1600))) alu21;
         val154 = select 0 (rd data3 alu7) alu21;
         val155 = select 0 (rd data3 (alu7 + 1600)) alu21;
         val156 = select 0 (rd data3 (alu7 + 3200)) alu21;
         val157 = select 0 (rd data3 (alu7 + 4800)) alu21;
         val158 = select 0 (rd data3 (alu7 + 6400)) alu21;
         val159 = select 0 (rd data3 (alu7 + 8000)) alu21;
         val160 = select 0 (rd data3 (alu7 + 9600)) alu21;
         val161 = select 0 (rd data3 (alu7 + 11200)) alu21;
         val162 = select 0 (rd data3 (alu7 + 12800)) alu21;
         val163 = select 0 (rd data3 (alu7 + 14400)) alu21;
         val164 = select 0 (rd data3 (alu7 + 16000)) alu21;
         val165 = select 0 (rd data3 (alu7 + 17600)) alu21
     in [(alu3, (exp2 (((val22 + val118 + val86) - val18) * (lit (14426950408889634 / 10000000000000000)))) * val19 * val0 + (exp2 (((val23 + val119 + val87) - val18) * (lit (14426950408889634 / 10000000000000000)))) * val19 * val1 + (exp2 (((val24 + val120 + val88) - val18) * (lit (14426950408889634 / 10000000000000000)))) * val19 * val2 + (exp2 (((val25 + val121 + val89) - val18) * (lit (14426950408889634 / 10000000000000000)))) * val19 * val3 + (exp2 (((val26 + val122 + val90) - val18) * (lit (14426950408889634 / 10000000000000000)))) * val19 * val4 + (exp2 (((val27 + val123 + val91) - val18) * (lit (14426950408889634 / 10000000000000000)))) * val19 * val5 + (exp2 (((val28 + val124 + val92) - val18) * (lit (14426950408889634 / 10000000000000000)))) * val19 * val6 + (exp2 (((val29 + val125 + val93) - val18) * (lit (14426950408889634 / 10000000000000000)))) * val19 * val7 + (exp2 (((val30 + val126 + val94) - val18) * (lit (14426950408889634 / 10000000000000000)))) * val19 * val8 + (exp2 (((val31 + val127 + val95) - val18) * (lit (14426950408889634 / 10000000000000000)))) * val19 * val9 + (exp2 (((val32 + val128 + val96) - val18) * (lit (14426950408889634 / 10000000000000000)))) * val19 * val10 + (exp2 (((val33 + val129 + val97) - val18) * (lit (14426950408889634 / 10000000000000000)))) * val19 * val11 + (exp2 (((val34 + val130 + val98) - val18) * (lit (14426950408889634 / 10000000000000000)))) * val19 * val12 + (exp2 (((val35 + val131 + val99) - val18) * (lit (14426950408889634 / 10000000000000000)))) * val19 * val13 + (exp2 (((val36 + val132 + val100) - val18) * (lit (14426950408889634 / 10000000000000000)))) * val19 * val14 + (exp2 (((val37 + val133 + val101) - val18) * (lit (14426950408889634 / 10000000000000000)))) * val19 * val15),
         (alu4, (exp2 (((val38 + val134 + val70) - val20) * (lit (14426950408889634 / 10000000000000000)))) * val21 * val0 + (exp2 (((val39 + val135 + val71) - val20) * (lit (14426950408889634 / 10000000000000000)))) * val21 * val1 + (exp2 (((val40 + val136 + val72) - val20) * (lit (14426950408889634 / 10000000000000000)))) * val21 * val2 + (exp2 (((val41 + val137 + val73) - val20) * (lit (14426950408889634 / 10000000000000000)))) * val21 * val3 + (exp2 (((val42 + val138 + val74) - val20) * (lit (14426950408889634 / 10000000000000000)))) * val21 * val4 + (exp2 (((val43 + val139 + val75) - val20) * (lit (14426950408889634 / 10000000000000000)))) * val21 * val5 + (exp2 (((val44 + val140 + val76) - val20) * (lit (14426950408889634 / 10000000000000000)))) * val21 * val6 + (exp2 (((val45 + val141 + val77) - val20) * (lit (14426950408889634 / 10000000000000000)))) * val21 * val7 + (exp2 (((val46 + val142 + val78) - val20) * (lit (14426950408889634 / 10000000000000000)))) * val21 * val8 + (exp2 (((val47 + val143 + val79) - val20) * (lit (14426950408889634 / 10000000000000000)))) * val21 * val9 + (exp2 (((val48 + val144 + val80) - val20) * (lit (14426950408889634 / 10000000000000000)))) * val21 * val10 + (exp2 (((val49 + val145 + val81) - val20) * (lit (14426950408889634 / 10000000000000000)))) * val21 * val11 + (exp2 (((val50 + val146 + val82) - val20) * (lit (14426950408889634 / 10000000000000000)))) * val21 * val12 + (exp2 (((val51 + val147 + val83) - val20) * (lit (14426950408889634 / 10000000000000000)))) * val21 * val13 + (exp2 (((val52 + val148 + val84) - val20) * (lit (14426950408889634 / 10000000000000000)))) * val21 * val14 + (exp2 (((val53 + val149 + val85) - val20) * (lit (14426950408889634 / 10000000000000000)))) * val21 * val15),
         (alu2, (exp2 (((val54 + val150 + val102) - val16) * (lit (14426950408889634 / 10000000000000000)))) * val17 * val0 + (exp2 (((val55 + val151 + val103) - val16) * (lit (14426950408889634 / 10000000000000000)))) * val17 * val1 + (exp2 (((val56 + val152 + val104) - val16) * (lit (14426950408889634 / 10000000000000000)))) * val17 * val2 + (exp2 (((val57 + val153 + val105) - val16) * (lit (14426950408889634 / 10000000000000000)))) * val17 * val3 + (exp2 (((val58 + val154 + val106) - val16) * (lit (14426950408889634 / 10000000000000000)))) * val17 * val4 + (exp2 (((val59 + val155 + val107) - val16) * (lit (14426950408889634 / 10000000000000000)))) * val17 * val5 + (exp2 (((val60 + val156 + val108) - val16) * (lit (14426950408889634 / 10000000000000000)))) * val17 * val6 + (exp2 (((val61 + val157 + val109) - val16) * (lit (14426950408889634 / 10000000000000000)))) * val17 * val7 + (exp2 (((val62 + val158 + val110) - val16) * (lit (14426950408889634 / 10000000000000000)))) * val17 * val8 + (exp2 (((val63 + val159 + val111) - val16) * (lit (14426950408889634 / 10000000000000000)))) * val17 * val9 + (exp2 (((val64 + val160 + val112) - val16) * (lit (14426950408889634 / 10000000000000000)))) * val17 * val10 + (exp2 (((val65 + val161 + val113) - val16) * (lit (14426950408889634 / 10000000000000000)))) * val17 * val11 + (exp2 (((val66 + val162 + val114) - val16) * (lit (14426950408889634 / 10000000000000000)))) * val17 * val12 + (exp2 (((val67 + val163 + val115) - val16) * (lit (14426950408889634 / 10000000000000000)))) * val17 * val13 + (exp2 (((val68 + val164 + val116) - val16) * (lit (14426950408889634 / 10000000000000000)))) * val17 * val14 + (exp2 (((val69 + val165 + val117) - val16) * (lit (14426950408889634 / 10000000000000000)))) * val17 * val15)])"

lemma bins: "[1..<16] = [1, 2, 3, 4, 5, 6, 7, 8, 9, 10, 11, 12, 13, 14, 15 :: nat]"
  by code_simp

definition bin_max :: "(nat \<Rightarrow> f32) \<Rightarrow> f32" where
  "bin_max x = fold (\<lambda>k m. larger m (x k)) [1..<16] (x 0)"

definition bin_exp :: "(f32 \<Rightarrow> f32) \<Rightarrow> f32 \<Rightarrow> f32 \<Rightarrow> f32" where
  "bin_exp exp2 m x = exp2 ((x - m) * log2_e)"

definition bin_scale :: "(f32 \<Rightarrow> f32) \<Rightarrow> (nat \<Rightarrow> f32) \<Rightarrow> f32 \<Rightarrow> f32" where
  "bin_scale exp2 x m = 1 / fold (\<lambda>k s. s + bin_exp exp2 m (x k)) [1..<16] (bin_exp exp2 m (x 0))"

definition bin_mean :: "(f32 \<Rightarrow> f32) \<Rightarrow> (nat \<Rightarrow> f32) \<Rightarrow> f32 \<Rightarrow> f32 \<Rightarrow> (nat \<Rightarrow> f32) \<Rightarrow> f32" where
  "bin_mean exp2 x m r w = fold (\<lambda>k s. s + bin_exp exp2 m (x k) * r * w k) [1..<16] (bin_exp exp2 m (x 0) * r * w 0)"

lemma side_index: "(of_nat gx * 48 + of_nat p * 8400 + of_nat lx * 3 :: i32) = of_nat (3 * (16 * gx + lx)) + of_nat p * 8400"
  by simp

lemma three: "{..<3} = {0, 1, 2 :: nat}"
  by auto

lemma max_stores:
  assumes "gx < 175" and "lx < 16"
  defines "a \<equiv> 3 * (16 * gx + lx)"
  shows "set (launch (r_175_4_16_3_16 b0 b1 b2) (gx, gy, gz) (p, lx, lz)) =
    (\<lambda>i. (of_nat (8400 * p + (a + i)), bin_max (\<lambda>k. bin b0 b1 b2 p k (a + i)))) ` {..<3}"
proof -
  define b where "b = 16 * gx + lx"
  have b: "b < 2800" "a = 3 * b" "2 ^ 4 * gx + lx = b" using assms(1,2) by (simp_all add: b_def a_def)
  note c = level_tests[OF b(1), folded b(2)]
  show ?thesis
    unfolding r_175_4_16_3_16_def larger_def[symmetric] launch_def Let_def vec_simps lane_index tile_index side_index
      a_def[symmetric] b(3) c three image_insert image_empty bin_max_def bins fold_simps bin_tile
    by (simp add: algebra_simps insert_commute)
qed

lemma scale_stores:
  assumes "gx < 175" and "lx < 16"
  defines "a \<equiv> 3 * (16 * gx + lx)"
  shows "set (launch (r_175_4_16_3_16n1 exp2 b0 b1 b2 m) (gx, gy, gz) (p, lx, lz)) =
    (\<lambda>i. (of_nat (8400 * p + (a + i)), bin_scale exp2 (\<lambda>k. bin b0 b1 b2 p k (a + i)) (arr m (8400 * p + (a + i))))) ` {..<3}"
proof -
  define b where "b = 16 * gx + lx"
  have b: "b < 2800" "a = 3 * b" "2 ^ 4 * gx + lx = b" using assms(1,2) by (simp_all add: b_def a_def)
  note c = level_tests[OF b(1), folded b(2)]
  show ?thesis
    unfolding r_175_4_16_3_16n1_def launch_def Let_def vec_simps lane_index tile_index side_index
      a_def[symmetric] b(3) c three image_insert image_empty bin_scale_def bin_exp_def log2_e_def[symmetric] bins fold_simps
      bin_tile arr_def
    by (simp add: algebra_simps insert_commute)
qed

lemma mean_stores:
  assumes "gx < 175" and "lx < 16"
  defines "a \<equiv> 3 * (16 * gx + lx)"
  shows "set (launch (r_175_4_16_3_16n2 exp2 b0 b1 b2 m r w) (gx, gy, gz) (p, lx, lz)) =
    (\<lambda>i. (of_nat (8400 * p + (a + i)), bin_mean exp2 (\<lambda>k. bin b0 b1 b2 p k (a + i)) (arr m (8400 * p + (a + i)))
      (arr r (8400 * p + (a + i))) (arr w))) ` {..<3}"
proof -
  define b where "b = 16 * gx + lx"
  have b: "b < 2800" "a = 3 * b" "2 ^ 4 * gx + lx = b" using assms(1,2) by (simp_all add: b_def a_def)
  note c = level_tests[OF b(1), folded b(2)]
  show ?thesis
    unfolding r_175_4_16_3_16n2_def launch_def Let_def vec_simps lane_index tile_index side_index
      a_def[symmetric] b(3) c three image_insert image_empty bin_mean_def bin_exp_def log2_e_def[symmetric] bins fold_simps
      bin_tile arr_def
    by (simp add: algebra_simps insert_commute)
qed

interpretation class_planes: planes_kernel 175 16 3 59 "(175, 59, 1)" "(16, 1, 1)" "launch (E_59_175_16_3 exp2 b0 b1 b2)"
  "\<lambda>p a. sigmoid exp2 (joined b0 b1 b2 p a)" "\<lambda>gx lx p. ((gx, p, 0), (lx, 0, 0))" for exp2 b0 b1 b2
  by unfold_locales (auto simp: dims_iff class_stores elim!: dimsE)

interpretation max_planes: planes_kernel 175 16 3 4 "(175, 1, 1)" "(4, 16, 1)" "launch (r_175_4_16_3_16 b0 b1 b2)"
  "\<lambda>p a. bin_max (\<lambda>k. bin b0 b1 b2 p k a)" "\<lambda>gx lx p. ((gx, 0, 0), (p, lx, 0))" for b0 b1 b2
  by unfold_locales (auto simp: dims_iff max_stores elim!: dimsE)

interpretation scale_planes: planes_kernel 175 16 3 4 "(175, 1, 1)" "(4, 16, 1)" "launch (r_175_4_16_3_16n1 exp2 b0 b1 b2 m)"
  "\<lambda>p a. bin_scale exp2 (\<lambda>k. bin b0 b1 b2 p k a) (arr m (8400 * p + a))" "\<lambda>gx lx p. ((gx, 0, 0), (p, lx, 0))"
  for exp2 b0 b1 b2 m
  by unfold_locales (auto simp: dims_iff scale_stores elim!: dimsE)

interpretation mean_planes: planes_kernel 175 16 3 4 "(175, 1, 1)" "(4, 16, 1)" "launch (r_175_4_16_3_16n2 exp2 b0 b1 b2 m r w)"
  "\<lambda>p a. bin_mean exp2 (\<lambda>k. bin b0 b1 b2 p k a) (arr m (8400 * p + a)) (arr r (8400 * p + a)) (arr w)"
  "\<lambda>gx lx p. ((gx, 0, 0), (p, lx, 0))" for exp2 b0 b1 b2 m r w
  by unfold_locales (auto simp: dims_iff mean_stores elim!: dimsE)

end
