(* ===== verification/Boxes.thy ===== *)
theory Boxes
  imports Heads
begin

text \<open>
  The boxes of the anchors, passes 89 to 94 of \<open>server/cherum/static/net.js\<close>: from the distances
  of the four sides to the centre of the anchor's cell, in cells, the centre and the extent of
  the box, and from these the corners in pixels.
\<close>

section \<open>Kernels\<close>

definition E_525_16_2 :: "f32 buf \<Rightarrow> f32 buf \<Rightarrow> f32 buf \<Rightarrow> f32 buf \<Rightarrow> vec3 \<Rightarrow> vec3 \<Rightarrow> f32 stores" where
  "E_525_16_2 data1 data2 data3 data4 gindex lindex =
    (let gidx0 = vx gindex;
         lidx0 = vx lindex;
         precast0 = gidx0;
         precast1 = push_bit 4 precast0;
         alu0 = lidx0 + precast1;
         val0 = rd data4 alu0;
         alu1 = alu0 + 8400;
         val1 = rd data4 alu1;
         val2 = rd data4 (alu0 + 16800);
         val3 = rd data4 (alu0 + 25200);
         alu2 = gidx0 <s 400;
         val4 = select 0 (rd data1 (i32_mod alu0 80)) alu2;
         val5 = select 0 (rd data1 (signed_drop_bit 10 (gidx0 * 205))) alu2;
         alu3 = gidx0 <s 500;
         alu4 = \<not> alu3;
         val6 = select 0 (rd data3 ((i32_div alu0 20) + (- 400))) alu4;
         val7 = select 0 (rd data3 (i32_mod alu0 20)) alu4;
         alu5 = (\<not> alu2) \<and> alu3;
         val8 = select 0 (rd data2 ((i32_div alu0 40) + (- 160))) alu5;
         val9 = select 0 (rd data2 (i32_mod alu0 40)) alu5;
         alu6 = val5 + val8 + val6;
         alu7 = val4 + val9 + val7
     in [(alu1, ((alu6 - val1) + alu6 + val3) * (lit (1 / 2))),
         (alu0, ((alu7 - val0) + alu7 + val2) * (lit (1 / 2)))])"

definition E_525_16_2n1 :: "f32 buf \<Rightarrow> f32 buf \<Rightarrow> f32 buf \<Rightarrow> f32 buf \<Rightarrow> vec3 \<Rightarrow> vec3 \<Rightarrow> f32 stores" where
  "E_525_16_2n1 data1 data2 data3 data4 gindex lindex =
    (let gidx0 = vx gindex;
         lidx0 = vx lindex;
         precast0 = gidx0;
         precast1 = push_bit 4 precast0;
         alu0 = lidx0 + precast1;
         val0 = rd data4 alu0;
         alu1 = alu0 + 8400;
         val1 = rd data4 alu1;
         val2 = rd data4 (alu0 + 16800);
         val3 = rd data4 (alu0 + 25200);
         alu2 = gidx0 <s 400;
         val4 = select 0 (rd data1 (signed_drop_bit 10 (gidx0 * 205))) alu2;
         val5 = select 0 (rd data1 (i32_mod alu0 80)) alu2;
         alu3 = gidx0 <s 500;
         alu4 = \<not> alu3;
         val6 = select 0 (rd data3 ((i32_div alu0 20) + (- 400))) alu4;
         val7 = select 0 (rd data3 (i32_mod alu0 20)) alu4;
         alu5 = (\<not> alu2) \<and> alu3;
         val8 = select 0 (rd data2 ((i32_div alu0 40) + (- 160))) alu5;
         val9 = select 0 (rd data2 (i32_mod alu0 40)) alu5
     in [(alu1, val4 + val8 + val6 + val3 + (((- val4) - val8) - val6) + val1),
         (alu0, val5 + val9 + val7 + val2 + (((- val5) - val9) - val7) + val0)])"

definition E_175_16_3n1 :: "f32 buf \<Rightarrow> f32 buf \<Rightarrow> f32 buf \<Rightarrow> vec3 \<Rightarrow> vec3 \<Rightarrow> f32 stores" where
  "E_175_16_3n1 data1 data2 data3 gindex lindex =
    (let gidx0 = vx gindex;
         lidx0 = vx lindex;
         alu0 = gidx0 * 48 + lidx0 * 3;
         val0 = rd data2 alu0;
         val1 = rd data3 alu0;
         val2 = rd data1 alu0;
         alu1 = alu0 + 1;
         val3 = rd data2 alu1;
         val4 = rd data3 alu1;
         val5 = rd data1 alu1;
         alu2 = alu0 + 2;
         val6 = rd data1 alu2;
         val7 = rd data2 alu2;
         val8 = rd data3 alu2
     in [(alu1, val5 * val4 + val3 * val4 * (- (lit (1 / 2)))),
         (alu2, val6 * val8 + val7 * val8 * (- (lit (1 / 2)))),
         (alu0, val2 * val1 + val0 * val1 * (- (lit (1 / 2))))])"

definition E_175_16_3n2 :: "f32 buf \<Rightarrow> f32 buf \<Rightarrow> f32 buf \<Rightarrow> vec3 \<Rightarrow> vec3 \<Rightarrow> f32 stores" where
  "E_175_16_3n2 data1 data2 data3 gindex lindex =
    (let gidx0 = vx gindex;
         lidx0 = vx lindex;
         alu0 = gidx0 * 48 + lidx0 * 3;
         val0 = rd data3 alu0;
         alu1 = alu0 + 1;
         val1 = rd data3 alu1;
         alu2 = alu0 + 2;
         val2 = rd data3 alu2;
         alu3 = alu0 + 8400;
         val3 = rd data2 alu3;
         val4 = rd data1 alu3;
         alu4 = alu0 + 8401;
         val5 = rd data2 alu4;
         val6 = rd data1 alu4;
         alu5 = alu0 + 8402;
         val7 = rd data2 alu5;
         val8 = rd data1 alu5
     in [(alu0, val4 * val0 + val3 * val0 * (- (lit (1 / 2)))),
         (alu1, val6 * val1 + val5 * val1 * (- (lit (1 / 2)))),
         (alu2, val8 * val2 + val7 * val2 * (- (lit (1 / 2))))])"

definition E_175_16_3n3 :: "f32 buf \<Rightarrow> f32 buf \<Rightarrow> f32 buf \<Rightarrow> vec3 \<Rightarrow> vec3 \<Rightarrow> f32 stores" where
  "E_175_16_3n3 data1 data2 data3 gindex lindex =
    (let gidx0 = vx gindex;
         lidx0 = vx lindex;
         alu0 = gidx0 * 48 + lidx0 * 3;
         val0 = rd data2 alu0;
         val1 = rd data3 alu0;
         val2 = rd data1 alu0;
         alu1 = alu0 + 1;
         val3 = rd data2 alu1;
         val4 = rd data3 alu1;
         val5 = rd data1 alu1;
         alu2 = alu0 + 2;
         val6 = rd data1 alu2;
         val7 = rd data2 alu2;
         val8 = rd data3 alu2
     in [(alu1, val5 * val4 + val3 * val4 * (lit (1 / 2))),
         (alu2, val6 * val8 + val7 * val8 * (lit (1 / 2))),
         (alu0, val2 * val1 + val0 * val1 * (lit (1 / 2)))])"

definition E_175_16_3n4 :: "f32 buf \<Rightarrow> f32 buf \<Rightarrow> f32 buf \<Rightarrow> vec3 \<Rightarrow> vec3 \<Rightarrow> f32 stores" where
  "E_175_16_3n4 data1 data2 data3 gindex lindex =
    (let gidx0 = vx gindex;
         lidx0 = vx lindex;
         alu0 = gidx0 * 48 + lidx0 * 3;
         val0 = rd data3 alu0;
         alu1 = alu0 + 1;
         val1 = rd data3 alu1;
         alu2 = alu0 + 2;
         val2 = rd data3 alu2;
         alu3 = alu0 + 8400;
         val3 = rd data2 alu3;
         val4 = rd data1 alu3;
         alu4 = alu0 + 8401;
         val5 = rd data2 alu4;
         val6 = rd data1 alu4;
         alu5 = alu0 + 8402;
         val7 = rd data2 alu5;
         val8 = rd data1 alu5
     in [(alu0, val4 * val0 + val3 * val0 * (lit (1 / 2))),
         (alu1, val6 * val1 + val5 * val1 * (lit (1 / 2))),
         (alu2, val8 * val2 + val7 * val2 * (lit (1 / 2)))])"

section \<open>Kernels that write two planes at once\<close>

locale paired_kernel =
  fixes N B :: nat and k :: "dim \<Rightarrow> dim \<Rightarrow> 'a stores" and F :: "nat \<Rightarrow> nat \<Rightarrow> 'a"
  assumes pos: "0 < B" and fits: "B * N * 2 \<le> 2 ^ 31"
    and stores: "gx < N \<Longrightarrow> lx < B \<Longrightarrow> set (k (gx, 0, 0) (lx, 0, 0)) =
      {(of_nat (B * N + (B * gx + lx)), F 1 (B * gx + lx)), (of_nat (B * gx + lx), F 0 (B * gx + lx))}"

sublocale paired_kernel \<subseteq> kernel_contract "(N, 1, 1)" "(B, 1, 1)" k "B * N * 2" "\<lambda>j. F (j div (B * N)) (j mod (B * N))"
proof
  show "B * N * 2 \<le> 2 ^ 31" by (rule fits)
next
  fix g l i v
  assume "g \<in> set (dims (N, 1, 1))" "l \<in> set (dims (B, 1, 1))" and iv: "(i, v) \<in> set (k g l)"
  then obtain gx lx where gl: "g = (gx, 0, 0)" "l = (lx, 0, 0)" "gx < N" "lx < B"
    unfolding dims_line by blast
  define a n where "a = B * gx + lx" and "n = B * N"
  have a: "a < n" using tile_bound[OF gl(3,4), of 0 1] by (simp add: a_def n_def)
  have "(i, v) = (of_nat (n + a), F 1 a) \<or> (i, v) = (of_nat a, F 0 a)"
    using iv stores[OF gl(3,4)] by (simp add: gl(1,2) a_def n_def)
  then have "(\<exists>j. j = n + a \<and> i = of_nat j \<and> v = F 1 a) \<or> (\<exists>j. j = a \<and> i = of_nat j \<and> v = F 0 a)" by simp
  moreover have "n + a < n * 2" "(n + a) div n = 1" "(n + a) mod n = a" "a < n * 2" "a div n = 0" "a mod n = a"
    using a by simp_all
  ultimately show "\<exists>j<B * N * 2. i = of_nat j \<and> v = F (j div (B * N)) (j mod (B * N))"
    unfolding n_def[symmetric] by metis
next
  fix j assume j: "j < B * N * 2"
  define n where "n = B * N"
  define a where "a = j mod n"
  have n: "0 < n" "j < n * 2" using j unfolding n_def by (cases "B * N = 0"; simp)+
  then have half: "j div n = 0 \<or> j div n = 1" using less_mult_imp_div_less[of j 2 n] by (auto simp: mult.commute)
  have "a < 1 * (B * N)" using n(1) by (simp add: a_def n_def)
  note d = tile_decompose[OF this _ pos, simplified]
  have j: "j = n * (j div n) + a" by (simp add: a_def)
  have s: "set (k (a div B, 0, 0) (a mod B, 0, 0)) = {(of_nat (n + a), F 1 a), (of_nat a, F 0 a)}"
    using stores[OF d(1,2)] unfolding mult_div_mod_eq n_def[symmetric] .
  have "(of_nat j, F (j div n) a) \<in> set (k (a div B, 0, 0) (a mod B, 0, 0))"
    unfolding s using half
  proof
    assume z: "j div n = 0"
    then have "j = a" using j by (metis mult_0_right add_0)
    then show "(of_nat j, F (j div n) a) \<in> {(of_nat (n + a), F 1 a), (of_nat a, F 0 a)}" unfolding z by blast
  next
    assume z: "j div n = 1"
    then have "j = n + a" using j by (metis mult.right_neutral)
    then show "(of_nat j, F (j div n) a) \<in> {(of_nat (n + a), F 1 a), (of_nat a, F 0 a)}" unfolding z by blast
  qed
  then show "\<exists>g\<in>set (dims (N, 1, 1)). \<exists>l\<in>set (dims (B, 1, 1)). (of_nat j, F (j div (B * N)) (j mod (B * N))) \<in> set (k g l)"
    using d(1,2) unfolding n_def[symmetric] a_def[symmetric] by (intro bexI; assumption?) (simp_all only: dims_line, blast+)
qed

section \<open>What they compute\<close>

definition cell_column :: "nat \<Rightarrow> nat" where
  "cell_column a = (if a < 6400 then a mod 80 else if a < 8000 then a mod 40 else a mod 20)"

definition cell_row :: "nat \<Rightarrow> nat" where
  "cell_row a = (if a < 6400 then a div 80 else if a < 8000 then a div 40 - 160 else a div 20 - 400)"

text \<open>Reading the cell centres of the grid of the anchor, the first coordinate from the column.\<close>

definition on_grid :: "(nat \<Rightarrow> f32) \<Rightarrow> (nat \<Rightarrow> f32) \<Rightarrow> (nat \<Rightarrow> f32) \<Rightarrow> (nat \<Rightarrow> nat) \<Rightarrow> nat \<Rightarrow> (f32 \<times> f32 \<times> f32)" where
  "on_grid g80 g40 g20 cell a = (if a < 6400 then (g80 (cell a), 0, 0) else if a < 8000 then (0, g40 (cell a), 0)
     else (0, 0, g20 (cell a)))"

definition box_centre :: "f32 \<times> f32 \<times> f32 \<Rightarrow> f32 \<Rightarrow> f32 \<Rightarrow> f32" where
  "box_centre g before after = (let c = fst g + fst (snd g) + snd (snd g) in ((c - before) + c + after) * lit (1 / 2))"

definition box_extent :: "f32 \<times> f32 \<times> f32 \<Rightarrow> f32 \<Rightarrow> f32 \<Rightarrow> f32" where
  "box_extent g before after =
     fst g + fst (snd g) + snd (snd g) + after + (- fst g - fst (snd g) - snd (snd g)) + before"

definition corner :: "f32 \<Rightarrow> f32 \<Rightarrow> f32 \<Rightarrow> f32 \<Rightarrow> f32" where
  "corner half centre_at extent s = centre_at * s + extent * s * half"

section \<open>The grid of an anchor in words\<close>

lemma signed_drop_bit_of_nat: "n < 2 ^ 31 \<Longrightarrow> signed_drop_bit b (of_nat n :: i32) = of_nat (n div 2 ^ b)"
proof -
  assume n: "n < 2 ^ 31"
  have "sint (signed_drop_bit b (of_nat n :: i32)) = int (n div 2 ^ b)"
    by (simp add: sint_signed_drop_bit_eq sint_of_nat_i32[OF n] drop_bit_eq_div zdiv_int)
  also have "\<dots> = sint (of_nat (n div 2 ^ b) :: i32)"
    using le_less_trans[OF div_le_dividend[of n "2 ^ b"] n] by (simp add: sint_of_nat_i32)
  finally show ?thesis by (simp only: signed_word_eqI)
qed

lemma row_80:
  fixes gx lx :: nat
  assumes "gx < 400" and "lx < 16"
  shows "gx * 205 div 1024 = (16 * gx + lx) div 80"
proof -
  have "(16 * gx + lx) div 80 = (16 * gx + lx) div 16 div 5" by (simp flip: div_mult2_eq)
  also have "(16 * gx + lx) div 16 = gx" using assms(2) by simp
  also have "gx div 5 = gx * 205 div 1024"
  proof -
    have "gx = 5 * (gx div 5) + gx mod 5" by simp
    moreover have "gx div 5 < 80" "gx mod 5 < 5" using assms(1) by simp_all
    ultimately obtain q r where qr: "gx = 5 * q + r" "q < 80" "r < 5" "gx div 5 = q" by metis
    then have "gx * 205 = 1024 * q + (q + 205 * r)" "q + 205 * r < 1024" by simp_all
    then have "gx * 205 div 1024 = q" by simp
    then show ?thesis using qr(4) by simp
  qed
  finally show ?thesis by simp
qed

lemma rows_40_20:
  "6400 \<le> a \<Longrightarrow> a < 8400 \<Longrightarrow> (of_nat (a div 40) + (- 160) :: i32) = of_nat (a div 40 - 160)"
  "8000 \<le> a \<Longrightarrow> a < 8400 \<Longrightarrow> (of_nat (a div 20) + (- 400) :: i32) = of_nat (a div 20 - 400)"
  by (subst of_nat_diff; simp)+

lemma column_words:
  assumes "gx < 525" and "lx < 16"
  defines "a \<equiv> 2 ^ 4 * gx + lx"
  shows "select 0 (rd x (i32_mod (of_nat a) 80)) (of_nat gx <s (400 :: i32)) = fst (on_grid (arr x) (arr y) (arr z) cell_column a)"
    and "select 0 (rd y (i32_mod (of_nat a) 40)) (\<not> of_nat gx <s (400 :: i32) \<and> of_nat gx <s (500 :: i32)) =
      fst (snd (on_grid (arr x) (arr y) (arr z) cell_column a))"
    and "select 0 (rd z (i32_mod (of_nat a) 20)) (\<not> of_nat gx <s (500 :: i32)) = snd (snd (on_grid (arr x) (arr y) (arr z) cell_column a))"
proof -
  have t: "of_nat gx <s (400 :: i32) \<longleftrightarrow> a < 6400" "of_nat gx <s (500 :: i32) \<longleftrightarrow> a < 8000"
    using assms(1,2) sless_of_nat[of gx 400] sless_of_nat[of gx 500] by (simp_all add: a_def) linarith+
  have "a < 2 ^ 31" using assms(1,2) by (simp add: a_def)
  then have m: "i32_mod (of_nat a) 80 = of_nat (a mod 80)" "i32_mod (of_nat a) 40 = of_nat (a mod 40)"
    "i32_mod (of_nat a) 20 = of_nat (a mod 20)"
    using i32_mod_of_nat[of a 80] i32_mod_of_nat[of a 40] i32_mod_of_nat[of a 20] by simp_all
  show "select 0 (rd x (i32_mod (of_nat a) 80)) (of_nat gx <s (400 :: i32)) = fst (on_grid (arr x) (arr y) (arr z) cell_column a)"
    and "select 0 (rd y (i32_mod (of_nat a) 40)) (\<not> of_nat gx <s (400 :: i32) \<and> of_nat gx <s (500 :: i32)) =
      fst (snd (on_grid (arr x) (arr y) (arr z) cell_column a))"
    and "select 0 (rd z (i32_mod (of_nat a) 20)) (\<not> of_nat gx <s (500 :: i32)) = snd (snd (on_grid (arr x) (arr y) (arr z) cell_column a))"
    unfolding t m by (simp_all add: on_grid_def cell_column_def arr_def select_def)
qed

lemma row_words:
  assumes "gx < 525" and "lx < 16"
  defines "a \<equiv> 2 ^ 4 * gx + lx"
  shows "select 0 (rd x (signed_drop_bit 10 (of_nat gx * 205))) (of_nat gx <s (400 :: i32)) = fst (on_grid (arr x) (arr y) (arr z) cell_row a)"
    and "select 0 (rd y (i32_div (of_nat a) 40 + (- 160))) (\<not> of_nat gx <s (400 :: i32) \<and> of_nat gx <s (500 :: i32)) =
      fst (snd (on_grid (arr x) (arr y) (arr z) cell_row a))"
    and "select 0 (rd z (i32_div (of_nat a) 20 + (- 400))) (\<not> of_nat gx <s (500 :: i32)) = snd (snd (on_grid (arr x) (arr y) (arr z) cell_row a))"
proof -
  have a: "a < 8400" using assms(1,2) by (simp add: a_def)
  have t: "of_nat gx <s (400 :: i32) \<longleftrightarrow> a < 6400" "of_nat gx <s (500 :: i32) \<longleftrightarrow> a < 8000" "gx < 400 \<longleftrightarrow> a < 6400"
    using assms(1,2) sless_of_nat[of gx 400] sless_of_nat[of gx 500] by (simp_all add: a_def) linarith+
  have d: "i32_div (of_nat a) 40 = of_nat (a div 40)" "i32_div (of_nat a) 20 = of_nat (a div 20)"
    using a i32_div_of_nat[of a 40] i32_div_of_nat[of a 20] by simp_all
  have "signed_drop_bit 10 (of_nat gx * 205 :: i32) = signed_drop_bit 10 (of_nat (gx * 205))" by simp
  also have "\<dots> = of_nat (gx * 205 div 1024)" using assms(1) by (subst signed_drop_bit_of_nat) simp_all
  finally have s: "signed_drop_bit 10 (of_nat gx * 205 :: i32) = of_nat (a div 80)" if "a < 6400"
    using row_80[OF _ assms(2)] that t(3) by (simp add: a_def)
  show "select 0 (rd x (signed_drop_bit 10 (of_nat gx * 205))) (of_nat gx <s (400 :: i32)) = fst (on_grid (arr x) (arr y) (arr z) cell_row a)"
    using s unfolding t(1,2) by (simp add: on_grid_def cell_row_def arr_def select_def)
  show "select 0 (rd y (i32_div (of_nat a) 40 + (- 160))) (\<not> of_nat gx <s (400 :: i32) \<and> of_nat gx <s (500 :: i32)) =
      fst (snd (on_grid (arr x) (arr y) (arr z) cell_row a))"
    and "select 0 (rd z (i32_div (of_nat a) 20 + (- 400))) (\<not> of_nat gx <s (500 :: i32)) = snd (snd (on_grid (arr x) (arr y) (arr z) cell_row a))"
    using a rows_40_20[of a] unfolding t(1,2) d by (simp_all add: on_grid_def cell_row_def arr_def select_def del: of_nat_diff)
qed

lemma distance_words:
  "(of_nat a + 8400 :: i32) = of_nat (8400 + a)" "(of_nat a + 16800 :: i32) = of_nat (16800 + a)"
  "(of_nat a + 25200 :: i32) = of_nat (25200 + a)" "rd d (of_nat n) = arr d n"
  by (simp_all add: arr_def)

definition cell_of :: "nat \<Rightarrow> nat \<Rightarrow> nat" where
  "cell_of p = (if p = 0 then cell_column else cell_row)"

lemma cell_of_simps: "cell_of 0 = cell_column" "cell_of 1 = cell_row"
  by (simp_all add: cell_of_def)

interpretation centre_planes: paired_kernel 525 16 "launch (E_525_16_2 g80 g40 g20 d)"
  "\<lambda>p a. box_centre (on_grid (arr g80) (arr g40) (arr g20) (cell_of p) a) (arr d (8400 * p + a)) (arr d (8400 * (p + 2) + a))"
  for g80 g40 g20 d
proof unfold_locales
  fix gx lx :: nat
  assume g: "gx < 525" "lx < 16"
  show "set (launch (E_525_16_2 g80 g40 g20 d) (gx, 0, 0) (lx, 0, 0)) =
    {(of_nat (16 * 525 + (16 * gx + lx)), box_centre (on_grid (arr g80) (arr g40) (arr g20) (cell_of 1) (16 * gx + lx))
        (arr d (8400 * 1 + (16 * gx + lx))) (arr d (8400 * (1 + 2) + (16 * gx + lx)))),
     (of_nat (16 * gx + lx), box_centre (on_grid (arr g80) (arr g40) (arr g20) (cell_of 0) (16 * gx + lx))
        (arr d (8400 * 0 + (16 * gx + lx))) (arr d (8400 * (0 + 2) + (16 * gx + lx))))}"
    unfolding E_525_16_2_def launch_def Let_def vec_simps lane_index column_words[OF g, where x = g80 and y = g40 and z = g20]
      row_words[OF g, where x = g80 and y = g40 and z = g20] distance_words
      box_centre_def cell_of_simps by simp
qed simp_all

interpretation extent_planes: paired_kernel 525 16 "launch (E_525_16_2n1 g80 g40 g20 d)"
  "\<lambda>p a. box_extent (on_grid (arr g80) (arr g40) (arr g20) (cell_of p) a) (arr d (8400 * p + a)) (arr d (8400 * (p + 2) + a))"
  for g80 g40 g20 d
proof unfold_locales
  fix gx lx :: nat
  assume g: "gx < 525" "lx < 16"
  show "set (launch (E_525_16_2n1 g80 g40 g20 d) (gx, 0, 0) (lx, 0, 0)) =
    {(of_nat (16 * 525 + (16 * gx + lx)), box_extent (on_grid (arr g80) (arr g40) (arr g20) (cell_of 1) (16 * gx + lx))
        (arr d (8400 * 1 + (16 * gx + lx))) (arr d (8400 * (1 + 2) + (16 * gx + lx)))),
     (of_nat (16 * gx + lx), box_extent (on_grid (arr g80) (arr g40) (arr g20) (cell_of 0) (16 * gx + lx))
        (arr d (8400 * 0 + (16 * gx + lx))) (arr d (8400 * (0 + 2) + (16 * gx + lx))))}"
    unfolding E_525_16_2n1_def launch_def Let_def vec_simps lane_index column_words[OF g, where x = g80 and y = g40 and z = g20]
      row_words[OF g, where x = g80 and y = g40 and z = g20] distance_words
      box_extent_def cell_of_simps by simp
qed simp_all

section \<open>Corners\<close>

interpretation lefts: tiled_kernel 175 16 3 "launch (E_175_16_3n1 c e s)" "\<lambda>a. corner (- lit (1 / 2)) (arr c a) (arr e a) (arr s a)" for c e s
  by unfold_locales (simp_all add: tile_kernel E_175_16_3n1_def corner_def algebra_simps insert_commute)

interpretation tops: tiled_kernel 175 16 3 "launch (E_175_16_3n2 c e s)"
  "\<lambda>a. corner (- lit (1 / 2)) (arr c (8400 + a)) (arr e (8400 + a)) (arr s a)" for c e s
  by unfold_locales (simp_all add: tile_kernel E_175_16_3n2_def corner_def algebra_simps insert_commute)

interpretation rights: tiled_kernel 175 16 3 "launch (E_175_16_3n3 c e s)" "\<lambda>a. corner (lit (1 / 2)) (arr c a) (arr e a) (arr s a)" for c e s
  by unfold_locales (simp_all add: tile_kernel E_175_16_3n3_def corner_def algebra_simps insert_commute)

interpretation bottoms: tiled_kernel 175 16 3 "launch (E_175_16_3n4 c e s)"
  "\<lambda>a. corner (lit (1 / 2)) (arr c (8400 + a)) (arr e (8400 + a)) (arr s a)" for c e s
  by unfold_locales (simp_all add: tile_kernel E_175_16_3n4_def corner_def algebra_simps insert_commute)

end
