(* ===== verification/Layers.thy ===== *)
theory Layers
  imports Tensors Boxes
begin

text \<open>
  The layers of the network (\<open>server/cherum/static/net.js\<close>, passes 3 and 7 to 84) as functions of
  plane, row and column, in the order of operations of the shaders: convolutions with batch
  normalisation and activation, plain ones, joins of tensors, doubling of the resolution and the
  maximum over a window. Inputs are functions of the position in the buffer; the functions \<open>exp2\<close>
  and \<open>sqrt\<close> of the GPU are parameters.
\<close>

section \<open>Activation and normalisation\<close>

definition silu :: "(f32 \<Rightarrow> f32) \<Rightarrow> f32 \<Rightarrow> f32" where
  "silu exp2 z = z * sigmoid exp2 z"

text \<open>Batch normalisation of a value of plane \<open>k\<close>, with mean, weight, variance and bias of the plane.\<close>

definition batch_norm :: "(f32 \<Rightarrow> f32) \<Rightarrow> (nat \<Rightarrow> f32) \<Rightarrow> (nat \<Rightarrow> f32) \<Rightarrow> (nat \<Rightarrow> f32) \<Rightarrow> (nat \<Rightarrow> f32) \<Rightarrow> nat \<Rightarrow> f32 \<Rightarrow> f32" where
  "batch_norm fsqrt m g v b k s = (s - m k) * g k * (1 / fsqrt (v k + lit (1 / 1000))) + b k"

section \<open>Convolutions\<close>

text \<open>
  The 1x1 convolution sums over the \<open>C\<close> planes of the input, in their order, at one of the \<open>S\<close>
  positions of a plane; without the loop the sum starts with the first product instead of zero.
\<close>

definition product :: "nat \<Rightarrow> nat \<Rightarrow> (nat \<Rightarrow> f32) \<Rightarrow> (nat \<Rightarrow> f32) \<Rightarrow> nat \<Rightarrow> nat \<Rightarrow> nat \<Rightarrow> f32" where
  "product S C x w k p c = x (S * c + p) * w (C * k + c)"

definition pointwise :: "nat \<Rightarrow> nat \<Rightarrow> (nat \<Rightarrow> f32) \<Rightarrow> (nat \<Rightarrow> f32) \<Rightarrow> nat \<Rightarrow> nat \<Rightarrow> f32" where
  "pointwise S C x w k p = fold (\<lambda>c s. s + product S C x w k p c) [0..<C] 0"

definition pointwise_first :: "nat \<Rightarrow> nat \<Rightarrow> (nat \<Rightarrow> f32) \<Rightarrow> (nat \<Rightarrow> f32) \<Rightarrow> nat \<Rightarrow> nat \<Rightarrow> f32" where
  "pointwise_first S C x w k p = fold (\<lambda>c s. s + product S C x w k p c) [1..<C] (product S C x w k p 0)"

text \<open>
  The 3x3 convolution with stride \<open>s\<close>. Rows and columns of the input are counted from 1, so that 0
  and the numbers beyond the size are the padding, which is zero. The sum is over the \<open>C\<close> planes
  from plane \<open>P\<close> on and over the columns and rows of the window, in this order.
\<close>

definition pixel :: "nat \<Rightarrow> nat \<Rightarrow> (nat \<Rightarrow> f32) \<Rightarrow> nat \<Rightarrow> nat \<Rightarrow> nat \<Rightarrow> f32" where
  "pixel H W x c r k = (if 1 \<le> r \<and> r \<le> H \<and> 1 \<le> k \<and> k \<le> W then x (H * W * c + (W * (r - 1) + (k - 1))) else 0)"

definition window :: "nat \<Rightarrow> nat \<Rightarrow> nat \<Rightarrow> nat \<Rightarrow> nat \<Rightarrow> (nat \<Rightarrow> f32) \<Rightarrow> (nat \<Rightarrow> f32) \<Rightarrow> nat \<Rightarrow> nat \<Rightarrow> nat \<Rightarrow> f32" where
  "window s H W P C x w k y z = fold (\<lambda>c. fold (\<lambda>j. fold (\<lambda>i a.
     a + pixel H W x (P + c) (s * y + i) (s * z + j) * w (9 * (C * k + c) + (3 * i + j))) [0..<3]) [0..<3]) [0..<C] 0"

section \<open>Joins\<close>

text \<open>
  Tensors behind one another. A part \<open>(l, u, d, n)\<close> gives the planes \<open>l\<close> to \<open>u\<close>, excluded, from input
  \<open>n\<close>, whose planes are counted from \<open>d\<close>; the shaders add the parts, all but one of which are zero.
\<close>

type_synonym part = "nat \<times> nat \<times> nat \<times> nat"

definition part_value :: "nat \<Rightarrow> (nat \<Rightarrow> nat \<Rightarrow> f32) \<Rightarrow> nat \<Rightarrow> nat \<Rightarrow> part \<Rightarrow> f32" where
  "part_value S f k p q = (case q of (l, u, d, n) \<Rightarrow> if l \<le> k \<and> k < u then f n (S * (k - d) + p) else 0)"

fun concatenation :: "nat \<Rightarrow> (nat \<Rightarrow> nat \<Rightarrow> f32) \<Rightarrow> part list \<Rightarrow> nat \<Rightarrow> nat \<Rightarrow> f32" where
  "concatenation S f [] k p = 0"
| "concatenation S f (q # qs) k p = fold (\<lambda>q a. a + part_value S f k p q) qs (part_value S f k p q)"

text \<open>A tensor at twice its resolution before another one, which has \<open>H\<close> rows and \<open>W\<close> columns, from plane \<open>K\<close> on.\<close>

definition upsample :: "nat \<Rightarrow> nat \<Rightarrow> nat \<Rightarrow> (nat \<Rightarrow> f32) \<Rightarrow> (nat \<Rightarrow> f32) \<Rightarrow> nat \<Rightarrow> nat \<Rightarrow> nat \<Rightarrow> f32" where
  "upsample H W K x r k y z = (if k < K then x (H div 2 * (W div 2) * k + (W div 2 * (y div 2) + z div 2)) else 0) +
     (if k < K then 0 else r (H * W * (k - K) + (W * y + z)))"

section \<open>Maxima\<close>

text \<open>The maximum over a 5x5 window; beyond the edges the window sees zeros.\<close>

definition margin :: "nat \<Rightarrow> nat \<Rightarrow> (nat \<Rightarrow> f32) \<Rightarrow> nat \<Rightarrow> nat \<Rightarrow> nat \<Rightarrow> f32" where
  "margin H W x c r k = (if 2 \<le> r \<and> r < H + 2 \<and> 2 \<le> k \<and> k < W + 2 then x (H * W * c + (W * (r - 2) + (k - 2))) else 0)"

definition pool :: "nat \<Rightarrow> nat \<Rightarrow> (nat \<Rightarrow> f32) \<Rightarrow> nat \<Rightarrow> nat \<Rightarrow> nat \<Rightarrow> f32" where
  "pool H W x c y z = fold (\<lambda>i. fold (\<lambda>j a. larger a (margin H W x c (y + i) (z + j))) [0..<5]) [0..<5] (- INFINITY)"

section \<open>Layers\<close>

text \<open>
  The kinds of layers, with the sizes of their inputs: 1x1 convolutions of \<open>C\<close> planes with \<open>S\<close> positions
  (normalised, with the sum from the first product, or with a bias only), 3x3 convolutions of \<open>C\<close> planes
  from plane \<open>P\<close> on with stride \<open>s\<close>, the same with another tensor added that starts at plane \<open>Q\<close>, joins, doubling, maxima.
\<close>

datatype layer = Conv1 nat nat | Conv1First nat nat | Linear nat nat
  | Conv3 nat nat nat nat nat | Residual nat nat nat nat nat
  | Join nat "part list" | Upsample nat nat nat | Pool nat nat

text \<open>The value of a layer at plane \<open>k\<close>, row \<open>y\<close> and column \<open>z\<close>; input \<open>n\<close> is the buffer at binding \<open>n\<close>.\<close>

fun layer_value :: "(f32 \<Rightarrow> f32) \<Rightarrow> (f32 \<Rightarrow> f32) \<Rightarrow> layer \<Rightarrow> (nat \<Rightarrow> nat \<Rightarrow> f32) \<Rightarrow> nat \<Rightarrow> nat \<Rightarrow> nat \<Rightarrow> f32" where
  "layer_value exp2 fsqrt (Conv1 S C) f k y z =
     silu exp2 (batch_norm fsqrt (f 3) (f 4) (f 5) (f 6) k (pointwise S C (f 1) (f 2) k z))"
| "layer_value exp2 fsqrt (Conv1First S C) f k y z =
     silu exp2 (batch_norm fsqrt (f 3) (f 4) (f 5) (f 6) k (pointwise_first S C (f 1) (f 2) k z))"
| "layer_value exp2 fsqrt (Linear S C) f k y z = pointwise S C (f 1) (f 2) k z + f 3 k"
| "layer_value exp2 fsqrt (Conv3 s H W P C) f k y z =
     silu exp2 (batch_norm fsqrt (f 3) (f 4) (f 5) (f 6) k (window s H W P C (f 1) (f 2) k y z))"
| "layer_value exp2 fsqrt (Residual H W P C Q) f k y z = f 1 (H * W * (Q + k) + (W * y + z)) +
     silu exp2 (batch_norm fsqrt (f 4) (f 5) (f 6) (f 7) k (window 1 H W P C (f 2) (f 3) k y z))"
| "layer_value exp2 fsqrt (Join S ps) f k y z = concatenation S f ps k z"
| "layer_value exp2 fsqrt (Upsample H W K) f k y z = upsample H W K (f 1) (f 2) k y z"
| "layer_value exp2 fsqrt (Pool H W) f k y z = pool H W (f 1) k y z"

text \<open>The buffers of a shader by binding, and what is read of them.\<close>

definition reads :: "f32 buf list \<Rightarrow> nat \<Rightarrow> nat \<Rightarrow> f32" where
  "reads bs n = arr (bs ! (n - 1))"

lemma reads_simps [simp]:
  "reads (b # bs) 1 = arr b" "reads (b # bs) (Suc 0) = arr b" "reads (b # c # bs) 2 = arr c" "reads (b # c # d # bs) 3 = arr d"
  "reads (b # c # d # e # bs) 4 = arr e" "reads (b # c # d # e # f # bs) 5 = arr f"
  "reads (b # c # d # e # f # g # bs) 6 = arr g" "reads (b # c # d # e # f # g # h # bs) 7 = arr h"
  by (simp_all add: reads_def)

section \<open>The same with words\<close>

lemma fold_4:
  assumes "\<And>c. f c = h (of_nat c)"
  shows "fold (\<lambda>c s. s + f c) [0..<4 * n] z = for_loop n (\<lambda>i s. s + h (4 * i) + h (4 * i + 1) + h (4 * i + 2) + h (4 * i + 3)) z"
proof (induction n)
  case (Suc n)
  have "4 * Suc n = Suc (Suc (Suc (Suc (4 * n))))" by simp
  then have "fold (\<lambda>c s. s + f c) [0..<4 * Suc n] z =
      fold (\<lambda>c s. s + f c) [0..<4 * n] z + f (4 * n) + f (4 * n + 1) + f (4 * n + 2) + f (4 * n + 3)"
    by (simp only: upt_Suc) (simp add: numeral_eq_Suc)
  then show ?case unfolding for_loop_Suc Suc.IH[symmetric] by (simp add: assms add.commute del: fold_append)
qed (simp add: for_loop_0)

lemma pointwise_words:
  assumes "C = 4 * n"
  shows "pointwise S C (arr x) (arr w) k p = for_loop n (\<lambda>i s. s
       + rd x (of_nat S * (4 * i) + of_nat p) * rd w (of_nat (C * k) + 4 * i)
       + rd x (of_nat S * (4 * i + 1) + of_nat p) * rd w (of_nat (C * k) + (4 * i + 1))
       + rd x (of_nat S * (4 * i + 2) + of_nat p) * rd w (of_nat (C * k) + (4 * i + 2))
       + rd x (of_nat S * (4 * i + 3) + of_nat p) * rd w (of_nat (C * k) + (4 * i + 3))) 0"
  unfolding pointwise_def assms
  by (rule fold_4[where h = "\<lambda>c. rd x (of_nat S * c + of_nat p) * rd w (of_nat (4 * n * k) + c)"]) (simp add: product_def arr_def)

lemma fold_words: "(\<And>c a. c < n \<Longrightarrow> f c a = h (of_nat c) a) \<Longrightarrow> fold f [0..<n] z = for_loop n h z"
  by (induction n) (simp_all add: for_loop_0 for_loop_Suc)

lemma upto_3: "[0..<3] = [0, 1, 2 :: nat]"
  by (simp add: upt_rec)

lemma pixel_words:
  "pixel H W (arr x) c r k = select 0 (rd x (of_nat (H * W) * of_nat c + of_nat W * of_nat r + of_nat k - of_nat (W + 1)))
     ((1 \<le> r \<and> r \<le> H) \<and> (1 \<le> k \<and> k \<le> W))"
proof (cases "(1 \<le> r \<and> r \<le> H) \<and> (1 \<le> k \<and> k \<le> W)")
  case True
  then obtain r' k' where "r = Suc r'" "k = Suc k'" by (metis Suc_le_D One_nat_def)
  then show ?thesis using True by (simp add: pixel_def arr_def algebra_simps)
qed (auto simp: pixel_def select_def)

text \<open>One step of the loop over the planes, \<open>h\<close> with the six conditions for the rows and columns of the window.\<close>

definition taps :: "(bool \<Rightarrow> i32 \<Rightarrow> f32) \<Rightarrow> (i32 \<Rightarrow> f32) \<Rightarrow> bool \<Rightarrow> bool \<Rightarrow> bool \<Rightarrow> bool \<Rightarrow> i32 \<Rightarrow> f32 \<Rightarrow> f32" where
  "taps h u t b l r W = (\<lambda>a. a + h (t \<and> l) 0 * u 0 + h l W * u 3 + h (b \<and> l) (2 * W) * u 6
     + h t 1 * u 1 + h True (W + 1) * u 4 + h b (2 * W + 1) * u 7
     + h (t \<and> r) 2 * u 2 + h r (W + 2) * u 5 + h (b \<and> r) (2 * W + 2) * u 8)"

lemma window_1:
  assumes "y \<le> Y" and "b \<le> B" and "H = Y + 1" and "W = 4 * (B + 1)" and "p < 4"
  shows "window 1 H W P C (arr x) (arr w) k y (4 * b + p) =
    for_loop C (\<lambda>i. taps (\<lambda>c d. select 0 (rd x (of_nat (H * W * P) + of_nat (H * W) * i
          + of_nat (W * y + (4 * b + p)) - of_nat (W + 1) + d)) c)
        (\<lambda>d. rd w (of_nat (9 * C * k) + 9 * i + d)) (0 < y) (y < Y) (p = 0 \<longrightarrow> 0 < b) (p = 3 \<longrightarrow> b < B) (of_nat W)) 0"
proof -
  have g: "1 \<le> y + 0 \<and> y + 0 \<le> H \<longleftrightarrow> 0 < y" "1 \<le> y + 1 \<and> y + 1 \<le> H" "1 \<le> y + 2 \<and> y + 2 \<le> H \<longleftrightarrow> y < Y"
    "1 \<le> 4 * b + p + 0 \<and> 4 * b + p + 0 \<le> W \<longleftrightarrow> (p = 0 \<longrightarrow> 0 < b)" "1 \<le> 4 * b + p + 1 \<and> 4 * b + p + 1 \<le> W"
    "1 \<le> 4 * b + p + 2 \<and> 4 * b + p + 2 \<le> W \<longleftrightarrow> (p = 3 \<longrightarrow> b < B)"
    using assms by arith+
  show ?thesis
    unfolding window_def upto_3
  proof (rule fold_words, goal_cases)
    case (1 c a)
    show ?case
      unfolding fold_simps id_apply comp_apply pixel_words mult_1 g taps_def arr_def
      using g(2,5) by (simp add: algebra_simps)
  qed
qed

lemma window_2:
  assumes "y \<le> Y" and "b \<le> B" and "H = 2 * (Y + 1)" and "W = 8 * (B + 1)" and "p < 4"
  shows "window 2 H W P C (arr x) (arr w) k y (4 * b + p) =
    for_loop C (\<lambda>i. taps (\<lambda>c d. select 0 (rd x (of_nat (H * W * P) + of_nat (H * W) * i
          + of_nat (W * (2 * y) + (2 * (4 * b + p))) - of_nat (W + 1) + d)) c)
        (\<lambda>d. rd w (of_nat (9 * C * k) + 9 * i + d)) (0 < y) True (p = 0 \<longrightarrow> 0 < b) True (of_nat W)) 0"
proof -
  have g: "1 \<le> 2 * y + 0 \<and> 2 * y + 0 \<le> H \<longleftrightarrow> 0 < y" "1 \<le> 2 * y + 1 \<and> 2 * y + 1 \<le> H" "1 \<le> 2 * y + 2 \<and> 2 * y + 2 \<le> H"
    "1 \<le> 2 * (4 * b + p) + 0 \<and> 2 * (4 * b + p) + 0 \<le> W \<longleftrightarrow> (p = 0 \<longrightarrow> 0 < b)"
    "1 \<le> 2 * (4 * b + p) + 1 \<and> 2 * (4 * b + p) + 1 \<le> W" "1 \<le> 2 * (4 * b + p) + 2 \<and> 2 * (4 * b + p) + 2 \<le> W"
    using assms by arith+
  show ?thesis
    unfolding window_def upto_3
  proof (rule fold_words, goal_cases)
    case (1 c a)
    show ?case
      unfolding fold_simps id_apply comp_apply pixel_words g taps_def arr_def
      using g(2,3,5,6) by (simp add: algebra_simps)
  qed
qed

lemma less_4: "0 < (4 :: nat)" "1 < (4 :: nat)" "2 < (4 :: nat)" "3 < (4 :: nat)"
  by simp_all

text \<open>The conditions as the shaders test them.\<close>

lemma first_test: "gx < 2 ^ 16 \<Longrightarrow> lx < 2 ^ 16 \<Longrightarrow> 0 < n \<Longrightarrow> ((of_nat gx + of_nat lx :: i32) <s 1) \<longleftrightarrow> \<not> 0 < n * gx + lx"
  using sless_of_nat[of "gx + lx" 1] by simp

lemma last_test: "2 ^ n * gx + lx < 2 ^ 31 \<Longrightarrow> m < 2 ^ 31 \<Longrightarrow>
   ((of_nat lx + push_bit n (of_nat gx) :: i32) <s of_nat m) \<longleftrightarrow> 2 ^ n * gx + lx < m"
  unfolding lane_index by (rule sless_of_nat)

lemma group_test: "g < 2 ^ 16 \<Longrightarrow> n < 2 ^ 16 \<Longrightarrow> l < M \<Longrightarrow> ((of_nat g :: i32) <s of_nat n) \<longleftrightarrow> M * g + l < M * n"
proof -
  assume a: "g < 2 ^ 16" "n < 2 ^ 16" "l < M"
  have "M * g + l < M * n \<longleftrightarrow> g < n"
  proof
    assume "M * g + l < M * n"
    then have "M * g < M * n" by linarith
    then show "g < n" by simp
  next
    assume "g < n"
    then have "M * (g + 1) \<le> M * n" by (intro mult_le_mono2) simp
    then show "M * g + l < M * n" using a(3) by simp
  qed
  then show ?thesis using a(1,2) by (simp add: sless_of_nat)
qed

lemma part_words: "d \<le> l \<Longrightarrow> part_value S (reads bs) k p (l, u, d, n) =
   select 0 (rd (bs ! (n - 1)) (of_nat S * of_nat k + of_nat p - of_nat (S * d))) (l \<le> k \<and> k < u)"
proof (cases "l \<le> k")
  case True
  moreover assume "d \<le> l"
  ultimately obtain e where "k = d + e" by (metis le_Suc_ex le_trans)
  then show ?thesis by (simp add: part_value_def select_def reads_def arr_def algebra_simps)
qed (simp add: part_value_def select_def)

lemma upsample_words: "upsample H W K (arr x) (arr r) k y z =
   select 0 (rd x (of_nat (H div 2 * (W div 2)) * of_nat k + of_nat (W div 2 * (y div 2) + z div 2))) (k < K) +
   select 0 (rd r (of_nat (H * W) * of_nat k + of_nat (W * y + z) - of_nat (H * W * K))) (\<not> k < K)"
proof (cases "k < K")
  case False
  then obtain e where "k = K + e" by (metis le_Suc_ex not_less)
  then show ?thesis by (simp add: upsample_def select_def arr_def algebra_simps)
qed (simp add: upsample_def select_def arr_def algebra_simps)

lemma margin_words:
  "margin H W (arr x) c r k = select 0 (rd x (of_nat (H * W) * of_nat c + of_nat W * of_nat r + of_nat k - of_nat (2 * W + 2)))
     ((2 \<le> r \<and> r < H + 2) \<and> (2 \<le> k \<and> k < W + 2))"
proof (cases "(2 \<le> r \<and> r < H + 2) \<and> (2 \<le> k \<and> k < W + 2)")
  case True
  then obtain r' k' where "r = 2 + r'" "k = 2 + k'" by (metis le_Suc_ex)
  then show ?thesis using True by (simp add: margin_def arr_def algebra_simps)
qed (auto simp: margin_def select_def)

lemma upto_5: "[0..<5] = [0, 1, 2, 3, 4 :: nat]"
  by (simp add: upt_rec)

text \<open>One row of the window of the maximum.\<close>

definition row_max :: "(bool \<Rightarrow> i32 \<Rightarrow> f32) \<Rightarrow> bool \<Rightarrow> bool \<Rightarrow> bool \<Rightarrow> bool \<Rightarrow> f32 \<Rightarrow> f32" where
  "row_max h l0 l1 r3 r4 = (\<lambda>a. larger (larger (larger (larger (larger a (h l0 0)) (h l1 1)) (h True 2)) (h r3 3)) (h r4 4))"

lemma pool_words:
  assumes "y < H" and "H < 2 ^ 30" and "b \<le> B" and "W = 4 * (B + 1)" and "p < 4"
  shows "pool H W (arr x) c y (4 * b + p) = for_loop 5 (\<lambda>i. row_max (\<lambda>k d. select 0
       (rd x (of_nat (H * W) * of_nat c + of_nat W * (of_nat y + i) + of_nat (4 * b + p) - of_nat (2 * W + 2) + d))
       ((\<not> (of_nat y + i <s 2) \<and> of_nat y + i <s of_nat (H + 2)) \<and> k))
     (p < 2 \<longrightarrow> 0 < b) (p = 0 \<longrightarrow> 0 < b) (p = 3 \<longrightarrow> b < B) (2 \<le> p \<longrightarrow> b < B)) (- INFINITY)"
proof -
  have g: "2 \<le> 4 * b + p + 0 \<and> 4 * b + p + 0 < W + 2 \<longleftrightarrow> (p < 2 \<longrightarrow> 0 < b)" "2 \<le> 4 * b + p + 1 \<and> 4 * b + p + 1 < W + 2 \<longleftrightarrow> (p = 0 \<longrightarrow> 0 < b)"
    "2 \<le> 4 * b + p + 2 \<and> 4 * b + p + 2 < W + 2" "2 \<le> 4 * b + p + 3 \<and> 4 * b + p + 3 < W + 2 \<longleftrightarrow> (p = 3 \<longrightarrow> b < B)"
    "2 \<le> 4 * b + p + 4 \<and> 4 * b + p + 4 < W + 2 \<longleftrightarrow> (2 \<le> p \<longrightarrow> b < B)"
    using assms by arith+
  show ?thesis
    unfolding pool_def
  proof (rule fold_words, goal_cases)
    case (1 i a)
    have "((of_nat (y + i) :: i32) <s of_nat 2) \<longleftrightarrow> y + i < 2" "((of_nat (y + i) :: i32) <s of_nat (H + 2)) \<longleftrightarrow> y + i < H + 2"
      by (rule sless_of_nat; use 1 assms(1,2) in simp)+
    then have t: "2 \<le> y + i \<longleftrightarrow> \<not> ((of_nat y + of_nat i :: i32) <s 2)" "y + i < H + 2 \<longleftrightarrow> ((of_nat y + of_nat i :: i32) <s of_nat (H + 2))"
      by auto
    show ?case
      unfolding upto_5 fold_simps id_apply comp_apply margin_words g t row_max_def
      using g(3) by (simp add: algebra_simps)
  qed
qed

lemma halves: "(4 * b + 0) div 2 = 2 * b" "(4 * b + 1) div 2 = 2 * b" "(4 * b + 2) div 2 = 2 * b + 1" "(4 * b + 3) div 2 = 2 * b + (1 :: nat)"
  by simp_all

lemma upto_31: "[1..<32] = [1, 2, 3, 4, 5, 6, 7, 8, 9, 10, 11, 12, 13, 14, 15, 16, 17, 18, 19, 20, 21, 22, 23, 24, 25, 26, 27, 28, 29, 30, 31 :: nat]"
  by (simp add: upt_rec)

section \<open>Shaders that compute layers\<close>

text \<open>Whatever the bound buffers hold, the outcome of a dispatch is the layer with \<open>O\<close> planes of \<open>H\<close> rows and \<open>W\<close> columns.\<close>

definition computes :: "(f32 \<Rightarrow> f32) \<Rightarrow> (f32 \<Rightarrow> f32) \<Rightarrow> shader \<Rightarrow> dim \<Rightarrow> layer \<Rightarrow> nat \<Rightarrow> nat \<Rightarrow> nat \<Rightarrow> bool" where
  "computes exp2 fsqrt s G l N H W \<longleftrightarrow> (\<exists>L code. s = FShader L code \<and>
     (\<forall>f i. kernel_contract G L (launch (code f i)) (H * W * N) (tensor_at H W (layer_value exp2 fsqrt l (\<lambda>n. arr (f n))))))"

lemma computesI:
  assumes "\<And>f i. kernel_contract G L (launch (code f i)) n (F f)"
    and "n = H * W * N" and "\<And>f. F f = tensor_at H W (layer_value exp2 fsqrt l (\<lambda>n. arr (f n)))"
  shows "computes exp2 fsqrt (FShader L code) G l N H W"
  using assms by (auto simp: computes_def)

lemma layer_inputs:
  "layer_value exp2 fsqrt (Conv1 S C) (reads [f 1, f 2, f 3, f 4, f 5, f 6]) = layer_value exp2 fsqrt (Conv1 S C) (\<lambda>n. arr (f n))"
  "layer_value exp2 fsqrt (Conv1First S C) (reads [f 1, f 2, f 3, f 4, f 5, f 6]) = layer_value exp2 fsqrt (Conv1First S C) (\<lambda>n. arr (f n))"
  "layer_value exp2 fsqrt (Linear S C) (reads [f 1, f 2, f 3]) = layer_value exp2 fsqrt (Linear S C) (\<lambda>n. arr (f n))"
  "layer_value exp2 fsqrt (Conv3 s H W P C) (reads [f 1, f 2, f 3, f 4, f 5, f 6]) = layer_value exp2 fsqrt (Conv3 s H W P C) (\<lambda>n. arr (f n))"
  "layer_value exp2 fsqrt (Residual H W P C Q) (reads [f 1, f 2, f 3, f 4, f 5, f 6, f 7]) =
    layer_value exp2 fsqrt (Residual H W P C Q) (\<lambda>n. arr (f n))"
  "layer_value exp2 fsqrt (Upsample H W K) (reads [f 1, f 2]) = layer_value exp2 fsqrt (Upsample H W K) (\<lambda>n. arr (f n))"
  "layer_value exp2 fsqrt (Pool H W) (reads [f 1]) = layer_value exp2 fsqrt (Pool H W) (\<lambda>n. arr (f n))"
  by (simp_all add: fun_eq_iff)

end
