(* ===== verification/Joining.thy ===== *)
theory Joining
  imports Layers
begin

text \<open>
  The joins, the doublings of the resolution and the pooling of the network, the kernels of
  \<open>server/cherum/static/net.js\<close> of passes that only move or compare values, with the layers they compute.
  Each kernel is followed by its shader and by the stores of one invocation: the tile of the layer.
\<close>

definition E_6_400_8_16_4 :: "f32 buf \<Rightarrow> f32 buf \<Rightarrow> vec3 \<Rightarrow> vec3 \<Rightarrow> f32 stores" where
  "E_6_400_8_16_4 data1 data2 gindex lindex =
    (let gidx0 = vx gindex;
         gidx1 = vy gindex;
         lidx0 = vx lindex;
         lidx1 = vy lindex;
         precast0 = gidx0;
         precast1 = lidx1;
         precast2 = push_bit 6 precast0;
         precast3 = push_bit 2 precast1;
         alu0 = precast2 + gidx1 * 204800 + lidx0 * 25600 + precast3;
         alu1 = alu0 + 1;
         alu2 = alu0 + 2;
         alu3 = alu0 + 3;
         alu4 = gidx1 <s 2;
         val0 = select 0 (rd data1 alu0) alu4;
         val1 = select 0 (rd data1 alu1) alu4;
         val2 = select 0 (rd data1 alu2) alu4;
         val3 = select 0 (rd data1 alu3) alu4;
         alu5 = gidx1 <s 4;
         alu6 = \<not> alu5;
         val4 = select 0 (rd data2 (alu0 + (- 819200))) alu6;
         val5 = select 0 (rd data2 (alu0 + (- 819199))) alu6;
         val6 = select 0 (rd data2 (alu0 + (- 819198))) alu6;
         val7 = select 0 (rd data2 (alu0 + (- 819197))) alu6;
         alu7 = (\<not> alu4) \<and> alu5;
         val8 = select 0 (rd data1 alu0) alu7;
         val9 = select 0 (rd data1 alu1) alu7;
         val10 = select 0 (rd data1 alu2) alu7;
         val11 = select 0 (rd data1 alu3) alu7
     in [(alu0, val0 + val8 + val4),
         (alu1, val1 + val9 + val5),
         (alu2, val2 + val10 + val6),
         (alu3, val3 + val11 + val7)])"

definition E_6_400_8_16_4_shader :: "shader" where
  "E_6_400_8_16_4_shader = FShader (8, 16, 1) (\<lambda>f i. E_6_400_8_16_4 (f 1) (f 2))"

lemma E_6_400_8_16_4_stores:
  assumes "gx < 400" "gy < 6" "lx < 8" "ly < 16"
  shows "set (launch (E_6_400_8_16_4 x y) (gx, gy, 0) (lx, ly, 0)) = tile 1 1 (4 * (16 * 400)) (layer_value exp2 fsqrt (Join 25600 [(0, 16, 0, 1), (16, 32, 0, 1), (32, 48, 32, 2)]) (reads [x, y])) (8 * gy + lx) 0 (16 * gx + ly)"
proof -
  have u: "8 * gy + lx < 48" using assms by simp
  have t0: "((of_nat gy :: i32) <s 2) \<longleftrightarrow> 8 * gy + lx < 16"
    using group_test[of gy 2 lx 8] assms by simp
  have t1: "((of_nat gy :: i32) <s 4) \<longleftrightarrow> 8 * gy + lx < 32"
    using group_test[of gy 4 lx 8] assms by simp
  show ?thesis
    unfolding E_6_400_8_16_4_def launch_def Let_def vec_simps t0 t1
    by (rule tile_plane, unfold list.map prod.case list.inject prod.inject mult_1 add_0_right layer_value.simps reads_simps concatenation.simps fold_simps, intro conjI)
      (insert u, simp_all add: part_words not_less not_le arr_def push_bit_eq_mult algebra_simps)
qed

interpretation E_6_400_8_16_4: flat_kernel 8 16 400 6 1 "launch (E_6_400_8_16_4 x y)"
    "layer_value exp2 fsqrt (Join 25600 [(0, 16, 0, 1), (16, 32, 0, 1), (32, 48, 32, 2)]) (reads [x, y])"
  for exp2 fsqrt x y
  by unfold_locales (rule E_6_400_8_16_4_stores; assumption | simp)+

lemma E_6_400_8_16_4_computes: "computes exp2 fsqrt E_6_400_8_16_4_shader (400, 6, 1) (Join 25600 [(0, 16, 0, 1), (16, 32, 0, 1), (32, 48, 32, 2)]) 48 1 25600"
  unfolding E_6_400_8_16_4_shader_def by (rule computesI, rule E_6_400_8_16_4.kernel_contract_axioms[where ?exp2.0 = exp2 and fsqrt = fsqrt]) (simp, simp add: fun_eq_iff tensor_at_def part_value_def)

definition E_16_100_8_16_4 :: "f32 buf \<Rightarrow> f32 buf \<Rightarrow> f32 buf \<Rightarrow> vec3 \<Rightarrow> vec3 \<Rightarrow> f32 stores" where
  "E_16_100_8_16_4 data1 data2 data3 gindex lindex =
    (let gidx0 = vx gindex;
         gidx1 = vy gindex;
         lidx0 = vx lindex;
         lidx1 = vy lindex;
         precast0 = gidx0;
         precast1 = lidx1;
         precast2 = push_bit 6 precast0;
         precast3 = push_bit 2 precast1;
         alu0 = precast2 + gidx1 * 51200 + lidx0 * 6400 + precast3;
         alu1 = alu0 + 1;
         alu2 = alu0 + 2;
         alu3 = alu0 + 3;
         alu4 = gidx1 <s 4;
         val0 = select 0 (rd data1 alu0) alu4;
         val1 = select 0 (rd data1 alu1) alu4;
         val2 = select 0 (rd data1 alu2) alu4;
         val3 = select 0 (rd data1 alu3) alu4;
         alu5 = gidx1 <s 8;
         alu6 = gidx1 <s 12;
         alu7 = \<not> alu6;
         val4 = select 0 (rd data3 (alu0 + (- 614400))) alu7;
         val5 = select 0 (rd data3 (alu0 + (- 614399))) alu7;
         val6 = select 0 (rd data3 (alu0 + (- 614398))) alu7;
         val7 = select 0 (rd data3 (alu0 + (- 614397))) alu7;
         alu8 = (\<not> alu4) \<and> alu5;
         val8 = select 0 (rd data1 alu0) alu8;
         val9 = select 0 (rd data1 alu1) alu8;
         val10 = select 0 (rd data1 alu2) alu8;
         val11 = select 0 (rd data1 alu3) alu8;
         alu9 = (\<not> alu5) \<and> alu6;
         val12 = select 0 (rd data2 (alu0 + (- 409600))) alu9;
         val13 = select 0 (rd data2 (alu0 + (- 409599))) alu9;
         val14 = select 0 (rd data2 (alu0 + (- 409598))) alu9;
         val15 = select 0 (rd data2 (alu0 + (- 409597))) alu9
     in [(alu0, val0 + val8 + val12 + val4),
         (alu1, val1 + val9 + val13 + val5),
         (alu2, val2 + val10 + val14 + val6),
         (alu3, val3 + val11 + val15 + val7)])"

definition E_16_100_8_16_4_shader :: "shader" where
  "E_16_100_8_16_4_shader = FShader (8, 16, 1) (\<lambda>f i. E_16_100_8_16_4 (f 1) (f 2) (f 3))"

lemma E_16_100_8_16_4_stores:
  assumes "gx < 100" "gy < 16" "lx < 8" "ly < 16"
  shows "set (launch (E_16_100_8_16_4 x y u) (gx, gy, 0) (lx, ly, 0)) = tile 1 1 (4 * (16 * 100)) (layer_value exp2 fsqrt (Join 6400 [(0, 32, 0, 1), (32, 64, 0, 1), (64, 96, 64, 2), (96, 128, 96, 3)]) (reads [x, y, u])) (8 * gy + lx) 0 (16 * gx + ly)"
proof -
  have u: "8 * gy + lx < 128" using assms by simp
  have t0: "((of_nat gy :: i32) <s 4) \<longleftrightarrow> 8 * gy + lx < 32"
    using group_test[of gy 4 lx 8] assms by simp
  have t1: "((of_nat gy :: i32) <s 8) \<longleftrightarrow> 8 * gy + lx < 64"
    using group_test[of gy 8 lx 8] assms by simp
  have t2: "((of_nat gy :: i32) <s 12) \<longleftrightarrow> 8 * gy + lx < 96"
    using group_test[of gy 12 lx 8] assms by simp
  show ?thesis
    unfolding E_16_100_8_16_4_def launch_def Let_def vec_simps t0 t1 t2
    by (rule tile_plane, unfold list.map prod.case list.inject prod.inject mult_1 add_0_right layer_value.simps reads_simps concatenation.simps fold_simps, intro conjI)
      (insert u, simp_all add: part_words not_less not_le arr_def push_bit_eq_mult algebra_simps)
qed

interpretation E_16_100_8_16_4: flat_kernel 8 16 100 16 1 "launch (E_16_100_8_16_4 x y u)"
    "layer_value exp2 fsqrt (Join 6400 [(0, 32, 0, 1), (32, 64, 0, 1), (64, 96, 64, 2), (96, 128, 96, 3)]) (reads [x, y, u])"
  for exp2 fsqrt x y u
  by unfold_locales (rule E_16_100_8_16_4_stores; assumption | simp)+

lemma E_16_100_8_16_4_computes: "computes exp2 fsqrt E_16_100_8_16_4_shader (100, 16, 1) (Join 6400 [(0, 32, 0, 1), (32, 64, 0, 1), (64, 96, 64, 2), (96, 128, 96, 3)]) 128 1 6400"
  unfolding E_16_100_8_16_4_shader_def by (rule computesI, rule E_16_100_8_16_4.kernel_contract_axioms[where ?exp2.0 = exp2 and fsqrt = fsqrt]) (simp, simp add: fun_eq_iff tensor_at_def part_value_def)

definition E_32_25_8_16_4 :: "f32 buf \<Rightarrow> f32 buf \<Rightarrow> f32 buf \<Rightarrow> vec3 \<Rightarrow> vec3 \<Rightarrow> f32 stores" where
  "E_32_25_8_16_4 data1 data2 data3 gindex lindex =
    (let gidx0 = vx gindex;
         gidx1 = vy gindex;
         lidx0 = vx lindex;
         lidx1 = vy lindex;
         precast0 = gidx0;
         precast1 = lidx1;
         precast2 = push_bit 6 precast0;
         precast3 = push_bit 2 precast1;
         alu0 = precast2 + gidx1 * 12800 + lidx0 * 1600 + precast3;
         alu1 = alu0 + 1;
         alu2 = alu0 + 2;
         alu3 = alu0 + 3;
         alu4 = gidx1 <s 8;
         val0 = select 0 (rd data1 alu0) alu4;
         val1 = select 0 (rd data1 alu1) alu4;
         val2 = select 0 (rd data1 alu2) alu4;
         val3 = select 0 (rd data1 alu3) alu4;
         alu5 = gidx1 <s 16;
         alu6 = gidx1 <s 24;
         alu7 = \<not> alu6;
         val4 = select 0 (rd data3 (alu0 + (- 307200))) alu7;
         val5 = select 0 (rd data3 (alu0 + (- 307199))) alu7;
         val6 = select 0 (rd data3 (alu0 + (- 307198))) alu7;
         val7 = select 0 (rd data3 (alu0 + (- 307197))) alu7;
         alu8 = (\<not> alu4) \<and> alu5;
         val8 = select 0 (rd data1 alu0) alu8;
         val9 = select 0 (rd data1 alu1) alu8;
         val10 = select 0 (rd data1 alu2) alu8;
         val11 = select 0 (rd data1 alu3) alu8;
         alu9 = (\<not> alu5) \<and> alu6;
         val12 = select 0 (rd data2 (alu0 + (- 204800))) alu9;
         val13 = select 0 (rd data2 (alu0 + (- 204799))) alu9;
         val14 = select 0 (rd data2 (alu0 + (- 204798))) alu9;
         val15 = select 0 (rd data2 (alu0 + (- 204797))) alu9
     in [(alu0, val0 + val8 + val12 + val4),
         (alu1, val1 + val9 + val13 + val5),
         (alu2, val2 + val10 + val14 + val6),
         (alu3, val3 + val11 + val15 + val7)])"

definition E_32_25_8_16_4_shader :: "shader" where
  "E_32_25_8_16_4_shader = FShader (8, 16, 1) (\<lambda>f i. E_32_25_8_16_4 (f 1) (f 2) (f 3))"

lemma E_32_25_8_16_4_stores:
  assumes "gx < 25" "gy < 32" "lx < 8" "ly < 16"
  shows "set (launch (E_32_25_8_16_4 x y u) (gx, gy, 0) (lx, ly, 0)) = tile 1 1 (4 * (16 * 25)) (layer_value exp2 fsqrt (Join 1600 [(0, 64, 0, 1), (64, 128, 0, 1), (128, 192, 128, 2), (192, 256, 192, 3)]) (reads [x, y, u])) (8 * gy + lx) 0 (16 * gx + ly)"
proof -
  have u: "8 * gy + lx < 256" using assms by simp
  have t0: "((of_nat gy :: i32) <s 8) \<longleftrightarrow> 8 * gy + lx < 64"
    using group_test[of gy 8 lx 8] assms by simp
  have t1: "((of_nat gy :: i32) <s 16) \<longleftrightarrow> 8 * gy + lx < 128"
    using group_test[of gy 16 lx 8] assms by simp
  have t2: "((of_nat gy :: i32) <s 24) \<longleftrightarrow> 8 * gy + lx < 192"
    using group_test[of gy 24 lx 8] assms by simp
  show ?thesis
    unfolding E_32_25_8_16_4_def launch_def Let_def vec_simps t0 t1 t2
    by (rule tile_plane, unfold list.map prod.case list.inject prod.inject mult_1 add_0_right layer_value.simps reads_simps concatenation.simps fold_simps, intro conjI)
      (insert u, simp_all add: part_words not_less not_le arr_def push_bit_eq_mult algebra_simps)
qed

interpretation E_32_25_8_16_4: flat_kernel 8 16 25 32 1 "launch (E_32_25_8_16_4 x y u)"
    "layer_value exp2 fsqrt (Join 1600 [(0, 64, 0, 1), (64, 128, 0, 1), (128, 192, 128, 2), (192, 256, 192, 3)]) (reads [x, y, u])"
  for exp2 fsqrt x y u
  by unfold_locales (rule E_32_25_8_16_4_stores; assumption | simp)+

lemma E_32_25_8_16_4_computes: "computes exp2 fsqrt E_32_25_8_16_4_shader (25, 32, 1) (Join 1600 [(0, 64, 0, 1), (64, 128, 0, 1), (128, 192, 128, 2), (192, 256, 192, 3)]) 256 1 1600"
  unfolding E_32_25_8_16_4_shader_def by (rule computesI, rule E_32_25_8_16_4.kernel_contract_axioms[where ?exp2.0 = exp2 and fsqrt = fsqrt]) (simp, simp add: fun_eq_iff tensor_at_def part_value_def)

definition E_12_25_32_4_4 :: "f32 buf \<Rightarrow> f32 buf \<Rightarrow> vec3 \<Rightarrow> vec3 \<Rightarrow> f32 stores" where
  "E_12_25_32_4_4 data1 data2 gindex lindex =
    (let gidx0 = vx gindex;
         gidx1 = vy gindex;
         lidx0 = vx lindex;
         lidx1 = vy lindex;
         precast0 = gidx0;
         precast1 = lidx1;
         precast2 = push_bit 4 precast0;
         precast3 = push_bit 2 precast1;
         alu0 = precast2 + gidx1 * 12800 + lidx0 * 400 + precast3;
         alu1 = alu0 + 1;
         alu2 = alu0 + 2;
         alu3 = alu0 + 3;
         alu4 = gidx1 <s 4;
         val0 = select 0 (rd data1 alu0) alu4;
         val1 = select 0 (rd data1 alu1) alu4;
         val2 = select 0 (rd data1 alu2) alu4;
         val3 = select 0 (rd data1 alu3) alu4;
         alu5 = gidx1 <s 8;
         alu6 = \<not> alu5;
         val4 = select 0 (rd data2 (alu0 + (- 102400))) alu6;
         val5 = select 0 (rd data2 (alu0 + (- 102399))) alu6;
         val6 = select 0 (rd data2 (alu0 + (- 102398))) alu6;
         val7 = select 0 (rd data2 (alu0 + (- 102397))) alu6;
         alu7 = (\<not> alu4) \<and> alu5;
         val8 = select 0 (rd data1 alu0) alu7;
         val9 = select 0 (rd data1 alu1) alu7;
         val10 = select 0 (rd data1 alu2) alu7;
         val11 = select 0 (rd data1 alu3) alu7
     in [(alu0, val0 + val8 + val4),
         (alu1, val1 + val9 + val5),
         (alu2, val2 + val10 + val6),
         (alu3, val3 + val11 + val7)])"

definition E_12_25_32_4_4_shader :: "shader" where
  "E_12_25_32_4_4_shader = FShader (32, 4, 1) (\<lambda>f i. E_12_25_32_4_4 (f 1) (f 2))"

lemma E_12_25_32_4_4_stores:
  assumes "gx < 25" "gy < 12" "lx < 32" "ly < 4"
  shows "set (launch (E_12_25_32_4_4 x y) (gx, gy, 0) (lx, ly, 0)) = tile 1 1 (4 * (4 * 25)) (layer_value exp2 fsqrt (Join 400 [(0, 128, 0, 1), (128, 256, 0, 1), (256, 384, 256, 2)]) (reads [x, y])) (32 * gy + lx) 0 (4 * gx + ly)"
proof -
  have u: "32 * gy + lx < 384" using assms by simp
  have t0: "((of_nat gy :: i32) <s 4) \<longleftrightarrow> 32 * gy + lx < 128"
    using group_test[of gy 4 lx 32] assms by simp
  have t1: "((of_nat gy :: i32) <s 8) \<longleftrightarrow> 32 * gy + lx < 256"
    using group_test[of gy 8 lx 32] assms by simp
  show ?thesis
    unfolding E_12_25_32_4_4_def launch_def Let_def vec_simps t0 t1
    by (rule tile_plane, unfold list.map prod.case list.inject prod.inject mult_1 add_0_right layer_value.simps reads_simps concatenation.simps fold_simps, intro conjI)
      (insert u, simp_all add: part_words not_less not_le arr_def push_bit_eq_mult algebra_simps)
qed

interpretation E_12_25_32_4_4: flat_kernel 32 4 25 12 1 "launch (E_12_25_32_4_4 x y)"
    "layer_value exp2 fsqrt (Join 400 [(0, 128, 0, 1), (128, 256, 0, 1), (256, 384, 256, 2)]) (reads [x, y])"
  for exp2 fsqrt x y
  by unfold_locales (rule E_12_25_32_4_4_stores; assumption | simp)+

lemma E_12_25_32_4_4_computes: "computes exp2 fsqrt E_12_25_32_4_4_shader (25, 12, 1) (Join 400 [(0, 128, 0, 1), (128, 256, 0, 1), (256, 384, 256, 2)]) 384 1 400"
  unfolding E_12_25_32_4_4_shader_def by (rule computesI, rule E_12_25_32_4_4.kernel_contract_axioms[where ?exp2.0 = exp2 and fsqrt = fsqrt]) (simp, simp add: fun_eq_iff tensor_at_def part_value_def)

definition E_16_25_32_4_4 :: "f32 buf \<Rightarrow> f32 buf \<Rightarrow> f32 buf \<Rightarrow> f32 buf \<Rightarrow> vec3 \<Rightarrow> vec3 \<Rightarrow> f32 stores" where
  "E_16_25_32_4_4 data1 data2 data3 data4 gindex lindex =
    (let gidx0 = vx gindex;
         gidx1 = vy gindex;
         lidx0 = vx lindex;
         lidx1 = vy lindex;
         precast0 = gidx0;
         precast1 = lidx1;
         precast2 = push_bit 4 precast0;
         precast3 = push_bit 2 precast1;
         alu0 = precast2 + gidx1 * 12800 + lidx0 * 400 + precast3;
         alu1 = alu0 + 1;
         alu2 = alu0 + 2;
         alu3 = alu0 + 3;
         alu4 = gidx1 <s 4;
         val0 = select 0 (rd data1 alu0) alu4;
         val1 = select 0 (rd data1 alu1) alu4;
         val2 = select 0 (rd data1 alu2) alu4;
         val3 = select 0 (rd data1 alu3) alu4;
         alu5 = gidx1 <s 8;
         alu6 = gidx1 <s 12;
         alu7 = \<not> alu6;
         val4 = select 0 (rd data4 (alu0 + (- 153600))) alu7;
         val5 = select 0 (rd data4 (alu0 + (- 153599))) alu7;
         val6 = select 0 (rd data4 (alu0 + (- 153598))) alu7;
         val7 = select 0 (rd data4 (alu0 + (- 153597))) alu7;
         alu8 = (\<not> alu4) \<and> alu5;
         val8 = select 0 (rd data2 (alu0 + (- 51200))) alu8;
         val9 = select 0 (rd data2 (alu0 + (- 51199))) alu8;
         val10 = select 0 (rd data2 (alu0 + (- 51198))) alu8;
         val11 = select 0 (rd data2 (alu0 + (- 51197))) alu8;
         alu9 = (\<not> alu5) \<and> alu6;
         val12 = select 0 (rd data3 (alu0 + (- 102400))) alu9;
         val13 = select 0 (rd data3 (alu0 + (- 102399))) alu9;
         val14 = select 0 (rd data3 (alu0 + (- 102398))) alu9;
         val15 = select 0 (rd data3 (alu0 + (- 102397))) alu9
     in [(alu0, val0 + val8 + val12 + val4),
         (alu1, val1 + val9 + val13 + val5),
         (alu2, val2 + val10 + val14 + val6),
         (alu3, val3 + val11 + val15 + val7)])"

definition E_16_25_32_4_4_shader :: "shader" where
  "E_16_25_32_4_4_shader = FShader (32, 4, 1) (\<lambda>f i. E_16_25_32_4_4 (f 1) (f 2) (f 3) (f 4))"

lemma E_16_25_32_4_4_stores:
  assumes "gx < 25" "gy < 16" "lx < 32" "ly < 4"
  shows "set (launch (E_16_25_32_4_4 x y u v) (gx, gy, 0) (lx, ly, 0)) = tile 1 1 (4 * (4 * 25)) (layer_value exp2 fsqrt (Join 400 [(0, 128, 0, 1), (128, 256, 128, 2), (256, 384, 256, 3), (384, 512, 384, 4)]) (reads [x, y, u, v])) (32 * gy + lx) 0 (4 * gx + ly)"
proof -
  have u: "32 * gy + lx < 512" using assms by simp
  have t0: "((of_nat gy :: i32) <s 4) \<longleftrightarrow> 32 * gy + lx < 128"
    using group_test[of gy 4 lx 32] assms by simp
  have t1: "((of_nat gy :: i32) <s 8) \<longleftrightarrow> 32 * gy + lx < 256"
    using group_test[of gy 8 lx 32] assms by simp
  have t2: "((of_nat gy :: i32) <s 12) \<longleftrightarrow> 32 * gy + lx < 384"
    using group_test[of gy 12 lx 32] assms by simp
  show ?thesis
    unfolding E_16_25_32_4_4_def launch_def Let_def vec_simps t0 t1 t2
    by (rule tile_plane, unfold list.map prod.case list.inject prod.inject mult_1 add_0_right layer_value.simps reads_simps concatenation.simps fold_simps, intro conjI)
      (insert u, simp_all add: part_words not_less not_le arr_def push_bit_eq_mult algebra_simps)
qed

interpretation E_16_25_32_4_4: flat_kernel 32 4 25 16 1 "launch (E_16_25_32_4_4 x y u v)"
    "layer_value exp2 fsqrt (Join 400 [(0, 128, 0, 1), (128, 256, 128, 2), (256, 384, 256, 3), (384, 512, 384, 4)]) (reads [x, y, u, v])"
  for exp2 fsqrt x y u v
  by unfold_locales (rule E_16_25_32_4_4_stores; assumption | simp)+

lemma E_16_25_32_4_4_computes: "computes exp2 fsqrt E_16_25_32_4_4_shader (25, 16, 1) (Join 400 [(0, 128, 0, 1), (128, 256, 128, 2), (256, 384, 256, 3), (384, 512, 384, 4)]) 512 1 400"
  unfolding E_16_25_32_4_4_shader_def by (rule computesI, rule E_16_25_32_4_4.kernel_contract_axioms[where ?exp2.0 = exp2 and fsqrt = fsqrt]) (simp, simp add: fun_eq_iff tensor_at_def part_value_def)

definition E_24_25_8_16_4 :: "f32 buf \<Rightarrow> f32 buf \<Rightarrow> vec3 \<Rightarrow> vec3 \<Rightarrow> f32 stores" where
  "E_24_25_8_16_4 data1 data2 gindex lindex =
    (let gidx0 = vx gindex;
         gidx1 = vy gindex;
         lidx0 = vx lindex;
         lidx1 = vy lindex;
         precast0 = gidx0;
         precast1 = lidx1;
         precast2 = push_bit 6 precast0;
         precast3 = push_bit 2 precast1;
         alu0 = precast2 + gidx1 * 12800 + lidx0 * 1600 + precast3;
         alu1 = alu0 + 1;
         alu2 = alu0 + 2;
         alu3 = alu0 + 3;
         alu4 = gidx1 <s 8;
         val0 = select 0 (rd data1 alu0) alu4;
         val1 = select 0 (rd data1 alu1) alu4;
         val2 = select 0 (rd data1 alu2) alu4;
         val3 = select 0 (rd data1 alu3) alu4;
         alu5 = gidx1 <s 16;
         alu6 = \<not> alu5;
         val4 = select 0 (rd data2 (alu0 + (- 204800))) alu6;
         val5 = select 0 (rd data2 (alu0 + (- 204799))) alu6;
         val6 = select 0 (rd data2 (alu0 + (- 204798))) alu6;
         val7 = select 0 (rd data2 (alu0 + (- 204797))) alu6;
         alu7 = (\<not> alu4) \<and> alu5;
         val8 = select 0 (rd data1 alu0) alu7;
         val9 = select 0 (rd data1 alu1) alu7;
         val10 = select 0 (rd data1 alu2) alu7;
         val11 = select 0 (rd data1 alu3) alu7
     in [(alu0, val0 + val8 + val4),
         (alu1, val1 + val9 + val5),
         (alu2, val2 + val10 + val6),
         (alu3, val3 + val11 + val7)])"

definition E_24_25_8_16_4_shader :: "shader" where
  "E_24_25_8_16_4_shader = FShader (8, 16, 1) (\<lambda>f i. E_24_25_8_16_4 (f 1) (f 2))"

lemma E_24_25_8_16_4_stores:
  assumes "gx < 25" "gy < 24" "lx < 8" "ly < 16"
  shows "set (launch (E_24_25_8_16_4 x y) (gx, gy, 0) (lx, ly, 0)) = tile 1 1 (4 * (16 * 25)) (layer_value exp2 fsqrt (Join 1600 [(0, 64, 0, 1), (64, 128, 0, 1), (128, 192, 128, 2)]) (reads [x, y])) (8 * gy + lx) 0 (16 * gx + ly)"
proof -
  have u: "8 * gy + lx < 192" using assms by simp
  have t0: "((of_nat gy :: i32) <s 8) \<longleftrightarrow> 8 * gy + lx < 64"
    using group_test[of gy 8 lx 8] assms by simp
  have t1: "((of_nat gy :: i32) <s 16) \<longleftrightarrow> 8 * gy + lx < 128"
    using group_test[of gy 16 lx 8] assms by simp
  show ?thesis
    unfolding E_24_25_8_16_4_def launch_def Let_def vec_simps t0 t1
    by (rule tile_plane, unfold list.map prod.case list.inject prod.inject mult_1 add_0_right layer_value.simps reads_simps concatenation.simps fold_simps, intro conjI)
      (insert u, simp_all add: part_words not_less not_le arr_def push_bit_eq_mult algebra_simps)
qed

interpretation E_24_25_8_16_4: flat_kernel 8 16 25 24 1 "launch (E_24_25_8_16_4 x y)"
    "layer_value exp2 fsqrt (Join 1600 [(0, 64, 0, 1), (64, 128, 0, 1), (128, 192, 128, 2)]) (reads [x, y])"
  for exp2 fsqrt x y
  by unfold_locales (rule E_24_25_8_16_4_stores; assumption | simp)+

lemma E_24_25_8_16_4_computes: "computes exp2 fsqrt E_24_25_8_16_4_shader (25, 24, 1) (Join 1600 [(0, 64, 0, 1), (64, 128, 0, 1), (128, 192, 128, 2)]) 192 1 1600"
  unfolding E_24_25_8_16_4_shader_def by (rule computesI, rule E_24_25_8_16_4.kernel_contract_axioms[where ?exp2.0 = exp2 and fsqrt = fsqrt]) (simp, simp add: fun_eq_iff tensor_at_def part_value_def)

definition E_12_100_8_16_4 :: "f32 buf \<Rightarrow> f32 buf \<Rightarrow> vec3 \<Rightarrow> vec3 \<Rightarrow> f32 stores" where
  "E_12_100_8_16_4 data1 data2 gindex lindex =
    (let gidx0 = vx gindex;
         gidx1 = vy gindex;
         lidx0 = vx lindex;
         lidx1 = vy lindex;
         precast0 = gidx0;
         precast1 = lidx1;
         precast2 = push_bit 6 precast0;
         precast3 = push_bit 2 precast1;
         alu0 = precast2 + gidx1 * 51200 + lidx0 * 6400 + precast3;
         alu1 = alu0 + 1;
         alu2 = alu0 + 2;
         alu3 = alu0 + 3;
         alu4 = gidx1 <s 4;
         val0 = select 0 (rd data1 alu0) alu4;
         val1 = select 0 (rd data1 alu1) alu4;
         val2 = select 0 (rd data1 alu2) alu4;
         val3 = select 0 (rd data1 alu3) alu4;
         alu5 = gidx1 <s 8;
         alu6 = \<not> alu5;
         val4 = select 0 (rd data2 (alu0 + (- 409600))) alu6;
         val5 = select 0 (rd data2 (alu0 + (- 409599))) alu6;
         val6 = select 0 (rd data2 (alu0 + (- 409598))) alu6;
         val7 = select 0 (rd data2 (alu0 + (- 409597))) alu6;
         alu7 = (\<not> alu4) \<and> alu5;
         val8 = select 0 (rd data1 alu0) alu7;
         val9 = select 0 (rd data1 alu1) alu7;
         val10 = select 0 (rd data1 alu2) alu7;
         val11 = select 0 (rd data1 alu3) alu7
     in [(alu0, val0 + val8 + val4),
         (alu1, val1 + val9 + val5),
         (alu2, val2 + val10 + val6),
         (alu3, val3 + val11 + val7)])"

definition E_12_100_8_16_4_shader :: "shader" where
  "E_12_100_8_16_4_shader = FShader (8, 16, 1) (\<lambda>f i. E_12_100_8_16_4 (f 1) (f 2))"

lemma E_12_100_8_16_4_stores:
  assumes "gx < 100" "gy < 12" "lx < 8" "ly < 16"
  shows "set (launch (E_12_100_8_16_4 x y) (gx, gy, 0) (lx, ly, 0)) = tile 1 1 (4 * (16 * 100)) (layer_value exp2 fsqrt (Join 6400 [(0, 32, 0, 1), (32, 64, 0, 1), (64, 96, 64, 2)]) (reads [x, y])) (8 * gy + lx) 0 (16 * gx + ly)"
proof -
  have u: "8 * gy + lx < 96" using assms by simp
  have t0: "((of_nat gy :: i32) <s 4) \<longleftrightarrow> 8 * gy + lx < 32"
    using group_test[of gy 4 lx 8] assms by simp
  have t1: "((of_nat gy :: i32) <s 8) \<longleftrightarrow> 8 * gy + lx < 64"
    using group_test[of gy 8 lx 8] assms by simp
  show ?thesis
    unfolding E_12_100_8_16_4_def launch_def Let_def vec_simps t0 t1
    by (rule tile_plane, unfold list.map prod.case list.inject prod.inject mult_1 add_0_right layer_value.simps reads_simps concatenation.simps fold_simps, intro conjI)
      (insert u, simp_all add: part_words not_less not_le arr_def push_bit_eq_mult algebra_simps)
qed

interpretation E_12_100_8_16_4: flat_kernel 8 16 100 12 1 "launch (E_12_100_8_16_4 x y)"
    "layer_value exp2 fsqrt (Join 6400 [(0, 32, 0, 1), (32, 64, 0, 1), (64, 96, 64, 2)]) (reads [x, y])"
  for exp2 fsqrt x y
  by unfold_locales (rule E_12_100_8_16_4_stores; assumption | simp)+

lemma E_12_100_8_16_4_computes: "computes exp2 fsqrt E_12_100_8_16_4_shader (100, 12, 1) (Join 6400 [(0, 32, 0, 1), (32, 64, 0, 1), (64, 96, 64, 2)]) 96 1 6400"
  unfolding E_12_100_8_16_4_shader_def by (rule computesI, rule E_12_100_8_16_4.kernel_contract_axioms[where ?exp2.0 = exp2 and fsqrt = fsqrt]) (simp, simp add: fun_eq_iff tensor_at_def part_value_def)

definition E_24_25_8_16_4n1 :: "f32 buf \<Rightarrow> f32 buf \<Rightarrow> vec3 \<Rightarrow> vec3 \<Rightarrow> f32 stores" where
  "E_24_25_8_16_4n1 data1 data2 gindex lindex =
    (let gidx0 = vx gindex;
         gidx1 = vy gindex;
         lidx0 = vx lindex;
         lidx1 = vy lindex;
         precast0 = gidx0;
         precast1 = lidx1;
         precast2 = push_bit 6 precast0;
         precast3 = push_bit 2 precast1;
         alu0 = precast2 + gidx1 * 12800 + lidx0 * 1600 + precast3;
         alu1 = alu0 + 1;
         alu2 = alu0 + 2;
         alu3 = alu0 + 3;
         alu4 = gidx1 <s 8;
         val0 = select 0 (rd data1 alu0) alu4;
         val1 = select 0 (rd data1 alu1) alu4;
         val2 = select 0 (rd data1 alu2) alu4;
         val3 = select 0 (rd data1 alu3) alu4;
         alu5 = \<not> alu4;
         val4 = select 0 (rd data2 (alu0 + (- 102400))) alu5;
         val5 = select 0 (rd data2 (alu0 + (- 102399))) alu5;
         val6 = select 0 (rd data2 (alu0 + (- 102398))) alu5;
         val7 = select 0 (rd data2 (alu0 + (- 102397))) alu5
     in [(alu0, val0 + val4),
         (alu1, val1 + val5),
         (alu2, val2 + val6),
         (alu3, val3 + val7)])"

definition E_24_25_8_16_4n1_shader :: "shader" where
  "E_24_25_8_16_4n1_shader = FShader (8, 16, 1) (\<lambda>f i. E_24_25_8_16_4n1 (f 1) (f 2))"

lemma E_24_25_8_16_4n1_stores:
  assumes "gx < 25" "gy < 24" "lx < 8" "ly < 16"
  shows "set (launch (E_24_25_8_16_4n1 x y) (gx, gy, 0) (lx, ly, 0)) = tile 1 1 (4 * (16 * 25)) (layer_value exp2 fsqrt (Join 1600 [(0, 64, 0, 1), (64, 192, 64, 2)]) (reads [x, y])) (8 * gy + lx) 0 (16 * gx + ly)"
proof -
  have u: "8 * gy + lx < 192" using assms by simp
  have t0: "((of_nat gy :: i32) <s 8) \<longleftrightarrow> 8 * gy + lx < 64"
    using group_test[of gy 8 lx 8] assms by simp
  show ?thesis
    unfolding E_24_25_8_16_4n1_def launch_def Let_def vec_simps t0
    by (rule tile_plane, unfold list.map prod.case list.inject prod.inject mult_1 add_0_right layer_value.simps reads_simps concatenation.simps fold_simps, intro conjI)
      (insert u, simp_all add: part_words not_less not_le arr_def push_bit_eq_mult algebra_simps)
qed

interpretation E_24_25_8_16_4n1: flat_kernel 8 16 25 24 1 "launch (E_24_25_8_16_4n1 x y)"
    "layer_value exp2 fsqrt (Join 1600 [(0, 64, 0, 1), (64, 192, 64, 2)]) (reads [x, y])"
  for exp2 fsqrt x y
  by unfold_locales (rule E_24_25_8_16_4n1_stores; assumption | simp)+

lemma E_24_25_8_16_4n1_computes: "computes exp2 fsqrt E_24_25_8_16_4n1_shader (25, 24, 1) (Join 1600 [(0, 64, 0, 1), (64, 192, 64, 2)]) 192 1 1600"
  unfolding E_24_25_8_16_4n1_shader_def by (rule computesI, rule E_24_25_8_16_4n1.kernel_contract_axioms[where ?exp2.0 = exp2 and fsqrt = fsqrt]) (simp, simp add: fun_eq_iff tensor_at_def part_value_def)

definition E_12_25_32_4_4n1 :: "f32 buf \<Rightarrow> f32 buf \<Rightarrow> vec3 \<Rightarrow> vec3 \<Rightarrow> f32 stores" where
  "E_12_25_32_4_4n1 data1 data2 gindex lindex =
    (let gidx0 = vx gindex;
         gidx1 = vy gindex;
         lidx0 = vx lindex;
         lidx1 = vy lindex;
         precast0 = gidx0;
         precast1 = lidx1;
         precast2 = push_bit 4 precast0;
         precast3 = push_bit 2 precast1;
         alu0 = precast2 + gidx1 * 12800 + lidx0 * 400 + precast3;
         alu1 = alu0 + 1;
         alu2 = alu0 + 2;
         alu3 = alu0 + 3;
         alu4 = gidx1 <s 4;
         val0 = select 0 (rd data1 alu0) alu4;
         val1 = select 0 (rd data1 alu1) alu4;
         val2 = select 0 (rd data1 alu2) alu4;
         val3 = select 0 (rd data1 alu3) alu4;
         alu5 = \<not> alu4;
         val4 = select 0 (rd data2 (alu0 + (- 51200))) alu5;
         val5 = select 0 (rd data2 (alu0 + (- 51199))) alu5;
         val6 = select 0 (rd data2 (alu0 + (- 51198))) alu5;
         val7 = select 0 (rd data2 (alu0 + (- 51197))) alu5
     in [(alu0, val0 + val4),
         (alu1, val1 + val5),
         (alu2, val2 + val6),
         (alu3, val3 + val7)])"

definition E_12_25_32_4_4n1_shader :: "shader" where
  "E_12_25_32_4_4n1_shader = FShader (32, 4, 1) (\<lambda>f i. E_12_25_32_4_4n1 (f 1) (f 2))"

lemma E_12_25_32_4_4n1_stores:
  assumes "gx < 25" "gy < 12" "lx < 32" "ly < 4"
  shows "set (launch (E_12_25_32_4_4n1 x y) (gx, gy, 0) (lx, ly, 0)) = tile 1 1 (4 * (4 * 25)) (layer_value exp2 fsqrt (Join 400 [(0, 128, 0, 1), (128, 384, 128, 2)]) (reads [x, y])) (32 * gy + lx) 0 (4 * gx + ly)"
proof -
  have u: "32 * gy + lx < 384" using assms by simp
  have t0: "((of_nat gy :: i32) <s 4) \<longleftrightarrow> 32 * gy + lx < 128"
    using group_test[of gy 4 lx 32] assms by simp
  show ?thesis
    unfolding E_12_25_32_4_4n1_def launch_def Let_def vec_simps t0
    by (rule tile_plane, unfold list.map prod.case list.inject prod.inject mult_1 add_0_right layer_value.simps reads_simps concatenation.simps fold_simps, intro conjI)
      (insert u, simp_all add: part_words not_less not_le arr_def push_bit_eq_mult algebra_simps)
qed

interpretation E_12_25_32_4_4n1: flat_kernel 32 4 25 12 1 "launch (E_12_25_32_4_4n1 x y)"
    "layer_value exp2 fsqrt (Join 400 [(0, 128, 0, 1), (128, 384, 128, 2)]) (reads [x, y])"
  for exp2 fsqrt x y
  by unfold_locales (rule E_12_25_32_4_4n1_stores; assumption | simp)+

lemma E_12_25_32_4_4n1_computes: "computes exp2 fsqrt E_12_25_32_4_4n1_shader (25, 12, 1) (Join 400 [(0, 128, 0, 1), (128, 384, 128, 2)]) 384 1 400"
  unfolding E_12_25_32_4_4n1_shader_def by (rule computesI, rule E_12_25_32_4_4n1.kernel_contract_axioms[where ?exp2.0 = exp2 and fsqrt = fsqrt]) (simp, simp add: fun_eq_iff tensor_at_def part_value_def)

definition E_48_5_5_8_8_2_4 :: "f32 buf \<Rightarrow> f32 buf \<Rightarrow> vec3 \<Rightarrow> vec3 \<Rightarrow> f32 stores" where
  "E_48_5_5_8_8_2_4 data1 data2 gindex lindex =
    (let gidx0 = vx gindex;
         gidx1 = vy gindex;
         gidx2 = vz gindex;
         lidx0 = vx lindex;
         lidx1 = vy lindex;
         lidx2 = vz lindex;
         precast0 = gidx0;
         precast1 = lidx2;
         cast0 = precast0;
         cast1 = precast1;
         precast2 = push_bit 2 cast0;
         precast3 = push_bit 3 cast0;
         precast4 = push_bit 1 cast1;
         precast5 = push_bit 2 cast1;
         alu0 = gidx1 * 320 + gidx2 * 12800 + precast3 + lidx0 * 1600 + lidx1 * 40 + precast5;
         alu1 = gidx1 * 80 + gidx2 * 3200 + lidx0 * 400 + (signed_drop_bit 1 lidx1) * 20 + precast2 + precast4;
         alu2 = gidx2 <s 32;
         val0 = select 0 (rd data1 alu1) alu2;
         val1 = select 0 (rd data1 (alu1 + 1)) alu2;
         alu3 = \<not> alu2;
         val2 = select 0 (rd data2 (alu0 + (- 409600))) alu3;
         val3 = select 0 (rd data2 (alu0 + (- 409599))) alu3;
         val4 = select 0 (rd data2 (alu0 + (- 409598))) alu3;
         val5 = select 0 (rd data2 (alu0 + (- 409597))) alu3
     in [(alu0 + 2, val1 + val4),
         (alu0 + 3, val1 + val5),
         (alu0, val0 + val2),
         (alu0 + 1, val0 + val3)])"

definition E_48_5_5_8_8_2_4_shader :: "shader" where
  "E_48_5_5_8_8_2_4_shader = FShader (8, 8, 2) (\<lambda>f i. E_48_5_5_8_8_2_4 (f 1) (f 2))"

lemma E_48_5_5_8_8_2_4_stores:
  assumes "gx < 5" "gy < 5" "gz < 48" "lx < 8" "ly < 8" "lz < 2"
  shows "set (launch (E_48_5_5_8_8_2_4 x y) (gx, gy, gz) (lx, ly, lz)) = tile 1 (8 * 5) (4 * (2 * 5)) (layer_value exp2 fsqrt (Upsample 40 40 256) (reads [x, y])) (8 * gz + lx) (8 * gy + ly) (2 * gx + lz)"
proof -
  have d: "signed_drop_bit 1 (of_nat ly :: i32) = of_nat (ly div 2)" using signed_drop_bit_of_nat[of ly 1] assms by simp
  have e: "(8 * gy + ly) div 2 = 4 * gy + ly div 2" by simp
  have t0: "((of_nat gz :: i32) <s 32) \<longleftrightarrow> 8 * gz + lx < 256"
    using group_test[of gz 32 lx 8] assms by simp
  show ?thesis
    unfolding E_48_5_5_8_8_2_4_def launch_def Let_def vec_simps d t0
    by (rule tile_swapped, unfold list.map prod.case list.inject prod.inject mult_1 add_0_right layer_value.simps reads_simps upsample_words e halves, intro conjI)
      (simp_all add: arr_def push_bit_eq_mult algebra_simps)
qed

interpretation E_48_5_5_8_8_2_4: spatial_kernel 8 8 2 5 5 48 1 "launch (E_48_5_5_8_8_2_4 x y)"
    "layer_value exp2 fsqrt (Upsample 40 40 256) (reads [x, y])"
  for exp2 fsqrt x y
  by unfold_locales (rule E_48_5_5_8_8_2_4_stores; assumption | simp)+

lemma E_48_5_5_8_8_2_4_computes: "computes exp2 fsqrt E_48_5_5_8_8_2_4_shader (5, 5, 48) (Upsample 40 40 256) 384 40 40"
  unfolding E_48_5_5_8_8_2_4_shader_def by (rule computesI, rule E_48_5_5_8_8_2_4.kernel_contract_axioms) (simp, simp only: layer_inputs, simp)

definition E_96_5_5_2_16_4_4 :: "f32 buf \<Rightarrow> f32 buf \<Rightarrow> vec3 \<Rightarrow> vec3 \<Rightarrow> f32 stores" where
  "E_96_5_5_2_16_4_4 data1 data2 gindex lindex =
    (let gidx0 = vx gindex;
         gidx1 = vy gindex;
         gidx2 = vz gindex;
         lidx0 = vx lindex;
         lidx1 = vy lindex;
         lidx2 = vz lindex;
         precast0 = gidx0;
         precast1 = lidx2;
         cast0 = precast0;
         cast1 = precast1;
         precast2 = push_bit 3 cast0;
         precast3 = push_bit 4 cast0;
         precast4 = push_bit 1 cast1;
         precast5 = push_bit 2 cast1;
         alu0 = gidx1 * 1280 + gidx2 * 12800 + precast3 + lidx0 * 6400 + lidx1 * 80 + precast5;
         alu1 = gidx1 * 320 + gidx2 * 3200 + lidx0 * 1600 + (signed_drop_bit 1 lidx1) * 40 + precast2 + precast4;
         alu2 = gidx2 <s 64;
         val0 = select 0 (rd data1 alu1) alu2;
         val1 = select 0 (rd data1 (alu1 + 1)) alu2;
         alu3 = \<not> alu2;
         val2 = select 0 (rd data2 (alu0 + (- 819200))) alu3;
         val3 = select 0 (rd data2 (alu0 + (- 819199))) alu3;
         val4 = select 0 (rd data2 (alu0 + (- 819198))) alu3;
         val5 = select 0 (rd data2 (alu0 + (- 819197))) alu3
     in [(alu0 + 2, val1 + val4),
         (alu0 + 3, val1 + val5),
         (alu0, val0 + val2),
         (alu0 + 1, val0 + val3)])"

definition E_96_5_5_2_16_4_4_shader :: "shader" where
  "E_96_5_5_2_16_4_4_shader = FShader (2, 16, 4) (\<lambda>f i. E_96_5_5_2_16_4_4 (f 1) (f 2))"

lemma E_96_5_5_2_16_4_4_stores:
  assumes "gx < 5" "gy < 5" "gz < 96" "lx < 2" "ly < 16" "lz < 4"
  shows "set (launch (E_96_5_5_2_16_4_4 x y) (gx, gy, gz) (lx, ly, lz)) = tile 1 (16 * 5) (4 * (4 * 5)) (layer_value exp2 fsqrt (Upsample 80 80 128) (reads [x, y])) (2 * gz + lx) (16 * gy + ly) (4 * gx + lz)"
proof -
  have d: "signed_drop_bit 1 (of_nat ly :: i32) = of_nat (ly div 2)" using signed_drop_bit_of_nat[of ly 1] assms by simp
  have e: "(16 * gy + ly) div 2 = 8 * gy + ly div 2" by simp
  have t0: "((of_nat gz :: i32) <s 64) \<longleftrightarrow> 2 * gz + lx < 128"
    using group_test[of gz 64 lx 2] assms by simp
  show ?thesis
    unfolding E_96_5_5_2_16_4_4_def launch_def Let_def vec_simps d t0
    by (rule tile_swapped, unfold list.map prod.case list.inject prod.inject mult_1 add_0_right layer_value.simps reads_simps upsample_words e halves, intro conjI)
      (simp_all add: arr_def push_bit_eq_mult algebra_simps)
qed

interpretation E_96_5_5_2_16_4_4: spatial_kernel 2 16 4 5 5 96 1 "launch (E_96_5_5_2_16_4_4 x y)"
    "layer_value exp2 fsqrt (Upsample 80 80 128) (reads [x, y])"
  for exp2 fsqrt x y
  by unfold_locales (rule E_96_5_5_2_16_4_4_stores; assumption | simp)+

lemma E_96_5_5_2_16_4_4_computes: "computes exp2 fsqrt E_96_5_5_2_16_4_4_shader (5, 5, 96) (Upsample 80 80 128) 192 80 80"
  unfolding E_96_5_5_2_16_4_4_shader_def by (rule computesI, rule E_96_5_5_2_16_4_4.kernel_contract_axioms) (simp, simp only: layer_inputs, simp)

definition r_4_5_5_32_4_5_4_5 :: "f32 buf \<Rightarrow> vec3 \<Rightarrow> vec3 \<Rightarrow> f32 stores" where
  "r_4_5_5_32_4_5_4_5 data1 gindex lindex =
    (let gidx0 = vx gindex;
         gidx1 = vy gindex;
         gidx2 = vz gindex;
         lidx0 = vx lindex;
         lidx1 = vy lindex;
         alu0 = lidx0 * 400;
         alu1 = gidx2 * 12800;
         alu2 = lidx1 * 20;
         alu3 = gidx1 * 80;
         precast0 = gidx0;
         precast1 = push_bit 2 precast0;
         cast0 = precast1;
         precast2 = gidx1;
         precast3 = push_bit 2 precast2;
         acc0 = - INFINITY;
         acc1 = - INFINITY;
         acc2 = - INFINITY;
         acc3 = - INFINITY;
         (acc0, acc1, acc2, acc3) = for_loop 5 (\<lambda>ridx5 (acc0, acc1, acc2, acc3).
             let alu4 = lidx1 + precast3 + ridx5;
                 alu5 = alu3 + alu2 + ridx5 * 20 + alu1 + alu0 + cast0;
                 alu6 = (\<not> (alu4 <s 2)) \<and> (alu4 <s 22);
                 val0 = select 0 (rd data1 (alu5 + (- 40))) alu6;
                 val1 = select 0 (rd data1 (alu5 + (- 39))) alu6;
                 val2 = select 0 (rd data1 (alu5 + (- 38))) alu6;
                 val3 = select 0 (rd data1 (alu5 + (- 37))) alu6;
                 alu7 = alu6 \<and> (gidx0 <s 4);
                 val4 = select 0 (rd data1 (alu5 + (- 36))) alu7;
                 val5 = select 0 (rd data1 (alu5 + (- 35))) alu7;
                 alu8 = alu6 \<and> (\<not> (gidx0 <s 1));
                 val6 = select 0 (rd data1 (alu5 + (- 42))) alu8;
                 val7 = select 0 (rd data1 (alu5 + (- 41))) alu8;
                 alu9 = select acc0 val6 (acc0 < val6);
                 alu10 = select acc1 val7 (acc1 < val7);
                 alu11 = select acc2 val0 (acc2 < val0);
                 alu12 = select acc3 val1 (acc3 < val1);
                 alu13 = select alu9 val7 (alu9 < val7);
                 alu14 = select alu10 val0 (alu10 < val0);
                 alu15 = select alu11 val1 (alu11 < val1);
                 alu16 = select alu12 val2 (alu12 < val2);
                 alu17 = select alu13 val0 (alu13 < val0);
                 alu18 = select alu14 val1 (alu14 < val1);
                 alu19 = select alu15 val2 (alu15 < val2);
                 alu20 = select alu16 val3 (alu16 < val3);
                 alu21 = select alu17 val1 (alu17 < val1);
                 alu22 = select alu18 val2 (alu18 < val2);
                 alu23 = select alu19 val3 (alu19 < val3);
                 alu24 = select alu20 val4 (alu20 < val4);
                 alu25 = select alu21 val2 (alu21 < val2);
                 alu26 = select alu22 val3 (alu22 < val3);
                 alu27 = select alu23 val4 (alu23 < val4);
                 alu28 = select alu24 val5 (alu24 < val5);
                 acc0 = alu25;
                 acc1 = alu26;
                 acc2 = alu27;
                 acc3 = alu28
             in (acc0, acc1, acc2, acc3)) (acc0, acc1, acc2, acc3);
         alu34 = alu3 + alu1 + cast0 + alu0 + alu2
     in [(alu34, acc0),
         (alu34 + 1, acc1),
         (alu34 + 2, acc2),
         (alu34 + 3, acc3)])"

definition r_4_5_5_32_4_5_4_5_shader :: "shader" where
  "r_4_5_5_32_4_5_4_5_shader = FShader (32, 4, 1) (\<lambda>f i. r_4_5_5_32_4_5_4_5 (f 1))"

lemma r_4_5_5_32_4_5_4_5_stores:
  assumes "gx < 5" "gy < 5" "gz < 4" "lx < 32" "ly < 4" "lz < 1"
  shows "set (launch (r_4_5_5_32_4_5_4_5 x) (gx, gy, gz) (lx, ly, lz)) = tile 1 (4 * 5) (4 * (1 * 5)) (layer_value exp2 fsqrt (Pool 20 20) (reads [x])) (32 * gz + lx) (4 * gy + ly) (1 * gx + lz)"
proof -
  have zlz: "lz = 0" using assms(6) by simp
  have n: "4 * gy + ly < 20" "20 < (2 :: nat) ^ 30" "1 * gx + 0 \<le> 4" "20 = 4 * (4 + 1 :: nat)" using assms by simp_all
  note w = less_4[THEN pool_words[OF n]]
  have t0: "((of_nat gx :: i32) <s 1) \<longleftrightarrow> \<not> 0 < 1 * gx + 0"
    using sless_of_nat[of gx 1] assms by simp
  have t1: "((of_nat gx :: i32) <s 4) \<longleftrightarrow> 1 * gx + 0 < 4"
    using sless_of_nat[of gx 4] assms by simp
  show ?thesis
    unfolding zlz r_4_5_5_32_4_5_4_5_def launch_def Let_def vec_simps t0 t1 for_loop_4 prod.case larger_def[symmetric]
    by (rule tile_plane, unfold list.map prod.case list.inject prod.inject layer_value.simps reads_simps w row_max_def, intro conjI)
      (simp_all add: arr_def push_bit_eq_mult algebra_simps)
qed

interpretation r_4_5_5_32_4_5_4_5: spatial_kernel 32 4 1 5 5 4 1 "launch (r_4_5_5_32_4_5_4_5 x)"
    "layer_value exp2 fsqrt (Pool 20 20) (reads [x])"
  for exp2 fsqrt x
  by unfold_locales (rule r_4_5_5_32_4_5_4_5_stores; assumption | simp)+

lemma r_4_5_5_32_4_5_4_5_computes: "computes exp2 fsqrt r_4_5_5_32_4_5_4_5_shader (5, 5, 4) (Pool 20 20) 128 20 20"
  unfolding r_4_5_5_32_4_5_4_5_shader_def by (rule computesI, rule r_4_5_5_32_4_5_4_5.kernel_contract_axioms) (simp, simp only: layer_inputs, simp)

end
