(* ===== verification/Pointwise80.thy ===== *)
theory Pointwise80
  imports Layers
begin

text \<open>
  The 1x1 convolutions on the grids of 160x160 and 80x80 cells of \<open>server/cherum/static/net.js\<close>.
  Each kernel is followed by its shader and by the stores of one invocation: the tile of the layer.
\<close>

definition r_400_8_16_4_4_32 :: "(f32 \<Rightarrow> f32) \<Rightarrow> (f32 \<Rightarrow> f32) \<Rightarrow> f32 buf \<Rightarrow> f32 buf \<Rightarrow> f32 buf \<Rightarrow> f32 buf \<Rightarrow> f32 buf \<Rightarrow> f32 buf \<Rightarrow> vec3 \<Rightarrow> vec3 \<Rightarrow> f32 stores" where
  "r_400_8_16_4_4_32 exp2 fsqrt data1 data2 data3 data4 data5 data6 gindex lindex =
    (let gidx0 = vx gindex;
         lidx0 = vx lindex;
         lidx1 = vy lindex;
         precast0 = gidx0;
         precast1 = lidx0;
         precast2 = lidx1;
         cast0 = precast1;
         precast3 = push_bit 6 precast0;
         cast1 = precast3;
         precast4 = push_bit 2 cast0;
         cast2 = precast4;
         val0 = rd data3 cast2;
         val1 = rd data4 cast2;
         val2 = rd data5 cast2;
         val3 = rd data6 cast2;
         alu0 = cast2 + 1;
         val4 = rd data3 alu0;
         val5 = rd data4 alu0;
         val6 = rd data5 alu0;
         val7 = rd data6 alu0;
         alu1 = cast2 + 2;
         val8 = rd data3 alu1;
         val9 = rd data4 alu1;
         val10 = rd data5 alu1;
         val11 = rd data6 alu1;
         alu2 = cast2 + 3;
         val12 = rd data3 alu2;
         val13 = rd data4 alu2;
         val14 = rd data5 alu2;
         val15 = rd data6 alu2;
         precast5 = push_bit 7 cast0;
         cast3 = precast5;
         val16 = rd data2 cast3;
         val17 = rd data2 (cast3 + 1);
         val18 = rd data2 (cast3 + 2);
         val19 = rd data2 (cast3 + 3);
         val20 = rd data2 (cast3 + 4);
         val21 = rd data2 (cast3 + 5);
         val22 = rd data2 (cast3 + 6);
         val23 = rd data2 (cast3 + 7);
         val24 = rd data2 (cast3 + 8);
         val25 = rd data2 (cast3 + 9);
         val26 = rd data2 (cast3 + 10);
         val27 = rd data2 (cast3 + 11);
         val28 = rd data2 (cast3 + 12);
         val29 = rd data2 (cast3 + 13);
         val30 = rd data2 (cast3 + 14);
         val31 = rd data2 (cast3 + 15);
         val32 = rd data2 (cast3 + 16);
         val33 = rd data2 (cast3 + 17);
         val34 = rd data2 (cast3 + 18);
         val35 = rd data2 (cast3 + 19);
         val36 = rd data2 (cast3 + 20);
         val37 = rd data2 (cast3 + 21);
         val38 = rd data2 (cast3 + 22);
         val39 = rd data2 (cast3 + 23);
         val40 = rd data2 (cast3 + 24);
         val41 = rd data2 (cast3 + 25);
         val42 = rd data2 (cast3 + 26);
         val43 = rd data2 (cast3 + 27);
         val44 = rd data2 (cast3 + 28);
         val45 = rd data2 (cast3 + 29);
         val46 = rd data2 (cast3 + 30);
         val47 = rd data2 (cast3 + 31);
         val48 = rd data2 (cast3 + 32);
         val49 = rd data2 (cast3 + 33);
         val50 = rd data2 (cast3 + 34);
         val51 = rd data2 (cast3 + 35);
         val52 = rd data2 (cast3 + 36);
         val53 = rd data2 (cast3 + 37);
         val54 = rd data2 (cast3 + 38);
         val55 = rd data2 (cast3 + 39);
         val56 = rd data2 (cast3 + 40);
         val57 = rd data2 (cast3 + 41);
         val58 = rd data2 (cast3 + 42);
         val59 = rd data2 (cast3 + 43);
         val60 = rd data2 (cast3 + 44);
         val61 = rd data2 (cast3 + 45);
         val62 = rd data2 (cast3 + 46);
         val63 = rd data2 (cast3 + 47);
         val64 = rd data2 (cast3 + 48);
         val65 = rd data2 (cast3 + 49);
         val66 = rd data2 (cast3 + 50);
         val67 = rd data2 (cast3 + 51);
         val68 = rd data2 (cast3 + 52);
         val69 = rd data2 (cast3 + 53);
         val70 = rd data2 (cast3 + 54);
         val71 = rd data2 (cast3 + 55);
         val72 = rd data2 (cast3 + 56);
         val73 = rd data2 (cast3 + 57);
         val74 = rd data2 (cast3 + 58);
         val75 = rd data2 (cast3 + 59);
         val76 = rd data2 (cast3 + 60);
         val77 = rd data2 (cast3 + 61);
         val78 = rd data2 (cast3 + 62);
         val79 = rd data2 (cast3 + 63);
         val80 = rd data2 (cast3 + 64);
         val81 = rd data2 (cast3 + 65);
         val82 = rd data2 (cast3 + 66);
         val83 = rd data2 (cast3 + 67);
         val84 = rd data2 (cast3 + 68);
         val85 = rd data2 (cast3 + 69);
         val86 = rd data2 (cast3 + 70);
         val87 = rd data2 (cast3 + 71);
         val88 = rd data2 (cast3 + 72);
         val89 = rd data2 (cast3 + 73);
         val90 = rd data2 (cast3 + 74);
         val91 = rd data2 (cast3 + 75);
         val92 = rd data2 (cast3 + 76);
         val93 = rd data2 (cast3 + 77);
         val94 = rd data2 (cast3 + 78);
         val95 = rd data2 (cast3 + 79);
         val96 = rd data2 (cast3 + 80);
         val97 = rd data2 (cast3 + 81);
         val98 = rd data2 (cast3 + 82);
         val99 = rd data2 (cast3 + 83);
         val100 = rd data2 (cast3 + 84);
         val101 = rd data2 (cast3 + 85);
         val102 = rd data2 (cast3 + 86);
         val103 = rd data2 (cast3 + 87);
         val104 = rd data2 (cast3 + 88);
         val105 = rd data2 (cast3 + 89);
         val106 = rd data2 (cast3 + 90);
         val107 = rd data2 (cast3 + 91);
         val108 = rd data2 (cast3 + 92);
         val109 = rd data2 (cast3 + 93);
         val110 = rd data2 (cast3 + 94);
         val111 = rd data2 (cast3 + 95);
         val112 = rd data2 (cast3 + 96);
         val113 = rd data2 (cast3 + 97);
         val114 = rd data2 (cast3 + 98);
         val115 = rd data2 (cast3 + 99);
         val116 = rd data2 (cast3 + 100);
         val117 = rd data2 (cast3 + 101);
         val118 = rd data2 (cast3 + 102);
         val119 = rd data2 (cast3 + 103);
         val120 = rd data2 (cast3 + 104);
         val121 = rd data2 (cast3 + 105);
         val122 = rd data2 (cast3 + 106);
         val123 = rd data2 (cast3 + 107);
         val124 = rd data2 (cast3 + 108);
         val125 = rd data2 (cast3 + 109);
         val126 = rd data2 (cast3 + 110);
         val127 = rd data2 (cast3 + 111);
         val128 = rd data2 (cast3 + 112);
         val129 = rd data2 (cast3 + 113);
         val130 = rd data2 (cast3 + 114);
         val131 = rd data2 (cast3 + 115);
         val132 = rd data2 (cast3 + 116);
         val133 = rd data2 (cast3 + 117);
         val134 = rd data2 (cast3 + 118);
         val135 = rd data2 (cast3 + 119);
         val136 = rd data2 (cast3 + 120);
         val137 = rd data2 (cast3 + 121);
         val138 = rd data2 (cast3 + 122);
         val139 = rd data2 (cast3 + 123);
         val140 = rd data2 (cast3 + 124);
         val141 = rd data2 (cast3 + 125);
         val142 = rd data2 (cast3 + 126);
         val143 = rd data2 (cast3 + 127);
         precast6 = push_bit 2 precast2;
         cast4 = precast6;
         alu3 = cast1 + cast4;
         val144 = rd data1 alu3;
         val145 = rd data1 (alu3 + 1);
         val146 = rd data1 (alu3 + 2);
         val147 = rd data1 (alu3 + 3);
         val148 = rd data1 (alu3 + 25600);
         val149 = rd data1 (alu3 + 25601);
         val150 = rd data1 (alu3 + 25602);
         val151 = rd data1 (alu3 + 25603);
         val152 = rd data1 (alu3 + 51200);
         val153 = rd data1 (alu3 + 51201);
         val154 = rd data1 (alu3 + 51202);
         val155 = rd data1 (alu3 + 51203);
         val156 = rd data1 (alu3 + 76800);
         val157 = rd data1 (alu3 + 76801);
         val158 = rd data1 (alu3 + 76802);
         val159 = rd data1 (alu3 + 76803);
         val160 = rd data1 (alu3 + 102400);
         val161 = rd data1 (alu3 + 102401);
         val162 = rd data1 (alu3 + 102402);
         val163 = rd data1 (alu3 + 102403);
         val164 = rd data1 (alu3 + 128000);
         val165 = rd data1 (alu3 + 128001);
         val166 = rd data1 (alu3 + 128002);
         val167 = rd data1 (alu3 + 128003);
         val168 = rd data1 (alu3 + 153600);
         val169 = rd data1 (alu3 + 153601);
         val170 = rd data1 (alu3 + 153602);
         val171 = rd data1 (alu3 + 153603);
         val172 = rd data1 (alu3 + 179200);
         val173 = rd data1 (alu3 + 179201);
         val174 = rd data1 (alu3 + 179202);
         val175 = rd data1 (alu3 + 179203);
         val176 = rd data1 (alu3 + 204800);
         val177 = rd data1 (alu3 + 204801);
         val178 = rd data1 (alu3 + 204802);
         val179 = rd data1 (alu3 + 204803);
         val180 = rd data1 (alu3 + 230400);
         val181 = rd data1 (alu3 + 230401);
         val182 = rd data1 (alu3 + 230402);
         val183 = rd data1 (alu3 + 230403);
         val184 = rd data1 (alu3 + 256000);
         val185 = rd data1 (alu3 + 256001);
         val186 = rd data1 (alu3 + 256002);
         val187 = rd data1 (alu3 + 256003);
         val188 = rd data1 (alu3 + 281600);
         val189 = rd data1 (alu3 + 281601);
         val190 = rd data1 (alu3 + 281602);
         val191 = rd data1 (alu3 + 281603);
         val192 = rd data1 (alu3 + 307200);
         val193 = rd data1 (alu3 + 307201);
         val194 = rd data1 (alu3 + 307202);
         val195 = rd data1 (alu3 + 307203);
         val196 = rd data1 (alu3 + 332800);
         val197 = rd data1 (alu3 + 332801);
         val198 = rd data1 (alu3 + 332802);
         val199 = rd data1 (alu3 + 332803);
         val200 = rd data1 (alu3 + 358400);
         val201 = rd data1 (alu3 + 358401);
         val202 = rd data1 (alu3 + 358402);
         val203 = rd data1 (alu3 + 358403);
         val204 = rd data1 (alu3 + 384000);
         val205 = rd data1 (alu3 + 384001);
         val206 = rd data1 (alu3 + 384002);
         val207 = rd data1 (alu3 + 384003);
         val208 = rd data1 (alu3 + 409600);
         val209 = rd data1 (alu3 + 409601);
         val210 = rd data1 (alu3 + 409602);
         val211 = rd data1 (alu3 + 409603);
         val212 = rd data1 (alu3 + 435200);
         val213 = rd data1 (alu3 + 435201);
         val214 = rd data1 (alu3 + 435202);
         val215 = rd data1 (alu3 + 435203);
         val216 = rd data1 (alu3 + 460800);
         val217 = rd data1 (alu3 + 460801);
         val218 = rd data1 (alu3 + 460802);
         val219 = rd data1 (alu3 + 460803);
         val220 = rd data1 (alu3 + 486400);
         val221 = rd data1 (alu3 + 486401);
         val222 = rd data1 (alu3 + 486402);
         val223 = rd data1 (alu3 + 486403);
         val224 = rd data1 (alu3 + 512000);
         val225 = rd data1 (alu3 + 512001);
         val226 = rd data1 (alu3 + 512002);
         val227 = rd data1 (alu3 + 512003);
         val228 = rd data1 (alu3 + 537600);
         val229 = rd data1 (alu3 + 537601);
         val230 = rd data1 (alu3 + 537602);
         val231 = rd data1 (alu3 + 537603);
         val232 = rd data1 (alu3 + 563200);
         val233 = rd data1 (alu3 + 563201);
         val234 = rd data1 (alu3 + 563202);
         val235 = rd data1 (alu3 + 563203);
         val236 = rd data1 (alu3 + 588800);
         val237 = rd data1 (alu3 + 588801);
         val238 = rd data1 (alu3 + 588802);
         val239 = rd data1 (alu3 + 588803);
         val240 = rd data1 (alu3 + 614400);
         val241 = rd data1 (alu3 + 614401);
         val242 = rd data1 (alu3 + 614402);
         val243 = rd data1 (alu3 + 614403);
         val244 = rd data1 (alu3 + 640000);
         val245 = rd data1 (alu3 + 640001);
         val246 = rd data1 (alu3 + 640002);
         val247 = rd data1 (alu3 + 640003);
         val248 = rd data1 (alu3 + 665600);
         val249 = rd data1 (alu3 + 665601);
         val250 = rd data1 (alu3 + 665602);
         val251 = rd data1 (alu3 + 665603);
         val252 = rd data1 (alu3 + 691200);
         val253 = rd data1 (alu3 + 691201);
         val254 = rd data1 (alu3 + 691202);
         val255 = rd data1 (alu3 + 691203);
         val256 = rd data1 (alu3 + 716800);
         val257 = rd data1 (alu3 + 716801);
         val258 = rd data1 (alu3 + 716802);
         val259 = rd data1 (alu3 + 716803);
         val260 = rd data1 (alu3 + 742400);
         val261 = rd data1 (alu3 + 742401);
         val262 = rd data1 (alu3 + 742402);
         val263 = rd data1 (alu3 + 742403);
         val264 = rd data1 (alu3 + 768000);
         val265 = rd data1 (alu3 + 768001);
         val266 = rd data1 (alu3 + 768002);
         val267 = rd data1 (alu3 + 768003);
         val268 = rd data1 (alu3 + 793600);
         val269 = rd data1 (alu3 + 793601);
         val270 = rd data1 (alu3 + 793602);
         val271 = rd data1 (alu3 + 793603);
         alu4 = 1 / (fsqrt (val2 + (lit (1 / 1000))));
         alu5 = 1 / (fsqrt (val6 + (lit (1 / 1000))));
         alu6 = 1 / (fsqrt (val10 + (lit (1 / 1000))));
         alu7 = 1 / (fsqrt (val14 + (lit (1 / 1000))));
         alu8 = cast1 + lidx0 * 102400 + cast4;
         alu9 = ((val144 * val16 + val148 * val17 + val152 * val18 + val156 * val19 + val160 * val20 + val164 * val21 + val168 * val22 + val172 * val23 + val176 * val24 + val180 * val25 + val184 * val26 + val188 * val27 + val192 * val28 + val196 * val29 + val200 * val30 + val204 * val31 + val208 * val32 + val212 * val33 + val216 * val34 + val220 * val35 + val224 * val36 + val228 * val37 + val232 * val38 + val236 * val39 + val240 * val40 + val244 * val41 + val248 * val42 + val252 * val43 + val256 * val44 + val260 * val45 + val264 * val46 + val268 * val47) - val0) * val1 * alu4 + val3;
         alu11 = ((val144 * val48 + val148 * val49 + val152 * val50 + val156 * val51 + val160 * val52 + val164 * val53 + val168 * val54 + val172 * val55 + val176 * val56 + val180 * val57 + val184 * val58 + val188 * val59 + val192 * val60 + val196 * val61 + val200 * val62 + val204 * val63 + val208 * val64 + val212 * val65 + val216 * val66 + val220 * val67 + val224 * val68 + val228 * val69 + val232 * val70 + val236 * val71 + val240 * val72 + val244 * val73 + val248 * val74 + val252 * val75 + val256 * val76 + val260 * val77 + val264 * val78 + val268 * val79) - val4) * val5 * alu5 + val7;
         alu13 = ((val144 * val80 + val148 * val81 + val152 * val82 + val156 * val83 + val160 * val84 + val164 * val85 + val168 * val86 + val172 * val87 + val176 * val88 + val180 * val89 + val184 * val90 + val188 * val91 + val192 * val92 + val196 * val93 + val200 * val94 + val204 * val95 + val208 * val96 + val212 * val97 + val216 * val98 + val220 * val99 + val224 * val100 + val228 * val101 + val232 * val102 + val236 * val103 + val240 * val104 + val244 * val105 + val248 * val106 + val252 * val107 + val256 * val108 + val260 * val109 + val264 * val110 + val268 * val111) - val8) * val9 * alu6 + val11;
         alu15 = ((val144 * val112 + val148 * val113 + val152 * val114 + val156 * val115 + val160 * val116 + val164 * val117 + val168 * val118 + val172 * val119 + val176 * val120 + val180 * val121 + val184 * val122 + val188 * val123 + val192 * val124 + val196 * val125 + val200 * val126 + val204 * val127 + val208 * val128 + val212 * val129 + val216 * val130 + val220 * val131 + val224 * val132 + val228 * val133 + val232 * val134 + val236 * val135 + val240 * val136 + val244 * val137 + val248 * val138 + val252 * val139 + val256 * val140 + val260 * val141 + val264 * val142 + val268 * val143) - val12) * val13 * alu7 + val15;
         alu17 = ((val145 * val16 + val149 * val17 + val153 * val18 + val157 * val19 + val161 * val20 + val165 * val21 + val169 * val22 + val173 * val23 + val177 * val24 + val181 * val25 + val185 * val26 + val189 * val27 + val193 * val28 + val197 * val29 + val201 * val30 + val205 * val31 + val209 * val32 + val213 * val33 + val217 * val34 + val221 * val35 + val225 * val36 + val229 * val37 + val233 * val38 + val237 * val39 + val241 * val40 + val245 * val41 + val249 * val42 + val253 * val43 + val257 * val44 + val261 * val45 + val265 * val46 + val269 * val47) - val0) * val1 * alu4 + val3;
         alu19 = ((val145 * val48 + val149 * val49 + val153 * val50 + val157 * val51 + val161 * val52 + val165 * val53 + val169 * val54 + val173 * val55 + val177 * val56 + val181 * val57 + val185 * val58 + val189 * val59 + val193 * val60 + val197 * val61 + val201 * val62 + val205 * val63 + val209 * val64 + val213 * val65 + val217 * val66 + val221 * val67 + val225 * val68 + val229 * val69 + val233 * val70 + val237 * val71 + val241 * val72 + val245 * val73 + val249 * val74 + val253 * val75 + val257 * val76 + val261 * val77 + val265 * val78 + val269 * val79) - val4) * val5 * alu5 + val7;
         alu21 = ((val145 * val80 + val149 * val81 + val153 * val82 + val157 * val83 + val161 * val84 + val165 * val85 + val169 * val86 + val173 * val87 + val177 * val88 + val181 * val89 + val185 * val90 + val189 * val91 + val193 * val92 + val197 * val93 + val201 * val94 + val205 * val95 + val209 * val96 + val213 * val97 + val217 * val98 + val221 * val99 + val225 * val100 + val229 * val101 + val233 * val102 + val237 * val103 + val241 * val104 + val245 * val105 + val249 * val106 + val253 * val107 + val257 * val108 + val261 * val109 + val265 * val110 + val269 * val111) - val8) * val9 * alu6 + val11;
         alu23 = ((val145 * val112 + val149 * val113 + val153 * val114 + val157 * val115 + val161 * val116 + val165 * val117 + val169 * val118 + val173 * val119 + val177 * val120 + val181 * val121 + val185 * val122 + val189 * val123 + val193 * val124 + val197 * val125 + val201 * val126 + val205 * val127 + val209 * val128 + val213 * val129 + val217 * val130 + val221 * val131 + val225 * val132 + val229 * val133 + val233 * val134 + val237 * val135 + val241 * val136 + val245 * val137 + val249 * val138 + val253 * val139 + val257 * val140 + val261 * val141 + val265 * val142 + val269 * val143) - val12) * val13 * alu7 + val15;
         alu25 = ((val146 * val16 + val150 * val17 + val154 * val18 + val158 * val19 + val162 * val20 + val166 * val21 + val170 * val22 + val174 * val23 + val178 * val24 + val182 * val25 + val186 * val26 + val190 * val27 + val194 * val28 + val198 * val29 + val202 * val30 + val206 * val31 + val210 * val32 + val214 * val33 + val218 * val34 + val222 * val35 + val226 * val36 + val230 * val37 + val234 * val38 + val238 * val39 + val242 * val40 + val246 * val41 + val250 * val42 + val254 * val43 + val258 * val44 + val262 * val45 + val266 * val46 + val270 * val47) - val0) * val1 * alu4 + val3;
         alu27 = ((val146 * val48 + val150 * val49 + val154 * val50 + val158 * val51 + val162 * val52 + val166 * val53 + val170 * val54 + val174 * val55 + val178 * val56 + val182 * val57 + val186 * val58 + val190 * val59 + val194 * val60 + val198 * val61 + val202 * val62 + val206 * val63 + val210 * val64 + val214 * val65 + val218 * val66 + val222 * val67 + val226 * val68 + val230 * val69 + val234 * val70 + val238 * val71 + val242 * val72 + val246 * val73 + val250 * val74 + val254 * val75 + val258 * val76 + val262 * val77 + val266 * val78 + val270 * val79) - val4) * val5 * alu5 + val7;
         alu29 = ((val146 * val80 + val150 * val81 + val154 * val82 + val158 * val83 + val162 * val84 + val166 * val85 + val170 * val86 + val174 * val87 + val178 * val88 + val182 * val89 + val186 * val90 + val190 * val91 + val194 * val92 + val198 * val93 + val202 * val94 + val206 * val95 + val210 * val96 + val214 * val97 + val218 * val98 + val222 * val99 + val226 * val100 + val230 * val101 + val234 * val102 + val238 * val103 + val242 * val104 + val246 * val105 + val250 * val106 + val254 * val107 + val258 * val108 + val262 * val109 + val266 * val110 + val270 * val111) - val8) * val9 * alu6 + val11;
         alu31 = ((val146 * val112 + val150 * val113 + val154 * val114 + val158 * val115 + val162 * val116 + val166 * val117 + val170 * val118 + val174 * val119 + val178 * val120 + val182 * val121 + val186 * val122 + val190 * val123 + val194 * val124 + val198 * val125 + val202 * val126 + val206 * val127 + val210 * val128 + val214 * val129 + val218 * val130 + val222 * val131 + val226 * val132 + val230 * val133 + val234 * val134 + val238 * val135 + val242 * val136 + val246 * val137 + val250 * val138 + val254 * val139 + val258 * val140 + val262 * val141 + val266 * val142 + val270 * val143) - val12) * val13 * alu7 + val15;
         alu33 = ((val147 * val16 + val151 * val17 + val155 * val18 + val159 * val19 + val163 * val20 + val167 * val21 + val171 * val22 + val175 * val23 + val179 * val24 + val183 * val25 + val187 * val26 + val191 * val27 + val195 * val28 + val199 * val29 + val203 * val30 + val207 * val31 + val211 * val32 + val215 * val33 + val219 * val34 + val223 * val35 + val227 * val36 + val231 * val37 + val235 * val38 + val239 * val39 + val243 * val40 + val247 * val41 + val251 * val42 + val255 * val43 + val259 * val44 + val263 * val45 + val267 * val46 + val271 * val47) - val0) * val1 * alu4 + val3;
         alu35 = ((val147 * val48 + val151 * val49 + val155 * val50 + val159 * val51 + val163 * val52 + val167 * val53 + val171 * val54 + val175 * val55 + val179 * val56 + val183 * val57 + val187 * val58 + val191 * val59 + val195 * val60 + val199 * val61 + val203 * val62 + val207 * val63 + val211 * val64 + val215 * val65 + val219 * val66 + val223 * val67 + val227 * val68 + val231 * val69 + val235 * val70 + val239 * val71 + val243 * val72 + val247 * val73 + val251 * val74 + val255 * val75 + val259 * val76 + val263 * val77 + val267 * val78 + val271 * val79) - val4) * val5 * alu5 + val7;
         alu37 = ((val147 * val80 + val151 * val81 + val155 * val82 + val159 * val83 + val163 * val84 + val167 * val85 + val171 * val86 + val175 * val87 + val179 * val88 + val183 * val89 + val187 * val90 + val191 * val91 + val195 * val92 + val199 * val93 + val203 * val94 + val207 * val95 + val211 * val96 + val215 * val97 + val219 * val98 + val223 * val99 + val227 * val100 + val231 * val101 + val235 * val102 + val239 * val103 + val243 * val104 + val247 * val105 + val251 * val106 + val255 * val107 + val259 * val108 + val263 * val109 + val267 * val110 + val271 * val111) - val8) * val9 * alu6 + val11;
         alu39 = ((val147 * val112 + val151 * val113 + val155 * val114 + val159 * val115 + val163 * val116 + val167 * val117 + val171 * val118 + val175 * val119 + val179 * val120 + val183 * val121 + val187 * val122 + val191 * val123 + val195 * val124 + val199 * val125 + val203 * val126 + val207 * val127 + val211 * val128 + val215 * val129 + val219 * val130 + val223 * val131 + val227 * val132 + val231 * val133 + val235 * val134 + val239 * val135 + val243 * val136 + val247 * val137 + val251 * val138 + val255 * val139 + val259 * val140 + val263 * val141 + val267 * val142 + val271 * val143) - val12) * val13 * alu7 + val15
     in [(alu8, alu9 * (1 / (1 + (exp2 (alu9 * (- (lit (14426950408889634 / 10000000000000000)))))))),
         (alu8 + 25600, alu11 * (1 / (1 + (exp2 (alu11 * (- (lit (14426950408889634 / 10000000000000000)))))))),
         (alu8 + 51200, alu13 * (1 / (1 + (exp2 (alu13 * (- (lit (14426950408889634 / 10000000000000000)))))))),
         (alu8 + 76800, alu15 * (1 / (1 + (exp2 (alu15 * (- (lit (14426950408889634 / 10000000000000000)))))))),
         (alu8 + 1, alu17 * (1 / (1 + (exp2 (alu17 * (- (lit (14426950408889634 / 10000000000000000)))))))),
         (alu8 + 25601, alu19 * (1 / (1 + (exp2 (alu19 * (- (lit (14426950408889634 / 10000000000000000)))))))),
         (alu8 + 51201, alu21 * (1 / (1 + (exp2 (alu21 * (- (lit (14426950408889634 / 10000000000000000)))))))),
         (alu8 + 76801, alu23 * (1 / (1 + (exp2 (alu23 * (- (lit (14426950408889634 / 10000000000000000)))))))),
         (alu8 + 2, alu25 * (1 / (1 + (exp2 (alu25 * (- (lit (14426950408889634 / 10000000000000000)))))))),
         (alu8 + 25602, alu27 * (1 / (1 + (exp2 (alu27 * (- (lit (14426950408889634 / 10000000000000000)))))))),
         (alu8 + 51202, alu29 * (1 / (1 + (exp2 (alu29 * (- (lit (14426950408889634 / 10000000000000000)))))))),
         (alu8 + 76802, alu31 * (1 / (1 + (exp2 (alu31 * (- (lit (14426950408889634 / 10000000000000000)))))))),
         (alu8 + 3, alu33 * (1 / (1 + (exp2 (alu33 * (- (lit (14426950408889634 / 10000000000000000)))))))),
         (alu8 + 25603, alu35 * (1 / (1 + (exp2 (alu35 * (- (lit (14426950408889634 / 10000000000000000)))))))),
         (alu8 + 51203, alu37 * (1 / (1 + (exp2 (alu37 * (- (lit (14426950408889634 / 10000000000000000)))))))),
         (alu8 + 76803, alu39 * (1 / (1 + (exp2 (alu39 * (- (lit (14426950408889634 / 10000000000000000))))))))])"

definition r_400_8_16_4_4_32_shader :: "(f32 \<Rightarrow> f32) \<Rightarrow> (f32 \<Rightarrow> f32) \<Rightarrow> shader" where
  "r_400_8_16_4_4_32_shader exp2 fsqrt = FShader (8, 16, 1) (\<lambda>f i. r_400_8_16_4_4_32 exp2 fsqrt (f 1) (f 2) (f 3) (f 4) (f 5) (f 6))"

lemma r_400_8_16_4_4_32_stores:
  assumes "gx < 400" "gy < 1" "lx < 8" "ly < 16"
  shows "set (launch (r_400_8_16_4_4_32 exp2 fsqrt x w m g v b) (gx, gy, 0) (lx, ly, 0)) = tile 4 1 (4 * (16 * 400)) (layer_value exp2 fsqrt (Conv1First 25600 32) (reads [x, w, m, g, v, b])) (8 * gy + lx) 0 (16 * gx + ly)"
proof -
  have zgy: "gy = 0" using assms(2) by simp
  show ?thesis
    unfolding zgy r_400_8_16_4_4_32_def launch_def Let_def vec_simps prod.case log2_e_def[symmetric] sigmoid_def[symmetric] silu_def[symmetric]
    by (rule tile_planes, unfold list.map prod.case list.inject prod.inject layer_value.simps reads_simps pointwise_first_def product_def upto_31 fold_simps batch_norm_def, intro conjI)
      (simp_all add: arr_def push_bit_eq_mult algebra_simps)
qed

interpretation r_400_8_16_4_4_32: flat_kernel 8 16 400 1 4 "launch (r_400_8_16_4_4_32 exp2 fsqrt x w m g v b)"
    "layer_value exp2 fsqrt (Conv1First 25600 32) (reads [x, w, m, g, v, b])"
  for exp2 fsqrt x w m g v b
  by unfold_locales (rule r_400_8_16_4_4_32_stores; assumption | simp)+

lemma r_400_8_16_4_4_32_computes: "computes exp2 fsqrt (r_400_8_16_4_4_32_shader exp2 fsqrt) (400, 1, 1) (Conv1First 25600 32) 32 1 25600"
  unfolding r_400_8_16_4_4_32_shader_def by (rule computesI, rule r_400_8_16_4_4_32.kernel_contract_axioms) (simp, simp only: layer_inputs, simp)

definition r_400_8_16_12_4_4_4 :: "(f32 \<Rightarrow> f32) \<Rightarrow> (f32 \<Rightarrow> f32) \<Rightarrow> f32 buf \<Rightarrow> f32 buf \<Rightarrow> f32 buf \<Rightarrow> f32 buf \<Rightarrow> f32 buf \<Rightarrow> f32 buf \<Rightarrow> vec3 \<Rightarrow> vec3 \<Rightarrow> f32 stores" where
  "r_400_8_16_12_4_4_4 exp2 fsqrt data1 data2 data3 data4 data5 data6 gindex lindex =
    (let gidx0 = vx gindex;
         lidx0 = vx lindex;
         lidx1 = vy lindex;
         precast0 = lidx1;
         precast1 = push_bit 2 precast0;
         cast0 = precast1;
         precast2 = gidx0;
         precast3 = push_bit 6 precast2;
         cast1 = precast3;
         acc0 = (0 :: f32);
         acc1 = (0 :: f32);
         acc2 = (0 :: f32);
         acc3 = (0 :: f32);
         acc4 = (0 :: f32);
         acc5 = (0 :: f32);
         acc6 = (0 :: f32);
         acc7 = (0 :: f32);
         acc8 = (0 :: f32);
         acc9 = (0 :: f32);
         acc10 = (0 :: f32);
         acc11 = (0 :: f32);
         acc12 = (0 :: f32);
         acc13 = (0 :: f32);
         acc14 = (0 :: f32);
         acc15 = (0 :: f32);
         (acc0, acc1, acc2, acc3, acc4, acc5, acc6, acc7,
          acc8, acc9, acc10, acc11, acc12, acc13, acc14, acc15)
          = for_loop 12 (\<lambda>ridx3 (acc0, acc1, acc2, acc3, acc4, acc5, acc6, acc7,
             acc8, acc9, acc10, acc11, acc12, acc13, acc14, acc15).
             let precast4 = ridx3;
                 alu0 = cast1 + cast0 + ridx3 * 102400;
                 val0 = rd data1 alu0;
                 val1 = rd data1 (alu0 + 1);
                 val2 = rd data1 (alu0 + 2);
                 val3 = rd data1 (alu0 + 3);
                 val4 = rd data1 (alu0 + 25600);
                 val5 = rd data1 (alu0 + 25601);
                 val6 = rd data1 (alu0 + 25602);
                 val7 = rd data1 (alu0 + 25603);
                 val8 = rd data1 (alu0 + 51200);
                 val9 = rd data1 (alu0 + 51201);
                 val10 = rd data1 (alu0 + 51202);
                 val11 = rd data1 (alu0 + 51203);
                 val12 = rd data1 (alu0 + 76800);
                 val13 = rd data1 (alu0 + 76801);
                 val14 = rd data1 (alu0 + 76802);
                 val15 = rd data1 (alu0 + 76803);
                 precast5 = push_bit 2 precast4;
                 alu1 = lidx0 * 192 + precast5;
                 val16 = rd data2 alu1;
                 val17 = rd data2 (alu1 + 1);
                 val18 = rd data2 (alu1 + 2);
                 val19 = rd data2 (alu1 + 3);
                 val20 = rd data2 (alu1 + 48);
                 val21 = rd data2 (alu1 + 49);
                 val22 = rd data2 (alu1 + 50);
                 val23 = rd data2 (alu1 + 51);
                 val24 = rd data2 (alu1 + 96);
                 val25 = rd data2 (alu1 + 97);
                 val26 = rd data2 (alu1 + 98);
                 val27 = rd data2 (alu1 + 99);
                 val28 = rd data2 (alu1 + 144);
                 val29 = rd data2 (alu1 + 145);
                 val30 = rd data2 (alu1 + 146);
                 val31 = rd data2 (alu1 + 147);
                 acc0 = acc0 + val0 * val16 + val4 * val17 + val8 * val18 + val12 * val19;
                 acc1 = acc1 + val0 * val20 + val4 * val21 + val8 * val22 + val12 * val23;
                 acc2 = acc2 + val0 * val24 + val4 * val25 + val8 * val26 + val12 * val27;
                 acc3 = acc3 + val0 * val28 + val4 * val29 + val8 * val30 + val12 * val31;
                 acc4 = acc4 + val1 * val16 + val5 * val17 + val9 * val18 + val13 * val19;
                 acc5 = acc5 + val1 * val20 + val5 * val21 + val9 * val22 + val13 * val23;
                 acc6 = acc6 + val1 * val24 + val5 * val25 + val9 * val26 + val13 * val27;
                 acc7 = acc7 + val1 * val28 + val5 * val29 + val9 * val30 + val13 * val31;
                 acc8 = acc8 + val2 * val16 + val6 * val17 + val10 * val18 + val14 * val19;
                 acc9 = acc9 + val2 * val20 + val6 * val21 + val10 * val22 + val14 * val23;
                 acc10 = acc10 + val2 * val24 + val6 * val25 + val10 * val26 + val14 * val27;
                 acc11 = acc11 + val2 * val28 + val6 * val29 + val10 * val30 + val14 * val31;
                 acc12 = acc12 + val3 * val16 + val7 * val17 + val11 * val18 + val15 * val19;
                 acc13 = acc13 + val3 * val20 + val7 * val21 + val11 * val22 + val15 * val23;
                 acc14 = acc14 + val3 * val24 + val7 * val25 + val11 * val26 + val15 * val27;
                 acc15 = acc15 + val3 * val28 + val7 * val29 + val11 * val30 + val15 * val31
             in (acc0, acc1, acc2, acc3, acc4, acc5, acc6, acc7,
                 acc8, acc9, acc10, acc11, acc12, acc13, acc14, acc15))
             (acc0, acc1, acc2, acc3, acc4, acc5, acc6, acc7,
              acc8, acc9, acc10, acc11, acc12, acc13, acc14, acc15);
         precast6 = lidx0;
         precast7 = push_bit 2 precast6;
         cast2 = precast7;
         val32 = rd data3 cast2;
         val33 = rd data4 cast2;
         val34 = rd data5 cast2;
         val35 = rd data6 cast2;
         alu19 = cast2 + 1;
         val36 = rd data3 alu19;
         val37 = rd data4 alu19;
         val38 = rd data5 alu19;
         val39 = rd data6 alu19;
         alu20 = cast2 + 2;
         val40 = rd data3 alu20;
         val41 = rd data4 alu20;
         val42 = rd data5 alu20;
         val43 = rd data6 alu20;
         alu21 = cast2 + 3;
         val44 = rd data3 alu21;
         val45 = rd data4 alu21;
         val46 = rd data5 alu21;
         val47 = rd data6 alu21;
         alu22 = 1 / (fsqrt (val34 + (lit (1 / 1000))));
         alu23 = 1 / (fsqrt (val38 + (lit (1 / 1000))));
         alu24 = 1 / (fsqrt (val42 + (lit (1 / 1000))));
         alu25 = 1 / (fsqrt (val46 + (lit (1 / 1000))));
         alu26 = cast1 + lidx0 * 102400 + cast0;
         alu27 = (acc0 - val32) * val33 * alu22 + val35;
         alu29 = (acc1 - val36) * val37 * alu23 + val39;
         alu31 = (acc2 - val40) * val41 * alu24 + val43;
         alu33 = (acc3 - val44) * val45 * alu25 + val47;
         alu35 = (acc4 - val32) * val33 * alu22 + val35;
         alu37 = (acc5 - val36) * val37 * alu23 + val39;
         alu39 = (acc6 - val40) * val41 * alu24 + val43;
         alu41 = (acc7 - val44) * val45 * alu25 + val47;
         alu43 = (acc8 - val32) * val33 * alu22 + val35;
         alu45 = (acc9 - val36) * val37 * alu23 + val39;
         alu47 = (acc10 - val40) * val41 * alu24 + val43;
         alu49 = (acc11 - val44) * val45 * alu25 + val47;
         alu51 = (acc12 - val32) * val33 * alu22 + val35;
         alu53 = (acc13 - val36) * val37 * alu23 + val39;
         alu55 = (acc14 - val40) * val41 * alu24 + val43;
         alu57 = (acc15 - val44) * val45 * alu25 + val47
     in [(alu26, alu27 * (1 / (1 + (exp2 (alu27 * (- (lit (14426950408889634 / 10000000000000000)))))))),
         (alu26 + 25600, alu29 * (1 / (1 + (exp2 (alu29 * (- (lit (14426950408889634 / 10000000000000000)))))))),
         (alu26 + 51200, alu31 * (1 / (1 + (exp2 (alu31 * (- (lit (14426950408889634 / 10000000000000000)))))))),
         (alu26 + 76800, alu33 * (1 / (1 + (exp2 (alu33 * (- (lit (14426950408889634 / 10000000000000000)))))))),
         (alu26 + 1, alu35 * (1 / (1 + (exp2 (alu35 * (- (lit (14426950408889634 / 10000000000000000)))))))),
         (alu26 + 25601, alu37 * (1 / (1 + (exp2 (alu37 * (- (lit (14426950408889634 / 10000000000000000)))))))),
         (alu26 + 51201, alu39 * (1 / (1 + (exp2 (alu39 * (- (lit (14426950408889634 / 10000000000000000)))))))),
         (alu26 + 76801, alu41 * (1 / (1 + (exp2 (alu41 * (- (lit (14426950408889634 / 10000000000000000)))))))),
         (alu26 + 2, alu43 * (1 / (1 + (exp2 (alu43 * (- (lit (14426950408889634 / 10000000000000000)))))))),
         (alu26 + 25602, alu45 * (1 / (1 + (exp2 (alu45 * (- (lit (14426950408889634 / 10000000000000000)))))))),
         (alu26 + 51202, alu47 * (1 / (1 + (exp2 (alu47 * (- (lit (14426950408889634 / 10000000000000000)))))))),
         (alu26 + 76802, alu49 * (1 / (1 + (exp2 (alu49 * (- (lit (14426950408889634 / 10000000000000000)))))))),
         (alu26 + 3, alu51 * (1 / (1 + (exp2 (alu51 * (- (lit (14426950408889634 / 10000000000000000)))))))),
         (alu26 + 25603, alu53 * (1 / (1 + (exp2 (alu53 * (- (lit (14426950408889634 / 10000000000000000)))))))),
         (alu26 + 51203, alu55 * (1 / (1 + (exp2 (alu55 * (- (lit (14426950408889634 / 10000000000000000)))))))),
         (alu26 + 76803, alu57 * (1 / (1 + (exp2 (alu57 * (- (lit (14426950408889634 / 10000000000000000))))))))])"

definition r_400_8_16_12_4_4_4_shader :: "(f32 \<Rightarrow> f32) \<Rightarrow> (f32 \<Rightarrow> f32) \<Rightarrow> shader" where
  "r_400_8_16_12_4_4_4_shader exp2 fsqrt = FShader (8, 16, 1) (\<lambda>f i. r_400_8_16_12_4_4_4 exp2 fsqrt (f 1) (f 2) (f 3) (f 4) (f 5) (f 6))"

lemma r_400_8_16_12_4_4_4_stores:
  assumes "gx < 400" "gy < 1" "lx < 8" "ly < 16"
  shows "set (launch (r_400_8_16_12_4_4_4 exp2 fsqrt x w m g v b) (gx, gy, 0) (lx, ly, 0)) = tile 4 1 (4 * (16 * 400)) (layer_value exp2 fsqrt (Conv1 25600 48) (reads [x, w, m, g, v, b])) (8 * gy + lx) 0 (16 * gx + ly)"
proof -
  have zgy: "gy = 0" using assms(2) by simp
  have c: "48 = 4 * (12 :: nat)" by simp
  show ?thesis
    unfolding zgy r_400_8_16_12_4_4_4_def launch_def Let_def vec_simps for_loop_16 prod.case log2_e_def[symmetric] sigmoid_def[symmetric] silu_def[symmetric]
    by (rule tile_planes, unfold list.map prod.case list.inject prod.inject layer_value.simps reads_simps pointwise_words[OF c] batch_norm_def, intro conjI)
      (simp_all add: arr_def push_bit_eq_mult algebra_simps)
qed

interpretation r_400_8_16_12_4_4_4: flat_kernel 8 16 400 1 4 "launch (r_400_8_16_12_4_4_4 exp2 fsqrt x w m g v b)"
    "layer_value exp2 fsqrt (Conv1 25600 48) (reads [x, w, m, g, v, b])"
  for exp2 fsqrt x w m g v b
  by unfold_locales (rule r_400_8_16_12_4_4_4_stores; assumption | simp)+

lemma r_400_8_16_12_4_4_4_computes: "computes exp2 fsqrt (r_400_8_16_12_4_4_4_shader exp2 fsqrt) (400, 1, 1) (Conv1 25600 48) 32 1 25600"
  unfolding r_400_8_16_12_4_4_4_shader_def by (rule computesI, rule r_400_8_16_12_4_4_4.kernel_contract_axioms) (simp, simp only: layer_inputs, simp)

definition r_2_100_8_16_16_4_4_4 :: "(f32 \<Rightarrow> f32) \<Rightarrow> (f32 \<Rightarrow> f32) \<Rightarrow> f32 buf \<Rightarrow> f32 buf \<Rightarrow> f32 buf \<Rightarrow> f32 buf \<Rightarrow> f32 buf \<Rightarrow> f32 buf \<Rightarrow> vec3 \<Rightarrow> vec3 \<Rightarrow> f32 stores" where
  "r_2_100_8_16_16_4_4_4 exp2 fsqrt data1 data2 data3 data4 data5 data6 gindex lindex =
    (let gidx0 = vx gindex;
         gidx1 = vy gindex;
         lidx0 = vx lindex;
         lidx1 = vy lindex;
         precast0 = lidx1;
         precast1 = push_bit 2 precast0;
         cast0 = precast1;
         precast2 = gidx0;
         precast3 = push_bit 6 precast2;
         cast1 = precast3;
         precast4 = lidx0;
         cast2 = precast4;
         precast5 = gidx1;
         cast3 = precast5;
         precast6 = push_bit 11 cast3;
         precast7 = push_bit 8 cast2;
         acc0 = (0 :: f32);
         acc1 = (0 :: f32);
         acc2 = (0 :: f32);
         acc3 = (0 :: f32);
         acc4 = (0 :: f32);
         acc5 = (0 :: f32);
         acc6 = (0 :: f32);
         acc7 = (0 :: f32);
         acc8 = (0 :: f32);
         acc9 = (0 :: f32);
         acc10 = (0 :: f32);
         acc11 = (0 :: f32);
         acc12 = (0 :: f32);
         acc13 = (0 :: f32);
         acc14 = (0 :: f32);
         acc15 = (0 :: f32);
         (acc0, acc1, acc2, acc3, acc4, acc5, acc6, acc7,
          acc8, acc9, acc10, acc11, acc12, acc13, acc14, acc15)
          = for_loop 16 (\<lambda>ridx4 (acc0, acc1, acc2, acc3, acc4, acc5, acc6, acc7,
             acc8, acc9, acc10, acc11, acc12, acc13, acc14, acc15).
             let precast8 = ridx4;
                 alu0 = cast1 + cast0 + ridx4 * 25600;
                 val0 = rd data1 alu0;
                 val1 = rd data1 (alu0 + 1);
                 val2 = rd data1 (alu0 + 2);
                 val3 = rd data1 (alu0 + 3);
                 val4 = rd data1 (alu0 + 6400);
                 val5 = rd data1 (alu0 + 6401);
                 val6 = rd data1 (alu0 + 6402);
                 val7 = rd data1 (alu0 + 6403);
                 val8 = rd data1 (alu0 + 12800);
                 val9 = rd data1 (alu0 + 12801);
                 val10 = rd data1 (alu0 + 12802);
                 val11 = rd data1 (alu0 + 12803);
                 val12 = rd data1 (alu0 + 19200);
                 val13 = rd data1 (alu0 + 19201);
                 val14 = rd data1 (alu0 + 19202);
                 val15 = rd data1 (alu0 + 19203);
                 precast9 = push_bit 2 precast8;
                 alu1 = precast6 + precast7 + precast9;
                 val16 = rd data2 alu1;
                 val17 = rd data2 (alu1 + 1);
                 val18 = rd data2 (alu1 + 2);
                 val19 = rd data2 (alu1 + 3);
                 val20 = rd data2 (alu1 + 64);
                 val21 = rd data2 (alu1 + 65);
                 val22 = rd data2 (alu1 + 66);
                 val23 = rd data2 (alu1 + 67);
                 val24 = rd data2 (alu1 + 128);
                 val25 = rd data2 (alu1 + 129);
                 val26 = rd data2 (alu1 + 130);
                 val27 = rd data2 (alu1 + 131);
                 val28 = rd data2 (alu1 + 192);
                 val29 = rd data2 (alu1 + 193);
                 val30 = rd data2 (alu1 + 194);
                 val31 = rd data2 (alu1 + 195);
                 acc0 = acc0 + val0 * val16 + val4 * val17 + val8 * val18 + val12 * val19;
                 acc1 = acc1 + val0 * val20 + val4 * val21 + val8 * val22 + val12 * val23;
                 acc2 = acc2 + val0 * val24 + val4 * val25 + val8 * val26 + val12 * val27;
                 acc3 = acc3 + val0 * val28 + val4 * val29 + val8 * val30 + val12 * val31;
                 acc4 = acc4 + val1 * val16 + val5 * val17 + val9 * val18 + val13 * val19;
                 acc5 = acc5 + val1 * val20 + val5 * val21 + val9 * val22 + val13 * val23;
                 acc6 = acc6 + val1 * val24 + val5 * val25 + val9 * val26 + val13 * val27;
                 acc7 = acc7 + val1 * val28 + val5 * val29 + val9 * val30 + val13 * val31;
                 acc8 = acc8 + val2 * val16 + val6 * val17 + val10 * val18 + val14 * val19;
                 acc9 = acc9 + val2 * val20 + val6 * val21 + val10 * val22 + val14 * val23;
                 acc10 = acc10 + val2 * val24 + val6 * val25 + val10 * val26 + val14 * val27;
                 acc11 = acc11 + val2 * val28 + val6 * val29 + val10 * val30 + val14 * val31;
                 acc12 = acc12 + val3 * val16 + val7 * val17 + val11 * val18 + val15 * val19;
                 acc13 = acc13 + val3 * val20 + val7 * val21 + val11 * val22 + val15 * val23;
                 acc14 = acc14 + val3 * val24 + val7 * val25 + val11 * val26 + val15 * val27;
                 acc15 = acc15 + val3 * val28 + val7 * val29 + val11 * val30 + val15 * val31
             in (acc0, acc1, acc2, acc3, acc4, acc5, acc6, acc7,
                 acc8, acc9, acc10, acc11, acc12, acc13, acc14, acc15))
             (acc0, acc1, acc2, acc3, acc4, acc5, acc6, acc7,
              acc8, acc9, acc10, acc11, acc12, acc13, acc14, acc15);
         precast10 = push_bit 5 cast3;
         precast11 = push_bit 2 cast2;
         alu19 = precast10 + precast11;
         val32 = rd data3 alu19;
         val33 = rd data4 alu19;
         val34 = rd data5 alu19;
         val35 = rd data6 alu19;
         alu20 = alu19 + 1;
         val36 = rd data3 alu20;
         val37 = rd data4 alu20;
         val38 = rd data5 alu20;
         val39 = rd data6 alu20;
         alu21 = alu19 + 2;
         val40 = rd data3 alu21;
         val41 = rd data4 alu21;
         val42 = rd data5 alu21;
         val43 = rd data6 alu21;
         alu22 = alu19 + 3;
         val44 = rd data3 alu22;
         val45 = rd data4 alu22;
         val46 = rd data5 alu22;
         val47 = rd data6 alu22;
         alu23 = 1 / (fsqrt (val34 + (lit (1 / 1000))));
         alu24 = 1 / (fsqrt (val38 + (lit (1 / 1000))));
         alu25 = 1 / (fsqrt (val42 + (lit (1 / 1000))));
         alu26 = 1 / (fsqrt (val46 + (lit (1 / 1000))));
         alu27 = cast1 + gidx1 * 204800 + lidx0 * 25600 + cast0;
         alu28 = (acc0 - val32) * val33 * alu23 + val35;
         alu30 = (acc1 - val36) * val37 * alu24 + val39;
         alu32 = (acc2 - val40) * val41 * alu25 + val43;
         alu34 = (acc3 - val44) * val45 * alu26 + val47;
         alu36 = (acc4 - val32) * val33 * alu23 + val35;
         alu38 = (acc5 - val36) * val37 * alu24 + val39;
         alu40 = (acc6 - val40) * val41 * alu25 + val43;
         alu42 = (acc7 - val44) * val45 * alu26 + val47;
         alu44 = (acc8 - val32) * val33 * alu23 + val35;
         alu46 = (acc9 - val36) * val37 * alu24 + val39;
         alu48 = (acc10 - val40) * val41 * alu25 + val43;
         alu50 = (acc11 - val44) * val45 * alu26 + val47;
         alu52 = (acc12 - val32) * val33 * alu23 + val35;
         alu54 = (acc13 - val36) * val37 * alu24 + val39;
         alu56 = (acc14 - val40) * val41 * alu25 + val43;
         alu58 = (acc15 - val44) * val45 * alu26 + val47
     in [(alu27, alu28 * (1 / (1 + (exp2 (alu28 * (- (lit (14426950408889634 / 10000000000000000)))))))),
         (alu27 + 6400, alu30 * (1 / (1 + (exp2 (alu30 * (- (lit (14426950408889634 / 10000000000000000)))))))),
         (alu27 + 12800, alu32 * (1 / (1 + (exp2 (alu32 * (- (lit (14426950408889634 / 10000000000000000)))))))),
         (alu27 + 19200, alu34 * (1 / (1 + (exp2 (alu34 * (- (lit (14426950408889634 / 10000000000000000)))))))),
         (alu27 + 1, alu36 * (1 / (1 + (exp2 (alu36 * (- (lit (14426950408889634 / 10000000000000000)))))))),
         (alu27 + 6401, alu38 * (1 / (1 + (exp2 (alu38 * (- (lit (14426950408889634 / 10000000000000000)))))))),
         (alu27 + 12801, alu40 * (1 / (1 + (exp2 (alu40 * (- (lit (14426950408889634 / 10000000000000000)))))))),
         (alu27 + 19201, alu42 * (1 / (1 + (exp2 (alu42 * (- (lit (14426950408889634 / 10000000000000000)))))))),
         (alu27 + 2, alu44 * (1 / (1 + (exp2 (alu44 * (- (lit (14426950408889634 / 10000000000000000)))))))),
         (alu27 + 6402, alu46 * (1 / (1 + (exp2 (alu46 * (- (lit (14426950408889634 / 10000000000000000)))))))),
         (alu27 + 12802, alu48 * (1 / (1 + (exp2 (alu48 * (- (lit (14426950408889634 / 10000000000000000)))))))),
         (alu27 + 19202, alu50 * (1 / (1 + (exp2 (alu50 * (- (lit (14426950408889634 / 10000000000000000)))))))),
         (alu27 + 3, alu52 * (1 / (1 + (exp2 (alu52 * (- (lit (14426950408889634 / 10000000000000000)))))))),
         (alu27 + 6403, alu54 * (1 / (1 + (exp2 (alu54 * (- (lit (14426950408889634 / 10000000000000000)))))))),
         (alu27 + 12803, alu56 * (1 / (1 + (exp2 (alu56 * (- (lit (14426950408889634 / 10000000000000000)))))))),
         (alu27 + 19203, alu58 * (1 / (1 + (exp2 (alu58 * (- (lit (14426950408889634 / 10000000000000000))))))))])"

definition r_2_100_8_16_16_4_4_4_shader :: "(f32 \<Rightarrow> f32) \<Rightarrow> (f32 \<Rightarrow> f32) \<Rightarrow> shader" where
  "r_2_100_8_16_16_4_4_4_shader exp2 fsqrt = FShader (8, 16, 1) (\<lambda>f i. r_2_100_8_16_16_4_4_4 exp2 fsqrt (f 1) (f 2) (f 3) (f 4) (f 5) (f 6))"

lemma r_2_100_8_16_16_4_4_4_stores:
  assumes "gx < 100" "gy < 2" "lx < 8" "ly < 16"
  shows "set (launch (r_2_100_8_16_16_4_4_4 exp2 fsqrt x w m g v b) (gx, gy, 0) (lx, ly, 0)) = tile 4 1 (4 * (16 * 100)) (layer_value exp2 fsqrt (Conv1 6400 64) (reads [x, w, m, g, v, b])) (8 * gy + lx) 0 (16 * gx + ly)"
proof -
  have c: "64 = 4 * (16 :: nat)" by simp
  show ?thesis
    unfolding r_2_100_8_16_16_4_4_4_def launch_def Let_def vec_simps for_loop_16 prod.case log2_e_def[symmetric] sigmoid_def[symmetric] silu_def[symmetric]
    by (rule tile_planes, unfold list.map prod.case list.inject prod.inject layer_value.simps reads_simps pointwise_words[OF c] batch_norm_def, intro conjI)
      (simp_all add: arr_def push_bit_eq_mult algebra_simps)
qed

interpretation r_2_100_8_16_16_4_4_4: flat_kernel 8 16 100 2 4 "launch (r_2_100_8_16_16_4_4_4 exp2 fsqrt x w m g v b)"
    "layer_value exp2 fsqrt (Conv1 6400 64) (reads [x, w, m, g, v, b])"
  for exp2 fsqrt x w m g v b
  by unfold_locales (rule r_2_100_8_16_16_4_4_4_stores; assumption | simp)+

lemma r_2_100_8_16_16_4_4_4_computes: "computes exp2 fsqrt (r_2_100_8_16_16_4_4_4_shader exp2 fsqrt) (100, 2, 1) (Conv1 6400 64) 64 1 6400"
  unfolding r_2_100_8_16_16_4_4_4_shader_def by (rule computesI, rule r_2_100_8_16_16_4_4_4.kernel_contract_axioms) (simp, simp only: layer_inputs, simp)

definition r_2_100_8_16_32_4_4_4 :: "(f32 \<Rightarrow> f32) \<Rightarrow> (f32 \<Rightarrow> f32) \<Rightarrow> f32 buf \<Rightarrow> f32 buf \<Rightarrow> f32 buf \<Rightarrow> f32 buf \<Rightarrow> f32 buf \<Rightarrow> f32 buf \<Rightarrow> vec3 \<Rightarrow> vec3 \<Rightarrow> f32 stores" where
  "r_2_100_8_16_32_4_4_4 exp2 fsqrt data1 data2 data3 data4 data5 data6 gindex lindex =
    (let gidx0 = vx gindex;
         gidx1 = vy gindex;
         lidx0 = vx lindex;
         lidx1 = vy lindex;
         precast0 = lidx1;
         precast1 = push_bit 2 precast0;
         cast0 = precast1;
         precast2 = gidx0;
         precast3 = push_bit 6 precast2;
         cast1 = precast3;
         precast4 = lidx0;
         cast2 = precast4;
         precast5 = gidx1;
         cast3 = precast5;
         precast6 = push_bit 12 cast3;
         precast7 = push_bit 9 cast2;
         acc0 = (0 :: f32);
         acc1 = (0 :: f32);
         acc2 = (0 :: f32);
         acc3 = (0 :: f32);
         acc4 = (0 :: f32);
         acc5 = (0 :: f32);
         acc6 = (0 :: f32);
         acc7 = (0 :: f32);
         acc8 = (0 :: f32);
         acc9 = (0 :: f32);
         acc10 = (0 :: f32);
         acc11 = (0 :: f32);
         acc12 = (0 :: f32);
         acc13 = (0 :: f32);
         acc14 = (0 :: f32);
         acc15 = (0 :: f32);
         (acc0, acc1, acc2, acc3, acc4, acc5, acc6, acc7,
          acc8, acc9, acc10, acc11, acc12, acc13, acc14, acc15)
          = for_loop 32 (\<lambda>ridx4 (acc0, acc1, acc2, acc3, acc4, acc5, acc6, acc7,
             acc8, acc9, acc10, acc11, acc12, acc13, acc14, acc15).
             let precast8 = ridx4;
                 alu0 = cast1 + cast0 + ridx4 * 25600;
                 val0 = rd data1 alu0;
                 val1 = rd data1 (alu0 + 1);
                 val2 = rd data1 (alu0 + 2);
                 val3 = rd data1 (alu0 + 3);
                 val4 = rd data1 (alu0 + 6400);
                 val5 = rd data1 (alu0 + 6401);
                 val6 = rd data1 (alu0 + 6402);
                 val7 = rd data1 (alu0 + 6403);
                 val8 = rd data1 (alu0 + 12800);
                 val9 = rd data1 (alu0 + 12801);
                 val10 = rd data1 (alu0 + 12802);
                 val11 = rd data1 (alu0 + 12803);
                 val12 = rd data1 (alu0 + 19200);
                 val13 = rd data1 (alu0 + 19201);
                 val14 = rd data1 (alu0 + 19202);
                 val15 = rd data1 (alu0 + 19203);
                 precast9 = push_bit 2 precast8;
                 alu1 = precast6 + precast7 + precast9;
                 val16 = rd data2 alu1;
                 val17 = rd data2 (alu1 + 1);
                 val18 = rd data2 (alu1 + 2);
                 val19 = rd data2 (alu1 + 3);
                 val20 = rd data2 (alu1 + 128);
                 val21 = rd data2 (alu1 + 129);
                 val22 = rd data2 (alu1 + 130);
                 val23 = rd data2 (alu1 + 131);
                 val24 = rd data2 (alu1 + 256);
                 val25 = rd data2 (alu1 + 257);
                 val26 = rd data2 (alu1 + 258);
                 val27 = rd data2 (alu1 + 259);
                 val28 = rd data2 (alu1 + 384);
                 val29 = rd data2 (alu1 + 385);
                 val30 = rd data2 (alu1 + 386);
                 val31 = rd data2 (alu1 + 387);
                 acc0 = acc0 + val0 * val16 + val4 * val17 + val8 * val18 + val12 * val19;
                 acc1 = acc1 + val0 * val20 + val4 * val21 + val8 * val22 + val12 * val23;
                 acc2 = acc2 + val0 * val24 + val4 * val25 + val8 * val26 + val12 * val27;
                 acc3 = acc3 + val0 * val28 + val4 * val29 + val8 * val30 + val12 * val31;
                 acc4 = acc4 + val1 * val16 + val5 * val17 + val9 * val18 + val13 * val19;
                 acc5 = acc5 + val1 * val20 + val5 * val21 + val9 * val22 + val13 * val23;
                 acc6 = acc6 + val1 * val24 + val5 * val25 + val9 * val26 + val13 * val27;
                 acc7 = acc7 + val1 * val28 + val5 * val29 + val9 * val30 + val13 * val31;
                 acc8 = acc8 + val2 * val16 + val6 * val17 + val10 * val18 + val14 * val19;
                 acc9 = acc9 + val2 * val20 + val6 * val21 + val10 * val22 + val14 * val23;
                 acc10 = acc10 + val2 * val24 + val6 * val25 + val10 * val26 + val14 * val27;
                 acc11 = acc11 + val2 * val28 + val6 * val29 + val10 * val30 + val14 * val31;
                 acc12 = acc12 + val3 * val16 + val7 * val17 + val11 * val18 + val15 * val19;
                 acc13 = acc13 + val3 * val20 + val7 * val21 + val11 * val22 + val15 * val23;
                 acc14 = acc14 + val3 * val24 + val7 * val25 + val11 * val26 + val15 * val27;
                 acc15 = acc15 + val3 * val28 + val7 * val29 + val11 * val30 + val15 * val31
             in (acc0, acc1, acc2, acc3, acc4, acc5, acc6, acc7,
                 acc8, acc9, acc10, acc11, acc12, acc13, acc14, acc15))
             (acc0, acc1, acc2, acc3, acc4, acc5, acc6, acc7,
              acc8, acc9, acc10, acc11, acc12, acc13, acc14, acc15);
         precast10 = push_bit 5 cast3;
         precast11 = push_bit 2 cast2;
         alu19 = precast10 + precast11;
         val32 = rd data3 alu19;
         val33 = rd data4 alu19;
         val34 = rd data5 alu19;
         val35 = rd data6 alu19;
         alu20 = alu19 + 1;
         val36 = rd data3 alu20;
         val37 = rd data4 alu20;
         val38 = rd data5 alu20;
         val39 = rd data6 alu20;
         alu21 = alu19 + 2;
         val40 = rd data3 alu21;
         val41 = rd data4 alu21;
         val42 = rd data5 alu21;
         val43 = rd data6 alu21;
         alu22 = alu19 + 3;
         val44 = rd data3 alu22;
         val45 = rd data4 alu22;
         val46 = rd data5 alu22;
         val47 = rd data6 alu22;
         alu23 = 1 / (fsqrt (val34 + (lit (1 / 1000))));
         alu24 = 1 / (fsqrt (val38 + (lit (1 / 1000))));
         alu25 = 1 / (fsqrt (val42 + (lit (1 / 1000))));
         alu26 = 1 / (fsqrt (val46 + (lit (1 / 1000))));
         alu27 = cast1 + gidx1 * 204800 + lidx0 * 25600 + cast0;
         alu28 = (acc0 - val32) * val33 * alu23 + val35;
         alu30 = (acc1 - val36) * val37 * alu24 + val39;
         alu32 = (acc2 - val40) * val41 * alu25 + val43;
         alu34 = (acc3 - val44) * val45 * alu26 + val47;
         alu36 = (acc4 - val32) * val33 * alu23 + val35;
         alu38 = (acc5 - val36) * val37 * alu24 + val39;
         alu40 = (acc6 - val40) * val41 * alu25 + val43;
         alu42 = (acc7 - val44) * val45 * alu26 + val47;
         alu44 = (acc8 - val32) * val33 * alu23 + val35;
         alu46 = (acc9 - val36) * val37 * alu24 + val39;
         alu48 = (acc10 - val40) * val41 * alu25 + val43;
         alu50 = (acc11 - val44) * val45 * alu26 + val47;
         alu52 = (acc12 - val32) * val33 * alu23 + val35;
         alu54 = (acc13 - val36) * val37 * alu24 + val39;
         alu56 = (acc14 - val40) * val41 * alu25 + val43;
         alu58 = (acc15 - val44) * val45 * alu26 + val47
     in [(alu27, alu28 * (1 / (1 + (exp2 (alu28 * (- (lit (14426950408889634 / 10000000000000000)))))))),
         (alu27 + 6400, alu30 * (1 / (1 + (exp2 (alu30 * (- (lit (14426950408889634 / 10000000000000000)))))))),
         (alu27 + 12800, alu32 * (1 / (1 + (exp2 (alu32 * (- (lit (14426950408889634 / 10000000000000000)))))))),
         (alu27 + 19200, alu34 * (1 / (1 + (exp2 (alu34 * (- (lit (14426950408889634 / 10000000000000000)))))))),
         (alu27 + 1, alu36 * (1 / (1 + (exp2 (alu36 * (- (lit (14426950408889634 / 10000000000000000)))))))),
         (alu27 + 6401, alu38 * (1 / (1 + (exp2 (alu38 * (- (lit (14426950408889634 / 10000000000000000)))))))),
         (alu27 + 12801, alu40 * (1 / (1 + (exp2 (alu40 * (- (lit (14426950408889634 / 10000000000000000)))))))),
         (alu27 + 19201, alu42 * (1 / (1 + (exp2 (alu42 * (- (lit (14426950408889634 / 10000000000000000)))))))),
         (alu27 + 2, alu44 * (1 / (1 + (exp2 (alu44 * (- (lit (14426950408889634 / 10000000000000000)))))))),
         (alu27 + 6402, alu46 * (1 / (1 + (exp2 (alu46 * (- (lit (14426950408889634 / 10000000000000000)))))))),
         (alu27 + 12802, alu48 * (1 / (1 + (exp2 (alu48 * (- (lit (14426950408889634 / 10000000000000000)))))))),
         (alu27 + 19202, alu50 * (1 / (1 + (exp2 (alu50 * (- (lit (14426950408889634 / 10000000000000000)))))))),
         (alu27 + 3, alu52 * (1 / (1 + (exp2 (alu52 * (- (lit (14426950408889634 / 10000000000000000)))))))),
         (alu27 + 6403, alu54 * (1 / (1 + (exp2 (alu54 * (- (lit (14426950408889634 / 10000000000000000)))))))),
         (alu27 + 12803, alu56 * (1 / (1 + (exp2 (alu56 * (- (lit (14426950408889634 / 10000000000000000)))))))),
         (alu27 + 19203, alu58 * (1 / (1 + (exp2 (alu58 * (- (lit (14426950408889634 / 10000000000000000))))))))])"

definition r_2_100_8_16_32_4_4_4_shader :: "(f32 \<Rightarrow> f32) \<Rightarrow> (f32 \<Rightarrow> f32) \<Rightarrow> shader" where
  "r_2_100_8_16_32_4_4_4_shader exp2 fsqrt = FShader (8, 16, 1) (\<lambda>f i. r_2_100_8_16_32_4_4_4 exp2 fsqrt (f 1) (f 2) (f 3) (f 4) (f 5) (f 6))"

lemma r_2_100_8_16_32_4_4_4_stores:
  assumes "gx < 100" "gy < 2" "lx < 8" "ly < 16"
  shows "set (launch (r_2_100_8_16_32_4_4_4 exp2 fsqrt x w m g v b) (gx, gy, 0) (lx, ly, 0)) = tile 4 1 (4 * (16 * 100)) (layer_value exp2 fsqrt (Conv1 6400 128) (reads [x, w, m, g, v, b])) (8 * gy + lx) 0 (16 * gx + ly)"
proof -
  have c: "128 = 4 * (32 :: nat)" by simp
  show ?thesis
    unfolding r_2_100_8_16_32_4_4_4_def launch_def Let_def vec_simps for_loop_16 prod.case log2_e_def[symmetric] sigmoid_def[symmetric] silu_def[symmetric]
    by (rule tile_planes, unfold list.map prod.case list.inject prod.inject layer_value.simps reads_simps pointwise_words[OF c] batch_norm_def, intro conjI)
      (simp_all add: arr_def push_bit_eq_mult algebra_simps)
qed

interpretation r_2_100_8_16_32_4_4_4: flat_kernel 8 16 100 2 4 "launch (r_2_100_8_16_32_4_4_4 exp2 fsqrt x w m g v b)"
    "layer_value exp2 fsqrt (Conv1 6400 128) (reads [x, w, m, g, v, b])"
  for exp2 fsqrt x w m g v b
  by unfold_locales (rule r_2_100_8_16_32_4_4_4_stores; assumption | simp)+

lemma r_2_100_8_16_32_4_4_4_computes: "computes exp2 fsqrt (r_2_100_8_16_32_4_4_4_shader exp2 fsqrt) (100, 2, 1) (Conv1 6400 128) 64 1 6400"
  unfolding r_2_100_8_16_32_4_4_4_shader_def by (rule computesI, rule r_2_100_8_16_32_4_4_4.kernel_contract_axioms) (simp, simp only: layer_inputs, simp)

definition r_2_100_8_16_48_4_4_4 :: "(f32 \<Rightarrow> f32) \<Rightarrow> (f32 \<Rightarrow> f32) \<Rightarrow> f32 buf \<Rightarrow> f32 buf \<Rightarrow> f32 buf \<Rightarrow> f32 buf \<Rightarrow> f32 buf \<Rightarrow> f32 buf \<Rightarrow> vec3 \<Rightarrow> vec3 \<Rightarrow> f32 stores" where
  "r_2_100_8_16_48_4_4_4 exp2 fsqrt data1 data2 data3 data4 data5 data6 gindex lindex =
    (let gidx0 = vx gindex;
         gidx1 = vy gindex;
         lidx0 = vx lindex;
         lidx1 = vy lindex;
         precast0 = lidx1;
         precast1 = push_bit 2 precast0;
         cast0 = precast1;
         precast2 = gidx0;
         precast3 = push_bit 6 precast2;
         cast1 = precast3;
         acc0 = (0 :: f32);
         acc1 = (0 :: f32);
         acc2 = (0 :: f32);
         acc3 = (0 :: f32);
         acc4 = (0 :: f32);
         acc5 = (0 :: f32);
         acc6 = (0 :: f32);
         acc7 = (0 :: f32);
         acc8 = (0 :: f32);
         acc9 = (0 :: f32);
         acc10 = (0 :: f32);
         acc11 = (0 :: f32);
         acc12 = (0 :: f32);
         acc13 = (0 :: f32);
         acc14 = (0 :: f32);
         acc15 = (0 :: f32);
         (acc0, acc1, acc2, acc3, acc4, acc5, acc6, acc7,
          acc8, acc9, acc10, acc11, acc12, acc13, acc14, acc15)
          = for_loop 48 (\<lambda>ridx4 (acc0, acc1, acc2, acc3, acc4, acc5, acc6, acc7,
             acc8, acc9, acc10, acc11, acc12, acc13, acc14, acc15).
             let precast4 = ridx4;
                 alu0 = cast1 + cast0 + ridx4 * 25600;
                 val0 = rd data1 alu0;
                 val1 = rd data1 (alu0 + 1);
                 val2 = rd data1 (alu0 + 2);
                 val3 = rd data1 (alu0 + 3);
                 val4 = rd data1 (alu0 + 6400);
                 val5 = rd data1 (alu0 + 6401);
                 val6 = rd data1 (alu0 + 6402);
                 val7 = rd data1 (alu0 + 6403);
                 val8 = rd data1 (alu0 + 12800);
                 val9 = rd data1 (alu0 + 12801);
                 val10 = rd data1 (alu0 + 12802);
                 val11 = rd data1 (alu0 + 12803);
                 val12 = rd data1 (alu0 + 19200);
                 val13 = rd data1 (alu0 + 19201);
                 val14 = rd data1 (alu0 + 19202);
                 val15 = rd data1 (alu0 + 19203);
                 precast5 = push_bit 2 precast4;
                 alu1 = gidx1 * 6144 + lidx0 * 768 + precast5;
                 val16 = rd data2 alu1;
                 val17 = rd data2 (alu1 + 1);
                 val18 = rd data2 (alu1 + 2);
                 val19 = rd data2 (alu1 + 3);
                 val20 = rd data2 (alu1 + 192);
                 val21 = rd data2 (alu1 + 193);
                 val22 = rd data2 (alu1 + 194);
                 val23 = rd data2 (alu1 + 195);
                 val24 = rd data2 (alu1 + 384);
                 val25 = rd data2 (alu1 + 385);
                 val26 = rd data2 (alu1 + 386);
                 val27 = rd data2 (alu1 + 387);
                 val28 = rd data2 (alu1 + 576);
                 val29 = rd data2 (alu1 + 577);
                 val30 = rd data2 (alu1 + 578);
                 val31 = rd data2 (alu1 + 579);
                 acc0 = acc0 + val0 * val16 + val4 * val17 + val8 * val18 + val12 * val19;
                 acc1 = acc1 + val0 * val20 + val4 * val21 + val8 * val22 + val12 * val23;
                 acc2 = acc2 + val0 * val24 + val4 * val25 + val8 * val26 + val12 * val27;
                 acc3 = acc3 + val0 * val28 + val4 * val29 + val8 * val30 + val12 * val31;
                 acc4 = acc4 + val1 * val16 + val5 * val17 + val9 * val18 + val13 * val19;
                 acc5 = acc5 + val1 * val20 + val5 * val21 + val9 * val22 + val13 * val23;
                 acc6 = acc6 + val1 * val24 + val5 * val25 + val9 * val26 + val13 * val27;
                 acc7 = acc7 + val1 * val28 + val5 * val29 + val9 * val30 + val13 * val31;
                 acc8 = acc8 + val2 * val16 + val6 * val17 + val10 * val18 + val14 * val19;
                 acc9 = acc9 + val2 * val20 + val6 * val21 + val10 * val22 + val14 * val23;
                 acc10 = acc10 + val2 * val24 + val6 * val25 + val10 * val26 + val14 * val27;
                 acc11 = acc11 + val2 * val28 + val6 * val29 + val10 * val30 + val14 * val31;
                 acc12 = acc12 + val3 * val16 + val7 * val17 + val11 * val18 + val15 * val19;
                 acc13 = acc13 + val3 * val20 + val7 * val21 + val11 * val22 + val15 * val23;
                 acc14 = acc14 + val3 * val24 + val7 * val25 + val11 * val26 + val15 * val27;
                 acc15 = acc15 + val3 * val28 + val7 * val29 + val11 * val30 + val15 * val31
             in (acc0, acc1, acc2, acc3, acc4, acc5, acc6, acc7,
                 acc8, acc9, acc10, acc11, acc12, acc13, acc14, acc15))
             (acc0, acc1, acc2, acc3, acc4, acc5, acc6, acc7,
              acc8, acc9, acc10, acc11, acc12, acc13, acc14, acc15);
         precast6 = gidx1;
         precast7 = lidx0;
         precast8 = push_bit 5 precast6;
         precast9 = push_bit 2 precast7;
         alu19 = precast8 + precast9;
         val32 = rd data3 alu19;
         val33 = rd data4 alu19;
         val34 = rd data5 alu19;
         val35 = rd data6 alu19;
         alu20 = alu19 + 1;
         val36 = rd data3 alu20;
         val37 = rd data4 alu20;
         val38 = rd data5 alu20;
         val39 = rd data6 alu20;
         alu21 = alu19 + 2;
         val40 = rd data3 alu21;
         val41 = rd data4 alu21;
         val42 = rd data5 alu21;
         val43 = rd data6 alu21;
         alu22 = alu19 + 3;
         val44 = rd data3 alu22;
         val45 = rd data4 alu22;
         val46 = rd data5 alu22;
         val47 = rd data6 alu22;
         alu23 = 1 / (fsqrt (val34 + (lit (1 / 1000))));
         alu24 = 1 / (fsqrt (val38 + (lit (1 / 1000))));
         alu25 = 1 / (fsqrt (val42 + (lit (1 / 1000))));
         alu26 = 1 / (fsqrt (val46 + (lit (1 / 1000))));
         alu27 = cast1 + gidx1 * 204800 + lidx0 * 25600 + cast0;
         alu28 = (acc0 - val32) * val33 * alu23 + val35;
         alu30 = (acc1 - val36) * val37 * alu24 + val39;
         alu32 = (acc2 - val40) * val41 * alu25 + val43;
         alu34 = (acc3 - val44) * val45 * alu26 + val47;
         alu36 = (acc4 - val32) * val33 * alu23 + val35;
         alu38 = (acc5 - val36) * val37 * alu24 + val39;
         alu40 = (acc6 - val40) * val41 * alu25 + val43;
         alu42 = (acc7 - val44) * val45 * alu26 + val47;
         alu44 = (acc8 - val32) * val33 * alu23 + val35;
         alu46 = (acc9 - val36) * val37 * alu24 + val39;
         alu48 = (acc10 - val40) * val41 * alu25 + val43;
         alu50 = (acc11 - val44) * val45 * alu26 + val47;
         alu52 = (acc12 - val32) * val33 * alu23 + val35;
         alu54 = (acc13 - val36) * val37 * alu24 + val39;
         alu56 = (acc14 - val40) * val41 * alu25 + val43;
         alu58 = (acc15 - val44) * val45 * alu26 + val47
     in [(alu27, alu28 * (1 / (1 + (exp2 (alu28 * (- (lit (14426950408889634 / 10000000000000000)))))))),
         (alu27 + 6400, alu30 * (1 / (1 + (exp2 (alu30 * (- (lit (14426950408889634 / 10000000000000000)))))))),
         (alu27 + 12800, alu32 * (1 / (1 + (exp2 (alu32 * (- (lit (14426950408889634 / 10000000000000000)))))))),
         (alu27 + 19200, alu34 * (1 / (1 + (exp2 (alu34 * (- (lit (14426950408889634 / 10000000000000000)))))))),
         (alu27 + 1, alu36 * (1 / (1 + (exp2 (alu36 * (- (lit (14426950408889634 / 10000000000000000)))))))),
         (alu27 + 6401, alu38 * (1 / (1 + (exp2 (alu38 * (- (lit (14426950408889634 / 10000000000000000)))))))),
         (alu27 + 12801, alu40 * (1 / (1 + (exp2 (alu40 * (- (lit (14426950408889634 / 10000000000000000)))))))),
         (alu27 + 19201, alu42 * (1 / (1 + (exp2 (alu42 * (- (lit (14426950408889634 / 10000000000000000)))))))),
         (alu27 + 2, alu44 * (1 / (1 + (exp2 (alu44 * (- (lit (14426950408889634 / 10000000000000000)))))))),
         (alu27 + 6402, alu46 * (1 / (1 + (exp2 (alu46 * (- (lit (14426950408889634 / 10000000000000000)))))))),
         (alu27 + 12802, alu48 * (1 / (1 + (exp2 (alu48 * (- (lit (14426950408889634 / 10000000000000000)))))))),
         (alu27 + 19202, alu50 * (1 / (1 + (exp2 (alu50 * (- (lit (14426950408889634 / 10000000000000000)))))))),
         (alu27 + 3, alu52 * (1 / (1 + (exp2 (alu52 * (- (lit (14426950408889634 / 10000000000000000)))))))),
         (alu27 + 6403, alu54 * (1 / (1 + (exp2 (alu54 * (- (lit (14426950408889634 / 10000000000000000)))))))),
         (alu27 + 12803, alu56 * (1 / (1 + (exp2 (alu56 * (- (lit (14426950408889634 / 10000000000000000)))))))),
         (alu27 + 19203, alu58 * (1 / (1 + (exp2 (alu58 * (- (lit (14426950408889634 / 10000000000000000))))))))])"

definition r_2_100_8_16_48_4_4_4_shader :: "(f32 \<Rightarrow> f32) \<Rightarrow> (f32 \<Rightarrow> f32) \<Rightarrow> shader" where
  "r_2_100_8_16_48_4_4_4_shader exp2 fsqrt = FShader (8, 16, 1) (\<lambda>f i. r_2_100_8_16_48_4_4_4 exp2 fsqrt (f 1) (f 2) (f 3) (f 4) (f 5) (f 6))"

lemma r_2_100_8_16_48_4_4_4_stores:
  assumes "gx < 100" "gy < 2" "lx < 8" "ly < 16"
  shows "set (launch (r_2_100_8_16_48_4_4_4 exp2 fsqrt x w m g v b) (gx, gy, 0) (lx, ly, 0)) = tile 4 1 (4 * (16 * 100)) (layer_value exp2 fsqrt (Conv1 6400 192) (reads [x, w, m, g, v, b])) (8 * gy + lx) 0 (16 * gx + ly)"
proof -
  have c: "192 = 4 * (48 :: nat)" by simp
  show ?thesis
    unfolding r_2_100_8_16_48_4_4_4_def launch_def Let_def vec_simps for_loop_16 prod.case log2_e_def[symmetric] sigmoid_def[symmetric] silu_def[symmetric]
    by (rule tile_planes, unfold list.map prod.case list.inject prod.inject layer_value.simps reads_simps pointwise_words[OF c] batch_norm_def, intro conjI)
      (simp_all add: arr_def push_bit_eq_mult algebra_simps)
qed

interpretation r_2_100_8_16_48_4_4_4: flat_kernel 8 16 100 2 4 "launch (r_2_100_8_16_48_4_4_4 exp2 fsqrt x w m g v b)"
    "layer_value exp2 fsqrt (Conv1 6400 192) (reads [x, w, m, g, v, b])"
  for exp2 fsqrt x w m g v b
  by unfold_locales (rule r_2_100_8_16_48_4_4_4_stores; assumption | simp)+

lemma r_2_100_8_16_48_4_4_4_computes: "computes exp2 fsqrt (r_2_100_8_16_48_4_4_4_shader exp2 fsqrt) (100, 2, 1) (Conv1 6400 192) 64 1 6400"
  unfolding r_2_100_8_16_48_4_4_4_shader_def by (rule computesI, rule r_2_100_8_16_48_4_4_4.kernel_contract_axioms) (simp, simp only: layer_inputs, simp)

definition r_2_100_8_16_24_4_4_4 :: "(f32 \<Rightarrow> f32) \<Rightarrow> (f32 \<Rightarrow> f32) \<Rightarrow> f32 buf \<Rightarrow> f32 buf \<Rightarrow> f32 buf \<Rightarrow> f32 buf \<Rightarrow> f32 buf \<Rightarrow> f32 buf \<Rightarrow> vec3 \<Rightarrow> vec3 \<Rightarrow> f32 stores" where
  "r_2_100_8_16_24_4_4_4 exp2 fsqrt data1 data2 data3 data4 data5 data6 gindex lindex =
    (let gidx0 = vx gindex;
         gidx1 = vy gindex;
         lidx0 = vx lindex;
         lidx1 = vy lindex;
         precast0 = lidx1;
         precast1 = push_bit 2 precast0;
         cast0 = precast1;
         precast2 = gidx0;
         precast3 = push_bit 6 precast2;
         cast1 = precast3;
         acc0 = (0 :: f32);
         acc1 = (0 :: f32);
         acc2 = (0 :: f32);
         acc3 = (0 :: f32);
         acc4 = (0 :: f32);
         acc5 = (0 :: f32);
         acc6 = (0 :: f32);
         acc7 = (0 :: f32);
         acc8 = (0 :: f32);
         acc9 = (0 :: f32);
         acc10 = (0 :: f32);
         acc11 = (0 :: f32);
         acc12 = (0 :: f32);
         acc13 = (0 :: f32);
         acc14 = (0 :: f32);
         acc15 = (0 :: f32);
         (acc0, acc1, acc2, acc3, acc4, acc5, acc6, acc7,
          acc8, acc9, acc10, acc11, acc12, acc13, acc14, acc15)
          = for_loop 24 (\<lambda>ridx4 (acc0, acc1, acc2, acc3, acc4, acc5, acc6, acc7,
             acc8, acc9, acc10, acc11, acc12, acc13, acc14, acc15).
             let precast4 = ridx4;
                 alu0 = cast1 + cast0 + ridx4 * 25600;
                 val0 = rd data1 alu0;
                 val1 = rd data1 (alu0 + 1);
                 val2 = rd data1 (alu0 + 2);
                 val3 = rd data1 (alu0 + 3);
                 val4 = rd data1 (alu0 + 6400);
                 val5 = rd data1 (alu0 + 6401);
                 val6 = rd data1 (alu0 + 6402);
                 val7 = rd data1 (alu0 + 6403);
                 val8 = rd data1 (alu0 + 12800);
                 val9 = rd data1 (alu0 + 12801);
                 val10 = rd data1 (alu0 + 12802);
                 val11 = rd data1 (alu0 + 12803);
                 val12 = rd data1 (alu0 + 19200);
                 val13 = rd data1 (alu0 + 19201);
                 val14 = rd data1 (alu0 + 19202);
                 val15 = rd data1 (alu0 + 19203);
                 precast5 = push_bit 2 precast4;
                 alu1 = gidx1 * 3072 + lidx0 * 384 + precast5;
                 val16 = rd data2 alu1;
                 val17 = rd data2 (alu1 + 1);
                 val18 = rd data2 (alu1 + 2);
                 val19 = rd data2 (alu1 + 3);
                 val20 = rd data2 (alu1 + 96);
                 val21 = rd data2 (alu1 + 97);
                 val22 = rd data2 (alu1 + 98);
                 val23 = rd data2 (alu1 + 99);
                 val24 = rd data2 (alu1 + 192);
                 val25 = rd data2 (alu1 + 193);
                 val26 = rd data2 (alu1 + 194);
                 val27 = rd data2 (alu1 + 195);
                 val28 = rd data2 (alu1 + 288);
                 val29 = rd data2 (alu1 + 289);
                 val30 = rd data2 (alu1 + 290);
                 val31 = rd data2 (alu1 + 291);
                 acc0 = acc0 + val0 * val16 + val4 * val17 + val8 * val18 + val12 * val19;
                 acc1 = acc1 + val0 * val20 + val4 * val21 + val8 * val22 + val12 * val23;
                 acc2 = acc2 + val0 * val24 + val4 * val25 + val8 * val26 + val12 * val27;
                 acc3 = acc3 + val0 * val28 + val4 * val29 + val8 * val30 + val12 * val31;
                 acc4 = acc4 + val1 * val16 + val5 * val17 + val9 * val18 + val13 * val19;
                 acc5 = acc5 + val1 * val20 + val5 * val21 + val9 * val22 + val13 * val23;
                 acc6 = acc6 + val1 * val24 + val5 * val25 + val9 * val26 + val13 * val27;
                 acc7 = acc7 + val1 * val28 + val5 * val29 + val9 * val30 + val13 * val31;
                 acc8 = acc8 + val2 * val16 + val6 * val17 + val10 * val18 + val14 * val19;
                 acc9 = acc9 + val2 * val20 + val6 * val21 + val10 * val22 + val14 * val23;
                 acc10 = acc10 + val2 * val24 + val6 * val25 + val10 * val26 + val14 * val27;
                 acc11 = acc11 + val2 * val28 + val6 * val29 + val10 * val30 + val14 * val31;
                 acc12 = acc12 + val3 * val16 + val7 * val17 + val11 * val18 + val15 * val19;
                 acc13 = acc13 + val3 * val20 + val7 * val21 + val11 * val22 + val15 * val23;
                 acc14 = acc14 + val3 * val24 + val7 * val25 + val11 * val26 + val15 * val27;
                 acc15 = acc15 + val3 * val28 + val7 * val29 + val11 * val30 + val15 * val31
             in (acc0, acc1, acc2, acc3, acc4, acc5, acc6, acc7,
                 acc8, acc9, acc10, acc11, acc12, acc13, acc14, acc15))
             (acc0, acc1, acc2, acc3, acc4, acc5, acc6, acc7,
              acc8, acc9, acc10, acc11, acc12, acc13, acc14, acc15);
         precast6 = gidx1;
         precast7 = lidx0;
         precast8 = push_bit 5 precast6;
         precast9 = push_bit 2 precast7;
         alu19 = precast8 + precast9;
         val32 = rd data3 alu19;
         val33 = rd data4 alu19;
         val34 = rd data5 alu19;
         val35 = rd data6 alu19;
         alu20 = alu19 + 1;
         val36 = rd data3 alu20;
         val37 = rd data4 alu20;
         val38 = rd data5 alu20;
         val39 = rd data6 alu20;
         alu21 = alu19 + 2;
         val40 = rd data3 alu21;
         val41 = rd data4 alu21;
         val42 = rd data5 alu21;
         val43 = rd data6 alu21;
         alu22 = alu19 + 3;
         val44 = rd data3 alu22;
         val45 = rd data4 alu22;
         val46 = rd data5 alu22;
         val47 = rd data6 alu22;
         alu23 = 1 / (fsqrt (val34 + (lit (1 / 1000))));
         alu24 = 1 / (fsqrt (val38 + (lit (1 / 1000))));
         alu25 = 1 / (fsqrt (val42 + (lit (1 / 1000))));
         alu26 = 1 / (fsqrt (val46 + (lit (1 / 1000))));
         alu27 = cast1 + gidx1 * 204800 + lidx0 * 25600 + cast0;
         alu28 = (acc0 - val32) * val33 * alu23 + val35;
         alu30 = (acc1 - val36) * val37 * alu24 + val39;
         alu32 = (acc2 - val40) * val41 * alu25 + val43;
         alu34 = (acc3 - val44) * val45 * alu26 + val47;
         alu36 = (acc4 - val32) * val33 * alu23 + val35;
         alu38 = (acc5 - val36) * val37 * alu24 + val39;
         alu40 = (acc6 - val40) * val41 * alu25 + val43;
         alu42 = (acc7 - val44) * val45 * alu26 + val47;
         alu44 = (acc8 - val32) * val33 * alu23 + val35;
         alu46 = (acc9 - val36) * val37 * alu24 + val39;
         alu48 = (acc10 - val40) * val41 * alu25 + val43;
         alu50 = (acc11 - val44) * val45 * alu26 + val47;
         alu52 = (acc12 - val32) * val33 * alu23 + val35;
         alu54 = (acc13 - val36) * val37 * alu24 + val39;
         alu56 = (acc14 - val40) * val41 * alu25 + val43;
         alu58 = (acc15 - val44) * val45 * alu26 + val47
     in [(alu27, alu28 * (1 / (1 + (exp2 (alu28 * (- (lit (14426950408889634 / 10000000000000000)))))))),
         (alu27 + 6400, alu30 * (1 / (1 + (exp2 (alu30 * (- (lit (14426950408889634 / 10000000000000000)))))))),
         (alu27 + 12800, alu32 * (1 / (1 + (exp2 (alu32 * (- (lit (14426950408889634 / 10000000000000000)))))))),
         (alu27 + 19200, alu34 * (1 / (1 + (exp2 (alu34 * (- (lit (14426950408889634 / 10000000000000000)))))))),
         (alu27 + 1, alu36 * (1 / (1 + (exp2 (alu36 * (- (lit (14426950408889634 / 10000000000000000)))))))),
         (alu27 + 6401, alu38 * (1 / (1 + (exp2 (alu38 * (- (lit (14426950408889634 / 10000000000000000)))))))),
         (alu27 + 12801, alu40 * (1 / (1 + (exp2 (alu40 * (- (lit (14426950408889634 / 10000000000000000)))))))),
         (alu27 + 19201, alu42 * (1 / (1 + (exp2 (alu42 * (- (lit (14426950408889634 / 10000000000000000)))))))),
         (alu27 + 2, alu44 * (1 / (1 + (exp2 (alu44 * (- (lit (14426950408889634 / 10000000000000000)))))))),
         (alu27 + 6402, alu46 * (1 / (1 + (exp2 (alu46 * (- (lit (14426950408889634 / 10000000000000000)))))))),
         (alu27 + 12802, alu48 * (1 / (1 + (exp2 (alu48 * (- (lit (14426950408889634 / 10000000000000000)))))))),
         (alu27 + 19202, alu50 * (1 / (1 + (exp2 (alu50 * (- (lit (14426950408889634 / 10000000000000000)))))))),
         (alu27 + 3, alu52 * (1 / (1 + (exp2 (alu52 * (- (lit (14426950408889634 / 10000000000000000)))))))),
         (alu27 + 6403, alu54 * (1 / (1 + (exp2 (alu54 * (- (lit (14426950408889634 / 10000000000000000)))))))),
         (alu27 + 12803, alu56 * (1 / (1 + (exp2 (alu56 * (- (lit (14426950408889634 / 10000000000000000)))))))),
         (alu27 + 19203, alu58 * (1 / (1 + (exp2 (alu58 * (- (lit (14426950408889634 / 10000000000000000))))))))])"

definition r_2_100_8_16_24_4_4_4_shader :: "(f32 \<Rightarrow> f32) \<Rightarrow> (f32 \<Rightarrow> f32) \<Rightarrow> shader" where
  "r_2_100_8_16_24_4_4_4_shader exp2 fsqrt = FShader (8, 16, 1) (\<lambda>f i. r_2_100_8_16_24_4_4_4 exp2 fsqrt (f 1) (f 2) (f 3) (f 4) (f 5) (f 6))"

lemma r_2_100_8_16_24_4_4_4_stores:
  assumes "gx < 100" "gy < 2" "lx < 8" "ly < 16"
  shows "set (launch (r_2_100_8_16_24_4_4_4 exp2 fsqrt x w m g v b) (gx, gy, 0) (lx, ly, 0)) = tile 4 1 (4 * (16 * 100)) (layer_value exp2 fsqrt (Conv1 6400 96) (reads [x, w, m, g, v, b])) (8 * gy + lx) 0 (16 * gx + ly)"
proof -
  have c: "96 = 4 * (24 :: nat)" by simp
  show ?thesis
    unfolding r_2_100_8_16_24_4_4_4_def launch_def Let_def vec_simps for_loop_16 prod.case log2_e_def[symmetric] sigmoid_def[symmetric] silu_def[symmetric]
    by (rule tile_planes, unfold list.map prod.case list.inject prod.inject layer_value.simps reads_simps pointwise_words[OF c] batch_norm_def, intro conjI)
      (simp_all add: arr_def push_bit_eq_mult algebra_simps)
qed

interpretation r_2_100_8_16_24_4_4_4: flat_kernel 8 16 100 2 4 "launch (r_2_100_8_16_24_4_4_4 exp2 fsqrt x w m g v b)"
    "layer_value exp2 fsqrt (Conv1 6400 96) (reads [x, w, m, g, v, b])"
  for exp2 fsqrt x w m g v b
  by unfold_locales (rule r_2_100_8_16_24_4_4_4_stores; assumption | simp)+

lemma r_2_100_8_16_24_4_4_4_computes: "computes exp2 fsqrt (r_2_100_8_16_24_4_4_4_shader exp2 fsqrt) (100, 2, 1) (Conv1 6400 96) 64 1 6400"
  unfolding r_2_100_8_16_24_4_4_4_shader_def by (rule computesI, rule r_2_100_8_16_24_4_4_4.kernel_contract_axioms) (simp, simp only: layer_inputs, simp)

end
