(* ===== verification/Pointwise40.thy ===== *)
theory Pointwise40
  imports Layers
begin

text \<open>
  The 1x1 convolutions on the grid of 40x40 cells of \<open>server/cherum/static/net.js\<close>.
  Each kernel is followed by its shader and by the stores of one invocation: the tile of the layer.
\<close>

definition r_4_25_8_16_32_4_4_4 :: "(f32 \<Rightarrow> f32) \<Rightarrow> (f32 \<Rightarrow> f32) \<Rightarrow> f32 buf \<Rightarrow> f32 buf \<Rightarrow> f32 buf \<Rightarrow> f32 buf \<Rightarrow> f32 buf \<Rightarrow> f32 buf \<Rightarrow> vec3 \<Rightarrow> vec3 \<Rightarrow> f32 stores" where
  "r_4_25_8_16_32_4_4_4 exp2 fsqrt data1 data2 data3 data4 data5 data6 gindex lindex =
    (let gidx0 = vx gindex;
         gidx1 = vy gindex;
         lidx0 = vx lindex;
         lidx1 = vy lindex;
         precast0 = lidx1;
         precast1 = push_bit 2 precast0;
         cast0 = precast1;
         precast2 = gidx0;
         precast3 = push_bit 6 precast2;
         cast1 = precast3;
         precast4 = lidx0;
         cast2 = precast4;
         precast5 = gidx1;
         cast3 = precast5;
         precast6 = push_bit 12 cast3;
         precast7 = push_bit 9 cast2;
         acc0 = (0 :: f32);
         acc1 = (0 :: f32);
         acc2 = (0 :: f32);
         acc3 = (0 :: f32);
         acc4 = (0 :: f32);
         acc5 = (0 :: f32);
         acc6 = (0 :: f32);
         acc7 = (0 :: f32);
         acc8 = (0 :: f32);
         acc9 = (0 :: f32);
         acc10 = (0 :: f32);
         acc11 = (0 :: f32);
         acc12 = (0 :: f32);
         acc13 = (0 :: f32);
         acc14 = (0 :: f32);
         acc15 = (0 :: f32);
         (acc0, acc1, acc2, acc3, acc4, acc5, acc6, acc7,
          acc8, acc9, acc10, acc11, acc12, acc13, acc14, acc15)
          = for_loop 32 (\<lambda>ridx4 (acc0, acc1, acc2, acc3, acc4, acc5, acc6, acc7,
             acc8, acc9, acc10, acc11, acc12, acc13, acc14, acc15).
             let precast8 = ridx4;
                 alu0 = cast1 + cast0 + ridx4 * 6400;
                 val0 = rd data1 alu0;
                 val1 = rd data1 (alu0 + 1);
                 val2 = rd data1 (alu0 + 2);
                 val3 = rd data1 (alu0 + 3);
                 val4 = rd data1 (alu0 + 1600);
                 val5 = rd data1 (alu0 + 1601);
                 val6 = rd data1 (alu0 + 1602);
                 val7 = rd data1 (alu0 + 1603);
                 val8 = rd data1 (alu0 + 3200);
                 val9 = rd data1 (alu0 + 3201);
                 val10 = rd data1 (alu0 + 3202);
                 val11 = rd data1 (alu0 + 3203);
                 val12 = rd data1 (alu0 + 4800);
                 val13 = rd data1 (alu0 + 4801);
                 val14 = rd data1 (alu0 + 4802);
                 val15 = rd data1 (alu0 + 4803);
                 precast9 = push_bit 2 precast8;
                 alu1 = precast6 + precast7 + precast9;
                 val16 = rd data2 alu1;
                 val17 = rd data2 (alu1 + 1);
                 val18 = rd data2 (alu1 + 2);
                 val19 = rd data2 (alu1 + 3);
                 val20 = rd data2 (alu1 + 128);
                 val21 = rd data2 (alu1 + 129);
                 val22 = rd data2 (alu1 + 130);
                 val23 = rd data2 (alu1 + 131);
                 val24 = rd data2 (alu1 + 256);
                 val25 = rd data2 (alu1 + 257);
                 val26 = rd data2 (alu1 + 258);
                 val27 = rd data2 (alu1 + 259);
                 val28 = rd data2 (alu1 + 384);
                 val29 = rd data2 (alu1 + 385);
                 val30 = rd data2 (alu1 + 386);
                 val31 = rd data2 (alu1 + 387);
                 acc0 = acc0 + val0 * val16 + val4 * val17 + val8 * val18 + val12 * val19;
                 acc1 = acc1 + val0 * val20 + val4 * val21 + val8 * val22 + val12 * val23;
                 acc2 = acc2 + val0 * val24 + val4 * val25 + val8 * val26 + val12 * val27;
                 acc3 = acc3 + val0 * val28 + val4 * val29 + val8 * val30 + val12 * val31;
                 acc4 = acc4 + val1 * val16 + val5 * val17 + val9 * val18 + val13 * val19;
                 acc5 = acc5 + val1 * val20 + val5 * val21 + val9 * val22 + val13 * val23;
                 acc6 = acc6 + val1 * val24 + val5 * val25 + val9 * val26 + val13 * val27;
                 acc7 = acc7 + val1 * val28 + val5 * val29 + val9 * val30 + val13 * val31;
                 acc8 = acc8 + val2 * val16 + val6 * val17 + val10 * val18 + val14 * val19;
                 acc9 = acc9 + val2 * val20 + val6 * val21 + val10 * val22 + val14 * val23;
                 acc10 = acc10 + val2 * val24 + val6 * val25 + val10 * val26 + val14 * val27;
                 acc11 = acc11 + val2 * val28 + val6 * val29 + val10 * val30 + val14 * val31;
                 acc12 = acc12 + val3 * val16 + val7 * val17 + val11 * val18 + val15 * val19;
                 acc13 = acc13 + val3 * val20 + val7 * val21 + val11 * val22 + val15 * val23;
                 acc14 = acc14 + val3 * val24 + val7 * val25 + val11 * val26 + val15 * val27;
                 acc15 = acc15 + val3 * val28 + val7 * val29 + val11 * val30 + val15 * val31
             in (acc0, acc1, acc2, acc3, acc4, acc5, acc6, acc7,
                 acc8, acc9, acc10, acc11, acc12, acc13, acc14, acc15))
             (acc0, acc1, acc2, acc3, acc4, acc5, acc6, acc7,
              acc8, acc9, acc10, acc11, acc12, acc13, acc14, acc15);
         precast10 = push_bit 5 cast3;
         precast11 = push_bit 2 cast2;
         alu19 = precast10 + precast11;
         val32 = rd data3 alu19;
         val33 = rd data4 alu19;
         val34 = rd data5 alu19;
         val35 = rd data6 alu19;
         alu20 = alu19 + 1;
         val36 = rd data3 alu20;
         val37 = rd data4 alu20;
         val38 = rd data5 alu20;
         val39 = rd data6 alu20;
         alu21 = alu19 + 2;
         val40 = rd data3 alu21;
         val41 = rd data4 alu21;
         val42 = rd data5 alu21;
         val43 = rd data6 alu21;
         alu22 = alu19 + 3;
         val44 = rd data3 alu22;
         val45 = rd data4 alu22;
         val46 = rd data5 alu22;
         val47 = rd data6 alu22;
         alu23 = 1 / (fsqrt (val34 + (lit (1 / 1000))));
         alu24 = 1 / (fsqrt (val38 + (lit (1 / 1000))));
         alu25 = 1 / (fsqrt (val42 + (lit (1 / 1000))));
         alu26 = 1 / (fsqrt (val46 + (lit (1 / 1000))));
         alu27 = cast1 + gidx1 * 51200 + lidx0 * 6400 + cast0;
         alu28 = (acc0 - val32) * val33 * alu23 + val35;
         alu30 = (acc1 - val36) * val37 * alu24 + val39;
         alu32 = (acc2 - val40) * val41 * alu25 + val43;
         alu34 = (acc3 - val44) * val45 * alu26 + val47;
         alu36 = (acc4 - val32) * val33 * alu23 + val35;
         alu38 = (acc5 - val36) * val37 * alu24 + val39;
         alu40 = (acc6 - val40) * val41 * alu25 + val43;
         alu42 = (acc7 - val44) * val45 * alu26 + val47;
         alu44 = (acc8 - val32) * val33 * alu23 + val35;
         alu46 = (acc9 - val36) * val37 * alu24 + val39;
         alu48 = (acc10 - val40) * val41 * alu25 + val43;
         alu50 = (acc11 - val44) * val45 * alu26 + val47;
         alu52 = (acc12 - val32) * val33 * alu23 + val35;
         alu54 = (acc13 - val36) * val37 * alu24 + val39;
         alu56 = (acc14 - val40) * val41 * alu25 + val43;
         alu58 = (acc15 - val44) * val45 * alu26 + val47
     in [(alu27, alu28 * (1 / (1 + (exp2 (alu28 * (- (lit (14426950408889634 / 10000000000000000)))))))),
         (alu27 + 1600, alu30 * (1 / (1 + (exp2 (alu30 * (- (lit (14426950408889634 / 10000000000000000)))))))),
         (alu27 + 3200, alu32 * (1 / (1 + (exp2 (alu32 * (- (lit (14426950408889634 / 10000000000000000)))))))),
         (alu27 + 4800, alu34 * (1 / (1 + (exp2 (alu34 * (- (lit (14426950408889634 / 10000000000000000)))))))),
         (alu27 + 1, alu36 * (1 / (1 + (exp2 (alu36 * (- (lit (14426950408889634 / 10000000000000000)))))))),
         (alu27 + 1601, alu38 * (1 / (1 + (exp2 (alu38 * (- (lit (14426950408889634 / 10000000000000000)))))))),
         (alu27 + 3201, alu40 * (1 / (1 + (exp2 (alu40 * (- (lit (14426950408889634 / 10000000000000000)))))))),
         (alu27 + 4801, alu42 * (1 / (1 + (exp2 (alu42 * (- (lit (14426950408889634 / 10000000000000000)))))))),
         (alu27 + 2, alu44 * (1 / (1 + (exp2 (alu44 * (- (lit (14426950408889634 / 10000000000000000)))))))),
         (alu27 + 1602, alu46 * (1 / (1 + (exp2 (alu46 * (- (lit (14426950408889634 / 10000000000000000)))))))),
         (alu27 + 3202, alu48 * (1 / (1 + (exp2 (alu48 * (- (lit (14426950408889634 / 10000000000000000)))))))),
         (alu27 + 4802, alu50 * (1 / (1 + (exp2 (alu50 * (- (lit (14426950408889634 / 10000000000000000)))))))),
         (alu27 + 3, alu52 * (1 / (1 + (exp2 (alu52 * (- (lit (14426950408889634 / 10000000000000000)))))))),
         (alu27 + 1603, alu54 * (1 / (1 + (exp2 (alu54 * (- (lit (14426950408889634 / 10000000000000000)))))))),
         (alu27 + 3203, alu56 * (1 / (1 + (exp2 (alu56 * (- (lit (14426950408889634 / 10000000000000000)))))))),
         (alu27 + 4803, alu58 * (1 / (1 + (exp2 (alu58 * (- (lit (14426950408889634 / 10000000000000000))))))))])"

definition r_4_25_8_16_32_4_4_4_shader :: "(f32 \<Rightarrow> f32) \<Rightarrow> (f32 \<Rightarrow> f32) \<Rightarrow> shader" where
  "r_4_25_8_16_32_4_4_4_shader exp2 fsqrt = FShader (8, 16, 1) (\<lambda>f i. r_4_25_8_16_32_4_4_4 exp2 fsqrt (f 1) (f 2) (f 3) (f 4) (f 5) (f 6))"

lemma r_4_25_8_16_32_4_4_4_stores:
  assumes "gx < 25" "gy < 4" "lx < 8" "ly < 16"
  shows "set (launch (r_4_25_8_16_32_4_4_4 exp2 fsqrt x w m g v b) (gx, gy, 0) (lx, ly, 0)) = tile 4 1 (4 * (16 * 25)) (layer_value exp2 fsqrt (Conv1 1600 128) (reads [x, w, m, g, v, b])) (8 * gy + lx) 0 (16 * gx + ly)"
proof -
  have c: "128 = 4 * (32 :: nat)" by simp
  show ?thesis
    unfolding r_4_25_8_16_32_4_4_4_def launch_def Let_def vec_simps for_loop_16 prod.case log2_e_def[symmetric] sigmoid_def[symmetric] silu_def[symmetric]
    by (rule tile_planes, unfold list.map prod.case list.inject prod.inject layer_value.simps reads_simps pointwise_words[OF c] batch_norm_def, intro conjI)
      (simp_all add: arr_def push_bit_eq_mult algebra_simps)
qed

interpretation r_4_25_8_16_32_4_4_4: flat_kernel 8 16 25 4 4 "launch (r_4_25_8_16_32_4_4_4 exp2 fsqrt x w m g v b)"
    "layer_value exp2 fsqrt (Conv1 1600 128) (reads [x, w, m, g, v, b])"
  for exp2 fsqrt x w m g v b
  by unfold_locales (rule r_4_25_8_16_32_4_4_4_stores; assumption | simp)+

lemma r_4_25_8_16_32_4_4_4_computes: "computes exp2 fsqrt (r_4_25_8_16_32_4_4_4_shader exp2 fsqrt) (25, 4, 1) (Conv1 1600 128) 128 1 1600"
  unfolding r_4_25_8_16_32_4_4_4_shader_def by (rule computesI, rule r_4_25_8_16_32_4_4_4.kernel_contract_axioms) (simp, simp only: layer_inputs, simp)

definition r_4_25_8_16_64_4_4_4 :: "(f32 \<Rightarrow> f32) \<Rightarrow> (f32 \<Rightarrow> f32) \<Rightarrow> f32 buf \<Rightarrow> f32 buf \<Rightarrow> f32 buf \<Rightarrow> f32 buf \<Rightarrow> f32 buf \<Rightarrow> f32 buf \<Rightarrow> vec3 \<Rightarrow> vec3 \<Rightarrow> f32 stores" where
  "r_4_25_8_16_64_4_4_4 exp2 fsqrt data1 data2 data3 data4 data5 data6 gindex lindex =
    (let gidx0 = vx gindex;
         gidx1 = vy gindex;
         lidx0 = vx lindex;
         lidx1 = vy lindex;
         precast0 = lidx1;
         precast1 = push_bit 2 precast0;
         cast0 = precast1;
         precast2 = gidx0;
         precast3 = push_bit 6 precast2;
         cast1 = precast3;
         precast4 = lidx0;
         cast2 = precast4;
         precast5 = gidx1;
         cast3 = precast5;
         precast6 = push_bit 13 cast3;
         precast7 = push_bit 10 cast2;
         acc0 = (0 :: f32);
         acc1 = (0 :: f32);
         acc2 = (0 :: f32);
         acc3 = (0 :: f32);
         acc4 = (0 :: f32);
         acc5 = (0 :: f32);
         acc6 = (0 :: f32);
         acc7 = (0 :: f32);
         acc8 = (0 :: f32);
         acc9 = (0 :: f32);
         acc10 = (0 :: f32);
         acc11 = (0 :: f32);
         acc12 = (0 :: f32);
         acc13 = (0 :: f32);
         acc14 = (0 :: f32);
         acc15 = (0 :: f32);
         (acc0, acc1, acc2, acc3, acc4, acc5, acc6, acc7,
          acc8, acc9, acc10, acc11, acc12, acc13, acc14, acc15)
          = for_loop 64 (\<lambda>ridx4 (acc0, acc1, acc2, acc3, acc4, acc5, acc6, acc7,
             acc8, acc9, acc10, acc11, acc12, acc13, acc14, acc15).
             let precast8 = ridx4;
                 alu0 = cast1 + cast0 + ridx4 * 6400;
                 val0 = rd data1 alu0;
                 val1 = rd data1 (alu0 + 1);
                 val2 = rd data1 (alu0 + 2);
                 val3 = rd data1 (alu0 + 3);
                 val4 = rd data1 (alu0 + 1600);
                 val5 = rd data1 (alu0 + 1601);
                 val6 = rd data1 (alu0 + 1602);
                 val7 = rd data1 (alu0 + 1603);
                 val8 = rd data1 (alu0 + 3200);
                 val9 = rd data1 (alu0 + 3201);
                 val10 = rd data1 (alu0 + 3202);
                 val11 = rd data1 (alu0 + 3203);
                 val12 = rd data1 (alu0 + 4800);
                 val13 = rd data1 (alu0 + 4801);
                 val14 = rd data1 (alu0 + 4802);
                 val15 = rd data1 (alu0 + 4803);
                 precast9 = push_bit 2 precast8;
                 alu1 = precast6 + precast7 + precast9;
                 val16 = rd data2 alu1;
                 val17 = rd data2 (alu1 + 1);
                 val18 = rd data2 (alu1 + 2);
                 val19 = rd data2 (alu1 + 3);
                 val20 = rd data2 (alu1 + 256);
                 val21 = rd data2 (alu1 + 257);
                 val22 = rd data2 (alu1 + 258);
                 val23 = rd data2 (alu1 + 259);
                 val24 = rd data2 (alu1 + 512);
                 val25 = rd data2 (alu1 + 513);
                 val26 = rd data2 (alu1 + 514);
                 val27 = rd data2 (alu1 + 515);
                 val28 = rd data2 (alu1 + 768);
                 val29 = rd data2 (alu1 + 769);
                 val30 = rd data2 (alu1 + 770);
                 val31 = rd data2 (alu1 + 771);
                 acc0 = acc0 + val0 * val16 + val4 * val17 + val8 * val18 + val12 * val19;
                 acc1 = acc1 + val0 * val20 + val4 * val21 + val8 * val22 + val12 * val23;
                 acc2 = acc2 + val0 * val24 + val4 * val25 + val8 * val26 + val12 * val27;
                 acc3 = acc3 + val0 * val28 + val4 * val29 + val8 * val30 + val12 * val31;
                 acc4 = acc4 + val1 * val16 + val5 * val17 + val9 * val18 + val13 * val19;
                 acc5 = acc5 + val1 * val20 + val5 * val21 + val9 * val22 + val13 * val23;
                 acc6 = acc6 + val1 * val24 + val5 * val25 + val9 * val26 + val13 * val27;
                 acc7 = acc7 + val1 * val28 + val5 * val29 + val9 * val30 + val13 * val31;
                 acc8 = acc8 + val2 * val16 + val6 * val17 + val10 * val18 + val14 * val19;
                 acc9 = acc9 + val2 * val20 + val6 * val21 + val10 * val22 + val14 * val23;
                 acc10 = acc10 + val2 * val24 + val6 * val25 + val10 * val26 + val14 * val27;
                 acc11 = acc11 + val2 * val28 + val6 * val29 + val10 * val30 + val14 * val31;
                 acc12 = acc12 + val3 * val16 + val7 * val17 + val11 * val18 + val15 * val19;
                 acc13 = acc13 + val3 * val20 + val7 * val21 + val11 * val22 + val15 * val23;
                 acc14 = acc14 + val3 * val24 + val7 * val25 + val11 * val26 + val15 * val27;
                 acc15 = acc15 + val3 * val28 + val7 * val29 + val11 * val30 + val15 * val31
             in (acc0, acc1, acc2, acc3, acc4, acc5, acc6, acc7,
                 acc8, acc9, acc10, acc11, acc12, acc13, acc14, acc15))
             (acc0, acc1, acc2, acc3, acc4, acc5, acc6, acc7,
              acc8, acc9, acc10, acc11, acc12, acc13, acc14, acc15);
         precast10 = push_bit 5 cast3;
         precast11 = push_bit 2 cast2;
         alu19 = precast10 + precast11;
         val32 = rd data3 alu19;
         val33 = rd data4 alu19;
         val34 = rd data5 alu19;
         val35 = rd data6 alu19;
         alu20 = alu19 + 1;
         val36 = rd data3 alu20;
         val37 = rd data4 alu20;
         val38 = rd data5 alu20;
         val39 = rd data6 alu20;
         alu21 = alu19 + 2;
         val40 = rd data3 alu21;
         val41 = rd data4 alu21;
         val42 = rd data5 alu21;
         val43 = rd data6 alu21;
         alu22 = alu19 + 3;
         val44 = rd data3 alu22;
         val45 = rd data4 alu22;
         val46 = rd data5 alu22;
         val47 = rd data6 alu22;
         alu23 = 1 / (fsqrt (val34 + (lit (1 / 1000))));
         alu24 = 1 / (fsqrt (val38 + (lit (1 / 1000))));
         alu25 = 1 / (fsqrt (val42 + (lit (1 / 1000))));
         alu26 = 1 / (fsqrt (val46 + (lit (1 / 1000))));
         alu27 = cast1 + gidx1 * 51200 + lidx0 * 6400 + cast0;
         alu28 = (acc0 - val32) * val33 * alu23 + val35;
         alu30 = (acc1 - val36) * val37 * alu24 + val39;
         alu32 = (acc2 - val40) * val41 * alu25 + val43;
         alu34 = (acc3 - val44) * val45 * alu26 + val47;
         alu36 = (acc4 - val32) * val33 * alu23 + val35;
         alu38 = (acc5 - val36) * val37 * alu24 + val39;
         alu40 = (acc6 - val40) * val41 * alu25 + val43;
         alu42 = (acc7 - val44) * val45 * alu26 + val47;
         alu44 = (acc8 - val32) * val33 * alu23 + val35;
         alu46 = (acc9 - val36) * val37 * alu24 + val39;
         alu48 = (acc10 - val40) * val41 * alu25 + val43;
         alu50 = (acc11 - val44) * val45 * alu26 + val47;
         alu52 = (acc12 - val32) * val33 * alu23 + val35;
         alu54 = (acc13 - val36) * val37 * alu24 + val39;
         alu56 = (acc14 - val40) * val41 * alu25 + val43;
         alu58 = (acc15 - val44) * val45 * alu26 + val47
     in [(alu27, alu28 * (1 / (1 + (exp2 (alu28 * (- (lit (14426950408889634 / 10000000000000000)))))))),
         (alu27 + 1600, alu30 * (1 / (1 + (exp2 (alu30 * (- (lit (14426950408889634 / 10000000000000000)))))))),
         (alu27 + 3200, alu32 * (1 / (1 + (exp2 (alu32 * (- (lit (14426950408889634 / 10000000000000000)))))))),
         (alu27 + 4800, alu34 * (1 / (1 + (exp2 (alu34 * (- (lit (14426950408889634 / 10000000000000000)))))))),
         (alu27 + 1, alu36 * (1 / (1 + (exp2 (alu36 * (- (lit (14426950408889634 / 10000000000000000)))))))),
         (alu27 + 1601, alu38 * (1 / (1 + (exp2 (alu38 * (- (lit (14426950408889634 / 10000000000000000)))))))),
         (alu27 + 3201, alu40 * (1 / (1 + (exp2 (alu40 * (- (lit (14426950408889634 / 10000000000000000)))))))),
         (alu27 + 4801, alu42 * (1 / (1 + (exp2 (alu42 * (- (lit (14426950408889634 / 10000000000000000)))))))),
         (alu27 + 2, alu44 * (1 / (1 + (exp2 (alu44 * (- (lit (14426950408889634 / 10000000000000000)))))))),
         (alu27 + 1602, alu46 * (1 / (1 + (exp2 (alu46 * (- (lit (14426950408889634 / 10000000000000000)))))))),
         (alu27 + 3202, alu48 * (1 / (1 + (exp2 (alu48 * (- (lit (14426950408889634 / 10000000000000000)))))))),
         (alu27 + 4802, alu50 * (1 / (1 + (exp2 (alu50 * (- (lit (14426950408889634 / 10000000000000000)))))))),
         (alu27 + 3, alu52 * (1 / (1 + (exp2 (alu52 * (- (lit (14426950408889634 / 10000000000000000)))))))),
         (alu27 + 1603, alu54 * (1 / (1 + (exp2 (alu54 * (- (lit (14426950408889634 / 10000000000000000)))))))),
         (alu27 + 3203, alu56 * (1 / (1 + (exp2 (alu56 * (- (lit (14426950408889634 / 10000000000000000)))))))),
         (alu27 + 4803, alu58 * (1 / (1 + (exp2 (alu58 * (- (lit (14426950408889634 / 10000000000000000))))))))])"

definition r_4_25_8_16_64_4_4_4_shader :: "(f32 \<Rightarrow> f32) \<Rightarrow> (f32 \<Rightarrow> f32) \<Rightarrow> shader" where
  "r_4_25_8_16_64_4_4_4_shader exp2 fsqrt = FShader (8, 16, 1) (\<lambda>f i. r_4_25_8_16_64_4_4_4 exp2 fsqrt (f 1) (f 2) (f 3) (f 4) (f 5) (f 6))"

lemma r_4_25_8_16_64_4_4_4_stores:
  assumes "gx < 25" "gy < 4" "lx < 8" "ly < 16"
  shows "set (launch (r_4_25_8_16_64_4_4_4 exp2 fsqrt x w m g v b) (gx, gy, 0) (lx, ly, 0)) = tile 4 1 (4 * (16 * 25)) (layer_value exp2 fsqrt (Conv1 1600 256) (reads [x, w, m, g, v, b])) (8 * gy + lx) 0 (16 * gx + ly)"
proof -
  have c: "256 = 4 * (64 :: nat)" by simp
  show ?thesis
    unfolding r_4_25_8_16_64_4_4_4_def launch_def Let_def vec_simps for_loop_16 prod.case log2_e_def[symmetric] sigmoid_def[symmetric] silu_def[symmetric]
    by (rule tile_planes, unfold list.map prod.case list.inject prod.inject layer_value.simps reads_simps pointwise_words[OF c] batch_norm_def, intro conjI)
      (simp_all add: arr_def push_bit_eq_mult algebra_simps)
qed

interpretation r_4_25_8_16_64_4_4_4: flat_kernel 8 16 25 4 4 "launch (r_4_25_8_16_64_4_4_4 exp2 fsqrt x w m g v b)"
    "layer_value exp2 fsqrt (Conv1 1600 256) (reads [x, w, m, g, v, b])"
  for exp2 fsqrt x w m g v b
  by unfold_locales (rule r_4_25_8_16_64_4_4_4_stores; assumption | simp)+

lemma r_4_25_8_16_64_4_4_4_computes: "computes exp2 fsqrt (r_4_25_8_16_64_4_4_4_shader exp2 fsqrt) (25, 4, 1) (Conv1 1600 256) 128 1 1600"
  unfolding r_4_25_8_16_64_4_4_4_shader_def by (rule computesI, rule r_4_25_8_16_64_4_4_4.kernel_contract_axioms) (simp, simp only: layer_inputs, simp)

definition r_4_25_8_16_96_4_4_4 :: "(f32 \<Rightarrow> f32) \<Rightarrow> (f32 \<Rightarrow> f32) \<Rightarrow> f32 buf \<Rightarrow> f32 buf \<Rightarrow> f32 buf \<Rightarrow> f32 buf \<Rightarrow> f32 buf \<Rightarrow> f32 buf \<Rightarrow> vec3 \<Rightarrow> vec3 \<Rightarrow> f32 stores" where
  "r_4_25_8_16_96_4_4_4 exp2 fsqrt data1 data2 data3 data4 data5 data6 gindex lindex =
    (let gidx0 = vx gindex;
         gidx1 = vy gindex;
         lidx0 = vx lindex;
         lidx1 = vy lindex;
         precast0 = lidx1;
         precast1 = push_bit 2 precast0;
         cast0 = precast1;
         precast2 = gidx0;
         precast3 = push_bit 6 precast2;
         cast1 = precast3;
         acc0 = (0 :: f32);
         acc1 = (0 :: f32);
         acc2 = (0 :: f32);
         acc3 = (0 :: f32);
         acc4 = (0 :: f32);
         acc5 = (0 :: f32);
         acc6 = (0 :: f32);
         acc7 = (0 :: f32);
         acc8 = (0 :: f32);
         acc9 = (0 :: f32);
         acc10 = (0 :: f32);
         acc11 = (0 :: f32);
         acc12 = (0 :: f32);
         acc13 = (0 :: f32);
         acc14 = (0 :: f32);
         acc15 = (0 :: f32);
         (acc0, acc1, acc2, acc3, acc4, acc5, acc6, acc7,
          acc8, acc9, acc10, acc11, acc12, acc13, acc14, acc15)
          = for_loop 96 (\<lambda>ridx4 (acc0, acc1, acc2, acc3, acc4, acc5, acc6, acc7,
             acc8, acc9, acc10, acc11, acc12, acc13, acc14, acc15).
             let precast4 = ridx4;
                 alu0 = cast1 + cast0 + ridx4 * 6400;
                 val0 = rd data1 alu0;
                 val1 = rd data1 (alu0 + 1);
                 val2 = rd data1 (alu0 + 2);
                 val3 = rd data1 (alu0 + 3);
                 val4 = rd data1 (alu0 + 1600);
                 val5 = rd data1 (alu0 + 1601);
                 val6 = rd data1 (alu0 + 1602);
                 val7 = rd data1 (alu0 + 1603);
                 val8 = rd data1 (alu0 + 3200);
                 val9 = rd data1 (alu0 + 3201);
                 val10 = rd data1 (alu0 + 3202);
                 val11 = rd data1 (alu0 + 3203);
                 val12 = rd data1 (alu0 + 4800);
                 val13 = rd data1 (alu0 + 4801);
                 val14 = rd data1 (alu0 + 4802);
                 val15 = rd data1 (alu0 + 4803);
                 precast5 = push_bit 2 precast4;
                 alu1 = gidx1 * 12288 + lidx0 * 1536 + precast5;
                 val16 = rd data2 alu1;
                 val17 = rd data2 (alu1 + 1);
                 val18 = rd data2 (alu1 + 2);
                 val19 = rd data2 (alu1 + 3);
                 val20 = rd data2 (alu1 + 384);
                 val21 = rd data2 (alu1 + 385);
                 val22 = rd data2 (alu1 + 386);
                 val23 = rd data2 (alu1 + 387);
                 val24 = rd data2 (alu1 + 768);
                 val25 = rd data2 (alu1 + 769);
                 val26 = rd data2 (alu1 + 770);
                 val27 = rd data2 (alu1 + 771);
                 val28 = rd data2 (alu1 + 1152);
                 val29 = rd data2 (alu1 + 1153);
                 val30 = rd data2 (alu1 + 1154);
                 val31 = rd data2 (alu1 + 1155);
                 acc0 = acc0 + val0 * val16 + val4 * val17 + val8 * val18 + val12 * val19;
                 acc1 = acc1 + val0 * val20 + val4 * val21 + val8 * val22 + val12 * val23;
                 acc2 = acc2 + val0 * val24 + val4 * val25 + val8 * val26 + val12 * val27;
                 acc3 = acc3 + val0 * val28 + val4 * val29 + val8 * val30 + val12 * val31;
                 acc4 = acc4 + val1 * val16 + val5 * val17 + val9 * val18 + val13 * val19;
                 acc5 = acc5 + val1 * val20 + val5 * val21 + val9 * val22 + val13 * val23;
                 acc6 = acc6 + val1 * val24 + val5 * val25 + val9 * val26 + val13 * val27;
                 acc7 = acc7 + val1 * val28 + val5 * val29 + val9 * val30 + val13 * val31;
                 acc8 = acc8 + val2 * val16 + val6 * val17 + val10 * val18 + val14 * val19;
                 acc9 = acc9 + val2 * val20 + val6 * val21 + val10 * val22 + val14 * val23;
                 acc10 = acc10 + val2 * val24 + val6 * val25 + val10 * val26 + val14 * val27;
                 acc11 = acc11 + val2 * val28 + val6 * val29 + val10 * val30 + val14 * val31;
                 acc12 = acc12 + val3 * val16 + val7 * val17 + val11 * val18 + val15 * val19;
                 acc13 = acc13 + val3 * val20 + val7 * val21 + val11 * val22 + val15 * val23;
                 acc14 = acc14 + val3 * val24 + val7 * val25 + val11 * val26 + val15 * val27;
                 acc15 = acc15 + val3 * val28 + val7 * val29 + val11 * val30 + val15 * val31
             in (acc0, acc1, acc2, acc3, acc4, acc5, acc6, acc7,
                 acc8, acc9, acc10, acc11, acc12, acc13, acc14, acc15))
             (acc0, acc1, acc2, acc3, acc4, acc5, acc6, acc7,
              acc8, acc9, acc10, acc11, acc12, acc13, acc14, acc15);
         precast6 = gidx1;
         precast7 = lidx0;
         precast8 = push_bit 5 precast6;
         precast9 = push_bit 2 precast7;
         alu19 = precast8 + precast9;
         val32 = rd data3 alu19;
         val33 = rd data4 alu19;
         val34 = rd data5 alu19;
         val35 = rd data6 alu19;
         alu20 = alu19 + 1;
         val36 = rd data3 alu20;
         val37 = rd data4 alu20;
         val38 = rd data5 alu20;
         val39 = rd data6 alu20;
         alu21 = alu19 + 2;
         val40 = rd data3 alu21;
         val41 = rd data4 alu21;
         val42 = rd data5 alu21;
         val43 = rd data6 alu21;
         alu22 = alu19 + 3;
         val44 = rd data3 alu22;
         val45 = rd data4 alu22;
         val46 = rd data5 alu22;
         val47 = rd data6 alu22;
         alu23 = 1 / (fsqrt (val34 + (lit (1 / 1000))));
         alu24 = 1 / (fsqrt (val38 + (lit (1 / 1000))));
         alu25 = 1 / (fsqrt (val42 + (lit (1 / 1000))));
         alu26 = 1 / (fsqrt (val46 + (lit (1 / 1000))));
         alu27 = cast1 + gidx1 * 51200 + lidx0 * 6400 + cast0;
         alu28 = (acc0 - val32) * val33 * alu23 + val35;
         alu30 = (acc1 - val36) * val37 * alu24 + val39;
         alu32 = (acc2 - val40) * val41 * alu25 + val43;
         alu34 = (acc3 - val44) * val45 * alu26 + val47;
         alu36 = (acc4 - val32) * val33 * alu23 + val35;
         alu38 = (acc5 - val36) * val37 * alu24 + val39;
         alu40 = (acc6 - val40) * val41 * alu25 + val43;
         alu42 = (acc7 - val44) * val45 * alu26 + val47;
         alu44 = (acc8 - val32) * val33 * alu23 + val35;
         alu46 = (acc9 - val36) * val37 * alu24 + val39;
         alu48 = (acc10 - val40) * val41 * alu25 + val43;
         alu50 = (acc11 - val44) * val45 * alu26 + val47;
         alu52 = (acc12 - val32) * val33 * alu23 + val35;
         alu54 = (acc13 - val36) * val37 * alu24 + val39;
         alu56 = (acc14 - val40) * val41 * alu25 + val43;
         alu58 = (acc15 - val44) * val45 * alu26 + val47
     in [(alu27, alu28 * (1 / (1 + (exp2 (alu28 * (- (lit (14426950408889634 / 10000000000000000)))))))),
         (alu27 + 1600, alu30 * (1 / (1 + (exp2 (alu30 * (- (lit (14426950408889634 / 10000000000000000)))))))),
         (alu27 + 3200, alu32 * (1 / (1 + (exp2 (alu32 * (- (lit (14426950408889634 / 10000000000000000)))))))),
         (alu27 + 4800, alu34 * (1 / (1 + (exp2 (alu34 * (- (lit (14426950408889634 / 10000000000000000)))))))),
         (alu27 + 1, alu36 * (1 / (1 + (exp2 (alu36 * (- (lit (14426950408889634 / 10000000000000000)))))))),
         (alu27 + 1601, alu38 * (1 / (1 + (exp2 (alu38 * (- (lit (14426950408889634 / 10000000000000000)))))))),
         (alu27 + 3201, alu40 * (1 / (1 + (exp2 (alu40 * (- (lit (14426950408889634 / 10000000000000000)))))))),
         (alu27 + 4801, alu42 * (1 / (1 + (exp2 (alu42 * (- (lit (14426950408889634 / 10000000000000000)))))))),
         (alu27 + 2, alu44 * (1 / (1 + (exp2 (alu44 * (- (lit (14426950408889634 / 10000000000000000)))))))),
         (alu27 + 1602, alu46 * (1 / (1 + (exp2 (alu46 * (- (lit (14426950408889634 / 10000000000000000)))))))),
         (alu27 + 3202, alu48 * (1 / (1 + (exp2 (alu48 * (- (lit (14426950408889634 / 10000000000000000)))))))),
         (alu27 + 4802, alu50 * (1 / (1 + (exp2 (alu50 * (- (lit (14426950408889634 / 10000000000000000)))))))),
         (alu27 + 3, alu52 * (1 / (1 + (exp2 (alu52 * (- (lit (14426950408889634 / 10000000000000000)))))))),
         (alu27 + 1603, alu54 * (1 / (1 + (exp2 (alu54 * (- (lit (14426950408889634 / 10000000000000000)))))))),
         (alu27 + 3203, alu56 * (1 / (1 + (exp2 (alu56 * (- (lit (14426950408889634 / 10000000000000000)))))))),
         (alu27 + 4803, alu58 * (1 / (1 + (exp2 (alu58 * (- (lit (14426950408889634 / 10000000000000000))))))))])"

definition r_4_25_8_16_96_4_4_4_shader :: "(f32 \<Rightarrow> f32) \<Rightarrow> (f32 \<Rightarrow> f32) \<Rightarrow> shader" where
  "r_4_25_8_16_96_4_4_4_shader exp2 fsqrt = FShader (8, 16, 1) (\<lambda>f i. r_4_25_8_16_96_4_4_4 exp2 fsqrt (f 1) (f 2) (f 3) (f 4) (f 5) (f 6))"

lemma r_4_25_8_16_96_4_4_4_stores:
  assumes "gx < 25" "gy < 4" "lx < 8" "ly < 16"
  shows "set (launch (r_4_25_8_16_96_4_4_4 exp2 fsqrt x w m g v b) (gx, gy, 0) (lx, ly, 0)) = tile 4 1 (4 * (16 * 25)) (layer_value exp2 fsqrt (Conv1 1600 384) (reads [x, w, m, g, v, b])) (8 * gy + lx) 0 (16 * gx + ly)"
proof -
  have c: "384 = 4 * (96 :: nat)" by simp
  show ?thesis
    unfolding r_4_25_8_16_96_4_4_4_def launch_def Let_def vec_simps for_loop_16 prod.case log2_e_def[symmetric] sigmoid_def[symmetric] silu_def[symmetric]
    by (rule tile_planes, unfold list.map prod.case list.inject prod.inject layer_value.simps reads_simps pointwise_words[OF c] batch_norm_def, intro conjI)
      (simp_all add: arr_def push_bit_eq_mult algebra_simps)
qed

interpretation r_4_25_8_16_96_4_4_4: flat_kernel 8 16 25 4 4 "launch (r_4_25_8_16_96_4_4_4 exp2 fsqrt x w m g v b)"
    "layer_value exp2 fsqrt (Conv1 1600 384) (reads [x, w, m, g, v, b])"
  for exp2 fsqrt x w m g v b
  by unfold_locales (rule r_4_25_8_16_96_4_4_4_stores; assumption | simp)+

lemma r_4_25_8_16_96_4_4_4_computes: "computes exp2 fsqrt (r_4_25_8_16_96_4_4_4_shader exp2 fsqrt) (25, 4, 1) (Conv1 1600 384) 128 1 1600"
  unfolding r_4_25_8_16_96_4_4_4_shader_def by (rule computesI, rule r_4_25_8_16_96_4_4_4.kernel_contract_axioms) (simp, simp only: layer_inputs, simp)

definition r_4_25_8_16_48_4_4_4 :: "(f32 \<Rightarrow> f32) \<Rightarrow> (f32 \<Rightarrow> f32) \<Rightarrow> f32 buf \<Rightarrow> f32 buf \<Rightarrow> f32 buf \<Rightarrow> f32 buf \<Rightarrow> f32 buf \<Rightarrow> f32 buf \<Rightarrow> vec3 \<Rightarrow> vec3 \<Rightarrow> f32 stores" where
  "r_4_25_8_16_48_4_4_4 exp2 fsqrt data1 data2 data3 data4 data5 data6 gindex lindex =
    (let gidx0 = vx gindex;
         gidx1 = vy gindex;
         lidx0 = vx lindex;
         lidx1 = vy lindex;
         precast0 = lidx1;
         precast1 = push_bit 2 precast0;
         cast0 = precast1;
         precast2 = gidx0;
         precast3 = push_bit 6 precast2;
         cast1 = precast3;
         acc0 = (0 :: f32);
         acc1 = (0 :: f32);
         acc2 = (0 :: f32);
         acc3 = (0 :: f32);
         acc4 = (0 :: f32);
         acc5 = (0 :: f32);
         acc6 = (0 :: f32);
         acc7 = (0 :: f32);
         acc8 = (0 :: f32);
         acc9 = (0 :: f32);
         acc10 = (0 :: f32);
         acc11 = (0 :: f32);
         acc12 = (0 :: f32);
         acc13 = (0 :: f32);
         acc14 = (0 :: f32);
         acc15 = (0 :: f32);
         (acc0, acc1, acc2, acc3, acc4, acc5, acc6, acc7,
          acc8, acc9, acc10, acc11, acc12, acc13, acc14, acc15)
          = for_loop 48 (\<lambda>ridx4 (acc0, acc1, acc2, acc3, acc4, acc5, acc6, acc7,
             acc8, acc9, acc10, acc11, acc12, acc13, acc14, acc15).
             let precast4 = ridx4;
                 alu0 = cast1 + cast0 + ridx4 * 6400;
                 val0 = rd data1 alu0;
                 val1 = rd data1 (alu0 + 1);
                 val2 = rd data1 (alu0 + 2);
                 val3 = rd data1 (alu0 + 3);
                 val4 = rd data1 (alu0 + 1600);
                 val5 = rd data1 (alu0 + 1601);
                 val6 = rd data1 (alu0 + 1602);
                 val7 = rd data1 (alu0 + 1603);
                 val8 = rd data1 (alu0 + 3200);
                 val9 = rd data1 (alu0 + 3201);
                 val10 = rd data1 (alu0 + 3202);
                 val11 = rd data1 (alu0 + 3203);
                 val12 = rd data1 (alu0 + 4800);
                 val13 = rd data1 (alu0 + 4801);
                 val14 = rd data1 (alu0 + 4802);
                 val15 = rd data1 (alu0 + 4803);
                 precast5 = push_bit 2 precast4;
                 alu1 = gidx1 * 6144 + lidx0 * 768 + precast5;
                 val16 = rd data2 alu1;
                 val17 = rd data2 (alu1 + 1);
                 val18 = rd data2 (alu1 + 2);
                 val19 = rd data2 (alu1 + 3);
                 val20 = rd data2 (alu1 + 192);
                 val21 = rd data2 (alu1 + 193);
                 val22 = rd data2 (alu1 + 194);
                 val23 = rd data2 (alu1 + 195);
                 val24 = rd data2 (alu1 + 384);
                 val25 = rd data2 (alu1 + 385);
                 val26 = rd data2 (alu1 + 386);
                 val27 = rd data2 (alu1 + 387);
                 val28 = rd data2 (alu1 + 576);
                 val29 = rd data2 (alu1 + 577);
                 val30 = rd data2 (alu1 + 578);
                 val31 = rd data2 (alu1 + 579);
                 acc0 = acc0 + val0 * val16 + val4 * val17 + val8 * val18 + val12 * val19;
                 acc1 = acc1 + val0 * val20 + val4 * val21 + val8 * val22 + val12 * val23;
                 acc2 = acc2 + val0 * val24 + val4 * val25 + val8 * val26 + val12 * val27;
                 acc3 = acc3 + val0 * val28 + val4 * val29 + val8 * val30 + val12 * val31;
                 acc4 = acc4 + val1 * val16 + val5 * val17 + val9 * val18 + val13 * val19;
                 acc5 = acc5 + val1 * val20 + val5 * val21 + val9 * val22 + val13 * val23;
                 acc6 = acc6 + val1 * val24 + val5 * val25 + val9 * val26 + val13 * val27;
                 acc7 = acc7 + val1 * val28 + val5 * val29 + val9 * val30 + val13 * val31;
                 acc8 = acc8 + val2 * val16 + val6 * val17 + val10 * val18 + val14 * val19;
                 acc9 = acc9 + val2 * val20 + val6 * val21 + val10 * val22 + val14 * val23;
                 acc10 = acc10 + val2 * val24 + val6 * val25 + val10 * val26 + val14 * val27;
                 acc11 = acc11 + val2 * val28 + val6 * val29 + val10 * val30 + val14 * val31;
                 acc12 = acc12 + val3 * val16 + val7 * val17 + val11 * val18 + val15 * val19;
                 acc13 = acc13 + val3 * val20 + val7 * val21 + val11 * val22 + val15 * val23;
                 acc14 = acc14 + val3 * val24 + val7 * val25 + val11 * val26 + val15 * val27;
                 acc15 = acc15 + val3 * val28 + val7 * val29 + val11 * val30 + val15 * val31
             in (acc0, acc1, acc2, acc3, acc4, acc5, acc6, acc7,
                 acc8, acc9, acc10, acc11, acc12, acc13, acc14, acc15))
             (acc0, acc1, acc2, acc3, acc4, acc5, acc6, acc7,
              acc8, acc9, acc10, acc11, acc12, acc13, acc14, acc15);
         precast6 = gidx1;
         precast7 = lidx0;
         precast8 = push_bit 5 precast6;
         precast9 = push_bit 2 precast7;
         alu19 = precast8 + precast9;
         val32 = rd data3 alu19;
         val33 = rd data4 alu19;
         val34 = rd data5 alu19;
         val35 = rd data6 alu19;
         alu20 = alu19 + 1;
         val36 = rd data3 alu20;
         val37 = rd data4 alu20;
         val38 = rd data5 alu20;
         val39 = rd data6 alu20;
         alu21 = alu19 + 2;
         val40 = rd data3 alu21;
         val41 = rd data4 alu21;
         val42 = rd data5 alu21;
         val43 = rd data6 alu21;
         alu22 = alu19 + 3;
         val44 = rd data3 alu22;
         val45 = rd data4 alu22;
         val46 = rd data5 alu22;
         val47 = rd data6 alu22;
         alu23 = 1 / (fsqrt (val34 + (lit (1 / 1000))));
         alu24 = 1 / (fsqrt (val38 + (lit (1 / 1000))));
         alu25 = 1 / (fsqrt (val42 + (lit (1 / 1000))));
         alu26 = 1 / (fsqrt (val46 + (lit (1 / 1000))));
         alu27 = cast1 + gidx1 * 51200 + lidx0 * 6400 + cast0;
         alu28 = (acc0 - val32) * val33 * alu23 + val35;
         alu30 = (acc1 - val36) * val37 * alu24 + val39;
         alu32 = (acc2 - val40) * val41 * alu25 + val43;
         alu34 = (acc3 - val44) * val45 * alu26 + val47;
         alu36 = (acc4 - val32) * val33 * alu23 + val35;
         alu38 = (acc5 - val36) * val37 * alu24 + val39;
         alu40 = (acc6 - val40) * val41 * alu25 + val43;
         alu42 = (acc7 - val44) * val45 * alu26 + val47;
         alu44 = (acc8 - val32) * val33 * alu23 + val35;
         alu46 = (acc9 - val36) * val37 * alu24 + val39;
         alu48 = (acc10 - val40) * val41 * alu25 + val43;
         alu50 = (acc11 - val44) * val45 * alu26 + val47;
         alu52 = (acc12 - val32) * val33 * alu23 + val35;
         alu54 = (acc13 - val36) * val37 * alu24 + val39;
         alu56 = (acc14 - val40) * val41 * alu25 + val43;
         alu58 = (acc15 - val44) * val45 * alu26 + val47
     in [(alu27, alu28 * (1 / (1 + (exp2 (alu28 * (- (lit (14426950408889634 / 10000000000000000)))))))),
         (alu27 + 1600, alu30 * (1 / (1 + (exp2 (alu30 * (- (lit (14426950408889634 / 10000000000000000)))))))),
         (alu27 + 3200, alu32 * (1 / (1 + (exp2 (alu32 * (- (lit (14426950408889634 / 10000000000000000)))))))),
         (alu27 + 4800, alu34 * (1 / (1 + (exp2 (alu34 * (- (lit (14426950408889634 / 10000000000000000)))))))),
         (alu27 + 1, alu36 * (1 / (1 + (exp2 (alu36 * (- (lit (14426950408889634 / 10000000000000000)))))))),
         (alu27 + 1601, alu38 * (1 / (1 + (exp2 (alu38 * (- (lit (14426950408889634 / 10000000000000000)))))))),
         (alu27 + 3201, alu40 * (1 / (1 + (exp2 (alu40 * (- (lit (14426950408889634 / 10000000000000000)))))))),
         (alu27 + 4801, alu42 * (1 / (1 + (exp2 (alu42 * (- (lit (14426950408889634 / 10000000000000000)))))))),
         (alu27 + 2, alu44 * (1 / (1 + (exp2 (alu44 * (- (lit (14426950408889634 / 10000000000000000)))))))),
         (alu27 + 1602, alu46 * (1 / (1 + (exp2 (alu46 * (- (lit (14426950408889634 / 10000000000000000)))))))),
         (alu27 + 3202, alu48 * (1 / (1 + (exp2 (alu48 * (- (lit (14426950408889634 / 10000000000000000)))))))),
         (alu27 + 4802, alu50 * (1 / (1 + (exp2 (alu50 * (- (lit (14426950408889634 / 10000000000000000)))))))),
         (alu27 + 3, alu52 * (1 / (1 + (exp2 (alu52 * (- (lit (14426950408889634 / 10000000000000000)))))))),
         (alu27 + 1603, alu54 * (1 / (1 + (exp2 (alu54 * (- (lit (14426950408889634 / 10000000000000000)))))))),
         (alu27 + 3203, alu56 * (1 / (1 + (exp2 (alu56 * (- (lit (14426950408889634 / 10000000000000000)))))))),
         (alu27 + 4803, alu58 * (1 / (1 + (exp2 (alu58 * (- (lit (14426950408889634 / 10000000000000000))))))))])"

definition r_4_25_8_16_48_4_4_4_shader :: "(f32 \<Rightarrow> f32) \<Rightarrow> (f32 \<Rightarrow> f32) \<Rightarrow> shader" where
  "r_4_25_8_16_48_4_4_4_shader exp2 fsqrt = FShader (8, 16, 1) (\<lambda>f i. r_4_25_8_16_48_4_4_4 exp2 fsqrt (f 1) (f 2) (f 3) (f 4) (f 5) (f 6))"

lemma r_4_25_8_16_48_4_4_4_stores:
  assumes "gx < 25" "gy < 4" "lx < 8" "ly < 16"
  shows "set (launch (r_4_25_8_16_48_4_4_4 exp2 fsqrt x w m g v b) (gx, gy, 0) (lx, ly, 0)) = tile 4 1 (4 * (16 * 25)) (layer_value exp2 fsqrt (Conv1 1600 192) (reads [x, w, m, g, v, b])) (8 * gy + lx) 0 (16 * gx + ly)"
proof -
  have c: "192 = 4 * (48 :: nat)" by simp
  show ?thesis
    unfolding r_4_25_8_16_48_4_4_4_def launch_def Let_def vec_simps for_loop_16 prod.case log2_e_def[symmetric] sigmoid_def[symmetric] silu_def[symmetric]
    by (rule tile_planes, unfold list.map prod.case list.inject prod.inject layer_value.simps reads_simps pointwise_words[OF c] batch_norm_def, intro conjI)
      (simp_all add: arr_def push_bit_eq_mult algebra_simps)
qed

interpretation r_4_25_8_16_48_4_4_4: flat_kernel 8 16 25 4 4 "launch (r_4_25_8_16_48_4_4_4 exp2 fsqrt x w m g v b)"
    "layer_value exp2 fsqrt (Conv1 1600 192) (reads [x, w, m, g, v, b])"
  for exp2 fsqrt x w m g v b
  by unfold_locales (rule r_4_25_8_16_48_4_4_4_stores; assumption | simp)+

lemma r_4_25_8_16_48_4_4_4_computes: "computes exp2 fsqrt (r_4_25_8_16_48_4_4_4_shader exp2 fsqrt) (25, 4, 1) (Conv1 1600 192) 128 1 1600"
  unfolding r_4_25_8_16_48_4_4_4_shader_def by (rule computesI, rule r_4_25_8_16_48_4_4_4.kernel_contract_axioms) (simp, simp only: layer_inputs, simp)

end
