(* ===== verification/Pointwise20.thy ===== *)
theory Pointwise20
  imports Layers
begin

text \<open>
  The 1x1 convolutions on the grid of 20x20 cells of \<open>server/cherum/static/net.js\<close>.
  Each kernel is followed by its shader and by the stores of one invocation: the tile of the layer.
\<close>

definition r_2_25_32_4_64_4_4_4 :: "(f32 \<Rightarrow> f32) \<Rightarrow> (f32 \<Rightarrow> f32) \<Rightarrow> f32 buf \<Rightarrow> f32 buf \<Rightarrow> f32 buf \<Rightarrow> f32 buf \<Rightarrow> f32 buf \<Rightarrow> f32 buf \<Rightarrow> vec3 \<Rightarrow> vec3 \<Rightarrow> f32 stores" where
  "r_2_25_32_4_64_4_4_4 exp2 fsqrt data1 data2 data3 data4 data5 data6 gindex lindex =
    (let gidx0 = vx gindex;
         gidx1 = vy gindex;
         lidx0 = vx lindex;
         lidx1 = vy lindex;
         precast0 = lidx1;
         precast1 = push_bit 2 precast0;
         cast0 = precast1;
         precast2 = gidx0;
         precast3 = push_bit 4 precast2;
         cast1 = precast3;
         precast4 = lidx0;
         cast2 = precast4;
         precast5 = gidx1;
         cast3 = precast5;
         precast6 = push_bit 15 cast3;
         precast7 = push_bit 10 cast2;
         acc0 = (0 :: f32);
         acc1 = (0 :: f32);
         acc2 = (0 :: f32);
         acc3 = (0 :: f32);
         acc4 = (0 :: f32);
         acc5 = (0 :: f32);
         acc6 = (0 :: f32);
         acc7 = (0 :: f32);
         acc8 = (0 :: f32);
         acc9 = (0 :: f32);
         acc10 = (0 :: f32);
         acc11 = (0 :: f32);
         acc12 = (0 :: f32);
         acc13 = (0 :: f32);
         acc14 = (0 :: f32);
         acc15 = (0 :: f32);
         (acc0, acc1, acc2, acc3, acc4, acc5, acc6, acc7,
          acc8, acc9, acc10, acc11, acc12, acc13, acc14, acc15)
          = for_loop 64 (\<lambda>ridx4 (acc0, acc1, acc2, acc3, acc4, acc5, acc6, acc7,
             acc8, acc9, acc10, acc11, acc12, acc13, acc14, acc15).
             let precast8 = ridx4;
                 alu0 = cast1 + cast0 + ridx4 * 1600;
                 val0 = rd data1 alu0;
                 val1 = rd data1 (alu0 + 1);
                 val2 = rd data1 (alu0 + 2);
                 val3 = rd data1 (alu0 + 3);
                 val4 = rd data1 (alu0 + 400);
                 val5 = rd data1 (alu0 + 401);
                 val6 = rd data1 (alu0 + 402);
                 val7 = rd data1 (alu0 + 403);
                 val8 = rd data1 (alu0 + 800);
                 val9 = rd data1 (alu0 + 801);
                 val10 = rd data1 (alu0 + 802);
                 val11 = rd data1 (alu0 + 803);
                 val12 = rd data1 (alu0 + 1200);
                 val13 = rd data1 (alu0 + 1201);
                 val14 = rd data1 (alu0 + 1202);
                 val15 = rd data1 (alu0 + 1203);
                 precast9 = push_bit 2 precast8;
                 alu1 = precast6 + precast7 + precast9;
                 val16 = rd data2 alu1;
                 val17 = rd data2 (alu1 + 1);
                 val18 = rd data2 (alu1 + 2);
                 val19 = rd data2 (alu1 + 3);
                 val20 = rd data2 (alu1 + 256);
                 val21 = rd data2 (alu1 + 257);
                 val22 = rd data2 (alu1 + 258);
                 val23 = rd data2 (alu1 + 259);
                 val24 = rd data2 (alu1 + 512);
                 val25 = rd data2 (alu1 + 513);
                 val26 = rd data2 (alu1 + 514);
                 val27 = rd data2 (alu1 + 515);
                 val28 = rd data2 (alu1 + 768);
                 val29 = rd data2 (alu1 + 769);
                 val30 = rd data2 (alu1 + 770);
                 val31 = rd data2 (alu1 + 771);
                 acc0 = acc0 + val0 * val16 + val4 * val17 + val8 * val18 + val12 * val19;
                 acc1 = acc1 + val0 * val20 + val4 * val21 + val8 * val22 + val12 * val23;
                 acc2 = acc2 + val0 * val24 + val4 * val25 + val8 * val26 + val12 * val27;
                 acc3 = acc3 + val0 * val28 + val4 * val29 + val8 * val30 + val12 * val31;
                 acc4 = acc4 + val1 * val16 + val5 * val17 + val9 * val18 + val13 * val19;
                 acc5 = acc5 + val1 * val20 + val5 * val21 + val9 * val22 + val13 * val23;
                 acc6 = acc6 + val1 * val24 + val5 * val25 + val9 * val26 + val13 * val27;
                 acc7 = acc7 + val1 * val28 + val5 * val29 + val9 * val30 + val13 * val31;
                 acc8 = acc8 + val2 * val16 + val6 * val17 + val10 * val18 + val14 * val19;
                 acc9 = acc9 + val2 * val20 + val6 * val21 + val10 * val22 + val14 * val23;
                 acc10 = acc10 + val2 * val24 + val6 * val25 + val10 * val26 + val14 * val27;
                 acc11 = acc11 + val2 * val28 + val6 * val29 + val10 * val30 + val14 * val31;
                 acc12 = acc12 + val3 * val16 + val7 * val17 + val11 * val18 + val15 * val19;
                 acc13 = acc13 + val3 * val20 + val7 * val21 + val11 * val22 + val15 * val23;
                 acc14 = acc14 + val3 * val24 + val7 * val25 + val11 * val26 + val15 * val27;
                 acc15 = acc15 + val3 * val28 + val7 * val29 + val11 * val30 + val15 * val31
             in (acc0, acc1, acc2, acc3, acc4, acc5, acc6, acc7,
                 acc8, acc9, acc10, acc11, acc12, acc13, acc14, acc15))
             (acc0, acc1, acc2, acc3, acc4, acc5, acc6, acc7,
              acc8, acc9, acc10, acc11, acc12, acc13, acc14, acc15);
         precast10 = push_bit 7 cast3;
         precast11 = push_bit 2 cast2;
         alu19 = precast10 + precast11;
         val32 = rd data3 alu19;
         val33 = rd data4 alu19;
         val34 = rd data5 alu19;
         val35 = rd data6 alu19;
         alu20 = alu19 + 1;
         val36 = rd data3 alu20;
         val37 = rd data4 alu20;
         val38 = rd data5 alu20;
         val39 = rd data6 alu20;
         alu21 = alu19 + 2;
         val40 = rd data3 alu21;
         val41 = rd data4 alu21;
         val42 = rd data5 alu21;
         val43 = rd data6 alu21;
         alu22 = alu19 + 3;
         val44 = rd data3 alu22;
         val45 = rd data4 alu22;
         val46 = rd data5 alu22;
         val47 = rd data6 alu22;
         alu23 = 1 / (fsqrt (val34 + (lit (1 / 1000))));
         alu24 = 1 / (fsqrt (val38 + (lit (1 / 1000))));
         alu25 = 1 / (fsqrt (val42 + (lit (1 / 1000))));
         alu26 = 1 / (fsqrt (val46 + (lit (1 / 1000))));
         alu27 = cast1 + gidx1 * 51200 + lidx0 * 1600 + cast0;
         alu28 = (acc0 - val32) * val33 * alu23 + val35;
         alu30 = (acc1 - val36) * val37 * alu24 + val39;
         alu32 = (acc2 - val40) * val41 * alu25 + val43;
         alu34 = (acc3 - val44) * val45 * alu26 + val47;
         alu36 = (acc4 - val32) * val33 * alu23 + val35;
         alu38 = (acc5 - val36) * val37 * alu24 + val39;
         alu40 = (acc6 - val40) * val41 * alu25 + val43;
         alu42 = (acc7 - val44) * val45 * alu26 + val47;
         alu44 = (acc8 - val32) * val33 * alu23 + val35;
         alu46 = (acc9 - val36) * val37 * alu24 + val39;
         alu48 = (acc10 - val40) * val41 * alu25 + val43;
         alu50 = (acc11 - val44) * val45 * alu26 + val47;
         alu52 = (acc12 - val32) * val33 * alu23 + val35;
         alu54 = (acc13 - val36) * val37 * alu24 + val39;
         alu56 = (acc14 - val40) * val41 * alu25 + val43;
         alu58 = (acc15 - val44) * val45 * alu26 + val47
     in [(alu27, alu28 * (1 / (1 + (exp2 (alu28 * (- (lit (14426950408889634 / 10000000000000000)))))))),
         (alu27 + 400, alu30 * (1 / (1 + (exp2 (alu30 * (- (lit (14426950408889634 / 10000000000000000)))))))),
         (alu27 + 800, alu32 * (1 / (1 + (exp2 (alu32 * (- (lit (14426950408889634 / 10000000000000000)))))))),
         (alu27 + 1200, alu34 * (1 / (1 + (exp2 (alu34 * (- (lit (14426950408889634 / 10000000000000000)))))))),
         (alu27 + 1, alu36 * (1 / (1 + (exp2 (alu36 * (- (lit (14426950408889634 / 10000000000000000)))))))),
         (alu27 + 401, alu38 * (1 / (1 + (exp2 (alu38 * (- (lit (14426950408889634 / 10000000000000000)))))))),
         (alu27 + 801, alu40 * (1 / (1 + (exp2 (alu40 * (- (lit (14426950408889634 / 10000000000000000)))))))),
         (alu27 + 1201, alu42 * (1 / (1 + (exp2 (alu42 * (- (lit (14426950408889634 / 10000000000000000)))))))),
         (alu27 + 2, alu44 * (1 / (1 + (exp2 (alu44 * (- (lit (14426950408889634 / 10000000000000000)))))))),
         (alu27 + 402, alu46 * (1 / (1 + (exp2 (alu46 * (- (lit (14426950408889634 / 10000000000000000)))))))),
         (alu27 + 802, alu48 * (1 / (1 + (exp2 (alu48 * (- (lit (14426950408889634 / 10000000000000000)))))))),
         (alu27 + 1202, alu50 * (1 / (1 + (exp2 (alu50 * (- (lit (14426950408889634 / 10000000000000000)))))))),
         (alu27 + 3, alu52 * (1 / (1 + (exp2 (alu52 * (- (lit (14426950408889634 / 10000000000000000)))))))),
         (alu27 + 403, alu54 * (1 / (1 + (exp2 (alu54 * (- (lit (14426950408889634 / 10000000000000000)))))))),
         (alu27 + 803, alu56 * (1 / (1 + (exp2 (alu56 * (- (lit (14426950408889634 / 10000000000000000)))))))),
         (alu27 + 1203, alu58 * (1 / (1 + (exp2 (alu58 * (- (lit (14426950408889634 / 10000000000000000))))))))])"

definition r_2_25_32_4_64_4_4_4_shader :: "(f32 \<Rightarrow> f32) \<Rightarrow> (f32 \<Rightarrow> f32) \<Rightarrow> shader" where
  "r_2_25_32_4_64_4_4_4_shader exp2 fsqrt = FShader (32, 4, 1) (\<lambda>f i. r_2_25_32_4_64_4_4_4 exp2 fsqrt (f 1) (f 2) (f 3) (f 4) (f 5) (f 6))"

lemma r_2_25_32_4_64_4_4_4_stores:
  assumes "gx < 25" "gy < 2" "lx < 32" "ly < 4"
  shows "set (launch (r_2_25_32_4_64_4_4_4 exp2 fsqrt x w m g v b) (gx, gy, 0) (lx, ly, 0)) = tile 4 1 (4 * (4 * 25)) (layer_value exp2 fsqrt (Conv1 400 256) (reads [x, w, m, g, v, b])) (32 * gy + lx) 0 (4 * gx + ly)"
proof -
  have c: "256 = 4 * (64 :: nat)" by simp
  show ?thesis
    unfolding r_2_25_32_4_64_4_4_4_def launch_def Let_def vec_simps for_loop_16 prod.case log2_e_def[symmetric] sigmoid_def[symmetric] silu_def[symmetric]
    by (rule tile_planes, unfold list.map prod.case list.inject prod.inject layer_value.simps reads_simps pointwise_words[OF c] batch_norm_def, intro conjI)
      (simp_all add: arr_def push_bit_eq_mult algebra_simps)
qed

interpretation r_2_25_32_4_64_4_4_4: flat_kernel 32 4 25 2 4 "launch (r_2_25_32_4_64_4_4_4 exp2 fsqrt x w m g v b)"
    "layer_value exp2 fsqrt (Conv1 400 256) (reads [x, w, m, g, v, b])"
  for exp2 fsqrt x w m g v b
  by unfold_locales (rule r_2_25_32_4_64_4_4_4_stores; assumption | simp)+

lemma r_2_25_32_4_64_4_4_4_computes: "computes exp2 fsqrt (r_2_25_32_4_64_4_4_4_shader exp2 fsqrt) (25, 2, 1) (Conv1 400 256) 256 1 400"
  unfolding r_2_25_32_4_64_4_4_4_shader_def by (rule computesI, rule r_2_25_32_4_64_4_4_4.kernel_contract_axioms) (simp, simp only: layer_inputs, simp)

definition r_2_25_32_4_96_4_4_4 :: "(f32 \<Rightarrow> f32) \<Rightarrow> (f32 \<Rightarrow> f32) \<Rightarrow> f32 buf \<Rightarrow> f32 buf \<Rightarrow> f32 buf \<Rightarrow> f32 buf \<Rightarrow> f32 buf \<Rightarrow> f32 buf \<Rightarrow> vec3 \<Rightarrow> vec3 \<Rightarrow> f32 stores" where
  "r_2_25_32_4_96_4_4_4 exp2 fsqrt data1 data2 data3 data4 data5 data6 gindex lindex =
    (let gidx0 = vx gindex;
         gidx1 = vy gindex;
         lidx0 = vx lindex;
         lidx1 = vy lindex;
         precast0 = lidx1;
         precast1 = push_bit 2 precast0;
         cast0 = precast1;
         precast2 = gidx0;
         precast3 = push_bit 4 precast2;
         cast1 = precast3;
         acc0 = (0 :: f32);
         acc1 = (0 :: f32);
         acc2 = (0 :: f32);
         acc3 = (0 :: f32);
         acc4 = (0 :: f32);
         acc5 = (0 :: f32);
         acc6 = (0 :: f32);
         acc7 = (0 :: f32);
         acc8 = (0 :: f32);
         acc9 = (0 :: f32);
         acc10 = (0 :: f32);
         acc11 = (0 :: f32);
         acc12 = (0 :: f32);
         acc13 = (0 :: f32);
         acc14 = (0 :: f32);
         acc15 = (0 :: f32);
         (acc0, acc1, acc2, acc3, acc4, acc5, acc6, acc7,
          acc8, acc9, acc10, acc11, acc12, acc13, acc14, acc15)
          = for_loop 96 (\<lambda>ridx4 (acc0, acc1, acc2, acc3, acc4, acc5, acc6, acc7,
             acc8, acc9, acc10, acc11, acc12, acc13, acc14, acc15).
             let precast4 = ridx4;
                 alu0 = cast1 + cast0 + ridx4 * 1600;
                 val0 = rd data1 alu0;
                 val1 = rd data1 (alu0 + 1);
                 val2 = rd data1 (alu0 + 2);
                 val3 = rd data1 (alu0 + 3);
                 val4 = rd data1 (alu0 + 400);
                 val5 = rd data1 (alu0 + 401);
                 val6 = rd data1 (alu0 + 402);
                 val7 = rd data1 (alu0 + 403);
                 val8 = rd data1 (alu0 + 800);
                 val9 = rd data1 (alu0 + 801);
                 val10 = rd data1 (alu0 + 802);
                 val11 = rd data1 (alu0 + 803);
                 val12 = rd data1 (alu0 + 1200);
                 val13 = rd data1 (alu0 + 1201);
                 val14 = rd data1 (alu0 + 1202);
                 val15 = rd data1 (alu0 + 1203);
                 precast5 = push_bit 2 precast4;
                 alu1 = gidx1 * 49152 + lidx0 * 1536 + precast5;
                 val16 = rd data2 alu1;
                 val17 = rd data2 (alu1 + 1);
                 val18 = rd data2 (alu1 + 2);
                 val19 = rd data2 (alu1 + 3);
                 val20 = rd data2 (alu1 + 384);
                 val21 = rd data2 (alu1 + 385);
                 val22 = rd data2 (alu1 + 386);
                 val23 = rd data2 (alu1 + 387);
                 val24 = rd data2 (alu1 + 768);
                 val25 = rd data2 (alu1 + 769);
                 val26 = rd data2 (alu1 + 770);
                 val27 = rd data2 (alu1 + 771);
                 val28 = rd data2 (alu1 + 1152);
                 val29 = rd data2 (alu1 + 1153);
                 val30 = rd data2 (alu1 + 1154);
                 val31 = rd data2 (alu1 + 1155);
                 acc0 = acc0 + val0 * val16 + val4 * val17 + val8 * val18 + val12 * val19;
                 acc1 = acc1 + val0 * val20 + val4 * val21 + val8 * val22 + val12 * val23;
                 acc2 = acc2 + val0 * val24 + val4 * val25 + val8 * val26 + val12 * val27;
                 acc3 = acc3 + val0 * val28 + val4 * val29 + val8 * val30 + val12 * val31;
                 acc4 = acc4 + val1 * val16 + val5 * val17 + val9 * val18 + val13 * val19;
                 acc5 = acc5 + val1 * val20 + val5 * val21 + val9 * val22 + val13 * val23;
                 acc6 = acc6 + val1 * val24 + val5 * val25 + val9 * val26 + val13 * val27;
                 acc7 = acc7 + val1 * val28 + val5 * val29 + val9 * val30 + val13 * val31;
                 acc8 = acc8 + val2 * val16 + val6 * val17 + val10 * val18 + val14 * val19;
                 acc9 = acc9 + val2 * val20 + val6 * val21 + val10 * val22 + val14 * val23;
                 acc10 = acc10 + val2 * val24 + val6 * val25 + val10 * val26 + val14 * val27;
                 acc11 = acc11 + val2 * val28 + val6 * val29 + val10 * val30 + val14 * val31;
                 acc12 = acc12 + val3 * val16 + val7 * val17 + val11 * val18 + val15 * val19;
                 acc13 = acc13 + val3 * val20 + val7 * val21 + val11 * val22 + val15 * val23;
                 acc14 = acc14 + val3 * val24 + val7 * val25 + val11 * val26 + val15 * val27;
                 acc15 = acc15 + val3 * val28 + val7 * val29 + val11 * val30 + val15 * val31
             in (acc0, acc1, acc2, acc3, acc4, acc5, acc6, acc7,
                 acc8, acc9, acc10, acc11, acc12, acc13, acc14, acc15))
             (acc0, acc1, acc2, acc3, acc4, acc5, acc6, acc7,
              acc8, acc9, acc10, acc11, acc12, acc13, acc14, acc15);
         precast6 = gidx1;
         precast7 = lidx0;
         precast8 = push_bit 7 precast6;
         precast9 = push_bit 2 precast7;
         alu19 = precast8 + precast9;
         val32 = rd data3 alu19;
         val33 = rd data4 alu19;
         val34 = rd data5 alu19;
         val35 = rd data6 alu19;
         alu20 = alu19 + 1;
         val36 = rd data3 alu20;
         val37 = rd data4 alu20;
         val38 = rd data5 alu20;
         val39 = rd data6 alu20;
         alu21 = alu19 + 2;
         val40 = rd data3 alu21;
         val41 = rd data4 alu21;
         val42 = rd data5 alu21;
         val43 = rd data6 alu21;
         alu22 = alu19 + 3;
         val44 = rd data3 alu22;
         val45 = rd data4 alu22;
         val46 = rd data5 alu22;
         val47 = rd data6 alu22;
         alu23 = 1 / (fsqrt (val34 + (lit (1 / 1000))));
         alu24 = 1 / (fsqrt (val38 + (lit (1 / 1000))));
         alu25 = 1 / (fsqrt (val42 + (lit (1 / 1000))));
         alu26 = 1 / (fsqrt (val46 + (lit (1 / 1000))));
         alu27 = cast1 + gidx1 * 51200 + lidx0 * 1600 + cast0;
         alu28 = (acc0 - val32) * val33 * alu23 + val35;
         alu30 = (acc1 - val36) * val37 * alu24 + val39;
         alu32 = (acc2 - val40) * val41 * alu25 + val43;
         alu34 = (acc3 - val44) * val45 * alu26 + val47;
         alu36 = (acc4 - val32) * val33 * alu23 + val35;
         alu38 = (acc5 - val36) * val37 * alu24 + val39;
         alu40 = (acc6 - val40) * val41 * alu25 + val43;
         alu42 = (acc7 - val44) * val45 * alu26 + val47;
         alu44 = (acc8 - val32) * val33 * alu23 + val35;
         alu46 = (acc9 - val36) * val37 * alu24 + val39;
         alu48 = (acc10 - val40) * val41 * alu25 + val43;
         alu50 = (acc11 - val44) * val45 * alu26 + val47;
         alu52 = (acc12 - val32) * val33 * alu23 + val35;
         alu54 = (acc13 - val36) * val37 * alu24 + val39;
         alu56 = (acc14 - val40) * val41 * alu25 + val43;
         alu58 = (acc15 - val44) * val45 * alu26 + val47
     in [(alu27, alu28 * (1 / (1 + (exp2 (alu28 * (- (lit (14426950408889634 / 10000000000000000)))))))),
         (alu27 + 400, alu30 * (1 / (1 + (exp2 (alu30 * (- (lit (14426950408889634 / 10000000000000000)))))))),
         (alu27 + 800, alu32 * (1 / (1 + (exp2 (alu32 * (- (lit (14426950408889634 / 10000000000000000)))))))),
         (alu27 + 1200, alu34 * (1 / (1 + (exp2 (alu34 * (- (lit (14426950408889634 / 10000000000000000)))))))),
         (alu27 + 1, alu36 * (1 / (1 + (exp2 (alu36 * (- (lit (14426950408889634 / 10000000000000000)))))))),
         (alu27 + 401, alu38 * (1 / (1 + (exp2 (alu38 * (- (lit (14426950408889634 / 10000000000000000)))))))),
         (alu27 + 801, alu40 * (1 / (1 + (exp2 (alu40 * (- (lit (14426950408889634 / 10000000000000000)))))))),
         (alu27 + 1201, alu42 * (1 / (1 + (exp2 (alu42 * (- (lit (14426950408889634 / 10000000000000000)))))))),
         (alu27 + 2, alu44 * (1 / (1 + (exp2 (alu44 * (- (lit (14426950408889634 / 10000000000000000)))))))),
         (alu27 + 402, alu46 * (1 / (1 + (exp2 (alu46 * (- (lit (14426950408889634 / 10000000000000000)))))))),
         (alu27 + 802, alu48 * (1 / (1 + (exp2 (alu48 * (- (lit (14426950408889634 / 10000000000000000)))))))),
         (alu27 + 1202, alu50 * (1 / (1 + (exp2 (alu50 * (- (lit (14426950408889634 / 10000000000000000)))))))),
         (alu27 + 3, alu52 * (1 / (1 + (exp2 (alu52 * (- (lit (14426950408889634 / 10000000000000000)))))))),
         (alu27 + 403, alu54 * (1 / (1 + (exp2 (alu54 * (- (lit (14426950408889634 / 10000000000000000)))))))),
         (alu27 + 803, alu56 * (1 / (1 + (exp2 (alu56 * (- (lit (14426950408889634 / 10000000000000000)))))))),
         (alu27 + 1203, alu58 * (1 / (1 + (exp2 (alu58 * (- (lit (14426950408889634 / 10000000000000000))))))))])"

definition r_2_25_32_4_96_4_4_4_shader :: "(f32 \<Rightarrow> f32) \<Rightarrow> (f32 \<Rightarrow> f32) \<Rightarrow> shader" where
  "r_2_25_32_4_96_4_4_4_shader exp2 fsqrt = FShader (32, 4, 1) (\<lambda>f i. r_2_25_32_4_96_4_4_4 exp2 fsqrt (f 1) (f 2) (f 3) (f 4) (f 5) (f 6))"

lemma r_2_25_32_4_96_4_4_4_stores:
  assumes "gx < 25" "gy < 2" "lx < 32" "ly < 4"
  shows "set (launch (r_2_25_32_4_96_4_4_4 exp2 fsqrt x w m g v b) (gx, gy, 0) (lx, ly, 0)) = tile 4 1 (4 * (4 * 25)) (layer_value exp2 fsqrt (Conv1 400 384) (reads [x, w, m, g, v, b])) (32 * gy + lx) 0 (4 * gx + ly)"
proof -
  have c: "384 = 4 * (96 :: nat)" by simp
  show ?thesis
    unfolding r_2_25_32_4_96_4_4_4_def launch_def Let_def vec_simps for_loop_16 prod.case log2_e_def[symmetric] sigmoid_def[symmetric] silu_def[symmetric]
    by (rule tile_planes, unfold list.map prod.case list.inject prod.inject layer_value.simps reads_simps pointwise_words[OF c] batch_norm_def, intro conjI)
      (simp_all add: arr_def push_bit_eq_mult algebra_simps)
qed

interpretation r_2_25_32_4_96_4_4_4: flat_kernel 32 4 25 2 4 "launch (r_2_25_32_4_96_4_4_4 exp2 fsqrt x w m g v b)"
    "layer_value exp2 fsqrt (Conv1 400 384) (reads [x, w, m, g, v, b])"
  for exp2 fsqrt x w m g v b
  by unfold_locales (rule r_2_25_32_4_96_4_4_4_stores; assumption | simp)+

lemma r_2_25_32_4_96_4_4_4_computes: "computes exp2 fsqrt (r_2_25_32_4_96_4_4_4_shader exp2 fsqrt) (25, 2, 1) (Conv1 400 384) 256 1 400"
  unfolding r_2_25_32_4_96_4_4_4_shader_def by (rule computesI, rule r_2_25_32_4_96_4_4_4.kernel_contract_axioms) (simp, simp only: layer_inputs, simp)

definition r_2_25_32_4_128_4_4_4 :: "(f32 \<Rightarrow> f32) \<Rightarrow> (f32 \<Rightarrow> f32) \<Rightarrow> f32 buf \<Rightarrow> f32 buf \<Rightarrow> f32 buf \<Rightarrow> f32 buf \<Rightarrow> f32 buf \<Rightarrow> f32 buf \<Rightarrow> vec3 \<Rightarrow> vec3 \<Rightarrow> f32 stores" where
  "r_2_25_32_4_128_4_4_4 exp2 fsqrt data1 data2 data3 data4 data5 data6 gindex lindex =
    (let gidx0 = vx gindex;
         gidx1 = vy gindex;
         lidx0 = vx lindex;
         lidx1 = vy lindex;
         precast0 = lidx1;
         precast1 = push_bit 2 precast0;
         cast0 = precast1;
         precast2 = gidx0;
         precast3 = push_bit 4 precast2;
         cast1 = precast3;
         precast4 = lidx0;
         cast2 = precast4;
         precast5 = gidx1;
         cast3 = precast5;
         precast6 = push_bit 16 cast3;
         precast7 = push_bit 11 cast2;
         acc0 = (0 :: f32);
         acc1 = (0 :: f32);
         acc2 = (0 :: f32);
         acc3 = (0 :: f32);
         acc4 = (0 :: f32);
         acc5 = (0 :: f32);
         acc6 = (0 :: f32);
         acc7 = (0 :: f32);
         acc8 = (0 :: f32);
         acc9 = (0 :: f32);
         acc10 = (0 :: f32);
         acc11 = (0 :: f32);
         acc12 = (0 :: f32);
         acc13 = (0 :: f32);
         acc14 = (0 :: f32);
         acc15 = (0 :: f32);
         (acc0, acc1, acc2, acc3, acc4, acc5, acc6, acc7,
          acc8, acc9, acc10, acc11, acc12, acc13, acc14, acc15)
          = for_loop 128 (\<lambda>ridx4 (acc0, acc1, acc2, acc3, acc4, acc5, acc6, acc7,
             acc8, acc9, acc10, acc11, acc12, acc13, acc14, acc15).
             let precast8 = ridx4;
                 alu0 = cast1 + cast0 + ridx4 * 1600;
                 val0 = rd data1 alu0;
                 val1 = rd data1 (alu0 + 1);
                 val2 = rd data1 (alu0 + 2);
                 val3 = rd data1 (alu0 + 3);
                 val4 = rd data1 (alu0 + 400);
                 val5 = rd data1 (alu0 + 401);
                 val6 = rd data1 (alu0 + 402);
                 val7 = rd data1 (alu0 + 403);
                 val8 = rd data1 (alu0 + 800);
                 val9 = rd data1 (alu0 + 801);
                 val10 = rd data1 (alu0 + 802);
                 val11 = rd data1 (alu0 + 803);
                 val12 = rd data1 (alu0 + 1200);
                 val13 = rd data1 (alu0 + 1201);
                 val14 = rd data1 (alu0 + 1202);
                 val15 = rd data1 (alu0 + 1203);
                 precast9 = push_bit 2 precast8;
                 alu1 = precast6 + precast7 + precast9;
                 val16 = rd data2 alu1;
                 val17 = rd data2 (alu1 + 1);
                 val18 = rd data2 (alu1 + 2);
                 val19 = rd data2 (alu1 + 3);
                 val20 = rd data2 (alu1 + 512);
                 val21 = rd data2 (alu1 + 513);
                 val22 = rd data2 (alu1 + 514);
                 val23 = rd data2 (alu1 + 515);
                 val24 = rd data2 (alu1 + 1024);
                 val25 = rd data2 (alu1 + 1025);
                 val26 = rd data2 (alu1 + 1026);
                 val27 = rd data2 (alu1 + 1027);
                 val28 = rd data2 (alu1 + 1536);
                 val29 = rd data2 (alu1 + 1537);
                 val30 = rd data2 (alu1 + 1538);
                 val31 = rd data2 (alu1 + 1539);
                 acc0 = acc0 + val0 * val16 + val4 * val17 + val8 * val18 + val12 * val19;
                 acc1 = acc1 + val0 * val20 + val4 * val21 + val8 * val22 + val12 * val23;
                 acc2 = acc2 + val0 * val24 + val4 * val25 + val8 * val26 + val12 * val27;
                 acc3 = acc3 + val0 * val28 + val4 * val29 + val8 * val30 + val12 * val31;
                 acc4 = acc4 + val1 * val16 + val5 * val17 + val9 * val18 + val13 * val19;
                 acc5 = acc5 + val1 * val20 + val5 * val21 + val9 * val22 + val13 * val23;
                 acc6 = acc6 + val1 * val24 + val5 * val25 + val9 * val26 + val13 * val27;
                 acc7 = acc7 + val1 * val28 + val5 * val29 + val9 * val30 + val13 * val31;
                 acc8 = acc8 + val2 * val16 + val6 * val17 + val10 * val18 + val14 * val19;
                 acc9 = acc9 + val2 * val20 + val6 * val21 + val10 * val22 + val14 * val23;
                 acc10 = acc10 + val2 * val24 + val6 * val25 + val10 * val26 + val14 * val27;
                 acc11 = acc11 + val2 * val28 + val6 * val29 + val10 * val30 + val14 * val31;
                 acc12 = acc12 + val3 * val16 + val7 * val17 + val11 * val18 + val15 * val19;
                 acc13 = acc13 + val3 * val20 + val7 * val21 + val11 * val22 + val15 * val23;
                 acc14 = acc14 + val3 * val24 + val7 * val25 + val11 * val26 + val15 * val27;
                 acc15 = acc15 + val3 * val28 + val7 * val29 + val11 * val30 + val15 * val31
             in (acc0, acc1, acc2, acc3, acc4, acc5, acc6, acc7,
                 acc8, acc9, acc10, acc11, acc12, acc13, acc14, acc15))
             (acc0, acc1, acc2, acc3, acc4, acc5, acc6, acc7,
              acc8, acc9, acc10, acc11, acc12, acc13, acc14, acc15);
         precast10 = push_bit 7 cast3;
         precast11 = push_bit 2 cast2;
         alu19 = precast10 + precast11;
         val32 = rd data3 alu19;
         val33 = rd data4 alu19;
         val34 = rd data5 alu19;
         val35 = rd data6 alu19;
         alu20 = alu19 + 1;
         val36 = rd data3 alu20;
         val37 = rd data4 alu20;
         val38 = rd data5 alu20;
         val39 = rd data6 alu20;
         alu21 = alu19 + 2;
         val40 = rd data3 alu21;
         val41 = rd data4 alu21;
         val42 = rd data5 alu21;
         val43 = rd data6 alu21;
         alu22 = alu19 + 3;
         val44 = rd data3 alu22;
         val45 = rd data4 alu22;
         val46 = rd data5 alu22;
         val47 = rd data6 alu22;
         alu23 = 1 / (fsqrt (val34 + (lit (1 / 1000))));
         alu24 = 1 / (fsqrt (val38 + (lit (1 / 1000))));
         alu25 = 1 / (fsqrt (val42 + (lit (1 / 1000))));
         alu26 = 1 / (fsqrt (val46 + (lit (1 / 1000))));
         alu27 = cast1 + gidx1 * 51200 + lidx0 * 1600 + cast0;
         alu28 = (acc0 - val32) * val33 * alu23 + val35;
         alu30 = (acc1 - val36) * val37 * alu24 + val39;
         alu32 = (acc2 - val40) * val41 * alu25 + val43;
         alu34 = (acc3 - val44) * val45 * alu26 + val47;
         alu36 = (acc4 - val32) * val33 * alu23 + val35;
         alu38 = (acc5 - val36) * val37 * alu24 + val39;
         alu40 = (acc6 - val40) * val41 * alu25 + val43;
         alu42 = (acc7 - val44) * val45 * alu26 + val47;
         alu44 = (acc8 - val32) * val33 * alu23 + val35;
         alu46 = (acc9 - val36) * val37 * alu24 + val39;
         alu48 = (acc10 - val40) * val41 * alu25 + val43;
         alu50 = (acc11 - val44) * val45 * alu26 + val47;
         alu52 = (acc12 - val32) * val33 * alu23 + val35;
         alu54 = (acc13 - val36) * val37 * alu24 + val39;
         alu56 = (acc14 - val40) * val41 * alu25 + val43;
         alu58 = (acc15 - val44) * val45 * alu26 + val47
     in [(alu27, alu28 * (1 / (1 + (exp2 (alu28 * (- (lit (14426950408889634 / 10000000000000000)))))))),
         (alu27 + 400, alu30 * (1 / (1 + (exp2 (alu30 * (- (lit (14426950408889634 / 10000000000000000)))))))),
         (alu27 + 800, alu32 * (1 / (1 + (exp2 (alu32 * (- (lit (14426950408889634 / 10000000000000000)))))))),
         (alu27 + 1200, alu34 * (1 / (1 + (exp2 (alu34 * (- (lit (14426950408889634 / 10000000000000000)))))))),
         (alu27 + 1, alu36 * (1 / (1 + (exp2 (alu36 * (- (lit (14426950408889634 / 10000000000000000)))))))),
         (alu27 + 401, alu38 * (1 / (1 + (exp2 (alu38 * (- (lit (14426950408889634 / 10000000000000000)))))))),
         (alu27 + 801, alu40 * (1 / (1 + (exp2 (alu40 * (- (lit (14426950408889634 / 10000000000000000)))))))),
         (alu27 + 1201, alu42 * (1 / (1 + (exp2 (alu42 * (- (lit (14426950408889634 / 10000000000000000)))))))),
         (alu27 + 2, alu44 * (1 / (1 + (exp2 (alu44 * (- (lit (14426950408889634 / 10000000000000000)))))))),
         (alu27 + 402, alu46 * (1 / (1 + (exp2 (alu46 * (- (lit (14426950408889634 / 10000000000000000)))))))),
         (alu27 + 802, alu48 * (1 / (1 + (exp2 (alu48 * (- (lit (14426950408889634 / 10000000000000000)))))))),
         (alu27 + 1202, alu50 * (1 / (1 + (exp2 (alu50 * (- (lit (14426950408889634 / 10000000000000000)))))))),
         (alu27 + 3, alu52 * (1 / (1 + (exp2 (alu52 * (- (lit (14426950408889634 / 10000000000000000)))))))),
         (alu27 + 403, alu54 * (1 / (1 + (exp2 (alu54 * (- (lit (14426950408889634 / 10000000000000000)))))))),
         (alu27 + 803, alu56 * (1 / (1 + (exp2 (alu56 * (- (lit (14426950408889634 / 10000000000000000)))))))),
         (alu27 + 1203, alu58 * (1 / (1 + (exp2 (alu58 * (- (lit (14426950408889634 / 10000000000000000))))))))])"

definition r_2_25_32_4_128_4_4_4_shader :: "(f32 \<Rightarrow> f32) \<Rightarrow> (f32 \<Rightarrow> f32) \<Rightarrow> shader" where
  "r_2_25_32_4_128_4_4_4_shader exp2 fsqrt = FShader (32, 4, 1) (\<lambda>f i. r_2_25_32_4_128_4_4_4 exp2 fsqrt (f 1) (f 2) (f 3) (f 4) (f 5) (f 6))"

lemma r_2_25_32_4_128_4_4_4_stores:
  assumes "gx < 25" "gy < 2" "lx < 32" "ly < 4"
  shows "set (launch (r_2_25_32_4_128_4_4_4 exp2 fsqrt x w m g v b) (gx, gy, 0) (lx, ly, 0)) = tile 4 1 (4 * (4 * 25)) (layer_value exp2 fsqrt (Conv1 400 512) (reads [x, w, m, g, v, b])) (32 * gy + lx) 0 (4 * gx + ly)"
proof -
  have c: "512 = 4 * (128 :: nat)" by simp
  show ?thesis
    unfolding r_2_25_32_4_128_4_4_4_def launch_def Let_def vec_simps for_loop_16 prod.case log2_e_def[symmetric] sigmoid_def[symmetric] silu_def[symmetric]
    by (rule tile_planes, unfold list.map prod.case list.inject prod.inject layer_value.simps reads_simps pointwise_words[OF c] batch_norm_def, intro conjI)
      (simp_all add: arr_def push_bit_eq_mult algebra_simps)
qed

interpretation r_2_25_32_4_128_4_4_4: flat_kernel 32 4 25 2 4 "launch (r_2_25_32_4_128_4_4_4 exp2 fsqrt x w m g v b)"
    "layer_value exp2 fsqrt (Conv1 400 512) (reads [x, w, m, g, v, b])"
  for exp2 fsqrt x w m g v b
  by unfold_locales (rule r_2_25_32_4_128_4_4_4_stores; assumption | simp)+

lemma r_2_25_32_4_128_4_4_4_computes: "computes exp2 fsqrt (r_2_25_32_4_128_4_4_4_shader exp2 fsqrt) (25, 2, 1) (Conv1 400 512) 256 1 400"
  unfolding r_2_25_32_4_128_4_4_4_shader_def by (rule computesI, rule r_2_25_32_4_128_4_4_4.kernel_contract_axioms) (simp, simp only: layer_inputs, simp)

definition r_25_32_4_64_4_4_4 :: "(f32 \<Rightarrow> f32) \<Rightarrow> (f32 \<Rightarrow> f32) \<Rightarrow> f32 buf \<Rightarrow> f32 buf \<Rightarrow> f32 buf \<Rightarrow> f32 buf \<Rightarrow> f32 buf \<Rightarrow> f32 buf \<Rightarrow> vec3 \<Rightarrow> vec3 \<Rightarrow> f32 stores" where
  "r_25_32_4_64_4_4_4 exp2 fsqrt data1 data2 data3 data4 data5 data6 gindex lindex =
    (let gidx0 = vx gindex;
         lidx0 = vx lindex;
         lidx1 = vy lindex;
         precast0 = lidx1;
         precast1 = push_bit 2 precast0;
         cast0 = precast1;
         precast2 = gidx0;
         precast3 = push_bit 4 precast2;
         cast1 = precast3;
         precast4 = lidx0;
         cast2 = precast4;
         precast5 = push_bit 10 cast2;
         acc0 = (0 :: f32);
         acc1 = (0 :: f32);
         acc2 = (0 :: f32);
         acc3 = (0 :: f32);
         acc4 = (0 :: f32);
         acc5 = (0 :: f32);
         acc6 = (0 :: f32);
         acc7 = (0 :: f32);
         acc8 = (0 :: f32);
         acc9 = (0 :: f32);
         acc10 = (0 :: f32);
         acc11 = (0 :: f32);
         acc12 = (0 :: f32);
         acc13 = (0 :: f32);
         acc14 = (0 :: f32);
         acc15 = (0 :: f32);
         (acc0, acc1, acc2, acc3, acc4, acc5, acc6, acc7,
          acc8, acc9, acc10, acc11, acc12, acc13, acc14, acc15)
          = for_loop 64 (\<lambda>ridx3 (acc0, acc1, acc2, acc3, acc4, acc5, acc6, acc7,
             acc8, acc9, acc10, acc11, acc12, acc13, acc14, acc15).
             let precast6 = ridx3;
                 alu0 = cast1 + cast0 + ridx3 * 1600;
                 val0 = rd data1 alu0;
                 val1 = rd data1 (alu0 + 1);
                 val2 = rd data1 (alu0 + 2);
                 val3 = rd data1 (alu0 + 3);
                 val4 = rd data1 (alu0 + 400);
                 val5 = rd data1 (alu0 + 401);
                 val6 = rd data1 (alu0 + 402);
                 val7 = rd data1 (alu0 + 403);
                 val8 = rd data1 (alu0 + 800);
                 val9 = rd data1 (alu0 + 801);
                 val10 = rd data1 (alu0 + 802);
                 val11 = rd data1 (alu0 + 803);
                 val12 = rd data1 (alu0 + 1200);
                 val13 = rd data1 (alu0 + 1201);
                 val14 = rd data1 (alu0 + 1202);
                 val15 = rd data1 (alu0 + 1203);
                 precast7 = push_bit 2 precast6;
                 alu1 = precast5 + precast7;
                 val16 = rd data2 alu1;
                 val17 = rd data2 (alu1 + 1);
                 val18 = rd data2 (alu1 + 2);
                 val19 = rd data2 (alu1 + 3);
                 val20 = rd data2 (alu1 + 256);
                 val21 = rd data2 (alu1 + 257);
                 val22 = rd data2 (alu1 + 258);
                 val23 = rd data2 (alu1 + 259);
                 val24 = rd data2 (alu1 + 512);
                 val25 = rd data2 (alu1 + 513);
                 val26 = rd data2 (alu1 + 514);
                 val27 = rd data2 (alu1 + 515);
                 val28 = rd data2 (alu1 + 768);
                 val29 = rd data2 (alu1 + 769);
                 val30 = rd data2 (alu1 + 770);
                 val31 = rd data2 (alu1 + 771);
                 acc0 = acc0 + val0 * val16 + val4 * val17 + val8 * val18 + val12 * val19;
                 acc1 = acc1 + val0 * val20 + val4 * val21 + val8 * val22 + val12 * val23;
                 acc2 = acc2 + val0 * val24 + val4 * val25 + val8 * val26 + val12 * val27;
                 acc3 = acc3 + val0 * val28 + val4 * val29 + val8 * val30 + val12 * val31;
                 acc4 = acc4 + val1 * val16 + val5 * val17 + val9 * val18 + val13 * val19;
                 acc5 = acc5 + val1 * val20 + val5 * val21 + val9 * val22 + val13 * val23;
                 acc6 = acc6 + val1 * val24 + val5 * val25 + val9 * val26 + val13 * val27;
                 acc7 = acc7 + val1 * val28 + val5 * val29 + val9 * val30 + val13 * val31;
                 acc8 = acc8 + val2 * val16 + val6 * val17 + val10 * val18 + val14 * val19;
                 acc9 = acc9 + val2 * val20 + val6 * val21 + val10 * val22 + val14 * val23;
                 acc10 = acc10 + val2 * val24 + val6 * val25 + val10 * val26 + val14 * val27;
                 acc11 = acc11 + val2 * val28 + val6 * val29 + val10 * val30 + val14 * val31;
                 acc12 = acc12 + val3 * val16 + val7 * val17 + val11 * val18 + val15 * val19;
                 acc13 = acc13 + val3 * val20 + val7 * val21 + val11 * val22 + val15 * val23;
                 acc14 = acc14 + val3 * val24 + val7 * val25 + val11 * val26 + val15 * val27;
                 acc15 = acc15 + val3 * val28 + val7 * val29 + val11 * val30 + val15 * val31
             in (acc0, acc1, acc2, acc3, acc4, acc5, acc6, acc7,
                 acc8, acc9, acc10, acc11, acc12, acc13, acc14, acc15))
             (acc0, acc1, acc2, acc3, acc4, acc5, acc6, acc7,
              acc8, acc9, acc10, acc11, acc12, acc13, acc14, acc15);
         precast8 = push_bit 2 cast2;
         cast3 = precast8;
         val32 = rd data3 cast3;
         val33 = rd data4 cast3;
         val34 = rd data5 cast3;
         val35 = rd data6 cast3;
         alu19 = cast3 + 1;
         val36 = rd data3 alu19;
         val37 = rd data4 alu19;
         val38 = rd data5 alu19;
         val39 = rd data6 alu19;
         alu20 = cast3 + 2;
         val40 = rd data3 alu20;
         val41 = rd data4 alu20;
         val42 = rd data5 alu20;
         val43 = rd data6 alu20;
         alu21 = cast3 + 3;
         val44 = rd data3 alu21;
         val45 = rd data4 alu21;
         val46 = rd data5 alu21;
         val47 = rd data6 alu21;
         alu22 = 1 / (fsqrt (val34 + (lit (1 / 1000))));
         alu23 = 1 / (fsqrt (val38 + (lit (1 / 1000))));
         alu24 = 1 / (fsqrt (val42 + (lit (1 / 1000))));
         alu25 = 1 / (fsqrt (val46 + (lit (1 / 1000))));
         alu26 = cast1 + lidx0 * 1600 + cast0;
         alu27 = (acc0 - val32) * val33 * alu22 + val35;
         alu29 = (acc1 - val36) * val37 * alu23 + val39;
         alu31 = (acc2 - val40) * val41 * alu24 + val43;
         alu33 = (acc3 - val44) * val45 * alu25 + val47;
         alu35 = (acc4 - val32) * val33 * alu22 + val35;
         alu37 = (acc5 - val36) * val37 * alu23 + val39;
         alu39 = (acc6 - val40) * val41 * alu24 + val43;
         alu41 = (acc7 - val44) * val45 * alu25 + val47;
         alu43 = (acc8 - val32) * val33 * alu22 + val35;
         alu45 = (acc9 - val36) * val37 * alu23 + val39;
         alu47 = (acc10 - val40) * val41 * alu24 + val43;
         alu49 = (acc11 - val44) * val45 * alu25 + val47;
         alu51 = (acc12 - val32) * val33 * alu22 + val35;
         alu53 = (acc13 - val36) * val37 * alu23 + val39;
         alu55 = (acc14 - val40) * val41 * alu24 + val43;
         alu57 = (acc15 - val44) * val45 * alu25 + val47
     in [(alu26, alu27 * (1 / (1 + (exp2 (alu27 * (- (lit (14426950408889634 / 10000000000000000)))))))),
         (alu26 + 400, alu29 * (1 / (1 + (exp2 (alu29 * (- (lit (14426950408889634 / 10000000000000000)))))))),
         (alu26 + 800, alu31 * (1 / (1 + (exp2 (alu31 * (- (lit (14426950408889634 / 10000000000000000)))))))),
         (alu26 + 1200, alu33 * (1 / (1 + (exp2 (alu33 * (- (lit (14426950408889634 / 10000000000000000)))))))),
         (alu26 + 1, alu35 * (1 / (1 + (exp2 (alu35 * (- (lit (14426950408889634 / 10000000000000000)))))))),
         (alu26 + 401, alu37 * (1 / (1 + (exp2 (alu37 * (- (lit (14426950408889634 / 10000000000000000)))))))),
         (alu26 + 801, alu39 * (1 / (1 + (exp2 (alu39 * (- (lit (14426950408889634 / 10000000000000000)))))))),
         (alu26 + 1201, alu41 * (1 / (1 + (exp2 (alu41 * (- (lit (14426950408889634 / 10000000000000000)))))))),
         (alu26 + 2, alu43 * (1 / (1 + (exp2 (alu43 * (- (lit (14426950408889634 / 10000000000000000)))))))),
         (alu26 + 402, alu45 * (1 / (1 + (exp2 (alu45 * (- (lit (14426950408889634 / 10000000000000000)))))))),
         (alu26 + 802, alu47 * (1 / (1 + (exp2 (alu47 * (- (lit (14426950408889634 / 10000000000000000)))))))),
         (alu26 + 1202, alu49 * (1 / (1 + (exp2 (alu49 * (- (lit (14426950408889634 / 10000000000000000)))))))),
         (alu26 + 3, alu51 * (1 / (1 + (exp2 (alu51 * (- (lit (14426950408889634 / 10000000000000000)))))))),
         (alu26 + 403, alu53 * (1 / (1 + (exp2 (alu53 * (- (lit (14426950408889634 / 10000000000000000)))))))),
         (alu26 + 803, alu55 * (1 / (1 + (exp2 (alu55 * (- (lit (14426950408889634 / 10000000000000000)))))))),
         (alu26 + 1203, alu57 * (1 / (1 + (exp2 (alu57 * (- (lit (14426950408889634 / 10000000000000000))))))))])"

definition r_25_32_4_64_4_4_4_shader :: "(f32 \<Rightarrow> f32) \<Rightarrow> (f32 \<Rightarrow> f32) \<Rightarrow> shader" where
  "r_25_32_4_64_4_4_4_shader exp2 fsqrt = FShader (32, 4, 1) (\<lambda>f i. r_25_32_4_64_4_4_4 exp2 fsqrt (f 1) (f 2) (f 3) (f 4) (f 5) (f 6))"

lemma r_25_32_4_64_4_4_4_stores:
  assumes "gx < 25" "gy < 1" "lx < 32" "ly < 4"
  shows "set (launch (r_25_32_4_64_4_4_4 exp2 fsqrt x w m g v b) (gx, gy, 0) (lx, ly, 0)) = tile 4 1 (4 * (4 * 25)) (layer_value exp2 fsqrt (Conv1 400 256) (reads [x, w, m, g, v, b])) (32 * gy + lx) 0 (4 * gx + ly)"
proof -
  have zgy: "gy = 0" using assms(2) by simp
  have c: "256 = 4 * (64 :: nat)" by simp
  show ?thesis
    unfolding zgy r_25_32_4_64_4_4_4_def launch_def Let_def vec_simps for_loop_16 prod.case log2_e_def[symmetric] sigmoid_def[symmetric] silu_def[symmetric]
    by (rule tile_planes, unfold list.map prod.case list.inject prod.inject layer_value.simps reads_simps pointwise_words[OF c] batch_norm_def, intro conjI)
      (simp_all add: arr_def push_bit_eq_mult algebra_simps)
qed

interpretation r_25_32_4_64_4_4_4: flat_kernel 32 4 25 1 4 "launch (r_25_32_4_64_4_4_4 exp2 fsqrt x w m g v b)"
    "layer_value exp2 fsqrt (Conv1 400 256) (reads [x, w, m, g, v, b])"
  for exp2 fsqrt x w m g v b
  by unfold_locales (rule r_25_32_4_64_4_4_4_stores; assumption | simp)+

lemma r_25_32_4_64_4_4_4_computes: "computes exp2 fsqrt (r_25_32_4_64_4_4_4_shader exp2 fsqrt) (25, 1, 1) (Conv1 400 256) 128 1 400"
  unfolding r_25_32_4_64_4_4_4_shader_def by (rule computesI, rule r_25_32_4_64_4_4_4.kernel_contract_axioms) (simp, simp only: layer_inputs, simp)

end
