(* ===== verification/Logits.thy ===== *)
theory Logits
  imports Layers
begin

text \<open>
  The last 1x1 convolutions of each branch of \<open>server/cherum/static/net.js\<close>, with a bias only: they
  give the logits of the box sides (64 planes) and of the 59 classes on the three grids.
  Each kernel is followed by its shader and by the stores of one invocation: the tile of the layer.
\<close>

definition r_2_100_8_16_16_4_4_4n1 :: "f32 buf \<Rightarrow> f32 buf \<Rightarrow> f32 buf \<Rightarrow> vec3 \<Rightarrow> vec3 \<Rightarrow> f32 stores" where
  "r_2_100_8_16_16_4_4_4n1 data1 data2 data3 gindex lindex =
    (let gidx0 = vx gindex;
         gidx1 = vy gindex;
         lidx0 = vx lindex;
         lidx1 = vy lindex;
         precast0 = lidx1;
         precast1 = push_bit 2 precast0;
         cast0 = precast1;
         precast2 = gidx0;
         precast3 = push_bit 6 precast2;
         cast1 = precast3;
         precast4 = lidx0;
         cast2 = precast4;
         precast5 = gidx1;
         cast3 = precast5;
         precast6 = push_bit 11 cast3;
         precast7 = push_bit 8 cast2;
         acc0 = (0 :: f32);
         acc1 = (0 :: f32);
         acc2 = (0 :: f32);
         acc3 = (0 :: f32);
         acc4 = (0 :: f32);
         acc5 = (0 :: f32);
         acc6 = (0 :: f32);
         acc7 = (0 :: f32);
         acc8 = (0 :: f32);
         acc9 = (0 :: f32);
         acc10 = (0 :: f32);
         acc11 = (0 :: f32);
         acc12 = (0 :: f32);
         acc13 = (0 :: f32);
         acc14 = (0 :: f32);
         acc15 = (0 :: f32);
         (acc0, acc1, acc2, acc3, acc4, acc5, acc6, acc7,
          acc8, acc9, acc10, acc11, acc12, acc13, acc14, acc15)
          = for_loop 16 (\<lambda>ridx4 (acc0, acc1, acc2, acc3, acc4, acc5, acc6, acc7,
             acc8, acc9, acc10, acc11, acc12, acc13, acc14, acc15).
             let precast8 = ridx4;
                 alu0 = cast1 + cast0 + ridx4 * 25600;
                 val0 = rd data1 alu0;
                 val1 = rd data1 (alu0 + 1);
                 val2 = rd data1 (alu0 + 2);
                 val3 = rd data1 (alu0 + 3);
                 val4 = rd data1 (alu0 + 6400);
                 val5 = rd data1 (alu0 + 6401);
                 val6 = rd data1 (alu0 + 6402);
                 val7 = rd data1 (alu0 + 6403);
                 val8 = rd data1 (alu0 + 12800);
                 val9 = rd data1 (alu0 + 12801);
                 val10 = rd data1 (alu0 + 12802);
                 val11 = rd data1 (alu0 + 12803);
                 val12 = rd data1 (alu0 + 19200);
                 val13 = rd data1 (alu0 + 19201);
                 val14 = rd data1 (alu0 + 19202);
                 val15 = rd data1 (alu0 + 19203);
                 precast9 = push_bit 2 precast8;
                 alu1 = precast6 + precast7 + precast9;
                 val16 = rd data2 alu1;
                 val17 = rd data2 (alu1 + 1);
                 val18 = rd data2 (alu1 + 2);
                 val19 = rd data2 (alu1 + 3);
                 val20 = rd data2 (alu1 + 64);
                 val21 = rd data2 (alu1 + 65);
                 val22 = rd data2 (alu1 + 66);
                 val23 = rd data2 (alu1 + 67);
                 val24 = rd data2 (alu1 + 128);
                 val25 = rd data2 (alu1 + 129);
                 val26 = rd data2 (alu1 + 130);
                 val27 = rd data2 (alu1 + 131);
                 val28 = rd data2 (alu1 + 192);
                 val29 = rd data2 (alu1 + 193);
                 val30 = rd data2 (alu1 + 194);
                 val31 = rd data2 (alu1 + 195);
                 acc0 = acc0 + val0 * val16 + val4 * val17 + val8 * val18 + val12 * val19;
                 acc1 = acc1 + val0 * val20 + val4 * val21 + val8 * val22 + val12 * val23;
                 acc2 = acc2 + val0 * val24 + val4 * val25 + val8 * val26 + val12 * val27;
                 acc3 = acc3 + val0 * val28 + val4 * val29 + val8 * val30 + val12 * val31;
                 acc4 = acc4 + val1 * val16 + val5 * val17 + val9 * val18 + val13 * val19;
                 acc5 = acc5 + val1 * val20 + val5 * val21 + val9 * val22 + val13 * val23;
                 acc6 = acc6 + val1 * val24 + val5 * val25 + val9 * val26 + val13 * val27;
                 acc7 = acc7 + val1 * val28 + val5 * val29 + val9 * val30 + val13 * val31;
                 acc8 = acc8 + val2 * val16 + val6 * val17 + val10 * val18 + val14 * val19;
                 acc9 = acc9 + val2 * val20 + val6 * val21 + val10 * val22 + val14 * val23;
                 acc10 = acc10 + val2 * val24 + val6 * val25 + val10 * val26 + val14 * val27;
                 acc11 = acc11 + val2 * val28 + val6 * val29 + val10 * val30 + val14 * val31;
                 acc12 = acc12 + val3 * val16 + val7 * val17 + val11 * val18 + val15 * val19;
                 acc13 = acc13 + val3 * val20 + val7 * val21 + val11 * val22 + val15 * val23;
                 acc14 = acc14 + val3 * val24 + val7 * val25 + val11 * val26 + val15 * val27;
                 acc15 = acc15 + val3 * val28 + val7 * val29 + val11 * val30 + val15 * val31
             in (acc0, acc1, acc2, acc3, acc4, acc5, acc6, acc7,
                 acc8, acc9, acc10, acc11, acc12, acc13, acc14, acc15))
             (acc0, acc1, acc2, acc3, acc4, acc5, acc6, acc7,
              acc8, acc9, acc10, acc11, acc12, acc13, acc14, acc15);
         precast10 = push_bit 5 cast3;
         precast11 = push_bit 2 cast2;
         alu19 = precast10 + precast11;
         val32 = rd data3 alu19;
         val33 = rd data3 (alu19 + 1);
         val34 = rd data3 (alu19 + 2);
         val35 = rd data3 (alu19 + 3);
         alu20 = cast1 + gidx1 * 204800 + lidx0 * 25600 + cast0
     in [(alu20, acc0 + val32),
         (alu20 + 1, acc4 + val32),
         (alu20 + 2, acc8 + val32),
         (alu20 + 3, acc12 + val32),
         (alu20 + 6400, acc1 + val33),
         (alu20 + 6401, acc5 + val33),
         (alu20 + 6402, acc9 + val33),
         (alu20 + 6403, acc13 + val33),
         (alu20 + 12800, acc2 + val34),
         (alu20 + 12801, acc6 + val34),
         (alu20 + 12802, acc10 + val34),
         (alu20 + 12803, acc14 + val34),
         (alu20 + 19200, acc3 + val35),
         (alu20 + 19201, acc7 + val35),
         (alu20 + 19202, acc11 + val35),
         (alu20 + 19203, acc15 + val35)])"

definition r_2_100_8_16_16_4_4_4n1_shader :: "shader" where
  "r_2_100_8_16_16_4_4_4n1_shader = FShader (8, 16, 1) (\<lambda>f i. r_2_100_8_16_16_4_4_4n1 (f 1) (f 2) (f 3))"

lemma r_2_100_8_16_16_4_4_4n1_stores:
  assumes "gx < 100" "gy < 2" "lx < 8" "ly < 16"
  shows "set (launch (r_2_100_8_16_16_4_4_4n1 x w b) (gx, gy, 0) (lx, ly, 0)) = tile 4 1 (4 * (16 * 100)) (layer_value exp2 fsqrt (Linear 6400 64) (reads [x, w, b])) (8 * gy + lx) 0 (16 * gx + ly)"
proof -
  have c: "64 = 4 * (16 :: nat)" by simp
  show ?thesis
    unfolding r_2_100_8_16_16_4_4_4n1_def launch_def Let_def vec_simps for_loop_16 prod.case
    by (rule tile_columns, unfold list.map prod.case list.inject prod.inject layer_value.simps reads_simps pointwise_words[OF c], intro conjI)
      (simp_all add: arr_def push_bit_eq_mult algebra_simps)
qed

interpretation r_2_100_8_16_16_4_4_4n1: flat_kernel 8 16 100 2 4 "launch (r_2_100_8_16_16_4_4_4n1 x w b)"
    "layer_value exp2 fsqrt (Linear 6400 64) (reads [x, w, b])"
  for exp2 fsqrt x w b
  by unfold_locales (rule r_2_100_8_16_16_4_4_4n1_stores; assumption | simp)+

lemma r_2_100_8_16_16_4_4_4n1_computes: "computes exp2 fsqrt r_2_100_8_16_16_4_4_4n1_shader (100, 2, 1) (Linear 6400 64) 64 1 6400"
  unfolding r_2_100_8_16_16_4_4_4n1_shader_def by (rule computesI, rule r_2_100_8_16_16_4_4_4n1.kernel_contract_axioms) (simp, simp only: layer_inputs, simp)

definition r_59_100_16_16_4_4 :: "f32 buf \<Rightarrow> f32 buf \<Rightarrow> f32 buf \<Rightarrow> vec3 \<Rightarrow> vec3 \<Rightarrow> f32 stores" where
  "r_59_100_16_16_4_4 data1 data2 data3 gindex lindex =
    (let gidx0 = vx gindex;
         gidx1 = vy gindex;
         lidx0 = vx lindex;
         precast0 = lidx0;
         precast1 = push_bit 2 precast0;
         cast0 = precast1;
         precast2 = gidx0;
         precast3 = push_bit 6 precast2;
         cast1 = precast3;
         precast4 = gidx1;
         precast5 = push_bit 6 precast4;
         acc0 = (0 :: f32);
         acc1 = (0 :: f32);
         acc2 = (0 :: f32);
         acc3 = (0 :: f32);
         (acc0, acc1, acc2, acc3) = for_loop 16 (\<lambda>ridx3 (acc0, acc1, acc2, acc3).
             let precast6 = ridx3;
                 alu0 = cast1 + cast0 + ridx3 * 25600;
                 val0 = rd data1 alu0;
                 val1 = rd data1 (alu0 + 1);
                 val2 = rd data1 (alu0 + 2);
                 val3 = rd data1 (alu0 + 3);
                 val4 = rd data1 (alu0 + 6400);
                 val5 = rd data1 (alu0 + 6401);
                 val6 = rd data1 (alu0 + 6402);
                 val7 = rd data1 (alu0 + 6403);
                 val8 = rd data1 (alu0 + 12800);
                 val9 = rd data1 (alu0 + 12801);
                 val10 = rd data1 (alu0 + 12802);
                 val11 = rd data1 (alu0 + 12803);
                 val12 = rd data1 (alu0 + 19200);
                 val13 = rd data1 (alu0 + 19201);
                 val14 = rd data1 (alu0 + 19202);
                 val15 = rd data1 (alu0 + 19203);
                 precast7 = push_bit 2 precast6;
                 alu1 = precast5 + precast7;
                 val16 = rd data2 alu1;
                 val17 = rd data2 (alu1 + 1);
                 val18 = rd data2 (alu1 + 2);
                 val19 = rd data2 (alu1 + 3);
                 acc0 = acc0 + val0 * val16 + val4 * val17 + val8 * val18 + val12 * val19;
                 acc1 = acc1 + val1 * val16 + val5 * val17 + val9 * val18 + val13 * val19;
                 acc2 = acc2 + val2 * val16 + val6 * val17 + val10 * val18 + val14 * val19;
                 acc3 = acc3 + val3 * val16 + val7 * val17 + val11 * val18 + val15 * val19
             in (acc0, acc1, acc2, acc3)) (acc0, acc1, acc2, acc3);
         val20 = rd data3 gidx1;
         alu7 = cast1 + gidx1 * 6400 + cast0
     in [(alu7, acc0 + val20),
         (alu7 + 1, acc1 + val20),
         (alu7 + 2, acc2 + val20),
         (alu7 + 3, acc3 + val20)])"

definition r_59_100_16_16_4_4_shader :: "shader" where
  "r_59_100_16_16_4_4_shader = FShader (16, 1, 1) (\<lambda>f i. r_59_100_16_16_4_4 (f 1) (f 2) (f 3))"

lemma r_59_100_16_16_4_4_stores:
  assumes "gx < 100" "gy < 59" "lx < 16"
  shows "set (launch (r_59_100_16_16_4_4 x w b) (gx, gy, 0) (lx, 0, 0)) = tile 1 1 (4 * (16 * 100)) (layer_value exp2 fsqrt (Linear 6400 64) (reads [x, w, b])) gy 0 (16 * gx + lx)"
proof -
  have c: "64 = 4 * (16 :: nat)" by simp
  show ?thesis
    unfolding r_59_100_16_16_4_4_def launch_def Let_def vec_simps for_loop_4 prod.case
    by (rule tile_plane, unfold list.map prod.case list.inject prod.inject layer_value.simps reads_simps pointwise_words[OF c], intro conjI)
      (simp_all add: arr_def push_bit_eq_mult algebra_simps)
qed

interpretation r_59_100_16_16_4_4: strip_kernel 16 100 59 1 "launch (r_59_100_16_16_4_4 x w b)"
    "layer_value exp2 fsqrt (Linear 6400 64) (reads [x, w, b])"
  for exp2 fsqrt x w b
  by unfold_locales (rule r_59_100_16_16_4_4_stores; assumption | simp)+

lemma r_59_100_16_16_4_4_computes: "computes exp2 fsqrt r_59_100_16_16_4_4_shader (100, 59, 1) (Linear 6400 64) 59 1 6400"
  unfolding r_59_100_16_16_4_4_shader_def by (rule computesI, rule r_59_100_16_16_4_4.kernel_contract_axioms) (simp, simp only: layer_inputs, simp)

definition r_2_25_8_16_16_4_4_4 :: "f32 buf \<Rightarrow> f32 buf \<Rightarrow> f32 buf \<Rightarrow> vec3 \<Rightarrow> vec3 \<Rightarrow> f32 stores" where
  "r_2_25_8_16_16_4_4_4 data1 data2 data3 gindex lindex =
    (let gidx0 = vx gindex;
         gidx1 = vy gindex;
         lidx0 = vx lindex;
         lidx1 = vy lindex;
         precast0 = lidx1;
         precast1 = push_bit 2 precast0;
         cast0 = precast1;
         precast2 = gidx0;
         precast3 = push_bit 6 precast2;
         cast1 = precast3;
         precast4 = lidx0;
         cast2 = precast4;
         precast5 = gidx1;
         cast3 = precast5;
         precast6 = push_bit 11 cast3;
         precast7 = push_bit 8 cast2;
         acc0 = (0 :: f32);
         acc1 = (0 :: f32);
         acc2 = (0 :: f32);
         acc3 = (0 :: f32);
         acc4 = (0 :: f32);
         acc5 = (0 :: f32);
         acc6 = (0 :: f32);
         acc7 = (0 :: f32);
         acc8 = (0 :: f32);
         acc9 = (0 :: f32);
         acc10 = (0 :: f32);
         acc11 = (0 :: f32);
         acc12 = (0 :: f32);
         acc13 = (0 :: f32);
         acc14 = (0 :: f32);
         acc15 = (0 :: f32);
         (acc0, acc1, acc2, acc3, acc4, acc5, acc6, acc7,
          acc8, acc9, acc10, acc11, acc12, acc13, acc14, acc15)
          = for_loop 16 (\<lambda>ridx4 (acc0, acc1, acc2, acc3, acc4, acc5, acc6, acc7,
             acc8, acc9, acc10, acc11, acc12, acc13, acc14, acc15).
             let precast8 = ridx4;
                 alu0 = cast1 + cast0 + ridx4 * 6400;
                 val0 = rd data1 alu0;
                 val1 = rd data1 (alu0 + 1);
                 val2 = rd data1 (alu0 + 2);
                 val3 = rd data1 (alu0 + 3);
                 val4 = rd data1 (alu0 + 1600);
                 val5 = rd data1 (alu0 + 1601);
                 val6 = rd data1 (alu0 + 1602);
                 val7 = rd data1 (alu0 + 1603);
                 val8 = rd data1 (alu0 + 3200);
                 val9 = rd data1 (alu0 + 3201);
                 val10 = rd data1 (alu0 + 3202);
                 val11 = rd data1 (alu0 + 3203);
                 val12 = rd data1 (alu0 + 4800);
                 val13 = rd data1 (alu0 + 4801);
                 val14 = rd data1 (alu0 + 4802);
                 val15 = rd data1 (alu0 + 4803);
                 precast9 = push_bit 2 precast8;
                 alu1 = precast6 + precast7 + precast9;
                 val16 = rd data2 alu1;
                 val17 = rd data2 (alu1 + 1);
                 val18 = rd data2 (alu1 + 2);
                 val19 = rd data2 (alu1 + 3);
                 val20 = rd data2 (alu1 + 64);
                 val21 = rd data2 (alu1 + 65);
                 val22 = rd data2 (alu1 + 66);
                 val23 = rd data2 (alu1 + 67);
                 val24 = rd data2 (alu1 + 128);
                 val25 = rd data2 (alu1 + 129);
                 val26 = rd data2 (alu1 + 130);
                 val27 = rd data2 (alu1 + 131);
                 val28 = rd data2 (alu1 + 192);
                 val29 = rd data2 (alu1 + 193);
                 val30 = rd data2 (alu1 + 194);
                 val31 = rd data2 (alu1 + 195);
                 acc0 = acc0 + val0 * val16 + val4 * val17 + val8 * val18 + val12 * val19;
                 acc1 = acc1 + val0 * val20 + val4 * val21 + val8 * val22 + val12 * val23;
                 acc2 = acc2 + val0 * val24 + val4 * val25 + val8 * val26 + val12 * val27;
                 acc3 = acc3 + val0 * val28 + val4 * val29 + val8 * val30 + val12 * val31;
                 acc4 = acc4 + val1 * val16 + val5 * val17 + val9 * val18 + val13 * val19;
                 acc5 = acc5 + val1 * val20 + val5 * val21 + val9 * val22 + val13 * val23;
                 acc6 = acc6 + val1 * val24 + val5 * val25 + val9 * val26 + val13 * val27;
                 acc7 = acc7 + val1 * val28 + val5 * val29 + val9 * val30 + val13 * val31;
                 acc8 = acc8 + val2 * val16 + val6 * val17 + val10 * val18 + val14 * val19;
                 acc9 = acc9 + val2 * val20 + val6 * val21 + val10 * val22 + val14 * val23;
                 acc10 = acc10 + val2 * val24 + val6 * val25 + val10 * val26 + val14 * val27;
                 acc11 = acc11 + val2 * val28 + val6 * val29 + val10 * val30 + val14 * val31;
                 acc12 = acc12 + val3 * val16 + val7 * val17 + val11 * val18 + val15 * val19;
                 acc13 = acc13 + val3 * val20 + val7 * val21 + val11 * val22 + val15 * val23;
                 acc14 = acc14 + val3 * val24 + val7 * val25 + val11 * val26 + val15 * val27;
                 acc15 = acc15 + val3 * val28 + val7 * val29 + val11 * val30 + val15 * val31
             in (acc0, acc1, acc2, acc3, acc4, acc5, acc6, acc7,
                 acc8, acc9, acc10, acc11, acc12, acc13, acc14, acc15))
             (acc0, acc1, acc2, acc3, acc4, acc5, acc6, acc7,
              acc8, acc9, acc10, acc11, acc12, acc13, acc14, acc15);
         precast10 = push_bit 5 cast3;
         precast11 = push_bit 2 cast2;
         alu19 = precast10 + precast11;
         val32 = rd data3 alu19;
         val33 = rd data3 (alu19 + 1);
         val34 = rd data3 (alu19 + 2);
         val35 = rd data3 (alu19 + 3);
         alu20 = cast1 + gidx1 * 51200 + lidx0 * 6400 + cast0
     in [(alu20, acc0 + val32),
         (alu20 + 1, acc4 + val32),
         (alu20 + 2, acc8 + val32),
         (alu20 + 3, acc12 + val32),
         (alu20 + 1600, acc1 + val33),
         (alu20 + 1601, acc5 + val33),
         (alu20 + 1602, acc9 + val33),
         (alu20 + 1603, acc13 + val33),
         (alu20 + 3200, acc2 + val34),
         (alu20 + 3201, acc6 + val34),
         (alu20 + 3202, acc10 + val34),
         (alu20 + 3203, acc14 + val34),
         (alu20 + 4800, acc3 + val35),
         (alu20 + 4801, acc7 + val35),
         (alu20 + 4802, acc11 + val35),
         (alu20 + 4803, acc15 + val35)])"

definition r_2_25_8_16_16_4_4_4_shader :: "shader" where
  "r_2_25_8_16_16_4_4_4_shader = FShader (8, 16, 1) (\<lambda>f i. r_2_25_8_16_16_4_4_4 (f 1) (f 2) (f 3))"

lemma r_2_25_8_16_16_4_4_4_stores:
  assumes "gx < 25" "gy < 2" "lx < 8" "ly < 16"
  shows "set (launch (r_2_25_8_16_16_4_4_4 x w b) (gx, gy, 0) (lx, ly, 0)) = tile 4 1 (4 * (16 * 25)) (layer_value exp2 fsqrt (Linear 1600 64) (reads [x, w, b])) (8 * gy + lx) 0 (16 * gx + ly)"
proof -
  have c: "64 = 4 * (16 :: nat)" by simp
  show ?thesis
    unfolding r_2_25_8_16_16_4_4_4_def launch_def Let_def vec_simps for_loop_16 prod.case
    by (rule tile_columns, unfold list.map prod.case list.inject prod.inject layer_value.simps reads_simps pointwise_words[OF c], intro conjI)
      (simp_all add: arr_def push_bit_eq_mult algebra_simps)
qed

interpretation r_2_25_8_16_16_4_4_4: flat_kernel 8 16 25 2 4 "launch (r_2_25_8_16_16_4_4_4 x w b)"
    "layer_value exp2 fsqrt (Linear 1600 64) (reads [x, w, b])"
  for exp2 fsqrt x w b
  by unfold_locales (rule r_2_25_8_16_16_4_4_4_stores; assumption | simp)+

lemma r_2_25_8_16_16_4_4_4_computes: "computes exp2 fsqrt r_2_25_8_16_16_4_4_4_shader (25, 2, 1) (Linear 1600 64) 64 1 1600"
  unfolding r_2_25_8_16_16_4_4_4_shader_def by (rule computesI, rule r_2_25_8_16_16_4_4_4.kernel_contract_axioms) (simp, simp only: layer_inputs, simp)

definition r_59_25_16_16_4_4 :: "f32 buf \<Rightarrow> f32 buf \<Rightarrow> f32 buf \<Rightarrow> vec3 \<Rightarrow> vec3 \<Rightarrow> f32 stores" where
  "r_59_25_16_16_4_4 data1 data2 data3 gindex lindex =
    (let gidx0 = vx gindex;
         gidx1 = vy gindex;
         lidx0 = vx lindex;
         precast0 = lidx0;
         precast1 = push_bit 2 precast0;
         cast0 = precast1;
         precast2 = gidx0;
         precast3 = push_bit 6 precast2;
         cast1 = precast3;
         precast4 = gidx1;
         precast5 = push_bit 6 precast4;
         acc0 = (0 :: f32);
         acc1 = (0 :: f32);
         acc2 = (0 :: f32);
         acc3 = (0 :: f32);
         (acc0, acc1, acc2, acc3) = for_loop 16 (\<lambda>ridx3 (acc0, acc1, acc2, acc3).
             let precast6 = ridx3;
                 alu0 = cast1 + cast0 + ridx3 * 6400;
                 val0 = rd data1 alu0;
                 val1 = rd data1 (alu0 + 1);
                 val2 = rd data1 (alu0 + 2);
                 val3 = rd data1 (alu0 + 3);
                 val4 = rd data1 (alu0 + 1600);
                 val5 = rd data1 (alu0 + 1601);
                 val6 = rd data1 (alu0 + 1602);
                 val7 = rd data1 (alu0 + 1603);
                 val8 = rd data1 (alu0 + 3200);
                 val9 = rd data1 (alu0 + 3201);
                 val10 = rd data1 (alu0 + 3202);
                 val11 = rd data1 (alu0 + 3203);
                 val12 = rd data1 (alu0 + 4800);
                 val13 = rd data1 (alu0 + 4801);
                 val14 = rd data1 (alu0 + 4802);
                 val15 = rd data1 (alu0 + 4803);
                 precast7 = push_bit 2 precast6;
                 alu1 = precast5 + precast7;
                 val16 = rd data2 alu1;
                 val17 = rd data2 (alu1 + 1);
                 val18 = rd data2 (alu1 + 2);
                 val19 = rd data2 (alu1 + 3);
                 acc0 = acc0 + val0 * val16 + val4 * val17 + val8 * val18 + val12 * val19;
                 acc1 = acc1 + val1 * val16 + val5 * val17 + val9 * val18 + val13 * val19;
                 acc2 = acc2 + val2 * val16 + val6 * val17 + val10 * val18 + val14 * val19;
                 acc3 = acc3 + val3 * val16 + val7 * val17 + val11 * val18 + val15 * val19
             in (acc0, acc1, acc2, acc3)) (acc0, acc1, acc2, acc3);
         val20 = rd data3 gidx1;
         alu7 = cast1 + gidx1 * 1600 + cast0
     in [(alu7, acc0 + val20),
         (alu7 + 1, acc1 + val20),
         (alu7 + 2, acc2 + val20),
         (alu7 + 3, acc3 + val20)])"

definition r_59_25_16_16_4_4_shader :: "shader" where
  "r_59_25_16_16_4_4_shader = FShader (16, 1, 1) (\<lambda>f i. r_59_25_16_16_4_4 (f 1) (f 2) (f 3))"

lemma r_59_25_16_16_4_4_stores:
  assumes "gx < 25" "gy < 59" "lx < 16"
  shows "set (launch (r_59_25_16_16_4_4 x w b) (gx, gy, 0) (lx, 0, 0)) = tile 1 1 (4 * (16 * 25)) (layer_value exp2 fsqrt (Linear 1600 64) (reads [x, w, b])) gy 0 (16 * gx + lx)"
proof -
  have c: "64 = 4 * (16 :: nat)" by simp
  show ?thesis
    unfolding r_59_25_16_16_4_4_def launch_def Let_def vec_simps for_loop_4 prod.case
    by (rule tile_plane, unfold list.map prod.case list.inject prod.inject layer_value.simps reads_simps pointwise_words[OF c], intro conjI)
      (simp_all add: arr_def push_bit_eq_mult algebra_simps)
qed

interpretation r_59_25_16_16_4_4: strip_kernel 16 25 59 1 "launch (r_59_25_16_16_4_4 x w b)"
    "layer_value exp2 fsqrt (Linear 1600 64) (reads [x, w, b])"
  for exp2 fsqrt x w b
  by unfold_locales (rule r_59_25_16_16_4_4_stores; assumption | simp)+

lemma r_59_25_16_16_4_4_computes: "computes exp2 fsqrt r_59_25_16_16_4_4_shader (25, 59, 1) (Linear 1600 64) 59 1 1600"
  unfolding r_59_25_16_16_4_4_shader_def by (rule computesI, rule r_59_25_16_16_4_4.kernel_contract_axioms) (simp, simp only: layer_inputs, simp)

definition r_25_16_4_16_4_4_4 :: "f32 buf \<Rightarrow> f32 buf \<Rightarrow> f32 buf \<Rightarrow> vec3 \<Rightarrow> vec3 \<Rightarrow> f32 stores" where
  "r_25_16_4_16_4_4_4 data1 data2 data3 gindex lindex =
    (let gidx0 = vx gindex;
         lidx0 = vx lindex;
         lidx1 = vy lindex;
         precast0 = lidx1;
         precast1 = push_bit 2 precast0;
         cast0 = precast1;
         precast2 = gidx0;
         precast3 = push_bit 4 precast2;
         cast1 = precast3;
         precast4 = lidx0;
         cast2 = precast4;
         precast5 = push_bit 8 cast2;
         acc0 = (0 :: f32);
         acc1 = (0 :: f32);
         acc2 = (0 :: f32);
         acc3 = (0 :: f32);
         acc4 = (0 :: f32);
         acc5 = (0 :: f32);
         acc6 = (0 :: f32);
         acc7 = (0 :: f32);
         acc8 = (0 :: f32);
         acc9 = (0 :: f32);
         acc10 = (0 :: f32);
         acc11 = (0 :: f32);
         acc12 = (0 :: f32);
         acc13 = (0 :: f32);
         acc14 = (0 :: f32);
         acc15 = (0 :: f32);
         (acc0, acc1, acc2, acc3, acc4, acc5, acc6, acc7,
          acc8, acc9, acc10, acc11, acc12, acc13, acc14, acc15)
          = for_loop 16 (\<lambda>ridx3 (acc0, acc1, acc2, acc3, acc4, acc5, acc6, acc7,
             acc8, acc9, acc10, acc11, acc12, acc13, acc14, acc15).
             let precast6 = ridx3;
                 alu0 = cast1 + cast0 + ridx3 * 1600;
                 val0 = rd data1 alu0;
                 val1 = rd data1 (alu0 + 1);
                 val2 = rd data1 (alu0 + 2);
                 val3 = rd data1 (alu0 + 3);
                 val4 = rd data1 (alu0 + 400);
                 val5 = rd data1 (alu0 + 401);
                 val6 = rd data1 (alu0 + 402);
                 val7 = rd data1 (alu0 + 403);
                 val8 = rd data1 (alu0 + 800);
                 val9 = rd data1 (alu0 + 801);
                 val10 = rd data1 (alu0 + 802);
                 val11 = rd data1 (alu0 + 803);
                 val12 = rd data1 (alu0 + 1200);
                 val13 = rd data1 (alu0 + 1201);
                 val14 = rd data1 (alu0 + 1202);
                 val15 = rd data1 (alu0 + 1203);
                 precast7 = push_bit 2 precast6;
                 alu1 = precast5 + precast7;
                 val16 = rd data2 alu1;
                 val17 = rd data2 (alu1 + 1);
                 val18 = rd data2 (alu1 + 2);
                 val19 = rd data2 (alu1 + 3);
                 val20 = rd data2 (alu1 + 64);
                 val21 = rd data2 (alu1 + 65);
                 val22 = rd data2 (alu1 + 66);
                 val23 = rd data2 (alu1 + 67);
                 val24 = rd data2 (alu1 + 128);
                 val25 = rd data2 (alu1 + 129);
                 val26 = rd data2 (alu1 + 130);
                 val27 = rd data2 (alu1 + 131);
                 val28 = rd data2 (alu1 + 192);
                 val29 = rd data2 (alu1 + 193);
                 val30 = rd data2 (alu1 + 194);
                 val31 = rd data2 (alu1 + 195);
                 acc0 = acc0 + val0 * val16 + val4 * val17 + val8 * val18 + val12 * val19;
                 acc1 = acc1 + val0 * val20 + val4 * val21 + val8 * val22 + val12 * val23;
                 acc2 = acc2 + val0 * val24 + val4 * val25 + val8 * val26 + val12 * val27;
                 acc3 = acc3 + val0 * val28 + val4 * val29 + val8 * val30 + val12 * val31;
                 acc4 = acc4 + val1 * val16 + val5 * val17 + val9 * val18 + val13 * val19;
                 acc5 = acc5 + val1 * val20 + val5 * val21 + val9 * val22 + val13 * val23;
                 acc6 = acc6 + val1 * val24 + val5 * val25 + val9 * val26 + val13 * val27;
                 acc7 = acc7 + val1 * val28 + val5 * val29 + val9 * val30 + val13 * val31;
                 acc8 = acc8 + val2 * val16 + val6 * val17 + val10 * val18 + val14 * val19;
                 acc9 = acc9 + val2 * val20 + val6 * val21 + val10 * val22 + val14 * val23;
                 acc10 = acc10 + val2 * val24 + val6 * val25 + val10 * val26 + val14 * val27;
                 acc11 = acc11 + val2 * val28 + val6 * val29 + val10 * val30 + val14 * val31;
                 acc12 = acc12 + val3 * val16 + val7 * val17 + val11 * val18 + val15 * val19;
                 acc13 = acc13 + val3 * val20 + val7 * val21 + val11 * val22 + val15 * val23;
                 acc14 = acc14 + val3 * val24 + val7 * val25 + val11 * val26 + val15 * val27;
                 acc15 = acc15 + val3 * val28 + val7 * val29 + val11 * val30 + val15 * val31
             in (acc0, acc1, acc2, acc3, acc4, acc5, acc6, acc7,
                 acc8, acc9, acc10, acc11, acc12, acc13, acc14, acc15))
             (acc0, acc1, acc2, acc3, acc4, acc5, acc6, acc7,
              acc8, acc9, acc10, acc11, acc12, acc13, acc14, acc15);
         precast8 = push_bit 2 cast2;
         cast3 = precast8;
         val32 = rd data3 cast3;
         val33 = rd data3 (cast3 + 1);
         val34 = rd data3 (cast3 + 2);
         val35 = rd data3 (cast3 + 3);
         alu19 = cast1 + lidx0 * 1600 + cast0
     in [(alu19, acc0 + val32),
         (alu19 + 1, acc4 + val32),
         (alu19 + 2, acc8 + val32),
         (alu19 + 3, acc12 + val32),
         (alu19 + 400, acc1 + val33),
         (alu19 + 401, acc5 + val33),
         (alu19 + 402, acc9 + val33),
         (alu19 + 403, acc13 + val33),
         (alu19 + 800, acc2 + val34),
         (alu19 + 801, acc6 + val34),
         (alu19 + 802, acc10 + val34),
         (alu19 + 803, acc14 + val34),
         (alu19 + 1200, acc3 + val35),
         (alu19 + 1201, acc7 + val35),
         (alu19 + 1202, acc11 + val35),
         (alu19 + 1203, acc15 + val35)])"

definition r_25_16_4_16_4_4_4_shader :: "shader" where
  "r_25_16_4_16_4_4_4_shader = FShader (16, 4, 1) (\<lambda>f i. r_25_16_4_16_4_4_4 (f 1) (f 2) (f 3))"

lemma r_25_16_4_16_4_4_4_stores:
  assumes "gx < 25" "gy < 1" "lx < 16" "ly < 4"
  shows "set (launch (r_25_16_4_16_4_4_4 x w b) (gx, gy, 0) (lx, ly, 0)) = tile 4 1 (4 * (4 * 25)) (layer_value exp2 fsqrt (Linear 400 64) (reads [x, w, b])) (16 * gy + lx) 0 (4 * gx + ly)"
proof -
  have zgy: "gy = 0" using assms(2) by simp
  have c: "64 = 4 * (16 :: nat)" by simp
  show ?thesis
    unfolding zgy r_25_16_4_16_4_4_4_def launch_def Let_def vec_simps for_loop_16 prod.case
    by (rule tile_columns, unfold list.map prod.case list.inject prod.inject layer_value.simps reads_simps pointwise_words[OF c], intro conjI)
      (simp_all add: arr_def push_bit_eq_mult algebra_simps)
qed

interpretation r_25_16_4_16_4_4_4: flat_kernel 16 4 25 1 4 "launch (r_25_16_4_16_4_4_4 x w b)"
    "layer_value exp2 fsqrt (Linear 400 64) (reads [x, w, b])"
  for exp2 fsqrt x w b
  by unfold_locales (rule r_25_16_4_16_4_4_4_stores; assumption | simp)+

lemma r_25_16_4_16_4_4_4_computes: "computes exp2 fsqrt r_25_16_4_16_4_4_4_shader (25, 1, 1) (Linear 400 64) 64 1 400"
  unfolding r_25_16_4_16_4_4_4_shader_def by (rule computesI, rule r_25_16_4_16_4_4_4.kernel_contract_axioms) (simp, simp only: layer_inputs, simp)

definition r_59_25_4_16_4_4 :: "f32 buf \<Rightarrow> f32 buf \<Rightarrow> f32 buf \<Rightarrow> vec3 \<Rightarrow> vec3 \<Rightarrow> f32 stores" where
  "r_59_25_4_16_4_4 data1 data2 data3 gindex lindex =
    (let gidx0 = vx gindex;
         gidx1 = vy gindex;
         lidx0 = vx lindex;
         precast0 = lidx0;
         precast1 = push_bit 2 precast0;
         cast0 = precast1;
         precast2 = gidx0;
         precast3 = push_bit 4 precast2;
         cast1 = precast3;
         precast4 = gidx1;
         precast5 = push_bit 6 precast4;
         acc0 = (0 :: f32);
         acc1 = (0 :: f32);
         acc2 = (0 :: f32);
         acc3 = (0 :: f32);
         (acc0, acc1, acc2, acc3) = for_loop 16 (\<lambda>ridx3 (acc0, acc1, acc2, acc3).
             let precast6 = ridx3;
                 alu0 = cast1 + cast0 + ridx3 * 1600;
                 val0 = rd data1 alu0;
                 val1 = rd data1 (alu0 + 1);
                 val2 = rd data1 (alu0 + 2);
                 val3 = rd data1 (alu0 + 3);
                 val4 = rd data1 (alu0 + 400);
                 val5 = rd data1 (alu0 + 401);
                 val6 = rd data1 (alu0 + 402);
                 val7 = rd data1 (alu0 + 403);
                 val8 = rd data1 (alu0 + 800);
                 val9 = rd data1 (alu0 + 801);
                 val10 = rd data1 (alu0 + 802);
                 val11 = rd data1 (alu0 + 803);
                 val12 = rd data1 (alu0 + 1200);
                 val13 = rd data1 (alu0 + 1201);
                 val14 = rd data1 (alu0 + 1202);
                 val15 = rd data1 (alu0 + 1203);
                 precast7 = push_bit 2 precast6;
                 alu1 = precast5 + precast7;
                 val16 = rd data2 alu1;
                 val17 = rd data2 (alu1 + 1);
                 val18 = rd data2 (alu1 + 2);
                 val19 = rd data2 (alu1 + 3);
                 acc0 = acc0 + val0 * val16 + val4 * val17 + val8 * val18 + val12 * val19;
                 acc1 = acc1 + val1 * val16 + val5 * val17 + val9 * val18 + val13 * val19;
                 acc2 = acc2 + val2 * val16 + val6 * val17 + val10 * val18 + val14 * val19;
                 acc3 = acc3 + val3 * val16 + val7 * val17 + val11 * val18 + val15 * val19
             in (acc0, acc1, acc2, acc3)) (acc0, acc1, acc2, acc3);
         val20 = rd data3 gidx1;
         alu7 = cast1 + gidx1 * 400 + cast0
     in [(alu7, acc0 + val20),
         (alu7 + 1, acc1 + val20),
         (alu7 + 2, acc2 + val20),
         (alu7 + 3, acc3 + val20)])"

definition r_59_25_4_16_4_4_shader :: "shader" where
  "r_59_25_4_16_4_4_shader = FShader (4, 1, 1) (\<lambda>f i. r_59_25_4_16_4_4 (f 1) (f 2) (f 3))"

lemma r_59_25_4_16_4_4_stores:
  assumes "gx < 25" "gy < 59" "lx < 4"
  shows "set (launch (r_59_25_4_16_4_4 x w b) (gx, gy, 0) (lx, 0, 0)) = tile 1 1 (4 * (4 * 25)) (layer_value exp2 fsqrt (Linear 400 64) (reads [x, w, b])) gy 0 (4 * gx + lx)"
proof -
  have c: "64 = 4 * (16 :: nat)" by simp
  show ?thesis
    unfolding r_59_25_4_16_4_4_def launch_def Let_def vec_simps for_loop_4 prod.case
    by (rule tile_plane, unfold list.map prod.case list.inject prod.inject layer_value.simps reads_simps pointwise_words[OF c], intro conjI)
      (simp_all add: arr_def push_bit_eq_mult algebra_simps)
qed

interpretation r_59_25_4_16_4_4: strip_kernel 4 25 59 1 "launch (r_59_25_4_16_4_4 x w b)"
    "layer_value exp2 fsqrt (Linear 400 64) (reads [x, w, b])"
  for exp2 fsqrt x w b
  by unfold_locales (rule r_59_25_4_16_4_4_stores; assumption | simp)+

lemma r_59_25_4_16_4_4_computes: "computes exp2 fsqrt r_59_25_4_16_4_4_shader (25, 59, 1) (Linear 400 64) 59 1 400"
  unfolding r_59_25_4_16_4_4_shader_def by (rule computesI, rule r_59_25_4_16_4_4.kernel_contract_axioms) (simp, simp only: layer_inputs, simp)

end
