(* ===== verification/Windows160.thy ===== *)
theory Windows160
  imports Layers
begin

text \<open>
  The 3x3 convolutions of \<open>server/cherum/static/net.js\<close> that give tensors with 320x320 and 160x160 cells.
  Each kernel is followed by its shader and by the stores of one invocation: the tile of the layer.
\<close>

definition r_4_40_5_8_16_3_4_4_3_3 :: "(f32 \<Rightarrow> f32) \<Rightarrow> (f32 \<Rightarrow> f32) \<Rightarrow> f32 buf \<Rightarrow> f32 buf \<Rightarrow> f32 buf \<Rightarrow> f32 buf \<Rightarrow> f32 buf \<Rightarrow> f32 buf \<Rightarrow> vec3 \<Rightarrow> vec3 \<Rightarrow> f32 stores" where
  "r_4_40_5_8_16_3_4_4_3_3 exp2 fsqrt data1 data2 data3 data4 data5 data6 gindex lindex =
    (let gidx0 = vx gindex;
         gidx1 = vy gindex;
         gidx2 = vz gindex;
         lidx0 = vx lindex;
         lidx1 = vy lindex;
         precast0 = lidx1;
         cast0 = precast0;
         precast1 = gidx0;
         cast1 = precast1;
         alu0 = \<not> ((gidx0 + lidx1) <s 1);
         alu1 = \<not> ((gidx1 + lidx0) <s 1);
         precast2 = push_bit 7 cast1;
         precast3 = push_bit 3 cast0;
         acc0 = (0 :: f32);
         acc1 = (0 :: f32);
         acc2 = (0 :: f32);
         acc3 = (0 :: f32);
         acc4 = (0 :: f32);
         acc5 = (0 :: f32);
         acc6 = (0 :: f32);
         acc7 = (0 :: f32);
         acc8 = (0 :: f32);
         acc9 = (0 :: f32);
         acc10 = (0 :: f32);
         acc11 = (0 :: f32);
         acc12 = (0 :: f32);
         acc13 = (0 :: f32);
         acc14 = (0 :: f32);
         acc15 = (0 :: f32);
         (acc0, acc1, acc2, acc3, acc4, acc5, acc6, acc7,
          acc8, acc9, acc10, acc11, acc12, acc13, acc14, acc15)
          = for_loop 3 (\<lambda>ridx5 (acc0, acc1, acc2, acc3, acc4, acc5, acc6, acc7,
             acc8, acc9, acc10, acc11, acc12, acc13, acc14, acc15).
             let alu2 = gidx2 * 108 + ridx5 * 9;
                 val0 = rd data2 alu2;
                 val1 = rd data2 (alu2 + 1);
                 val2 = rd data2 (alu2 + 2);
                 val3 = rd data2 (alu2 + 3);
                 val4 = rd data2 (alu2 + 4);
                 val5 = rd data2 (alu2 + 5);
                 val6 = rd data2 (alu2 + 6);
                 val7 = rd data2 (alu2 + 7);
                 val8 = rd data2 (alu2 + 8);
                 val9 = rd data2 (alu2 + 27);
                 val10 = rd data2 (alu2 + 28);
                 val11 = rd data2 (alu2 + 29);
                 val12 = rd data2 (alu2 + 30);
                 val13 = rd data2 (alu2 + 31);
                 val14 = rd data2 (alu2 + 32);
                 val15 = rd data2 (alu2 + 33);
                 val16 = rd data2 (alu2 + 34);
                 val17 = rd data2 (alu2 + 35);
                 val18 = rd data2 (alu2 + 54);
                 val19 = rd data2 (alu2 + 55);
                 val20 = rd data2 (alu2 + 56);
                 val21 = rd data2 (alu2 + 57);
                 val22 = rd data2 (alu2 + 58);
                 val23 = rd data2 (alu2 + 59);
                 val24 = rd data2 (alu2 + 60);
                 val25 = rd data2 (alu2 + 61);
                 val26 = rd data2 (alu2 + 62);
                 val27 = rd data2 (alu2 + 81);
                 val28 = rd data2 (alu2 + 82);
                 val29 = rd data2 (alu2 + 83);
                 val30 = rd data2 (alu2 + 84);
                 val31 = rd data2 (alu2 + 85);
                 val32 = rd data2 (alu2 + 86);
                 val33 = rd data2 (alu2 + 87);
                 val34 = rd data2 (alu2 + 88);
                 val35 = rd data2 (alu2 + 89);
                 alu3 = gidx1 * 10240 + lidx0 * 1280 + ridx5 * 409600 + precast2 + precast3;
                 val36 = rd data1 alu3;
                 val37 = select 0 (rd data1 (alu3 + (- 641))) (alu1 \<and> alu0);
                 val38 = select 0 (rd data1 (alu3 + (- 640))) alu1;
                 val39 = select 0 (rd data1 (alu3 + (- 639))) alu1;
                 val40 = select 0 (rd data1 (alu3 + (- 638))) alu1;
                 val41 = select 0 (rd data1 (alu3 + (- 637))) alu1;
                 val42 = select 0 (rd data1 (alu3 + (- 636))) alu1;
                 val43 = select 0 (rd data1 (alu3 + (- 635))) alu1;
                 val44 = select 0 (rd data1 (alu3 + (- 634))) alu1;
                 val45 = select 0 (rd data1 (alu3 + (- 633))) alu1;
                 val46 = select 0 (rd data1 (alu3 + (- 1))) alu0;
                 val47 = rd data1 (alu3 + 1);
                 val48 = rd data1 (alu3 + 2);
                 val49 = rd data1 (alu3 + 3);
                 val50 = rd data1 (alu3 + 4);
                 val51 = rd data1 (alu3 + 5);
                 val52 = rd data1 (alu3 + 6);
                 val53 = rd data1 (alu3 + 7);
                 val54 = select 0 (rd data1 (alu3 + 639)) alu0;
                 val55 = rd data1 (alu3 + 640);
                 val56 = rd data1 (alu3 + 641);
                 val57 = rd data1 (alu3 + 642);
                 val58 = rd data1 (alu3 + 643);
                 val59 = rd data1 (alu3 + 644);
                 val60 = rd data1 (alu3 + 645);
                 val61 = rd data1 (alu3 + 646);
                 val62 = rd data1 (alu3 + 647);
                 acc0 = acc0 + val37 * val0 + val46 * val3 + val54 * val6 + val38 * val1 + val36 * val4 + val55 * val7 + val39 * val2 + val47 * val5 + val56 * val8;
                 acc1 = acc1 + val37 * val9 + val46 * val12 + val54 * val15 + val38 * val10 + val36 * val13 + val55 * val16 + val39 * val11 + val47 * val14 + val56 * val17;
                 acc2 = acc2 + val37 * val18 + val46 * val21 + val54 * val24 + val38 * val19 + val36 * val22 + val55 * val25 + val39 * val20 + val47 * val23 + val56 * val26;
                 acc3 = acc3 + val37 * val27 + val46 * val30 + val54 * val33 + val38 * val28 + val36 * val31 + val55 * val34 + val39 * val29 + val47 * val32 + val56 * val35;
                 acc4 = acc4 + val39 * val0 + val47 * val3 + val56 * val6 + val40 * val1 + val48 * val4 + val57 * val7 + val41 * val2 + val49 * val5 + val58 * val8;
                 acc5 = acc5 + val39 * val9 + val47 * val12 + val56 * val15 + val40 * val10 + val48 * val13 + val57 * val16 + val41 * val11 + val49 * val14 + val58 * val17;
                 acc6 = acc6 + val39 * val18 + val47 * val21 + val56 * val24 + val40 * val19 + val48 * val22 + val57 * val25 + val41 * val20 + val49 * val23 + val58 * val26;
                 acc7 = acc7 + val39 * val27 + val47 * val30 + val56 * val33 + val40 * val28 + val48 * val31 + val57 * val34 + val41 * val29 + val49 * val32 + val58 * val35;
                 acc8 = acc8 + val41 * val0 + val49 * val3 + val58 * val6 + val42 * val1 + val50 * val4 + val59 * val7 + val43 * val2 + val51 * val5 + val60 * val8;
                 acc9 = acc9 + val41 * val9 + val49 * val12 + val58 * val15 + val42 * val10 + val50 * val13 + val59 * val16 + val43 * val11 + val51 * val14 + val60 * val17;
                 acc10 = acc10 + val41 * val18 + val49 * val21 + val58 * val24 + val42 * val19 + val50 * val22 + val59 * val25 + val43 * val20 + val51 * val23 + val60 * val26;
                 acc11 = acc11 + val41 * val27 + val49 * val30 + val58 * val33 + val42 * val28 + val50 * val31 + val59 * val34 + val43 * val29 + val51 * val32 + val60 * val35;
                 acc12 = acc12 + val43 * val0 + val51 * val3 + val60 * val6 + val44 * val1 + val52 * val4 + val61 * val7 + val45 * val2 + val53 * val5 + val62 * val8;
                 acc13 = acc13 + val43 * val9 + val51 * val12 + val60 * val15 + val44 * val10 + val52 * val13 + val61 * val16 + val45 * val11 + val53 * val14 + val62 * val17;
                 acc14 = acc14 + val43 * val18 + val51 * val21 + val60 * val24 + val44 * val19 + val52 * val22 + val61 * val25 + val45 * val20 + val53 * val23 + val62 * val26;
                 acc15 = acc15 + val43 * val27 + val51 * val30 + val60 * val33 + val44 * val28 + val52 * val31 + val61 * val34 + val45 * val29 + val53 * val32 + val62 * val35
             in (acc0, acc1, acc2, acc3, acc4, acc5, acc6, acc7,
                 acc8, acc9, acc10, acc11, acc12, acc13, acc14, acc15))
             (acc0, acc1, acc2, acc3, acc4, acc5, acc6, acc7,
              acc8, acc9, acc10, acc11, acc12, acc13, acc14, acc15);
         precast4 = gidx2;
         precast5 = push_bit 2 precast4;
         cast2 = precast5;
         val63 = rd data3 cast2;
         val64 = rd data4 cast2;
         val65 = rd data5 cast2;
         val66 = rd data6 cast2;
         alu21 = cast2 + 1;
         val67 = rd data3 alu21;
         val68 = rd data4 alu21;
         val69 = rd data5 alu21;
         val70 = rd data6 alu21;
         alu22 = cast2 + 2;
         val71 = rd data3 alu22;
         val72 = rd data4 alu22;
         val73 = rd data5 alu22;
         val74 = rd data6 alu22;
         alu23 = cast2 + 3;
         val75 = rd data3 alu23;
         val76 = rd data4 alu23;
         val77 = rd data5 alu23;
         val78 = rd data6 alu23;
         alu24 = 1 / (fsqrt (val65 + (lit (1 / 1000))));
         alu25 = 1 / (fsqrt (val69 + (lit (1 / 1000))));
         alu26 = 1 / (fsqrt (val73 + (lit (1 / 1000))));
         alu27 = 1 / (fsqrt (val77 + (lit (1 / 1000))));
         precast6 = push_bit 6 cast1;
         precast7 = push_bit 2 cast0;
         alu28 = gidx1 * 2560 + gidx2 * 409600 + precast6 + lidx0 * 320 + precast7;
         alu29 = (acc0 - val63) * val64 * alu24 + val66;
         alu31 = (acc1 - val67) * val68 * alu25 + val70;
         alu33 = (acc2 - val71) * val72 * alu26 + val74;
         alu35 = (acc3 - val75) * val76 * alu27 + val78;
         alu37 = (acc4 - val63) * val64 * alu24 + val66;
         alu39 = (acc5 - val67) * val68 * alu25 + val70;
         alu41 = (acc6 - val71) * val72 * alu26 + val74;
         alu43 = (acc7 - val75) * val76 * alu27 + val78;
         alu45 = (acc8 - val63) * val64 * alu24 + val66;
         alu47 = (acc9 - val67) * val68 * alu25 + val70;
         alu49 = (acc10 - val71) * val72 * alu26 + val74;
         alu51 = (acc11 - val75) * val76 * alu27 + val78;
         alu53 = (acc12 - val63) * val64 * alu24 + val66;
         alu55 = (acc13 - val67) * val68 * alu25 + val70;
         alu57 = (acc14 - val71) * val72 * alu26 + val74;
         alu59 = (acc15 - val75) * val76 * alu27 + val78
     in [(alu28, alu29 * (1 / (1 + (exp2 (alu29 * (- (lit (14426950408889634 / 10000000000000000)))))))),
         (alu28 + 102400, alu31 * (1 / (1 + (exp2 (alu31 * (- (lit (14426950408889634 / 10000000000000000)))))))),
         (alu28 + 204800, alu33 * (1 / (1 + (exp2 (alu33 * (- (lit (14426950408889634 / 10000000000000000)))))))),
         (alu28 + 307200, alu35 * (1 / (1 + (exp2 (alu35 * (- (lit (14426950408889634 / 10000000000000000)))))))),
         (alu28 + 1, alu37 * (1 / (1 + (exp2 (alu37 * (- (lit (14426950408889634 / 10000000000000000)))))))),
         (alu28 + 102401, alu39 * (1 / (1 + (exp2 (alu39 * (- (lit (14426950408889634 / 10000000000000000)))))))),
         (alu28 + 204801, alu41 * (1 / (1 + (exp2 (alu41 * (- (lit (14426950408889634 / 10000000000000000)))))))),
         (alu28 + 307201, alu43 * (1 / (1 + (exp2 (alu43 * (- (lit (14426950408889634 / 10000000000000000)))))))),
         (alu28 + 2, alu45 * (1 / (1 + (exp2 (alu45 * (- (lit (14426950408889634 / 10000000000000000)))))))),
         (alu28 + 102402, alu47 * (1 / (1 + (exp2 (alu47 * (- (lit (14426950408889634 / 10000000000000000)))))))),
         (alu28 + 204802, alu49 * (1 / (1 + (exp2 (alu49 * (- (lit (14426950408889634 / 10000000000000000)))))))),
         (alu28 + 307202, alu51 * (1 / (1 + (exp2 (alu51 * (- (lit (14426950408889634 / 10000000000000000)))))))),
         (alu28 + 3, alu53 * (1 / (1 + (exp2 (alu53 * (- (lit (14426950408889634 / 10000000000000000)))))))),
         (alu28 + 102403, alu55 * (1 / (1 + (exp2 (alu55 * (- (lit (14426950408889634 / 10000000000000000)))))))),
         (alu28 + 204803, alu57 * (1 / (1 + (exp2 (alu57 * (- (lit (14426950408889634 / 10000000000000000)))))))),
         (alu28 + 307203, alu59 * (1 / (1 + (exp2 (alu59 * (- (lit (14426950408889634 / 10000000000000000))))))))])"

definition r_4_40_5_8_16_3_4_4_3_3_shader :: "(f32 \<Rightarrow> f32) \<Rightarrow> (f32 \<Rightarrow> f32) \<Rightarrow> shader" where
  "r_4_40_5_8_16_3_4_4_3_3_shader exp2 fsqrt = FShader (8, 16, 1) (\<lambda>f i. r_4_40_5_8_16_3_4_4_3_3 exp2 fsqrt (f 1) (f 2) (f 3) (f 4) (f 5) (f 6))"

lemma r_4_40_5_8_16_3_4_4_3_3_stores:
  assumes "gx < 5" "gy < 40" "gz < 4" "lx < 8" "ly < 16"
  shows "set (launch (r_4_40_5_8_16_3_4_4_3_3 exp2 fsqrt x w m g v b) (gx, gy, gz) (lx, ly, 0)) = tile 4 (8 * 40) (4 * (16 * 5)) (layer_value exp2 fsqrt (Conv3 2 640 640 0 3) (reads [x, w, m, g, v, b])) gz (8 * gy + lx) (16 * gx + ly)"
proof -
  have n: "8 * gy + lx \<le> 319" "16 * gx + ly \<le> 79" using assms by simp_all
  have h: "640 = 2 * (319 + 1 :: nat)" "640 = 8 * (79 + 1 :: nat)" by simp_all
  note w = less_4[THEN window_2[OF n h]]
  have f: "((of_nat gx + of_nat ly :: i32) <s 1) \<longleftrightarrow> \<not> 0 < 16 * gx + ly" "((of_nat gy + of_nat lx :: i32) <s 1) \<longleftrightarrow> \<not> 0 < 8 * gy + lx"
    by (rule first_test; use assms in simp)+
  show ?thesis
    unfolding r_4_40_5_8_16_3_4_4_3_3_def launch_def Let_def vec_simps f for_loop_16 prod.case log2_e_def[symmetric] sigmoid_def[symmetric] silu_def[symmetric]
    by (rule tile_planes, unfold list.map prod.case list.inject prod.inject layer_value.simps reads_simps w taps_def batch_norm_def, intro conjI)
      (simp_all add: arr_def push_bit_eq_mult algebra_simps)
qed

interpretation r_4_40_5_8_16_3_4_4_3_3: rows_kernel 8 16 5 40 4 4 "launch (r_4_40_5_8_16_3_4_4_3_3 exp2 fsqrt x w m g v b)"
    "layer_value exp2 fsqrt (Conv3 2 640 640 0 3) (reads [x, w, m, g, v, b])"
  for exp2 fsqrt x w m g v b
  by unfold_locales (rule r_4_40_5_8_16_3_4_4_3_3_stores; assumption | simp)+

lemma r_4_40_5_8_16_3_4_4_3_3_computes: "computes exp2 fsqrt (r_4_40_5_8_16_3_4_4_3_3_shader exp2 fsqrt) (5, 40, 4) (Conv3 2 640 640 0 3) 16 320 320"
  unfolding r_4_40_5_8_16_3_4_4_3_3_shader_def by (rule computesI, rule r_4_40_5_8_16_3_4_4_3_3.kernel_contract_axioms) (simp, simp only: layer_inputs, simp)

definition r_8_10_5_16_8_16_4_4_3_3 :: "(f32 \<Rightarrow> f32) \<Rightarrow> (f32 \<Rightarrow> f32) \<Rightarrow> f32 buf \<Rightarrow> f32 buf \<Rightarrow> f32 buf \<Rightarrow> f32 buf \<Rightarrow> f32 buf \<Rightarrow> f32 buf \<Rightarrow> vec3 \<Rightarrow> vec3 \<Rightarrow> f32 stores" where
  "r_8_10_5_16_8_16_4_4_3_3 exp2 fsqrt data1 data2 data3 data4 data5 data6 gindex lindex =
    (let gidx0 = vx gindex;
         gidx1 = vy gindex;
         gidx2 = vz gindex;
         lidx0 = vx lindex;
         lidx1 = vy lindex;
         precast0 = lidx1;
         cast0 = precast0;
         precast1 = gidx0;
         cast1 = precast1;
         alu0 = \<not> ((gidx0 + lidx1) <s 1);
         alu1 = \<not> ((gidx1 + lidx0) <s 1);
         precast2 = push_bit 6 cast1;
         precast3 = push_bit 3 cast0;
         acc0 = (0 :: f32);
         acc1 = (0 :: f32);
         acc2 = (0 :: f32);
         acc3 = (0 :: f32);
         acc4 = (0 :: f32);
         acc5 = (0 :: f32);
         acc6 = (0 :: f32);
         acc7 = (0 :: f32);
         acc8 = (0 :: f32);
         acc9 = (0 :: f32);
         acc10 = (0 :: f32);
         acc11 = (0 :: f32);
         acc12 = (0 :: f32);
         acc13 = (0 :: f32);
         acc14 = (0 :: f32);
         acc15 = (0 :: f32);
         (acc0, acc1, acc2, acc3, acc4, acc5, acc6, acc7,
          acc8, acc9, acc10, acc11, acc12, acc13, acc14, acc15)
          = for_loop 16 (\<lambda>ridx5 (acc0, acc1, acc2, acc3, acc4, acc5, acc6, acc7,
             acc8, acc9, acc10, acc11, acc12, acc13, acc14, acc15).
             let alu2 = gidx2 * 576 + ridx5 * 9;
                 val0 = rd data2 alu2;
                 val1 = rd data2 (alu2 + 1);
                 val2 = rd data2 (alu2 + 2);
                 val3 = rd data2 (alu2 + 3);
                 val4 = rd data2 (alu2 + 4);
                 val5 = rd data2 (alu2 + 5);
                 val6 = rd data2 (alu2 + 6);
                 val7 = rd data2 (alu2 + 7);
                 val8 = rd data2 (alu2 + 8);
                 val9 = rd data2 (alu2 + 144);
                 val10 = rd data2 (alu2 + 145);
                 val11 = rd data2 (alu2 + 146);
                 val12 = rd data2 (alu2 + 147);
                 val13 = rd data2 (alu2 + 148);
                 val14 = rd data2 (alu2 + 149);
                 val15 = rd data2 (alu2 + 150);
                 val16 = rd data2 (alu2 + 151);
                 val17 = rd data2 (alu2 + 152);
                 val18 = rd data2 (alu2 + 288);
                 val19 = rd data2 (alu2 + 289);
                 val20 = rd data2 (alu2 + 290);
                 val21 = rd data2 (alu2 + 291);
                 val22 = rd data2 (alu2 + 292);
                 val23 = rd data2 (alu2 + 293);
                 val24 = rd data2 (alu2 + 294);
                 val25 = rd data2 (alu2 + 295);
                 val26 = rd data2 (alu2 + 296);
                 val27 = rd data2 (alu2 + 432);
                 val28 = rd data2 (alu2 + 433);
                 val29 = rd data2 (alu2 + 434);
                 val30 = rd data2 (alu2 + 435);
                 val31 = rd data2 (alu2 + 436);
                 val32 = rd data2 (alu2 + 437);
                 val33 = rd data2 (alu2 + 438);
                 val34 = rd data2 (alu2 + 439);
                 val35 = rd data2 (alu2 + 440);
                 alu3 = gidx1 * 10240 + lidx0 * 640 + ridx5 * 102400 + precast2 + precast3;
                 val36 = rd data1 alu3;
                 val37 = select 0 (rd data1 (alu3 + (- 321))) (alu1 \<and> alu0);
                 val38 = select 0 (rd data1 (alu3 + (- 320))) alu1;
                 val39 = select 0 (rd data1 (alu3 + (- 319))) alu1;
                 val40 = select 0 (rd data1 (alu3 + (- 318))) alu1;
                 val41 = select 0 (rd data1 (alu3 + (- 317))) alu1;
                 val42 = select 0 (rd data1 (alu3 + (- 316))) alu1;
                 val43 = select 0 (rd data1 (alu3 + (- 315))) alu1;
                 val44 = select 0 (rd data1 (alu3 + (- 314))) alu1;
                 val45 = select 0 (rd data1 (alu3 + (- 313))) alu1;
                 val46 = select 0 (rd data1 (alu3 + (- 1))) alu0;
                 val47 = rd data1 (alu3 + 1);
                 val48 = rd data1 (alu3 + 2);
                 val49 = rd data1 (alu3 + 3);
                 val50 = rd data1 (alu3 + 4);
                 val51 = rd data1 (alu3 + 5);
                 val52 = rd data1 (alu3 + 6);
                 val53 = rd data1 (alu3 + 7);
                 val54 = select 0 (rd data1 (alu3 + 319)) alu0;
                 val55 = rd data1 (alu3 + 320);
                 val56 = rd data1 (alu3 + 321);
                 val57 = rd data1 (alu3 + 322);
                 val58 = rd data1 (alu3 + 323);
                 val59 = rd data1 (alu3 + 324);
                 val60 = rd data1 (alu3 + 325);
                 val61 = rd data1 (alu3 + 326);
                 val62 = rd data1 (alu3 + 327);
                 acc0 = acc0 + val37 * val0 + val46 * val3 + val54 * val6 + val38 * val1 + val36 * val4 + val55 * val7 + val39 * val2 + val47 * val5 + val56 * val8;
                 acc1 = acc1 + val37 * val9 + val46 * val12 + val54 * val15 + val38 * val10 + val36 * val13 + val55 * val16 + val39 * val11 + val47 * val14 + val56 * val17;
                 acc2 = acc2 + val37 * val18 + val46 * val21 + val54 * val24 + val38 * val19 + val36 * val22 + val55 * val25 + val39 * val20 + val47 * val23 + val56 * val26;
                 acc3 = acc3 + val37 * val27 + val46 * val30 + val54 * val33 + val38 * val28 + val36 * val31 + val55 * val34 + val39 * val29 + val47 * val32 + val56 * val35;
                 acc4 = acc4 + val39 * val0 + val47 * val3 + val56 * val6 + val40 * val1 + val48 * val4 + val57 * val7 + val41 * val2 + val49 * val5 + val58 * val8;
                 acc5 = acc5 + val39 * val9 + val47 * val12 + val56 * val15 + val40 * val10 + val48 * val13 + val57 * val16 + val41 * val11 + val49 * val14 + val58 * val17;
                 acc6 = acc6 + val39 * val18 + val47 * val21 + val56 * val24 + val40 * val19 + val48 * val22 + val57 * val25 + val41 * val20 + val49 * val23 + val58 * val26;
                 acc7 = acc7 + val39 * val27 + val47 * val30 + val56 * val33 + val40 * val28 + val48 * val31 + val57 * val34 + val41 * val29 + val49 * val32 + val58 * val35;
                 acc8 = acc8 + val41 * val0 + val49 * val3 + val58 * val6 + val42 * val1 + val50 * val4 + val59 * val7 + val43 * val2 + val51 * val5 + val60 * val8;
                 acc9 = acc9 + val41 * val9 + val49 * val12 + val58 * val15 + val42 * val10 + val50 * val13 + val59 * val16 + val43 * val11 + val51 * val14 + val60 * val17;
                 acc10 = acc10 + val41 * val18 + val49 * val21 + val58 * val24 + val42 * val19 + val50 * val22 + val59 * val25 + val43 * val20 + val51 * val23 + val60 * val26;
                 acc11 = acc11 + val41 * val27 + val49 * val30 + val58 * val33 + val42 * val28 + val50 * val31 + val59 * val34 + val43 * val29 + val51 * val32 + val60 * val35;
                 acc12 = acc12 + val43 * val0 + val51 * val3 + val60 * val6 + val44 * val1 + val52 * val4 + val61 * val7 + val45 * val2 + val53 * val5 + val62 * val8;
                 acc13 = acc13 + val43 * val9 + val51 * val12 + val60 * val15 + val44 * val10 + val52 * val13 + val61 * val16 + val45 * val11 + val53 * val14 + val62 * val17;
                 acc14 = acc14 + val43 * val18 + val51 * val21 + val60 * val24 + val44 * val19 + val52 * val22 + val61 * val25 + val45 * val20 + val53 * val23 + val62 * val26;
                 acc15 = acc15 + val43 * val27 + val51 * val30 + val60 * val33 + val44 * val28 + val52 * val31 + val61 * val34 + val45 * val29 + val53 * val32 + val62 * val35
             in (acc0, acc1, acc2, acc3, acc4, acc5, acc6, acc7,
                 acc8, acc9, acc10, acc11, acc12, acc13, acc14, acc15))
             (acc0, acc1, acc2, acc3, acc4, acc5, acc6, acc7,
              acc8, acc9, acc10, acc11, acc12, acc13, acc14, acc15);
         precast4 = gidx2;
         precast5 = push_bit 2 precast4;
         cast2 = precast5;
         val63 = rd data3 cast2;
         val64 = rd data4 cast2;
         val65 = rd data5 cast2;
         val66 = rd data6 cast2;
         alu21 = cast2 + 1;
         val67 = rd data3 alu21;
         val68 = rd data4 alu21;
         val69 = rd data5 alu21;
         val70 = rd data6 alu21;
         alu22 = cast2 + 2;
         val71 = rd data3 alu22;
         val72 = rd data4 alu22;
         val73 = rd data5 alu22;
         val74 = rd data6 alu22;
         alu23 = cast2 + 3;
         val75 = rd data3 alu23;
         val76 = rd data4 alu23;
         val77 = rd data5 alu23;
         val78 = rd data6 alu23;
         alu24 = 1 / (fsqrt (val65 + (lit (1 / 1000))));
         alu25 = 1 / (fsqrt (val69 + (lit (1 / 1000))));
         alu26 = 1 / (fsqrt (val73 + (lit (1 / 1000))));
         alu27 = 1 / (fsqrt (val77 + (lit (1 / 1000))));
         precast6 = push_bit 5 cast1;
         precast7 = push_bit 2 cast0;
         alu28 = gidx1 * 2560 + gidx2 * 102400 + precast6 + lidx0 * 160 + precast7;
         alu29 = (acc0 - val63) * val64 * alu24 + val66;
         alu31 = (acc1 - val67) * val68 * alu25 + val70;
         alu33 = (acc2 - val71) * val72 * alu26 + val74;
         alu35 = (acc3 - val75) * val76 * alu27 + val78;
         alu37 = (acc4 - val63) * val64 * alu24 + val66;
         alu39 = (acc5 - val67) * val68 * alu25 + val70;
         alu41 = (acc6 - val71) * val72 * alu26 + val74;
         alu43 = (acc7 - val75) * val76 * alu27 + val78;
         alu45 = (acc8 - val63) * val64 * alu24 + val66;
         alu47 = (acc9 - val67) * val68 * alu25 + val70;
         alu49 = (acc10 - val71) * val72 * alu26 + val74;
         alu51 = (acc11 - val75) * val76 * alu27 + val78;
         alu53 = (acc12 - val63) * val64 * alu24 + val66;
         alu55 = (acc13 - val67) * val68 * alu25 + val70;
         alu57 = (acc14 - val71) * val72 * alu26 + val74;
         alu59 = (acc15 - val75) * val76 * alu27 + val78
     in [(alu28, alu29 * (1 / (1 + (exp2 (alu29 * (- (lit (14426950408889634 / 10000000000000000)))))))),
         (alu28 + 25600, alu31 * (1 / (1 + (exp2 (alu31 * (- (lit (14426950408889634 / 10000000000000000)))))))),
         (alu28 + 51200, alu33 * (1 / (1 + (exp2 (alu33 * (- (lit (14426950408889634 / 10000000000000000)))))))),
         (alu28 + 76800, alu35 * (1 / (1 + (exp2 (alu35 * (- (lit (14426950408889634 / 10000000000000000)))))))),
         (alu28 + 1, alu37 * (1 / (1 + (exp2 (alu37 * (- (lit (14426950408889634 / 10000000000000000)))))))),
         (alu28 + 25601, alu39 * (1 / (1 + (exp2 (alu39 * (- (lit (14426950408889634 / 10000000000000000)))))))),
         (alu28 + 51201, alu41 * (1 / (1 + (exp2 (alu41 * (- (lit (14426950408889634 / 10000000000000000)))))))),
         (alu28 + 76801, alu43 * (1 / (1 + (exp2 (alu43 * (- (lit (14426950408889634 / 10000000000000000)))))))),
         (alu28 + 2, alu45 * (1 / (1 + (exp2 (alu45 * (- (lit (14426950408889634 / 10000000000000000)))))))),
         (alu28 + 25602, alu47 * (1 / (1 + (exp2 (alu47 * (- (lit (14426950408889634 / 10000000000000000)))))))),
         (alu28 + 51202, alu49 * (1 / (1 + (exp2 (alu49 * (- (lit (14426950408889634 / 10000000000000000)))))))),
         (alu28 + 76802, alu51 * (1 / (1 + (exp2 (alu51 * (- (lit (14426950408889634 / 10000000000000000)))))))),
         (alu28 + 3, alu53 * (1 / (1 + (exp2 (alu53 * (- (lit (14426950408889634 / 10000000000000000)))))))),
         (alu28 + 25603, alu55 * (1 / (1 + (exp2 (alu55 * (- (lit (14426950408889634 / 10000000000000000)))))))),
         (alu28 + 51203, alu57 * (1 / (1 + (exp2 (alu57 * (- (lit (14426950408889634 / 10000000000000000)))))))),
         (alu28 + 76803, alu59 * (1 / (1 + (exp2 (alu59 * (- (lit (14426950408889634 / 10000000000000000))))))))])"

definition r_8_10_5_16_8_16_4_4_3_3_shader :: "(f32 \<Rightarrow> f32) \<Rightarrow> (f32 \<Rightarrow> f32) \<Rightarrow> shader" where
  "r_8_10_5_16_8_16_4_4_3_3_shader exp2 fsqrt = FShader (16, 8, 1) (\<lambda>f i. r_8_10_5_16_8_16_4_4_3_3 exp2 fsqrt (f 1) (f 2) (f 3) (f 4) (f 5) (f 6))"

lemma r_8_10_5_16_8_16_4_4_3_3_stores:
  assumes "gx < 5" "gy < 10" "gz < 8" "lx < 16" "ly < 8"
  shows "set (launch (r_8_10_5_16_8_16_4_4_3_3 exp2 fsqrt x w m g v b) (gx, gy, gz) (lx, ly, 0)) = tile 4 (16 * 10) (4 * (8 * 5)) (layer_value exp2 fsqrt (Conv3 2 320 320 0 16) (reads [x, w, m, g, v, b])) gz (16 * gy + lx) (8 * gx + ly)"
proof -
  have n: "16 * gy + lx \<le> 159" "8 * gx + ly \<le> 39" using assms by simp_all
  have h: "320 = 2 * (159 + 1 :: nat)" "320 = 8 * (39 + 1 :: nat)" by simp_all
  note w = less_4[THEN window_2[OF n h]]
  have f: "((of_nat gx + of_nat ly :: i32) <s 1) \<longleftrightarrow> \<not> 0 < 8 * gx + ly" "((of_nat gy + of_nat lx :: i32) <s 1) \<longleftrightarrow> \<not> 0 < 16 * gy + lx"
    by (rule first_test; use assms in simp)+
  show ?thesis
    unfolding r_8_10_5_16_8_16_4_4_3_3_def launch_def Let_def vec_simps f for_loop_16 prod.case log2_e_def[symmetric] sigmoid_def[symmetric] silu_def[symmetric]
    by (rule tile_planes, unfold list.map prod.case list.inject prod.inject layer_value.simps reads_simps w taps_def batch_norm_def, intro conjI)
      (simp_all add: arr_def push_bit_eq_mult algebra_simps)
qed

interpretation r_8_10_5_16_8_16_4_4_3_3: rows_kernel 16 8 5 10 8 4 "launch (r_8_10_5_16_8_16_4_4_3_3 exp2 fsqrt x w m g v b)"
    "layer_value exp2 fsqrt (Conv3 2 320 320 0 16) (reads [x, w, m, g, v, b])"
  for exp2 fsqrt x w m g v b
  by unfold_locales (rule r_8_10_5_16_8_16_4_4_3_3_stores; assumption | simp)+

lemma r_8_10_5_16_8_16_4_4_3_3_computes: "computes exp2 fsqrt (r_8_10_5_16_8_16_4_4_3_3_shader exp2 fsqrt) (5, 10, 8) (Conv3 2 320 320 0 16) 32 160 160"
  unfolding r_8_10_5_16_8_16_4_4_3_3_shader_def by (rule computesI, rule r_8_10_5_16_8_16_4_4_3_3.kernel_contract_axioms) (simp, simp only: layer_inputs, simp)

definition r_4_10_5_16_8_16_4_4_3_3 :: "(f32 \<Rightarrow> f32) \<Rightarrow> (f32 \<Rightarrow> f32) \<Rightarrow> f32 buf \<Rightarrow> f32 buf \<Rightarrow> f32 buf \<Rightarrow> f32 buf \<Rightarrow> f32 buf \<Rightarrow> f32 buf \<Rightarrow> vec3 \<Rightarrow> vec3 \<Rightarrow> f32 stores" where
  "r_4_10_5_16_8_16_4_4_3_3 exp2 fsqrt data1 data2 data3 data4 data5 data6 gindex lindex =
    (let gidx0 = vx gindex;
         gidx1 = vy gindex;
         gidx2 = vz gindex;
         lidx0 = vx lindex;
         lidx1 = vy lindex;
         precast0 = gidx0;
         cast0 = precast0;
         precast1 = lidx1;
         precast2 = push_bit 2 precast1;
         cast1 = precast2;
         precast3 = push_bit 5 cast0;
         cast2 = precast3;
         alu0 = lidx0 * 160;
         alu1 = gidx1 * 2560;
         precast4 = push_bit 3 cast0;
         alu2 = (lidx1 + precast4) <s 39;
         precast5 = gidx1;
         precast6 = push_bit 4 precast5;
         alu3 = (lidx0 + precast6) <s 159;
         alu4 = \<not> ((gidx1 + lidx0) <s 1);
         alu5 = \<not> ((gidx0 + lidx1) <s 1);
         acc0 = (0 :: f32);
         acc1 = (0 :: f32);
         acc2 = (0 :: f32);
         acc3 = (0 :: f32);
         acc4 = (0 :: f32);
         acc5 = (0 :: f32);
         acc6 = (0 :: f32);
         acc7 = (0 :: f32);
         acc8 = (0 :: f32);
         acc9 = (0 :: f32);
         acc10 = (0 :: f32);
         acc11 = (0 :: f32);
         acc12 = (0 :: f32);
         acc13 = (0 :: f32);
         acc14 = (0 :: f32);
         acc15 = (0 :: f32);
         (acc0, acc1, acc2, acc3, acc4, acc5, acc6, acc7,
          acc8, acc9, acc10, acc11, acc12, acc13, acc14, acc15)
          = for_loop 16 (\<lambda>ridx5 (acc0, acc1, acc2, acc3, acc4, acc5, acc6, acc7,
             acc8, acc9, acc10, acc11, acc12, acc13, acc14, acc15).
             let alu6 = gidx2 * 576 + ridx5 * 9;
                 val0 = rd data2 alu6;
                 val1 = rd data2 (alu6 + 1);
                 val2 = rd data2 (alu6 + 2);
                 val3 = rd data2 (alu6 + 3);
                 val4 = rd data2 (alu6 + 4);
                 val5 = rd data2 (alu6 + 5);
                 val6 = rd data2 (alu6 + 6);
                 val7 = rd data2 (alu6 + 7);
                 val8 = rd data2 (alu6 + 8);
                 val9 = rd data2 (alu6 + 144);
                 val10 = rd data2 (alu6 + 145);
                 val11 = rd data2 (alu6 + 146);
                 val12 = rd data2 (alu6 + 147);
                 val13 = rd data2 (alu6 + 148);
                 val14 = rd data2 (alu6 + 149);
                 val15 = rd data2 (alu6 + 150);
                 val16 = rd data2 (alu6 + 151);
                 val17 = rd data2 (alu6 + 152);
                 val18 = rd data2 (alu6 + 288);
                 val19 = rd data2 (alu6 + 289);
                 val20 = rd data2 (alu6 + 290);
                 val21 = rd data2 (alu6 + 291);
                 val22 = rd data2 (alu6 + 292);
                 val23 = rd data2 (alu6 + 293);
                 val24 = rd data2 (alu6 + 294);
                 val25 = rd data2 (alu6 + 295);
                 val26 = rd data2 (alu6 + 296);
                 val27 = rd data2 (alu6 + 432);
                 val28 = rd data2 (alu6 + 433);
                 val29 = rd data2 (alu6 + 434);
                 val30 = rd data2 (alu6 + 435);
                 val31 = rd data2 (alu6 + 436);
                 val32 = rd data2 (alu6 + 437);
                 val33 = rd data2 (alu6 + 438);
                 val34 = rd data2 (alu6 + 439);
                 val35 = rd data2 (alu6 + 440);
                 alu7 = alu1 + alu0 + ridx5 * 25600 + cast2 + cast1;
                 val36 = select 0 (rd data1 (alu7 + 409439)) (alu4 \<and> alu5);
                 val37 = select 0 (rd data1 (alu7 + 409440)) alu4;
                 val38 = select 0 (rd data1 (alu7 + 409441)) alu4;
                 val39 = select 0 (rd data1 (alu7 + 409442)) alu4;
                 val40 = select 0 (rd data1 (alu7 + 409443)) alu4;
                 val41 = select 0 (rd data1 (alu7 + 409444)) (alu4 \<and> alu2);
                 val42 = select 0 (rd data1 (alu7 + 409599)) alu5;
                 val43 = rd data1 (alu7 + 409600);
                 val44 = rd data1 (alu7 + 409601);
                 val45 = rd data1 (alu7 + 409602);
                 val46 = rd data1 (alu7 + 409603);
                 val47 = select 0 (rd data1 (alu7 + 409604)) alu2;
                 val48 = select 0 (rd data1 (alu7 + 409759)) (alu3 \<and> alu5);
                 val49 = select 0 (rd data1 (alu7 + 409760)) alu3;
                 val50 = select 0 (rd data1 (alu7 + 409761)) alu3;
                 val51 = select 0 (rd data1 (alu7 + 409762)) alu3;
                 val52 = select 0 (rd data1 (alu7 + 409763)) alu3;
                 val53 = select 0 (rd data1 (alu7 + 409764)) (alu3 \<and> alu2);
                 acc0 = acc0 + val36 * val0 + val42 * val3 + val48 * val6 + val37 * val1 + val43 * val4 + val49 * val7 + val38 * val2 + val44 * val5 + val50 * val8;
                 acc1 = acc1 + val36 * val9 + val42 * val12 + val48 * val15 + val37 * val10 + val43 * val13 + val49 * val16 + val38 * val11 + val44 * val14 + val50 * val17;
                 acc2 = acc2 + val36 * val18 + val42 * val21 + val48 * val24 + val37 * val19 + val43 * val22 + val49 * val25 + val38 * val20 + val44 * val23 + val50 * val26;
                 acc3 = acc3 + val36 * val27 + val42 * val30 + val48 * val33 + val37 * val28 + val43 * val31 + val49 * val34 + val38 * val29 + val44 * val32 + val50 * val35;
                 acc4 = acc4 + val37 * val0 + val43 * val3 + val49 * val6 + val38 * val1 + val44 * val4 + val50 * val7 + val39 * val2 + val45 * val5 + val51 * val8;
                 acc5 = acc5 + val37 * val9 + val43 * val12 + val49 * val15 + val38 * val10 + val44 * val13 + val50 * val16 + val39 * val11 + val45 * val14 + val51 * val17;
                 acc6 = acc6 + val37 * val18 + val43 * val21 + val49 * val24 + val38 * val19 + val44 * val22 + val50 * val25 + val39 * val20 + val45 * val23 + val51 * val26;
                 acc7 = acc7 + val37 * val27 + val43 * val30 + val49 * val33 + val38 * val28 + val44 * val31 + val50 * val34 + val39 * val29 + val45 * val32 + val51 * val35;
                 acc8 = acc8 + val38 * val0 + val44 * val3 + val50 * val6 + val39 * val1 + val45 * val4 + val51 * val7 + val40 * val2 + val46 * val5 + val52 * val8;
                 acc9 = acc9 + val38 * val9 + val44 * val12 + val50 * val15 + val39 * val10 + val45 * val13 + val51 * val16 + val40 * val11 + val46 * val14 + val52 * val17;
                 acc10 = acc10 + val38 * val18 + val44 * val21 + val50 * val24 + val39 * val19 + val45 * val22 + val51 * val25 + val40 * val20 + val46 * val23 + val52 * val26;
                 acc11 = acc11 + val38 * val27 + val44 * val30 + val50 * val33 + val39 * val28 + val45 * val31 + val51 * val34 + val40 * val29 + val46 * val32 + val52 * val35;
                 acc12 = acc12 + val39 * val0 + val45 * val3 + val51 * val6 + val40 * val1 + val46 * val4 + val52 * val7 + val41 * val2 + val47 * val5 + val53 * val8;
                 acc13 = acc13 + val39 * val9 + val45 * val12 + val51 * val15 + val40 * val10 + val46 * val13 + val52 * val16 + val41 * val11 + val47 * val14 + val53 * val17;
                 acc14 = acc14 + val39 * val18 + val45 * val21 + val51 * val24 + val40 * val19 + val46 * val22 + val52 * val25 + val41 * val20 + val47 * val23 + val53 * val26;
                 acc15 = acc15 + val39 * val27 + val45 * val30 + val51 * val33 + val40 * val28 + val46 * val31 + val52 * val34 + val41 * val29 + val47 * val32 + val53 * val35
             in (acc0, acc1, acc2, acc3, acc4, acc5, acc6, acc7,
                 acc8, acc9, acc10, acc11, acc12, acc13, acc14, acc15))
             (acc0, acc1, acc2, acc3, acc4, acc5, acc6, acc7,
              acc8, acc9, acc10, acc11, acc12, acc13, acc14, acc15);
         precast7 = gidx2;
         precast8 = push_bit 2 precast7;
         cast3 = precast8;
         val54 = rd data3 cast3;
         val55 = rd data4 cast3;
         val56 = rd data5 cast3;
         val57 = rd data6 cast3;
         alu25 = cast3 + 1;
         val58 = rd data3 alu25;
         val59 = rd data4 alu25;
         val60 = rd data5 alu25;
         val61 = rd data6 alu25;
         alu26 = cast3 + 2;
         val62 = rd data3 alu26;
         val63 = rd data4 alu26;
         val64 = rd data5 alu26;
         val65 = rd data6 alu26;
         alu27 = cast3 + 3;
         val66 = rd data3 alu27;
         val67 = rd data4 alu27;
         val68 = rd data5 alu27;
         val69 = rd data6 alu27;
         alu28 = 1 / (fsqrt (val56 + (lit (1 / 1000))));
         alu29 = 1 / (fsqrt (val60 + (lit (1 / 1000))));
         alu30 = 1 / (fsqrt (val64 + (lit (1 / 1000))));
         alu31 = 1 / (fsqrt (val68 + (lit (1 / 1000))));
         alu32 = alu1 + gidx2 * 102400 + cast2 + alu0 + cast1;
         alu33 = (acc0 - val54) * val55 * alu28 + val57;
         alu35 = (acc1 - val58) * val59 * alu29 + val61;
         alu37 = (acc2 - val62) * val63 * alu30 + val65;
         alu39 = (acc3 - val66) * val67 * alu31 + val69;
         alu41 = (acc4 - val54) * val55 * alu28 + val57;
         alu43 = (acc5 - val58) * val59 * alu29 + val61;
         alu45 = (acc6 - val62) * val63 * alu30 + val65;
         alu47 = (acc7 - val66) * val67 * alu31 + val69;
         alu49 = (acc8 - val54) * val55 * alu28 + val57;
         alu51 = (acc9 - val58) * val59 * alu29 + val61;
         alu53 = (acc10 - val62) * val63 * alu30 + val65;
         alu55 = (acc11 - val66) * val67 * alu31 + val69;
         alu57 = (acc12 - val54) * val55 * alu28 + val57;
         alu59 = (acc13 - val58) * val59 * alu29 + val61;
         alu61 = (acc14 - val62) * val63 * alu30 + val65;
         alu63 = (acc15 - val66) * val67 * alu31 + val69
     in [(alu32, alu33 * (1 / (1 + (exp2 (alu33 * (- (lit (14426950408889634 / 10000000000000000)))))))),
         (alu32 + 25600, alu35 * (1 / (1 + (exp2 (alu35 * (- (lit (14426950408889634 / 10000000000000000)))))))),
         (alu32 + 51200, alu37 * (1 / (1 + (exp2 (alu37 * (- (lit (14426950408889634 / 10000000000000000)))))))),
         (alu32 + 76800, alu39 * (1 / (1 + (exp2 (alu39 * (- (lit (14426950408889634 / 10000000000000000)))))))),
         (alu32 + 1, alu41 * (1 / (1 + (exp2 (alu41 * (- (lit (14426950408889634 / 10000000000000000)))))))),
         (alu32 + 25601, alu43 * (1 / (1 + (exp2 (alu43 * (- (lit (14426950408889634 / 10000000000000000)))))))),
         (alu32 + 51201, alu45 * (1 / (1 + (exp2 (alu45 * (- (lit (14426950408889634 / 10000000000000000)))))))),
         (alu32 + 76801, alu47 * (1 / (1 + (exp2 (alu47 * (- (lit (14426950408889634 / 10000000000000000)))))))),
         (alu32 + 2, alu49 * (1 / (1 + (exp2 (alu49 * (- (lit (14426950408889634 / 10000000000000000)))))))),
         (alu32 + 25602, alu51 * (1 / (1 + (exp2 (alu51 * (- (lit (14426950408889634 / 10000000000000000)))))))),
         (alu32 + 51202, alu53 * (1 / (1 + (exp2 (alu53 * (- (lit (14426950408889634 / 10000000000000000)))))))),
         (alu32 + 76802, alu55 * (1 / (1 + (exp2 (alu55 * (- (lit (14426950408889634 / 10000000000000000)))))))),
         (alu32 + 3, alu57 * (1 / (1 + (exp2 (alu57 * (- (lit (14426950408889634 / 10000000000000000)))))))),
         (alu32 + 25603, alu59 * (1 / (1 + (exp2 (alu59 * (- (lit (14426950408889634 / 10000000000000000)))))))),
         (alu32 + 51203, alu61 * (1 / (1 + (exp2 (alu61 * (- (lit (14426950408889634 / 10000000000000000)))))))),
         (alu32 + 76803, alu63 * (1 / (1 + (exp2 (alu63 * (- (lit (14426950408889634 / 10000000000000000))))))))])"

definition r_4_10_5_16_8_16_4_4_3_3_shader :: "(f32 \<Rightarrow> f32) \<Rightarrow> (f32 \<Rightarrow> f32) \<Rightarrow> shader" where
  "r_4_10_5_16_8_16_4_4_3_3_shader exp2 fsqrt = FShader (16, 8, 1) (\<lambda>f i. r_4_10_5_16_8_16_4_4_3_3 exp2 fsqrt (f 1) (f 2) (f 3) (f 4) (f 5) (f 6))"

lemma r_4_10_5_16_8_16_4_4_3_3_stores:
  assumes "gx < 5" "gy < 10" "gz < 4" "lx < 16" "ly < 8"
  shows "set (launch (r_4_10_5_16_8_16_4_4_3_3 exp2 fsqrt x w m g v b) (gx, gy, gz) (lx, ly, 0)) = tile 4 (16 * 10) (4 * (8 * 5)) (layer_value exp2 fsqrt (Conv3 1 160 160 16 16) (reads [x, w, m, g, v, b])) gz (16 * gy + lx) (8 * gx + ly)"
proof -
  have n: "16 * gy + lx \<le> 159" "8 * gx + ly \<le> 39" using assms by simp_all
  have h: "160 = 159 + (1 :: nat)" "160 = 4 * (39 + 1 :: nat)" by simp_all
  note w = less_4[THEN window_1[OF n h]]
  have f: "((of_nat gx + of_nat ly :: i32) <s 1) \<longleftrightarrow> \<not> 0 < 8 * gx + ly" "((of_nat gy + of_nat lx :: i32) <s 1) \<longleftrightarrow> \<not> 0 < 16 * gy + lx"
    by (rule first_test; use assms in simp)+
  have t0: "((of_nat ly + push_bit 3 (of_nat gx) :: i32) <s 39) \<longleftrightarrow> 8 * gx + ly < 39"
    using last_test[of 3 gx ly 39] assms by simp
  have t1: "((of_nat lx + push_bit 4 (of_nat gy) :: i32) <s 159) \<longleftrightarrow> 16 * gy + lx < 159"
    using last_test[of 4 gy lx 159] assms by simp
  show ?thesis
    unfolding r_4_10_5_16_8_16_4_4_3_3_def launch_def Let_def vec_simps f t0 t1 for_loop_16 prod.case log2_e_def[symmetric] sigmoid_def[symmetric] silu_def[symmetric]
    by (rule tile_planes, unfold list.map prod.case list.inject prod.inject layer_value.simps reads_simps w taps_def batch_norm_def, intro conjI)
      (simp_all add: arr_def push_bit_eq_mult algebra_simps)
qed

interpretation r_4_10_5_16_8_16_4_4_3_3: rows_kernel 16 8 5 10 4 4 "launch (r_4_10_5_16_8_16_4_4_3_3 exp2 fsqrt x w m g v b)"
    "layer_value exp2 fsqrt (Conv3 1 160 160 16 16) (reads [x, w, m, g, v, b])"
  for exp2 fsqrt x w m g v b
  by unfold_locales (rule r_4_10_5_16_8_16_4_4_3_3_stores; assumption | simp)+

lemma r_4_10_5_16_8_16_4_4_3_3_computes: "computes exp2 fsqrt (r_4_10_5_16_8_16_4_4_3_3_shader exp2 fsqrt) (5, 10, 4) (Conv3 1 160 160 16 16) 16 160 160"
  unfolding r_4_10_5_16_8_16_4_4_3_3_shader_def by (rule computesI, rule r_4_10_5_16_8_16_4_4_3_3.kernel_contract_axioms) (simp, simp only: layer_inputs, simp)

definition r_4_10_5_16_8_16_4_4_3_3n1 :: "(f32 \<Rightarrow> f32) \<Rightarrow> (f32 \<Rightarrow> f32) \<Rightarrow> f32 buf \<Rightarrow> f32 buf \<Rightarrow> f32 buf \<Rightarrow> f32 buf \<Rightarrow> f32 buf \<Rightarrow> f32 buf \<Rightarrow> f32 buf \<Rightarrow> vec3 \<Rightarrow> vec3 \<Rightarrow> f32 stores" where
  "r_4_10_5_16_8_16_4_4_3_3n1 exp2 fsqrt data1 data2 data3 data4 data5 data6 data7 gindex lindex =
    (let gidx0 = vx gindex;
         gidx1 = vy gindex;
         gidx2 = vz gindex;
         lidx0 = vx lindex;
         lidx1 = vy lindex;
         precast0 = gidx0;
         cast0 = precast0;
         precast1 = lidx1;
         precast2 = push_bit 2 precast1;
         cast1 = precast2;
         precast3 = push_bit 5 cast0;
         cast2 = precast3;
         alu0 = lidx0 * 160;
         alu1 = gidx1 * 2560;
         precast4 = push_bit 3 cast0;
         alu2 = (lidx1 + precast4) <s 39;
         precast5 = gidx1;
         precast6 = push_bit 4 precast5;
         alu3 = (lidx0 + precast6) <s 159;
         alu4 = \<not> ((gidx1 + lidx0) <s 1);
         alu5 = \<not> ((gidx0 + lidx1) <s 1);
         acc0 = (0 :: f32);
         acc1 = (0 :: f32);
         acc2 = (0 :: f32);
         acc3 = (0 :: f32);
         acc4 = (0 :: f32);
         acc5 = (0 :: f32);
         acc6 = (0 :: f32);
         acc7 = (0 :: f32);
         acc8 = (0 :: f32);
         acc9 = (0 :: f32);
         acc10 = (0 :: f32);
         acc11 = (0 :: f32);
         acc12 = (0 :: f32);
         acc13 = (0 :: f32);
         acc14 = (0 :: f32);
         acc15 = (0 :: f32);
         (acc0, acc1, acc2, acc3, acc4, acc5, acc6, acc7,
          acc8, acc9, acc10, acc11, acc12, acc13, acc14, acc15)
          = for_loop 16 (\<lambda>ridx5 (acc0, acc1, acc2, acc3, acc4, acc5, acc6, acc7,
             acc8, acc9, acc10, acc11, acc12, acc13, acc14, acc15).
             let alu6 = gidx2 * 576 + ridx5 * 9;
                 val0 = rd data3 alu6;
                 val1 = rd data3 (alu6 + 1);
                 val2 = rd data3 (alu6 + 2);
                 val3 = rd data3 (alu6 + 3);
                 val4 = rd data3 (alu6 + 4);
                 val5 = rd data3 (alu6 + 5);
                 val6 = rd data3 (alu6 + 6);
                 val7 = rd data3 (alu6 + 7);
                 val8 = rd data3 (alu6 + 8);
                 val9 = rd data3 (alu6 + 144);
                 val10 = rd data3 (alu6 + 145);
                 val11 = rd data3 (alu6 + 146);
                 val12 = rd data3 (alu6 + 147);
                 val13 = rd data3 (alu6 + 148);
                 val14 = rd data3 (alu6 + 149);
                 val15 = rd data3 (alu6 + 150);
                 val16 = rd data3 (alu6 + 151);
                 val17 = rd data3 (alu6 + 152);
                 val18 = rd data3 (alu6 + 288);
                 val19 = rd data3 (alu6 + 289);
                 val20 = rd data3 (alu6 + 290);
                 val21 = rd data3 (alu6 + 291);
                 val22 = rd data3 (alu6 + 292);
                 val23 = rd data3 (alu6 + 293);
                 val24 = rd data3 (alu6 + 294);
                 val25 = rd data3 (alu6 + 295);
                 val26 = rd data3 (alu6 + 296);
                 val27 = rd data3 (alu6 + 432);
                 val28 = rd data3 (alu6 + 433);
                 val29 = rd data3 (alu6 + 434);
                 val30 = rd data3 (alu6 + 435);
                 val31 = rd data3 (alu6 + 436);
                 val32 = rd data3 (alu6 + 437);
                 val33 = rd data3 (alu6 + 438);
                 val34 = rd data3 (alu6 + 439);
                 val35 = rd data3 (alu6 + 440);
                 alu7 = alu1 + alu0 + ridx5 * 25600 + cast2 + cast1;
                 val36 = rd data2 alu7;
                 val37 = select 0 (rd data2 (alu7 + (- 161))) (alu4 \<and> alu5);
                 val38 = select 0 (rd data2 (alu7 + (- 160))) alu4;
                 val39 = select 0 (rd data2 (alu7 + (- 159))) alu4;
                 val40 = select 0 (rd data2 (alu7 + (- 158))) alu4;
                 val41 = select 0 (rd data2 (alu7 + (- 157))) alu4;
                 val42 = select 0 (rd data2 (alu7 + (- 156))) (alu4 \<and> alu2);
                 val43 = select 0 (rd data2 (alu7 + (- 1))) alu5;
                 val44 = rd data2 (alu7 + 1);
                 val45 = rd data2 (alu7 + 2);
                 val46 = rd data2 (alu7 + 3);
                 val47 = select 0 (rd data2 (alu7 + 4)) alu2;
                 val48 = select 0 (rd data2 (alu7 + 159)) (alu3 \<and> alu5);
                 val49 = select 0 (rd data2 (alu7 + 160)) alu3;
                 val50 = select 0 (rd data2 (alu7 + 161)) alu3;
                 val51 = select 0 (rd data2 (alu7 + 162)) alu3;
                 val52 = select 0 (rd data2 (alu7 + 163)) alu3;
                 val53 = select 0 (rd data2 (alu7 + 164)) (alu3 \<and> alu2);
                 acc0 = acc0 + val37 * val0 + val43 * val3 + val48 * val6 + val38 * val1 + val36 * val4 + val49 * val7 + val39 * val2 + val44 * val5 + val50 * val8;
                 acc1 = acc1 + val37 * val9 + val43 * val12 + val48 * val15 + val38 * val10 + val36 * val13 + val49 * val16 + val39 * val11 + val44 * val14 + val50 * val17;
                 acc2 = acc2 + val37 * val18 + val43 * val21 + val48 * val24 + val38 * val19 + val36 * val22 + val49 * val25 + val39 * val20 + val44 * val23 + val50 * val26;
                 acc3 = acc3 + val37 * val27 + val43 * val30 + val48 * val33 + val38 * val28 + val36 * val31 + val49 * val34 + val39 * val29 + val44 * val32 + val50 * val35;
                 acc4 = acc4 + val38 * val0 + val36 * val3 + val49 * val6 + val39 * val1 + val44 * val4 + val50 * val7 + val40 * val2 + val45 * val5 + val51 * val8;
                 acc5 = acc5 + val38 * val9 + val36 * val12 + val49 * val15 + val39 * val10 + val44 * val13 + val50 * val16 + val40 * val11 + val45 * val14 + val51 * val17;
                 acc6 = acc6 + val38 * val18 + val36 * val21 + val49 * val24 + val39 * val19 + val44 * val22 + val50 * val25 + val40 * val20 + val45 * val23 + val51 * val26;
                 acc7 = acc7 + val38 * val27 + val36 * val30 + val49 * val33 + val39 * val28 + val44 * val31 + val50 * val34 + val40 * val29 + val45 * val32 + val51 * val35;
                 acc8 = acc8 + val39 * val0 + val44 * val3 + val50 * val6 + val40 * val1 + val45 * val4 + val51 * val7 + val41 * val2 + val46 * val5 + val52 * val8;
                 acc9 = acc9 + val39 * val9 + val44 * val12 + val50 * val15 + val40 * val10 + val45 * val13 + val51 * val16 + val41 * val11 + val46 * val14 + val52 * val17;
                 acc10 = acc10 + val39 * val18 + val44 * val21 + val50 * val24 + val40 * val19 + val45 * val22 + val51 * val25 + val41 * val20 + val46 * val23 + val52 * val26;
                 acc11 = acc11 + val39 * val27 + val44 * val30 + val50 * val33 + val40 * val28 + val45 * val31 + val51 * val34 + val41 * val29 + val46 * val32 + val52 * val35;
                 acc12 = acc12 + val40 * val0 + val45 * val3 + val51 * val6 + val41 * val1 + val46 * val4 + val52 * val7 + val42 * val2 + val47 * val5 + val53 * val8;
                 acc13 = acc13 + val40 * val9 + val45 * val12 + val51 * val15 + val41 * val10 + val46 * val13 + val52 * val16 + val42 * val11 + val47 * val14 + val53 * val17;
                 acc14 = acc14 + val40 * val18 + val45 * val21 + val51 * val24 + val41 * val19 + val46 * val22 + val52 * val25 + val42 * val20 + val47 * val23 + val53 * val26;
                 acc15 = acc15 + val40 * val27 + val45 * val30 + val51 * val33 + val41 * val28 + val46 * val31 + val52 * val34 + val42 * val29 + val47 * val32 + val53 * val35
             in (acc0, acc1, acc2, acc3, acc4, acc5, acc6, acc7,
                 acc8, acc9, acc10, acc11, acc12, acc13, acc14, acc15))
             (acc0, acc1, acc2, acc3, acc4, acc5, acc6, acc7,
              acc8, acc9, acc10, acc11, acc12, acc13, acc14, acc15);
         precast7 = gidx2;
         alu25 = alu1 + gidx2 * 102400 + cast2 + alu0 + cast1;
         val54 = rd data1 (alu25 + 409600);
         val55 = rd data1 (alu25 + 409601);
         val56 = rd data1 (alu25 + 409602);
         val57 = rd data1 (alu25 + 409603);
         val58 = rd data1 (alu25 + 435200);
         val59 = rd data1 (alu25 + 435201);
         val60 = rd data1 (alu25 + 435202);
         val61 = rd data1 (alu25 + 435203);
         val62 = rd data1 (alu25 + 460800);
         val63 = rd data1 (alu25 + 460801);
         val64 = rd data1 (alu25 + 460802);
         val65 = rd data1 (alu25 + 460803);
         val66 = rd data1 (alu25 + 486400);
         val67 = rd data1 (alu25 + 486401);
         val68 = rd data1 (alu25 + 486402);
         val69 = rd data1 (alu25 + 486403);
         precast8 = push_bit 2 precast7;
         cast3 = precast8;
         val70 = rd data4 cast3;
         val71 = rd data5 cast3;
         val72 = rd data6 cast3;
         val73 = rd data7 cast3;
         alu26 = cast3 + 1;
         val74 = rd data4 alu26;
         val75 = rd data5 alu26;
         val76 = rd data6 alu26;
         val77 = rd data7 alu26;
         alu27 = cast3 + 2;
         val78 = rd data4 alu27;
         val79 = rd data5 alu27;
         val80 = rd data6 alu27;
         val81 = rd data7 alu27;
         alu28 = cast3 + 3;
         val82 = rd data4 alu28;
         val83 = rd data5 alu28;
         val84 = rd data6 alu28;
         val85 = rd data7 alu28;
         alu29 = 1 / (fsqrt (val72 + (lit (1 / 1000))));
         alu30 = 1 / (fsqrt (val76 + (lit (1 / 1000))));
         alu31 = 1 / (fsqrt (val80 + (lit (1 / 1000))));
         alu32 = 1 / (fsqrt (val84 + (lit (1 / 1000))));
         alu33 = (acc0 - val70) * val71 * alu29 + val73;
         alu35 = (acc1 - val74) * val75 * alu30 + val77;
         alu37 = (acc2 - val78) * val79 * alu31 + val81;
         alu39 = (acc3 - val82) * val83 * alu32 + val85;
         alu41 = (acc4 - val70) * val71 * alu29 + val73;
         alu43 = (acc5 - val74) * val75 * alu30 + val77;
         alu45 = (acc6 - val78) * val79 * alu31 + val81;
         alu47 = (acc7 - val82) * val83 * alu32 + val85;
         alu49 = (acc8 - val70) * val71 * alu29 + val73;
         alu51 = (acc9 - val74) * val75 * alu30 + val77;
         alu53 = (acc10 - val78) * val79 * alu31 + val81;
         alu55 = (acc11 - val82) * val83 * alu32 + val85;
         alu57 = (acc12 - val70) * val71 * alu29 + val73;
         alu59 = (acc13 - val74) * val75 * alu30 + val77;
         alu61 = (acc14 - val78) * val79 * alu31 + val81;
         alu63 = (acc15 - val82) * val83 * alu32 + val85
     in [(alu25, val54 + alu33 * (1 / (1 + (exp2 (alu33 * (- (lit (14426950408889634 / 10000000000000000)))))))),
         (alu25 + 25600, val58 + alu35 * (1 / (1 + (exp2 (alu35 * (- (lit (14426950408889634 / 10000000000000000)))))))),
         (alu25 + 51200, val62 + alu37 * (1 / (1 + (exp2 (alu37 * (- (lit (14426950408889634 / 10000000000000000)))))))),
         (alu25 + 76800, val66 + alu39 * (1 / (1 + (exp2 (alu39 * (- (lit (14426950408889634 / 10000000000000000)))))))),
         (alu25 + 1, val55 + alu41 * (1 / (1 + (exp2 (alu41 * (- (lit (14426950408889634 / 10000000000000000)))))))),
         (alu25 + 25601, val59 + alu43 * (1 / (1 + (exp2 (alu43 * (- (lit (14426950408889634 / 10000000000000000)))))))),
         (alu25 + 51201, val63 + alu45 * (1 / (1 + (exp2 (alu45 * (- (lit (14426950408889634 / 10000000000000000)))))))),
         (alu25 + 76801, val67 + alu47 * (1 / (1 + (exp2 (alu47 * (- (lit (14426950408889634 / 10000000000000000)))))))),
         (alu25 + 2, val56 + alu49 * (1 / (1 + (exp2 (alu49 * (- (lit (14426950408889634 / 10000000000000000)))))))),
         (alu25 + 25602, val60 + alu51 * (1 / (1 + (exp2 (alu51 * (- (lit (14426950408889634 / 10000000000000000)))))))),
         (alu25 + 51202, val64 + alu53 * (1 / (1 + (exp2 (alu53 * (- (lit (14426950408889634 / 10000000000000000)))))))),
         (alu25 + 76802, val68 + alu55 * (1 / (1 + (exp2 (alu55 * (- (lit (14426950408889634 / 10000000000000000)))))))),
         (alu25 + 3, val57 + alu57 * (1 / (1 + (exp2 (alu57 * (- (lit (14426950408889634 / 10000000000000000)))))))),
         (alu25 + 25603, val61 + alu59 * (1 / (1 + (exp2 (alu59 * (- (lit (14426950408889634 / 10000000000000000)))))))),
         (alu25 + 51203, val65 + alu61 * (1 / (1 + (exp2 (alu61 * (- (lit (14426950408889634 / 10000000000000000)))))))),
         (alu25 + 76803, val69 + alu63 * (1 / (1 + (exp2 (alu63 * (- (lit (14426950408889634 / 10000000000000000))))))))])"

definition r_4_10_5_16_8_16_4_4_3_3n1_shader :: "(f32 \<Rightarrow> f32) \<Rightarrow> (f32 \<Rightarrow> f32) \<Rightarrow> shader" where
  "r_4_10_5_16_8_16_4_4_3_3n1_shader exp2 fsqrt = FShader (16, 8, 1) (\<lambda>f i. r_4_10_5_16_8_16_4_4_3_3n1 exp2 fsqrt (f 1) (f 2) (f 3) (f 4) (f 5) (f 6) (f 7))"

lemma r_4_10_5_16_8_16_4_4_3_3n1_stores:
  assumes "gx < 5" "gy < 10" "gz < 4" "lx < 16" "ly < 8"
  shows "set (launch (r_4_10_5_16_8_16_4_4_3_3n1 exp2 fsqrt r x w m g v b) (gx, gy, gz) (lx, ly, 0)) = tile 4 (16 * 10) (4 * (8 * 5)) (layer_value exp2 fsqrt (Residual 160 160 0 16 16) (reads [r, x, w, m, g, v, b])) gz (16 * gy + lx) (8 * gx + ly)"
proof -
  have n: "16 * gy + lx \<le> 159" "8 * gx + ly \<le> 39" using assms by simp_all
  have h: "160 = 159 + (1 :: nat)" "160 = 4 * (39 + 1 :: nat)" by simp_all
  note w = less_4[THEN window_1[OF n h]]
  have f: "((of_nat gx + of_nat ly :: i32) <s 1) \<longleftrightarrow> \<not> 0 < 8 * gx + ly" "((of_nat gy + of_nat lx :: i32) <s 1) \<longleftrightarrow> \<not> 0 < 16 * gy + lx"
    by (rule first_test; use assms in simp)+
  have t0: "((of_nat ly + push_bit 3 (of_nat gx) :: i32) <s 39) \<longleftrightarrow> 8 * gx + ly < 39"
    using last_test[of 3 gx ly 39] assms by simp
  have t1: "((of_nat lx + push_bit 4 (of_nat gy) :: i32) <s 159) \<longleftrightarrow> 16 * gy + lx < 159"
    using last_test[of 4 gy lx 159] assms by simp
  show ?thesis
    unfolding r_4_10_5_16_8_16_4_4_3_3n1_def launch_def Let_def vec_simps f t0 t1 for_loop_16 prod.case log2_e_def[symmetric] sigmoid_def[symmetric] silu_def[symmetric]
    by (rule tile_planes, unfold list.map prod.case list.inject prod.inject layer_value.simps reads_simps w taps_def batch_norm_def, intro conjI)
      (simp_all add: arr_def push_bit_eq_mult algebra_simps)
qed

interpretation r_4_10_5_16_8_16_4_4_3_3n1: rows_kernel 16 8 5 10 4 4 "launch (r_4_10_5_16_8_16_4_4_3_3n1 exp2 fsqrt r x w m g v b)"
    "layer_value exp2 fsqrt (Residual 160 160 0 16 16) (reads [r, x, w, m, g, v, b])"
  for exp2 fsqrt r x w m g v b
  by unfold_locales (rule r_4_10_5_16_8_16_4_4_3_3n1_stores; assumption | simp)+

lemma r_4_10_5_16_8_16_4_4_3_3n1_computes: "computes exp2 fsqrt (r_4_10_5_16_8_16_4_4_3_3n1_shader exp2 fsqrt) (5, 10, 4) (Residual 160 160 0 16 16) 16 160 160"
  unfolding r_4_10_5_16_8_16_4_4_3_3n1_shader_def by (rule computesI, rule r_4_10_5_16_8_16_4_4_3_3n1.kernel_contract_axioms) (simp, simp only: layer_inputs, simp)

end
