(* ===== verification/Windows80.thy ===== *)
theory Windows80
  imports Layers
begin

text \<open>
  The 3x3 convolutions of \<open>server/cherum/static/net.js\<close> that give tensors with 80x80 cells.
  Each kernel is followed by its shader and by the stores of one invocation: the tile of the layer.
\<close>

definition r_8_5_5_2_16_4_32_4_4_3_3 :: "(f32 \<Rightarrow> f32) \<Rightarrow> (f32 \<Rightarrow> f32) \<Rightarrow> f32 buf \<Rightarrow> f32 buf \<Rightarrow> f32 buf \<Rightarrow> f32 buf \<Rightarrow> f32 buf \<Rightarrow> f32 buf \<Rightarrow> vec3 \<Rightarrow> vec3 \<Rightarrow> f32 stores" where
  "r_8_5_5_2_16_4_32_4_4_3_3 exp2 fsqrt data1 data2 data3 data4 data5 data6 gindex lindex =
    (let gidx0 = vx gindex;
         gidx1 = vy gindex;
         gidx2 = vz gindex;
         lidx0 = vx lindex;
         lidx1 = vy lindex;
         lidx2 = vz lindex;
         precast0 = lidx2;
         cast0 = precast0;
         precast1 = gidx0;
         cast1 = precast1;
         alu0 = \<not> ((gidx0 + lidx2) <s 1);
         alu1 = \<not> ((gidx1 + lidx1) <s 1);
         precast2 = push_bit 5 cast1;
         precast3 = push_bit 3 cast0;
         acc0 = (0 :: f32);
         acc1 = (0 :: f32);
         acc2 = (0 :: f32);
         acc3 = (0 :: f32);
         acc4 = (0 :: f32);
         acc5 = (0 :: f32);
         acc6 = (0 :: f32);
         acc7 = (0 :: f32);
         acc8 = (0 :: f32);
         acc9 = (0 :: f32);
         acc10 = (0 :: f32);
         acc11 = (0 :: f32);
         acc12 = (0 :: f32);
         acc13 = (0 :: f32);
         acc14 = (0 :: f32);
         acc15 = (0 :: f32);
         (acc0, acc1, acc2, acc3, acc4, acc5, acc6, acc7,
          acc8, acc9, acc10, acc11, acc12, acc13, acc14, acc15)
          = for_loop 32 (\<lambda>ridx6 (acc0, acc1, acc2, acc3, acc4, acc5, acc6, acc7,
             acc8, acc9, acc10, acc11, acc12, acc13, acc14, acc15).
             let alu2 = gidx2 * 2304 + lidx0 * 1152 + ridx6 * 9;
                 val0 = rd data2 alu2;
                 val1 = rd data2 (alu2 + 1);
                 val2 = rd data2 (alu2 + 2);
                 val3 = rd data2 (alu2 + 3);
                 val4 = rd data2 (alu2 + 4);
                 val5 = rd data2 (alu2 + 5);
                 val6 = rd data2 (alu2 + 6);
                 val7 = rd data2 (alu2 + 7);
                 val8 = rd data2 (alu2 + 8);
                 val9 = rd data2 (alu2 + 288);
                 val10 = rd data2 (alu2 + 289);
                 val11 = rd data2 (alu2 + 290);
                 val12 = rd data2 (alu2 + 291);
                 val13 = rd data2 (alu2 + 292);
                 val14 = rd data2 (alu2 + 293);
                 val15 = rd data2 (alu2 + 294);
                 val16 = rd data2 (alu2 + 295);
                 val17 = rd data2 (alu2 + 296);
                 val18 = rd data2 (alu2 + 576);
                 val19 = rd data2 (alu2 + 577);
                 val20 = rd data2 (alu2 + 578);
                 val21 = rd data2 (alu2 + 579);
                 val22 = rd data2 (alu2 + 580);
                 val23 = rd data2 (alu2 + 581);
                 val24 = rd data2 (alu2 + 582);
                 val25 = rd data2 (alu2 + 583);
                 val26 = rd data2 (alu2 + 584);
                 val27 = rd data2 (alu2 + 864);
                 val28 = rd data2 (alu2 + 865);
                 val29 = rd data2 (alu2 + 866);
                 val30 = rd data2 (alu2 + 867);
                 val31 = rd data2 (alu2 + 868);
                 val32 = rd data2 (alu2 + 869);
                 val33 = rd data2 (alu2 + 870);
                 val34 = rd data2 (alu2 + 871);
                 val35 = rd data2 (alu2 + 872);
                 alu3 = gidx1 * 5120 + lidx1 * 320 + ridx6 * 25600 + precast2 + precast3;
                 val36 = rd data1 alu3;
                 val37 = select 0 (rd data1 (alu3 + (- 161))) (alu1 \<and> alu0);
                 val38 = select 0 (rd data1 (alu3 + (- 160))) alu1;
                 val39 = select 0 (rd data1 (alu3 + (- 159))) alu1;
                 val40 = select 0 (rd data1 (alu3 + (- 158))) alu1;
                 val41 = select 0 (rd data1 (alu3 + (- 157))) alu1;
                 val42 = select 0 (rd data1 (alu3 + (- 156))) alu1;
                 val43 = select 0 (rd data1 (alu3 + (- 155))) alu1;
                 val44 = select 0 (rd data1 (alu3 + (- 154))) alu1;
                 val45 = select 0 (rd data1 (alu3 + (- 153))) alu1;
                 val46 = select 0 (rd data1 (alu3 + (- 1))) alu0;
                 val47 = rd data1 (alu3 + 1);
                 val48 = rd data1 (alu3 + 2);
                 val49 = rd data1 (alu3 + 3);
                 val50 = rd data1 (alu3 + 4);
                 val51 = rd data1 (alu3 + 5);
                 val52 = rd data1 (alu3 + 6);
                 val53 = rd data1 (alu3 + 7);
                 val54 = select 0 (rd data1 (alu3 + 159)) alu0;
                 val55 = rd data1 (alu3 + 160);
                 val56 = rd data1 (alu3 + 161);
                 val57 = rd data1 (alu3 + 162);
                 val58 = rd data1 (alu3 + 163);
                 val59 = rd data1 (alu3 + 164);
                 val60 = rd data1 (alu3 + 165);
                 val61 = rd data1 (alu3 + 166);
                 val62 = rd data1 (alu3 + 167);
                 acc0 = acc0 + val37 * val0 + val46 * val3 + val54 * val6 + val38 * val1 + val36 * val4 + val55 * val7 + val39 * val2 + val47 * val5 + val56 * val8;
                 acc1 = acc1 + val37 * val9 + val46 * val12 + val54 * val15 + val38 * val10 + val36 * val13 + val55 * val16 + val39 * val11 + val47 * val14 + val56 * val17;
                 acc2 = acc2 + val37 * val18 + val46 * val21 + val54 * val24 + val38 * val19 + val36 * val22 + val55 * val25 + val39 * val20 + val47 * val23 + val56 * val26;
                 acc3 = acc3 + val37 * val27 + val46 * val30 + val54 * val33 + val38 * val28 + val36 * val31 + val55 * val34 + val39 * val29 + val47 * val32 + val56 * val35;
                 acc4 = acc4 + val39 * val0 + val47 * val3 + val56 * val6 + val40 * val1 + val48 * val4 + val57 * val7 + val41 * val2 + val49 * val5 + val58 * val8;
                 acc5 = acc5 + val39 * val9 + val47 * val12 + val56 * val15 + val40 * val10 + val48 * val13 + val57 * val16 + val41 * val11 + val49 * val14 + val58 * val17;
                 acc6 = acc6 + val39 * val18 + val47 * val21 + val56 * val24 + val40 * val19 + val48 * val22 + val57 * val25 + val41 * val20 + val49 * val23 + val58 * val26;
                 acc7 = acc7 + val39 * val27 + val47 * val30 + val56 * val33 + val40 * val28 + val48 * val31 + val57 * val34 + val41 * val29 + val49 * val32 + val58 * val35;
                 acc8 = acc8 + val41 * val0 + val49 * val3 + val58 * val6 + val42 * val1 + val50 * val4 + val59 * val7 + val43 * val2 + val51 * val5 + val60 * val8;
                 acc9 = acc9 + val41 * val9 + val49 * val12 + val58 * val15 + val42 * val10 + val50 * val13 + val59 * val16 + val43 * val11 + val51 * val14 + val60 * val17;
                 acc10 = acc10 + val41 * val18 + val49 * val21 + val58 * val24 + val42 * val19 + val50 * val22 + val59 * val25 + val43 * val20 + val51 * val23 + val60 * val26;
                 acc11 = acc11 + val41 * val27 + val49 * val30 + val58 * val33 + val42 * val28 + val50 * val31 + val59 * val34 + val43 * val29 + val51 * val32 + val60 * val35;
                 acc12 = acc12 + val43 * val0 + val51 * val3 + val60 * val6 + val44 * val1 + val52 * val4 + val61 * val7 + val45 * val2 + val53 * val5 + val62 * val8;
                 acc13 = acc13 + val43 * val9 + val51 * val12 + val60 * val15 + val44 * val10 + val52 * val13 + val61 * val16 + val45 * val11 + val53 * val14 + val62 * val17;
                 acc14 = acc14 + val43 * val18 + val51 * val21 + val60 * val24 + val44 * val19 + val52 * val22 + val61 * val25 + val45 * val20 + val53 * val23 + val62 * val26;
                 acc15 = acc15 + val43 * val27 + val51 * val30 + val60 * val33 + val44 * val28 + val52 * val31 + val61 * val34 + val45 * val29 + val53 * val32 + val62 * val35
             in (acc0, acc1, acc2, acc3, acc4, acc5, acc6, acc7,
                 acc8, acc9, acc10, acc11, acc12, acc13, acc14, acc15))
             (acc0, acc1, acc2, acc3, acc4, acc5, acc6, acc7,
              acc8, acc9, acc10, acc11, acc12, acc13, acc14, acc15);
         precast4 = gidx2;
         precast5 = lidx0;
         precast6 = push_bit 3 precast4;
         precast7 = push_bit 2 precast5;
         alu21 = precast6 + precast7;
         val63 = rd data3 alu21;
         val64 = rd data4 alu21;
         val65 = rd data5 alu21;
         val66 = rd data6 alu21;
         alu22 = alu21 + 1;
         val67 = rd data3 alu22;
         val68 = rd data4 alu22;
         val69 = rd data5 alu22;
         val70 = rd data6 alu22;
         alu23 = alu21 + 2;
         val71 = rd data3 alu23;
         val72 = rd data4 alu23;
         val73 = rd data5 alu23;
         val74 = rd data6 alu23;
         alu24 = alu21 + 3;
         val75 = rd data3 alu24;
         val76 = rd data4 alu24;
         val77 = rd data5 alu24;
         val78 = rd data6 alu24;
         alu25 = 1 / (fsqrt (val65 + (lit (1 / 1000))));
         alu26 = 1 / (fsqrt (val69 + (lit (1 / 1000))));
         alu27 = 1 / (fsqrt (val73 + (lit (1 / 1000))));
         alu28 = 1 / (fsqrt (val77 + (lit (1 / 1000))));
         precast8 = push_bit 4 cast1;
         precast9 = push_bit 2 cast0;
         alu29 = gidx1 * 1280 + gidx2 * 51200 + precast8 + lidx0 * 25600 + lidx1 * 80 + precast9;
         alu30 = (acc0 - val63) * val64 * alu25 + val66;
         alu32 = (acc1 - val67) * val68 * alu26 + val70;
         alu34 = (acc2 - val71) * val72 * alu27 + val74;
         alu36 = (acc3 - val75) * val76 * alu28 + val78;
         alu38 = (acc4 - val63) * val64 * alu25 + val66;
         alu40 = (acc5 - val67) * val68 * alu26 + val70;
         alu42 = (acc6 - val71) * val72 * alu27 + val74;
         alu44 = (acc7 - val75) * val76 * alu28 + val78;
         alu46 = (acc8 - val63) * val64 * alu25 + val66;
         alu48 = (acc9 - val67) * val68 * alu26 + val70;
         alu50 = (acc10 - val71) * val72 * alu27 + val74;
         alu52 = (acc11 - val75) * val76 * alu28 + val78;
         alu54 = (acc12 - val63) * val64 * alu25 + val66;
         alu56 = (acc13 - val67) * val68 * alu26 + val70;
         alu58 = (acc14 - val71) * val72 * alu27 + val74;
         alu60 = (acc15 - val75) * val76 * alu28 + val78
     in [(alu29, alu30 * (1 / (1 + (exp2 (alu30 * (- (lit (14426950408889634 / 10000000000000000)))))))),
         (alu29 + 6400, alu32 * (1 / (1 + (exp2 (alu32 * (- (lit (14426950408889634 / 10000000000000000)))))))),
         (alu29 + 12800, alu34 * (1 / (1 + (exp2 (alu34 * (- (lit (14426950408889634 / 10000000000000000)))))))),
         (alu29 + 19200, alu36 * (1 / (1 + (exp2 (alu36 * (- (lit (14426950408889634 / 10000000000000000)))))))),
         (alu29 + 1, alu38 * (1 / (1 + (exp2 (alu38 * (- (lit (14426950408889634 / 10000000000000000)))))))),
         (alu29 + 6401, alu40 * (1 / (1 + (exp2 (alu40 * (- (lit (14426950408889634 / 10000000000000000)))))))),
         (alu29 + 12801, alu42 * (1 / (1 + (exp2 (alu42 * (- (lit (14426950408889634 / 10000000000000000)))))))),
         (alu29 + 19201, alu44 * (1 / (1 + (exp2 (alu44 * (- (lit (14426950408889634 / 10000000000000000)))))))),
         (alu29 + 2, alu46 * (1 / (1 + (exp2 (alu46 * (- (lit (14426950408889634 / 10000000000000000)))))))),
         (alu29 + 6402, alu48 * (1 / (1 + (exp2 (alu48 * (- (lit (14426950408889634 / 10000000000000000)))))))),
         (alu29 + 12802, alu50 * (1 / (1 + (exp2 (alu50 * (- (lit (14426950408889634 / 10000000000000000)))))))),
         (alu29 + 19202, alu52 * (1 / (1 + (exp2 (alu52 * (- (lit (14426950408889634 / 10000000000000000)))))))),
         (alu29 + 3, alu54 * (1 / (1 + (exp2 (alu54 * (- (lit (14426950408889634 / 10000000000000000)))))))),
         (alu29 + 6403, alu56 * (1 / (1 + (exp2 (alu56 * (- (lit (14426950408889634 / 10000000000000000)))))))),
         (alu29 + 12803, alu58 * (1 / (1 + (exp2 (alu58 * (- (lit (14426950408889634 / 10000000000000000)))))))),
         (alu29 + 19203, alu60 * (1 / (1 + (exp2 (alu60 * (- (lit (14426950408889634 / 10000000000000000))))))))])"

definition r_8_5_5_2_16_4_32_4_4_3_3_shader :: "(f32 \<Rightarrow> f32) \<Rightarrow> (f32 \<Rightarrow> f32) \<Rightarrow> shader" where
  "r_8_5_5_2_16_4_32_4_4_3_3_shader exp2 fsqrt = FShader (2, 16, 4) (\<lambda>f i. r_8_5_5_2_16_4_32_4_4_3_3 exp2 fsqrt (f 1) (f 2) (f 3) (f 4) (f 5) (f 6))"

lemma r_8_5_5_2_16_4_32_4_4_3_3_stores:
  assumes "gx < 5" "gy < 5" "gz < 8" "lx < 2" "ly < 16" "lz < 4"
  shows "set (launch (r_8_5_5_2_16_4_32_4_4_3_3 exp2 fsqrt x w m g v b) (gx, gy, gz) (lx, ly, lz)) = tile 4 (16 * 5) (4 * (4 * 5)) (layer_value exp2 fsqrt (Conv3 2 160 160 0 32) (reads [x, w, m, g, v, b])) (2 * gz + lx) (16 * gy + ly) (4 * gx + lz)"
proof -
  have n: "16 * gy + ly \<le> 79" "4 * gx + lz \<le> 19" using assms by simp_all
  have h: "160 = 2 * (79 + 1 :: nat)" "160 = 8 * (19 + 1 :: nat)" by simp_all
  note w = less_4[THEN window_2[OF n h]]
  have f: "((of_nat gx + of_nat lz :: i32) <s 1) \<longleftrightarrow> \<not> 0 < 4 * gx + lz" "((of_nat gy + of_nat ly :: i32) <s 1) \<longleftrightarrow> \<not> 0 < 16 * gy + ly"
    by (rule first_test; use assms in simp)+
  show ?thesis
    unfolding r_8_5_5_2_16_4_32_4_4_3_3_def launch_def Let_def vec_simps f for_loop_16 prod.case log2_e_def[symmetric] sigmoid_def[symmetric] silu_def[symmetric]
    by (rule tile_planes, unfold list.map prod.case list.inject prod.inject layer_value.simps reads_simps w taps_def batch_norm_def, intro conjI)
      (simp_all add: arr_def push_bit_eq_mult algebra_simps)
qed

interpretation r_8_5_5_2_16_4_32_4_4_3_3: spatial_kernel 2 16 4 5 5 8 4 "launch (r_8_5_5_2_16_4_32_4_4_3_3 exp2 fsqrt x w m g v b)"
    "layer_value exp2 fsqrt (Conv3 2 160 160 0 32) (reads [x, w, m, g, v, b])"
  for exp2 fsqrt x w m g v b
  by unfold_locales (rule r_8_5_5_2_16_4_32_4_4_3_3_stores; assumption | simp)+

lemma r_8_5_5_2_16_4_32_4_4_3_3_computes: "computes exp2 fsqrt (r_8_5_5_2_16_4_32_4_4_3_3_shader exp2 fsqrt) (5, 5, 8) (Conv3 2 160 160 0 32) 64 80 80"
  unfolding r_8_5_5_2_16_4_32_4_4_3_3_shader_def by (rule computesI, rule r_8_5_5_2_16_4_32_4_4_3_3.kernel_contract_axioms) (simp, simp only: layer_inputs, simp)

definition r_4_5_5_2_16_4_32_4_4_3_3 :: "(f32 \<Rightarrow> f32) \<Rightarrow> (f32 \<Rightarrow> f32) \<Rightarrow> f32 buf \<Rightarrow> f32 buf \<Rightarrow> f32 buf \<Rightarrow> f32 buf \<Rightarrow> f32 buf \<Rightarrow> f32 buf \<Rightarrow> vec3 \<Rightarrow> vec3 \<Rightarrow> f32 stores" where
  "r_4_5_5_2_16_4_32_4_4_3_3 exp2 fsqrt data1 data2 data3 data4 data5 data6 gindex lindex =
    (let gidx0 = vx gindex;
         gidx1 = vy gindex;
         gidx2 = vz gindex;
         lidx0 = vx lindex;
         lidx1 = vy lindex;
         lidx2 = vz lindex;
         precast0 = gidx0;
         cast0 = precast0;
         precast1 = lidx2;
         precast2 = push_bit 2 precast1;
         cast1 = precast2;
         precast3 = push_bit 4 cast0;
         cast2 = precast3;
         alu0 = lidx1 * 80;
         alu1 = gidx1 * 1280;
         precast4 = push_bit 2 cast0;
         alu2 = (lidx2 + precast4) <s 19;
         precast5 = gidx1;
         precast6 = push_bit 4 precast5;
         alu3 = (lidx1 + precast6) <s 79;
         alu4 = \<not> ((gidx1 + lidx1) <s 1);
         alu5 = \<not> ((gidx0 + lidx2) <s 1);
         acc0 = (0 :: f32);
         acc1 = (0 :: f32);
         acc2 = (0 :: f32);
         acc3 = (0 :: f32);
         acc4 = (0 :: f32);
         acc5 = (0 :: f32);
         acc6 = (0 :: f32);
         acc7 = (0 :: f32);
         acc8 = (0 :: f32);
         acc9 = (0 :: f32);
         acc10 = (0 :: f32);
         acc11 = (0 :: f32);
         acc12 = (0 :: f32);
         acc13 = (0 :: f32);
         acc14 = (0 :: f32);
         acc15 = (0 :: f32);
         (acc0, acc1, acc2, acc3, acc4, acc5, acc6, acc7,
          acc8, acc9, acc10, acc11, acc12, acc13, acc14, acc15)
          = for_loop 32 (\<lambda>ridx6 (acc0, acc1, acc2, acc3, acc4, acc5, acc6, acc7,
             acc8, acc9, acc10, acc11, acc12, acc13, acc14, acc15).
             let alu6 = gidx2 * 2304 + lidx0 * 1152 + ridx6 * 9;
                 val0 = rd data2 alu6;
                 val1 = rd data2 (alu6 + 1);
                 val2 = rd data2 (alu6 + 2);
                 val3 = rd data2 (alu6 + 3);
                 val4 = rd data2 (alu6 + 4);
                 val5 = rd data2 (alu6 + 5);
                 val6 = rd data2 (alu6 + 6);
                 val7 = rd data2 (alu6 + 7);
                 val8 = rd data2 (alu6 + 8);
                 val9 = rd data2 (alu6 + 288);
                 val10 = rd data2 (alu6 + 289);
                 val11 = rd data2 (alu6 + 290);
                 val12 = rd data2 (alu6 + 291);
                 val13 = rd data2 (alu6 + 292);
                 val14 = rd data2 (alu6 + 293);
                 val15 = rd data2 (alu6 + 294);
                 val16 = rd data2 (alu6 + 295);
                 val17 = rd data2 (alu6 + 296);
                 val18 = rd data2 (alu6 + 576);
                 val19 = rd data2 (alu6 + 577);
                 val20 = rd data2 (alu6 + 578);
                 val21 = rd data2 (alu6 + 579);
                 val22 = rd data2 (alu6 + 580);
                 val23 = rd data2 (alu6 + 581);
                 val24 = rd data2 (alu6 + 582);
                 val25 = rd data2 (alu6 + 583);
                 val26 = rd data2 (alu6 + 584);
                 val27 = rd data2 (alu6 + 864);
                 val28 = rd data2 (alu6 + 865);
                 val29 = rd data2 (alu6 + 866);
                 val30 = rd data2 (alu6 + 867);
                 val31 = rd data2 (alu6 + 868);
                 val32 = rd data2 (alu6 + 869);
                 val33 = rd data2 (alu6 + 870);
                 val34 = rd data2 (alu6 + 871);
                 val35 = rd data2 (alu6 + 872);
                 alu7 = alu1 + alu0 + ridx6 * 6400 + cast2 + cast1;
                 val36 = select 0 (rd data1 (alu7 + 204719)) (alu4 \<and> alu5);
                 val37 = select 0 (rd data1 (alu7 + 204720)) alu4;
                 val38 = select 0 (rd data1 (alu7 + 204721)) alu4;
                 val39 = select 0 (rd data1 (alu7 + 204722)) alu4;
                 val40 = select 0 (rd data1 (alu7 + 204723)) alu4;
                 val41 = select 0 (rd data1 (alu7 + 204724)) (alu4 \<and> alu2);
                 val42 = select 0 (rd data1 (alu7 + 204799)) alu5;
                 val43 = rd data1 (alu7 + 204800);
                 val44 = rd data1 (alu7 + 204801);
                 val45 = rd data1 (alu7 + 204802);
                 val46 = rd data1 (alu7 + 204803);
                 val47 = select 0 (rd data1 (alu7 + 204804)) alu2;
                 val48 = select 0 (rd data1 (alu7 + 204879)) (alu3 \<and> alu5);
                 val49 = select 0 (rd data1 (alu7 + 204880)) alu3;
                 val50 = select 0 (rd data1 (alu7 + 204881)) alu3;
                 val51 = select 0 (rd data1 (alu7 + 204882)) alu3;
                 val52 = select 0 (rd data1 (alu7 + 204883)) alu3;
                 val53 = select 0 (rd data1 (alu7 + 204884)) (alu3 \<and> alu2);
                 acc0 = acc0 + val36 * val0 + val42 * val3 + val48 * val6 + val37 * val1 + val43 * val4 + val49 * val7 + val38 * val2 + val44 * val5 + val50 * val8;
                 acc1 = acc1 + val36 * val9 + val42 * val12 + val48 * val15 + val37 * val10 + val43 * val13 + val49 * val16 + val38 * val11 + val44 * val14 + val50 * val17;
                 acc2 = acc2 + val36 * val18 + val42 * val21 + val48 * val24 + val37 * val19 + val43 * val22 + val49 * val25 + val38 * val20 + val44 * val23 + val50 * val26;
                 acc3 = acc3 + val36 * val27 + val42 * val30 + val48 * val33 + val37 * val28 + val43 * val31 + val49 * val34 + val38 * val29 + val44 * val32 + val50 * val35;
                 acc4 = acc4 + val37 * val0 + val43 * val3 + val49 * val6 + val38 * val1 + val44 * val4 + val50 * val7 + val39 * val2 + val45 * val5 + val51 * val8;
                 acc5 = acc5 + val37 * val9 + val43 * val12 + val49 * val15 + val38 * val10 + val44 * val13 + val50 * val16 + val39 * val11 + val45 * val14 + val51 * val17;
                 acc6 = acc6 + val37 * val18 + val43 * val21 + val49 * val24 + val38 * val19 + val44 * val22 + val50 * val25 + val39 * val20 + val45 * val23 + val51 * val26;
                 acc7 = acc7 + val37 * val27 + val43 * val30 + val49 * val33 + val38 * val28 + val44 * val31 + val50 * val34 + val39 * val29 + val45 * val32 + val51 * val35;
                 acc8 = acc8 + val38 * val0 + val44 * val3 + val50 * val6 + val39 * val1 + val45 * val4 + val51 * val7 + val40 * val2 + val46 * val5 + val52 * val8;
                 acc9 = acc9 + val38 * val9 + val44 * val12 + val50 * val15 + val39 * val10 + val45 * val13 + val51 * val16 + val40 * val11 + val46 * val14 + val52 * val17;
                 acc10 = acc10 + val38 * val18 + val44 * val21 + val50 * val24 + val39 * val19 + val45 * val22 + val51 * val25 + val40 * val20 + val46 * val23 + val52 * val26;
                 acc11 = acc11 + val38 * val27 + val44 * val30 + val50 * val33 + val39 * val28 + val45 * val31 + val51 * val34 + val40 * val29 + val46 * val32 + val52 * val35;
                 acc12 = acc12 + val39 * val0 + val45 * val3 + val51 * val6 + val40 * val1 + val46 * val4 + val52 * val7 + val41 * val2 + val47 * val5 + val53 * val8;
                 acc13 = acc13 + val39 * val9 + val45 * val12 + val51 * val15 + val40 * val10 + val46 * val13 + val52 * val16 + val41 * val11 + val47 * val14 + val53 * val17;
                 acc14 = acc14 + val39 * val18 + val45 * val21 + val51 * val24 + val40 * val19 + val46 * val22 + val52 * val25 + val41 * val20 + val47 * val23 + val53 * val26;
                 acc15 = acc15 + val39 * val27 + val45 * val30 + val51 * val33 + val40 * val28 + val46 * val31 + val52 * val34 + val41 * val29 + val47 * val32 + val53 * val35
             in (acc0, acc1, acc2, acc3, acc4, acc5, acc6, acc7,
                 acc8, acc9, acc10, acc11, acc12, acc13, acc14, acc15))
             (acc0, acc1, acc2, acc3, acc4, acc5, acc6, acc7,
              acc8, acc9, acc10, acc11, acc12, acc13, acc14, acc15);
         precast7 = gidx2;
         precast8 = lidx0;
         precast9 = push_bit 3 precast7;
         precast10 = push_bit 2 precast8;
         alu25 = precast9 + precast10;
         val54 = rd data3 alu25;
         val55 = rd data4 alu25;
         val56 = rd data5 alu25;
         val57 = rd data6 alu25;
         alu26 = alu25 + 1;
         val58 = rd data3 alu26;
         val59 = rd data4 alu26;
         val60 = rd data5 alu26;
         val61 = rd data6 alu26;
         alu27 = alu25 + 2;
         val62 = rd data3 alu27;
         val63 = rd data4 alu27;
         val64 = rd data5 alu27;
         val65 = rd data6 alu27;
         alu28 = alu25 + 3;
         val66 = rd data3 alu28;
         val67 = rd data4 alu28;
         val68 = rd data5 alu28;
         val69 = rd data6 alu28;
         alu29 = 1 / (fsqrt (val56 + (lit (1 / 1000))));
         alu30 = 1 / (fsqrt (val60 + (lit (1 / 1000))));
         alu31 = 1 / (fsqrt (val64 + (lit (1 / 1000))));
         alu32 = 1 / (fsqrt (val68 + (lit (1 / 1000))));
         alu33 = alu1 + gidx2 * 51200 + cast2 + lidx0 * 25600 + alu0 + cast1;
         alu34 = (acc0 - val54) * val55 * alu29 + val57;
         alu36 = (acc1 - val58) * val59 * alu30 + val61;
         alu38 = (acc2 - val62) * val63 * alu31 + val65;
         alu40 = (acc3 - val66) * val67 * alu32 + val69;
         alu42 = (acc4 - val54) * val55 * alu29 + val57;
         alu44 = (acc5 - val58) * val59 * alu30 + val61;
         alu46 = (acc6 - val62) * val63 * alu31 + val65;
         alu48 = (acc7 - val66) * val67 * alu32 + val69;
         alu50 = (acc8 - val54) * val55 * alu29 + val57;
         alu52 = (acc9 - val58) * val59 * alu30 + val61;
         alu54 = (acc10 - val62) * val63 * alu31 + val65;
         alu56 = (acc11 - val66) * val67 * alu32 + val69;
         alu58 = (acc12 - val54) * val55 * alu29 + val57;
         alu60 = (acc13 - val58) * val59 * alu30 + val61;
         alu62 = (acc14 - val62) * val63 * alu31 + val65;
         alu64 = (acc15 - val66) * val67 * alu32 + val69
     in [(alu33, alu34 * (1 / (1 + (exp2 (alu34 * (- (lit (14426950408889634 / 10000000000000000)))))))),
         (alu33 + 6400, alu36 * (1 / (1 + (exp2 (alu36 * (- (lit (14426950408889634 / 10000000000000000)))))))),
         (alu33 + 12800, alu38 * (1 / (1 + (exp2 (alu38 * (- (lit (14426950408889634 / 10000000000000000)))))))),
         (alu33 + 19200, alu40 * (1 / (1 + (exp2 (alu40 * (- (lit (14426950408889634 / 10000000000000000)))))))),
         (alu33 + 1, alu42 * (1 / (1 + (exp2 (alu42 * (- (lit (14426950408889634 / 10000000000000000)))))))),
         (alu33 + 6401, alu44 * (1 / (1 + (exp2 (alu44 * (- (lit (14426950408889634 / 10000000000000000)))))))),
         (alu33 + 12801, alu46 * (1 / (1 + (exp2 (alu46 * (- (lit (14426950408889634 / 10000000000000000)))))))),
         (alu33 + 19201, alu48 * (1 / (1 + (exp2 (alu48 * (- (lit (14426950408889634 / 10000000000000000)))))))),
         (alu33 + 2, alu50 * (1 / (1 + (exp2 (alu50 * (- (lit (14426950408889634 / 10000000000000000)))))))),
         (alu33 + 6402, alu52 * (1 / (1 + (exp2 (alu52 * (- (lit (14426950408889634 / 10000000000000000)))))))),
         (alu33 + 12802, alu54 * (1 / (1 + (exp2 (alu54 * (- (lit (14426950408889634 / 10000000000000000)))))))),
         (alu33 + 19202, alu56 * (1 / (1 + (exp2 (alu56 * (- (lit (14426950408889634 / 10000000000000000)))))))),
         (alu33 + 3, alu58 * (1 / (1 + (exp2 (alu58 * (- (lit (14426950408889634 / 10000000000000000)))))))),
         (alu33 + 6403, alu60 * (1 / (1 + (exp2 (alu60 * (- (lit (14426950408889634 / 10000000000000000)))))))),
         (alu33 + 12803, alu62 * (1 / (1 + (exp2 (alu62 * (- (lit (14426950408889634 / 10000000000000000)))))))),
         (alu33 + 19203, alu64 * (1 / (1 + (exp2 (alu64 * (- (lit (14426950408889634 / 10000000000000000))))))))])"

definition r_4_5_5_2_16_4_32_4_4_3_3_shader :: "(f32 \<Rightarrow> f32) \<Rightarrow> (f32 \<Rightarrow> f32) \<Rightarrow> shader" where
  "r_4_5_5_2_16_4_32_4_4_3_3_shader exp2 fsqrt = FShader (2, 16, 4) (\<lambda>f i. r_4_5_5_2_16_4_32_4_4_3_3 exp2 fsqrt (f 1) (f 2) (f 3) (f 4) (f 5) (f 6))"

lemma r_4_5_5_2_16_4_32_4_4_3_3_stores:
  assumes "gx < 5" "gy < 5" "gz < 4" "lx < 2" "ly < 16" "lz < 4"
  shows "set (launch (r_4_5_5_2_16_4_32_4_4_3_3 exp2 fsqrt x w m g v b) (gx, gy, gz) (lx, ly, lz)) = tile 4 (16 * 5) (4 * (4 * 5)) (layer_value exp2 fsqrt (Conv3 1 80 80 32 32) (reads [x, w, m, g, v, b])) (2 * gz + lx) (16 * gy + ly) (4 * gx + lz)"
proof -
  have n: "16 * gy + ly \<le> 79" "4 * gx + lz \<le> 19" using assms by simp_all
  have h: "80 = 79 + (1 :: nat)" "80 = 4 * (19 + 1 :: nat)" by simp_all
  note w = less_4[THEN window_1[OF n h]]
  have f: "((of_nat gx + of_nat lz :: i32) <s 1) \<longleftrightarrow> \<not> 0 < 4 * gx + lz" "((of_nat gy + of_nat ly :: i32) <s 1) \<longleftrightarrow> \<not> 0 < 16 * gy + ly"
    by (rule first_test; use assms in simp)+
  have t0: "((of_nat lz + push_bit 2 (of_nat gx) :: i32) <s 19) \<longleftrightarrow> 4 * gx + lz < 19"
    using last_test[of 2 gx lz 19] assms by simp
  have t1: "((of_nat ly + push_bit 4 (of_nat gy) :: i32) <s 79) \<longleftrightarrow> 16 * gy + ly < 79"
    using last_test[of 4 gy ly 79] assms by simp
  show ?thesis
    unfolding r_4_5_5_2_16_4_32_4_4_3_3_def launch_def Let_def vec_simps f t0 t1 for_loop_16 prod.case log2_e_def[symmetric] sigmoid_def[symmetric] silu_def[symmetric]
    by (rule tile_planes, unfold list.map prod.case list.inject prod.inject layer_value.simps reads_simps w taps_def batch_norm_def, intro conjI)
      (simp_all add: arr_def push_bit_eq_mult algebra_simps)
qed

interpretation r_4_5_5_2_16_4_32_4_4_3_3: spatial_kernel 2 16 4 5 5 4 4 "launch (r_4_5_5_2_16_4_32_4_4_3_3 exp2 fsqrt x w m g v b)"
    "layer_value exp2 fsqrt (Conv3 1 80 80 32 32) (reads [x, w, m, g, v, b])"
  for exp2 fsqrt x w m g v b
  by unfold_locales (rule r_4_5_5_2_16_4_32_4_4_3_3_stores; assumption | simp)+

lemma r_4_5_5_2_16_4_32_4_4_3_3_computes: "computes exp2 fsqrt (r_4_5_5_2_16_4_32_4_4_3_3_shader exp2 fsqrt) (5, 5, 4) (Conv3 1 80 80 32 32) 32 80 80"
  unfolding r_4_5_5_2_16_4_32_4_4_3_3_shader_def by (rule computesI, rule r_4_5_5_2_16_4_32_4_4_3_3.kernel_contract_axioms) (simp, simp only: layer_inputs, simp)

definition r_4_5_5_2_16_4_32_4_4_3_3n1 :: "(f32 \<Rightarrow> f32) \<Rightarrow> (f32 \<Rightarrow> f32) \<Rightarrow> f32 buf \<Rightarrow> f32 buf \<Rightarrow> f32 buf \<Rightarrow> f32 buf \<Rightarrow> f32 buf \<Rightarrow> f32 buf \<Rightarrow> f32 buf \<Rightarrow> vec3 \<Rightarrow> vec3 \<Rightarrow> f32 stores" where
  "r_4_5_5_2_16_4_32_4_4_3_3n1 exp2 fsqrt data1 data2 data3 data4 data5 data6 data7 gindex lindex =
    (let gidx0 = vx gindex;
         gidx1 = vy gindex;
         gidx2 = vz gindex;
         lidx0 = vx lindex;
         lidx1 = vy lindex;
         lidx2 = vz lindex;
         precast0 = gidx0;
         cast0 = precast0;
         precast1 = lidx2;
         precast2 = push_bit 2 precast1;
         cast1 = precast2;
         precast3 = push_bit 4 cast0;
         cast2 = precast3;
         alu0 = lidx1 * 80;
         alu1 = gidx1 * 1280;
         precast4 = push_bit 2 cast0;
         alu2 = (lidx2 + precast4) <s 19;
         precast5 = gidx1;
         precast6 = push_bit 4 precast5;
         alu3 = (lidx1 + precast6) <s 79;
         alu4 = \<not> ((gidx1 + lidx1) <s 1);
         alu5 = \<not> ((gidx0 + lidx2) <s 1);
         acc0 = (0 :: f32);
         acc1 = (0 :: f32);
         acc2 = (0 :: f32);
         acc3 = (0 :: f32);
         acc4 = (0 :: f32);
         acc5 = (0 :: f32);
         acc6 = (0 :: f32);
         acc7 = (0 :: f32);
         acc8 = (0 :: f32);
         acc9 = (0 :: f32);
         acc10 = (0 :: f32);
         acc11 = (0 :: f32);
         acc12 = (0 :: f32);
         acc13 = (0 :: f32);
         acc14 = (0 :: f32);
         acc15 = (0 :: f32);
         (acc0, acc1, acc2, acc3, acc4, acc5, acc6, acc7,
          acc8, acc9, acc10, acc11, acc12, acc13, acc14, acc15)
          = for_loop 32 (\<lambda>ridx6 (acc0, acc1, acc2, acc3, acc4, acc5, acc6, acc7,
             acc8, acc9, acc10, acc11, acc12, acc13, acc14, acc15).
             let alu6 = gidx2 * 2304 + lidx0 * 1152 + ridx6 * 9;
                 val0 = rd data3 alu6;
                 val1 = rd data3 (alu6 + 1);
                 val2 = rd data3 (alu6 + 2);
                 val3 = rd data3 (alu6 + 3);
                 val4 = rd data3 (alu6 + 4);
                 val5 = rd data3 (alu6 + 5);
                 val6 = rd data3 (alu6 + 6);
                 val7 = rd data3 (alu6 + 7);
                 val8 = rd data3 (alu6 + 8);
                 val9 = rd data3 (alu6 + 288);
                 val10 = rd data3 (alu6 + 289);
                 val11 = rd data3 (alu6 + 290);
                 val12 = rd data3 (alu6 + 291);
                 val13 = rd data3 (alu6 + 292);
                 val14 = rd data3 (alu6 + 293);
                 val15 = rd data3 (alu6 + 294);
                 val16 = rd data3 (alu6 + 295);
                 val17 = rd data3 (alu6 + 296);
                 val18 = rd data3 (alu6 + 576);
                 val19 = rd data3 (alu6 + 577);
                 val20 = rd data3 (alu6 + 578);
                 val21 = rd data3 (alu6 + 579);
                 val22 = rd data3 (alu6 + 580);
                 val23 = rd data3 (alu6 + 581);
                 val24 = rd data3 (alu6 + 582);
                 val25 = rd data3 (alu6 + 583);
                 val26 = rd data3 (alu6 + 584);
                 val27 = rd data3 (alu6 + 864);
                 val28 = rd data3 (alu6 + 865);
                 val29 = rd data3 (alu6 + 866);
                 val30 = rd data3 (alu6 + 867);
                 val31 = rd data3 (alu6 + 868);
                 val32 = rd data3 (alu6 + 869);
                 val33 = rd data3 (alu6 + 870);
                 val34 = rd data3 (alu6 + 871);
                 val35 = rd data3 (alu6 + 872);
                 alu7 = alu1 + alu0 + ridx6 * 6400 + cast2 + cast1;
                 val36 = rd data2 alu7;
                 val37 = select 0 (rd data2 (alu7 + (- 81))) (alu4 \<and> alu5);
                 val38 = select 0 (rd data2 (alu7 + (- 80))) alu4;
                 val39 = select 0 (rd data2 (alu7 + (- 79))) alu4;
                 val40 = select 0 (rd data2 (alu7 + (- 78))) alu4;
                 val41 = select 0 (rd data2 (alu7 + (- 77))) alu4;
                 val42 = select 0 (rd data2 (alu7 + (- 76))) (alu4 \<and> alu2);
                 val43 = select 0 (rd data2 (alu7 + (- 1))) alu5;
                 val44 = rd data2 (alu7 + 1);
                 val45 = rd data2 (alu7 + 2);
                 val46 = rd data2 (alu7 + 3);
                 val47 = select 0 (rd data2 (alu7 + 4)) alu2;
                 val48 = select 0 (rd data2 (alu7 + 79)) (alu3 \<and> alu5);
                 val49 = select 0 (rd data2 (alu7 + 80)) alu3;
                 val50 = select 0 (rd data2 (alu7 + 81)) alu3;
                 val51 = select 0 (rd data2 (alu7 + 82)) alu3;
                 val52 = select 0 (rd data2 (alu7 + 83)) alu3;
                 val53 = select 0 (rd data2 (alu7 + 84)) (alu3 \<and> alu2);
                 acc0 = acc0 + val37 * val0 + val43 * val3 + val48 * val6 + val38 * val1 + val36 * val4 + val49 * val7 + val39 * val2 + val44 * val5 + val50 * val8;
                 acc1 = acc1 + val37 * val9 + val43 * val12 + val48 * val15 + val38 * val10 + val36 * val13 + val49 * val16 + val39 * val11 + val44 * val14 + val50 * val17;
                 acc2 = acc2 + val37 * val18 + val43 * val21 + val48 * val24 + val38 * val19 + val36 * val22 + val49 * val25 + val39 * val20 + val44 * val23 + val50 * val26;
                 acc3 = acc3 + val37 * val27 + val43 * val30 + val48 * val33 + val38 * val28 + val36 * val31 + val49 * val34 + val39 * val29 + val44 * val32 + val50 * val35;
                 acc4 = acc4 + val38 * val0 + val36 * val3 + val49 * val6 + val39 * val1 + val44 * val4 + val50 * val7 + val40 * val2 + val45 * val5 + val51 * val8;
                 acc5 = acc5 + val38 * val9 + val36 * val12 + val49 * val15 + val39 * val10 + val44 * val13 + val50 * val16 + val40 * val11 + val45 * val14 + val51 * val17;
                 acc6 = acc6 + val38 * val18 + val36 * val21 + val49 * val24 + val39 * val19 + val44 * val22 + val50 * val25 + val40 * val20 + val45 * val23 + val51 * val26;
                 acc7 = acc7 + val38 * val27 + val36 * val30 + val49 * val33 + val39 * val28 + val44 * val31 + val50 * val34 + val40 * val29 + val45 * val32 + val51 * val35;
                 acc8 = acc8 + val39 * val0 + val44 * val3 + val50 * val6 + val40 * val1 + val45 * val4 + val51 * val7 + val41 * val2 + val46 * val5 + val52 * val8;
                 acc9 = acc9 + val39 * val9 + val44 * val12 + val50 * val15 + val40 * val10 + val45 * val13 + val51 * val16 + val41 * val11 + val46 * val14 + val52 * val17;
                 acc10 = acc10 + val39 * val18 + val44 * val21 + val50 * val24 + val40 * val19 + val45 * val22 + val51 * val25 + val41 * val20 + val46 * val23 + val52 * val26;
                 acc11 = acc11 + val39 * val27 + val44 * val30 + val50 * val33 + val40 * val28 + val45 * val31 + val51 * val34 + val41 * val29 + val46 * val32 + val52 * val35;
                 acc12 = acc12 + val40 * val0 + val45 * val3 + val51 * val6 + val41 * val1 + val46 * val4 + val52 * val7 + val42 * val2 + val47 * val5 + val53 * val8;
                 acc13 = acc13 + val40 * val9 + val45 * val12 + val51 * val15 + val41 * val10 + val46 * val13 + val52 * val16 + val42 * val11 + val47 * val14 + val53 * val17;
                 acc14 = acc14 + val40 * val18 + val45 * val21 + val51 * val24 + val41 * val19 + val46 * val22 + val52 * val25 + val42 * val20 + val47 * val23 + val53 * val26;
                 acc15 = acc15 + val40 * val27 + val45 * val30 + val51 * val33 + val41 * val28 + val46 * val31 + val52 * val34 + val42 * val29 + val47 * val32 + val53 * val35
             in (acc0, acc1, acc2, acc3, acc4, acc5, acc6, acc7,
                 acc8, acc9, acc10, acc11, acc12, acc13, acc14, acc15))
             (acc0, acc1, acc2, acc3, acc4, acc5, acc6, acc7,
              acc8, acc9, acc10, acc11, acc12, acc13, acc14, acc15);
         precast7 = gidx2;
         precast8 = lidx0;
         alu25 = alu1 + gidx2 * 51200 + cast2 + lidx0 * 25600 + alu0 + cast1;
         val54 = rd data1 (alu25 + 204800);
         val55 = rd data1 (alu25 + 204801);
         val56 = rd data1 (alu25 + 204802);
         val57 = rd data1 (alu25 + 204803);
         val58 = rd data1 (alu25 + 211200);
         val59 = rd data1 (alu25 + 211201);
         val60 = rd data1 (alu25 + 211202);
         val61 = rd data1 (alu25 + 211203);
         val62 = rd data1 (alu25 + 217600);
         val63 = rd data1 (alu25 + 217601);
         val64 = rd data1 (alu25 + 217602);
         val65 = rd data1 (alu25 + 217603);
         val66 = rd data1 (alu25 + 224000);
         val67 = rd data1 (alu25 + 224001);
         val68 = rd data1 (alu25 + 224002);
         val69 = rd data1 (alu25 + 224003);
         precast9 = push_bit 3 precast7;
         precast10 = push_bit 2 precast8;
         alu26 = precast9 + precast10;
         val70 = rd data4 alu26;
         val71 = rd data5 alu26;
         val72 = rd data6 alu26;
         val73 = rd data7 alu26;
         alu27 = alu26 + 1;
         val74 = rd data4 alu27;
         val75 = rd data5 alu27;
         val76 = rd data6 alu27;
         val77 = rd data7 alu27;
         alu28 = alu26 + 2;
         val78 = rd data4 alu28;
         val79 = rd data5 alu28;
         val80 = rd data6 alu28;
         val81 = rd data7 alu28;
         alu29 = alu26 + 3;
         val82 = rd data4 alu29;
         val83 = rd data5 alu29;
         val84 = rd data6 alu29;
         val85 = rd data7 alu29;
         alu30 = 1 / (fsqrt (val72 + (lit (1 / 1000))));
         alu31 = 1 / (fsqrt (val76 + (lit (1 / 1000))));
         alu32 = 1 / (fsqrt (val80 + (lit (1 / 1000))));
         alu33 = 1 / (fsqrt (val84 + (lit (1 / 1000))));
         alu34 = (acc0 - val70) * val71 * alu30 + val73;
         alu36 = (acc1 - val74) * val75 * alu31 + val77;
         alu38 = (acc2 - val78) * val79 * alu32 + val81;
         alu40 = (acc3 - val82) * val83 * alu33 + val85;
         alu42 = (acc4 - val70) * val71 * alu30 + val73;
         alu44 = (acc5 - val74) * val75 * alu31 + val77;
         alu46 = (acc6 - val78) * val79 * alu32 + val81;
         alu48 = (acc7 - val82) * val83 * alu33 + val85;
         alu50 = (acc8 - val70) * val71 * alu30 + val73;
         alu52 = (acc9 - val74) * val75 * alu31 + val77;
         alu54 = (acc10 - val78) * val79 * alu32 + val81;
         alu56 = (acc11 - val82) * val83 * alu33 + val85;
         alu58 = (acc12 - val70) * val71 * alu30 + val73;
         alu60 = (acc13 - val74) * val75 * alu31 + val77;
         alu62 = (acc14 - val78) * val79 * alu32 + val81;
         alu64 = (acc15 - val82) * val83 * alu33 + val85
     in [(alu25, val54 + alu34 * (1 / (1 + (exp2 (alu34 * (- (lit (14426950408889634 / 10000000000000000)))))))),
         (alu25 + 6400, val58 + alu36 * (1 / (1 + (exp2 (alu36 * (- (lit (14426950408889634 / 10000000000000000)))))))),
         (alu25 + 12800, val62 + alu38 * (1 / (1 + (exp2 (alu38 * (- (lit (14426950408889634 / 10000000000000000)))))))),
         (alu25 + 19200, val66 + alu40 * (1 / (1 + (exp2 (alu40 * (- (lit (14426950408889634 / 10000000000000000)))))))),
         (alu25 + 1, val55 + alu42 * (1 / (1 + (exp2 (alu42 * (- (lit (14426950408889634 / 10000000000000000)))))))),
         (alu25 + 6401, val59 + alu44 * (1 / (1 + (exp2 (alu44 * (- (lit (14426950408889634 / 10000000000000000)))))))),
         (alu25 + 12801, val63 + alu46 * (1 / (1 + (exp2 (alu46 * (- (lit (14426950408889634 / 10000000000000000)))))))),
         (alu25 + 19201, val67 + alu48 * (1 / (1 + (exp2 (alu48 * (- (lit (14426950408889634 / 10000000000000000)))))))),
         (alu25 + 2, val56 + alu50 * (1 / (1 + (exp2 (alu50 * (- (lit (14426950408889634 / 10000000000000000)))))))),
         (alu25 + 6402, val60 + alu52 * (1 / (1 + (exp2 (alu52 * (- (lit (14426950408889634 / 10000000000000000)))))))),
         (alu25 + 12802, val64 + alu54 * (1 / (1 + (exp2 (alu54 * (- (lit (14426950408889634 / 10000000000000000)))))))),
         (alu25 + 19202, val68 + alu56 * (1 / (1 + (exp2 (alu56 * (- (lit (14426950408889634 / 10000000000000000)))))))),
         (alu25 + 3, val57 + alu58 * (1 / (1 + (exp2 (alu58 * (- (lit (14426950408889634 / 10000000000000000)))))))),
         (alu25 + 6403, val61 + alu60 * (1 / (1 + (exp2 (alu60 * (- (lit (14426950408889634 / 10000000000000000)))))))),
         (alu25 + 12803, val65 + alu62 * (1 / (1 + (exp2 (alu62 * (- (lit (14426950408889634 / 10000000000000000)))))))),
         (alu25 + 19203, val69 + alu64 * (1 / (1 + (exp2 (alu64 * (- (lit (14426950408889634 / 10000000000000000))))))))])"

definition r_4_5_5_2_16_4_32_4_4_3_3n1_shader :: "(f32 \<Rightarrow> f32) \<Rightarrow> (f32 \<Rightarrow> f32) \<Rightarrow> shader" where
  "r_4_5_5_2_16_4_32_4_4_3_3n1_shader exp2 fsqrt = FShader (2, 16, 4) (\<lambda>f i. r_4_5_5_2_16_4_32_4_4_3_3n1 exp2 fsqrt (f 1) (f 2) (f 3) (f 4) (f 5) (f 6) (f 7))"

lemma r_4_5_5_2_16_4_32_4_4_3_3n1_stores:
  assumes "gx < 5" "gy < 5" "gz < 4" "lx < 2" "ly < 16" "lz < 4"
  shows "set (launch (r_4_5_5_2_16_4_32_4_4_3_3n1 exp2 fsqrt r x w m g v b) (gx, gy, gz) (lx, ly, lz)) = tile 4 (16 * 5) (4 * (4 * 5)) (layer_value exp2 fsqrt (Residual 80 80 0 32 32) (reads [r, x, w, m, g, v, b])) (2 * gz + lx) (16 * gy + ly) (4 * gx + lz)"
proof -
  have n: "16 * gy + ly \<le> 79" "4 * gx + lz \<le> 19" using assms by simp_all
  have h: "80 = 79 + (1 :: nat)" "80 = 4 * (19 + 1 :: nat)" by simp_all
  note w = less_4[THEN window_1[OF n h]]
  have f: "((of_nat gx + of_nat lz :: i32) <s 1) \<longleftrightarrow> \<not> 0 < 4 * gx + lz" "((of_nat gy + of_nat ly :: i32) <s 1) \<longleftrightarrow> \<not> 0 < 16 * gy + ly"
    by (rule first_test; use assms in simp)+
  have t0: "((of_nat lz + push_bit 2 (of_nat gx) :: i32) <s 19) \<longleftrightarrow> 4 * gx + lz < 19"
    using last_test[of 2 gx lz 19] assms by simp
  have t1: "((of_nat ly + push_bit 4 (of_nat gy) :: i32) <s 79) \<longleftrightarrow> 16 * gy + ly < 79"
    using last_test[of 4 gy ly 79] assms by simp
  show ?thesis
    unfolding r_4_5_5_2_16_4_32_4_4_3_3n1_def launch_def Let_def vec_simps f t0 t1 for_loop_16 prod.case log2_e_def[symmetric] sigmoid_def[symmetric] silu_def[symmetric]
    by (rule tile_planes, unfold list.map prod.case list.inject prod.inject layer_value.simps reads_simps w taps_def batch_norm_def, intro conjI)
      (simp_all add: arr_def push_bit_eq_mult algebra_simps)
qed

interpretation r_4_5_5_2_16_4_32_4_4_3_3n1: spatial_kernel 2 16 4 5 5 4 4 "launch (r_4_5_5_2_16_4_32_4_4_3_3n1 exp2 fsqrt r x w m g v b)"
    "layer_value exp2 fsqrt (Residual 80 80 0 32 32) (reads [r, x, w, m, g, v, b])"
  for exp2 fsqrt r x w m g v b
  by unfold_locales (rule r_4_5_5_2_16_4_32_4_4_3_3n1_stores; assumption | simp)+

lemma r_4_5_5_2_16_4_32_4_4_3_3n1_computes: "computes exp2 fsqrt (r_4_5_5_2_16_4_32_4_4_3_3n1_shader exp2 fsqrt) (5, 5, 4) (Residual 80 80 0 32 32) 32 80 80"
  unfolding r_4_5_5_2_16_4_32_4_4_3_3n1_shader_def by (rule computesI, rule r_4_5_5_2_16_4_32_4_4_3_3n1.kernel_contract_axioms) (simp, simp only: layer_inputs, simp)

definition r_4_5_5_2_16_4_32_4_4_3_3n2 :: "(f32 \<Rightarrow> f32) \<Rightarrow> (f32 \<Rightarrow> f32) \<Rightarrow> f32 buf \<Rightarrow> f32 buf \<Rightarrow> f32 buf \<Rightarrow> f32 buf \<Rightarrow> f32 buf \<Rightarrow> f32 buf \<Rightarrow> vec3 \<Rightarrow> vec3 \<Rightarrow> f32 stores" where
  "r_4_5_5_2_16_4_32_4_4_3_3n2 exp2 fsqrt data1 data2 data3 data4 data5 data6 gindex lindex =
    (let gidx0 = vx gindex;
         gidx1 = vy gindex;
         gidx2 = vz gindex;
         lidx0 = vx lindex;
         lidx1 = vy lindex;
         lidx2 = vz lindex;
         precast0 = gidx0;
         cast0 = precast0;
         precast1 = lidx2;
         precast2 = push_bit 2 precast1;
         cast1 = precast2;
         precast3 = push_bit 4 cast0;
         cast2 = precast3;
         alu0 = lidx1 * 80;
         alu1 = gidx1 * 1280;
         precast4 = push_bit 2 cast0;
         alu2 = (lidx2 + precast4) <s 19;
         precast5 = gidx1;
         precast6 = push_bit 4 precast5;
         alu3 = (lidx1 + precast6) <s 79;
         alu4 = \<not> ((gidx1 + lidx1) <s 1);
         alu5 = \<not> ((gidx0 + lidx2) <s 1);
         acc0 = (0 :: f32);
         acc1 = (0 :: f32);
         acc2 = (0 :: f32);
         acc3 = (0 :: f32);
         acc4 = (0 :: f32);
         acc5 = (0 :: f32);
         acc6 = (0 :: f32);
         acc7 = (0 :: f32);
         acc8 = (0 :: f32);
         acc9 = (0 :: f32);
         acc10 = (0 :: f32);
         acc11 = (0 :: f32);
         acc12 = (0 :: f32);
         acc13 = (0 :: f32);
         acc14 = (0 :: f32);
         acc15 = (0 :: f32);
         (acc0, acc1, acc2, acc3, acc4, acc5, acc6, acc7,
          acc8, acc9, acc10, acc11, acc12, acc13, acc14, acc15)
          = for_loop 32 (\<lambda>ridx6 (acc0, acc1, acc2, acc3, acc4, acc5, acc6, acc7,
             acc8, acc9, acc10, acc11, acc12, acc13, acc14, acc15).
             let alu6 = gidx2 * 2304 + lidx0 * 1152 + ridx6 * 9;
                 val0 = rd data2 alu6;
                 val1 = rd data2 (alu6 + 1);
                 val2 = rd data2 (alu6 + 2);
                 val3 = rd data2 (alu6 + 3);
                 val4 = rd data2 (alu6 + 4);
                 val5 = rd data2 (alu6 + 5);
                 val6 = rd data2 (alu6 + 6);
                 val7 = rd data2 (alu6 + 7);
                 val8 = rd data2 (alu6 + 8);
                 val9 = rd data2 (alu6 + 288);
                 val10 = rd data2 (alu6 + 289);
                 val11 = rd data2 (alu6 + 290);
                 val12 = rd data2 (alu6 + 291);
                 val13 = rd data2 (alu6 + 292);
                 val14 = rd data2 (alu6 + 293);
                 val15 = rd data2 (alu6 + 294);
                 val16 = rd data2 (alu6 + 295);
                 val17 = rd data2 (alu6 + 296);
                 val18 = rd data2 (alu6 + 576);
                 val19 = rd data2 (alu6 + 577);
                 val20 = rd data2 (alu6 + 578);
                 val21 = rd data2 (alu6 + 579);
                 val22 = rd data2 (alu6 + 580);
                 val23 = rd data2 (alu6 + 581);
                 val24 = rd data2 (alu6 + 582);
                 val25 = rd data2 (alu6 + 583);
                 val26 = rd data2 (alu6 + 584);
                 val27 = rd data2 (alu6 + 864);
                 val28 = rd data2 (alu6 + 865);
                 val29 = rd data2 (alu6 + 866);
                 val30 = rd data2 (alu6 + 867);
                 val31 = rd data2 (alu6 + 868);
                 val32 = rd data2 (alu6 + 869);
                 val33 = rd data2 (alu6 + 870);
                 val34 = rd data2 (alu6 + 871);
                 val35 = rd data2 (alu6 + 872);
                 alu7 = alu1 + alu0 + ridx6 * 6400 + cast2 + cast1;
                 val36 = rd data1 alu7;
                 val37 = select 0 (rd data1 (alu7 + (- 81))) (alu4 \<and> alu5);
                 val38 = select 0 (rd data1 (alu7 + (- 80))) alu4;
                 val39 = select 0 (rd data1 (alu7 + (- 79))) alu4;
                 val40 = select 0 (rd data1 (alu7 + (- 78))) alu4;
                 val41 = select 0 (rd data1 (alu7 + (- 77))) alu4;
                 val42 = select 0 (rd data1 (alu7 + (- 76))) (alu4 \<and> alu2);
                 val43 = select 0 (rd data1 (alu7 + (- 1))) alu5;
                 val44 = rd data1 (alu7 + 1);
                 val45 = rd data1 (alu7 + 2);
                 val46 = rd data1 (alu7 + 3);
                 val47 = select 0 (rd data1 (alu7 + 4)) alu2;
                 val48 = select 0 (rd data1 (alu7 + 79)) (alu3 \<and> alu5);
                 val49 = select 0 (rd data1 (alu7 + 80)) alu3;
                 val50 = select 0 (rd data1 (alu7 + 81)) alu3;
                 val51 = select 0 (rd data1 (alu7 + 82)) alu3;
                 val52 = select 0 (rd data1 (alu7 + 83)) alu3;
                 val53 = select 0 (rd data1 (alu7 + 84)) (alu3 \<and> alu2);
                 acc0 = acc0 + val37 * val0 + val43 * val3 + val48 * val6 + val38 * val1 + val36 * val4 + val49 * val7 + val39 * val2 + val44 * val5 + val50 * val8;
                 acc1 = acc1 + val37 * val9 + val43 * val12 + val48 * val15 + val38 * val10 + val36 * val13 + val49 * val16 + val39 * val11 + val44 * val14 + val50 * val17;
                 acc2 = acc2 + val37 * val18 + val43 * val21 + val48 * val24 + val38 * val19 + val36 * val22 + val49 * val25 + val39 * val20 + val44 * val23 + val50 * val26;
                 acc3 = acc3 + val37 * val27 + val43 * val30 + val48 * val33 + val38 * val28 + val36 * val31 + val49 * val34 + val39 * val29 + val44 * val32 + val50 * val35;
                 acc4 = acc4 + val38 * val0 + val36 * val3 + val49 * val6 + val39 * val1 + val44 * val4 + val50 * val7 + val40 * val2 + val45 * val5 + val51 * val8;
                 acc5 = acc5 + val38 * val9 + val36 * val12 + val49 * val15 + val39 * val10 + val44 * val13 + val50 * val16 + val40 * val11 + val45 * val14 + val51 * val17;
                 acc6 = acc6 + val38 * val18 + val36 * val21 + val49 * val24 + val39 * val19 + val44 * val22 + val50 * val25 + val40 * val20 + val45 * val23 + val51 * val26;
                 acc7 = acc7 + val38 * val27 + val36 * val30 + val49 * val33 + val39 * val28 + val44 * val31 + val50 * val34 + val40 * val29 + val45 * val32 + val51 * val35;
                 acc8 = acc8 + val39 * val0 + val44 * val3 + val50 * val6 + val40 * val1 + val45 * val4 + val51 * val7 + val41 * val2 + val46 * val5 + val52 * val8;
                 acc9 = acc9 + val39 * val9 + val44 * val12 + val50 * val15 + val40 * val10 + val45 * val13 + val51 * val16 + val41 * val11 + val46 * val14 + val52 * val17;
                 acc10 = acc10 + val39 * val18 + val44 * val21 + val50 * val24 + val40 * val19 + val45 * val22 + val51 * val25 + val41 * val20 + val46 * val23 + val52 * val26;
                 acc11 = acc11 + val39 * val27 + val44 * val30 + val50 * val33 + val40 * val28 + val45 * val31 + val51 * val34 + val41 * val29 + val46 * val32 + val52 * val35;
                 acc12 = acc12 + val40 * val0 + val45 * val3 + val51 * val6 + val41 * val1 + val46 * val4 + val52 * val7 + val42 * val2 + val47 * val5 + val53 * val8;
                 acc13 = acc13 + val40 * val9 + val45 * val12 + val51 * val15 + val41 * val10 + val46 * val13 + val52 * val16 + val42 * val11 + val47 * val14 + val53 * val17;
                 acc14 = acc14 + val40 * val18 + val45 * val21 + val51 * val24 + val41 * val19 + val46 * val22 + val52 * val25 + val42 * val20 + val47 * val23 + val53 * val26;
                 acc15 = acc15 + val40 * val27 + val45 * val30 + val51 * val33 + val41 * val28 + val46 * val31 + val52 * val34 + val42 * val29 + val47 * val32 + val53 * val35
             in (acc0, acc1, acc2, acc3, acc4, acc5, acc6, acc7,
                 acc8, acc9, acc10, acc11, acc12, acc13, acc14, acc15))
             (acc0, acc1, acc2, acc3, acc4, acc5, acc6, acc7,
              acc8, acc9, acc10, acc11, acc12, acc13, acc14, acc15);
         precast7 = gidx2;
         precast8 = lidx0;
         precast9 = push_bit 3 precast7;
         precast10 = push_bit 2 precast8;
         alu25 = precast9 + precast10;
         val54 = rd data3 alu25;
         val55 = rd data4 alu25;
         val56 = rd data5 alu25;
         val57 = rd data6 alu25;
         alu26 = alu25 + 1;
         val58 = rd data3 alu26;
         val59 = rd data4 alu26;
         val60 = rd data5 alu26;
         val61 = rd data6 alu26;
         alu27 = alu25 + 2;
         val62 = rd data3 alu27;
         val63 = rd data4 alu27;
         val64 = rd data5 alu27;
         val65 = rd data6 alu27;
         alu28 = alu25 + 3;
         val66 = rd data3 alu28;
         val67 = rd data4 alu28;
         val68 = rd data5 alu28;
         val69 = rd data6 alu28;
         alu29 = 1 / (fsqrt (val56 + (lit (1 / 1000))));
         alu30 = 1 / (fsqrt (val60 + (lit (1 / 1000))));
         alu31 = 1 / (fsqrt (val64 + (lit (1 / 1000))));
         alu32 = 1 / (fsqrt (val68 + (lit (1 / 1000))));
         alu33 = alu1 + gidx2 * 51200 + cast2 + lidx0 * 25600 + alu0 + cast1;
         alu34 = (acc0 - val54) * val55 * alu29 + val57;
         alu36 = (acc1 - val58) * val59 * alu30 + val61;
         alu38 = (acc2 - val62) * val63 * alu31 + val65;
         alu40 = (acc3 - val66) * val67 * alu32 + val69;
         alu42 = (acc4 - val54) * val55 * alu29 + val57;
         alu44 = (acc5 - val58) * val59 * alu30 + val61;
         alu46 = (acc6 - val62) * val63 * alu31 + val65;
         alu48 = (acc7 - val66) * val67 * alu32 + val69;
         alu50 = (acc8 - val54) * val55 * alu29 + val57;
         alu52 = (acc9 - val58) * val59 * alu30 + val61;
         alu54 = (acc10 - val62) * val63 * alu31 + val65;
         alu56 = (acc11 - val66) * val67 * alu32 + val69;
         alu58 = (acc12 - val54) * val55 * alu29 + val57;
         alu60 = (acc13 - val58) * val59 * alu30 + val61;
         alu62 = (acc14 - val62) * val63 * alu31 + val65;
         alu64 = (acc15 - val66) * val67 * alu32 + val69
     in [(alu33, alu34 * (1 / (1 + (exp2 (alu34 * (- (lit (14426950408889634 / 10000000000000000)))))))),
         (alu33 + 6400, alu36 * (1 / (1 + (exp2 (alu36 * (- (lit (14426950408889634 / 10000000000000000)))))))),
         (alu33 + 12800, alu38 * (1 / (1 + (exp2 (alu38 * (- (lit (14426950408889634 / 10000000000000000)))))))),
         (alu33 + 19200, alu40 * (1 / (1 + (exp2 (alu40 * (- (lit (14426950408889634 / 10000000000000000)))))))),
         (alu33 + 1, alu42 * (1 / (1 + (exp2 (alu42 * (- (lit (14426950408889634 / 10000000000000000)))))))),
         (alu33 + 6401, alu44 * (1 / (1 + (exp2 (alu44 * (- (lit (14426950408889634 / 10000000000000000)))))))),
         (alu33 + 12801, alu46 * (1 / (1 + (exp2 (alu46 * (- (lit (14426950408889634 / 10000000000000000)))))))),
         (alu33 + 19201, alu48 * (1 / (1 + (exp2 (alu48 * (- (lit (14426950408889634 / 10000000000000000)))))))),
         (alu33 + 2, alu50 * (1 / (1 + (exp2 (alu50 * (- (lit (14426950408889634 / 10000000000000000)))))))),
         (alu33 + 6402, alu52 * (1 / (1 + (exp2 (alu52 * (- (lit (14426950408889634 / 10000000000000000)))))))),
         (alu33 + 12802, alu54 * (1 / (1 + (exp2 (alu54 * (- (lit (14426950408889634 / 10000000000000000)))))))),
         (alu33 + 19202, alu56 * (1 / (1 + (exp2 (alu56 * (- (lit (14426950408889634 / 10000000000000000)))))))),
         (alu33 + 3, alu58 * (1 / (1 + (exp2 (alu58 * (- (lit (14426950408889634 / 10000000000000000)))))))),
         (alu33 + 6403, alu60 * (1 / (1 + (exp2 (alu60 * (- (lit (14426950408889634 / 10000000000000000)))))))),
         (alu33 + 12803, alu62 * (1 / (1 + (exp2 (alu62 * (- (lit (14426950408889634 / 10000000000000000)))))))),
         (alu33 + 19203, alu64 * (1 / (1 + (exp2 (alu64 * (- (lit (14426950408889634 / 10000000000000000))))))))])"

definition r_4_5_5_2_16_4_32_4_4_3_3n2_shader :: "(f32 \<Rightarrow> f32) \<Rightarrow> (f32 \<Rightarrow> f32) \<Rightarrow> shader" where
  "r_4_5_5_2_16_4_32_4_4_3_3n2_shader exp2 fsqrt = FShader (2, 16, 4) (\<lambda>f i. r_4_5_5_2_16_4_32_4_4_3_3n2 exp2 fsqrt (f 1) (f 2) (f 3) (f 4) (f 5) (f 6))"

lemma r_4_5_5_2_16_4_32_4_4_3_3n2_stores:
  assumes "gx < 5" "gy < 5" "gz < 4" "lx < 2" "ly < 16" "lz < 4"
  shows "set (launch (r_4_5_5_2_16_4_32_4_4_3_3n2 exp2 fsqrt x w m g v b) (gx, gy, gz) (lx, ly, lz)) = tile 4 (16 * 5) (4 * (4 * 5)) (layer_value exp2 fsqrt (Conv3 1 80 80 0 32) (reads [x, w, m, g, v, b])) (2 * gz + lx) (16 * gy + ly) (4 * gx + lz)"
proof -
  have n: "16 * gy + ly \<le> 79" "4 * gx + lz \<le> 19" using assms by simp_all
  have h: "80 = 79 + (1 :: nat)" "80 = 4 * (19 + 1 :: nat)" by simp_all
  note w = less_4[THEN window_1[OF n h]]
  have f: "((of_nat gx + of_nat lz :: i32) <s 1) \<longleftrightarrow> \<not> 0 < 4 * gx + lz" "((of_nat gy + of_nat ly :: i32) <s 1) \<longleftrightarrow> \<not> 0 < 16 * gy + ly"
    by (rule first_test; use assms in simp)+
  have t0: "((of_nat lz + push_bit 2 (of_nat gx) :: i32) <s 19) \<longleftrightarrow> 4 * gx + lz < 19"
    using last_test[of 2 gx lz 19] assms by simp
  have t1: "((of_nat ly + push_bit 4 (of_nat gy) :: i32) <s 79) \<longleftrightarrow> 16 * gy + ly < 79"
    using last_test[of 4 gy ly 79] assms by simp
  show ?thesis
    unfolding r_4_5_5_2_16_4_32_4_4_3_3n2_def launch_def Let_def vec_simps f t0 t1 for_loop_16 prod.case log2_e_def[symmetric] sigmoid_def[symmetric] silu_def[symmetric]
    by (rule tile_planes, unfold list.map prod.case list.inject prod.inject layer_value.simps reads_simps w taps_def batch_norm_def, intro conjI)
      (simp_all add: arr_def push_bit_eq_mult algebra_simps)
qed

interpretation r_4_5_5_2_16_4_32_4_4_3_3n2: spatial_kernel 2 16 4 5 5 4 4 "launch (r_4_5_5_2_16_4_32_4_4_3_3n2 exp2 fsqrt x w m g v b)"
    "layer_value exp2 fsqrt (Conv3 1 80 80 0 32) (reads [x, w, m, g, v, b])"
  for exp2 fsqrt x w m g v b
  by unfold_locales (rule r_4_5_5_2_16_4_32_4_4_3_3n2_stores; assumption | simp)+

lemma r_4_5_5_2_16_4_32_4_4_3_3n2_computes: "computes exp2 fsqrt (r_4_5_5_2_16_4_32_4_4_3_3n2_shader exp2 fsqrt) (5, 5, 4) (Conv3 1 80 80 0 32) 32 80 80"
  unfolding r_4_5_5_2_16_4_32_4_4_3_3n2_shader_def by (rule computesI, rule r_4_5_5_2_16_4_32_4_4_3_3n2.kernel_contract_axioms) (simp, simp only: layer_inputs, simp)

definition r_4_5_5_2_16_4_32_4_4_3_3n3 :: "(f32 \<Rightarrow> f32) \<Rightarrow> (f32 \<Rightarrow> f32) \<Rightarrow> f32 buf \<Rightarrow> f32 buf \<Rightarrow> f32 buf \<Rightarrow> f32 buf \<Rightarrow> f32 buf \<Rightarrow> f32 buf \<Rightarrow> f32 buf \<Rightarrow> vec3 \<Rightarrow> vec3 \<Rightarrow> f32 stores" where
  "r_4_5_5_2_16_4_32_4_4_3_3n3 exp2 fsqrt data1 data2 data3 data4 data5 data6 data7 gindex lindex =
    (let gidx0 = vx gindex;
         gidx1 = vy gindex;
         gidx2 = vz gindex;
         lidx0 = vx lindex;
         lidx1 = vy lindex;
         lidx2 = vz lindex;
         precast0 = gidx0;
         cast0 = precast0;
         precast1 = lidx2;
         precast2 = push_bit 2 precast1;
         cast1 = precast2;
         precast3 = push_bit 4 cast0;
         cast2 = precast3;
         alu0 = lidx1 * 80;
         alu1 = gidx1 * 1280;
         precast4 = push_bit 2 cast0;
         alu2 = (lidx2 + precast4) <s 19;
         precast5 = gidx1;
         precast6 = push_bit 4 precast5;
         alu3 = (lidx1 + precast6) <s 79;
         alu4 = \<not> ((gidx1 + lidx1) <s 1);
         alu5 = \<not> ((gidx0 + lidx2) <s 1);
         acc0 = (0 :: f32);
         acc1 = (0 :: f32);
         acc2 = (0 :: f32);
         acc3 = (0 :: f32);
         acc4 = (0 :: f32);
         acc5 = (0 :: f32);
         acc6 = (0 :: f32);
         acc7 = (0 :: f32);
         acc8 = (0 :: f32);
         acc9 = (0 :: f32);
         acc10 = (0 :: f32);
         acc11 = (0 :: f32);
         acc12 = (0 :: f32);
         acc13 = (0 :: f32);
         acc14 = (0 :: f32);
         acc15 = (0 :: f32);
         (acc0, acc1, acc2, acc3, acc4, acc5, acc6, acc7,
          acc8, acc9, acc10, acc11, acc12, acc13, acc14, acc15)
          = for_loop 32 (\<lambda>ridx6 (acc0, acc1, acc2, acc3, acc4, acc5, acc6, acc7,
             acc8, acc9, acc10, acc11, acc12, acc13, acc14, acc15).
             let alu6 = gidx2 * 2304 + lidx0 * 1152 + ridx6 * 9;
                 val0 = rd data3 alu6;
                 val1 = rd data3 (alu6 + 1);
                 val2 = rd data3 (alu6 + 2);
                 val3 = rd data3 (alu6 + 3);
                 val4 = rd data3 (alu6 + 4);
                 val5 = rd data3 (alu6 + 5);
                 val6 = rd data3 (alu6 + 6);
                 val7 = rd data3 (alu6 + 7);
                 val8 = rd data3 (alu6 + 8);
                 val9 = rd data3 (alu6 + 288);
                 val10 = rd data3 (alu6 + 289);
                 val11 = rd data3 (alu6 + 290);
                 val12 = rd data3 (alu6 + 291);
                 val13 = rd data3 (alu6 + 292);
                 val14 = rd data3 (alu6 + 293);
                 val15 = rd data3 (alu6 + 294);
                 val16 = rd data3 (alu6 + 295);
                 val17 = rd data3 (alu6 + 296);
                 val18 = rd data3 (alu6 + 576);
                 val19 = rd data3 (alu6 + 577);
                 val20 = rd data3 (alu6 + 578);
                 val21 = rd data3 (alu6 + 579);
                 val22 = rd data3 (alu6 + 580);
                 val23 = rd data3 (alu6 + 581);
                 val24 = rd data3 (alu6 + 582);
                 val25 = rd data3 (alu6 + 583);
                 val26 = rd data3 (alu6 + 584);
                 val27 = rd data3 (alu6 + 864);
                 val28 = rd data3 (alu6 + 865);
                 val29 = rd data3 (alu6 + 866);
                 val30 = rd data3 (alu6 + 867);
                 val31 = rd data3 (alu6 + 868);
                 val32 = rd data3 (alu6 + 869);
                 val33 = rd data3 (alu6 + 870);
                 val34 = rd data3 (alu6 + 871);
                 val35 = rd data3 (alu6 + 872);
                 alu7 = alu1 + alu0 + ridx6 * 6400 + cast2 + cast1;
                 val36 = rd data2 alu7;
                 val37 = select 0 (rd data2 (alu7 + (- 81))) (alu4 \<and> alu5);
                 val38 = select 0 (rd data2 (alu7 + (- 80))) alu4;
                 val39 = select 0 (rd data2 (alu7 + (- 79))) alu4;
                 val40 = select 0 (rd data2 (alu7 + (- 78))) alu4;
                 val41 = select 0 (rd data2 (alu7 + (- 77))) alu4;
                 val42 = select 0 (rd data2 (alu7 + (- 76))) (alu4 \<and> alu2);
                 val43 = select 0 (rd data2 (alu7 + (- 1))) alu5;
                 val44 = rd data2 (alu7 + 1);
                 val45 = rd data2 (alu7 + 2);
                 val46 = rd data2 (alu7 + 3);
                 val47 = select 0 (rd data2 (alu7 + 4)) alu2;
                 val48 = select 0 (rd data2 (alu7 + 79)) (alu3 \<and> alu5);
                 val49 = select 0 (rd data2 (alu7 + 80)) alu3;
                 val50 = select 0 (rd data2 (alu7 + 81)) alu3;
                 val51 = select 0 (rd data2 (alu7 + 82)) alu3;
                 val52 = select 0 (rd data2 (alu7 + 83)) alu3;
                 val53 = select 0 (rd data2 (alu7 + 84)) (alu3 \<and> alu2);
                 acc0 = acc0 + val37 * val0 + val43 * val3 + val48 * val6 + val38 * val1 + val36 * val4 + val49 * val7 + val39 * val2 + val44 * val5 + val50 * val8;
                 acc1 = acc1 + val37 * val9 + val43 * val12 + val48 * val15 + val38 * val10 + val36 * val13 + val49 * val16 + val39 * val11 + val44 * val14 + val50 * val17;
                 acc2 = acc2 + val37 * val18 + val43 * val21 + val48 * val24 + val38 * val19 + val36 * val22 + val49 * val25 + val39 * val20 + val44 * val23 + val50 * val26;
                 acc3 = acc3 + val37 * val27 + val43 * val30 + val48 * val33 + val38 * val28 + val36 * val31 + val49 * val34 + val39 * val29 + val44 * val32 + val50 * val35;
                 acc4 = acc4 + val38 * val0 + val36 * val3 + val49 * val6 + val39 * val1 + val44 * val4 + val50 * val7 + val40 * val2 + val45 * val5 + val51 * val8;
                 acc5 = acc5 + val38 * val9 + val36 * val12 + val49 * val15 + val39 * val10 + val44 * val13 + val50 * val16 + val40 * val11 + val45 * val14 + val51 * val17;
                 acc6 = acc6 + val38 * val18 + val36 * val21 + val49 * val24 + val39 * val19 + val44 * val22 + val50 * val25 + val40 * val20 + val45 * val23 + val51 * val26;
                 acc7 = acc7 + val38 * val27 + val36 * val30 + val49 * val33 + val39 * val28 + val44 * val31 + val50 * val34 + val40 * val29 + val45 * val32 + val51 * val35;
                 acc8 = acc8 + val39 * val0 + val44 * val3 + val50 * val6 + val40 * val1 + val45 * val4 + val51 * val7 + val41 * val2 + val46 * val5 + val52 * val8;
                 acc9 = acc9 + val39 * val9 + val44 * val12 + val50 * val15 + val40 * val10 + val45 * val13 + val51 * val16 + val41 * val11 + val46 * val14 + val52 * val17;
                 acc10 = acc10 + val39 * val18 + val44 * val21 + val50 * val24 + val40 * val19 + val45 * val22 + val51 * val25 + val41 * val20 + val46 * val23 + val52 * val26;
                 acc11 = acc11 + val39 * val27 + val44 * val30 + val50 * val33 + val40 * val28 + val45 * val31 + val51 * val34 + val41 * val29 + val46 * val32 + val52 * val35;
                 acc12 = acc12 + val40 * val0 + val45 * val3 + val51 * val6 + val41 * val1 + val46 * val4 + val52 * val7 + val42 * val2 + val47 * val5 + val53 * val8;
                 acc13 = acc13 + val40 * val9 + val45 * val12 + val51 * val15 + val41 * val10 + val46 * val13 + val52 * val16 + val42 * val11 + val47 * val14 + val53 * val17;
                 acc14 = acc14 + val40 * val18 + val45 * val21 + val51 * val24 + val41 * val19 + val46 * val22 + val52 * val25 + val42 * val20 + val47 * val23 + val53 * val26;
                 acc15 = acc15 + val40 * val27 + val45 * val30 + val51 * val33 + val41 * val28 + val46 * val31 + val52 * val34 + val42 * val29 + val47 * val32 + val53 * val35
             in (acc0, acc1, acc2, acc3, acc4, acc5, acc6, acc7,
                 acc8, acc9, acc10, acc11, acc12, acc13, acc14, acc15))
             (acc0, acc1, acc2, acc3, acc4, acc5, acc6, acc7,
              acc8, acc9, acc10, acc11, acc12, acc13, acc14, acc15);
         precast7 = gidx2;
         precast8 = lidx0;
         alu25 = alu1 + gidx2 * 51200 + cast2 + lidx0 * 25600 + alu0 + cast1;
         val54 = rd data1 alu25;
         alu26 = alu25 + 1;
         val55 = rd data1 alu26;
         alu27 = alu25 + 2;
         val56 = rd data1 alu27;
         alu28 = alu25 + 3;
         val57 = rd data1 alu28;
         alu29 = alu25 + 6400;
         val58 = rd data1 alu29;
         alu30 = alu25 + 6401;
         val59 = rd data1 alu30;
         alu31 = alu25 + 6402;
         val60 = rd data1 alu31;
         alu32 = alu25 + 6403;
         val61 = rd data1 alu32;
         alu33 = alu25 + 12800;
         val62 = rd data1 alu33;
         alu34 = alu25 + 12801;
         val63 = rd data1 alu34;
         alu35 = alu25 + 12802;
         val64 = rd data1 alu35;
         alu36 = alu25 + 12803;
         val65 = rd data1 alu36;
         alu37 = alu25 + 19200;
         val66 = rd data1 alu37;
         alu38 = alu25 + 19201;
         val67 = rd data1 alu38;
         alu39 = alu25 + 19202;
         val68 = rd data1 alu39;
         alu40 = alu25 + 19203;
         val69 = rd data1 alu40;
         precast9 = push_bit 3 precast7;
         precast10 = push_bit 2 precast8;
         alu41 = precast9 + precast10;
         val70 = rd data4 alu41;
         val71 = rd data5 alu41;
         val72 = rd data6 alu41;
         val73 = rd data7 alu41;
         alu42 = alu41 + 1;
         val74 = rd data4 alu42;
         val75 = rd data5 alu42;
         val76 = rd data6 alu42;
         val77 = rd data7 alu42;
         alu43 = alu41 + 2;
         val78 = rd data4 alu43;
         val79 = rd data5 alu43;
         val80 = rd data6 alu43;
         val81 = rd data7 alu43;
         alu44 = alu41 + 3;
         val82 = rd data4 alu44;
         val83 = rd data5 alu44;
         val84 = rd data6 alu44;
         val85 = rd data7 alu44;
         alu45 = 1 / (fsqrt (val72 + (lit (1 / 1000))));
         alu46 = 1 / (fsqrt (val76 + (lit (1 / 1000))));
         alu47 = 1 / (fsqrt (val80 + (lit (1 / 1000))));
         alu48 = 1 / (fsqrt (val84 + (lit (1 / 1000))));
         alu49 = (acc0 - val70) * val71 * alu45 + val73;
         alu51 = (acc1 - val74) * val75 * alu46 + val77;
         alu53 = (acc2 - val78) * val79 * alu47 + val81;
         alu55 = (acc3 - val82) * val83 * alu48 + val85;
         alu57 = (acc4 - val70) * val71 * alu45 + val73;
         alu59 = (acc5 - val74) * val75 * alu46 + val77;
         alu61 = (acc6 - val78) * val79 * alu47 + val81;
         alu63 = (acc7 - val82) * val83 * alu48 + val85;
         alu65 = (acc8 - val70) * val71 * alu45 + val73;
         alu67 = (acc9 - val74) * val75 * alu46 + val77;
         alu69 = (acc10 - val78) * val79 * alu47 + val81;
         alu71 = (acc11 - val82) * val83 * alu48 + val85;
         alu73 = (acc12 - val70) * val71 * alu45 + val73;
         alu75 = (acc13 - val74) * val75 * alu46 + val77;
         alu77 = (acc14 - val78) * val79 * alu47 + val81;
         alu79 = (acc15 - val82) * val83 * alu48 + val85
     in [(alu25, val54 + alu49 * (1 / (1 + (exp2 (alu49 * (- (lit (14426950408889634 / 10000000000000000)))))))),
         (alu29, val58 + alu51 * (1 / (1 + (exp2 (alu51 * (- (lit (14426950408889634 / 10000000000000000)))))))),
         (alu33, val62 + alu53 * (1 / (1 + (exp2 (alu53 * (- (lit (14426950408889634 / 10000000000000000)))))))),
         (alu37, val66 + alu55 * (1 / (1 + (exp2 (alu55 * (- (lit (14426950408889634 / 10000000000000000)))))))),
         (alu26, val55 + alu57 * (1 / (1 + (exp2 (alu57 * (- (lit (14426950408889634 / 10000000000000000)))))))),
         (alu30, val59 + alu59 * (1 / (1 + (exp2 (alu59 * (- (lit (14426950408889634 / 10000000000000000)))))))),
         (alu34, val63 + alu61 * (1 / (1 + (exp2 (alu61 * (- (lit (14426950408889634 / 10000000000000000)))))))),
         (alu38, val67 + alu63 * (1 / (1 + (exp2 (alu63 * (- (lit (14426950408889634 / 10000000000000000)))))))),
         (alu27, val56 + alu65 * (1 / (1 + (exp2 (alu65 * (- (lit (14426950408889634 / 10000000000000000)))))))),
         (alu31, val60 + alu67 * (1 / (1 + (exp2 (alu67 * (- (lit (14426950408889634 / 10000000000000000)))))))),
         (alu35, val64 + alu69 * (1 / (1 + (exp2 (alu69 * (- (lit (14426950408889634 / 10000000000000000)))))))),
         (alu39, val68 + alu71 * (1 / (1 + (exp2 (alu71 * (- (lit (14426950408889634 / 10000000000000000)))))))),
         (alu28, val57 + alu73 * (1 / (1 + (exp2 (alu73 * (- (lit (14426950408889634 / 10000000000000000)))))))),
         (alu32, val61 + alu75 * (1 / (1 + (exp2 (alu75 * (- (lit (14426950408889634 / 10000000000000000)))))))),
         (alu36, val65 + alu77 * (1 / (1 + (exp2 (alu77 * (- (lit (14426950408889634 / 10000000000000000)))))))),
         (alu40, val69 + alu79 * (1 / (1 + (exp2 (alu79 * (- (lit (14426950408889634 / 10000000000000000))))))))])"

definition r_4_5_5_2_16_4_32_4_4_3_3n3_shader :: "(f32 \<Rightarrow> f32) \<Rightarrow> (f32 \<Rightarrow> f32) \<Rightarrow> shader" where
  "r_4_5_5_2_16_4_32_4_4_3_3n3_shader exp2 fsqrt = FShader (2, 16, 4) (\<lambda>f i. r_4_5_5_2_16_4_32_4_4_3_3n3 exp2 fsqrt (f 1) (f 2) (f 3) (f 4) (f 5) (f 6) (f 7))"

lemma r_4_5_5_2_16_4_32_4_4_3_3n3_stores:
  assumes "gx < 5" "gy < 5" "gz < 4" "lx < 2" "ly < 16" "lz < 4"
  shows "set (launch (r_4_5_5_2_16_4_32_4_4_3_3n3 exp2 fsqrt r x w m g v b) (gx, gy, gz) (lx, ly, lz)) = tile 4 (16 * 5) (4 * (4 * 5)) (layer_value exp2 fsqrt (Residual 80 80 0 32 0) (reads [r, x, w, m, g, v, b])) (2 * gz + lx) (16 * gy + ly) (4 * gx + lz)"
proof -
  have n: "16 * gy + ly \<le> 79" "4 * gx + lz \<le> 19" using assms by simp_all
  have h: "80 = 79 + (1 :: nat)" "80 = 4 * (19 + 1 :: nat)" by simp_all
  note w = less_4[THEN window_1[OF n h]]
  have f: "((of_nat gx + of_nat lz :: i32) <s 1) \<longleftrightarrow> \<not> 0 < 4 * gx + lz" "((of_nat gy + of_nat ly :: i32) <s 1) \<longleftrightarrow> \<not> 0 < 16 * gy + ly"
    by (rule first_test; use assms in simp)+
  have t0: "((of_nat lz + push_bit 2 (of_nat gx) :: i32) <s 19) \<longleftrightarrow> 4 * gx + lz < 19"
    using last_test[of 2 gx lz 19] assms by simp
  have t1: "((of_nat ly + push_bit 4 (of_nat gy) :: i32) <s 79) \<longleftrightarrow> 16 * gy + ly < 79"
    using last_test[of 4 gy ly 79] assms by simp
  show ?thesis
    unfolding r_4_5_5_2_16_4_32_4_4_3_3n3_def launch_def Let_def vec_simps f t0 t1 for_loop_16 prod.case log2_e_def[symmetric] sigmoid_def[symmetric] silu_def[symmetric]
    by (rule tile_planes, unfold list.map prod.case list.inject prod.inject layer_value.simps reads_simps w taps_def batch_norm_def, intro conjI)
      (simp_all add: arr_def push_bit_eq_mult algebra_simps)
qed

interpretation r_4_5_5_2_16_4_32_4_4_3_3n3: spatial_kernel 2 16 4 5 5 4 4 "launch (r_4_5_5_2_16_4_32_4_4_3_3n3 exp2 fsqrt r x w m g v b)"
    "layer_value exp2 fsqrt (Residual 80 80 0 32 0) (reads [r, x, w, m, g, v, b])"
  for exp2 fsqrt r x w m g v b
  by unfold_locales (rule r_4_5_5_2_16_4_32_4_4_3_3n3_stores; assumption | simp)+

lemma r_4_5_5_2_16_4_32_4_4_3_3n3_computes: "computes exp2 fsqrt (r_4_5_5_2_16_4_32_4_4_3_3n3_shader exp2 fsqrt) (5, 5, 4) (Residual 80 80 0 32 0) 32 80 80"
  unfolding r_4_5_5_2_16_4_32_4_4_3_3n3_shader_def by (rule computesI, rule r_4_5_5_2_16_4_32_4_4_3_3n3.kernel_contract_axioms) (simp, simp only: layer_inputs, simp)

definition r_8_5_5_2_16_4_64_4_4_3_3 :: "(f32 \<Rightarrow> f32) \<Rightarrow> (f32 \<Rightarrow> f32) \<Rightarrow> f32 buf \<Rightarrow> f32 buf \<Rightarrow> f32 buf \<Rightarrow> f32 buf \<Rightarrow> f32 buf \<Rightarrow> f32 buf \<Rightarrow> vec3 \<Rightarrow> vec3 \<Rightarrow> f32 stores" where
  "r_8_5_5_2_16_4_64_4_4_3_3 exp2 fsqrt data1 data2 data3 data4 data5 data6 gindex lindex =
    (let gidx0 = vx gindex;
         gidx1 = vy gindex;
         gidx2 = vz gindex;
         lidx0 = vx lindex;
         lidx1 = vy lindex;
         lidx2 = vz lindex;
         precast0 = gidx0;
         cast0 = precast0;
         precast1 = lidx2;
         precast2 = push_bit 2 precast1;
         cast1 = precast2;
         precast3 = push_bit 4 cast0;
         cast2 = precast3;
         alu0 = lidx1 * 80;
         alu1 = gidx1 * 1280;
         precast4 = push_bit 2 cast0;
         alu2 = (lidx2 + precast4) <s 19;
         precast5 = gidx1;
         precast6 = push_bit 4 precast5;
         alu3 = (lidx1 + precast6) <s 79;
         alu4 = \<not> ((gidx1 + lidx1) <s 1);
         alu5 = \<not> ((gidx0 + lidx2) <s 1);
         acc0 = (0 :: f32);
         acc1 = (0 :: f32);
         acc2 = (0 :: f32);
         acc3 = (0 :: f32);
         acc4 = (0 :: f32);
         acc5 = (0 :: f32);
         acc6 = (0 :: f32);
         acc7 = (0 :: f32);
         acc8 = (0 :: f32);
         acc9 = (0 :: f32);
         acc10 = (0 :: f32);
         acc11 = (0 :: f32);
         acc12 = (0 :: f32);
         acc13 = (0 :: f32);
         acc14 = (0 :: f32);
         acc15 = (0 :: f32);
         (acc0, acc1, acc2, acc3, acc4, acc5, acc6, acc7,
          acc8, acc9, acc10, acc11, acc12, acc13, acc14, acc15)
          = for_loop 64 (\<lambda>ridx6 (acc0, acc1, acc2, acc3, acc4, acc5, acc6, acc7,
             acc8, acc9, acc10, acc11, acc12, acc13, acc14, acc15).
             let alu6 = gidx2 * 4608 + lidx0 * 2304 + ridx6 * 9;
                 val0 = rd data2 alu6;
                 val1 = rd data2 (alu6 + 1);
                 val2 = rd data2 (alu6 + 2);
                 val3 = rd data2 (alu6 + 3);
                 val4 = rd data2 (alu6 + 4);
                 val5 = rd data2 (alu6 + 5);
                 val6 = rd data2 (alu6 + 6);
                 val7 = rd data2 (alu6 + 7);
                 val8 = rd data2 (alu6 + 8);
                 val9 = rd data2 (alu6 + 576);
                 val10 = rd data2 (alu6 + 577);
                 val11 = rd data2 (alu6 + 578);
                 val12 = rd data2 (alu6 + 579);
                 val13 = rd data2 (alu6 + 580);
                 val14 = rd data2 (alu6 + 581);
                 val15 = rd data2 (alu6 + 582);
                 val16 = rd data2 (alu6 + 583);
                 val17 = rd data2 (alu6 + 584);
                 val18 = rd data2 (alu6 + 1152);
                 val19 = rd data2 (alu6 + 1153);
                 val20 = rd data2 (alu6 + 1154);
                 val21 = rd data2 (alu6 + 1155);
                 val22 = rd data2 (alu6 + 1156);
                 val23 = rd data2 (alu6 + 1157);
                 val24 = rd data2 (alu6 + 1158);
                 val25 = rd data2 (alu6 + 1159);
                 val26 = rd data2 (alu6 + 1160);
                 val27 = rd data2 (alu6 + 1728);
                 val28 = rd data2 (alu6 + 1729);
                 val29 = rd data2 (alu6 + 1730);
                 val30 = rd data2 (alu6 + 1731);
                 val31 = rd data2 (alu6 + 1732);
                 val32 = rd data2 (alu6 + 1733);
                 val33 = rd data2 (alu6 + 1734);
                 val34 = rd data2 (alu6 + 1735);
                 val35 = rd data2 (alu6 + 1736);
                 alu7 = alu1 + alu0 + ridx6 * 6400 + cast2 + cast1;
                 val36 = rd data1 alu7;
                 val37 = select 0 (rd data1 (alu7 + (- 81))) (alu4 \<and> alu5);
                 val38 = select 0 (rd data1 (alu7 + (- 80))) alu4;
                 val39 = select 0 (rd data1 (alu7 + (- 79))) alu4;
                 val40 = select 0 (rd data1 (alu7 + (- 78))) alu4;
                 val41 = select 0 (rd data1 (alu7 + (- 77))) alu4;
                 val42 = select 0 (rd data1 (alu7 + (- 76))) (alu4 \<and> alu2);
                 val43 = select 0 (rd data1 (alu7 + (- 1))) alu5;
                 val44 = rd data1 (alu7 + 1);
                 val45 = rd data1 (alu7 + 2);
                 val46 = rd data1 (alu7 + 3);
                 val47 = select 0 (rd data1 (alu7 + 4)) alu2;
                 val48 = select 0 (rd data1 (alu7 + 79)) (alu3 \<and> alu5);
                 val49 = select 0 (rd data1 (alu7 + 80)) alu3;
                 val50 = select 0 (rd data1 (alu7 + 81)) alu3;
                 val51 = select 0 (rd data1 (alu7 + 82)) alu3;
                 val52 = select 0 (rd data1 (alu7 + 83)) alu3;
                 val53 = select 0 (rd data1 (alu7 + 84)) (alu3 \<and> alu2);
                 acc0 = acc0 + val37 * val0 + val43 * val3 + val48 * val6 + val38 * val1 + val36 * val4 + val49 * val7 + val39 * val2 + val44 * val5 + val50 * val8;
                 acc1 = acc1 + val37 * val9 + val43 * val12 + val48 * val15 + val38 * val10 + val36 * val13 + val49 * val16 + val39 * val11 + val44 * val14 + val50 * val17;
                 acc2 = acc2 + val37 * val18 + val43 * val21 + val48 * val24 + val38 * val19 + val36 * val22 + val49 * val25 + val39 * val20 + val44 * val23 + val50 * val26;
                 acc3 = acc3 + val37 * val27 + val43 * val30 + val48 * val33 + val38 * val28 + val36 * val31 + val49 * val34 + val39 * val29 + val44 * val32 + val50 * val35;
                 acc4 = acc4 + val38 * val0 + val36 * val3 + val49 * val6 + val39 * val1 + val44 * val4 + val50 * val7 + val40 * val2 + val45 * val5 + val51 * val8;
                 acc5 = acc5 + val38 * val9 + val36 * val12 + val49 * val15 + val39 * val10 + val44 * val13 + val50 * val16 + val40 * val11 + val45 * val14 + val51 * val17;
                 acc6 = acc6 + val38 * val18 + val36 * val21 + val49 * val24 + val39 * val19 + val44 * val22 + val50 * val25 + val40 * val20 + val45 * val23 + val51 * val26;
                 acc7 = acc7 + val38 * val27 + val36 * val30 + val49 * val33 + val39 * val28 + val44 * val31 + val50 * val34 + val40 * val29 + val45 * val32 + val51 * val35;
                 acc8 = acc8 + val39 * val0 + val44 * val3 + val50 * val6 + val40 * val1 + val45 * val4 + val51 * val7 + val41 * val2 + val46 * val5 + val52 * val8;
                 acc9 = acc9 + val39 * val9 + val44 * val12 + val50 * val15 + val40 * val10 + val45 * val13 + val51 * val16 + val41 * val11 + val46 * val14 + val52 * val17;
                 acc10 = acc10 + val39 * val18 + val44 * val21 + val50 * val24 + val40 * val19 + val45 * val22 + val51 * val25 + val41 * val20 + val46 * val23 + val52 * val26;
                 acc11 = acc11 + val39 * val27 + val44 * val30 + val50 * val33 + val40 * val28 + val45 * val31 + val51 * val34 + val41 * val29 + val46 * val32 + val52 * val35;
                 acc12 = acc12 + val40 * val0 + val45 * val3 + val51 * val6 + val41 * val1 + val46 * val4 + val52 * val7 + val42 * val2 + val47 * val5 + val53 * val8;
                 acc13 = acc13 + val40 * val9 + val45 * val12 + val51 * val15 + val41 * val10 + val46 * val13 + val52 * val16 + val42 * val11 + val47 * val14 + val53 * val17;
                 acc14 = acc14 + val40 * val18 + val45 * val21 + val51 * val24 + val41 * val19 + val46 * val22 + val52 * val25 + val42 * val20 + val47 * val23 + val53 * val26;
                 acc15 = acc15 + val40 * val27 + val45 * val30 + val51 * val33 + val41 * val28 + val46 * val31 + val52 * val34 + val42 * val29 + val47 * val32 + val53 * val35
             in (acc0, acc1, acc2, acc3, acc4, acc5, acc6, acc7,
                 acc8, acc9, acc10, acc11, acc12, acc13, acc14, acc15))
             (acc0, acc1, acc2, acc3, acc4, acc5, acc6, acc7,
              acc8, acc9, acc10, acc11, acc12, acc13, acc14, acc15);
         precast7 = gidx2;
         precast8 = lidx0;
         precast9 = push_bit 3 precast7;
         precast10 = push_bit 2 precast8;
         alu25 = precast9 + precast10;
         val54 = rd data3 alu25;
         val55 = rd data4 alu25;
         val56 = rd data5 alu25;
         val57 = rd data6 alu25;
         alu26 = alu25 + 1;
         val58 = rd data3 alu26;
         val59 = rd data4 alu26;
         val60 = rd data5 alu26;
         val61 = rd data6 alu26;
         alu27 = alu25 + 2;
         val62 = rd data3 alu27;
         val63 = rd data4 alu27;
         val64 = rd data5 alu27;
         val65 = rd data6 alu27;
         alu28 = alu25 + 3;
         val66 = rd data3 alu28;
         val67 = rd data4 alu28;
         val68 = rd data5 alu28;
         val69 = rd data6 alu28;
         alu29 = 1 / (fsqrt (val56 + (lit (1 / 1000))));
         alu30 = 1 / (fsqrt (val60 + (lit (1 / 1000))));
         alu31 = 1 / (fsqrt (val64 + (lit (1 / 1000))));
         alu32 = 1 / (fsqrt (val68 + (lit (1 / 1000))));
         alu33 = alu1 + gidx2 * 51200 + cast2 + lidx0 * 25600 + alu0 + cast1;
         alu34 = (acc0 - val54) * val55 * alu29 + val57;
         alu36 = (acc1 - val58) * val59 * alu30 + val61;
         alu38 = (acc2 - val62) * val63 * alu31 + val65;
         alu40 = (acc3 - val66) * val67 * alu32 + val69;
         alu42 = (acc4 - val54) * val55 * alu29 + val57;
         alu44 = (acc5 - val58) * val59 * alu30 + val61;
         alu46 = (acc6 - val62) * val63 * alu31 + val65;
         alu48 = (acc7 - val66) * val67 * alu32 + val69;
         alu50 = (acc8 - val54) * val55 * alu29 + val57;
         alu52 = (acc9 - val58) * val59 * alu30 + val61;
         alu54 = (acc10 - val62) * val63 * alu31 + val65;
         alu56 = (acc11 - val66) * val67 * alu32 + val69;
         alu58 = (acc12 - val54) * val55 * alu29 + val57;
         alu60 = (acc13 - val58) * val59 * alu30 + val61;
         alu62 = (acc14 - val62) * val63 * alu31 + val65;
         alu64 = (acc15 - val66) * val67 * alu32 + val69
     in [(alu33, alu34 * (1 / (1 + (exp2 (alu34 * (- (lit (14426950408889634 / 10000000000000000)))))))),
         (alu33 + 6400, alu36 * (1 / (1 + (exp2 (alu36 * (- (lit (14426950408889634 / 10000000000000000)))))))),
         (alu33 + 12800, alu38 * (1 / (1 + (exp2 (alu38 * (- (lit (14426950408889634 / 10000000000000000)))))))),
         (alu33 + 19200, alu40 * (1 / (1 + (exp2 (alu40 * (- (lit (14426950408889634 / 10000000000000000)))))))),
         (alu33 + 1, alu42 * (1 / (1 + (exp2 (alu42 * (- (lit (14426950408889634 / 10000000000000000)))))))),
         (alu33 + 6401, alu44 * (1 / (1 + (exp2 (alu44 * (- (lit (14426950408889634 / 10000000000000000)))))))),
         (alu33 + 12801, alu46 * (1 / (1 + (exp2 (alu46 * (- (lit (14426950408889634 / 10000000000000000)))))))),
         (alu33 + 19201, alu48 * (1 / (1 + (exp2 (alu48 * (- (lit (14426950408889634 / 10000000000000000)))))))),
         (alu33 + 2, alu50 * (1 / (1 + (exp2 (alu50 * (- (lit (14426950408889634 / 10000000000000000)))))))),
         (alu33 + 6402, alu52 * (1 / (1 + (exp2 (alu52 * (- (lit (14426950408889634 / 10000000000000000)))))))),
         (alu33 + 12802, alu54 * (1 / (1 + (exp2 (alu54 * (- (lit (14426950408889634 / 10000000000000000)))))))),
         (alu33 + 19202, alu56 * (1 / (1 + (exp2 (alu56 * (- (lit (14426950408889634 / 10000000000000000)))))))),
         (alu33 + 3, alu58 * (1 / (1 + (exp2 (alu58 * (- (lit (14426950408889634 / 10000000000000000)))))))),
         (alu33 + 6403, alu60 * (1 / (1 + (exp2 (alu60 * (- (lit (14426950408889634 / 10000000000000000)))))))),
         (alu33 + 12803, alu62 * (1 / (1 + (exp2 (alu62 * (- (lit (14426950408889634 / 10000000000000000)))))))),
         (alu33 + 19203, alu64 * (1 / (1 + (exp2 (alu64 * (- (lit (14426950408889634 / 10000000000000000))))))))])"

definition r_8_5_5_2_16_4_64_4_4_3_3_shader :: "(f32 \<Rightarrow> f32) \<Rightarrow> (f32 \<Rightarrow> f32) \<Rightarrow> shader" where
  "r_8_5_5_2_16_4_64_4_4_3_3_shader exp2 fsqrt = FShader (2, 16, 4) (\<lambda>f i. r_8_5_5_2_16_4_64_4_4_3_3 exp2 fsqrt (f 1) (f 2) (f 3) (f 4) (f 5) (f 6))"

lemma r_8_5_5_2_16_4_64_4_4_3_3_stores:
  assumes "gx < 5" "gy < 5" "gz < 8" "lx < 2" "ly < 16" "lz < 4"
  shows "set (launch (r_8_5_5_2_16_4_64_4_4_3_3 exp2 fsqrt x w m g v b) (gx, gy, gz) (lx, ly, lz)) = tile 4 (16 * 5) (4 * (4 * 5)) (layer_value exp2 fsqrt (Conv3 1 80 80 0 64) (reads [x, w, m, g, v, b])) (2 * gz + lx) (16 * gy + ly) (4 * gx + lz)"
proof -
  have n: "16 * gy + ly \<le> 79" "4 * gx + lz \<le> 19" using assms by simp_all
  have h: "80 = 79 + (1 :: nat)" "80 = 4 * (19 + 1 :: nat)" by simp_all
  note w = less_4[THEN window_1[OF n h]]
  have f: "((of_nat gx + of_nat lz :: i32) <s 1) \<longleftrightarrow> \<not> 0 < 4 * gx + lz" "((of_nat gy + of_nat ly :: i32) <s 1) \<longleftrightarrow> \<not> 0 < 16 * gy + ly"
    by (rule first_test; use assms in simp)+
  have t0: "((of_nat lz + push_bit 2 (of_nat gx) :: i32) <s 19) \<longleftrightarrow> 4 * gx + lz < 19"
    using last_test[of 2 gx lz 19] assms by simp
  have t1: "((of_nat ly + push_bit 4 (of_nat gy) :: i32) <s 79) \<longleftrightarrow> 16 * gy + ly < 79"
    using last_test[of 4 gy ly 79] assms by simp
  show ?thesis
    unfolding r_8_5_5_2_16_4_64_4_4_3_3_def launch_def Let_def vec_simps f t0 t1 for_loop_16 prod.case log2_e_def[symmetric] sigmoid_def[symmetric] silu_def[symmetric]
    by (rule tile_planes, unfold list.map prod.case list.inject prod.inject layer_value.simps reads_simps w taps_def batch_norm_def, intro conjI)
      (simp_all add: arr_def push_bit_eq_mult algebra_simps)
qed

interpretation r_8_5_5_2_16_4_64_4_4_3_3: spatial_kernel 2 16 4 5 5 8 4 "launch (r_8_5_5_2_16_4_64_4_4_3_3 exp2 fsqrt x w m g v b)"
    "layer_value exp2 fsqrt (Conv3 1 80 80 0 64) (reads [x, w, m, g, v, b])"
  for exp2 fsqrt x w m g v b
  by unfold_locales (rule r_8_5_5_2_16_4_64_4_4_3_3_stores; assumption | simp)+

lemma r_8_5_5_2_16_4_64_4_4_3_3_computes: "computes exp2 fsqrt (r_8_5_5_2_16_4_64_4_4_3_3_shader exp2 fsqrt) (5, 5, 8) (Conv3 1 80 80 0 64) 64 80 80"
  unfolding r_8_5_5_2_16_4_64_4_4_3_3_shader_def by (rule computesI, rule r_8_5_5_2_16_4_64_4_4_3_3.kernel_contract_axioms) (simp, simp only: layer_inputs, simp)

end
