(* ===== verification/Windows20.thy ===== *)
theory Windows20
  imports Layers
begin

text \<open>
  The 3x3 convolutions of \<open>server/cherum/static/net.js\<close> that give tensors with 20x20 cells.
  Each kernel is followed by its shader and by the stores of one invocation: the tile of the layer.
\<close>

definition r_2_5_5_32_4_128_4_4_3_3 :: "(f32 \<Rightarrow> f32) \<Rightarrow> (f32 \<Rightarrow> f32) \<Rightarrow> f32 buf \<Rightarrow> f32 buf \<Rightarrow> f32 buf \<Rightarrow> f32 buf \<Rightarrow> f32 buf \<Rightarrow> f32 buf \<Rightarrow> vec3 \<Rightarrow> vec3 \<Rightarrow> f32 stores" where
  "r_2_5_5_32_4_128_4_4_3_3 exp2 fsqrt data1 data2 data3 data4 data5 data6 gindex lindex =
    (let gidx0 = vx gindex;
         gidx1 = vy gindex;
         gidx2 = vz gindex;
         lidx0 = vx lindex;
         lidx1 = vy lindex;
         precast0 = gidx0;
         cast0 = precast0;
         alu0 = \<not> (gidx0 <s 1);
         alu1 = \<not> ((gidx1 + lidx1) <s 1);
         precast1 = push_bit 3 cast0;
         acc0 = (0 :: f32);
         acc1 = (0 :: f32);
         acc2 = (0 :: f32);
         acc3 = (0 :: f32);
         acc4 = (0 :: f32);
         acc5 = (0 :: f32);
         acc6 = (0 :: f32);
         acc7 = (0 :: f32);
         acc8 = (0 :: f32);
         acc9 = (0 :: f32);
         acc10 = (0 :: f32);
         acc11 = (0 :: f32);
         acc12 = (0 :: f32);
         acc13 = (0 :: f32);
         acc14 = (0 :: f32);
         acc15 = (0 :: f32);
         (acc0, acc1, acc2, acc3, acc4, acc5, acc6, acc7,
          acc8, acc9, acc10, acc11, acc12, acc13, acc14, acc15)
          = for_loop 128 (\<lambda>ridx5 (acc0, acc1, acc2, acc3, acc4, acc5, acc6, acc7,
             acc8, acc9, acc10, acc11, acc12, acc13, acc14, acc15).
             let alu2 = gidx2 * 147456 + lidx0 * 4608 + ridx5 * 9;
                 val0 = rd data2 alu2;
                 val1 = rd data2 (alu2 + 1);
                 val2 = rd data2 (alu2 + 2);
                 val3 = rd data2 (alu2 + 3);
                 val4 = rd data2 (alu2 + 4);
                 val5 = rd data2 (alu2 + 5);
                 val6 = rd data2 (alu2 + 6);
                 val7 = rd data2 (alu2 + 7);
                 val8 = rd data2 (alu2 + 8);
                 val9 = rd data2 (alu2 + 1152);
                 val10 = rd data2 (alu2 + 1153);
                 val11 = rd data2 (alu2 + 1154);
                 val12 = rd data2 (alu2 + 1155);
                 val13 = rd data2 (alu2 + 1156);
                 val14 = rd data2 (alu2 + 1157);
                 val15 = rd data2 (alu2 + 1158);
                 val16 = rd data2 (alu2 + 1159);
                 val17 = rd data2 (alu2 + 1160);
                 val18 = rd data2 (alu2 + 2304);
                 val19 = rd data2 (alu2 + 2305);
                 val20 = rd data2 (alu2 + 2306);
                 val21 = rd data2 (alu2 + 2307);
                 val22 = rd data2 (alu2 + 2308);
                 val23 = rd data2 (alu2 + 2309);
                 val24 = rd data2 (alu2 + 2310);
                 val25 = rd data2 (alu2 + 2311);
                 val26 = rd data2 (alu2 + 2312);
                 val27 = rd data2 (alu2 + 3456);
                 val28 = rd data2 (alu2 + 3457);
                 val29 = rd data2 (alu2 + 3458);
                 val30 = rd data2 (alu2 + 3459);
                 val31 = rd data2 (alu2 + 3460);
                 val32 = rd data2 (alu2 + 3461);
                 val33 = rd data2 (alu2 + 3462);
                 val34 = rd data2 (alu2 + 3463);
                 val35 = rd data2 (alu2 + 3464);
                 alu3 = gidx1 * 320 + lidx1 * 80 + ridx5 * 1600 + precast1;
                 val36 = rd data1 alu3;
                 val37 = select 0 (rd data1 (alu3 + (- 41))) (alu1 \<and> alu0);
                 val38 = select 0 (rd data1 (alu3 + (- 40))) alu1;
                 val39 = select 0 (rd data1 (alu3 + (- 39))) alu1;
                 val40 = select 0 (rd data1 (alu3 + (- 38))) alu1;
                 val41 = select 0 (rd data1 (alu3 + (- 37))) alu1;
                 val42 = select 0 (rd data1 (alu3 + (- 36))) alu1;
                 val43 = select 0 (rd data1 (alu3 + (- 35))) alu1;
                 val44 = select 0 (rd data1 (alu3 + (- 34))) alu1;
                 val45 = select 0 (rd data1 (alu3 + (- 33))) alu1;
                 val46 = select 0 (rd data1 (alu3 + (- 1))) alu0;
                 val47 = rd data1 (alu3 + 1);
                 val48 = rd data1 (alu3 + 2);
                 val49 = rd data1 (alu3 + 3);
                 val50 = rd data1 (alu3 + 4);
                 val51 = rd data1 (alu3 + 5);
                 val52 = rd data1 (alu3 + 6);
                 val53 = rd data1 (alu3 + 7);
                 val54 = select 0 (rd data1 (alu3 + 39)) alu0;
                 val55 = rd data1 (alu3 + 40);
                 val56 = rd data1 (alu3 + 41);
                 val57 = rd data1 (alu3 + 42);
                 val58 = rd data1 (alu3 + 43);
                 val59 = rd data1 (alu3 + 44);
                 val60 = rd data1 (alu3 + 45);
                 val61 = rd data1 (alu3 + 46);
                 val62 = rd data1 (alu3 + 47);
                 acc0 = acc0 + val37 * val0 + val46 * val3 + val54 * val6 + val38 * val1 + val36 * val4 + val55 * val7 + val39 * val2 + val47 * val5 + val56 * val8;
                 acc1 = acc1 + val37 * val9 + val46 * val12 + val54 * val15 + val38 * val10 + val36 * val13 + val55 * val16 + val39 * val11 + val47 * val14 + val56 * val17;
                 acc2 = acc2 + val37 * val18 + val46 * val21 + val54 * val24 + val38 * val19 + val36 * val22 + val55 * val25 + val39 * val20 + val47 * val23 + val56 * val26;
                 acc3 = acc3 + val37 * val27 + val46 * val30 + val54 * val33 + val38 * val28 + val36 * val31 + val55 * val34 + val39 * val29 + val47 * val32 + val56 * val35;
                 acc4 = acc4 + val39 * val0 + val47 * val3 + val56 * val6 + val40 * val1 + val48 * val4 + val57 * val7 + val41 * val2 + val49 * val5 + val58 * val8;
                 acc5 = acc5 + val39 * val9 + val47 * val12 + val56 * val15 + val40 * val10 + val48 * val13 + val57 * val16 + val41 * val11 + val49 * val14 + val58 * val17;
                 acc6 = acc6 + val39 * val18 + val47 * val21 + val56 * val24 + val40 * val19 + val48 * val22 + val57 * val25 + val41 * val20 + val49 * val23 + val58 * val26;
                 acc7 = acc7 + val39 * val27 + val47 * val30 + val56 * val33 + val40 * val28 + val48 * val31 + val57 * val34 + val41 * val29 + val49 * val32 + val58 * val35;
                 acc8 = acc8 + val41 * val0 + val49 * val3 + val58 * val6 + val42 * val1 + val50 * val4 + val59 * val7 + val43 * val2 + val51 * val5 + val60 * val8;
                 acc9 = acc9 + val41 * val9 + val49 * val12 + val58 * val15 + val42 * val10 + val50 * val13 + val59 * val16 + val43 * val11 + val51 * val14 + val60 * val17;
                 acc10 = acc10 + val41 * val18 + val49 * val21 + val58 * val24 + val42 * val19 + val50 * val22 + val59 * val25 + val43 * val20 + val51 * val23 + val60 * val26;
                 acc11 = acc11 + val41 * val27 + val49 * val30 + val58 * val33 + val42 * val28 + val50 * val31 + val59 * val34 + val43 * val29 + val51 * val32 + val60 * val35;
                 acc12 = acc12 + val43 * val0 + val51 * val3 + val60 * val6 + val44 * val1 + val52 * val4 + val61 * val7 + val45 * val2 + val53 * val5 + val62 * val8;
                 acc13 = acc13 + val43 * val9 + val51 * val12 + val60 * val15 + val44 * val10 + val52 * val13 + val61 * val16 + val45 * val11 + val53 * val14 + val62 * val17;
                 acc14 = acc14 + val43 * val18 + val51 * val21 + val60 * val24 + val44 * val19 + val52 * val22 + val61 * val25 + val45 * val20 + val53 * val23 + val62 * val26;
                 acc15 = acc15 + val43 * val27 + val51 * val30 + val60 * val33 + val44 * val28 + val52 * val31 + val61 * val34 + val45 * val29 + val53 * val32 + val62 * val35
             in (acc0, acc1, acc2, acc3, acc4, acc5, acc6, acc7,
                 acc8, acc9, acc10, acc11, acc12, acc13, acc14, acc15))
             (acc0, acc1, acc2, acc3, acc4, acc5, acc6, acc7,
              acc8, acc9, acc10, acc11, acc12, acc13, acc14, acc15);
         precast2 = gidx2;
         precast3 = lidx0;
         precast4 = push_bit 7 precast2;
         precast5 = push_bit 2 precast3;
         alu21 = precast4 + precast5;
         val63 = rd data3 alu21;
         val64 = rd data4 alu21;
         val65 = rd data5 alu21;
         val66 = rd data6 alu21;
         alu22 = alu21 + 1;
         val67 = rd data3 alu22;
         val68 = rd data4 alu22;
         val69 = rd data5 alu22;
         val70 = rd data6 alu22;
         alu23 = alu21 + 2;
         val71 = rd data3 alu23;
         val72 = rd data4 alu23;
         val73 = rd data5 alu23;
         val74 = rd data6 alu23;
         alu24 = alu21 + 3;
         val75 = rd data3 alu24;
         val76 = rd data4 alu24;
         val77 = rd data5 alu24;
         val78 = rd data6 alu24;
         alu25 = 1 / (fsqrt (val65 + (lit (1 / 1000))));
         alu26 = 1 / (fsqrt (val69 + (lit (1 / 1000))));
         alu27 = 1 / (fsqrt (val73 + (lit (1 / 1000))));
         alu28 = 1 / (fsqrt (val77 + (lit (1 / 1000))));
         precast6 = push_bit 2 cast0;
         alu29 = gidx1 * 80 + gidx2 * 51200 + precast6 + lidx0 * 1600 + lidx1 * 20;
         alu30 = (acc0 - val63) * val64 * alu25 + val66;
         alu32 = (acc1 - val67) * val68 * alu26 + val70;
         alu34 = (acc2 - val71) * val72 * alu27 + val74;
         alu36 = (acc3 - val75) * val76 * alu28 + val78;
         alu38 = (acc4 - val63) * val64 * alu25 + val66;
         alu40 = (acc5 - val67) * val68 * alu26 + val70;
         alu42 = (acc6 - val71) * val72 * alu27 + val74;
         alu44 = (acc7 - val75) * val76 * alu28 + val78;
         alu46 = (acc8 - val63) * val64 * alu25 + val66;
         alu48 = (acc9 - val67) * val68 * alu26 + val70;
         alu50 = (acc10 - val71) * val72 * alu27 + val74;
         alu52 = (acc11 - val75) * val76 * alu28 + val78;
         alu54 = (acc12 - val63) * val64 * alu25 + val66;
         alu56 = (acc13 - val67) * val68 * alu26 + val70;
         alu58 = (acc14 - val71) * val72 * alu27 + val74;
         alu60 = (acc15 - val75) * val76 * alu28 + val78
     in [(alu29, alu30 * (1 / (1 + (exp2 (alu30 * (- (lit (14426950408889634 / 10000000000000000)))))))),
         (alu29 + 400, alu32 * (1 / (1 + (exp2 (alu32 * (- (lit (14426950408889634 / 10000000000000000)))))))),
         (alu29 + 800, alu34 * (1 / (1 + (exp2 (alu34 * (- (lit (14426950408889634 / 10000000000000000)))))))),
         (alu29 + 1200, alu36 * (1 / (1 + (exp2 (alu36 * (- (lit (14426950408889634 / 10000000000000000)))))))),
         (alu29 + 1, alu38 * (1 / (1 + (exp2 (alu38 * (- (lit (14426950408889634 / 10000000000000000)))))))),
         (alu29 + 401, alu40 * (1 / (1 + (exp2 (alu40 * (- (lit (14426950408889634 / 10000000000000000)))))))),
         (alu29 + 801, alu42 * (1 / (1 + (exp2 (alu42 * (- (lit (14426950408889634 / 10000000000000000)))))))),
         (alu29 + 1201, alu44 * (1 / (1 + (exp2 (alu44 * (- (lit (14426950408889634 / 10000000000000000)))))))),
         (alu29 + 2, alu46 * (1 / (1 + (exp2 (alu46 * (- (lit (14426950408889634 / 10000000000000000)))))))),
         (alu29 + 402, alu48 * (1 / (1 + (exp2 (alu48 * (- (lit (14426950408889634 / 10000000000000000)))))))),
         (alu29 + 802, alu50 * (1 / (1 + (exp2 (alu50 * (- (lit (14426950408889634 / 10000000000000000)))))))),
         (alu29 + 1202, alu52 * (1 / (1 + (exp2 (alu52 * (- (lit (14426950408889634 / 10000000000000000)))))))),
         (alu29 + 3, alu54 * (1 / (1 + (exp2 (alu54 * (- (lit (14426950408889634 / 10000000000000000)))))))),
         (alu29 + 403, alu56 * (1 / (1 + (exp2 (alu56 * (- (lit (14426950408889634 / 10000000000000000)))))))),
         (alu29 + 803, alu58 * (1 / (1 + (exp2 (alu58 * (- (lit (14426950408889634 / 10000000000000000)))))))),
         (alu29 + 1203, alu60 * (1 / (1 + (exp2 (alu60 * (- (lit (14426950408889634 / 10000000000000000))))))))])"

definition r_2_5_5_32_4_128_4_4_3_3_shader :: "(f32 \<Rightarrow> f32) \<Rightarrow> (f32 \<Rightarrow> f32) \<Rightarrow> shader" where
  "r_2_5_5_32_4_128_4_4_3_3_shader exp2 fsqrt = FShader (32, 4, 1) (\<lambda>f i. r_2_5_5_32_4_128_4_4_3_3 exp2 fsqrt (f 1) (f 2) (f 3) (f 4) (f 5) (f 6))"

lemma r_2_5_5_32_4_128_4_4_3_3_stores:
  assumes "gx < 5" "gy < 5" "gz < 2" "lx < 32" "ly < 4" "lz < 1"
  shows "set (launch (r_2_5_5_32_4_128_4_4_3_3 exp2 fsqrt x w m g v b) (gx, gy, gz) (lx, ly, lz)) = tile 4 (4 * 5) (4 * (1 * 5)) (layer_value exp2 fsqrt (Conv3 2 40 40 0 128) (reads [x, w, m, g, v, b])) (32 * gz + lx) (4 * gy + ly) (1 * gx + lz)"
proof -
  have zlz: "lz = 0" using assms(6) by simp
  have n: "4 * gy + ly \<le> 19" "1 * gx + 0 \<le> 4" using assms by simp_all
  have h: "40 = 2 * (19 + 1 :: nat)" "40 = 8 * (4 + 1 :: nat)" by simp_all
  note w = less_4[THEN window_2[OF n h]]
  have f: "((of_nat gy + of_nat ly :: i32) <s 1) \<longleftrightarrow> \<not> 0 < 4 * gy + ly"
    by (rule first_test; use assms in simp)+
  have t0: "((of_nat gx :: i32) <s 1) \<longleftrightarrow> \<not> 0 < 1 * gx + 0"
    using sless_of_nat[of gx 1] assms by simp
  show ?thesis
    unfolding zlz r_2_5_5_32_4_128_4_4_3_3_def launch_def Let_def vec_simps f t0 for_loop_16 prod.case log2_e_def[symmetric] sigmoid_def[symmetric] silu_def[symmetric]
    by (rule tile_planes, unfold list.map prod.case list.inject prod.inject layer_value.simps reads_simps w taps_def batch_norm_def, intro conjI)
      (simp_all add: arr_def push_bit_eq_mult algebra_simps)
qed

interpretation r_2_5_5_32_4_128_4_4_3_3: spatial_kernel 32 4 1 5 5 2 4 "launch (r_2_5_5_32_4_128_4_4_3_3 exp2 fsqrt x w m g v b)"
    "layer_value exp2 fsqrt (Conv3 2 40 40 0 128) (reads [x, w, m, g, v, b])"
  for exp2 fsqrt x w m g v b
  by unfold_locales (rule r_2_5_5_32_4_128_4_4_3_3_stores; assumption | simp)+

lemma r_2_5_5_32_4_128_4_4_3_3_computes: "computes exp2 fsqrt (r_2_5_5_32_4_128_4_4_3_3_shader exp2 fsqrt) (5, 5, 2) (Conv3 2 40 40 0 128) 256 20 20"
  unfolding r_2_5_5_32_4_128_4_4_3_3_shader_def by (rule computesI, rule r_2_5_5_32_4_128_4_4_3_3.kernel_contract_axioms) (simp, simp only: layer_inputs, simp)

definition r_5_5_32_4_128_4_4_3_3 :: "(f32 \<Rightarrow> f32) \<Rightarrow> (f32 \<Rightarrow> f32) \<Rightarrow> f32 buf \<Rightarrow> f32 buf \<Rightarrow> f32 buf \<Rightarrow> f32 buf \<Rightarrow> f32 buf \<Rightarrow> f32 buf \<Rightarrow> vec3 \<Rightarrow> vec3 \<Rightarrow> f32 stores" where
  "r_5_5_32_4_128_4_4_3_3 exp2 fsqrt data1 data2 data3 data4 data5 data6 gindex lindex =
    (let gidx0 = vx gindex;
         gidx1 = vy gindex;
         lidx0 = vx lindex;
         lidx1 = vy lindex;
         alu0 = lidx1 * 20;
         alu1 = gidx1 * 80;
         precast0 = gidx0;
         precast1 = push_bit 2 precast0;
         cast0 = precast1;
         alu2 = gidx0 <s 4;
         precast2 = gidx1;
         precast3 = push_bit 2 precast2;
         alu3 = (lidx1 + precast3) <s 19;
         alu4 = \<not> ((gidx1 + lidx1) <s 1);
         alu5 = \<not> (gidx0 <s 1);
         acc0 = (0 :: f32);
         acc1 = (0 :: f32);
         acc2 = (0 :: f32);
         acc3 = (0 :: f32);
         acc4 = (0 :: f32);
         acc5 = (0 :: f32);
         acc6 = (0 :: f32);
         acc7 = (0 :: f32);
         acc8 = (0 :: f32);
         acc9 = (0 :: f32);
         acc10 = (0 :: f32);
         acc11 = (0 :: f32);
         acc12 = (0 :: f32);
         acc13 = (0 :: f32);
         acc14 = (0 :: f32);
         acc15 = (0 :: f32);
         (acc0, acc1, acc2, acc3, acc4, acc5, acc6, acc7,
          acc8, acc9, acc10, acc11, acc12, acc13, acc14, acc15)
          = for_loop 128 (\<lambda>ridx4 (acc0, acc1, acc2, acc3, acc4, acc5, acc6, acc7,
             acc8, acc9, acc10, acc11, acc12, acc13, acc14, acc15).
             let alu6 = lidx0 * 4608 + ridx4 * 9;
                 val0 = rd data2 alu6;
                 val1 = rd data2 (alu6 + 1);
                 val2 = rd data2 (alu6 + 2);
                 val3 = rd data2 (alu6 + 3);
                 val4 = rd data2 (alu6 + 4);
                 val5 = rd data2 (alu6 + 5);
                 val6 = rd data2 (alu6 + 6);
                 val7 = rd data2 (alu6 + 7);
                 val8 = rd data2 (alu6 + 8);
                 val9 = rd data2 (alu6 + 1152);
                 val10 = rd data2 (alu6 + 1153);
                 val11 = rd data2 (alu6 + 1154);
                 val12 = rd data2 (alu6 + 1155);
                 val13 = rd data2 (alu6 + 1156);
                 val14 = rd data2 (alu6 + 1157);
                 val15 = rd data2 (alu6 + 1158);
                 val16 = rd data2 (alu6 + 1159);
                 val17 = rd data2 (alu6 + 1160);
                 val18 = rd data2 (alu6 + 2304);
                 val19 = rd data2 (alu6 + 2305);
                 val20 = rd data2 (alu6 + 2306);
                 val21 = rd data2 (alu6 + 2307);
                 val22 = rd data2 (alu6 + 2308);
                 val23 = rd data2 (alu6 + 2309);
                 val24 = rd data2 (alu6 + 2310);
                 val25 = rd data2 (alu6 + 2311);
                 val26 = rd data2 (alu6 + 2312);
                 val27 = rd data2 (alu6 + 3456);
                 val28 = rd data2 (alu6 + 3457);
                 val29 = rd data2 (alu6 + 3458);
                 val30 = rd data2 (alu6 + 3459);
                 val31 = rd data2 (alu6 + 3460);
                 val32 = rd data2 (alu6 + 3461);
                 val33 = rd data2 (alu6 + 3462);
                 val34 = rd data2 (alu6 + 3463);
                 val35 = rd data2 (alu6 + 3464);
                 alu7 = alu1 + alu0 + ridx4 * 400 + cast0;
                 val36 = select 0 (rd data1 (alu7 + 51179)) (alu4 \<and> alu5);
                 val37 = select 0 (rd data1 (alu7 + 51180)) alu4;
                 val38 = select 0 (rd data1 (alu7 + 51181)) alu4;
                 val39 = select 0 (rd data1 (alu7 + 51182)) alu4;
                 val40 = select 0 (rd data1 (alu7 + 51183)) alu4;
                 val41 = select 0 (rd data1 (alu7 + 51184)) (alu4 \<and> alu2);
                 val42 = select 0 (rd data1 (alu7 + 51199)) alu5;
                 val43 = rd data1 (alu7 + 51200);
                 val44 = rd data1 (alu7 + 51201);
                 val45 = rd data1 (alu7 + 51202);
                 val46 = rd data1 (alu7 + 51203);
                 val47 = select 0 (rd data1 (alu7 + 51204)) alu2;
                 val48 = select 0 (rd data1 (alu7 + 51219)) (alu3 \<and> alu5);
                 val49 = select 0 (rd data1 (alu7 + 51220)) alu3;
                 val50 = select 0 (rd data1 (alu7 + 51221)) alu3;
                 val51 = select 0 (rd data1 (alu7 + 51222)) alu3;
                 val52 = select 0 (rd data1 (alu7 + 51223)) alu3;
                 val53 = select 0 (rd data1 (alu7 + 51224)) (alu3 \<and> alu2);
                 acc0 = acc0 + val36 * val0 + val42 * val3 + val48 * val6 + val37 * val1 + val43 * val4 + val49 * val7 + val38 * val2 + val44 * val5 + val50 * val8;
                 acc1 = acc1 + val36 * val9 + val42 * val12 + val48 * val15 + val37 * val10 + val43 * val13 + val49 * val16 + val38 * val11 + val44 * val14 + val50 * val17;
                 acc2 = acc2 + val36 * val18 + val42 * val21 + val48 * val24 + val37 * val19 + val43 * val22 + val49 * val25 + val38 * val20 + val44 * val23 + val50 * val26;
                 acc3 = acc3 + val36 * val27 + val42 * val30 + val48 * val33 + val37 * val28 + val43 * val31 + val49 * val34 + val38 * val29 + val44 * val32 + val50 * val35;
                 acc4 = acc4 + val37 * val0 + val43 * val3 + val49 * val6 + val38 * val1 + val44 * val4 + val50 * val7 + val39 * val2 + val45 * val5 + val51 * val8;
                 acc5 = acc5 + val37 * val9 + val43 * val12 + val49 * val15 + val38 * val10 + val44 * val13 + val50 * val16 + val39 * val11 + val45 * val14 + val51 * val17;
                 acc6 = acc6 + val37 * val18 + val43 * val21 + val49 * val24 + val38 * val19 + val44 * val22 + val50 * val25 + val39 * val20 + val45 * val23 + val51 * val26;
                 acc7 = acc7 + val37 * val27 + val43 * val30 + val49 * val33 + val38 * val28 + val44 * val31 + val50 * val34 + val39 * val29 + val45 * val32 + val51 * val35;
                 acc8 = acc8 + val38 * val0 + val44 * val3 + val50 * val6 + val39 * val1 + val45 * val4 + val51 * val7 + val40 * val2 + val46 * val5 + val52 * val8;
                 acc9 = acc9 + val38 * val9 + val44 * val12 + val50 * val15 + val39 * val10 + val45 * val13 + val51 * val16 + val40 * val11 + val46 * val14 + val52 * val17;
                 acc10 = acc10 + val38 * val18 + val44 * val21 + val50 * val24 + val39 * val19 + val45 * val22 + val51 * val25 + val40 * val20 + val46 * val23 + val52 * val26;
                 acc11 = acc11 + val38 * val27 + val44 * val30 + val50 * val33 + val39 * val28 + val45 * val31 + val51 * val34 + val40 * val29 + val46 * val32 + val52 * val35;
                 acc12 = acc12 + val39 * val0 + val45 * val3 + val51 * val6 + val40 * val1 + val46 * val4 + val52 * val7 + val41 * val2 + val47 * val5 + val53 * val8;
                 acc13 = acc13 + val39 * val9 + val45 * val12 + val51 * val15 + val40 * val10 + val46 * val13 + val52 * val16 + val41 * val11 + val47 * val14 + val53 * val17;
                 acc14 = acc14 + val39 * val18 + val45 * val21 + val51 * val24 + val40 * val19 + val46 * val22 + val52 * val25 + val41 * val20 + val47 * val23 + val53 * val26;
                 acc15 = acc15 + val39 * val27 + val45 * val30 + val51 * val33 + val40 * val28 + val46 * val31 + val52 * val34 + val41 * val29 + val47 * val32 + val53 * val35
             in (acc0, acc1, acc2, acc3, acc4, acc5, acc6, acc7,
                 acc8, acc9, acc10, acc11, acc12, acc13, acc14, acc15))
             (acc0, acc1, acc2, acc3, acc4, acc5, acc6, acc7,
              acc8, acc9, acc10, acc11, acc12, acc13, acc14, acc15);
         precast4 = lidx0;
         precast5 = push_bit 2 precast4;
         cast1 = precast5;
         val54 = rd data3 cast1;
         val55 = rd data4 cast1;
         val56 = rd data5 cast1;
         val57 = rd data6 cast1;
         alu25 = cast1 + 1;
         val58 = rd data3 alu25;
         val59 = rd data4 alu25;
         val60 = rd data5 alu25;
         val61 = rd data6 alu25;
         alu26 = cast1 + 2;
         val62 = rd data3 alu26;
         val63 = rd data4 alu26;
         val64 = rd data5 alu26;
         val65 = rd data6 alu26;
         alu27 = cast1 + 3;
         val66 = rd data3 alu27;
         val67 = rd data4 alu27;
         val68 = rd data5 alu27;
         val69 = rd data6 alu27;
         alu28 = 1 / (fsqrt (val56 + (lit (1 / 1000))));
         alu29 = 1 / (fsqrt (val60 + (lit (1 / 1000))));
         alu30 = 1 / (fsqrt (val64 + (lit (1 / 1000))));
         alu31 = 1 / (fsqrt (val68 + (lit (1 / 1000))));
         alu32 = cast0 + alu1 + lidx0 * 1600 + alu0;
         alu33 = (acc0 - val54) * val55 * alu28 + val57;
         alu35 = (acc1 - val58) * val59 * alu29 + val61;
         alu37 = (acc2 - val62) * val63 * alu30 + val65;
         alu39 = (acc3 - val66) * val67 * alu31 + val69;
         alu41 = (acc4 - val54) * val55 * alu28 + val57;
         alu43 = (acc5 - val58) * val59 * alu29 + val61;
         alu45 = (acc6 - val62) * val63 * alu30 + val65;
         alu47 = (acc7 - val66) * val67 * alu31 + val69;
         alu49 = (acc8 - val54) * val55 * alu28 + val57;
         alu51 = (acc9 - val58) * val59 * alu29 + val61;
         alu53 = (acc10 - val62) * val63 * alu30 + val65;
         alu55 = (acc11 - val66) * val67 * alu31 + val69;
         alu57 = (acc12 - val54) * val55 * alu28 + val57;
         alu59 = (acc13 - val58) * val59 * alu29 + val61;
         alu61 = (acc14 - val62) * val63 * alu30 + val65;
         alu63 = (acc15 - val66) * val67 * alu31 + val69
     in [(alu32, alu33 * (1 / (1 + (exp2 (alu33 * (- (lit (14426950408889634 / 10000000000000000)))))))),
         (alu32 + 400, alu35 * (1 / (1 + (exp2 (alu35 * (- (lit (14426950408889634 / 10000000000000000)))))))),
         (alu32 + 800, alu37 * (1 / (1 + (exp2 (alu37 * (- (lit (14426950408889634 / 10000000000000000)))))))),
         (alu32 + 1200, alu39 * (1 / (1 + (exp2 (alu39 * (- (lit (14426950408889634 / 10000000000000000)))))))),
         (alu32 + 1, alu41 * (1 / (1 + (exp2 (alu41 * (- (lit (14426950408889634 / 10000000000000000)))))))),
         (alu32 + 401, alu43 * (1 / (1 + (exp2 (alu43 * (- (lit (14426950408889634 / 10000000000000000)))))))),
         (alu32 + 801, alu45 * (1 / (1 + (exp2 (alu45 * (- (lit (14426950408889634 / 10000000000000000)))))))),
         (alu32 + 1201, alu47 * (1 / (1 + (exp2 (alu47 * (- (lit (14426950408889634 / 10000000000000000)))))))),
         (alu32 + 2, alu49 * (1 / (1 + (exp2 (alu49 * (- (lit (14426950408889634 / 10000000000000000)))))))),
         (alu32 + 402, alu51 * (1 / (1 + (exp2 (alu51 * (- (lit (14426950408889634 / 10000000000000000)))))))),
         (alu32 + 802, alu53 * (1 / (1 + (exp2 (alu53 * (- (lit (14426950408889634 / 10000000000000000)))))))),
         (alu32 + 1202, alu55 * (1 / (1 + (exp2 (alu55 * (- (lit (14426950408889634 / 10000000000000000)))))))),
         (alu32 + 3, alu57 * (1 / (1 + (exp2 (alu57 * (- (lit (14426950408889634 / 10000000000000000)))))))),
         (alu32 + 403, alu59 * (1 / (1 + (exp2 (alu59 * (- (lit (14426950408889634 / 10000000000000000)))))))),
         (alu32 + 803, alu61 * (1 / (1 + (exp2 (alu61 * (- (lit (14426950408889634 / 10000000000000000)))))))),
         (alu32 + 1203, alu63 * (1 / (1 + (exp2 (alu63 * (- (lit (14426950408889634 / 10000000000000000))))))))])"

definition r_5_5_32_4_128_4_4_3_3_shader :: "(f32 \<Rightarrow> f32) \<Rightarrow> (f32 \<Rightarrow> f32) \<Rightarrow> shader" where
  "r_5_5_32_4_128_4_4_3_3_shader exp2 fsqrt = FShader (32, 4, 1) (\<lambda>f i. r_5_5_32_4_128_4_4_3_3 exp2 fsqrt (f 1) (f 2) (f 3) (f 4) (f 5) (f 6))"

lemma r_5_5_32_4_128_4_4_3_3_stores:
  assumes "gx < 5" "gy < 5" "gz < 1" "lx < 32" "ly < 4" "lz < 1"
  shows "set (launch (r_5_5_32_4_128_4_4_3_3 exp2 fsqrt x w m g v b) (gx, gy, gz) (lx, ly, lz)) = tile 4 (4 * 5) (4 * (1 * 5)) (layer_value exp2 fsqrt (Conv3 1 20 20 128 128) (reads [x, w, m, g, v, b])) (32 * gz + lx) (4 * gy + ly) (1 * gx + lz)"
proof -
  have zgz: "gz = 0" using assms(3) by simp
  have zlz: "lz = 0" using assms(6) by simp
  have n: "4 * gy + ly \<le> 19" "1 * gx + 0 \<le> 4" using assms by simp_all
  have h: "20 = 19 + (1 :: nat)" "20 = 4 * (4 + 1 :: nat)" by simp_all
  note w = less_4[THEN window_1[OF n h]]
  have f: "((of_nat gy + of_nat ly :: i32) <s 1) \<longleftrightarrow> \<not> 0 < 4 * gy + ly"
    by (rule first_test; use assms in simp)+
  have t0: "((of_nat gx :: i32) <s 1) \<longleftrightarrow> \<not> 0 < 1 * gx + 0"
    using sless_of_nat[of gx 1] assms by simp
  have t1: "((of_nat gx :: i32) <s 4) \<longleftrightarrow> 1 * gx + 0 < 4"
    using sless_of_nat[of gx 4] assms by simp
  have t2: "((of_nat ly + push_bit 2 (of_nat gy) :: i32) <s 19) \<longleftrightarrow> 4 * gy + ly < 19"
    using last_test[of 2 gy ly 19] assms by simp
  show ?thesis
    unfolding zgz zlz r_5_5_32_4_128_4_4_3_3_def launch_def Let_def vec_simps f t0 t1 t2 for_loop_16 prod.case log2_e_def[symmetric] sigmoid_def[symmetric] silu_def[symmetric]
    by (rule tile_planes, unfold list.map prod.case list.inject prod.inject layer_value.simps reads_simps w taps_def batch_norm_def, intro conjI)
      (simp_all add: arr_def push_bit_eq_mult algebra_simps)
qed

interpretation r_5_5_32_4_128_4_4_3_3: spatial_kernel 32 4 1 5 5 1 4 "launch (r_5_5_32_4_128_4_4_3_3 exp2 fsqrt x w m g v b)"
    "layer_value exp2 fsqrt (Conv3 1 20 20 128 128) (reads [x, w, m, g, v, b])"
  for exp2 fsqrt x w m g v b
  by unfold_locales (rule r_5_5_32_4_128_4_4_3_3_stores; assumption | simp)+

lemma r_5_5_32_4_128_4_4_3_3_computes: "computes exp2 fsqrt (r_5_5_32_4_128_4_4_3_3_shader exp2 fsqrt) (5, 5, 1) (Conv3 1 20 20 128 128) 128 20 20"
  unfolding r_5_5_32_4_128_4_4_3_3_shader_def by (rule computesI, rule r_5_5_32_4_128_4_4_3_3.kernel_contract_axioms) (simp, simp only: layer_inputs, simp)

definition r_5_5_32_4_128_4_4_3_3n1 :: "(f32 \<Rightarrow> f32) \<Rightarrow> (f32 \<Rightarrow> f32) \<Rightarrow> f32 buf \<Rightarrow> f32 buf \<Rightarrow> f32 buf \<Rightarrow> f32 buf \<Rightarrow> f32 buf \<Rightarrow> f32 buf \<Rightarrow> f32 buf \<Rightarrow> vec3 \<Rightarrow> vec3 \<Rightarrow> f32 stores" where
  "r_5_5_32_4_128_4_4_3_3n1 exp2 fsqrt data1 data2 data3 data4 data5 data6 data7 gindex lindex =
    (let gidx0 = vx gindex;
         gidx1 = vy gindex;
         lidx0 = vx lindex;
         lidx1 = vy lindex;
         alu0 = lidx1 * 20;
         alu1 = gidx1 * 80;
         precast0 = gidx0;
         precast1 = push_bit 2 precast0;
         cast0 = precast1;
         alu2 = gidx0 <s 4;
         precast2 = gidx1;
         precast3 = push_bit 2 precast2;
         alu3 = (lidx1 + precast3) <s 19;
         alu4 = \<not> ((gidx1 + lidx1) <s 1);
         alu5 = \<not> (gidx0 <s 1);
         acc0 = (0 :: f32);
         acc1 = (0 :: f32);
         acc2 = (0 :: f32);
         acc3 = (0 :: f32);
         acc4 = (0 :: f32);
         acc5 = (0 :: f32);
         acc6 = (0 :: f32);
         acc7 = (0 :: f32);
         acc8 = (0 :: f32);
         acc9 = (0 :: f32);
         acc10 = (0 :: f32);
         acc11 = (0 :: f32);
         acc12 = (0 :: f32);
         acc13 = (0 :: f32);
         acc14 = (0 :: f32);
         acc15 = (0 :: f32);
         (acc0, acc1, acc2, acc3, acc4, acc5, acc6, acc7,
          acc8, acc9, acc10, acc11, acc12, acc13, acc14, acc15)
          = for_loop 128 (\<lambda>ridx4 (acc0, acc1, acc2, acc3, acc4, acc5, acc6, acc7,
             acc8, acc9, acc10, acc11, acc12, acc13, acc14, acc15).
             let alu6 = lidx0 * 4608 + ridx4 * 9;
                 val0 = rd data3 alu6;
                 val1 = rd data3 (alu6 + 1);
                 val2 = rd data3 (alu6 + 2);
                 val3 = rd data3 (alu6 + 3);
                 val4 = rd data3 (alu6 + 4);
                 val5 = rd data3 (alu6 + 5);
                 val6 = rd data3 (alu6 + 6);
                 val7 = rd data3 (alu6 + 7);
                 val8 = rd data3 (alu6 + 8);
                 val9 = rd data3 (alu6 + 1152);
                 val10 = rd data3 (alu6 + 1153);
                 val11 = rd data3 (alu6 + 1154);
                 val12 = rd data3 (alu6 + 1155);
                 val13 = rd data3 (alu6 + 1156);
                 val14 = rd data3 (alu6 + 1157);
                 val15 = rd data3 (alu6 + 1158);
                 val16 = rd data3 (alu6 + 1159);
                 val17 = rd data3 (alu6 + 1160);
                 val18 = rd data3 (alu6 + 2304);
                 val19 = rd data3 (alu6 + 2305);
                 val20 = rd data3 (alu6 + 2306);
                 val21 = rd data3 (alu6 + 2307);
                 val22 = rd data3 (alu6 + 2308);
                 val23 = rd data3 (alu6 + 2309);
                 val24 = rd data3 (alu6 + 2310);
                 val25 = rd data3 (alu6 + 2311);
                 val26 = rd data3 (alu6 + 2312);
                 val27 = rd data3 (alu6 + 3456);
                 val28 = rd data3 (alu6 + 3457);
                 val29 = rd data3 (alu6 + 3458);
                 val30 = rd data3 (alu6 + 3459);
                 val31 = rd data3 (alu6 + 3460);
                 val32 = rd data3 (alu6 + 3461);
                 val33 = rd data3 (alu6 + 3462);
                 val34 = rd data3 (alu6 + 3463);
                 val35 = rd data3 (alu6 + 3464);
                 alu7 = alu1 + alu0 + ridx4 * 400 + cast0;
                 val36 = rd data2 alu7;
                 val37 = select 0 (rd data2 (alu7 + (- 21))) (alu4 \<and> alu5);
                 val38 = select 0 (rd data2 (alu7 + (- 20))) alu4;
                 val39 = select 0 (rd data2 (alu7 + (- 19))) alu4;
                 val40 = select 0 (rd data2 (alu7 + (- 18))) alu4;
                 val41 = select 0 (rd data2 (alu7 + (- 17))) alu4;
                 val42 = select 0 (rd data2 (alu7 + (- 16))) (alu4 \<and> alu2);
                 val43 = select 0 (rd data2 (alu7 + (- 1))) alu5;
                 val44 = rd data2 (alu7 + 1);
                 val45 = rd data2 (alu7 + 2);
                 val46 = rd data2 (alu7 + 3);
                 val47 = select 0 (rd data2 (alu7 + 4)) alu2;
                 val48 = select 0 (rd data2 (alu7 + 19)) (alu3 \<and> alu5);
                 val49 = select 0 (rd data2 (alu7 + 20)) alu3;
                 val50 = select 0 (rd data2 (alu7 + 21)) alu3;
                 val51 = select 0 (rd data2 (alu7 + 22)) alu3;
                 val52 = select 0 (rd data2 (alu7 + 23)) alu3;
                 val53 = select 0 (rd data2 (alu7 + 24)) (alu3 \<and> alu2);
                 acc0 = acc0 + val37 * val0 + val43 * val3 + val48 * val6 + val38 * val1 + val36 * val4 + val49 * val7 + val39 * val2 + val44 * val5 + val50 * val8;
                 acc1 = acc1 + val37 * val9 + val43 * val12 + val48 * val15 + val38 * val10 + val36 * val13 + val49 * val16 + val39 * val11 + val44 * val14 + val50 * val17;
                 acc2 = acc2 + val37 * val18 + val43 * val21 + val48 * val24 + val38 * val19 + val36 * val22 + val49 * val25 + val39 * val20 + val44 * val23 + val50 * val26;
                 acc3 = acc3 + val37 * val27 + val43 * val30 + val48 * val33 + val38 * val28 + val36 * val31 + val49 * val34 + val39 * val29 + val44 * val32 + val50 * val35;
                 acc4 = acc4 + val38 * val0 + val36 * val3 + val49 * val6 + val39 * val1 + val44 * val4 + val50 * val7 + val40 * val2 + val45 * val5 + val51 * val8;
                 acc5 = acc5 + val38 * val9 + val36 * val12 + val49 * val15 + val39 * val10 + val44 * val13 + val50 * val16 + val40 * val11 + val45 * val14 + val51 * val17;
                 acc6 = acc6 + val38 * val18 + val36 * val21 + val49 * val24 + val39 * val19 + val44 * val22 + val50 * val25 + val40 * val20 + val45 * val23 + val51 * val26;
                 acc7 = acc7 + val38 * val27 + val36 * val30 + val49 * val33 + val39 * val28 + val44 * val31 + val50 * val34 + val40 * val29 + val45 * val32 + val51 * val35;
                 acc8 = acc8 + val39 * val0 + val44 * val3 + val50 * val6 + val40 * val1 + val45 * val4 + val51 * val7 + val41 * val2 + val46 * val5 + val52 * val8;
                 acc9 = acc9 + val39 * val9 + val44 * val12 + val50 * val15 + val40 * val10 + val45 * val13 + val51 * val16 + val41 * val11 + val46 * val14 + val52 * val17;
                 acc10 = acc10 + val39 * val18 + val44 * val21 + val50 * val24 + val40 * val19 + val45 * val22 + val51 * val25 + val41 * val20 + val46 * val23 + val52 * val26;
                 acc11 = acc11 + val39 * val27 + val44 * val30 + val50 * val33 + val40 * val28 + val45 * val31 + val51 * val34 + val41 * val29 + val46 * val32 + val52 * val35;
                 acc12 = acc12 + val40 * val0 + val45 * val3 + val51 * val6 + val41 * val1 + val46 * val4 + val52 * val7 + val42 * val2 + val47 * val5 + val53 * val8;
                 acc13 = acc13 + val40 * val9 + val45 * val12 + val51 * val15 + val41 * val10 + val46 * val13 + val52 * val16 + val42 * val11 + val47 * val14 + val53 * val17;
                 acc14 = acc14 + val40 * val18 + val45 * val21 + val51 * val24 + val41 * val19 + val46 * val22 + val52 * val25 + val42 * val20 + val47 * val23 + val53 * val26;
                 acc15 = acc15 + val40 * val27 + val45 * val30 + val51 * val33 + val41 * val28 + val46 * val31 + val52 * val34 + val42 * val29 + val47 * val32 + val53 * val35
             in (acc0, acc1, acc2, acc3, acc4, acc5, acc6, acc7,
                 acc8, acc9, acc10, acc11, acc12, acc13, acc14, acc15))
             (acc0, acc1, acc2, acc3, acc4, acc5, acc6, acc7,
              acc8, acc9, acc10, acc11, acc12, acc13, acc14, acc15);
         precast4 = lidx0;
         alu25 = cast0 + alu1 + lidx0 * 1600 + alu0;
         val54 = rd data1 (alu25 + 51200);
         val55 = rd data1 (alu25 + 51201);
         val56 = rd data1 (alu25 + 51202);
         val57 = rd data1 (alu25 + 51203);
         val58 = rd data1 (alu25 + 51600);
         val59 = rd data1 (alu25 + 51601);
         val60 = rd data1 (alu25 + 51602);
         val61 = rd data1 (alu25 + 51603);
         val62 = rd data1 (alu25 + 52000);
         val63 = rd data1 (alu25 + 52001);
         val64 = rd data1 (alu25 + 52002);
         val65 = rd data1 (alu25 + 52003);
         val66 = rd data1 (alu25 + 52400);
         val67 = rd data1 (alu25 + 52401);
         val68 = rd data1 (alu25 + 52402);
         val69 = rd data1 (alu25 + 52403);
         precast5 = push_bit 2 precast4;
         cast1 = precast5;
         val70 = rd data4 cast1;
         val71 = rd data5 cast1;
         val72 = rd data6 cast1;
         val73 = rd data7 cast1;
         alu26 = cast1 + 1;
         val74 = rd data4 alu26;
         val75 = rd data5 alu26;
         val76 = rd data6 alu26;
         val77 = rd data7 alu26;
         alu27 = cast1 + 2;
         val78 = rd data4 alu27;
         val79 = rd data5 alu27;
         val80 = rd data6 alu27;
         val81 = rd data7 alu27;
         alu28 = cast1 + 3;
         val82 = rd data4 alu28;
         val83 = rd data5 alu28;
         val84 = rd data6 alu28;
         val85 = rd data7 alu28;
         alu29 = 1 / (fsqrt (val72 + (lit (1 / 1000))));
         alu30 = 1 / (fsqrt (val76 + (lit (1 / 1000))));
         alu31 = 1 / (fsqrt (val80 + (lit (1 / 1000))));
         alu32 = 1 / (fsqrt (val84 + (lit (1 / 1000))));
         alu33 = (acc0 - val70) * val71 * alu29 + val73;
         alu35 = (acc1 - val74) * val75 * alu30 + val77;
         alu37 = (acc2 - val78) * val79 * alu31 + val81;
         alu39 = (acc3 - val82) * val83 * alu32 + val85;
         alu41 = (acc4 - val70) * val71 * alu29 + val73;
         alu43 = (acc5 - val74) * val75 * alu30 + val77;
         alu45 = (acc6 - val78) * val79 * alu31 + val81;
         alu47 = (acc7 - val82) * val83 * alu32 + val85;
         alu49 = (acc8 - val70) * val71 * alu29 + val73;
         alu51 = (acc9 - val74) * val75 * alu30 + val77;
         alu53 = (acc10 - val78) * val79 * alu31 + val81;
         alu55 = (acc11 - val82) * val83 * alu32 + val85;
         alu57 = (acc12 - val70) * val71 * alu29 + val73;
         alu59 = (acc13 - val74) * val75 * alu30 + val77;
         alu61 = (acc14 - val78) * val79 * alu31 + val81;
         alu63 = (acc15 - val82) * val83 * alu32 + val85
     in [(alu25, val54 + alu33 * (1 / (1 + (exp2 (alu33 * (- (lit (14426950408889634 / 10000000000000000)))))))),
         (alu25 + 400, val58 + alu35 * (1 / (1 + (exp2 (alu35 * (- (lit (14426950408889634 / 10000000000000000)))))))),
         (alu25 + 800, val62 + alu37 * (1 / (1 + (exp2 (alu37 * (- (lit (14426950408889634 / 10000000000000000)))))))),
         (alu25 + 1200, val66 + alu39 * (1 / (1 + (exp2 (alu39 * (- (lit (14426950408889634 / 10000000000000000)))))))),
         (alu25 + 1, val55 + alu41 * (1 / (1 + (exp2 (alu41 * (- (lit (14426950408889634 / 10000000000000000)))))))),
         (alu25 + 401, val59 + alu43 * (1 / (1 + (exp2 (alu43 * (- (lit (14426950408889634 / 10000000000000000)))))))),
         (alu25 + 801, val63 + alu45 * (1 / (1 + (exp2 (alu45 * (- (lit (14426950408889634 / 10000000000000000)))))))),
         (alu25 + 1201, val67 + alu47 * (1 / (1 + (exp2 (alu47 * (- (lit (14426950408889634 / 10000000000000000)))))))),
         (alu25 + 2, val56 + alu49 * (1 / (1 + (exp2 (alu49 * (- (lit (14426950408889634 / 10000000000000000)))))))),
         (alu25 + 402, val60 + alu51 * (1 / (1 + (exp2 (alu51 * (- (lit (14426950408889634 / 10000000000000000)))))))),
         (alu25 + 802, val64 + alu53 * (1 / (1 + (exp2 (alu53 * (- (lit (14426950408889634 / 10000000000000000)))))))),
         (alu25 + 1202, val68 + alu55 * (1 / (1 + (exp2 (alu55 * (- (lit (14426950408889634 / 10000000000000000)))))))),
         (alu25 + 3, val57 + alu57 * (1 / (1 + (exp2 (alu57 * (- (lit (14426950408889634 / 10000000000000000)))))))),
         (alu25 + 403, val61 + alu59 * (1 / (1 + (exp2 (alu59 * (- (lit (14426950408889634 / 10000000000000000)))))))),
         (alu25 + 803, val65 + alu61 * (1 / (1 + (exp2 (alu61 * (- (lit (14426950408889634 / 10000000000000000)))))))),
         (alu25 + 1203, val69 + alu63 * (1 / (1 + (exp2 (alu63 * (- (lit (14426950408889634 / 10000000000000000))))))))])"

definition r_5_5_32_4_128_4_4_3_3n1_shader :: "(f32 \<Rightarrow> f32) \<Rightarrow> (f32 \<Rightarrow> f32) \<Rightarrow> shader" where
  "r_5_5_32_4_128_4_4_3_3n1_shader exp2 fsqrt = FShader (32, 4, 1) (\<lambda>f i. r_5_5_32_4_128_4_4_3_3n1 exp2 fsqrt (f 1) (f 2) (f 3) (f 4) (f 5) (f 6) (f 7))"

lemma r_5_5_32_4_128_4_4_3_3n1_stores:
  assumes "gx < 5" "gy < 5" "gz < 1" "lx < 32" "ly < 4" "lz < 1"
  shows "set (launch (r_5_5_32_4_128_4_4_3_3n1 exp2 fsqrt r x w m g v b) (gx, gy, gz) (lx, ly, lz)) = tile 4 (4 * 5) (4 * (1 * 5)) (layer_value exp2 fsqrt (Residual 20 20 0 128 128) (reads [r, x, w, m, g, v, b])) (32 * gz + lx) (4 * gy + ly) (1 * gx + lz)"
proof -
  have zgz: "gz = 0" using assms(3) by simp
  have zlz: "lz = 0" using assms(6) by simp
  have n: "4 * gy + ly \<le> 19" "1 * gx + 0 \<le> 4" using assms by simp_all
  have h: "20 = 19 + (1 :: nat)" "20 = 4 * (4 + 1 :: nat)" by simp_all
  note w = less_4[THEN window_1[OF n h]]
  have f: "((of_nat gy + of_nat ly :: i32) <s 1) \<longleftrightarrow> \<not> 0 < 4 * gy + ly"
    by (rule first_test; use assms in simp)+
  have t0: "((of_nat gx :: i32) <s 1) \<longleftrightarrow> \<not> 0 < 1 * gx + 0"
    using sless_of_nat[of gx 1] assms by simp
  have t1: "((of_nat gx :: i32) <s 4) \<longleftrightarrow> 1 * gx + 0 < 4"
    using sless_of_nat[of gx 4] assms by simp
  have t2: "((of_nat ly + push_bit 2 (of_nat gy) :: i32) <s 19) \<longleftrightarrow> 4 * gy + ly < 19"
    using last_test[of 2 gy ly 19] assms by simp
  show ?thesis
    unfolding zgz zlz r_5_5_32_4_128_4_4_3_3n1_def launch_def Let_def vec_simps f t0 t1 t2 for_loop_16 prod.case log2_e_def[symmetric] sigmoid_def[symmetric] silu_def[symmetric]
    by (rule tile_planes, unfold list.map prod.case list.inject prod.inject layer_value.simps reads_simps w taps_def batch_norm_def, intro conjI)
      (simp_all add: arr_def push_bit_eq_mult algebra_simps)
qed

interpretation r_5_5_32_4_128_4_4_3_3n1: spatial_kernel 32 4 1 5 5 1 4 "launch (r_5_5_32_4_128_4_4_3_3n1 exp2 fsqrt r x w m g v b)"
    "layer_value exp2 fsqrt (Residual 20 20 0 128 128) (reads [r, x, w, m, g, v, b])"
  for exp2 fsqrt r x w m g v b
  by unfold_locales (rule r_5_5_32_4_128_4_4_3_3n1_stores; assumption | simp)+

lemma r_5_5_32_4_128_4_4_3_3n1_computes: "computes exp2 fsqrt (r_5_5_32_4_128_4_4_3_3n1_shader exp2 fsqrt) (5, 5, 1) (Residual 20 20 0 128 128) 128 20 20"
  unfolding r_5_5_32_4_128_4_4_3_3n1_shader_def by (rule computesI, rule r_5_5_32_4_128_4_4_3_3n1.kernel_contract_axioms) (simp, simp only: layer_inputs, simp)

definition r_5_5_32_4_128_4_4_3_3n2 :: "(f32 \<Rightarrow> f32) \<Rightarrow> (f32 \<Rightarrow> f32) \<Rightarrow> f32 buf \<Rightarrow> f32 buf \<Rightarrow> f32 buf \<Rightarrow> f32 buf \<Rightarrow> f32 buf \<Rightarrow> f32 buf \<Rightarrow> vec3 \<Rightarrow> vec3 \<Rightarrow> f32 stores" where
  "r_5_5_32_4_128_4_4_3_3n2 exp2 fsqrt data1 data2 data3 data4 data5 data6 gindex lindex =
    (let gidx0 = vx gindex;
         gidx1 = vy gindex;
         lidx0 = vx lindex;
         lidx1 = vy lindex;
         precast0 = gidx0;
         cast0 = precast0;
         alu0 = \<not> (gidx0 <s 1);
         alu1 = \<not> ((gidx1 + lidx1) <s 1);
         precast1 = push_bit 3 cast0;
         acc0 = (0 :: f32);
         acc1 = (0 :: f32);
         acc2 = (0 :: f32);
         acc3 = (0 :: f32);
         acc4 = (0 :: f32);
         acc5 = (0 :: f32);
         acc6 = (0 :: f32);
         acc7 = (0 :: f32);
         acc8 = (0 :: f32);
         acc9 = (0 :: f32);
         acc10 = (0 :: f32);
         acc11 = (0 :: f32);
         acc12 = (0 :: f32);
         acc13 = (0 :: f32);
         acc14 = (0 :: f32);
         acc15 = (0 :: f32);
         (acc0, acc1, acc2, acc3, acc4, acc5, acc6, acc7,
          acc8, acc9, acc10, acc11, acc12, acc13, acc14, acc15)
          = for_loop 128 (\<lambda>ridx4 (acc0, acc1, acc2, acc3, acc4, acc5, acc6, acc7,
             acc8, acc9, acc10, acc11, acc12, acc13, acc14, acc15).
             let alu2 = lidx0 * 4608 + ridx4 * 9;
                 val0 = rd data2 alu2;
                 val1 = rd data2 (alu2 + 1);
                 val2 = rd data2 (alu2 + 2);
                 val3 = rd data2 (alu2 + 3);
                 val4 = rd data2 (alu2 + 4);
                 val5 = rd data2 (alu2 + 5);
                 val6 = rd data2 (alu2 + 6);
                 val7 = rd data2 (alu2 + 7);
                 val8 = rd data2 (alu2 + 8);
                 val9 = rd data2 (alu2 + 1152);
                 val10 = rd data2 (alu2 + 1153);
                 val11 = rd data2 (alu2 + 1154);
                 val12 = rd data2 (alu2 + 1155);
                 val13 = rd data2 (alu2 + 1156);
                 val14 = rd data2 (alu2 + 1157);
                 val15 = rd data2 (alu2 + 1158);
                 val16 = rd data2 (alu2 + 1159);
                 val17 = rd data2 (alu2 + 1160);
                 val18 = rd data2 (alu2 + 2304);
                 val19 = rd data2 (alu2 + 2305);
                 val20 = rd data2 (alu2 + 2306);
                 val21 = rd data2 (alu2 + 2307);
                 val22 = rd data2 (alu2 + 2308);
                 val23 = rd data2 (alu2 + 2309);
                 val24 = rd data2 (alu2 + 2310);
                 val25 = rd data2 (alu2 + 2311);
                 val26 = rd data2 (alu2 + 2312);
                 val27 = rd data2 (alu2 + 3456);
                 val28 = rd data2 (alu2 + 3457);
                 val29 = rd data2 (alu2 + 3458);
                 val30 = rd data2 (alu2 + 3459);
                 val31 = rd data2 (alu2 + 3460);
                 val32 = rd data2 (alu2 + 3461);
                 val33 = rd data2 (alu2 + 3462);
                 val34 = rd data2 (alu2 + 3463);
                 val35 = rd data2 (alu2 + 3464);
                 alu3 = gidx1 * 320 + lidx1 * 80 + ridx4 * 1600 + precast1;
                 val36 = rd data1 alu3;
                 val37 = select 0 (rd data1 (alu3 + (- 41))) (alu1 \<and> alu0);
                 val38 = select 0 (rd data1 (alu3 + (- 40))) alu1;
                 val39 = select 0 (rd data1 (alu3 + (- 39))) alu1;
                 val40 = select 0 (rd data1 (alu3 + (- 38))) alu1;
                 val41 = select 0 (rd data1 (alu3 + (- 37))) alu1;
                 val42 = select 0 (rd data1 (alu3 + (- 36))) alu1;
                 val43 = select 0 (rd data1 (alu3 + (- 35))) alu1;
                 val44 = select 0 (rd data1 (alu3 + (- 34))) alu1;
                 val45 = select 0 (rd data1 (alu3 + (- 33))) alu1;
                 val46 = select 0 (rd data1 (alu3 + (- 1))) alu0;
                 val47 = rd data1 (alu3 + 1);
                 val48 = rd data1 (alu3 + 2);
                 val49 = rd data1 (alu3 + 3);
                 val50 = rd data1 (alu3 + 4);
                 val51 = rd data1 (alu3 + 5);
                 val52 = rd data1 (alu3 + 6);
                 val53 = rd data1 (alu3 + 7);
                 val54 = select 0 (rd data1 (alu3 + 39)) alu0;
                 val55 = rd data1 (alu3 + 40);
                 val56 = rd data1 (alu3 + 41);
                 val57 = rd data1 (alu3 + 42);
                 val58 = rd data1 (alu3 + 43);
                 val59 = rd data1 (alu3 + 44);
                 val60 = rd data1 (alu3 + 45);
                 val61 = rd data1 (alu3 + 46);
                 val62 = rd data1 (alu3 + 47);
                 acc0 = acc0 + val37 * val0 + val46 * val3 + val54 * val6 + val38 * val1 + val36 * val4 + val55 * val7 + val39 * val2 + val47 * val5 + val56 * val8;
                 acc1 = acc1 + val37 * val9 + val46 * val12 + val54 * val15 + val38 * val10 + val36 * val13 + val55 * val16 + val39 * val11 + val47 * val14 + val56 * val17;
                 acc2 = acc2 + val37 * val18 + val46 * val21 + val54 * val24 + val38 * val19 + val36 * val22 + val55 * val25 + val39 * val20 + val47 * val23 + val56 * val26;
                 acc3 = acc3 + val37 * val27 + val46 * val30 + val54 * val33 + val38 * val28 + val36 * val31 + val55 * val34 + val39 * val29 + val47 * val32 + val56 * val35;
                 acc4 = acc4 + val39 * val0 + val47 * val3 + val56 * val6 + val40 * val1 + val48 * val4 + val57 * val7 + val41 * val2 + val49 * val5 + val58 * val8;
                 acc5 = acc5 + val39 * val9 + val47 * val12 + val56 * val15 + val40 * val10 + val48 * val13 + val57 * val16 + val41 * val11 + val49 * val14 + val58 * val17;
                 acc6 = acc6 + val39 * val18 + val47 * val21 + val56 * val24 + val40 * val19 + val48 * val22 + val57 * val25 + val41 * val20 + val49 * val23 + val58 * val26;
                 acc7 = acc7 + val39 * val27 + val47 * val30 + val56 * val33 + val40 * val28 + val48 * val31 + val57 * val34 + val41 * val29 + val49 * val32 + val58 * val35;
                 acc8 = acc8 + val41 * val0 + val49 * val3 + val58 * val6 + val42 * val1 + val50 * val4 + val59 * val7 + val43 * val2 + val51 * val5 + val60 * val8;
                 acc9 = acc9 + val41 * val9 + val49 * val12 + val58 * val15 + val42 * val10 + val50 * val13 + val59 * val16 + val43 * val11 + val51 * val14 + val60 * val17;
                 acc10 = acc10 + val41 * val18 + val49 * val21 + val58 * val24 + val42 * val19 + val50 * val22 + val59 * val25 + val43 * val20 + val51 * val23 + val60 * val26;
                 acc11 = acc11 + val41 * val27 + val49 * val30 + val58 * val33 + val42 * val28 + val50 * val31 + val59 * val34 + val43 * val29 + val51 * val32 + val60 * val35;
                 acc12 = acc12 + val43 * val0 + val51 * val3 + val60 * val6 + val44 * val1 + val52 * val4 + val61 * val7 + val45 * val2 + val53 * val5 + val62 * val8;
                 acc13 = acc13 + val43 * val9 + val51 * val12 + val60 * val15 + val44 * val10 + val52 * val13 + val61 * val16 + val45 * val11 + val53 * val14 + val62 * val17;
                 acc14 = acc14 + val43 * val18 + val51 * val21 + val60 * val24 + val44 * val19 + val52 * val22 + val61 * val25 + val45 * val20 + val53 * val23 + val62 * val26;
                 acc15 = acc15 + val43 * val27 + val51 * val30 + val60 * val33 + val44 * val28 + val52 * val31 + val61 * val34 + val45 * val29 + val53 * val32 + val62 * val35
             in (acc0, acc1, acc2, acc3, acc4, acc5, acc6, acc7,
                 acc8, acc9, acc10, acc11, acc12, acc13, acc14, acc15))
             (acc0, acc1, acc2, acc3, acc4, acc5, acc6, acc7,
              acc8, acc9, acc10, acc11, acc12, acc13, acc14, acc15);
         precast2 = lidx0;
         precast3 = push_bit 2 precast2;
         cast1 = precast3;
         val63 = rd data3 cast1;
         val64 = rd data4 cast1;
         val65 = rd data5 cast1;
         val66 = rd data6 cast1;
         alu21 = cast1 + 1;
         val67 = rd data3 alu21;
         val68 = rd data4 alu21;
         val69 = rd data5 alu21;
         val70 = rd data6 alu21;
         alu22 = cast1 + 2;
         val71 = rd data3 alu22;
         val72 = rd data4 alu22;
         val73 = rd data5 alu22;
         val74 = rd data6 alu22;
         alu23 = cast1 + 3;
         val75 = rd data3 alu23;
         val76 = rd data4 alu23;
         val77 = rd data5 alu23;
         val78 = rd data6 alu23;
         alu24 = 1 / (fsqrt (val65 + (lit (1 / 1000))));
         alu25 = 1 / (fsqrt (val69 + (lit (1 / 1000))));
         alu26 = 1 / (fsqrt (val73 + (lit (1 / 1000))));
         alu27 = 1 / (fsqrt (val77 + (lit (1 / 1000))));
         precast4 = push_bit 2 cast0;
         alu28 = precast4 + gidx1 * 80 + lidx0 * 1600 + lidx1 * 20;
         alu29 = (acc0 - val63) * val64 * alu24 + val66;
         alu31 = (acc1 - val67) * val68 * alu25 + val70;
         alu33 = (acc2 - val71) * val72 * alu26 + val74;
         alu35 = (acc3 - val75) * val76 * alu27 + val78;
         alu37 = (acc4 - val63) * val64 * alu24 + val66;
         alu39 = (acc5 - val67) * val68 * alu25 + val70;
         alu41 = (acc6 - val71) * val72 * alu26 + val74;
         alu43 = (acc7 - val75) * val76 * alu27 + val78;
         alu45 = (acc8 - val63) * val64 * alu24 + val66;
         alu47 = (acc9 - val67) * val68 * alu25 + val70;
         alu49 = (acc10 - val71) * val72 * alu26 + val74;
         alu51 = (acc11 - val75) * val76 * alu27 + val78;
         alu53 = (acc12 - val63) * val64 * alu24 + val66;
         alu55 = (acc13 - val67) * val68 * alu25 + val70;
         alu57 = (acc14 - val71) * val72 * alu26 + val74;
         alu59 = (acc15 - val75) * val76 * alu27 + val78
     in [(alu28, alu29 * (1 / (1 + (exp2 (alu29 * (- (lit (14426950408889634 / 10000000000000000)))))))),
         (alu28 + 400, alu31 * (1 / (1 + (exp2 (alu31 * (- (lit (14426950408889634 / 10000000000000000)))))))),
         (alu28 + 800, alu33 * (1 / (1 + (exp2 (alu33 * (- (lit (14426950408889634 / 10000000000000000)))))))),
         (alu28 + 1200, alu35 * (1 / (1 + (exp2 (alu35 * (- (lit (14426950408889634 / 10000000000000000)))))))),
         (alu28 + 1, alu37 * (1 / (1 + (exp2 (alu37 * (- (lit (14426950408889634 / 10000000000000000)))))))),
         (alu28 + 401, alu39 * (1 / (1 + (exp2 (alu39 * (- (lit (14426950408889634 / 10000000000000000)))))))),
         (alu28 + 801, alu41 * (1 / (1 + (exp2 (alu41 * (- (lit (14426950408889634 / 10000000000000000)))))))),
         (alu28 + 1201, alu43 * (1 / (1 + (exp2 (alu43 * (- (lit (14426950408889634 / 10000000000000000)))))))),
         (alu28 + 2, alu45 * (1 / (1 + (exp2 (alu45 * (- (lit (14426950408889634 / 10000000000000000)))))))),
         (alu28 + 402, alu47 * (1 / (1 + (exp2 (alu47 * (- (lit (14426950408889634 / 10000000000000000)))))))),
         (alu28 + 802, alu49 * (1 / (1 + (exp2 (alu49 * (- (lit (14426950408889634 / 10000000000000000)))))))),
         (alu28 + 1202, alu51 * (1 / (1 + (exp2 (alu51 * (- (lit (14426950408889634 / 10000000000000000)))))))),
         (alu28 + 3, alu53 * (1 / (1 + (exp2 (alu53 * (- (lit (14426950408889634 / 10000000000000000)))))))),
         (alu28 + 403, alu55 * (1 / (1 + (exp2 (alu55 * (- (lit (14426950408889634 / 10000000000000000)))))))),
         (alu28 + 803, alu57 * (1 / (1 + (exp2 (alu57 * (- (lit (14426950408889634 / 10000000000000000)))))))),
         (alu28 + 1203, alu59 * (1 / (1 + (exp2 (alu59 * (- (lit (14426950408889634 / 10000000000000000))))))))])"

definition r_5_5_32_4_128_4_4_3_3n2_shader :: "(f32 \<Rightarrow> f32) \<Rightarrow> (f32 \<Rightarrow> f32) \<Rightarrow> shader" where
  "r_5_5_32_4_128_4_4_3_3n2_shader exp2 fsqrt = FShader (32, 4, 1) (\<lambda>f i. r_5_5_32_4_128_4_4_3_3n2 exp2 fsqrt (f 1) (f 2) (f 3) (f 4) (f 5) (f 6))"

lemma r_5_5_32_4_128_4_4_3_3n2_stores:
  assumes "gx < 5" "gy < 5" "gz < 1" "lx < 32" "ly < 4" "lz < 1"
  shows "set (launch (r_5_5_32_4_128_4_4_3_3n2 exp2 fsqrt x w m g v b) (gx, gy, gz) (lx, ly, lz)) = tile 4 (4 * 5) (4 * (1 * 5)) (layer_value exp2 fsqrt (Conv3 2 40 40 0 128) (reads [x, w, m, g, v, b])) (32 * gz + lx) (4 * gy + ly) (1 * gx + lz)"
proof -
  have zgz: "gz = 0" using assms(3) by simp
  have zlz: "lz = 0" using assms(6) by simp
  have n: "4 * gy + ly \<le> 19" "1 * gx + 0 \<le> 4" using assms by simp_all
  have h: "40 = 2 * (19 + 1 :: nat)" "40 = 8 * (4 + 1 :: nat)" by simp_all
  note w = less_4[THEN window_2[OF n h]]
  have f: "((of_nat gy + of_nat ly :: i32) <s 1) \<longleftrightarrow> \<not> 0 < 4 * gy + ly"
    by (rule first_test; use assms in simp)+
  have t0: "((of_nat gx :: i32) <s 1) \<longleftrightarrow> \<not> 0 < 1 * gx + 0"
    using sless_of_nat[of gx 1] assms by simp
  show ?thesis
    unfolding zgz zlz r_5_5_32_4_128_4_4_3_3n2_def launch_def Let_def vec_simps f t0 for_loop_16 prod.case log2_e_def[symmetric] sigmoid_def[symmetric] silu_def[symmetric]
    by (rule tile_planes, unfold list.map prod.case list.inject prod.inject layer_value.simps reads_simps w taps_def batch_norm_def, intro conjI)
      (simp_all add: arr_def push_bit_eq_mult algebra_simps)
qed

interpretation r_5_5_32_4_128_4_4_3_3n2: spatial_kernel 32 4 1 5 5 1 4 "launch (r_5_5_32_4_128_4_4_3_3n2 exp2 fsqrt x w m g v b)"
    "layer_value exp2 fsqrt (Conv3 2 40 40 0 128) (reads [x, w, m, g, v, b])"
  for exp2 fsqrt x w m g v b
  by unfold_locales (rule r_5_5_32_4_128_4_4_3_3n2_stores; assumption | simp)+

lemma r_5_5_32_4_128_4_4_3_3n2_computes: "computes exp2 fsqrt (r_5_5_32_4_128_4_4_3_3n2_shader exp2 fsqrt) (5, 5, 1) (Conv3 2 40 40 0 128) 128 20 20"
  unfolding r_5_5_32_4_128_4_4_3_3n2_shader_def by (rule computesI, rule r_5_5_32_4_128_4_4_3_3n2.kernel_contract_axioms) (simp, simp only: layer_inputs, simp)

definition r_5_5_32_4_128_4_4_3_3n3 :: "(f32 \<Rightarrow> f32) \<Rightarrow> (f32 \<Rightarrow> f32) \<Rightarrow> f32 buf \<Rightarrow> f32 buf \<Rightarrow> f32 buf \<Rightarrow> f32 buf \<Rightarrow> f32 buf \<Rightarrow> f32 buf \<Rightarrow> vec3 \<Rightarrow> vec3 \<Rightarrow> f32 stores" where
  "r_5_5_32_4_128_4_4_3_3n3 exp2 fsqrt data1 data2 data3 data4 data5 data6 gindex lindex =
    (let gidx0 = vx gindex;
         gidx1 = vy gindex;
         lidx0 = vx lindex;
         lidx1 = vy lindex;
         alu0 = lidx1 * 20;
         alu1 = gidx1 * 80;
         precast0 = gidx0;
         precast1 = push_bit 2 precast0;
         cast0 = precast1;
         alu2 = gidx0 <s 4;
         precast2 = gidx1;
         precast3 = push_bit 2 precast2;
         alu3 = (lidx1 + precast3) <s 19;
         alu4 = \<not> ((gidx1 + lidx1) <s 1);
         alu5 = \<not> (gidx0 <s 1);
         acc0 = (0 :: f32);
         acc1 = (0 :: f32);
         acc2 = (0 :: f32);
         acc3 = (0 :: f32);
         acc4 = (0 :: f32);
         acc5 = (0 :: f32);
         acc6 = (0 :: f32);
         acc7 = (0 :: f32);
         acc8 = (0 :: f32);
         acc9 = (0 :: f32);
         acc10 = (0 :: f32);
         acc11 = (0 :: f32);
         acc12 = (0 :: f32);
         acc13 = (0 :: f32);
         acc14 = (0 :: f32);
         acc15 = (0 :: f32);
         (acc0, acc1, acc2, acc3, acc4, acc5, acc6, acc7,
          acc8, acc9, acc10, acc11, acc12, acc13, acc14, acc15)
          = for_loop 128 (\<lambda>ridx4 (acc0, acc1, acc2, acc3, acc4, acc5, acc6, acc7,
             acc8, acc9, acc10, acc11, acc12, acc13, acc14, acc15).
             let alu6 = lidx0 * 4608 + ridx4 * 9;
                 val0 = rd data2 alu6;
                 val1 = rd data2 (alu6 + 1);
                 val2 = rd data2 (alu6 + 2);
                 val3 = rd data2 (alu6 + 3);
                 val4 = rd data2 (alu6 + 4);
                 val5 = rd data2 (alu6 + 5);
                 val6 = rd data2 (alu6 + 6);
                 val7 = rd data2 (alu6 + 7);
                 val8 = rd data2 (alu6 + 8);
                 val9 = rd data2 (alu6 + 1152);
                 val10 = rd data2 (alu6 + 1153);
                 val11 = rd data2 (alu6 + 1154);
                 val12 = rd data2 (alu6 + 1155);
                 val13 = rd data2 (alu6 + 1156);
                 val14 = rd data2 (alu6 + 1157);
                 val15 = rd data2 (alu6 + 1158);
                 val16 = rd data2 (alu6 + 1159);
                 val17 = rd data2 (alu6 + 1160);
                 val18 = rd data2 (alu6 + 2304);
                 val19 = rd data2 (alu6 + 2305);
                 val20 = rd data2 (alu6 + 2306);
                 val21 = rd data2 (alu6 + 2307);
                 val22 = rd data2 (alu6 + 2308);
                 val23 = rd data2 (alu6 + 2309);
                 val24 = rd data2 (alu6 + 2310);
                 val25 = rd data2 (alu6 + 2311);
                 val26 = rd data2 (alu6 + 2312);
                 val27 = rd data2 (alu6 + 3456);
                 val28 = rd data2 (alu6 + 3457);
                 val29 = rd data2 (alu6 + 3458);
                 val30 = rd data2 (alu6 + 3459);
                 val31 = rd data2 (alu6 + 3460);
                 val32 = rd data2 (alu6 + 3461);
                 val33 = rd data2 (alu6 + 3462);
                 val34 = rd data2 (alu6 + 3463);
                 val35 = rd data2 (alu6 + 3464);
                 alu7 = alu1 + alu0 + ridx4 * 400 + cast0;
                 val36 = rd data1 alu7;
                 val37 = select 0 (rd data1 (alu7 + (- 21))) (alu4 \<and> alu5);
                 val38 = select 0 (rd data1 (alu7 + (- 20))) alu4;
                 val39 = select 0 (rd data1 (alu7 + (- 19))) alu4;
                 val40 = select 0 (rd data1 (alu7 + (- 18))) alu4;
                 val41 = select 0 (rd data1 (alu7 + (- 17))) alu4;
                 val42 = select 0 (rd data1 (alu7 + (- 16))) (alu4 \<and> alu2);
                 val43 = select 0 (rd data1 (alu7 + (- 1))) alu5;
                 val44 = rd data1 (alu7 + 1);
                 val45 = rd data1 (alu7 + 2);
                 val46 = rd data1 (alu7 + 3);
                 val47 = select 0 (rd data1 (alu7 + 4)) alu2;
                 val48 = select 0 (rd data1 (alu7 + 19)) (alu3 \<and> alu5);
                 val49 = select 0 (rd data1 (alu7 + 20)) alu3;
                 val50 = select 0 (rd data1 (alu7 + 21)) alu3;
                 val51 = select 0 (rd data1 (alu7 + 22)) alu3;
                 val52 = select 0 (rd data1 (alu7 + 23)) alu3;
                 val53 = select 0 (rd data1 (alu7 + 24)) (alu3 \<and> alu2);
                 acc0 = acc0 + val37 * val0 + val43 * val3 + val48 * val6 + val38 * val1 + val36 * val4 + val49 * val7 + val39 * val2 + val44 * val5 + val50 * val8;
                 acc1 = acc1 + val37 * val9 + val43 * val12 + val48 * val15 + val38 * val10 + val36 * val13 + val49 * val16 + val39 * val11 + val44 * val14 + val50 * val17;
                 acc2 = acc2 + val37 * val18 + val43 * val21 + val48 * val24 + val38 * val19 + val36 * val22 + val49 * val25 + val39 * val20 + val44 * val23 + val50 * val26;
                 acc3 = acc3 + val37 * val27 + val43 * val30 + val48 * val33 + val38 * val28 + val36 * val31 + val49 * val34 + val39 * val29 + val44 * val32 + val50 * val35;
                 acc4 = acc4 + val38 * val0 + val36 * val3 + val49 * val6 + val39 * val1 + val44 * val4 + val50 * val7 + val40 * val2 + val45 * val5 + val51 * val8;
                 acc5 = acc5 + val38 * val9 + val36 * val12 + val49 * val15 + val39 * val10 + val44 * val13 + val50 * val16 + val40 * val11 + val45 * val14 + val51 * val17;
                 acc6 = acc6 + val38 * val18 + val36 * val21 + val49 * val24 + val39 * val19 + val44 * val22 + val50 * val25 + val40 * val20 + val45 * val23 + val51 * val26;
                 acc7 = acc7 + val38 * val27 + val36 * val30 + val49 * val33 + val39 * val28 + val44 * val31 + val50 * val34 + val40 * val29 + val45 * val32 + val51 * val35;
                 acc8 = acc8 + val39 * val0 + val44 * val3 + val50 * val6 + val40 * val1 + val45 * val4 + val51 * val7 + val41 * val2 + val46 * val5 + val52 * val8;
                 acc9 = acc9 + val39 * val9 + val44 * val12 + val50 * val15 + val40 * val10 + val45 * val13 + val51 * val16 + val41 * val11 + val46 * val14 + val52 * val17;
                 acc10 = acc10 + val39 * val18 + val44 * val21 + val50 * val24 + val40 * val19 + val45 * val22 + val51 * val25 + val41 * val20 + val46 * val23 + val52 * val26;
                 acc11 = acc11 + val39 * val27 + val44 * val30 + val50 * val33 + val40 * val28 + val45 * val31 + val51 * val34 + val41 * val29 + val46 * val32 + val52 * val35;
                 acc12 = acc12 + val40 * val0 + val45 * val3 + val51 * val6 + val41 * val1 + val46 * val4 + val52 * val7 + val42 * val2 + val47 * val5 + val53 * val8;
                 acc13 = acc13 + val40 * val9 + val45 * val12 + val51 * val15 + val41 * val10 + val46 * val13 + val52 * val16 + val42 * val11 + val47 * val14 + val53 * val17;
                 acc14 = acc14 + val40 * val18 + val45 * val21 + val51 * val24 + val41 * val19 + val46 * val22 + val52 * val25 + val42 * val20 + val47 * val23 + val53 * val26;
                 acc15 = acc15 + val40 * val27 + val45 * val30 + val51 * val33 + val41 * val28 + val46 * val31 + val52 * val34 + val42 * val29 + val47 * val32 + val53 * val35
             in (acc0, acc1, acc2, acc3, acc4, acc5, acc6, acc7,
                 acc8, acc9, acc10, acc11, acc12, acc13, acc14, acc15))
             (acc0, acc1, acc2, acc3, acc4, acc5, acc6, acc7,
              acc8, acc9, acc10, acc11, acc12, acc13, acc14, acc15);
         precast4 = lidx0;
         precast5 = push_bit 2 precast4;
         cast1 = precast5;
         val54 = rd data3 cast1;
         val55 = rd data4 cast1;
         val56 = rd data5 cast1;
         val57 = rd data6 cast1;
         alu25 = cast1 + 1;
         val58 = rd data3 alu25;
         val59 = rd data4 alu25;
         val60 = rd data5 alu25;
         val61 = rd data6 alu25;
         alu26 = cast1 + 2;
         val62 = rd data3 alu26;
         val63 = rd data4 alu26;
         val64 = rd data5 alu26;
         val65 = rd data6 alu26;
         alu27 = cast1 + 3;
         val66 = rd data3 alu27;
         val67 = rd data4 alu27;
         val68 = rd data5 alu27;
         val69 = rd data6 alu27;
         alu28 = 1 / (fsqrt (val56 + (lit (1 / 1000))));
         alu29 = 1 / (fsqrt (val60 + (lit (1 / 1000))));
         alu30 = 1 / (fsqrt (val64 + (lit (1 / 1000))));
         alu31 = 1 / (fsqrt (val68 + (lit (1 / 1000))));
         alu32 = cast0 + alu1 + lidx0 * 1600 + alu0;
         alu33 = (acc0 - val54) * val55 * alu28 + val57;
         alu35 = (acc1 - val58) * val59 * alu29 + val61;
         alu37 = (acc2 - val62) * val63 * alu30 + val65;
         alu39 = (acc3 - val66) * val67 * alu31 + val69;
         alu41 = (acc4 - val54) * val55 * alu28 + val57;
         alu43 = (acc5 - val58) * val59 * alu29 + val61;
         alu45 = (acc6 - val62) * val63 * alu30 + val65;
         alu47 = (acc7 - val66) * val67 * alu31 + val69;
         alu49 = (acc8 - val54) * val55 * alu28 + val57;
         alu51 = (acc9 - val58) * val59 * alu29 + val61;
         alu53 = (acc10 - val62) * val63 * alu30 + val65;
         alu55 = (acc11 - val66) * val67 * alu31 + val69;
         alu57 = (acc12 - val54) * val55 * alu28 + val57;
         alu59 = (acc13 - val58) * val59 * alu29 + val61;
         alu61 = (acc14 - val62) * val63 * alu30 + val65;
         alu63 = (acc15 - val66) * val67 * alu31 + val69
     in [(alu32, alu33 * (1 / (1 + (exp2 (alu33 * (- (lit (14426950408889634 / 10000000000000000)))))))),
         (alu32 + 400, alu35 * (1 / (1 + (exp2 (alu35 * (- (lit (14426950408889634 / 10000000000000000)))))))),
         (alu32 + 800, alu37 * (1 / (1 + (exp2 (alu37 * (- (lit (14426950408889634 / 10000000000000000)))))))),
         (alu32 + 1200, alu39 * (1 / (1 + (exp2 (alu39 * (- (lit (14426950408889634 / 10000000000000000)))))))),
         (alu32 + 1, alu41 * (1 / (1 + (exp2 (alu41 * (- (lit (14426950408889634 / 10000000000000000)))))))),
         (alu32 + 401, alu43 * (1 / (1 + (exp2 (alu43 * (- (lit (14426950408889634 / 10000000000000000)))))))),
         (alu32 + 801, alu45 * (1 / (1 + (exp2 (alu45 * (- (lit (14426950408889634 / 10000000000000000)))))))),
         (alu32 + 1201, alu47 * (1 / (1 + (exp2 (alu47 * (- (lit (14426950408889634 / 10000000000000000)))))))),
         (alu32 + 2, alu49 * (1 / (1 + (exp2 (alu49 * (- (lit (14426950408889634 / 10000000000000000)))))))),
         (alu32 + 402, alu51 * (1 / (1 + (exp2 (alu51 * (- (lit (14426950408889634 / 10000000000000000)))))))),
         (alu32 + 802, alu53 * (1 / (1 + (exp2 (alu53 * (- (lit (14426950408889634 / 10000000000000000)))))))),
         (alu32 + 1202, alu55 * (1 / (1 + (exp2 (alu55 * (- (lit (14426950408889634 / 10000000000000000)))))))),
         (alu32 + 3, alu57 * (1 / (1 + (exp2 (alu57 * (- (lit (14426950408889634 / 10000000000000000)))))))),
         (alu32 + 403, alu59 * (1 / (1 + (exp2 (alu59 * (- (lit (14426950408889634 / 10000000000000000)))))))),
         (alu32 + 803, alu61 * (1 / (1 + (exp2 (alu61 * (- (lit (14426950408889634 / 10000000000000000)))))))),
         (alu32 + 1203, alu63 * (1 / (1 + (exp2 (alu63 * (- (lit (14426950408889634 / 10000000000000000))))))))])"

definition r_5_5_32_4_128_4_4_3_3n3_shader :: "(f32 \<Rightarrow> f32) \<Rightarrow> (f32 \<Rightarrow> f32) \<Rightarrow> shader" where
  "r_5_5_32_4_128_4_4_3_3n3_shader exp2 fsqrt = FShader (32, 4, 1) (\<lambda>f i. r_5_5_32_4_128_4_4_3_3n3 exp2 fsqrt (f 1) (f 2) (f 3) (f 4) (f 5) (f 6))"

lemma r_5_5_32_4_128_4_4_3_3n3_stores:
  assumes "gx < 5" "gy < 5" "gz < 1" "lx < 32" "ly < 4" "lz < 1"
  shows "set (launch (r_5_5_32_4_128_4_4_3_3n3 exp2 fsqrt x w m g v b) (gx, gy, gz) (lx, ly, lz)) = tile 4 (4 * 5) (4 * (1 * 5)) (layer_value exp2 fsqrt (Conv3 1 20 20 0 128) (reads [x, w, m, g, v, b])) (32 * gz + lx) (4 * gy + ly) (1 * gx + lz)"
proof -
  have zgz: "gz = 0" using assms(3) by simp
  have zlz: "lz = 0" using assms(6) by simp
  have n: "4 * gy + ly \<le> 19" "1 * gx + 0 \<le> 4" using assms by simp_all
  have h: "20 = 19 + (1 :: nat)" "20 = 4 * (4 + 1 :: nat)" by simp_all
  note w = less_4[THEN window_1[OF n h]]
  have f: "((of_nat gy + of_nat ly :: i32) <s 1) \<longleftrightarrow> \<not> 0 < 4 * gy + ly"
    by (rule first_test; use assms in simp)+
  have t0: "((of_nat gx :: i32) <s 1) \<longleftrightarrow> \<not> 0 < 1 * gx + 0"
    using sless_of_nat[of gx 1] assms by simp
  have t1: "((of_nat gx :: i32) <s 4) \<longleftrightarrow> 1 * gx + 0 < 4"
    using sless_of_nat[of gx 4] assms by simp
  have t2: "((of_nat ly + push_bit 2 (of_nat gy) :: i32) <s 19) \<longleftrightarrow> 4 * gy + ly < 19"
    using last_test[of 2 gy ly 19] assms by simp
  show ?thesis
    unfolding zgz zlz r_5_5_32_4_128_4_4_3_3n3_def launch_def Let_def vec_simps f t0 t1 t2 for_loop_16 prod.case log2_e_def[symmetric] sigmoid_def[symmetric] silu_def[symmetric]
    by (rule tile_planes, unfold list.map prod.case list.inject prod.inject layer_value.simps reads_simps w taps_def batch_norm_def, intro conjI)
      (simp_all add: arr_def push_bit_eq_mult algebra_simps)
qed

interpretation r_5_5_32_4_128_4_4_3_3n3: spatial_kernel 32 4 1 5 5 1 4 "launch (r_5_5_32_4_128_4_4_3_3n3 exp2 fsqrt x w m g v b)"
    "layer_value exp2 fsqrt (Conv3 1 20 20 0 128) (reads [x, w, m, g, v, b])"
  for exp2 fsqrt x w m g v b
  by unfold_locales (rule r_5_5_32_4_128_4_4_3_3n3_stores; assumption | simp)+

lemma r_5_5_32_4_128_4_4_3_3n3_computes: "computes exp2 fsqrt (r_5_5_32_4_128_4_4_3_3n3_shader exp2 fsqrt) (5, 5, 1) (Conv3 1 20 20 0 128) 128 20 20"
  unfolding r_5_5_32_4_128_4_4_3_3n3_shader_def by (rule computesI, rule r_5_5_32_4_128_4_4_3_3n3.kernel_contract_axioms) (simp, simp only: layer_inputs, simp)

definition r_5_5_16_4_256_4_4_3_3 :: "(f32 \<Rightarrow> f32) \<Rightarrow> (f32 \<Rightarrow> f32) \<Rightarrow> f32 buf \<Rightarrow> f32 buf \<Rightarrow> f32 buf \<Rightarrow> f32 buf \<Rightarrow> f32 buf \<Rightarrow> f32 buf \<Rightarrow> vec3 \<Rightarrow> vec3 \<Rightarrow> f32 stores" where
  "r_5_5_16_4_256_4_4_3_3 exp2 fsqrt data1 data2 data3 data4 data5 data6 gindex lindex =
    (let gidx0 = vx gindex;
         gidx1 = vy gindex;
         lidx0 = vx lindex;
         lidx1 = vy lindex;
         alu0 = lidx1 * 20;
         alu1 = gidx1 * 80;
         precast0 = gidx0;
         precast1 = push_bit 2 precast0;
         cast0 = precast1;
         alu2 = gidx0 <s 4;
         precast2 = gidx1;
         precast3 = push_bit 2 precast2;
         alu3 = (lidx1 + precast3) <s 19;
         alu4 = \<not> ((gidx1 + lidx1) <s 1);
         alu5 = \<not> (gidx0 <s 1);
         acc0 = (0 :: f32);
         acc1 = (0 :: f32);
         acc2 = (0 :: f32);
         acc3 = (0 :: f32);
         acc4 = (0 :: f32);
         acc5 = (0 :: f32);
         acc6 = (0 :: f32);
         acc7 = (0 :: f32);
         acc8 = (0 :: f32);
         acc9 = (0 :: f32);
         acc10 = (0 :: f32);
         acc11 = (0 :: f32);
         acc12 = (0 :: f32);
         acc13 = (0 :: f32);
         acc14 = (0 :: f32);
         acc15 = (0 :: f32);
         (acc0, acc1, acc2, acc3, acc4, acc5, acc6, acc7,
          acc8, acc9, acc10, acc11, acc12, acc13, acc14, acc15)
          = for_loop 256 (\<lambda>ridx4 (acc0, acc1, acc2, acc3, acc4, acc5, acc6, acc7,
             acc8, acc9, acc10, acc11, acc12, acc13, acc14, acc15).
             let alu6 = lidx0 * 9216 + ridx4 * 9;
                 val0 = rd data2 alu6;
                 val1 = rd data2 (alu6 + 1);
                 val2 = rd data2 (alu6 + 2);
                 val3 = rd data2 (alu6 + 3);
                 val4 = rd data2 (alu6 + 4);
                 val5 = rd data2 (alu6 + 5);
                 val6 = rd data2 (alu6 + 6);
                 val7 = rd data2 (alu6 + 7);
                 val8 = rd data2 (alu6 + 8);
                 val9 = rd data2 (alu6 + 2304);
                 val10 = rd data2 (alu6 + 2305);
                 val11 = rd data2 (alu6 + 2306);
                 val12 = rd data2 (alu6 + 2307);
                 val13 = rd data2 (alu6 + 2308);
                 val14 = rd data2 (alu6 + 2309);
                 val15 = rd data2 (alu6 + 2310);
                 val16 = rd data2 (alu6 + 2311);
                 val17 = rd data2 (alu6 + 2312);
                 val18 = rd data2 (alu6 + 4608);
                 val19 = rd data2 (alu6 + 4609);
                 val20 = rd data2 (alu6 + 4610);
                 val21 = rd data2 (alu6 + 4611);
                 val22 = rd data2 (alu6 + 4612);
                 val23 = rd data2 (alu6 + 4613);
                 val24 = rd data2 (alu6 + 4614);
                 val25 = rd data2 (alu6 + 4615);
                 val26 = rd data2 (alu6 + 4616);
                 val27 = rd data2 (alu6 + 6912);
                 val28 = rd data2 (alu6 + 6913);
                 val29 = rd data2 (alu6 + 6914);
                 val30 = rd data2 (alu6 + 6915);
                 val31 = rd data2 (alu6 + 6916);
                 val32 = rd data2 (alu6 + 6917);
                 val33 = rd data2 (alu6 + 6918);
                 val34 = rd data2 (alu6 + 6919);
                 val35 = rd data2 (alu6 + 6920);
                 alu7 = alu1 + alu0 + ridx4 * 400 + cast0;
                 val36 = rd data1 alu7;
                 val37 = select 0 (rd data1 (alu7 + (- 21))) (alu4 \<and> alu5);
                 val38 = select 0 (rd data1 (alu7 + (- 20))) alu4;
                 val39 = select 0 (rd data1 (alu7 + (- 19))) alu4;
                 val40 = select 0 (rd data1 (alu7 + (- 18))) alu4;
                 val41 = select 0 (rd data1 (alu7 + (- 17))) alu4;
                 val42 = select 0 (rd data1 (alu7 + (- 16))) (alu4 \<and> alu2);
                 val43 = select 0 (rd data1 (alu7 + (- 1))) alu5;
                 val44 = rd data1 (alu7 + 1);
                 val45 = rd data1 (alu7 + 2);
                 val46 = rd data1 (alu7 + 3);
                 val47 = select 0 (rd data1 (alu7 + 4)) alu2;
                 val48 = select 0 (rd data1 (alu7 + 19)) (alu3 \<and> alu5);
                 val49 = select 0 (rd data1 (alu7 + 20)) alu3;
                 val50 = select 0 (rd data1 (alu7 + 21)) alu3;
                 val51 = select 0 (rd data1 (alu7 + 22)) alu3;
                 val52 = select 0 (rd data1 (alu7 + 23)) alu3;
                 val53 = select 0 (rd data1 (alu7 + 24)) (alu3 \<and> alu2);
                 acc0 = acc0 + val37 * val0 + val43 * val3 + val48 * val6 + val38 * val1 + val36 * val4 + val49 * val7 + val39 * val2 + val44 * val5 + val50 * val8;
                 acc1 = acc1 + val37 * val9 + val43 * val12 + val48 * val15 + val38 * val10 + val36 * val13 + val49 * val16 + val39 * val11 + val44 * val14 + val50 * val17;
                 acc2 = acc2 + val37 * val18 + val43 * val21 + val48 * val24 + val38 * val19 + val36 * val22 + val49 * val25 + val39 * val20 + val44 * val23 + val50 * val26;
                 acc3 = acc3 + val37 * val27 + val43 * val30 + val48 * val33 + val38 * val28 + val36 * val31 + val49 * val34 + val39 * val29 + val44 * val32 + val50 * val35;
                 acc4 = acc4 + val38 * val0 + val36 * val3 + val49 * val6 + val39 * val1 + val44 * val4 + val50 * val7 + val40 * val2 + val45 * val5 + val51 * val8;
                 acc5 = acc5 + val38 * val9 + val36 * val12 + val49 * val15 + val39 * val10 + val44 * val13 + val50 * val16 + val40 * val11 + val45 * val14 + val51 * val17;
                 acc6 = acc6 + val38 * val18 + val36 * val21 + val49 * val24 + val39 * val19 + val44 * val22 + val50 * val25 + val40 * val20 + val45 * val23 + val51 * val26;
                 acc7 = acc7 + val38 * val27 + val36 * val30 + val49 * val33 + val39 * val28 + val44 * val31 + val50 * val34 + val40 * val29 + val45 * val32 + val51 * val35;
                 acc8 = acc8 + val39 * val0 + val44 * val3 + val50 * val6 + val40 * val1 + val45 * val4 + val51 * val7 + val41 * val2 + val46 * val5 + val52 * val8;
                 acc9 = acc9 + val39 * val9 + val44 * val12 + val50 * val15 + val40 * val10 + val45 * val13 + val51 * val16 + val41 * val11 + val46 * val14 + val52 * val17;
                 acc10 = acc10 + val39 * val18 + val44 * val21 + val50 * val24 + val40 * val19 + val45 * val22 + val51 * val25 + val41 * val20 + val46 * val23 + val52 * val26;
                 acc11 = acc11 + val39 * val27 + val44 * val30 + val50 * val33 + val40 * val28 + val45 * val31 + val51 * val34 + val41 * val29 + val46 * val32 + val52 * val35;
                 acc12 = acc12 + val40 * val0 + val45 * val3 + val51 * val6 + val41 * val1 + val46 * val4 + val52 * val7 + val42 * val2 + val47 * val5 + val53 * val8;
                 acc13 = acc13 + val40 * val9 + val45 * val12 + val51 * val15 + val41 * val10 + val46 * val13 + val52 * val16 + val42 * val11 + val47 * val14 + val53 * val17;
                 acc14 = acc14 + val40 * val18 + val45 * val21 + val51 * val24 + val41 * val19 + val46 * val22 + val52 * val25 + val42 * val20 + val47 * val23 + val53 * val26;
                 acc15 = acc15 + val40 * val27 + val45 * val30 + val51 * val33 + val41 * val28 + val46 * val31 + val52 * val34 + val42 * val29 + val47 * val32 + val53 * val35
             in (acc0, acc1, acc2, acc3, acc4, acc5, acc6, acc7,
                 acc8, acc9, acc10, acc11, acc12, acc13, acc14, acc15))
             (acc0, acc1, acc2, acc3, acc4, acc5, acc6, acc7,
              acc8, acc9, acc10, acc11, acc12, acc13, acc14, acc15);
         precast4 = lidx0;
         precast5 = push_bit 2 precast4;
         cast1 = precast5;
         val54 = rd data3 cast1;
         val55 = rd data4 cast1;
         val56 = rd data5 cast1;
         val57 = rd data6 cast1;
         alu25 = cast1 + 1;
         val58 = rd data3 alu25;
         val59 = rd data4 alu25;
         val60 = rd data5 alu25;
         val61 = rd data6 alu25;
         alu26 = cast1 + 2;
         val62 = rd data3 alu26;
         val63 = rd data4 alu26;
         val64 = rd data5 alu26;
         val65 = rd data6 alu26;
         alu27 = cast1 + 3;
         val66 = rd data3 alu27;
         val67 = rd data4 alu27;
         val68 = rd data5 alu27;
         val69 = rd data6 alu27;
         alu28 = 1 / (fsqrt (val56 + (lit (1 / 1000))));
         alu29 = 1 / (fsqrt (val60 + (lit (1 / 1000))));
         alu30 = 1 / (fsqrt (val64 + (lit (1 / 1000))));
         alu31 = 1 / (fsqrt (val68 + (lit (1 / 1000))));
         alu32 = cast0 + alu1 + lidx0 * 1600 + alu0;
         alu33 = (acc0 - val54) * val55 * alu28 + val57;
         alu35 = (acc1 - val58) * val59 * alu29 + val61;
         alu37 = (acc2 - val62) * val63 * alu30 + val65;
         alu39 = (acc3 - val66) * val67 * alu31 + val69;
         alu41 = (acc4 - val54) * val55 * alu28 + val57;
         alu43 = (acc5 - val58) * val59 * alu29 + val61;
         alu45 = (acc6 - val62) * val63 * alu30 + val65;
         alu47 = (acc7 - val66) * val67 * alu31 + val69;
         alu49 = (acc8 - val54) * val55 * alu28 + val57;
         alu51 = (acc9 - val58) * val59 * alu29 + val61;
         alu53 = (acc10 - val62) * val63 * alu30 + val65;
         alu55 = (acc11 - val66) * val67 * alu31 + val69;
         alu57 = (acc12 - val54) * val55 * alu28 + val57;
         alu59 = (acc13 - val58) * val59 * alu29 + val61;
         alu61 = (acc14 - val62) * val63 * alu30 + val65;
         alu63 = (acc15 - val66) * val67 * alu31 + val69
     in [(alu32, alu33 * (1 / (1 + (exp2 (alu33 * (- (lit (14426950408889634 / 10000000000000000)))))))),
         (alu32 + 400, alu35 * (1 / (1 + (exp2 (alu35 * (- (lit (14426950408889634 / 10000000000000000)))))))),
         (alu32 + 800, alu37 * (1 / (1 + (exp2 (alu37 * (- (lit (14426950408889634 / 10000000000000000)))))))),
         (alu32 + 1200, alu39 * (1 / (1 + (exp2 (alu39 * (- (lit (14426950408889634 / 10000000000000000)))))))),
         (alu32 + 1, alu41 * (1 / (1 + (exp2 (alu41 * (- (lit (14426950408889634 / 10000000000000000)))))))),
         (alu32 + 401, alu43 * (1 / (1 + (exp2 (alu43 * (- (lit (14426950408889634 / 10000000000000000)))))))),
         (alu32 + 801, alu45 * (1 / (1 + (exp2 (alu45 * (- (lit (14426950408889634 / 10000000000000000)))))))),
         (alu32 + 1201, alu47 * (1 / (1 + (exp2 (alu47 * (- (lit (14426950408889634 / 10000000000000000)))))))),
         (alu32 + 2, alu49 * (1 / (1 + (exp2 (alu49 * (- (lit (14426950408889634 / 10000000000000000)))))))),
         (alu32 + 402, alu51 * (1 / (1 + (exp2 (alu51 * (- (lit (14426950408889634 / 10000000000000000)))))))),
         (alu32 + 802, alu53 * (1 / (1 + (exp2 (alu53 * (- (lit (14426950408889634 / 10000000000000000)))))))),
         (alu32 + 1202, alu55 * (1 / (1 + (exp2 (alu55 * (- (lit (14426950408889634 / 10000000000000000)))))))),
         (alu32 + 3, alu57 * (1 / (1 + (exp2 (alu57 * (- (lit (14426950408889634 / 10000000000000000)))))))),
         (alu32 + 403, alu59 * (1 / (1 + (exp2 (alu59 * (- (lit (14426950408889634 / 10000000000000000)))))))),
         (alu32 + 803, alu61 * (1 / (1 + (exp2 (alu61 * (- (lit (14426950408889634 / 10000000000000000)))))))),
         (alu32 + 1203, alu63 * (1 / (1 + (exp2 (alu63 * (- (lit (14426950408889634 / 10000000000000000))))))))])"

definition r_5_5_16_4_256_4_4_3_3_shader :: "(f32 \<Rightarrow> f32) \<Rightarrow> (f32 \<Rightarrow> f32) \<Rightarrow> shader" where
  "r_5_5_16_4_256_4_4_3_3_shader exp2 fsqrt = FShader (16, 4, 1) (\<lambda>f i. r_5_5_16_4_256_4_4_3_3 exp2 fsqrt (f 1) (f 2) (f 3) (f 4) (f 5) (f 6))"

lemma r_5_5_16_4_256_4_4_3_3_stores:
  assumes "gx < 5" "gy < 5" "gz < 1" "lx < 16" "ly < 4" "lz < 1"
  shows "set (launch (r_5_5_16_4_256_4_4_3_3 exp2 fsqrt x w m g v b) (gx, gy, gz) (lx, ly, lz)) = tile 4 (4 * 5) (4 * (1 * 5)) (layer_value exp2 fsqrt (Conv3 1 20 20 0 256) (reads [x, w, m, g, v, b])) (16 * gz + lx) (4 * gy + ly) (1 * gx + lz)"
proof -
  have zgz: "gz = 0" using assms(3) by simp
  have zlz: "lz = 0" using assms(6) by simp
  have n: "4 * gy + ly \<le> 19" "1 * gx + 0 \<le> 4" using assms by simp_all
  have h: "20 = 19 + (1 :: nat)" "20 = 4 * (4 + 1 :: nat)" by simp_all
  note w = less_4[THEN window_1[OF n h]]
  have f: "((of_nat gy + of_nat ly :: i32) <s 1) \<longleftrightarrow> \<not> 0 < 4 * gy + ly"
    by (rule first_test; use assms in simp)+
  have t0: "((of_nat gx :: i32) <s 1) \<longleftrightarrow> \<not> 0 < 1 * gx + 0"
    using sless_of_nat[of gx 1] assms by simp
  have t1: "((of_nat gx :: i32) <s 4) \<longleftrightarrow> 1 * gx + 0 < 4"
    using sless_of_nat[of gx 4] assms by simp
  have t2: "((of_nat ly + push_bit 2 (of_nat gy) :: i32) <s 19) \<longleftrightarrow> 4 * gy + ly < 19"
    using last_test[of 2 gy ly 19] assms by simp
  show ?thesis
    unfolding zgz zlz r_5_5_16_4_256_4_4_3_3_def launch_def Let_def vec_simps f t0 t1 t2 for_loop_16 prod.case log2_e_def[symmetric] sigmoid_def[symmetric] silu_def[symmetric]
    by (rule tile_planes, unfold list.map prod.case list.inject prod.inject layer_value.simps reads_simps w taps_def batch_norm_def, intro conjI)
      (simp_all add: arr_def push_bit_eq_mult algebra_simps)
qed

interpretation r_5_5_16_4_256_4_4_3_3: spatial_kernel 16 4 1 5 5 1 4 "launch (r_5_5_16_4_256_4_4_3_3 exp2 fsqrt x w m g v b)"
    "layer_value exp2 fsqrt (Conv3 1 20 20 0 256) (reads [x, w, m, g, v, b])"
  for exp2 fsqrt x w m g v b
  by unfold_locales (rule r_5_5_16_4_256_4_4_3_3_stores; assumption | simp)+

lemma r_5_5_16_4_256_4_4_3_3_computes: "computes exp2 fsqrt (r_5_5_16_4_256_4_4_3_3_shader exp2 fsqrt) (5, 5, 1) (Conv3 1 20 20 0 256) 64 20 20"
  unfolding r_5_5_16_4_256_4_4_3_3_shader_def by (rule computesI, rule r_5_5_16_4_256_4_4_3_3.kernel_contract_axioms) (simp, simp only: layer_inputs, simp)

definition r_5_5_16_4_64_4_4_3_3 :: "(f32 \<Rightarrow> f32) \<Rightarrow> (f32 \<Rightarrow> f32) \<Rightarrow> f32 buf \<Rightarrow> f32 buf \<Rightarrow> f32 buf \<Rightarrow> f32 buf \<Rightarrow> f32 buf \<Rightarrow> f32 buf \<Rightarrow> vec3 \<Rightarrow> vec3 \<Rightarrow> f32 stores" where
  "r_5_5_16_4_64_4_4_3_3 exp2 fsqrt data1 data2 data3 data4 data5 data6 gindex lindex =
    (let gidx0 = vx gindex;
         gidx1 = vy gindex;
         lidx0 = vx lindex;
         lidx1 = vy lindex;
         alu0 = lidx1 * 20;
         alu1 = gidx1 * 80;
         precast0 = gidx0;
         precast1 = push_bit 2 precast0;
         cast0 = precast1;
         alu2 = gidx0 <s 4;
         precast2 = gidx1;
         precast3 = push_bit 2 precast2;
         alu3 = (lidx1 + precast3) <s 19;
         alu4 = \<not> ((gidx1 + lidx1) <s 1);
         alu5 = \<not> (gidx0 <s 1);
         acc0 = (0 :: f32);
         acc1 = (0 :: f32);
         acc2 = (0 :: f32);
         acc3 = (0 :: f32);
         acc4 = (0 :: f32);
         acc5 = (0 :: f32);
         acc6 = (0 :: f32);
         acc7 = (0 :: f32);
         acc8 = (0 :: f32);
         acc9 = (0 :: f32);
         acc10 = (0 :: f32);
         acc11 = (0 :: f32);
         acc12 = (0 :: f32);
         acc13 = (0 :: f32);
         acc14 = (0 :: f32);
         acc15 = (0 :: f32);
         (acc0, acc1, acc2, acc3, acc4, acc5, acc6, acc7,
          acc8, acc9, acc10, acc11, acc12, acc13, acc14, acc15)
          = for_loop 64 (\<lambda>ridx4 (acc0, acc1, acc2, acc3, acc4, acc5, acc6, acc7,
             acc8, acc9, acc10, acc11, acc12, acc13, acc14, acc15).
             let alu6 = lidx0 * 2304 + ridx4 * 9;
                 val0 = rd data2 alu6;
                 val1 = rd data2 (alu6 + 1);
                 val2 = rd data2 (alu6 + 2);
                 val3 = rd data2 (alu6 + 3);
                 val4 = rd data2 (alu6 + 4);
                 val5 = rd data2 (alu6 + 5);
                 val6 = rd data2 (alu6 + 6);
                 val7 = rd data2 (alu6 + 7);
                 val8 = rd data2 (alu6 + 8);
                 val9 = rd data2 (alu6 + 576);
                 val10 = rd data2 (alu6 + 577);
                 val11 = rd data2 (alu6 + 578);
                 val12 = rd data2 (alu6 + 579);
                 val13 = rd data2 (alu6 + 580);
                 val14 = rd data2 (alu6 + 581);
                 val15 = rd data2 (alu6 + 582);
                 val16 = rd data2 (alu6 + 583);
                 val17 = rd data2 (alu6 + 584);
                 val18 = rd data2 (alu6 + 1152);
                 val19 = rd data2 (alu6 + 1153);
                 val20 = rd data2 (alu6 + 1154);
                 val21 = rd data2 (alu6 + 1155);
                 val22 = rd data2 (alu6 + 1156);
                 val23 = rd data2 (alu6 + 1157);
                 val24 = rd data2 (alu6 + 1158);
                 val25 = rd data2 (alu6 + 1159);
                 val26 = rd data2 (alu6 + 1160);
                 val27 = rd data2 (alu6 + 1728);
                 val28 = rd data2 (alu6 + 1729);
                 val29 = rd data2 (alu6 + 1730);
                 val30 = rd data2 (alu6 + 1731);
                 val31 = rd data2 (alu6 + 1732);
                 val32 = rd data2 (alu6 + 1733);
                 val33 = rd data2 (alu6 + 1734);
                 val34 = rd data2 (alu6 + 1735);
                 val35 = rd data2 (alu6 + 1736);
                 alu7 = alu1 + alu0 + ridx4 * 400 + cast0;
                 val36 = rd data1 alu7;
                 val37 = select 0 (rd data1 (alu7 + (- 21))) (alu4 \<and> alu5);
                 val38 = select 0 (rd data1 (alu7 + (- 20))) alu4;
                 val39 = select 0 (rd data1 (alu7 + (- 19))) alu4;
                 val40 = select 0 (rd data1 (alu7 + (- 18))) alu4;
                 val41 = select 0 (rd data1 (alu7 + (- 17))) alu4;
                 val42 = select 0 (rd data1 (alu7 + (- 16))) (alu4 \<and> alu2);
                 val43 = select 0 (rd data1 (alu7 + (- 1))) alu5;
                 val44 = rd data1 (alu7 + 1);
                 val45 = rd data1 (alu7 + 2);
                 val46 = rd data1 (alu7 + 3);
                 val47 = select 0 (rd data1 (alu7 + 4)) alu2;
                 val48 = select 0 (rd data1 (alu7 + 19)) (alu3 \<and> alu5);
                 val49 = select 0 (rd data1 (alu7 + 20)) alu3;
                 val50 = select 0 (rd data1 (alu7 + 21)) alu3;
                 val51 = select 0 (rd data1 (alu7 + 22)) alu3;
                 val52 = select 0 (rd data1 (alu7 + 23)) alu3;
                 val53 = select 0 (rd data1 (alu7 + 24)) (alu3 \<and> alu2);
                 acc0 = acc0 + val37 * val0 + val43 * val3 + val48 * val6 + val38 * val1 + val36 * val4 + val49 * val7 + val39 * val2 + val44 * val5 + val50 * val8;
                 acc1 = acc1 + val37 * val9 + val43 * val12 + val48 * val15 + val38 * val10 + val36 * val13 + val49 * val16 + val39 * val11 + val44 * val14 + val50 * val17;
                 acc2 = acc2 + val37 * val18 + val43 * val21 + val48 * val24 + val38 * val19 + val36 * val22 + val49 * val25 + val39 * val20 + val44 * val23 + val50 * val26;
                 acc3 = acc3 + val37 * val27 + val43 * val30 + val48 * val33 + val38 * val28 + val36 * val31 + val49 * val34 + val39 * val29 + val44 * val32 + val50 * val35;
                 acc4 = acc4 + val38 * val0 + val36 * val3 + val49 * val6 + val39 * val1 + val44 * val4 + val50 * val7 + val40 * val2 + val45 * val5 + val51 * val8;
                 acc5 = acc5 + val38 * val9 + val36 * val12 + val49 * val15 + val39 * val10 + val44 * val13 + val50 * val16 + val40 * val11 + val45 * val14 + val51 * val17;
                 acc6 = acc6 + val38 * val18 + val36 * val21 + val49 * val24 + val39 * val19 + val44 * val22 + val50 * val25 + val40 * val20 + val45 * val23 + val51 * val26;
                 acc7 = acc7 + val38 * val27 + val36 * val30 + val49 * val33 + val39 * val28 + val44 * val31 + val50 * val34 + val40 * val29 + val45 * val32 + val51 * val35;
                 acc8 = acc8 + val39 * val0 + val44 * val3 + val50 * val6 + val40 * val1 + val45 * val4 + val51 * val7 + val41 * val2 + val46 * val5 + val52 * val8;
                 acc9 = acc9 + val39 * val9 + val44 * val12 + val50 * val15 + val40 * val10 + val45 * val13 + val51 * val16 + val41 * val11 + val46 * val14 + val52 * val17;
                 acc10 = acc10 + val39 * val18 + val44 * val21 + val50 * val24 + val40 * val19 + val45 * val22 + val51 * val25 + val41 * val20 + val46 * val23 + val52 * val26;
                 acc11 = acc11 + val39 * val27 + val44 * val30 + val50 * val33 + val40 * val28 + val45 * val31 + val51 * val34 + val41 * val29 + val46 * val32 + val52 * val35;
                 acc12 = acc12 + val40 * val0 + val45 * val3 + val51 * val6 + val41 * val1 + val46 * val4 + val52 * val7 + val42 * val2 + val47 * val5 + val53 * val8;
                 acc13 = acc13 + val40 * val9 + val45 * val12 + val51 * val15 + val41 * val10 + val46 * val13 + val52 * val16 + val42 * val11 + val47 * val14 + val53 * val17;
                 acc14 = acc14 + val40 * val18 + val45 * val21 + val51 * val24 + val41 * val19 + val46 * val22 + val52 * val25 + val42 * val20 + val47 * val23 + val53 * val26;
                 acc15 = acc15 + val40 * val27 + val45 * val30 + val51 * val33 + val41 * val28 + val46 * val31 + val52 * val34 + val42 * val29 + val47 * val32 + val53 * val35
             in (acc0, acc1, acc2, acc3, acc4, acc5, acc6, acc7,
                 acc8, acc9, acc10, acc11, acc12, acc13, acc14, acc15))
             (acc0, acc1, acc2, acc3, acc4, acc5, acc6, acc7,
              acc8, acc9, acc10, acc11, acc12, acc13, acc14, acc15);
         precast4 = lidx0;
         precast5 = push_bit 2 precast4;
         cast1 = precast5;
         val54 = rd data3 cast1;
         val55 = rd data4 cast1;
         val56 = rd data5 cast1;
         val57 = rd data6 cast1;
         alu25 = cast1 + 1;
         val58 = rd data3 alu25;
         val59 = rd data4 alu25;
         val60 = rd data5 alu25;
         val61 = rd data6 alu25;
         alu26 = cast1 + 2;
         val62 = rd data3 alu26;
         val63 = rd data4 alu26;
         val64 = rd data5 alu26;
         val65 = rd data6 alu26;
         alu27 = cast1 + 3;
         val66 = rd data3 alu27;
         val67 = rd data4 alu27;
         val68 = rd data5 alu27;
         val69 = rd data6 alu27;
         alu28 = 1 / (fsqrt (val56 + (lit (1 / 1000))));
         alu29 = 1 / (fsqrt (val60 + (lit (1 / 1000))));
         alu30 = 1 / (fsqrt (val64 + (lit (1 / 1000))));
         alu31 = 1 / (fsqrt (val68 + (lit (1 / 1000))));
         alu32 = cast0 + alu1 + lidx0 * 1600 + alu0;
         alu33 = (acc0 - val54) * val55 * alu28 + val57;
         alu35 = (acc1 - val58) * val59 * alu29 + val61;
         alu37 = (acc2 - val62) * val63 * alu30 + val65;
         alu39 = (acc3 - val66) * val67 * alu31 + val69;
         alu41 = (acc4 - val54) * val55 * alu28 + val57;
         alu43 = (acc5 - val58) * val59 * alu29 + val61;
         alu45 = (acc6 - val62) * val63 * alu30 + val65;
         alu47 = (acc7 - val66) * val67 * alu31 + val69;
         alu49 = (acc8 - val54) * val55 * alu28 + val57;
         alu51 = (acc9 - val58) * val59 * alu29 + val61;
         alu53 = (acc10 - val62) * val63 * alu30 + val65;
         alu55 = (acc11 - val66) * val67 * alu31 + val69;
         alu57 = (acc12 - val54) * val55 * alu28 + val57;
         alu59 = (acc13 - val58) * val59 * alu29 + val61;
         alu61 = (acc14 - val62) * val63 * alu30 + val65;
         alu63 = (acc15 - val66) * val67 * alu31 + val69
     in [(alu32, alu33 * (1 / (1 + (exp2 (alu33 * (- (lit (14426950408889634 / 10000000000000000)))))))),
         (alu32 + 400, alu35 * (1 / (1 + (exp2 (alu35 * (- (lit (14426950408889634 / 10000000000000000)))))))),
         (alu32 + 800, alu37 * (1 / (1 + (exp2 (alu37 * (- (lit (14426950408889634 / 10000000000000000)))))))),
         (alu32 + 1200, alu39 * (1 / (1 + (exp2 (alu39 * (- (lit (14426950408889634 / 10000000000000000)))))))),
         (alu32 + 1, alu41 * (1 / (1 + (exp2 (alu41 * (- (lit (14426950408889634 / 10000000000000000)))))))),
         (alu32 + 401, alu43 * (1 / (1 + (exp2 (alu43 * (- (lit (14426950408889634 / 10000000000000000)))))))),
         (alu32 + 801, alu45 * (1 / (1 + (exp2 (alu45 * (- (lit (14426950408889634 / 10000000000000000)))))))),
         (alu32 + 1201, alu47 * (1 / (1 + (exp2 (alu47 * (- (lit (14426950408889634 / 10000000000000000)))))))),
         (alu32 + 2, alu49 * (1 / (1 + (exp2 (alu49 * (- (lit (14426950408889634 / 10000000000000000)))))))),
         (alu32 + 402, alu51 * (1 / (1 + (exp2 (alu51 * (- (lit (14426950408889634 / 10000000000000000)))))))),
         (alu32 + 802, alu53 * (1 / (1 + (exp2 (alu53 * (- (lit (14426950408889634 / 10000000000000000)))))))),
         (alu32 + 1202, alu55 * (1 / (1 + (exp2 (alu55 * (- (lit (14426950408889634 / 10000000000000000)))))))),
         (alu32 + 3, alu57 * (1 / (1 + (exp2 (alu57 * (- (lit (14426950408889634 / 10000000000000000)))))))),
         (alu32 + 403, alu59 * (1 / (1 + (exp2 (alu59 * (- (lit (14426950408889634 / 10000000000000000)))))))),
         (alu32 + 803, alu61 * (1 / (1 + (exp2 (alu61 * (- (lit (14426950408889634 / 10000000000000000)))))))),
         (alu32 + 1203, alu63 * (1 / (1 + (exp2 (alu63 * (- (lit (14426950408889634 / 10000000000000000))))))))])"

definition r_5_5_16_4_64_4_4_3_3_shader :: "(f32 \<Rightarrow> f32) \<Rightarrow> (f32 \<Rightarrow> f32) \<Rightarrow> shader" where
  "r_5_5_16_4_64_4_4_3_3_shader exp2 fsqrt = FShader (16, 4, 1) (\<lambda>f i. r_5_5_16_4_64_4_4_3_3 exp2 fsqrt (f 1) (f 2) (f 3) (f 4) (f 5) (f 6))"

lemma r_5_5_16_4_64_4_4_3_3_stores:
  assumes "gx < 5" "gy < 5" "gz < 1" "lx < 16" "ly < 4" "lz < 1"
  shows "set (launch (r_5_5_16_4_64_4_4_3_3 exp2 fsqrt x w m g v b) (gx, gy, gz) (lx, ly, lz)) = tile 4 (4 * 5) (4 * (1 * 5)) (layer_value exp2 fsqrt (Conv3 1 20 20 0 64) (reads [x, w, m, g, v, b])) (16 * gz + lx) (4 * gy + ly) (1 * gx + lz)"
proof -
  have zgz: "gz = 0" using assms(3) by simp
  have zlz: "lz = 0" using assms(6) by simp
  have n: "4 * gy + ly \<le> 19" "1 * gx + 0 \<le> 4" using assms by simp_all
  have h: "20 = 19 + (1 :: nat)" "20 = 4 * (4 + 1 :: nat)" by simp_all
  note w = less_4[THEN window_1[OF n h]]
  have f: "((of_nat gy + of_nat ly :: i32) <s 1) \<longleftrightarrow> \<not> 0 < 4 * gy + ly"
    by (rule first_test; use assms in simp)+
  have t0: "((of_nat gx :: i32) <s 1) \<longleftrightarrow> \<not> 0 < 1 * gx + 0"
    using sless_of_nat[of gx 1] assms by simp
  have t1: "((of_nat gx :: i32) <s 4) \<longleftrightarrow> 1 * gx + 0 < 4"
    using sless_of_nat[of gx 4] assms by simp
  have t2: "((of_nat ly + push_bit 2 (of_nat gy) :: i32) <s 19) \<longleftrightarrow> 4 * gy + ly < 19"
    using last_test[of 2 gy ly 19] assms by simp
  show ?thesis
    unfolding zgz zlz r_5_5_16_4_64_4_4_3_3_def launch_def Let_def vec_simps f t0 t1 t2 for_loop_16 prod.case log2_e_def[symmetric] sigmoid_def[symmetric] silu_def[symmetric]
    by (rule tile_planes, unfold list.map prod.case list.inject prod.inject layer_value.simps reads_simps w taps_def batch_norm_def, intro conjI)
      (simp_all add: arr_def push_bit_eq_mult algebra_simps)
qed

interpretation r_5_5_16_4_64_4_4_3_3: spatial_kernel 16 4 1 5 5 1 4 "launch (r_5_5_16_4_64_4_4_3_3 exp2 fsqrt x w m g v b)"
    "layer_value exp2 fsqrt (Conv3 1 20 20 0 64) (reads [x, w, m, g, v, b])"
  for exp2 fsqrt x w m g v b
  by unfold_locales (rule r_5_5_16_4_64_4_4_3_3_stores; assumption | simp)+

lemma r_5_5_16_4_64_4_4_3_3_computes: "computes exp2 fsqrt (r_5_5_16_4_64_4_4_3_3_shader exp2 fsqrt) (5, 5, 1) (Conv3 1 20 20 0 64) 64 20 20"
  unfolding r_5_5_16_4_64_4_4_3_3_shader_def by (rule computesI, rule r_5_5_16_4_64_4_4_3_3.kernel_contract_axioms) (simp, simp only: layer_inputs, simp)

end
