(* ===== verification/LayerPasses.thy ===== *)
theory LayerPasses
  imports Layers
begin

text \<open>
  What a pass that computes a layer does to the buffers: it replaces its first buffer by the layer
  of the others and leaves the rest alone, provided the buffers are as long as the layer's tensors.
\<close>

section \<open>How much of its inputs a layer reads\<close>

text \<open>The inputs of a layer with \<open>N\<close> planes, with the number of elements of each.\<close>

fun input_sizes :: "layer \<Rightarrow> nat \<Rightarrow> (nat \<times> nat) list" where
  "input_sizes (Conv1 S C) N = [(1, S * C), (2, C * N), (3, N), (4, N), (5, N), (6, N)]"
| "input_sizes (Conv1First S C) N = [(1, S * C), (2, C * N), (3, N), (4, N), (5, N), (6, N)]"
| "input_sizes (Linear S C) N = [(1, S * C), (2, C * N), (3, N)]"
| "input_sizes (Conv3 s H W P C) N = [(1, H * W * (P + C)), (2, 9 * C * N), (3, N), (4, N), (5, N), (6, N)]"
| "input_sizes (Residual H W P C Q) N = [(1, H * W * (Q + N)), (2, H * W * (P + C)), (3, 9 * C * N), (4, N), (5, N), (6, N), (7, N)]"
| "input_sizes (Join S ps) N = map (\<lambda>(l, u, d, n). (n, S * (u - d))) ps"
| "input_sizes (Upsample H W K) N = [(1, H div 2 * (W div 2) * K), (2, H * W * (N - K))]"
| "input_sizes (Pool H W) N = [(1, H * W * N)]"

text \<open>The sizes of the layer and of its inputs belong together.\<close>

fun shaped :: "layer \<Rightarrow> nat \<Rightarrow> nat \<Rightarrow> nat \<Rightarrow> bool" where
  "shaped (Conv1 S C) N H W \<longleftrightarrow> H = 1 \<and> W = S"
| "shaped (Conv1First S C) N H W \<longleftrightarrow> H = 1 \<and> W = S \<and> 0 < C"
| "shaped (Linear S C) N H W \<longleftrightarrow> H = 1 \<and> W = S"
| "shaped (Conv3 s H' W' P C) N H W \<longleftrightarrow> True"
| "shaped (Residual H' W' P C Q) N H W \<longleftrightarrow> H = H' \<and> W = W'"
| "shaped (Join S ps) N H W \<longleftrightarrow> H = 1 \<and> W = S \<and> list_all (\<lambda>(l, u, d, n). d \<le> l) ps"
| "shaped (Upsample H' W' K) N H W \<longleftrightarrow> H = H' \<and> W = W' \<and> even H \<and> even W"
| "shaped (Pool H' W') N H W \<longleftrightarrow> H = H' \<and> W = W'"

definition agree :: "(nat \<times> nat) list \<Rightarrow> (nat \<Rightarrow> nat \<Rightarrow> f32) \<Rightarrow> (nat \<Rightarrow> nat \<Rightarrow> f32) \<Rightarrow> bool" where
  "agree cs f g \<longleftrightarrow> list_all (\<lambda>(n, c). \<forall>j<c. f n j = g n j) cs"

lemma plane_position:
  fixes k p S N :: nat
  assumes "k < N" and "p < S"
  shows "S * k + p < S * N"
proof -
  have "S * k + p < S * (k + 1)" using assms(2) by simp
  also have "\<dots> \<le> S * N" by (rule mult_le_mono2) (use assms(1) in simp)
  finally show ?thesis .
qed

lemma cell_position:
  fixes k y z H W N :: nat
  assumes "k < N" and "y < H" and "z < W"
  shows "H * W * k + (W * y + z) < H * W * N"
  by (rule plane_position) (use assms plane_position[of y H z W] in \<open>simp_all add: mult.commute\<close>)

lemma product_cong:
  assumes "agree [(n, S * C), (m, C * N)] f g" and "k < N" and "p < S" and "c < C"
  shows "product S C (f n) (f m) k p c = product S C (g n) (g m) k p c"
  using assms plane_position[of c C p S] plane_position[of k N c C] by (simp add: agree_def product_def)

lemma pointwise_cong:
  assumes "agree [(n, S * C), (m, C * N)] f g" and "k < N" and "p < S"
  shows "pointwise S C (f n) (f m) k p = pointwise S C (g n) (g m) k p"
  unfolding pointwise_def by (rule fold_cong) (simp_all add: product_cong[OF assms])

lemma pointwise_first_cong:
  assumes "agree [(n, S * C), (m, C * N)] f g" and "k < N" and "p < S" and "0 < C"
  shows "pointwise_first S C (f n) (f m) k p = pointwise_first S C (g n) (g m) k p"
  unfolding pointwise_first_def by (rule fold_cong) (simp_all add: product_cong[OF assms(1-3)] assms(4))

lemma pixel_cong:
  assumes "\<And>j. j < H * W * N \<Longrightarrow> x j = x' j" and "c < N"
  shows "pixel H W x c r k = pixel H W x' c r k"
proof (cases "1 \<le> r \<and> r \<le> H \<and> 1 \<le> k \<and> k \<le> W")
  case True
  then have "H * W * c + (W * (r - 1) + (k - 1)) < H * W * N" by (intro cell_position assms(2)) auto
  then show ?thesis using assms(1) by (simp add: pixel_def)
qed (auto simp: pixel_def)

lemma window_cong:
  assumes "agree [(n, H * W * (P + C)), (m, 9 * C * N)] f g" and "k < N"
  shows "window s H W P C (f n) (f m) k y z = window s H W P C (g n) (g m) k y z"
proof -
  have x: "f n j = g n j" if "j < H * W * (P + C)" for j using assms(1) that by (simp add: agree_def)
  have w: "f m (9 * (C * k + c) + (3 * i + j)) = g m (9 * (C * k + c) + (3 * i + j))" if "c < C" "i < 3" "j < 3" for c i j
  proof -
    have "9 * (C * k + c) + (3 * i + j) < 9 * (C * N)"
      by (rule plane_position) (use plane_position[OF assms(2) that(1)] that(2,3) in simp_all)
    then show ?thesis using assms(1) by (simp add: agree_def mult.assoc)
  qed
  have s: "a + pixel H W (f n) (P + c) (s * y + i) (s * z + j) * f m (9 * (C * k + c) + (3 * i + j)) =
      a + pixel H W (g n) (P + c) (s * y + i) (s * z + j) * g m (9 * (C * k + c) + (3 * i + j))" if "c < C" "i < 3" "j < 3" for c i j a
    using w[OF that] pixel_cong[of H W "P + C" "f n" "g n", OF x, of "P + c"] that(1) by simp
  show ?thesis
    unfolding window_def by (intro fold_cong refl ext) (rule s; simp)
qed

lemma norm_cong:
  assumes "agree [(n1, N), (n2, N), (n3, N), (n4, N)] f g" and "k < N"
  shows "batch_norm fsqrt (f n1) (f n2) (f n3) (f n4) k s = batch_norm fsqrt (g n1) (g n2) (g n3) (g n4) k s"
  using assms by (simp add: agree_def batch_norm_def)

lemma part_cong:
  assumes "\<And>j. j < S * (u - d) \<Longrightarrow> f n j = g n j" and "d \<le> l" and "p < S"
  shows "part_value S f k p (l, u, d, n) = part_value S g k p (l, u, d, n)"
  using assms plane_position[of "k - d" "u - d" p S] by (auto simp: part_value_def)

lemma concatenation_cong: "(\<And>q. q \<in> set ps \<Longrightarrow> part_value S f k p q = part_value S g k p q) \<Longrightarrow> concatenation S f ps k p = concatenation S g ps k p"
  by (cases ps) (auto intro!: fold_cong)

lemma margin_cong:
  assumes "\<And>j. j < H * W * N \<Longrightarrow> x j = x' j" and "c < N"
  shows "margin H W x c r k = margin H W x' c r k"
proof (cases "2 \<le> r \<and> r < H + 2 \<and> 2 \<le> k \<and> k < W + 2")
  case True
  then have "H * W * c + (W * (r - 2) + (k - 2)) < H * W * N" by (intro cell_position assms(2)) auto
  then show ?thesis using assms(1) by (simp add: margin_def)
qed (auto simp: margin_def)

lemma agree_Cons: "agree ((n, c) # cs) f g \<longleftrightarrow> (\<forall>j<c. f n j = g n j) \<and> agree cs f g"
  by (simp add: agree_def)

lemma layer_cong:
  assumes "agree (input_sizes l N) f g" and "shaped l N H W" and "k < N" and "y < H" and "z < W"
  shows "layer_value exp2 fsqrt l f k y z = layer_value exp2 fsqrt l g k y z"
proof (cases l)
  case (Conv1 S C)
  then have a: "agree [(1, S * C), (2, C * N)] f g" "agree [(3, N), (4, N), (5, N), (6, N)] f g" "z < S"
    using assms by (simp_all add: agree_def)
  show ?thesis by (simp add: Conv1 pointwise_cong[OF a(1) assms(3) a(3), unfolded One_nat_def] norm_cong[OF a(2) assms(3)])
next
  case (Conv1First S C)
  then have a: "agree [(1, S * C), (2, C * N)] f g" "agree [(3, N), (4, N), (5, N), (6, N)] f g" "z < S" "0 < C"
    using assms by (simp_all add: agree_def)
  show ?thesis
    by (simp add: Conv1First pointwise_first_cong[OF a(1) assms(3) a(3,4), unfolded One_nat_def] norm_cong[OF a(2) assms(3)])
next
  case (Linear S C)
  then have a: "agree [(1, S * C), (2, C * N)] f g" "\<forall>j<N. f 3 j = g 3 j" "z < S"
    using assms by (simp_all add: agree_def)
  show ?thesis using a(2) assms(3) by (simp add: Linear pointwise_cong[OF a(1) assms(3) a(3), unfolded One_nat_def])
next
  case (Conv3 s H' W' P C)
  then have a: "agree [(1, H' * W' * (P + C)), (2, 9 * C * N)] f g" "agree [(3, N), (4, N), (5, N), (6, N)] f g"
    using assms(1) by (simp_all add: agree_def)
  show ?thesis by (simp add: Conv3 window_cong[OF a(1) assms(3), unfolded One_nat_def] norm_cong[OF a(2) assms(3)])
next
  case (Residual H' W' P C Q)
  then have a: "\<forall>j < H * W * (Q + N). f 1 j = g 1 j" "agree [(2, H' * W' * (P + C)), (3, 9 * C * N)] f g"
      "agree [(4, N), (5, N), (6, N), (7, N)] f g" "H' = H" "W' = W"
    using assms(1,2) by (simp_all add: agree_def)
  have "H * W * (Q + k) + (W * y + z) < H * W * (Q + N)" by (rule cell_position) (use assms in simp_all)
  then show ?thesis using a(1) by (simp add: Residual a(4,5) window_cong[OF a(2)[unfolded a(4,5)] assms(3)] norm_cong[OF a(3) assms(3)])
next
  case (Join S ps)
  have "part_value S f k z q = part_value S g k z q" if "q \<in> set ps" for q
  proof -
    obtain l' u d n where q: "q = (l', u, d, n)" by (cases q)
    have "\<forall>e \<in> set ps. case (case e of (l, u, d, n) \<Rightarrow> (n, S * (u - d))) of (n, c) \<Rightarrow> \<forall>j<c. f n j = g n j"
      using assms(1) by (simp add: Join agree_def list_all_iff)
    from bspec[OF this that] have "\<forall>j<S * (u - d). f n j = g n j" by (simp add: q)
    moreover have "\<forall>e \<in> set ps. case e of (l, u, d, n) \<Rightarrow> d \<le> l" "z < S"
      using assms(2,5) by (simp_all add: Join list_all_iff)
    from bspec[OF this(1) that] this(2) have "d \<le> l'" "z < S" by (simp_all add: q)
    ultimately show ?thesis unfolding q by (intro part_cong) auto
  qed
  then have "concatenation S f ps k z = concatenation S g ps k z" by (rule concatenation_cong)
  then show ?thesis by (simp add: Join)
next
  case (Upsample H' W' K)
  then have a: "\<forall>j < H div 2 * (W div 2) * K. f 1 j = g 1 j" "\<forall>j < H * W * (N - K). f 2 j = g 2 j" "H' = H" "W' = W" "even H" "even W"
    using assms(1,2) by (auto simp: agree_def)
  have "H div 2 * (W div 2) * k + (W div 2 * (y div 2) + z div 2) < H div 2 * (W div 2) * K" if "k < K"
    by (rule cell_position) (use assms(4,5) a(5,6) that in \<open>auto elim!: evenE\<close>)
  moreover have "H * W * (k - K) + (W * y + z) < H * W * (N - K)" if "\<not> k < K"
    by (rule cell_position) (use assms(3-5) that in auto)
  ultimately show ?thesis using a(1,2) by (simp add: Upsample a(3,4) upsample_def)
next
  case (Pool H' W')
  then have a: "\<And>j. j < H * W * N \<Longrightarrow> f 1 j = g 1 j" "H' = H" "W' = W" using assms(1,2) by (simp_all add: agree_def)
  show ?thesis by (simp add: Pool a(2,3) pool_def margin_cong[OF a(1) assms(3), unfolded One_nat_def])
qed

section \<open>Passes\<close>

text \<open>The bound buffers are as long as the layer needs them; a position in them is a number of the shader.\<close>

definition fits :: "(bufname \<Rightarrow> f32 list) \<Rightarrow> layer \<Rightarrow> nat \<Rightarrow> nat \<Rightarrow> nat \<Rightarrow> bufname list \<Rightarrow> bool" where
  "fits m l N H W bs \<longleftrightarrow> shaped l N H W \<and> length (m (bs ! 0)) = H * W * N \<and>
     list_all (\<lambda>(n, c). c \<le> length (m (bs ! n)) \<and> length (m (bs ! n)) \<le> 2 ^ 31) (input_sizes l N)"

text \<open>The new contents of the first buffer.\<close>

definition layer_list :: "(f32 \<Rightarrow> f32) \<Rightarrow> (f32 \<Rightarrow> f32) \<Rightarrow> (bufname \<Rightarrow> f32 list) \<Rightarrow> layer \<Rightarrow> nat \<Rightarrow> nat \<Rightarrow> nat \<Rightarrow> bufname list \<Rightarrow> f32 list" where
  "layer_list exp2 fsqrt m l N H W bs = map (tensor_at H W (layer_value exp2 fsqrt l (\<lambda>n. elem (m (bs ! n))))) [0..<H * W * N]"

theorem layer_pass:
  assumes "computes exp2 fsqrt s G l N H W" and "addComputePass s bs G D D'" and "fits (fmem D) l N H W bs"
  shows "D' = D\<lparr>fmem := (fmem D)(bs ! 0 := layer_list exp2 fsqrt (fmem D) l N H W bs)\<rparr>"
proof -
  obtain L code where s: "s = FShader L code"
    and c: "\<And>f i. kernel_contract G L (launch (code f i)) (H * W * N) (tensor_at H W (layer_value exp2 fsqrt l (\<lambda>n. arr (f n))))"
    using assms(1) by (auto simp: computes_def)
  have ok: "shaped l N H W" "length (fmem D (bs ! 0)) = H * W * N"
    "list_all (\<lambda>(n, c). c \<le> length (fmem D (bs ! n)) \<and> length (fmem D (bs ! n)) \<le> 2 ^ 31) (input_sizes l N)"
    using assms(3) by (simp_all add: fits_def)
  show ?thesis
    unfolding layer_list_def
  proof (rule f32_effect[OF assms(2)[unfolded s] ok(2)])
    show "kernel_contract G L (launch (code (views (fmem D) v bs) (views (imem D) w bs))) (H * W * N)
      (tensor_at H W (layer_value exp2 fsqrt l (\<lambda>n. arr (views (fmem D) v bs n))))" for v and w :: "nat \<Rightarrow> i32 \<Rightarrow> i32"
      by (rule c)
  next
    fix v :: "nat \<Rightarrow> i32 \<Rightarrow> f32" and w :: "nat \<Rightarrow> i32 \<Rightarrow> i32" and j
    assume j: "j < H * W * N"
    then have p: "0 < H" "0 < W" by (auto intro!: Nat.gr0I)
    have "j div (H * W) < N" using j by (simp add: less_mult_imp_div_less mult.commute)
    moreover have "j mod (H * W) div W < H" using p by (simp add: less_mult_imp_div_less)
    moreover have "j mod W < W" using p by simp
    moreover have "agree (input_sizes l N) (\<lambda>n. arr (views (fmem D) v bs n)) (\<lambda>n. elem (fmem D (bs ! n)))"
      using ok(3) unfolding agree_def by (rule list.pred_mono_strong) (auto intro!: arr_elem)
    ultimately show "tensor_at H W (layer_value exp2 fsqrt l (\<lambda>n. arr (views (fmem D) v bs n))) j =
        tensor_at H W (layer_value exp2 fsqrt l (\<lambda>n. elem (fmem D (bs ! n)))) j"
      unfolding tensor_at_def using layer_cong ok(1) by blast
  qed
qed

section \<open>Networks\<close>

text \<open>A layer with its planes, rows and columns and the buffers it is bound to, the result first.\<close>

type_synonym node = "layer \<times> nat \<times> nat \<times> nat \<times> bufname list"

fun run_layer :: "(f32 \<Rightarrow> f32) \<Rightarrow> (f32 \<Rightarrow> f32) \<Rightarrow> node \<Rightarrow> (bufname \<Rightarrow> f32 list) \<Rightarrow> bufname \<Rightarrow> f32 list" where
  "run_layer exp2 fsqrt (l, N, H, W, bs) m = m(bs ! 0 := layer_list exp2 fsqrt m l N H W bs)"

definition run_network :: "(f32 \<Rightarrow> f32) \<Rightarrow> (f32 \<Rightarrow> f32) \<Rightarrow> node list \<Rightarrow> (bufname \<Rightarrow> f32 list) \<Rightarrow> bufname \<Rightarrow> f32 list" where
  "run_network exp2 fsqrt net m = fold (run_layer exp2 fsqrt) net m"

text \<open>A list of passes that computes a network on buffers with the sizes the table \<open>z\<close> gives, in elements.\<close>

definition node_fits :: "(bufname \<Rightarrow> nat) \<Rightarrow> node \<Rightarrow> bool" where
  "node_fits z p = (case p of (l, N, H, W, bs) \<Rightarrow> shaped l N H W \<and> z (bs ! 0) = H * W * N \<and>
     list_all (\<lambda>(n, c). c \<le> z (bs ! n) \<and> z (bs ! n) \<le> 2 ^ 31) (input_sizes l N))"

definition implements :: "(f32 \<Rightarrow> f32) \<Rightarrow> (f32 \<Rightarrow> f32) \<Rightarrow> pass \<Rightarrow> node \<Rightarrow> bool" where
  "implements exp2 fsqrt p q = (case p of (s, bs, G) \<Rightarrow> case q of (l, N, H, W, cs) \<Rightarrow> bs = cs \<and> computes exp2 fsqrt s G l N H W)"

text \<open>The buffers a node touches.\<close>

definition touched :: "node \<Rightarrow> bufname set" where
  "touched p = (case p of (l, N, H, W, bs) \<Rightarrow> (\<lambda>n. bs ! n) ` ({0} \<union> fst ` set (input_sizes l N)))"

lemma run_network_refines:
  assumes "runs ps D D'" and "list_all2 (implements exp2 fsqrt) ps net"
    and "list_all (\<lambda>p. node_fits z p \<and> (\<forall>b\<in>touched p. length (fmem D b) = z b)) net"
  shows "D' = D\<lparr>fmem := run_network exp2 fsqrt net (fmem D)\<rparr>"
  using assms
proof (induction ps D D' arbitrary: net rule: runs.induct)
  case (no_pass D)
  then show ?case by (simp add: run_network_def)
next
  case (pass s bs G D E ps D')
  obtain q net' where net: "net = q # net'" using pass.prems(1) by (cases net) auto
  obtain l N H W cs where q: "q = (l, N, H, W, cs)" by (cases q)
  have i: "cs = bs" "computes exp2 fsqrt s G l N H W" using pass.prems(1) by (auto simp: net q implements_def)
  have "fits (fmem D) l N H W bs"
    using pass.prems(2) unfolding fits_def by (force simp: net q node_fits_def touched_def i(1) list_all_iff)
  from layer_pass[OF i(2) pass.hyps(1) this]
  have E: "E = D\<lparr>fmem := run_layer exp2 fsqrt q (fmem D)\<rparr>" by (simp add: q i(1))
  have "D' = E\<lparr>fmem := run_network exp2 fsqrt net' (fmem E)\<rparr>"
  proof (rule pass.IH)
    show "list_all2 (implements exp2 fsqrt) ps net'" using pass.prems(1) by (simp add: net)
    show "list_all (\<lambda>p. node_fits z p \<and> (\<forall>b\<in>touched p. length (fmem E b) = z b)) net'"
      using pass.prems(2) addComputePass_lengths[OF pass.hyps(1)] by (simp add: net list_all_iff)
  qed
  then show ?case unfolding E net by (simp add: run_network_def)
qed

text \<open>What the network does not touch has no influence on it.\<close>

lemma run_layer_agree:
  assumes "\<And>b. b \<in> A \<Longrightarrow> m b = m' b" and "touched p \<subseteq> A" and "b \<in> A"
    and "case p of (l, N, H, W, bs) \<Rightarrow> shaped l N H W"
  shows "run_layer exp2 fsqrt p m b = run_layer exp2 fsqrt p m' b"
proof -
  obtain l N H W bs where p: "p = (l, N, H, W, bs)" by (cases p)
  have "tensor_at H W (layer_value exp2 fsqrt l (\<lambda>n. elem (m (bs ! n)))) j =
      tensor_at H W (layer_value exp2 fsqrt l (\<lambda>n. elem (m' (bs ! n)))) j" if j: "j < H * W * N" for j
  proof -
    have q: "0 < H" "0 < W" using j by (auto intro!: Nat.gr0I)
    have "j div (H * W) < N" using j by (simp add: less_mult_imp_div_less mult.commute)
    moreover have "j mod (H * W) div W < H" using q by (simp add: less_mult_imp_div_less)
    moreover have "j mod W < W" using q by simp
    moreover have "m (bs ! n) = m' (bs ! n)" if "(n, c) \<in> set (input_sizes l N)" for n c
      using assms(1,2) that by (force simp: p touched_def)
    then have "agree (input_sizes l N) (\<lambda>n. elem (m (bs ! n))) (\<lambda>n. elem (m' (bs ! n)))"
      by (auto simp: agree_def list_all_iff)
    ultimately show ?thesis unfolding tensor_at_def using layer_cong assms(4) by (auto simp: p)
  qed
  then show ?thesis using assms(1,3) by (simp add: p layer_list_def)
qed

lemma run_network_agree:
  assumes "\<And>b. b \<in> A \<Longrightarrow> m b = m' b" and "list_all (\<lambda>p. touched p \<subseteq> A \<and> node_fits z p) net" and "b \<in> A"
  shows "run_network exp2 fsqrt net m b = run_network exp2 fsqrt net m' b"
  using assms
proof (induction net arbitrary: m m')
  case (Cons p net)
  have "run_layer exp2 fsqrt p m c = run_layer exp2 fsqrt p m' c" if "c \<in> A" for c
    by (rule run_layer_agree[where A = A]) (use Cons.prems that in \<open>auto simp: node_fits_def\<close>)
  from Cons.IH[OF this] Cons.prems(2,3) show ?case by (simp add: run_network_def)
qed (simp add: run_network_def)

end
