(* ===== verification/Bitonic.thy ===== *)
theory Bitonic
  imports Prelude
begin

text \<open>
  The bitonic sorting network in the shape the detector's sort kernels have: a stage reverses
  every odd block, halves all blocks with compare-exchange steps of decreasing distance, and
  reverses the odd blocks back. Correctness is proved through thresholds: a step that takes
  maxima and minima acts on the truth values "above \<open>t\<close>" as disjunction and conjunction,
  so it is enough to sort truth values.
\<close>

section \<open>The network\<close>

definition hc :: "('a \<Rightarrow> 'a \<Rightarrow> 'a) \<Rightarrow> ('a \<Rightarrow> 'a \<Rightarrow> 'a) \<Rightarrow> nat \<Rightarrow> (nat \<Rightarrow> 'a) \<Rightarrow> nat \<Rightarrow> 'a" where
  "hc hi lo d s i = (if even (i div d) then hi (s i) (s (i + d)) else lo (s (i - d)) (s i))"

definition flip :: "nat \<Rightarrow> (nat \<Rightarrow> 'a) \<Rightarrow> nat \<Rightarrow> 'a" where
  "flip b s i = (if even (i div b) then s i else s (i div b * b + (b - 1 - i mod b)))"

primrec halve :: "('a \<Rightarrow> 'a \<Rightarrow> 'a) \<Rightarrow> ('a \<Rightarrow> 'a \<Rightarrow> 'a) \<Rightarrow> nat \<Rightarrow> (nat \<Rightarrow> 'a) \<Rightarrow> nat \<Rightarrow> 'a" where
  "halve hi lo 0 s = s"
| "halve hi lo (Suc k) s = halve hi lo k (hc hi lo (2 ^ k) s)"

definition stage :: "('a \<Rightarrow> 'a \<Rightarrow> 'a) \<Rightarrow> ('a \<Rightarrow> 'a \<Rightarrow> 'a) \<Rightarrow> nat \<Rightarrow> (nat \<Rightarrow> 'a) \<Rightarrow> nat \<Rightarrow> 'a" where
  "stage hi lo k s = flip (2 ^ k) (halve hi lo k (flip (2 ^ k) s))"

primrec network :: "('a \<Rightarrow> 'a \<Rightarrow> 'a) \<Rightarrow> ('a \<Rightarrow> 'a \<Rightarrow> 'a) \<Rightarrow> nat \<Rightarrow> (nat \<Rightarrow> 'a) \<Rightarrow> nat \<Rightarrow> 'a" where
  "network hi lo 0 s = s"
| "network hi lo (Suc k) s = stage hi lo (Suc k) (network hi lo k s)"

section \<open>Aligned blocks\<close>

text \<open>The block of size \<open>w\<close> with number \<open>m\<close>.\<close>

definition block :: "nat \<Rightarrow> nat \<Rightarrow> nat set" where
  "block w m = {m * w ..< m * w + w}"

lemma in_block_iff: "0 < w \<Longrightarrow> i \<in> block w m \<longleftrightarrow> i div w = m"
proof
  assume w: "0 < w" and "i \<in> block w m"
  then have "m * w \<le> i" "i < (m + 1) * w" by (auto simp: block_def)
  then show "i div w = m" using w by (metis Suc_eq_plus1 div_nat_eqI mult.commute)
next
  assume w: "0 < w" and "i div w = m"
  then show "i \<in> block w m"
    using div_mult_mod_eq[of i w] mod_less_divisor[OF w, of i] by (auto simp: block_def)
qed

lemma block_split: "block (2 * h) m = block h (2 * m) \<union> block h (2 * m + 1)"
  by (auto simp: block_def algebra_simps)

lemma block_self: "0 < w \<Longrightarrow> i \<in> block w (i div w)"
  by (simp add: in_block_iff)

section \<open>Sorting truth values\<close>

abbreviation hcb :: "nat \<Rightarrow> (nat \<Rightarrow> bool) \<Rightarrow> nat \<Rightarrow> bool" where
  "hcb \<equiv> hc (\<or>) (\<and>)"

definition falling :: "nat set \<Rightarrow> (nat \<Rightarrow> bool) \<Rightarrow> bool" where
  "falling A f \<longleftrightarrow> (\<forall>i\<in>A. \<forall>j\<in>A. i \<le> j \<longrightarrow> f j \<longrightarrow> f i)"

definition rising :: "nat set \<Rightarrow> (nat \<Rightarrow> bool) \<Rightarrow> bool" where
  "rising A f \<longleftrightarrow> (\<forall>i\<in>A. \<forall>j\<in>A. i \<le> j \<longrightarrow> f i \<longrightarrow> f j)"

lemma falling_subset: "falling A f \<Longrightarrow> B \<subseteq> A \<Longrightarrow> falling B f"
  unfolding falling_def by blast

text \<open>Cyclically monotone on a block: one run of a truth value between runs of the other.\<close>

definition bitonic :: "nat \<Rightarrow> nat \<Rightarrow> (nat \<Rightarrow> bool) \<Rightarrow> bool" where
  "bitonic w m f \<longleftrightarrow> (\<exists>p q c. m * w \<le> p \<and> p \<le> q \<and> q \<le> m * w + w \<and>
     (\<forall>i\<in>block w m. f i = (c \<noteq> (p \<le> i \<and> i < q))))"

lemma bitonicI:
  assumes "a = m * w" and "a \<le> p" and "p \<le> q" and "q \<le> a + w"
    and "\<And>i. a \<le> i \<Longrightarrow> i < a + w \<Longrightarrow> f i = (c \<noteq> (p \<le> i \<and> i < q))"
  shows "bitonic w m f"
  unfolding bitonic_def block_def using assms by (intro exI[of _ p] exI[of _ q] exI[of _ c]) auto

lemma hcb_upper: "0 < h \<Longrightarrow> i \<in> block h (2 * m) \<Longrightarrow> hcb h f i = (f i \<or> f (i + h))"
  by (simp add: in_block_iff hc_def)

lemma hcb_lower: "0 < h \<Longrightarrow> i \<in> block h (2 * m) \<Longrightarrow> hcb h f (i + h) = (f i \<and> f (i + h))"
  by (simp add: in_block_iff hc_def)

text \<open>
  One halving step on a bitonic block: one half becomes constant, the other stays bitonic, and
  the upper half dominates the lower one.
\<close>

lemma interval_halves:
  fixes a h p q :: nat
  assumes "a \<le> p" and "p \<le> q" and "q \<le> a + 2 * h"
  shows "(\<forall>i. a \<le> i \<and> i < a + h \<longrightarrow> (p \<le> i \<and> i < q) \<or> (p \<le> i + h \<and> i + h < q)) \<and>
      (\<exists>p' q'. a \<le> p' \<and> p' \<le> q' \<and> q' \<le> a + h \<and> (\<forall>i. a \<le> i \<and> i < a + h \<longrightarrow>
        ((p \<le> i \<and> i < q) \<and> (p \<le> i + h \<and> i + h < q)) = (p' \<le> i \<and> i < q')))
    \<or> (\<forall>i. a \<le> i \<and> i < a + h \<longrightarrow> \<not> ((p \<le> i \<and> i < q) \<and> (p \<le> i + h \<and> i + h < q))) \<and>
      (\<exists>p' q' c. a \<le> p' \<and> p' \<le> q' \<and> q' \<le> a + h \<and> (\<forall>i. a \<le> i \<and> i < a + h \<longrightarrow>
        ((p \<le> i \<and> i < q) \<or> (p \<le> i + h \<and> i + h < q)) = (c \<noteq> (p' \<le> i \<and> i < q'))))"
proof -
  consider "h \<le> q - p" | "q - p < h" "q \<le> a + h" | "q - p < h" "a + h \<le> p"
    | "q - p < h" "p < a + h" "a + h < q" by linarith
  then show ?thesis
  proof cases
    case 1
    show ?thesis
    proof (cases "p \<le> a + h")
      case True
      then show ?thesis using 1 assms
        by (intro disjI1 conjI exI[of _ p] exI[of _ "max p (q - h)"]) (auto simp: max_def)
    next
      case False
      then show ?thesis using 1 assms
        by (intro disjI1 conjI exI[of _ a]) auto
    qed
  next
    case 2
    then show ?thesis using assms
      by (intro disjI2 conjI exI[of _ p] exI[of _ q] exI[of _ False]) auto
  next
    case 3
    then show ?thesis using assms
      by (intro disjI2 conjI exI[of _ "p - h"] exI[of _ "q - h"] exI[of _ False]) auto
  next
    case 4
    then show ?thesis using assms
      by (intro disjI2 conjI exI[of _ "q - h"] exI[of _ p] exI[of _ True]) auto
  qed
qed

lemma hcb_bitonic:
  assumes h: "0 < h" and bit: "bitonic (2 * h) m f"
  shows "bitonic h (2 * m) (hcb h f)" and "bitonic h (2 * m + 1) (hcb h f)"
    and "(\<forall>i\<in>block h (2 * m). hcb h f i) \<or> (\<forall>j\<in>block h (2 * m + 1). \<not> hcb h f j)"
proof -
  define a where "a = m * (2 * h)"
  obtain p q c where pq: "a \<le> p" "p \<le> q" "q \<le> a + 2 * h"
    and f: "\<And>i. a \<le> i \<Longrightarrow> i < a + 2 * h \<Longrightarrow> f i = (c \<noteq> (p \<le> i \<and> i < q))"
    using bit by (auto simp: bitonic_def block_def a_def)
  have up: "hcb h f i = (f i \<or> f (i + h))" if "a \<le> i" "i < a + h" for i
    using that hcb_upper[OF h, of i m f] by (simp add: block_def a_def algebra_simps)
  have low: "hcb h f i = (f (i - h) \<and> f i)" if "a + h \<le> i" "i < a + h + h" for i
  proof -
    have "i - h \<in> block h (2 * m)" using that by (simp add: block_def a_def) linarith
    then show ?thesis using hcb_lower[OF h, of "i - h" m f] that by simp
  qed
  let ?in = "\<lambda>i. p \<le> i \<and> i < q"
  have upc: "hcb h f i = (if c then \<not> (?in i \<and> ?in (i + h)) else ?in i \<or> ?in (i + h))"
    if "a \<le> i" "i < a + h" for i using up[OF that] f[of i] f[of "i + h"] that by auto
  have lowc: "hcb h f i = (if c then \<not> (?in (i - h) \<or> ?in (i - h + h)) else ?in (i - h) \<and> ?in (i - h + h))"
    if "a + h \<le> i" "i < a + h + h" for i using low[OF that] f[of "i - h"] f[of i] that by auto
  have e: "a = (2 * m) * h" "a + h = (2 * m + 1) * h" by (simp_all add: a_def)
  have const: "bitonic h n g" if "\<And>i. i \<in> block h n \<Longrightarrow> g i = b" for n g b
    by (rule bitonicI[of "n * h" n h "n * h" "n * h" _ b]) (use that in \<open>auto simp: block_def\<close>)
  have shift: "bitonic h (2 * m + 1) g"
    if "a \<le> p'" "p' \<le> q'" "q' \<le> a + h"
      and "\<And>i. a \<le> i \<Longrightarrow> i < a + h \<Longrightarrow> g (i + h) = (d \<noteq> (p' \<le> i \<and> i < q'))" for g p' q' d
  proof (rule bitonicI[OF e(2), of "p' + h" "q' + h" g d])
    fix i assume "a + h \<le> i" "i < a + h + h"
    then show "g i = (d \<noteq> (p' + h \<le> i \<and> i < q' + h))" using that(4)[of "i - h"] by auto
  qed (use that in auto)
  have "bitonic h (2 * m) (hcb h f) \<and> bitonic h (2 * m + 1) (hcb h f) \<and>
      ((\<forall>i\<in>block h (2 * m). hcb h f i) \<or> (\<forall>j\<in>block h (2 * m + 1). \<not> hcb h f j))"
    using interval_halves[OF pq]
  proof (elim disjE conjE exE)
    fix p' q'
    assume all: "\<forall>i. a \<le> i \<and> i < a + h \<longrightarrow> ?in i \<or> ?in (i + h)" and r: "a \<le> p'" "p' \<le> q'" "q' \<le> a + h"
      and eq: "\<forall>i. a \<le> i \<and> i < a + h \<longrightarrow> (?in i \<and> ?in (i + h)) = (p' \<le> i \<and> i < q')"
    show ?thesis
    proof (cases c)
      case True
      have no: "\<not> hcb h f i" if "i \<in> block h (2 * m + 1)" for i
      proof -
        have "a + h \<le> i" "i < a + h + h" using that e(2) by (auto simp: block_def)
        moreover from this have "a \<le> i - h" "i - h < a + h" by linarith+
        ultimately show ?thesis using lowc[of i] all[rule_format, of "i - h"] True by auto
      qed
      have "bitonic h (2 * m) (hcb h f)"
        by (rule bitonicI[OF e(1) r, of _ True]) (use upc eq True in auto)
      then show ?thesis using no const[of "2 * m + 1" "hcb h f" False] by blast
    next
      case False
      have yes: "hcb h f i" if "i \<in> block h (2 * m)" for i
        using that upc[of i] all False e(1) by (auto simp: block_def)
      have "bitonic h (2 * m + 1) (hcb h f)"
        by (rule shift[OF r, of _ False]) (use lowc eq False in auto)
      then show ?thesis using yes const[of "2 * m" "hcb h f" True] by blast
    qed
  next
    fix p' q' d
    assume all: "\<forall>i. a \<le> i \<and> i < a + h \<longrightarrow> \<not> (?in i \<and> ?in (i + h))" and r: "a \<le> p'" "p' \<le> q'" "q' \<le> a + h"
      and eq: "\<forall>i. a \<le> i \<and> i < a + h \<longrightarrow> (?in i \<or> ?in (i + h)) = (d \<noteq> (p' \<le> i \<and> i < q'))"
    show ?thesis
    proof (cases c)
      case True
      have yes: "hcb h f i" if "i \<in> block h (2 * m)" for i
        using that upc[of i] all True e(1) by (auto simp: block_def)
      have "bitonic h (2 * m + 1) (hcb h f)"
        by (rule shift[OF r, of _ "\<not> d"]) (use lowc eq True in auto)
      then show ?thesis using yes const[of "2 * m" "hcb h f" True] by blast
    next
      case False
      have no: "\<not> hcb h f i" if "i \<in> block h (2 * m + 1)" for i
      proof -
        have "a + h \<le> i" "i < a + h + h" using that e(2) by (auto simp: block_def)
        moreover from this have "a \<le> i - h" "i - h < a + h" by linarith+
        ultimately show ?thesis using lowc[of i] all[rule_format, of "i - h"] False by auto
      qed
      have "bitonic h (2 * m) (hcb h f)"
        by (rule bitonicI[OF e(1) r, of _ d]) (use upc eq False in auto)
      then show ?thesis using no const[of "2 * m + 1" "hcb h f" False] by blast
    qed
  qed
  then show "bitonic h (2 * m) (hcb h f)" and "bitonic h (2 * m + 1) (hcb h f)"
    and "(\<forall>i\<in>block h (2 * m). hcb h f i) \<or> (\<forall>j\<in>block h (2 * m + 1). \<not> hcb h f j)" by blast+
qed

section \<open>Halving a bitonic block sorts it\<close>

lemma hcb_const:
  assumes "0 < h" and "\<And>i. i \<in> block (2 * h) m \<Longrightarrow> f i = c" and "i \<in> block (2 * h) m"
  shows "hcb h f i = c"
proof (cases "i \<in> block h (2 * m)")
  case True
  then have "i + h \<in> block (2 * h) m" by (auto simp: block_def)
  then show ?thesis using True assms hcb_upper[of h i m f] by auto
next
  case False
  then have i: "i \<in> block h (2 * m + 1)" using assms(3) by (simp add: block_split)
  then have "i - h \<in> block h (2 * m)" "i - h + h = i" by (auto simp: block_def)
  moreover have "i - h \<in> block (2 * h) m" using i by (auto simp: block_def)
  ultimately show ?thesis using assms hcb_lower[of h "i - h" m f] by auto
qed

lemma halve_const:
  "(\<And>i. i \<in> block (2 ^ k) m \<Longrightarrow> f i = c) \<Longrightarrow> i \<in> block (2 ^ k) m \<Longrightarrow> halve (\<or>) (\<and>) k f i = c"
proof (induction k arbitrary: f m i)
  case (Suc k)
  have "hcb (2 ^ k) f j = c" if "j \<in> block (2 * 2 ^ k) m" for j
    by (rule hcb_const[OF _ _ that]) (use Suc.prems(1) in simp_all)
  then have half: "hcb (2 ^ k) f j = c" if "j \<in> block (2 ^ k) n" "n = 2 * m \<or> n = 2 * m + 1" for j n
    using that by (auto simp: block_split)
  have "i \<in> block (2 ^ k) (2 * m) \<or> i \<in> block (2 ^ k) (2 * m + 1)"
    using Suc.prems(2) by (simp add: block_split)
  then show ?case using Suc.IH[of _ "hcb (2 ^ k) f"] half by auto
qed simp

lemma halve_falling: "bitonic (2 ^ k) m f \<Longrightarrow> falling (block (2 ^ k) m) (halve (\<or>) (\<and>) k f)"
proof (induction k arbitrary: f m)
  case 0
  then show ?case by (auto simp: falling_def block_def)
next
  case (Suc k)
  let ?g = "hcb (2 ^ k) f"
  have bit: "bitonic (2 * 2 ^ k) m f" using Suc.prems by simp
  note halves = hcb_bitonic[OF _ bit, simplified]
  have up: "falling (block (2 ^ k) (2 * m)) (halve (\<or>) (\<and>) k ?g)"
    and low: "falling (block (2 ^ k) (2 * m + 1)) (halve (\<or>) (\<and>) k ?g)"
    using Suc.IH[OF halves(1)] Suc.IH[of "2 * m + 1"] halves(2) by auto
  have cross: "halve (\<or>) (\<and>) k ?g i"
    if "i \<in> block (2 ^ k) (2 * m)" "j \<in> block (2 ^ k) (2 * m + 1)" "halve (\<or>) (\<and>) k ?g j" for i j
    using halves(3)
  proof
    assume "\<forall>i\<in>block (2 ^ k) (2 * m). ?g i"
    then show ?thesis using halve_const[of k "2 * m" ?g True i] that(1) by auto
  next
    assume "\<forall>j\<in>block (2 ^ k) (Suc (2 * m)). \<not> ?g j"
    then show ?thesis using halve_const[of k "2 * m + 1" ?g False j] that(2,3) by auto
  qed
  have apart: "\<not> i \<le> j" if "i \<in> block (2 ^ k) (2 * m + 1)" "j \<in> block (2 ^ k) (2 * m)" for i j
    using that by (auto simp: block_def)
  show ?case unfolding falling_def
  proof (intro ballI impI)
    fix i j assume ij: "i \<in> block (2 ^ Suc k) m" "j \<in> block (2 ^ Suc k) m" "i \<le> j"
      and fj: "halve (\<or>) (\<and>) (Suc k) f j"
    have "i \<in> block (2 ^ k) (2 * m) \<or> i \<in> block (2 ^ k) (2 * m + 1)"
      and "j \<in> block (2 ^ k) (2 * m) \<or> j \<in> block (2 ^ k) (2 * m + 1)"
      using ij by (simp_all add: block_split)
    then show "halve (\<or>) (\<and>) (Suc k) f i"
      using up low cross apart ij(3) fj unfolding falling_def by (metis halve.simps(2))
  qed
qed

section \<open>Stages\<close>

definition sorted_blocks :: "nat \<Rightarrow> (nat \<Rightarrow> bool) \<Rightarrow> bool" where
  "sorted_blocks k f \<longleftrightarrow> (\<forall>m. if even m then falling (block (2 ^ k) m) f else rising (block (2 ^ k) m) f)"

lemma falling_cut: "falling {a..<b} f \<Longrightarrow> a \<le> b \<Longrightarrow> \<exists>p. a \<le> p \<and> p \<le> b \<and> (\<forall>i. a \<le> i \<and> i < b \<longrightarrow> f i = (i < p))"
proof (induction b)
  case (Suc b)
  show ?case
  proof (cases "a \<le> b")
    case True
    have "falling {a..<b} f" by (rule falling_subset[OF Suc.prems(1)]) auto
    from Suc.IH[OF this True] obtain p where p: "a \<le> p" "p \<le> b" "\<forall>i. a \<le> i \<and> i < b \<longrightarrow> f i = (i < p)"
      by blast
    show ?thesis
    proof (cases "f b")
      case fb: True
      have "f i" if "a \<le> i" "i < Suc b" for i
      proof -
        have "i \<in> {a..<Suc b}" "b \<in> {a..<Suc b}" "i \<le> b" using that True by auto
        then show ?thesis using Suc.prems(1) fb unfolding falling_def by blast
      qed
      then show ?thesis using Suc.prems(2) by (intro exI[of _ "Suc b"]) auto
    next
      case False
      then show ?thesis using p by (intro exI[of _ p]) (auto simp: less_Suc_eq)
    qed
  next
    case False
    then show ?thesis using Suc.prems by (intro exI[of _ a]) auto
  qed
qed auto

lemma rising_cut: "rising {a..<b} f \<Longrightarrow> a \<le> b \<Longrightarrow> \<exists>p. a \<le> p \<and> p \<le> b \<and> (\<forall>i. a \<le> i \<and> i < b \<longrightarrow> f i = (p \<le> i))"
proof -
  assume "rising {a..<b} f" and ab: "a \<le> b"
  then have "falling {a..<b} (\<lambda>i. \<not> f i)" by (auto simp: falling_def rising_def)
  from falling_cut[OF this ab] obtain p where "a \<le> p" "p \<le> b" "\<forall>i. a \<le> i \<and> i < b \<longrightarrow> (\<not> f i) = (i < p)"
    by blast
  then show ?thesis by (intro exI[of _ p]) (auto simp: not_less)
qed

lemma sorted_blocks_bitonic:
  assumes "sorted_blocks k f"
  shows "bitonic (2 ^ Suc k) m f"
proof -
  define a w where "a = m * 2 ^ Suc k" and "w = (2::nat) ^ k"
  have b: "block w (2 * m) = {a..<a + w}" "block w (2 * m + 1) = {a + w..<a + 2 * w}"
    by (auto simp: block_def a_def w_def algebra_simps)
  have "falling {a..<a + w} f" "rising {a + w..<a + 2 * w} f"
    using assms[unfolded sorted_blocks_def, rule_format, of "2 * m"]
      assms[unfolded sorted_blocks_def, rule_format, of "2 * m + 1"] b by (simp_all add: w_def)
  then obtain p q where p: "a \<le> p" "p \<le> a + w" "\<And>i. a \<le> i \<Longrightarrow> i < a + w \<Longrightarrow> f i = (i < p)"
    and q: "a + w \<le> q" "q \<le> a + 2 * w" "\<And>i. a + w \<le> i \<Longrightarrow> i < a + 2 * w \<Longrightarrow> f i = (q \<le> i)"
    using falling_cut[of a "a + w" f] rising_cut[of "a + w" "a + 2 * w" f] by auto
  show ?thesis
  proof (rule bitonicI[of a m "2 ^ Suc k" p q f True])
    fix i assume i: "a \<le> i" "i < a + 2 ^ Suc k"
    show "f i = (True \<noteq> (p \<le> i \<and> i < q))"
    proof (cases "i < a + w")
      case True
      then show ?thesis using p(3)[of i] i q(1) by auto
    next
      case False
      then show ?thesis using q(3)[of i] i p(2) by (auto simp: w_def)
    qed
  qed (use p q in \<open>auto simp: a_def w_def\<close>)
qed

lemma flip_block:
  assumes "0 < w" and "i \<in> block w m"
  shows "flip w f i = (if even m then f i else f (2 * (m * w) + w - 1 - i))"
proof -
  have m: "i div w = m" using assms by (simp add: in_block_iff)
  have "i = m * w + i mod w" using div_mult_mod_eq[of i w] m by simp
  then have "m * w + (w - 1 - i mod w) = 2 * (m * w) + w - 1 - i"
    using mod_less_divisor[OF assms(1), of i] by linarith
  then show ?thesis using m by (simp add: flip_def)
qed

lemma flip_bitonic:
  assumes "0 < w" and "bitonic w m f"
  shows "bitonic w m (flip w f)"
proof (cases "even m")
  case True
  then have "flip w f i = f i" if "i \<in> block w m" for i using flip_block[OF assms(1) that] by simp
  then show ?thesis using assms(2) by (auto simp: bitonic_def)
next
  case False
  define a where "a = m * w"
  obtain p q c where pq: "a \<le> p" "p \<le> q" "q \<le> a + w"
    and f: "\<And>i. a \<le> i \<Longrightarrow> i < a + w \<Longrightarrow> f i = (c \<noteq> (p \<le> i \<and> i < q))"
    using assms(2) by (auto simp: bitonic_def block_def a_def)
  show ?thesis
  proof (rule bitonicI[of a m w "2 * a + w - q" "2 * a + w - p" _ c])
    fix i assume i: "a \<le> i" "i < a + w"
    then have "flip w f i = f (2 * a + w - 1 - i)"
      using flip_block[OF assms(1), of i m f] False by (simp add: block_def a_def)
    then show "flip w f i = (c \<noteq> (2 * a + w - q \<le> i \<and> i < 2 * a + w - p))"
      using f[of "2 * a + w - 1 - i"] i pq by auto
  qed (use pq in \<open>auto simp: a_def\<close>)
qed

lemma flip_sorted_blocks:
  assumes "\<And>m. falling (block (2 ^ k) m) f"
  shows "sorted_blocks k (flip (2 ^ k) f)"
  unfolding sorted_blocks_def
proof (intro allI)
  fix m
  let ?w = "(2::nat) ^ k" let ?r = "\<lambda>i. 2 * (m * ?w) + ?w - 1 - i"
  show "if even m then falling (block ?w m) (flip ?w f) else rising (block ?w m) (flip ?w f)"
  proof (cases "even m")
    case True
    then show ?thesis using assms[of m] by (simp add: falling_def flip_block)
  next
    case False
    have r: "?r i \<in> block ?w m" if "i \<in> block ?w m" for i using that by (auto simp: block_def)
    have "flip ?w f j" if "i \<in> block ?w m" "j \<in> block ?w m" "i \<le> j" "flip ?w f i" for i j
    proof -
      have "?r j \<le> ?r i" using that(3) by linarith
      then show ?thesis
        using assms[of m] r[OF that(1)] r[OF that(2)] that(4) False flip_block[OF _ that(1), of f]
          flip_block[OF _ that(2), of f] by (auto simp: falling_def)
    qed
    then show ?thesis using False by (auto simp: rising_def)
  qed
qed

lemma stage_sorts_blocks: "sorted_blocks k f \<Longrightarrow> sorted_blocks (Suc k) (stage (\<or>) (\<and>) (Suc k) f)"
  unfolding stage_def
  by (intro flip_sorted_blocks halve_falling flip_bitonic sorted_blocks_bitonic) simp_all

lemma network_sorts_blocks: "sorted_blocks k (network (\<or>) (\<and>) k f)"
proof (induction k)
  case 0
  have "i = j" if "i \<in> block 1 m" "j \<in> block 1 m" for i j m using that by (simp add: block_def)
  then have "falling (block (2 ^ 0) m) f" "rising (block (2 ^ 0) m) f" for m
    by (auto simp: falling_def rising_def)
  then show ?case by (simp add: sorted_blocks_def)
next
  case (Suc k)
  then show ?case using stage_sorts_blocks by simp
qed

end
