(* ===== verification/BitonicSort.thy ===== *)
theory BitonicSort
  imports Bitonic
begin

text \<open>
  The network sorts: for every compare-exchange pair that takes the larger and the smaller of
  two elements of a linearly ordered set, the network leaves the elements of its first
  \<open>2 ^ k\<close> cells in descending order and only permutes them. The set of admissible elements is
  a parameter, since floating-point numbers are linearly ordered only without not-a-number and
  the negative zero.
\<close>

section \<open>Permutation of the cells\<close>

definition cells_mset :: "nat \<Rightarrow> (nat \<Rightarrow> 'a) \<Rightarrow> 'a multiset" where
  "cells_mset n s = (\<Sum>i<n. {#s i#})"

lemma cells_mset_reindex:
  assumes "bij_betw \<pi> {..<n} {..<n}"
  shows "cells_mset n (\<lambda>i. s (\<pi> i)) = cells_mset n s"
  unfolding cells_mset_def by (rule sum.reindex_bij_betw[OF assms])

lemma cells_mset_cong: "(\<And>i. i < n \<Longrightarrow> s i = t i) \<Longrightarrow> cells_mset n s = cells_mset n t"
  unfolding cells_mset_def by (rule sum.cong) simp_all

lemma cells_mset_nth: "cells_mset (length xs) (\<lambda>i. xs ! i) = mset xs"
proof (induction xs rule: rev_induct)
  case (snoc x xs)
  have "cells_mset (length xs) (\<lambda>i. (xs @ [x]) ! i) = cells_mset (length xs) (\<lambda>i. xs ! i)"
    by (rule cells_mset_cong) (simp add: nth_append)
  then show ?case using snoc.IH by (simp add: cells_mset_def)
qed (simp add: cells_mset_def)

text \<open>The reflection of the odd blocks, as a map on positions.\<close>

definition reflect :: "nat \<Rightarrow> nat \<Rightarrow> nat" where
  "reflect b i = (if even (i div b) then i else i div b * b + (b - 1 - i mod b))"

lemma flip_reflect: "flip b s = (\<lambda>i. s (reflect b i))"
  by (auto simp: flip_def reflect_def)

lemma reflect_div: "0 < b \<Longrightarrow> reflect b i div b = i div b"
proof -
  assume b: "0 < b"
  then have "b - 1 - i mod b < b" by linarith
  then have "(b - 1 - i mod b) div b = 0" by simp
  then show ?thesis using b by (simp add: reflect_def)
qed

lemma reflect_reflect: "0 < b \<Longrightarrow> reflect b (reflect b i) = i"
proof -
  assume b: "0 < b"
  show ?thesis
  proof (cases "even (i div b)")
    case False
    have "(i div b * b + (b - 1 - i mod b)) mod b = b - 1 - i mod b" using b by simp
    then have "reflect b (reflect b i) = i div b * b + (b - 1 - (b - 1 - i mod b))"
      using False b reflect_div[OF b, of i] by (simp add: reflect_def)
    also have "\<dots> = i" using mod_less_divisor[OF b, of i] div_mult_mod_eq[of i b] by simp
    finally show ?thesis .
  qed (simp add: reflect_def)
qed

lemma reflect_less:
  assumes "0 < b" and "b dvd n" and "i < n"
  shows "reflect b i < n"
proof -
  obtain c where n: "n = b * c" using assms(2) by blast
  have "i div b < c" using assms(1,3) n by (simp add: less_mult_imp_div_less mult.commute)
  then have "reflect b i div b < c" by (simp add: reflect_div[OF assms(1)])
  then show ?thesis using assms(1) n by (metis div_less_iff_less_mult mult.commute)
qed

lemma cells_mset_flip: "0 < b \<Longrightarrow> b dvd n \<Longrightarrow> cells_mset n (flip b s) = cells_mset n s"
proof -
  assume b: "0 < b" "b dvd n"
  have "bij_betw (reflect b) {..<n} {..<n}"
    by (rule bij_betw_byWitness[where f' = "reflect b"]) (auto simp: reflect_reflect reflect_less b)
  then show ?thesis unfolding flip_reflect by (rule cells_mset_reindex)
qed

text \<open>A compare-exchange step pairs each position of an even block with the one below it.\<close>

lemma sum_pairs:
  fixes g :: "nat \<Rightarrow> 'b::comm_monoid_add"
  assumes "0 < d" and "2 * d dvd n"
  shows "(\<Sum>i<n. g i) = (\<Sum>i\<in>{i. i < n \<and> even (i div d)}. g i + g (i + d))"
proof -
  let ?U = "{i. i < n \<and> even (i div d)}" and ?L = "{i. i < n \<and> odd (i div d)}"
  have dd: "(i + d) div d = Suc (i div d)" for i using assms(1) by simp
  obtain c where "n = 2 * d * c" using assms(2) by blast
  then have n: "n = d * (2 * c)" by simp
  have bound: "i < n \<longleftrightarrow> i div d < 2 * c" for i
    using assms(1) n by (simp add: div_less_iff_less_mult mult.commute)
  have img: "(\<lambda>i. i + d) ` ?U = ?L"
  proof (intro equalityI subsetI)
    fix j assume "j \<in> (\<lambda>i. i + d) ` ?U"
    then obtain i where i: "j = i + d" "i div d < 2 * c" "even (i div d)" by (auto simp: bound)
    from i(3) obtain q where "i div d = 2 * q" by (rule evenE)
    then have "Suc (i div d) < 2 * c" using i(2) by simp
    then show "j \<in> ?L" using i dd[of i] by (simp add: bound)
  next
    fix j assume j: "j \<in> ?L"
    then have "d \<le> j" using assms(1) by (auto intro: ccontr)
    then show "j \<in> (\<lambda>i. i + d) ` ?U"
      using j dd[of "j - d"] by (intro image_eqI[of _ _ "j - d"]) auto
  qed
  have "(\<Sum>i<n. g i) = sum g (?U \<union> ?L)" by (rule sum.cong) auto
  also have "\<dots> = sum g ?U + sum g ?L" by (rule sum.union_disjoint) auto
  also have "sum g ?L = (\<Sum>i\<in>?U. g (i + d))"
    unfolding img[symmetric] by (subst sum.reindex) (auto simp: inj_on_def)
  finally show ?thesis by (simp add: sum.distrib)
qed

section \<open>Compare-exchange pairs\<close>

locale cmp_exchange =
  fixes ok :: "'a \<Rightarrow> bool" and lt :: "'a \<Rightarrow> 'a \<Rightarrow> bool" and hi lo :: "'a \<Rightarrow> 'a \<Rightarrow> 'a"
  assumes irrefl: "\<not> lt a a"
    and trans: "lt a b \<Longrightarrow> lt b c \<Longrightarrow> lt a c"
    and total: "ok a \<Longrightarrow> ok b \<Longrightarrow> a \<noteq> b \<Longrightarrow> lt a b \<or> lt b a"
    and hi_eq: "hi a b = (if lt a b then b else a)"
    and lo_eq: "lo a b = (if lt b a then b else a)"
begin

definition above :: "'a \<Rightarrow> (nat \<Rightarrow> 'a) \<Rightarrow> nat \<Rightarrow> bool" where
  "above t s i = lt t (s i)"

definition oks :: "(nat \<Rightarrow> 'a) \<Rightarrow> bool" where
  "oks s \<longleftrightarrow> (\<forall>i. ok (s i))"

lemma above_hi: "ok a \<Longrightarrow> ok b \<Longrightarrow> ok t \<Longrightarrow> lt t (hi a b) \<longleftrightarrow> lt t a \<or> lt t b"
  using trans total irrefl by (metis hi_eq)

lemma above_lo: "ok a \<Longrightarrow> ok b \<Longrightarrow> ok t \<Longrightarrow> lt t (lo a b) \<longleftrightarrow> lt t a \<and> lt t b"
  using trans total irrefl by (metis lo_eq)

lemma oks_hc: "oks s \<Longrightarrow> oks (hc hi lo d s)"
  by (simp add: oks_def hc_def hi_eq lo_eq)

lemma oks_flip: "oks s \<Longrightarrow> oks (flip b s)"
  by (simp add: oks_def flip_def)

lemma oks_halve: "oks s \<Longrightarrow> oks (halve hi lo k s)"
  by (induction k arbitrary: s) (simp_all add: oks_hc)

lemma oks_network: "oks s \<Longrightarrow> oks (network hi lo k s)"
  by (induction k) (simp_all add: stage_def oks_flip oks_halve oks_hc)

lemma above_hc: "oks s \<Longrightarrow> ok t \<Longrightarrow> above t (hc hi lo d s) = hcb d (above t s)"
  by (auto simp: above_def hc_def oks_def above_hi above_lo fun_eq_iff)

lemma above_flip: "above t (flip b s) = flip b (above t s)"
  by (auto simp: above_def flip_def fun_eq_iff)

lemma above_halve: "oks s \<Longrightarrow> ok t \<Longrightarrow> above t (halve hi lo k s) = halve (\<or>) (\<and>) k (above t s)"
  by (induction k arbitrary: s) (simp_all add: oks_hc above_hc)

lemma above_network: "oks s \<Longrightarrow> ok t \<Longrightarrow> above t (network hi lo k s) = network (\<or>) (\<and>) k (above t s)"
  by (induction k) (simp_all add: stage_def above_flip above_halve above_hc oks_flip oks_hc oks_network)

lemma network_descending:
  assumes "oks s" and "i \<le> j" and "j < 2 ^ k"
  shows "\<not> lt (network hi lo k s i) (network hi lo k s j)"
proof
  let ?t = "network hi lo k s i"
  assume "lt ?t (network hi lo k s j)"
  moreover have t: "ok ?t" using oks_network[OF assms(1)] by (simp add: oks_def)
  ultimately have "network (\<or>) (\<and>) k (above ?t s) j"
    using above_network[OF assms(1) t, of k, symmetric] by (simp add: above_def)
  moreover have "falling (block (2 ^ k) 0) (network (\<or>) (\<and>) k (above ?t s))"
    using network_sorts_blocks[of k "above ?t s"] by (simp add: sorted_blocks_def)
  moreover have "i \<in> block (2 ^ k) 0" "j \<in> block (2 ^ k) 0" using assms(2,3) by (auto simp: block_def)
  ultimately have "network (\<or>) (\<and>) k (above ?t s) i" using assms(2) unfolding falling_def by blast
  then show False
    using above_network[OF assms(1) t, of k, symmetric] irrefl by (simp add: above_def)
qed

lemma exchange_pair: "ok a \<Longrightarrow> ok b \<Longrightarrow> {#hi a b#} + {#lo a b#} = {#a#} + {#b#}"
  using total[of a b] trans irrefl by (auto simp: hi_eq lo_eq add_ac)

lemma cells_mset_hc:
  assumes "oks s" and "0 < d" and "2 * d dvd n"
  shows "cells_mset n (hc hi lo d s) = cells_mset n s"
proof -
  have "{#hc hi lo d s i#} + {#hc hi lo d s (i + d)#} = {#s i#} + {#s (i + d)#}"
    if "even (i div d)" for i
    using exchange_pair[of "s i" "s (i + d)"] that assms(1,2) by (simp add: hc_def oks_def)
  then show ?thesis
    unfolding cells_mset_def sum_pairs[OF assms(2,3)] by (intro sum.cong) auto
qed

lemma cells_mset_halve:
  "oks s \<Longrightarrow> 2 ^ k dvd n \<Longrightarrow> cells_mset n (halve hi lo k s) = cells_mset n s"
proof (induction k arbitrary: s)
  case (Suc k)
  have "2 ^ k dvd n" using Suc.prems(2) by (metis power_Suc dvd_mult_right)
  then show ?case using Suc by (simp add: oks_hc cells_mset_hc)
qed simp

lemma cells_mset_network:
  "oks s \<Longrightarrow> 2 ^ k dvd n \<Longrightarrow> cells_mset n (network hi lo k s) = cells_mset n s"
proof (induction k)
  case (Suc k)
  have "2 ^ k dvd n" using Suc.prems(2) by (metis power_Suc dvd_mult_right)
  then show ?case
    using Suc by (simp add: stage_def cells_mset_flip cells_mset_halve cells_mset_hc oks_flip oks_hc oks_network)
qed simp

end

end
