(* ===== verification/SortLocales.thy ===== *)
theory SortLocales
  imports Tiles BitonicSort
begin

text \<open>
  The two shapes of kernel the detector's sort is made of, as locales over an arbitrary grid:
  a compare-exchange at a distance \<open>d\<close>, and the reversal of odd blocks that undoes one stage
  of the bitonic network and starts the next. A kernel of either shape fulfils the kernel
  contract with the network's own step as its result.
\<close>

section \<open>Compare-exchange on floating-point numbers\<close>

text \<open>The two selections every sort kernel makes of a pair of elements.\<close>

definition vmax :: "f32 \<Rightarrow> f32 \<Rightarrow> f32" where
  "vmax a b = select a b (a < b)"

definition vmin :: "f32 \<Rightarrow> f32 \<Rightarrow> f32" where
  "vmin a b = - select (- a) (- b) (- a < - b)"

text \<open>Without not-a-number and negative zero the numbers are linearly ordered.\<close>

definition plain :: "f32 \<Rightarrow> bool" where
  "plain x \<longleftrightarrow> \<not> is_nan x \<and> x \<noteq> NZero"

lemma vmin_eq: "vmin a b = (if b < a then b else a)"
  by (simp add: vmin_def select_def)

lemma plain_total: "plain a \<Longrightarrow> plain b \<Longrightarrow> a \<noteq> b \<Longrightarrow> a < b \<or> b < a"
  using feq_not_less[of a b] feq_eq[of a b] by (auto simp: plain_def)

interpretation f32_order: cmp_exchange plain "(<)" vmax vmin
  by unfold_locales (auto simp: vmax_def vmin_eq select_def intro: less_fp_trans dest: plain_total)


section \<open>Positions split into a low and a high part\<close>

locale grid_split =
  fixes G L :: dim and R Q :: nat and r q :: "dim \<Rightarrow> dim \<Rightarrow> nat"
    and dg dl :: "nat \<Rightarrow> nat \<Rightarrow> dim"
  assumes range: "g \<in> set (dims G) \<Longrightarrow> l \<in> set (dims L) \<Longrightarrow> r g l < R \<and> q g l < Q"
    and onto: "a < R \<Longrightarrow> b < Q \<Longrightarrow> dg a b \<in> set (dims G) \<and> dl a b \<in> set (dims L) \<and>
      r (dg a b) (dl a b) = a \<and> q (dg a b) (dl a b) = b"

locale exchange_kernel = grid_split G L d Q r q dg dl
  for G L d Q r q dg dl +
  fixes s :: "nat \<Rightarrow> f32" and k :: "dim \<Rightarrow> dim \<Rightarrow> f32 stores"
  assumes pos: "0 < d" and fits: "2 * d * Q \<le> 2 ^ 31"
    and stores: "g \<in> set (dims G) \<Longrightarrow> l \<in> set (dims L) \<Longrightarrow> k g l =
      (let i = r g l + 2 * d * q g l; x = s i; y = s (i + d)
       in [(of_nat (i + d), vmin x y), (of_nat i, vmax x y)])"

lemma exchange_index:
  fixes a b d Q :: nat
  assumes "a < d" and "b < Q"
  shows "a + 2 * d * b + d < 2 * d * Q" and "(a + 2 * d * b) div d = 2 * b"
    and "(a + 2 * d * b + d) div d = 2 * b + 1"
proof -
  have "2 * d * (b + 1) \<le> 2 * d * Q" using assms(2) by (intro mult_le_mono) auto
  then show "a + 2 * d * b + d < 2 * d * Q" using assms(1) by (simp add: algebra_simps)
  have "(a + d * (2 * b)) div d = 2 * b" and "(a + d * (2 * b + 1)) div d = 2 * b + 1"
    using assms(1) by (simp_all del: mult_Suc_right add: div_add1_eq)
  then show "(a + 2 * d * b) div d = 2 * b" and "(a + 2 * d * b + d) div d = 2 * b + 1"
    by (simp_all add: algebra_simps)
qed

lemma exchange_decompose:
  fixes j d Q :: nat
  assumes "j < 2 * d * Q" and "0 < d"
  shows "j mod d < d" and "j div (2 * d) < Q"
    and "j = j mod d + 2 * d * (j div (2 * d)) + (if odd (j div d) then d else 0)"
proof -
  show "j mod d < d" using assms(2) by simp
  show "j div (2 * d) < Q" using assms by (simp add: div_less_iff_less_mult mult.commute)
  have "j div (2 * d) = j div d div 2" by (metis div_mult2_eq mult.commute)
  then have "d * (j div d) = 2 * d * (j div (2 * d)) + (if odd (j div d) then d else 0)"
    using div_mult_mod_eq[of "j div d" 2] by (auto simp: algebra_simps mod2_eq_if elim!: oddE evenE)
  then show "j = j mod d + 2 * d * (j div (2 * d)) + (if odd (j div d) then d else 0)"
    using div_mult_mod_eq[of j d] by (simp add: algebra_simps)
qed

sublocale exchange_kernel \<subseteq> kernel_contract G L k "2 * d * Q" "hc vmax vmin d s"
proof
  show "2 * d * Q \<le> 2 ^ 31" by (rule fits)
next
  fix g l i v
  assume gl: "g \<in> set (dims G)" "l \<in> set (dims L)" and iv: "(i, v) \<in> set (k g l)"
  define b where "b = r g l + 2 * d * q g l"
  note ix = exchange_index[OF range[OF gl, THEN conjunct1] range[OF gl, THEN conjunct2], folded b_def]
  have "i = of_nat (b + d) \<and> v = vmin (s b) (s (b + d)) \<or>
      i = of_nat b \<and> v = vmax (s b) (s (b + d))"
    using iv stores[OF gl] by (auto simp: b_def Let_def)
  then show "\<exists>j<2 * d * Q. i = of_nat j \<and> v = hc vmax vmin d s j"
  proof
    assume "i = of_nat (b + d) \<and> v = vmin (s b) (s (b + d))"
    then show ?thesis using ix by (intro exI[of _ "b + d"]) (simp add: hc_def)
  next
    assume "i = of_nat b \<and> v = vmax (s b) (s (b + d))"
    then show ?thesis using ix by (intro exI[of _ b]) (simp add: hc_def)
  qed
next
  fix j assume j: "j < 2 * d * Q"
  define a b where "a = j mod d" and "b = j div (2 * d)"
  note dec = exchange_decompose[OF j pos, folded a_def b_def]
  have on: "dg a b \<in> set (dims G)" "dl a b \<in> set (dims L)"
    "r (dg a b) (dl a b) = a" "q (dg a b) (dl a b) = b"
    using onto[OF dec(1,2)] by auto
  have "(of_nat j, hc vmax vmin d s j) \<in> set (k (dg a b) (dl a b))"
    unfolding stores[OF on(1,2)] Let_def on(3,4) using dec(3) exchange_index[OF dec(1,2)]
    by (cases "odd (j div d)") (auto simp: hc_def)
  then show "\<exists>g\<in>set (dims G). \<exists>l\<in>set (dims L). (of_nat j, hc vmax vmin d s j) \<in> set (k g l)"
    using on(1,2) by blast
qed

section \<open>Reversal of odd blocks at two levels\<close>

definition flip2 :: "nat \<Rightarrow> (nat \<Rightarrow> 'a) \<Rightarrow> nat \<Rightarrow> 'a" where
  "flip2 b s = flip (2 * b) (flip b s)"

locale flip_kernel = grid_split G L b Q r q dg dl
  for G L b Q r q dg dl +
  fixes s :: "nat \<Rightarrow> 'a" and k :: "dim \<Rightarrow> dim \<Rightarrow> 'a stores"
  assumes pos: "0 < b" and fits: "4 * b * Q \<le> 2 ^ 31"
    and stores: "g \<in> set (dims G) \<Longrightarrow> l \<in> set (dims L) \<Longrightarrow> k g l =
      (let c = 4 * b * q g l; a = r g l
       in [(of_nat (c + a), s (c + a)), (of_nat (c + 3 * b + a), s (c + 3 * b - 1 - a)),
           (of_nat (c + b + a), s (c + 2 * b - 1 - a)), (of_nat (c + 2 * b + a), s (c + 3 * b + a))])"

lemma flip2_quarters:
  fixes a b m :: nat
  assumes "a < b"
  shows "flip2 b s (4 * b * m + a) = s (4 * b * m + a)"
    and "flip2 b s (4 * b * m + b + a) = s (4 * b * m + 2 * b - 1 - a)"
    and "flip2 b s (4 * b * m + 2 * b + a) = s (4 * b * m + 3 * b + a)"
    and "flip2 b s (4 * b * m + 3 * b + a) = s (4 * b * m + 3 * b - 1 - a)"
proof -
  define c where "c = 4 * b * m"
  have b: "0 < b" "0 < 2 * b" using assms by auto
  have e: "2 * m * (2 * b) = c" "(2 * m + 1) * (2 * b) = c + 2 * b" "4 * m * b = c"
    "(4 * m + 1) * b = c + b" "(4 * m + 2) * b = c + 2 * b" "(4 * m + 3) * b = c + 3 * b"
    by (simp_all add: c_def algebra_simps)
  have big: "flip (2 * b) f i = f i" if "c \<le> i" "i < c + 2 * b"
    for f :: "nat \<Rightarrow> 'a" and i
    using flip_block[OF b(2), of i "2 * m" f] that by (simp add: block_def e(1))
  have big': "flip (2 * b) f i = f (6 * b + 2 * c - 1 - i)" if "c + 2 * b \<le> i" "i < c + 4 * b"
    for f :: "nat \<Rightarrow> 'a" and i
    using flip_block[OF b(2), of i "2 * m + 1" f, unfolded block_def e(2)] that by simp
  have small: "flip b s i = s i" if "c \<le> i \<and> i < c + b \<or> c + 2 * b \<le> i \<and> i < c + 3 * b" for i
    using flip_block[OF b(1), of i "4 * m" s, unfolded block_def e]
      flip_block[OF b(1), of i "4 * m + 2" s, unfolded block_def e] that by auto
  have small1: "flip b s i = s (3 * b + 2 * c - 1 - i)" if "c + b \<le> i" "i < c + 2 * b" for i
    using flip_block[OF b(1), of i "4 * m + 1" s, unfolded block_def e] that by simp
  have small3: "flip b s i = s (7 * b + 2 * c - 1 - i)" if "c + 3 * b \<le> i" "i < c + 4 * b" for i
    using flip_block[OF b(1), of i "4 * m + 3" s, unfolded block_def e] that by simp
  have "flip (2 * b) (flip b s) (c + a) = s (c + a)"
    using assms by (simp add: big small)
  moreover have "flip (2 * b) (flip b s) (c + b + a) = s (c + 2 * b - 1 - a)"
    using assms by (simp add: big small1)
  moreover have "flip (2 * b) (flip b s) (c + 2 * b + a) = s (c + 3 * b + a)"
    using assms by (simp add: big' small3 add.assoc)
  moreover have "flip (2 * b) (flip b s) (c + 3 * b + a) = s (c + 3 * b - 1 - a)"
    using assms big'[of "c + 3 * b + a" "flip b s"] small[of "c + 3 * b - 1 - a"] by force
  ultimately show "flip2 b s (4 * b * m + a) = s (4 * b * m + a)"
    and "flip2 b s (4 * b * m + b + a) = s (4 * b * m + 2 * b - 1 - a)"
    and "flip2 b s (4 * b * m + 2 * b + a) = s (4 * b * m + 3 * b + a)"
    and "flip2 b s (4 * b * m + 3 * b + a) = s (4 * b * m + 3 * b - 1 - a)"
    by (simp_all add: flip2_def c_def)
qed

lemma quarter_decompose:
  fixes j b Q :: nat
  assumes "j < 4 * b * Q" and "0 < b"
  obtains a m where "a < b" and "m < Q" and
    "j = 4 * b * m + a \<or> j = 4 * b * m + b + a \<or> j = 4 * b * m + 2 * b + a \<or> j = 4 * b * m + 3 * b + a"
proof -
  have "j div b < 4 * Q" using assms by (simp add: div_less_iff_less_mult mult_ac)
  then have m: "j div b div 4 < Q" by (simp add: div_less_iff_less_mult mult.commute)
  have "j div b mod 4 < 4" by simp
  then consider "j div b mod 4 = 0" | "j div b mod 4 = 1" | "j div b mod 4 = 2" | "j div b mod 4 = 3"
    by linarith
  moreover have "j = b * (4 * (j div b div 4) + j div b mod 4) + j mod b" by simp
  ultimately have "j = 4 * b * (j div b div 4) + j mod b \<or> j = 4 * b * (j div b div 4) + b + j mod b \<or>
      j = 4 * b * (j div b div 4) + 2 * b + j mod b \<or> j = 4 * b * (j div b div 4) + 3 * b + j mod b"
    by cases (simp_all only: distrib_left mult_ac add_0_right mult_1_right mult_0_right, simp_all)
  then show ?thesis using that[of "j mod b" "j div b div 4"] m assms(2) by simp
qed

sublocale flip_kernel \<subseteq> kernel_contract G L k "4 * b * Q" "flip2 b s"
proof
  show "4 * b * Q \<le> 2 ^ 31" by (rule fits)
next
  fix g l i v
  assume gl: "g \<in> set (dims G)" "l \<in> set (dims L)" and iv: "(i, v) \<in> set (k g l)"
  have a: "r g l < b" and m: "q g l < Q" using range[OF gl] by auto
  have "4 * b * (q g l + 1) \<le> 4 * b * Q" using m by (intro mult_le_mono) auto
  then have top: "4 * b * q g l + 4 * b \<le> 4 * b * Q" by simp
  note fq = flip2_quarters[OF a, of s "q g l"]
  obtain j where j: "j < 4 * b * q g l + 4 * b" "i = of_nat j" "v = flip2 b s j"
  proof -
    consider
        "i = of_nat (4 * b * q g l + r g l)" "v = s (4 * b * q g l + r g l)"
      | "i = of_nat (4 * b * q g l + 3 * b + r g l)" "v = s (4 * b * q g l + 3 * b - 1 - r g l)"
      | "i = of_nat (4 * b * q g l + b + r g l)" "v = s (4 * b * q g l + 2 * b - 1 - r g l)"
      | "i = of_nat (4 * b * q g l + 2 * b + r g l)" "v = s (4 * b * q g l + 3 * b + r g l)"
      using iv unfolding stores[OF gl] Let_def set_simps insert_iff empty_iff prod.inject by blast
    then show ?thesis
    proof cases
      case 1
      then show ?thesis using a by (intro that[of "4 * b * q g l + r g l"]; (simp only: fq)?; simp)
    next
      case 2
      then show ?thesis using a by (intro that[of "4 * b * q g l + 3 * b + r g l"]; (simp only: fq)?; simp)
    next
      case 3
      then show ?thesis using a by (intro that[of "4 * b * q g l + b + r g l"]; (simp only: fq)?; simp)
    next
      case 4
      then show ?thesis using a by (intro that[of "4 * b * q g l + 2 * b + r g l"]; (simp only: fq)?; simp)
    qed
  qed
  then show "\<exists>j<4 * b * Q. i = of_nat j \<and> v = flip2 b s j"
    using top by (intro exI[of _ j] conjI) simp_all
next
  fix j assume "j < 4 * b * Q"
  then obtain a m where am: "a < b" "m < Q" and
    j: "j = 4 * b * m + a \<or> j = 4 * b * m + b + a \<or> j = 4 * b * m + 2 * b + a \<or> j = 4 * b * m + 3 * b + a"
    by (rule quarter_decompose[OF _ pos])
  note on = onto[OF am]
  have kk: "k (dg a m) (dl a m) = (let c = 4 * b * m
      in [(of_nat (c + a), s (c + a)), (of_nat (c + 3 * b + a), s (c + 3 * b - 1 - a)),
          (of_nat (c + b + a), s (c + 2 * b - 1 - a)), (of_nat (c + 2 * b + a), s (c + 3 * b + a))])"
    using stores[of "dg a m" "dl a m"] on by (simp only: Let_def)
  have "(of_nat j, flip2 b s j) \<in> set (k (dg a m) (dl a m))"
    using j unfolding kk Let_def by (elim disjE; simp only: flip2_quarters[OF am(1)]; simp only: set_simps insert_iff simp_thms)
  then show "\<exists>g\<in>set (dims G). \<exists>l\<in>set (dims L). (of_nat j, flip2 b s j) \<in> set (k g l)"
    using on by blast
qed

end
