(* ===== verification/SortKernels.thy ===== *)
theory SortKernels
  imports SortLocales
begin

unbundle bit_operations_syntax

text \<open>
  The 26 compute shaders of \<open>server/cherum/static/net.js\<close> that sort the class scores, one
  definition per kernel, expression by expression: \<open>data1\<close> is the input buffer, \<open>gindex\<close> and
  \<open>lindex\<close> are the workgroup's and the invocation's numbers, the result is the list of the
  stores to \<open>data0\<close> in program order. Each kernel is shown to be an instance, on the grid the
  program dispatches it with, of a compare-exchange at a fixed distance or of the reversal of
  odd blocks at two levels.
\<close>

lemmas sort_kernel = Let_def push_bit_eq_mult arr_def vmin_def vmax_def algebra_simps of_nat_diff

section \<open>Compare-exchange kernels\<close>

definition E_256_32_2 :: "f32 buf \<Rightarrow> vec3 \<Rightarrow> vec3 \<Rightarrow> f32 stores" where
  "E_256_32_2 data1 gindex lindex =
    (let gidx0 = vx gindex;
         lidx0 = vx lindex;
         precast0 = gidx0;
         precast1 = lidx0;
         precast2 = push_bit 6 precast0;
         precast3 = push_bit 1 precast1;
         alu0 = precast2 + precast3;
         val0 = rd data1 alu0;
         alu1 = alu0 + 1;
         val1 = rd data1 alu1;
         alu2 = - val0;
         alu3 = - val1;
         alu4 = select alu2 alu3 (alu2 < alu3);
         alu6 = select val0 val1 (val0 < val1)
     in [(alu1, - alu4),
         (alu0, alu6)])"

interpretation hc1: exchange_kernel "(256, 1, 1)" "(32, 1, 1)" 1 8192
  "\<lambda>(gx, gy, gz) (lx, ly, lz). 0" "\<lambda>(gx, gy, gz) (lx, ly, lz). lx + 32 * gx"
  "\<lambda>a b. (b div 32, 0, 0)" "\<lambda>a b. (b mod 32, 0, 0)"
  "arr c" "launch (E_256_32_2 c)" for c
  by unfold_locales (auto simp: dims_iff launch_def sort_kernel E_256_32_2_def)

definition E_128_32_2_2 :: "f32 buf \<Rightarrow> vec3 \<Rightarrow> vec3 \<Rightarrow> f32 stores" where
  "E_128_32_2_2 data1 gindex lindex =
    (let gidx0 = vx gindex;
         lidx0 = vx lindex;
         lidx1 = vy lindex;
         precast0 = gidx0;
         precast1 = lidx0;
         precast2 = push_bit 7 precast0;
         precast3 = push_bit 2 precast1;
         alu0 = lidx1 + precast2 + precast3;
         val0 = rd data1 alu0;
         alu1 = alu0 + 2;
         val1 = rd data1 alu1;
         alu2 = - val0;
         alu3 = - val1;
         alu4 = select alu2 alu3 (alu2 < alu3);
         alu6 = select val0 val1 (val0 < val1)
     in [(alu1, - alu4),
         (alu0, alu6)])"

interpretation hc2: exchange_kernel "(128, 1, 1)" "(32, 2, 1)" 2 4096
  "\<lambda>(gx, gy, gz) (lx, ly, lz). ly" "\<lambda>(gx, gy, gz) (lx, ly, lz). lx + 32 * gx"
  "\<lambda>a b. (b div 32, 0, 0)" "\<lambda>a b. (b mod 32, a, 0)"
  "arr c" "launch (E_128_32_2_2 c)" for c
  by unfold_locales (auto simp: dims_iff launch_def sort_kernel E_128_32_2_2_def)

definition E_64_32_4_2 :: "f32 buf \<Rightarrow> vec3 \<Rightarrow> vec3 \<Rightarrow> f32 stores" where
  "E_64_32_4_2 data1 gindex lindex =
    (let gidx0 = vx gindex;
         lidx0 = vx lindex;
         lidx1 = vy lindex;
         precast0 = gidx0;
         precast1 = lidx0;
         precast2 = push_bit 8 precast0;
         precast3 = push_bit 3 precast1;
         alu0 = lidx1 + precast2 + precast3;
         val0 = rd data1 alu0;
         alu1 = alu0 + 4;
         val1 = rd data1 alu1;
         alu2 = - val0;
         alu3 = - val1;
         alu4 = select alu2 alu3 (alu2 < alu3);
         alu6 = select val0 val1 (val0 < val1)
     in [(alu1, - alu4),
         (alu0, alu6)])"

interpretation hc4: exchange_kernel "(64, 1, 1)" "(32, 4, 1)" 4 2048
  "\<lambda>(gx, gy, gz) (lx, ly, lz). ly" "\<lambda>(gx, gy, gz) (lx, ly, lz). lx + 32 * gx"
  "\<lambda>a b. (b div 32, 0, 0)" "\<lambda>a b. (b mod 32, a, 0)"
  "arr c" "launch (E_64_32_4_2 c)" for c
  by unfold_locales (auto simp: dims_iff launch_def sort_kernel E_64_32_4_2_def)

definition E_64_16_8_2 :: "f32 buf \<Rightarrow> vec3 \<Rightarrow> vec3 \<Rightarrow> f32 stores" where
  "E_64_16_8_2 data1 gindex lindex =
    (let gidx0 = vx gindex;
         lidx0 = vx lindex;
         lidx1 = vy lindex;
         precast0 = gidx0;
         precast1 = lidx0;
         precast2 = push_bit 8 precast0;
         precast3 = push_bit 4 precast1;
         alu0 = lidx1 + precast2 + precast3;
         val0 = rd data1 alu0;
         alu1 = alu0 + 8;
         val1 = rd data1 alu1;
         alu2 = - val0;
         alu3 = - val1;
         alu4 = select alu2 alu3 (alu2 < alu3);
         alu6 = select val0 val1 (val0 < val1)
     in [(alu1, - alu4),
         (alu0, alu6)])"

interpretation hc8: exchange_kernel "(64, 1, 1)" "(16, 8, 1)" 8 1024
  "\<lambda>(gx, gy, gz) (lx, ly, lz). ly" "\<lambda>(gx, gy, gz) (lx, ly, lz). lx + 16 * gx"
  "\<lambda>a b. (b div 16, 0, 0)" "\<lambda>a b. (b mod 16, a, 0)"
  "arr c" "launch (E_64_16_8_2 c)" for c
  by unfold_locales (auto simp: dims_iff launch_def sort_kernel E_64_16_8_2_def)

definition E_64_8_16_2 :: "f32 buf \<Rightarrow> vec3 \<Rightarrow> vec3 \<Rightarrow> f32 stores" where
  "E_64_8_16_2 data1 gindex lindex =
    (let gidx0 = vx gindex;
         lidx0 = vx lindex;
         lidx1 = vy lindex;
         precast0 = gidx0;
         precast1 = lidx0;
         precast2 = push_bit 8 precast0;
         precast3 = push_bit 5 precast1;
         alu0 = lidx1 + precast2 + precast3;
         val0 = rd data1 alu0;
         alu1 = alu0 + 16;
         val1 = rd data1 alu1;
         alu2 = - val0;
         alu3 = - val1;
         alu4 = select alu2 alu3 (alu2 < alu3);
         alu6 = select val0 val1 (val0 < val1)
     in [(alu1, - alu4),
         (alu0, alu6)])"

interpretation hc16: exchange_kernel "(64, 1, 1)" "(8, 16, 1)" 16 512
  "\<lambda>(gx, gy, gz) (lx, ly, lz). ly" "\<lambda>(gx, gy, gz) (lx, ly, lz). lx + 8 * gx"
  "\<lambda>a b. (b div 8, 0, 0)" "\<lambda>a b. (b mod 8, a, 0)"
  "arr c" "launch (E_64_8_16_2 c)" for c
  by unfold_locales (auto simp: dims_iff launch_def sort_kernel E_64_8_16_2_def)

definition E_32_2_8_16_2 :: "f32 buf \<Rightarrow> vec3 \<Rightarrow> vec3 \<Rightarrow> f32 stores" where
  "E_32_2_8_16_2 data1 gindex lindex =
    (let gidx0 = vx gindex;
         gidx1 = vy gindex;
         lidx0 = vx lindex;
         lidx1 = vy lindex;
         precast0 = gidx0;
         precast1 = gidx1;
         precast2 = lidx0;
         precast3 = push_bit 4 precast0;
         precast4 = push_bit 9 precast1;
         precast5 = push_bit 6 precast2;
         alu0 = lidx1 + precast3 + precast4 + precast5;
         val0 = rd data1 alu0;
         alu1 = alu0 + 32;
         val1 = rd data1 alu1;
         alu2 = - val0;
         alu3 = - val1;
         alu4 = select alu2 alu3 (alu2 < alu3);
         alu6 = select val0 val1 (val0 < val1)
     in [(alu1, - alu4),
         (alu0, alu6)])"

interpretation hc32: exchange_kernel "(2, 32, 1)" "(8, 16, 1)" 32 256
  "\<lambda>(gx, gy, gz) (lx, ly, lz). ly + 16 * gx" "\<lambda>(gx, gy, gz) (lx, ly, lz). lx + 8 * gy"
  "\<lambda>a b. (a div 16, b div 8, 0)" "\<lambda>a b. (b mod 8, a mod 16, 0)"
  "arr c" "launch (E_32_2_8_16_2 c)" for c
  by unfold_locales (auto simp: dims_iff launch_def sort_kernel E_32_2_8_16_2_def)

definition E_16_4_8_16_2 :: "f32 buf \<Rightarrow> vec3 \<Rightarrow> vec3 \<Rightarrow> f32 stores" where
  "E_16_4_8_16_2 data1 gindex lindex =
    (let gidx0 = vx gindex;
         gidx1 = vy gindex;
         lidx0 = vx lindex;
         lidx1 = vy lindex;
         precast0 = gidx0;
         precast1 = gidx1;
         precast2 = lidx0;
         precast3 = push_bit 4 precast0;
         precast4 = push_bit 10 precast1;
         precast5 = push_bit 7 precast2;
         alu0 = lidx1 + precast3 + precast4 + precast5;
         val0 = rd data1 alu0;
         alu1 = alu0 + 64;
         val1 = rd data1 alu1;
         alu2 = - val0;
         alu3 = - val1;
         alu4 = select alu2 alu3 (alu2 < alu3);
         alu6 = select val0 val1 (val0 < val1)
     in [(alu1, - alu4),
         (alu0, alu6)])"

interpretation hc64: exchange_kernel "(4, 16, 1)" "(8, 16, 1)" 64 128
  "\<lambda>(gx, gy, gz) (lx, ly, lz). ly + 16 * gx" "\<lambda>(gx, gy, gz) (lx, ly, lz). lx + 8 * gy"
  "\<lambda>a b. (a div 16, b div 8, 0)" "\<lambda>a b. (b mod 8, a mod 16, 0)"
  "arr c" "launch (E_16_4_8_16_2 c)" for c
  by unfold_locales (auto simp: dims_iff launch_def sort_kernel E_16_4_8_16_2_def)

definition E_8_8_8_16_2 :: "f32 buf \<Rightarrow> vec3 \<Rightarrow> vec3 \<Rightarrow> f32 stores" where
  "E_8_8_8_16_2 data1 gindex lindex =
    (let gidx0 = vx gindex;
         gidx1 = vy gindex;
         lidx0 = vx lindex;
         lidx1 = vy lindex;
         precast0 = gidx0;
         precast1 = gidx1;
         precast2 = lidx0;
         precast3 = push_bit 4 precast0;
         precast4 = push_bit 11 precast1;
         precast5 = push_bit 8 precast2;
         alu0 = lidx1 + precast3 + precast4 + precast5;
         val0 = rd data1 alu0;
         alu1 = alu0 + 128;
         val1 = rd data1 alu1;
         alu2 = - val0;
         alu3 = - val1;
         alu4 = select alu2 alu3 (alu2 < alu3);
         alu6 = select val0 val1 (val0 < val1)
     in [(alu1, - alu4),
         (alu0, alu6)])"

interpretation hc128: exchange_kernel "(8, 8, 1)" "(8, 16, 1)" 128 64
  "\<lambda>(gx, gy, gz) (lx, ly, lz). ly + 16 * gx" "\<lambda>(gx, gy, gz) (lx, ly, lz). lx + 8 * gy"
  "\<lambda>a b. (a div 16, b div 8, 0)" "\<lambda>a b. (b mod 8, a mod 16, 0)"
  "arr c" "launch (E_8_8_8_16_2 c)" for c
  by unfold_locales (auto simp: dims_iff launch_def sort_kernel E_8_8_8_16_2_def)

definition E_4_16_8_16_2 :: "f32 buf \<Rightarrow> vec3 \<Rightarrow> vec3 \<Rightarrow> f32 stores" where
  "E_4_16_8_16_2 data1 gindex lindex =
    (let gidx0 = vx gindex;
         gidx1 = vy gindex;
         lidx0 = vx lindex;
         lidx1 = vy lindex;
         precast0 = gidx0;
         precast1 = gidx1;
         precast2 = lidx0;
         precast3 = push_bit 4 precast0;
         precast4 = push_bit 12 precast1;
         precast5 = push_bit 9 precast2;
         alu0 = lidx1 + precast3 + precast4 + precast5;
         val0 = rd data1 alu0;
         alu1 = alu0 + 256;
         val1 = rd data1 alu1;
         alu2 = - val0;
         alu3 = - val1;
         alu4 = select alu2 alu3 (alu2 < alu3);
         alu6 = select val0 val1 (val0 < val1)
     in [(alu1, - alu4),
         (alu0, alu6)])"

interpretation hc256: exchange_kernel "(16, 4, 1)" "(8, 16, 1)" 256 32
  "\<lambda>(gx, gy, gz) (lx, ly, lz). ly + 16 * gx" "\<lambda>(gx, gy, gz) (lx, ly, lz). lx + 8 * gy"
  "\<lambda>a b. (a div 16, b div 8, 0)" "\<lambda>a b. (b mod 8, a mod 16, 0)"
  "arr c" "launch (E_4_16_8_16_2 c)" for c
  by unfold_locales (auto simp: dims_iff launch_def sort_kernel E_4_16_8_16_2_def)

definition E_2_32_8_16_2 :: "f32 buf \<Rightarrow> vec3 \<Rightarrow> vec3 \<Rightarrow> f32 stores" where
  "E_2_32_8_16_2 data1 gindex lindex =
    (let gidx0 = vx gindex;
         gidx1 = vy gindex;
         lidx0 = vx lindex;
         lidx1 = vy lindex;
         precast0 = gidx0;
         precast1 = gidx1;
         precast2 = lidx0;
         precast3 = push_bit 4 precast0;
         precast4 = push_bit 13 precast1;
         precast5 = push_bit 10 precast2;
         alu0 = lidx1 + precast3 + precast4 + precast5;
         val0 = rd data1 alu0;
         alu1 = alu0 + 512;
         val1 = rd data1 alu1;
         alu2 = - val0;
         alu3 = - val1;
         alu4 = select alu2 alu3 (alu2 < alu3);
         alu6 = select val0 val1 (val0 < val1)
     in [(alu1, - alu4),
         (alu0, alu6)])"

interpretation hc512: exchange_kernel "(32, 2, 1)" "(8, 16, 1)" 512 16
  "\<lambda>(gx, gy, gz) (lx, ly, lz). ly + 16 * gx" "\<lambda>(gx, gy, gz) (lx, ly, lz). lx + 8 * gy"
  "\<lambda>a b. (a div 16, b div 8, 0)" "\<lambda>a b. (b mod 8, a mod 16, 0)"
  "arr c" "launch (E_2_32_8_16_2 c)" for c
  by unfold_locales (auto simp: dims_iff launch_def sort_kernel E_2_32_8_16_2_def)

definition E_64_8_16_2n1 :: "f32 buf \<Rightarrow> vec3 \<Rightarrow> vec3 \<Rightarrow> f32 stores" where
  "E_64_8_16_2n1 data1 gindex lindex =
    (let gidx0 = vx gindex;
         lidx0 = vx lindex;
         lidx1 = vy lindex;
         precast0 = gidx0;
         precast1 = lidx0;
         precast2 = push_bit 4 precast0;
         precast3 = push_bit 11 precast1;
         alu0 = lidx1 + precast2 + precast3;
         val0 = rd data1 alu0;
         alu1 = alu0 + 1024;
         val1 = rd data1 alu1;
         alu2 = - val0;
         alu3 = - val1;
         alu4 = select alu2 alu3 (alu2 < alu3);
         alu6 = select val0 val1 (val0 < val1)
     in [(alu1, - alu4),
         (alu0, alu6)])"

interpretation hc1024: exchange_kernel "(64, 1, 1)" "(8, 16, 1)" 1024 8
  "\<lambda>(gx, gy, gz) (lx, ly, lz). ly + 16 * gx" "\<lambda>(gx, gy, gz) (lx, ly, lz). lx"
  "\<lambda>a b. (a div 16, 0, 0)" "\<lambda>a b. (b, a mod 16, 0)"
  "arr c" "launch (E_64_8_16_2n1 c)" for c
  by unfold_locales (auto simp: dims_iff launch_def sort_kernel E_64_8_16_2n1_def)

definition E_128_4_16_2 :: "f32 buf \<Rightarrow> vec3 \<Rightarrow> vec3 \<Rightarrow> f32 stores" where
  "E_128_4_16_2 data1 gindex lindex =
    (let gidx0 = vx gindex;
         lidx0 = vx lindex;
         lidx1 = vy lindex;
         precast0 = gidx0;
         precast1 = lidx0;
         precast2 = push_bit 4 precast0;
         precast3 = push_bit 12 precast1;
         alu0 = lidx1 + precast2 + precast3;
         val0 = rd data1 alu0;
         alu1 = alu0 + 2048;
         val1 = rd data1 alu1;
         alu2 = - val0;
         alu3 = - val1;
         alu4 = select alu2 alu3 (alu2 < alu3);
         alu6 = select val0 val1 (val0 < val1)
     in [(alu1, - alu4),
         (alu0, alu6)])"

interpretation hc2048: exchange_kernel "(128, 1, 1)" "(4, 16, 1)" 2048 4
  "\<lambda>(gx, gy, gz) (lx, ly, lz). ly + 16 * gx" "\<lambda>(gx, gy, gz) (lx, ly, lz). lx"
  "\<lambda>a b. (a div 16, 0, 0)" "\<lambda>a b. (b, a mod 16, 0)"
  "arr c" "launch (E_128_4_16_2 c)" for c
  by unfold_locales (auto simp: dims_iff launch_def sort_kernel E_128_4_16_2_def)

definition E_256_2_16_2 :: "f32 buf \<Rightarrow> vec3 \<Rightarrow> vec3 \<Rightarrow> f32 stores" where
  "E_256_2_16_2 data1 gindex lindex =
    (let gidx0 = vx gindex;
         lidx0 = vx lindex;
         lidx1 = vy lindex;
         precast0 = gidx0;
         precast1 = lidx0;
         precast2 = push_bit 4 precast0;
         precast3 = push_bit 13 precast1;
         alu0 = lidx1 + precast2 + precast3;
         val0 = rd data1 alu0;
         alu1 = alu0 + 4096;
         val1 = rd data1 alu1;
         alu2 = - val0;
         alu3 = - val1;
         alu4 = select alu2 alu3 (alu2 < alu3);
         alu6 = select val0 val1 (val0 < val1)
     in [(alu1, - alu4),
         (alu0, alu6)])"

interpretation hc4096: exchange_kernel "(256, 1, 1)" "(2, 16, 1)" 4096 2
  "\<lambda>(gx, gy, gz) (lx, ly, lz). ly + 16 * gx" "\<lambda>(gx, gy, gz) (lx, ly, lz). lx"
  "\<lambda>a b. (a div 16, 0, 0)" "\<lambda>a b. (b, a mod 16, 0)"
  "arr c" "launch (E_256_2_16_2 c)" for c
  by unfold_locales (auto simp: dims_iff launch_def sort_kernel E_256_2_16_2_def)

section \<open>Compare-exchange across the reversed upper half\<close>

definition E_256_32_2n1 :: "f32 buf \<Rightarrow> vec3 \<Rightarrow> vec3 \<Rightarrow> f32 stores" where
  "E_256_32_2n1 data1 gindex lindex =
    (let gidx0 = vx gindex;
         lidx0 = vx lindex;
         precast0 = gidx0;
         precast1 = push_bit 5 precast0;
         alu0 = lidx0 + precast1;
         val0 = rd data1 alu0;
         val1 = rd data1 (((gidx0 * (- 32)) - lidx0) + 16383);
         alu1 = - val0;
         alu2 = - val1;
         alu3 = select alu1 alu2 (alu1 < alu2);
         alu5 = select val0 val1 (val0 < val1)
     in [(alu0 + 8192, - alu3),
         (alu0, alu5)])"

text \<open>This kernel reads the upper half backwards, so it also starts the last stage.\<close>

lemma flip_halves:
  shows "i < 8192 \<Longrightarrow> flip 8192 s i = s i"
    and "8192 \<le> i \<Longrightarrow> i < 16384 \<Longrightarrow> flip 8192 s i = s (24575 - i)"
proof -
  show "i < 8192 \<Longrightarrow> flip 8192 s i = s i" by (simp add: flip_def)
  assume i: "8192 \<le> i" "i < 16384"
  then have "i div 8192 = 1" by linarith
  then show "flip 8192 s i = s (24575 - i)"
    using i div_mult_mod_eq[of i 8192] by (simp add: flip_def) (rule arg_cong[of _ _ s], linarith)
qed

interpretation hc8192: exchange_kernel "(256, 1, 1)" "(32, 1, 1)" 8192 1
  "\<lambda>(gx, gy, gz) (lx, ly, lz). lx + 32 * gx" "\<lambda>(gx, gy, gz) (lx, ly, lz). 0"
  "\<lambda>a b. (a div 32, 0, 0)" "\<lambda>a b. (a mod 32, 0, 0)"
  "flip 8192 (arr c)" "launch (E_256_32_2n1 c)" for c
  by unfold_locales (auto simp: dims_iff launch_def sort_kernel flip_halves E_256_32_2n1_def)

section \<open>Reversal kernels\<close>

definition E_64_32_2_2_2 :: "f32 buf \<Rightarrow> vec3 \<Rightarrow> vec3 \<Rightarrow> f32 stores" where
  "E_64_32_2_2_2 data1 gindex lindex =
    (let gidx0 = vx gindex;
         lidx0 = vx lindex;
         lidx1 = vy lindex;
         precast0 = gidx0;
         precast1 = lidx0;
         precast2 = push_bit 8 precast0;
         precast3 = push_bit 3 precast1;
         alu0 = precast2 + precast3;
         alu1 = lidx1 + alu0;
         val0 = rd data1 alu1;
         alu2 = alu1 + 6;
         val1 = rd data1 alu2;
         alu3 = alu0 - lidx1;
         val2 = rd data1 (alu3 + 3);
         val3 = rd data1 (alu3 + 5)
     in [(alu1, val0),
         (alu2, val3),
         (alu1 + 2, val2),
         (alu1 + 4, val1)])"

interpretation rev2: flip_kernel "(64, 1, 1)" "(32, 2, 1)" 2 2048
  "\<lambda>(gx, gy, gz) (lx, ly, lz). ly" "\<lambda>(gx, gy, gz) (lx, ly, lz). lx + 32 * gx"
  "\<lambda>a b. (b div 32, 0, 0)" "\<lambda>a b. (b mod 32, a, 0)"
  "arr c" "launch (E_64_32_2_2_2 c)" for c
  by unfold_locales (auto simp: dims_iff launch_def sort_kernel E_64_32_2_2_2_def)

definition E_32_32_4_2_2 :: "f32 buf \<Rightarrow> vec3 \<Rightarrow> vec3 \<Rightarrow> f32 stores" where
  "E_32_32_4_2_2 data1 gindex lindex =
    (let gidx0 = vx gindex;
         lidx0 = vx lindex;
         lidx1 = vy lindex;
         precast0 = gidx0;
         precast1 = lidx0;
         precast2 = push_bit 9 precast0;
         precast3 = push_bit 4 precast1;
         alu0 = precast2 + precast3;
         alu1 = lidx1 + alu0;
         val0 = rd data1 alu1;
         alu2 = alu1 + 12;
         val1 = rd data1 alu2;
         alu3 = alu0 - lidx1;
         val2 = rd data1 (alu3 + 7);
         val3 = rd data1 (alu3 + 11)
     in [(alu1, val0),
         (alu2, val3),
         (alu1 + 4, val2),
         (alu1 + 8, val1)])"

interpretation rev4: flip_kernel "(32, 1, 1)" "(32, 4, 1)" 4 1024
  "\<lambda>(gx, gy, gz) (lx, ly, lz). ly" "\<lambda>(gx, gy, gz) (lx, ly, lz). lx + 32 * gx"
  "\<lambda>a b. (b div 32, 0, 0)" "\<lambda>a b. (b mod 32, a, 0)"
  "arr c" "launch (E_32_32_4_2_2 c)" for c
  by unfold_locales (auto simp: dims_iff launch_def sort_kernel E_32_32_4_2_2_def)

definition E_32_16_8_2_2 :: "f32 buf \<Rightarrow> vec3 \<Rightarrow> vec3 \<Rightarrow> f32 stores" where
  "E_32_16_8_2_2 data1 gindex lindex =
    (let gidx0 = vx gindex;
         lidx0 = vx lindex;
         lidx1 = vy lindex;
         precast0 = gidx0;
         precast1 = lidx0;
         precast2 = push_bit 9 precast0;
         precast3 = push_bit 5 precast1;
         alu0 = precast2 + precast3;
         alu1 = lidx1 + alu0;
         val0 = rd data1 alu1;
         alu2 = alu1 + 24;
         val1 = rd data1 alu2;
         alu3 = alu0 - lidx1;
         val2 = rd data1 (alu3 + 15);
         val3 = rd data1 (alu3 + 23)
     in [(alu1, val0),
         (alu2, val3),
         (alu1 + 8, val2),
         (alu1 + 16, val1)])"

interpretation rev8: flip_kernel "(32, 1, 1)" "(16, 8, 1)" 8 512
  "\<lambda>(gx, gy, gz) (lx, ly, lz). ly" "\<lambda>(gx, gy, gz) (lx, ly, lz). lx + 16 * gx"
  "\<lambda>a b. (b div 16, 0, 0)" "\<lambda>a b. (b mod 16, a, 0)"
  "arr c" "launch (E_32_16_8_2_2 c)" for c
  by unfold_locales (auto simp: dims_iff launch_def sort_kernel E_32_16_8_2_2_def)

definition E_32_8_16_2_2 :: "f32 buf \<Rightarrow> vec3 \<Rightarrow> vec3 \<Rightarrow> f32 stores" where
  "E_32_8_16_2_2 data1 gindex lindex =
    (let gidx0 = vx gindex;
         lidx0 = vx lindex;
         lidx1 = vy lindex;
         precast0 = gidx0;
         precast1 = lidx0;
         precast2 = push_bit 9 precast0;
         precast3 = push_bit 6 precast1;
         alu0 = precast2 + precast3;
         alu1 = lidx1 + alu0;
         val0 = rd data1 alu1;
         alu2 = alu1 + 48;
         val1 = rd data1 alu2;
         alu3 = alu0 - lidx1;
         val2 = rd data1 (alu3 + 31);
         val3 = rd data1 (alu3 + 47)
     in [(alu1, val0),
         (alu2, val3),
         (alu1 + 16, val2),
         (alu1 + 32, val1)])"

interpretation rev16: flip_kernel "(32, 1, 1)" "(8, 16, 1)" 16 256
  "\<lambda>(gx, gy, gz) (lx, ly, lz). ly" "\<lambda>(gx, gy, gz) (lx, ly, lz). lx + 8 * gx"
  "\<lambda>a b. (b div 8, 0, 0)" "\<lambda>a b. (b mod 8, a, 0)"
  "arr c" "launch (E_32_8_16_2_2 c)" for c
  by unfold_locales (auto simp: dims_iff launch_def sort_kernel E_32_8_16_2_2_def)

definition E_16_2_8_16_2_2 :: "f32 buf \<Rightarrow> vec3 \<Rightarrow> vec3 \<Rightarrow> f32 stores" where
  "E_16_2_8_16_2_2 data1 gindex lindex =
    (let gidx0 = vx gindex;
         gidx1 = vy gindex;
         lidx0 = vx lindex;
         lidx1 = vy lindex;
         precast0 = gidx0;
         precast1 = gidx1;
         precast2 = lidx0;
         precast3 = push_bit 4 precast0;
         precast4 = push_bit 10 precast1;
         cast0 = precast4;
         precast5 = push_bit 7 precast2;
         cast1 = precast5;
         alu0 = lidx1 + precast3 + cast0 + cast1;
         val0 = rd data1 alu0;
         alu1 = alu0 + 96;
         val1 = rd data1 alu1;
         alu2 = (gidx0 * (- 16) + cast0 + cast1) - lidx1;
         val2 = rd data1 (alu2 + 63);
         val3 = rd data1 (alu2 + 95)
     in [(alu0, val0),
         (alu1, val3),
         (alu0 + 32, val2),
         (alu0 + 64, val1)])"

interpretation rev32: flip_kernel "(2, 16, 1)" "(8, 16, 1)" 32 128
  "\<lambda>(gx, gy, gz) (lx, ly, lz). ly + 16 * gx" "\<lambda>(gx, gy, gz) (lx, ly, lz). lx + 8 * gy"
  "\<lambda>a b. (a div 16, b div 8, 0)" "\<lambda>a b. (b mod 8, a mod 16, 0)"
  "arr c" "launch (E_16_2_8_16_2_2 c)" for c
  by unfold_locales (auto simp: dims_iff launch_def sort_kernel E_16_2_8_16_2_2_def)

definition E_8_4_8_16_2_2 :: "f32 buf \<Rightarrow> vec3 \<Rightarrow> vec3 \<Rightarrow> f32 stores" where
  "E_8_4_8_16_2_2 data1 gindex lindex =
    (let gidx0 = vx gindex;
         gidx1 = vy gindex;
         lidx0 = vx lindex;
         lidx1 = vy lindex;
         precast0 = gidx0;
         precast1 = gidx1;
         precast2 = lidx0;
         precast3 = push_bit 4 precast0;
         precast4 = push_bit 11 precast1;
         cast0 = precast4;
         precast5 = push_bit 8 precast2;
         cast1 = precast5;
         alu0 = lidx1 + precast3 + cast0 + cast1;
         val0 = rd data1 alu0;
         alu1 = alu0 + 192;
         val1 = rd data1 alu1;
         alu2 = (gidx0 * (- 16) + cast0 + cast1) - lidx1;
         val2 = rd data1 (alu2 + 127);
         val3 = rd data1 (alu2 + 191)
     in [(alu0, val0),
         (alu1, val3),
         (alu0 + 64, val2),
         (alu0 + 128, val1)])"

interpretation rev64: flip_kernel "(4, 8, 1)" "(8, 16, 1)" 64 64
  "\<lambda>(gx, gy, gz) (lx, ly, lz). ly + 16 * gx" "\<lambda>(gx, gy, gz) (lx, ly, lz). lx + 8 * gy"
  "\<lambda>a b. (a div 16, b div 8, 0)" "\<lambda>a b. (b mod 8, a mod 16, 0)"
  "arr c" "launch (E_8_4_8_16_2_2 c)" for c
  by unfold_locales (auto simp: dims_iff launch_def sort_kernel E_8_4_8_16_2_2_def)

definition E_4_8_8_16_2_2 :: "f32 buf \<Rightarrow> vec3 \<Rightarrow> vec3 \<Rightarrow> f32 stores" where
  "E_4_8_8_16_2_2 data1 gindex lindex =
    (let gidx0 = vx gindex;
         gidx1 = vy gindex;
         lidx0 = vx lindex;
         lidx1 = vy lindex;
         precast0 = gidx0;
         precast1 = gidx1;
         precast2 = lidx0;
         precast3 = push_bit 4 precast0;
         precast4 = push_bit 12 precast1;
         cast0 = precast4;
         precast5 = push_bit 9 precast2;
         cast1 = precast5;
         alu0 = lidx1 + precast3 + cast0 + cast1;
         val0 = rd data1 alu0;
         alu1 = alu0 + 384;
         val1 = rd data1 alu1;
         alu2 = (gidx0 * (- 16) + cast0 + cast1) - lidx1;
         val2 = rd data1 (alu2 + 255);
         val3 = rd data1 (alu2 + 383)
     in [(alu0, val0),
         (alu1, val3),
         (alu0 + 128, val2),
         (alu0 + 256, val1)])"

interpretation rev128: flip_kernel "(8, 4, 1)" "(8, 16, 1)" 128 32
  "\<lambda>(gx, gy, gz) (lx, ly, lz). ly + 16 * gx" "\<lambda>(gx, gy, gz) (lx, ly, lz). lx + 8 * gy"
  "\<lambda>a b. (a div 16, b div 8, 0)" "\<lambda>a b. (b mod 8, a mod 16, 0)"
  "arr c" "launch (E_4_8_8_16_2_2 c)" for c
  by unfold_locales (auto simp: dims_iff launch_def sort_kernel E_4_8_8_16_2_2_def)

definition E_2_16_8_16_2_2 :: "f32 buf \<Rightarrow> vec3 \<Rightarrow> vec3 \<Rightarrow> f32 stores" where
  "E_2_16_8_16_2_2 data1 gindex lindex =
    (let gidx0 = vx gindex;
         gidx1 = vy gindex;
         lidx0 = vx lindex;
         lidx1 = vy lindex;
         precast0 = gidx0;
         precast1 = gidx1;
         precast2 = lidx0;
         precast3 = push_bit 4 precast0;
         precast4 = push_bit 13 precast1;
         cast0 = precast4;
         precast5 = push_bit 10 precast2;
         cast1 = precast5;
         alu0 = lidx1 + precast3 + cast0 + cast1;
         val0 = rd data1 alu0;
         alu1 = alu0 + 768;
         val1 = rd data1 alu1;
         alu2 = (gidx0 * (- 16) + cast0 + cast1) - lidx1;
         val2 = rd data1 (alu2 + 511);
         val3 = rd data1 (alu2 + 767)
     in [(alu0, val0),
         (alu1, val3),
         (alu0 + 256, val2),
         (alu0 + 512, val1)])"

interpretation rev256: flip_kernel "(16, 2, 1)" "(8, 16, 1)" 256 16
  "\<lambda>(gx, gy, gz) (lx, ly, lz). ly + 16 * gx" "\<lambda>(gx, gy, gz) (lx, ly, lz). lx + 8 * gy"
  "\<lambda>a b. (a div 16, b div 8, 0)" "\<lambda>a b. (b mod 8, a mod 16, 0)"
  "arr c" "launch (E_2_16_8_16_2_2 c)" for c
  by unfold_locales (auto simp: dims_iff launch_def sort_kernel E_2_16_8_16_2_2_def)

definition E_32_8_16_2_2n1 :: "f32 buf \<Rightarrow> vec3 \<Rightarrow> vec3 \<Rightarrow> f32 stores" where
  "E_32_8_16_2_2n1 data1 gindex lindex =
    (let gidx0 = vx gindex;
         lidx0 = vx lindex;
         lidx1 = vy lindex;
         precast0 = gidx0;
         precast1 = lidx0;
         precast2 = push_bit 4 precast0;
         precast3 = push_bit 11 precast1;
         cast0 = precast3;
         alu0 = lidx1 + precast2 + cast0;
         val0 = rd data1 alu0;
         alu1 = alu0 + 1536;
         val1 = rd data1 alu1;
         alu2 = (gidx0 * (- 16) + cast0) - lidx1;
         val2 = rd data1 (alu2 + 1023);
         val3 = rd data1 (alu2 + 1535)
     in [(alu0, val0),
         (alu1, val3),
         (alu0 + 512, val2),
         (alu0 + 1024, val1)])"

interpretation rev512: flip_kernel "(32, 1, 1)" "(8, 16, 1)" 512 8
  "\<lambda>(gx, gy, gz) (lx, ly, lz). ly + 16 * gx" "\<lambda>(gx, gy, gz) (lx, ly, lz). lx"
  "\<lambda>a b. (a div 16, 0, 0)" "\<lambda>a b. (b, a mod 16, 0)"
  "arr c" "launch (E_32_8_16_2_2n1 c)" for c
  by unfold_locales (auto simp: dims_iff launch_def sort_kernel E_32_8_16_2_2n1_def)

definition E_64_4_16_2_2 :: "f32 buf \<Rightarrow> vec3 \<Rightarrow> vec3 \<Rightarrow> f32 stores" where
  "E_64_4_16_2_2 data1 gindex lindex =
    (let gidx0 = vx gindex;
         lidx0 = vx lindex;
         lidx1 = vy lindex;
         precast0 = gidx0;
         precast1 = lidx0;
         precast2 = push_bit 4 precast0;
         precast3 = push_bit 12 precast1;
         cast0 = precast3;
         alu0 = lidx1 + precast2 + cast0;
         val0 = rd data1 alu0;
         alu1 = alu0 + 3072;
         val1 = rd data1 alu1;
         alu2 = (gidx0 * (- 16) + cast0) - lidx1;
         val2 = rd data1 (alu2 + 2047);
         val3 = rd data1 (alu2 + 3071)
     in [(alu0, val0),
         (alu1, val3),
         (alu0 + 1024, val2),
         (alu0 + 2048, val1)])"

interpretation rev1024: flip_kernel "(64, 1, 1)" "(4, 16, 1)" 1024 4
  "\<lambda>(gx, gy, gz) (lx, ly, lz). ly + 16 * gx" "\<lambda>(gx, gy, gz) (lx, ly, lz). lx"
  "\<lambda>a b. (a div 16, 0, 0)" "\<lambda>a b. (b, a mod 16, 0)"
  "arr c" "launch (E_64_4_16_2_2 c)" for c
  by unfold_locales (auto simp: dims_iff launch_def sort_kernel E_64_4_16_2_2_def)

definition E_128_2_16_2_2 :: "f32 buf \<Rightarrow> vec3 \<Rightarrow> vec3 \<Rightarrow> f32 stores" where
  "E_128_2_16_2_2 data1 gindex lindex =
    (let gidx0 = vx gindex;
         lidx0 = vx lindex;
         lidx1 = vy lindex;
         precast0 = gidx0;
         precast1 = lidx0;
         precast2 = push_bit 4 precast0;
         precast3 = push_bit 13 precast1;
         cast0 = precast3;
         alu0 = lidx1 + precast2 + cast0;
         val0 = rd data1 alu0;
         alu1 = alu0 + 6144;
         val1 = rd data1 alu1;
         alu2 = (gidx0 * (- 16) + cast0) - lidx1;
         val2 = rd data1 (alu2 + 4095);
         val3 = rd data1 (alu2 + 6143)
     in [(alu0, val0),
         (alu1, val3),
         (alu0 + 2048, val2),
         (alu0 + 4096, val1)])"

interpretation rev2048: flip_kernel "(128, 1, 1)" "(2, 16, 1)" 2048 2
  "\<lambda>(gx, gy, gz) (lx, ly, lz). ly + 16 * gx" "\<lambda>(gx, gy, gz) (lx, ly, lz). lx"
  "\<lambda>a b. (a div 16, 0, 0)" "\<lambda>a b. (b, a mod 16, 0)"
  "arr c" "launch (E_128_2_16_2_2 c)" for c
  by unfold_locales (auto simp: dims_iff launch_def sort_kernel E_128_2_16_2_2_def)

definition E_128_32_2_2n1 :: "f32 buf \<Rightarrow> vec3 \<Rightarrow> vec3 \<Rightarrow> f32 stores" where
  "E_128_32_2_2n1 data1 gindex lindex =
    (let gidx0 = vx gindex;
         lidx0 = vx lindex;
         precast0 = gidx0;
         precast1 = push_bit 5 precast0;
         alu0 = lidx0 + precast1;
         val0 = rd data1 alu0;
         alu1 = alu0 + 12288;
         val1 = rd data1 alu1;
         alu2 = (gidx0 * (- 32)) - lidx0;
         val2 = rd data1 (alu2 + 8191);
         val3 = rd data1 (alu2 + 12287)
     in [(alu0, val0),
         (alu1, val3),
         (alu0 + 4096, val2),
         (alu0 + 8192, val1)])"

interpretation rev4096: flip_kernel "(128, 1, 1)" "(32, 1, 1)" 4096 1
  "\<lambda>(gx, gy, gz) (lx, ly, lz). lx + 32 * gx" "\<lambda>(gx, gy, gz) (lx, ly, lz). 0"
  "\<lambda>a b. (a div 32, 0, 0)" "\<lambda>a b. (a mod 32, 0, 0)"
  "arr c" "launch (E_128_32_2_2n1 c)" for c
  by unfold_locales (auto simp: dims_iff launch_def sort_kernel E_128_32_2_2n1_def)

end
