(* ===== verification/Sort.thy ===== *)
theory Sort
  imports SortKernels
begin

text \<open>
  The sort of the detector's scores: passes 101 to 217 of the inference closure of \<open>setupNet\<close>
  (\<open>server/cherum/static/net.js\<close>), which alternate between \<open>buf_343\<close> and \<open>buf_346\<close>. Each
  shader is shown to perform one or two operations of the bitonic network on its input
  buffer; the concatenation of all of them is the network on 16384 cells.
\<close>

section \<open>Operations of the network\<close>

datatype op = Hc nat | Rev nat

primrec run_op :: "op \<Rightarrow> (nat \<Rightarrow> f32) \<Rightarrow> nat \<Rightarrow> f32" where
  "run_op (Hc d) s = hc vmax vmin d s"
| "run_op (Rev b) s = flip b s"

primrec op_fits :: "nat \<Rightarrow> op \<Rightarrow> bool" where
  "op_fits n (Hc d) \<longleftrightarrow> 0 < d \<and> 2 * d dvd n"
| "op_fits n (Rev b) \<longleftrightarrow> 0 < b \<and> b dvd n"

definition run_ops :: "op list \<Rightarrow> (nat \<Rightarrow> f32) \<Rightarrow> nat \<Rightarrow> f32" where
  "run_ops ops s = fold run_op ops s"

lemma run_ops_simps [simp]:
  "run_ops [] s = s" "run_ops (x # ops) s = run_ops ops (run_op x s)"
  "run_ops (xs @ ys) s = run_ops ys (run_ops xs s)"
  by (simp_all add: run_ops_def)

text \<open>An operation that fits a buffer only depends on the elements of the buffer.\<close>

lemma hc_cong:
  assumes "0 < d" and "2 * d dvd n" and "i < n" and "\<And>j. j < n \<Longrightarrow> s j = t j"
  shows "hc hi lo d s i = hc hi lo d t i"
proof (cases "even (i div d)")
  case True
  obtain c where n: "n = 2 * d * c" using assms(2) by blast
  then have "i div d < 2 * c" using assms(1,3) by (simp add: div_less_iff_less_mult mult_ac)
  then have "i div d + 2 \<le> 2 * c" using True by (auto elim!: evenE)
  then have "(i div d + 2) * d \<le> n" using n mult_le_mono1[of "i div d + 2" "2 * c" d] by (simp add: mult_ac)
  moreover have "i < (i div d + 1) * d" using assms(1) dividend_less_div_times[of d i] by simp
  ultimately have "i + d < n" by (simp add: algebra_simps)
  then show ?thesis using True assms(3,4) by (simp add: hc_def)
next
  case False
  then show ?thesis using assms(3,4) by (simp add: hc_def)
qed

lemma run_op_cong:
  "op_fits n x \<Longrightarrow> i < n \<Longrightarrow> (\<And>j. j < n \<Longrightarrow> s j = t j) \<Longrightarrow> run_op x s i = run_op x t i"
  by (cases x) (auto intro: hc_cong simp: flip_reflect reflect_less)

lemma run_ops_cong:
  "list_all (op_fits n) ops \<Longrightarrow> i < n \<Longrightarrow> (\<And>j. j < n \<Longrightarrow> s j = t j) \<Longrightarrow> run_ops ops s i = run_ops ops t i"
proof (induction ops arbitrary: s t)
  case (Cons x ops)
  have "run_op x s j = run_op x t j" if "j < n" for j
    using Cons.prems(1,3) that by (auto intro: run_op_cong)
  then show ?case using Cons.IH[of "run_op x s" "run_op x t"] Cons.prems(1,2) by simp
qed simp

text \<open>The network as a list of operations.\<close>

primrec network_ops :: "nat \<Rightarrow> op list" where
  "network_ops 0 = []"
| "network_ops (Suc k) =
     network_ops k @ Rev (2 ^ Suc k) # map (\<lambda>i. Hc (2 ^ i)) (rev [0..<Suc k]) @ [Rev (2 ^ Suc k)]"

lemma run_halve: "run_ops (map (\<lambda>i. Hc (2 ^ i)) (rev [0..<k])) s = halve vmax vmin k s"
  by (induction k arbitrary: s) simp_all

lemma run_network: "run_ops (network_ops k) s = network vmax vmin k s"
  by (induction k) (simp_all add: stage_def run_halve del: upt_Suc power_Suc)

section \<open>What a shader performs on its buffer\<close>

definition ops_list :: "op list \<Rightarrow> f32 list \<Rightarrow> f32 list" where
  "ops_list ops xs = map (run_ops ops (elem xs)) [0..<16384]"

lemma ops_list_append:
  assumes "list_all (op_fits 16384) ys"
  shows "ops_list ys (ops_list xs l) = ops_list (xs @ ys) l"
proof -
  have "run_ops ys (elem (ops_list xs l)) i = run_ops ys (run_ops xs (elem l)) i" if "i < 16384" for i
    by (rule run_ops_cong[OF assms that]) (simp add: elem_def ops_list_def)
  then show ?thesis by (simp add: ops_list_def)
qed

definition performs :: "shader \<Rightarrow> dim \<Rightarrow> op list \<Rightarrow> bool" where
  "performs S G ops \<longleftrightarrow> list_all (op_fits 16384) ops \<and> (\<forall>bs D D'. addComputePass S bs G D D' \<longrightarrow>
     length (fmem D (bs ! 0)) = 16384 \<longrightarrow> length (fmem D (bs ! 1)) = 16384 \<longrightarrow>
     D' = D\<lparr>fmem := (fmem D)(bs ! 0 := ops_list ops (fmem D (bs ! 1)))\<rparr>)"

lemma performsI:
  assumes "\<And>c. kernel_contract G L (launch (k c)) n (run_ops ops (arr c))"
    and "n = 16384" and "list_all (op_fits 16384) ops"
  shows "performs (FShader L (\<lambda>f i. k (f 1))) G ops"
proof -
  have "D' = D\<lparr>fmem := (fmem D)(bs ! 0 := ops_list ops (fmem D (bs ! 1)))\<rparr>"
    if p: "addComputePass (FShader L (\<lambda>f i. k (f 1))) bs G D D'"
      and len: "length (fmem D (bs ! 0)) = 16384" "length (fmem D (bs ! 1)) = 16384" for bs D D'
    using p
  proof (rule f32_passE)
    fix v w :: "nat \<Rightarrow> i32 \<Rightarrow> f32" and w' :: "nat \<Rightarrow> i32 \<Rightarrow> i32" and ys
    let ?c = "views (fmem D) v bs 1"
    assume D': "D' = D\<lparr>fmem := (fmem D)(bs ! 0 := ys)\<rparr>"
      and d: "dispatched G L (launch (k ?c)) (fmem D (bs ! 0)) ys"
    have "ys = map (run_ops ops (arr ?c)) [0..<16384]"
      using kernel_contract.result[OF assms(1) d] len assms(2) by simp
    moreover have "run_ops ops (arr ?c) i = run_ops ops (elem (fmem D (bs ! 1))) i" if "i < 16384" for i
      by (rule run_ops_cong[OF assms(3) that]) (use len in \<open>simp add: arr_def elem_def rd_of_nat views_def\<close>)
    ultimately have "ys = ops_list ops (fmem D (bs ! 1))" unfolding ops_list_def by auto
    then show ?thesis by (simp add: D')
  qed
  then show ?thesis using assms(3) by (auto simp: performs_def)
qed

lemma performs_hc:
  assumes "\<And>c. kernel_contract G L (launch (k c)) n (hc vmax vmin d (arr c))"
    and "n = 16384" and "0 < d" and "2 * d dvd 16384"
  shows "performs (FShader L (\<lambda>f i. k (f 1))) G [Hc d]"
  by (rule performsI[OF _ assms(2)]) (use assms in simp_all)

lemma performs_flip2:
  assumes "\<And>c. kernel_contract G L (launch (k c)) n (flip2 b (arr c))"
    and "n = 16384" and "0 < b" and "b dvd 16384" and "2 * b dvd 16384" and "b' = 2 * b"
  shows "performs (FShader L (\<lambda>f i. k (f 1))) G [Rev b, Rev b']"
  by (rule performsI[OF _ assms(2)]) (use assms in \<open>auto simp: flip2_def\<close>)

lemma performs_last:
  assumes "\<And>c. kernel_contract G L (launch (k c)) n (hc vmax vmin d (flip d (arr c)))"
    and "n = 16384" and "0 < d" and "d dvd 16384" and "2 * d dvd 16384"
  shows "performs (FShader L (\<lambda>f i. k (f 1))) G [Rev d, Hc d]"
  by (rule performsI[OF _ assms(2)]) (use assms in auto)

section \<open>The shaders of the sort\<close>

definition E_256_32_2_shader :: shader where
  "E_256_32_2_shader = FShader (32, 1, 1) (\<lambda>f i. E_256_32_2 (f 1))"

definition E_128_32_2_2_shader :: shader where
  "E_128_32_2_2_shader = FShader (32, 2, 1) (\<lambda>f i. E_128_32_2_2 (f 1))"

definition E_64_32_4_2_shader :: shader where
  "E_64_32_4_2_shader = FShader (32, 4, 1) (\<lambda>f i. E_64_32_4_2 (f 1))"

definition E_64_16_8_2_shader :: shader where
  "E_64_16_8_2_shader = FShader (16, 8, 1) (\<lambda>f i. E_64_16_8_2 (f 1))"

definition E_64_8_16_2_shader :: shader where
  "E_64_8_16_2_shader = FShader (8, 16, 1) (\<lambda>f i. E_64_8_16_2 (f 1))"

definition E_32_2_8_16_2_shader :: shader where
  "E_32_2_8_16_2_shader = FShader (8, 16, 1) (\<lambda>f i. E_32_2_8_16_2 (f 1))"

definition E_16_4_8_16_2_shader :: shader where
  "E_16_4_8_16_2_shader = FShader (8, 16, 1) (\<lambda>f i. E_16_4_8_16_2 (f 1))"

definition E_8_8_8_16_2_shader :: shader where
  "E_8_8_8_16_2_shader = FShader (8, 16, 1) (\<lambda>f i. E_8_8_8_16_2 (f 1))"

definition E_4_16_8_16_2_shader :: shader where
  "E_4_16_8_16_2_shader = FShader (8, 16, 1) (\<lambda>f i. E_4_16_8_16_2 (f 1))"

definition E_2_32_8_16_2_shader :: shader where
  "E_2_32_8_16_2_shader = FShader (8, 16, 1) (\<lambda>f i. E_2_32_8_16_2 (f 1))"

definition E_64_8_16_2n1_shader :: shader where
  "E_64_8_16_2n1_shader = FShader (8, 16, 1) (\<lambda>f i. E_64_8_16_2n1 (f 1))"

definition E_128_4_16_2_shader :: shader where
  "E_128_4_16_2_shader = FShader (4, 16, 1) (\<lambda>f i. E_128_4_16_2 (f 1))"

definition E_256_2_16_2_shader :: shader where
  "E_256_2_16_2_shader = FShader (2, 16, 1) (\<lambda>f i. E_256_2_16_2 (f 1))"

definition E_256_32_2n1_shader :: shader where
  "E_256_32_2n1_shader = FShader (32, 1, 1) (\<lambda>f i. E_256_32_2n1 (f 1))"

definition E_64_32_2_2_2_shader :: shader where
  "E_64_32_2_2_2_shader = FShader (32, 2, 1) (\<lambda>f i. E_64_32_2_2_2 (f 1))"

definition E_32_32_4_2_2_shader :: shader where
  "E_32_32_4_2_2_shader = FShader (32, 4, 1) (\<lambda>f i. E_32_32_4_2_2 (f 1))"

definition E_32_16_8_2_2_shader :: shader where
  "E_32_16_8_2_2_shader = FShader (16, 8, 1) (\<lambda>f i. E_32_16_8_2_2 (f 1))"

definition E_32_8_16_2_2_shader :: shader where
  "E_32_8_16_2_2_shader = FShader (8, 16, 1) (\<lambda>f i. E_32_8_16_2_2 (f 1))"

definition E_16_2_8_16_2_2_shader :: shader where
  "E_16_2_8_16_2_2_shader = FShader (8, 16, 1) (\<lambda>f i. E_16_2_8_16_2_2 (f 1))"

definition E_8_4_8_16_2_2_shader :: shader where
  "E_8_4_8_16_2_2_shader = FShader (8, 16, 1) (\<lambda>f i. E_8_4_8_16_2_2 (f 1))"

definition E_4_8_8_16_2_2_shader :: shader where
  "E_4_8_8_16_2_2_shader = FShader (8, 16, 1) (\<lambda>f i. E_4_8_8_16_2_2 (f 1))"

definition E_2_16_8_16_2_2_shader :: shader where
  "E_2_16_8_16_2_2_shader = FShader (8, 16, 1) (\<lambda>f i. E_2_16_8_16_2_2 (f 1))"

definition E_32_8_16_2_2n1_shader :: shader where
  "E_32_8_16_2_2n1_shader = FShader (8, 16, 1) (\<lambda>f i. E_32_8_16_2_2n1 (f 1))"

definition E_64_4_16_2_2_shader :: shader where
  "E_64_4_16_2_2_shader = FShader (4, 16, 1) (\<lambda>f i. E_64_4_16_2_2 (f 1))"

definition E_128_2_16_2_2_shader :: shader where
  "E_128_2_16_2_2_shader = FShader (2, 16, 1) (\<lambda>f i. E_128_2_16_2_2 (f 1))"

definition E_128_32_2_2n1_shader :: shader where
  "E_128_32_2_2n1_shader = FShader (32, 1, 1) (\<lambda>f i. E_128_32_2_2n1 (f 1))"

named_theorems sort_pass \<open>the operations each sorting shader performs\<close>

lemma performs_E_256_32_2 [sort_pass]: "performs E_256_32_2_shader (256, 1, 1) [Hc 1]"
  unfolding E_256_32_2_shader_def by (rule performs_hc[OF hc1.kernel_contract_axioms]) simp_all

lemma performs_E_128_32_2_2 [sort_pass]: "performs E_128_32_2_2_shader (128, 1, 1) [Hc 2]"
  unfolding E_128_32_2_2_shader_def by (rule performs_hc[OF hc2.kernel_contract_axioms]) simp_all

lemma performs_E_64_32_4_2 [sort_pass]: "performs E_64_32_4_2_shader (64, 1, 1) [Hc 4]"
  unfolding E_64_32_4_2_shader_def by (rule performs_hc[OF hc4.kernel_contract_axioms]) simp_all

lemma performs_E_64_16_8_2 [sort_pass]: "performs E_64_16_8_2_shader (64, 1, 1) [Hc 8]"
  unfolding E_64_16_8_2_shader_def by (rule performs_hc[OF hc8.kernel_contract_axioms]) simp_all

lemma performs_E_64_8_16_2 [sort_pass]: "performs E_64_8_16_2_shader (64, 1, 1) [Hc 16]"
  unfolding E_64_8_16_2_shader_def by (rule performs_hc[OF hc16.kernel_contract_axioms]) simp_all

lemma performs_E_32_2_8_16_2 [sort_pass]: "performs E_32_2_8_16_2_shader (2, 32, 1) [Hc 32]"
  unfolding E_32_2_8_16_2_shader_def by (rule performs_hc[OF hc32.kernel_contract_axioms]) simp_all

lemma performs_E_16_4_8_16_2 [sort_pass]: "performs E_16_4_8_16_2_shader (4, 16, 1) [Hc 64]"
  unfolding E_16_4_8_16_2_shader_def by (rule performs_hc[OF hc64.kernel_contract_axioms]) simp_all

lemma performs_E_8_8_8_16_2 [sort_pass]: "performs E_8_8_8_16_2_shader (8, 8, 1) [Hc 128]"
  unfolding E_8_8_8_16_2_shader_def by (rule performs_hc[OF hc128.kernel_contract_axioms]) simp_all

lemma performs_E_4_16_8_16_2 [sort_pass]: "performs E_4_16_8_16_2_shader (16, 4, 1) [Hc 256]"
  unfolding E_4_16_8_16_2_shader_def by (rule performs_hc[OF hc256.kernel_contract_axioms]) simp_all

lemma performs_E_2_32_8_16_2 [sort_pass]: "performs E_2_32_8_16_2_shader (32, 2, 1) [Hc 512]"
  unfolding E_2_32_8_16_2_shader_def by (rule performs_hc[OF hc512.kernel_contract_axioms]) simp_all

lemma performs_E_64_8_16_2n1 [sort_pass]: "performs E_64_8_16_2n1_shader (64, 1, 1) [Hc 1024]"
  unfolding E_64_8_16_2n1_shader_def by (rule performs_hc[OF hc1024.kernel_contract_axioms]) simp_all

lemma performs_E_128_4_16_2 [sort_pass]: "performs E_128_4_16_2_shader (128, 1, 1) [Hc 2048]"
  unfolding E_128_4_16_2_shader_def by (rule performs_hc[OF hc2048.kernel_contract_axioms]) simp_all

lemma performs_E_256_2_16_2 [sort_pass]: "performs E_256_2_16_2_shader (256, 1, 1) [Hc 4096]"
  unfolding E_256_2_16_2_shader_def by (rule performs_hc[OF hc4096.kernel_contract_axioms]) simp_all

lemma performs_E_256_32_2n1 [sort_pass]: "performs E_256_32_2n1_shader (256, 1, 1) [Rev 8192, Hc 8192]"
  unfolding E_256_32_2n1_shader_def by (rule performs_last[OF hc8192.kernel_contract_axioms]) simp_all

lemma performs_E_64_32_2_2_2 [sort_pass]: "performs E_64_32_2_2_2_shader (64, 1, 1) [Rev 2, Rev 4]"
  unfolding E_64_32_2_2_2_shader_def by (rule performs_flip2[OF rev2.kernel_contract_axioms]) simp_all

lemma performs_E_32_32_4_2_2 [sort_pass]: "performs E_32_32_4_2_2_shader (32, 1, 1) [Rev 4, Rev 8]"
  unfolding E_32_32_4_2_2_shader_def by (rule performs_flip2[OF rev4.kernel_contract_axioms]) simp_all

lemma performs_E_32_16_8_2_2 [sort_pass]: "performs E_32_16_8_2_2_shader (32, 1, 1) [Rev 8, Rev 16]"
  unfolding E_32_16_8_2_2_shader_def by (rule performs_flip2[OF rev8.kernel_contract_axioms]) simp_all

lemma performs_E_32_8_16_2_2 [sort_pass]: "performs E_32_8_16_2_2_shader (32, 1, 1) [Rev 16, Rev 32]"
  unfolding E_32_8_16_2_2_shader_def by (rule performs_flip2[OF rev16.kernel_contract_axioms]) simp_all

lemma performs_E_16_2_8_16_2_2 [sort_pass]: "performs E_16_2_8_16_2_2_shader (2, 16, 1) [Rev 32, Rev 64]"
  unfolding E_16_2_8_16_2_2_shader_def by (rule performs_flip2[OF rev32.kernel_contract_axioms]) simp_all

lemma performs_E_8_4_8_16_2_2 [sort_pass]: "performs E_8_4_8_16_2_2_shader (4, 8, 1) [Rev 64, Rev 128]"
  unfolding E_8_4_8_16_2_2_shader_def by (rule performs_flip2[OF rev64.kernel_contract_axioms]) simp_all

lemma performs_E_4_8_8_16_2_2 [sort_pass]: "performs E_4_8_8_16_2_2_shader (8, 4, 1) [Rev 128, Rev 256]"
  unfolding E_4_8_8_16_2_2_shader_def by (rule performs_flip2[OF rev128.kernel_contract_axioms]) simp_all

lemma performs_E_2_16_8_16_2_2 [sort_pass]: "performs E_2_16_8_16_2_2_shader (16, 2, 1) [Rev 256, Rev 512]"
  unfolding E_2_16_8_16_2_2_shader_def by (rule performs_flip2[OF rev256.kernel_contract_axioms]) simp_all

lemma performs_E_32_8_16_2_2n1 [sort_pass]: "performs E_32_8_16_2_2n1_shader (32, 1, 1) [Rev 512, Rev 1024]"
  unfolding E_32_8_16_2_2n1_shader_def by (rule performs_flip2[OF rev512.kernel_contract_axioms]) simp_all

lemma performs_E_64_4_16_2_2 [sort_pass]: "performs E_64_4_16_2_2_shader (64, 1, 1) [Rev 1024, Rev 2048]"
  unfolding E_64_4_16_2_2_shader_def by (rule performs_flip2[OF rev1024.kernel_contract_axioms]) simp_all

lemma performs_E_128_2_16_2_2 [sort_pass]: "performs E_128_2_16_2_2_shader (128, 1, 1) [Rev 2048, Rev 4096]"
  unfolding E_128_2_16_2_2_shader_def by (rule performs_flip2[OF rev2048.kernel_contract_axioms]) simp_all

lemma performs_E_128_32_2_2n1 [sort_pass]: "performs E_128_32_2_2n1_shader (128, 1, 1) [Rev 4096, Rev 8192]"
  unfolding E_128_32_2_2n1_shader_def by (rule performs_flip2[OF rev4096.kernel_contract_axioms]) simp_all

section \<open>The passes of the sort\<close>

definition sort_passes :: "pass list" where
  "sort_passes =
   [(E_256_32_2_shader, [Buf 346, Buf 343], (256, 1, 1)),
    (E_64_32_2_2_2_shader, [Buf 343, Buf 346], (64, 1, 1)),
    (E_128_32_2_2_shader, [Buf 346, Buf 343], (128, 1, 1)),
    (E_256_32_2_shader, [Buf 343, Buf 346], (256, 1, 1)),
    (E_32_32_4_2_2_shader, [Buf 346, Buf 343], (32, 1, 1)),
    (E_64_32_4_2_shader, [Buf 343, Buf 346], (64, 1, 1)),
    (E_128_32_2_2_shader, [Buf 346, Buf 343], (128, 1, 1)),
    (E_256_32_2_shader, [Buf 343, Buf 346], (256, 1, 1)),
    (E_32_16_8_2_2_shader, [Buf 346, Buf 343], (32, 1, 1)),
    (E_64_16_8_2_shader, [Buf 343, Buf 346], (64, 1, 1)),
    (E_64_32_4_2_shader, [Buf 346, Buf 343], (64, 1, 1)),
    (E_128_32_2_2_shader, [Buf 343, Buf 346], (128, 1, 1)),
    (E_256_32_2_shader, [Buf 346, Buf 343], (256, 1, 1)),
    (E_32_8_16_2_2_shader, [Buf 343, Buf 346], (32, 1, 1)),
    (E_64_8_16_2_shader, [Buf 346, Buf 343], (64, 1, 1)),
    (E_64_16_8_2_shader, [Buf 343, Buf 346], (64, 1, 1)),
    (E_64_32_4_2_shader, [Buf 346, Buf 343], (64, 1, 1)),
    (E_128_32_2_2_shader, [Buf 343, Buf 346], (128, 1, 1)),
    (E_256_32_2_shader, [Buf 346, Buf 343], (256, 1, 1)),
    (E_16_2_8_16_2_2_shader, [Buf 343, Buf 346], (2, 16, 1)),
    (E_32_2_8_16_2_shader, [Buf 346, Buf 343], (2, 32, 1)),
    (E_64_8_16_2_shader, [Buf 343, Buf 346], (64, 1, 1)),
    (E_64_16_8_2_shader, [Buf 346, Buf 343], (64, 1, 1)),
    (E_64_32_4_2_shader, [Buf 343, Buf 346], (64, 1, 1)),
    (E_128_32_2_2_shader, [Buf 346, Buf 343], (128, 1, 1)),
    (E_256_32_2_shader, [Buf 343, Buf 346], (256, 1, 1)),
    (E_8_4_8_16_2_2_shader, [Buf 346, Buf 343], (4, 8, 1)),
    (E_16_4_8_16_2_shader, [Buf 343, Buf 346], (4, 16, 1)),
    (E_32_2_8_16_2_shader, [Buf 346, Buf 343], (2, 32, 1)),
    (E_64_8_16_2_shader, [Buf 343, Buf 346], (64, 1, 1)),
    (E_64_16_8_2_shader, [Buf 346, Buf 343], (64, 1, 1)),
    (E_64_32_4_2_shader, [Buf 343, Buf 346], (64, 1, 1)),
    (E_128_32_2_2_shader, [Buf 346, Buf 343], (128, 1, 1)),
    (E_256_32_2_shader, [Buf 343, Buf 346], (256, 1, 1)),
    (E_4_8_8_16_2_2_shader, [Buf 346, Buf 343], (8, 4, 1)),
    (E_8_8_8_16_2_shader, [Buf 343, Buf 346], (8, 8, 1)),
    (E_16_4_8_16_2_shader, [Buf 346, Buf 343], (4, 16, 1)),
    (E_32_2_8_16_2_shader, [Buf 343, Buf 346], (2, 32, 1)),
    (E_64_8_16_2_shader, [Buf 346, Buf 343], (64, 1, 1)),
    (E_64_16_8_2_shader, [Buf 343, Buf 346], (64, 1, 1)),
    (E_64_32_4_2_shader, [Buf 346, Buf 343], (64, 1, 1)),
    (E_128_32_2_2_shader, [Buf 343, Buf 346], (128, 1, 1)),
    (E_256_32_2_shader, [Buf 346, Buf 343], (256, 1, 1)),
    (E_2_16_8_16_2_2_shader, [Buf 343, Buf 346], (16, 2, 1)),
    (E_4_16_8_16_2_shader, [Buf 346, Buf 343], (16, 4, 1)),
    (E_8_8_8_16_2_shader, [Buf 343, Buf 346], (8, 8, 1)),
    (E_16_4_8_16_2_shader, [Buf 346, Buf 343], (4, 16, 1)),
    (E_32_2_8_16_2_shader, [Buf 343, Buf 346], (2, 32, 1)),
    (E_64_8_16_2_shader, [Buf 346, Buf 343], (64, 1, 1)),
    (E_64_16_8_2_shader, [Buf 343, Buf 346], (64, 1, 1)),
    (E_64_32_4_2_shader, [Buf 346, Buf 343], (64, 1, 1)),
    (E_128_32_2_2_shader, [Buf 343, Buf 346], (128, 1, 1)),
    (E_256_32_2_shader, [Buf 346, Buf 343], (256, 1, 1)),
    (E_32_8_16_2_2n1_shader, [Buf 343, Buf 346], (32, 1, 1)),
    (E_2_32_8_16_2_shader, [Buf 346, Buf 343], (32, 2, 1)),
    (E_4_16_8_16_2_shader, [Buf 343, Buf 346], (16, 4, 1)),
    (E_8_8_8_16_2_shader, [Buf 346, Buf 343], (8, 8, 1)),
    (E_16_4_8_16_2_shader, [Buf 343, Buf 346], (4, 16, 1)),
    (E_32_2_8_16_2_shader, [Buf 346, Buf 343], (2, 32, 1)),
    (E_64_8_16_2_shader, [Buf 343, Buf 346], (64, 1, 1)),
    (E_64_16_8_2_shader, [Buf 346, Buf 343], (64, 1, 1)),
    (E_64_32_4_2_shader, [Buf 343, Buf 346], (64, 1, 1)),
    (E_128_32_2_2_shader, [Buf 346, Buf 343], (128, 1, 1)),
    (E_256_32_2_shader, [Buf 343, Buf 346], (256, 1, 1)),
    (E_64_4_16_2_2_shader, [Buf 346, Buf 343], (64, 1, 1)),
    (E_64_8_16_2n1_shader, [Buf 343, Buf 346], (64, 1, 1)),
    (E_2_32_8_16_2_shader, [Buf 346, Buf 343], (32, 2, 1)),
    (E_4_16_8_16_2_shader, [Buf 343, Buf 346], (16, 4, 1)),
    (E_8_8_8_16_2_shader, [Buf 346, Buf 343], (8, 8, 1)),
    (E_16_4_8_16_2_shader, [Buf 343, Buf 346], (4, 16, 1)),
    (E_32_2_8_16_2_shader, [Buf 346, Buf 343], (2, 32, 1)),
    (E_64_8_16_2_shader, [Buf 343, Buf 346], (64, 1, 1)),
    (E_64_16_8_2_shader, [Buf 346, Buf 343], (64, 1, 1)),
    (E_64_32_4_2_shader, [Buf 343, Buf 346], (64, 1, 1)),
    (E_128_32_2_2_shader, [Buf 346, Buf 343], (128, 1, 1)),
    (E_256_32_2_shader, [Buf 343, Buf 346], (256, 1, 1)),
    (E_128_2_16_2_2_shader, [Buf 346, Buf 343], (128, 1, 1)),
    (E_128_4_16_2_shader, [Buf 343, Buf 346], (128, 1, 1)),
    (E_64_8_16_2n1_shader, [Buf 346, Buf 343], (64, 1, 1)),
    (E_2_32_8_16_2_shader, [Buf 343, Buf 346], (32, 2, 1)),
    (E_4_16_8_16_2_shader, [Buf 346, Buf 343], (16, 4, 1)),
    (E_8_8_8_16_2_shader, [Buf 343, Buf 346], (8, 8, 1)),
    (E_16_4_8_16_2_shader, [Buf 346, Buf 343], (4, 16, 1)),
    (E_32_2_8_16_2_shader, [Buf 343, Buf 346], (2, 32, 1)),
    (E_64_8_16_2_shader, [Buf 346, Buf 343], (64, 1, 1)),
    (E_64_16_8_2_shader, [Buf 343, Buf 346], (64, 1, 1)),
    (E_64_32_4_2_shader, [Buf 346, Buf 343], (64, 1, 1)),
    (E_128_32_2_2_shader, [Buf 343, Buf 346], (128, 1, 1)),
    (E_256_32_2_shader, [Buf 346, Buf 343], (256, 1, 1)),
    (E_128_32_2_2n1_shader, [Buf 343, Buf 346], (128, 1, 1)),
    (E_256_2_16_2_shader, [Buf 346, Buf 343], (256, 1, 1)),
    (E_128_4_16_2_shader, [Buf 343, Buf 346], (128, 1, 1)),
    (E_64_8_16_2n1_shader, [Buf 346, Buf 343], (64, 1, 1)),
    (E_2_32_8_16_2_shader, [Buf 343, Buf 346], (32, 2, 1)),
    (E_4_16_8_16_2_shader, [Buf 346, Buf 343], (16, 4, 1)),
    (E_8_8_8_16_2_shader, [Buf 343, Buf 346], (8, 8, 1)),
    (E_16_4_8_16_2_shader, [Buf 346, Buf 343], (4, 16, 1)),
    (E_32_2_8_16_2_shader, [Buf 343, Buf 346], (2, 32, 1)),
    (E_64_8_16_2_shader, [Buf 346, Buf 343], (64, 1, 1)),
    (E_64_16_8_2_shader, [Buf 343, Buf 346], (64, 1, 1)),
    (E_64_32_4_2_shader, [Buf 346, Buf 343], (64, 1, 1)),
    (E_128_32_2_2_shader, [Buf 343, Buf 346], (128, 1, 1)),
    (E_256_32_2_shader, [Buf 346, Buf 343], (256, 1, 1)),
    (E_256_32_2n1_shader, [Buf 343, Buf 346], (256, 1, 1)),
    (E_256_2_16_2_shader, [Buf 346, Buf 343], (256, 1, 1)),
    (E_128_4_16_2_shader, [Buf 343, Buf 346], (128, 1, 1)),
    (E_64_8_16_2n1_shader, [Buf 346, Buf 343], (64, 1, 1)),
    (E_2_32_8_16_2_shader, [Buf 343, Buf 346], (32, 2, 1)),
    (E_4_16_8_16_2_shader, [Buf 346, Buf 343], (16, 4, 1)),
    (E_8_8_8_16_2_shader, [Buf 343, Buf 346], (8, 8, 1)),
    (E_16_4_8_16_2_shader, [Buf 346, Buf 343], (4, 16, 1)),
    (E_32_2_8_16_2_shader, [Buf 343, Buf 346], (2, 32, 1)),
    (E_64_8_16_2_shader, [Buf 346, Buf 343], (64, 1, 1)),
    (E_64_16_8_2_shader, [Buf 343, Buf 346], (64, 1, 1)),
    (E_64_32_4_2_shader, [Buf 346, Buf 343], (64, 1, 1)),
    (E_128_32_2_2_shader, [Buf 343, Buf 346], (128, 1, 1)),
    (E_256_32_2_shader, [Buf 346, Buf 343], (256, 1, 1))]"

text \<open>The operations of the passes, in order.\<close>

definition sort_ops :: "op list list" where
  "sort_ops = [Hc 1] # concat (map (\<lambda>k. [Rev (2 ^ k), Rev (2 ^ Suc k)] #
       map (\<lambda>i. [Hc (2 ^ i)]) (rev [0..<Suc k])) [1..<13]) @
     [Rev 8192, Hc 8192] # map (\<lambda>i. [Hc (2 ^ i)]) (rev [0..<13])"

text \<open>Passes that alternate between two buffers, each reading the one the last pass wrote.\<close>

fun alternating :: "bufname \<Rightarrow> bufname \<Rightarrow> pass list \<Rightarrow> op list list \<Rightarrow> bool" where
  "alternating a b [] [] \<longleftrightarrow> True"
| "alternating a b ((S, bs, G) # ps) (x # xs) \<longleftrightarrow>
     bs ! 0 = b \<and> bs ! 1 = a \<and> performs S G x \<and> alternating b a ps xs"
| "alternating a b _ _ \<longleftrightarrow> False"

lemma sort_passes_alternate: "alternating (Buf 343) (Buf 346) sort_passes sort_ops"
  by (simp add: sort_passes_def sort_ops_def sort_pass upt_rec del: One_nat_def)

lemma length_ops_list [simp]: "length (ops_list ops xs) = 16384"
  by (simp add: ops_list_def)

lemma performs_fits: "performs S G x \<Longrightarrow> list_all (op_fits 16384) x"
  by (simp add: performs_def)

lemma alternating_fits: "alternating a b ps xs \<Longrightarrow> list_all (op_fits 16384) (concat xs)"
  by (induction a b ps xs rule: alternating.induct) (auto simp: performs_fits)

lemma alternating_runs:
  assumes "alternating a b ps xs" and "runs ps D D'" and "a \<noteq> b" and "ps \<noteq> []"
    and "length (fmem D a) = 16384" and "length (fmem D b) = 16384"
  shows "fmem D' (if even (length ps) then a else b) = ops_list (concat xs) (fmem D a) \<and>
    imem D' = imem D \<and> (\<forall>c. c \<noteq> a \<longrightarrow> c \<noteq> b \<longrightarrow> fmem D' c = fmem D c)"
  using assms
proof (induction a b ps xs arbitrary: D rule: alternating.induct)
  case (2 a b S bs G ps x xs)
  obtain E where E: "addComputePass S bs G D E" "runs ps E D'"
    using 2(3) by (auto elim: runs_ConsE)
  then have e: "E = D\<lparr>fmem := (fmem D)(b := ops_list x (fmem D a))\<rparr>"
    using 2(2,6,7) by (auto simp: performs_def)
  show ?case
  proof (cases "ps = []")
    case True
    then have "xs = []" using 2(2) by (cases xs) auto
    then show ?thesis using True E(2) e by (auto elim: runs_NilE)
  next
    case False
    have "alternating b a ps xs" using 2(2) by simp
    then show ?thesis
      using 2(1)[OF _ E(2)] 2(4,6) False e ops_list_append[OF alternating_fits]
      by (auto split: if_splits)
  qed
qed auto

section \<open>The passes sort\<close>

lemma rev_whole: "i < n \<Longrightarrow> run_op (Rev n) s i = s i"
  by (simp add: flip_def)

lemma stages_network:
  assumes "1 \<le> n"
  shows "Rev 2 # Hc 1 # concat (concat (map (\<lambda>k. [Rev (2 ^ k), Rev (2 ^ Suc k)] #
      map (\<lambda>i. [Hc (2 ^ i)]) (rev [0..<Suc k])) [1..<n])) @ [Rev (2 ^ n)] = network_ops n"
  using assms
proof (induction n rule: dec_induct)
  case (step n)
  have "network_ops (Suc n) = network_ops n @ Rev (2 ^ Suc n) # map (\<lambda>i. Hc (2 ^ i)) (rev [0..<Suc n]) @ [Rev (2 ^ Suc n)]"
    by simp
  moreover have "[1..<Suc n] = [1..<n] @ [n]" using step.hyps(1) by simp
  ultimately show ?case
    unfolding step.IH[symmetric] by (simp add: concat_map_singleton del: network_ops.simps upt_Suc)
qed simp

lemma sort_ops_network:
  "Rev 2 # concat sort_ops = network_ops 13 @ Hc 8192 # map (\<lambda>i. Hc (2 ^ i)) (rev [0..<13])"
proof -
  have "1 \<le> (13::nat)" by simp
  note stages = stages_network[OF this, symmetric]
  show ?thesis
    unfolding stages sort_ops_def
    by (simp add: concat_map_singleton del: upt_Suc upt_rec_numeral)
qed

text \<open>
  Of the last stage's two reversals of odd blocks only the one inside the cells is left out:
  with one block of 16384 cells there is no odd block.
\<close>

lemma network_16384:
  "i < 16384 \<Longrightarrow> run_ops (Rev 2 # concat sort_ops) s i = network vmax vmin 14 s i"
proof -
  assume i: "i < 16384"
  define t where "t = network vmax vmin 13 s"
  have fits: "list_all (op_fits 16384) (map (\<lambda>i. Hc (2 ^ i)) (rev [0..<14]))"
    by (auto simp: list_all_iff simp flip: power_Suc intro: le_imp_power_dvd[of _ 14 "2::nat", simplified])
  have "run_ops (Rev 2 # concat sort_ops) s i = halve vmax vmin 14 t i"
    unfolding sort_ops_network run_ops_simps run_network t_def[symmetric] run_halve[of 14, symmetric]
    by (simp add: upt_rec)
  also have "\<dots> = halve vmax vmin 14 (flip 16384 t) i"
    unfolding run_halve[symmetric] by (rule run_ops_cong[OF fits i]) (simp add: flip_def)
  also have "\<dots> = network vmax vmin 14 s i"
    using i network.simps(2)[of vmax vmin 13 s] by (simp add: t_def stage_def flip_def)
  finally show ?thesis .
qed

lemma sort_passes_run:
  assumes "runs sort_passes D D'"
    and "length (fmem D (Buf 343)) = 16384" and "length (fmem D (Buf 346)) = 16384"
  shows "fmem D' (Buf 346) = ops_list (concat sort_ops) (fmem D (Buf 343))"
    and "imem D' = imem D"
    and "c \<noteq> Buf 343 \<Longrightarrow> c \<noteq> Buf 346 \<Longrightarrow> fmem D' c = fmem D c"
proof -
  have "odd (length sort_passes)" "sort_passes \<noteq> []" by (simp_all add: sort_passes_def)
  then show "fmem D' (Buf 346) = ops_list (concat sort_ops) (fmem D (Buf 343))"
    and "imem D' = imem D"
    and "c \<noteq> Buf 343 \<Longrightarrow> c \<noteq> Buf 346 \<Longrightarrow> fmem D' c = fmem D c"
    using alternating_runs[OF sort_passes_alternate assms(1) _ _ assms(2,3)] by simp_all
qed

text \<open>The input of the passes holds the keys with the odd pairs already reversed.\<close>

definition pairs_reversed :: "f32 list \<Rightarrow> f32 list" where
  "pairs_reversed xs = map (flip 2 (elem xs)) [0..<16384]"

lemma sort_passes_network:
  assumes "runs sort_passes D D'"
    and "fmem D (Buf 343) = pairs_reversed xs" and "length (fmem D (Buf 346)) = 16384"
    and "length xs = 16384"
  shows "fmem D' (Buf 346) = map (network vmax vmin 14 (elem xs)) [0..<16384]"
proof -
  have len: "length (fmem D (Buf 343)) = 16384" by (simp add: assms(2) pairs_reversed_def)
  have "pairs_reversed xs = ops_list [Rev 2] xs" by (simp add: pairs_reversed_def ops_list_def)
  then have "fmem D' (Buf 346) = ops_list ([Rev 2] @ concat sort_ops) xs"
    using sort_passes_run(1)[OF assms(1) len assms(3)] assms(2)
      ops_list_append[OF alternating_fits[OF sort_passes_alternate]] by simp
  then show ?thesis using network_16384 by (simp add: ops_list_def)
qed

definition descending :: "f32 list \<Rightarrow> bool" where
  "descending xs \<longleftrightarrow> (\<forall>j<length xs. \<forall>i\<le>j. xs ! j \<le> xs ! i)"

lemma oks_elem: "list_all plain xs \<Longrightarrow> f32_order.oks (elem xs)"
  unfolding f32_order.oks_def
  by (auto simp: elem_def list_all_length plain_def zero_fp_def)

lemma network_sorts:
  assumes "list_all plain xs" and "length xs = 16384"
  shows "descending (map (network vmax vmin 14 (elem xs)) [0..<16384])"
    and "mset (map (network vmax vmin 14 (elem xs)) [0..<16384]) = mset xs"
proof -
  let ?t = "network vmax vmin 14 (elem xs)"
  note oks = oks_elem[OF assms(1)]
  have nan: "\<not> is_nan (?t i)" for i
    using f32_order.oks_network[OF oks, of 14] by (simp add: f32_order.oks_def plain_def)
  show "descending (map ?t [0..<16384])"
    using f32_order.network_descending[OF oks, of _ _ 14] nan by (auto simp: descending_def not_less_fp)
  have "mset (map ?t [0..<16384]) = cells_mset 16384 (\<lambda>i. map ?t [0..<16384] ! i)"
    using cells_mset_nth[of "map ?t [0..<16384]"] by simp
  also have "\<dots> = cells_mset 16384 ?t" by (rule cells_mset_cong) simp
  also have "\<dots> = cells_mset 16384 (elem xs)" by (rule f32_order.cells_mset_network[OF oks]) simp
  also have "\<dots> = cells_mset (length xs) (\<lambda>i. xs ! i)"
    unfolding assms(2)[symmetric] by (rule cells_mset_cong) (simp add: elem_def)
  finally show "mset (map ?t [0..<16384]) = mset xs" by (simp add: cells_mset_nth)
qed

end
