(* ===== verification/Pad.thy ===== *)
theory Pad
  imports Scores BitonicSort
begin

unbundle bit_operations_syntax

text \<open>
  Pass 98 of the inference closure (\<open>server/cherum/static/net.js\<close>): the 8400 keys are
  extended to 16384 cells with minus infinity, and the odd pairs of cells are reversed, which
  is the first step of the bitonic sort.
\<close>

section \<open>Kernel\<close>

definition E_2_2_2_2_2_2_2_2_2_2_2_2_2_2 :: "f32 buf \<Rightarrow> vec3 \<Rightarrow> vec3 \<Rightarrow> f32 stores" where
  "E_2_2_2_2_2_2_2_2_2_2_2_2_2_2 data1 gindex lindex =
    (let gidx0 = vx gindex;
         gidx1 = vy gindex;
         gidx2 = vz gindex;
         lidx0 = vx lindex;
         lidx1 = vy lindex;
         lidx2 = vz lindex;
         precast0 = gidx1;
         precast1 = gidx2;
         precast2 = lidx0;
         cast0 = precast0;
         cast1 = precast1;
         precast3 = push_bit 3 cast0;
         precast4 = push_bit 7 cast0;
         precast5 = push_bit 4 cast1;
         precast6 = push_bit 8 cast1;
         precast7 = push_bit 2 precast2;
         precast8 = signed_drop_bit 3 gidx0;
         cast2 = precast8;
         precast9 = push_bit 2 cast2;
         precast10 = push_bit 6 cast2;
         alu0 = lidx1 <s 1;
         alu1 = \<not> alu0;
         precast11 = gidx0 AND 1;
         precast12 = push_bit 3 precast11;
         alu2 = (signed_drop_bit 1 gidx0) AND 1;
         precast13 = alu2;
         precast14 = push_bit 4 precast13;
         precast15 = (signed_drop_bit 2 gidx0) AND 1;
         cast3 = precast15;
         precast16 = push_bit 1 cast3;
         precast17 = push_bit 5 cast3;
         alu3 = precast4 + precast6 + precast10 + precast17 + precast14 + precast12 + precast7;
         alu4 = lidx2 + alu3;
         val0 = select 0 (rd data1 alu4) alu0;
         val1 = select 0 (rd data1 (alu4 + 512)) alu0;
         val2 = select 0 (rd data1 (alu4 + 1024)) alu0;
         val3 = select 0 (rd data1 (alu4 + 1536)) alu0;
         val4 = select 0 (rd data1 (alu4 + 2048)) alu0;
         val5 = select 0 (rd data1 (alu4 + 2560)) alu0;
         val6 = select 0 (rd data1 (alu4 + 3072)) alu0;
         val7 = select 0 (rd data1 (alu4 + 3584)) alu0;
         val8 = select 0 (rd data1 (alu4 + 4096)) alu0;
         val9 = select 0 (rd data1 (alu4 + 4608)) alu0;
         val10 = select 0 (rd data1 (alu4 + 5120)) alu0;
         val11 = select 0 (rd data1 (alu4 + 5632)) alu0;
         val12 = select 0 (rd data1 (alu4 + 6144)) alu0;
         val13 = select 0 (rd data1 (alu4 + 6656)) alu0;
         val14 = select 0 (rd data1 (alu4 + 7168)) alu0;
         val15 = select 0 (rd data1 (alu4 + 7680)) alu0;
         alu5 = alu0 \<and> ((precast3 + precast5 + precast9 + precast16 + alu2) <s 13);
         val16 = select 0 (rd data1 (alu4 + 8192)) alu5;
         alu6 = alu3 - lidx2;
         val17 = select 0 (rd data1 (alu6 + 3)) alu1;
         val18 = select 0 (rd data1 (alu6 + 515)) alu1;
         val19 = select 0 (rd data1 (alu6 + 1027)) alu1;
         val20 = select 0 (rd data1 (alu6 + 1539)) alu1;
         val21 = select 0 (rd data1 (alu6 + 2051)) alu1;
         val22 = select 0 (rd data1 (alu6 + 2563)) alu1;
         val23 = select 0 (rd data1 (alu6 + 3075)) alu1;
         val24 = select 0 (rd data1 (alu6 + 3587)) alu1;
         val25 = select 0 (rd data1 (alu6 + 4099)) alu1;
         val26 = select 0 (rd data1 (alu6 + 4611)) alu1;
         val27 = select 0 (rd data1 (alu6 + 5123)) alu1;
         val28 = select 0 (rd data1 (alu6 + 5635)) alu1;
         val29 = select 0 (rd data1 (alu6 + 6147)) alu1;
         val30 = select 0 (rd data1 (alu6 + 6659)) alu1;
         val31 = select 0 (rd data1 (alu6 + 7171)) alu1;
         val32 = select 0 (rd data1 (alu6 + 7683)) alu1;
         alu7 = alu1 \<and> (alu6 <s 205);
         val33 = select 0 (rd data1 (alu6 + 8195)) alu7;
         precast18 = lidx1;
         precast19 = push_bit 1 precast18;
         alu8 = lidx2 + alu3 + precast19;
         alu24 = select 0 (- INFINITY) alu0;
         alu25 = select alu24 0 alu0;
         alu26 = select (- INFINITY) 0 alu0;
         alu27 = select 0 alu26 alu0;
         alu44 = select alu24 0 alu5;
         alu45 = select alu26 0 alu7
     in [(alu8 + 8704, - INFINITY),
         (alu8 + 9216, - INFINITY),
         (alu8 + 9728, - INFINITY),
         (alu8 + 10240, - INFINITY),
         (alu8 + 10752, - INFINITY),
         (alu8 + 11264, - INFINITY),
         (alu8 + 11776, - INFINITY),
         (alu8 + 12288, - INFINITY),
         (alu8 + 12800, - INFINITY),
         (alu8 + 13312, - INFINITY),
         (alu8 + 13824, - INFINITY),
         (alu8 + 14336, - INFINITY),
         (alu8 + 14848, - INFINITY),
         (alu8 + 15360, - INFINITY),
         (alu8 + 15872, - INFINITY),
         (alu8, val0 + alu25 + val17 + alu27),
         (alu8 + 512, val1 + alu25 + val18 + alu27),
         (alu8 + 1024, val2 + alu25 + val19 + alu27),
         (alu8 + 1536, val3 + alu25 + val20 + alu27),
         (alu8 + 2048, val4 + alu25 + val21 + alu27),
         (alu8 + 2560, val5 + alu25 + val22 + alu27),
         (alu8 + 3072, val6 + alu25 + val23 + alu27),
         (alu8 + 3584, val7 + alu25 + val24 + alu27),
         (alu8 + 4096, val8 + alu25 + val25 + alu27),
         (alu8 + 4608, val9 + alu25 + val26 + alu27),
         (alu8 + 5120, val10 + alu25 + val27 + alu27),
         (alu8 + 5632, val11 + alu25 + val28 + alu27),
         (alu8 + 6144, val12 + alu25 + val29 + alu27),
         (alu8 + 6656, val13 + alu25 + val30 + alu27),
         (alu8 + 7168, val14 + alu25 + val31 + alu27),
         (alu8 + 7680, val15 + alu25 + val32 + alu27),
         (alu8 + 8192, val16 + alu44 + val33 + alu45)])"

section \<open>What it computes\<close>

definition padded_pair :: "(nat \<Rightarrow> f32) \<Rightarrow> nat \<Rightarrow> f32" where
  "padded_pair s j = (let i = reflect 2 j in
     if i < 8400 then (if even (j div 2) then s i + 0 + 0 + 0 else 0 + 0 + s i + 0) else - INFINITY)"

lemma padded_pair_even: "l < 2 \<Longrightarrow> padded_pair s (4 * m + l) = (if 4 * m + l < 8400 then s (4 * m + l) + 0 + 0 + 0 else - INFINITY)"
proof -
  assume l: "l < 2"
  then have "(4 * m + l) div 2 = 2 * m" by linarith
  then show ?thesis by (simp add: padded_pair_def reflect_def)
qed

lemma padded_pair_odd: "l < 2 \<Longrightarrow> padded_pair s (4 * m + 2 + l) = (if 4 * m + 3 - l < 8400 then 0 + 0 + s (4 * m + 3 - l) + 0 else - INFINITY)"
proof -
  assume l: "l < 2"
  then have "(4 * m + 2 + l) div 2 = 2 * m + 1" "(4 * m + 2 + l) mod 2 = l" by presburger+
  then have "reflect 2 (4 * m + 2 + l) = 4 * m + 3 - l" using l by (simp add: reflect_def)
  then show ?thesis using \<open>(4 * m + 2 + l) div 2 = 2 * m + 1\<close> by (simp add: padded_pair_def)
qed

text \<open>The workgroup number, taken apart into bits and put together again.\<close>

lemma group_bits:
  assumes "x < 16"
  shows "push_bit 6 (signed_drop_bit 3 (of_nat x :: i32)) + push_bit 5 (signed_drop_bit 2 (of_nat x) AND 1) +
      push_bit 4 (signed_drop_bit 1 (of_nat x) AND 1) + push_bit 3 (of_nat x AND 1) = of_nat (8 * x)"
    and "push_bit 2 (signed_drop_bit 3 (of_nat x :: i32)) + push_bit 1 (signed_drop_bit 2 (of_nat x) AND 1) +
      (signed_drop_bit 1 (of_nat x) AND 1) = of_nat (x div 2)"
proof -
  have "x = 0 \<or> x = 1 \<or> x = 2 \<or> x = 3 \<or> x = 4 \<or> x = 5 \<or> x = 6 \<or> x = 7 \<or> x = 8 \<or>
      x = 9 \<or> x = 10 \<or> x = 11 \<or> x = 12 \<or> x = 13 \<or> x = 14 \<or> x = 15"
    using assms by arith
  then show "push_bit 6 (signed_drop_bit 3 (of_nat x :: i32)) + push_bit 5 (signed_drop_bit 2 (of_nat x) AND 1) +
      push_bit 4 (signed_drop_bit 1 (of_nat x) AND 1) + push_bit 3 (of_nat x AND 1) = of_nat (8 * x)"
    and "push_bit 2 (signed_drop_bit 3 (of_nat x :: i32)) + push_bit 1 (signed_drop_bit 2 (of_nat x) AND 1) +
      (signed_drop_bit 1 (of_nat x) AND 1) = of_nat (x div 2)"
    by (elim disjE; simp)+
qed

definition quad :: "nat \<Rightarrow> nat \<Rightarrow> nat \<Rightarrow> nat \<Rightarrow> nat" where
  "quad gx gy gz lx = lx + 2 * gx + 32 * gy + 64 * gz"

lemma quad_words:
  assumes "gx < 16" and "gy < 2" and "gz < 2" and "lx < 2"
  shows "push_bit 7 (of_nat gy) + push_bit 8 (of_nat gz) + push_bit 6 (signed_drop_bit 3 (of_nat gx)) +
      push_bit 5 (signed_drop_bit 2 (of_nat gx) AND 1) + push_bit 4 (signed_drop_bit 1 (of_nat gx) AND 1) +
      push_bit 3 (of_nat gx AND 1) + push_bit 2 (of_nat lx) = (of_nat (4 * quad gx gy gz lx) :: i32)"
    and "push_bit 3 (of_nat gy) + push_bit 4 (of_nat gz) + push_bit 2 (signed_drop_bit 3 (of_nat gx)) +
      push_bit 1 (signed_drop_bit 2 (of_nat gx) AND 1) + (signed_drop_bit 1 (of_nat gx) AND 1) <s (13 :: i32)
      \<longleftrightarrow> quad gx gy gz lx < 52"
proof -
  have "push_bit 7 (of_nat gy) + push_bit 8 (of_nat gz) + push_bit 6 (signed_drop_bit 3 (of_nat gx)) +
      push_bit 5 (signed_drop_bit 2 (of_nat gx) AND 1) + push_bit 4 (signed_drop_bit 1 (of_nat gx) AND 1) +
      push_bit 3 (of_nat gx AND 1) + push_bit 2 (of_nat lx) = push_bit 7 (of_nat gy) + push_bit 8 (of_nat gz) +
      (push_bit 6 (signed_drop_bit 3 (of_nat gx)) + push_bit 5 (signed_drop_bit 2 (of_nat gx) AND 1) +
       push_bit 4 (signed_drop_bit 1 (of_nat gx) AND 1) + push_bit 3 (of_nat gx AND 1)) +
      (push_bit 2 (of_nat lx) :: i32)" by (simp only: add.assoc)
  then show "push_bit 7 (of_nat gy) + push_bit 8 (of_nat gz) + push_bit 6 (signed_drop_bit 3 (of_nat gx)) +
      push_bit 5 (signed_drop_bit 2 (of_nat gx) AND 1) + push_bit 4 (signed_drop_bit 1 (of_nat gx) AND 1) +
      push_bit 3 (of_nat gx AND 1) + push_bit 2 (of_nat lx) = (of_nat (4 * quad gx gy gz lx) :: i32)"
    unfolding group_bits(1)[OF assms(1)] by (simp add: push_bit_eq_mult quad_def)
  have "push_bit 3 (of_nat gy) + push_bit 4 (of_nat gz) + push_bit 2 (signed_drop_bit 3 (of_nat gx)) +
      push_bit 1 (signed_drop_bit 2 (of_nat gx) AND 1) + (signed_drop_bit 1 (of_nat gx) AND 1) =
      push_bit 3 (of_nat gy) + push_bit 4 (of_nat gz) + (push_bit 2 (signed_drop_bit 3 (of_nat gx)) +
      push_bit 1 (signed_drop_bit 2 (of_nat gx) AND 1) + (signed_drop_bit 1 (of_nat gx) AND 1) :: i32)"
    by (simp only: add.assoc)
  also have "\<dots> = of_nat (8 * gy + 16 * gz + gx div 2)"
    unfolding group_bits(2)[OF assms(1)] by (simp add: push_bit_eq_mult)
  finally have e: "push_bit 3 (of_nat gy) + push_bit 4 (of_nat gz) + push_bit 2 (signed_drop_bit 3 (of_nat gx)) +
      push_bit 1 (signed_drop_bit 2 (of_nat gx) AND 1) + (signed_drop_bit 1 (of_nat gx) AND 1) =
      (of_nat (8 * gy + 16 * gz + gx div 2) :: i32)" .
  have "8 * gy + 16 * gz + gx div 2 < 2 ^ 31" using assms by simp
  then have "(of_nat (8 * gy + 16 * gz + gx div 2) :: i32) <s of_nat 13 \<longleftrightarrow> 8 * gy + 16 * gz + gx div 2 < 13"
    by (rule sless_of_nat) simp
  moreover have "8 * gy + 16 * gz + gx div 2 < 13 \<longleftrightarrow> quad gx gy gz lx < 52"
    using assms(4) unfolding quad_def by linarith
  ultimately show "push_bit 3 (of_nat gy) + push_bit 4 (of_nat gz) + push_bit 2 (signed_drop_bit 3 (of_nat gx)) +
      push_bit 1 (signed_drop_bit 2 (of_nat gx) AND 1) + (signed_drop_bit 1 (of_nat gx) AND 1) <s (13 :: i32)
      \<longleftrightarrow> quad gx gy gz lx < 52"
    unfolding e by simp
qed

lemma mirror_words:
  assumes "l < 2" and "m < 128"
  shows "(of_nat (4 * m) :: i32) - of_nat l <s 205 \<longleftrightarrow> 4 * m < 205 + l"
    and "(of_nat (4 * m) :: i32) - of_nat l + numeral q = of_nat (4 * m + numeral q - l)"
proof -
  have m: "4 * m < 2 ^ 31" "4 * m - 1 < 2 ^ 31" using assms(2) by simp_all
  consider "l = 0" | "l = 1" "m = 0" | "l = 1" "1 \<le> 4 * m" using assms(1) by linarith
  then show "(of_nat (4 * m) :: i32) - of_nat l <s 205 \<longleftrightarrow> 4 * m < 205 + l"
  proof cases
    case 1
    then show ?thesis using sless_of_nat[OF m(1), of 205] by simp
  next
    case 3
    have "(of_nat (4 * m) :: i32) - of_nat l = of_nat (4 * m - 1)" using 3 by (simp only: of_nat_diff)
    then show ?thesis using sless_of_nat[OF m(2), of 205] 3 by (simp only:) (simp, linarith)
  qed (simp add: word_sless_alt)
  have "1 \<le> (numeral q :: nat)" by (rule one_le_numeral)
  then have "l \<le> 4 * m + numeral q" using assms(1) by linarith
  then show "(of_nat (4 * m) :: i32) - of_nat l + numeral q = of_nat (4 * m + numeral q - l)"
    by (simp only: of_nat_diff of_nat_add of_nat_numeral) (simp only: algebra_simps)
qed

lemma padded_pair_cells:
  assumes "l < 2" and "m < 128"
  shows "k < 16 \<Longrightarrow> padded_pair s (4 * m + l + 512 * k) = s (4 * m + l + 512 * k) + 0 + 0 + 0"
    and "k < 16 \<Longrightarrow> padded_pair s (4 * m + 2 + l + 512 * k) = 0 + 0 + s (4 * m + (512 * k + 3) - l) + 0"
    and "padded_pair s (4 * m + l + 8192) = (if m < 52 then s (4 * m + l + 8192) + 0 + 0 + 0 else - INFINITY)"
    and "padded_pair s (4 * m + 2 + l + 8192) =
      (if 4 * m < 205 + l then 0 + 0 + s (4 * m + 8195 - l) + 0 else - INFINITY)"
    and "17 \<le> k \<Longrightarrow> padded_pair s (4 * m + l + 512 * k) = - INFINITY"
    and "17 \<le> k \<Longrightarrow> padded_pair s (4 * m + 2 + l + 512 * k) = - INFINITY"
proof -
  have e: "4 * m + l + 512 * k = 4 * (m + 128 * k) + l" "4 * m + 2 + l + 512 * k = 4 * (m + 128 * k) + 2 + l"
    "4 * (m + 128 * k) + 3 - l = 4 * m + (512 * k + 3) - l" for k
    using assms(1) by simp_all
  note ev = padded_pair_even[OF assms(1), of s "m + 128 * _", folded e(1)]
  note od = padded_pair_odd[OF assms(1), of s "m + 128 * _", folded e(2), unfolded e(3)]
  show "padded_pair s (4 * m + l + 512 * k) = s (4 * m + l + 512 * k) + 0 + 0 + 0" if "k < 16"
  proof -
    have "4 * m + l + 512 * k < 8400" using that assms by linarith
    then show ?thesis unfolding ev by simp
  qed
  show "padded_pair s (4 * m + 2 + l + 512 * k) = 0 + 0 + s (4 * m + (512 * k + 3) - l) + 0" if "k < 16"
  proof -
    have "4 * m + (512 * k + 3) - l < 8400" using that assms by linarith
    then show ?thesis unfolding od by simp
  qed
  show "padded_pair s (4 * m + l + 8192) = (if m < 52 then s (4 * m + l + 8192) + 0 + 0 + 0 else - INFINITY)"
    using ev[of 16] assms by auto
  show "padded_pair s (4 * m + 2 + l + 8192) =
      (if 4 * m < 205 + l then 0 + 0 + s (4 * m + 8195 - l) + 0 else - INFINITY)"
    using od[of 16] assms by (auto simp: add.commute)
  show "padded_pair s (4 * m + l + 512 * k) = - INFINITY" if "17 \<le> k"
  proof -
    have "\<not> 4 * m + l + 512 * k < 8400" using that by linarith
    then show ?thesis unfolding ev by simp
  qed
  show "padded_pair s (4 * m + 2 + l + 512 * k) = - INFINITY" if "17 \<le> k"
  proof -
    have "\<not> 4 * m + (512 * k + 3) - l < 8400" using that assms by linarith
    then show ?thesis unfolding od by simp
  qed
qed

lemma padded_pair_column:
  assumes "l < 2" and "m < 128"
  shows "padded_pair s (4 * m + 2 * 0 + l + 512 * k) =
      (if k < 16 then s (4 * m + l + 512 * k) + 0 + 0 + 0
       else if k = 16 \<and> m < 52 then s (4 * m + l + 8192) + 0 + 0 + 0 else - INFINITY)"
    and "padded_pair s (4 * m + 2 * 1 + l + 512 * k) =
      (if k < 16 then 0 + 0 + s (4 * m + (512 * k + 3) - l) + 0
       else if k = 16 \<and> 4 * m < 205 + l then 0 + 0 + s (4 * m + 8195 - l) + 0 else - INFINITY)"
proof -
  consider "k < 16" | "k = 16" | "17 \<le> k" by linarith
  then show "padded_pair s (4 * m + 2 * 0 + l + 512 * k) =
      (if k < 16 then s (4 * m + l + 512 * k) + 0 + 0 + 0
       else if k = 16 \<and> m < 52 then s (4 * m + l + 8192) + 0 + 0 + 0 else - INFINITY)"
    using padded_pair_cells(1,5)[OF assms, where k = k and s = s] padded_pair_cells(3)[OF assms, where s = s] by cases simp_all
  consider "k < 16" | "k = 16" | "17 \<le> k" by linarith
  then show "padded_pair s (4 * m + 2 * 1 + l + 512 * k) =
      (if k < 16 then 0 + 0 + s (4 * m + (512 * k + 3) - l) + 0
       else if k = 16 \<and> 4 * m < 205 + l then 0 + 0 + s (4 * m + 8195 - l) + 0 else - INFINITY)"
    using padded_pair_cells(2,6)[OF assms, where k = k and s = s] padded_pair_cells(4)[OF assms, where s = s] by cases simp_all
qed

text \<open>The kernel's stores: 32 cells at a distance of 512.\<close>

lemma pad_stores:
  assumes "gx < 16" and "gy < 2" and "gz < 2" and "lx < 2" and "h < 2" and "l < 2"
  shows "set (launch (E_2_2_2_2_2_2_2_2_2_2_2_2_2_2 c) (gx, gy, gz) (lx, h, l)) =
    (\<lambda>k. (of_nat (4 * quad gx gy gz lx + 2 * h + l + 512 * k),
         padded_pair (arr c) (4 * quad gx gy gz lx + 2 * h + l + 512 * k))) ` {..<32}"
proof -
  define m where "m = quad gx gy gz lx"
  have m: "m < 128" using assms by (simp add: m_def quad_def)
  note words = quad_words[OF assms(1-4), folded m_def] mirror_words[OF assms(6) m]
  note cells = padded_pair_column[OF assms(6) m]
  have upto: "{..<32::nat} = {17, 18, 19, 20, 21, 22, 23, 24, 25, 26, 27, 28, 29, 30, 31,
      0, 1, 2, 3, 4, 5, 6, 7, 8, 9, 10, 11, 12, 13, 14, 15, 16}"
  proof -
    have "{..<32::nat} = set ([17..<32] @ 0 # 1 # [2..<17])"
      unfolding set_append set_simps set_upt set_eq_iff Un_iff insert_iff atLeastLessThan_iff lessThan_iff
      by arith
    then show ?thesis by (simp del: set_upt)
  qed
  have inf: "0 + MInf + 0 + 0 = (MInf :: f32)" "0 + 0 + 0 + MInf = (MInf :: f32)"
    by (simp_all add: plus_fp_def zero_of_def)
  have flags: "(0 :: i32) <s 1" "\<not> (1 :: i32) <s 1" by (simp_all add: word_sless_alt)
  show ?thesis
  proof (cases "h = 0")
    case True
    show ?thesis
      unfolding True m_def[symmetric] upto E_2_2_2_2_2_2_2_2_2_2_2_2_2_2_def launch_def Let_def vec_simps words cells
      by (simp add: arr_def inf flags algebra_simps)
  next
    case False
    then have h: "h = 1" using assms(5) by simp
    show ?thesis
      unfolding h m_def[symmetric] upto E_2_2_2_2_2_2_2_2_2_2_2_2_2_2_def launch_def Let_def vec_simps words cells
      by (simp add: arr_def inf flags algebra_simps)
  qed
qed

interpretation pad: kernel_contract "(16, 2, 2)" "(2, 2, 2)"
  "launch (E_2_2_2_2_2_2_2_2_2_2_2_2_2_2 c)" 16384 "padded_pair (arr c)" for c
proof
  fix g l :: dim and i :: i32 and v :: f32
  assume gl: "g \<in> set (dims (16, 2, 2))" "l \<in> set (dims (2, 2, 2))"
    and iv: "(i, v) \<in> set (launch (E_2_2_2_2_2_2_2_2_2_2_2_2_2_2 c) g l)"
  obtain gx gy gz lx h e where g: "g = (gx, gy, gz)" "gx < 16" "gy < 2" "gz < 2"
    and l: "l = (lx, h, e)" "lx < 2" "h < 2" "e < 2"
    using gl by (elim dimsE)
  define a where "a = 4 * quad gx gy gz lx + 2 * h + e"
  have "(i, v) \<in> (\<lambda>k. (of_nat (a + 512 * k), padded_pair (arr c) (a + 512 * k))) ` {..<32}"
    using iv unfolding g(1) l(1) pad_stores[OF g(2-4) l(2-4)] a_def .
  then obtain k where k: "k < 32" "i = of_nat (a + 512 * k)" "v = padded_pair (arr c) (a + 512 * k)" by blast
  have "a + 512 * k < 16384" using g(2-4) l(2-4) k(1) by (simp add: quad_def a_def)
  then show "\<exists>j<16384. i = of_nat j \<and> v = padded_pair (arr c) j" using k by blast
next
  fix j :: nat
  assume j: "j < 16384"
  define m r k where "m = j div 4 mod 128" and "r = j mod 4" and "k = j div 512"
  have d: "m mod 2 < 2" "m div 2 mod 16 < 16" "m div 32 mod 2 < 2" "m div 64 < 2" "r div 2 < 2" "r mod 2 < 2" "k < 32"
    using j by (simp_all add: m_def r_def k_def less_mult_imp_div_less)
  have "m div 32 * 16 + m div 2 mod 16 = m div 2" "m div 64 * 2 + m div 32 mod 2 = m div 32"
    using div_mult_mod_eq[of "m div 2" 16] div_mult_mod_eq[of "m div 32" 2] by (simp_all flip: div_mult2_eq)
  then have q: "quad (m div 2 mod 16) (m div 32 mod 2) (m div 64) (m mod 2) = m"
    using div_mult_mod_eq[of m 2] unfolding quad_def by linarith
  have "k * 128 + m = j div 4"
    using div_mult_mod_eq[of "j div 4" 128] unfolding m_def k_def by (simp flip: div_mult2_eq)
  then have "4 * m + 2 * (r div 2) + r mod 2 + 512 * k = j"
    using div_mult_mod_eq[of j 4] div_mult_mod_eq[of r 2] unfolding r_def by linarith
  then have st: "(of_nat j, padded_pair (arr c) j) \<in> set (launch (E_2_2_2_2_2_2_2_2_2_2_2_2_2_2 c)
      (m div 2 mod 16, m div 32 mod 2, m div 64) (m mod 2, r div 2, r mod 2))"
    unfolding pad_stores[OF d(2,3,4,1,5,6)] q using d(7) by (metis (no_types, lifting) imageI lessThan_iff)
  have "(m div 2 mod 16, m div 32 mod 2, m div 64) \<in> set (dims (16, 2, 2))"
    "(m mod 2, r div 2, r mod 2) \<in> set (dims (2, 2, 2))"
    using d(1-6) by (simp_all add: dims_iff)
  then show "\<exists>g\<in>set (dims (16, 2, 2)). \<exists>l\<in>set (dims (2, 2, 2)).
      (of_nat j, padded_pair (arr c) j) \<in> set (launch (E_2_2_2_2_2_2_2_2_2_2_2_2_2_2 c) g l)"
    using st by blast
qed simp

end
