(* ===== verification/Ranking.thy ===== *)
theory Ranking
  imports Prelude
begin

text \<open>
  Recovery of the permutation of a sort from the sorted values alone: an element is identified
  by its value and by the number of equal values up to it. For two lists with the same
  elements this pairs their positions one to one, and equal elements keep their order. The
  detector recovers the anchors of the best scores in this way.
\<close>

section \<open>Counting equal elements\<close>

definition occ :: "'a list \<Rightarrow> nat \<Rightarrow> nat" where
  "occ xs i = card {j. j \<le> i \<and> j < length xs \<and> xs ! j = xs ! i}"

definition places :: "'a list \<Rightarrow> 'a \<Rightarrow> nat set" where
  "places xs v = {i. i < length xs \<and> xs ! i = v}"

lemma finite_places [simp]: "finite (places xs v)"
  by (simp add: places_def)

lemma card_places: "card (places xs v) = count (mset xs) v"
  unfolding places_def by (simp add: count_mset count_list_eq_length_filter length_filter_conv_card eq_commute)

lemma occ_places: "i \<in> places xs v \<Longrightarrow> occ xs i = card {j \<in> places xs v. j \<le> i}"
  unfolding occ_def places_def by (rule arg_cong[of _ _ card]) auto

lemma occ_less:
  assumes "i \<in> places xs v" and "j \<in> places xs v" and "i < j"
  shows "occ xs i < occ xs j"
proof -
  have "j \<in> {k \<in> places xs v. k \<le> j}" "j \<notin> {k \<in> places xs v. k \<le> i}" using assms by auto
  moreover have "{k \<in> places xs v. k \<le> i} \<subseteq> {k \<in> places xs v. k \<le> j}" using assms(3) by auto
  ultimately have "{k \<in> places xs v. k \<le> i} \<subset> {k \<in> places xs v. k \<le> j}" by blast
  then show ?thesis using assms by (simp add: occ_places psubset_card_mono)
qed

lemma occ_inj: "inj_on (occ xs) (places xs v)"
proof (rule inj_onI)
  fix i j assume "i \<in> places xs v" "j \<in> places xs v" "occ xs i = occ xs j"
  then show "i = j" using occ_less[of i xs v j] occ_less[of j xs v i] by (metis less_irrefl linorder_neqE_nat)
qed

lemma occ_image: "occ xs ` places xs v = {1..card (places xs v)}"
proof (rule card_subset_eq)
  show "occ xs ` places xs v \<subseteq> {1..card (places xs v)}"
  proof
    fix n assume "n \<in> occ xs ` places xs v"
    then obtain i where i: "i \<in> places xs v" "n = card {j \<in> places xs v. j \<le> i}"
      by (auto simp: occ_places)
    have "i \<in> {j \<in> places xs v. j \<le> i}" using i(1) by simp
    then have "{j \<in> places xs v. j \<le> i} \<noteq> {}" by blast
    then have "0 < n" unfolding i(2) by (simp add: card_gt_0_iff)
    moreover have "n \<le> card (places xs v)" unfolding i(2) by (rule card_mono) auto
    ultimately show "n \<in> {1..card (places xs v)}" by simp
  qed
qed (simp_all add: card_image occ_inj)

section \<open>The recovered permutation\<close>

definition recover :: "'a list \<Rightarrow> 'a list \<Rightarrow> nat \<Rightarrow> nat" where
  "recover xs ys r = (\<Sum>j<length xs. if xs ! j = ys ! r \<and> occ xs j = occ ys r then j else 0)"

lemma recover_unique:
  assumes "mset xs = mset ys" and "r < length ys"
  shows "\<exists>!j. j < length xs \<and> xs ! j = ys ! r \<and> occ xs j = occ ys r"
proof -
  have card: "card (places xs (ys ! r)) = card (places ys (ys ! r))"
    by (simp add: card_places assms(1))
  have "r \<in> places ys (ys ! r)" using assms(2) by (simp add: places_def)
  then have "occ ys r \<in> {1..card (places xs (ys ! r))}"
    unfolding card occ_image[symmetric] by (rule imageI)
  then have "occ ys r \<in> occ xs ` places xs (ys ! r)" unfolding occ_image .
  then obtain j where "j \<in> places xs (ys ! r)" "occ xs j = occ ys r" by force
  moreover from this have "i = j" if "i \<in> places xs (ys ! r)" "occ xs i = occ ys r" for i
    using that inj_onD[OF occ_inj[of xs "ys ! r"]] by metis
  ultimately show ?thesis by (auto simp: places_def)
qed

lemma recover:
  assumes "mset xs = mset ys" and "r < length ys"
  shows "recover xs ys r < length xs" and "xs ! recover xs ys r = ys ! r"
    and "occ xs (recover xs ys r) = occ ys r"
proof -
  obtain j where j: "j < length xs" "xs ! j = ys ! r" "occ xs j = occ ys r"
    and u: "\<And>i. i < length xs \<Longrightarrow> xs ! i = ys ! r \<and> occ xs i = occ ys r \<longleftrightarrow> i = j"
    using recover_unique[OF assms] by blast
  have "recover xs ys r = (\<Sum>i<length xs. if i = j then i else 0)"
    unfolding recover_def by (rule sum.cong) (use u in auto)
  also have "\<dots> = j" using j(1) by (simp add: sum.delta)
  finally show "recover xs ys r < length xs" and "xs ! recover xs ys r = ys ! r"
    and "occ xs (recover xs ys r) = occ ys r" using j by simp_all
qed

lemma recover_inj:
  assumes "mset xs = mset ys"
  shows "inj_on (recover xs ys) {..<length ys}"
proof (rule inj_onI)
  fix r q assume "r \<in> {..<length ys}" "q \<in> {..<length ys}" and e: "recover xs ys r = recover xs ys q"
  then have l: "r < length ys" "q < length ys" by auto
  have "ys ! r = ys ! q" "occ ys r = occ ys q"
    using recover(2,3)[OF assms l(1)] recover(2,3)[OF assms l(2)] e by simp_all
  then show "r = q" using l occ_inj[of ys "ys ! r"] by (auto simp: places_def dest: inj_onD)
qed

lemma recover_bij:
  assumes "mset xs = mset ys"
  shows "bij_betw (recover xs ys) {..<length ys} {..<length xs}"
proof -
  have len: "length xs = length ys" using assms by (rule mset_eq_length)
  have "recover xs ys ` {..<length ys} \<subseteq> {..<length xs}" using recover(1)[OF assms] by auto
  moreover have "card (recover xs ys ` {..<length ys}) = length ys"
    using card_image[OF recover_inj[OF assms]] by simp
  ultimately have "recover xs ys ` {..<length ys} = {..<length xs}"
    using len by (intro card_subset_eq) simp_all
  then show ?thesis using recover_inj[OF assms] by (simp add: bij_betw_def)
qed

lemma recover_stable:
  assumes "mset xs = mset ys" and "q < r" and "r < length ys" and "ys ! q = ys ! r"
  shows "recover xs ys q < recover xs ys r"
proof (rule ccontr)
  let ?q = "recover xs ys q" and ?r = "recover xs ys r"
  have q: "q < length ys" using assms(2,3) by simp
  note Q = recover[OF assms(1) q] and R = recover[OF assms(1,3)]
  have "q \<in> places ys (ys ! r)" "r \<in> places ys (ys ! r)" using q assms(3,4) by (simp_all add: places_def)
  then have less: "occ ys q < occ ys r" using assms(2) by (rule occ_less)
  have "?q \<in> places xs (ys ! r)" using Q(1,2) unfolding places_def assms(4) by simp
  moreover have "?r \<in> places xs (ys ! r)" using R(1,2) unfolding places_def by simp
  moreover assume "\<not> ?q < ?r"
  then have "?r < ?q \<or> ?r = ?q" by linarith
  ultimately have "occ xs ?r \<le> occ xs ?q"
    using occ_less[of ?r xs "ys ! r" ?q] by (metis less_imp_le order_refl)
  then show False using less Q(3) R(3) by linarith
qed

text \<open>Sorted lists: the elements before a place and the values that exceed it.\<close>

lemma take_mset_eq:
  assumes "mset ys = mset xs + replicate_mset n b" and "\<And>x. x \<in> set xs \<Longrightarrow> lt b x"
    and "\<And>i j. i \<le> j \<Longrightarrow> j < length ys \<Longrightarrow> \<not> lt (ys ! i) (ys ! j)" and "\<not> lt b b"
  shows "mset (take (length xs) ys) = mset xs"
proof -
  let ?k = "length xs"
  have len: "length ys = ?k + n" using arg_cong[OF assms(1), of size] by simp
  define p where "p = (\<lambda>y. y = b)"
  have nb: "b \<notin> set xs" using assms(2,4) by blast
  have cnt: "card {i. i < length ys \<and> ys ! i = b} = n"
  proof -
    have "count (mset ys) b = n" using assms(1) nb by (simp add: count_eq_zero_iff)
    then show ?thesis using card_places[of ys b] by (simp add: places_def)
  qed
  have later: "ys ! j = b" if "ys ! i = b" "i \<le> j" "j < length ys" for i j
  proof -
    have "ys ! j \<in># mset ys" using that(3) by simp
    then have "ys ! j \<in> set xs \<or> ys ! j = b" unfolding assms(1) by (auto split: if_splits)
    then show ?thesis using assms(2)[of "ys ! j"] assms(3)[of i j] that by auto
  qed
  have tail: "ys ! j = b" if "?k \<le> j" "j < length ys" for j
  proof (rule ccontr)
    assume "ys ! j \<noteq> b"
    then have "Suc j \<le> i" if "i < length ys" "ys ! i = b" for i
      using later[OF that(2), of j] \<open>j < length ys\<close> by (meson not_less_eq_eq)
    then have "{i. i < length ys \<and> ys ! i = b} \<subseteq> {Suc j..<length ys}" by auto
    then have "n \<le> card {Suc j..<length ys}" unfolding cnt[symmetric] by (rule card_mono[rotated]) simp
    then show False using that len by simp
  qed
  have "drop ?k ys = replicate n b"
    by (rule nth_equalityI) (use tail len in \<open>auto simp: nth_drop\<close>)
  then have "mset ys = mset (take ?k ys) + replicate_mset n b"
    by (metis append_take_drop_id mset_append mset_replicate)
  then show ?thesis using assms(1) by simp
qed

end
