(* ===== verification/Gather.thy ===== *)
theory Gather
  imports TopK
begin

text \<open>
  The gathering of the best rows (\<open>r_300_6_16_525\<close> of \<open>server/cherum/static/net.js\<close>): one
  workgroup per column and rank adds up all 8400 candidates, each multiplied by whether it is
  the wanted one. Every of its 16 invocations sums 525 candidates into the workgroup's memory;
  after the barrier the first one adds the partial sums. With finite candidates the sum is the
  wanted value.
\<close>

section \<open>Kernel\<close>

definition r_300_6_16_525_shared :: "f32 buf \<Rightarrow> i32 buf \<Rightarrow> i32 buf \<Rightarrow> vec3 \<Rightarrow> vec3 \<Rightarrow> f32 stores" where
  "r_300_6_16_525_shared data1 data2 data3 gindex lindex =
    (let gidx0 = vx gindex;
         gidx1 = vy gindex;
         lidx0 = vx lindex;
         val0 = rd data2 gidx1;
         acc0 = (0 :: f32);
         acc0 = for_loop 525 (\<lambda>ridx3 acc0.
             let val1 = rd data3 (lidx0 * 525 + ridx3);
                 val2 = rd data1 (gidx0 + lidx0 * 3150 + ridx3 * 6);
                 acc0 = acc0 + val2 * (f32_of_bool (\<not> (val0 \<noteq> val1)))
             in acc0) acc0
     in [(lidx0, acc0)])"

definition r_300_6_16_525 :: "f32 buf \<Rightarrow> i32 buf \<Rightarrow> i32 buf \<Rightarrow> f32 buf \<Rightarrow> vec3 \<Rightarrow> vec3 \<Rightarrow> f32 stores" where
  "r_300_6_16_525 data1 data2 data3 temp0 gindex lindex =
    (let gidx0 = vx gindex;
         gidx1 = vy gindex;
         lidx0 = vx lindex;
         val0 = rd data2 gidx1;
         acc0 = (0 :: f32);
         acc0 = for_loop 525 (\<lambda>ridx3 acc0.
             let val1 = rd data3 (lidx0 * 525 + ridx3);
                 val2 = rd data1 (gidx0 + lidx0 * 3150 + ridx3 * 6);
                 acc0 = acc0 + val2 * (f32_of_bool (\<not> (val0 \<noteq> val1)))
             in acc0) acc0
     in if (\<not> (lidx0 \<noteq> 0)) then
       (let acc1 = (0 :: f32);
            acc1 = for_loop 16 (\<lambda>ridx1002 acc1.
                 let val3 = rd temp0 ridx1002;
                     acc1 = acc1 + val3
                 in acc1) acc1
        in [(gidx0 + gidx1 * 6, acc1)])
     else [])"

section \<open>What it computes\<close>

definition lane_sum :: "(nat \<Rightarrow> f32) \<Rightarrow> (nat \<Rightarrow> i32) \<Rightarrow> (nat \<Rightarrow> i32) \<Rightarrow> nat \<Rightarrow> nat \<Rightarrow> nat \<Rightarrow> f32" where
  "lane_sum row idx pos c r q = fold (\<lambda>m a. a + row (c + 3150 * q + 6 * m) *
     f32_of_bool (idx r = pos (525 * q + m))) [0..<525] 0"

definition gathered :: "(nat \<Rightarrow> f32) \<Rightarrow> (nat \<Rightarrow> i32) \<Rightarrow> (nat \<Rightarrow> i32) \<Rightarrow> nat \<Rightarrow> f32" where
  "gathered row idx pos j = fold (\<lambda>q a. a + lane_sum row idx pos (j mod 6) (j div 6) q) [0..<16] 0"

interpretation lanes: tiled_kernel 1 16 1 "\<lambda>_. launch (r_300_6_16_525_shared rows idx pos) (gx, gy, gz)"
  "lane_sum (arr rows) (arr idx) (arr pos) gx gy" for rows idx pos gx gy gz
  by unfold_locales (simp_all add: tile_kernel r_300_6_16_525_shared_def lane_sum_def algebra_simps)

text \<open>The second part, given what the first one left in the workgroup's memory.\<close>

lemma gather_stores:
  assumes "cells t = map (lane_sum (arr rows) (arr idx) (arr pos) gx gy) [0..<16]" and "lx < 16" and "gx < 6"
  shows "launch (r_300_6_16_525 rows idx pos t) (gx, gy, gz) (lx, ly, lz) =
    (if lx = 0 then [(of_nat (6 * gy + gx), gathered (arr rows) (arr idx) (arr pos) (6 * gy + gx))] else [])"
proof -
  have "rd t (of_nat q) = lane_sum (arr rows) (arr idx) (arr pos) gx gy q" if "q < 16" for q
    using that by (simp add: rd_of_nat assms(1))
  then have "fold (\<lambda>q a. a + rd t (of_nat q)) [0..<16] 0 = gathered (arr rows) (arr idx) (arr pos) (6 * gy + gx)"
    unfolding gathered_def using assms(3) by (intro fold_cong) auto
  moreover have "(of_nat lx :: i32) = 0 \<longleftrightarrow> lx = 0"
    using of_nat_i32_inject[of lx 0] assms(2) by simp
  ultimately show ?thesis
    by (simp add: r_300_6_16_525_def launch_def Let_def for_loop_nat algebra_simps)
qed

lemma gather_contract:
  assumes "\<And>g. cells (tmp g) = map (lane_sum (arr rows) (arr idx) (arr pos) (fst g) (fst (snd g))) [0..<16]"
  shows "kernel_contract (6, 300, 1) (16, 1, 1) (\<lambda>g. launch (r_300_6_16_525 rows idx pos (tmp g)) g) 1800
    (gathered (arr rows) (arr idx) (arr pos))"
proof
  fix g l :: dim and i :: i32 and v :: f32
  assume "g \<in> set (dims (6, 300, 1))" "l \<in> set (dims (16, 1, 1))"
    and iv: "(i, v) \<in> set (launch (r_300_6_16_525 rows idx pos (tmp g)) g l)"
  then obtain gx gy lx where gl: "g = (gx, gy, 0)" "gx < 6" "gy < 300" "l = (lx, 0, 0)" "lx < 16"
    by (elim dimsE) auto
  have "i = of_nat (6 * gy + gx)" "v = gathered (arr rows) (arr idx) (arr pos) (6 * gy + gx)"
    using iv gather_stores[OF _ gl(5,2), of "tmp g" rows idx pos gy 0 0 0] assms[of g]
    by (auto simp: gl(1,4) split: if_splits)
  moreover have "6 * gy + gx < 1800" using gl by simp
  ultimately show "\<exists>j<1800. i = of_nat j \<and> v = gathered (arr rows) (arr idx) (arr pos) j" by blast
next
  fix j :: nat
  assume "j < 1800"
  then have d: "j mod 6 < 6" "j div 6 < 300" by auto
  have "(j mod 6, j div 6, 0) \<in> set (dims (6, 300, 1))" "(0, 0, 0) \<in> set (dims (16, 1, 1))"
    using d by (simp_all add: dims_iff)
  moreover have "(of_nat j, gathered (arr rows) (arr idx) (arr pos) j) \<in>
      set (launch (r_300_6_16_525 rows idx pos (tmp (j mod 6, j div 6, 0))) (j mod 6, j div 6, 0) (0, 0, 0))"
    using gather_stores[OF _ _ d(1), of "tmp (j mod 6, j div 6, 0)" rows idx pos "j div 6" 0 0 0 0]
      assms[of "(j mod 6, j div 6, 0)"] by simp
  ultimately show "\<exists>g\<in>set (dims (6, 300, 1)). \<exists>l\<in>set (dims (16, 1, 1)).
      (of_nat j, gathered (arr rows) (arr idx) (arr pos) j) \<in> set (launch (r_300_6_16_525 rows idx pos (tmp g)) g l)"
    by blast
qed simp

section \<open>With finite candidates it is the wanted value\<close>

lemma is_fp_clean: "is_fp (0 + a :: ('p::len, 'w::len) fp)" if "is_fp a"
  using that by (simp add: zero_plus_fp)

lemma clean_not_nzero: "is_fp a \<Longrightarrow> 0 + a \<noteq> (NZero :: ('p::len, 'w::len) fp)"
  by (simp add: zero_plus_fp)

lemma one_hot_fold:
  assumes "\<And>m. m < n \<Longrightarrow> is_fp (x m) \<and> is_fin (x m)"
  shows "fold (\<lambda>m a. a + x m * f32_of_bool (m = k)) [0..<n] 0 = (if k < n then 0 + x k else 0)"
  using assms
proof (induction n)
  case (Suc n)
  have fp: "is_fp (x n)" "is_fin (x n)" using Suc.prems by simp_all
  have "k < n \<Longrightarrow> is_fp (x k)" using Suc.prems by simp
  moreover have "n \<noteq> k \<Longrightarrow> x n * f32_of_bool (n = k) = zero_of (neg (x n))" "n = k \<Longrightarrow> x n * f32_of_bool (n = k) = x n"
    using fp by (simp_all add: f32_of_bool_def times_zero_fp times_one_fp)
  moreover have "fold (\<lambda>m a. a + x m * f32_of_bool (m = k)) [0..<n] 0 = (if k < n then 0 + x k else 0)"
    using Suc by simp
  ultimately show ?case
    by (cases "n = k") (auto simp: plus_zero_of is_fp_clean clean_not_nzero less_Suc_eq)
qed simp

lemma lane_pick_fold:
  assumes "is_fp y" and "y \<noteq> NZero"
  shows "fold (\<lambda>q a. a + (if q = k then y else 0)) [0..<n] 0 = (if k < n then y else (0 :: f32))"
  by (induction n) (auto simp: less_Suc_eq plus_zero_fp zero_plus_fp assms)

lemma gathered_pick:
  assumes "j < 1800" and "k < 8400" and "idx (j div 6) = of_nat k"
    and "\<And>i. i < 8400 \<Longrightarrow> pos i = of_nat i"
    and "\<And>i. i < 50400 \<Longrightarrow> is_fp (row i) \<and> is_fin (row i)"
  shows "gathered row idx pos j = 0 + row (6 * k + j mod 6)"
proof -
  let ?c = "j mod 6"
  have c: "?c < 6" by simp
  have lane: "lane_sum row idx pos ?c (j div 6) q = (if q = k div 525 then 0 + row (6 * k + ?c) else 0)"
    if q: "q < 16" for q
  proof -
    have "lane_sum row idx pos ?c (j div 6) q = fold (\<lambda>m a. a + row (?c + 3150 * q + 6 * m) *
        f32_of_bool (m = k - 525 * q \<and> 525 * q \<le> k)) [0..<525] 0"
      unfolding lane_sum_def
    proof (intro fold_cong refl ext)
      fix m a assume "m \<in> set [0..<525]"
      then have "525 * q + m < 8400" using q by auto
      then have "idx (j div 6) = pos (525 * q + m) \<longleftrightarrow> m = k - 525 * q \<and> 525 * q \<le> k"
        using assms(2) of_nat_i32_inject[of k "525 * q + m"] unfolding assms(3) assms(4)[OF \<open>525 * q + m < 8400\<close>]
        by auto
      then show "a + row (?c + 3150 * q + 6 * m) * f32_of_bool (idx (j div 6) = pos (525 * q + m)) =
          a + row (?c + 3150 * q + 6 * m) * f32_of_bool (m = k - 525 * q \<and> 525 * q \<le> k)" by simp
    qed
    also have "\<dots> = fold (\<lambda>m a. a + row (?c + 3150 * q + 6 * m) *
        f32_of_bool (m = (if 525 * q \<le> k then k - 525 * q else 525))) [0..<525] 0"
      by (intro fold_cong refl ext) auto
    also have "\<dots> = (if (if 525 * q \<le> k then k - 525 * q else 525) < 525
        then 0 + row (?c + 3150 * q + 6 * (if 525 * q \<le> k then k - 525 * q else 525)) else 0)"
      by (rule one_hot_fold) (use q c in \<open>intro assms(5), linarith\<close>)
    also have "\<dots> = (if q = k div 525 then 0 + row (6 * k + ?c) else 0)"
    proof (cases "q = k div 525")
      case True
      then have "525 * q \<le> k" "k - 525 * q < 525" by (simp_all add: minus_mult_div_eq_mod)
      moreover from this have "?c + 3150 * q + 6 * (k - 525 * q) = 6 * k + ?c" by simp
      ultimately show ?thesis using True by (simp only: if_True refl)
    next
      case False
      then have "\<not> (525 * q \<le> k \<and> k - 525 * q < 525)"
        by (metis div_nat_eqI mult.commute less_diff_conv2 mult_Suc_right add.commute)
      then show ?thesis using False by auto
    qed
    finally show ?thesis .
  qed
  have y: "is_fp (row (6 * k + ?c))" using assms(2,5) c by simp
  have "gathered row idx pos j = fold (\<lambda>q a. a + (if q = k div 525 then 0 + row (6 * k + ?c) else 0)) [0..<16] 0"
    unfolding gathered_def by (rule fold_cong) (auto simp: lane)
  also have "\<dots> = 0 + row (6 * k + ?c)"
    using lane_pick_fold[OF is_fp_clean[OF y] clean_not_nzero[OF y], of "k div 525" 16]
      less_mult_imp_div_less[of k 16 525] assms(2) by simp
  finally show ?thesis .
qed

end
