(* ===== verification/Detector.thy ===== *)
theory Detector
  imports Sort Pad Ranking Gather Nms
begin

text \<open>
  The post-processing of the detector: passes 5, 6, 95 to 100 and 218 to 224 of the inference
  closure of \<open>setupNet\<close> (\<open>server/cherum/static/net.js\<close>) around the sort of passes 101 to 217.
  From the class probabilities in \<open>buf_331\<close> and the box corners in \<open>buf_337\<close> to \<open>buf_340\<close>
  they make the 300 rows (x1, y1, x2, y2, score, class) of \<open>output0\<close>.
\<close>

section \<open>Shaders and passes\<close>

definition r_59_59_shader :: "shader" where
  "r_59_59_shader = IShader (1, 1, 1) (\<lambda>f i. r_59_59)"

definition r_175_16_2100_3_4_shader :: "shader" where
  "r_175_16_2100_3_4_shader = IShader (16, 1, 1) (\<lambda>f i. r_175_16_2100_3_4)"

definition r_175_16_59_3_shader :: "shader" where
  "r_175_16_59_3_shader = FShader (16, 1, 1) (\<lambda>f i. r_175_16_59_3 (f 1))"

definition E_175_16_3n5_shader :: "shader" where
  "E_175_16_3n5_shader = FShader (16, 1, 1) (\<lambda>f i. E_175_16_3n5 (f 1))"

definition r_175_16_59_3n1_shader :: "shader" where
  "r_175_16_59_3n1_shader = FShader (16, 1, 1) (\<lambda>f i. r_175_16_59_3n1 (f 1) (f 2) (i 3))"

definition E_2_2_2_2_2_2_2_2_2_2_2_2_2_2_shader :: "shader" where
  "E_2_2_2_2_2_2_2_2_2_2_2_2_2_2_shader = FShader (2, 2, 2) (\<lambda>f i. E_2_2_2_2_2_2_2_2_2_2_2_2_2_2 (f 1))"

definition r_175_16_2100_3_4n1_shader :: "shader" where
  "r_175_16_2100_3_4n1_shader = IShader (16, 1, 1) (\<lambda>f i. r_175_16_2100_3_4n1 (i 1) (f 2))"

definition E_525_16_6_shader :: "shader" where
  "E_525_16_6_shader = FShader (16, 1, 1) (\<lambda>f i. E_525_16_6 (f 1) (f 2) (f 3) (f 4) (f 5) (f 6))"

definition r_175_16_2100_3_4n2_shader :: "shader" where
  "r_175_16_2100_3_4n2_shader = IShader (16, 1, 1) (\<lambda>f i. r_175_16_2100_3_4n2 (i 1) (f 2))"

definition r_175_16_2100_3_4n3_shader :: "shader" where
  "r_175_16_2100_3_4n3_shader = IShader (16, 1, 1) (\<lambda>f i. r_175_16_2100_3_4n3 (f 1) (f 2) (i 3) (i 4) (i 5))"

definition E_25_3_4_shader :: "shader" where
  "E_25_3_4_shader = IShader (3, 1, 1) (\<lambda>f i. E_25_3_4 (i 1))"

definition r_300_6_16_525_shader :: "shader" where
  "r_300_6_16_525_shader = FGroup (16, 1, 1) 16 (\<lambda>f i. r_300_6_16_525_shared (f 1) (i 2) (i 3)) (\<lambda>t f i. r_300_6_16_525 (f 1) (i 2) (i 3) t)"

definition E_25_3_4n1_shader :: "shader" where
  "E_25_3_4n1_shader = FShader (3, 1, 1) (\<lambda>f i. E_25_3_4n1 (f 1))"

definition r_75_4_75_4_shader :: "shader" where
  "r_75_4_75_4_shader = FShader (4, 1, 1) (\<lambda>f i. r_75_4_75_4 (f 1) (f 2))"

definition E_75_4_2_3_shader :: "shader" where
  "E_75_4_2_3_shader = FShader (4, 2, 1) (\<lambda>f i. E_75_4_2_3 (f 1) (f 2))"


definition index_passes :: "pass list" where
  "index_passes =
   [(r_59_59_shader, [Buf 10], (59, 1, 1)),
    (r_175_16_2100_3_4_shader, [Buf 11], (175, 1, 1))]"

definition score_passes :: "pass list" where
  "score_passes =
   [(r_175_16_59_3_shader, [Buf 9, Buf 331], (175, 1, 1)),
    (E_175_16_3n5_shader, [Buf 341, Buf 9], (175, 1, 1)),
    (r_175_16_59_3n1_shader, [Buf 342, Buf 331, Buf 9, Buf 10], (175, 1, 1)),
    (E_2_2_2_2_2_2_2_2_2_2_2_2_2_2_shader, [Buf 343, Buf 341], (16, 2, 2)),
    (r_175_16_2100_3_4n1_shader, [Buf 344, Buf 11, Buf 341], (175, 1, 1)),
    (E_525_16_6_shader, [Buf 345, Buf 337, Buf 338, Buf 339, Buf 340, Buf 341, Buf 342], (525, 1, 1))]"

definition order_passes :: "pass list" where
  "order_passes =
   [(r_175_16_2100_3_4n2_shader, [Buf 347, Buf 11, Buf 346], (175, 1, 1)),
    (r_175_16_2100_3_4n3_shader, [Buf 348, Buf 341, Buf 346, Buf 344, Buf 347, Buf 11], (175, 1, 1)),
    (E_25_3_4_shader, [Buf 349, Buf 348], (25, 1, 1))]"

definition output_passes :: "pass list" where
  "output_passes =
   [(r_300_6_16_525_shader, [Buf 350, Buf 345, Buf 349, Buf 11], (6, 300, 1)),
    (E_25_3_4n1_shader, [Buf 351, Buf 350], (25, 1, 1)),
    (r_75_4_75_4_shader, [Buf 352, Buf 350, Buf 351], (75, 1, 1)),
    (E_75_4_2_3_shader, [Output, Buf 350, Buf 352], (75, 1, 1))]"

section \<open>The effect of each pass\<close>

lemmas shader_defs = r_59_59_shader_def r_175_16_2100_3_4_shader_def r_175_16_59_3_shader_def
  E_175_16_3n5_shader_def r_175_16_59_3n1_shader_def E_2_2_2_2_2_2_2_2_2_2_2_2_2_2_shader_def
  r_175_16_2100_3_4n1_shader_def E_525_16_6_shader_def r_175_16_2100_3_4n2_shader_def
  r_175_16_2100_3_4n3_shader_def E_25_3_4_shader_def r_300_6_16_525_shader_def
  E_25_3_4n1_shader_def r_75_4_75_4_shader_def E_75_4_2_3_shader_def

lemma codes_effect:
  assumes "addComputePass r_59_59_shader [c] (59, 1, 1) D D'" and "length (imem D c) = 59"
  shows "D' = D\<lparr>imem := (imem D)(c := map (\<lambda>j. 59 - of_nat j) [0..<59])\<rparr>"
  using i32_effect[OF assms(1)[unfolded shader_defs], of 59] codes.kernel_contract_axioms assms(2) by simp

lemma positions_effect:
  assumes "addComputePass r_175_16_2100_3_4_shader [p] (175, 1, 1) D D'" and "length (imem D p) = 8400"
  shows "D' = D\<lparr>imem := (imem D)(p := map of_nat [0..<8400])\<rparr>"
  using i32_effect[OF assms(1)[unfolded shader_defs], of 8400] positions.kernel_contract_axioms assms(2) by simp

lemma class_score_bound: "(j::nat) < 8400 \<Longrightarrow> m < 59 \<Longrightarrow> j + 8400 * m < 495600"
  by linarith

lemma max_score_cong:
  "j < 8400 \<Longrightarrow> (\<And>i. i < 495600 \<Longrightarrow> s i = t i) \<Longrightarrow> max_score s j = max_score t j"
  unfolding max_score_def class_score_def
  by (intro fold_cong refl ext) (simp add: class_score_bound)

lemma maxima_effect:
  assumes "addComputePass r_175_16_59_3_shader [a, s] (175, 1, 1) D D'"
    and "length (fmem D a) = 8400" and "length (fmem D s) = 495600"
  shows "D' = D\<lparr>fmem := (fmem D)(a := map (max_score (elem (fmem D s))) [0..<8400])\<rparr>"
proof -
  have "max_score (arr (views (fmem D) v [a, s] 1)) j = max_score (elem (fmem D s)) j" if "j < 8400" for v j
    by (rule max_score_cong[OF that]) (simp add: arr_elem assms(3))
  then have "D' = D\<lparr>fmem := (fmem D)([a, s] ! 0 := map (max_score (elem (fmem D s))) [0..<3 * (16 * 175)])\<rparr>"
    by (intro f32_effect[OF assms(1)[unfolded shader_defs] _ maxima.kernel_contract_axioms]) (simp_all add: assms(2))
  then show ?thesis by simp
qed

lemma threshold_effect:
  assumes "addComputePass E_175_16_3n5_shader [k, a] (175, 1, 1) D D'"
    and "length (fmem D k) = 8400" and "length (fmem D a) = 8400"
  shows "D' = D\<lparr>fmem := (fmem D)(k := map (\<lambda>j. confident (elem (fmem D a) j)) [0..<8400])\<rparr>"
proof -
  have "D' = D\<lparr>fmem := (fmem D)([k, a] ! 0 := map (\<lambda>j. confident (elem (fmem D a) j)) [0..<3 * (16 * 175)])\<rparr>"
    by (intro f32_effect[OF assms(1)[unfolded shader_defs] _ thresholds.kernel_contract_axioms])
      (simp_all add: assms(2,3) arr_elem)
  then show ?thesis by simp
qed

lemma class_code_cong:
  assumes "j < 8400" and "\<And>i. i < 495600 \<Longrightarrow> s i = t i" and "\<And>m. m < 59 \<Longrightarrow> c m = d m"
  shows "class_code s x c j = class_code t x d j"
  unfolding class_code_def class_score_def
  by (intro fold_cong refl ext) (simp add: assms class_score_bound)

lemma classes_effect:
  assumes "addComputePass r_175_16_59_3n1_shader [k, s, a, c] (175, 1, 1) D D'"
    and "length (fmem D k) = 8400" and "length (fmem D s) = 495600" and "length (fmem D a) = 8400"
    and "length (imem D c) = 59"
  shows "D' = D\<lparr>fmem := (fmem D)(k := map (\<lambda>j.
    f32_of_i32 (59 - class_code (elem (fmem D s)) (elem (fmem D a) j) (elem (imem D c)) j)) [0..<8400])\<rparr>"
proof -
  have "class_code (arr (views (fmem D) v [k, s, a, c] 1)) x (arr (views (imem D) w [k, s, a, c] 3)) j =
      class_code (elem (fmem D s)) x (elem (imem D c)) j" if "j < 8400" for v w x j
    by (rule class_code_cong[OF that]) (simp_all add: arr_elem assms(3,5))
  then have "D' = D\<lparr>fmem := (fmem D)([k, s, a, c] ! 0 := map (\<lambda>j.
      f32_of_i32 (59 - class_code (elem (fmem D s)) (elem (fmem D a) j) (elem (imem D c)) j)) [0..<3 * (16 * 175)])\<rparr>"
    by (intro f32_effect[OF assms(1)[unfolded shader_defs] _ classes.kernel_contract_axioms])
      (simp_all add: assms(2,4) arr_elem)
  then show ?thesis by simp
qed

lemma padded_pair_cong:
  assumes "j < 16384" and "\<And>i. i < 8400 \<Longrightarrow> s i = t i"
  shows "padded_pair s j = padded_pair t j"
  by (simp add: padded_pair_def Let_def assms)

lemma pad_effect:
  assumes "addComputePass E_2_2_2_2_2_2_2_2_2_2_2_2_2_2_shader [k, a] (16, 2, 2) D D'"
    and "length (fmem D k) = 16384" and "length (fmem D a) = 8400"
  shows "D' = D\<lparr>fmem := (fmem D)(k := map (padded_pair (elem (fmem D a))) [0..<16384])\<rparr>"
proof -
  have "padded_pair (arr (views (fmem D) v [k, a] 1)) j = padded_pair (elem (fmem D a)) j" if "j < 16384" for v j
    by (rule padded_pair_cong[OF that]) (simp add: arr_elem assms(3))
  then have "D' = D\<lparr>fmem := (fmem D)([k, a] ! 0 := map (padded_pair (elem (fmem D a))) [0..<16384])\<rparr>"
    by (intro f32_effect[OF assms(1)[unfolded shader_defs] _ pad.kernel_contract_axioms]) (simp_all add: assms(2))
  then show ?thesis by simp
qed

lemma tally_cong:
  assumes "i < 8400" and "\<And>j. j < 8400 \<Longrightarrow> p j = q j" and "\<And>j. j < 8400 \<Longrightarrow> s j = t j"
  shows "tally p s i = tally q t i"
  unfolding tally_def by (rule sum.cong) (simp_all add: assms)

lemma tally_effect:
  assumes "addComputePass r_175_16_2100_3_4n1_shader [k, p, a] (175, 1, 1) D D'"
    and "length (imem D k) = 8400" and "length (imem D p) = 8400" and "8400 \<le> length (fmem D a)"
    and "length (fmem D a) \<le> 2 ^ 31"
  shows "D' = D\<lparr>imem := (imem D)(k := map (tally (elem (imem D p)) (elem (fmem D a))) [0..<8400])\<rparr>"
proof -
  have "tally (arr (views (imem D) w [k, p, a] 1)) (arr (views (fmem D) v [k, p, a] 2)) j =
      tally (elem (imem D p)) (elem (fmem D a)) j" if "j < 8400" for v w j
    by (rule tally_cong[OF that]) (use assms(3-5) in \<open>simp_all add: arr_elem\<close>)
  then have "D' = D\<lparr>imem := (imem D)([k, p, a] ! 0 :=
      map (tally (elem (imem D p)) (elem (fmem D a))) [0..<3 * (16 * 175)])\<rparr>"
    by (intro i32_effect[OF assms(1)[unfolded shader_defs] _ tallies.kernel_contract_axioms]) (simp_all add: assms(2))
  then show ?thesis by simp
qed

lemma tally2_effect:
  assumes "addComputePass r_175_16_2100_3_4n2_shader [k, p, a] (175, 1, 1) D D'"
    and "length (imem D k) = 8400" and "length (imem D p) = 8400" and "8400 \<le> length (fmem D a)"
    and "length (fmem D a) \<le> 2 ^ 31"
  shows "D' = D\<lparr>imem := (imem D)(k := map (tally (elem (imem D p)) (elem (fmem D a))) [0..<8400])\<rparr>"
proof -
  have "tally (arr (views (imem D) w [k, p, a] 1)) (arr (views (fmem D) v [k, p, a] 2)) j =
      tally (elem (imem D p)) (elem (fmem D a)) j" if "j < 8400" for v w j
    by (rule tally_cong[OF that]) (use assms(3-5) in \<open>simp_all add: arr_elem\<close>)
  then have "D' = D\<lparr>imem := (imem D)([k, p, a] ! 0 :=
      map (tally (elem (imem D p)) (elem (fmem D a))) [0..<3 * (16 * 175)])\<rparr>"
    by (intro i32_effect[OF assms(1)[unfolded shader_defs] _ tallies2.kernel_contract_axioms]) (simp_all add: assms(2))
  then show ?thesis by simp
qed

lemma row_of_map: "row_of (map g ks) j = g (ks ! (j mod 6)) (j div 6)" if "length ks = 6"
  using that by (simp add: row_of_def)

lemma rows_effect:
  assumes "addComputePass E_525_16_6_shader [r, b1, b2, b3, b4, b5, b6] (525, 1, 1) D D'"
    and "length (fmem D r) = 50400" and "\<And>b. b \<in> {b1, b2, b3, b4, b5, b6} \<Longrightarrow> length (fmem D b) = 8400"
  shows "D' = D\<lparr>fmem := (fmem D)(r := map (row_of (map (\<lambda>b. elem (fmem D b)) [b1, b2, b3, b4, b5, b6])) [0..<50400])\<rparr>"
proof -
  let ?bs = "[r, b1, b2, b3, b4, b5, b6]"
  have ar: "arr (views (fmem D) v ?bs q) i = elem (fmem D (?bs ! q)) i" if "?bs ! q \<in> {b1, b2, b3, b4, b5, b6}" "i < 8400" for v q i
    using assms(3)[OF that(1)] that(2) by (intro arr_elem) simp_all
  have "row_of (map (\<lambda>q. arr (views (fmem D) v ?bs q)) [1, 2, 3, 4, 5, 6]) j =
      row_of (map (\<lambda>b. elem (fmem D b)) [b1, b2, b3, b4, b5, b6]) j" if "j < 50400" for v j
  proof -
    have j: "j div 6 < 8400" using that by simp
    have "j mod 6 < 6" by simp
    then consider "j mod 6 = 0" | "j mod 6 = 1" | "j mod 6 = 2" | "j mod 6 = 3" | "j mod 6 = 4" | "j mod 6 = 5"
      by linarith
    then show ?thesis by cases (simp_all add: row_of_def ar j)
  qed
  then have "D' = D\<lparr>fmem := (fmem D)(?bs ! 0 :=
      map (row_of (map (\<lambda>b. elem (fmem D b)) [b1, b2, b3, b4, b5, b6])) [0..<6 * (16 * 525)])\<rparr>"
    by (intro f32_effect[OF assms(1)[unfolded shader_defs] _ rows.kernel_contract_axioms]) (simp_all add: assms(2))
  then show ?thesis by simp
qed

lemma matching_cong:
  assumes "\<And>j. j < 8400 \<Longrightarrow> k j = k' j" and "s r = s' r" and "\<And>j. j < 8400 \<Longrightarrow> ci j = ci' j"
    and "co r = co' r" and "\<And>j. j < 8400 \<Longrightarrow> p j = p' j"
  shows "matching k s ci co p r = matching k' s' ci' co' p' r"
  unfolding matching_def by (rule sum.cong) (simp_all add: assms)

lemma matches_effect:
  assumes "addComputePass r_175_16_2100_3_4n3_shader [o', k, s, ci, co, p] (175, 1, 1) D D'"
    and "length (imem D o') = 8400" and "length (fmem D k) = 8400" and "length (fmem D s) = 16384"
    and "length (imem D ci) = 8400" and "length (imem D co) = 8400" and "length (imem D p) = 8400"
  shows "D' = D\<lparr>imem := (imem D)(o' := map (matching (elem (fmem D k)) (elem (fmem D s))
    (elem (imem D ci)) (elem (imem D co)) (elem (imem D p))) [0..<8400])\<rparr>"
proof -
  let ?bs = "[o', k, s, ci, co, p]"
  have "matching (arr (views (fmem D) v ?bs 1)) (arr (views (fmem D) v ?bs 2)) (arr (views (imem D) w ?bs 3))
      (arr (views (imem D) w ?bs 4)) (arr (views (imem D) w ?bs 5)) j =
    matching (elem (fmem D k)) (elem (fmem D s)) (elem (imem D ci)) (elem (imem D co)) (elem (imem D p)) j"
    if "j < 8400" for v w j
    by (rule matching_cong) (use that in \<open>simp_all add: arr_elem assms\<close>)
  then have "D' = D\<lparr>imem := (imem D)(?bs ! 0 := map (matching (elem (fmem D k)) (elem (fmem D s))
      (elem (imem D ci)) (elem (imem D co)) (elem (imem D p))) [0..<3 * (16 * 175)])\<rparr>"
    by (intro i32_effect[OF assms(1)[unfolded shader_defs] _ matches.kernel_contract_axioms]) (simp_all add: assms(2))
  then show ?thesis by simp
qed

lemma wraps_effect:
  assumes "addComputePass E_25_3_4_shader [o', a] (25, 1, 1) D D'"
    and "length (imem D o') = 300" and "length (imem D a) = 8400"
  shows "D' = D\<lparr>imem := (imem D)(o' := map (\<lambda>j. wrapped (elem (imem D a) j)) [0..<300])\<rparr>"
proof -
  have "D' = D\<lparr>imem := (imem D)([o', a] ! 0 := map (\<lambda>j. wrapped (elem (imem D a) j)) [0..<4 * (3 * 25)])\<rparr>"
    by (intro i32_effect[OF assms(1)[unfolded shader_defs] _ wraps.kernel_contract_axioms])
      (simp_all add: assms(2,3) arr_elem)
  then show ?thesis by simp
qed

lemma lane_sum_cong:
  assumes "\<And>i. i < 50400 \<Longrightarrow> row i = row' i" and "idx r = idx' r" and "\<And>i. i < 8400 \<Longrightarrow> pos i = pos' i"
    and "c < 6" and "q < 16"
  shows "lane_sum row idx pos c r q = lane_sum row' idx' pos' c r q"
  unfolding lane_sum_def
  by (intro fold_cong refl ext) (use assms in simp)

lemma gathered_cong:
  assumes "\<And>i. i < 50400 \<Longrightarrow> row i = row' i" and "\<And>i. i < 300 \<Longrightarrow> idx i = idx' i"
    and "\<And>i. i < 8400 \<Longrightarrow> pos i = pos' i" and "j < 1800"
  shows "gathered row idx pos j = gathered row' idx' pos' j"
proof -
  have "j mod 6 < 6" "j div 6 < 300" using assms(4) by auto
  then have "lane_sum row idx pos (j mod 6) (j div 6) q = lane_sum row' idx' pos' (j mod 6) (j div 6) q" if "q < 16" for q
    using assms that by (intro lane_sum_cong) auto
  then show ?thesis unfolding gathered_def by (intro fold_cong refl ext) simp
qed

lemma gather_effect:
  assumes "addComputePass r_300_6_16_525_shader [o', r, i, p] (6, 300, 1) D D'"
    and "length (fmem D o') = 1800" and "length (fmem D r) = 50400" and "length (imem D i) = 300"
    and "length (imem D p) = 8400"
  shows "D' = D\<lparr>fmem := (fmem D)(o' := map (gathered (elem (fmem D r)) (elem (imem D i)) (elem (imem D p))) [0..<1800])\<rparr>"
proof -
  let ?bs = "[o', r, i, p]"
  have whole: "gathered (arr (views (fmem D) v ?bs 1)) (arr (views (imem D) w ?bs 2)) (arr (views (imem D) w ?bs 3)) j =
      gathered (elem (fmem D r)) (elem (imem D i)) (elem (imem D p)) j" if "j < 1800" for v w j
    by (rule gathered_cong) (simp_all add: arr_elem assms that)
  have "D' = D\<lparr>fmem := (fmem D)(?bs ! 0 :=
      map (gathered (elem (fmem D r)) (elem (imem D i)) (elem (imem D p))) [0..<1800])\<rparr>"
  proof (rule f32_group_effect[OF assms(1)[unfolded shader_defs], where F = "\<lambda>v w. gathered
        (arr (views (fmem D) v ?bs 1)) (arr (views (imem D) w ?bs 2)) (arr (views (imem D) w ?bs 3))"])
    show "kernel_contract (1, 1, 1) (16, 1, 1) (\<lambda>_. launch (r_300_6_16_525_shared (views (fmem D) v ?bs 1)
        (views (imem D) w ?bs 2) (views (imem D) w ?bs 3)) g) 16
        (lane_sum (arr (views (fmem D) v ?bs 1)) (arr (views (imem D) w ?bs 2)) (arr (views (imem D) w ?bs 3))
          (fst g) (fst (snd g)))" for v w g
      using lanes.kernel_contract_axioms[of _ _ _ "fst g" "fst (snd g)" "snd (snd g)"] by simp
  qed (simp add: assms(2), rule gather_contract, assumption, simp only: whole)
  then show ?thesis by simp
qed

lemma areas_effect:
  assumes "addComputePass E_25_3_4n1_shader [o', r] (25, 1, 1) D D'"
    and "length (fmem D o') = 300" and "length (fmem D r) = 1800"
  shows "D' = D\<lparr>fmem := (fmem D)(o' := map (box_area (elem (fmem D r))) [0..<300])\<rparr>"
proof -
  have "D' = D\<lparr>fmem := (fmem D)([o', r] ! 0 := map (box_area (elem (fmem D r))) [0..<4 * (3 * 25)])\<rparr>"
    by (intro f32_effect[OF assms(1)[unfolded shader_defs] _ areas.kernel_contract_axioms])
      (simp_all add: assms(2,3) arr_elem box_area_def)
  then show ?thesis by simp
qed

lemma kept_flag_cong:
  assumes "\<And>i. i < 1800 \<Longrightarrow> row i = row' i" and "\<And>i. i < 300 \<Longrightarrow> area i = area' i" and "i < 300"
  shows "kept_flag row area i = kept_flag row' area' i"
proof -
  have "beats row area i j = beats row' area' i j" if "j < 300" for j
    unfolding beats_def box_iou_def using assms that by simp
  then have "(\<Sum>j<300. i32_of_bool (beats row area i j)) = (\<Sum>j<300. i32_of_bool (beats row' area' i j))"
    by (intro sum.cong) simp_all
  then show ?thesis by (simp add: kept_flag_def)
qed

lemma keeps_effect:
  assumes "addComputePass r_75_4_75_4_shader [o', r, a] (75, 1, 1) D D'"
    and "length (fmem D o') = 300" and "length (fmem D r) = 1800" and "length (fmem D a) = 300"
  shows "D' = D\<lparr>fmem := (fmem D)(o' := map (kept_flag (elem (fmem D r)) (elem (fmem D a))) [0..<300])\<rparr>"
proof -
  have "kept_flag (arr (views (fmem D) v [o', r, a] 1)) (arr (views (fmem D) v [o', r, a] 2)) j =
      kept_flag (elem (fmem D r)) (elem (fmem D a)) j" if "j < 300" for v j
    by (rule kept_flag_cong) (simp_all add: arr_elem assms that)
  then have "D' = D\<lparr>fmem := (fmem D)([o', r, a] ! 0 :=
      map (kept_flag (elem (fmem D r)) (elem (fmem D a))) [0..<1 * (4 * 75)])\<rparr>"
    by (intro f32_effect[OF assms(1)[unfolded shader_defs] _ keeps.kernel_contract_axioms]) (simp_all add: assms(2))
  then show ?thesis by simp
qed

lemma masks_effect:
  assumes "addComputePass E_75_4_2_3_shader [o', r, k] (75, 1, 1) D D'"
    and "length (fmem D o') = 1800" and "length (fmem D r) = 1800" and "length (fmem D k) = 300"
  shows "D' = D\<lparr>fmem := (fmem D)(o' := map (masked (elem (fmem D r)) (elem (fmem D k))) [0..<1800])\<rparr>"
proof -
  have "D' = D\<lparr>fmem := (fmem D)([o', r, k] ! 0 := map (masked (elem (fmem D r)) (elem (fmem D k))) [0..<1800])\<rparr>"
    by (intro f32_effect[OF assms(1)[unfolded shader_defs] _ masks.kernel_contract_axioms])
      (simp_all add: assms arr_elem masked_def)
  then show ?thesis by simp
qed

end
