(* ===== verification/Postprocess.thy ===== *)
theory Postprocess
  imports Detector Buffers
begin

text \<open>
  The post-processing as a whole: the stages of \<open>Detector\<close> composed on a device whose buffers
  have the sizes \<open>setupNet\<close> gives them, and their outcome in terms of the ranking of the
  anchors by score.
\<close>

section \<open>Scores\<close>

definition conf :: "(nat \<Rightarrow> f32) \<Rightarrow> nat \<Rightarrow> f32" where
  "conf s j = confident (max_score s j)"

definition conf_keys :: "(nat \<Rightarrow> f32) \<Rightarrow> f32 list" where
  "conf_keys s = map (conf s) [0..<8400]"

definition candidate :: "(nat \<Rightarrow> f32) \<Rightarrow> (nat \<Rightarrow> nat \<Rightarrow> f32) \<Rightarrow> nat \<Rightarrow> f32" where
  "candidate s box = row_of [box 0, box 1, box 2, box 3, conf s, \<lambda>j. Fin (of_nat (best_class s j))]"

lemma score_stage:
  assumes "runs score_passes D D'" and "sized D"
    and "imem D (Buf 10) = map (\<lambda>j. 59 - of_nat j) [0..<59]"
  defines "s \<equiv> elem (fmem D (Buf 331))"
  shows "fmem D' (Buf 341) = conf_keys s"
    and "fmem D' (Buf 343) = map (padded_pair (elem (conf_keys s))) [0..<16384]"
    and "imem D' (Buf 344) = map (tally (elem (imem D (Buf 11))) (elem (conf_keys s))) [0..<8400]"
    and "fmem D' (Buf 345) = map (candidate s (\<lambda>n. elem (fmem D (Buf (337 + n))))) [0..<50400]"
proof -
  obtain E1 E2 E3 E4 E5 where p:
      "addComputePass r_175_16_59_3_shader [Buf 9, Buf 331] (175, 1, 1) D E1"
      "addComputePass E_175_16_3n5_shader [Buf 341, Buf 9] (175, 1, 1) E1 E2"
      "addComputePass r_175_16_59_3n1_shader [Buf 342, Buf 331, Buf 9, Buf 10] (175, 1, 1) E2 E3"
      "addComputePass E_2_2_2_2_2_2_2_2_2_2_2_2_2_2_shader [Buf 343, Buf 341] (16, 2, 2) E3 E4"
      "addComputePass r_175_16_2100_3_4n1_shader [Buf 344, Buf 11, Buf 341] (175, 1, 1) E4 E5"
      "addComputePass E_525_16_6_shader [Buf 345, Buf 337, Buf 338, Buf 339, Buf 340, Buf 341, Buf 342] (525, 1, 1) E5 D'"
    using assms(1) by (auto simp: score_passes_def runs_Cons runs_Nil)
  note z = sized_lengths[OF assms(2)]
  have 1: "E1 = D\<lparr>fmem := (fmem D)(Buf 9 := map (max_score s) [0..<8400])\<rparr>"
    using maxima_effect[OF p(1)] z by (simp add: s_def)
  have 2: "E2 = E1\<lparr>fmem := (fmem E1)(Buf 341 := conf_keys s)\<rparr>"
  proof -
    have "map (\<lambda>j. confident (elem (fmem E1 (Buf 9)) j)) [0..<8400] = conf_keys s"
      by (simp add: 1 conf_keys_def conf_def)
    then show ?thesis using threshold_effect[OF p(2)] z by (simp add: 1)
  qed
  have cls: "f32_of_i32 (59 - class_code s (max_score s j) (elem (imem D (Buf 10))) j) = Fin (of_nat (best_class s j))" for j
    by (rule class_value) (simp add: assms(3))
  have 3: "E3 = E2\<lparr>fmem := (fmem E2)(Buf 342 := map (\<lambda>j. Fin (of_nat (best_class s j))) [0..<8400])\<rparr>"
  proof -
    have "map (\<lambda>j. f32_of_i32 (59 - class_code (elem (fmem E2 (Buf 331))) (elem (fmem E2 (Buf 9)) j)
        (elem (imem E2 (Buf 10))) j)) [0..<8400] = map (\<lambda>j. Fin (of_nat (best_class s j))) [0..<8400]"
      by (simp add: 1 2 cls s_def[symmetric])
    then show ?thesis by (intro trans[OF classes_effect[OF p(3)]]) (simp_all only: 1 2, simp_all add: z)
  qed
  have 4: "E4 = E3\<lparr>fmem := (fmem E3)(Buf 343 := map (padded_pair (elem (conf_keys s))) [0..<16384])\<rparr>"
    using pad_effect[OF p(4)] z by (simp add: 1 2 3 conf_keys_def)
  have 5: "E5 = E4\<lparr>imem := (imem E4)(Buf 344 := map (tally (elem (imem D (Buf 11))) (elem (conf_keys s))) [0..<8400])\<rparr>"
    using tally_effect[OF p(5)] z by (simp add: 1 2 3 4 conf_keys_def)
  have 6: "D' = E5\<lparr>fmem := (fmem E5)(Buf 345 := map (candidate s (\<lambda>n. elem (fmem D (Buf (337 + n))))) [0..<50400])\<rparr>"
  proof -
    have "row_of (map (\<lambda>b. elem (fmem E5 b)) [Buf 337, Buf 338, Buf 339, Buf 340, Buf 341, Buf 342]) j =
        candidate s (\<lambda>n. elem (fmem D (Buf (337 + n)))) j" if "j < 50400" for j
    proof -
      have j: "j div 6 < 8400" using that by simp
      have "j mod 6 < 6" by simp
      then consider "j mod 6 = 0" | "j mod 6 = 1" | "j mod 6 = 2" | "j mod 6 = 3" | "j mod 6 = 4" | "j mod 6 = 5"
        by linarith
      then show ?thesis
        by cases (simp_all add: candidate_def row_of_def 1 2 3 4 5 j conf_keys_def)
    qed
    then have eq: "map (row_of (map (\<lambda>b. elem (fmem E5 b)) [Buf 337, Buf 338, Buf 339, Buf 340, Buf 341, Buf 342])) [0..<50400] =
        map (candidate s (\<lambda>n. elem (fmem D (Buf (337 + n))))) [0..<50400]"
      unfolding map_eq_conv by auto
    note z5 = sized_lengths[OF sized_pass[OF p(5) sized_pass[OF p(4) sized_pass[OF p(3)
      sized_pass[OF p(2) sized_pass[OF p(1) assms(2)]]]]]]
    show ?thesis unfolding eq[symmetric] by (rule rows_effect[OF p(6)]) (use z5 in auto)
  qed
  show "fmem D' (Buf 341) = conf_keys s"
    and "fmem D' (Buf 343) = map (padded_pair (elem (conf_keys s))) [0..<16384]"
    and "imem D' (Buf 344) = map (tally (elem (imem D (Buf 11))) (elem (conf_keys s))) [0..<8400]"
    and "fmem D' (Buf 345) = map (candidate s (\<lambda>n. elem (fmem D (Buf (337 + n))))) [0..<50400]"
    by (simp_all add: 1 2 3 4 5 6)
qed

section \<open>The keys of the sort\<close>

text \<open>Class probabilities as the network computes them: finite numbers of the format.\<close>

definition finite_cells :: "f32 list \<Rightarrow> bool" where
  "finite_cells xs \<longleftrightarrow> list_all (\<lambda>x. is_fp x \<and> is_fin x) xs"

lemma finite_cells_elem: "finite_cells xs \<Longrightarrow> is_fp (elem xs i) \<and> is_fin (elem xs i)"
  by (simp add: finite_cells_def list_all_length elem_def)

lemma max_score_format:
  assumes "finite_cells xs"
  shows "is_fp (max_score (elem xs) j)" and "is_fin (max_score (elem xs) j)"
proof -
  have c: "is_fp (class_score (elem xs) j m) \<and> is_fin (class_score (elem xs) j m)" for m
    unfolding class_score_def by (rule finite_cells_elem[OF assms])
  then obtain m where "max_score (elem xs) j = class_score (elem xs) j m"
    using max_score_attained[of "elem xs" j] by blast
  then show "is_fp (max_score (elem xs) j)" and "is_fin (max_score (elem xs) j)" using c by simp_all
qed

lemma conf_format:
  assumes "finite_cells xs"
  shows "is_fp (conf (elem xs) j)" and "is_fin (conf (elem xs) j)"
  unfolding conf_def using max_score_format[OF assms] confident_fp confident_fin by blast+

lemma conf_plain: "plain (conf s j)" and conf_above: "conf s j \<noteq> MInf"
  using confident_key[OF max_score_not_nan[of s j]] by (simp_all add: plain_def conf_def)

lemma feq_plain: "plain a \<Longrightarrow> plain b \<Longrightarrow> feq a b \<longleftrightarrow> a = b"
  using feq_eq feq_refl by (auto simp: plain_def)

definition padded_keys :: "f32 list \<Rightarrow> f32 list" where
  "padded_keys ks = ks @ replicate 7984 MInf"

lemma padded_pairs:
  assumes "length ks = 8400" and "list_all (\<lambda>x. is_fp x \<and> plain x) ks"
  shows "map (padded_pair (elem ks)) [0..<16384] = pairs_reversed (padded_keys ks)"
proof -
  have "padded_pair (elem ks) j = flip 2 (elem (padded_keys ks)) j" if "j < 16384" for j
  proof -
    have i: "reflect 2 j < 16384" using that by (intro reflect_less) simp_all
    have "is_fp (ks ! k) \<and> ks ! k \<noteq> NZero" if "k < 8400" for k
      using assms that by (simp add: list_all_length plain_def)
    then have "ks ! k + 0 = ks ! k" "0 + ks ! k = ks ! k" if "k < 8400" for k
      using that by (simp_all add: plus_zero_fp zero_plus_fp)
    moreover have "0 + 0 = (0 :: f32)" by (simp add: plus_zero_fp)
    ultimately show ?thesis
      using i assms(1)
      by (simp add: padded_pair_def flip_reflect Let_def elem_def padded_keys_def nth_append INFINITY_def)
  qed
  then show ?thesis by (simp add: pairs_reversed_def)
qed

lemma conf_keys_format:
  assumes "finite_cells xs"
  shows "list_all (\<lambda>x. is_fp x \<and> plain x) (conf_keys (elem xs))"
  using conf_format[OF assms] conf_plain by (simp add: conf_keys_def list_all_iff)

lemma length_conf_keys [simp]: "length (conf_keys s) = 8400"
  by (simp add: conf_keys_def)

lemma less_eq_not_less: "a \<le> b \<Longrightarrow> \<not> b < (a :: f32)"
  by (auto simp: less_fp_def less_eq_fp_def)

lemma descendingD: "descending xs \<Longrightarrow> i \<le> j \<Longrightarrow> j < length xs \<Longrightarrow> \<not> xs ! i < xs ! j"
  unfolding descending_def using less_eq_not_less by blast

lemma above_MInf: "plain x \<Longrightarrow> x \<noteq> MInf \<Longrightarrow> MInf < x"
  by (cases x) (simp_all add: plain_def less_fp_def)

lemma sort_stage:
  assumes "runs sort_passes D D'" and "sized D" and "finite_cells xs"
    and "fmem D (Buf 343) = map (padded_pair (elem (conf_keys (elem xs)))) [0..<16384]"
  shows "descending (take 8400 (fmem D' (Buf 346)))"
    and "mset (take 8400 (fmem D' (Buf 346))) = mset (conf_keys (elem xs))"
    and "length (fmem D' (Buf 346)) = 16384" and "imem D' = imem D"
    and "b \<noteq> Buf 343 \<Longrightarrow> b \<noteq> Buf 346 \<Longrightarrow> fmem D' b = fmem D b"
proof -
  let ?K = "conf_keys (elem xs)" and ?Y = "fmem D' (Buf 346)"
  note z = sized_lengths[OF assms(2)]
  have in343: "fmem D (Buf 343) = pairs_reversed (padded_keys ?K)"
    unfolding assms(4) by (rule padded_pairs) (simp_all add: conf_keys_format[OF assms(3)])
  have len: "length (padded_keys ?K) = 16384" by (simp add: padded_keys_def)
  have plain: "list_all plain (padded_keys ?K)"
    using conf_plain by (auto simp: padded_keys_def conf_keys_def list_all_iff plain_def)
  have Y: "?Y = map (network vmax vmin 14 (elem (padded_keys ?K))) [0..<16384]"
    by (rule sort_passes_network[OF assms(1) in343 _ len]) (simp add: z)
  note sorted = network_sorts[OF plain len, folded Y]
  show "length ?Y = 16384" by (simp add: Y)
  have "mset ?Y = mset ?K + replicate_mset 7984 MInf" using sorted(2) by (simp add: padded_keys_def)
  moreover have "MInf < x" if "x \<in> set ?K" for x
    using that conf_plain conf_above by (auto simp: conf_keys_def intro!: above_MInf)
  moreover have "\<not> ?Y ! i < ?Y ! j" if "i \<le> j" "j < length ?Y" for i j
    using sorted(1) that by (rule descendingD)
  ultimately have "mset (take (length ?K) ?Y) = mset ?K"
    by (intro take_mset_eq[where lt = "(<)" and b = MInf and n = 7984]) simp_all
  then show "mset (take 8400 ?Y) = mset ?K" by simp
  show "descending (take 8400 ?Y)" using sorted(1) by (simp add: descending_def)
  have "length (fmem D (Buf 343)) = 16384" "length (fmem D (Buf 346)) = 16384" by (simp_all add: z)
  from sort_passes_run(2,3)[OF assms(1) this]
  show "imem D' = imem D" and "b \<noteq> Buf 343 \<Longrightarrow> b \<noteq> Buf 346 \<Longrightarrow> fmem D' b = fmem D b" by blast+
qed

section \<open>The order of the anchors\<close>

lemma tally_occ:
  assumes "length xs = 8400" and "list_all plain xs" and "\<And>j. j < 8400 \<Longrightarrow> key j = xs ! j"
    and "\<And>j. j < 8400 \<Longrightarrow> pos j = of_nat j" and "i < 8400"
  shows "tally pos key i = of_nat (occ xs i)"
proof -
  have "\<not> pos i <s pos j \<and> feq (key j) (key i) \<longleftrightarrow> j \<le> i \<and> xs ! j = xs ! i" if "j < 8400" for j
    using that assms by (auto simp: sless_of_nat feq_plain list_all_length)
  then have "{j. j < 8400 \<and> (\<not> pos i <s pos j \<and> feq (key j) (key i))} = {j. j \<le> i \<and> j < length xs \<and> xs ! j = xs ! i}"
    using assms(1) by auto
  then show ?thesis unfolding tally_def sum_bits occ_def by (simp only:)
qed

lemma occ_small: "length xs = 8400 \<Longrightarrow> occ xs i < 2 ^ 31"
proof -
  assume "length xs = 8400"
  then have "occ xs i \<le> card {..<8400::nat}" unfolding occ_def by (intro card_mono) auto
  then show ?thesis by simp
qed

lemma matching_recover:
  assumes "length xs = 8400" and "length ys = 8400" and "list_all plain xs" and "list_all plain ys"
    and "\<And>j. j < 8400 \<Longrightarrow> key j = xs ! j" and "srt r = ys ! r"
    and "\<And>j. j < 8400 \<Longrightarrow> cin j = of_nat (occ xs j)" and "cout r = of_nat (occ ys r)"
    and "\<And>j. j < 8400 \<Longrightarrow> pos j = of_nat j" and "r < 8400"
  shows "matching key srt cin cout pos r = of_nat (recover xs ys r)"
proof -
  have "i32_of_bool (feq (key j) (srt r) \<and> cin j = cout r) * pos j =
      of_nat (if xs ! j = ys ! r \<and> occ xs j = occ ys r then j else 0)" if j: "j < 8400" for j
  proof -
    have "plain (xs ! j)" "plain (ys ! r)" using assms(1-4,10) j by (simp_all add: list_all_length)
    moreover have "(of_nat (occ xs j) :: i32) = of_nat (occ ys r) \<longleftrightarrow> occ xs j = occ ys r"
      by (rule of_nat_i32_inject) (rule occ_small, rule assms)+
    ultimately show ?thesis using assms j by (simp add: feq_plain i32_of_bool_def)
  qed
  then show ?thesis by (simp add: matching_def recover_def assms(1))
qed

lemma order_stage:
  assumes "runs order_passes D D'" and "sized D" and "imem D (Buf 11) = map of_nat [0..<8400]"
    and "fmem D (Buf 341) = xs" and "fmem D (Buf 346) = zs" and "list_all plain xs"
    and "length xs = 8400" and "length zs = 16384" and "list_all plain (take 8400 zs)" and "mset (take 8400 zs) = mset xs"
    and "imem D (Buf 344) = map (tally (elem (imem D (Buf 11))) (elem xs)) [0..<8400]"
  shows "imem D' (Buf 349) = map (\<lambda>r. of_nat (recover xs (take 8400 zs) r)) [0..<300]"
proof -
  let ?ys = "take 8400 zs"
  obtain E1 E2 where p:
      "addComputePass r_175_16_2100_3_4n2_shader [Buf 347, Buf 11, Buf 346] (175, 1, 1) D E1"
      "addComputePass r_175_16_2100_3_4n3_shader [Buf 348, Buf 341, Buf 346, Buf 344, Buf 347, Buf 11] (175, 1, 1) E1 E2"
      "addComputePass E_25_3_4_shader [Buf 349, Buf 348] (25, 1, 1) E2 D'"
    using assms(1) by (auto simp: order_passes_def runs_Cons runs_Nil)
  note z = sized_lengths[OF assms(2)]
  have ly: "length ?ys = 8400" using assms(8) by simp
  have cin: "tally (elem (map of_nat [0..<8400])) (elem xs) i = of_nat (occ xs i)" if "i < 8400" for i
    by (rule tally_occ) (use assms that in \<open>simp_all add: elem_nth\<close>)
  have cout: "tally (elem (map of_nat [0..<8400])) (elem zs) i = of_nat (occ ?ys i)" if "i < 8400" for i
    by (rule tally_occ) (use assms that in \<open>simp_all add: elem_nth\<close>)
  have 1: "E1 = D\<lparr>imem := (imem D)(Buf 347 := map (\<lambda>i. of_nat (occ ?ys i)) [0..<8400])\<rparr>"
  proof -
    have eq: "map (tally (elem (imem D (Buf 11))) (elem (fmem D (Buf 346)))) [0..<8400] =
        map (\<lambda>i. of_nat (occ ?ys i)) [0..<8400]" by (simp add: assms(3,5) cout)
    show ?thesis unfolding eq[symmetric] by (rule tally2_effect[OF p(1)]) (simp_all add: z)
  qed
  have m: "matching (elem xs) (elem zs) (elem (map (\<lambda>i. of_nat (occ xs i)) [0..<8400]))
      (elem (map (\<lambda>i. of_nat (occ ?ys i)) [0..<8400])) (elem (map of_nat [0..<8400])) r = of_nat (recover xs ?ys r)"
    if "r < 8400" for r
    by (rule matching_recover) (use assms ly that in \<open>simp_all add: elem_nth\<close>)
  have 344: "imem D (Buf 344) = map (\<lambda>i. of_nat (occ xs i)) [0..<8400]"
    unfolding assms(11) assms(3) by (simp add: cin)
  have 2: "E2 = E1\<lparr>imem := (imem E1)(Buf 348 := map (\<lambda>r. of_nat (recover xs ?ys r)) [0..<8400])\<rparr>"
  proof -
    have eq: "map (matching (elem (fmem E1 (Buf 341))) (elem (fmem E1 (Buf 346))) (elem (imem E1 (Buf 344)))
        (elem (imem E1 (Buf 347))) (elem (imem E1 (Buf 11)))) [0..<8400] = map (\<lambda>r. of_nat (recover xs ?ys r)) [0..<8400]"
      by (simp add: 1 344 assms(3-5) m)
    show ?thesis unfolding eq[symmetric] by (rule matches_effect[OF p(2)]) (simp_all add: 1 z assms)
  qed
  have w: "wrapped (of_nat (recover xs ?ys r)) = of_nat (recover xs ?ys r)" if "r < 8400" for r
  proof -
    have "recover xs ?ys r < 8400" using recover(1)[OF assms(10)[symmetric], of r] that ly assms(7) by simp
    then have "\<not> (of_nat (recover xs ?ys r) :: i32) <s of_nat 0" by (subst sless_of_nat) simp_all
    then show ?thesis by (simp add: wrapped_def)
  qed
  have "D' = E2\<lparr>imem := (imem E2)(Buf 349 := map (\<lambda>j. wrapped (elem (imem E2 (Buf 348)) j)) [0..<300])\<rparr>"
    by (rule wraps_effect[OF p(3)]) (simp_all add: 1 2 z)
  then show ?thesis by (simp add: 2 w)
qed

section \<open>The rows of the output\<close>

definition top_row :: "(nat \<Rightarrow> f32) \<Rightarrow> (nat \<Rightarrow> nat) \<Rightarrow> nat \<Rightarrow> f32" where
  "top_row cand \<pi> j = 0 + cand (6 * \<pi> (j div 6) + j mod 6)"

definition suppressed :: "(nat \<Rightarrow> f32) \<Rightarrow> nat \<Rightarrow> bool" where
  "suppressed row i \<longleftrightarrow> (\<exists>j<i. overlaps row (box_area row) i j)"

definition detections :: "(nat \<Rightarrow> f32) \<Rightarrow> (nat \<Rightarrow> nat) \<Rightarrow> f32 list" where
  "detections cand \<pi> = map (\<lambda>j. top_row cand \<pi> j * (if suppressed (top_row cand \<pi>) (j div 6) then 0 else 1)) [0..<1800]"

lemma output_stage:
  assumes "runs output_passes D D'" and "sized D" and "imem D (Buf 11) = map of_nat [0..<8400]"
    and "fmem D (Buf 345) = map cand [0..<50400]" and "\<And>i. i < 50400 \<Longrightarrow> is_fp (cand i) \<and> is_fin (cand i)"
    and "imem D (Buf 349) = map (\<lambda>r. of_nat (\<pi> r)) [0..<300]" and "\<And>r. r < 300 \<Longrightarrow> \<pi> r < 8400"
  shows "fmem D' Output = detections cand \<pi>"
proof -
  let ?top = "top_row cand \<pi>"
  obtain E1 E2 E3 where p:
      "addComputePass r_300_6_16_525_shader [Buf 350, Buf 345, Buf 349, Buf 11] (6, 300, 1) D E1"
      "addComputePass E_25_3_4n1_shader [Buf 351, Buf 350] (25, 1, 1) E1 E2"
      "addComputePass r_75_4_75_4_shader [Buf 352, Buf 350, Buf 351] (75, 1, 1) E2 E3"
      "addComputePass E_75_4_2_3_shader [Output, Buf 350, Buf 352] (75, 1, 1) E3 D'"
    using assms(1) by (auto simp: output_passes_def runs_Cons runs_Nil)
  note z = sized_lengths[OF assms(2)]
  have 1: "E1 = D\<lparr>fmem := (fmem D)(Buf 350 := map ?top [0..<1800])\<rparr>"
  proof -
    have "gathered (elem (fmem D (Buf 345))) (elem (imem D (Buf 349))) (elem (imem D (Buf 11))) j = ?top j"
      if j: "j < 1800" for j
    proof -
      have r: "j div 6 < 300" "j mod 6 < 6" using j by auto
      have "gathered (elem (fmem D (Buf 345))) (elem (imem D (Buf 349))) (elem (imem D (Buf 11))) j =
          0 + elem (fmem D (Buf 345)) (6 * \<pi> (j div 6) + j mod 6)"
        by (rule gathered_pick[OF j assms(7)[OF r(1)]]) (use assms(5) r in \<open>simp_all add: assms(3,4,6)\<close>)
      moreover have "6 * \<pi> (j div 6) + j mod 6 < 50400" using assms(7)[OF r(1)] r(2) by linarith
      ultimately show ?thesis by (simp add: top_row_def assms(4))
    qed
    then have eq: "map (gathered (elem (fmem D (Buf 345))) (elem (imem D (Buf 349))) (elem (imem D (Buf 11)))) [0..<1800] =
        map ?top [0..<1800]" unfolding map_eq_conv by auto
    show ?thesis unfolding eq[symmetric] by (rule gather_effect[OF p(1)]) (simp_all add: z)
  qed
  have 2: "E2 = E1\<lparr>fmem := (fmem E1)(Buf 351 := map (box_area ?top) [0..<300])\<rparr>"
  proof -
    have eq: "map (box_area (elem (fmem E1 (Buf 350)))) [0..<300] = map (box_area ?top) [0..<300]"
      by (simp add: 1 box_area_def)
    show ?thesis unfolding eq[symmetric] by (rule areas_effect[OF p(2)]) (simp_all add: 1 z)
  qed
  have 3: "E3 = E2\<lparr>fmem := (fmem E2)(Buf 352 := map (\<lambda>i. if suppressed ?top i then 0 else 1) [0..<300])\<rparr>"
  proof -
    have "kept_flag (elem (fmem E2 (Buf 350))) (elem (fmem E2 (Buf 351))) i = kept_flag ?top (box_area ?top) i"
      if "i < 300" for i by (rule kept_flag_cong) (simp_all add: 1 2 that)
    then have eq: "map (kept_flag (elem (fmem E2 (Buf 350))) (elem (fmem E2 (Buf 351)))) [0..<300] =
        map (\<lambda>i. if suppressed ?top i then 0 else 1) [0..<300]"
      unfolding map_eq_conv by (auto simp: kept_flag_eq suppressed_def)
    show ?thesis unfolding eq[symmetric] by (rule keeps_effect[OF p(3)]) (simp_all add: 1 2 z)
  qed
  have "D' = E3\<lparr>fmem := (fmem E3)(Output := map (masked (elem (fmem E3 (Buf 350))) (elem (fmem E3 (Buf 352)))) [0..<1800])\<rparr>"
    by (rule masks_effect[OF p(4)]) (simp_all add: 1 2 3 z)
  then have "fmem D' Output = map (masked (elem (fmem E3 (Buf 350))) (elem (fmem E3 (Buf 352)))) [0..<1800]" by simp
  also have "\<dots> = detections cand \<pi>"
    unfolding detections_def map_eq_conv by (auto simp: masked_def 1 2 3)
  finally show ?thesis .
qed

section \<open>The ranking of the anchors\<close>

text \<open>
  Positions in descending order of their keys, equal keys in the order of the positions. There
  is exactly one such order.
\<close>

definition ranking :: "(nat \<Rightarrow> f32) \<Rightarrow> nat \<Rightarrow> (nat \<Rightarrow> nat) \<Rightarrow> bool" where
  "ranking key n \<pi> \<longleftrightarrow> bij_betw \<pi> {..<n} {..<n} \<and>
     (\<forall>r<n. \<forall>q<r. key (\<pi> r) < key (\<pi> q) \<or> key (\<pi> q) = key (\<pi> r) \<and> \<pi> q < \<pi> r)"

lemma ranking_recover:
  assumes "mset ys = mset xs" and "length xs = n" and "list_all plain xs" and "descending ys"
    and "\<And>j. j < n \<Longrightarrow> key j = xs ! j"
  shows "ranking key n (recover xs ys)"
proof -
  let ?\<pi> = "recover xs ys"
  note eq = assms(1)[symmetric]
  have len: "length ys = n" using assms(1,2) mset_eq_length by blast
  have "key (?\<pi> r) < key (?\<pi> q) \<or> key (?\<pi> q) = key (?\<pi> r) \<and> ?\<pi> q < ?\<pi> r" if rq: "r < n" "q < r" for r q
  proof -
    have q: "q < n" using rq by simp
    have k: "key (?\<pi> i) = ys ! i" "?\<pi> i < n" if "i < n" for i
      using recover(1,2)[OF eq, of i] that len assms(2,5) by simp_all
    have plain: "plain (ys ! i)" if "i < n" for i
    proof -
      have "ys ! i \<in># mset ys" using that len by simp
      then show ?thesis using assms(1,3) by (simp add: list_all_iff)
    qed
    have "\<not> ys ! q < ys ! r" using descendingD[OF assms(4), of q r] rq len by simp
    then consider "ys ! r < ys ! q" | "ys ! q = ys ! r" using plain_total[OF plain[OF q] plain[OF rq(1)]] by blast
    then show ?thesis
    proof cases
      case 2
      then have "?\<pi> q < ?\<pi> r" using recover_stable[OF eq rq(2)] rq(1) len by simp
      then show ?thesis using 2 k rq(1) q by simp
    qed (use k rq(1) q in simp)
  qed
  then show ?thesis using recover_bij[OF eq] len assms(2) by (auto simp: ranking_def)
qed

definition post_passes :: "pass list" where
  "post_passes = score_passes @ sort_passes @ order_passes @ output_passes"

text \<open>The state in which the post-processing starts.\<close>

definition ready :: "device \<Rightarrow> bool" where
  "ready D \<longleftrightarrow> sized D \<and> imem D (Buf 10) = map (\<lambda>j. 59 - of_nat j) [0..<59] \<and>
     imem D (Buf 11) = map of_nat [0..<8400] \<and> finite_cells (fmem D (Buf 331)) \<and>
     finite_cells (fmem D (Buf 337)) \<and> finite_cells (fmem D (Buf 338)) \<and>
     finite_cells (fmem D (Buf 339)) \<and> finite_cells (fmem D (Buf 340))"

definition anchor_rows :: "device \<Rightarrow> nat \<Rightarrow> f32" where
  "anchor_rows D = candidate (elem (fmem D (Buf 331))) (\<lambda>n. elem (fmem D (Buf (337 + n))))"

lemma class_format: "is_fp (Fin (of_nat (best_class s j)) :: f32)"
  using is_fp_f32_of_int[of "int (best_class s j)"] best_class_le[of s j] by simp

lemma anchor_rows_format:
  assumes "ready D"
  shows "is_fp (anchor_rows D i) \<and> is_fin (anchor_rows D i)"
proof -
  have c: "finite_cells (fmem D (Buf 331))" and "finite_cells (fmem D (Buf 337))" "finite_cells (fmem D (Buf 338))"
    "finite_cells (fmem D (Buf 339))" "finite_cells (fmem D (Buf 340))" using assms by (simp_all add: ready_def)
  note b = this(2-5)[THEN finite_cells_elem]
  have "i mod 6 < 6" by simp
  then consider "i mod 6 = 0" | "i mod 6 = 1" | "i mod 6 = 2" | "i mod 6 = 3" | "i mod 6 = 4" | "i mod 6 = 5"
    by linarith
  then show ?thesis
    using b conf_format[OF c] class_format
    by cases (simp_all add: anchor_rows_def candidate_def row_of_def)
qed

lemma post_passes_result:
  assumes "runs post_passes D D'" and "ready D"
  shows "\<exists>\<pi>. ranking (conf (elem (fmem D (Buf 331)))) 8400 \<pi> \<and> fmem D' Output = detections (anchor_rows D) \<pi>"
proof -
  let ?s = "elem (fmem D (Buf 331))"
  let ?K = "conf_keys ?s"
  obtain E1 E2 E3 where r: "runs score_passes D E1" "runs sort_passes E1 E2" "runs order_passes E2 E3"
    "runs output_passes E3 D'"
    using assms(1) unfolding post_passes_def runs_append by blast
  have D: "sized D" "imem D (Buf 10) = map (\<lambda>j. 59 - of_nat j) [0..<59]"
    "imem D (Buf 11) = map of_nat [0..<8400]" "finite_cells (fmem D (Buf 331))"
    using assms(2) by (simp_all add: ready_def)
  have sized: "sized E1" "sized E2" "sized E3" using sized_runs r D(1) by blast+
  note a = score_stage[OF r(1) D(1,2)]
  note b = sort_stage[OF r(2) sized(1) D(4) a(2)]
  have f1: "imem E1 (Buf 11) = imem D (Buf 11)"
    using runs_frame[OF r(1), of "Buf 11"] by (simp add: score_passes_def)
  have f2: "fmem E2 (Buf 341) = ?K" "imem E2 (Buf 11) = map of_nat [0..<8400]"
    "imem E2 (Buf 344) = map (tally (elem (imem E2 (Buf 11))) (elem ?K)) [0..<8400]"
    "fmem E2 (Buf 345) = map (anchor_rows D) [0..<50400]"
    using a f1 b(4,5) D(3) by (simp_all add: anchor_rows_def)
  let ?ys = "take 8400 (fmem E2 (Buf 346))"
  have plain: "list_all plain ?K" using conf_plain by (simp add: conf_keys_def list_all_iff)
  have plain_ys: "list_all plain ?ys"
    using plain mset_eq_setD[OF b(2)] by (simp add: list_all_iff)
  have c: "imem E3 (Buf 349) = map (\<lambda>r. of_nat (recover ?K ?ys r)) [0..<300]"
    by (rule order_stage[OF r(3) sized(2) f2(2) f2(1) refl plain length_conf_keys b(3) plain_ys b(2) f2(3)])
  have f3: "imem E3 (Buf 11) = map of_nat [0..<8400]" "fmem E3 (Buf 345) = map (anchor_rows D) [0..<50400]"
    using runs_frame[OF r(3), of "Buf 11"] runs_frame[OF r(3), of "Buf 345"] f2 by (simp_all add: order_passes_def)
  have "recover ?K ?ys q < 8400" if "q < 300" for q
    using recover(1)[OF b(2)[symmetric], of q] that b(3) by simp
  then have "fmem D' Output = detections (anchor_rows D) (recover ?K ?ys)"
    using output_stage[OF r(4) sized(3) f3(1,2) anchor_rows_format[OF assms(2)] c] by blast
  moreover have "ranking (conf ?s) 8400 (recover ?K ?ys)"
    by (rule ranking_recover[OF b(2) length_conf_keys plain b(1)]) (simp add: conf_keys_def)
  ultimately show ?thesis by blast
qed

section \<open>The ranking is unique\<close>

definition before :: "(nat \<Rightarrow> f32) \<Rightarrow> nat \<Rightarrow> nat \<Rightarrow> bool" where
  "before key i j \<longleftrightarrow> key j < key i \<or> key i = key j \<and> i < j"

lemma before_asym: "before key i j \<Longrightarrow> \<not> before key j i"
proof -
  assume b: "before key i j"
  show ?thesis
  proof (cases "key i = key j")
    case False
    then have "key j < key i" using b by (simp add: before_def)
    then show ?thesis using False by (auto simp: before_def dest: less_fp_asym)
  qed (use b in \<open>simp add: before_def\<close>)
qed

lemma before_irrefl: "\<not> before key i i"
  by (simp add: before_def)

lemma ranking_position:
  assumes "ranking key n \<pi>" and "r < n"
  shows "card {i. i < n \<and> before key i (\<pi> r)} = r"
proof -
  have bij: "bij_betw \<pi> {..<n} {..<n}" and ord: "\<And>q r. q < r \<Longrightarrow> r < n \<Longrightarrow> before key (\<pi> q) (\<pi> r)"
    using assms(1) by (auto simp: ranking_def before_def)
  have "{i. i < n \<and> before key i (\<pi> r)} = \<pi> ` {..<r}"
  proof (intro equalityI subsetI)
    fix i assume i: "i \<in> {i. i < n \<and> before key i (\<pi> r)}"
    then obtain q where q: "q < n" "i = \<pi> q" using bij by (auto simp: bij_betw_def image_iff)
    have "\<not> r \<le> q"
    proof
      assume "r \<le> q"
      then have "before key (\<pi> r) (\<pi> q) \<or> \<pi> q = \<pi> r" using ord[of r q] q(1) by (cases "r = q") auto
      then show False using i q(2) before_asym before_irrefl by auto
    qed
    then show "i \<in> \<pi> ` {..<r}" using q(2) by auto
  next
    fix i assume "i \<in> \<pi> ` {..<r}"
    then obtain q where q: "q < r" "i = \<pi> q" by auto
    then have "\<pi> q < n" using bij assms(2) by (auto simp: bij_betw_def)
    then show "i \<in> {i. i < n \<and> before key i (\<pi> r)}" using q ord[OF q(1) assms(2)] by simp
  qed
  moreover have "inj_on \<pi> {..<r}" using bij assms(2) by (auto simp: bij_betw_def intro: inj_on_subset)
  ultimately show ?thesis by (simp add: card_image)
qed

lemma ranking_unique:
  assumes "ranking key n \<pi>" and "ranking key n \<rho>" and "r < n"
  shows "\<pi> r = \<rho> r"
proof -
  have "\<pi> r \<in> {..<n}" "bij_betw \<rho> {..<n} {..<n}" using assms by (auto simp: ranking_def bij_betw_def)
  then obtain q where q: "q < n" "\<rho> q = \<pi> r" by (auto simp: bij_betw_def) (metis imageE lessThan_iff)
  then have "q = r" using ranking_position[OF assms(2) q(1)] ranking_position[OF assms(1,3)] by simp
  then show ?thesis using q(2) by simp
qed

lemma detections_cong:
  assumes "\<And>r. r < 300 \<Longrightarrow> \<pi> r = \<rho> r"
  shows "detections cand \<pi> = detections cand \<rho>"
proof -
  have top: "top_row cand \<pi> j = top_row cand \<rho> j" if "j < 1800" for j
    using assms[of "j div 6"] that by (simp add: top_row_def less_mult_imp_div_less)
  have "suppressed (top_row cand \<pi>) i = suppressed (top_row cand \<rho>) i" if "i < 300" for i
    using that by (auto simp: suppressed_def overlaps_def box_iou_def box_area_def top)
  then show ?thesis unfolding detections_def map_eq_conv using top by (auto simp: less_mult_imp_div_less)
qed

lemma post_passes_output:
  assumes "runs post_passes D D'" and "ready D"
    and "ranking (conf (elem (fmem D (Buf 331)))) 8400 \<pi>"
  shows "fmem D' Output = detections (anchor_rows D) \<pi>"
proof -
  obtain \<rho> where r: "ranking (conf (elem (fmem D (Buf 331)))) 8400 \<rho>" "fmem D' Output = detections (anchor_rows D) \<rho>"
    using post_passes_result[OF assms(1,2)] by blast
  have "\<rho> q = \<pi> q" if "q < 300" for q using ranking_unique[OF r(1) assms(3)] that by simp
  then show ?thesis unfolding r(2) by (rule detections_cong)
qed

end
