(* ===== verification/Intervals.thy ===== *)
theory Intervals
  imports Wgsl
begin

text \<open>
  Bounds on binary32 results. An operation on numbers within integral bounds gives a number
  within the bounds of the exact result, since rounding is monotone and keeps small integers.
\<close>

section \<open>Numbers between integers\<close>

definition between :: "int \<Rightarrow> int \<Rightarrow> f32 \<Rightarrow> bool" where
  "between l u x \<longleftrightarrow> is_fp x \<and> is_fin x \<and> of_int l \<le> val x \<and> val x \<le> of_int u"

lemma betweenD:
  assumes "between l u x"
  shows "is_fp x" and "is_fin x" and "of_int l \<le> val x" and "val x \<le> of_int u"
  using assms by (simp_all add: between_def)

lemma between_weaken: "between l u x \<Longrightarrow> l' \<le> l \<Longrightarrow> u \<le> u' \<Longrightarrow> between l' u' x"
  unfolding between_def by (metis of_int_le_iff order_trans)

lemma between_rnd:
  assumes "of_int l \<le> x" and "x \<le> of_int u" and "\<bar>l\<bar> \<le> 2 ^ 24" and "\<bar>u\<bar> \<le> 2 ^ 24"
  shows "between l u (rnd s x)"
proof -
  have "is_fin (rnd s x :: f32) \<and> of_int l \<le> val (rnd s x :: f32) \<and> val (rnd s x :: f32) \<le> of_int u"
    using rnd_le_exact[OF assms(2) is_fp_f32_of_int[OF assms(4)], of s] rnd_ge_exact[OF assms(1) is_fp_f32_of_int[OF assms(3)], of s]
    by (cases "rnd s x :: f32") (auto simp: less_eq_fp_def)
  then show ?thesis by (simp add: between_def del: is_fp.simps)
qed

lemma between_Fin: "\<bar>n\<bar> \<le> 2 ^ 24 \<Longrightarrow> between n n (Fin (of_int n))"
  using is_fp_f32_of_int[of n] by (simp add: between_def)

lemma plus_rnd: "is_fin a \<Longrightarrow> is_fin b \<Longrightarrow> a + b = (if a = NZero \<and> b = NZero then NZero else rnd (val a + val b < 0) (val a + val b))"
  by (auto simp: plus_fp_def is_fin_def)

lemma between_plus:
  assumes "between l u a" and "between l' u' b" and "\<bar>l + l'\<bar> \<le> 2 ^ 24" and "\<bar>u + u'\<bar> \<le> 2 ^ 24"
  shows "between (l + l') (u + u') (a + b)"
proof (cases "a = NZero \<and> b = NZero")
  case True
  then show ?thesis using betweenD[OF assms(1)] betweenD[OF assms(2)] by (simp add: plus_fp_def between_def)
next
  case False
  then have "a + b = rnd (val a + val b < 0) (val a + val b)"
    using betweenD[OF assms(1)] betweenD[OF assms(2)] by (simp only: plus_rnd if_False)
  moreover have "of_int (l + l') \<le> val a + val b" "val a + val b \<le> of_int (u + u')"
    using betweenD[OF assms(1)] betweenD[OF assms(2)] by simp_all
  ultimately show ?thesis using between_rnd assms(3,4) by metis
qed

lemma between_uminus: "between l u a \<Longrightarrow> between (- u) (- l) (- a)"
  by (cases a) (auto simp: between_def)

lemma between_minus:
  assumes "between l u a" and "between l' u' b" and "\<bar>l - u'\<bar> \<le> 2 ^ 24" and "\<bar>u - l'\<bar> \<le> 2 ^ 24"
  shows "between (l - u') (u - l') (a - b)"
  unfolding minus_fp_def using between_plus[OF assms(1) between_uminus[OF assms(2)]] assms(3,4) by simp

lemma times_rnd: "is_fin a \<Longrightarrow> is_fin b \<Longrightarrow> a * b = rnd (neg a \<noteq> neg b) (val a * val b)"
  by (simp add: times_fp_def is_fin_def)

lemma between_times:
  assumes "between 0 u a" and "between l v b" and "0 \<le> v" and "l \<le> 0" and "u * v \<le> 2 ^ 24" and "- (u * l) \<le> 2 ^ 24"
  shows "between (u * l) (u * v) (a * b)"
proof -
  note a = betweenD[OF assms(1)] and b = betweenD[OF assms(2)]
  have u: "0 \<le> u" using order_trans[OF a(3,4)] by simp
  have v: "(0 :: rat) \<le> of_int v" "(of_int l :: rat) \<le> 0" using assms(3,4) by simp_all
  have "val a * val b \<le> val a * of_int v" using a(3) b(4) by (intro mult_left_mono) simp_all
  also have "\<dots> \<le> of_int u * of_int v" using a(4) v by (intro mult_right_mono) simp_all
  finally have hi: "val a * val b \<le> of_int (u * v)" by simp
  have "of_int u * of_int l \<le> val a * of_int l" using a(4) v by (intro mult_right_mono_neg) simp_all
  also have "\<dots> \<le> val a * val b" using a(3) b(3) by (intro mult_left_mono) simp_all
  finally have lo: "of_int (u * l) \<le> val a * val b" by simp
  have "0 \<le> u * v" "u * l \<le> 0" using u assms(3,4) by (simp_all add: mult_nonneg_nonpos)
  then have "\<bar>u * v\<bar> \<le> 2 ^ 24" "\<bar>u * l\<bar> \<le> 2 ^ 24" using assms(5,6) by linarith+
  then show ?thesis using between_rnd[OF lo hi] times_rnd[OF a(2) b(2)] by simp
qed

lemma between_fold:
  assumes "between 0 (c * of_nat k) s" and "\<And>m. m \<in> set ms \<Longrightarrow> between 0 c (f m)" and "0 \<le> c"
    and "c * of_nat (k + length ms) \<le> 2 ^ 24"
  shows "between 0 (c * of_nat (k + length ms)) (fold (\<lambda>m s. s + f m) ms s)"
  using assms
proof (induction ms arbitrary: s k)
  case (Cons m ms)
  have "c * of_nat (Suc k) \<le> c * of_nat (k + length (m # ms))" using Cons.prems(3) by (intro mult_left_mono) simp_all
  moreover have "0 \<le> c * of_nat (Suc k)" using Cons.prems(3) by simp
  ultimately have b: "\<bar>c * of_nat k + c\<bar> \<le> 2 ^ 24" using Cons.prems(4) by (simp add: algebra_simps)
  have "between 0 (c * of_nat (Suc k)) (s + f m)"
    using between_plus[OF Cons.prems(1) Cons.prems(2)[of m] _ b] by (simp add: algebra_simps)
  from Cons.IH[OF this] Cons.prems show ?case by simp
qed simp

end
