(* ===== verification/Decoding.thy ===== *)
theory Decoding
  imports Boxes Postprocess Intervals
begin

text \<open>
  The decoding of the heads, passes 0 to 2, 4 and 85 to 94 of the inference closure of \<open>setupNet\<close>
  (\<open>server/cherum/static/net.js\<close>): from the logits in \<open>buf_205\<close>, \<open>buf_96\<close>, \<open>buf_308\<close> (sides of
  the boxes) and \<open>buf_228\<close>, \<open>buf_279\<close>, \<open>buf_327\<close> (classes) to the class probabilities in
  \<open>buf_331\<close> and the corners in \<open>buf_337\<close> to \<open>buf_340\<close>, the input of the post-processing.
\<close>

section \<open>Shaders and passes\<close>

definition r_80_16_5_shader :: "shader" where
  "r_80_16_5_shader = IGroup (16, 1, 1) 16 (\<lambda>f i. r_80_16_5_shared) (\<lambda>t f i. r_80_16_5 t)"

definition r_5_8_10_4_shader :: "shader" where
  "r_5_8_10_4_shader = FShader (8, 1, 1) (\<lambda>f i. r_5_8_10_4)"

definition r_5_4_20_shader :: "shader" where
  "r_5_4_20_shader = FShader (4, 1, 1) (\<lambda>f i. r_5_4_20)"

definition E_175_16_3_shader :: "shader" where
  "E_175_16_3_shader = FShader (16, 1, 1) (\<lambda>f i. E_175_16_3)"

definition r_175_4_16_3_16_shader :: "shader" where
  "r_175_4_16_3_16_shader = FShader (4, 16, 1) (\<lambda>f i. r_175_4_16_3_16 (f 1) (f 2) (f 3))"

definition E_59_175_16_3_shader :: "(f32 \<Rightarrow> f32) \<Rightarrow> shader" where
  "E_59_175_16_3_shader exp2 = FShader (16, 1, 1) (\<lambda>f i. E_59_175_16_3 exp2 (f 1) (f 2) (f 3))"

definition r_175_4_16_3_16n1_shader :: "(f32 \<Rightarrow> f32) \<Rightarrow> shader" where
  "r_175_4_16_3_16n1_shader exp2 = FShader (4, 16, 1) (\<lambda>f i. r_175_4_16_3_16n1 exp2 (f 1) (f 2) (f 3) (f 4))"

definition r_175_4_16_3_16n2_shader :: "(f32 \<Rightarrow> f32) \<Rightarrow> shader" where
  "r_175_4_16_3_16n2_shader exp2 = FShader (4, 16, 1) (\<lambda>f i. r_175_4_16_3_16n2 exp2 (f 1) (f 2) (f 3) (f 4) (f 5) (f 6))"

definition E_525_16_2_shader :: "shader" where
  "E_525_16_2_shader = FShader (16, 1, 1) (\<lambda>f i. E_525_16_2 (f 1) (f 2) (f 3) (f 4))"

definition E_525_16_2n1_shader :: "shader" where
  "E_525_16_2n1_shader = FShader (16, 1, 1) (\<lambda>f i. E_525_16_2n1 (f 1) (f 2) (f 3) (f 4))"

definition E_175_16_3n1_shader :: "shader" where
  "E_175_16_3n1_shader = FShader (16, 1, 1) (\<lambda>f i. E_175_16_3n1 (f 1) (f 2) (f 3))"

definition E_175_16_3n2_shader :: "shader" where
  "E_175_16_3n2_shader = FShader (16, 1, 1) (\<lambda>f i. E_175_16_3n2 (f 1) (f 2) (f 3))"

definition E_175_16_3n3_shader :: "shader" where
  "E_175_16_3n3_shader = FShader (16, 1, 1) (\<lambda>f i. E_175_16_3n3 (f 1) (f 2) (f 3))"

definition E_175_16_3n4_shader :: "shader" where
  "E_175_16_3n4_shader = FShader (16, 1, 1) (\<lambda>f i. E_175_16_3n4 (f 1) (f 2) (f 3))"

definition anchor_passes :: "pass list" where
  "anchor_passes =
   [(r_80_16_5_shader, [Buf 0], (80, 1, 1)),
    (r_5_8_10_4_shader, [Buf 1], (5, 1, 1)),
    (r_5_4_20_shader, [Buf 2], (5, 1, 1))]"

definition stride_passes :: "pass list" where
  "stride_passes = [(E_175_16_3_shader, [Buf 9], (175, 1, 1))]"

definition head_passes :: "(f32 \<Rightarrow> f32) \<Rightarrow> pass list" where
  "head_passes exp2 =
   [(r_175_4_16_3_16_shader, [Buf 330, Buf 205, Buf 96, Buf 308], (175, 1, 1)),
    (E_59_175_16_3_shader exp2, [Buf 331, Buf 228, Buf 279, Buf 327], (175, 59, 1)),
    (r_175_4_16_3_16n1_shader exp2, [Buf 332, Buf 205, Buf 96, Buf 308, Buf 330], (175, 1, 1)),
    (r_175_4_16_3_16n2_shader exp2, [Buf 333, Buf 205, Buf 96, Buf 308, Buf 330, Buf 332, Buf 334], (175, 1, 1))]"

definition box_passes :: "pass list" where
  "box_passes =
   [(E_525_16_2_shader, [Buf 335, Buf 0, Buf 1, Buf 2, Buf 333], (525, 1, 1)),
    (E_525_16_2n1_shader, [Buf 336, Buf 0, Buf 1, Buf 2, Buf 333], (525, 1, 1)),
    (E_175_16_3n1_shader, [Buf 337, Buf 335, Buf 336, Buf 9], (175, 1, 1)),
    (E_175_16_3n2_shader, [Buf 338, Buf 335, Buf 336, Buf 9], (175, 1, 1)),
    (E_175_16_3n3_shader, [Buf 339, Buf 335, Buf 336, Buf 9], (175, 1, 1)),
    (E_175_16_3n4_shader, [Buf 340, Buf 335, Buf 336, Buf 9], (175, 1, 1))]"

section \<open>Anchors\<close>

lemma head_lengths:
  assumes "sized D"
  shows "length (fmem D (Buf 0)) = 80" "length (fmem D (Buf 1)) = 40" "length (fmem D (Buf 2)) = 20"
    "length (fmem D (Buf 205)) = 409600" "length (fmem D (Buf 96)) = 102400" "length (fmem D (Buf 308)) = 25600"
    "length (fmem D (Buf 228)) = 377600" "length (fmem D (Buf 279)) = 94400" "length (fmem D (Buf 327)) = 23600"
    "length (fmem D (Buf 330)) = 33600" "length (fmem D (Buf 332)) = 33600" "length (fmem D (Buf 333)) = 33600"
    "length (fmem D (Buf 335)) = 16800" "length (fmem D (Buf 336)) = 16800"
  using assms by (simp_all add: sized_def empty_bufs_def)

lemma grid80_effect:
  assumes "addComputePass r_80_16_5_shader [o'] (80, 1, 1) D D'" and "length (fmem D o') = 80"
  shows "D' = D\<lparr>fmem := (fmem D)(o' := map centre [0..<80])\<rparr>"
proof -
  have "D' = D\<lparr>fmem := (fmem D)([o'] ! 0 := map centre [0..<80])\<rparr>"
  proof (rule i32_group_effect[OF assms(1)[unfolded r_80_16_5_shader_def], where T = "\<lambda>v w g. lane_word (fst g)" and F = "\<lambda>v w. centre"])
    show "kernel_contract (1, 1, 1) (16, 1, 1) (\<lambda>_. launch r_80_16_5_shared g) 16 (lane_word (fst g))" for g
      using lane_counts.kernel_contract_axioms[of "fst g" "fst (snd g)" "snd (snd g)"] by simp
  qed (simp add: assms(2), rule grid80_contract, assumption, rule refl)
  then show ?thesis by simp
qed

lemma anchors_effect:
  assumes "runs anchor_passes D D'" and "sized D"
  shows "D' = D\<lparr>fmem := (fmem D)(Buf 0 := map centre [0..<80], Buf 1 := map centre [0..<40], Buf 2 := map centre [0..<20])\<rparr>"
proof -
  obtain E1 E2 where p: "addComputePass r_80_16_5_shader [Buf 0] (80, 1, 1) D E1"
      "addComputePass r_5_8_10_4_shader [Buf 1] (5, 1, 1) E1 E2" "addComputePass r_5_4_20_shader [Buf 2] (5, 1, 1) E2 D'"
    using assms(1) by (auto simp: anchor_passes_def runs_Cons runs_Nil)
  note z = head_lengths[OF assms(2)]
  have 1: "E1 = D\<lparr>fmem := (fmem D)(Buf 0 := map centre [0..<80])\<rparr>" by (rule grid80_effect[OF p(1) z(1)])
  have 2: "E2 = E1\<lparr>fmem := (fmem E1)(Buf 1 := map centre [0..<40])\<rparr>"
    using f32_effect[OF p(2)[unfolded r_5_8_10_4_shader_def], of 40] grid40.kernel_contract_axioms z by (simp add: 1)
  have 3: "D' = E2\<lparr>fmem := (fmem E2)(Buf 2 := map centre [0..<20])\<rparr>"
    using f32_effect[OF p(3)[unfolded r_5_4_20_shader_def], of 20] grid20.kernel_contract_axioms z by (simp add: 1 2)
  show ?thesis by (simp add: 1 2 3)
qed

lemma strides_effect:
  assumes "runs stride_passes D D'" and "sized D"
  shows "D' = D\<lparr>fmem := (fmem D)(Buf 9 := map stride [0..<8400])\<rparr>"
proof -
  have "addComputePass E_175_16_3_shader [Buf 9] (175, 1, 1) D D'"
    using assms(1) by (simp add: stride_passes_def runs_Cons runs_Nil)
  from f32_effect[OF this[unfolded E_175_16_3_shader_def], of 8400] show ?thesis
    using strides.kernel_contract_axioms sized_lengths[OF assms(2)] by simp
qed

section \<open>Heads\<close>

text \<open>The value of channel \<open>c\<close> at an anchor; the addition of zeros turns a negative zero into zero.\<close>

definition level :: "(nat \<Rightarrow> f32) \<Rightarrow> (nat \<Rightarrow> f32) \<Rightarrow> (nat \<Rightarrow> f32) \<Rightarrow> nat \<Rightarrow> nat \<Rightarrow> f32" where
  "level x0 x1 x2 c a = 0 + (if a < 6400 then x0 (6400 * c + a) else if a < 8000 then x1 (1600 * c + (a - 6400))
     else x2 (400 * c + (a - 8000)))"

lemma joined_level:
  assumes "a < 8400" and "c < P" and "P \<le> 64"
    and "length (m (bs ! i)) = 6400 * P" and "length (m (bs ! j)) = 1600 * P" and "length (m (bs ! k)) = 400 * P"
    and "list_all is_fp (m (bs ! i))" and "list_all is_fp (m (bs ! j))" and "list_all is_fp (m (bs ! k))"
  shows "joined (views m v bs i) (views m v bs j) (views m v bs k) c a =
    level (elem (m (bs ! i))) (elem (m (bs ! j))) (elem (m (bs ! k))) c a"
proof -
  have rd: "rd (views m v bs q) (of_nat n) = elem (m (bs ! q)) n" if "n < length (m (bs ! q))" "length (m (bs ! q)) \<le> 409600" for q n
    using arr_elem[where m = m and bs = bs and n = q and j = n and w = v] that by (simp add: arr_def)
  have fp: "is_fp (elem (m (bs ! q)) n)" if "list_all is_fp (m (bs ! q))" for q n
    using that by (simp add: elem_def list_all_length)
  have clean: "x + 0 + 0 = 0 + x" "0 + x + 0 = 0 + x" "0 + (0 :: f32) = 0" if "is_fp x" for x :: f32
    using that by (simp_all add: zero_plus_fp plus_zero_fp) (cases "x = NZero"; simp add: plus_fp_def plus_zero_fp zero_fp_def)+
  have c: "c + 1 \<le> P" using assms(2) by simp
  consider "a < 6400" | "6400 \<le> a" "a < 8000" | "8000 \<le> a" by linarith
  then show ?thesis
  proof cases
    case 1
    have "6400 * c + a < 6400 * P" using c 1 by linarith
    then show ?thesis using 1 rd[of "6400 * c + a" i] assms(3,4) clean(1)[OF fp[OF assms(7)]]
      by (simp add: joined_def level_def select_def)
  next
    case 2
    have eq: "(of_nat (1600 * c + a) - 6400 :: i32) = of_nat (1600 * c + (a - 6400))" using 2 by (simp add: of_nat_diff)
    have "1600 * c + (a - 6400) < 1600 * P" using c 2 by linarith
    then show ?thesis unfolding joined_def level_def eq
      using 2 rd[of "1600 * c + (a - 6400)" j] assms(3,5) clean(2)[OF fp[OF assms(8)]] by (simp add: select_def)
  next
    case 3
    have eq: "(of_nat (400 * c + a) - 8000 :: i32) = of_nat (400 * c + (a - 8000))" using 3 by (simp add: of_nat_diff)
    have "400 * c + (a - 8000) < 400 * P" using c 3 assms(1) by linarith
    then show ?thesis unfolding joined_def level_def eq
      using 3 rd[of "400 * c + (a - 8000)" k] assms(3,6) clean(3)[OF fp[OF assms(9)]] by (simp add: select_def)
  qed
qed

text \<open>The logit of bin \<open>k\<close> for side \<open>p\<close> of the box, and the class logits.\<close>

definition side_logit :: "device \<Rightarrow> nat \<Rightarrow> nat \<Rightarrow> nat \<Rightarrow> f32" where
  "side_logit D p a k = level (elem (fmem D (Buf 205))) (elem (fmem D (Buf 96))) (elem (fmem D (Buf 308))) (16 * p + k) a"

definition class_logit :: "device \<Rightarrow> nat \<Rightarrow> nat \<Rightarrow> f32" where
  "class_logit D c a = level (elem (fmem D (Buf 228))) (elem (fmem D (Buf 279))) (elem (fmem D (Buf 327))) c a"

definition distance :: "(f32 \<Rightarrow> f32) \<Rightarrow> device \<Rightarrow> nat \<Rightarrow> nat \<Rightarrow> f32" where
  "distance exp2 D p a = (let x = side_logit D p a; m = bin_max x
     in bin_mean exp2 x m (bin_scale exp2 x m) (elem (fmem D (Buf 334))))"

definition head_format :: "device \<Rightarrow> bool" where
  "head_format D \<longleftrightarrow> list_all (\<lambda>b. list_all is_fp (fmem D b)) [Buf 205, Buf 96, Buf 308, Buf 228, Buf 279, Buf 327] \<and>
     length (fmem D (Buf 334)) = 16"

lemma side_joined:
  assumes "sized D" and "head_format D" and "a < 8400" and "p < 4" and "k < 16"
    and "bs ! 1 = Buf 205" and "bs ! 2 = Buf 96" and "bs ! 3 = Buf 308"
  shows "bin (views (fmem D) v bs 1) (views (fmem D) v bs 2) (views (fmem D) v bs 3) p k a = side_logit D p a k"
proof -
  have "16 * p + k < 64" using assms(4,5) by simp
  then show ?thesis unfolding bin_def side_logit_def
    using joined_level[of a "16 * p + k" 64 "fmem D" bs 1 2 3 v] assms head_lengths[OF assms(1)]
    by (simp add: head_format_def)
qed

lemma bins_cong:
  assumes "\<And>k. k < 16 \<Longrightarrow> x k = y k" and "\<And>k. k < 16 \<Longrightarrow> w k = z k"
  shows "bin_max x = bin_max y" and "bin_scale exp2 x m = bin_scale exp2 y m" and "bin_mean exp2 x m r w = bin_mean exp2 y m r z"
  unfolding bin_max_def bin_scale_def bin_mean_def using assms
  by (intro fold_cong arg_cong2[of _ _ _ _ "(/)"] ext; simp)+

lemma plane_less: "(j :: nat) < 33600 \<Longrightarrow> j div 8400 < 4" "(j :: nat) < 495600 \<Longrightarrow> j div 8400 < 59" "(j :: nat) mod 8400 < 8400"
  by (simp_all add: less_mult_imp_div_less)

lemma maxima_pass:
  assumes "addComputePass r_175_4_16_3_16_shader [Buf 330, Buf 205, Buf 96, Buf 308] (175, 1, 1) D D'"
    and "sized D" and "head_format D"
  shows "D' = D\<lparr>fmem := (fmem D)(Buf 330 := map (\<lambda>j. bin_max (side_logit D (j div 8400) (j mod 8400))) [0..<33600])\<rparr>"
proof -
  let ?bs = "[Buf 330, Buf 205, Buf 96, Buf 308]"
  have "bin_max (\<lambda>k. bin (views (fmem D) v ?bs 1) (views (fmem D) v ?bs 2) (views (fmem D) v ?bs 3) (j div 8400) k (j mod 8400)) =
      bin_max (side_logit D (j div 8400) (j mod 8400))" if "j < 33600" for v j
    using plane_less(1)[OF that] plane_less(3) by (intro bins_cong(1)[where w = "\<lambda>_. 0"] side_joined[OF assms(2,3)]) simp_all
  then have "D' = D\<lparr>fmem := (fmem D)(?bs ! 0 := map (\<lambda>j. bin_max (side_logit D (j div 8400) (j mod 8400))) [0..<3 * (16 * 175) * 4])\<rparr>"
    by (intro f32_effect[OF assms(1)[unfolded r_175_4_16_3_16_shader_def] _ max_planes.kernel_contract_axioms])
      (simp_all add: head_lengths[OF assms(2)])
  then show ?thesis by simp
qed

lemma classes_pass:
  assumes "addComputePass (E_59_175_16_3_shader exp2) [Buf 331, Buf 228, Buf 279, Buf 327] (175, 59, 1) D D'"
    and "sized D" and "head_format D"
  shows "D' = D\<lparr>fmem := (fmem D)(Buf 331 := map (\<lambda>j. sigmoid exp2 (class_logit D (j div 8400) (j mod 8400))) [0..<495600])\<rparr>"
proof -
  let ?bs = "[Buf 331, Buf 228, Buf 279, Buf 327]"
  have "joined (views (fmem D) v ?bs 1) (views (fmem D) v ?bs 2) (views (fmem D) v ?bs 3) (j div 8400) (j mod 8400) =
      class_logit D (j div 8400) (j mod 8400)" if "j < 495600" for v j
    using joined_level[of "j mod 8400" "j div 8400" 59 "fmem D" ?bs 1 2 3 v] plane_less(2)[OF that] assms(3) head_lengths[OF assms(2)]
    by (simp add: head_format_def class_logit_def)
  then have "D' = D\<lparr>fmem := (fmem D)(?bs ! 0 := map (\<lambda>j. sigmoid exp2 (class_logit D (j div 8400) (j mod 8400))) [0..<3 * (16 * 175) * 59])\<rparr>"
    by (intro f32_effect[OF assms(1)[unfolded E_59_175_16_3_shader_def] _ class_planes.kernel_contract_axioms])
      (simp_all add: sized_lengths[OF assms(2)])
  then show ?thesis by simp
qed

lemma scales_pass:
  assumes "addComputePass (r_175_4_16_3_16n1_shader exp2) [Buf 332, Buf 205, Buf 96, Buf 308, Buf 330] (175, 1, 1) D D'"
    and "sized D" and "head_format D"
  shows "D' = D\<lparr>fmem := (fmem D)(Buf 332 := map (\<lambda>j. bin_scale exp2 (side_logit D (j div 8400) (j mod 8400))
    (elem (fmem D (Buf 330)) j)) [0..<33600])\<rparr>"
proof -
  let ?bs = "[Buf 332, Buf 205, Buf 96, Buf 308, Buf 330]"
  have "bin_scale exp2 (\<lambda>k. bin (views (fmem D) v ?bs 1) (views (fmem D) v ?bs 2) (views (fmem D) v ?bs 3) (j div 8400) k (j mod 8400))
      (arr (views (fmem D) v ?bs 4) (8400 * (j div 8400) + j mod 8400)) =
      bin_scale exp2 (side_logit D (j div 8400) (j mod 8400)) (elem (fmem D (Buf 330)) j)" if "j < 33600" for v j
  proof -
    have "arr (views (fmem D) v ?bs 4) (8400 * (j div 8400) + j mod 8400) = elem (fmem D (Buf 330)) j"
      using that head_lengths[OF assms(2)] by (simp add: arr_elem)
    then show ?thesis
      using plane_less(1)[OF that] plane_less(3)
      by (simp only:) (intro bins_cong(2)[where w = "\<lambda>_. 0"] side_joined[OF assms(2,3)]; simp)
  qed
  then have "D' = D\<lparr>fmem := (fmem D)(?bs ! 0 := map (\<lambda>j. bin_scale exp2 (side_logit D (j div 8400) (j mod 8400))
      (elem (fmem D (Buf 330)) j)) [0..<3 * (16 * 175) * 4])\<rparr>"
    by (intro f32_effect[OF assms(1)[unfolded r_175_4_16_3_16n1_shader_def] _ scale_planes.kernel_contract_axioms])
      (simp_all add: head_lengths[OF assms(2)])
  then show ?thesis by simp
qed

lemma means_pass:
  assumes "addComputePass (r_175_4_16_3_16n2_shader exp2) [Buf 333, Buf 205, Buf 96, Buf 308, Buf 330, Buf 332, Buf 334] (175, 1, 1) D D'"
    and "sized D" and "head_format D"
  shows "D' = D\<lparr>fmem := (fmem D)(Buf 333 := map (\<lambda>j. bin_mean exp2 (side_logit D (j div 8400) (j mod 8400))
    (elem (fmem D (Buf 330)) j) (elem (fmem D (Buf 332)) j) (elem (fmem D (Buf 334)))) [0..<33600])\<rparr>"
proof -
  let ?bs = "[Buf 333, Buf 205, Buf 96, Buf 308, Buf 330, Buf 332, Buf 334]"
  have "bin_mean exp2 (\<lambda>k. bin (views (fmem D) v ?bs 1) (views (fmem D) v ?bs 2) (views (fmem D) v ?bs 3) (j div 8400) k (j mod 8400))
      (arr (views (fmem D) v ?bs 4) (8400 * (j div 8400) + j mod 8400)) (arr (views (fmem D) v ?bs 5) (8400 * (j div 8400) + j mod 8400))
      (arr (views (fmem D) v ?bs 6)) =
      bin_mean exp2 (side_logit D (j div 8400) (j mod 8400)) (elem (fmem D (Buf 330)) j) (elem (fmem D (Buf 332)) j)
      (elem (fmem D (Buf 334)))" if "j < 33600" for v j
  proof -
    have eq: "arr (views (fmem D) v ?bs 4) (8400 * (j div 8400) + j mod 8400) = elem (fmem D (Buf 330)) j"
      "arr (views (fmem D) v ?bs 5) (8400 * (j div 8400) + j mod 8400) = elem (fmem D (Buf 332)) j"
      using that head_lengths[OF assms(2)] by (simp_all add: arr_elem)
    have w: "arr (views (fmem D) v ?bs 6) k = elem (fmem D (Buf 334)) k" if "k < 16" for k
      using that assms(3) by (simp add: arr_elem head_format_def)
    show ?thesis
      unfolding eq using plane_less(1)[OF that] plane_less(3)
      by (intro bins_cong(3) side_joined[OF assms(2,3)] w; simp)
  qed
  then have "D' = D\<lparr>fmem := (fmem D)(?bs ! 0 := map (\<lambda>j. bin_mean exp2 (side_logit D (j div 8400) (j mod 8400))
      (elem (fmem D (Buf 330)) j) (elem (fmem D (Buf 332)) j) (elem (fmem D (Buf 334)))) [0..<3 * (16 * 175) * 4])\<rparr>"
    by (intro f32_effect[OF assms(1)[unfolded r_175_4_16_3_16n2_shader_def] _ mean_planes.kernel_contract_axioms])
      (simp_all add: head_lengths[OF assms(2)])
  then show ?thesis by simp
qed

text \<open>The four passes together: \<open>buf_331\<close> has the probabilities, \<open>buf_333\<close> the distances of the sides.\<close>

lemma heads_effect:
  assumes "runs (head_passes exp2) D D'" and "sized D" and "head_format D"
  shows "fmem D' (Buf 331) = map (\<lambda>j. sigmoid exp2 (class_logit D (j div 8400) (j mod 8400))) [0..<495600]"
    and "fmem D' (Buf 333) = map (\<lambda>j. distance exp2 D (j div 8400) (j mod 8400)) [0..<33600]"
proof -
  obtain E1 E2 E3 where p: "addComputePass r_175_4_16_3_16_shader [Buf 330, Buf 205, Buf 96, Buf 308] (175, 1, 1) D E1"
      "addComputePass (E_59_175_16_3_shader exp2) [Buf 331, Buf 228, Buf 279, Buf 327] (175, 59, 1) E1 E2"
      "addComputePass (r_175_4_16_3_16n1_shader exp2) [Buf 332, Buf 205, Buf 96, Buf 308, Buf 330] (175, 1, 1) E2 E3"
      "addComputePass (r_175_4_16_3_16n2_shader exp2) [Buf 333, Buf 205, Buf 96, Buf 308, Buf 330, Buf 332, Buf 334] (175, 1, 1) E3 D'"
    using assms(1) by (auto simp: head_passes_def runs_Cons runs_Nil)
  note 1 = maxima_pass[OF p(1) assms(2,3)]
  note s1 = sized_pass[OF p(1) assms(2)]
  have f1: "head_format E1" "class_logit E1 = class_logit D" "side_logit E1 = side_logit D"
    using assms(3) by (auto simp: head_format_def 1 class_logit_def side_logit_def fun_eq_iff)
  note 2 = classes_pass[OF p(2) s1 f1(1), unfolded f1(2)]
  note s2 = sized_pass[OF p(2) s1]
  have f2: "head_format E2" "side_logit E2 = side_logit D"
    using assms(3) by (auto simp: head_format_def 1 2 side_logit_def fun_eq_iff)
  note 3 = scales_pass[OF p(3) s2 f2(1), unfolded f2(2)]
  note s3 = sized_pass[OF p(3) s2]
  have f3: "head_format E3" "side_logit E3 = side_logit D"
    using assms(3) by (auto simp: head_format_def 1 2 3 side_logit_def fun_eq_iff)
  note 4 = means_pass[OF p(4) s3 f3(1), unfolded f3(2)]
  show "fmem D' (Buf 331) = map (\<lambda>j. sigmoid exp2 (class_logit D (j div 8400) (j mod 8400))) [0..<495600]"
    by (simp add: 2 3 4)
  show "fmem D' (Buf 333) = map (\<lambda>j. distance exp2 D (j div 8400) (j mod 8400)) [0..<33600]"
    by (simp add: 1 2 3 4 distance_def Let_def)
qed

section \<open>Boxes\<close>

text \<open>
  The point of an anchor, the centre and the extent of its box, in cells, along axis \<open>p\<close> (0 for
  x, 1 for y), and the corners in pixels (x1, y1, x2, y2), from the distances \<open>d\<close> to the left,
  upper, right and lower side.
\<close>

definition grid_point :: "nat \<Rightarrow> nat \<Rightarrow> f32 \<times> f32 \<times> f32" where
  "grid_point p a = on_grid centre centre centre (cell_of p) a"

definition centre_at :: "(nat \<Rightarrow> nat \<Rightarrow> f32) \<Rightarrow> nat \<Rightarrow> nat \<Rightarrow> f32" where
  "centre_at d p a = box_centre (grid_point p a) (d p a) (d (p + 2) a)"

definition extent_at :: "(nat \<Rightarrow> nat \<Rightarrow> f32) \<Rightarrow> nat \<Rightarrow> nat \<Rightarrow> f32" where
  "extent_at d p a = box_extent (grid_point p a) (d p a) (d (p + 2) a)"

definition box_corner :: "(nat \<Rightarrow> nat \<Rightarrow> f32) \<Rightarrow> nat \<Rightarrow> nat \<Rightarrow> f32" where
  "box_corner d n a = corner (if n < 2 then - lit (1 / 2) else lit (1 / 2)) (centre_at d (n mod 2) a) (extent_at d (n mod 2) a) (stride a)"

lemma cell_bounds:
  assumes "a < 8400"
  shows "a < 6400 \<Longrightarrow> cell_of p a < 80" and "\<not> a < 6400 \<Longrightarrow> a < 8000 \<Longrightarrow> cell_of p a < 40"
    and "\<not> a < 8000 \<Longrightarrow> cell_of p a < 20"
  using assms by (auto simp: cell_of_def cell_column_def cell_row_def)

lemma on_grid_cong:
  assumes "a < 8400" and "\<And>c. c < 80 \<Longrightarrow> x c = centre c" and "\<And>c. c < 40 \<Longrightarrow> y c = centre c" and "\<And>c. c < 20 \<Longrightarrow> z c = centre c"
  shows "on_grid x y z (cell_of p) a = grid_point p a"
  using cell_bounds[OF assms(1), of p] assms(2-4) by (auto simp: on_grid_def grid_point_def)

definition grids_set :: "device \<Rightarrow> bool" where
  "grids_set D \<longleftrightarrow> fmem D (Buf 0) = map centre [0..<80] \<and> fmem D (Buf 1) = map centre [0..<40] \<and>
     fmem D (Buf 2) = map centre [0..<20]"

lemma grids_arr:
  assumes "grids_set D" and "a < 8400" and "bs ! 1 = Buf 0" and "bs ! 2 = Buf 1" and "bs ! 3 = Buf 2"
  shows "on_grid (arr (views (fmem D) v bs 1)) (arr (views (fmem D) v bs 2)) (arr (views (fmem D) v bs 3)) (cell_of p) a = grid_point p a"
  using assms by (intro on_grid_cong) (simp_all add: arr_elem grids_set_def)

lemma distances_arr:
  assumes "fmem D (Buf 333) = map (\<lambda>j. d (j div 8400) (j mod 8400)) [0..<33600]" and "bs ! 4 = Buf 333" and "p < 4" and "a < 8400"
  shows "arr (views (fmem D) v bs 4) (8400 * p + a) = d p a"
proof -
  have "8400 * p + a < 33600" using assms(3,4) by linarith
  moreover have "(8400 * p + a) div 8400 = p" "(8400 * p + a) mod 8400 = a" using assms(4) by simp_all
  ultimately show ?thesis using assms(1,2) by (simp add: arr_elem)
qed

lemma plane_less_2: "(j :: nat) < 16800 \<Longrightarrow> j div 8400 < 2"
  by (simp add: less_mult_imp_div_less)

lemma grid_views:
  assumes "grids_set D" and "fmem D (Buf 333) = map (\<lambda>j. d (j div 8400) (j mod 8400)) [0..<33600]" and "j < 16800"
    and "bs ! 1 = Buf 0" and "bs ! 2 = Buf 1" and "bs ! 3 = Buf 2" and "bs ! 4 = Buf 333"
  shows "on_grid (arr (views (fmem D) v bs 1)) (arr (views (fmem D) v bs 2)) (arr (views (fmem D) v bs 3)) (cell_of (j div 8400)) (j mod 8400) =
      grid_point (j div 8400) (j mod 8400)"
    and "arr (views (fmem D) v bs 4) (8400 * (j div 8400) + j mod 8400) = d (j div 8400) (j mod 8400)"
    and "arr (views (fmem D) v bs 4) (8400 * (j div 8400 + 2) + j mod 8400) = d (j div 8400 + 2) (j mod 8400)"
proof -
  have p: "j div 8400 < 4" "j div 8400 + 2 < 4" using plane_less_2[OF assms(3)] by simp_all
  show "on_grid (arr (views (fmem D) v bs 1)) (arr (views (fmem D) v bs 2)) (arr (views (fmem D) v bs 3)) (cell_of (j div 8400)) (j mod 8400) =
      grid_point (j div 8400) (j mod 8400)"
    by (rule grids_arr[OF assms(1) plane_less(3) assms(4-6)])
  show "arr (views (fmem D) v bs 4) (8400 * (j div 8400) + j mod 8400) = d (j div 8400) (j mod 8400)"
    by (rule distances_arr[OF assms(2,7) p(1) plane_less(3)])
  show "arr (views (fmem D) v bs 4) (8400 * (j div 8400 + 2) + j mod 8400) = d (j div 8400 + 2) (j mod 8400)"
    by (rule distances_arr[OF assms(2,7) p(2) plane_less(3)])
qed

lemma centres_pass:
  assumes "addComputePass E_525_16_2_shader [Buf 335, Buf 0, Buf 1, Buf 2, Buf 333] (525, 1, 1) D D'"
    and "sized D" and "grids_set D" and "fmem D (Buf 333) = map (\<lambda>j. d (j div 8400) (j mod 8400)) [0..<33600]"
  shows "D' = D\<lparr>fmem := (fmem D)(Buf 335 := map (\<lambda>j. centre_at d (j div 8400) (j mod 8400)) [0..<16800])\<rparr>"
proof -
  let ?bs = "[Buf 335, Buf 0, Buf 1, Buf 2, Buf 333]"
  have "D' = D\<lparr>fmem := (fmem D)(?bs ! 0 := map (\<lambda>j. centre_at d (j div 8400) (j mod 8400)) [0..<16 * 525 * 2])\<rparr>"
  proof (rule f32_effect[OF assms(1)[unfolded E_525_16_2_shader_def] _ centre_planes.kernel_contract_axioms])
    fix v :: "nat \<Rightarrow> i32 \<Rightarrow> f32" and j :: nat
    assume "j < 16 * 525 * 2"
    then have "j < 16800" by simp
    from grid_views[OF assms(3,4) this, of ?bs v]
    show "box_centre (on_grid (arr (views (fmem D) v ?bs 1)) (arr (views (fmem D) v ?bs 2)) (arr (views (fmem D) v ?bs 3))
        (cell_of (j div (16 * 525))) (j mod (16 * 525))) (arr (views (fmem D) v ?bs 4) (8400 * (j div (16 * 525)) + j mod (16 * 525)))
        (arr (views (fmem D) v ?bs 4) (8400 * (j div (16 * 525) + 2) + j mod (16 * 525))) = centre_at d (j div 8400) (j mod 8400)"
      by (simp add: centre_at_def del: mult_div_mod_eq)
  qed (simp add: head_lengths[OF assms(2)])
  then show ?thesis by simp
qed

lemma extents_pass:
  assumes "addComputePass E_525_16_2n1_shader [Buf 336, Buf 0, Buf 1, Buf 2, Buf 333] (525, 1, 1) D D'"
    and "sized D" and "grids_set D" and "fmem D (Buf 333) = map (\<lambda>j. d (j div 8400) (j mod 8400)) [0..<33600]"
  shows "D' = D\<lparr>fmem := (fmem D)(Buf 336 := map (\<lambda>j. extent_at d (j div 8400) (j mod 8400)) [0..<16800])\<rparr>"
proof -
  let ?bs = "[Buf 336, Buf 0, Buf 1, Buf 2, Buf 333]"
  have "D' = D\<lparr>fmem := (fmem D)(?bs ! 0 := map (\<lambda>j. extent_at d (j div 8400) (j mod 8400)) [0..<16 * 525 * 2])\<rparr>"
  proof (rule f32_effect[OF assms(1)[unfolded E_525_16_2n1_shader_def] _ extent_planes.kernel_contract_axioms])
    fix v :: "nat \<Rightarrow> i32 \<Rightarrow> f32" and j :: nat
    assume "j < 16 * 525 * 2"
    then have "j < 16800" by simp
    from grid_views[OF assms(3,4) this, of ?bs v]
    show "box_extent (on_grid (arr (views (fmem D) v ?bs 1)) (arr (views (fmem D) v ?bs 2)) (arr (views (fmem D) v ?bs 3))
        (cell_of (j div (16 * 525))) (j mod (16 * 525))) (arr (views (fmem D) v ?bs 4) (8400 * (j div (16 * 525)) + j mod (16 * 525)))
        (arr (views (fmem D) v ?bs 4) (8400 * (j div (16 * 525) + 2) + j mod (16 * 525))) = extent_at d (j div 8400) (j mod 8400)"
      by (simp add: extent_at_def del: mult_div_mod_eq)
  qed (simp add: head_lengths[OF assms(2)])
  then show ?thesis by simp
qed

lemma corner_arrs:
  assumes "fmem D c = map (\<lambda>j. f (j div 8400) (j mod 8400)) [0..<16800]"
    and "fmem D e = map (\<lambda>j. g (j div 8400) (j mod 8400)) [0..<16800]" and "fmem D s = map stride [0..<8400]" and "a < 8400"
    and "bs ! 1 = c" and "bs ! 2 = e" and "bs ! 3 = s"
  shows "arr (views (fmem D) v bs 1) a = f 0 a" "arr (views (fmem D) v bs 1) (8400 + a) = f 1 a"
    and "arr (views (fmem D) v bs 2) a = g 0 a" "arr (views (fmem D) v bs 2) (8400 + a) = g 1 a"
    and "arr (views (fmem D) v bs 3) a = stride a"
  using assms by (simp_all add: arr_elem)

lemma left_pass:
  assumes "addComputePass E_175_16_3n1_shader [o', c, e, s] (175, 1, 1) D D'" and "length (fmem D o') = 8400"
    and "fmem D c = map (\<lambda>j. f (j div 8400) (j mod 8400)) [0..<16800]"
    and "fmem D e = map (\<lambda>j. g (j div 8400) (j mod 8400)) [0..<16800]" and "fmem D s = map stride [0..<8400]"
  shows "D' = D\<lparr>fmem := (fmem D)(o' := map (\<lambda>a. corner (- lit (1 / 2)) (f 0 a) (g 0 a) (stride a)) [0..<8400])\<rparr>"
proof -
  have "D' = D\<lparr>fmem := (fmem D)([o', c, e, s] ! 0 := map (\<lambda>a. corner (- lit (1 / 2)) (f 0 a) (g 0 a) (stride a)) [0..<3 * (16 * 175)])\<rparr>"
    by (rule f32_effect[OF assms(1)[unfolded E_175_16_3n1_shader_def] _ lefts.kernel_contract_axioms])
      (simp_all add: assms(2) corner_arrs[OF assms(3-5), simplified])
  then show ?thesis by simp
qed

lemma top_pass:
  assumes "addComputePass E_175_16_3n2_shader [o', c, e, s] (175, 1, 1) D D'" and "length (fmem D o') = 8400"
    and "fmem D c = map (\<lambda>j. f (j div 8400) (j mod 8400)) [0..<16800]"
    and "fmem D e = map (\<lambda>j. g (j div 8400) (j mod 8400)) [0..<16800]" and "fmem D s = map stride [0..<8400]"
  shows "D' = D\<lparr>fmem := (fmem D)(o' := map (\<lambda>a. corner (- lit (1 / 2)) (f 1 a) (g 1 a) (stride a)) [0..<8400])\<rparr>"
proof -
  have "D' = D\<lparr>fmem := (fmem D)([o', c, e, s] ! 0 := map (\<lambda>a. corner (- lit (1 / 2)) (f 1 a) (g 1 a) (stride a)) [0..<3 * (16 * 175)])\<rparr>"
    by (rule f32_effect[OF assms(1)[unfolded E_175_16_3n2_shader_def] _ tops.kernel_contract_axioms])
      (simp_all add: assms(2) corner_arrs[OF assms(3-5), simplified])
  then show ?thesis by simp
qed

lemma right_pass:
  assumes "addComputePass E_175_16_3n3_shader [o', c, e, s] (175, 1, 1) D D'" and "length (fmem D o') = 8400"
    and "fmem D c = map (\<lambda>j. f (j div 8400) (j mod 8400)) [0..<16800]"
    and "fmem D e = map (\<lambda>j. g (j div 8400) (j mod 8400)) [0..<16800]" and "fmem D s = map stride [0..<8400]"
  shows "D' = D\<lparr>fmem := (fmem D)(o' := map (\<lambda>a. corner (lit (1 / 2)) (f 0 a) (g 0 a) (stride a)) [0..<8400])\<rparr>"
proof -
  have "D' = D\<lparr>fmem := (fmem D)([o', c, e, s] ! 0 := map (\<lambda>a. corner (lit (1 / 2)) (f 0 a) (g 0 a) (stride a)) [0..<3 * (16 * 175)])\<rparr>"
    by (rule f32_effect[OF assms(1)[unfolded E_175_16_3n3_shader_def] _ rights.kernel_contract_axioms])
      (simp_all add: assms(2) corner_arrs[OF assms(3-5), simplified])
  then show ?thesis by simp
qed

lemma bottom_pass:
  assumes "addComputePass E_175_16_3n4_shader [o', c, e, s] (175, 1, 1) D D'" and "length (fmem D o') = 8400"
    and "fmem D c = map (\<lambda>j. f (j div 8400) (j mod 8400)) [0..<16800]"
    and "fmem D e = map (\<lambda>j. g (j div 8400) (j mod 8400)) [0..<16800]" and "fmem D s = map stride [0..<8400]"
  shows "D' = D\<lparr>fmem := (fmem D)(o' := map (\<lambda>a. corner (lit (1 / 2)) (f 1 a) (g 1 a) (stride a)) [0..<8400])\<rparr>"
proof -
  have "D' = D\<lparr>fmem := (fmem D)([o', c, e, s] ! 0 := map (\<lambda>a. corner (lit (1 / 2)) (f 1 a) (g 1 a) (stride a)) [0..<3 * (16 * 175)])\<rparr>"
    by (rule f32_effect[OF assms(1)[unfolded E_175_16_3n4_shader_def] _ bottoms.kernel_contract_axioms])
      (simp_all add: assms(2) corner_arrs[OF assms(3-5), simplified])
  then show ?thesis by simp
qed

lemma boxes_effect:
  assumes "runs box_passes D D'" and "sized D" and "grids_set D" and "fmem D (Buf 9) = map stride [0..<8400]"
    and "fmem D (Buf 333) = map (\<lambda>j. d (j div 8400) (j mod 8400)) [0..<33600]"
  shows "\<forall>n<4. fmem D' (Buf (337 + n)) = map (box_corner d n) [0..<8400]"
proof -
  obtain E1 E2 E3 E4 E5 where p: "addComputePass E_525_16_2_shader [Buf 335, Buf 0, Buf 1, Buf 2, Buf 333] (525, 1, 1) D E1"
      "addComputePass E_525_16_2n1_shader [Buf 336, Buf 0, Buf 1, Buf 2, Buf 333] (525, 1, 1) E1 E2"
      "addComputePass E_175_16_3n1_shader [Buf 337, Buf 335, Buf 336, Buf 9] (175, 1, 1) E2 E3"
      "addComputePass E_175_16_3n2_shader [Buf 338, Buf 335, Buf 336, Buf 9] (175, 1, 1) E3 E4"
      "addComputePass E_175_16_3n3_shader [Buf 339, Buf 335, Buf 336, Buf 9] (175, 1, 1) E4 E5"
      "addComputePass E_175_16_3n4_shader [Buf 340, Buf 335, Buf 336, Buf 9] (175, 1, 1) E5 D'"
    using assms(1) by (auto simp: box_passes_def runs_Cons runs_Nil)
  note z = sized_lengths[OF assms(2)]
  note 1 = centres_pass[OF p(1) assms(2,3,5)]
  note s1 = sized_pass[OF p(1) assms(2)]
  have g1: "grids_set E1" "fmem E1 (Buf 333) = map (\<lambda>j. d (j div 8400) (j mod 8400)) [0..<33600]"
    using assms(3,5) by (simp_all add: grids_set_def 1)
  note 2 = extents_pass[OF p(2) s1 g1]
  have in2: "fmem E2 (Buf 335) = map (\<lambda>j. centre_at d (j div 8400) (j mod 8400)) [0..<16800]"
    "fmem E2 (Buf 336) = map (\<lambda>j. extent_at d (j div 8400) (j mod 8400)) [0..<16800]" "fmem E2 (Buf 9) = map stride [0..<8400]"
    by (simp_all add: 1 2 assms(4))
  have 3: "E3 = E2\<lparr>fmem := (fmem E2)(Buf 337 := map (box_corner d 0) [0..<8400])\<rparr>"
    using left_pass[OF p(3) _ in2] by (simp add: z 1 2 box_corner_def[abs_def])
  have in3: "fmem E3 (Buf 335) = map (\<lambda>j. centre_at d (j div 8400) (j mod 8400)) [0..<16800]"
    "fmem E3 (Buf 336) = map (\<lambda>j. extent_at d (j div 8400) (j mod 8400)) [0..<16800]" "fmem E3 (Buf 9) = map stride [0..<8400]"
    by (simp_all add: 3 in2)
  have 4: "E4 = E3\<lparr>fmem := (fmem E3)(Buf 338 := map (box_corner d 1) [0..<8400])\<rparr>"
    using top_pass[OF p(4) _ in3] by (simp add: z 1 2 3 box_corner_def[abs_def])
  have in4: "fmem E4 (Buf 335) = map (\<lambda>j. centre_at d (j div 8400) (j mod 8400)) [0..<16800]"
    "fmem E4 (Buf 336) = map (\<lambda>j. extent_at d (j div 8400) (j mod 8400)) [0..<16800]" "fmem E4 (Buf 9) = map stride [0..<8400]"
    by (simp_all add: 4 in3)
  have 5: "E5 = E4\<lparr>fmem := (fmem E4)(Buf 339 := map (box_corner d 2) [0..<8400])\<rparr>"
    using right_pass[OF p(5) _ in4] by (simp add: z 1 2 3 4 box_corner_def[abs_def])
  have in5: "fmem E5 (Buf 335) = map (\<lambda>j. centre_at d (j div 8400) (j mod 8400)) [0..<16800]"
    "fmem E5 (Buf 336) = map (\<lambda>j. extent_at d (j div 8400) (j mod 8400)) [0..<16800]" "fmem E5 (Buf 9) = map stride [0..<8400]"
    by (simp_all add: 5 in4)
  have 6: "D' = E5\<lparr>fmem := (fmem E5)(Buf 340 := map (box_corner d 3) [0..<8400])\<rparr>"
    using bottom_pass[OF p(6) _ in5] by (simp add: z 1 2 3 4 5 box_corner_def[abs_def])
  have "fmem D' (Buf (337 + n)) = map (box_corner d n) [0..<8400]" if n: "n < 4" for n
  proof -
    consider "n = 0" | "n = 1" | "n = 2" | "n = 3" using n by linarith
    then show ?thesis by cases (simp_all add: 3 4 5 6)
  qed
  then show ?thesis by blast
qed

end
