(* ===== verification/Network.thy ===== *)
theory Network
  imports Decoding
begin

text \<open>
  The program \<open>setupNet\<close> (\<open>server/cherum/static/net.js\<close>) builds: its weight buffers with the
  tensors they are filled from, and the 225 passes of an inference. The convolutions, concatenations
  and upsamplings of passes 3 and 7 to 84 appear with their bindings and grids; their shaders are a
  parameter, a function of the kernel's name, so that what is shown here holds whatever they
  compute; \<open>Backbone\<close> gives the shaders.
\<close>

section \<open>Weight buffers\<close>

text \<open>Name, size in bytes and tensor of every weight buffer, in the order of the source.\<close>

definition backbone_weights :: "(bufname \<times> nat \<times> string) list" where
  "backbone_weights =
   [(Buf 4, 1728, ''net.b1.0.conv.weight''),
    (Buf 5, 64, ''net.b1.0.bn.running_mean''),
    (Buf 6, 64, ''net.b1.0.bn.weight''),
    (Buf 7, 64, ''net.b1.0.bn.running_var''),
    (Buf 8, 64, ''net.b1.0.bn.bias''),
    (Buf 13, 18432, ''net.b1.1.conv.weight''),
    (Buf 14, 128, ''net.b1.1.bn.running_mean''),
    (Buf 15, 128, ''net.b1.1.bn.weight''),
    (Buf 16, 128, ''net.b1.1.bn.running_var''),
    (Buf 17, 128, ''net.b1.1.bn.bias''),
    (Buf 19, 4096, ''net.b2.0.cv1.conv.weight''),
    (Buf 20, 128, ''net.b2.0.cv1.bn.running_mean''),
    (Buf 21, 128, ''net.b2.0.cv1.bn.weight''),
    (Buf 22, 128, ''net.b2.0.cv1.bn.running_var''),
    (Buf 23, 128, ''net.b2.0.cv1.bn.bias''),
    (Buf 25, 9216, ''net.b2.0.bottleneck.0.cv1.conv.weight''),
    (Buf 26, 64, ''net.b2.0.bottleneck.0.cv1.bn.running_mean''),
    (Buf 27, 64, ''net.b2.0.bottleneck.0.cv1.bn.weight''),
    (Buf 28, 64, ''net.b2.0.bottleneck.0.cv1.bn.running_var''),
    (Buf 29, 64, ''net.b2.0.bottleneck.0.cv1.bn.bias''),
    (Buf 31, 9216, ''net.b2.0.bottleneck.0.cv2.conv.weight''),
    (Buf 32, 64, ''net.b2.0.bottleneck.0.cv2.bn.running_mean''),
    (Buf 33, 64, ''net.b2.0.bottleneck.0.cv2.bn.weight''),
    (Buf 34, 64, ''net.b2.0.bottleneck.0.cv2.bn.running_var''),
    (Buf 35, 64, ''net.b2.0.bottleneck.0.cv2.bn.bias''),
    (Buf 37, 6144, ''net.b2.0.cv2.conv.weight''),
    (Buf 38, 128, ''net.b2.0.cv2.bn.running_mean''),
    (Buf 39, 128, ''net.b2.0.cv2.bn.weight''),
    (Buf 40, 128, ''net.b2.0.cv2.bn.running_var''),
    (Buf 41, 128, ''net.b2.0.cv2.bn.bias''),
    (Buf 42, 73728, ''net.b2.1.conv.weight''),
    (Buf 43, 256, ''net.b2.1.bn.running_mean''),
    (Buf 44, 256, ''net.b2.1.bn.weight''),
    (Buf 45, 256, ''net.b2.1.bn.running_var''),
    (Buf 46, 256, ''net.b2.1.bn.bias''),
    (Buf 47, 16384, ''net.b2.2.cv1.conv.weight''),
    (Buf 48, 256, ''net.b2.2.cv1.bn.running_mean''),
    (Buf 49, 256, ''net.b2.2.cv1.bn.weight''),
    (Buf 50, 256, ''net.b2.2.cv1.bn.running_var''),
    (Buf 51, 256, ''net.b2.2.cv1.bn.bias''),
    (Buf 53, 36864, ''net.b2.2.bottleneck.0.cv1.conv.weight''),
    (Buf 54, 128, ''net.b2.2.bottleneck.0.cv1.bn.running_mean''),
    (Buf 55, 128, ''net.b2.2.bottleneck.0.cv1.bn.weight''),
    (Buf 56, 128, ''net.b2.2.bottleneck.0.cv1.bn.running_var''),
    (Buf 57, 128, ''net.b2.2.bottleneck.0.cv1.bn.bias''),
    (Buf 59, 36864, ''net.b2.2.bottleneck.0.cv2.conv.weight''),
    (Buf 60, 128, ''net.b2.2.bottleneck.0.cv2.bn.running_mean''),
    (Buf 61, 128, ''net.b2.2.bottleneck.0.cv2.bn.weight''),
    (Buf 62, 128, ''net.b2.2.bottleneck.0.cv2.bn.running_var''),
    (Buf 63, 128, ''net.b2.2.bottleneck.0.cv2.bn.bias''),
    (Buf 64, 36864, ''net.b2.2.bottleneck.1.cv1.conv.weight''),
    (Buf 65, 128, ''net.b2.2.bottleneck.1.cv1.bn.running_mean''),
    (Buf 66, 128, ''net.b2.2.bottleneck.1.cv1.bn.weight''),
    (Buf 67, 128, ''net.b2.2.bottleneck.1.cv1.bn.running_var''),
    (Buf 68, 128, ''net.b2.2.bottleneck.1.cv1.bn.bias''),
    (Buf 70, 36864, ''net.b2.2.bottleneck.1.cv2.conv.weight''),
    (Buf 71, 128, ''net.b2.2.bottleneck.1.cv2.bn.running_mean''),
    (Buf 72, 128, ''net.b2.2.bottleneck.1.cv2.bn.weight''),
    (Buf 73, 128, ''net.b2.2.bottleneck.1.cv2.bn.running_var''),
    (Buf 74, 128, ''net.b2.2.bottleneck.1.cv2.bn.bias''),
    (Buf 75, 32768, ''net.b2.2.cv2.conv.weight''),
    (Buf 76, 256, ''net.b2.2.cv2.bn.running_mean''),
    (Buf 77, 256, ''net.b2.2.cv2.bn.weight''),
    (Buf 78, 256, ''net.b2.2.cv2.bn.running_var''),
    (Buf 79, 256, ''net.b2.2.cv2.bn.bias''),
    (Buf 80, 294912, ''net.b3.0.conv.weight''),
    (Buf 81, 512, ''net.b3.0.bn.running_mean''),
    (Buf 82, 512, ''net.b3.0.bn.weight''),
    (Buf 83, 512, ''net.b3.0.bn.running_var''),
    (Buf 84, 512, ''net.b3.0.bn.bias''),
    (Buf 85, 65536, ''net.b3.1.cv1.conv.weight''),
    (Buf 86, 512, ''net.b3.1.cv1.bn.running_mean''),
    (Buf 87, 512, ''net.b3.1.cv1.bn.weight''),
    (Buf 88, 512, ''net.b3.1.cv1.bn.running_var''),
    (Buf 89, 512, ''net.b3.1.cv1.bn.bias''),
    (Buf 91, 147456, ''net.b3.1.bottleneck.0.cv1.conv.weight''),
    (Buf 92, 256, ''net.b3.1.bottleneck.0.cv1.bn.running_mean''),
    (Buf 93, 256, ''net.b3.1.bottleneck.0.cv1.bn.weight''),
    (Buf 94, 256, ''net.b3.1.bottleneck.0.cv1.bn.running_var''),
    (Buf 95, 256, ''net.b3.1.bottleneck.0.cv1.bn.bias''),
    (Buf 97, 147456, ''net.b3.1.bottleneck.0.cv2.conv.weight''),
    (Buf 98, 256, ''net.b3.1.bottleneck.0.cv2.bn.running_mean''),
    (Buf 99, 256, ''net.b3.1.bottleneck.0.cv2.bn.weight''),
    (Buf 100, 256, ''net.b3.1.bottleneck.0.cv2.bn.running_var''),
    (Buf 101, 256, ''net.b3.1.bottleneck.0.cv2.bn.bias''),
    (Buf 102, 147456, ''net.b3.1.bottleneck.1.cv1.conv.weight''),
    (Buf 103, 256, ''net.b3.1.bottleneck.1.cv1.bn.running_mean''),
    (Buf 104, 256, ''net.b3.1.bottleneck.1.cv1.bn.weight''),
    (Buf 105, 256, ''net.b3.1.bottleneck.1.cv1.bn.running_var''),
    (Buf 106, 256, ''net.b3.1.bottleneck.1.cv1.bn.bias''),
    (Buf 108, 147456, ''net.b3.1.bottleneck.1.cv2.conv.weight''),
    (Buf 109, 256, ''net.b3.1.bottleneck.1.cv2.bn.running_mean''),
    (Buf 110, 256, ''net.b3.1.bottleneck.1.cv2.bn.weight''),
    (Buf 111, 256, ''net.b3.1.bottleneck.1.cv2.bn.running_var''),
    (Buf 112, 256, ''net.b3.1.bottleneck.1.cv2.bn.bias''),
    (Buf 113, 131072, ''net.b3.1.cv2.conv.weight''),
    (Buf 114, 512, ''net.b3.1.cv2.bn.running_mean''),
    (Buf 115, 512, ''net.b3.1.cv2.bn.weight''),
    (Buf 116, 512, ''net.b3.1.cv2.bn.running_var''),
    (Buf 117, 512, ''net.b3.1.cv2.bn.bias''),
    (Buf 118, 1179648, ''net.b4.0.conv.weight''),
    (Buf 119, 1024, ''net.b4.0.bn.running_mean''),
    (Buf 120, 1024, ''net.b4.0.bn.weight''),
    (Buf 121, 1024, ''net.b4.0.bn.running_var''),
    (Buf 122, 1024, ''net.b4.0.bn.bias''),
    (Buf 123, 262144, ''net.b4.1.cv1.conv.weight''),
    (Buf 124, 1024, ''net.b4.1.cv1.bn.running_mean''),
    (Buf 125, 1024, ''net.b4.1.cv1.bn.weight''),
    (Buf 126, 1024, ''net.b4.1.cv1.bn.running_var''),
    (Buf 127, 1024, ''net.b4.1.cv1.bn.bias''),
    (Buf 129, 589824, ''net.b4.1.bottleneck.0.cv1.conv.weight''),
    (Buf 130, 512, ''net.b4.1.bottleneck.0.cv1.bn.running_mean''),
    (Buf 131, 512, ''net.b4.1.bottleneck.0.cv1.bn.weight''),
    (Buf 132, 512, ''net.b4.1.bottleneck.0.cv1.bn.running_var''),
    (Buf 133, 512, ''net.b4.1.bottleneck.0.cv1.bn.bias''),
    (Buf 135, 589824, ''net.b4.1.bottleneck.0.cv2.conv.weight''),
    (Buf 136, 512, ''net.b4.1.bottleneck.0.cv2.bn.running_mean''),
    (Buf 137, 512, ''net.b4.1.bottleneck.0.cv2.bn.weight''),
    (Buf 138, 512, ''net.b4.1.bottleneck.0.cv2.bn.running_var''),
    (Buf 139, 512, ''net.b4.1.bottleneck.0.cv2.bn.bias''),
    (Buf 141, 393216, ''net.b4.1.cv2.conv.weight''),
    (Buf 142, 1024, ''net.b4.1.cv2.bn.running_mean''),
    (Buf 143, 1024, ''net.b4.1.cv2.bn.weight''),
    (Buf 144, 1024, ''net.b4.1.cv2.bn.running_var''),
    (Buf 145, 1024, ''net.b4.1.cv2.bn.bias''),
    (Buf 146, 131072, ''net.b5.0.cv1.conv.weight''),
    (Buf 147, 512, ''net.b5.0.cv1.bn.running_mean''),
    (Buf 148, 512, ''net.b5.0.cv1.bn.weight''),
    (Buf 149, 512, ''net.b5.0.cv1.bn.running_var''),
    (Buf 150, 512, ''net.b5.0.cv1.bn.bias''),
    (Buf 153, 524288, ''net.b5.0.cv2.conv.weight'')]"

definition neck_weights :: "(bufname \<times> nat \<times> string) list" where
  "neck_weights =
   [(Buf 154, 1024, ''net.b5.0.cv2.bn.running_mean''),
    (Buf 155, 1024, ''net.b5.0.cv2.bn.weight''),
    (Buf 156, 1024, ''net.b5.0.cv2.bn.running_var''),
    (Buf 157, 1024, ''net.b5.0.cv2.bn.bias''),
    (Buf 159, 196608, ''fpn.n1.cv1.conv.weight''),
    (Buf 160, 512, ''fpn.n1.cv1.bn.running_mean''),
    (Buf 161, 512, ''fpn.n1.cv1.bn.weight''),
    (Buf 162, 512, ''fpn.n1.cv1.bn.running_var''),
    (Buf 163, 512, ''fpn.n1.cv1.bn.bias''),
    (Buf 164, 147456, ''fpn.n1.bottleneck.0.cv1.conv.weight''),
    (Buf 165, 256, ''fpn.n1.bottleneck.0.cv1.bn.running_mean''),
    (Buf 166, 256, ''fpn.n1.bottleneck.0.cv1.bn.weight''),
    (Buf 167, 256, ''fpn.n1.bottleneck.0.cv1.bn.running_var''),
    (Buf 168, 256, ''fpn.n1.bottleneck.0.cv1.bn.bias''),
    (Buf 169, 147456, ''fpn.n1.bottleneck.0.cv2.conv.weight''),
    (Buf 170, 256, ''fpn.n1.bottleneck.0.cv2.bn.running_mean''),
    (Buf 171, 256, ''fpn.n1.bottleneck.0.cv2.bn.weight''),
    (Buf 172, 256, ''fpn.n1.bottleneck.0.cv2.bn.running_var''),
    (Buf 173, 256, ''fpn.n1.bottleneck.0.cv2.bn.bias''),
    (Buf 175, 98304, ''fpn.n1.cv2.conv.weight''),
    (Buf 176, 512, ''fpn.n1.cv2.bn.running_mean''),
    (Buf 177, 512, ''fpn.n1.cv2.bn.weight''),
    (Buf 178, 512, ''fpn.n1.cv2.bn.running_var''),
    (Buf 179, 512, ''fpn.n1.cv2.bn.bias''),
    (Buf 180, 49152, ''fpn.n2.cv1.conv.weight''),
    (Buf 181, 256, ''fpn.n2.cv1.bn.running_mean''),
    (Buf 182, 256, ''fpn.n2.cv1.bn.weight''),
    (Buf 183, 256, ''fpn.n2.cv1.bn.running_var''),
    (Buf 184, 256, ''fpn.n2.cv1.bn.bias''),
    (Buf 185, 36864, ''fpn.n2.bottleneck.0.cv1.conv.weight''),
    (Buf 186, 128, ''fpn.n2.bottleneck.0.cv1.bn.running_mean''),
    (Buf 187, 128, ''fpn.n2.bottleneck.0.cv1.bn.weight''),
    (Buf 188, 128, ''fpn.n2.bottleneck.0.cv1.bn.running_var''),
    (Buf 189, 128, ''fpn.n2.bottleneck.0.cv1.bn.bias''),
    (Buf 190, 36864, ''fpn.n2.bottleneck.0.cv2.conv.weight''),
    (Buf 191, 128, ''fpn.n2.bottleneck.0.cv2.bn.running_mean''),
    (Buf 192, 128, ''fpn.n2.bottleneck.0.cv2.bn.weight''),
    (Buf 193, 128, ''fpn.n2.bottleneck.0.cv2.bn.running_var''),
    (Buf 194, 128, ''fpn.n2.bottleneck.0.cv2.bn.bias''),
    (Buf 195, 24576, ''fpn.n2.cv2.conv.weight''),
    (Buf 196, 256, ''fpn.n2.cv2.bn.running_mean''),
    (Buf 197, 256, ''fpn.n2.cv2.bn.weight''),
    (Buf 198, 256, ''fpn.n2.cv2.bn.running_var''),
    (Buf 199, 256, ''fpn.n2.cv2.bn.bias''),
    (Buf 200, 147456, ''head.cv2.0.0.conv.weight''),
    (Buf 201, 256, ''head.cv2.0.0.bn.running_mean''),
    (Buf 202, 256, ''head.cv2.0.0.bn.weight''),
    (Buf 203, 256, ''head.cv2.0.0.bn.running_var''),
    (Buf 204, 256, ''head.cv2.0.0.bn.bias''),
    (Buf 206, 147456, ''head.cv3.0.0.conv.weight''),
    (Buf 207, 256, ''head.cv3.0.0.bn.running_mean''),
    (Buf 208, 256, ''head.cv3.0.0.bn.weight''),
    (Buf 209, 256, ''head.cv3.0.0.bn.running_var''),
    (Buf 210, 256, ''head.cv3.0.0.bn.bias''),
    (Buf 211, 147456, ''fpn.n3.conv.weight''),
    (Buf 212, 256, ''fpn.n3.bn.running_mean''),
    (Buf 213, 256, ''fpn.n3.bn.weight''),
    (Buf 214, 256, ''fpn.n3.bn.running_var''),
    (Buf 215, 256, ''fpn.n3.bn.bias''),
    (Buf 216, 147456, ''head.cv2.0.1.conv.weight''),
    (Buf 217, 256, ''head.cv2.0.1.bn.running_mean''),
    (Buf 218, 256, ''head.cv2.0.1.bn.weight''),
    (Buf 219, 256, ''head.cv2.0.1.bn.running_var''),
    (Buf 220, 256, ''head.cv2.0.1.bn.bias''),
    (Buf 221, 147456, ''head.cv3.0.1.conv.weight''),
    (Buf 222, 256, ''head.cv3.0.1.bn.running_mean''),
    (Buf 223, 256, ''head.cv3.0.1.bn.weight''),
    (Buf 224, 256, ''head.cv3.0.1.bn.running_var''),
    (Buf 225, 256, ''head.cv3.0.1.bn.bias''),
    (Buf 226, 16384, ''head.cv2.0.2.weight''),
    (Buf 227, 256, ''head.cv2.0.2.bias''),
    (Buf 229, 15104, ''head.cv3.0.2.weight''),
    (Buf 230, 236, ''head.cv3.0.2.bias'')]"

definition head_weights :: "(bufname \<times> nat \<times> string) list" where
  "head_weights =
   [(Buf 231, 98304, ''fpn.n4.cv1.conv.weight''),
    (Buf 232, 512, ''fpn.n4.cv1.bn.running_mean''),
    (Buf 233, 512, ''fpn.n4.cv1.bn.weight''),
    (Buf 234, 512, ''fpn.n4.cv1.bn.running_var''),
    (Buf 235, 512, ''fpn.n4.cv1.bn.bias''),
    (Buf 236, 147456, ''fpn.n4.bottleneck.0.cv1.conv.weight''),
    (Buf 237, 256, ''fpn.n4.bottleneck.0.cv1.bn.running_mean''),
    (Buf 238, 256, ''fpn.n4.bottleneck.0.cv1.bn.weight''),
    (Buf 239, 256, ''fpn.n4.bottleneck.0.cv1.bn.running_var''),
    (Buf 240, 256, ''fpn.n4.bottleneck.0.cv1.bn.bias''),
    (Buf 241, 147456, ''fpn.n4.bottleneck.0.cv2.conv.weight''),
    (Buf 242, 256, ''fpn.n4.bottleneck.0.cv2.bn.running_mean''),
    (Buf 243, 256, ''fpn.n4.bottleneck.0.cv2.bn.weight''),
    (Buf 244, 256, ''fpn.n4.bottleneck.0.cv2.bn.running_var''),
    (Buf 245, 256, ''fpn.n4.bottleneck.0.cv2.bn.bias''),
    (Buf 246, 98304, ''fpn.n4.cv2.conv.weight''),
    (Buf 247, 512, ''fpn.n4.cv2.bn.running_mean''),
    (Buf 248, 512, ''fpn.n4.cv2.bn.weight''),
    (Buf 249, 512, ''fpn.n4.cv2.bn.running_var''),
    (Buf 250, 512, ''fpn.n4.cv2.bn.bias''),
    (Buf 251, 294912, ''head.cv2.1.0.conv.weight''),
    (Buf 252, 256, ''head.cv2.1.0.bn.running_mean''),
    (Buf 253, 256, ''head.cv2.1.0.bn.weight''),
    (Buf 254, 256, ''head.cv2.1.0.bn.running_var''),
    (Buf 255, 256, ''head.cv2.1.0.bn.bias''),
    (Buf 256, 294912, ''head.cv3.1.0.conv.weight''),
    (Buf 257, 256, ''head.cv3.1.0.bn.running_mean''),
    (Buf 258, 256, ''head.cv3.1.0.bn.weight''),
    (Buf 259, 256, ''head.cv3.1.0.bn.running_var''),
    (Buf 260, 256, ''head.cv3.1.0.bn.bias''),
    (Buf 261, 589824, ''fpn.n5.conv.weight''),
    (Buf 262, 512, ''fpn.n5.bn.running_mean''),
    (Buf 263, 512, ''fpn.n5.bn.weight''),
    (Buf 264, 512, ''fpn.n5.bn.running_var''),
    (Buf 265, 512, ''fpn.n5.bn.bias''),
    (Buf 267, 147456, ''head.cv2.1.1.conv.weight''),
    (Buf 268, 256, ''head.cv2.1.1.bn.running_mean''),
    (Buf 269, 256, ''head.cv2.1.1.bn.weight''),
    (Buf 270, 256, ''head.cv2.1.1.bn.running_var''),
    (Buf 271, 256, ''head.cv2.1.1.bn.bias''),
    (Buf 272, 147456, ''head.cv3.1.1.conv.weight''),
    (Buf 273, 256, ''head.cv3.1.1.bn.running_mean''),
    (Buf 274, 256, ''head.cv3.1.1.bn.weight''),
    (Buf 275, 256, ''head.cv3.1.1.bn.running_var''),
    (Buf 276, 256, ''head.cv3.1.1.bn.bias''),
    (Buf 277, 16384, ''head.cv2.1.2.weight''),
    (Buf 278, 256, ''head.cv2.1.2.bias''),
    (Buf 280, 15104, ''head.cv3.1.2.weight''),
    (Buf 281, 236, ''head.cv3.1.2.bias''),
    (Buf 282, 393216, ''fpn.n6.cv1.conv.weight''),
    (Buf 283, 1024, ''fpn.n6.cv1.bn.running_mean''),
    (Buf 284, 1024, ''fpn.n6.cv1.bn.weight''),
    (Buf 285, 1024, ''fpn.n6.cv1.bn.running_var''),
    (Buf 286, 1024, ''fpn.n6.cv1.bn.bias''),
    (Buf 287, 589824, ''fpn.n6.bottleneck.0.cv1.conv.weight''),
    (Buf 288, 512, ''fpn.n6.bottleneck.0.cv1.bn.running_mean''),
    (Buf 289, 512, ''fpn.n6.bottleneck.0.cv1.bn.weight''),
    (Buf 290, 512, ''fpn.n6.bottleneck.0.cv1.bn.running_var''),
    (Buf 291, 512, ''fpn.n6.bottleneck.0.cv1.bn.bias''),
    (Buf 292, 589824, ''fpn.n6.bottleneck.0.cv2.conv.weight''),
    (Buf 293, 512, ''fpn.n6.bottleneck.0.cv2.bn.running_mean''),
    (Buf 294, 512, ''fpn.n6.bottleneck.0.cv2.bn.weight''),
    (Buf 295, 512, ''fpn.n6.bottleneck.0.cv2.bn.running_var''),
    (Buf 296, 512, ''fpn.n6.bottleneck.0.cv2.bn.bias''),
    (Buf 297, 393216, ''fpn.n6.cv2.conv.weight''),
    (Buf 298, 1024, ''fpn.n6.cv2.bn.running_mean''),
    (Buf 299, 1024, ''fpn.n6.cv2.bn.weight''),
    (Buf 300, 1024, ''fpn.n6.cv2.bn.running_var''),
    (Buf 301, 1024, ''fpn.n6.cv2.bn.bias''),
    (Buf 303, 589824, ''head.cv2.2.0.conv.weight''),
    (Buf 304, 256, ''head.cv2.2.0.bn.running_mean''),
    (Buf 305, 256, ''head.cv2.2.0.bn.weight''),
    (Buf 306, 256, ''head.cv2.2.0.bn.running_var''),
    (Buf 307, 256, ''head.cv2.2.0.bn.bias''),
    (Buf 309, 589824, ''head.cv3.2.0.conv.weight''),
    (Buf 310, 256, ''head.cv3.2.0.bn.running_mean''),
    (Buf 311, 256, ''head.cv3.2.0.bn.weight''),
    (Buf 312, 256, ''head.cv3.2.0.bn.running_var''),
    (Buf 313, 256, ''head.cv3.2.0.bn.bias''),
    (Buf 315, 147456, ''head.cv2.2.1.conv.weight''),
    (Buf 316, 256, ''head.cv2.2.1.bn.running_mean''),
    (Buf 317, 256, ''head.cv2.2.1.bn.weight''),
    (Buf 318, 256, ''head.cv2.2.1.bn.running_var''),
    (Buf 319, 256, ''head.cv2.2.1.bn.bias''),
    (Buf 320, 147456, ''head.cv3.2.1.conv.weight''),
    (Buf 321, 256, ''head.cv3.2.1.bn.running_mean''),
    (Buf 322, 256, ''head.cv3.2.1.bn.weight''),
    (Buf 323, 256, ''head.cv3.2.1.bn.running_var''),
    (Buf 324, 256, ''head.cv3.2.1.bn.bias''),
    (Buf 325, 16384, ''head.cv2.2.2.weight''),
    (Buf 326, 256, ''head.cv2.2.2.bias''),
    (Buf 328, 15104, ''head.cv3.2.2.weight''),
    (Buf 329, 236, ''head.cv3.2.2.bias''),
    (Buf 334, 64, ''head.dfl.conv.weight'')]"

definition weight_bufs :: "(bufname \<times> nat \<times> string) list" where
  "weight_bufs = backbone_weights @ neck_weights @ head_weights"

section \<open>Passes\<close>

definition stem_passes :: "(string \<Rightarrow> shader) \<Rightarrow> pass list" where
  "stem_passes K =
   [(K ''r_4_40_5_8_16_3_4_4_3_3'', [Buf 3, Input, Buf 4, Buf 5, Buf 6, Buf 7, Buf 8], (5, 40, 4))]"

definition backbone_passes :: "(string \<Rightarrow> shader) \<Rightarrow> pass list" where
  "backbone_passes K =
   [(K ''r_8_10_5_16_8_16_4_4_3_3'', [Buf 12, Buf 3, Buf 13, Buf 14, Buf 15, Buf 16, Buf 17], (5, 10, 8)),
    (K ''r_400_8_16_4_4_32'', [Buf 18, Buf 12, Buf 19, Buf 20, Buf 21, Buf 22, Buf 23], (400, 1, 1)),
    (K ''r_4_10_5_16_8_16_4_4_3_3'', [Buf 24, Buf 18, Buf 25, Buf 26, Buf 27, Buf 28, Buf 29], (5, 10, 4)),
    (K ''r_4_10_5_16_8_16_4_4_3_3n1'', [Buf 30, Buf 18, Buf 24, Buf 31, Buf 32, Buf 33, Buf 34, Buf 35], (5, 10, 4)),
    (K ''E_6_400_8_16_4'', [Buf 36, Buf 18, Buf 30], (400, 6, 1)),
    (K ''r_400_8_16_12_4_4_4'', [Buf 18, Buf 36, Buf 37, Buf 38, Buf 39, Buf 40, Buf 41], (400, 1, 1)),
    (K ''r_8_5_5_2_16_4_32_4_4_3_3'', [Buf 30, Buf 18, Buf 42, Buf 43, Buf 44, Buf 45, Buf 46], (5, 5, 8)),
    (K ''r_2_100_8_16_16_4_4_4'', [Buf 24, Buf 30, Buf 47, Buf 48, Buf 49, Buf 50, Buf 51], (100, 2, 1)),
    (K ''r_4_5_5_2_16_4_32_4_4_3_3'', [Buf 52, Buf 24, Buf 53, Buf 54, Buf 55, Buf 56, Buf 57], (5, 5, 4)),
    (K ''r_4_5_5_2_16_4_32_4_4_3_3n1'', [Buf 58, Buf 24, Buf 52, Buf 59, Buf 60, Buf 61, Buf 62, Buf 63], (5, 5, 4)),
    (K ''r_4_5_5_2_16_4_32_4_4_3_3n2'', [Buf 52, Buf 58, Buf 64, Buf 65, Buf 66, Buf 67, Buf 68], (5, 5, 4)),
    (K ''r_4_5_5_2_16_4_32_4_4_3_3n3'', [Buf 69, Buf 58, Buf 52, Buf 70, Buf 71, Buf 72, Buf 73, Buf 74], (5, 5, 4)),
    (K ''E_16_100_8_16_4'', [Buf 18, Buf 24, Buf 58, Buf 69], (100, 16, 1)),
    (K ''r_2_100_8_16_32_4_4_4'', [Buf 24, Buf 18, Buf 75, Buf 76, Buf 77, Buf 78, Buf 79], (100, 2, 1)),
    (K ''r_4_5_5_8_8_2_64_4_4_3_3'', [Buf 69, Buf 24, Buf 80, Buf 81, Buf 82, Buf 83, Buf 84], (5, 5, 4)),
    (K ''r_4_25_8_16_32_4_4_4'', [Buf 58, Buf 69, Buf 85, Buf 86, Buf 87, Buf 88, Buf 89], (25, 4, 1)),
    (K ''r_2_5_5_8_8_2_64_4_4_3_3'', [Buf 90, Buf 58, Buf 91, Buf 92, Buf 93, Buf 94, Buf 95], (5, 5, 2)),
    (K ''r_2_5_5_8_8_2_64_4_4_3_3n1'', [Buf 96, Buf 58, Buf 90, Buf 97, Buf 98, Buf 99, Buf 100, Buf 101], (5, 5, 2)),
    (K ''r_2_5_5_8_8_2_64_4_4_3_3n2'', [Buf 90, Buf 96, Buf 102, Buf 103, Buf 104, Buf 105, Buf 106], (5, 5, 2)),
    (K ''r_2_5_5_8_8_2_64_4_4_3_3n3'', [Buf 107, Buf 96, Buf 90, Buf 108, Buf 109, Buf 110, Buf 111, Buf 112], (5, 5, 2)),
    (K ''E_32_25_8_16_4'', [Buf 30, Buf 58, Buf 96, Buf 107], (25, 32, 1)),
    (K ''r_4_25_8_16_64_4_4_4'', [Buf 58, Buf 30, Buf 113, Buf 114, Buf 115, Buf 116, Buf 117], (25, 4, 1)),
    (K ''r_2_5_5_32_4_128_4_4_3_3'', [Buf 107, Buf 58, Buf 118, Buf 119, Buf 120, Buf 121, Buf 122], (5, 5, 2)),
    (K ''r_2_25_32_4_64_4_4_4'', [Buf 96, Buf 107, Buf 123, Buf 124, Buf 125, Buf 126, Buf 127], (25, 2, 1)),
    (K ''r_5_5_32_4_128_4_4_3_3'', [Buf 128, Buf 96, Buf 129, Buf 130, Buf 131, Buf 132, Buf 133], (5, 5, 1)),
    (K ''r_5_5_32_4_128_4_4_3_3n1'', [Buf 134, Buf 96, Buf 128, Buf 135, Buf 136, Buf 137, Buf 138, Buf 139], (5, 5, 1)),
    (K ''E_12_25_32_4_4'', [Buf 140, Buf 96, Buf 134], (25, 12, 1)),
    (K ''r_2_25_32_4_96_4_4_4'', [Buf 96, Buf 140, Buf 141, Buf 142, Buf 143, Buf 144, Buf 145], (25, 2, 1)),
    (K ''r_25_32_4_64_4_4_4'', [Buf 134, Buf 96, Buf 146, Buf 147, Buf 148, Buf 149, Buf 150], (25, 1, 1)),
    (K ''r_4_5_5_32_4_5_4_5'', [Buf 128, Buf 134], (5, 5, 4)),
    (K ''r_4_5_5_32_4_5_4_5'', [Buf 151, Buf 128], (5, 5, 4)),
    (K ''r_4_5_5_32_4_5_4_5'', [Buf 152, Buf 151], (5, 5, 4)),
    (K ''E_16_25_32_4_4'', [Buf 69, Buf 134, Buf 128, Buf 151, Buf 152], (25, 16, 1)),
    (K ''r_2_25_32_4_128_4_4_4'', [Buf 96, Buf 69, Buf 153, Buf 154, Buf 155, Buf 156, Buf 157], (25, 2, 1)),
    (K ''E_48_5_5_8_8_2_4'', [Buf 158, Buf 96, Buf 58], (5, 5, 48)),
    (K ''r_4_25_8_16_96_4_4_4'', [Buf 58, Buf 158, Buf 159, Buf 160, Buf 161, Buf 162, Buf 163], (25, 4, 1)),
    (K ''r_2_5_5_8_8_2_64_4_4_3_3'', [Buf 107, Buf 58, Buf 164, Buf 165, Buf 166, Buf 167, Buf 168], (5, 5, 2)),
    (K ''r_2_5_5_8_8_2_64_4_4_3_3n2'', [Buf 90, Buf 107, Buf 169, Buf 170, Buf 171, Buf 172, Buf 173], (5, 5, 2)),
    (K ''E_24_25_8_16_4'', [Buf 174, Buf 58, Buf 90], (25, 24, 1)),
    (K ''r_4_25_8_16_48_4_4_4'', [Buf 58, Buf 174, Buf 175, Buf 176, Buf 177, Buf 178, Buf 179], (25, 4, 1)),
    (K ''E_96_5_5_2_16_4_4'', [Buf 36, Buf 58, Buf 24], (5, 5, 96)),
    (K ''r_2_100_8_16_48_4_4_4'', [Buf 24, Buf 36, Buf 180, Buf 181, Buf 182, Buf 183, Buf 184], (100, 2, 1)),
    (K ''r_4_5_5_2_16_4_32_4_4_3_3'', [Buf 69, Buf 24, Buf 185, Buf 186, Buf 187, Buf 188, Buf 189], (5, 5, 4)),
    (K ''r_4_5_5_2_16_4_32_4_4_3_3n2'', [Buf 52, Buf 69, Buf 190, Buf 191, Buf 192, Buf 193, Buf 194], (5, 5, 4)),
    (K ''E_12_100_8_16_4'', [Buf 158, Buf 24, Buf 52], (100, 12, 1)),
    (K ''r_2_100_8_16_24_4_4_4'', [Buf 24, Buf 158, Buf 195, Buf 196, Buf 197, Buf 198, Buf 199], (100, 2, 1)),
    (K ''r_8_5_5_2_16_4_64_4_4_3_3'', [Buf 30, Buf 24, Buf 200, Buf 201, Buf 202, Buf 203, Buf 204], (5, 5, 8)),
    (K ''r_8_5_5_2_16_4_64_4_4_3_3'', [Buf 205, Buf 24, Buf 206, Buf 207, Buf 208, Buf 209, Buf 210], (5, 5, 8)),
    (K ''r_2_5_5_8_8_2_64_4_4_3_3n4'', [Buf 90, Buf 24, Buf 211, Buf 212, Buf 213, Buf 214, Buf 215], (5, 5, 2)),
    (K ''r_8_5_5_2_16_4_64_4_4_3_3'', [Buf 24, Buf 30, Buf 216, Buf 217, Buf 218, Buf 219, Buf 220], (5, 5, 8)),
    (K ''r_8_5_5_2_16_4_64_4_4_3_3'', [Buf 30, Buf 205, Buf 221, Buf 222, Buf 223, Buf 224, Buf 225], (5, 5, 8)),
    (K ''E_24_25_8_16_4n1'', [Buf 174, Buf 90, Buf 58], (25, 24, 1)),
    (K ''r_2_100_8_16_16_4_4_4n1'', [Buf 205, Buf 24, Buf 226, Buf 227], (100, 2, 1)),
    (K ''r_59_100_16_16_4_4'', [Buf 228, Buf 30, Buf 229, Buf 230], (100, 59, 1)),
    (K ''r_4_25_8_16_48_4_4_4'', [Buf 58, Buf 174, Buf 231, Buf 232, Buf 233, Buf 234, Buf 235], (25, 4, 1)),
    (K ''r_2_5_5_8_8_2_64_4_4_3_3'', [Buf 90, Buf 58, Buf 236, Buf 237, Buf 238, Buf 239, Buf 240], (5, 5, 2)),
    (K ''r_2_5_5_8_8_2_64_4_4_3_3n2'', [Buf 107, Buf 90, Buf 241, Buf 242, Buf 243, Buf 244, Buf 245], (5, 5, 2)),
    (K ''E_24_25_8_16_4'', [Buf 174, Buf 58, Buf 107], (25, 24, 1)),
    (K ''r_4_25_8_16_48_4_4_4'', [Buf 58, Buf 174, Buf 246, Buf 247, Buf 248, Buf 249, Buf 250], (25, 4, 1)),
    (K ''r_2_5_5_8_8_2_128_4_4_3_3'', [Buf 107, Buf 58, Buf 251, Buf 252, Buf 253, Buf 254, Buf 255], (5, 5, 2)),
    (K ''r_2_5_5_8_8_2_128_4_4_3_3'', [Buf 90, Buf 58, Buf 256, Buf 257, Buf 258, Buf 259, Buf 260], (5, 5, 2)),
    (K ''r_5_5_32_4_128_4_4_3_3n2'', [Buf 152, Buf 58, Buf 261, Buf 262, Buf 263, Buf 264, Buf 265], (5, 5, 1)),
    (K ''r_2_5_5_8_8_2_64_4_4_3_3n2'', [Buf 266, Buf 107, Buf 267, Buf 268, Buf 269, Buf 270, Buf 271], (5, 5, 2)),
    (K ''r_2_5_5_8_8_2_64_4_4_3_3n2'', [Buf 107, Buf 90, Buf 272, Buf 273, Buf 274, Buf 275, Buf 276], (5, 5, 2)),
    (K ''E_12_25_32_4_4n1'', [Buf 140, Buf 152, Buf 96], (25, 12, 1)),
    (K ''r_2_25_8_16_16_4_4_4'', [Buf 96, Buf 266, Buf 277, Buf 278], (25, 2, 1)),
    (K ''r_59_25_16_16_4_4'', [Buf 279, Buf 107, Buf 280, Buf 281], (25, 59, 1)),
    (K ''r_2_25_32_4_96_4_4_4'', [Buf 107, Buf 140, Buf 282, Buf 283, Buf 284, Buf 285, Buf 286], (25, 2, 1)),
    (K ''r_5_5_32_4_128_4_4_3_3'', [Buf 152, Buf 107, Buf 287, Buf 288, Buf 289, Buf 290, Buf 291], (5, 5, 1)),
    (K ''r_5_5_32_4_128_4_4_3_3n3'', [Buf 151, Buf 152, Buf 292, Buf 293, Buf 294, Buf 295, Buf 296], (5, 5, 1)),
    (K ''E_12_25_32_4_4'', [Buf 140, Buf 107, Buf 151], (25, 12, 1)),
    (K ''r_2_25_32_4_96_4_4_4'', [Buf 107, Buf 140, Buf 297, Buf 298, Buf 299, Buf 300, Buf 301], (25, 2, 1)),
    (K ''r_5_5_16_4_256_4_4_3_3'', [Buf 302, Buf 107, Buf 303, Buf 304, Buf 305, Buf 306, Buf 307], (5, 5, 1)),
    (K ''r_5_5_16_4_256_4_4_3_3'', [Buf 308, Buf 107, Buf 309, Buf 310, Buf 311, Buf 312, Buf 313], (5, 5, 1)),
    (K ''r_5_5_16_4_64_4_4_3_3'', [Buf 314, Buf 302, Buf 315, Buf 316, Buf 317, Buf 318, Buf 319], (5, 5, 1)),
    (K ''r_5_5_16_4_64_4_4_3_3'', [Buf 302, Buf 308, Buf 320, Buf 321, Buf 322, Buf 323, Buf 324], (5, 5, 1)),
    (K ''r_25_16_4_16_4_4_4'', [Buf 308, Buf 314, Buf 325, Buf 326], (25, 1, 1)),
    (K ''r_59_25_4_16_4_4'', [Buf 327, Buf 302, Buf 328, Buf 329], (25, 59, 1))]"

text \<open>The passes of an inference, and those up to and from the heads.\<close>

definition feature_passes :: "(string \<Rightarrow> shader) \<Rightarrow> pass list" where
  "feature_passes K = anchor_passes @ stem_passes K @ stride_passes @ index_passes @ backbone_passes K"

definition detection_passes :: "(f32 \<Rightarrow> f32) \<Rightarrow> pass list" where
  "detection_passes exp2 = head_passes exp2 @ box_passes @ post_passes"

definition inference :: "(string \<Rightarrow> shader) \<Rightarrow> (f32 \<Rightarrow> f32) \<Rightarrow> pass list" where
  "inference K exp2 = feature_passes K @ detection_passes exp2"

section \<open>The flow of data\<close>

definition bindings :: "pass list \<Rightarrow> bufname list list" where
  "bindings ps = map (\<lambda>(s, bs, G). bs) ps"

text \<open>The buffers the passes read before any of them has written them, in the order of the first reads.\<close>

fun sources :: "bufname list \<Rightarrow> bufname list list \<Rightarrow> bufname list" where
  "sources written [] = []"
| "sources written (bs # bss) = filter (\<lambda>b. b \<notin> set written) (tl bs) @ sources (List.insert (hd bs) written) bss"

definition targets :: "bufname list list \<Rightarrow> bufname list \<Rightarrow> bufname list" where
  "targets bss written = fold (\<lambda>bs. List.insert (hd bs)) bss written"

text \<open>What a pass leaves in its buffer is read by a later pass before the buffer is written again.\<close>

fun used_next :: "bufname \<Rightarrow> bufname list list \<Rightarrow> bool" where
  "used_next b [] \<longleftrightarrow> b = Output"
| "used_next b (bs # bss) \<longleftrightarrow> (if b \<in> set (tl bs) then True else if hd bs = b then False else used_next b bss)"

fun all_used :: "bufname list list \<Rightarrow> bool" where
  "all_used [] = True"
| "all_used (bs # bss) \<longleftrightarrow> used_next (hd bs) bss \<and> all_used bss"

text \<open>The conditions of WebGPU on the bindings of a pass: at most eight storage buffers, none bound twice.\<close>

definition bindable :: "bufname list \<Rightarrow> bool" where
  "bindable bs \<longleftrightarrow> bs \<noteq> [] \<and> length bs \<le> 8 \<and> distinct bs"

lemmas feature_tables = feature_passes_def anchor_passes_def stem_passes_def stride_passes_def index_passes_def backbone_passes_def
lemmas weight_tables = weight_bufs_def backbone_weights_def neck_weights_def head_weights_def
lemmas detection_tables = head_passes_def box_passes_def score_passes_def sort_passes_def order_passes_def output_passes_def

text \<open>Evaluation only looks at the first of the remaining passes.\<close>

lemma sources_cong: "W = W' \<Longrightarrow> sources W bss = sources W' bss"
  by simp

lemma sources_append: "sources W (bss @ css) = sources W bss @ sources (targets bss W) css"
  by (induction bss arbitrary: W) (simp_all add: targets_def)

lemma targets_append: "targets (bss @ css) W = targets css (targets bss W)"
  by (simp add: targets_def)

lemma bindings_append: "bindings (ps @ qs) = bindings ps @ bindings qs"
  by (simp add: bindings_def)

lemma inference_bindable: "list_all bindable (bindings (inference K exp2))"
  by (simp add: bindings_def inference_def detection_passes_def post_passes_def feature_tables detection_tables bindable_def)

lemma map_frozen: "map f xs = map f xs"
  by simp

lemma used_next_cong: "b = b' \<Longrightarrow> used_next b bss = used_next b' bss"
  by simp

lemma all_used_frozen: "all_used bss = all_used bss"
  by simp

lemmas passes_tables = inference_def detection_passes_def post_passes_def feature_tables detection_tables

lemma inference_sources: "sources [] (bindings (inference K exp2)) = Input # map fst weight_bufs"
proof -
  have names: "map fst weight_bufs = [Buf 4, Buf 5, Buf 6, Buf 7, Buf 8, Buf 13, Buf 14, Buf 15, Buf 16, Buf 17, Buf 19, Buf 20, Buf 21, Buf 22, Buf 23, Buf
      25, Buf 26, Buf 27, Buf 28, Buf 29, Buf 31, Buf 32, Buf 33, Buf 34, Buf 35, Buf 37, Buf 38, Buf 39, Buf 40, Buf 41, Buf
      42, Buf 43, Buf 44, Buf 45, Buf 46, Buf 47, Buf 48, Buf 49, Buf 50, Buf 51, Buf 53, Buf 54, Buf 55, Buf 56, Buf 57, Buf
      59, Buf 60, Buf 61, Buf 62, Buf 63, Buf 64, Buf 65, Buf 66, Buf 67, Buf 68, Buf 70, Buf 71, Buf 72, Buf 73, Buf 74, Buf
      75, Buf 76, Buf 77, Buf 78, Buf 79, Buf 80, Buf 81, Buf 82, Buf 83, Buf 84, Buf 85, Buf 86, Buf 87, Buf 88, Buf 89, Buf
      91, Buf 92, Buf 93, Buf 94, Buf 95, Buf 97, Buf 98, Buf 99, Buf 100, Buf 101, Buf 102, Buf 103, Buf 104, Buf 105, Buf
      106, Buf 108, Buf 109, Buf 110, Buf 111, Buf 112, Buf 113, Buf 114, Buf 115, Buf 116, Buf 117, Buf 118, Buf 119, Buf
      120, Buf 121, Buf 122, Buf 123, Buf 124, Buf 125, Buf 126, Buf 127, Buf 129, Buf 130, Buf 131, Buf 132, Buf 133, Buf
      135, Buf 136, Buf 137, Buf 138, Buf 139, Buf 141, Buf 142, Buf 143, Buf 144, Buf 145, Buf 146, Buf 147, Buf 148, Buf
      149, Buf 150, Buf 153, Buf 154, Buf 155, Buf 156, Buf 157, Buf 159, Buf 160, Buf 161, Buf 162, Buf 163, Buf 164, Buf
      165, Buf 166, Buf 167, Buf 168, Buf 169, Buf 170, Buf 171, Buf 172, Buf 173, Buf 175, Buf 176, Buf 177, Buf 178, Buf
      179, Buf 180, Buf 181, Buf 182, Buf 183, Buf 184, Buf 185, Buf 186, Buf 187, Buf 188, Buf 189, Buf 190, Buf 191, Buf
      192, Buf 193, Buf 194, Buf 195, Buf 196, Buf 197, Buf 198, Buf 199, Buf 200, Buf 201, Buf 202, Buf 203, Buf 204, Buf
      206, Buf 207, Buf 208, Buf 209, Buf 210, Buf 211, Buf 212, Buf 213, Buf 214, Buf 215, Buf 216, Buf 217, Buf 218, Buf
      219, Buf 220, Buf 221, Buf 222, Buf 223, Buf 224, Buf 225, Buf 226, Buf 227, Buf 229, Buf 230, Buf 231, Buf 232, Buf
      233, Buf 234, Buf 235, Buf 236, Buf 237, Buf 238, Buf 239, Buf 240, Buf 241, Buf 242, Buf 243, Buf 244, Buf 245, Buf
      246, Buf 247, Buf 248, Buf 249, Buf 250, Buf 251, Buf 252, Buf 253, Buf 254, Buf 255, Buf 256, Buf 257, Buf 258, Buf
      259, Buf 260, Buf 261, Buf 262, Buf 263, Buf 264, Buf 265, Buf 267, Buf 268, Buf 269, Buf 270, Buf 271, Buf 272, Buf
      273, Buf 274, Buf 275, Buf 276, Buf 277, Buf 278, Buf 280, Buf 281, Buf 282, Buf 283, Buf 284, Buf 285, Buf 286, Buf
      287, Buf 288, Buf 289, Buf 290, Buf 291, Buf 292, Buf 293, Buf 294, Buf 295, Buf 296, Buf 297, Buf 298, Buf 299, Buf
      300, Buf 301, Buf 303, Buf 304, Buf 305, Buf 306, Buf 307, Buf 309, Buf 310, Buf 311, Buf 312, Buf 313, Buf 315, Buf
      316, Buf 317, Buf 318, Buf 319, Buf 320, Buf 321, Buf 322, Buf 323, Buf 324, Buf 325, Buf 326, Buf 328, Buf 329, Buf
      334]"
    by (simp only: weight_tables append.simps) (simp cong: map_frozen)
  show ?thesis
    unfolding names by (simp add: bindings_def passes_tables del: sources.simps) (simp add: List.insert_def cong: sources_cong)
qed

lemma inference_targets: "targets (bindings (inference K exp2)) [] = rev (filter (\<lambda>b. b \<noteq> Input) (map fst empty_bufs))"
  by (simp add: bindings_def passes_tables) (simp add: targets_def List.insert_def empty_bufs_def)

lemma inference_used: "all_used (bindings (inference K exp2))"
  by (simp add: bindings_def passes_tables del: all_used.simps) (simp cong: used_next_cong all_used_frozen)

end
