(* ===== verification/JsNumber.thy ===== *)
theory JsNumber
  imports Ieee
begin

text \<open>
  Numbers of ECMAScript as text: \<open>Number::toString\<close>, \<open>Number.prototype.toFixed\<close> and
  \<open>parseFloat\<close>, which the pages use to show and to read telemetry. A text is the list of the bytes
  of its UTF-8 form. The main fact is the round trip: \<open>parseFloat\<close> reads back the number that
  \<open>toString\<close> wrote.
\<close>

section \<open>Decimal digits\<close>

definition digit :: "int \<Rightarrow> char" where
  "digit n = ''0123456789'' ! nat n"

definition digit_val :: "char \<Rightarrow> int" where
  "digit_val c = of_char c - 48"

definition is_digit :: "char \<Rightarrow> bool" where
  "is_digit c \<longleftrightarrow> 48 \<le> (of_char c :: int) \<and> (of_char c :: int) \<le> 57"

function dec :: "int \<Rightarrow> string" where
  "dec n = (if n < 10 then [digit n] else dec (n div 10) @ [digit (n mod 10)])"
  by auto

termination dec
  by (relation "measure nat") auto

declare dec.simps [simp del]

definition number_of :: "string \<Rightarrow> int" where
  "number_of s = foldl (\<lambda>a c. 10 * a + digit_val c) 0 s"

lemma digit_digit [simp]:
  assumes "0 \<le> n" and "n < 10"
  shows "is_digit (digit n)" and "digit_val (digit n) = n"
proof -
  have "n = 0 \<or> n = 1 \<or> n = 2 \<or> n = 3 \<or> n = 4 \<or> n = 5 \<or> n = 6 \<or> n = 7 \<or> n = 8 \<or> n = 9"
    using assms by presburger
  then show "is_digit (digit n)" and "digit_val (digit n) = n"
    by (auto simp: digit_def is_digit_def digit_val_def)
qed

lemma dec_digits: "0 \<le> n \<Longrightarrow> list_all is_digit (dec n)"
  by (induction n rule: dec.induct) (subst dec.simps, simp)

lemma dec_not_Nil [simp]: "dec n \<noteq> []"
  by (subst dec.simps) simp

lemma number_of_snoc: "number_of (s @ [c]) = 10 * number_of s + digit_val c"
  by (simp add: number_of_def)

lemma number_of_dec [simp]: "0 \<le> n \<Longrightarrow> number_of (dec n) = n"
proof (induction n rule: dec.induct)
  case (1 n)
  show ?case
  proof (cases "n < 10")
    case True
    then show ?thesis using 1 by (subst dec.simps) (simp add: number_of_def)
  next
    case False
    then show ?thesis using 1 by (subst dec.simps) (simp add: number_of_snoc)
  qed
qed

lemma foldl_digits: "foldl (\<lambda>a c. 10 * a + digit_val c) a s = a * 10 ^ length s + number_of s"
proof (induction s arbitrary: a)
  case (Cons c s)
  show ?case
    using Cons[of "10 * a + digit_val c"] Cons[of "digit_val c"]
    by (simp add: number_of_def algebra_simps)
qed (simp add: number_of_def)

lemma number_of_append: "number_of (s @ t) = number_of s * 10 ^ length t + number_of t"
  using foldl_digits[of "number_of s" t] by (simp add: number_of_def)

lemma number_of_zeros [simp]: "number_of (replicate n CHR ''0'') = 0"
proof (induction n)
  case (Suc n)
  have "number_of (replicate (Suc n) CHR ''0'') = number_of (replicate n CHR ''0'' @ [CHR ''0''])"
    by (simp only: replicate_Suc replicate_append_same)
  then show ?case using Suc by (simp add: number_of_snoc digit_val_def)
qed (simp add: number_of_def)

lemma number_of_0_Cons [simp]: "number_of (CHR ''0'' # s) = number_of s"
  using number_of_append[of "[CHR ''0'']" s] by (simp add: number_of_def digit_val_def)

lemma is_digit_simps [simp]: "is_digit CHR ''0''" "\<not> is_digit CHR ''.''" "\<not> is_digit CHR ''e''"
  "\<not> is_digit CHR ''-''" "\<not> is_digit CHR ''+''" "\<not> is_digit CHR ''I''" "\<not> is_digit CHR ''N''"
  by (simp_all add: is_digit_def)

lemma length_dec_le: "n < 10 ^ k \<Longrightarrow> 0 < k \<Longrightarrow> length (dec n) \<le> k"
proof (induction n arbitrary: k rule: dec.induct)
  case (1 n)
  show ?case
  proof (cases "n < 10")
    case False
    then obtain j where k: "k = Suc j" "0 < j" using "1.prems" by (cases k; cases "k - 1") auto
    then have "n div 10 < 10 ^ j" using "1.prems" by simp
    then show ?thesis using "1.IH"[OF False _ k(2)] False k(1) by (subst dec.simps) simp
  qed (use "1.prems" in \<open>subst dec.simps, simp\<close>)
qed

section \<open>Reading a decimal literal\<close>

text \<open>The exponent part of a literal, 0 where there is none.\<close>

definition exponent_part :: "string \<Rightarrow> int" where
  "exponent_part s = (case s of [] \<Rightarrow> 0
     | c # r \<Rightarrow> if c = CHR ''e'' \<or> c = CHR ''E'' then
         (case r of [] \<Rightarrow> 0
          | d # t \<Rightarrow> if d = CHR ''-'' then - number_of (takeWhile is_digit t)
              else number_of (takeWhile is_digit (if d = CHR ''+'' then t else r)))
       else 0)"

text \<open>The value of the longest prefix that is a decimal literal, if there is one.\<close>

definition decimal :: "string \<Rightarrow> rat option" where
  "decimal s = (let ip = takeWhile is_digit s;
       r = dropWhile is_digit s;
       point = (case r of [] \<Rightarrow> False | c # _ \<Rightarrow> c = CHR ''.'');
       fp = (if point then takeWhile is_digit (tl r) else []);
       t = (if point then dropWhile is_digit (tl r) else r)
     in if ip = [] \<and> fp = [] then None
        else Some (of_int (number_of (ip @ fp)) * 10 powi (exponent_part t - int (length fp))))"

definition white_space :: "string list" where
  "white_space = [[CHR 0x09], [CHR 0x0A], [CHR 0x0B], [CHR 0x0C], [CHR 0x0D], [CHR 0x20],
     [CHR 0xC2, CHR 0xA0], [CHR 0xE1, CHR 0x9A, CHR 0x80], [CHR 0xE2, CHR 0x80, CHR 0x80],
     [CHR 0xE2, CHR 0x80, CHR 0x81], [CHR 0xE2, CHR 0x80, CHR 0x82], [CHR 0xE2, CHR 0x80, CHR 0x83],
     [CHR 0xE2, CHR 0x80, CHR 0x84], [CHR 0xE2, CHR 0x80, CHR 0x85], [CHR 0xE2, CHR 0x80, CHR 0x86],
     [CHR 0xE2, CHR 0x80, CHR 0x87], [CHR 0xE2, CHR 0x80, CHR 0x88], [CHR 0xE2, CHR 0x80, CHR 0x89],
     [CHR 0xE2, CHR 0x80, CHR 0x8A], [CHR 0xE2, CHR 0x80, CHR 0xA8], [CHR 0xE2, CHR 0x80, CHR 0xA9],
     [CHR 0xE2, CHR 0x80, CHR 0xAF], [CHR 0xE2, CHR 0x81, CHR 0x9F], [CHR 0xE3, CHR 0x80, CHR 0x80],
     [CHR 0xEF, CHR 0xBB, CHR 0xBF]]"

definition starts_with :: "string \<Rightarrow> string \<Rightarrow> bool" where
  "starts_with p s \<longleftrightarrow> take (length p) s = p"

function trim_start :: "string \<Rightarrow> string" where
  "trim_start s = (case find (\<lambda>w. starts_with w s) white_space of None \<Rightarrow> s | Some w \<Rightarrow> trim_start (drop (length w) s))"
  by pat_completeness auto

termination trim_start
proof (relation "measure length")
  fix s w assume "find (\<lambda>w. starts_with w s) white_space = Some w"
  then have "w \<in> set white_space" "take (length w) s = w" by (auto simp: find_Some_iff starts_with_def)
  moreover from this have "w \<noteq> []" by (auto simp: white_space_def)
  moreover have "s \<noteq> []" using calculation by (metis take_Nil)
  ultimately show "(drop (length w) s, s) \<in> measure length" by simp
qed simp

declare trim_start.simps [simp del]

definition parse_unsigned :: "bool \<Rightarrow> string \<Rightarrow> f64" where
  "parse_unsigned s t = (if starts_with ''Infinity'' t then inf_of s
     else case decimal t of None \<Rightarrow> NaN | Some q \<Rightarrow> rnd s (if s then - q else q))"

definition parse_float :: "string \<Rightarrow> f64" where
  "parse_float t = (case trim_start t of [] \<Rightarrow> NaN
     | c # r \<Rightarrow> if c = CHR ''-'' then parse_unsigned True r
         else if c = CHR ''+'' then parse_unsigned False r
         else parse_unsigned False (c # r))"

section \<open>Writing a number\<close>

text \<open>
  The shortest decimal that rounds to the number: \<open>s * 10 ^ e\<close> with as few digits as possible,
  the nearest one first. The decade \<open>d\<close> of \<open>q\<close> has \<open>10 ^ (d - 1) \<le> q < 10 ^ d\<close>.
\<close>

definition decade :: "rat \<Rightarrow> int" where
  "decade q = (if 1 \<le> q then int (length (dec \<lfloor>q\<rfloor>))
     else (case find (\<lambda>j. 1 \<le> q * 10 ^ j) [0..<400] of None \<Rightarrow> 0 | Some j \<Rightarrow> 1 - int j))"

definition decimals_near :: "rat \<Rightarrow> int \<Rightarrow> nat \<Rightarrow> (int \<times> int) list" where
  "decimals_near q d k = (let e = d - int k; t = q * 10 powi (- e); lo = \<lfloor>t\<rfloor>; hi = \<lceil>t\<rceil>;
       first = (t - of_int lo < of_int hi - t \<or> t - of_int lo = of_int hi - t \<and> even lo)
     in map (\<lambda>s. if s = 10 ^ k then (1, e + int k) else (s, e)) (if first then [lo, hi] else [hi, lo]))"

fun shortest :: "nat \<Rightarrow> rat \<Rightarrow> int \<Rightarrow> nat \<Rightarrow> int \<times> int" where
  "shortest 0 q d k = (0, 0)"
| "shortest (Suc fuel) q d k =
     (case find (\<lambda>(s, e). (rnd False (of_int s * 10 powi e) :: f64) = Fin q) (decimals_near q d k) of
        Some c \<Rightarrow> c | None \<Rightarrow> shortest fuel q d (Suc k))"

definition layout :: "int \<Rightarrow> int \<Rightarrow> string" where
  "layout s e = (let ds = dec s; k = length ds; n = int k + e; x = n - 1;
       ex = CHR ''e'' # (if x < 0 then CHR ''-'' else CHR ''+'') # dec \<bar>x\<bar>
     in if int k \<le> n \<and> n \<le> 21 then ds @ replicate (nat (n - int k)) CHR ''0''
        else if 0 < n \<and> n \<le> 21 then take (nat n) ds @ CHR ''.'' # drop (nat n) ds
        else if - 6 < n \<and> n \<le> 0 then CHR ''0'' # CHR ''.'' # replicate (nat (- n)) CHR ''0'' @ ds
        else if k = 1 then ds @ ex
        else take 1 ds @ CHR ''.'' # drop 1 ds @ ex)"

definition positive_string :: "rat \<Rightarrow> string" where
  "positive_string q = (case shortest 1500 q (decade q) 1 of (s, e) \<Rightarrow> layout s e)"

fun number_string :: "f64 \<Rightarrow> string" where
  "number_string NaN = ''NaN''"
| "number_string PInf = ''Infinity''"
| "number_string MInf = ''-Infinity''"
| "number_string NZero = ''0''"
| "number_string (Fin x) = (if x = 0 then ''0'' else if x < 0 then CHR ''-'' # positive_string (- x)
     else positive_string x)"

definition to_fixed :: "nat \<Rightarrow> f64 \<Rightarrow> string" where
  "to_fixed f x = (if is_fin x then
       (let q = val x; sign = (if q < 0 then ''-'' else []); a = \<bar>q\<bar>
        in if 10 ^ 21 \<le> a then sign @ number_string (Fin a)
           else let m = dec \<lfloor>a * 10 ^ f + 1 / 2\<rfloor>;
                    m' = replicate (f + 1 - length m) CHR ''0'' @ m
                in sign @ (if f = 0 then m else take (length m' - f) m' @ CHR ''.'' # drop (length m' - f) m'))
     else number_string x)"

section \<open>Reading what was written\<close>

lemma takeWhile_digits: "list_all is_digit ds \<Longrightarrow> takeWhile is_digit (ds @ r) = ds @ takeWhile is_digit r"
  and dropWhile_digits: "list_all is_digit ds \<Longrightarrow> dropWhile is_digit (ds @ r) = dropWhile is_digit r"
  by (simp_all add: list_all_iff)

lemma zeros_digits: "list_all is_digit (replicate n CHR ''0'')"
  by (simp add: list_all_iff)

lemma digits_parts: "list_all is_digit ds \<Longrightarrow> list_all is_digit (take n ds) \<and> list_all is_digit (drop n ds)"
  by (auto simp: list_all_iff dest: in_set_takeD in_set_dropD)

text \<open>A literal whose digits end before a point, an exponent or the end of the text.\<close>

lemma decimal_integer:
  assumes "list_all is_digit ds" and "ds \<noteq> []" and "r = [] \<or> hd r = CHR ''e''"
  shows "decimal (ds @ r) = Some (of_int (number_of ds) * 10 powi exponent_part r)"
proof -
  have "takeWhile is_digit r = []" "dropWhile is_digit r = r" "r = [] \<or> (\<exists>t. r = CHR ''e'' # t)"
    using assms(3) by (cases r; auto)+
  then show ?thesis
    using assms(2) by (auto simp: decimal_def Let_def takeWhile_digits[OF assms(1)] dropWhile_digits[OF assms(1)])
qed

lemma decimal_point:
  assumes "list_all is_digit ds" and "list_all is_digit fs" and "ds \<noteq> []" and "r = [] \<or> hd r = CHR ''e''"
  shows "decimal (ds @ CHR ''.'' # fs @ r) =
    Some (of_int (number_of (ds @ fs)) * 10 powi (exponent_part r - int (length fs)))"
proof -
  have "takeWhile is_digit r = []" "dropWhile is_digit r = r" using assms(4) by (cases r; auto)+
  then show ?thesis
    using assms(3) by (simp add: decimal_def Let_def takeWhile_digits dropWhile_digits assms(1,2))
qed

lemma exponent_part_written:
  "exponent_part (CHR ''e'' # (if x < 0 then CHR ''-'' else CHR ''+'') # dec \<bar>x\<bar>) = x"
proof -
  have digits: "takeWhile is_digit (dec \<bar>x\<bar>) = dec \<bar>x\<bar>"
    using dec_digits[of "\<bar>x\<bar>"] by (simp add: takeWhile_eq_all_conv list_all_iff)
  have "number_of (takeWhile is_digit (dec \<bar>x\<bar>)) = \<bar>x\<bar>" unfolding digits by simp
  then show ?thesis by (cases "x < 0") (simp_all add: exponent_part_def)
qed

lemma exponent_part_Nil [simp]: "exponent_part [] = 0"
  by (simp add: exponent_part_def)

lemma powi_10_add: "(10 :: rat) powi (a + b) = 10 powi a * 10 powi b"
  by (rule power_int_add) simp

lemma decimal_layout:
  assumes "0 \<le> s"
  shows "decimal (layout s e) = Some (of_int s * 10 powi e)"
proof -
  define ds k n where "ds = dec s" and "k = length ds" and "n = int k + e"
  define ex where "ex = CHR ''e'' # (if n - 1 < 0 then CHR ''-'' else CHR ''+'') # dec \<bar>n - 1\<bar>"
  have dig: "list_all is_digit ds" and ds: "ds \<noteq> []" "number_of ds = s"
    using assms dec_digits by (simp_all add: ds_def)
  have k: "0 < k" using ds(1) by (simp add: k_def)
  have exv: "exponent_part ex = n - 1" unfolding ex_def by (rule exponent_part_written)
  have lay: "layout s e = (if int k \<le> n \<and> n \<le> 21 then ds @ replicate (nat (n - int k)) CHR ''0''
        else if 0 < n \<and> n \<le> 21 then take (nat n) ds @ CHR ''.'' # drop (nat n) ds
        else if - 6 < n \<and> n \<le> 0 then CHR ''0'' # CHR ''.'' # replicate (nat (- n)) CHR ''0'' @ ds
        else if k = 1 then ds @ ex else take 1 ds @ CHR ''.'' # drop 1 ds @ ex)"
    by (simp only: layout_def Let_def ds_def k_def n_def ex_def)
  consider "int k \<le> n" "n \<le> 21" | "0 < n" "n \<le> 21" "n < int k" | "- 6 < n" "n \<le> 0"
    | "21 < n \<or> n \<le> - 6" "k = 1" | "21 < n \<or> n \<le> - 6" "k \<noteq> 1" by linarith
  then show ?thesis
  proof cases
    case 1
    then have "0 \<le> e" by (simp add: n_def)
    have "decimal ((ds @ replicate (nat e) CHR ''0'') @ []) =
        Some (of_int (number_of (ds @ replicate (nat e) CHR ''0'')) * 10 powi exponent_part [])"
      by (rule decimal_integer) (use dig ds zeros_digits in simp_all)
    then show ?thesis
      using 1 \<open>0 \<le> e\<close> by (simp add: lay n_def number_of_append ds(2) power_int_nonneg_exp)
  next
    case 2
    have "decimal (take (nat n) ds @ CHR ''.'' # drop (nat n) ds @ []) =
        Some (of_int (number_of (take (nat n) ds @ drop (nat n) ds)) * 10 powi (exponent_part [] - int (length (drop (nat n) ds))))"
      by (rule decimal_point) (use 2 ds digits_parts[OF dig] in auto)
    then show ?thesis using 2 by (simp add: lay ds(2) k_def[symmetric] of_nat_diff n_def)
  next
    case 3
    have "decimal ([CHR ''0''] @ CHR ''.'' # (replicate (nat (- n)) CHR ''0'' @ ds) @ []) =
        Some (of_int (number_of ([CHR ''0''] @ (replicate (nat (- n)) CHR ''0'' @ ds))) *
          10 powi (exponent_part [] - int (length (replicate (nat (- n)) CHR ''0'' @ ds))))"
      by (rule decimal_point) (use dig zeros_digits in simp_all)
    moreover have "- int (length (replicate (nat (- n)) CHR ''0'' @ ds)) = e"
      using 3 by (simp add: n_def k_def)
    ultimately show ?thesis
      using 3 k by (simp add: lay number_of_append ds(2))
  next
    case 4
    have "decimal (ds @ ex) = Some (of_int (number_of ds) * 10 powi exponent_part ex)"
      by (rule decimal_integer) (use dig ds in \<open>simp_all add: ex_def\<close>)
    then show ?thesis using 4 by (auto simp: lay ds(2) exv n_def)
  next
    case 5
    have "decimal (take 1 ds @ CHR ''.'' # drop 1 ds @ ex) =
        Some (of_int (number_of (take 1 ds @ drop 1 ds)) * 10 powi (exponent_part ex - int (length (drop 1 ds))))"
      by (rule decimal_point) (use ds digits_parts[OF dig] in \<open>auto simp: ex_def\<close>)
    moreover have "n - 1 - int (length (drop 1 ds)) = e" using k by (cases ds) (simp_all add: n_def k_def)
    ultimately show ?thesis
      using 5 k unfolding lay append_take_drop_id exv ds(2) by auto
  qed
qed

lemma found_in: "find P xs = Some c \<Longrightarrow> c \<in> set xs \<and> P c"
  by (induction xs) (auto split: if_splits)

lemma shortest_renders:
  assumes "shortest fuel q d k = (s, e)" and "\<exists>j<fuel. \<exists>c \<in> set (decimals_near q d (k + j)).
      (rnd False (of_int (fst c) * 10 powi snd c) :: f64) = Fin q"
  shows "(rnd False (of_int s * 10 powi e) :: f64) = Fin q \<and> (\<exists>k. (s, e) \<in> set (decimals_near q d k))"
  using assms
proof (induction fuel arbitrary: k)
  case (Suc fuel)
  let ?P = "\<lambda>(s, e). (rnd False (of_int s * 10 powi e) :: f64) = Fin q"
  show ?case
  proof (cases "find ?P (decimals_near q d k)")
    case None
    then have "\<not> ?P c" if "c \<in> set (decimals_near q d k)" for c using that by (auto simp: find_None_iff split: prod.splits)
    moreover obtain j c where j: "j < Suc fuel" "c \<in> set (decimals_near q d (k + j))" "?P c"
      using Suc.prems(2) by (auto simp: case_prod_beta)
    ultimately obtain i where "j = Suc i" "i < fuel" by (cases j) auto
    then have "\<exists>j<fuel. \<exists>c \<in> set (decimals_near q d (Suc k + j)). (rnd False (of_int (fst c) * 10 powi snd c) :: f64) = Fin q"
      using j by (auto simp: case_prod_beta intro!: exI[of _ i])
    then show ?thesis using Suc.IH[of "Suc k"] Suc.prems(1) None by simp
  next
    case (Some c)
    then have "c = (s, e)" using Suc.prems(1) by simp
    then show ?thesis using found_in[OF Some] by (intro conjI exI[of _ k]) simp_all
  qed
qed simp

lemma decimals_near_nonneg:
  assumes "0 \<le> q" and "(s, e) \<in> set (decimals_near q d k)"
  shows "0 \<le> s"
proof -
  have "0 \<le> q * 10 powi (- (d - int k))" using assms(1) by simp
  then have "0 \<le> \<lfloor>q * 10 powi (- (d - int k))\<rfloor>" "0 \<le> \<lceil>q * 10 powi (- (d - int k))\<rceil>"
    using floor_le_ceiling order_trans by (simp_all add: le_ceiling_iff order_less_le_trans[of _ 0])
  then show ?thesis using assms(2) by (auto simp: decimals_near_def Let_def split: if_splits)
qed

lemma decimals_near_exact:
  assumes "q * 10 powi (int k - d) = of_int s"
  shows "\<exists>c \<in> set (decimals_near q d k). of_int (fst c) * 10 powi snd c = q"
proof -
  have q: "q = of_int s * 10 powi (d - int k)"
  proof -
    have "q = q * 10 powi (int k - d) * 10 powi (d - int k)"
      by (simp add: mult.assoc powi_10_add[symmetric])
    then show ?thesis by (simp only: assms)
  qed
  have "(10 :: rat) ^ k * 10 powi (d - int k) = 10 powi d"
    using powi_10_add[of "int k" "d - int k"] by simp
  then have "set (decimals_near q d k) = {if s = 10 ^ k then (1, d) else (s, d - int k)}"
    using assms by (auto simp: decimals_near_def Let_def)
  moreover have "s = 10 ^ k \<Longrightarrow> q = 10 powi d"
    using q \<open>(10 :: rat) ^ k * 10 powi (d - int k) = 10 powi d\<close> by simp
  ultimately show ?thesis using q by auto
qed

lemma repr_scaled:
  assumes "repr 53 (- 1022) q" and "1074 \<le> j"
  shows "\<exists>s. q * 10 ^ j = of_int s"
proof (cases "q = 0")
  case False
  define u where "u = quantum 53 (- 1022) q"
  have q: "q = of_int (rne (q / pow2 u)) * pow2 u"
    using assms(1) False by (simp add: repr_def round_to_def Let_def u_def)
  have "- 1074 \<le> u" by (simp add: u_def quantum_def)
  then have "0 \<le> u + int j" using assms(2) by linarith
  then obtain m where m: "u + int j = int m" using nonneg_int_cases by blast
  have "(10 :: rat) ^ j = 5 ^ j * 2 ^ j" by (simp add: power_mult_distrib[symmetric])
  moreover have "pow2 u * 2 ^ j = 2 ^ m" using pow2_add[of u "int j"] by (simp add: m)
  ultimately have "q * 10 ^ j = of_int (rne (q / pow2 u) * 5 ^ j * 2 ^ m)"
    by (subst q) (simp add: algebra_simps)
  then show ?thesis by blast
qed (use of_int_0 in \<open>metis mult_zero_left\<close>)

lemma decade_le:
  assumes "0 < q" and "q < 10 ^ k" and "0 < k"
  shows "decade q \<le> int k"
proof (cases "1 \<le> q")
  case True
  have "\<lfloor>q\<rfloor> < 10 ^ k" using assms(2) by (simp add: floor_less_iff)
  then show ?thesis using length_dec_le[OF _ assms(3)] True by (simp add: decade_def)
qed (use assms(3) in \<open>auto simp: decade_def split: option.splits\<close>)

lemma positive_string_written:
  assumes "is_fp (Fin q :: f64)" and "0 < q"
  shows "\<exists>s e. positive_string q = layout s e \<and> 0 \<le> s \<and> (rnd False (of_int s * 10 powi e) :: f64) = Fin q"
proof -
  obtain s e where se: "shortest 1500 q (decade q) 1 = (s, e)" by (cases "shortest 1500 q (decade q) 1")
  have q: "repr 53 (- 1022) q" "q < pow2 1024" using assms by (simp_all add: abs_if split: if_splits)
  have "pow2 1024 < 10 ^ 309" by (simp add: power_int_numeral)
  then have "decade q \<le> int 309" by (intro decade_le) (use assms(2) q(2) in simp_all)
  then have "1074 \<le> nat (1401 - decade q)" "0 \<le> 1401 - decade q" by simp_all
  then obtain z where "q * 10 powi (int 1401 - decade q) = of_int z"
    using repr_scaled[OF q(1), of "nat (1401 - decade q)"] by (auto simp: power_int_nonneg_exp)
  from decimals_near_exact[OF this] obtain c
    where c: "c \<in> set (decimals_near q (decade q) 1401)" "of_int (fst c) * 10 powi snd c = q" by blast
  have "(rnd False q :: f64) = Fin q" using rnd_exact[OF assms(1), of False] assms(2) by simp
  then have "\<exists>j<1500. \<exists>c \<in> set (decimals_near q (decade q) (1 + j)). (rnd False (of_int (fst c) * 10 powi snd c) :: f64) = Fin q"
    using c by (intro exI[of _ 1400]) auto
  from shortest_renders[OF se this]
  have "(rnd False (of_int s * 10 powi e) :: f64) = Fin q" "\<exists>k. (s, e) \<in> set (decimals_near q (decade q) k)" by blast+
  moreover from this(2) have "0 \<le> s" using decimals_near_nonneg[of q] assms(2) by auto
  ultimately show ?thesis using se by (auto simp: positive_string_def)
qed

text \<open>The texts written start with a digit.\<close>

lemma layout_head: "0 \<le> s \<Longrightarrow> \<exists>c t. layout s e = c # t \<and> is_digit c"
proof -
  assume s: "0 \<le> s"
  obtain c t where ds: "dec s = c # t" using dec_not_Nil[of s] by (cases "dec s") auto
  have c: "is_digit c" using dec_digits[OF s] by (simp add: ds)
  have "take (nat n) (c # t) = c # take (nat (n - 1)) t" if "0 < n" for n :: int
    using that by (cases "nat n") (auto simp: nat_diff_distrib)
  then show ?thesis using c by (auto simp: layout_def Let_def ds)
qed

lemma white_space_heads: "w \<in> set white_space \<Longrightarrow> w \<noteq> [] \<and> \<not> is_digit (hd w)"
proof -
  have "list_all (\<lambda>w. w \<noteq> [] \<and> \<not> is_digit (hd w)) white_space" by (simp add: white_space_def is_digit_def)
  then show "w \<in> set white_space \<Longrightarrow> w \<noteq> [] \<and> \<not> is_digit (hd w)" by (simp add: list_all_iff)
qed

lemma digit_trim: "is_digit c \<Longrightarrow> trim_start (c # t) = c # t"
proof -
  assume c: "is_digit c"
  have "\<not> starts_with w (c # t)" if "w \<in> set white_space" for w
    using white_space_heads[OF that] c by (cases w) (auto simp: starts_with_def)
  then have "find (\<lambda>w. starts_with w (c # t)) white_space = None" by (simp add: find_None_iff)
  then show ?thesis by (subst trim_start.simps) simp
qed

lemma parse_unsigned_written:
  assumes "is_fp (Fin q :: f64)" and "0 < q"
  shows "parse_unsigned s (positive_string q) = Fin (if s then - q else q)"
    and "\<exists>c t. positive_string q = c # t \<and> is_digit c"
proof -
  obtain m e where me: "positive_string q = layout m e" "0 \<le> m" "(rnd False (of_int m * 10 powi e) :: f64) = Fin q"
    using positive_string_written[OF assms] by blast
  obtain c t where ct: "positive_string q = c # t" "is_digit c" using layout_head[OF me(2), of e] me(1) by auto
  have "rnd True (- (of_int m * 10 powi e)) = (- rnd False (of_int m * 10 powi e) :: f64)"
    by (auto simp: rnd_def Let_def zero_of_def)
  also have "\<dots> = Fin (- q)" using me(3) assms(2) by simp
  finally have "(rnd True (- (of_int m * 10 powi e)) :: f64) = Fin (- q)" .
  moreover have not_inf: "\<not> starts_with ''Infinity'' (positive_string q)"
    using ct by (auto simp: starts_with_def is_digit_def)
  ultimately show "parse_unsigned s (positive_string q) = Fin (if s then - q else q)"
    using me(3) decimal_layout[OF me(2), of e, folded me(1)] not_inf by (cases s) (simp_all add: parse_unsigned_def)
  show "\<exists>c t. positive_string q = c # t \<and> is_digit c" using ct by blast
qed

theorem parse_float_number_string:
  assumes "is_fp x"
  shows "parse_float (number_string x) = (if x = NZero then 0 else x)"
proof (cases x)
  case (Fin q)
  consider "q = 0" | "0 < q" | "q < 0" by linarith
  then show ?thesis
  proof cases
    case 2
    then obtain c t where "positive_string q = c # t" "is_digit c" using parse_unsigned_written(2) assms Fin by blast
    then show ?thesis using 2 Fin parse_unsigned_written(1)[of q False] assms
      by (auto simp: parse_float_def digit_trim is_digit_def)
  next
    case 3
    then show ?thesis using Fin parse_unsigned_written(1)[of "- q" True] assms
      by (simp add: parse_float_def trim_start.simps[of "CHR ''-'' # _"] white_space_def starts_with_def)
  qed (simp add: Fin zero_fp_def, simp add: parse_float_def digit_trim parse_unsigned_def starts_with_def
      decimal_def number_of_def digit_val_def zero_of_def)
qed (simp_all add: parse_float_def trim_start.simps white_space_def starts_with_def parse_unsigned_def
    decimal_def number_of_def digit_val_def zero_of_def zero_fp_def inf_of_def is_digit_def)

section \<open>A fixed number of decimals\<close>

text \<open>
  What \<open>toFixed\<close> shows: the sign, at least one digit, a point and exactly \<open>f\<close> decimals, the decimal
  nearest to the number.
\<close>

theorem to_fixed_decimal:
  assumes "is_fin x" and "\<bar>val x\<bar> < 10 ^ 21" and "0 < f"
  shows "\<exists>ip fp. to_fixed f x = (if val x < 0 then ''-'' else []) @ ip @ CHR ''.'' # fp \<and> ip \<noteq> [] \<and>
    length fp = f \<and> list_all is_digit (ip @ fp) \<and>
    \<bar>of_int (number_of (ip @ fp)) - \<bar>val x\<bar> * 10 ^ f\<bar> \<le> 1 / 2"
proof -
  define n where "n = \<lfloor>\<bar>val x\<bar> * 10 ^ f + 1 / 2\<rfloor>"
  define m where "m = replicate (f + 1 - length (dec n)) CHR ''0'' @ dec n"
  have n: "0 \<le> n" by (simp add: n_def)
  have m: "list_all is_digit m" "number_of m = n" "f < length m"
    using n dec_digits[OF n] zeros_digits by (simp_all add: m_def number_of_append)
  have "\<bar>of_int n - \<bar>val x\<bar> * 10 ^ f\<bar> \<le> 1 / 2" unfolding n_def by linarith
  then have "\<bar>of_int (number_of (take (length m - f) m @ drop (length m - f) m)) - \<bar>val x\<bar> * 10 ^ f\<bar> \<le> 1 / 2"
    by (simp add: m(2))
  moreover have "to_fixed f x = (if val x < 0 then ''-'' else []) @ take (length m - f) m @ CHR ''.'' # drop (length m - f) m"
    using assms by (simp add: to_fixed_def Let_def m_def n_def)
  moreover have "list_all is_digit (take (length m - f) m @ drop (length m - f) m)" using m(1) by simp
  moreover have "take (length m - f) m \<noteq> []" "length (drop (length m - f) m) = f" using m(3) by auto
  ultimately show ?thesis by blast
qed

end
