(* ===== verification/Js.thy ===== *)
theory Js
  imports JsNumber
begin

text \<open>
  What the pages use of the JavaScript language: the values a JSON reply may hold, property
  access that throws on null and undefined, the conversions to string, number and boolean, and
  statements that may throw, in which the effects before the exception stay. Texts are UTF-8.
\<close>

section \<open>Values\<close>

datatype js = Undefined | Null | Bool bool | Num f64 | Str string | Arr "js list" | Obj "(string \<times> js) list"

text \<open>
  A property of a value, none if the access throws a TypeError. Of equal names in a JSON text the
  last one counts. The names the code asks for are not names of the prototypes of strings, numbers,
  booleans, arrays and objects.
\<close>

fun get :: "js \<Rightarrow> string \<Rightarrow> js option" where
  "get Undefined k = None"
| "get Null k = None"
| "get (Obj fs) k = Some (case map_of (rev fs) k of None \<Rightarrow> Undefined | Some v \<Rightarrow> v)"
| "get v k = Some Undefined"

fun truthy :: "js \<Rightarrow> bool" where
  "truthy Undefined = False"
| "truthy Null = False"
| "truthy (Bool b) = b"
| "truthy (Num x) \<longleftrightarrow> \<not> is_nan x \<and> \<not> feq x 0"
| "truthy (Str s) \<longleftrightarrow> s \<noteq> []"
| "truthy (Arr vs) = True"
| "truthy (Obj fs) = True"

fun join :: "string \<Rightarrow> string list \<Rightarrow> string" where
  "join sep [] = []"
| "join sep [s] = s"
| "join sep (s # t # ss) = s @ sep @ join sep (t # ss)"

fun js_string :: "js \<Rightarrow> string" where
  "js_string Undefined = ''undefined''"
| "js_string Null = ''null''"
| "js_string (Bool b) = (if b then ''true'' else ''false'')"
| "js_string (Num x) = number_string x"
| "js_string (Str s) = s"
| "js_string (Arr vs) = join '','' (map (\<lambda>v. if v = Undefined \<or> v = Null then [] else js_string v) vs)"
| "js_string (Obj fs) = ''[object Object]''"

section \<open>Strings as numbers\<close>

definition trim :: "string \<Rightarrow> string" where
  "trim s = (let t = trim_start s in
     case find (\<lambda>n. trim_start (drop n t) = []) [0..<length t] of None \<Rightarrow> t | Some n \<Rightarrow> take n t)"

text \<open>The longest prefix that is a decimal literal ends here.\<close>

definition after_exponent :: "string \<Rightarrow> string" where
  "after_exponent s = (case s of [] \<Rightarrow> []
     | c # r \<Rightarrow> if c = CHR ''e'' \<or> c = CHR ''E'' then
         (let t = (case r of [] \<Rightarrow> [] | d # t \<Rightarrow> if d = CHR ''-'' \<or> d = CHR ''+'' then t else r)
          in if takeWhile is_digit t = [] then s else dropWhile is_digit t)
       else s)"

definition after_decimal :: "string \<Rightarrow> string" where
  "after_decimal s = (let r = dropWhile is_digit s
     in after_exponent (case r of [] \<Rightarrow> [] | c # t \<Rightarrow> if c = CHR ''.'' then dropWhile is_digit t else r))"

definition whole_decimal :: "bool \<Rightarrow> string \<Rightarrow> f64" where
  "whole_decimal s t = (if t = ''Infinity'' then inf_of s
     else if after_decimal t = [] then parse_unsigned s t else NaN)"

definition radix_digit :: "char \<Rightarrow> int" where
  "radix_digit c = (let n = of_char c :: int in
     if is_digit c then n - 48 else if 97 \<le> n \<and> n \<le> 102 then n - 87 else if 65 \<le> n \<and> n \<le> 70 then n - 55 else 16)"

definition radix_literal :: "int \<Rightarrow> string \<Rightarrow> f64" where
  "radix_literal b t = (if t \<noteq> [] \<and> list_all (\<lambda>c. radix_digit c < b) t
     then rnd False (of_int (foldl (\<lambda>a c. b * a + radix_digit c) 0 t)) else NaN)"

definition string_number :: "string \<Rightarrow> f64" where
  "string_number s = (case trim s of [] \<Rightarrow> 0
     | c # t \<Rightarrow> if c = CHR ''-'' then whole_decimal True t
         else if c = CHR ''+'' then whole_decimal False t
         else if c = CHR ''0'' \<and> t \<noteq> [] \<and> hd t \<in> {CHR ''x'', CHR ''X''} then radix_literal 16 (tl t)
         else if c = CHR ''0'' \<and> t \<noteq> [] \<and> hd t \<in> {CHR ''o'', CHR ''O''} then radix_literal 8 (tl t)
         else if c = CHR ''0'' \<and> t \<noteq> [] \<and> hd t \<in> {CHR ''b'', CHR ''B''} then radix_literal 2 (tl t)
         else whole_decimal False (c # t))"

fun js_number :: "js \<Rightarrow> f64" where
  "js_number Undefined = NaN"
| "js_number Null = 0"
| "js_number (Bool b) = (if b then 1 else 0)"
| "js_number (Num x) = x"
| "js_number (Str s) = string_number s"
| "js_number v = string_number (js_string v)"

section \<open>Statements\<close>

datatype completion = Normal | Thrown

type_synonym 's stm = "'s \<Rightarrow> completion \<times> 's"

definition run :: "('s \<Rightarrow> 's) \<Rightarrow> 's stm" where
  "run f s = (Normal, f s)"

definition attempt :: "('s \<Rightarrow> 's option) \<Rightarrow> 's stm" where
  "attempt f s = (case f s of None \<Rightarrow> (Thrown, s) | Some t \<Rightarrow> (Normal, t))"

definition and_then :: "'s stm \<Rightarrow> 's stm \<Rightarrow> 's stm" where
  "and_then f g s = (case f s of (Normal, t) \<Rightarrow> g t | (Thrown, t) \<Rightarrow> (Thrown, t))"

fun block :: "'s stm list \<Rightarrow> 's stm" where
  "block [] = run id"
| "block (f # fs) = and_then f (block fs)"

definition try_catch :: "'s stm \<Rightarrow> ('s \<Rightarrow> 's) \<Rightarrow> 's \<Rightarrow> 's" where
  "try_catch f h s = (case f s of (Normal, t) \<Rightarrow> t | (Thrown, t) \<Rightarrow> h t)"

definition whenever :: "('s \<Rightarrow> bool) \<Rightarrow> 's stm \<Rightarrow> 's stm" where
  "whenever c f s = (if c s then f s else (Normal, s))"

lemmas stm_defs = run_def attempt_def and_then_def whenever_def

lemma and_then_assoc: "and_then (and_then f g) h = and_then f (and_then g h)"
  by (auto simp: and_then_def fun_eq_iff split: prod.splits completion.splits)

lemma and_then_id [simp]: "and_then (run id) f = f"
  by (simp add: and_then_def run_def fun_eq_iff)

lemma block_append: "block (fs @ gs) = and_then (block fs) (block gs)"
  by (induction fs) (simp_all add: and_then_assoc)

lemma block_Thrown: "f s = (Thrown, t) \<Longrightarrow> block (f # fs) s = (Thrown, t)"
  by (simp add: and_then_def)

lemma block_step: "f s = (Normal, t) \<Longrightarrow> block (f # fs) s = block fs t"
  by (simp add: and_then_def)

text \<open>A property of states that every statement of a block keeps, thrown or not.\<close>

definition keeps :: "('s \<Rightarrow> bool) \<Rightarrow> 's stm \<Rightarrow> bool" where
  "keeps P f \<longleftrightarrow> (\<forall>s. P s \<longrightarrow> P (snd (f s)))"

lemma keepsD: "keeps P f \<Longrightarrow> P s \<Longrightarrow> f s = (r, t) \<Longrightarrow> P t"
  unfolding keeps_def by (metis snd_conv)

lemma keeps_run [intro]: "(\<And>s. P s \<Longrightarrow> P (f s)) \<Longrightarrow> keeps P (run f)"
  by (simp add: keeps_def run_def)

lemma keeps_attempt [intro]: "(\<And>s t. P s \<Longrightarrow> f s = Some t \<Longrightarrow> P t) \<Longrightarrow> keeps P (attempt f)"
  by (auto simp: keeps_def attempt_def split: option.splits)

lemma keeps_and_then [intro]: "keeps P f \<Longrightarrow> keeps P g \<Longrightarrow> keeps P (and_then f g)"
  by (auto simp: keeps_def and_then_def split: prod.splits completion.splits)

lemma keeps_whenever [intro]: "keeps P f \<Longrightarrow> keeps P (whenever c f)"
  by (simp add: keeps_def whenever_def)

lemma keeps_block [intro]: "list_all (keeps P) fs \<Longrightarrow> keeps P (block fs)"
  by (induction fs) (auto intro!: keeps_run keeps_and_then)

lemma keeps_try:
  assumes "keeps P f" and "\<And>s. P s \<Longrightarrow> P (h s)" and "P s"
  shows "P (try_catch f h s)"
  using assms by (auto simp: keeps_def try_catch_def split: prod.splits completion.splits)

end
