(* ===== verification/Video.thy ===== *)
theory Video
  imports Js
begin

text \<open>
  The video page, \<open>js/video.js\<close>: the frame loop, the letterboxed copy of the video frame, the
  detector's input and output, the boxes drawn over the video. The network, WebGPU and the text
  metrics of the canvas are parameters; numbers are binary64, the detector's arrays binary32.
\<close>

section \<open>Numbers\<close>

definition num :: "nat \<Rightarrow> f64" where
  "num n = Fin (of_nat n)"

text \<open>Reading a Float32Array is exact, writing rounds.\<close>

fun widen :: "f32 \<Rightarrow> f64" where
  "widen NaN = NaN" | "widen PInf = PInf" | "widen MInf = MInf" | "widen NZero = NZero" | "widen (Fin x) = Fin x"

fun narrow :: "f64 \<Rightarrow> f32" where
  "narrow NaN = NaN" | "narrow PInf = PInf" | "narrow MInf = MInf" | "narrow NZero = NZero"
| "narrow (Fin x) = rnd (x < 0) x"

definition math_max :: "f64 \<Rightarrow> f64 \<Rightarrow> f64" where
  "math_max a b = (if is_nan a \<or> is_nan b then NaN else if a < b then b else if b < a then a
     else if a = NZero then b else a)"

definition math_min :: "f64 \<Rightarrow> f64 \<Rightarrow> f64" where
  "math_min a b = (if is_nan a \<or> is_nan b then NaN else if a < b then a else if b < a then b
     else if a = NZero then a else b)"

text \<open>An array at a numeric index; not-a-number stands for the undefined value of a missing element.\<close>

definition array_at :: "f64 list \<Rightarrow> nat \<Rightarrow> f64" where
  "array_at xs i = (if i < length xs then xs ! i else NaN)"

text \<open>An array of strings at an index that is a number.\<close>

definition lookup :: "'a list \<Rightarrow> f64 \<Rightarrow> 'a option" where
  "lookup xs i = (if is_fin i \<and> of_int \<lfloor>val i\<rfloor> = val i \<and> 0 \<le> val i \<and> val i < of_nat (length xs) then Some (xs ! nat \<lfloor>val i\<rfloor>) else None)"

section \<open>The state of the page\<close>

definition modelInputSize :: nat where
  "modelInputSize = 640"

datatype draw =
    ClearRect f64 f64 f64 f64
  | StrokeRect string f64 f64 f64 f64
  | FillRect string f64 f64 f64 f64
  | FillText string string f64 f64

record ctx =
  stroke_style :: string
  fill_style :: string
  line_width :: nat
  font :: string
  calls :: "draw list"

text \<open>The elements are none where the page has no such element.\<close>

record player =
  net_loaded :: bool
  lastCalledTime :: "f64 option"
  fps :: f64
  accumFps :: f64
  frameCounter :: nat
  fpsMeter :: "string option"
  loadingContainer :: "string option"
  wgpuError :: "string option"
  canvas_width :: nat
  canvas_height :: nat
  canvas_ctx :: ctx
  letterbox :: "(f64 \<times> f64 \<times> f64 \<times> f64) option"
  detected :: "f64 list"
  requested :: nat

text \<open>What \<open>getDevice\<close> meets, and the answers of one frame's environment.\<close>

datatype gpu = No_gpu | No_adapter | No_device | Device_ready

record frame_input =
  videoWidth :: nat
  videoHeight :: nat
  readyState :: nat
  clock_now :: f64
  gpu_answer :: gpu
  load_succeeds :: bool
  image_data :: "(f64 \<times> f64 \<times> f64 \<times> f64) option \<Rightarrow> nat list"
  run_net :: "f32 list \<Rightarrow> f32 list option"
  text_width :: "string option \<Rightarrow> f64"

section \<open>The frame rate\<close>

definition falsy_time :: "f64 option \<Rightarrow> bool" where
  "falsy_time t = (case t of None \<Rightarrow> True | Some x \<Rightarrow> is_nan x \<or> feq x 0)"

definition frame_rate :: "f64 \<Rightarrow> f64 \<Rightarrow> f64" where
  "frame_rate now previous = 1 / ((now - previous) / Fin 1000)"

text \<open>Assigning a property of a missing element throws.\<close>

definition measure_fps :: "f64 \<Rightarrow> player stm" where
  "measure_fps now p =
     (if falsy_time (lastCalledTime p) then (Normal, p\<lparr>lastCalledTime := Some now, fps := 0\<rparr>)
      else let p = p\<lparr>lastCalledTime := Some now,
               accumFps := accumFps p + frame_rate now (the (lastCalledTime p)),
               frameCounter := Suc (frameCounter p)\<rparr>
        in if 10 < frameCounter p then
             let p = p\<lparr>fps := accumFps p / num (frameCounter p), frameCounter := 0, accumFps := 0\<rparr>
             in case fpsMeter p of None \<Rightarrow> (Thrown, p)
                | Some _ \<Rightarrow> (Normal, p\<lparr>fpsMeter := Some (''FPS: '' @ to_fixed 1 (fps p))\<rparr>)
           else (Normal, p))"

section \<open>The letterbox\<close>

definition target_size :: "nat \<Rightarrow> nat \<Rightarrow> f64 \<times> f64" where
  "target_size w h = (let videoAspectRatio = num w / num h in
     if 1 < videoAspectRatio then (num modelInputSize, num modelInputSize / videoAspectRatio)
     else (num modelInputSize * videoAspectRatio, num modelInputSize))"

definition offset :: "f64 \<Rightarrow> f64" where
  "offset extent = (num modelInputSize - extent) / Fin 2"

section \<open>The input of the network\<close>

text \<open>Red, green and blue planes of an RGBA image, in [0, 1].\<close>

definition plane :: "nat \<Rightarrow> nat list \<Rightarrow> f64 list" where
  "plane k pixels = map (\<lambda>i. num (pixels ! (4 * i + k)) / Fin 255) [0..<length pixels div 4]"

definition prepareInput :: "nat list \<Rightarrow> f64 list" where
  "prepareInput pixels = plane 0 pixels @ plane 1 pixels @ plane 2 pixels"

text \<open>A value computed for debugging only.\<close>

definition hasNonZeroPixels :: "nat list \<Rightarrow> bool" where
  "hasNonZeroPixels pixels \<longleftrightarrow> list_ex (\<lambda>i. 0 < pixels ! i \<or> 0 < pixels ! (i + 1) \<or> 0 < pixels ! (i + 2))
     (filter (\<lambda>i. i mod 4 = 0) [0..<min 100 (length pixels)])"

section \<open>Detection\<close>

text \<open>The value of \<open>getDevice\<close>, if it returns: whether there is a device.\<close>

definition getDevice :: "gpu \<Rightarrow> bool option" where
  "getDevice g = (case g of No_gpu \<Rightarrow> Some False | No_adapter \<Rightarrow> None | No_device \<Rightarrow> None | Device_ready \<Rightarrow> Some True)"

definition hide_loading :: "player stm" where
  "hide_loading p = (case loadingContainer p of None \<Rightarrow> (Thrown, p) | Some _ \<Rightarrow> (Normal, p\<lparr>loadingContainer := Some ''none''\<rparr>))"

definition show_wgpu_error :: "player stm" where
  "show_wgpu_error p = (case wgpuError p of None \<Rightarrow> (Thrown, p) | Some _ \<Rightarrow> (Normal, p\<lparr>wgpuError := Some ''block''\<rparr>))"

text \<open>Loading without a device fails: its buffers cannot be created.\<close>

definition load_net :: "frame_input \<Rightarrow> player stm" where
  "load_net e p = (case getDevice (gpu_answer e) of None \<Rightarrow> (Thrown, p)
     | Some device \<Rightarrow> block
         [whenever (\<lambda>_. \<not> device) (block [show_wgpu_error, hide_loading]),
          attempt (\<lambda>p. if device \<and> load_succeeds e then Some (p\<lparr>net_loaded := True\<rparr>) else None),
          hide_loading] p)"

definition detectObjectsOnFrame :: "frame_input \<Rightarrow> player stm" where
  "detectObjectsOnFrame e = block
     [whenever (\<lambda>p. \<not> net_loaded p) (load_net e),
      attempt (\<lambda>p. map_option (\<lambda>out. p\<lparr>detected := map widen out\<rparr>)
        (run_net e (map narrow (prepareInput (image_data e (letterbox p))))))]"

section \<open>Drawing\<close>

type_synonym box = "f64 \<times> f64 \<times> f64 \<times> f64 \<times> f64"

definition valid_boxes :: "f64 list \<Rightarrow> box list" where
  "valid_boxes boxes = concat (map (\<lambda>n. let i = 6 * n in
     if 0 < array_at boxes (i + 4)
     then [(array_at boxes i, array_at boxes (i + 1), array_at boxes (i + 2), array_at boxes (i + 3), array_at boxes (i + 5))]
     else []) [0..<(length boxes + 5) div 6])"

definition yolo_classes :: "string list" where
  "yolo_classes = [
    ''Andamio'', ''Animal'', ''Aplanadora'', ''Arbol'', ''Barril'', ''Block'', ''Cabina'', ''Cables'',
     ''Camion'', ''CamionDeRiego'', ''CamionVolquete'', ''Carga'', ''Carretilla'', ''Casco'',
     ''Castillo'', ''Cementadora'', ''Chaleco'', ''Charca'', ''Cimbra'', ''Colado'', ''Columna'',
     ''Construccion'', ''Contenedor'', ''Cubeta'', ''Descarga'', ''Edificio'', ''Escalera'',
     ''Espectacular'', ''Excavadora'', ''Excavar'', ''Follaje'', ''Grua'', ''Herramienta'', ''Lona'',
     ''Material'', ''Medir'', ''Monticulo'', ''Motoconformadora'', ''Muro'', ''Pala'', ''Polines'',
     ''Poste'', ''Registro'', ''Reja'', ''Residuos'', ''Retrete'', ''Riego'', ''Tapa'', ''Techo'',
     ''Tinaco'', ''Toldo'', ''TorreDeElectricidad'', ''Trabajador'', ''Tractor'', ''Tuberia'',
     ''Varilla'', ''Vehiculo'', ''Vigas'', ''Zanja'']"

text \<open>The hues \<open>0, 360 / n, ...\<close> below 360; the loop need not end.\<close>

partial_function (option) hues :: "f64 \<Rightarrow> f64 \<Rightarrow> f64 list option" where
  "hues i delta = (if i < Fin 360 then Option.bind (hues (i + delta) delta) (\<lambda>is. Some (i # is)) else Some [])"

definition hsl :: "f64 \<Rightarrow> string" where
  "hsl i = ''hsl('' @ number_string i @ '', 100%, 50%)''"

definition generateColors :: "f64 \<Rightarrow> string list option" where
  "generateColors numColors = map_option (map hsl) (hues 0 (Fin 360 / numColors))"

definition classColors :: "string list option" where
  "classColors = generateColors (num (length yolo_classes))"

definition label_text :: "string option \<Rightarrow> string" where
  "label_text l = (case l of None \<Rightarrow> ''undefined'' | Some s \<Rightarrow> s)"

text \<open>A style that is not a colour, such as the undefined value, is ignored.\<close>

definition draw_box :: "(string option \<Rightarrow> f64) \<Rightarrow> string list \<Rightarrow> f64 \<Rightarrow> f64 \<Rightarrow> f64 \<Rightarrow> f64 \<Rightarrow> box \<Rightarrow> ctx \<Rightarrow> ctx" where
  "draw_box metrics colors offsetX offsetY scaleX scaleY b c = (case b of (x1, y1, x2, y2, classIndex) \<Rightarrow>
     let label = lookup yolo_classes classIndex;
         color = lookup colors classIndex;
         stroke = (case color of None \<Rightarrow> stroke_style c | Some k \<Rightarrow> k);
         fill = (case color of None \<Rightarrow> fill_style c | Some k \<Rightarrow> k);
         adjustedX1 = (x1 - offsetX) * scaleX;
         adjustedY1 = (y1 - offsetY) * scaleY;
         adjustedX2 = (x2 - offsetX) * scaleX;
         adjustedY2 = (y2 - offsetY) * scaleY;
         boxWidth = adjustedX2 - adjustedX1;
         boxHeight = adjustedY2 - adjustedY1;
         textWidth = metrics label
     in c\<lparr>stroke_style := stroke, fill_style := ''#FFFFFF'', calls := calls c @
          [StrokeRect stroke adjustedX1 adjustedY1 boxWidth boxHeight,
           FillRect fill adjustedX1 (adjustedY1 - Fin 25) (textWidth + Fin 10) (Fin 25),
           FillText ''#FFFFFF'' (label_text label) (adjustedX1 + Fin 5) (adjustedY1 - Fin 7)]\<rparr>)"

definition drawBoxes :: "(string option \<Rightarrow> f64) \<Rightarrow> string list \<Rightarrow> box list \<Rightarrow> f64 \<Rightarrow> f64 \<Rightarrow> f64 \<Rightarrow> f64 \<Rightarrow> player \<Rightarrow> player" where
  "drawBoxes metrics colors boxes targetWidth targetHeight offsetX offsetY p =
     (let scaleX = num (canvas_width p) / targetWidth;
          scaleY = num (canvas_height p) / targetHeight;
          c = (canvas_ctx p)\<lparr>calls := calls (canvas_ctx p) @ [ClearRect 0 0 (num (canvas_width p)) (num (canvas_height p))],
            line_width := 3, font := ''30px serif''\<rparr>
      in p\<lparr>canvas_ctx := fold (draw_box metrics colors offsetX offsetY scaleX scaleY) boxes c\<rparr>)"

section \<open>The frame loop\<close>

definition video_ready :: "frame_input \<Rightarrow> bool" where
  "video_ready e \<longleftrightarrow> \<not> (videoWidth e = 0 \<or> videoHeight e = 0 \<or> readyState e < 2)"

definition request_frame :: "player \<Rightarrow> player" where
  "request_frame p = p\<lparr>requested := Suc (requested p)\<rparr>"

definition draw_detected :: "frame_input \<Rightarrow> string list \<Rightarrow> player \<Rightarrow> player" where
  "draw_detected e colors p = (let (targetWidth, targetHeight) = target_size (videoWidth e) (videoHeight e) in
     drawBoxes (text_width e) colors (valid_boxes (detected p)) targetWidth targetHeight
       (offset targetWidth) (offset targetHeight) p)"

definition processFrame :: "string list \<Rightarrow> frame_input \<Rightarrow> player stm" where
  "processFrame colors e p =
     (if video_ready e then block
        [measure_fps (clock_now e),
         run (\<lambda>p. let (targetWidth, targetHeight) = target_size (videoWidth e) (videoHeight e) in
           p\<lparr>letterbox := Some (offset targetWidth, offset targetHeight, targetWidth, targetHeight)\<rparr>),
         detectObjectsOnFrame e,
         run (draw_detected e colors),
         run request_frame] p
      else (Normal, request_frame p))"

end
