(* ===== verification/Suppression.thy ===== *)
theory Suppression
  imports Video "HOL-Library.Sublist"
begin

text \<open>
  The post-processing of \<open>js/video.js\<close> for a network without its own: decoding of the 8400
  predictions, sorting by probability and greedy suppression of overlapping boxes, in binary64.
\<close>

section \<open>The model\<close>

record prediction =
  px1 :: f64
  py1 :: f64
  px2 :: f64
  py2 :: f64
  plabel :: string
  prob :: f64

definition intersection :: "prediction \<Rightarrow> prediction \<Rightarrow> f64" where
  "intersection box1 box2 =
     (let x1 = math_max (px1 box1) (px1 box2);
          y1 = math_max (py1 box1) (py1 box2);
          x2 = math_min (px2 box1) (px2 box2);
          y2 = math_min (py2 box1) (py2 box2)
      in (x2 - x1) * (y2 - y1))"

definition union_area :: "prediction \<Rightarrow> prediction \<Rightarrow> f64" where
  "union_area box1 box2 =
     (let box1_area = (px2 box1 - px1 box1) * (py2 box1 - py1 box1);
          box2_area = (px2 box2 - px1 box2) * (py2 box2 - py1 box2)
      in box1_area + box2_area - intersection box1 box2)"

definition iou :: "prediction \<Rightarrow> prediction \<Rightarrow> f64" where
  "iou box1 box2 = intersection box1 box2 / union_area box1 box2"

text \<open>The class of greatest probability: the first of the greatest, 0 with probability 0 if none is positive.\<close>

definition best :: "f64 list \<Rightarrow> nat \<Rightarrow> nat \<Rightarrow> nat \<times> f64" where
  "best output n index = fold (\<lambda>col accum. let p = array_at output (n * (col + 4) + index) in
     if snd accum < p then (col, p) else accum) [0..<length yolo_classes] (0, 0)"

definition decode :: "f64 list \<Rightarrow> nat \<Rightarrow> f64 \<Rightarrow> f64 \<Rightarrow> nat \<Rightarrow> prediction" where
  "decode output n img_width img_height index =
     (let (class_id, p) = best output n index;
          size = num modelInputSize;
          xc = array_at output index; yc = array_at output (n + index);
          w = array_at output (2 * n + index); h = array_at output (3 * n + index)
      in \<lparr>px1 = (xc - w / Fin 2) / size * img_width, py1 = (yc - h / Fin 2) / size * img_height,
          px2 = (xc + w / Fin 2) / size * img_width, py2 = (yc + h / Fin 2) / size * img_height,
          plabel = yolo_classes ! class_id, prob = p\<rparr>)"

text \<open>The stable sort by a comparator that subtracts.\<close>

fun insert_sorted :: "prediction \<Rightarrow> prediction list \<Rightarrow> prediction list" where
  "insert_sorted b [] = [b]"
| "insert_sorted b (c # cs) = (if 0 < prob c - prob b then c # insert_sorted b cs else b # c # cs)"

definition sort_predictions :: "prediction list \<Rightarrow> prediction list" where
  "sort_predictions bs = foldr insert_sorted bs []"

text \<open>The loop of the suppression; it need not end.\<close>

partial_function (option) suppress :: "prediction list \<Rightarrow> prediction list option" where
  "suppress boxes = (if boxes = [] then Some []
     else Option.bind (suppress (filter (\<lambda>box. iou (hd boxes) box < lit (7 / 10)) boxes))
       (\<lambda>result. Some (hd boxes # result)))"

definition numPredictions :: nat where
  "numPredictions = (modelInputSize div 32) ^ 2 * 21"

definition processOutput :: "f64 list \<Rightarrow> f64 \<Rightarrow> f64 \<Rightarrow> prediction list option" where
  "processOutput output img_width img_height =
     suppress (sort_predictions (map (decode output numPredictions img_width img_height) [0..<numPredictions]))"

section \<open>The sort\<close>

definition in_order :: "prediction \<Rightarrow> prediction \<Rightarrow> bool" where
  "in_order b c \<longleftrightarrow> \<not> prob b < prob c"

lemma mset_insert_sorted: "mset (insert_sorted b cs) = add_mset b (mset cs)"
  by (induction cs) auto

lemma mset_sort_predictions: "mset (sort_predictions bs) = mset bs"
  by (induction bs) (simp_all add: sort_predictions_def mset_insert_sorted)

lemma set_insert_sorted [simp]: "set (insert_sorted b cs) = insert b (set cs)"
  using mset_insert_sorted[of b cs] by (metis set_mset_add_mset_insert set_mset_mset)

definition finite_prob :: "prediction \<Rightarrow> bool" where
  "finite_prob b \<longleftrightarrow> is_fin (prob b) \<and> is_fp (prob b)"

lemma comparator: "finite_prob b \<Longrightarrow> finite_prob c \<Longrightarrow> 0 < prob c - prob b \<longleftrightarrow> prob b < prob c"
  using diff_pos[of "prob c" "prob b"] by (simp add: finite_prob_def)

lemma not_less_trans: "finite_prob b \<Longrightarrow> in_order a b \<Longrightarrow> in_order b c \<Longrightarrow> in_order a c"
  using less_fp_cotrans[of "prob a" "prob c" "prob b"] by (auto simp: in_order_def finite_prob_def is_fin_def)

lemma insert_sorted_order:
  assumes "list_all finite_prob (b # cs)" and "sorted_wrt in_order cs"
  shows "sorted_wrt in_order (insert_sorted b cs)"
  using assms
proof (induction cs)
  case (Cons c cs)
  have fin: "finite_prob b" "finite_prob c" using Cons.prems(1) by simp_all
  show ?case
  proof (cases "0 < prob c - prob b")
    case True
    then have "in_order c b" using comparator[OF fin] less_fp_asym by (auto simp: in_order_def)
    then show ?thesis using Cons True by auto
  next
    case False
    then have "in_order b c" using comparator[OF fin] by (simp add: in_order_def)
    then show ?thesis using Cons.prems False not_less_trans[OF fin(2)] by auto
  qed
qed simp

lemma sort_predictions_order:
  assumes "list_all finite_prob bs"
  shows "sorted_wrt in_order (sort_predictions bs)"
  using assms
proof (induction bs)
  case (Cons b bs)
  have "set (sort_predictions bs) = set bs" using mset_sort_predictions[of bs] by (rule mset_eq_setD)
  then have "list_all finite_prob (b # sort_predictions bs)" using Cons.prems by (simp add: list_all_iff)
  then show ?case using insert_sorted_order Cons by (simp add: sort_predictions_def)
qed (simp add: sort_predictions_def)

section \<open>The suppression loop\<close>

abbreviation apart :: "prediction \<Rightarrow> prediction \<Rightarrow> bool" where
  "apart a b \<equiv> iou a b < lit (7 / 10)"

lemma suppress_Nil [simp]: "suppress [] = Some []"
  by (simp add: suppress.simps)

lemma suppress_Cons:
  "suppress (b # bs) = Option.bind (suppress (filter (apart b) (b # bs))) (\<lambda>result. Some (b # result))"
  by (subst suppress.simps) simp

text \<open>
  If no box is apart from itself, the loop ends; the boxes kept are in order, apart from each
  other, and every box dropped overlaps a box kept.
\<close>

definition suppressed_to :: "prediction list \<Rightarrow> prediction list \<Rightarrow> bool" where
  "suppressed_to boxes result \<longleftrightarrow> subseq result boxes \<and> sorted_wrt apart result \<and>
     (\<forall>b \<in> set boxes. b \<in> set result \<or> (\<exists>a \<in> set result. \<not> apart a b))"

lemma subseq_set: "subseq xs ys \<Longrightarrow> set xs \<subseteq> set ys"
  by (induction rule: list_emb.induct) auto

lemma suppress_result:
  assumes "\<forall>b \<in> set boxes. \<not> apart b b"
  shows "\<exists>result. suppress boxes = Some result \<and> suppressed_to boxes result"
  using assms
proof (induction boxes rule: length_induct)
  case (1 boxes)
  show ?case
  proof (cases boxes)
    case (Cons b bs)
    let ?rest = "filter (apart b) bs"
    have self: "filter (apart b) (b # bs) = ?rest" using 1(2) Cons by simp
    have "length ?rest < length boxes" using Cons by (simp add: le_imp_less_Suc)
    moreover have "\<forall>b \<in> set ?rest. \<not> apart b b" using 1(2) Cons by simp
    ultimately obtain r where r: "suppress ?rest = Some r" "suppressed_to ?rest r" using 1(1) by blast
    have "set r \<subseteq> set ?rest" using r(2) subseq_set[of r ?rest] unfolding suppressed_to_def by blast
    then have "suppressed_to (b # bs) (b # r)"
      using r(2) subseq_filter_left[of "apart b" bs] subseq_order.order_trans[of r ?rest bs]
      by (auto simp: suppressed_to_def)
    moreover have "suppress (b # bs) = Some (b # r)" by (simp only: suppress_Cons self r(1) Option.bind.bind_lunit)
    ultimately show ?thesis unfolding Cons by blast
  qed (simp add: suppressed_to_def)
qed

section \<open>The overlap of a box with itself\<close>

definition moderate :: "f64 \<Rightarrow> bool" where
  "moderate x \<longleftrightarrow> is_fin x \<and> is_fp x \<and> \<bar>val x\<bar> \<le> pow2 400"

lemma rnd_bounded:
  assumes "\<bar>x\<bar> \<le> pow2 k" and "- 1022 \<le> k" and "k \<le> 1023"
  shows "is_fin (rnd s x :: f64) \<and> \<bar>val (rnd s x :: f64)\<bar> \<le> pow2 k"
proof -
  have fp: "is_fp (Fin (pow2 k) :: f64)" "is_fp (Fin (- pow2 k) :: f64)"
    using assms(2,3) repr_pow2[of "- 1022" k 53] pow2_strict_mono[of k 1024] by simp_all
  have "(rnd s x :: f64) \<le> Fin (pow2 k)" "Fin (- pow2 k) \<le> (rnd s x :: f64)"
    by (rule rnd_le_exact[OF _ fp(1)], use assms(1) in linarith) (rule rnd_ge_exact[OF _ fp(2)], use assms(1) in linarith)
  then show ?thesis by (cases "rnd s x :: f64") (auto simp: less_eq_fp_def)
qed

lemma minus_moderate:
  assumes "moderate a" and "moderate b"
  shows "is_fin (a - b) \<and> is_fp (a - b) \<and> \<bar>val (a - b)\<bar> \<le> pow2 401"
proof -
  have "\<bar>val a - val b\<bar> \<le> pow2 401"
    using assms abs_triangle_ineq4[of "val a" "val b"] by (simp add: moderate_def)
  then have "is_fin (rnd s (val a - val b) :: f64) \<and> \<bar>val (rnd s (val a - val b) :: f64)\<bar> \<le> pow2 401" for s
    by (rule rnd_bounded) simp_all
  then show ?thesis using assms by (auto simp: minus_fp_def plus_fp_def moderate_def is_fin_def)
qed

lemma double_exact:
  assumes "is_fin a" and "is_fp a" and "\<bar>val a\<bar> \<le> pow2 802"
  shows "a / (a + a - a) = NaN \<or> a / (a + a - a) = (Fin 1 :: f64)"
proof (cases a)
  case (Fin q)
  have b: "\<bar>q\<bar> < pow2 1024" "\<bar>2 * q\<bar> < pow2 1024"
    using assms(3) Fin pow2_strict_mono[of 802 1024] pow2_Suc[of 802] pow2_strict_mono[of 803 1024] by simp_all
  have r: "repr 53 (- 1022) q" "repr 53 (- 1022) (2 * q)" using assms(2) Fin repr_double[of _ _ q] by simp_all
  have one: "is_fp (Fin 1 :: f64)" using is_fp_f64_of_int[of 1] by simp
  have "a + a = (if q = 0 then 0 else Fin (2 * q))"
    using Fin r b rnd_exact[of "2 * q", where 'p = 53 and 'w = 11] by (simp add: plus_fp_def)
  then have "a + a - a = (if q = 0 then 0 else Fin q)"
    using Fin r b rnd_exact[of q, where 'p = 53 and 'w = 11] rnd_exact[of 0, where 'p = 53 and 'w = 11]
    by (auto simp: minus_fp_def plus_fp_def zero_fp_def)
  then show ?thesis using Fin rnd_exact[OF one, of False] by (auto simp: divide_fp_def zero_fp_def)
qed (use assms in \<open>simp_all add: divide_fp_def plus_fp_def minus_fp_def zero_fp_def is_fin_def\<close>)

lemma self_overlap:
  assumes "moderate (px1 b)" and "moderate (py1 b)" and "moderate (px2 b)" and "moderate (py2 b)"
  shows "\<not> apart b b"
proof -
  let ?w = "px2 b - px1 b" and ?h = "py2 b - py1 b"
  have same: "math_max x x = x" "math_min x x = x" if "moderate x" for x
    using that by (auto simp: math_max_def math_min_def moderate_def is_fin_def)
  have "\<bar>val ?w * val ?h\<bar> \<le> pow2 401 * pow2 401"
    unfolding abs_mult by (intro mult_mono) (use minus_moderate assms in simp_all)
  then have "\<bar>val ?w * val ?h\<bar> \<le> pow2 802" by (simp add: pow2_add[symmetric])
  then have "is_fin (rnd s (val ?w * val ?h) :: f64) \<and> \<bar>val (rnd s (val ?w * val ?h) :: f64)\<bar> \<le> pow2 802" for s
    by (rule rnd_bounded) simp_all
  moreover have "?w * ?h = rnd (neg ?w \<noteq> neg ?h) (val ?w * val ?h)"
    using minus_moderate assms by (simp add: times_fp_def is_fin_def)
  ultimately have a: "is_fin (?w * ?h)" "\<bar>val (?w * ?h)\<bar> \<le> pow2 802" by simp_all
  have "iou b b = ?w * ?h / (?w * ?h + ?w * ?h - ?w * ?h)"
    using assms by (simp add: iou_def intersection_def union_area_def same Let_def)
  then have "iou b b = NaN \<or> iou b b = Fin 1" using double_exact[OF a(1) is_fp_times a(2)] by simp
  moreover have "is_fp (Fin 1 :: f64)" using is_fp_f64_of_int[of 1] by simp
  then have "(lit (7 / 10) :: f64) \<le> Fin 1" unfolding lit_def by (rule rnd_le_exact[rotated]) simp
  then have "\<not> (Fin 1 :: f64) < lit (7 / 10)" by (auto simp: less_fp_def less_eq_fp_def)
  ultimately show ?thesis by auto
qed

end
