(* ===== verification/Hues.thy ===== *)
theory Hues
  imports Video
begin

text \<open>
  The loop of \<open>generateColors\<close>, whose end depends on the rounding of 59 additions: the hues are
  integers over 2^49, and rounding them is a function on integers that evaluates.
\<close>

section \<open>Rounding of integers over a power of two\<close>

definition grid :: "int \<Rightarrow> int" where
  "grid m = (let g = 2 ^ nat (bitlen m - 53); k = m div g; r = m mod g
     in g * (if 2 * r < g \<or> 2 * r = g \<and> even k then k else k + 1))"

lemma rne_divide:
  assumes "0 < g"
  shows "rne (of_int m / of_int g) = (if 2 * (m mod g) < g \<or> 2 * (m mod g) = g \<and> even (m div g) then m div g else m div g + 1)"
proof -
  have f: "\<lfloor>of_int m / of_int g :: rat\<rfloor> = m div g" by (rule floor_divide_of_int_eq)
  have "(of_int m :: rat) = of_int (m div g) * of_int g + of_int (m mod g)"
    by (metis div_mult_mod_eq of_int_add of_int_mult)
  then have d: "of_int m / of_int g - of_int (m div g) = (of_int (m mod g) / of_int g :: rat)"
    using assms by (simp add: field_simps)
  have "of_int (m mod g) / of_int g < (1 / 2 :: rat) \<longleftrightarrow> of_int (2 * (m mod g)) < (of_int g :: rat)"
    "1 / 2 < (of_int (m mod g) / of_int g :: rat) \<longleftrightarrow> (of_int g :: rat) < of_int (2 * (m mod g))"
    using assms by (simp_all add: field_simps)
  then have "of_int (m mod g) / of_int g < (1 / 2 :: rat) \<longleftrightarrow> 2 * (m mod g) < g"
    "1 / 2 < (of_int (m mod g) / of_int g :: rat) \<longleftrightarrow> g < 2 * (m mod g)" by (simp_all only: of_int_less_iff)
  then show ?thesis unfolding rne_def Let_def f d by auto
qed

lemma rnd_grid:
  assumes "0 < m" and "bitlen m \<le> 1000"
  shows "(rnd s (of_int m / 2 ^ 49) :: f64) = Fin (of_int (grid m) / 2 ^ 49)" and "0 < grid m"
proof -
  define b q where "b = bitlen m" and "q = bitlen m - 102"
  define x :: rat where "x = of_int m / 2 ^ 49"
  have p49: "pow2 (- 49) = 1 / 2 ^ 49" by (simp add: power_int_minus)
  have x: "x = of_int m * pow2 (- 49)" unfolding p49 x_def by simp
  have b1: "1 \<le> b" using assms(1) bitlen_nonneg[of m] bitlen_eq_zero_iff[of m] by (simp add: b_def)
  have lo: "pow2 (b - 50) \<le> x" and hi: "x < pow2 (b - 50 + 1)"
    using bitlen_rat_bounds[OF assms(1)] pow2_add[of "b - 1" "- 49"] pow2_add[of b "- 49"]
    by (simp_all add: x b_def)
  have l: "ilog2 x = b - 50" by (rule ilog2_unique[OF lo hi])
  have x0: "0 < x" using assms(1) by (simp add: x_def)
  have quant: "quantum 53 (- 1022) x = q" using x0 b1 unfolding quantum_def abs_of_pos[OF x0] l by (simp add: q_def b_def)
  have frac: "x / pow2 q = of_int m * pow2 (53 - b)"
  proof -
    have "53 - b + q = - 49" by (simp add: q_def b_def)
    then have e: "pow2 (- 49) = pow2 (53 - b) * pow2 q" by (simp only: pow2_add[symmetric])
    show ?thesis unfolding x e by (simp only: mult.assoc[symmetric] nonzero_mult_div_cancel_right[OF pow2_nz])
  qed
  have r: "round_to 53 (- 1022) x = of_int (grid m) / 2 ^ 49"
  proof (cases "b \<le> 53")
    case True
    then have "of_int m * pow2 (53 - b) = of_int (m * 2 ^ nat (53 - b))" by (simp add: pow2_nat)
    then have "rne (x / pow2 q) = m * 2 ^ nat (53 - b)" unfolding frac by (simp only: rne_of_int)
    then have "round_to 53 (- 1022) x = of_int m * (pow2 (53 - b) * pow2 q)"
      using x0 True by (simp add: round_to_def Let_def quant pow2_nat[of "53 - b"])
    also have "pow2 (53 - b) * pow2 q = pow2 (- 49)" by (simp only: pow2_add[symmetric]) (simp add: q_def b_def)
    finally have "round_to 53 (- 1022) x = of_int m * pow2 (- 49)" .
    moreover have "grid m = m" using True by (simp add: grid_def b_def)
    ultimately show ?thesis unfolding p49 by simp
  next
    case False
    define g :: int where "g = 2 ^ nat (b - 53)"
    have g: "0 < g" "pow2 (b - 53) = of_int g" using False by (simp_all add: g_def pow2_nat)
    have "pow2 (53 - b) = 1 / of_int g" using pow2_diff[of 0 "b - 53"] g(2) by simp
    then have f: "x / pow2 q = of_int m / of_int g" unfolding frac by simp
    have "pow2 q = of_int g * pow2 (- 49)"
      unfolding g(2)[symmetric] pow2_add[symmetric] by (simp add: q_def b_def)
    then have "round_to 53 (- 1022) x = of_int (rne (of_int m / of_int g :: rat) * g) * pow2 (- 49)"
      using x0 by (simp add: round_to_def Let_def quant f)
    moreover have "rne (of_int m / of_int g :: rat) * g = grid m"
      unfolding rne_divide[OF g(1)] grid_def Let_def g_def[unfolded b_def, symmetric] by (simp only: mult.commute)
    ultimately show ?thesis unfolding p49 by simp
  qed
  have "pow2 (b - 50) \<le> round_to 53 (- 1022) x" by (rule round_to_lower[OF lo]) (use b1 in simp_all)
  then have pos: "0 < round_to 53 (- 1022) x" using pow2_pos[of "b - 50"] by linarith
  then show "0 < grid m" unfolding r by (simp add: zero_less_divide_iff)
  have "round_to 53 (- 1022) x \<le> pow2 (b - 50 + 1)" by (rule round_to_upper[OF x0 hi]) (use b1 in simp_all)
  also have "\<dots> < pow2 1024" using assms(2) by (intro pow2_strict_mono) (simp add: b_def)
  finally have "\<not> pow2 1024 \<le> round_to 53 (- 1022) x" by linarith
  moreover have "\<not> round_to 53 (- 1022) x \<le> - pow2 1024" using pos pow2_pos[of 1024] by linarith
  ultimately show "(rnd s (of_int m / 2 ^ 49) :: f64) = Fin (of_int (grid m) / 2 ^ 49)"
    using pos unfolding x_def[symmetric] r by (simp add: rnd_def Let_def r)
qed

section \<open>The loop on integers\<close>

fun hue_ints :: "nat \<Rightarrow> int \<Rightarrow> int \<Rightarrow> int list option" where
  "hue_ints 0 m d = None"
| "hue_ints (Suc n) m d = (if m < 360 * 2 ^ 49 then map_option ((#) m) (hue_ints n (grid (m + d)) d) else Some [])"

lemma hues_step: "hues i d = (if i < Fin 360 then Option.bind (hues (i + d) d) (\<lambda>is. Some (i # is)) else Some [])"
  by (subst hues.simps) simp

lemma hues_ints:
  assumes "hue_ints n m d = Some ms" and "0 \<le> m" and "0 < d" and "bitlen (360 * 2 ^ 49 + d) \<le> 1000"
  shows "hues (Fin (of_int m / 2 ^ 49)) (Fin (of_int d / 2 ^ 49)) = Some (map (\<lambda>m. Fin (of_int m / 2 ^ 49)) ms)"
  using assms(1,2)
proof (induction n arbitrary: m ms)
  case (Suc n)
  have "(Fin (of_int m / 2 ^ 49) :: f64) < Fin 360 \<longleftrightarrow> of_int m < (of_int (360 * 2 ^ 49) :: rat)" by (simp add: divide_less_eq)
  also have "\<dots> \<longleftrightarrow> m < 360 * 2 ^ 49" by (simp only: of_int_less_iff)
  finally have test: "(Fin (of_int m / 2 ^ 49) :: f64) < Fin 360 \<longleftrightarrow> m < 360 * 2 ^ 49" .
  show ?case
  proof (cases "m < 360 * 2 ^ 49")
    case True
    then obtain ks where ks: "hue_ints n (grid (m + d)) d = Some ks" "ms = m # ks" using Suc.prems(1) by auto
    have p: "0 < m + d" using Suc.prems(2) assms(3) by simp
    have "bitlen (m + d) \<le> bitlen (360 * 2 ^ 49 + d)"
      using True p by (simp add: bitlen_def floorlog_mono)
    then have b: "bitlen (m + d) \<le> 1000" using assms(4) by linarith
    have "Fin (of_int m / 2 ^ 49) + Fin (of_int d / 2 ^ 49) = (rnd False (of_int (m + d) / 2 ^ 49) :: f64)"
      using Suc.prems(2) assms(3) by (simp add: plus_fp_def add_divide_distrib)
    also have "\<dots> = Fin (of_int (grid (m + d)) / 2 ^ 49)" by (rule rnd_grid(1)[OF p b])
    finally have s: "Fin (of_int m / 2 ^ 49) + Fin (of_int d / 2 ^ 49) = (Fin (of_int (grid (m + d)) / 2 ^ 49) :: f64)" .
    have ih: "hues (Fin (of_int (grid (m + d)) / 2 ^ 49)) (Fin (of_int d / 2 ^ 49)) = Some (map (\<lambda>m. Fin (of_int m / 2 ^ 49)) ks)"
      by (rule Suc.IH[OF ks(1)]) (use rnd_grid(2)[OF p b] in simp)
    show ?thesis
      by (subst hues_step) (simp only: test True if_True s ih Option.bind.bind_lunit ks(2) list.map)
  next
    case False
    then show ?thesis using Suc.prems(1) by (subst hues_step) (simp only: test if_False, simp)
  qed
qed simp

lemma hue_step_59: "(Fin 360 / num 59 :: f64) = Fin (of_int 3434948868333429 / 2 ^ 49)"
proof -
  have "ilog2 (360 / 59) = 2" by (rule ilog2_unique) simp_all
  then have q: "quantum 53 (- 1022) (360 / 59) = - 50" by (simp add: quantum_def)
  have "rne (of_int 405323966463344640 / of_int 59) = 6869897736666858" by (subst rne_divide) simp_all
  then have "rne ((360 / 59) / pow2 (- 50)) = 6869897736666858" by (simp add: power_int_minus)
  then have "round_to 53 (- 1022) (360 / 59) = 3434948868333429 / 2 ^ 49"
    by (simp add: round_to_def Let_def q power_int_minus)
  then show ?thesis by (simp add: divide_fp_def num_def rnd_def Let_def)
qed

lemma hue_ints_59: "map_option length (hue_ints 70 0 3434948868333429) = Some 59"
  by code_simp

lemma bitlen_bound: "bitlen (360 * 2 ^ 49 + 3434948868333429) \<le> 1000"
  by code_simp

lemma class_hues: "\<exists>hs. hues 0 (Fin 360 / num 59) = Some hs \<and> length hs = 59"
proof -
  obtain ms where ms: "hue_ints 70 0 3434948868333429 = Some ms" "length ms = 59" using hue_ints_59 by auto
  have "hues (Fin (of_int 0 / 2 ^ 49)) (Fin (of_int 3434948868333429 / 2 ^ 49)) = Some (map (\<lambda>m. Fin (of_int m / 2 ^ 49)) ms)"
    by (rule hues_ints[OF ms(1)]) (use bitlen_bound in simp_all)
  moreover have "Fin (of_int 0 / 2 ^ 49) = (0 :: f64)" by (simp add: zero_fp_def)
  ultimately show ?thesis unfolding hue_step_59 using ms(2) by simp
qed

end
