(* ===== verification/VideoTheorems.thy ===== *)
theory VideoTheorems
  imports Suppression Hues
begin

text \<open>
  The properties of the video page: the letterbox, the input planes, the frame rate, the end of the
  frame loop when detection fails, the boxes drawn, the class colours, and the suppression.
\<close>

section \<open>Rounded quotients and products within bounds\<close>

lemma fp_pow2: "- 1022 \<le> k \<Longrightarrow> k \<le> 1023 \<Longrightarrow> is_fp (Fin (pow2 k) :: f64)"
  using repr_pow2[of "- 1022" k 53] pow2_strict_mono[of k 1024] by simp

lemma rnd_between:
  assumes "a \<le> x" and "x \<le> b" and "is_fp (Fin a :: f64)" and "is_fp (Fin b :: f64)"
  shows "is_fin (rnd s x :: f64) \<and> a \<le> val (rnd s x :: f64) \<and> val (rnd s x :: f64) \<le> b"
  using rnd_le_exact[OF assms(2,4), of s] rnd_ge_exact[OF assms(1,3), of s]
  by (cases "rnd s x :: f64") (auto simp: less_eq_fp_def)

lemma rnd_between_pos:
  assumes "a \<le> x" and "x \<le> b" and "0 < a" and "is_fp (Fin a :: f64)" and "is_fp (Fin b :: f64)"
  shows "\<exists>q. (rnd s x :: f64) = Fin q \<and> a \<le> q \<and> q \<le> b"
proof -
  note b = rnd_between[OF assms(1,2,4,5), of s]
  then have "0 < val (rnd s x :: f64)" using assms(3) by linarith
  then show ?thesis using b by (cases "rnd s x :: f64") simp_all
qed

section \<open>The letterbox\<close>

lemma quotient_bounds:
  fixes a b c :: rat
  assumes "1 \<le> a" and "a \<le> c" and "1 \<le> b" and "b \<le> c"
  shows "1 / c \<le> a / b" and "a / b \<le> c"
proof -
  have "b * 1 \<le> c * a" using assms by (intro mult_mono) simp_all
  then show "1 / c \<le> a / b" using assms by (simp add: field_simps)
  have "a * 1 \<le> c * b" using assms by (intro mult_mono) simp_all
  then show "a / b \<le> c" using assms by (simp add: divide_le_eq)
qed

lemma nat_range: "0 < n \<Longrightarrow> n < 2 ^ 32 \<Longrightarrow> 1 \<le> (of_nat n :: rat) \<and> (of_nat n :: rat) \<le> 4294967296"
  using of_nat_le_iff[of n 4294967296, where 'a = rat] of_nat_le_iff[of 1 n, where 'a = rat] by simp

lemma bound_fp: "is_fp (Fin (1 / 4294967296) :: f64)" "is_fp (Fin 4294967296 :: f64)" "is_fp (Fin 640 :: f64)"
  "is_fp (Fin 0 :: f64)" "is_fp (Fin 320 :: f64)" "is_fp (Fin 1 :: f64)"
  using repr_pow2[of "- 1022" "- 32" 53] is_fp_f64_of_int[of 4294967296] is_fp_f64_of_int[of 640]
    is_fp_f64_of_int[of 0] is_fp_f64_of_int[of 320] is_fp_f64_of_int[of 1]
  by (simp_all add: power_int_minus)

lemma ratio_bounds:
  assumes "0 < w" and "0 < h" and "w < 2 ^ 32" and "h < 2 ^ 32"
  shows "\<exists>q. num w / num h = Fin q \<and> 1 / 4294967296 \<le> q \<and> q \<le> 4294967296"
proof -
  let ?r = "of_nat w / of_nat h :: rat"
  have r: "1 / 4294967296 \<le> ?r" "?r \<le> 4294967296"
    using quotient_bounds nat_range[OF assms(1,3)] nat_range[OF assms(2,4)] by blast+
  have "num w / num h = rnd False ?r" using assms(2) by (simp add: divide_fp_def num_def)
  then show ?thesis using rnd_between_pos[OF r _ bound_fp(1,2), of False] by simp
qed

lemma target_bounds:
  assumes "0 < w" and "0 < h" and "w < 2 ^ 32" and "h < 2 ^ 32" and "target_size w h = (tw, th)"
  shows "\<exists>x y. tw = Fin x \<and> th = Fin y \<and> 0 < x \<and> x \<le> 640 \<and> 0 < y \<and> y \<le> 640 \<and> (x = 640 \<or> y = 640)"
proof -
  obtain q where q: "num w / num h = Fin q" "1 / 4294967296 \<le> q" "q \<le> 4294967296" using ratio_bounds[OF assms(1-4)] by blast
  have size: "num modelInputSize = Fin 640" by (simp add: num_def modelInputSize_def)
  have eq: "(tw, th) = (if 1 < q then (Fin 640, Fin 640 / Fin q) else (Fin 640 * Fin q, Fin 640))"
    using assms(5) by (simp only: target_size_def q(1) size Let_def one_fp_def less_fp_simps)
  show ?thesis
  proof (cases "1 < q")
    case True
    have le: "640 / q \<le> 640" and ge: "1 / 4294967296 \<le> 640 / q"
      using True q(3) by (simp_all add: divide_le_eq field_simps)
    have "th = rnd False (640 / q)" "tw = Fin 640"
      using eq True by (simp_all add: divide_fp_def)
    then show ?thesis using rnd_between_pos[OF ge le _ bound_fp(1,3), of False] by auto
  next
    case False
    have le: "640 * q \<le> 640" and ge: "1 / 4294967296 \<le> 640 * q" using False q(2) by simp_all
    have "tw = rnd False (640 * q)" "th = Fin 640"
      using eq False q(2) by (simp_all add: times_fp_def)
    then show ?thesis using rnd_between_pos[OF ge le _ bound_fp(1,3), of False] by auto
  qed
qed

lemma offset_bounds:
  assumes "0 \<le> x" and "x \<le> 640"
  shows "is_fin (offset (Fin x)) \<and> 0 \<le> val (offset (Fin x)) \<and> val (offset (Fin x)) \<le> 320"
proof -
  have size: "num modelInputSize = Fin 640" by (simp add: num_def modelInputSize_def)
  let ?d = "rnd False (640 - x) :: f64"
  have d: "is_fin ?d \<and> 0 \<le> val ?d \<and> val ?d \<le> 640"
    using rnd_between[OF _ _ bound_fp(4,3), of "640 - x" False] assms by simp
  have "Fin 640 - Fin x = ?d" using assms by (simp add: minus_fp_def plus_fp_def)
  moreover have "?d / Fin 2 = rnd (neg ?d) (val ?d / 2)" using d by (simp add: divide_fp_def is_fin_def)
  moreover have "is_fin (rnd (neg ?d) (val ?d / 2) :: f64) \<and> 0 \<le> val (rnd (neg ?d) (val ?d / 2) :: f64) \<and>
      val (rnd (neg ?d) (val ?d / 2) :: f64) \<le> 320"
    by (rule rnd_between[OF _ _ bound_fp(4,5)]) (use d in simp_all)
  ultimately show ?thesis by (simp add: offset_def size)
qed

lemma offset_full: "offset (Fin 640) = 0"
proof -
  have "Fin 640 - Fin 640 = (0 :: f64)" by (simp add: minus_fp_def plus_fp_def)
  moreover have "neg (0 :: f64) = False" by (simp add: zero_fp_def)
  ultimately show ?thesis by (simp add: offset_def num_def modelInputSize_def divide_fp_def)
qed

section \<open>Letterbox and input\<close>

text \<open>C34: The copy of the frame fits the square of the model: its sides are positive and at most 640,
  one is 640, and the margins are between 0 and 320, zero along the full side.\<close>

theorem letterbox_fits:
  assumes "0 < w" and "0 < h" and "w < 2 ^ 32" and "h < 2 ^ 32"
  shows "\<exists>x y. target_size w h = (Fin x, Fin y) \<and> 0 < x \<and> x \<le> 640 \<and> 0 < y \<and> y \<le> 640 \<and>
    (x = 640 \<and> offset (Fin x) = 0 \<or> y = 640 \<and> offset (Fin y) = 0) \<and>
    0 \<le> val (offset (Fin x)) \<and> val (offset (Fin x)) \<le> 320 \<and> 0 \<le> val (offset (Fin y)) \<and> val (offset (Fin y)) \<le> 320"
proof -
  obtain tw th where t: "target_size w h = (tw, th)" by (cases "target_size w h")
  obtain x y where xy: "tw = Fin x" "th = Fin y" "0 < x" "x \<le> 640" "0 < y" "y \<le> 640" "x = 640 \<or> y = 640"
    using target_bounds[OF assms t] by blast
  then show ?thesis
    using t offset_bounds[of x] offset_bounds[of y] offset_full by (intro exI[of _ x] exI[of _ y]) auto
qed

theorem letterbox_fits_witness:
  "\<exists>x y. target_size 1920 1080 = (Fin x, Fin y) \<and> 0 < x \<and> x \<le> 640 \<and> 0 < y \<and> y \<le> 640"
  using letterbox_fits[of 1920 1080] by auto

lemma fraction_bounds:
  assumes "n \<le> 255"
  shows "is_fin (num n / Fin 255) \<and> 0 \<le> val (num n / Fin 255) \<and> val (num n / Fin 255) \<le> 1"
proof -
  have "(of_nat n :: rat) \<le> 255" using of_nat_le_iff[of n 255, where 'a = rat] assms by simp
  then have "is_fin (rnd False (of_nat n / 255) :: f64) \<and> 0 \<le> val (rnd False (of_nat n / 255) :: f64) \<and>
      val (rnd False (of_nat n / 255) :: f64) \<le> 1"
    using rnd_between[OF _ _ bound_fp(4,6), of "of_nat n / 255" False] by simp
  then show ?thesis by (simp add: divide_fp_def num_def)
qed

text \<open>The network's input has a value for each colour and pixel, plane by plane, each the colour's
  byte divided by 255 and so in [0, 1].\<close>

theorem input_planes:
  assumes "length pixels = 4 * n" and "list_all (\<lambda>b. b \<le> 255) pixels"
  shows "length (prepareInput pixels) = 3 * n \<and>
    (\<forall>k<3. \<forall>i<n. prepareInput pixels ! (k * n + i) = num (pixels ! (4 * i + k)) / Fin 255) \<and>
    (\<forall>x \<in> set (prepareInput pixels). is_fin x \<and> 0 \<le> val x \<and> val x \<le> 1)"
proof -
  have len: "length (plane k pixels) = n" for k using assms(1) by (simp add: plane_def)
  have nth: "plane k pixels ! i = num (pixels ! (4 * i + k)) / Fin 255" if "i < n" for k i
    using that assms(1) by (simp add: plane_def)
  have "prepareInput pixels ! (k * n + i) = num (pixels ! (4 * i + k)) / Fin 255" if k: "k < 3" and i: "i < n" for k i
  proof -
    consider "k = 0" | "k = 1" | "k = 2" using k by linarith
    then show ?thesis using i by cases (simp_all add: prepareInput_def nth_append len nth mult_2)
  qed
  moreover have "is_fin x \<and> 0 \<le> val x \<and> val x \<le> 1" if "x \<in> set (prepareInput pixels)" for x
  proof -
    have "x \<in> set (plane 0 pixels) \<or> x \<in> set (plane 1 pixels) \<or> x \<in> set (plane 2 pixels)"
      using that by (simp add: prepareInput_def)
    then obtain k where k: "k < 4" "x \<in> set (plane k pixels)" by (elim disjE) (auto intro: that[of 0] that[of 1] that[of 2])
    then obtain i where i: "i < n" "x = num (pixels ! (4 * i + k)) / Fin 255"
      using assms(1) by (auto simp: plane_def)
    moreover have "pixels ! (4 * i + k) \<le> 255" using assms k(1) i(1) by (simp add: list_all_length)
    ultimately show ?thesis using fraction_bounds by blast
  qed
  ultimately show ?thesis by (simp add: prepareInput_def len)
qed

theorem input_planes_witness: "length (prepareInput [255, 0, 128, 255, 1, 2, 3, 4]) = 6"
  using input_planes[of "[255, 0, 128, 255, 1, 2, 3, 4]" 2] by simp

section \<open>The frame loop\<close>

fun rates :: "f64 \<Rightarrow> f64 list \<Rightarrow> f64 list" where
  "rates t [] = []"
| "rates t (u # us) = frame_rate u t # rates u us"

definition measured :: "f64 list \<Rightarrow> player \<Rightarrow> player" where
  "measured ts p = fold (\<lambda>t p. snd (measure_fps t p)) ts p"

lemma measured_steps:
  assumes "lastCalledTime p = Some t" and "\<not> falsy_time (Some t)" and "\<forall>u \<in> set us. \<not> falsy_time (Some u)"
    and "frameCounter p + length us \<le> 10"
  shows "measured us p = p\<lparr>lastCalledTime := Some (last (t # us)), accumFps := fold (\<lambda>r a. a + r) (rates t us) (accumFps p),
    frameCounter := frameCounter p + length us\<rparr>"
  using assms
proof (induction us arbitrary: p t)
  case Nil
  then show ?case by (simp add: measured_def)
next
  case (Cons u us)
  let ?q = "p\<lparr>lastCalledTime := Some u, accumFps := accumFps p + frame_rate u t, frameCounter := Suc (frameCounter p)\<rparr>"
  have "measure_fps u p = (Normal, ?q)" using Cons.prems by (simp add: measure_fps_def Let_def)
  then have "measured (u # us) p = measured us ?q" by (simp add: measured_def)
  also have "\<dots> = ?q\<lparr>lastCalledTime := Some (last (u # us)),
      accumFps := fold (\<lambda>r a. a + r) (rates u us) (accumFps ?q), frameCounter := frameCounter ?q + length us\<rparr>"
    by (rule Cons.IH) (use Cons.prems in simp_all)
  finally show ?case by simp
qed

lemma measured_append: "measured (us @ vs) p = measured vs (measured us p)"
  by (simp add: measured_def)

text \<open>Eleven measured frames after a reset, the rate shown is the mean of the eleven rates, with one
  decimal, and the counters are reset.\<close>

theorem frame_rate_mean:
  assumes "lastCalledTime p = Some t" and "\<not> falsy_time (Some t)" and "length us = 11"
    and "\<forall>u \<in> set us. \<not> falsy_time (Some u)" and "frameCounter p = 0" and "accumFps p = 0" and "fpsMeter p \<noteq> None"
  shows "fps (measured us p) = fold (\<lambda>r a. a + r) (rates t us) 0 / num 11 \<and>
    fpsMeter (measured us p) = Some (''FPS: '' @ to_fixed 1 (fps (measured us p))) \<and>
    frameCounter (measured us p) = 0 \<and> accumFps (measured us p) = 0"
proof -
  have "us \<noteq> []" using assms(3) by auto
  then obtain vs v where us: "us = vs @ [v]" by (metis append_butlast_last_id)
  have len: "length vs = 10" using assms(3) us by simp
  let ?q = "measured vs p"
  have q: "?q = p\<lparr>lastCalledTime := Some (last (t # vs)), accumFps := fold (\<lambda>r a. a + r) (rates t vs) 0, frameCounter := 10\<rparr>"
    using measured_steps[OF assms(1,2), of vs] assms(4-6) len by (simp add: us)
  have "rates t (vs @ [v]) = rates t vs @ [frame_rate v (last (t # vs))]" by (induction vs arbitrary: t) simp_all
  moreover have "\<not> falsy_time (Some (last (t # vs)))" using assms(2,4) us last_in_set[of vs] by (cases vs) auto
  moreover obtain m where "fpsMeter p = Some m" using assms(7) by blast
  moreover have "measured us p = snd (measure_fps v ?q)" unfolding us measured_append by (simp add: measured_def)
  ultimately show ?thesis by (simp add: us q measure_fps_def Let_def)
qed

definition idle_player :: player where
  "idle_player = \<lparr>net_loaded = False, lastCalledTime = Some (num 1), fps = 0, accumFps = 0, frameCounter = 0,
     fpsMeter = Some [], loadingContainer = Some ''flex'', wgpuError = None, canvas_width = 640, canvas_height = 480,
     canvas_ctx = \<lparr>stroke_style = ''#000000'', fill_style = ''#000000'', line_width = 1, font = ''10px sans-serif'', calls = []\<rparr>,
     letterbox = None, detected = [], requested = 0\<rparr>"

theorem frame_rate_mean_witness:
  "frameCounter (measured (map num [18..<29]) idle_player) = 0"
proof -
  have "\<forall>u \<in> set (map num [18..<29]). \<not> falsy_time (Some u)" by (auto simp: falsy_time_def feq_def num_def)
  from frame_rate_mean[OF _ _ _ this, of idle_player "num 1"] show ?thesis
    by (simp add: idle_player_def falsy_time_def feq_def num_def)
qed

text \<open>What measuring the rate leaves alone.\<close>

lemma measure_fps_keeps:
  assumes "\<And>p a b c d m. P p \<Longrightarrow> P (p\<lparr>lastCalledTime := a, fps := b, accumFps := c, frameCounter := d, fpsMeter := m\<rparr>)"
  shows "keeps P (measure_fps now)"
proof -
  have "\<exists>a b c d m. snd (measure_fps now p) =
      p\<lparr>lastCalledTime := a, fps := b, accumFps := c, frameCounter := d, fpsMeter := m\<rparr>" for p
  proof (intro exI)
    let ?q = "snd (measure_fps now p)"
    show "?q = p\<lparr>lastCalledTime := lastCalledTime ?q, fps := fps ?q, accumFps := accumFps ?q,
        frameCounter := frameCounter ?q, fpsMeter := fpsMeter ?q\<rparr>"
      by (simp add: measure_fps_def Let_def split: option.split)
  qed
  then show ?thesis unfolding keeps_def using assms by metis
qed

definition status_of :: "player \<Rightarrow> bool \<times> string option \<times> string option \<times> nat" where
  "status_of p = (net_loaded p, loadingContainer p, wgpuError p, requested p)"

lemma measure_fps_status: "measure_fps now p = (r, q) \<Longrightarrow> status_of q = status_of p"
  by (rule keepsD[OF measure_fps_keeps[of "\<lambda>q. status_of q = status_of p"]]) (simp_all add: status_of_def)

lemma detect_without_device:
  assumes "\<not> net_loaded p" and "gpu_answer e \<noteq> Device_ready"
  shows "\<exists>q. detectObjectsOnFrame e p = (Thrown, q) \<and> requested q = requested p \<and> \<not> net_loaded q \<and>
    (wgpuError p = None \<or> gpu_answer e \<noteq> No_gpu \<longrightarrow> loadingContainer q = loadingContainer p \<and> wgpuError q = wgpuError p)"
proof -
  have "\<exists>q. load_net e p = (Thrown, q) \<and> requested q = requested p \<and> \<not> net_loaded q \<and>
    (wgpuError p = None \<or> gpu_answer e \<noteq> No_gpu \<longrightarrow> loadingContainer q = loadingContainer p \<and> wgpuError q = wgpuError p)"
    using assms
    by (cases "gpu_answer e"; cases "wgpuError p"; cases "loadingContainer p")
      (simp_all add: load_net_def getDevice_def and_then_def whenever_def attempt_def show_wgpu_error_def hide_loading_def run_def)
  then show ?thesis using assms(1) unfolding detectObjectsOnFrame_def
    by (auto intro!: block_Thrown simp del: block.simps simp: whenever_def)
qed

text \<open>C35: Where WebGPU gives no device, a ready frame ends in an exception and no further frame is
  requested. As the page has no element \<open>wgpu-error\<close>, no message appears and the loading notice stays.\<close>

theorem no_device_stops:
  assumes "video_ready e" and "\<not> net_loaded p" and "gpu_answer e \<noteq> Device_ready"
  shows "fst (processFrame colors e p) = Thrown \<and> requested (snd (processFrame colors e p)) = requested p \<and>
    (wgpuError p = None \<longrightarrow> loadingContainer (snd (processFrame colors e p)) = loadingContainer p \<and>
      wgpuError (snd (processFrame colors e p)) = None)"
proof -
  let ?box = "run (\<lambda>p. let (targetWidth, targetHeight) = target_size (videoWidth e) (videoHeight e) in
       p\<lparr>letterbox := Some (offset targetWidth, offset targetHeight, targetWidth, targetHeight)\<rparr>)"
  obtain r q where m: "measure_fps (clock_now e) p = (r, q)" by (cases "measure_fps (clock_now e) p")
  have s: "status_of q = status_of p" by (rule measure_fps_status[OF m])
  have frame: "processFrame colors e p = block [measure_fps (clock_now e), ?box, detectObjectsOnFrame e,
      run (draw_detected e colors), run request_frame] p" using assms(1) by (simp add: processFrame_def)
  show ?thesis
  proof (cases r)
    case Thrown
    have "processFrame colors e p = (Thrown, q)" unfolding frame by (rule block_Thrown) (simp add: m Thrown)
    then show ?thesis using s by (simp add: status_of_def)
  next
    case Normal
    obtain tw th where tw: "target_size (videoWidth e) (videoHeight e) = (tw, th)" by fastforce
    define q1 where "q1 = q\<lparr>letterbox := Some (offset tw, offset th, tw, th)\<rparr>"
    have b: "?box q = (Normal, q1)" "status_of q1 = status_of q" by (simp_all add: run_def q1_def tw status_of_def)
    have "\<not> net_loaded q1" using b(2) s assms(2) by (simp add: status_of_def)
    from detect_without_device[OF this assms(3)] obtain q2 where d: "detectObjectsOnFrame e q1 = (Thrown, q2)"
      "requested q2 = requested q1" "wgpuError q1 = None \<or> gpu_answer e \<noteq> No_gpu \<longrightarrow>
        loadingContainer q2 = loadingContainer q1 \<and> wgpuError q2 = wgpuError q1" by (elim exE conjE)
    have "processFrame colors e p = (Thrown, q2)"
      unfolding frame block_step[of "measure_fps (clock_now e)" p q, OF m[unfolded Normal]] block_step[of ?box q q1, OF b(1)] by (rule block_Thrown, rule d(1))
    then show ?thesis using d(2,3) b(2) s by (simp add: status_of_def)
  qed
qed

definition black_frame :: frame_input where
  "black_frame = \<lparr>videoWidth = 640, videoHeight = 480, readyState = 4, clock_now = num 2, gpu_answer = No_gpu,
     load_succeeds = True, image_data = (\<lambda>_. []), run_net = (\<lambda>_. Some []), text_width = (\<lambda>_. 0)\<rparr>"

theorem no_device_stops_witness:
  "fst (processFrame [] black_frame idle_player) = Thrown \<and> requested (snd (processFrame [] black_frame idle_player)) = 0 \<and>
   loadingContainer (snd (processFrame [] black_frame idle_player)) = Some ''flex''"
  using no_device_stops[of black_frame idle_player "[]"] by (simp add: black_frame_def video_ready_def idle_player_def)

lemma requested_kept:
  "keeps (\<lambda>p. requested p = n) (measure_fps now)" "keeps (\<lambda>p. requested p = n) show_wgpu_error"
  "keeps (\<lambda>p. requested p = n) hide_loading" "keeps (\<lambda>p. requested p = n) (load_net e)"
  "keeps (\<lambda>p. requested p = n) (detectObjectsOnFrame e)"
proof -
  let ?P = "\<lambda>p. requested p = n"
  show "keeps ?P (measure_fps now)" by (rule measure_fps_keeps) simp
  show s: "keeps ?P show_wgpu_error" and h: "keeps ?P hide_loading"
    by (simp_all add: keeps_def show_wgpu_error_def hide_loading_def split: option.split)
  show l: "keeps ?P (load_net e)"
  proof (cases "getDevice (gpu_answer e)")
    case (Some d)
    have "keeps ?P (block [whenever (\<lambda>_. \<not> d) (block [show_wgpu_error, hide_loading]),
          attempt (\<lambda>p. if d \<and> load_succeeds e then Some (p\<lparr>net_loaded := True\<rparr>) else None), hide_loading])"
      by (intro keeps_block) (auto intro!: keeps_whenever keeps_and_then keeps_attempt keeps_run s h split: if_splits)
    then show ?thesis by (simp add: keeps_def load_net_def Some del: block.simps)
  qed (simp add: keeps_def load_net_def)
  show "keeps ?P (detectObjectsOnFrame e)"
    unfolding detectObjectsOnFrame_def by (intro keeps_block) (auto intro!: keeps_whenever keeps_attempt l)
qed

text \<open>The loop goes on exactly when nothing throws: a frame that completes requests one further frame,
  one that throws requests none.\<close>

theorem frame_requests:
  "requested (snd (processFrame colors e p)) =
    (if fst (processFrame colors e p) = Normal then Suc (requested p) else requested p)"
proof (cases "video_ready e")
  case True
  let ?fs = "[measure_fps (clock_now e),
     run (\<lambda>p. let (targetWidth, targetHeight) = target_size (videoWidth e) (videoHeight e) in
       p\<lparr>letterbox := Some (offset targetWidth, offset targetHeight, targetWidth, targetHeight)\<rparr>),
     detectObjectsOnFrame e, run (draw_detected e colors)]"
  obtain r q where q: "block ?fs p = (r, q)" by fastforce
  have "keeps (\<lambda>q. requested q = requested p) (block ?fs)"
    by (intro keeps_block) (auto intro!: requested_kept keeps_run
      simp: draw_detected_def drawBoxes_def Let_def split: prod.splits simp del: block.simps)
  from keepsD[OF this refl q] have "requested q = requested p" .
  moreover have "processFrame colors e p = and_then (block ?fs) (block [run request_frame]) p"
    using True by (simp only: processFrame_def if_True block_append[symmetric] append.simps)
  moreover have "block [run request_frame] t = (Normal, request_frame t)" for t by (simp add: and_then_def run_def)
  ultimately have "processFrame colors e p = (case r of Normal \<Rightarrow> (Normal, request_frame q) | Thrown \<Rightarrow> (Thrown, q))"
    by (simp only: and_then_def[of "block ?fs"] q prod.case)
  then show ?thesis using \<open>requested q = requested p\<close> by (cases r) (simp_all add: request_frame_def)
qed (simp add: processFrame_def request_frame_def)

section \<open>Boxes and colours\<close>

lemma valid_boxes_rows:
  assumes "length xs = 6 * n"
  shows "valid_boxes xs = concat (map (\<lambda>r. if 0 < xs ! (6 * r + 4)
    then [(xs ! (6 * r), xs ! (6 * r + 1), xs ! (6 * r + 2), xs ! (6 * r + 3), xs ! (6 * r + 5))] else []) [0..<n])"
proof -
  have "(length xs + 5) div 6 = n" using assms by simp
  then show ?thesis unfolding valid_boxes_def using assms
    by (intro arg_cong[of _ _ concat] map_cong) (auto simp: array_at_def Let_def)
qed

lemma length_concat_filter: "length (concat (map (\<lambda>r. if P r then [f r] else []) rs)) = length (filter P rs)"
  by (induction rs) simp_all

lemma draw_box_calls: "\<exists>a b c. calls (draw_box w colors ox oy sx sy bx k) = calls k @ [a, b, c]"
  by (cases bx) (simp add: draw_box_def Let_def)

lemma fold_draw_calls:
  "\<exists>ds. calls (fold (draw_box w colors ox oy sx sy) bs k) = calls k @ ds \<and> length ds = 3 * length bs"
proof (induction bs arbitrary: k)
  case (Cons b bs)
  obtain x y z where 1: "calls (draw_box w colors ox oy sx sy b k) = calls k @ [x, y, z]" using draw_box_calls by blast
  obtain ds where "calls (fold (draw_box w colors ox oy sx sy) bs (draw_box w colors ox oy sx sy b k)) =
      calls (draw_box w colors ox oy sx sy b k) @ ds" "length ds = 3 * length bs" using Cons by blast
  then show ?case using 1 by (intro exI[of _ "[x, y, z] @ ds"]) simp
qed simp

text \<open>Drawing clears the whole canvas first and then puts a frame, a label background and a label for
  every row of the output with a positive score, and nothing else.\<close>

theorem drawing_calls:
  assumes "length xs = 6 * n"
  shows "\<exists>ds. calls (canvas_ctx (drawBoxes w colors (valid_boxes xs) tw th ox oy p)) = calls (canvas_ctx p) @
      ClearRect 0 0 (num (canvas_width p)) (num (canvas_height p)) # ds \<and>
    length ds = 3 * length (filter (\<lambda>r. 0 < xs ! (6 * r + 4)) [0..<n])"
proof -
  have len: "length (valid_boxes xs) = length (filter (\<lambda>r. 0 < xs ! (6 * r + 4)) [0..<n])"
    unfolding valid_boxes_rows[OF assms] by (rule length_concat_filter)
  let ?k = "(canvas_ctx p)\<lparr>calls := calls (canvas_ctx p) @ [ClearRect 0 0 (num (canvas_width p)) (num (canvas_height p))],
    line_width := 3, font := ''30px serif''\<rparr>"
  obtain ds where "calls (fold (draw_box w colors ox oy (num (canvas_width p) / tw) (num (canvas_height p) / th)) (valid_boxes xs) ?k) =
      calls ?k @ ds" "length ds = 3 * length (valid_boxes xs)" using fold_draw_calls by blast
  then show ?thesis using len by (intro exI[of _ ds]) (simp add: drawBoxes_def Let_def)
qed

theorem drawing_calls_witness:
  "\<exists>ds. calls (canvas_ctx (drawBoxes (\<lambda>_. 0) [] (valid_boxes [0, 0, 1, 1, 1, 0, 0, 0, 1, 1, 0, 0]) (num 640) (num 480) 0 0 idle_player)) =
     ClearRect 0 0 (num 640) (num 480) # ds \<and> length ds = 3"
proof -
  have "filter (\<lambda>r. 0 < [0, 0, 1, 1, 1, 0, 0, 0, 1, 1, 0, 0 :: f64] ! (6 * r + 4)) [0..<2] = [0]"
    by (simp add: upt_rec less_fp_def one_fp_def zero_fp_def)
  then show ?thesis
    using drawing_calls[of "[0, 0, 1, 1, 1, 0, 0, 0, 1, 1, 0, 0]" 2 "\<lambda>_. 0" "[]" "num 640" "num 480" 0 0 idle_player]
    by (simp add: idle_player_def)
qed

text \<open>The loop over the hues ends and makes exactly as many colours as there are classes.\<close>

theorem class_colors: "\<exists>cs. classColors = Some cs \<and> length cs = length yolo_classes \<and> length yolo_classes = 59"
proof -
  have n: "length yolo_classes = 59" by (simp add: yolo_classes_def)
  show ?thesis using class_hues by (auto simp: classColors_def generateColors_def n)
qed

section \<open>Suppression\<close>

text \<open>C36: For predictions whose boxes have moderate coordinates the suppression ends; the boxes it keeps
  are a subsequence of its input, pairwise below the overlap bound, and each dropped box reaches the bound
  with a box kept.\<close>

theorem suppression:
  assumes "\<forall>b \<in> set boxes. moderate (px1 b) \<and> moderate (py1 b) \<and> moderate (px2 b) \<and> moderate (py2 b)"
  shows "\<exists>result. suppress boxes = Some result \<and> subseq result boxes \<and>
    sorted_wrt (\<lambda>a b. iou a b < lit (7 / 10)) result \<and>
    (\<forall>b \<in> set boxes. b \<in> set result \<or> (\<exists>a \<in> set result. \<not> iou a b < lit (7 / 10)))"
  using suppress_result[of boxes] self_overlap assms unfolding suppressed_to_def by blast

definition unit_box :: "int \<Rightarrow> prediction" where
  "unit_box n = \<lparr>px1 = Fin (of_int n), py1 = Fin (of_int n), px2 = Fin (of_int (n + 1)), py2 = Fin (of_int (n + 1)),
     plabel = ''Animal'', prob = 1\<rparr>"

lemma moderate_int: "\<bar>n\<bar> \<le> 2 ^ 53 \<Longrightarrow> moderate (Fin (of_int n))"
proof -
  assume n: "\<bar>n\<bar> \<le> 2 ^ 53"
  have "\<bar>of_int n :: rat\<bar> = of_int \<bar>n\<bar>" by simp
  also have "\<dots> \<le> of_int (2 ^ 53)" using n by (simp only: of_int_le_iff)
  also have "\<dots> \<le> pow2 400" using pow2_mono[of 53 400] by simp
  finally show ?thesis using is_fp_f64_of_int[OF n] by (simp add: moderate_def)
qed

theorem suppression_witness: "\<exists>result. suppress [unit_box 0, unit_box 2] = Some result \<and> subseq result [unit_box 0, unit_box 2]"
  using suppression[of "[unit_box 0, unit_box 2]"] moderate_int[of 0] moderate_int[of 1] moderate_int[of 2] moderate_int[of 3]
  by (auto simp: unit_box_def)

section \<open>Boxes with whole coordinates\<close>

definition box_at :: "string \<Rightarrow> f64 \<Rightarrow> int \<Rightarrow> int \<Rightarrow> int \<Rightarrow> int \<Rightarrow> prediction" where
  "box_at l p x1 y1 x2 y2 = \<lparr>px1 = Fin (of_int x1), py1 = Fin (of_int y1), px2 = Fin (of_int x2), py2 = Fin (of_int y2),
     plabel = l, prob = p\<rparr>"

lemma rnd_f64_int: "\<bar>n\<bar> \<le> 2 ^ 53 \<Longrightarrow> n \<noteq> 0 \<Longrightarrow> rnd s (of_int n) = (Fin (of_int n) :: f64)"
  using rnd_exact[OF is_fp_f64_of_int[of n], of s] by simp

lemma f64_int_minus: "\<bar>a - b\<bar> \<le> 2 ^ 53 \<Longrightarrow> a \<noteq> b \<Longrightarrow> (Fin (of_int a) - Fin (of_int b) :: f64) = Fin (of_int (a - b))"
  using rnd_f64_int[of "a - b"] rnd_f64_int[of a] by (simp add: minus_fp_def plus_fp_def uminus_fp_def)

lemma f64_int_plus: "\<bar>a + b\<bar> \<le> 2 ^ 53 \<Longrightarrow> a + b \<noteq> 0 \<Longrightarrow> (Fin (of_int a) + Fin (of_int b) :: f64) = Fin (of_int (a + b))"
  using rnd_f64_int[of "a + b"] by (simp add: plus_fp_def)

lemma f64_int_times: "\<bar>a * b\<bar> \<le> 2 ^ 53 \<Longrightarrow> a * b \<noteq> 0 \<Longrightarrow> (Fin (of_int a) * Fin (of_int b) :: f64) = Fin (of_int (a * b))"
  using rnd_f64_int[of "a * b"] by (simp add: times_fp_def)

lemma math_int: "math_max (Fin (of_int a)) (Fin (of_int b)) = Fin (of_int (max a b))"
  "math_min (Fin (of_int a)) (Fin (of_int b)) = Fin (of_int (min a b))"
  by (auto simp: math_max_def math_min_def less_fp_def max_def min_def)

lemma prod_bounds:
  fixes a b :: int
  assumes "0 < a" and "a \<le> 2 ^ 21" and "0 < b" and "b \<le> 2 ^ 21"
  shows "0 < a * b" and "a * b \<le> 2 ^ 42"
proof -
  have "a * b \<le> 2 ^ 21 * 2 ^ 21" using assms by (intro mult_mono) simp_all
  then show "a * b \<le> 2 ^ 42" by simp
qed (use assms in simp)

lemma box_area:
  assumes "a < b" and "c < d" and "\<bar>a\<bar> \<le> 2 ^ 20" "\<bar>b\<bar> \<le> 2 ^ 20" "\<bar>c\<bar> \<le> 2 ^ 20" "\<bar>d\<bar> \<le> 2 ^ 20"
  shows "(Fin (of_int b) - Fin (of_int a)) * (Fin (of_int d) - Fin (of_int c)) = (Fin (of_int ((b - a) * (d - c))) :: f64)"
    and "(Fin (of_int a) - Fin (of_int b)) * (Fin (of_int c) - Fin (of_int d)) = (Fin (of_int ((b - a) * (d - c))) :: f64)"
    and "0 < (b - a) * (d - c)" and "(b - a) * (d - c) \<le> 2 ^ 42"
proof -
  have l: "0 < b - a" "b - a \<le> 2 ^ 21" "0 < d - c" "d - c \<le> 2 ^ 21" using assms by simp_all
  note p = prod_bounds[OF l]
  show "0 < (b - a) * (d - c)" "(b - a) * (d - c) \<le> 2 ^ 42" by (rule p)+
  have m: "\<bar>(b - a) * (d - c)\<bar> \<le> 2 ^ 53" using p by simp
  have m0: "(b - a) * (d - c) \<noteq> 0" using p(1) by linarith
  have n: "(a - b) * (c - d) = (b - a) * (d - c)" by (simp add: algebra_simps)
  have s: "\<bar>b - a\<bar> \<le> 2 ^ 53" "\<bar>d - c\<bar> \<le> 2 ^ 53" "\<bar>a - b\<bar> \<le> 2 ^ 53" "\<bar>c - d\<bar> \<le> 2 ^ 53" "a \<noteq> b" "c \<noteq> d" using l by simp_all
  show "(Fin (of_int b) - Fin (of_int a)) * (Fin (of_int d) - Fin (of_int c)) = (Fin (of_int ((b - a) * (d - c))) :: f64)"
    unfolding f64_int_minus[OF s(1) s(5)[symmetric]] f64_int_minus[OF s(2) s(6)[symmetric]] by (rule f64_int_times[OF m m0])
  show "(Fin (of_int a) - Fin (of_int b)) * (Fin (of_int c) - Fin (of_int d)) = (Fin (of_int ((b - a) * (d - c))) :: f64)"
    unfolding f64_int_minus[OF s(3,5)] f64_int_minus[OF s(4,6)] using f64_int_times[of "a - b" "c - d"] m m0 unfolding n by simp
qed

lemma sum_bounds:
  fixes p q g :: int
  assumes "0 < p" and "p \<le> 2 ^ 42" and "0 < q" and "q \<le> 2 ^ 42" and "0 < g" and "g < p + q"
  shows "\<bar>p + q\<bar> \<le> 2 ^ 53 \<and> p + q \<noteq> 0 \<and> \<bar>p + q - g\<bar> \<le> 2 ^ 53 \<and> p + q \<noteq> g"
  using assms by simp

text \<open>The gap between two intervals, from \<open>a\<close> to \<open>b\<close> and from \<open>c\<close> to \<open>d\<close>; negative if they overlap.\<close>

definition gap :: "int \<Rightarrow> int \<Rightarrow> int \<Rightarrow> int \<Rightarrow> int" where
  "gap a b c d = max a c - min b d"

lemma gap_bounds:
  assumes "\<bar>a\<bar> \<le> (2::int) ^ 20" "\<bar>b\<bar> \<le> 2 ^ 20" "\<bar>c\<bar> \<le> 2 ^ 20" "\<bar>d\<bar> \<le> 2 ^ 20"
  shows "\<bar>max a c\<bar> \<le> 2 ^ 20" "\<bar>min b d\<bar> \<le> 2 ^ 20"
  using assms by (auto simp: max_def min_def)

text \<open>C37: Boxes that touch nowhere can suppress each other. For boxes with whole coordinates up to 2^20 that are apart
  in both directions the page takes the area between their nearest corners for their intersection, a positive
  number; and if it is less than the sum of the areas of the boxes but at least 7/17 of it, the overlap computed reaches
  0.7 and the second box is dropped.\<close>

theorem diagonal_boxes:
  assumes "list_all (\<lambda>n. \<bar>n\<bar> \<le> 2 ^ 20) [x1, y1, x2, y2, u1, v1, u2, v2]"
    and "x1 < x2" and "y1 < y2" and "u1 < u2" and "v1 < v2" and "0 < gap x1 x2 u1 u2" and "0 < gap y1 y2 v1 v2"
  defines "g \<equiv> gap x1 x2 u1 u2 * gap y1 y2 v1 v2" and "a \<equiv> (x2 - x1) * (y2 - y1) + (u2 - u1) * (v2 - v1)"
  shows "intersection (box_at l p x1 y1 x2 y2) (box_at m q u1 v1 u2 v2) = Fin (of_int g) \<and> 0 < g \<and>
    (g < a \<and> 7 * a \<le> 17 * g \<longrightarrow> suppress [box_at l p x1 y1 x2 y2, box_at m q u1 v1 u2 v2] = Some [box_at l p x1 y1 x2 y2])"
proof -
  let ?p = "box_at l p x1 y1 x2 y2" and ?q = "box_at m q u1 v1 u2 v2"
  have b: "\<bar>x1\<bar> \<le> 2 ^ 20" "\<bar>y1\<bar> \<le> 2 ^ 20" "\<bar>x2\<bar> \<le> 2 ^ 20" "\<bar>y2\<bar> \<le> 2 ^ 20"
    "\<bar>u1\<bar> \<le> 2 ^ 20" "\<bar>v1\<bar> \<le> 2 ^ 20" "\<bar>u2\<bar> \<le> 2 ^ 20" "\<bar>v2\<bar> \<le> 2 ^ 20"
    using assms(1) by simp_all
  have l: "min x2 u2 < max x1 u1" "min y2 v2 < max y1 v1" using assms(6,7) by (simp_all add: gap_def)
  note gx = gap_bounds[OF b(1,3,5,7)] and gy = gap_bounds[OF b(2,4,6,8)]
  note i = box_area(2-4)[OF l gx(2,1) gy(2,1)]
  note A = box_area(1,3,4)[OF assms(2,3) b(1,3,2,4)] and B = box_area(1,3,4)[OF assms(4,5) b(5,7,6,8)]
  have g: "g = (max x1 u1 - min x2 u2) * (max y1 v1 - min y2 v2)" by (simp add: g_def gap_def)
  have I: "intersection ?p ?q = Fin (of_int g)"
    unfolding intersection_def Let_def g by (simp only: box_at_def prediction.simps math_int i(1))
  have "suppress [?p, ?q] = Some [?p]" if o: "g < a" "7 * a \<le> 17 * g"
  proof -
    have s: "\<bar>a\<bar> \<le> 2 ^ 53" "a \<noteq> 0" "\<bar>a - g\<bar> \<le> 2 ^ 53" "a \<noteq> g" using sum_bounds[OF A(2,3) B(2,3) i(2)] o unfolding a_def g by blast+
    have "union_area ?p ?q = Fin (of_int (a - g))"
      unfolding union_area_def Let_def I using f64_int_plus[OF s(1,2)[unfolded a_def]] f64_int_minus[OF s(3,4)]
      by (simp only: box_at_def prediction.simps A(1) B(1) a_def)
    moreover have "0 < g" using i(2) by (simp add: g)
    ultimately have "iou ?p ?q = rnd False (of_int g / of_int (a - g))"
      using o(1) by (simp add: iou_def I divide_fp_def)
    moreover have "(7 / 10 :: rat) \<le> of_int g / of_int (a - g)"
    proof -
      have "7 * (a - g) \<le> 10 * g" using o(2) by simp
      then have "(7 :: rat) * of_int (a - g) \<le> 10 * of_int g" by (metis of_int_le_iff of_int_mult of_int_numeral)
      then show ?thesis using o(1) by (simp add: field_simps)
    qed
    then have "\<not> (rnd False (of_int g / of_int (a - g)) :: f64) < rnd False (7 / 10)" by (rule rnd_order)
    moreover have "(lit (7 / 10) :: f64) = rnd False (7 / 10)" by (simp add: lit_def)
    ultimately have "\<not> iou ?p ?q < lit (7 / 10)" by metis
    moreover have "\<not> apart ?p ?p" by (rule self_overlap) (use b in \<open>auto simp: box_at_def intro!: moderate_int\<close>)
    ultimately show ?thesis by (simp add: suppress_Cons)
  qed
  then show ?thesis using I i(2) by (simp add: g)
qed

theorem diagonal_boxes_witness:
  "intersection (box_at ''Grua'' 1 10 10 30 30) (box_at ''Casco'' (lit (1 / 2)) 50 50 70 70) = Fin 400 \<and>
   suppress [box_at ''Grua'' 1 10 10 30 30, box_at ''Casco'' (lit (1 / 2)) 50 50 70 70] = Some [box_at ''Grua'' 1 10 10 30 30]"
  using diagonal_boxes[of 10 10 30 30 50 50 70 70] by (simp add: gap_def)

end
