(* ===== verification/Pipeline.thy ===== *)
theory Pipeline
  imports Postprocess VideoTheorems
begin

text \<open>
  The detector and the video page together: what the rows of the output with a positive score are,
  and what the page draws from them.
\<close>

section \<open>Rows of the output\<close>

abbreviation shown_row :: "f32 list \<Rightarrow> nat \<Rightarrow> bool" where
  "shown_row out r \<equiv> 0 < out ! (6 * r + 4)"

lemma times_zero_not_pos: "is_fin a \<Longrightarrow> \<not> 0 < a * (0 :: f32)"
  by (cases "neg a") (simp_all add: times_zero_fp zero_of_def less_fp_def)

lemma top_row_at: "c < 6 \<Longrightarrow> top_row cand \<pi> (6 * r + c) = 0 + cand (6 * \<pi> r + c)"
  by (simp add: top_row_def)

lemma top_format:
  assumes "ready D"
  shows "is_fp (top_row (anchor_rows D) \<pi> j)" and "is_fin (top_row (anchor_rows D) \<pi> j)"
  using anchor_rows_format[OF assms, of "6 * \<pi> (j div 6) + j mod 6"] by (simp_all add: top_row_def zero_plus_fp)

lemma shown_not_suppressed:
  assumes "ready D" and "r < 300" and "shown_row (detections (anchor_rows D) \<pi>) r"
  shows "\<not> suppressed (top_row (anchor_rows D) \<pi>) r"
    and "c < 6 \<Longrightarrow> detections (anchor_rows D) \<pi> ! (6 * r + c) = top_row (anchor_rows D) \<pi> (6 * r + c)"
proof -
  let ?top = "top_row (anchor_rows D) \<pi>"
  have at: "detections (anchor_rows D) \<pi> ! (6 * r + c) = ?top (6 * r + c) * (if suppressed ?top r then 0 else 1)"
    if "c < 6" for c using assms(2) that by (simp add: detections_def)
  show ns: "\<not> suppressed ?top r"
  proof
    assume "suppressed ?top r"
    then have "0 < ?top (6 * r + 4) * 0" using assms(3) at[of 4] by simp
    then show False using times_zero_not_pos[OF top_format(2)[OF assms(1)]] by blast
  qed
  show "c < 6 \<Longrightarrow> detections (anchor_rows D) \<pi> ! (6 * r + c) = ?top (6 * r + c)"
    using at[of c] ns times_one_fp[OF top_format(1)[OF assms(1)]] by simp
qed

lemma top_columns:
  assumes "ready D"
  defines "s \<equiv> elem (fmem D (Buf 331))"
  shows "top_row (anchor_rows D) \<pi> (6 * r + 4) = conf s (\<pi> r)"
    and "top_row (anchor_rows D) \<pi> (6 * r + 5) = Fin (of_nat (best_class s (\<pi> r)))"
proof -
  have fin: "finite_cells (fmem D (Buf 331))" using assms(1) by (simp add: ready_def)
  have i: "(6 * \<pi> r + 4) mod 6 = 4" "(6 * \<pi> r + 5) mod 6 = 5" "(6 * \<pi> r + 4) div 6 = \<pi> r" "(6 * \<pi> r + 5) div 6 = \<pi> r"
    by simp_all
  have "anchor_rows D (6 * \<pi> r + 4) = conf s (\<pi> r)" "anchor_rows D (6 * \<pi> r + 5) = Fin (of_nat (best_class s (\<pi> r)))"
    by (simp_all only: anchor_rows_def candidate_def row_of_def i s_def) simp_all
  moreover have "conf s (\<pi> r) \<noteq> NZero" using conf_plain[of s "\<pi> r"] by (simp add: plain_def)
  ultimately show "top_row (anchor_rows D) \<pi> (6 * r + 4) = conf s (\<pi> r)"
    and "top_row (anchor_rows D) \<pi> (6 * r + 5) = Fin (of_nat (best_class s (\<pi> r)))"
    using conf_format(1)[OF fin] class_format by (simp_all add: top_row_at zero_plus_fp s_def)
qed

lemma best_class_less:
  assumes "ready D"
  shows "best_class (elem (fmem D (Buf 331))) j < 59"
proof (rule best_class_exists)
  fix m :: nat
  show "is_fin (class_score (elem (fmem D (Buf 331))) j m)"
    unfolding class_score_def using finite_cells_elem assms by (simp add: ready_def)
qed

lemma length_detections [simp]: "length (detections cand \<pi>) = 1800"
  by (simp add: detections_def)

section \<open>A device to compute with\<close>

definition blank_device :: device where
  "blank_device = \<lparr>fmem = (\<lambda>b. replicate (case map_of empty_bufs b of None \<Rightarrow> 0 | Some n \<Rightarrow> n div 4) 0),
     imem = (\<lambda>b. replicate (case map_of empty_bufs b of None \<Rightarrow> 0 | Some n \<Rightarrow> n div 4) 0)
       (Buf 10 := map (\<lambda>j. 59 - of_nat j) [0..<59], Buf 11 := map of_nat [0..<8400])\<rparr>"

text \<open>Anchor 7 is of class 1 and anchor 9 of class 2 with certainty, all other probabilities are zero.\<close>

definition scored_device :: device where
  "scored_device = blank_device\<lparr>fmem := (fmem blank_device)(Buf 331 := (replicate 495600 0)[8407 := 1, 16809 := 1])\<rparr>"

lemma finite_cells_update: "finite_cells xs \<Longrightarrow> is_fp x \<Longrightarrow> is_fin x \<Longrightarrow> finite_cells (xs[i := x])"
  using set_update_subset_insert[of xs i x] by (auto simp: finite_cells_def list_all_iff)

lemma scored_device_ready: "ready scored_device"
proof -
  have "sized scored_device" by (simp add: sized_def scored_device_def blank_device_def empty_bufs_def)
  moreover have "is_fp (1 :: f32)" using is_fp_f32_of_int[of 1] by (simp add: one_fp_def)
  then have "finite_cells ((replicate 495600 0)[8407 := 1, 16809 := 1])"
    by (intro finite_cells_update) (simp_all add: finite_cells_def list_all_iff one_fp_def)
  ultimately show ?thesis
    by (simp add: ready_def scored_device_def blank_device_def empty_bufs_def finite_cells_def list_all_iff)
qed

abbreviation scored_cells :: "nat \<Rightarrow> f32" where
  "scored_cells \<equiv> elem (fmem scored_device (Buf 331))"

lemma elem_two_updates: "k < n \<Longrightarrow> elem ((replicate n x)[a := y, b := z]) k = (if k = b then z else if k = a then y else x)"
  by (simp add: elem_nth nth_list_update)

lemma cell_index:
  fixes j n k m l :: nat
  assumes "j < n" and "k < n"
  shows "j + n * m = k + n * l \<longleftrightarrow> j = k \<and> m = l"
proof
  assume eq: "j + n * m = k + n * l"
  from arg_cong[OF eq, of "\<lambda>x. x mod n"] arg_cong[OF eq, of "\<lambda>x. x div n"] show "j = k \<and> m = l"
    using assms by simp
qed simp

lemma scored_class_score:
  assumes "j < 8400" and "m < 59"
  shows "class_score scored_cells j m = (if j = 7 \<and> m = 1 \<or> j = 9 \<and> m = 2 then 1 else 0)"
proof -
  have "j + 8400 * m = 8407 \<longleftrightarrow> j = 7 \<and> m = 1" "j + 8400 * m = 16809 \<longleftrightarrow> j = 9 \<and> m = 2" "j + 8400 * m < 495600"
    using cell_index[of j 8400 7 m 1] cell_index[of j 8400 9 m 2] assms by simp_all
  moreover have "fmem scored_device (Buf 331) = (replicate 495600 0)[8407 := 1, 16809 := 1]"
    by (simp add: scored_device_def)
  ultimately show ?thesis unfolding class_score_def by (simp only: elem_two_updates) auto
qed

lemma scored_conf:
  assumes "j < 8400"
  shows "max_score scored_cells j = (if j = 7 \<or> j = 9 then 1 else 0)"
    and "conf scored_cells j = (if j = 7 \<or> j = 9 then 1 else 0)"
proof -
  note c = scored_class_score[OF assms]
  have "is_fin (class_score scored_cells j m)" if "m < 59" for m using c[OF that] by (simp add: one_fp_def zero_fp_def)
  then obtain m where m: "m < 59" "max_score scored_cells j = class_score scored_cells j m"
    using max_score_attained by blast
  show x: "max_score scored_cells j = (if j = 7 \<or> j = 9 then 1 else 0)"
  proof (cases "j = 7 \<or> j = 9")
    case True
    then have "class_score scored_cells j 1 = 1 \<or> class_score scored_cells j 2 = 1" using c[of 1] c[of 2] by auto
    then obtain k :: nat where "k < 59" "class_score scored_cells j k = 1" 
      by (elim disjE) (rule that[of 1], simp, assumption, rule that[of 2], simp, assumption)
    then have "1 \<le> class_score scored_cells j m"
      using max_score_ge[of k scored_cells j] m(2) by (simp add: one_fp_def)
    then show ?thesis using True m c[OF m(1)] by (auto simp: one_fp_def zero_fp_def less_eq_fp_def split: if_splits)
  qed (use m c in auto)
  show "conf scored_cells j = (if j = 7 \<or> j = 9 then 1 else 0)"
    by (simp add: conf_def x confident_def select_def lit_quarter less_fp_def one_fp_def zero_fp_def)
qed

lemma scored_best: "j = 7 \<or> j = 9 \<Longrightarrow> class_score scored_cells j (best_class scored_cells j) = 1"
proof -
  assume j: "j = 7 \<or> j = 9"
  have m: "best_class scored_cells j < 59" by (rule best_class_less[OF scored_device_ready])
  have "feq (class_score scored_cells j (best_class scored_cells j)) 1" using best_class_first(1)[OF m] scored_conf(1)[of j] j by auto
  then show ?thesis using scored_class_score[OF _ m, of j] j by (auto simp: one_fp_def zero_fp_def feq_def split: if_splits)
qed

lemma scored_classes: "best_class scored_cells 7 = 1" "best_class scored_cells 9 = 2"
proof -
  have ne: "(0 :: f32) \<noteq> 1" by (simp add: one_fp_def zero_fp_def)
  have m: "best_class scored_cells j < 59" for j by (rule best_class_less[OF scored_device_ready])
  show "best_class scored_cells 7 = 1" by (rule ccontr) (use scored_best[of 7] scored_class_score[OF _ m, of 7 7] ne in simp)
  show "best_class scored_cells 9 = 2" by (rule ccontr) (use scored_best[of 9] scored_class_score[OF _ m, of 9 9] ne in simp)
qed

text \<open>Its two best anchors are 7 and 9.\<close>

lemma scored_before:
  assumes "i < 8400"
  shows "\<not> before (conf scored_cells) i 7" and "before (conf scored_cells) i 9 \<longleftrightarrow> i = 7"
proof -
  have "conf scored_cells 7 = 1" "conf scored_cells 9 = 1" by (simp_all add: scored_conf)
  then show "\<not> before (conf scored_cells) i 7" and "before (conf scored_cells) i 9 \<longleftrightarrow> i = 7"
    unfolding before_def scored_conf(2)[OF assms] by (auto simp: less_fp_def one_fp_def zero_fp_def)
qed

lemma scored_ranking:
  assumes "ranking (conf scored_cells) 8400 \<pi>"
  shows "\<pi> 0 = 7" and "\<pi> 1 = 9"
proof -
  have "{i. i < 8400 \<and> before (conf scored_cells) i 7} = {}" using scored_before(1) by blast
  moreover have "{i. i < 8400 \<and> before (conf scored_cells) i 9} = {7}"
    by (rule set_eqI) (use scored_before(2) in auto)
  ultimately have c: "card {i. i < 8400 \<and> before (conf scored_cells) i 7} = 0" "card {i. i < 8400 \<and> before (conf scored_cells) i 9} = 1"
    by simp_all
  have img: "\<pi> ` {..<8400} = {..<8400}" using assms by (simp add: ranking_def bij_betw_def)
  have "7 \<in> \<pi> ` {..<8400}" "9 \<in> \<pi> ` {..<8400}" unfolding img by simp_all
  then obtain q p where "q < 8400" "\<pi> q = 7" "p < 8400" "\<pi> p = 9" by (elim imageE) (simp add: lessThan_iff)
  then show "\<pi> 0 = 7" and "\<pi> 1 = 9"
    using ranking_position[OF assms, of q] ranking_position[OF assms, of p] c by simp_all
qed

section \<open>Properties of the detections\<close>

text \<open>C38: Two rows of the output with positive scores do not overlap: for the later row and the same
  class the quotient of intersection and union is not above 0.45.\<close>

theorem detections_apart:
  assumes "runs post_passes D D'" and "ready D" and "q < r" and "r < 300"
    and "shown_row (fmem D' Output) r" and "shown_row (fmem D' Output) q"
  shows "\<not> overlaps (elem (fmem D' Output)) (box_area (elem (fmem D' Output))) r q"
proof -
  obtain \<pi> where out: "fmem D' Output = detections (anchor_rows D) \<pi>" using post_passes_result[OF assms(1,2)] by blast
  let ?top = "top_row (anchor_rows D) \<pi>" and ?out = "elem (detections (anchor_rows D) \<pi>)"
  have q: "q < 300" using assms(3,4) by simp
  have eq: "?out (6 * r + c) = ?top (6 * r + c)" "?out (6 * q + c) = ?top (6 * q + c)" if "c < 6" for c
    using shown_not_suppressed(2)[OF assms(2,4) assms(5)[unfolded out] that]
      shown_not_suppressed(2)[OF assms(2) q assms(6)[unfolded out] that] that assms(4) q by (simp_all add: elem_nth)
  have "\<not> overlaps ?top (box_area ?top) r q"
    using shown_not_suppressed(1)[OF assms(2,4) assms(5)[unfolded out]] assms(3) by (auto simp: suppressed_def)
  moreover have "overlaps ?out (box_area ?out) r q = overlaps ?top (box_area ?top) r q"
    using eq[of 0] eq[of 1] eq[of 2] eq[of 3] eq[of 5] by (simp add: overlaps_def box_iou_def box_area_def)
  ultimately show ?thesis unfolding out by simp
qed

lemma scored_output:
  assumes "runs post_passes scored_device D'"
  shows "shown_row (fmem D' Output) 0" and "shown_row (fmem D' Output) 1"
proof -
  obtain \<pi> where \<pi>: "ranking (conf scored_cells) 8400 \<pi>" "fmem D' Output = detections (anchor_rows scored_device) \<pi>"
    using post_passes_result[OF assms scored_device_ready] by blast
  let ?top = "top_row (anchor_rows scored_device) \<pi>"
  note top = top_columns[OF scored_device_ready, of \<pi>] and at = scored_ranking[OF \<pi>(1)]
  have "conf scored_cells 7 = 1" "conf scored_cells 9 = 1" by (simp_all add: scored_conf)
  then have score: "?top 4 = 1" "?top 10 = 1" using top(1)[of 0] top(1)[of 1] at by simp_all
  have cls: "?top 5 = Fin 1" "?top 11 = Fin 2" using top(2)[of 0] top(2)[of 1] at scored_classes by simp_all
  have ns: "\<not> suppressed ?top 0" "\<not> suppressed ?top 1"
    by (simp_all add: suppressed_def overlaps_def cls feq_def)
  have one: "1 * 1 = (1 :: f32)" using is_fp_f32_of_int[of 1] by (simp add: one_fp_def times_one_fp[unfolded one_fp_def])
  have "detections (anchor_rows scored_device) \<pi> ! 4 = 1" "detections (anchor_rows scored_device) \<pi> ! 10 = 1"
    using ns by (simp_all add: detections_def score one)
  then show "shown_row (fmem D' Output) 0" and "shown_row (fmem D' Output) 1"
    unfolding \<pi>(2) by (simp_all add: less_fp_def one_fp_def zero_fp_def)
qed

theorem detections_apart_witness:
  "\<exists>D'. runs post_passes scored_device D' \<and> shown_row (fmem D' Output) 0 \<and> shown_row (fmem D' Output) 1 \<and>
     \<not> overlaps (elem (fmem D' Output)) (box_area (elem (fmem D' Output))) 1 0"
proof -
  obtain D' where D': "runs post_passes scored_device D'" using runs_total by blast
  from detections_apart[OF D' scored_device_ready _ _ scored_output(2,1)[OF D']] scored_output[OF D'] D' show ?thesis by auto
qed

lemma ranking_descending: "ranking key n \<pi> \<Longrightarrow> q < r \<Longrightarrow> r < n \<Longrightarrow> key (\<pi> r) < key (\<pi> q) \<or> key (\<pi> q) = key (\<pi> r)"
  unfolding ranking_def by blast

text \<open>C39: The rows of the output with positive scores have at least the confidence 0.25, and of two of them
  the earlier has the higher score or the same.\<close>

theorem detections_confident:
  assumes "runs post_passes D D'" and "ready D" and "q \<le> r" and "r < 300"
    and "shown_row (fmem D' Output) r" and "shown_row (fmem D' Output) q"
  shows "lit (1 / 4) \<le> fmem D' Output ! (6 * r + 4) \<and> fmem D' Output ! (6 * r + 4) \<le> fmem D' Output ! (6 * q + 4)"
proof -
  let ?s = "elem (fmem D (Buf 331))"
  obtain \<pi> where \<pi>: "ranking (conf ?s) 8400 \<pi>" and out: "fmem D' Output = detections (anchor_rows D) \<pi>"
    using post_passes_result[OF assms(1,2)] by blast
  have q: "q < 300" using assms(3,4) by simp
  have score: "fmem D' Output ! (6 * r + 4) = conf ?s (\<pi> r)" "fmem D' Output ! (6 * q + 4) = conf ?s (\<pi> q)"
    using shown_not_suppressed(2)[OF assms(2,4) assms(5)[unfolded out], of 4]
      shown_not_suppressed(2)[OF assms(2) q assms(6)[unfolded out], of 4]
    by (simp_all add: out top_columns(1)[OF assms(2)])
  have "conf ?s (\<pi> r) \<noteq> 0" using assms(5) score(1) by (auto simp: less_fp_def zero_fp_def)
  then have "lit (1 / 4) \<le> conf ?s (\<pi> r)"
    using confident_cases[OF max_score_not_nan[of ?s "\<pi> r"]] by (auto simp: conf_def)
  moreover have "conf ?s (\<pi> r) \<le> conf ?s (\<pi> q)"
  proof (cases "q = r")
    case False
    then have "conf ?s (\<pi> r) < conf ?s (\<pi> q) \<or> conf ?s (\<pi> q) = conf ?s (\<pi> r)"
      using ranking_descending[OF \<pi>, of q r] assms(3,4) by simp
    then show ?thesis using conf_plain[of ?s "\<pi> r"] by (auto simp: less_eq_fp_def less_fp_def plain_def)
  qed (use conf_plain[of ?s "\<pi> r"] in \<open>auto simp: less_eq_fp_def plain_def\<close>)
  ultimately show ?thesis unfolding score by blast
qed

theorem detections_confident_witness:
  "\<exists>D'. runs post_passes scored_device D' \<and> lit (1 / 4) \<le> fmem D' Output ! 10 \<and> fmem D' Output ! 10 \<le> fmem D' Output ! 4"
proof -
  obtain D' where D': "runs post_passes scored_device D'" using runs_total by blast
  from detections_confident[OF D' scored_device_ready _ _ scored_output(2,1)[OF D']] D' show ?thesis by auto
qed

section \<open>What the page draws from the detections\<close>

lemma widen_pos: "0 < widen x \<longleftrightarrow> 0 < x"
  by (cases x) (simp_all add: less_fp_def zero_fp_def)

lemma lookup_nat: "k < length xs \<Longrightarrow> lookup xs (Fin (of_nat k)) = Some (xs ! k)"
  by (simp add: lookup_def)

lemma valid_box_row:
  assumes "length xs = 6 * n"
  shows "b \<in> set (valid_boxes (map widen xs)) \<longleftrightarrow> (\<exists>r<n. 0 < xs ! (6 * r + 4) \<and> b = (widen (xs ! (6 * r)),
    widen (xs ! (6 * r + 1)), widen (xs ! (6 * r + 2)), widen (xs ! (6 * r + 3)), widen (xs ! (6 * r + 5))))"
proof -
  have "valid_boxes (map widen xs) = concat (map (\<lambda>r. if 0 < map widen xs ! (6 * r + 4) then [(map widen xs ! (6 * r),
      map widen xs ! (6 * r + 1), map widen xs ! (6 * r + 2), map widen xs ! (6 * r + 3), map widen xs ! (6 * r + 5))] else []) [0..<n])"
    by (rule valid_boxes_rows) (simp add: assms)
  also have "\<dots> = concat (map (\<lambda>r. if 0 < xs ! (6 * r + 4) then [(widen (xs ! (6 * r)), widen (xs ! (6 * r + 1)),
      widen (xs ! (6 * r + 2)), widen (xs ! (6 * r + 3)), widen (xs ! (6 * r + 5)))] else []) [0..<n])"
    by (intro arg_cong[of _ _ concat] map_cong) (simp_all add: assms widen_pos)
  finally show ?thesis by (auto split: if_splits)
qed

text \<open>C40: Every box the page draws from the output of the network has a class of the page's list: its
  fifth component is the number of the name that is written beside it.\<close>

theorem drawn_boxes_labelled:
  assumes "runs post_passes D D'" and "ready D"
    and "(x1, y1, x2, y2, c) \<in> set (valid_boxes (map widen (fmem D' Output)))"
  shows "\<exists>k<59. c = num k \<and> lookup yolo_classes c = Some (yolo_classes ! k)"
proof -
  let ?s = "elem (fmem D (Buf 331))"
  obtain \<pi> where out: "fmem D' Output = detections (anchor_rows D) \<pi>" using post_passes_result[OF assms(1,2)] by blast
  obtain r where r: "r < 300" "0 < fmem D' Output ! (6 * r + 4)" "c = widen (fmem D' Output ! (6 * r + 5))"
    using assms(3) valid_box_row[of "fmem D' Output" 300] by (auto simp: out)
  have "fmem D' Output ! (6 * r + 5) = Fin (of_nat (best_class ?s (\<pi> r)))"
    using shown_not_suppressed(2)[OF assms(2) r(1) r(2)[unfolded out], of 5] by (simp add: out top_columns(2)[OF assms(2)])
  then have c: "c = num (best_class ?s (\<pi> r))" by (simp add: r(3) num_def)
  have k: "best_class ?s (\<pi> r) < 59" by (rule best_class_less[OF assms(2)])
  moreover have "length yolo_classes = 59" by (simp add: yolo_classes_def)
  ultimately show ?thesis using c lookup_nat[of "best_class ?s (\<pi> r)" yolo_classes] by (auto simp: num_def)
qed

theorem drawn_boxes_labelled_witness:
  "\<exists>D' b. runs post_passes scored_device D' \<and> b \<in> set (valid_boxes (map widen (fmem D' Output))) \<and>
     (\<exists>k<59. snd (snd (snd (snd b))) = num k)"
proof -
  obtain D' where D': "runs post_passes scored_device D'" using runs_total by blast
  obtain \<pi> where out: "fmem D' Output = detections (anchor_rows scored_device) \<pi>"
    using post_passes_result[OF D' scored_device_ready] by blast
  have "length (fmem D' Output) = 6 * 300" by (simp add: out)
  from valid_box_row[OF this] scored_output(1)[OF D']
  obtain x1 y1 x2 y2 c where b: "(x1, y1, x2, y2, c) \<in> set (valid_boxes (map widen (fmem D' Output)))" by fastforce
  from drawn_boxes_labelled[OF D' scored_device_ready b] b D' show ?thesis by force
qed

end
