(* ===== verification/Inference.thy ===== *)
theory Inference
  imports Network Pipeline
begin

text \<open>
  An inference as a whole: the passes of \<open>Network\<close> on the buffers of \<open>setupNet\<close>
  (\<open>server/cherum/static/net.js\<close>), from the heads to the rows of the output, with the bounds on
  every intermediate value that make the post-processing's assumptions true.
\<close>

section \<open>The exponential of the GPU\<close>

text \<open>
  What WGSL guarantees of \<open>exp2\<close>, in a weak form: finite arguments up to 96 give finite numbers
  that are not negative, arguments that are not positive give at most 2, and zero gives at least 1/2.
\<close>

definition exp_like :: "(f32 \<Rightarrow> f32) \<Rightarrow> bool" where
  "exp_like exp2 \<longleftrightarrow> (\<forall>x. is_fp x \<and> is_fin x \<and> val x \<le> 96 \<longrightarrow> is_fp (exp2 x) \<and> is_fin (exp2 x) \<and> 0 \<le> val (exp2 x)) \<and>
     (\<forall>x. is_fp x \<and> is_fin x \<and> val x \<le> 0 \<longrightarrow> val (exp2 x) \<le> 2) \<and> 1 / 2 \<le> val (exp2 0)"

lemma exp_finite: "exp_like exp2 \<Longrightarrow> is_fp x \<Longrightarrow> is_fin x \<Longrightarrow> val x \<le> 96 \<Longrightarrow> is_fp (exp2 x) \<and> is_fin (exp2 x) \<and> 0 \<le> val (exp2 x)"
  by (simp add: exp_like_def)

lemma exp_between: "exp_like exp2 \<Longrightarrow> is_fp x \<Longrightarrow> is_fin x \<Longrightarrow> val x \<le> 0 \<Longrightarrow> between 0 2 (exp2 x)"
  by (simp add: exp_like_def between_def)

lemma three_halves: "is_fp (Fin (3 / 2) :: f32)"
  using is_fp_centre[of 1] by (simp add: centre_def)

lemma half_fp: "is_fp (Fin (1 / 2) :: f32)"
  using is_fp_centre[of 0] by (simp add: centre_def)

lemma lit_half: "lit (1 / 2) = (Fin (1 / 2) :: f32)"
  by (rule lit_exact[OF half_fp])

lemma val_within: "Fin a \<le> x \<Longrightarrow> x \<le> Fin b \<Longrightarrow> is_fin x \<and> a \<le> val x \<and> val x \<le> b" for x :: f32
  by (cases x) (auto simp: less_eq_fp_def)

lemma log2_e_bounds: "is_fp log2_e" "is_fin log2_e" "1 \<le> val log2_e" "val log2_e \<le> 3 / 2"
proof -
  have one: "is_fp (Fin 1 :: f32)" using is_fp_f32_of_int[of 1] by simp
  have lo: "Fin 1 \<le> log2_e" unfolding log2_e_def lit_def by (rule rnd_ge_exact[OF _ one]) simp
  have hi: "log2_e \<le> Fin (3 / 2)" unfolding log2_e_def lit_def by (rule rnd_le_exact[OF _ three_halves]) simp
  show "is_fin log2_e" "1 \<le> val log2_e" "val log2_e \<le> 3 / 2" using val_within[OF lo hi] by blast+
  show "is_fp log2_e" unfolding log2_e_def by (rule is_fp_lit)
qed

section \<open>Class probabilities\<close>

lemma sigmoid_bounds:
  assumes "exp_like exp2" and "between (- 64) 64 x"
  shows "between 0 1 (sigmoid exp2 x)"
proof -
  note x = betweenD[OF assms(2)] and c = log2_e_bounds
  let ?y = "x * - log2_e"
  have "\<bar>val x * - val log2_e\<bar> \<le> 64 * (3 / 2)"
    using x(3,4) c(3,4) by (simp only: abs_mult abs_minus_cancel) (intro mult_mono; simp)
  then have y: "- 96 \<le> val x * - val log2_e" "val x * - val log2_e \<le> 96" by linarith+
  have "?y = rnd (neg x \<noteq> neg (- log2_e)) (val x * - val log2_e)"
    using times_rnd[of x "- log2_e"] x(2) c(2) by (cases log2_e) (simp_all add: is_fin_def)
  then have "between (- 96) 96 ?y" using between_rnd[of "- 96" "val x * - val log2_e" 96] y by simp
  then have e: "is_fp (exp2 ?y)" "is_fin (exp2 ?y)" "0 \<le> val (exp2 ?y)"
    using exp_finite[OF assms(1), of ?y] betweenD[of "- 96" 96 ?y] by simp_all
  have one: "is_fp (1 :: f32)" "is_fin (1 :: f32)" "val (1 :: f32) = 1" "(1 :: f32) \<noteq> NZero"
    using is_fp_f32_of_int[of 1] by (simp_all add: one_fp_def)
  define s where "s = 1 + exp2 ?y"
  have "s = rnd (1 + val (exp2 ?y) < 0) (1 + val (exp2 ?y))"
    using plus_rnd[OF one(2) e(2)] one(3,4) by (simp add: s_def)
  moreover have "is_fp (Fin 1 :: f32)" using one(1) by (simp add: one_fp_def)
  ultimately have "Fin 1 \<le> s" using rnd_ge_exact[of 1 "1 + val (exp2 ?y)", where 'p = 24 and 'w = 8] e(3) by simp
  then have "s = PInf \<or> (\<exists>v. s = Fin v \<and> 1 \<le> v)" by (cases s) (auto simp: less_eq_fp_def)
  then have "between 0 1 (1 / s)"
  proof
    assume "\<exists>v. s = Fin v \<and> 1 \<le> v"
    then obtain v where v: "s = Fin v" "1 \<le> v" by blast
    then have "1 / s = rnd False (1 / v)" by (simp add: divide_fp_def one_fp_def)
    then show ?thesis using between_rnd[of 0 "1 / v" 1] v(2) by simp
  next
    assume "s = PInf"
    then have "1 / s = zero_of False" by (simp add: divide_fp_def one_fp_def)
    then show ?thesis by (simp add: between_def)
  qed
  then show ?thesis by (simp add: sigmoid_def s_def)
qed

section \<open>Distances of the sides\<close>

lemma bin_max_running: "bin_max x = fold (running_max x) [1..<16] (x 0)"
  by (simp add: bin_max_def larger_def)

lemma bin_max_bounds:
  assumes "\<And>k. k < 16 \<Longrightarrow> is_fin (x k)"
  shows "\<exists>k<16. bin_max x = x k" and "k < 16 \<Longrightarrow> x k \<le> bin_max x"
proof -
  have nan: "\<not> is_nan (x k)" if "k < 16" for k using assms[OF that] by (simp add: is_fin_def)
  show "\<exists>k<16. bin_max x = x k"
    using fold_max_in[of x "[1..<16]" "x 0"] unfolding bin_max_running
    by (elim disjE) (rule exI[of _ 0], simp, auto)
  have "x 0 \<le> bin_max x" "\<forall>k \<in> {1..<16}. x k \<le> bin_max x"
    using fold_max_ge[OF nan[of 0], of x "[1..<16]"] nan unfolding bin_max_running by auto
  then show "k < 16 \<Longrightarrow> x k \<le> bin_max x" by (cases k) auto
qed

lemma difference_bounds:
  assumes "between (- 64) 64 a" and "between (- 64) 64 b" and "a \<le> b"
  shows "between (- 128) 0 (a - b)"
proof (cases "a = NZero \<and> - b = NZero")
  case True
  then show ?thesis by (simp add: minus_fp_def plus_fp_def between_def)
next
  case False
  note a = betweenD[OF assms(1)] and b = betweenD[OF assms(2)]
  have "val a \<le> val b" using assms(3) a(2) b(2) by (cases a; cases b) (auto simp: less_eq_fp_def)
  moreover have "a - b = rnd (val a + val (- b) < 0) (val a + val (- b))"
    unfolding minus_fp_def using plus_rnd[of a "- b"] False a(2) b(2) by (simp add: is_fin_def)
  ultimately show ?thesis using a(3,4) b(3,4) between_rnd[of "- 128" "val a + val (- b)" 0] by simp
qed

lemma self_difference: "is_fin a \<Longrightarrow> a - a = (0 :: f32)"
  by (cases a) (auto simp: minus_fp_def plus_fp_def zero_fp_def zero_of_def)

lemma bin_exp_between:
  assumes "exp_like exp2" and "between (- 64) 64 x" and "between (- 64) 64 m" and "x \<le> m"
  shows "between 0 2 (bin_exp exp2 m x)"
proof -
  note d = betweenD[OF difference_bounds[OF assms(2-4)]] and c = log2_e_bounds
  have "\<bar>val (x - m) * val log2_e\<bar> \<le> 128 * (3 / 2)"
    using d(3,4) c(3,4) unfolding abs_mult by (intro mult_mono) simp_all
  moreover have "val (x - m) * val log2_e \<le> 0" using d(4) c(3) by (intro mult_nonpos_nonneg) simp_all
  ultimately have "between (- 192) 0 ((x - m) * log2_e)"
    using times_rnd[OF d(2) c(2)] between_rnd[of "- 192" "val (x - m) * val log2_e" 0] by simp
  from betweenD[OF this] show ?thesis unfolding bin_exp_def using exp_between[OF assms(1)] by simp
qed

lemma bin_exp_self: "exp_like exp2 \<Longrightarrow> is_fin m \<Longrightarrow> 1 / 2 \<le> val (bin_exp exp2 m m)"
proof -
  assume e: "exp_like exp2" and m: "is_fin m"
  have "\<not> neg x" if "is_fin x" "1 \<le> val x" for x :: f32 using that by (cases x) simp_all
  then have "\<not> neg log2_e" using log2_e_bounds by blast
  then have "0 * log2_e = (0 :: f32)" using times_rnd[of 0 log2_e] log2_e_bounds(2) by (simp add: zero_fp_def zero_of_def)
  then show ?thesis using e by (simp add: bin_exp_def self_difference[OF m] exp_like_def)
qed

text \<open>A sum of numbers that are not negative is at least a half if one of them is.\<close>

lemma half_plus:
  assumes "between 0 u a" and "between 0 v b" and "1 / 2 \<le> val a \<or> 1 / 2 \<le> val b"
  shows "1 / 2 \<le> val (a + b) \<or> \<not> is_fin (a + b)"
proof -
  note a = betweenD[OF assms(1)] and b = betweenD[OF assms(2)]
  have s: "1 / 2 \<le> val a + val b" using assms(3) a(3) b(3) by auto
  then have "\<not> (a = NZero \<and> b = NZero)" by auto
  then have "a + b = rnd (val a + val b < 0) (val a + val b)" by (simp only: plus_rnd[OF a(2) b(2)] if_False)
  then have "Fin (1 / 2) \<le> a + b" using rnd_ge_exact[OF s half_fp] by simp
  then show ?thesis by (cases "a + b") (auto simp: less_eq_fp_def)
qed

lemma half_fold:
  assumes "between 0 (2 * int k) s" and "\<And>m. m \<in> set ms \<Longrightarrow> between 0 2 (f m)" and "2 * int (k + length ms) \<le> 2 ^ 24"
    and "1 / 2 \<le> val s \<or> (\<exists>m \<in> set ms. 1 / 2 \<le> val (f m))"
  shows "1 / 2 \<le> val (fold (\<lambda>m s. s + f m) ms s)"
  using assms
proof (induction ms arbitrary: s k)
  case (Cons m ms)
  have fm: "between 0 2 (f m)" using Cons.prems(2) by simp
  have s: "between 0 (2 * int (Suc k)) (s + f m)"
    using between_plus[OF Cons.prems(1) fm] Cons.prems(3) by (simp add: algebra_simps)
  have "1 / 2 \<le> val (s + f m) \<or> (\<exists>m \<in> set ms. 1 / 2 \<le> val (f m))"
    using Cons.prems(4) half_plus[OF Cons.prems(1) fm] betweenD(2)[OF s] by auto
  then show ?case using Cons.IH[OF s] Cons.prems(2,3) by simp
qed simp

lemma bin_scale_between:
  assumes "exp_like exp2" and "\<And>k. k < 16 \<Longrightarrow> between (- 64) 64 (x k)"
  shows "between 0 2 (bin_scale exp2 x (bin_max x))"
proof -
  have fin: "is_fin (x k)" if "k < 16" for k using betweenD(2)[OF assms(2)[OF that]] .
  obtain q where q: "q < 16" "bin_max x = x q" using bin_max_bounds(1)[of x] fin by blast
  have e: "between 0 2 (bin_exp exp2 (bin_max x) (x k))" if "k < 16" for k
    using bin_exp_between[OF assms(1) assms(2)[OF that] _ bin_max_bounds(2)[of x, OF fin that]] assms(2)[OF q(1)] q(2) by simp
  have h: "1 / 2 \<le> val (bin_exp exp2 (bin_max x) (x q))" using bin_exp_self[OF assms(1) fin[OF q(1)]] q(2) by simp
  define S where "S = fold (\<lambda>k s. s + bin_exp exp2 (bin_max x) (x k)) [1..<16] (bin_exp exp2 (bin_max x) (x 0))"
  have "between 0 (2 * int (1 + length [1..<16])) S"
    unfolding S_def by (rule between_fold) (use e[of 0] e in auto)
  then have S: "is_fin S" using betweenD by blast
  have "1 / 2 \<le> val S"
    unfolding S_def by (rule half_fold[where k = 1]) (use e[of 0] e h q(1) in \<open>auto intro!: bexI[of _ q] simp: not_less_eq_eq\<close>, cases q, auto)
  then obtain v where v: "S = Fin v" "1 / 2 \<le> v" using S by (cases S) auto
  then have "1 / v \<le> 2" "0 \<le> 1 / v" by (simp_all add: divide_le_eq)
  moreover have "1 / S = rnd False (1 / v)" using v by (simp add: divide_fp_def one_fp_def)
  ultimately show ?thesis using between_rnd[of 0 "1 / v" 2] by (simp add: bin_scale_def S_def)
qed

lemma bin_mean_between:
  assumes "exp_like exp2" and "\<And>k. k < 16 \<Longrightarrow> between (- 64) 64 (x k)" and "\<And>k. k < 16 \<Longrightarrow> between 0 15 (w k)"
  shows "between 0 960 (bin_mean exp2 x (bin_max x) (bin_scale exp2 x (bin_max x)) w)"
proof -
  have fin: "is_fin (x k)" if "k < 16" for k using betweenD(2)[OF assms(2)[OF that]] .
  obtain q where q: "q < 16" "bin_max x = x q" using bin_max_bounds(1)[of x] fin by blast
  let ?r = "bin_scale exp2 x (bin_max x)"
  have t: "between 0 60 (bin_exp exp2 (bin_max x) (x k) * ?r * w k)" if "k < 16" for k
  proof -
    have "between 0 2 (bin_exp exp2 (bin_max x) (x k))"
      using bin_exp_between[OF assms(1) assms(2)[OF that] _ bin_max_bounds(2)[of x, OF fin that]] assms(2)[OF q(1)] q(2) by simp
    from between_times[OF this bin_scale_between[OF assms(1,2)]]
    have "between 0 4 (bin_exp exp2 (bin_max x) (x k) * ?r)" by simp
    from between_times[OF this assms(3)[OF that]] show ?thesis by simp
  qed
  have "between 0 (60 * int (1 + length [1..<16])) (bin_mean exp2 x (bin_max x) ?r w)"
    unfolding bin_mean_def by (rule between_fold) (use t[of 0] t in auto)
  then show ?thesis by simp
qed

section \<open>Boxes\<close>

lemma between_product:
  assumes "between (- a) a x" and "between (- b) b y" and "0 \<le> a" and "a * b \<le> 2 ^ 24" and "0 \<le> b"
  shows "between (- (a * b)) (a * b) (x * y)"
proof -
  note x = betweenD[OF assms(1)] and y = betweenD[OF assms(2)]
  have "\<bar>val x * val y\<bar> \<le> of_int a * of_int b"
    unfolding abs_mult using x(3,4) y(3,4) assms(3) by (intro mult_mono) (simp_all add: abs_le_iff)
  then have "of_int (- (a * b)) \<le> val x * val y" "val x * val y \<le> of_int (a * b)" by (simp_all add: abs_le_iff)
  moreover have "0 \<le> a * b" using assms(3,5) by simp
  ultimately show ?thesis using times_rnd[OF x(2) y(2)] between_rnd assms(4) by simp
qed

lemma centre_between: "n < 80 \<Longrightarrow> between 0 80 (centre n)"
proof -
  assume n: "n < 80"
  have "(of_nat n :: rat) + 1 \<le> of_nat 80" using n of_nat_le_iff[of "n + 1" 80, where 'a = rat] by simp
  moreover have "is_fp (centre n)" using n by (intro is_fp_centre) simp
  ultimately show ?thesis by (simp add: between_def centre_def)
qed

lemma zero_between [simp]: "0 \<le> u \<Longrightarrow> l \<le> 0 \<Longrightarrow> between l u 0"
  by (simp add: between_def)

lemma grid_point_between:
  assumes "a < 8400"
  shows "between 0 80 (fst (grid_point p a))" and "between 0 80 (fst (snd (grid_point p a)))" and "between 0 80 (snd (snd (grid_point p a)))"
  using cell_bounds[OF assms, of p] centre_between[of "cell_of p a"] by (auto simp: grid_point_def on_grid_def)

lemma half_between: "between (- 1) 1 (lit (1 / 2))" "between (- 1) 1 (- lit (1 / 2))"
  using half_fp by (simp_all add: lit_half between_def)

lemma stride_between: "between (- 32) 32 (stride a)"
  using between_Fin[of 8] between_Fin[of 16] between_Fin[of 32] by (auto simp: stride_def intro: between_weaken)

lemma box_corner_between:
  assumes "a < 8400" and "\<And>p. p < 4 \<Longrightarrow> between 0 960 (d p a)"
  shows "between (- 200000) 200000 (box_corner d n a)"
proof -
  have p: "n mod 2 < 4" "n mod 2 + 2 < 4" by (simp_all add: less_Suc_eq_le[symmetric])
  note b = assms(2)[OF p(1)] and f = assms(2)[OF p(2)]
  let ?x = "fst (grid_point (n mod 2) a)" and ?y = "fst (snd (grid_point (n mod 2) a))" and ?z = "snd (snd (grid_point (n mod 2) a))"
  note g = grid_point_between[OF assms(1), of "n mod 2"]
  have c: "between 0 240 (?x + ?y + ?z)" using between_plus[OF between_plus[OF g(1,2)] g(3)] by simp
  have "between (- 960) 1440 (((?x + ?y + ?z) - d (n mod 2) a) + (?x + ?y + ?z) + d (n mod 2 + 2) a)"
    using between_plus[OF between_plus[OF between_minus[OF c b] c] f] by simp
  from between_product[OF between_weaken[OF this, of "- 1440" 1440] half_between(1)]
  have cen: "between (- 1440) 1440 (centre_at d (n mod 2) a)" by (simp add: centre_at_def box_centre_def Let_def)
  have "between (- 240) 0 (- ?x - ?y - ?z)"
    using between_minus[OF between_minus[OF between_uminus[OF g(1)] g(2)] g(3)] by simp
  from between_plus[OF between_plus[OF between_plus[OF c f] this] b]
  have "between (- 2160) 2160 (extent_at d (n mod 2) a)"
    by (simp add: extent_at_def box_extent_def) (erule between_weaken; simp)
  from between_product[OF between_product[OF this stride_between[of a]], of 1 "if n < 2 then - lit (1 / 2) else lit (1 / 2)"]
  have "between (- 69120) 69120 (extent_at d (n mod 2) a * stride a * (if n < 2 then - lit (1 / 2) else lit (1 / 2)))"
    using half_between by (simp split: if_splits)
  from between_plus[OF between_product[OF cen stride_between[of a]] this]
  show ?thesis unfolding box_corner_def corner_def by (simp add: between_weaken)
qed

section \<open>From the heads to the rows\<close>

text \<open>
  The assumption on the heads: logits between -64 and 64 and weights of the expectation between 0
  and 15 (in the trained network they are 0 to 15).
\<close>

definition heads_calm :: "device \<Rightarrow> bool" where
  "heads_calm D \<longleftrightarrow> list_all (\<lambda>b. list_all (between (- 64) 64) (fmem D b)) [Buf 205, Buf 96, Buf 308, Buf 228, Buf 279, Buf 327] \<and>
     length (fmem D (Buf 334)) = 16 \<and> list_all (between 0 15) (fmem D (Buf 334))"

lemma elem_between: "list_all (between l u) xs \<Longrightarrow> l \<le> 0 \<Longrightarrow> 0 \<le> u \<Longrightarrow> between l u (elem xs i)"
  by (simp add: elem_def list_all_length)

lemma level_between:
  assumes "\<And>i. between (- 64) 64 (x i)" and "\<And>i. between (- 64) 64 (y i)" and "\<And>i. between (- 64) 64 (z i)"
  shows "between (- 64) 64 (level x y z c a)"
  using between_plus[of 0 0 0 "- 64" 64] assms unfolding level_def by simp

lemma calm_logits:
  assumes "heads_calm D"
  shows "head_format D" and "between (- 64) 64 (side_logit D p a k)" and "between (- 64) 64 (class_logit D c a)"
    and "between 0 15 (elem (fmem D (Buf 334)) k)"
  using assms unfolding side_logit_def class_logit_def head_format_def heads_calm_def
  by (auto intro!: level_between elem_between simp: list_all_iff dest: betweenD(1))

lemma distance_between: "exp_like exp2 \<Longrightarrow> heads_calm D \<Longrightarrow> between 0 960 (distance exp2 D p a)"
  unfolding distance_def Let_def by (rule bin_mean_between) (simp_all add: calm_logits)

lemma probability_between: "exp_like exp2 \<Longrightarrow> heads_calm D \<Longrightarrow> between 0 1 (sigmoid exp2 (class_logit D c a))"
  by (rule sigmoid_bounds) (simp_all add: calm_logits)

definition probabilities :: "(f32 \<Rightarrow> f32) \<Rightarrow> device \<Rightarrow> f32 list" where
  "probabilities exp2 D = map (\<lambda>j. sigmoid exp2 (class_logit D (j div 8400) (j mod 8400))) [0..<495600]"

definition corners :: "(f32 \<Rightarrow> f32) \<Rightarrow> device \<Rightarrow> nat \<Rightarrow> f32 list" where
  "corners exp2 D n = map (box_corner (distance exp2 D) n) [0..<8400]"

lemma heads_finite:
  assumes "exp_like exp2" and "heads_calm D"
  shows "finite_cells (probabilities exp2 D)" and "finite_cells (corners exp2 D n)"
  using betweenD[OF probability_between[OF assms]] betweenD[OF box_corner_between[OF _ distance_between[OF assms]]]
  by (simp_all add: finite_cells_def probabilities_def corners_def list_all_iff)

lemma frame_feature:
  assumes "runs (stem_passes K) D E"
  shows "fmem E (Buf 0) = fmem D (Buf 0)" "fmem E (Buf 1) = fmem D (Buf 1)" "fmem E (Buf 2) = fmem D (Buf 2)"
  using runs_frame[OF assms] by (simp_all add: stem_passes_def)

lemma frame_backbone:
  assumes "runs (backbone_passes K) D E"
  shows "fmem E (Buf 0) = fmem D (Buf 0)" "fmem E (Buf 1) = fmem D (Buf 1)" "fmem E (Buf 2) = fmem D (Buf 2)"
    "fmem E (Buf 9) = fmem D (Buf 9)" "imem E (Buf 10) = imem D (Buf 10)" "imem E (Buf 11) = imem D (Buf 11)"
  using runs_frame[OF assms] by (simp_all add: backbone_passes_def)

lemma frame_heads:
  assumes "runs (head_passes exp2) D E"
  shows "fmem E (Buf 0) = fmem D (Buf 0)" "fmem E (Buf 1) = fmem D (Buf 1)" "fmem E (Buf 2) = fmem D (Buf 2)"
    "fmem E (Buf 9) = fmem D (Buf 9)" "imem E (Buf 10) = imem D (Buf 10)" "imem E (Buf 11) = imem D (Buf 11)"
  using runs_frame[OF assms] by (simp_all add: head_passes_def)

lemma frame_boxes:
  assumes "runs box_passes D E"
  shows "fmem E (Buf 331) = fmem D (Buf 331)" "imem E (Buf 10) = imem D (Buf 10)" "imem E (Buf 11) = imem D (Buf 11)"
  using runs_frame[OF assms] by (simp_all add: box_passes_def)

text \<open>What the passes before the heads leave for those after them.\<close>

definition constants_set :: "device \<Rightarrow> bool" where
  "constants_set D \<longleftrightarrow> grids_set D \<and> fmem D (Buf 9) = map stride [0..<8400] \<and>
     imem D (Buf 10) = map (\<lambda>j. 59 - of_nat j) [0..<59] \<and> imem D (Buf 11) = map of_nat [0..<8400]"

lemma features_constants:
  assumes "runs (feature_passes K) D E" and "sized D"
  shows "constants_set E"
proof -
  obtain A1 A2 A3 A4 where p: "runs anchor_passes D A1" "runs (stem_passes K) A1 A2" "runs stride_passes A2 A3"
      "runs index_passes A3 A4" "runs (backbone_passes K) A4 E"
    using assms(1) unfolding feature_passes_def runs_append by blast
  note s1 = sized_runs[OF p(1) assms(2)]
  note s2 = sized_runs[OF p(2) s1]
  note s3 = sized_runs[OF p(3) s2]
  obtain B where i: "addComputePass r_59_59_shader [Buf 10] (59, 1, 1) A3 B"
      "addComputePass r_175_16_2100_3_4_shader [Buf 11] (175, 1, 1) B A4"
    using p(4) by (auto simp: index_passes_def runs_Cons runs_Nil)
  note b1 = codes_effect[OF i(1) sized_lengths(16)[OF s3]]
  note b2 = positions_effect[OF i(2) sized_lengths(17)[OF sized_pass[OF i(1) s3]]]
  have "A1 = D\<lparr>fmem := (fmem D)(Buf 0 := map centre [0..<80], Buf 1 := map centre [0..<40], Buf 2 := map centre [0..<20])\<rparr>"
    by (rule anchors_effect[OF p(1) assms(2)])
  then have "grids_set A2" using frame_feature[OF p(2)] by (simp add: grids_set_def)
  then show ?thesis
    using frame_backbone[OF p(5)] unfolding constants_set_def grids_set_def b1 b2 strides_effect[OF p(3) s2] by simp
qed

lemma detection_result:
  assumes "runs (detection_passes exp2) E D'" and "sized E" and "constants_set E" and "heads_calm E" and "exp_like exp2"
  shows "\<exists>\<pi>. ranking (conf (elem (probabilities exp2 E))) 8400 \<pi> \<and>
    fmem D' Output = detections (candidate (elem (probabilities exp2 E)) (\<lambda>n. elem (corners exp2 E n))) \<pi>"
proof -
  obtain H B where p: "runs (head_passes exp2) E H" "runs box_passes H B" "runs post_passes B D'"
    using assms(1) unfolding detection_passes_def runs_append by blast
  note s1 = sized_runs[OF p(1) assms(2)]
  note s2 = sized_runs[OF p(2) s1]
  note h = heads_effect[OF p(1) assms(2) calm_logits(1)[OF assms(4)]] and f = frame_heads[OF p(1)]
  have H: "grids_set H" "fmem H (Buf 9) = map stride [0..<8400]" using assms(3) f by (simp_all add: constants_set_def grids_set_def)
  have b: "fmem B (Buf (337 + n)) = corners exp2 E n" if "n < 4" for n
    using boxes_effect[OF p(2) s1 H h(2)] that by (simp add: corners_def)
  have prob: "fmem B (Buf 331) = probabilities exp2 E" using h(1) frame_boxes(1)[OF p(2)] by (simp add: probabilities_def)
  have "ready B"
    using s2 assms(3) f frame_boxes[OF p(2)] prob b[of 0] b[of 1] b[of 2] b[of 3] heads_finite[OF assms(5,4)]
    by (simp add: ready_def constants_set_def)
  from post_passes_result[OF p(3) this]
  obtain \<pi> where \<pi>: "ranking (conf (elem (probabilities exp2 E))) 8400 \<pi>" "fmem D' Output = detections (anchor_rows B) \<pi>"
    unfolding prob by blast
  have "anchor_rows B = candidate (elem (probabilities exp2 E)) (\<lambda>n. elem (corners exp2 E n))"
    using b[of 0] b[of 1] b[of 2] b[of 3] by (simp add: anchor_rows_def candidate_def prob fun_eq_iff)
  then show ?thesis using \<pi> by auto
qed

section \<open>Properties\<close>

subsection \<open>An exponential and a device to compute with\<close>

definition floor_exp :: "f32 \<Rightarrow> f32" where
  "floor_exp x = rnd False (pow2 \<lfloor>val x\<rfloor>)"

lemma floor_exp_like: "exp_like floor_exp"
proof -
  have "is_fin (floor_exp x) \<and> 0 \<le> val (floor_exp x)" if "val x \<le> 96" for x :: f32
  proof -
    have "is_fp (Fin (pow2 96) :: f32)" using repr_pow2[of "- 126" 96 24] pow2_strict_mono[of 96 128] by (simp del: power_int_numeral)
    moreover have "pow2 \<lfloor>val x\<rfloor> \<le> pow2 96" by (rule pow2_mono) (use that in \<open>simp add: floor_le_iff\<close>)
    ultimately have "floor_exp x \<le> Fin (pow2 96)" unfolding floor_exp_def by (rule rnd_le_exact[rotated])
    moreover have "is_fp (Fin 0 :: f32)" by simp
    then have "Fin 0 \<le> floor_exp x" unfolding floor_exp_def by (rule rnd_ge_exact[rotated]) simp
    ultimately show ?thesis using val_within by blast
  qed
  moreover have "val (floor_exp x) \<le> 2" if "val x \<le> 0" for x :: f32
  proof -
    have "pow2 \<lfloor>val x\<rfloor> \<le> pow2 0" by (rule pow2_mono) (use that in \<open>simp add: floor_le_iff\<close>)
    then have "between 0 2 (floor_exp x)" unfolding floor_exp_def by (intro between_rnd) simp_all
    then show ?thesis using betweenD(4) by fastforce
  qed
  moreover have "floor_exp 0 = Fin 1"
  proof -
    have "is_fp (Fin 1 :: f32)" using is_fp_f32_of_int[of 1] by simp
    from rnd_exact[OF this, of False] show ?thesis by (simp add: floor_exp_def)
  qed
  moreover have "is_fp (floor_exp x)" for x by (simp add: floor_exp_def del: is_fp.simps)
  ultimately show ?thesis unfolding exp_like_def by simp
qed

text \<open>A device whose heads are zero, and features whose shaders store nothing.\<close>

definition calm_device :: device where
  "calm_device = blank_device\<lparr>fmem := (fmem blank_device)(Buf 334 := map (\<lambda>k. Fin (of_nat k)) [0..<16])\<rparr>"

definition silent :: "string \<Rightarrow> shader" where
  "silent name = FShader (1, 1, 1) (\<lambda>f i g l. [])"

lemma calm_device_sized: "sized calm_device"
  by (simp add: sized_def calm_device_def blank_device_def empty_bufs_def)

lemma calm_device_calm: "heads_calm calm_device"
proof -
  have "between 0 15 (Fin (of_nat k))" if "k < 16" for k
    using between_weaken[OF between_Fin[of "int k"], of 0 15] that by simp
  then show ?thesis by (simp add: heads_calm_def calm_device_def blank_device_def empty_bufs_def list_all_iff)
qed

lemma no_stores: "dispatched G L (\<lambda>g l. []) xs ys \<Longrightarrow> ys = xs"
proof -
  have "concat (map (\<lambda>(g, l). []) is) = ([] :: 'a stores)" for "is" :: "(dim \<times> dim) list" by (induction "is") auto
  then show "dispatched G L (\<lambda>g l. []) xs ys \<Longrightarrow> ys = xs"
    by (auto simp: dispatched_def all_stores_def elim: store_steps_NilE)
qed

lemma silent_pass: "addComputePass (silent n) bs G D D' \<Longrightarrow> fmem D' = fmem D"
proof -
  have "launch (\<lambda>g l. [] :: f32 stores) = (\<lambda>g l. [])" by (simp add: launch_def fun_eq_iff)
  then show "addComputePass (silent n) bs G D D' \<Longrightarrow> fmem D' = fmem D"
    unfolding silent_def by (elim f32_passE) (auto dest: no_stores)
qed

lemma silent_runs: "runs ps D D' \<Longrightarrow> \<forall>p \<in> set ps. \<exists>n. fst p = silent n \<Longrightarrow> fmem D' = fmem D"
  by (induction rule: runs.induct) (auto dest!: silent_pass)

lemma silent_features:
  assumes "runs (feature_passes silent) calm_device E"
  shows "heads_calm E"
proof -
  obtain A1 A2 A3 A4 where p: "runs anchor_passes calm_device A1" "runs (stem_passes silent) A1 A2" "runs stride_passes A2 A3"
      "runs index_passes A3 A4" "runs (backbone_passes silent) A4 E"
    using assms unfolding feature_passes_def runs_append by blast
  have "fmem A2 = fmem A1" by (rule silent_runs[OF p(2)]) (auto simp: stem_passes_def)
  moreover have "fmem E = fmem A4" by (rule silent_runs[OF p(5)]) (auto simp: backbone_passes_def)
  moreover have "fmem A1 b = fmem calm_device b" "fmem A3 b = fmem A2 b" "fmem A4 b = fmem A3 b"
    if "b \<in> {Buf 205, Buf 96, Buf 308, Buf 228, Buf 279, Buf 327, Buf 334}" for b
    using runs_frame[OF p(1), of b] runs_frame[OF p(3), of b] runs_frame[OF p(4), of b] that
    by (auto simp: anchor_passes_def stride_passes_def index_passes_def)
  ultimately show ?thesis using calm_device_calm by (simp add: heads_calm_def)
qed

lemma calm_runs: "\<exists>E D'. runs (feature_passes silent) calm_device E \<and> heads_calm E \<and> sized E \<and> constants_set E \<and>
  runs (detection_passes floor_exp) E D'"
proof -
  obtain E where E: "runs (feature_passes silent) calm_device E" using runs_total by blast
  moreover obtain D' where "runs (detection_passes floor_exp) E D'" using runs_total by blast
  ultimately show ?thesis
    using silent_features[OF E] sized_runs[OF E calm_device_sized] features_constants[OF E calm_device_sized] by blast
qed

text \<open>C12: The program of 225 passes is well formed: every pass binds at most eight buffers, none twice; the
  buffers it takes from outside are the input and all the weights, read first in the order of their creation;
  it writes exactly the other buffers, first in the order of their creation; and every result is read by a
  later pass before its buffer is written again, up to the output.\<close>

theorem program_flow:
  "list_all bindable (bindings (inference K exp2)) \<and>
   sources [] (bindings (inference K exp2)) = Input # map fst weight_bufs \<and>
   rev (targets (bindings (inference K exp2)) []) = filter (\<lambda>b. b \<noteq> Input) (map fst empty_bufs) \<and>
   all_used (bindings (inference K exp2)) \<and> length (inference K exp2) = 225"
proof -
  have "length (inference K exp2) = 225" by (simp add: passes_tables)
  then show ?thesis using inference_bindable inference_sources inference_targets inference_used by simp
qed

text \<open>C4: Whatever the convolutions do and whatever the order of the invocations, the passes from the heads
  on implement the abstract detector: with logits within 64 of zero the output has the 300 best of the 8400
  anchors by thresholded class probability, each with the corners decoded from its softmax expectations, its
  score and its class, and zero where a better box of the class overlaps it.\<close>

theorem inference_refines:
  assumes "runs (feature_passes K) D E" and "runs (detection_passes exp2) E D'" and "sized D" and "heads_calm E" and "exp_like exp2"
  shows "runs (inference K exp2) D D' \<and> (\<exists>\<pi>. ranking (conf (elem (probabilities exp2 E))) 8400 \<pi> \<and>
    fmem D' Output = detections (candidate (elem (probabilities exp2 E)) (\<lambda>n. elem (corners exp2 E n))) \<pi>)"
proof -
  have "runs (inference K exp2) D D'" unfolding inference_def runs_append using assms(1,2) by blast
  then show ?thesis
    using detection_result[OF assms(2) sized_runs[OF assms(1,3)] features_constants[OF assms(1,3)] assms(4,5)] by blast
qed

theorem inference_refines_witness:
  "\<exists>E D' \<pi>. runs (inference silent floor_exp) calm_device D' \<and> ranking (conf (elem (probabilities floor_exp E))) 8400 \<pi> \<and>
     fmem D' Output = detections (candidate (elem (probabilities floor_exp E)) (\<lambda>n. elem (corners floor_exp E n))) \<pi>"
proof -
  obtain E D' where r: "runs (feature_passes silent) calm_device E" "heads_calm E" "runs (detection_passes floor_exp) E D'"
    using calm_runs by blast
  from inference_refines[OF r(1,3) calm_device_sized r(2) floor_exp_like] show ?thesis by blast
qed

text \<open>C14: Decoding keeps every value within bounds. After the passes that compute the feature maps, with logits
  within 64 of zero and whatever the order of the invocations, the passes of the heads leave the class probabilities
  in buffer 331 between 0 and 1 and the distances of the sides in buffer 333 between 0 and 960 cells, and those of the
  boxes leave the corners in buffers 337 to 340 within 200000 pixels; none is infinite or not a number.\<close>

theorem decoded_bounds:
  assumes "runs (feature_passes K) D E" and "runs (head_passes exp2) E H" and "runs box_passes H B"
    and "sized D" and "heads_calm E" and "exp_like exp2"
  shows "length (fmem H (Buf 331)) = 495600 \<and> list_all (between 0 1) (fmem H (Buf 331)) \<and>
    length (fmem H (Buf 333)) = 33600 \<and> list_all (between 0 960) (fmem H (Buf 333)) \<and>
    list_all (\<lambda>b. length (fmem B b) = 8400 \<and> list_all (between (- 200000) 200000) (fmem B b)) [Buf 337, Buf 338, Buf 339, Buf 340]"
proof -
  note s = sized_runs[OF assms(1,4)]
  note t = sized_runs[OF assms(2) s]
  have c: "constants_set E" by (rule features_constants[OF assms(1,4)])
  note h = heads_effect[OF assms(2) s calm_logits(1)[OF assms(5)]]
  have "grids_set H" "fmem H (Buf 9) = map stride [0..<8400]"
    using c frame_heads[OF assms(2)] by (simp_all add: constants_set_def grids_set_def)
  from boxes_effect[OF assms(3) t this h(2)]
  have "fmem B (Buf (337 + n)) = map (box_corner (distance exp2 E) n) [0..<8400]" if "n < 4" for n using that by simp
  from this[of 0] this[of 1] this[of 2] this[of 3] show ?thesis
    using probability_between[OF assms(6,5)] distance_between[OF assms(6,5)] box_corner_between[OF _ distance_between[OF assms(6,5)]]
    by (simp add: h list_all_iff)
qed

theorem decoded_bounds_witness:
  "\<exists>E H B. runs (feature_passes silent) calm_device E \<and> runs (head_passes floor_exp) E H \<and> runs box_passes H B \<and>
    list_all (between 0 1) (fmem H (Buf 331)) \<and> list_all (between (- 200000) 200000) (fmem B (Buf 340))"
proof -
  obtain E where E: "runs (feature_passes silent) calm_device E" using runs_total by blast
  obtain H where H: "runs (head_passes floor_exp) E H" using runs_total by blast
  obtain B where B: "runs box_passes H B" using runs_total by blast
  from decoded_bounds[OF E H B calm_device_sized silent_features[OF E] floor_exp_like] E H B show ?thesis by auto
qed

end
