(* ===== verification/Weights.thy ===== *)
theory Weights
  imports Inference
begin

text \<open>
  The weights of the network: the functions of \<open>server/cherum/static/net.js\<close> that take the tensors
  out of a safetensors file and fill the weight buffers with them. The file is eight bytes with the
  length of a header, the header, a JSON text, and the data; the header gives for each tensor where
  its data begin and end. The decoding of the JSON text is a parameter; values are those of \<open>Js\<close>.
\<close>

section \<open>Numbers from bytes\<close>

type_synonym byte = "8 word"

text \<open>A little-endian number.\<close>

fun number_of_bytes :: "byte list \<Rightarrow> nat" where
  "number_of_bytes [] = 0"
| "number_of_bytes (b # bs) = unat b + 256 * number_of_bytes bs"

text \<open>The binary32 number with the given bits, the one the shaders read.\<close>

definition f32_of_bits :: "nat \<Rightarrow> f32" where
  "f32_of_bits n = (let s = (n div 2 ^ 31 mod 2 = 1); e = n div 2 ^ 23 mod 256; m = n mod 2 ^ 23; sg = (if s then - 1 else 1)
     in if e = 255 then (if m = 0 then inf_of s else NaN)
        else if e = 0 then (if m = 0 then zero_of s else Fin (of_int (sg * int m) * pow2 (- 149)))
        else Fin (of_int (sg * int (2 ^ 23 + m)) * pow2 (int e - 150)))"

definition floats :: "byte list \<Rightarrow> f32 list" where
  "floats bs = map (\<lambda>i. f32_of_bits (number_of_bytes (take 4 (drop (4 * i) bs)))) [0..<length bs div 4]"

section \<open>JavaScript operations\<close>

text \<open>The pairs of \<open>Object.entries\<close>, of equal names in the text the last; none if it throws.\<close>

fun last_pairs :: "(string \<times> 'a) list \<Rightarrow> (string \<times> 'a) list" where
  "last_pairs [] = []"
| "last_pairs ((k, v) # r) = (if k \<in> fst ` set r then last_pairs r else (k, v) # last_pairs r)"

fun entries :: "js \<Rightarrow> (string \<times> js) list option" where
  "entries Undefined = None"
| "entries Null = None"
| "entries (Obj fs) = Some (last_pairs fs)"
| "entries (Arr vs) = Some (zip (map (\<lambda>i. dec (int i)) [0..<length vs]) vs)"
| "entries (Str s) = Some (zip (map (\<lambda>i. dec (int i)) [0..<length s]) (map (\<lambda>c. Str [c]) s))"
| "entries v = Some []"

text \<open>A number plus a value: a sum if the value converts to a number, else a text.\<close>

fun js_plus :: "f64 \<Rightarrow> js \<Rightarrow> js" where
  "js_plus a (Str s) = Str (number_string a @ s)"
| "js_plus a (Arr vs) = Str (number_string a @ js_string (Arr vs))"
| "js_plus a (Obj fs) = Str (number_string a @ js_string (Obj fs))"
| "js_plus a v = Num (a + js_number v)"

text \<open>A relative index of \<open>subarray\<close>, clamped to the length.\<close>

definition relative_index :: "nat \<Rightarrow> js \<Rightarrow> nat" where
  "relative_index n v = (case js_number v of NaN \<Rightarrow> 0 | PInf \<Rightarrow> n | MInf \<Rightarrow> 0 | NZero \<Rightarrow> 0
     | Fin x \<Rightarrow> if x \<le> - 1 then nat (int n + \<lceil>x\<rceil>) else min n (nat \<lfloor>x\<rfloor>))"

definition subarray :: "byte list \<Rightarrow> js list \<Rightarrow> byte list" where
  "subarray bs args = (let n = length bs; b = (case args of [] \<Rightarrow> 0 | x # r \<Rightarrow> relative_index n x);
     e = (case args of x # y # r \<Rightarrow> if y = Undefined then n else relative_index n y | _ \<Rightarrow> n)
     in take (e - b) (drop b bs))"

section \<open>The safetensors file\<close>

type_synonym metadata = "(string \<times> js list) list"

text \<open>The offsets of a tensor, from the start of the file.\<close>

definition tensor_offsets :: "f64 \<Rightarrow> js \<Rightarrow> js list option" where
  "tensor_offsets base v = (case get v ''data_offsets'' of Some (Arr xs) \<Rightarrow> Some (map (js_plus base) xs) | _ \<Rightarrow> None)"

fun with_offsets :: "f64 \<Rightarrow> (string \<times> js) list \<Rightarrow> metadata option" where
  "with_offsets base [] = Some []"
| "with_offsets base ((k, v) # r) = Option.bind (tensor_offsets base v) (\<lambda>os. map_option (\<lambda>m. (k, os) # m) (with_offsets base r))"

definition getTensorMetadata :: "(byte list \<Rightarrow> js option) \<Rightarrow> byte list \<Rightarrow> metadata option" where
  "getTensorMetadata json_parse bs =
     (if length bs < 8 then None
      else let metadataLength = lit (of_nat (number_of_bytes (take 8 bs))) :: f64 in
        Option.bind (json_parse (subarray bs [Num (lit 8), Num (lit 8 + metadataLength)])) (\<lambda>metadata.
        Option.bind (entries metadata) (\<lambda>es.
          with_offsets (lit 8 + metadataLength) (filter (\<lambda>(k, v). k \<noteq> ''__metadata__'') es))))"

definition getTensorBuffer :: "byte list \<Rightarrow> js list option \<Rightarrow> byte list option" where
  "getTensorBuffer bs tensor = map_option (subarray bs) tensor"

text \<open>The mapped range of a new buffer is zero; writing more than it holds throws.\<close>

definition createWeightBuf :: "nat \<Rightarrow> byte list \<Rightarrow> byte list option" where
  "createWeightBuf bytes data = (if bytes mod 4 \<noteq> 0 \<or> bytes < length data then None
     else Some (data @ replicate (bytes - length data) 0))"

definition createEmptyBuf :: "nat \<Rightarrow> byte list" where
  "createEmptyBuf bytes = replicate bytes 0"

section \<open>Loading\<close>

definition load_weight :: "byte list \<Rightarrow> metadata \<Rightarrow> nat \<Rightarrow> string \<Rightarrow> byte list option" where
  "load_weight bs m bytes name = Option.bind (getTensorBuffer bs (map_of m name)) (createWeightBuf bytes)"

fun load_weights :: "byte list \<Rightarrow> metadata \<Rightarrow> (bufname \<times> nat \<times> string) list \<Rightarrow> (bufname \<times> f32 list) list option" where
  "load_weights bs m [] = Some []"
| "load_weights bs m ((b, bytes, name) # r) = Option.bind (load_weight bs m bytes name)
     (\<lambda>d. map_option (\<lambda>ws. (b, floats d) # ws) (load_weights bs m r))"

text \<open>The device \<open>setupNet\<close> makes, none if it throws.\<close>

definition setupNet :: "(byte list \<Rightarrow> js option) \<Rightarrow> byte list \<Rightarrow> device option" where
  "setupNet json_parse bs =
     Option.bind (getTensorMetadata json_parse bs) (\<lambda>m.
     map_option (\<lambda>ws. \<lparr>fmem = (\<lambda>b. case map_of ws b of Some xs \<Rightarrow> xs
           | None \<Rightarrow> (case map_of empty_bufs b of Some n \<Rightarrow> floats (createEmptyBuf n) | None \<Rightarrow> [])),
         imem = (\<lambda>b. case map_of empty_bufs b of Some n \<Rightarrow> replicate (n div 4) 0 | None \<Rightarrow> [])\<rparr>)
       (load_weights bs m weight_bufs))"

section \<open>Every word is a number of the format\<close>

lemma is_fp_bits: "is_fp (f32_of_bits n)"
proof -
  define e m sg where "e = n div 2 ^ 23 mod 256" and "m = n mod 2 ^ 23" and "sg = (if n div 2 ^ 31 mod 2 = 1 then - 1 else 1 :: int)"
  have m: "m < 2 ^ 23" and sg: "\<bar>sg\<bar> = 1" by (simp_all add: m_def sg_def)
  have fp: "is_fp (Fin (of_int (sg * int k) * pow2 x) :: f32)" if "k < 2 ^ 24" "- 149 \<le> x" "x \<le> 104" for k x
  proof -
    have k: "\<bar>sg * int k\<bar> < 2 ^ 24" using that(1) sg by (simp add: abs_mult)
    from repr_int_pow2[OF this, of "- 126" x] that(2) have r: "repr 24 (- 126) (of_int (sg * int k) * pow2 x)" by simp
    have "(of_nat k :: rat) < of_nat (2 ^ 24)" using that(1) by (simp only: of_nat_less_iff)
    then have "of_nat k * pow2 x < pow2 24 * pow2 x" by simp
    also have "\<dots> \<le> pow2 128" unfolding pow2_add[symmetric] by (rule pow2_mono) (use that(3) in simp)
    finally have "\<bar>of_int (sg * int k) * pow2 x\<bar> < pow2 128" using sg by (simp add: abs_mult del: power_int_numeral flip: of_int_abs)
    then show ?thesis using r by (simp del: power_int_numeral)
  qed
  have "e < 256" by (simp add: e_def)
  then have "e \<noteq> 255 \<Longrightarrow> int e - 150 \<le> 104" by simp
  then show ?thesis
    using fp[of m "- 149"] fp[of "2 ^ 23 + m" "int e - 150"] m
    unfolding f32_of_bits_def Let_def e_def[symmetric] m_def[symmetric] sg_def[symmetric]
    by (auto simp del: is_fp.simps(5))
qed

lemma floats_format: "list_all is_fp (floats bs)" and length_floats [simp]: "length (floats bs) = length bs div 4"
  by (simp_all add: floats_def list_all_iff is_fp_bits)


lemma zero_bytes: "number_of_bytes (replicate n 0) = 0"
  by (induction n) simp_all

lemma floats_zero: "floats (replicate n 0) = replicate (n div 4) 0"
proof -
  have "f32_of_bits (number_of_bytes (take 4 (drop (4 * i) (replicate n 0)))) = 0" for i
    by (simp add: zero_bytes) (simp add: f32_of_bits_def zero_of_def zero_fp_def)
  then show ?thesis by (simp add: floats_def map_replicate_const)
qed

section \<open>Loading in terms of the single tensors\<close>

lemma load_weights_None:
  "load_weights bs m ws = None \<longleftrightarrow> (\<exists>(b, bytes, name) \<in> set ws. load_weight bs m bytes name = None)"
  by (induction bs m ws rule: load_weights.induct) (auto split: option.splits bind_splits)

lemma load_weights_names: "load_weights bs m ws = Some xs \<Longrightarrow> map fst xs = map fst ws"
  by (induction bs m ws arbitrary: xs rule: load_weights.induct) (auto split: bind_splits)

lemma load_weights_at:
  "load_weights bs m ws = Some xs \<Longrightarrow> distinct (map fst ws) \<Longrightarrow> (b, bytes, name) \<in> set ws \<Longrightarrow>
   \<exists>d. load_weight bs m bytes name = Some d \<and> map_of xs b = Some (floats d)"
proof (induction bs m ws arbitrary: xs rule: load_weights.induct)
  case (2 bs m b' bytes' name' r)
  then obtain d ys where d: "load_weight bs m bytes' name' = Some d" "load_weights bs m r = Some ys" "xs = (b', floats d) # ys"
    by (auto split: bind_splits)
  then show ?case using "2.IH"[OF d(1,2)] "2.prems"(2,3) by force
qed simp

lemma load_weight_None:
  "bytes mod 4 = 0 \<Longrightarrow> load_weight bs m bytes name = None \<longleftrightarrow>
   (case getTensorBuffer bs (map_of m name) of None \<Rightarrow> True | Some d \<Rightarrow> bytes < length d)"
  by (simp add: load_weight_def createWeightBuf_def split: option.splits)

lemma load_weight_length: "load_weight bs m bytes name = Some d \<Longrightarrow> length d = bytes"
  by (auto simp: load_weight_def createWeightBuf_def split: bind_splits if_splits)

lemma weight_sizes: "list_all (\<lambda>(b, bytes, name). bytes mod 4 = 0) weight_bufs"
  by (simp add: weight_tables)

text \<open>The numbers of the buffers increase in both tables.\<close>

fun number :: "bufname \<Rightarrow> nat" where
  "number (Buf n) = n"
| "number b = 0"

fun avoids :: "nat list \<Rightarrow> nat list \<Rightarrow> bool" where
  "avoids [] ys = True"
| "avoids xs [] = True"
| "avoids (x # xs) (y # ys) = (if x < y then avoids xs (y # ys) else if y < x then avoids (x # xs) ys else False)"

lemma avoids_disjoint: "avoids xs ys \<Longrightarrow> sorted_wrt (<) xs \<Longrightarrow> sorted_wrt (<) ys \<Longrightarrow> set xs \<inter> set ys = {}"
  by (induction xs ys rule: avoids.induct) (fastforce split: if_splits)+

definition weight_numbers :: "nat list" where
  "weight_numbers = map (number \<circ> fst) weight_bufs"

definition empty_numbers :: "nat list" where
  "empty_numbers = map number (filter (\<lambda>b. b \<noteq> Input \<and> b \<noteq> Output) (map fst empty_bufs))"

lemma weight_increasing: "sorted_wrt (<) weight_numbers"
proof -
  have "successively (<) weight_numbers" by (simp add: weight_numbers_def weight_tables)
  then show ?thesis by (simp add: successively_conv_sorted_wrt)
qed

lemma empty_increasing: "sorted_wrt (<) empty_numbers"
proof -
  have "successively (<) empty_numbers" by (simp add: empty_numbers_def empty_bufs_def)
  then show ?thesis by (simp add: successively_conv_sorted_wrt)
qed

lemma numbers_apart: "avoids weight_numbers empty_numbers"
  by (simp add: weight_numbers_def weight_tables empty_numbers_def empty_bufs_def)

lemma weight_names: "distinct (map fst weight_bufs)"
proof -
  have "distinct (map number (map fst weight_bufs))"
    using weight_increasing unfolding weight_numbers_def by (simp add: strict_sorted_iff)
  then show ?thesis using distinct_map by blast
qed

lemma weight_kinds: "list_all (\<lambda>w. case fst w of Buf n \<Rightarrow> True | _ \<Rightarrow> False) weight_bufs"
  by (simp add: weight_tables)

lemma weight_empty:
  assumes "(b, n) \<in> set empty_bufs"
  shows "b \<notin> fst ` set weight_bufs"
proof
  assume "b \<in> fst ` set weight_bufs"
  then obtain w where w: "w \<in> set weight_bufs" "fst w = b" by auto
  then have "b \<noteq> Input \<and> b \<noteq> Output" using weight_kinds by (auto simp: list_all_iff split: bufname.splits)
  then have "number b \<in> set empty_numbers" using assms by (force simp: empty_numbers_def)
  moreover have "number b \<in> set weight_numbers" using w by (force simp: weight_numbers_def)
  ultimately show False using avoids_disjoint[OF numbers_apart weight_increasing empty_increasing] by blast
qed

section \<open>Files as they are written\<close>

text \<open>A safetensors file with the given header text that holds tensors one after the other, and its header.\<close>

definition le64 :: "nat \<Rightarrow> byte list" where
  "le64 n = map (\<lambda>i. of_nat (n div 256 ^ i)) [0..<8]"

definition safetensors :: "byte list \<Rightarrow> (string \<times> byte list) list \<Rightarrow> byte list" where
  "safetensors h ts = le64 (length h) @ h @ concat (map snd ts)"

fun tensor_entries :: "nat \<Rightarrow> (string \<times> byte list) list \<Rightarrow> (string \<times> js) list" where
  "tensor_entries a [] = []"
| "tensor_entries a ((k, d) # r) = (k, Obj [(''dtype'', Str ''F32''),
      (''data_offsets'', Arr [Num (lit (of_nat a)), Num (lit (of_nat (a + length d)))])]) # tensor_entries (a + length d) r"

lemma number_of_bytes_append: "number_of_bytes (xs @ ys) = number_of_bytes xs + 256 ^ length xs * number_of_bytes ys"
  by (induction xs) (simp_all add: algebra_simps)

lemma number_of_le: "number_of_bytes (map (\<lambda>i. of_nat (n div 256 ^ i)) [0..<k]) = n mod 256 ^ k"
proof (induction k)
  case (Suc k)
  have "n mod 256 ^ Suc k = n mod 256 ^ k + 256 ^ k * (n div 256 ^ k mod 256)"
    by (simp add: mod_mult2_eq power_Suc2 del: power_Suc)
  then show ?case using Suc by (simp add: number_of_bytes_append unat_of_nat)
qed simp

lemma number_of_le64: "n < 2 ^ 64 \<Longrightarrow> number_of_bytes (le64 n) = n"
  by (simp add: le64_def number_of_le)

lemma length_le64 [simp]: "length (le64 n) = 8"
  by (simp add: le64_def)

text \<open>Positions in a file are exact numbers.\<close>

lemma exact_nat: "n \<le> 2 ^ 53 \<Longrightarrow> lit (of_nat n) = (Fin (of_nat n) :: f64)"
  by (rule lit_exact) (use is_fp_f64_of_int[of "int n"] in simp)

lemma exact_plus: "m + n \<le> 2 ^ 53 \<Longrightarrow> (Fin (of_nat m) + Fin (of_nat n) :: f64) = Fin (of_nat (m + n))"
  using rnd_exact[OF is_fp_f64_of_int[of "int (m + n)"]] by (simp add: plus_fp_def zero_fp_def)

lemma relative_nat: "relative_index n (Num (Fin (of_nat i))) = min n i"
proof -
  have "\<not> (of_nat i :: rat) \<le> - 1" by (meson linorder_not_less neg_less_0_iff_less of_nat_0_le_iff order_less_le_trans zero_less_one)
  then show ?thesis by (simp add: relative_index_def)
qed

lemma subarray_nat: "i \<le> length bs \<Longrightarrow> subarray bs [Num (Fin (of_nat i)), Num (Fin (of_nat (i + n)))] = take n (drop i bs)"
  by (simp add: subarray_def relative_nat min_def Let_def del: of_nat_add)

lemma get_offsets: "tensor_offsets base (Obj [(''dtype'', v), (''data_offsets'', Arr xs)]) = Some (map (js_plus base) xs)"
  by (simp add: tensor_offsets_def)

text \<open>Where the tensors are in a file whose data start at \<open>base\<close>.\<close>

fun positions :: "nat \<Rightarrow> (string \<times> byte list) list \<Rightarrow> metadata" where
  "positions a [] = []"
| "positions a ((k, d) # r) = (k, [Num (Fin (of_nat a)), Num (Fin (of_nat (a + length d)))]) # positions (a + length d) r"

lemma with_offsets_entries:
  "b + a + length (concat (map snd ts)) \<le> 2 ^ 53 \<Longrightarrow>
   with_offsets (Fin (of_nat b)) (tensor_entries a ts) = Some (positions (b + a) ts)"
proof (induction ts arbitrary: a)
  case (Cons t ts)
  obtain k d where t: "t = (k, d)" by (cases t)
  have n: "a \<le> 2 ^ 53" "a + length d \<le> 2 ^ 53" "b + a \<le> 2 ^ 53" "b + (a + length d) \<le> 2 ^ 53"
    using Cons.prems by (simp_all add: t)
  have "with_offsets (Fin (of_nat b)) (tensor_entries (a + length d) ts) = Some (positions (b + (a + length d)) ts)"
    by (rule Cons.IH) (use Cons.prems in \<open>simp add: t\<close>)
  then show ?case
    using exact_plus[OF n(3)] exact_plus[OF n(4)]
    by (simp add: t get_offsets exact_nat[OF n(1)] exact_nat[OF n(2)] add.assoc del: of_nat_add)
qed simp

lemma positions_data:
  "distinct (map fst ts) \<Longrightarrow> (k, d) \<in> set ts \<Longrightarrow> length pre = a \<Longrightarrow>
   getTensorBuffer (pre @ concat (map snd ts)) (map_of (positions a ts) k) = Some d"
proof (induction ts arbitrary: pre a)
  case (Cons t ts)
  obtain k' d' where t: "t = (k', d')" by (cases t)
  show ?case
  proof (cases "k = k'")
    case True
    then have "d = d'" using Cons.prems(1,2) by (force simp: t)
    then show ?thesis using True Cons.prems(3) by (simp add: t getTensorBuffer_def subarray_nat del: of_nat_add)
  next
    case False
    then have "(k, d) \<in> set ts" using Cons.prems(2) by (simp add: t)
    from Cons.IH[OF _ this, of "pre @ d'" "a + length d'"] show ?thesis
      using Cons.prems(1,3) False by (simp add: t)
  qed
qed simp

lemma entries_names: "fst ` set (tensor_entries a ts) = fst ` set ts"
  by (induction a ts rule: tensor_entries.induct) auto

lemma last_pairs_distinct: "distinct (map fst xs) \<Longrightarrow> last_pairs xs = xs"
  by (induction xs rule: last_pairs.induct) auto

lemma entries_distinct: "distinct (map fst ts) \<Longrightarrow> distinct (map fst (tensor_entries a ts))"
  by (induction a ts rule: tensor_entries.induct) (auto simp: entries_names)

lemma metadata_written:
  assumes "json_parse h = Some (Obj ((''__metadata__'', v) # tensor_entries 0 ts))" and "distinct (map fst ts)"
    and "''__metadata__'' \<notin> fst ` set ts" and "length (safetensors h ts) \<le> 2 ^ 53"
  shows "getTensorMetadata json_parse (safetensors h ts) = Some (positions (8 + length h) ts)"
proof -
  define bs where "bs = safetensors h ts"
  have n: "8 + length h + length (concat (map snd ts)) \<le> 2 ^ 53" using assms(4) by (simp add: safetensors_def)
  then have h: "8 + length h \<le> 2 ^ 53" "length h \<le> 2 ^ 53" "length h < 2 ^ 64" by simp_all
  have l: "8 \<le> length bs" "take 8 bs = le64 (length h)" "take (length h) (drop 8 bs) = h"
    by (simp_all add: bs_def safetensors_def)
  have e: "(lit (of_nat (number_of_bytes (take 8 bs))) :: f64) = Fin (of_nat (length h))"
    unfolding l(2) unfolding number_of_le64[OF h(3)] by (rule exact_nat[OF h(2)])
  have f: "(lit 8 + Fin (of_nat (length h)) :: f64) = Fin (of_nat (8 + length h))"
    using exact_plus[OF h(1)] exact_nat[of 8] by simp
  have s: "subarray bs [Num (lit 8), Num (Fin (of_nat (8 + length h)))] = h"
    using subarray_nat[OF l(1), of "length h"] exact_nat[of 8] l(3) by simp
  have m: "filter (\<lambda>(k, v). k \<noteq> ''__metadata__'') (last_pairs ((''__metadata__'', v) # tensor_entries 0 ts)) = tensor_entries 0 ts"
    using assms(3) unfolding entries_names[of 0 ts, symmetric]
    by (subst last_pairs_distinct) (auto simp: entries_distinct assms(2) filter_id_conv image_iff)
  have w: "with_offsets (Fin (of_nat (8 + length h))) (tensor_entries 0 ts) = Some (positions (8 + length h) ts)"
    using with_offsets_entries[of "8 + length h" 0 ts] n by simp
  show ?thesis
    unfolding bs_def[symmetric] getTensorMetadata_def Let_def e f s using l(1) m w by (simp add: assms(1) del: last_pairs.simps of_nat_add)
qed

lemma setup_throws:
  "setupNet json_parse bs = None \<longleftrightarrow> (case getTensorMetadata json_parse bs of None \<Rightarrow> True
     | Some m \<Rightarrow> \<exists>(b, bytes, name) \<in> set weight_bufs.
         case getTensorBuffer bs (map_of m name) of None \<Rightarrow> True | Some d \<Rightarrow> bytes < length d)"
proof (cases "getTensorMetadata json_parse bs")
  case (Some m)
  have "load_weight bs m bytes name = None \<longleftrightarrow>
      (case getTensorBuffer bs (map_of m name) of None \<Rightarrow> True | Some d \<Rightarrow> bytes < length d)"
    if "(b, bytes, name) \<in> set weight_bufs" for b bytes name
    by (rule load_weight_None) (use weight_sizes that in \<open>auto simp: list_all_iff\<close>)
  then have "load_weights bs m weight_bufs = None \<longleftrightarrow> (\<exists>(b, bytes, name) \<in> set weight_bufs.
      case getTensorBuffer bs (map_of m name) of None \<Rightarrow> True | Some d \<Rightarrow> bytes < length d)"
    unfolding load_weights_None by (intro bex_cong) (auto split: prod.splits)
  then show ?thesis unfolding setupNet_def Some by simp
qed (simp add: setupNet_def)

text \<open>The device in terms of the loaded tensors.\<close>

lemma setup_device:
  assumes "setupNet json_parse bs = Some D"
  obtains m ws where "getTensorMetadata json_parse bs = Some m" and "load_weights bs m weight_bufs = Some ws"
    and "\<And>b. fmem D b = (case map_of ws b of Some xs \<Rightarrow> xs
           | None \<Rightarrow> (case map_of empty_bufs b of Some n \<Rightarrow> floats (createEmptyBuf n) | None \<Rightarrow> []))"
    and "\<And>b. imem D b = (case map_of empty_bufs b of Some n \<Rightarrow> replicate (n div 4) 0 | None \<Rightarrow> [])"
  using assms by (auto simp: setupNet_def split: bind_splits)

lemma setup_sizes:
  assumes "setupNet json_parse bs = Some D"
  shows "sized D \<and> list_all (\<lambda>(b, bytes, name). length (fmem D b) = bytes div 4 \<and> list_all is_fp (fmem D b)) weight_bufs"
proof -
  obtain m ws where m: "load_weights bs m weight_bufs = Some ws" and
    D: "\<And>b. fmem D b = (case map_of ws b of Some xs \<Rightarrow> xs
           | None \<Rightarrow> (case map_of empty_bufs b of Some n \<Rightarrow> floats (createEmptyBuf n) | None \<Rightarrow> []))"
      "\<And>b. imem D b = (case map_of empty_bufs b of Some n \<Rightarrow> replicate (n div 4) 0 | None \<Rightarrow> [])"
    using assms by (rule setup_device) (rule that)
  have dom: "fst ` set ws = fst ` set weight_bufs" using load_weights_names[OF m] by (metis list.set_map)
  have "distinct (map fst empty_bufs)" by (simp add: empty_bufs_def)
  then have "map_of empty_bufs b = Some n \<and> map_of ws b = None" if "(b, n) \<in> set empty_bufs" for b n
    using that weight_empty[OF that] dom by (simp add: map_of_eq_None_iff)
  then have "sized D" by (auto simp: sized_def list_all_iff D createEmptyBuf_def)
  moreover have "length (fmem D b) = bytes div 4 \<and> list_all is_fp (fmem D b)" if w: "(b, bytes, name) \<in> set weight_bufs" for b bytes name
  proof -
    obtain d where d: "load_weight bs m bytes name = Some d" "map_of ws b = Some (floats d)"
      using load_weights_at[OF m weight_names w] by blast
    then show ?thesis using load_weight_length[OF d(1)] by (simp add: D floats_format)
  qed
  ultimately show ?thesis by (auto simp: list_all_iff)
qed

section \<open>Properties\<close>

text \<open>
  C23: Reading back a safetensors file. If the eight bytes before the header give its length, the
  header describes tensors stored one after the other (with a metadata entry, as the writers of the
  format add it), and the file has at most 2^53 bytes, then what \<open>getTensorBuffer\<close> cuts out for
  the name of a tensor is exactly its data: nothing is lost, shifted or taken from a neighbour.
\<close>

theorem tensors_read_back:
  assumes "json_parse h = Some (Obj ((''__metadata__'', v) # tensor_entries 0 ts))" and "distinct (map fst ts)"
    and "''__metadata__'' \<notin> fst ` set ts" and "length (safetensors h ts) \<le> 2 ^ 53"
  shows "\<exists>m. getTensorMetadata json_parse (safetensors h ts) = Some m \<and>
    (\<forall>(k, d) \<in> set ts. getTensorBuffer (safetensors h ts) (map_of m k) = Some d)"
proof -
  have "getTensorBuffer (safetensors h ts) (map_of (positions (8 + length h) ts) k) = Some d" if "(k, d) \<in> set ts" for k d
    using positions_data[OF assms(2) that, of "le64 (length h) @ h"] by (simp add: safetensors_def)
  then show ?thesis using metadata_written[of json_parse h v ts, OF assms] by blast
qed

theorem tensors_read_back_witness:
  "\<exists>m. getTensorMetadata (\<lambda>_. Some (Obj ((''__metadata__'', Null) # tensor_entries 0 [(''a'', [1, 2, 3, 4]), (''b'', [5, 6, 7, 8])])))
      (safetensors [123, 125] [(''a'', [1, 2, 3, 4]), (''b'', [5, 6, 7, 8])]) = Some m \<and>
    (\<forall>(k, d) \<in> set [(''a'', [1, 2, 3, 4]), (''b'', [5, 6, 7, 8])].
      getTensorBuffer (safetensors [123, 125] [(''a'', [1, 2, 3, 4]), (''b'', [5, 6, 7, 8])]) (map_of m k) = Some d)"
  by (rule tensors_read_back) (simp_all add: safetensors_def)

text \<open>
  C24: When \<open>setupNet\<close> throws while it fills the weight buffers: exactly when the file has no
  readable header with an array of offsets for every tensor, or one of the tensors of the network is
  missing from it, or its data are longer than its buffer. Data that are too short are not noticed.
\<close>

theorem setupNet_throws:
  "setupNet json_parse bs = None \<longleftrightarrow> (case getTensorMetadata json_parse bs of None \<Rightarrow> True
     | Some m \<Rightarrow> \<exists>(b, bytes, name) \<in> set weight_bufs.
         case getTensorBuffer bs (map_of m name) of None \<Rightarrow> True | Some d \<Rightarrow> bytes < length d)"
  by (rule setup_throws)

text \<open>
  C25: The state \<open>setupNet\<close> leaves, whatever the file holds: if it does not throw, every buffer of
  the program has the size the source gives it, the weights included, and every 32-bit float in a
  weight buffer is a number of the format. The passes of an inference start from such a device.
\<close>

theorem setupNet_sizes:
  "setupNet json_parse bs = Some D \<Longrightarrow>
   sized D \<and> list_all (\<lambda>(b, bytes, name). length (fmem D b) = bytes div 4 \<and> list_all is_fp (fmem D b)) weight_bufs"
  by (rule setup_sizes)

text \<open>A header in which every tensor is empty.\<close>

definition empty_tensor :: js where
  "empty_tensor = Obj [(''data_offsets'', Arr [Num 0, Num 0])]"

definition no_tensors :: js where
  "no_tensors = Obj (map (\<lambda>w. (snd (snd w), empty_tensor)) weight_bufs)"

lemma with_offsets_same:
  assumes "list_all (\<lambda>e. snd e = v) es" and "tensor_offsets base v = Some os"
  shows "\<exists>m. with_offsets base es = Some m \<and> (\<forall>k \<in> fst ` set es. map_of m k = Some os)"
  using assms(1)
proof (induction es)
  case (Cons e es)
  then obtain m where "with_offsets base es = Some m" "\<forall>k \<in> fst ` set es. map_of m k = Some os" by auto
  then show ?case using Cons.prems assms(2) by (cases e) auto
qed simp

lemma filter_all: "list_all P xs \<Longrightarrow> list_all P (filter Q xs)"
  by (simp add: list_all_iff)

lemma last_pairs_same: "list_all P xs \<Longrightarrow> list_all P (last_pairs xs)" and last_pairs_names: "fst ` set (last_pairs xs) = fst ` set xs"
  by (induction xs rule: last_pairs.induct) auto

lemma nothing_metadata:
  "\<exists>m. getTensorMetadata (\<lambda>_. Some no_tensors) (safetensors [123, 125] []) = Some m \<and>
     (\<forall>(b, bytes, name) \<in> set weight_bufs. getTensorBuffer (safetensors [123, 125] []) (map_of m name) = Some [])"
proof -
  define bs base where "bs = safetensors [123, 125] []" and "base = (lit 8 + lit (of_nat (number_of_bytes (take 8 bs))) :: f64)"
  define es where "es = filter (\<lambda>(k, v). k \<noteq> ''__metadata__'') (last_pairs (map (\<lambda>w. (snd (snd w), empty_tensor)) weight_bufs))"
  have "list_all (\<lambda>e. snd e = empty_tensor) (map (\<lambda>w. (snd (snd w), empty_tensor)) weight_bufs)" by (simp add: list_all_iff)
  then have same: "list_all (\<lambda>e. snd e = empty_tensor) es"
    unfolding es_def by (intro filter_all last_pairs_same)
  have "list_all (\<lambda>(b, bytes, name). hd name \<noteq> CHR ''_'') weight_bufs" by (simp add: weight_tables)
  then have other: "name \<noteq> ''__metadata__''" if "(b, bytes, name) \<in> set weight_bufs" for b bytes name
    using that by (auto simp: list_all_iff)
  have names: "name \<in> fst ` set es" if w: "(b, bytes, name) \<in> set weight_bufs" for b bytes name
  proof -
    have "name \<in> (snd \<circ> snd) ` set weight_bufs" using w by (rule image_eqI[rotated]) simp
    then have "name \<in> fst ` set (last_pairs (map (\<lambda>w. (snd (snd w), empty_tensor)) weight_bufs))"
      by (simp add: last_pairs_names image_image comp_def)
    then show ?thesis using other[OF w] by (auto simp: es_def image_iff)
  qed
  have o: "tensor_offsets base empty_tensor = Some [Num (base + 0), Num (base + 0)]"
    by (simp add: tensor_offsets_def empty_tensor_def)
  obtain m where m: "with_offsets base es = Some m" "\<forall>k \<in> fst ` set es. map_of m k = Some [Num (base + 0), Num (base + 0)]"
    using with_offsets_same[OF same o] by blast
  have "8 \<le> length bs" by (simp add: bs_def safetensors_def)
  then have g: "getTensorMetadata (\<lambda>_. Some no_tensors) bs = Some m"
    using m(1) unfolding getTensorMetadata_def base_def es_def by (simp add: no_tensors_def)
  have "\<forall>(b, bytes, name) \<in> set weight_bufs. getTensorBuffer bs (map_of m name) = Some []"
    using m(2) names by (fastforce simp: getTensorBuffer_def subarray_def)
  then show ?thesis using g unfolding bs_def by blast
qed

lemma loaded_nothing:
  obtains D where "setupNet (\<lambda>_. Some no_tensors) (safetensors [123, 125] []) = Some D"
    and "\<And>b. list_all (\<lambda>v. v = 0) (fmem D b)"
proof -
  define bs where "bs = safetensors [123, 125] []"
  obtain m where m: "getTensorMetadata (\<lambda>_. Some no_tensors) bs = Some m"
      and e: "\<And>b bytes name. (b, bytes, name) \<in> set weight_bufs \<Longrightarrow> getTensorBuffer bs (map_of m name) = Some []"
    using nothing_metadata unfolding bs_def by blast
  have "\<not> (\<exists>(b, bytes, name) \<in> set weight_bufs.
         case getTensorBuffer bs (map_of m name) of None \<Rightarrow> True | Some d \<Rightarrow> bytes < length d)"
    using e by auto
  then obtain D where D: "setupNet (\<lambda>_. Some no_tensors) bs = Some D"
    using setup_throws[of "\<lambda>_. Some no_tensors" bs] m by auto
  then obtain m' ws where m': "getTensorMetadata (\<lambda>_. Some no_tensors) bs = Some m'" and ws: "load_weights bs m' weight_bufs = Some ws"
      "\<And>b. fmem D b = (case map_of ws b of Some xs \<Rightarrow> xs
           | None \<Rightarrow> (case map_of empty_bufs b of Some n \<Rightarrow> floats (createEmptyBuf n) | None \<Rightarrow> []))"
    by (rule setup_device) (rule that)
  have "m' = m" using m m' by simp
  have "list_all (\<lambda>v. v = 0) xs" if xs: "map_of ws b = Some xs" for b xs
  proof -
    have "b \<in> fst ` set weight_bufs"
      using map_of_SomeD[OF xs] load_weights_names[OF ws(1)] by (metis fst_conv image_eqI list.set_map)
    then obtain bytes name where w: "(b, bytes, name) \<in> set weight_bufs" by auto
    obtain d where d: "load_weight bs m bytes name = Some d" "xs = floats d"
      using load_weights_at[OF ws(1) weight_names w] xs \<open>m' = m\<close> by auto
    then show ?thesis using e[OF w] by (auto simp: load_weight_def createWeightBuf_def floats_zero list_all_iff split: if_splits)
  qed
  then have "list_all (\<lambda>v. v = 0) (fmem D b)" for b
    by (auto simp: ws(2) createEmptyBuf_def floats_zero list_all_iff split: option.splits)
  then show thesis using D that unfolding bs_def by blast
qed

theorem setupNet_sizes_witness:
  "\<exists>D. setupNet (\<lambda>_. Some no_tensors) (safetensors [123, 125] []) = Some D \<and>
    sized D \<and> list_all (\<lambda>(b, bytes, name). length (fmem D b) = bytes div 4 \<and> list_all is_fp (fmem D b)) weight_bufs"
  by (rule loaded_nothing) (use setupNet_sizes in blast)

end
