(* ===== verification/Backbone.thy ===== *)
theory Backbone
  imports Joining Pointwise80 Pointwise40 Pointwise20 Logits Windows160 Windows80 Windows40 Windows20 LayerPasses Weights
begin

text \<open>
  The network that passes 3 and 7 to 84 of \<open>server/cherum/static/net.js\<close> compute: the shaders of
  the list \<open>kernels\<close>, the layers with their buffers in the order of the passes, and the
  proof that the passes compute the layers, whatever the schedule.
\<close>

section \<open>Shaders by name\<close>

definition net_shaders :: "(f32 \<Rightarrow> f32) \<Rightarrow> (f32 \<Rightarrow> f32) \<Rightarrow> (string \<times> shader) list" where
  "net_shaders exp2 fsqrt =
   [(''r_4_40_5_8_16_3_4_4_3_3'', r_4_40_5_8_16_3_4_4_3_3_shader exp2 fsqrt),
    (''r_8_10_5_16_8_16_4_4_3_3'', r_8_10_5_16_8_16_4_4_3_3_shader exp2 fsqrt),
    (''r_400_8_16_4_4_32'', r_400_8_16_4_4_32_shader exp2 fsqrt),
    (''r_4_10_5_16_8_16_4_4_3_3'', r_4_10_5_16_8_16_4_4_3_3_shader exp2 fsqrt),
    (''r_4_10_5_16_8_16_4_4_3_3n1'', r_4_10_5_16_8_16_4_4_3_3n1_shader exp2 fsqrt),
    (''E_6_400_8_16_4'', E_6_400_8_16_4_shader),
    (''r_400_8_16_12_4_4_4'', r_400_8_16_12_4_4_4_shader exp2 fsqrt),
    (''r_8_5_5_2_16_4_32_4_4_3_3'', r_8_5_5_2_16_4_32_4_4_3_3_shader exp2 fsqrt),
    (''r_2_100_8_16_16_4_4_4'', r_2_100_8_16_16_4_4_4_shader exp2 fsqrt),
    (''r_4_5_5_2_16_4_32_4_4_3_3'', r_4_5_5_2_16_4_32_4_4_3_3_shader exp2 fsqrt),
    (''r_4_5_5_2_16_4_32_4_4_3_3n1'', r_4_5_5_2_16_4_32_4_4_3_3n1_shader exp2 fsqrt),
    (''r_4_5_5_2_16_4_32_4_4_3_3n2'', r_4_5_5_2_16_4_32_4_4_3_3n2_shader exp2 fsqrt),
    (''r_4_5_5_2_16_4_32_4_4_3_3n3'', r_4_5_5_2_16_4_32_4_4_3_3n3_shader exp2 fsqrt),
    (''E_16_100_8_16_4'', E_16_100_8_16_4_shader),
    (''r_2_100_8_16_32_4_4_4'', r_2_100_8_16_32_4_4_4_shader exp2 fsqrt),
    (''r_4_5_5_8_8_2_64_4_4_3_3'', r_4_5_5_8_8_2_64_4_4_3_3_shader exp2 fsqrt),
    (''r_4_25_8_16_32_4_4_4'', r_4_25_8_16_32_4_4_4_shader exp2 fsqrt),
    (''r_2_5_5_8_8_2_64_4_4_3_3'', r_2_5_5_8_8_2_64_4_4_3_3_shader exp2 fsqrt),
    (''r_2_5_5_8_8_2_64_4_4_3_3n1'', r_2_5_5_8_8_2_64_4_4_3_3n1_shader exp2 fsqrt),
    (''r_2_5_5_8_8_2_64_4_4_3_3n2'', r_2_5_5_8_8_2_64_4_4_3_3n2_shader exp2 fsqrt),
    (''r_2_5_5_8_8_2_64_4_4_3_3n3'', r_2_5_5_8_8_2_64_4_4_3_3n3_shader exp2 fsqrt),
    (''E_32_25_8_16_4'', E_32_25_8_16_4_shader),
    (''r_4_25_8_16_64_4_4_4'', r_4_25_8_16_64_4_4_4_shader exp2 fsqrt),
    (''r_2_5_5_32_4_128_4_4_3_3'', r_2_5_5_32_4_128_4_4_3_3_shader exp2 fsqrt),
    (''r_2_25_32_4_64_4_4_4'', r_2_25_32_4_64_4_4_4_shader exp2 fsqrt),
    (''r_5_5_32_4_128_4_4_3_3'', r_5_5_32_4_128_4_4_3_3_shader exp2 fsqrt),
    (''r_5_5_32_4_128_4_4_3_3n1'', r_5_5_32_4_128_4_4_3_3n1_shader exp2 fsqrt),
    (''E_12_25_32_4_4'', E_12_25_32_4_4_shader),
    (''r_2_25_32_4_96_4_4_4'', r_2_25_32_4_96_4_4_4_shader exp2 fsqrt),
    (''r_25_32_4_64_4_4_4'', r_25_32_4_64_4_4_4_shader exp2 fsqrt),
    (''r_4_5_5_32_4_5_4_5'', r_4_5_5_32_4_5_4_5_shader),
    (''E_16_25_32_4_4'', E_16_25_32_4_4_shader),
    (''r_2_25_32_4_128_4_4_4'', r_2_25_32_4_128_4_4_4_shader exp2 fsqrt),
    (''E_48_5_5_8_8_2_4'', E_48_5_5_8_8_2_4_shader),
    (''r_4_25_8_16_96_4_4_4'', r_4_25_8_16_96_4_4_4_shader exp2 fsqrt),
    (''E_24_25_8_16_4'', E_24_25_8_16_4_shader),
    (''r_4_25_8_16_48_4_4_4'', r_4_25_8_16_48_4_4_4_shader exp2 fsqrt),
    (''E_96_5_5_2_16_4_4'', E_96_5_5_2_16_4_4_shader),
    (''r_2_100_8_16_48_4_4_4'', r_2_100_8_16_48_4_4_4_shader exp2 fsqrt),
    (''E_12_100_8_16_4'', E_12_100_8_16_4_shader),
    (''r_2_100_8_16_24_4_4_4'', r_2_100_8_16_24_4_4_4_shader exp2 fsqrt),
    (''r_8_5_5_2_16_4_64_4_4_3_3'', r_8_5_5_2_16_4_64_4_4_3_3_shader exp2 fsqrt),
    (''r_2_5_5_8_8_2_64_4_4_3_3n4'', r_2_5_5_8_8_2_64_4_4_3_3n4_shader exp2 fsqrt),
    (''E_24_25_8_16_4n1'', E_24_25_8_16_4n1_shader),
    (''r_2_100_8_16_16_4_4_4n1'', r_2_100_8_16_16_4_4_4n1_shader),
    (''r_59_100_16_16_4_4'', r_59_100_16_16_4_4_shader),
    (''r_2_5_5_8_8_2_128_4_4_3_3'', r_2_5_5_8_8_2_128_4_4_3_3_shader exp2 fsqrt),
    (''r_5_5_32_4_128_4_4_3_3n2'', r_5_5_32_4_128_4_4_3_3n2_shader exp2 fsqrt),
    (''E_12_25_32_4_4n1'', E_12_25_32_4_4n1_shader),
    (''r_2_25_8_16_16_4_4_4'', r_2_25_8_16_16_4_4_4_shader),
    (''r_59_25_16_16_4_4'', r_59_25_16_16_4_4_shader),
    (''r_5_5_32_4_128_4_4_3_3n3'', r_5_5_32_4_128_4_4_3_3n3_shader exp2 fsqrt),
    (''r_5_5_16_4_256_4_4_3_3'', r_5_5_16_4_256_4_4_3_3_shader exp2 fsqrt),
    (''r_5_5_16_4_64_4_4_3_3'', r_5_5_16_4_64_4_4_3_3_shader exp2 fsqrt),
    (''r_25_16_4_16_4_4_4'', r_25_16_4_16_4_4_4_shader),
    (''r_59_25_4_16_4_4'', r_59_25_4_16_4_4_shader)]"

text \<open>The passes only ask for names in the list.\<close>

definition net_shader :: "(f32 \<Rightarrow> f32) \<Rightarrow> (f32 \<Rightarrow> f32) \<Rightarrow> string \<Rightarrow> shader" where
  "net_shader exp2 fsqrt n = (case map_of (net_shaders exp2 fsqrt) n of Some s \<Rightarrow> s | None \<Rightarrow> FShader (0, 0, 0) (\<lambda>f i g l. []))"

lemma shader_names: "distinct (map fst (net_shaders exp2 fsqrt))"
  by (simp add: net_shaders_def)

lemma net_shader_table: "list_all (\<lambda>(n, s). net_shader exp2 fsqrt n = s) (net_shaders exp2 fsqrt)"
  using shader_names by (auto simp: list_all_iff net_shader_def)

lemmas net_shader_simps = net_shader_table[unfolded net_shaders_def list.pred_inject prod.case]

lemmas shaders_compute =
  r_4_40_5_8_16_3_4_4_3_3_computes r_8_10_5_16_8_16_4_4_3_3_computes r_400_8_16_4_4_32_computes
  r_4_10_5_16_8_16_4_4_3_3_computes r_4_10_5_16_8_16_4_4_3_3n1_computes E_6_400_8_16_4_computes
  r_400_8_16_12_4_4_4_computes r_8_5_5_2_16_4_32_4_4_3_3_computes r_2_100_8_16_16_4_4_4_computes
  r_4_5_5_2_16_4_32_4_4_3_3_computes r_4_5_5_2_16_4_32_4_4_3_3n1_computes r_4_5_5_2_16_4_32_4_4_3_3n2_computes
  r_4_5_5_2_16_4_32_4_4_3_3n3_computes E_16_100_8_16_4_computes r_2_100_8_16_32_4_4_4_computes
  r_4_5_5_8_8_2_64_4_4_3_3_computes r_4_25_8_16_32_4_4_4_computes r_2_5_5_8_8_2_64_4_4_3_3_computes
  r_2_5_5_8_8_2_64_4_4_3_3n1_computes r_2_5_5_8_8_2_64_4_4_3_3n2_computes r_2_5_5_8_8_2_64_4_4_3_3n3_computes
  E_32_25_8_16_4_computes r_4_25_8_16_64_4_4_4_computes r_2_5_5_32_4_128_4_4_3_3_computes
  r_2_25_32_4_64_4_4_4_computes r_5_5_32_4_128_4_4_3_3_computes r_5_5_32_4_128_4_4_3_3n1_computes
  E_12_25_32_4_4_computes r_2_25_32_4_96_4_4_4_computes r_25_32_4_64_4_4_4_computes r_4_5_5_32_4_5_4_5_computes
  E_16_25_32_4_4_computes r_2_25_32_4_128_4_4_4_computes E_48_5_5_8_8_2_4_computes r_4_25_8_16_96_4_4_4_computes
  E_24_25_8_16_4_computes r_4_25_8_16_48_4_4_4_computes E_96_5_5_2_16_4_4_computes
  r_2_100_8_16_48_4_4_4_computes E_12_100_8_16_4_computes r_2_100_8_16_24_4_4_4_computes
  r_8_5_5_2_16_4_64_4_4_3_3_computes r_2_5_5_8_8_2_64_4_4_3_3n4_computes E_24_25_8_16_4n1_computes
  r_2_100_8_16_16_4_4_4n1_computes r_59_100_16_16_4_4_computes r_2_5_5_8_8_2_128_4_4_3_3_computes
  r_5_5_32_4_128_4_4_3_3n2_computes E_12_25_32_4_4n1_computes r_2_25_8_16_16_4_4_4_computes
  r_59_25_16_16_4_4_computes r_5_5_32_4_128_4_4_3_3n3_computes r_5_5_16_4_256_4_4_3_3_computes
  r_5_5_16_4_64_4_4_3_3_computes r_25_16_4_16_4_4_4_computes r_59_25_4_16_4_4_computes

section \<open>The network\<close>

definition stem :: "node list" where
  "stem = [(Conv3 2 640 640 0 3, 16, 320, 320, [Buf 3, Input, Buf 4, Buf 5, Buf 6, Buf 7, Buf 8])]"

definition backbone :: "node list" where
  "backbone =
   [(Conv3 2 320 320 0 16, 32, 160, 160, [Buf 12, Buf 3, Buf 13, Buf 14, Buf 15, Buf 16, Buf 17]),
    (Conv1First 25600 32, 32, 1, 25600, [Buf 18, Buf 12, Buf 19, Buf 20, Buf 21, Buf 22, Buf 23]),
    (Conv3 1 160 160 16 16, 16, 160, 160, [Buf 24, Buf 18, Buf 25, Buf 26, Buf 27, Buf 28, Buf 29]),
    (Residual 160 160 0 16 16, 16, 160, 160, [Buf 30, Buf 18, Buf 24, Buf 31, Buf 32, Buf 33, Buf 34, Buf 35]),
    (Join 25600 [(0, 16, 0, 1), (16, 32, 0, 1), (32, 48, 32, 2)], 48, 1, 25600, [Buf 36, Buf 18, Buf 30]),
    (Conv1 25600 48, 32, 1, 25600, [Buf 18, Buf 36, Buf 37, Buf 38, Buf 39, Buf 40, Buf 41]),
    (Conv3 2 160 160 0 32, 64, 80, 80, [Buf 30, Buf 18, Buf 42, Buf 43, Buf 44, Buf 45, Buf 46]),
    (Conv1 6400 64, 64, 1, 6400, [Buf 24, Buf 30, Buf 47, Buf 48, Buf 49, Buf 50, Buf 51]),
    (Conv3 1 80 80 32 32, 32, 80, 80, [Buf 52, Buf 24, Buf 53, Buf 54, Buf 55, Buf 56, Buf 57]),
    (Residual 80 80 0 32 32, 32, 80, 80, [Buf 58, Buf 24, Buf 52, Buf 59, Buf 60, Buf 61, Buf 62, Buf 63]),
    (Conv3 1 80 80 0 32, 32, 80, 80, [Buf 52, Buf 58, Buf 64, Buf 65, Buf 66, Buf 67, Buf 68]),
    (Residual 80 80 0 32 0, 32, 80, 80, [Buf 69, Buf 58, Buf 52, Buf 70, Buf 71, Buf 72, Buf 73, Buf 74]),
    (Join 6400 [(0, 32, 0, 1), (32, 64, 0, 1), (64, 96, 64, 2), (96, 128, 96, 3)], 128, 1, 6400, [Buf 18, Buf 24, Buf 58, Buf 69]),
    (Conv1 6400 128, 64, 1, 6400, [Buf 24, Buf 18, Buf 75, Buf 76, Buf 77, Buf 78, Buf 79]),
    (Conv3 2 80 80 0 64, 128, 40, 40, [Buf 69, Buf 24, Buf 80, Buf 81, Buf 82, Buf 83, Buf 84]),
    (Conv1 1600 128, 128, 1, 1600, [Buf 58, Buf 69, Buf 85, Buf 86, Buf 87, Buf 88, Buf 89]),
    (Conv3 1 40 40 64 64, 64, 40, 40, [Buf 90, Buf 58, Buf 91, Buf 92, Buf 93, Buf 94, Buf 95]),
    (Residual 40 40 0 64 64, 64, 40, 40, [Buf 96, Buf 58, Buf 90, Buf 97, Buf 98, Buf 99, Buf 100, Buf 101]),
    (Conv3 1 40 40 0 64, 64, 40, 40, [Buf 90, Buf 96, Buf 102, Buf 103, Buf 104, Buf 105, Buf 106]),
    (Residual 40 40 0 64 0, 64, 40, 40, [Buf 107, Buf 96, Buf 90, Buf 108, Buf 109, Buf 110, Buf 111, Buf 112]),
    (Join 1600 [(0, 64, 0, 1), (64, 128, 0, 1), (128, 192, 128, 2), (192, 256, 192, 3)], 256, 1, 1600, [Buf 30, Buf 58, Buf 96, Buf 107]),
    (Conv1 1600 256, 128, 1, 1600, [Buf 58, Buf 30, Buf 113, Buf 114, Buf 115, Buf 116, Buf 117]),
    (Conv3 2 40 40 0 128, 256, 20, 20, [Buf 107, Buf 58, Buf 118, Buf 119, Buf 120, Buf 121, Buf 122]),
    (Conv1 400 256, 256, 1, 400, [Buf 96, Buf 107, Buf 123, Buf 124, Buf 125, Buf 126, Buf 127]),
    (Conv3 1 20 20 128 128, 128, 20, 20, [Buf 128, Buf 96, Buf 129, Buf 130, Buf 131, Buf 132, Buf 133]),
    (Residual 20 20 0 128 128, 128, 20, 20, [Buf 134, Buf 96, Buf 128, Buf 135, Buf 136, Buf 137, Buf 138, Buf 139]),
    (Join 400 [(0, 128, 0, 1), (128, 256, 0, 1), (256, 384, 256, 2)], 384, 1, 400, [Buf 140, Buf 96, Buf 134]),
    (Conv1 400 384, 256, 1, 400, [Buf 96, Buf 140, Buf 141, Buf 142, Buf 143, Buf 144, Buf 145]),
    (Conv1 400 256, 128, 1, 400, [Buf 134, Buf 96, Buf 146, Buf 147, Buf 148, Buf 149, Buf 150]),
    (Pool 20 20, 128, 20, 20, [Buf 128, Buf 134]),
    (Pool 20 20, 128, 20, 20, [Buf 151, Buf 128]),
    (Pool 20 20, 128, 20, 20, [Buf 152, Buf 151]),
    (Join 400 [(0, 128, 0, 1), (128, 256, 128, 2), (256, 384, 256, 3), (384, 512, 384, 4)], 512, 1, 400, [Buf 69, Buf 134, Buf 128, Buf 151, Buf 152]),
    (Conv1 400 512, 256, 1, 400, [Buf 96, Buf 69, Buf 153, Buf 154, Buf 155, Buf 156, Buf 157]),
    (Upsample 40 40 256, 384, 40, 40, [Buf 158, Buf 96, Buf 58]),
    (Conv1 1600 384, 128, 1, 1600, [Buf 58, Buf 158, Buf 159, Buf 160, Buf 161, Buf 162, Buf 163]),
    (Conv3 1 40 40 64 64, 64, 40, 40, [Buf 107, Buf 58, Buf 164, Buf 165, Buf 166, Buf 167, Buf 168]),
    (Conv3 1 40 40 0 64, 64, 40, 40, [Buf 90, Buf 107, Buf 169, Buf 170, Buf 171, Buf 172, Buf 173]),
    (Join 1600 [(0, 64, 0, 1), (64, 128, 0, 1), (128, 192, 128, 2)], 192, 1, 1600, [Buf 174, Buf 58, Buf 90]),
    (Conv1 1600 192, 128, 1, 1600, [Buf 58, Buf 174, Buf 175, Buf 176, Buf 177, Buf 178, Buf 179]),
    (Upsample 80 80 128, 192, 80, 80, [Buf 36, Buf 58, Buf 24]),
    (Conv1 6400 192, 64, 1, 6400, [Buf 24, Buf 36, Buf 180, Buf 181, Buf 182, Buf 183, Buf 184]),
    (Conv3 1 80 80 32 32, 32, 80, 80, [Buf 69, Buf 24, Buf 185, Buf 186, Buf 187, Buf 188, Buf 189]),
    (Conv3 1 80 80 0 32, 32, 80, 80, [Buf 52, Buf 69, Buf 190, Buf 191, Buf 192, Buf 193, Buf 194]),
    (Join 6400 [(0, 32, 0, 1), (32, 64, 0, 1), (64, 96, 64, 2)], 96, 1, 6400, [Buf 158, Buf 24, Buf 52]),
    (Conv1 6400 96, 64, 1, 6400, [Buf 24, Buf 158, Buf 195, Buf 196, Buf 197, Buf 198, Buf 199]),
    (Conv3 1 80 80 0 64, 64, 80, 80, [Buf 30, Buf 24, Buf 200, Buf 201, Buf 202, Buf 203, Buf 204]),
    (Conv3 1 80 80 0 64, 64, 80, 80, [Buf 205, Buf 24, Buf 206, Buf 207, Buf 208, Buf 209, Buf 210]),
    (Conv3 2 80 80 0 64, 64, 40, 40, [Buf 90, Buf 24, Buf 211, Buf 212, Buf 213, Buf 214, Buf 215]),
    (Conv3 1 80 80 0 64, 64, 80, 80, [Buf 24, Buf 30, Buf 216, Buf 217, Buf 218, Buf 219, Buf 220]),
    (Conv3 1 80 80 0 64, 64, 80, 80, [Buf 30, Buf 205, Buf 221, Buf 222, Buf 223, Buf 224, Buf 225]),
    (Join 1600 [(0, 64, 0, 1), (64, 192, 64, 2)], 192, 1, 1600, [Buf 174, Buf 90, Buf 58]),
    (Linear 6400 64, 64, 1, 6400, [Buf 205, Buf 24, Buf 226, Buf 227]),
    (Linear 6400 64, 59, 1, 6400, [Buf 228, Buf 30, Buf 229, Buf 230]),
    (Conv1 1600 192, 128, 1, 1600, [Buf 58, Buf 174, Buf 231, Buf 232, Buf 233, Buf 234, Buf 235]),
    (Conv3 1 40 40 64 64, 64, 40, 40, [Buf 90, Buf 58, Buf 236, Buf 237, Buf 238, Buf 239, Buf 240]),
    (Conv3 1 40 40 0 64, 64, 40, 40, [Buf 107, Buf 90, Buf 241, Buf 242, Buf 243, Buf 244, Buf 245]),
    (Join 1600 [(0, 64, 0, 1), (64, 128, 0, 1), (128, 192, 128, 2)], 192, 1, 1600, [Buf 174, Buf 58, Buf 107]),
    (Conv1 1600 192, 128, 1, 1600, [Buf 58, Buf 174, Buf 246, Buf 247, Buf 248, Buf 249, Buf 250]),
    (Conv3 1 40 40 0 128, 64, 40, 40, [Buf 107, Buf 58, Buf 251, Buf 252, Buf 253, Buf 254, Buf 255]),
    (Conv3 1 40 40 0 128, 64, 40, 40, [Buf 90, Buf 58, Buf 256, Buf 257, Buf 258, Buf 259, Buf 260]),
    (Conv3 2 40 40 0 128, 128, 20, 20, [Buf 152, Buf 58, Buf 261, Buf 262, Buf 263, Buf 264, Buf 265]),
    (Conv3 1 40 40 0 64, 64, 40, 40, [Buf 266, Buf 107, Buf 267, Buf 268, Buf 269, Buf 270, Buf 271]),
    (Conv3 1 40 40 0 64, 64, 40, 40, [Buf 107, Buf 90, Buf 272, Buf 273, Buf 274, Buf 275, Buf 276]),
    (Join 400 [(0, 128, 0, 1), (128, 384, 128, 2)], 384, 1, 400, [Buf 140, Buf 152, Buf 96]),
    (Linear 1600 64, 64, 1, 1600, [Buf 96, Buf 266, Buf 277, Buf 278]),
    (Linear 1600 64, 59, 1, 1600, [Buf 279, Buf 107, Buf 280, Buf 281]),
    (Conv1 400 384, 256, 1, 400, [Buf 107, Buf 140, Buf 282, Buf 283, Buf 284, Buf 285, Buf 286]),
    (Conv3 1 20 20 128 128, 128, 20, 20, [Buf 152, Buf 107, Buf 287, Buf 288, Buf 289, Buf 290, Buf 291]),
    (Conv3 1 20 20 0 128, 128, 20, 20, [Buf 151, Buf 152, Buf 292, Buf 293, Buf 294, Buf 295, Buf 296]),
    (Join 400 [(0, 128, 0, 1), (128, 256, 0, 1), (256, 384, 256, 2)], 384, 1, 400, [Buf 140, Buf 107, Buf 151]),
    (Conv1 400 384, 256, 1, 400, [Buf 107, Buf 140, Buf 297, Buf 298, Buf 299, Buf 300, Buf 301]),
    (Conv3 1 20 20 0 256, 64, 20, 20, [Buf 302, Buf 107, Buf 303, Buf 304, Buf 305, Buf 306, Buf 307]),
    (Conv3 1 20 20 0 256, 64, 20, 20, [Buf 308, Buf 107, Buf 309, Buf 310, Buf 311, Buf 312, Buf 313]),
    (Conv3 1 20 20 0 64, 64, 20, 20, [Buf 314, Buf 302, Buf 315, Buf 316, Buf 317, Buf 318, Buf 319]),
    (Conv3 1 20 20 0 64, 64, 20, 20, [Buf 302, Buf 308, Buf 320, Buf 321, Buf 322, Buf 323, Buf 324]),
    (Linear 400 64, 64, 1, 400, [Buf 308, Buf 314, Buf 325, Buf 326]),
    (Linear 400 64, 59, 1, 400, [Buf 327, Buf 302, Buf 328, Buf 329])]"

definition network :: "node list" where
  "network = stem @ backbone"

lemma stem_implemented: "list_all2 (implements exp2 fsqrt) (stem_passes (net_shader exp2 fsqrt)) stem"
  by (simp add: stem_passes_def stem_def implements_def net_shader_simps shaders_compute del: One_nat_def)

lemma backbone_implemented: "list_all2 (implements exp2 fsqrt) (backbone_passes (net_shader exp2 fsqrt)) backbone"
  by (simp add: backbone_passes_def backbone_def implements_def net_shader_simps shaders_compute del: One_nat_def)

end
