(* ===== verification/Program.thy ===== *)
theory Program
  imports Backbone
begin

text \<open>
  The whole program of \<open>server/cherum/static/net.js\<close>, from the safetensors file and the image to the
  detections: \<open>setupNet\<close> makes the buffers, the passes up to the heads compute the network, the
  others the detector.
\<close>

section \<open>The sizes of the buffers\<close>

definition buffer_sizes :: "(bufname \<times> nat) list" where
  "buffer_sizes = map (\<lambda>(b, bytes, name). (b, bytes)) weight_bufs @ empty_bufs"

definition elements :: "bufname \<Rightarrow> nat" where
  "elements b = (case map_of buffer_sizes b of Some n \<Rightarrow> n div 4 | None \<Rightarrow> 0)"

text \<open>The weight buffers have their sizes.\<close>

definition loaded :: "device \<Rightarrow> bool" where
  "loaded D \<longleftrightarrow> list_all (\<lambda>(b, bytes, name). length (fmem D b) = bytes div 4) weight_bufs"

lemma buffer_names: "distinct (map fst buffer_sizes)"
proof -
  have "map fst buffer_sizes = map fst weight_bufs @ map fst empty_bufs"
    by (simp add: buffer_sizes_def comp_def case_prod_beta)
  moreover have "set (map fst weight_bufs) \<inter> set (map fst empty_bufs) = {}" using weight_empty by fastforce
  moreover have "distinct (map fst empty_bufs)" by (simp add: empty_bufs_def)
  ultimately show ?thesis using weight_names by simp
qed

lemma elements_table: "list_all (\<lambda>(b, n). elements b = n div 4) buffer_sizes"
  using buffer_names by (auto simp: list_all_iff elements_def)

lemma elements_length:
  assumes "sized D" and "loaded D" and "0 < elements b"
  shows "length (fmem D b) = elements b"
proof -
  obtain n where n: "map_of buffer_sizes b = Some n" using assms(3) by (auto simp: elements_def split: option.splits)
  then have "(b, n) \<in> set buffer_sizes" by (rule map_of_SomeD)
  then have "length (fmem D b) = n div 4"
    using assms(1,2) by (auto simp: buffer_sizes_def sized_def loaded_def list_all_iff)
  then show ?thesis using n by (simp add: elements_def)
qed

lemmas elements_simps =
  elements_table[unfolded buffer_sizes_def weight_tables empty_bufs_def list.map append.simps list.pred_inject prod.case]

text \<open>The network stays within its buffers and does not touch those of the anchors.\<close>

definition anchor_bufs :: "bufname set" where
  "anchor_bufs = {Buf 0, Buf 1, Buf 2, Buf 9, Buf 10, Buf 11}"

definition sound_node :: "node \<Rightarrow> bool" where
  "sound_node p \<longleftrightarrow> node_fits elements p \<and> (\<forall>b\<in>touched p. 0 < elements b \<and> b \<notin> anchor_bufs)"

lemma stem_sound: "list_all sound_node stem"
  by (simp add: stem_def sound_node_def node_fits_def touched_def anchor_bufs_def elements_simps)

lemma backbone_sound: "list_all sound_node backbone"
  by (simp add: backbone_def sound_node_def node_fits_def touched_def anchor_bufs_def elements_simps)

section \<open>The passes up to the heads compute the network\<close>

lemma part_refines:
  assumes "runs ps D E" and "list_all2 (implements exp2 fsqrt) ps net" and "list_all sound_node net" and "sized D" and "loaded D"
  shows "E = D\<lparr>fmem := run_network exp2 fsqrt net (fmem D)\<rparr>"
  by (rule run_network_refines[OF assms(1,2), where z = elements])
    (use assms(3) elements_length[OF assms(4,5)] in \<open>auto simp: list_all_iff sound_node_def\<close>)

lemma part_agree:
  assumes "\<And>b. b \<notin> anchor_bufs \<Longrightarrow> m b = m' b" and "list_all sound_node net" and "b \<notin> anchor_bufs"
  shows "run_network exp2 fsqrt net m b = run_network exp2 fsqrt net m' b"
  by (rule run_network_agree[where A = "- anchor_bufs" and z = elements])
    (use assms in \<open>auto simp: list_all_iff sound_node_def\<close>)

lemma loaded_runs: "runs ps D E \<Longrightarrow> loaded D \<Longrightarrow> loaded E"
  using runs_lengths[of ps D E] by (simp add: loaded_def)

lemma run_network_append: "run_network exp2 fsqrt (p @ q) m = run_network exp2 fsqrt q (run_network exp2 fsqrt p m)"
  by (simp add: run_network_def)

lemma frame_anchor_passes:
  assumes "runs ps D E" and "set (map (\<lambda>(s, bs, G). bs ! 0) ps) \<subseteq> anchor_bufs" and "b \<notin> anchor_bufs"
  shows "fmem E b = fmem D b"
  using runs_frame[OF assms(1)] assms(2,3) by blast

lemma features_network:
  assumes "runs (feature_passes (net_shader exp2 fsqrt)) D E" and "sized D" and "loaded D" and "b \<notin> anchor_bufs"
  shows "fmem E b = run_network exp2 fsqrt network (fmem D) b"
proof -
  obtain A1 A2 A3 A4 where p: "runs anchor_passes D A1" "runs (stem_passes (net_shader exp2 fsqrt)) A1 A2" "runs stride_passes A2 A3"
      "runs index_passes A3 A4" "runs (backbone_passes (net_shader exp2 fsqrt)) A4 E"
    using assms(1) unfolding feature_passes_def runs_append by blast
  note s = sized_runs[OF p(1) assms(2)] and l = loaded_runs[OF p(1) assms(3)]
  note s2 = sized_runs[OF p(2) s] and l2 = loaded_runs[OF p(2) l]
  note s4 = sized_runs[OF p(4) sized_runs[OF p(3) s2]] and l4 = loaded_runs[OF p(4) loaded_runs[OF p(3) l2]]
  have f1: "fmem A1 c = fmem D c" if "c \<notin> anchor_bufs" for c
    by (rule frame_anchor_passes[OF p(1) _ that]) (simp add: anchor_passes_def anchor_bufs_def)
  have f3: "fmem A3 c = fmem A2 c" if "c \<notin> anchor_bufs" for c
    by (rule frame_anchor_passes[OF p(3) _ that]) (simp add: stride_passes_def anchor_bufs_def)
  have f4: "fmem A4 c = fmem A3 c" if "c \<notin> anchor_bufs" for c
    by (rule frame_anchor_passes[OF p(4) _ that]) (simp add: index_passes_def anchor_bufs_def)
  have A2: "fmem A2 c = run_network exp2 fsqrt stem (fmem D) c" if "c \<notin> anchor_bufs" for c
    unfolding part_refines[OF p(2) stem_implemented stem_sound s l] using part_agree[OF f1 stem_sound that] by simp
  have "fmem A4 c = run_network exp2 fsqrt stem (fmem D) c" if "c \<notin> anchor_bufs" for c
    using A2 f3 f4 that by simp
  then have "run_network exp2 fsqrt backbone (fmem A4) b =
      run_network exp2 fsqrt backbone (run_network exp2 fsqrt stem (fmem D)) b"
    by (rule part_agree[OF _ backbone_sound assms(4)])
  then show ?thesis
    unfolding part_refines[OF p(5) backbone_implemented backbone_sound s4 l4] network_def run_network_append by simp
qed

lemma run_network_frame:
  "list_all (\<lambda>(l, N, H, W, bs). b \<noteq> bs ! 0) net \<Longrightarrow> run_network exp2 fsqrt net m b = m b"
  by (induction net arbitrary: m) (auto simp: run_network_def)

lemma network_frame: "run_network exp2 fsqrt network m (Buf 334) = m (Buf 334)"
  by (rule run_network_frame) (simp add: network_def stem_def backbone_def)

text \<open>The device after the network, up to the buffers of the anchors.\<close>

definition after_network :: "(f32 \<Rightarrow> f32) \<Rightarrow> (f32 \<Rightarrow> f32) \<Rightarrow> device \<Rightarrow> device" where
  "after_network exp2 fsqrt D = D\<lparr>fmem := run_network exp2 fsqrt network (fmem D)\<rparr>"

definition head_bufs :: "bufname set" where
  "head_bufs = {Buf 205, Buf 96, Buf 308, Buf 228, Buf 279, Buf 327, Buf 334}"

lemma heads_apart: "b \<in> head_bufs \<Longrightarrow> b \<notin> anchor_bufs"
  by (auto simp: head_bufs_def anchor_bufs_def)

lemma heads_determined:
  assumes "\<And>b. b \<in> head_bufs \<Longrightarrow> fmem E b = fmem E' b"
  shows "heads_calm E = heads_calm E'" and "probabilities exp2 E = probabilities exp2 E'" and "corners exp2 E = corners exp2 E'"
proof -
  have b: "fmem E b = fmem E' b" if "b \<in> {Buf 205, Buf 96, Buf 308, Buf 228, Buf 279, Buf 327, Buf 334}" for b
    using assms that by (auto simp: head_bufs_def)
  then show "heads_calm E = heads_calm E'" by (simp add: heads_calm_def)
  show "probabilities exp2 E = probabilities exp2 E'" by (simp add: probabilities_def class_logit_def b)
  have "side_logit E = side_logit E'" by (simp add: fun_eq_iff side_logit_def b)
  then have s: "side_logit E p a = side_logit E' p a" for p a by simp
  have "distance exp2 E = distance exp2 E'" unfolding fun_eq_iff distance_def s by (simp add: b)
  then show "corners exp2 E = corners exp2 E'" by (intro ext) (simp add: corners_def)
qed

section \<open>A network of zeros\<close>

text \<open>With an image and weights of zeros every layer gives zeros, of either sign.\<close>

definition null :: "f32 \<Rightarrow> bool" where
  "null v \<longleftrightarrow> v = 0 \<or> v = NZero"

lemma null_simps [simp]: "null 0" "null NZero" "null (zero_of s)"
  by (simp_all add: null_def zero_of_def zero_fp_def)

lemma null_fields: "null v \<Longrightarrow> is_fin v \<and> val v = 0 \<and> is_fp v \<and> \<not> is_nan v \<and> \<not> is_inf v"
  by (auto simp: null_def zero_fp_def)

lemma null_plus: "null a \<Longrightarrow> null b \<Longrightarrow> null (a + b)"
  using null_fields[of a] null_fields[of b] by (simp add: plus_fp_def)

lemma null_times: "null a \<Longrightarrow> is_fin b \<Longrightarrow> null (a * b)" and null_times': "is_fin a \<Longrightarrow> null b \<Longrightarrow> null (a * b)"
  using null_fields[of a] null_fields[of b] by (auto simp: times_fp_def is_fin_def)

lemma null_fold:
  assumes "null z" and "\<And>c s. null s \<Longrightarrow> null (f c s)"
  shows "null (fold f cs z)"
  using assms(1) by (induction cs arbitrary: z) (simp_all add: assms(2))

text \<open>What is asked of the functions of the GPU: of the root only that it is not zero where it divides.\<close>

definition tame :: "(f32 \<Rightarrow> f32) \<Rightarrow> (f32 \<Rightarrow> f32) \<Rightarrow> bool" where
  "tame exp2 fsqrt \<longleftrightarrow> exp_like exp2 \<and> (\<forall>v. null v \<longrightarrow> is_fin (1 / fsqrt (v + lit (1 / 1000))))"

lemma null_between: "null v \<Longrightarrow> l \<le> 0 \<Longrightarrow> 0 \<le> u \<Longrightarrow> between l u v"
  using null_fields[of v] by (simp add: between_def)

lemma null_sigmoid: "exp_like exp2 \<Longrightarrow> null v \<Longrightarrow> is_fin (sigmoid exp2 v)"
  using betweenD(2)[OF sigmoid_bounds[OF _ null_between]] by simp

lemma null_silu: "tame exp2 fsqrt \<Longrightarrow> null v \<Longrightarrow> null (silu exp2 v)"
  unfolding silu_def by (intro null_times) (auto simp: tame_def null_sigmoid)

lemma null_minus: "null a \<Longrightarrow> null b \<Longrightarrow> null (a - b)"
proof -
  assume "null b"
  then have "null (- b)" by (auto simp: null_def zero_fp_def)
  then show "null a \<Longrightarrow> null (a - b)" by (simp add: minus_fp_def null_plus)
qed

lemma null_fin: "null a \<Longrightarrow> is_fin a"
  using null_fields by blast

lemma null_norm:
  assumes "tame exp2 fsqrt" and "null s" and "null (m k)" and "null (g k)" and "null (v k)" and "null (b k)"
  shows "null (batch_norm fsqrt m g v b k s)"
  unfolding batch_norm_def using assms
  by (intro null_plus null_times null_minus) (auto simp: tame_def null_fin)

lemma null_window:
  assumes "\<And>j. null (x j)" and "\<And>j. null (w j)"
  shows "null (window s H W P C x w k y z)"
  unfolding window_def
  by (intro null_fold null_plus null_times null_simps(1)) (auto simp: pixel_def assms null_fin)

lemma null_sum: "(\<And>j. null (x j)) \<Longrightarrow> (\<And>j. null (w j)) \<Longrightarrow> null (pointwise S C x w k p)" and
  null_sum_first: "(\<And>j. null (x j)) \<Longrightarrow> (\<And>j. null (w j)) \<Longrightarrow> null (pointwise_first S C x w k p)"
  unfolding pointwise_def pointwise_first_def product_def
  by (auto intro!: null_fold null_plus null_times null_fin)

lemma null_concatenation: "(\<And>n j. null (f n j)) \<Longrightarrow> null (concatenation S f ps k p)"
  by (cases ps) (auto intro!: null_fold null_plus simp: part_value_def)

lemma null_upsample: "(\<And>j. null (x j)) \<Longrightarrow> (\<And>j. null (r j)) \<Longrightarrow> null (upsample H W K x r k y z)"
  unfolding upsample_def by (intro null_plus) auto

lemma null_pool:
  assumes "\<And>j. null (x j)"
  shows "null (pool H W x c y z)"
proof -
  have m: "null (margin H W x c r k)" for r k by (simp add: margin_def assms)
  have l: "null (larger a v)" if "a = - INFINITY \<or> null a" "null v" for a v
    using that by (auto simp: larger_def select_def null_def less_fp_def zero_fp_def)
  have *: "fold f cs a = - INFINITY \<or> null (fold f cs a)" if "a = - INFINITY \<or> null a" "\<And>c a. a = - INFINITY \<or> null a \<Longrightarrow> null (f c a)" for f :: "nat \<Rightarrow> f32 \<Rightarrow> f32" and cs a
    using that(1) by (induction cs arbitrary: a) (simp_all add: that(2))
  have "null (fold f (c # cs) a)" if "a = - INFINITY \<or> null a" "\<And>c a. a = - INFINITY \<or> null a \<Longrightarrow> null (f c a)" for f :: "nat \<Rightarrow> f32 \<Rightarrow> f32" and c cs a
    using null_fold[of "f c a" f cs] that by simp
  then show ?thesis unfolding pool_def upto_5 by (auto simp: l m)
qed

lemma null_layer: "tame exp2 fsqrt \<Longrightarrow> (\<And>n j. null (f n j)) \<Longrightarrow> null (layer_value exp2 fsqrt l f k y z)"
  by (cases l) (auto intro!: null_silu null_norm null_window null_sum null_sum_first null_concatenation null_upsample null_pool null_plus)

lemma null_elem: "list_all null xs \<Longrightarrow> null (elem xs j)"
  by (simp add: elem_def list_all_length)

lemma null_network:
  assumes "tame exp2 fsqrt" and "\<And>b. list_all null (m b)"
  shows "list_all null (run_network exp2 fsqrt net m b)"
  using assms(2)
proof (induction net arbitrary: m)
  case (Cons p net)
  obtain l N H W bs where p: "p = (l, N, H, W, bs)" by (cases p)
  have "list_all null (run_layer exp2 fsqrt p m c)" for c
    using Cons.prems by (auto simp: p layer_list_def tensor_at_def list_all_iff[of _ "map _ _"] intro!: null_layer assms(1) null_elem)
  then show ?case using Cons.IH by (simp add: run_network_def)
qed (simp add: run_network_def)

text \<open>A root that serves in the examples: it is one on everything.\<close>

definition flat_root :: "f32 \<Rightarrow> f32" where
  "flat_root v = 1"

lemma flat_root_tame: "tame floor_exp flat_root"
proof -
  have "is_fp (Fin 1 :: f32)" using is_fp_f32_of_int[of 1] by simp
  then have "is_fin (1 / 1 :: f32)" using rnd_exact[of 1, where 'p = 24 and 'w = 8] by (simp add: divide_fp_def one_fp_def)
  then show ?thesis by (simp add: tame_def floor_exp_like flat_root_def)
qed

section \<open>Properties\<close>

text \<open>
  C5: The passes up to the heads implement the network. From a device with the sizes of \<open>setupNet\<close>,
  whatever the order in which the GPU runs the invocations of each dispatch, the six feature maps the
  heads start from are exactly those of \<open>network\<close>: the convolutions, normalisations, activations,
  residual sums, concatenations, poolings and upsamplings of the 79 layers, each computed from the list
  of planes of its inputs with the order of additions of the shaders.
\<close>

theorem features_refine:
  assumes "runs (feature_passes (net_shader exp2 fsqrt)) D E" and "sized D" and "loaded D"
  shows "list_all (\<lambda>b. fmem E b = run_network exp2 fsqrt network (fmem D) b)
    [Buf 205, Buf 96, Buf 308, Buf 228, Buf 279, Buf 327]"
  using features_network[OF assms] by (simp add: anchor_bufs_def)

lemma setup_loaded: "setupNet json_parse bs = Some D \<Longrightarrow> sized D \<and> loaded D"
  using setup_sizes[of json_parse bs D] by (auto simp: loaded_def list_all_iff)

text \<open>The device with an image in its input buffer.\<close>

definition with_image :: "f32 list \<Rightarrow> device \<Rightarrow> device" where
  "with_image pixels D = D\<lparr>fmem := (fmem D)(Input := pixels)\<rparr>"

lemma sized_input: "sized D \<Longrightarrow> length (fmem D Input) = 1228800"
  by (simp add: sized_def empty_bufs_def)

lemma image_sized: "length pixels = 1228800 \<Longrightarrow> sized D \<Longrightarrow> sized (with_image pixels D)"
  using sized_input[of D] unfolding sized_def by (fastforce simp: with_image_def list_all_iff)

lemma image_loaded: "loaded D \<Longrightarrow> loaded (with_image pixels D)"
  using weight_kinds unfolding loaded_def by (fastforce simp: with_image_def list_all_iff split: bufname.splits)

lemma null_start:
  obtains D where "setupNet (\<lambda>_. Some no_tensors) (safetensors [123, 125] []) = Some D"
    and "\<And>pixels. list_all null pixels \<Longrightarrow> heads_calm (after_network floor_exp flat_root (with_image pixels D))"
proof (rule loaded_nothing)
  fix D assume D: "setupNet (\<lambda>_. Some no_tensors) (safetensors [123, 125] []) = Some D"
    and z: "\<And>b. list_all (\<lambda>v. v = 0) (fmem D b)"
  have "heads_calm (after_network floor_exp flat_root (with_image pixels D))" if i: "list_all null pixels" for pixels
  proof -
    let ?m = "run_network floor_exp flat_root network (fmem (with_image pixels D))"
    have "list_all null (fmem (with_image pixels D) b)" for b using z[of b] i by (auto simp: with_image_def list_all_iff)
    then have n: "list_all null (?m b)" for b by (rule null_network[OF flat_root_tame])
    have "loaded (with_image pixels D)" using setup_loaded[OF D] by (simp add: image_loaded)
    moreover have "(Buf 334, 64, ''head.dfl.conv.weight'') \<in> set weight_bufs" by (simp add: weight_tables)
    ultimately have "length (?m (Buf 334)) = 16" by (auto simp: network_frame loaded_def list_all_iff)
    then show ?thesis using n by (auto simp: heads_calm_def after_network_def list_all_iff intro!: null_between)
  qed
  then show thesis using that D by blast
qed

lemma blank_start:
  obtains D where "setupNet (\<lambda>_. Some no_tensors) (safetensors [123, 125] []) = Some D"
    and "sized (with_image (replicate 1228800 0) D)" and "loaded (with_image (replicate 1228800 0) D)"
    and "heads_calm (after_network floor_exp flat_root (with_image (replicate 1228800 0) D))"
proof (rule null_start)
  fix D assume D: "setupNet (\<lambda>_. Some no_tensors) (safetensors [123, 125] []) = Some D"
    and h: "\<And>pixels. list_all null pixels \<Longrightarrow> heads_calm (after_network floor_exp flat_root (with_image pixels D))"
  have "list_all null (replicate 1228800 0)" by (simp add: list_all_iff)
  then show thesis using that D h setup_loaded[OF D] by (simp add: image_sized image_loaded)
qed

theorem features_refine_witness:
  "\<exists>D E. runs (feature_passes (net_shader floor_exp flat_root)) (with_image (replicate 1228800 0) D) E \<and>
    list_all (\<lambda>b. fmem E b = run_network floor_exp flat_root network (fmem (with_image (replicate 1228800 0) D)) b)
      [Buf 205, Buf 96, Buf 308, Buf 228, Buf 279, Buf 327]"
proof (rule blank_start)
  fix D assume D: "sized (with_image (replicate 1228800 0) D)" "loaded (with_image (replicate 1228800 0) D)"
  obtain E where "runs (feature_passes (net_shader floor_exp flat_root)) (with_image (replicate 1228800 0) D) E"
    using runs_total by blast
  then show ?thesis using features_refine[OF _ D] by blast
qed

text \<open>Rows that are the detections of the abstract detector on the heads of a device.\<close>

definition detected_rows :: "(f32 \<Rightarrow> f32) \<Rightarrow> device \<Rightarrow> f32 list \<Rightarrow> bool" where
  "detected_rows exp2 E rows \<longleftrightarrow> (\<exists>\<pi>. ranking (conf (elem (probabilities exp2 E))) 8400 \<pi> \<and>
     rows = detections (candidate (elem (probabilities exp2 E)) (\<lambda>n. elem (corners exp2 E n))) \<pi>)"

lemma device_refines:
  assumes "sized D" and "loaded D" and "runs (inference (net_shader exp2 fsqrt) exp2) D D'"
    and "heads_calm (after_network exp2 fsqrt D)" and "exp_like exp2"
  shows "detected_rows exp2 (after_network exp2 fsqrt D) (fmem D' Output)"
proof -
  let ?E = "after_network exp2 fsqrt D"
  obtain E where E: "runs (feature_passes (net_shader exp2 fsqrt)) D E" "runs (detection_passes exp2) E D'"
    using assms(3) unfolding inference_def runs_append by blast
  have "fmem E b = fmem ?E b" if "b \<in> head_bufs" for b
    using features_network[OF E(1) assms(1,2) heads_apart[OF that]] by (simp add: after_network_def)
  note h = heads_determined[of E ?E, OF this]
  have "heads_calm E" using assms(4) h(1) by simp
  then show ?thesis
    using detection_result[OF E(2) sized_runs[OF E(1) assms(1)] features_constants[OF E(1) assms(1)] _ assms(5)]
    by (simp add: detected_rows_def h(2,3))
qed

text \<open>
  C1: The whole program, from the bytes of the weights and the pixels of the image to the rows of the
  detections. If \<open>setupNet\<close> does not throw and the network keeps the logits within 64 of zero, then
  after an inference, in whatever order the GPU runs the invocations, the output holds the detections
  of the abstract detector on the logits of the abstract network: the 300 best anchors by thresholded
  class probability with their decoded corners, score and class, and zero where a better box of the
  class overlaps.
\<close>

theorem program_refines:
  assumes "setupNet json_parse bs = Some D" and "length pixels = 1228800"
    and "runs (inference (net_shader exp2 fsqrt) exp2) (with_image pixels D) D'"
    and "heads_calm (after_network exp2 fsqrt (with_image pixels D))" and "exp_like exp2"
  shows "detected_rows exp2 (after_network exp2 fsqrt (with_image pixels D)) (fmem D' Output)"
  using device_refines[OF _ _ assms(3-5)] setup_loaded[OF assms(1)] assms(2) by (simp add: image_sized image_loaded)

theorem program_refines_witness:
  "\<exists>D D'. setupNet (\<lambda>_. Some no_tensors) (safetensors [123, 125] []) = Some D \<and>
    runs (inference (net_shader floor_exp flat_root) floor_exp) (with_image (replicate 1228800 0) D) D' \<and>
    detected_rows floor_exp (after_network floor_exp flat_root (with_image (replicate 1228800 0) D)) (fmem D' Output)"
proof (rule blank_start)
  fix D assume D: "setupNet (\<lambda>_. Some no_tensors) (safetensors [123, 125] []) = Some D"
    and h: "heads_calm (after_network floor_exp flat_root (with_image (replicate 1228800 0) D))"
  obtain D' where r: "runs (inference (net_shader floor_exp flat_root) floor_exp) (with_image (replicate 1228800 0) D) D'"
    using runs_total by blast
  from program_refines[OF D length_replicate r h floor_exp_like] show ?thesis using D r by blast
qed

end
