(* ===== verification/Calls.thy ===== *)
theory Calls
  imports Program
begin

text \<open>
  The function \<open>setupNet\<close> of \<open>server/cherum/static/net.js\<close> returns: it takes an image through a staging buffer
  to the input of the network, runs the passes, and reads the output back. A sequence of its calls on one device.
\<close>

section \<open>Calls\<close>

text \<open>The device, and the staging buffer \<open>gpuWriteBuffer0\<close> with its mapping.\<close>

record net =
  net_device :: device
  staging :: "f32 list"
  staging_mapped :: bool

definition open_net :: "device \<Rightarrow> net" where
  "open_net D = \<lparr>net_device = D, staging = replicate 1228800 0, staging_mapped = False\<rparr>"

text \<open>
  A call with the numbers \<open>xs\<close>, and its result, none if it throws. The staging buffer cannot be mapped twice;
  \<open>set\<close> throws before it writes if there are more numbers than the range holds, and leaves the buffer mapped;
  if there are fewer the rest of the range stays as it was.
\<close>

inductive call_net :: "(string \<Rightarrow> shader) \<Rightarrow> (f32 \<Rightarrow> f32) \<Rightarrow> f32 list \<Rightarrow> net \<Rightarrow> f32 list option \<Rightarrow> net \<Rightarrow> bool"
  for K :: "string \<Rightarrow> shader" and exp2 :: "f32 \<Rightarrow> f32" where
  busy: "staging_mapped s \<Longrightarrow> call_net K exp2 xs s None s"
| too_long: "\<not> staging_mapped s \<Longrightarrow> length (staging s) < length xs \<Longrightarrow> call_net K exp2 xs s None (s\<lparr>staging_mapped := True\<rparr>)"
| answered: "\<not> staging_mapped s \<Longrightarrow> length xs \<le> length (staging s) \<Longrightarrow> zs = xs @ drop (length xs) (staging s) \<Longrightarrow>
    runs (inference K exp2) (with_image zs (net_device s)) D' \<Longrightarrow>
    call_net K exp2 xs s (Some (fmem D' Output)) (s\<lparr>net_device := D', staging := zs\<rparr>)"

text \<open>Calls one after the other, with their inputs and results.\<close>

inductive calls_net :: "(string \<Rightarrow> shader) \<Rightarrow> (f32 \<Rightarrow> f32) \<Rightarrow> net \<Rightarrow> (f32 list \<times> f32 list option) list \<Rightarrow> net \<Rightarrow> bool"
  for K :: "string \<Rightarrow> shader" and exp2 :: "f32 \<Rightarrow> f32" where
  no_call: "calls_net K exp2 s [] s"
| a_call: "call_net K exp2 xs s r t \<Longrightarrow> calls_net K exp2 t tr u \<Longrightarrow> calls_net K exp2 s ((xs, r) # tr) u"

lemma call_total: "\<exists>r t. call_net K exp2 xs s r t"
proof (cases "staging_mapped s \<or> length (staging s) < length xs")
  case False
  obtain D' where "runs (inference K exp2) (with_image (xs @ drop (length xs) (staging s)) (net_device s)) D'"
    using runs_total by blast
  then show ?thesis using False by (meson answered linorder_not_less)
qed (blast intro: busy too_long)

inductive_cases call_netE: "call_net K exp2 xs s r t"

lemma call_fits:
  assumes "call_net K exp2 xs s r t" and "\<not> staging_mapped s" and "length xs = length (staging s)"
  obtains D' where "runs (inference K exp2) (with_image xs (net_device s)) D'" and "r = Some (fmem D' Output)"
    and "t = s\<lparr>net_device := D', staging := xs\<rparr>"
  using assms by (auto elim!: call_netE)

section \<open>The network depends on the image and the weights only\<close>

text \<open>The inputs of a node are buffers it is bound to.\<close>

definition wired :: "node \<Rightarrow> bool" where
  "wired p = (case p of (l, N, H, W, bs) \<Rightarrow> shaped l N H W \<and> bs \<noteq> [] \<and>
     list_all (\<lambda>(n, c). 0 < n \<and> n < length bs \<and> bs ! n \<notin> anchor_bufs) (input_sizes l N))"

fun node_bufs :: "node \<Rightarrow> bufname list" where
  "node_bufs (l, N, H, W, bs) = bs"

lemma stem_wired: "list_all wired stem"
  by (simp add: stem_def wired_def anchor_bufs_def)

lemma backbone_wired: "list_all wired backbone"
  by (simp add: backbone_def wired_def anchor_bufs_def)

lemma implemented_bufs: "list_all2 (implements exp2 fsqrt) ps net \<Longrightarrow> map node_bufs net = bindings ps"
  by (induction rule: list_all2_induct) (auto simp: bindings_def implements_def)

lemma layer_inputs_determine:
  assumes "\<And>b. b \<in> set (tl bs) \<Longrightarrow> b \<notin> anchor_bufs \<Longrightarrow> m b = m' b" and "wired (l, N, H, W, bs)"
  shows "layer_list exp2 fsqrt m l N H W bs = layer_list exp2 fsqrt m' l N H W bs"
proof -
  have same: "m (bs ! n) = m' (bs ! n)" if "(n, c) \<in> set (input_sizes l N)" for n c
  proof -
    have "0 < n" "n < length bs" "bs ! n \<notin> anchor_bufs" using assms(2) that by (auto simp: wired_def list_all_iff)
    moreover from this have "tl bs ! (n - 1) = bs ! n" "n - 1 < length (tl bs)" by (simp_all add: nth_tl)
    ultimately show ?thesis using assms(1) by (metis nth_mem)
  qed
  have "tensor_at H W (layer_value exp2 fsqrt l (\<lambda>n. elem (m (bs ! n)))) j =
      tensor_at H W (layer_value exp2 fsqrt l (\<lambda>n. elem (m' (bs ! n)))) j" if j: "j < H * W * N" for j
  proof -
    have q: "0 < H" "0 < W" using j by (auto intro!: Nat.gr0I)
    have "j div (H * W) < N" using j by (simp add: less_mult_imp_div_less mult.commute)
    moreover have "j mod (H * W) div W < H" using q by (simp add: less_mult_imp_div_less)
    moreover have "j mod W < W" using q by simp
    moreover have "agree (input_sizes l N) (\<lambda>n. elem (m (bs ! n))) (\<lambda>n. elem (m' (bs ! n)))"
      using same by (auto simp: agree_def list_all_iff)
    moreover have "shaped l N H W" using assms(2) by (simp add: wired_def)
    ultimately show ?thesis unfolding tensor_at_def using layer_cong by blast
  qed
  then show ?thesis by (simp add: layer_list_def)
qed

text \<open>
  Two memories that agree on what is known (but for the anchors) and on what is read before it is written agree
  on all that is written.
\<close>

lemma run_network_sources:
  assumes "\<And>b. b \<in> set V \<union> set (sources V (map node_bufs net)) \<Longrightarrow> b \<notin> anchor_bufs \<Longrightarrow> m b = m' b"
    and "list_all wired net" and "b \<in> set (targets (map node_bufs net) V)" and "b \<notin> anchor_bufs"
  shows "run_network exp2 fsqrt net m b = run_network exp2 fsqrt net m' b"
  using assms
proof (induction net arbitrary: V m m')
  case Nil
  then show ?case by (simp add: run_network_def targets_def)
next
  case (Cons p net)
  obtain l N H W bs where p: "p = (l, N, H, W, bs)" by (cases p)
  have w: "wired (l, N, H, W, bs)" "bs ! 0 = hd bs" using Cons.prems(2) by (auto simp: p wired_def hd_conv_nth)
  have "m c = m' c" if "c \<in> set (tl bs)" "c \<notin> anchor_bufs" for c
    using Cons.prems(1)[of c] that by (auto simp: p)
  from layer_inputs_determine[OF this w(1)]
  have l: "layer_list exp2 fsqrt m l N H W bs = layer_list exp2 fsqrt m' l N H W bs" .
  have "run_network exp2 fsqrt net (run_layer exp2 fsqrt p m) b = run_network exp2 fsqrt net (run_layer exp2 fsqrt p m') b"
  proof (rule Cons.IH[where V = "List.insert (hd bs) V"])
    show "run_layer exp2 fsqrt p m c = run_layer exp2 fsqrt p m' c"
      if "c \<in> set (List.insert (hd bs) V) \<union> set (sources (List.insert (hd bs) V) (map node_bufs net))" "c \<notin> anchor_bufs" for c
      using Cons.prems(1)[of c] that l w(2) by (auto simp: p)
  qed (use Cons.prems(2-4) in \<open>simp_all add: p targets_def\<close>)
  then show ?case by (simp add: run_network_def)
qed

text \<open>The flow of data through all passes, seen from the two parts of the network.\<close>

lemma network_flow:
  defines "A \<equiv> bindings anchor_passes" and "S \<equiv> bindings (stem_passes silent)" and "I \<equiv> bindings (stride_passes @ index_passes)"
    and "B \<equiv> bindings (backbone_passes silent)"
  shows "set (sources (targets A []) S) \<union> set (sources (targets (A @ S @ I) []) B) \<subseteq> insert Input (fst ` set weight_bufs)"
proof -
  have i: "bindings (inference silent exp2) = A @ S @ I @ B @ bindings (detection_passes exp2)"
    by (simp add: inference_def feature_passes_def bindings_append A_def S_def I_def B_def)
  have "insert Input (fst ` set weight_bufs) = set (sources [] (bindings (inference silent exp2)))"
    unfolding inference_sources by simp
  then show ?thesis unfolding i by (auto simp: sources_append targets_append)
qed

lemma set_targets: "set (targets bss W) = hd ` set bss \<union> set W"
  by (induction bss arbitrary: W) (auto simp: targets_def)

lemma anchor_targets: "set (targets (bindings anchor_passes) []) \<subseteq> anchor_bufs"
  and index_targets: "hd ` set (bindings (stride_passes @ index_passes)) \<subseteq> anchor_bufs"
  by (simp_all add: set_targets bindings_def anchor_passes_def stride_passes_def index_passes_def anchor_bufs_def)

lemma stem_bindings: "map node_bufs stem = bindings (stem_passes silent)"
  and backbone_bindings: "map node_bufs backbone = bindings (backbone_passes silent)"
  using implemented_bufs[OF stem_implemented] implemented_bufs[OF backbone_implemented]
  by (simp_all add: bindings_def stem_passes_def backbone_passes_def del: One_nat_def)

lemma head_targets: "head_bufs - {Buf 334} \<subseteq> hd ` set (bindings (backbone_passes silent))"
  by (simp add: head_bufs_def bindings_def backbone_passes_def insert_Diff_if)

lemma stem_frame: "c \<noteq> Buf 3 \<Longrightarrow> run_network exp2 fsqrt stem m c = m c"
  by (rule run_network_frame) (simp add: stem_def)

lemma network_determined:
  assumes "\<And>b. b = Input \<or> b \<in> fst ` set weight_bufs \<Longrightarrow> m b = m' b" and "b \<in> head_bufs"
  shows "run_network exp2 fsqrt network m b = run_network exp2 fsqrt network m' b"
proof (cases "b = Buf 334")
  case True
  have "(Buf 334, 64, ''head.dfl.conv.weight'') \<in> set weight_bufs" by (simp add: weight_tables)
  then have "Buf 334 \<in> fst ` set weight_bufs" by force
  then show ?thesis using assms(1) True by (simp add: network_frame)
next
  case False
  define A S I where "A = bindings anchor_passes" and "S = bindings (stem_passes silent)" and "I = bindings (stride_passes @ index_passes)"
  define n n' where "n = run_network exp2 fsqrt stem m" and "n' = run_network exp2 fsqrt stem m'"
  note flow = network_flow[folded A_def S_def I_def]
  have stem_same: "n c = n' c" if "c \<in> set (targets S (targets A []))" "c \<notin> anchor_bufs" for c
    unfolding n_def n'_def
  proof (rule run_network_sources[where V = "targets A []"])
    show "m d = m' d" if "d \<in> set (targets A []) \<union> set (sources (targets A []) (map node_bufs stem))" "d \<notin> anchor_bufs" for d
      using that flow anchor_targets assms(1)[of d] by (auto simp: stem_bindings A_def S_def)
  qed (use that stem_wired in \<open>simp_all add: stem_bindings S_def\<close>)
  have "(Buf 3, 6553600) \<in> set empty_bufs" by (simp add: empty_bufs_def)
  from weight_empty[OF this] have weight_not_3: "Buf 3 \<notin> fst ` set weight_bufs" .
  have outside: "n c = n' c" if "c = Input \<or> c \<in> fst ` set weight_bufs" for c
  proof -
    have "c \<noteq> Buf 3" using that weight_not_3 by auto
    then show ?thesis using assms(1)[OF that] by (simp add: n_def n'_def stem_frame)
  qed
  show ?thesis
    unfolding network_def run_network_append n_def[symmetric] n'_def[symmetric]
  proof (rule run_network_sources[where V = "targets (A @ S @ I) []"])
    show "n d = n' d" if "d \<in> set (targets (A @ S @ I) []) \<union> set (sources (targets (A @ S @ I) []) (map node_bufs backbone))" "d \<notin> anchor_bufs" for d
    proof (cases "d \<in> set (targets (A @ S @ I) [])")
      case True
      then have "d \<in> set (targets S (targets A []))"
        using that(2) index_targets by (auto simp: set_targets I_def)
      then show ?thesis using stem_same that(2) by blast
    next
      case False
      then have "d \<in> insert Input (fst ` set weight_bufs)" using that(1) flow unfolding backbone_bindings by blast
      then show ?thesis using outside by blast
    qed
    show "b \<in> set (targets (map node_bufs backbone) (targets (A @ S @ I) []))"
      using head_targets assms(2) False by (auto simp: backbone_bindings set_targets)
  qed (use assms(2) heads_apart backbone_wired in auto)
qed

section \<open>Calls do not influence one another\<close>

text \<open>The state of the network between calls: the weights are those of the device it was opened on.\<close>

definition serves :: "device \<Rightarrow> net \<Rightarrow> bool" where
  "serves D s \<longleftrightarrow> sized (net_device s) \<and> loaded (net_device s) \<and> length (staging s) = 1228800 \<and>
     (\<forall>b \<in> fst ` set weight_bufs. fmem (net_device s) b = fmem D b)"

lemma open_serves: "setupNet json_parse bs = Some D \<Longrightarrow> serves D (open_net D)"
  by (simp add: serves_def open_net_def setup_loaded)

lemma inference_frame:
  assumes "runs (inference K exp2) D D'" and "b \<in> fst ` set weight_bufs"
  shows "fmem D' b = fmem D b"
proof -
  let ?ps = "inference K exp2"
  have "(\<lambda>(s, bs, G). bs ! 0) ` set ?ps = hd ` set (bindings ?ps)"
  proof -
    have "(case p of (s, bs, G) \<Rightarrow> bs ! 0) = hd (case p of (s, bs, G) \<Rightarrow> bs)" if "p \<in> set ?ps" for p
    proof -
      have "(case p of (s, bs, G) \<Rightarrow> bs) \<in> set (bindings ?ps)" using that unfolding bindings_def set_map by (rule imageI)
      then have "bindable (case p of (s, bs, G) \<Rightarrow> bs)" using inference_bindable unfolding list_all_iff by blast
      then show ?thesis by (cases p) (simp add: bindable_def hd_conv_nth)
    qed
    then show ?thesis unfolding bindings_def set_map image_image by (rule image_cong[OF refl])
  qed
  also have "\<dots> \<subseteq> fst ` set empty_bufs"
  proof -
    have "hd ` set (bindings ?ps) = set (targets (bindings ?ps) [])" by (simp add: set_targets)
    then show ?thesis unfolding inference_targets by auto
  qed
  finally have firsts: "(\<lambda>(s, bs, G). bs ! 0) ` set ?ps \<subseteq> fst ` set empty_bufs" .
  have "b \<notin> fst ` set empty_bufs"
  proof
    assume "b \<in> fst ` set empty_bufs"
    then obtain n where "(b, n) \<in> set empty_bufs" by (metis imageE prod.collapse)
    then show False using weight_empty assms(2) by blast
  qed
  then have "b \<notin> set (map (\<lambda>(s, bs, G). bs ! 0) ?ps)" unfolding set_map using firsts by blast
  then show ?thesis using runs_frame[OF assms(1)] by blast
qed

lemma call_serves:
  assumes "call_net K exp2 xs s r t" and "serves D s" and "length xs = 1228800" and "\<not> staging_mapped s"
  shows "serves D t" and "\<not> staging_mapped t"
proof -
  have "length xs = length (staging s)" using assms(2,3) by (simp add: serves_def)
  from call_fits[OF assms(1,4) this] obtain D' where D': "runs (inference K exp2) (with_image xs (net_device s)) D'"
      "t = s\<lparr>net_device := D', staging := xs\<rparr>" by blast
  have i: "sized (with_image xs (net_device s))" "loaded (with_image xs (net_device s))"
    using assms(2,3) by (simp_all add: serves_def image_sized image_loaded)
  have "Input \<notin> fst ` set weight_bufs" using weight_kinds by (auto simp: list_all_iff split: bufname.splits)
  then have "fmem D' b = fmem D b" if "b \<in> fst ` set weight_bufs" for b
  proof -
    have "b \<noteq> Input" using that \<open>Input \<notin> fst ` set weight_bufs\<close> by blast
    then show ?thesis using inference_frame[OF D'(1) that] that assms(2) by (auto simp: serves_def with_image_def)
  qed
  then show "serves D t" and "\<not> staging_mapped t"
    using sized_runs[OF D'(1) i(1)] loaded_runs[OF D'(1) i(2)] assms(3,4) by (simp_all add: serves_def D'(2))
qed

lemma call_answer:
  assumes "call_net (net_shader exp2 fsqrt) exp2 xs s r t" and "serves D s" and "length xs = 1228800" and "\<not> staging_mapped s"
    and "heads_calm (after_network exp2 fsqrt (with_image xs D))" and "exp_like exp2"
  shows "\<exists>rows. r = Some rows \<and> detected_rows exp2 (after_network exp2 fsqrt (with_image xs D)) rows"
proof -
  let ?D = "with_image xs (net_device s)"
  have "length xs = length (staging s)" using assms(2,3) by (simp add: serves_def)
  from call_fits[OF assms(1,4) this] obtain D' where D': "runs (inference (net_shader exp2 fsqrt) exp2) ?D D'"
      "r = Some (fmem D' Output)" by blast
  have i: "sized ?D" "loaded ?D" using assms(2,3) by (simp_all add: serves_def image_sized image_loaded)
  have same: "fmem (after_network exp2 fsqrt ?D) b = fmem (after_network exp2 fsqrt (with_image xs D)) b" if "b \<in> head_bufs" for b
    unfolding after_network_def using assms(2) by (auto simp: serves_def with_image_def intro!: network_determined that)
  note h = heads_determined[of "after_network exp2 fsqrt ?D" "after_network exp2 fsqrt (with_image xs D)", OF same]
  have "detected_rows exp2 (after_network exp2 fsqrt ?D) (fmem D' Output)"
    by (rule device_refines[OF i D'(1) _ assms(6)]) (use h(1) assms(5) in simp)
  then show ?thesis by (simp add: D'(2) detected_rows_def h(2,3))
qed

lemma calls_serve:
  assumes "calls_net K exp2 s tr u" and "serves D s" and "\<not> staging_mapped s" and "list_all (\<lambda>(xs, r). length xs = 1228800) tr"
  shows "serves D u \<and> \<not> staging_mapped u"
  using assms by (induction rule: calls_net.induct) (auto dest: call_serves)

section \<open>Properties\<close>

text \<open>
  C9: The calls of the network are independent. In any sequence of calls with images of the right size, from
  the network \<open>setupNet\<close> makes, every call returns, and its rows are the detections of the abstract detector
  and network on its own image and the weights that were loaded: nothing an earlier image left in the
  buffers the passes reuse, or in the staging buffer, has any influence.
\<close>

theorem calls_independent:
  assumes "setupNet json_parse bs = Some D" and "calls_net (net_shader exp2 fsqrt) exp2 (open_net D) tr u"
    and "list_all (\<lambda>(xs, r). length xs = 1228800) tr" and "exp_like exp2"
  shows "\<forall>(xs, r) \<in> set tr. heads_calm (after_network exp2 fsqrt (with_image xs D)) \<longrightarrow>
    (\<exists>rows. r = Some rows \<and> detected_rows exp2 (after_network exp2 fsqrt (with_image xs D)) rows)"
proof -
  have "\<forall>(xs, r) \<in> set tr. heads_calm (after_network exp2 fsqrt (with_image xs D)) \<longrightarrow>
      (\<exists>rows. r = Some rows \<and> detected_rows exp2 (after_network exp2 fsqrt (with_image xs D)) rows)"
    if "serves D s" "\<not> staging_mapped s" "calls_net (net_shader exp2 fsqrt) exp2 s tr u" for s
    using that(3,1,2) assms(3)
  proof (induction rule: calls_net.induct)
    case (a_call xs s r t tr u)
    have n: "length xs = 1228800" using a_call.prems(3) by simp
    show ?case
      using call_answer[OF a_call.hyps(1) a_call.prems(1) n a_call.prems(2) _ assms(4)] a_call.IH
        call_serves[OF a_call.hyps(1) a_call.prems(1) n a_call.prems(2)] a_call.prems(3) by auto
  qed simp
  then show ?thesis using open_serves[OF assms(1)] assms(2) by (simp add: open_net_def)
qed

theorem calls_independent_witness:
  "\<exists>D r1 r2 u. setupNet (\<lambda>_. Some no_tensors) (safetensors [123, 125] []) = Some D \<and>
    calls_net (net_shader floor_exp flat_root) floor_exp (open_net D)
      [(replicate 1228800 0, Some r1), (replicate 1228800 NZero, Some r2)] u \<and>
    detected_rows floor_exp (after_network floor_exp flat_root (with_image (replicate 1228800 NZero) D)) r2"
proof (rule null_start)
  let ?K = "net_shader floor_exp flat_root" and ?x = "replicate 1228800 (0 :: f32)" and ?y = "replicate 1228800 (NZero :: f32)"
  fix D assume D: "setupNet (\<lambda>_. Some no_tensors) (safetensors [123, 125] []) = Some D"
    and h: "\<And>pixels. list_all null pixels \<Longrightarrow> heads_calm (after_network floor_exp flat_root (with_image pixels D))"
  have x: "heads_calm (after_network floor_exp flat_root (with_image ?x D))" "heads_calm (after_network floor_exp flat_root (with_image ?y D))"
    by (rule h; simp add: list_all_iff)+
  obtain r s where r: "call_net ?K floor_exp ?x (open_net D) r s" using call_total by blast
  obtain r' u where r': "call_net ?K floor_exp ?y s r' u" using call_total by blast
  have c: "calls_net ?K floor_exp (open_net D) [(?x, r), (?y, r')] u" by (rule a_call[OF r a_call[OF r' no_call]])
  have l: "list_all (\<lambda>(xs, r). length xs = 1228800) [(?x, r), (?y, r')]" by simp
  from calls_independent[OF D c l floor_exp_like] x obtain r1 r2 where "r = Some r1" "r' = Some r2"
    "detected_rows floor_exp (after_network floor_exp flat_root (with_image ?y D)) r2" by auto
  then show ?thesis using D c by blast
qed

text \<open>
  C26: A call with more numbers than the input holds throws, and the network is unusable from then on: the
  staging buffer stays mapped, so that every later call throws as well, whatever it is given.
\<close>

theorem too_long_input:
  assumes "call_net K exp2 xs s r t" and "length (staging s) < length xs" and "calls_net K exp2 t tr u"
  shows "r = None \<and> list_all (\<lambda>(ys, r'). r' = None) tr"
proof -
  have t: "r = None" "staging_mapped t" using assms(1,2) by (auto elim!: call_netE)
  have "list_all (\<lambda>(ys, r'). r' = None) tr" if "staging_mapped t" using assms(3) that
    by (induction rule: calls_net.induct) (auto elim!: call_netE)
  then show ?thesis using t by blast
qed

theorem too_long_input_witness:
  "\<exists>u r. calls_net silent floor_exp (open_net calm_device) [(replicate 1228801 0, None), ([], r)] u \<and> r = None"
proof -
  obtain r s where r: "call_net silent floor_exp (replicate 1228801 0) (open_net calm_device) r s" using call_total by blast
  obtain r' u where r': "call_net silent floor_exp [] s r' u" using call_total by blast
  have "calls_net silent floor_exp s [([], r')] u" by (rule a_call[OF r' no_call])
  moreover from too_long_input[OF r _ this] have "r = None \<and> r' = None" by (simp add: open_net_def)
  ultimately show ?thesis using r by (blast intro: a_call)
qed

end
