(* ===== verification/Frames.thy ===== *)
theory Frames
  imports Calls
begin

text \<open>
  A frame of the video page (\<open>server/cherum/static/js/video.js\<close>) with the network of \<open>net.js\<close>: from the
  pixels of the letterboxed picture to the boxes on the canvas.
\<close>

section \<open>A frame that detects\<close>

definition frame_pixels :: "frame_input \<Rightarrow> nat list" where
  "frame_pixels e = (let (w, h) = target_size (videoWidth e) (videoHeight e) in image_data e (Some (offset w, offset h, w, h)))"

definition frame_image :: "frame_input \<Rightarrow> f32 list" where
  "frame_image e = map narrow (prepareInput (frame_pixels e))"

lemma length_prepareInput: "length (prepareInput pixels) = 3 * (length pixels div 4)"
  by (simp add: prepareInput_def plane_def)

lemma measure_fps_goes_on:
  assumes "fpsMeter p \<noteq> None"
  obtains a b c d m where "measure_fps now p = (Normal, p\<lparr>lastCalledTime := a, fps := b, accumFps := c, frameCounter := d, fpsMeter := m\<rparr>)"
proof -
  let ?q = "snd (measure_fps now p)"
  have "fst (measure_fps now p) = Normal" using assms by (auto simp: measure_fps_def Let_def split: option.split)
  moreover have "?q = p\<lparr>lastCalledTime := lastCalledTime ?q, fps := fps ?q, accumFps := accumFps ?q,
      frameCounter := frameCounter ?q, fpsMeter := fpsMeter ?q\<rparr>"
    by (simp add: measure_fps_def Let_def split: option.split)
  ultimately show thesis using that by (metis prod.collapse)
qed

lemma draw_canvas:
  "canvas_ctx p = canvas_ctx q \<Longrightarrow> canvas_width p = canvas_width q \<Longrightarrow> canvas_height p = canvas_height q \<Longrightarrow>
   canvas_ctx (drawBoxes w colors bs tw th ox oy p) = canvas_ctx (drawBoxes w colors bs tw th ox oy q)"
  by (simp add: drawBoxes_def Let_def)

text \<open>The picture on the canvas after the rows have been drawn.\<close>

definition drawn :: "string list \<Rightarrow> frame_input \<Rightarrow> f32 list \<Rightarrow> player \<Rightarrow> ctx" where
  "drawn colors e rows p = (let (w, h) = target_size (videoWidth e) (videoHeight e) in
     canvas_ctx (drawBoxes (text_width e) colors (valid_boxes (map widen rows)) w h (offset w) (offset h) p))"

lemma frame_completes:
  assumes "video_ready e" and "net_loaded p" and "fpsMeter p \<noteq> None" and "run_net e (frame_image e) = Some rows"
  shows "fst (processFrame colors e p) = Normal \<and> canvas_ctx (snd (processFrame colors e p)) = drawn colors e rows p \<and>
    requested (snd (processFrame colors e p)) = Suc (requested p)"
proof -
  obtain a b c d m where m: "measure_fps (clock_now e) p =
      (Normal, p\<lparr>lastCalledTime := a, fps := b, accumFps := c, frameCounter := d, fpsMeter := m\<rparr>)"
    using measure_fps_goes_on[OF assms(3)] .
  obtain w h where w: "target_size (videoWidth e) (videoHeight e) = (w, h)" by fastforce
  let ?p = "p\<lparr>lastCalledTime := a, fps := b, accumFps := c, frameCounter := d, fpsMeter := m,
      letterbox := Some (offset w, offset h, w, h)\<rparr>"
  have n: "run_net e (map narrow (prepareInput (image_data e (Some (offset w, offset h, w, h))))) = Some rows"
    using assms(4) by (simp add: frame_image_def frame_pixels_def w)
  have d: "detectObjectsOnFrame e ?p = (Normal, ?p\<lparr>detected := map widen rows\<rparr>)"
    using assms(2) n by (simp add: detectObjectsOnFrame_def stm_defs)
  let ?q = "?p\<lparr>detected := map widen rows\<rparr>"
  have "processFrame colors e p = (Normal, request_frame (draw_detected e colors ?q))"
    using assms(1) by (simp add: processFrame_def stm_defs m w d del: detectObjectsOnFrame_def)
  moreover have "canvas_ctx (draw_detected e colors ?q) = drawn colors e rows p"
    unfolding draw_detected_def drawn_def w prod.case by (simp add: draw_canvas[of ?q p])
  moreover have "requested (draw_detected e colors ?q) = requested p"
    by (simp add: draw_detected_def drawBoxes_def w Let_def)
  ultimately show ?thesis by (simp add: request_frame_def)
qed

text \<open>
  C2: A frame from end to end. On a page whose network was loaded from a file that \<open>setupNet\<close> accepts, after
  any earlier frames, a ready frame of a 640 x 640 picture does not throw; it draws exactly the detections of the
  abstract detector and network on the red, green and blue planes of its own picture, moved and scaled from the
  letterbox to the canvas, and requests the next frame.
\<close>

theorem frame_shows_detections:
  assumes "setupNet json_parse bs = Some D" and "calls_net (net_shader exp2 fsqrt) exp2 (open_net D) tr s"
    and "list_all (\<lambda>(xs, r). length xs = 1228800) tr" and "length (frame_pixels e) = 1638400"
    and "call_net (net_shader exp2 fsqrt) exp2 (frame_image e) s (run_net e (frame_image e)) t"
    and "heads_calm (after_network exp2 fsqrt (with_image (frame_image e) D))" and "exp_like exp2"
    and "video_ready e" and "net_loaded p" and "fpsMeter p \<noteq> None"
  shows "\<exists>rows. detected_rows exp2 (after_network exp2 fsqrt (with_image (frame_image e) D)) rows \<and>
    fst (processFrame colors e p) = Normal \<and> canvas_ctx (snd (processFrame colors e p)) = drawn colors e rows p \<and>
    requested (snd (processFrame colors e p)) = Suc (requested p)"
proof -
  have s: "serves D s \<and> \<not> staging_mapped s"
    by (rule calls_serve[OF assms(2) open_serves[OF assms(1)] _ assms(3)]) (simp add: open_net_def)
  have n: "length (frame_image e) = 1228800" using assms(4) by (simp add: frame_image_def length_prepareInput)
  obtain rows where rows: "run_net e (frame_image e) = Some rows"
      "detected_rows exp2 (after_network exp2 fsqrt (with_image (frame_image e) D)) rows"
    using call_answer[OF assms(5) _ n _ assms(6,7)] s by blast
  then show ?thesis using frame_completes[OF assms(8-10) rows(1)] by blast
qed

definition dark_frame :: "f32 list option \<Rightarrow> frame_input" where
  "dark_frame r = black_frame\<lparr>image_data := (\<lambda>_. replicate 1638400 0), run_net := (\<lambda>_. r)\<rparr>"

lemma dark_pixels: "frame_pixels (dark_frame r) = replicate 1638400 0"
  by (simp add: frame_pixels_def dark_frame_def split: prod.split)

lemma dark_image: "list_all null (frame_image (dark_frame r))"
proof -
  have "null (narrow (num 0 / Fin 255))" by (simp add: num_def divide_fp_def null_def zero_fp_def zero_of_def)
  moreover have "replicate 1638400 0 ! (4 * i + k) = (0 :: nat)" if "i < 1638400 div 4" "k < 3" for i k
    using that by (intro nth_replicate) simp
  ultimately show ?thesis by (simp add: frame_image_def dark_pixels prepareInput_def plane_def list_all_iff)
qed

lemma dark_same: "frame_image (dark_frame r) = frame_image (dark_frame r')"
  by (simp add: frame_image_def dark_pixels)

theorem frame_shows_detections_witness:
  "\<exists>D r rows. setupNet (\<lambda>_. Some no_tensors) (safetensors [123, 125] []) = Some D \<and>
    detected_rows floor_exp (after_network floor_exp flat_root (with_image (frame_image (dark_frame None)) D)) rows \<and>
    canvas_ctx (snd (processFrame [] (dark_frame r) (idle_player\<lparr>net_loaded := True\<rparr>))) =
      drawn [] (dark_frame r) rows (idle_player\<lparr>net_loaded := True\<rparr>)"
proof (rule null_start)
  fix D assume D: "setupNet (\<lambda>_. Some no_tensors) (safetensors [123, 125] []) = Some D"
    and h: "\<And>pixels. list_all null pixels \<Longrightarrow> heads_calm (after_network floor_exp flat_root (with_image pixels D))"
  let ?p = "idle_player\<lparr>net_loaded := True\<rparr>" and ?i = "frame_image (dark_frame None)"
  obtain r t where r: "call_net (net_shader floor_exp flat_root) floor_exp ?i (open_net D) r t" using call_total by blast
  have e: "frame_image (dark_frame r) = ?i" by (rule dark_same)
  have c: "call_net (net_shader floor_exp flat_root) floor_exp (frame_image (dark_frame r)) (open_net D)
      (run_net (dark_frame r) (frame_image (dark_frame r))) t"
    unfolding e using r by (simp add: dark_frame_def)
  have l: "length (frame_pixels (dark_frame r)) = 1638400" unfolding dark_pixels by (rule length_replicate)
  have p: "video_ready (dark_frame r)" "net_loaded ?p" "fpsMeter ?p \<noteq> None"
    by (simp_all add: video_ready_def dark_frame_def black_frame_def idle_player_def)
  from frame_shows_detections[OF D no_call _ l c h[OF dark_image] floor_exp_like p, of "[]"]
  obtain rows where rows: "detected_rows floor_exp (after_network floor_exp flat_root (with_image ?i D)) rows"
      "canvas_ctx (snd (processFrame [] (dark_frame r) ?p)) = drawn [] (dark_frame r) rows ?p"
    unfolding e by auto
  then show ?thesis using D by blast
qed

end
