(* ===== verification/Concatenation.thy ===== *)
theory Concatenation
  imports Program
begin

text \<open>
  The shaders that join tensors (\<open>server/cherum/static/net.js\<close>, kernels \<open>E_6_400_8_16_4\<close> and its variants) add
  guarded copies of their inputs. The sums are the concatenation of the inputs.
\<close>

section \<open>Sums with one summand\<close>

text \<open>Adding zero makes a negative zero positive.\<close>

definition positive_zero :: "f32 \<Rightarrow> f32" where
  "positive_zero v = (if v = NZero then 0 else v)"

lemma plus_zero: "is_fp v \<Longrightarrow> v + 0 = positive_zero v" and zero_plus: "is_fp v \<Longrightarrow> 0 + v = positive_zero v" for v :: f32
  by (cases v; force simp: plus_fp_def positive_zero_def zero_fp_def rnd_exact zero_of_def)+

lemma positive_zero_again [simp]: "positive_zero (positive_zero v) = positive_zero v"
  by (simp add: positive_zero_def)

lemma positive_zero_fp: "is_fp v \<Longrightarrow> is_fp (positive_zero v)"
  by (simp add: positive_zero_def)

text \<open>The parts of a join from plane \<open>a\<close> to plane \<open>b\<close>, one behind the other.\<close>

fun consecutive :: "nat \<Rightarrow> part list \<Rightarrow> nat \<Rightarrow> bool" where
  "consecutive a [] b = (a = b)"
| "consecutive a ((l, u, d, n) # r) b = (l = a \<and> l < u \<and> d \<le> l \<and> consecutive u r b)"

text \<open>The value of the part that has the plane.\<close>

fun sole :: "nat \<Rightarrow> (nat \<Rightarrow> nat \<Rightarrow> f32) \<Rightarrow> part list \<Rightarrow> nat \<Rightarrow> nat \<Rightarrow> f32" where
  "sole S f [] k p = 0"
| "sole S f ((l, u, d, n) # r) k p = (if l \<le> k \<and> k < u then f n (S * (k - d) + p) else sole S f r k p)"

lemma consecutive_le: "consecutive a ps b \<Longrightarrow> a \<le> b"
  by (induction a ps b rule: consecutive.induct) auto

lemma fold_absent:
  assumes "consecutive a ps b" and "k < a" and "is_fp z"
  shows "fold (\<lambda>q s. s + part_value S f k p q) ps z = (if ps = [] then z else positive_zero z)"
  using assms
proof (induction a ps b arbitrary: z rule: consecutive.induct)
  case (2 a l u d n r b)
  then have "part_value S f k p (l, u, d, n) = 0" by (simp add: part_value_def)
  then show ?case using 2 by (simp add: plus_zero positive_zero_fp)
qed simp

lemma fold_present:
  assumes "consecutive a ps b" and "a \<le> k" and "k < b" and "is_fp (sole S f ps k p)"
  shows "fold (\<lambda>q s. s + part_value S f k p q) ps 0 = positive_zero (sole S f ps k p)"
  using assms
proof (induction a ps b rule: consecutive.induct)
  case (2 a l u d n r b)
  show ?case
  proof (cases "k < u")
    case True
    let ?v = "sole S f ((l, u, d, n) # r) k p"
    have v: "part_value S f k p (l, u, d, n) = ?v" using 2 True by (simp add: part_value_def)
    have "is_fp (positive_zero ?v)" by (rule positive_zero_fp[OF "2.prems"(4)])
    then have "fold (\<lambda>q s. s + part_value S f k p q) r (positive_zero ?v) = positive_zero ?v"
      using fold_absent[of u r b k "positive_zero ?v" S f p] "2.prems"(1) True by simp
    then show ?thesis by (simp only: fold_simps comp_apply v zero_plus[OF "2.prems"(4)])
  next
    case False
    then have "part_value S f k p (l, u, d, n) = 0" by (simp add: part_value_def)
    moreover have "(0 :: f32) + 0 = 0" using plus_zero[of 0] by (simp add: positive_zero_def zero_fp_def)
    ultimately show ?thesis using 2 False by simp
  qed
qed simp

lemma concatenation_sole:
  assumes "consecutive 0 ps N" and "2 \<le> length ps" and "k < N" and "is_fp (sole S f ps k p)"
  shows "concatenation S f ps k p = positive_zero (sole S f ps k p)"
proof -
  obtain l u d n r where ps: "ps = (l, u, d, n) # r" "r \<noteq> []" using assms(2) by (cases ps) (auto simp: Suc_le_length_iff)
  show ?thesis
  proof (cases "k < u")
    case True
    then have "part_value S f k p (l, u, d, n) = sole S f ps k p" using assms(1) by (simp add: ps part_value_def)
    then show ?thesis using fold_absent[of u r N k "sole S f ps k p" S f p] assms True by (simp add: ps del: sole.simps)
  next
    case False
    then have "part_value S f k p (l, u, d, n) = 0" by (simp add: part_value_def)
    then show ?thesis using fold_present[of u r N k S f p] assms False by (simp add: ps)
  qed
qed

section \<open>Slices\<close>

definition part_planes :: "nat \<Rightarrow> (nat \<Rightarrow> f32 list) \<Rightarrow> part \<Rightarrow> f32 list" where
  "part_planes S m q = (case q of (l, u, d, n) \<Rightarrow> take (S * (u - l)) (drop (S * (l - d)) (m n)))"

lemma part_cells:
  assumes "d \<le> l" and "l < u" and "S * (u - d) \<le> length (m n)" and "0 < S"
  shows "map (\<lambda>j. elem (m n) (S * (j div S - d) + j mod S)) [S * l..<S * u] = part_planes S m (l, u, d, n)"
proof (rule nth_equalityI)
  have s: "S * (l - d) + S * (u - l) = S * (u - d)" "S * u - S * l = S * (u - l)"
    using assms(1,2) by (simp_all add: diff_mult_distrib2[symmetric] add_mult_distrib2[symmetric])
  show "length (map (\<lambda>j. elem (m n) (S * (j div S - d) + j mod S)) [S * l..<S * u]) = length (part_planes S m (l, u, d, n))"
    using assms(3) s by (simp add: part_planes_def)
  fix i assume "i < length (map (\<lambda>j. elem (m n) (S * (j div S - d) + j mod S)) [S * l..<S * u])"
  then have i: "i < S * (u - l)" using s(2) by simp
  have "(S * l + i) div S = l + i div S" using assms(4) by simp
  moreover have "S * (l + i div S - d) + i mod S = S * (l - d) + i"
  proof -
    have "S * (l + i div S - d) = S * (l - d) + S * (i div S)"
      using assms(1) by (metis Nat.add_diff_assoc2 add_mult_distrib2)
    then show ?thesis by simp
  qed
  moreover have "S * (l - d) + i < length (m n)" using i s(1) assms(3) by linarith
  ultimately show "map (\<lambda>j. elem (m n) (S * (j div S - d) + j mod S)) [S * l..<S * u] ! i = part_planes S m (l, u, d, n) ! i"
    using i s by (simp add: part_planes_def elem_def)
qed

lemma sole_slices:
  assumes "consecutive a ps b" and "list_all (\<lambda>(l, u, d, n). S * (u - d) \<le> length (m n)) ps" and "0 < S"
  shows "map (\<lambda>j. sole S (\<lambda>n. elem (m n)) ps (j div S) (j mod S)) [S * a..<S * b] = concat (map (part_planes S m) ps)"
  using assms
proof (induction a ps b rule: consecutive.induct)
  case (2 a l u d n r b)
  have c: "a = l" "l < u" "d \<le> l" "consecutive u r b" using "2.prems"(1) by simp_all
  have d: "j div S < u \<longleftrightarrow> j < S * u" "l \<le> j div S \<longleftrightarrow> S * l \<le> j" for j
    using assms(3) by (simp_all add: less_eq_div_iff_mult_less_eq div_less_iff_less_mult mult.commute)
  have "[S * l..<S * b] = [S * l..<S * u] @ [S * u..<S * b]"
    using c(2) consecutive_le[OF c(4)] by (metis le_add_diff_inverse less_imp_le mult_le_mono2 upt_add_eq_append)
  moreover have "map (\<lambda>j. sole S (\<lambda>n. elem (m n)) ((l, u, d, n) # r) (j div S) (j mod S)) [S * l..<S * u] = part_planes S m (l, u, d, n)"
    (is "map ?f _ = _")
  proof -
    have "map ?f [S * l..<S * u] = map (\<lambda>j. elem (m n) (S * (j div S - d) + j mod S)) [S * l..<S * u]"
      by (rule map_cong) (simp_all add: d)
    also have "\<dots> = part_planes S m (l, u, d, n)" by (rule part_cells) (use "2.prems"(2) c assms(3) in simp_all)
    finally show ?thesis .
  qed
  moreover have "map (\<lambda>j. sole S (\<lambda>n. elem (m n)) ((l, u, d, n) # r) (j div S) (j mod S)) [S * u..<S * b] = concat (map (part_planes S m) r)"
    (is "map ?f _ = _")
  proof -
    have "map ?f [S * u..<S * b] = map (\<lambda>j. sole S (\<lambda>n. elem (m n)) r (j div S) (j mod S)) [S * u..<S * b]"
      by (rule map_cong) (simp_all add: d)
    also have "\<dots> = concat (map (part_planes S m) r)" using "2.IH" "2.prems"(2,3) c by simp
    finally show ?thesis .
  qed
  ultimately show ?case by (simp add: c(1) del: sole.simps)
qed simp

section \<open>The joins of the network\<close>

definition joins_well :: "node \<Rightarrow> bool" where
  "joins_well p = (case p of (Join S ps, N, H, W, bs) \<Rightarrow> consecutive 0 ps N \<and> 2 \<le> length ps \<and> 0 < S \<and>
     list_all (\<lambda>(l, u, d, n). n < length bs) ps | _ \<Rightarrow> True)"

lemma backbone_joins: "list_all joins_well backbone"
  by (simp add: backbone_def joins_well_def)

lemma sole_fp_parts: "\<forall>(l, u, d, n) \<in> set ps. \<forall>j. is_fp (f n j) \<Longrightarrow> is_fp (sole S f ps k p)"
  by (induction S f ps k p rule: sole.induct) (auto simp: zero_fp_def)

lemma elem_fp: "list_all is_fp xs \<Longrightarrow> is_fp (elem xs j :: f32)"
  by (simp add: elem_def list_all_length zero_fp_def)

lemma join_list:
  assumes "consecutive 0 ps N" and "2 \<le> length ps" and "0 < S" and "list_all (\<lambda>(l, u, d, n). S * (u - d) \<le> length (m n)) ps"
    and "\<And>l u d n. (l, u, d, n) \<in> set ps \<Longrightarrow> list_all is_fp (m n)"
  shows "map (tensor_at 1 S (layer_value exp2 fsqrt (Join S ps) (\<lambda>n. elem (m n)))) [0..<1 * S * N] =
    map positive_zero (concat (map (part_planes S m) ps))"
proof -
  have "concatenation S (\<lambda>n. elem (m n)) ps k p = positive_zero (sole S (\<lambda>n. elem (m n)) ps k p)" if "k < N" for k p
    by (rule concatenation_sole[OF assms(1,2) that]) (use assms(5) in \<open>auto intro!: sole_fp_parts elem_fp\<close>)
  then have "map (tensor_at 1 S (layer_value exp2 fsqrt (Join S ps) (\<lambda>n. elem (m n)))) [0..<1 * S * N] =
      map (\<lambda>j. positive_zero (sole S (\<lambda>n. elem (m n)) ps (j div S) (j mod S))) [S * 0..<S * N]"
    using assms(3) by (intro map_cong) (simp_all add: tensor_at_def less_mult_imp_div_less mult.commute)
  also have "\<dots> = map positive_zero (concat (map (part_planes S m) ps))"
    unfolding sole_slices[OF assms(1,4,3), symmetric] by simp
  finally show ?thesis .
qed

text \<open>
  C13: Joining is concatenation. After a pass of the network that joins tensors its buffer holds the planes of the
  inputs one behind the other, each part cut out of its input without a gap, in the order of the parts. Only
  a negative zero becomes a positive one, as the shaders add the parts instead of choosing one.
\<close>

theorem joins_concatenate:
  assumes "i < 78" and "backbone_passes (net_shader exp2 fsqrt) ! i = (s, bs, G)" and "backbone ! i = (Join S ps, N, H, W, cs)"
    and "addComputePass s bs G D D'" and "sized D" and "loaded D" and "\<forall>b \<in> set bs. list_all is_fp (fmem D b)"
  shows "fmem D' (bs ! 0) = map positive_zero (concat (map (part_planes S (\<lambda>n. fmem D (bs ! n))) ps))"
proof -
  have n: "length backbone = 78" by (simp add: backbone_def)
  then have "implements exp2 fsqrt (s, bs, G) (Join S ps, N, H, W, cs)"
    using list_all2_nthD2[OF backbone_implemented, of i exp2 fsqrt] assms(1) unfolding assms(2,3) by simp
  then have c: "cs = bs" "computes exp2 fsqrt s G (Join S ps) N H W" by (simp_all add: implements_def)
  have node: "(Join S ps, N, H, W, bs) \<in> set backbone" using n assms(1,3) c(1) by (metis nth_mem)
  then have j: "consecutive 0 ps N" "2 \<le> length ps" "0 < S" "list_all (\<lambda>(l, u, d, n). n < length bs) ps"
  proof -
    have "joins_well (Join S ps, N, H, W, bs)" using node backbone_joins unfolding list_all_iff by blast
    then show "consecutive 0 ps N" "2 \<le> length ps" "0 < S" "list_all (\<lambda>(l, u, d, n). n < length bs) ps"
      by (simp_all add: joins_well_def)
  qed
  have f: "sound_node (Join S ps, N, H, W, bs)" using node backbone_sound unfolding list_all_iff by blast
  then have z: "shaped (Join S ps) N H W" "elements (bs ! 0) = H * W * N"
      "list_all (\<lambda>(n, c). c \<le> elements (bs ! n) \<and> elements (bs ! n) \<le> 2 ^ 31) (input_sizes (Join S ps) N)"
    by (simp_all add: sound_node_def node_fits_def)
  have l: "length (fmem D (bs ! n)) = elements (bs ! n)" if "n = 0 \<or> n \<in> fst ` set (input_sizes (Join S ps) N)" for n
    by (rule elements_length[OF assms(5,6)]) (use f that in \<open>auto simp: sound_node_def touched_def\<close>)
  have HW: "H = 1" "W = S" using z(1) by simp_all
  have i: "c \<le> length (fmem D (bs ! n)) \<and> length (fmem D (bs ! n)) \<le> 2 ^ 31" if "(n, c) \<in> set (input_sizes (Join S ps) N)" for n c
  proof -
    have "n \<in> fst ` set (input_sizes (Join S ps) N)" using that by (rule image_eqI[rotated]) simp
    moreover have "c \<le> elements (bs ! n) \<and> elements (bs ! n) \<le> 2 ^ 31" using z(3) that unfolding list_all_iff by blast
    ultimately show ?thesis using l by simp
  qed
  then have "list_all (\<lambda>(n, c). c \<le> length (fmem D (bs ! n)) \<and> length (fmem D (bs ! n)) \<le> 2 ^ 31) (input_sizes (Join S ps) N)"
    unfolding list_all_iff by blast
  then have "fits (fmem D) (Join S ps) N H W bs" unfolding fits_def using z(1,2) l by simp
  from layer_pass[OF c(2) assms(4) this]
  have "fmem D' (bs ! 0) = layer_list exp2 fsqrt (fmem D) (Join S ps) N H W bs" by simp
  also have "\<dots> = map positive_zero (concat (map (part_planes S (\<lambda>n. fmem D (bs ! n))) ps))"
    unfolding layer_list_def HW
  proof (rule join_list[OF j(1-3)])
    show "list_all (\<lambda>(l, u, d, n). S * (u - d) \<le> length (fmem D (bs ! n))) ps"
    proof -
      have "S * (u - d) \<le> length (fmem D (bs ! n))" if "(l, u, d, n) \<in> set ps" for l u d n
      proof -
        have "(n, S * (u - d)) \<in> set (input_sizes (Join S ps) N)" using that by (auto intro: rev_image_eqI)
        then show ?thesis using i by blast
      qed
      then show ?thesis by (auto simp: list_all_iff)
    qed
    show "list_all is_fp (fmem D (bs ! n))" if "(l, u, d, n) \<in> set ps" for l u d n
    proof -
      have "n < length bs" using that j(4) by (auto simp: list_all_iff)
      then show ?thesis using assms(7) nth_mem by blast
    qed
  qed
  finally show ?thesis .
qed

theorem joins_concatenate_witness:
  "\<exists>D D'. addComputePass (net_shader floor_exp flat_root ''E_6_400_8_16_4'') [Buf 36, Buf 18, Buf 30] (400, 6, 1) D D' \<and>
    fmem D' (Buf 36) = map positive_zero
      (take 409600 (fmem D (Buf 18)) @ take 409600 (drop 409600 (fmem D (Buf 18))) @ take 409600 (fmem D (Buf 30)))"
proof (rule loaded_nothing)
  let ?s = "net_shader floor_exp flat_root ''E_6_400_8_16_4''" and ?bs = "[Buf 36, Buf 18, Buf 30]"
  fix D assume D: "setupNet (\<lambda>_. Some no_tensors) (safetensors [123, 125] []) = Some D" and z: "\<And>b. list_all (\<lambda>v. v = 0) (fmem D b)"
  have f: "\<forall>b \<in> set ?bs. list_all is_fp (fmem D b)" using list.pred_mono_strong[OF z, of _ is_fp] by (simp add: zero_fp_def)
  obtain D' where D': "addComputePass ?s ?bs (400, 6, 1) D D'" using addComputePass_total by blast
  have i: "backbone_passes (net_shader floor_exp flat_root) ! 4 = (?s, ?bs, (400, 6, 1))"
    "backbone ! 4 = (Join 25600 [(0, 16, 0, 1), (16, 32, 0, 1), (32, 48, 32, 2)], 48, 1, 25600, ?bs)"
    by (simp_all add: backbone_passes_def backbone_def del: One_nat_def)
  have "fmem D' (Buf 36) = map positive_zero
      (take 409600 (fmem D (Buf 18)) @ take 409600 (drop 409600 (fmem D (Buf 18))) @ take 409600 (fmem D (Buf 30)))"
    using joins_concatenate[OF _ i D'] setup_loaded[OF D] f by (simp add: part_planes_def)
  then show ?thesis using D' by blast
qed

end
