(* ===== verification/Server.thy ===== *)
theory Server
  imports Prelude
begin

text \<open>
  The server, as far as the commands are concerned: the tables of \<open>server/cherum/schema.sql\<close>, the
  bearer tokens of \<open>jwt.py\<close>, and the routes \<open>/command\<close>, \<open>/fetch\<close>, \<open>/done\<close> and
  \<open>/last/connection\<close> of \<open>__init__.py\<close>. A request is one transaction. The library that encodes and
  decodes tokens is a parameter.
\<close>

section \<open>The database\<close>

text \<open>Times are in seconds, the resolution of \<open>CURRENT_TIMESTAMP\<close>.\<close>

record command_row =
  row_id :: nat
  row_command :: string
  row_done :: nat
  row_created :: nat

record database =
  commands :: "command_row list"
  command_seq :: nat
  pings :: "nat list"

definition init_db :: database where
  "init_db = \<lparr>commands = [], command_seq = 0, pings = []\<rparr>"

definition insert_command :: "nat \<Rightarrow> string \<Rightarrow> database \<Rightarrow> database" where
  "insert_command now c db = db\<lparr>
     commands := commands db @ [\<lparr>row_id = Suc (command_seq db), row_command = c, row_done = 0, row_created = now\<rparr>],
     command_seq := Suc (command_seq db)\<rparr>"

text \<open>
  The rows that \<open>ORDER BY created_at DESC LIMIT 1\<close> may give: of those with the latest time any one,
  as SQL leaves the order of equal rows open.
\<close>

definition latest_commands :: "database \<Rightarrow> command_row list" where
  "latest_commands db = filter (\<lambda>r. list_all (\<lambda>q. row_created q \<le> row_created r) (commands db)) (commands db)"

definition complete :: "nat \<Rightarrow> command_row \<Rightarrow> command_row" where
  "complete i r = (if row_id r = i then r\<lparr>row_done := 1\<rparr> else r)"

definition complete_command :: "nat \<Rightarrow> database \<Rightarrow> database" where
  "complete_command i db = db\<lparr>commands := map (complete i) (commands db)\<rparr>"

definition insert_ping :: "nat \<Rightarrow> database \<Rightarrow> database" where
  "insert_ping now db = db\<lparr>pings := pings db @ [now]\<rparr>"

section \<open>Tokens\<close>

type_synonym claims = "(string \<times> string) list"

text \<open>The library: decoding raises, here none, for a token that is not signed with the key.\<close>

record jwt =
  jwt_encode :: "claims \<Rightarrow> string \<Rightarrow> string"
  jwt_decode :: "string \<Rightarrow> string \<Rightarrow> claims option"

record config =
  APP_NAME :: string
  SECRET_KEY :: string

text \<open>The parts of a text between single blanks.\<close>

fun split_blank :: "string \<Rightarrow> string list" where
  "split_blank [] = [[]]"
| "split_blank (c # s) = (if c = CHR '' '' then [] # split_blank s
     else (case split_blank s of [] \<Rightarrow> [[c]] | w # ws \<Rightarrow> (c # w) # ws))"

definition create_token :: "jwt \<Rightarrow> config \<Rightarrow> string" where
  "create_token J cfg = jwt_encode J [(''issuer'', APP_NAME cfg)] (SECRET_KEY cfg)"

text \<open>The token of the header \<open>Authorization\<close>: none if the index is out of range, none inside if there is no header.\<close>

definition get_token :: "string option \<Rightarrow> string option option" where
  "get_token header = (case header of None \<Rightarrow> Some None
     | Some h \<Rightarrow> (if 1 < length (split_blank h) then Some (Some (split_blank h ! 1)) else None))"

definition decode_token :: "jwt \<Rightarrow> config \<Rightarrow> string \<Rightarrow> claims option" where
  "decode_token J cfg token = jwt_decode J token (SECRET_KEY cfg)"

text \<open>Whatever is raised on the way, the result is none.\<close>

definition get_and_validate_token :: "jwt \<Rightarrow> config \<Rightarrow> string option \<Rightarrow> claims option" where
  "get_and_validate_token J cfg header = (case get_token header of None \<Rightarrow> None
     | Some None \<Rightarrow> None
     | Some (Some token) \<Rightarrow> (case decode_token J cfg token of None \<Rightarrow> None
         | Some obj \<Rightarrow> (case map_of obj ''issuer'' of None \<Rightarrow> None
             | Some issuer \<Rightarrow> (if issuer \<noteq> APP_NAME cfg then None else Some obj))))"

section \<open>Routes\<close>

text \<open>An empty form field is ignored.\<close>

definition command :: "nat \<Rightarrow> string option \<Rightarrow> database \<Rightarrow> database" where
  "command now form db = (case form of None \<Rightarrow> db | Some c \<Rightarrow> if c = [] then db else insert_command now c db)"

text \<open>The answers of \<open>/fetch\<close>: the status 401, the record of a command, or the record without one.\<close>

datatype answer = Unauthorized | A_command nat string nat | No_command

definition fetch_answers :: "bool \<Rightarrow> database \<Rightarrow> answer list" where
  "fetch_answers valid db = (if \<not> valid then [Unauthorized]
     else if latest_commands db = [] then [No_command]
     else map (\<lambda>r. A_command (row_id r) (row_command r) (row_done r)) (latest_commands db))"

definition fetch :: "bool \<Rightarrow> nat \<Rightarrow> database \<Rightarrow> database" where
  "fetch valid now db = (if valid then insert_ping now db else db)"

definition done_route :: "bool \<Rightarrow> nat \<Rightarrow> database \<Rightarrow> database" where
  "done_route valid i db = (if valid then complete_command i db else db)"

text \<open>The time of the latest ping, of which \<open>/last/connection\<close> gives the text; none for \<open>Never\<close>.\<close>

definition last_ping :: "database \<Rightarrow> nat option" where
  "last_ping db = (if pings db = [] then None else Some (Max (set (pings db))))"

section \<open>Facts\<close>

lemma latest_in: "r \<in> set (latest_commands db) \<Longrightarrow> r \<in> set (commands db)"
  by (simp add: latest_commands_def)

lemma latest_Nil [simp]: "latest_commands db = [] \<longleftrightarrow> commands db = []"
proof
  assume l: "latest_commands db = []"
  show "commands db = []"
  proof (rule ccontr)
    assume "commands db \<noteq> []"
    then obtain r where r: "r \<in> set (commands db)" "row_created r = Max (row_created ` set (commands db))"
      by (metis (no_types, lifting) Max_in List.finite_set finite_imageI image_iff image_is_empty set_empty)
    then have "\<forall>q \<in> set (commands db). row_created q \<le> row_created r" by simp
    then show False using l r(1) by (auto simp: latest_commands_def filter_empty_conv list_all_iff)
  qed
qed (simp add: latest_commands_def)

lemma fetch_answers_command:
  "A_command i c d \<in> set (fetch_answers valid db) \<longleftrightarrow> valid \<and> (\<exists>r \<in> set (latest_commands db). row_id r = i \<and> row_command r = c \<and> row_done r = d)"
  by (auto simp: fetch_answers_def dest: latest_in)

lemma complete_simps [simp]:
  "row_id (complete i r) = row_id r" "row_command (complete i r) = row_command r" "row_created (complete i r) = row_created r"
  "row_done (complete i r) = (if row_id r = i then 1 else row_done r)"
  by (simp_all add: complete_def)

lemma route_fields [simp]:
  "commands (fetch v now db) = commands db" "command_seq (fetch v now db) = command_seq db"
  "command_seq (done_route v i db) = command_seq db" "pings (done_route v i db) = pings db"
  "commands (done_route v i db) = (if v then map (complete i) (commands db) else commands db)"
  by (simp_all add: fetch_def insert_ping_def done_route_def complete_command_def)

lemma split_blank_append: "CHR '' '' \<notin> set s \<Longrightarrow> split_blank (s @ CHR '' '' # t) = s # split_blank t"
  by (induction s) (auto split: list.splits)

lemma split_blank_word: "CHR '' '' \<notin> set s \<Longrightarrow> split_blank s = [s]"
  by (induction s) auto

end
