(* ===== verification/DroneLink.thy ===== *)
theory DroneLink
  imports Server "HOL-Library.Sublist"
begin

text \<open>
  The way of a command to the drone: the server, the program \<open>client/poller.py\<close>, which fetches the
  latest command ten times a second and writes its code into a named pipe, and \<open>read_pipe\<close> and
  \<open>process_commands\<close> of \<open>client/controller.py\<close>, which read the pipe and call the autopilot. The two
  programs run in parallel; a step is a system call or a request of one of them. The autopilot is
  a parameter: an action may be refused, which raises.
\<close>

section \<open>The poller\<close>

text \<open>The code of a command; other commands have none.\<close>

definition code_of :: "string \<Rightarrow> char option" where
  "code_of c = (if c = ''land'' then Some (CHR ''l'') else if c = ''loiter'' then Some (CHR ''h'')
     else if c = ''rtl'' then Some (CHR ''r'') else None)"

text \<open>
  Where the loop of \<open>main\<close> is: before the next poll; before the call of \<open>open\<close>, and in it when it waits for a
  reader; with the pipe open before and after the write; before the request to \<open>/done\<close>; or ended by an
  exception. The command comes with the number of its row, if it is one of the server.
\<close>

datatype poller = Polling | Fetched string "nat option" | Waiting string "nat option" | Opened string "nat option" | Written "nat option" | Marking nat | Stopped

text \<open>What \<open>poll\<close> makes of an answer: an answer without \<open>done\<close> raises a KeyError.\<close>

fun polled :: "answer \<Rightarrow> poller" where
  "polled Unauthorized = Stopped"
| "polled No_command = Polling"
| "polled (A_command i c d) = (if d \<noteq> 0 then Polling else Fetched c (Some i))"

definition closed :: "nat option \<Rightarrow> poller" where
  "closed i = (case i of None \<Rightarrow> Polling | Some n \<Rightarrow> Marking n)"

text \<open>A writer that waits in \<open>open\<close> counts as one for the readers of the pipe.\<close>

fun writing :: "poller \<Rightarrow> bool" where
  "writing (Waiting c i) = True"
| "writing (Opened c i) = True"
| "writing (Written i) = True"
| "writing p = False"

section \<open>The controller\<close>

text \<open>
  Where \<open>read_pipe\<close> is: asleep with the pipe closed; with the pipe open before the first read, which does not block;
  in the second read, which does; before \<open>close\<close>.
\<close>

datatype reader = Asleep | Ready | Blocked | Closing

datatype action = Land | Hold | Return_to_launch

text \<open>The call for a text of the queue; other texts are only printed.\<close>

definition action_of :: "string \<Rightarrow> action option" where
  "action_of s = (if s = ''l'' then Some Land else if s = ''h'' then Some Hold else if s = ''r'' then Some Return_to_launch else None)"

section \<open>The system\<close>

text \<open>
  The last two fields are for the statements only: what the poller has written, and the actions the
  autopilot has carried out.
\<close>

record link =
  clock :: nat
  db :: database
  poller :: poller
  pipe :: string
  reader :: reader
  command_queue :: "string list"
  controller_up :: bool
  sent :: "(nat option \<times> string) list"
  obeyed :: "action list"

definition start_link :: link where
  "start_link = \<lparr>clock = 0, db = init_db, poller = Polling, pipe = [], reader = Asleep, command_queue = [],
     controller_up = True, sent = [], obeyed = []\<rparr>"

text \<open>The write of a code, buffered until the pipe is closed; the bytes go with the last end of the pipe.\<close>

definition write_code :: "string \<Rightarrow> string" where
  "write_code c = (case code_of c of None \<Rightarrow> [] | Some k \<Rightarrow> [k])"

definition queue_text :: "string \<Rightarrow> link \<Rightarrow> link" where
  "queue_text t s = s\<lparr>command_queue := command_queue s @ [t]\<rparr>"

text \<open>
  The poller, with the command for the loss of the connection and whether its token is valid.
  \<^item> A poll gets an answer, loses the connection before or after the server has served it, or gets something
    that is not JSON.
  \<^item> Its \<open>open\<close> returns when there is a reader; its write fails when there is none any more.
  \<^item> The request to \<open>/done\<close> is answered, or raises before or after the server has served it.
\<close>

inductive poller_step :: "string \<Rightarrow> bool \<Rightarrow> link \<Rightarrow> link \<Rightarrow> bool" for on_error :: string and valid :: bool where
  poll: "poller s = Polling \<Longrightarrow> a \<in> set (fetch_answers valid (db s)) \<Longrightarrow>
    poller_step on_error valid s (s\<lparr>poller := polled a, db := fetch valid (clock s) (db s)\<rparr>)"
| poll_offline: "poller s = Polling \<Longrightarrow> d \<in> {db s, fetch valid (clock s) (db s)} \<Longrightarrow>
    poller_step on_error valid s (s\<lparr>poller := Fetched on_error None, db := d\<rparr>)"
| poll_garbled: "poller s = Polling \<Longrightarrow> d \<in> {db s, fetch valid (clock s) (db s)} \<Longrightarrow>
    poller_step on_error valid s (s\<lparr>poller := Stopped, db := d\<rparr>)"
| call_open: "poller s = Fetched c i \<Longrightarrow>
    poller_step on_error valid s (s\<lparr>poller := (if reader s = Asleep then Waiting c i else Opened c i)\<rparr>)"
| open_pipe: "poller s = Waiting c i \<Longrightarrow> reader s \<noteq> Asleep \<Longrightarrow> poller_step on_error valid s (s\<lparr>poller := Opened c i\<rparr>)"
| write_pipe: "poller s = Opened c i \<Longrightarrow> reader s \<noteq> Asleep \<Longrightarrow>
    poller_step on_error valid s (s\<lparr>poller := Written i, pipe := pipe s @ write_code c, sent := sent s @ [(i, c)]\<rparr>)"
| write_nothing: "poller s = Opened c i \<Longrightarrow> reader s = Asleep \<Longrightarrow> code_of c = None \<Longrightarrow>
    poller_step on_error valid s (s\<lparr>poller := Written i, sent := sent s @ [(i, c)]\<rparr>)"
| broken_pipe: "poller s = Opened c i \<Longrightarrow> reader s = Asleep \<Longrightarrow> code_of c \<noteq> None \<Longrightarrow>
    poller_step on_error valid s (s\<lparr>poller := Stopped\<rparr>)"
| close_pipe: "poller s = Written i \<Longrightarrow>
    poller_step on_error valid s (s\<lparr>poller := closed i, pipe := (if reader s = Asleep then [] else pipe s)\<rparr>)"
| mark_done: "poller s = Marking n \<Longrightarrow>
    poller_step on_error valid s (s\<lparr>poller := Polling, db := done_route valid n (db s)\<rparr>)"
| mark_fails: "poller s = Marking n \<Longrightarrow> d \<in> {db s, done_route valid n (db s)} \<Longrightarrow>
    poller_step on_error valid s (s\<lparr>poller := Stopped, db := d\<rparr>)"

text \<open>
  The controller. The first read gives a byte or the end of the file, and both are thrown away, or it would
  block; then the second gives a byte or the end of the file, which is queued. Reading stops the other
  tasks of the controller, so that the queue is served only between two reads.
\<close>

inductive controller_step :: "link \<Rightarrow> link \<Rightarrow> bool" where
  read_open: "controller_up s \<Longrightarrow> reader s = Asleep \<Longrightarrow> controller_step s (s\<lparr>reader := Ready\<rparr>)"
| first_byte: "reader s = Ready \<Longrightarrow> pipe s = k # r \<Longrightarrow> controller_step s (s\<lparr>reader := Closing, pipe := r\<rparr>)"
| first_end: "reader s = Ready \<Longrightarrow> pipe s = [] \<Longrightarrow> \<not> writing (poller s) \<Longrightarrow> controller_step s (s\<lparr>reader := Closing\<rparr>)"
| would_block: "reader s = Ready \<Longrightarrow> pipe s = [] \<Longrightarrow> writing (poller s) \<Longrightarrow> controller_step s (s\<lparr>reader := Blocked\<rparr>)"
| second_byte: "reader s = Blocked \<Longrightarrow> pipe s = k # r \<Longrightarrow>
    controller_step s (queue_text [k] (s\<lparr>reader := Closing, pipe := r\<rparr>))"
| second_end: "reader s = Blocked \<Longrightarrow> pipe s = [] \<Longrightarrow> \<not> writing (poller s) \<Longrightarrow>
    controller_step s (queue_text [] (s\<lparr>reader := Closing\<rparr>))"
| read_close: "reader s = Closing \<Longrightarrow> controller_step s
    (s\<lparr>reader := Asleep, pipe := (if writing (poller s) then pipe s else [])\<rparr>)"
| obey: "controller_up s \<Longrightarrow> reader s = Asleep \<Longrightarrow> command_queue s = t # q \<Longrightarrow> action_of t = Some a \<Longrightarrow>
    controller_step s (s\<lparr>command_queue := q, obeyed := obeyed s @ [a]\<rparr>)"
| refused: "controller_up s \<Longrightarrow> reader s = Asleep \<Longrightarrow> command_queue s = t # q \<Longrightarrow> action_of t \<noteq> None \<Longrightarrow>
    controller_step s (s\<lparr>command_queue := q, controller_up := False\<rparr>)"
| unknown: "controller_up s \<Longrightarrow> reader s = Asleep \<Longrightarrow> command_queue s = t # q \<Longrightarrow> action_of t = None \<Longrightarrow>
    controller_step s (s\<lparr>command_queue := q\<rparr>)"

text \<open>A step of the system: time passes, someone posts a command, or one of the programs goes on.\<close>

inductive link_step :: "string \<Rightarrow> bool \<Rightarrow> link \<Rightarrow> link \<Rightarrow> bool" for on_error :: string and valid :: bool where
  tick: "link_step on_error valid s (s\<lparr>clock := Suc (clock s)\<rparr>)"
| post: "link_step on_error valid s (s\<lparr>db := command (clock s) form (db s)\<rparr>)"
| by_poller: "poller_step on_error valid s t \<Longrightarrow> link_step on_error valid s t"
| by_controller: "controller_step s t \<Longrightarrow> link_step on_error valid s t"

inductive link_steps :: "string \<Rightarrow> bool \<Rightarrow> link \<Rightarrow> link \<Rightarrow> bool" for on_error :: string and valid :: bool where
  no_step: "link_steps on_error valid s s"
| more_steps: "link_steps on_error valid s t \<Longrightarrow> link_step on_error valid t u \<Longrightarrow> link_steps on_error valid s u"

inductive link_reachable :: "string \<Rightarrow> bool \<Rightarrow> link \<Rightarrow> bool" for on_error :: string and valid :: bool where
  link_start: "link_reachable on_error valid start_link"
| link_next: "link_reachable on_error valid s \<Longrightarrow> link_step on_error valid s t \<Longrightarrow> link_reachable on_error valid t"

lemma reachable_steps: "link_steps on_error valid s t \<Longrightarrow> link_reachable on_error valid s \<Longrightarrow> link_reachable on_error valid t"
  by (induction rule: link_steps.induct) (auto intro: link_next)

section \<open>The rows and the order of what is sent\<close>

fun action_code :: "action \<Rightarrow> char" where
  "action_code Land = CHR ''l''" | "action_code Hold = CHR ''h''" | "action_code Return_to_launch = CHR ''r''"

definition sent_codes :: "link \<Rightarrow> string" where
  "sent_codes s = concat (map (\<lambda>(i, c). write_code c) (sent s))"

definition sent_ids :: "link \<Rightarrow> nat list" where
  "sent_ids s = concat (map (\<lambda>(i, c). case i of None \<Rightarrow> [] | Some n \<Rightarrow> [n]) (sent s))"

lemma action_of_code: "action_of t = Some a \<Longrightarrow> t = [action_code a]"
  by (auto simp: action_of_def split: if_splits)

lemma sent_snoc [simp]:
  "sent s' = sent s @ [(i, c)] \<Longrightarrow> sent_codes s' = sent_codes s @ write_code c"
  "sent s' = sent s @ [(i, c)] \<Longrightarrow> sent_ids s' = sent_ids s @ (case i of None \<Rightarrow> [] | Some n \<Rightarrow> [n])"
  by (simp_all add: sent_codes_def sent_ids_def)

text \<open>What is on its way: carried out, in the queue, and in the pipe, in the order of sending.\<close>

definition under_way :: "link \<Rightarrow> string" where
  "under_way s = map action_code (obeyed s) @ concat (command_queue s) @ pipe s"

lemma subseq_middle: "subseq (xs @ ys @ zs) ws \<Longrightarrow> subseq (xs @ zs) ws"
  by (meson subseq_append' subseq_order.order_trans list_emb_append2 subseq_order.refl subseq_append_le_same_iff subseq_drop_many)

definition order_kept :: "link \<Rightarrow> bool" where
  "order_kept s \<longleftrightarrow> subseq (under_way s) (sent_codes s)"

lemma order_drop: "order_kept s \<Longrightarrow> sent_codes t = sent_codes s \<Longrightarrow> under_way s = xs @ ys @ zs \<Longrightarrow> under_way t = xs @ zs \<Longrightarrow> order_kept t"
  using subseq_middle by (simp add: order_kept_def)

lemma order_poller: "poller_step on_error valid s t \<Longrightarrow> order_kept s \<Longrightarrow> order_kept t"
proof (induction rule: poller_step.induct)
  case (write_pipe s c i)
  then show ?case by (simp add: order_kept_def under_way_def sent_codes_def subseq_append_le_same_iff flip: append_assoc)
next
  case (write_nothing s c i)
  then show ?case by (simp add: order_kept_def under_way_def sent_codes_def write_code_def)
next
  case (close_pipe s i)
  then show ?case by (intro order_drop[OF close_pipe(2), where xs = "map action_code (obeyed s) @ concat (command_queue s)"
        and ys = "if reader s = Asleep then pipe s else []" and zs = "if reader s = Asleep then [] else pipe s"])
      (simp_all add: under_way_def sent_codes_def)
qed (simp_all add: order_kept_def under_way_def sent_codes_def queue_text_def)

lemma order_controller: "controller_step s t \<Longrightarrow> order_kept s \<Longrightarrow> order_kept t"
proof (induction rule: controller_step.induct)
  case (first_byte s k r)
  then show ?case by (intro order_drop[OF first_byte(3), where xs = "map action_code (obeyed s) @ concat (command_queue s)" and ys = "[k]" and zs = r])
      (simp_all add: under_way_def sent_codes_def)
next
  case (read_close s)
  then show ?case by (intro order_drop[OF read_close(2), where xs = "map action_code (obeyed s) @ concat (command_queue s)"
        and ys = "if writing (poller s) then [] else pipe s" and zs = "if writing (poller s) then pipe s else []"])
      (simp_all add: under_way_def sent_codes_def)
next
  case (obey s t q a)
  then show ?case using action_of_code[OF obey(4)] by (simp add: order_kept_def under_way_def sent_codes_def)
next
  case (refused s t q)
  then show ?case by (intro order_drop[OF refused(5), where xs = "map action_code (obeyed s)" and ys = t and zs = "concat q @ pipe s"])
      (simp_all add: under_way_def sent_codes_def)
next
  case (unknown s t q)
  then show ?case by (intro order_drop[OF unknown(5), where xs = "map action_code (obeyed s)" and ys = t and zs = "concat q @ pipe s"])
      (simp_all add: under_way_def sent_codes_def)
qed (simp_all add: order_kept_def under_way_def sent_codes_def queue_text_def)

lemma order_step: "link_step on_error valid s t \<Longrightarrow> order_kept s \<Longrightarrow> order_kept t"
proof (induction rule: link_step.induct)
  case (by_poller s t)
  then show ?case by (rule order_poller)
next
  case (by_controller s t)
  then show ?case by (rule order_controller)
qed (simp_all add: order_kept_def under_way_def sent_codes_def)

lemma order_reachable: "link_reachable on_error valid s \<Longrightarrow> order_kept s"
proof (induction rule: link_reachable.induct)
  case link_start
  then show ?case by (simp add: order_kept_def start_link_def under_way_def sent_codes_def)
qed (rule order_step)

section \<open>Every command is sent at most once\<close>

text \<open>The numbers of the rows are distinct; what the poller carries is a row, not done and not yet sent.\<close>

definition rows_numbered :: "database \<Rightarrow> bool" where
  "rows_numbered d \<longleftrightarrow> distinct (map row_id (commands d)) \<and> list_all (\<lambda>r. row_id r \<le> command_seq d) (commands d)"

definition has_row :: "database \<Rightarrow> nat \<Rightarrow> string \<Rightarrow> bool" where
  "has_row d n c \<longleftrightarrow> (\<exists>r \<in> set (commands d). row_id r = n \<and> row_command r = c)"

text \<open>What may be sent: the command for the loss of the connection, and rows if the token is valid.\<close>

fun entry_ok :: "string \<Rightarrow> bool \<Rightarrow> database \<Rightarrow> nat option \<times> string \<Rightarrow> bool" where
  "entry_ok on_error valid d (None, c) \<longleftrightarrow> c = on_error"
| "entry_ok on_error valid d (Some n, c) \<longleftrightarrow> valid \<and> has_row d n c"

definition carries :: "string \<Rightarrow> bool \<Rightarrow> link \<Rightarrow> string \<Rightarrow> nat option \<Rightarrow> bool" where
  "carries on_error valid s c i \<longleftrightarrow> entry_ok on_error valid (db s) (i, c) \<and> i \<notin> Some ` set (sent_ids s)"

definition poller_sound :: "string \<Rightarrow> bool \<Rightarrow> link \<Rightarrow> bool" where
  "poller_sound on_error valid s = (case poller s of Fetched c i \<Rightarrow> carries on_error valid s c i
     | Waiting c i \<Rightarrow> carries on_error valid s c i | Opened c i \<Rightarrow> carries on_error valid s c i
     | Written (Some n) \<Rightarrow> valid | Marking n \<Rightarrow> valid | _ \<Rightarrow> True)"

text \<open>A row that was sent is done, or about to be marked, or the poller has ended.\<close>

definition settled :: "link \<Rightarrow> nat \<Rightarrow> bool" where
  "settled s n \<longleftrightarrow> poller s = Written (Some n) \<or> poller s = Marking n \<or> poller s = Stopped \<or>
     list_all (\<lambda>r. row_id r = n \<longrightarrow> row_done r \<noteq> 0) (commands (db s))"

definition sent_sound :: "string \<Rightarrow> bool \<Rightarrow> link \<Rightarrow> bool" where
  "sent_sound on_error valid s \<longleftrightarrow> distinct (sent_ids s) \<and> list_all (settled s) (sent_ids s) \<and>
     list_all (entry_ok on_error valid (db s)) (sent s)"

definition link_sound :: "string \<Rightarrow> bool \<Rightarrow> link \<Rightarrow> bool" where
  "link_sound on_error valid s \<longleftrightarrow> rows_numbered (db s) \<and> poller_sound on_error valid s \<and> sent_sound on_error valid s"

text \<open>Rows stay, with their numbers and texts, and done ones stay done.\<close>

definition keeps_rows :: "database \<Rightarrow> database \<Rightarrow> bool" where
  "keeps_rows d e \<longleftrightarrow> (\<forall>r \<in> set (commands d). \<exists>q \<in> set (commands e). row_id q = row_id r \<and> row_command q = row_command r) \<and>
     (\<forall>q \<in> set (commands e). row_id q \<le> command_seq d \<longrightarrow>
        (\<exists>r \<in> set (commands d). row_id r = row_id q \<and> (row_done r \<noteq> 0 \<longrightarrow> row_done q \<noteq> 0)))"

lemma keeps_command: "rows_numbered d \<Longrightarrow> keeps_rows d (command now form d) \<and> rows_numbered (command now form d)"
  by (fastforce simp: keeps_rows_def rows_numbered_def command_def insert_command_def list_all_iff split: option.splits)

lemma keeps_fetch: "keeps_rows d (fetch valid now d)" and numbered_fetch: "rows_numbered (fetch valid now d) \<longleftrightarrow> rows_numbered d"
  by (auto simp: keeps_rows_def rows_numbered_def)

lemma keeps_done: "keeps_rows d (done_route valid n d)"
  by (auto simp: keeps_rows_def)

lemma numbered_done: "rows_numbered (done_route valid n d) \<longleftrightarrow> rows_numbered d"
  by (simp add: rows_numbered_def comp_def list_all_iff)

lemma keeps_same: "keeps_rows d d"
  by (auto simp: keeps_rows_def)

lemma keeps_has_row: "keeps_rows d e \<Longrightarrow> has_row d n c \<Longrightarrow> has_row e n c"
  unfolding keeps_rows_def has_row_def by metis

lemma keeps_entry: "keeps_rows d e \<Longrightarrow> entry_ok on_error valid d x \<Longrightarrow> entry_ok on_error valid e x"
  by (cases x; cases "fst x") (auto intro: keeps_has_row)

lemma sent_row:
  assumes "sent_sound on_error valid s" and "rows_numbered (db s)" and "n \<in> set (sent_ids s)"
  shows "n \<le> command_seq (db s)"
proof -
  obtain c where "(Some n, c) \<in> set (sent s)" using assms(3) by (force simp: sent_ids_def split: option.splits)
  then have "has_row (db s) n c" using assms(1) by (fastforce simp: sent_sound_def list_all_iff)
  then show ?thesis using assms(2) by (auto simp: rows_numbered_def list_all_iff has_row_def)
qed

text \<open>A step that sends nothing, keeps the rows and does not give up a row that is not marked.\<close>

lemma sound_quiet:
  assumes "link_sound on_error valid s" and "sent t = sent s" and "keeps_rows (db s) (db t)" and "rows_numbered (db t)"
    and "\<And>n. poller s = Written (Some n) \<or> poller s = Marking n \<or> poller s = Stopped \<Longrightarrow> settled t n"
    and "poller_sound on_error valid t"
  shows "link_sound on_error valid t"
proof -
  have s: "sent_sound on_error valid s" "rows_numbered (db s)" using assms(1) by (simp_all add: link_sound_def)
  have "settled t n" if n: "n \<in> set (sent_ids s)" for n
  proof (cases "poller s = Written (Some n) \<or> poller s = Marking n \<or> poller s = Stopped")
    case False
    then have d: "\<forall>r \<in> set (commands (db s)). row_id r = n \<longrightarrow> row_done r \<noteq> 0"
      using s(1) n by (auto simp: sent_sound_def settled_def list_all_iff)
    have "n \<le> command_seq (db s)" by (rule sent_row[OF s n])
    then have "\<forall>q \<in> set (commands (db t)). row_id q = n \<longrightarrow> row_done q \<noteq> 0"
      using assms(3) d unfolding keeps_rows_def by metis
    then show ?thesis by (simp add: settled_def list_all_iff)
  qed (rule assms(5))
  moreover have "sent_ids t = sent_ids s" using assms(2) by (simp add: sent_ids_def)
  moreover have "list_all (entry_ok on_error valid (db t)) (sent s)"
    using s(1) keeps_entry[OF assms(3)] by (auto simp: sent_sound_def list_all_iff)
  ultimately have "sent_sound on_error valid t"
    using s(1) assms(2) by (simp add: sent_sound_def list_all_iff)
  then show ?thesis using assms(4,6) by (simp add: link_sound_def)
qed

lemma carries_kept:
  "carries on_error valid s c i \<Longrightarrow> sent t = sent s \<Longrightarrow> keeps_rows (db s) (db t) \<Longrightarrow> carries on_error valid t c i"
  using keeps_entry[of "db s" "db t" on_error valid "(i, c)"] by (simp add: carries_def sent_ids_def)

lemma poller_sound_kept:
  "poller_sound on_error valid s \<Longrightarrow> sent t = sent s \<Longrightarrow> keeps_rows (db s) (db t) \<Longrightarrow> poller t = poller s \<Longrightarrow> poller_sound on_error valid t"
  by (auto simp: poller_sound_def carries_kept split: poller.splits option.splits)

text \<open>A step of the controller or the clock, and a step in which the poller only goes on.\<close>

lemma sound_other:
  assumes "link_sound on_error valid s" and "sent t = sent s" and "db t = db s" and "poller t = poller s"
  shows "link_sound on_error valid t"
  using assms by (intro sound_quiet[OF assms(1,2)]) (auto simp: link_sound_def keeps_same settled_def intro: poller_sound_kept)

lemma sound_poller:
  assumes "link_sound on_error valid s" and "sent t = sent s" and "db t = db s" and "poller_sound on_error valid t"
    and "\<And>n. poller s = Written (Some n) \<Longrightarrow> poller t = Marking n" and "\<And>n. poller s \<noteq> Marking n" and "poller s \<noteq> Stopped"
  shows "link_sound on_error valid t"
  using assms by (intro sound_quiet[OF assms(1,2)]) (auto simp: link_sound_def keeps_same settled_def)

lemma sound_polled:
  assumes "link_sound on_error valid s" and "poller s = Polling" and "a \<in> set (fetch_answers valid (db s))"
  shows "poller_sound on_error valid (s\<lparr>poller := polled a, db := fetch valid (clock s) (db s)\<rparr>)"
proof (cases a)
  case (A_command n c d)
  then obtain r where r: "valid" "r \<in> set (commands (db s))" "row_id r = n" "row_command r = c" "row_done r = d"
    using assms(3) latest_in by (auto simp: fetch_answers_command)
  have "n \<notin> set (sent_ids s)" if "d = 0"
  proof
    assume "n \<in> set (sent_ids s)"
    then have "settled s n" using assms(1) by (simp add: link_sound_def sent_sound_def list_all_iff)
    then show False using assms(2) r that by (auto simp: settled_def list_all_iff)
  qed
  then show ?thesis using r A_command
    by (auto simp: poller_sound_def carries_def has_row_def sent_ids_def)
qed (simp_all add: poller_sound_def)

lemma sound_sent:
  assumes "link_sound on_error valid s" and "poller s = Opened c i"
    and "t = s\<lparr>poller := Written i, pipe := p, sent := sent s @ [(i, c)]\<rparr>"
  shows "link_sound on_error valid t"
proof -
  have c: "carries on_error valid s c i" and s: "sent_sound on_error valid s" "rows_numbered (db s)"
    using assms(1,2) by (simp_all add: link_sound_def poller_sound_def)
  have t: "sent_ids t = sent_ids s @ (case i of None \<Rightarrow> [] | Some n \<Rightarrow> [n])" "db t = db s" "poller t = Written i" "sent t = sent s @ [(i, c)]"
    by (simp_all add: assms(3))
  have "settled t n" if "n \<in> set (sent_ids s)" for n
    using s(1) that assms(2) t by (auto simp: sent_sound_def settled_def list_all_iff)
  moreover have "i = Some n \<Longrightarrow> settled t n" for n by (simp add: settled_def t)
  ultimately have "sent_sound on_error valid t"
    using s(1) c by (auto simp: sent_sound_def carries_def t list_all_iff split: option.splits)
  moreover have "poller_sound on_error valid t"
    using c by (auto simp: poller_sound_def carries_def t split: option.splits)
  ultimately show ?thesis using s(2) t by (simp add: link_sound_def)
qed

lemma sound_poller_step: "poller_step on_error valid s t \<Longrightarrow> link_sound on_error valid s \<Longrightarrow> link_sound on_error valid t"
proof (induction rule: poller_step.induct)
  case (poll s a)
  then show ?case using sound_polled[OF poll(3) poll(1,2)]
    by (intro sound_quiet[OF poll(3)]) (auto simp: link_sound_def keeps_fetch numbered_fetch)
next
  case (poll_offline s d)
  then have "keeps_rows (db s) d \<and> rows_numbered d" by (auto simp: link_sound_def keeps_fetch numbered_fetch keeps_same)
  then show ?case using poll_offline
    by (intro sound_quiet[OF poll_offline(3)]) (auto simp: poller_sound_def carries_def)
next
  case (poll_garbled s d)
  then have "keeps_rows (db s) d \<and> rows_numbered d" by (auto simp: link_sound_def keeps_fetch numbered_fetch keeps_same)
  then show ?case using poll_garbled
    by (intro sound_quiet[OF poll_garbled(3)]) (auto simp: poller_sound_def)
next
  case (call_open s c i)
  then show ?case by (intro sound_poller[OF call_open(2)]) (auto simp: link_sound_def poller_sound_def carries_def sent_ids_def)
next
  case (open_pipe s c i)
  then show ?case by (intro sound_poller[OF open_pipe(3)]) (auto simp: link_sound_def poller_sound_def carries_def sent_ids_def)
next
  case (write_pipe s c i)
  then show ?case by (intro sound_sent[OF write_pipe(3,1)]) simp
next
  case (write_nothing s c i)
  then show ?case by (intro sound_sent[OF write_nothing(4,1), where p = "pipe s"]) simp
next
  case (broken_pipe s c i)
  then show ?case by (intro sound_poller[OF broken_pipe(4)]) (auto simp: poller_sound_def)
next
  case (close_pipe s i)
  then show ?case
    by (intro sound_poller[OF close_pipe(2)]) (auto simp: link_sound_def poller_sound_def closed_def split: option.splits)
next
  case (mark_done s n)
  then have v: "valid" by (simp add: link_sound_def poller_sound_def)
  have "settled (s\<lparr>poller := Polling, db := done_route valid n (db s)\<rparr>) n" by (simp add: settled_def v list_all_iff)
  then show ?case using mark_done
    by (intro sound_quiet[OF mark_done(2)]) (auto simp: link_sound_def keeps_done numbered_done poller_sound_def)
next
  case (mark_fails s n d)
  then have "keeps_rows (db s) d \<and> rows_numbered d" by (auto simp: link_sound_def keeps_done numbered_done keeps_same)
  then show ?case using mark_fails
    by (intro sound_quiet[OF mark_fails(3)]) (auto simp: poller_sound_def settled_def)
qed

lemma controller_apart: "controller_step s t \<Longrightarrow> sent t = sent s \<and> db t = db s \<and> poller t = poller s \<and> clock t = clock s"
  by (induction rule: controller_step.induct) (simp_all add: queue_text_def)

lemma sound_step: "link_step on_error valid s t \<Longrightarrow> link_sound on_error valid s \<Longrightarrow> link_sound on_error valid t"
proof (induction rule: link_step.induct)
  case (tick s)
  then show ?case by (rule sound_other) simp_all
next
  case (post s form)
  then have "keeps_rows (db s) (command (clock s) form (db s)) \<and> rows_numbered (command (clock s) form (db s))"
    using keeps_command by (simp add: link_sound_def)
  then show ?case using post
    by (intro sound_quiet[OF post]) (auto simp: link_sound_def settled_def intro: poller_sound_kept)
next
  case (by_poller s t)
  then show ?case by (rule sound_poller_step)
next
  case (by_controller s t)
  then show ?case using controller_apart[of s t] by (intro sound_other[OF by_controller(2)]) simp_all
qed

lemma sound_reachable: "link_reachable on_error valid s \<Longrightarrow> link_sound on_error valid s"
proof (induction rule: link_reachable.induct)
  case link_start
  then show ?case
    by (simp add: link_sound_def start_link_def rows_numbered_def init_db_def poller_sound_def sent_sound_def sent_ids_def)
qed (rule sound_step)

end
