(* ===== verification/Dates.thy ===== *)
theory Dates
  imports JsNumber
begin

text \<open>
  Date texts: the time value of the ECMAScript date-time format with an offset, and the form in
  which the server writes the time of the last ping (\<open>str\<close> of an aware Python \<open>datetime\<close>).
\<close>

section \<open>Time values\<close>

definition leap_year :: "int \<Rightarrow> bool" where
  "leap_year y \<longleftrightarrow> y mod 4 = 0 \<and> (y mod 100 \<noteq> 0 \<or> y mod 400 = 0)"

definition day_from_year :: "int \<Rightarrow> int" where
  "day_from_year y = 365 * (y - 1970) + (y - 1969) div 4 - (y - 1901) div 100 + (y - 1601) div 400"

definition month_start :: "int \<Rightarrow> int \<Rightarrow> int" where
  "month_start y m = [0, 31, 59, 90, 120, 151, 181, 212, 243, 273, 304, 334] ! nat (m - 1) +
     (if 2 < m \<and> leap_year y then 1 else 0)"

definition month_length :: "int \<Rightarrow> int \<Rightarrow> int" where
  "month_length y m = [31, if leap_year y then 29 else 28, 31, 30, 31, 30, 31, 31, 30, 31, 30, 31] ! nat (m - 1)"

record moment =
  year :: int
  month :: int
  day :: int
  hour :: int
  minute :: int
  second :: int

definition legal :: "moment \<Rightarrow> bool" where
  "legal t \<longleftrightarrow> 1 \<le> month t \<and> month t \<le> 12 \<and> 1 \<le> day t \<and> day t \<le> month_length (year t) (month t) \<and>
     0 \<le> hour t \<and> hour t \<le> 23 \<and> 0 \<le> minute t \<and> minute t \<le> 59 \<and> 0 \<le> second t \<and> second t \<le> 59"

text \<open>Milliseconds since the epoch, for a moment in a zone \<open>off\<close> minutes ahead of UTC.\<close>

definition time_value :: "moment \<Rightarrow> int \<Rightarrow> int" where
  "time_value t off = 1000 * (86400 * (day_from_year (year t) + month_start (year t) (month t) + day t - 1) +
     3600 * hour t + 60 * minute t + second t - 60 * off)"

section \<open>Texts\<close>

definition field :: "nat \<Rightarrow> nat \<Rightarrow> string \<Rightarrow> int" where
  "field i n s = number_of (take n (drop i s))"

text \<open>\<open>YYYY-MM-DDTHH:mm:ss+HH:mm\<close> with legal values; other texts are not read here.\<close>

definition iso_shape :: "string \<Rightarrow> bool" where
  "iso_shape s \<longleftrightarrow> length s = 25 \<and> list_all (\<lambda>i. is_digit (s ! i)) [0, 1, 2, 3, 5, 6, 8, 9, 11, 12, 14, 15, 17, 18, 20, 21, 23, 24] \<and>
     s ! 4 = CHR ''-'' \<and> s ! 7 = CHR ''-'' \<and> s ! 10 = CHR ''T'' \<and> s ! 13 = CHR '':'' \<and> s ! 16 = CHR '':'' \<and>
     (s ! 19 = CHR ''+'' \<or> s ! 19 = CHR ''-'') \<and> s ! 22 = CHR '':''"

definition iso_time :: "string \<Rightarrow> int option" where
  "iso_time s = (if iso_shape s then
       (let t = \<lparr>year = field 0 4 s, month = field 5 2 s, day = field 8 2 s, hour = field 11 2 s,
            minute = field 14 2 s, second = field 17 2 s\<rparr>;
            oh = field 20 2 s; om = field 23 2 s;
            off = (if s ! 19 = CHR ''-'' then - (60 * oh + om) else 60 * oh + om)
        in if legal t \<and> oh \<le> 23 \<and> om \<le> 59 then Some (time_value t off) else None)
     else None)"

definition padded :: "nat \<Rightarrow> int \<Rightarrow> string" where
  "padded n x = replicate (n - length (dec x)) CHR ''0'' @ dec x"

text \<open>The route \<open>/last/connection\<close>: local fields in the zone of central Mexico, six hours behind UTC.\<close>

definition connection_text :: "moment \<Rightarrow> string" where
  "connection_text t = padded 4 (year t) @ ''-'' @ padded 2 (month t) @ ''-'' @ padded 2 (day t) @ '' '' @
     padded 2 (hour t) @ '':'' @ padded 2 (minute t) @ '':'' @ padded 2 (second t) @ ''-06:00''"

section \<open>Reading the server's text\<close>

lemma padded_format:
  assumes "0 \<le> x" and "x < 10 ^ n" and "0 < n"
  shows "length (padded n x) = n" and "list_all is_digit (padded n x)" and "number_of (padded n x) = x"
  using assms length_dec_le[OF assms(2,3)] dec_digits zeros_digits
  by (simp_all add: padded_def number_of_append)

lemma four_digits:
  assumes "0 \<le> x" and "x \<le> 9999"
  shows "\<exists>a b c d. padded 4 x = [a, b, c, d] \<and> list_all is_digit [a, b, c, d] \<and> number_of [a, b, c, d] = x"
proof -
  note f = padded_format[of x 4]
  have "length (padded 4 x) = Suc (Suc (Suc (Suc 0)))" using f(1) assms by simp
  then obtain a b c d where "padded 4 x = [a, b, c, d]" by (auto simp: length_Suc_conv)
  then show ?thesis using f(2,3) assms by auto
qed

lemma two_digits:
  assumes "0 \<le> x" and "x \<le> 99"
  shows "\<exists>a b. padded 2 x = [a, b] \<and> list_all is_digit [a, b] \<and> number_of [a, b] = x"
proof -
  note f = padded_format[of x 2]
  have "length (padded 2 x) = Suc (Suc 0)" using f(1) assms by simp
  then obtain a b where "padded 2 x = [a, b]" by (auto simp: length_Suc_conv)
  then show ?thesis using f(2,3) assms by auto
qed

fun replace_first :: "char \<Rightarrow> char \<Rightarrow> string \<Rightarrow> string" where
  "replace_first a b [] = []"
| "replace_first a b (c # s) = (if c = a then b # s else c # replace_first a b s)"

lemma digit_not_space: "is_digit c \<Longrightarrow> c \<noteq> CHR '' ''"
  by (auto simp: is_digit_def)

lemma month_length_le: "1 \<le> m \<Longrightarrow> m \<le> 12 \<Longrightarrow> month_length y m \<le> 31"
proof -
  assume "1 \<le> m" "m \<le> 12"
  then have "m = 1 \<or> m = 2 \<or> m = 3 \<or> m = 4 \<or> m = 5 \<or> m = 6 \<or> m = 7 \<or> m = 8 \<or> m = 9 \<or> m = 10 \<or> m = 11 \<or> m = 12"
    by presburger
  then show ?thesis by (auto simp: month_length_def)
qed

lemma connection_text_read:
  assumes "legal t" and "0 \<le> year t" and "year t \<le> 9999"
  shows "iso_time (replace_first CHR '' '' CHR ''T'' (connection_text t)) = Some (time_value t (- 360))"
    and "connection_text t \<noteq> []" and "connection_text t \<noteq> ''Never''"
proof -
  have d: "day t \<le> 99" using assms(1) month_length_le[of "month t" "year t"] by (simp add: legal_def)
  obtain y1 y2 y3 y4 where y: "padded 4 (year t) = [y1, y2, y3, y4]" "list_all is_digit [y1, y2, y3, y4]"
    "number_of [y1, y2, y3, y4] = year t" using four_digits assms(2,3) by blast
  obtain m1 m2 where m: "padded 2 (month t) = [m1, m2]" "list_all is_digit [m1, m2]" "number_of [m1, m2] = month t"
    using two_digits[of "month t"] assms(1) by (auto simp: legal_def)
  obtain d1 d2 where dd: "padded 2 (day t) = [d1, d2]" "list_all is_digit [d1, d2]" "number_of [d1, d2] = day t"
    using two_digits[of "day t"] assms(1) d by (auto simp: legal_def)
  obtain h1 h2 where h: "padded 2 (hour t) = [h1, h2]" "list_all is_digit [h1, h2]" "number_of [h1, h2] = hour t"
    using two_digits[of "hour t"] assms(1) by (auto simp: legal_def)
  obtain i1 i2 where i: "padded 2 (minute t) = [i1, i2]" "list_all is_digit [i1, i2]" "number_of [i1, i2] = minute t"
    using two_digits[of "minute t"] assms(1) by (auto simp: legal_def)
  obtain s1 s2 where s: "padded 2 (second t) = [s1, s2]" "list_all is_digit [s1, s2]" "number_of [s1, s2] = second t"
    using two_digits[of "second t"] assms(1) by (auto simp: legal_def)
  have written: "connection_text t = [y1, y2, y3, y4, CHR ''-'', m1, m2, CHR ''-'', d1, d2, CHR '' '', h1, h2,
      CHR '':'', i1, i2, CHR '':'', s1, s2, CHR ''-'', CHR ''0'', CHR ''6'', CHR '':'', CHR ''0'', CHR ''0'']"
    by (simp add: connection_text_def y(1) m(1) dd(1) h(1) i(1) s(1))
  show "connection_text t \<noteq> []" and "connection_text t \<noteq> ''Never''" by (simp_all add: written)
  let ?s = "[y1, y2, y3, y4, CHR ''-'', m1, m2, CHR ''-'', d1, d2, CHR ''T'', h1, h2,
      CHR '':'', i1, i2, CHR '':'', s1, s2, CHR ''-'', CHR ''0'', CHR ''6'', CHR '':'', CHR ''0'', CHR ''0'']"
  have rep: "replace_first CHR '' '' CHR ''T'' (connection_text t) = ?s"
    using y(2) m(2) dd(2) digit_not_space by (auto simp: written)
  have shape: "iso_shape ?s"
    using y(2) m(2) dd(2) h(2) i(2) s(2) by (simp add: iso_shape_def is_digit_def[of "CHR ''6''"])
  have fields: "field 0 4 ?s = year t" "field 5 2 ?s = month t" "field 8 2 ?s = day t" "field 11 2 ?s = hour t"
    "field 14 2 ?s = minute t" "field 17 2 ?s = second t" "field 20 2 ?s = 6" "field 23 2 ?s = 0"
    by (simp_all only: field_def) (simp_all add: y(3) m(3) dd(3) h(3) i(3) s(3), simp_all add: number_of_def digit_val_def)
  have "iso_time ?s = Some (time_value t (- 360))"
    unfolding iso_time_def Let_def fields using shape assms(1) by (simp add: legal_def time_value_def)
  then show "iso_time (replace_first CHR '' '' CHR ''T'' (connection_text t)) = Some (time_value t (- 360))"
    unfolding rep .
qed

end
