(* ===== verification/Console.thy ===== *)
theory Console
  imports Js Dates
begin

text \<open>
  The console page, \<open>js/app.js\<close>: the \<open>DroneControl\<close> object, the elements of the page it writes, and
  its handlers. A handler runs from the arrival of its reply to its end without interruption, so it
  is a state transformer; requests and replies are events of a step relation. The map library
  (Leaflet) and the locale-dependent dates are parameters.
\<close>

section \<open>The page\<close>

record button =
  button_value :: string
  button_classes :: "string list"
  icon_classes :: "string list"

text \<open>Elements that the page lacks are none.\<close>

record view =
  status_class :: "string option"
  last_connection :: "string option"
  latitude_text :: "string option"
  longitude_text :: "string option"
  altitude_text :: "string option"
  battery_text :: "string option"
  battery_icon :: "(string \<times> string) option"
  flight_mode_text :: "string option"
  armed_checked :: "bool option"
  air_checked :: "bool option"
  error_box :: "(string \<times> string) option"
  command_buttons :: "button list"

section \<open>The state of the console\<close>

type_synonym latlng = "f64 \<times> f64"

record telemetry =
  latitude :: "f64 option"
  longitude :: "f64 option"
  altitude :: "f64 option"
  percentage :: js
  battery_id :: js
  flight_mode :: js
  armed :: js
  in_air :: js

text \<open>What a click hits: the button itself or the icon inside it.\<close>

datatype target = OnButton nat | OnIcon nat

record 'm console =
  connected :: bool
  lastConnection :: string
  telemetry :: telemetry
  loadingTelemetry :: bool
  loadingConnection :: bool
  error_message :: "string option"
  trajectoryPoints :: "latlng list"
  the_map :: 'm
  the_view :: view
  connectionInterval :: bool
  telemetryInterval :: bool
  pending_connection :: nat
  pending_telemetry :: nat
  pending_commands :: "target list"
  posted :: "string list"

definition maxTrajectoryPoints :: nat where
  "maxTrajectoryPoints = 1000"

definition FLIGHT_MODE_TO_COMMAND :: "string \<Rightarrow> string option" where
  "FLIGHT_MODE_TO_COMMAND = [''RETURN_TO_LAUNCH'' \<mapsto> ''rtl'', ''HOLD'' \<mapsto> ''loiter'', ''LAND'' \<mapsto> ''land'']"

text \<open>
  The map library: the map with its tile layer, drone marker and trajectory line as one state.
  An operation given coordinates it does not accept throws.
\<close>

record 'm leaflet =
  new_map :: "latlng \<Rightarrow> nat \<Rightarrow> 'm"
  tile_layer :: "string \<Rightarrow> nat \<Rightarrow> 'm \<Rightarrow> 'm"
  new_marker :: "latlng \<Rightarrow> 'm \<Rightarrow> 'm"
  new_line :: "latlng list \<Rightarrow> 'm \<Rightarrow> 'm"
  set_view :: "latlng \<Rightarrow> nat \<Rightarrow> 'm \<Rightarrow> 'm option"
  add_marker :: "'m \<Rightarrow> 'm option"
  get_lat_lng :: "'m \<Rightarrow> latlng option"
  set_lat_lng :: "latlng \<Rightarrow> 'm \<Rightarrow> 'm option"
  has_element :: "'m \<Rightarrow> bool"
  mark_armed :: "bool \<Rightarrow> 'm \<Rightarrow> 'm"
  set_line :: "latlng list \<Rightarrow> 'm \<Rightarrow> 'm option"
  in_bounds :: "latlng \<Rightarrow> 'm \<Rightarrow> bool option"
  pan_to :: "latlng \<Rightarrow> 'm \<Rightarrow> 'm option"
  remove_map :: "'m \<Rightarrow> 'm option"

section \<open>Errors\<close>

definition showError :: "string \<Rightarrow> 'm console \<Rightarrow> 'm console" where
  "showError message c = c\<lparr>error_message := Some message,
     the_view := (the_view c)\<lparr>error_box := map_option (\<lambda>_. (message, ''block'')) (error_box (the_view c))\<rparr>\<rparr>"

definition clearError :: "'m console \<Rightarrow> 'm console" where
  "clearError c = c\<lparr>error_message := None,
     the_view := (the_view c)\<lparr>error_box := map_option (\<lambda>(text, _). (text, ''none'')) (error_box (the_view c))\<rparr>\<rparr>"

section \<open>The connection\<close>

text \<open>
  The clock and the dates, in milliseconds: the present, the time value of a text outside the
  standard format (none if invalid), which depends on the browser, and the display of a time value,
  which depends on its locale data.
\<close>

record clock =
  now :: int
  other_date :: "string \<Rightarrow> int option"
  formatDateTime :: "int option \<Rightarrow> string"

definition date_of :: "clock \<Rightarrow> string \<Rightarrow> int option" where
  "date_of t s = (case iso_time s of Some d \<Rightarrow> Some d | None \<Rightarrow> other_date t s)"

text \<open>What a fetch of a text comes to.\<close>

datatype reply = Failed | Body string

definition updateConnectionUI :: "'m console \<Rightarrow> 'm console" where
  "updateConnectionUI c = c\<lparr>the_view := (the_view c)
     \<lparr>status_class := map_option (\<lambda>_. ''status-indicator '' @
        (if connected c then ''status-connected'' else ''status-disconnected'')) (status_class (the_view c)),
      last_connection := map_option (\<lambda>_. lastConnection c) (last_connection (the_view c))\<rparr>\<rparr>"

definition recent :: "clock \<Rightarrow> int option \<Rightarrow> bool" where
  "recent t date = (case date of None \<Rightarrow> False | Some d \<Rightarrow> now t - d < 10000)"

definition connection_failed :: string where
  "connection_failed = ''Error al obtener el estado de conexi'' @ [CHR 0xC3, CHR 0xB3] @ ''n''"

definition updateConnectionStatus :: "clock \<Rightarrow> reply \<Rightarrow> 'm console \<Rightarrow> 'm console" where
  "updateConnectionStatus t r c = (case r of
       Failed \<Rightarrow> showError connection_failed (c\<lparr>connected := False\<rparr>)
     | Body text \<Rightarrow>
         (let date = date_of t (replace_first CHR '' '' CHR ''T'' text);
              c = (if text \<noteq> [] \<and> text \<noteq> ''Never''
                   then c\<lparr>connected := recent t date, lastConnection := formatDateTime t date\<rparr>
                   else c\<lparr>connected := False, lastConnection := ''Never''\<rparr>);
              c = updateConnectionUI c
          in c\<lparr>loadingConnection := False\<rparr>))"

section \<open>The display of the telemetry\<close>

definition degree :: string where
  "degree = [CHR 0xC2, CHR 0xB0]"

definition coordinate_text :: "f64 option \<Rightarrow> string" where
  "coordinate_text x = (case x of None \<Rightarrow> ''---.------'' @ degree | Some a \<Rightarrow> to_fixed 6 a @ degree)"

definition height_text :: "f64 option \<Rightarrow> string" where
  "height_text x = (case x of None \<Rightarrow> ''--- m'' | Some a \<Rightarrow> to_fixed 1 a @ '' m'')"

definition charge_text :: "js \<Rightarrow> string" where
  "charge_text p = (if p \<noteq> Null then js_string p @ ''%'' else ''--%'')"

definition above :: "js \<Rightarrow> f64 \<Rightarrow> bool" where
  "above p bound \<longleftrightarrow> bound < js_number p"

definition charge_icon :: "js \<Rightarrow> string \<times> string" where
  "charge_icon p =
     (if above p (Fin 30) then [CHR 0xF0, CHR 0x9F, CHR 0x94, CHR 0x8B] else [CHR 0xF0, CHR 0x9F, CHR 0xAA, CHR 0xAB],
      ''battery-icon '' @ (if above p (Fin 60) then ''battery-good''
        else if above p (Fin 30) then ''battery-medium'' else ''battery-low''))"

definition mode_text :: "js \<Rightarrow> string" where
  "mode_text m = (if truthy m then js_string m else ''---'')"

definition add_class :: "string \<Rightarrow> string list \<Rightarrow> string list" where
  "add_class k cs = (if k \<in> set cs then cs else cs @ [k])"

definition mode_button :: "js \<Rightarrow> button \<Rightarrow> button" where
  "mode_button m b = (if FLIGHT_MODE_TO_COMMAND (js_string m) = Some (button_value b)
     then b\<lparr>button_classes := removeAll ''secondary'' (add_class ''primary'' (button_classes b))\<rparr>
     else b\<lparr>button_classes := add_class ''secondary'' (removeAll ''primary'' (button_classes b))\<rparr>)"

definition updateTelemetryUI :: "'m console \<Rightarrow> 'm console" where
  "updateTelemetryUI c = (let t = telemetry c; v = the_view c in c\<lparr>the_view := v
     \<lparr>latitude_text := map_option (\<lambda>_. coordinate_text (latitude t)) (latitude_text v),
      longitude_text := map_option (\<lambda>_. coordinate_text (longitude t)) (longitude_text v),
      altitude_text := map_option (\<lambda>_. height_text (altitude t)) (altitude_text v),
      battery_text := map_option (\<lambda>_. charge_text (percentage t)) (battery_text v),
      battery_icon := (if percentage t \<noteq> Null then map_option (\<lambda>_. charge_icon (percentage t)) (battery_icon v)
        else battery_icon v),
      flight_mode_text := map_option (\<lambda>_. mode_text (flight_mode t)) (flight_mode_text v),
      command_buttons := map (mode_button (flight_mode t)) (command_buttons v),
      armed_checked := map_option (\<lambda>_. truthy (armed t)) (armed_checked v),
      air_checked := map_option (\<lambda>_. truthy (in_air t)) (air_checked v)\<rparr>\<rparr>)"

section \<open>The map\<close>

definition initMap :: "'m leaflet \<Rightarrow> 'm" where
  "initMap L = new_line L [] (new_marker L (0, 0)
     (tile_layer L ''https://{s}.tile.openstreetmap.org/{z}/{x}/{y}.png'' 19
       (new_map L (lit (194326 / 10000), lit (- 991332 / 10000)) 13)))"

definition on_map :: "('m \<Rightarrow> 'm option) \<Rightarrow> 'm console stm" where
  "on_map f = attempt (\<lambda>c. map_option (\<lambda>m. c\<lparr>the_map := m\<rparr>) (f (the_map c)))"

text \<open>The marker is still where it was created, or has no position.\<close>

definition unplaced :: "latlng option \<Rightarrow> bool" where
  "unplaced p = (case p of None \<Rightarrow> True | Some (lat, lng) \<Rightarrow> feq lat 0 \<and> feq lng 0)"

definition push_point :: "latlng \<Rightarrow> 'm console \<Rightarrow> 'm console" where
  "push_point p c = c\<lparr>trajectoryPoints := trajectoryPoints c @ [p]\<rparr>"

definition shift_point :: "'m console \<Rightarrow> 'm console" where
  "shift_point c = c\<lparr>trajectoryPoints := tl (trajectoryPoints c)\<rparr>"

definition updateMapPosition :: "'m leaflet \<Rightarrow> 'm console stm" where
  "updateMapPosition L c = (case (latitude (telemetry c), longitude (telemetry c)) of
       (Some lat, Some lng) \<Rightarrow> (let newLatLng = (lat, lng) in block
         [whenever (\<lambda>c. unplaced (get_lat_lng L (the_map c)))
            (block [on_map (add_marker L), on_map (set_view L newLatLng 16)]),
          on_map (set_lat_lng L newLatLng),
          whenever (\<lambda>c. has_element L (the_map c))
            (run (\<lambda>c. c\<lparr>the_map := mark_armed L (truthy (armed (telemetry c))) (the_map c)\<rparr>)),
          run (push_point newLatLng),
          whenever (\<lambda>c. maxTrajectoryPoints < length (trajectoryPoints c)) (run shift_point),
          (\<lambda>c. on_map (set_line L (trajectoryPoints c)) c),
          on_map (\<lambda>m. case in_bounds L newLatLng m of None \<Rightarrow> None
            | Some inside \<Rightarrow> if inside then Some m else pan_to L newLatLng m)] c)
     | _ \<Rightarrow> (Normal, c))"

definition clearTrajectory :: "'m leaflet \<Rightarrow> 'm console stm" where
  "clearTrajectory L = block [run (\<lambda>c. c\<lparr>trajectoryPoints := []\<rparr>), on_map (set_line L [])]"

definition centerOnDrone :: "'m leaflet \<Rightarrow> 'm console stm" where
  "centerOnDrone L c = (case (latitude (telemetry c), longitude (telemetry c)) of
       (Some lat, Some lng) \<Rightarrow> on_map (set_view L (lat, lng) 16) c
     | _ \<Rightarrow> (Normal, c))"

section \<open>The telemetry\<close>

definition parseFloat :: "js \<Rightarrow> f64" where
  "parseFloat v = parse_float (js_string v)"

definition take_position :: "js \<Rightarrow> telemetry \<Rightarrow> telemetry option" where
  "take_position v t = (case (get v ''latitude'', get v ''longitude'', get v ''altitude'') of
       (Some a, Some b, Some h) \<Rightarrow> Some (t\<lparr>latitude := Some (parseFloat a), longitude := Some (parseFloat b),
          altitude := Some (parseFloat h)\<rparr>)
     | _ \<Rightarrow> None)"

definition take_battery :: "js \<Rightarrow> telemetry \<Rightarrow> telemetry option" where
  "take_battery v t = (case (get v ''percentage'', get v ''id'') of
       (Some p, Some i) \<Rightarrow> Some (t\<lparr>percentage := p, battery_id := i\<rparr>) | _ \<Rightarrow> None)"

definition take_mode :: "js \<Rightarrow> telemetry \<Rightarrow> telemetry option" where
  "take_mode v t = map_option (\<lambda>x. t\<lparr>flight_mode := x\<rparr>) (get v ''mode'')"

definition take_armed :: "js \<Rightarrow> telemetry \<Rightarrow> telemetry option" where
  "take_armed v t = map_option (\<lambda>x. t\<lparr>armed := x\<rparr>) (get v ''armed'')"

definition take_in_air :: "js \<Rightarrow> telemetry \<Rightarrow> telemetry option" where
  "take_in_air v t = map_option (\<lambda>x. t\<lparr>in_air := x\<rparr>) (get v ''in_air'')"

text \<open>A section of the reply is taken over if it is there.\<close>

definition take_section :: "js \<Rightarrow> string \<Rightarrow> (js \<Rightarrow> telemetry \<Rightarrow> telemetry option) \<Rightarrow> 'm console stm" where
  "take_section data k f = attempt (\<lambda>c. case get data k of None \<Rightarrow> None
     | Some v \<Rightarrow> if truthy v then map_option (\<lambda>t. c\<lparr>telemetry := t\<rparr>) (f v (telemetry c)) else Some c)"

definition telemetry_failed :: string where
  "telemetry_failed = ''Error al obtener telemetr'' @ [CHR 0xC3, CHR 0xAD] @ ''a''"

text \<open>The reply is none if the fetch failed or the body is not JSON.\<close>

definition updateTelemetry :: "'m leaflet \<Rightarrow> js option \<Rightarrow> 'm console \<Rightarrow> 'm console" where
  "updateTelemetry L r c = (case r of
       None \<Rightarrow> showError telemetry_failed c
     | Some data \<Rightarrow> try_catch (block
         [take_section data ''position'' take_position,
          take_section data ''battery'' take_battery,
          take_section data ''flight_mode'' take_mode,
          take_section data ''armed'' take_armed,
          take_section data ''in_air'' take_in_air,
          run updateTelemetryUI,
          updateMapPosition L,
          run (\<lambda>c. c\<lparr>loadingTelemetry := False\<rparr>),
          run clearError]) (showError telemetry_failed) c)"

section \<open>Commands\<close>

definition target_index :: "target \<Rightarrow> nat" where
  "target_index g = (case g of OnButton i \<Rightarrow> i | OnIcon i \<Rightarrow> i)"

text \<open>The value of the element that was hit: an image has none.\<close>

definition target_value :: "target \<Rightarrow> view \<Rightarrow> js" where
  "target_value g v = (case g of OnButton i \<Rightarrow> Str (button_value (command_buttons v ! i)) | OnIcon i \<Rightarrow> Undefined)"

definition sendCommand :: "js \<Rightarrow> 'm console \<Rightarrow> 'm console" where
  "sendCommand command c = c\<lparr>posted := posted c @ [js_string command]\<rparr>"

definition command_clicked :: "target \<Rightarrow> 'm console \<Rightarrow> 'm console" where
  "command_clicked g c = (let c = sendCommand (target_value g (the_view c)) c
     in c\<lparr>pending_commands := pending_commands c @ [g]\<rparr>)"

definition press :: "string list \<Rightarrow> string list" where
  "press cs = removeAll ''secondary'' (add_class ''primary'' cs)"

definition press_target :: "target \<Rightarrow> view \<Rightarrow> view" where
  "press_target g v = v\<lparr>command_buttons := (command_buttons v)[target_index g :=
     (let b = command_buttons v ! target_index g in
      case g of OnButton i \<Rightarrow> b\<lparr>button_classes := press (button_classes b)\<rparr>
        | OnIcon i \<Rightarrow> b\<lparr>icon_classes := press (icon_classes b)\<rparr>)]\<rparr>"

definition command_answered :: "nat \<Rightarrow> bool \<Rightarrow> 'm console \<Rightarrow> 'm console" where
  "command_answered k ok c = (let g = pending_commands c ! k;
       c = c\<lparr>pending_commands := take k (pending_commands c) @ drop (Suc k) (pending_commands c)\<rparr>
     in if ok then c\<lparr>the_view := press_target g (the_view c)\<rparr> else c)"

section \<open>Construction and destruction\<close>

definition no_telemetry :: telemetry where
  "no_telemetry = \<lparr>latitude = None, longitude = None, altitude = None, percentage = Null, battery_id = Null,
     flight_mode = Null, armed = Bool False, in_air = Bool False\<rparr>"

text \<open>Both requests are sent at once and then at each interval.\<close>

definition constructor :: "'m leaflet \<Rightarrow> view \<Rightarrow> 'm console" where
  "constructor L v = \<lparr>connected = False, lastConnection = ''Never'', telemetry = no_telemetry,
     loadingTelemetry = True, loadingConnection = True, error_message = None, trajectoryPoints = [],
     the_map = initMap L, the_view = v, connectionInterval = True, telemetryInterval = True,
     pending_connection = 1, pending_telemetry = 1, pending_commands = [], posted = []\<rparr>"

definition destroy :: "'m leaflet \<Rightarrow> 'm console stm" where
  "destroy L = block [run (\<lambda>c. c\<lparr>connectionInterval := False\<rparr>), run (\<lambda>c. c\<lparr>telemetryInterval := False\<rparr>),
     on_map (remove_map L)]"

section \<open>Events\<close>

datatype 'm event =
    ConnectionTick | TelemetryTick
  | ConnectionReply clock reply | TelemetryReply "js option"
  | Click target | CommandReply nat bool
  | ClearTrajectory | CenterOnDrone | Destroy
  | MapMoved 'm

text \<open>
  Timers and clicks send requests; replies come in any order. \<open>MapMoved\<close> is the operator's own
  panning and zooming, which leaves the marker where it is.
\<close>

inductive step :: "'m leaflet \<Rightarrow> 'm console \<Rightarrow> 'm event \<Rightarrow> 'm console \<Rightarrow> bool" for L where
  connection_tick: "connectionInterval c \<Longrightarrow>
    step L c ConnectionTick (c\<lparr>pending_connection := Suc (pending_connection c)\<rparr>)"
| telemetry_tick: "telemetryInterval c \<Longrightarrow>
    step L c TelemetryTick (c\<lparr>pending_telemetry := Suc (pending_telemetry c)\<rparr>)"
| connection_reply: "pending_connection c = Suc n \<Longrightarrow>
    step L c (ConnectionReply t r) (updateConnectionStatus t r (c\<lparr>pending_connection := n\<rparr>))"
| telemetry_reply: "pending_telemetry c = Suc n \<Longrightarrow>
    step L c (TelemetryReply r) (updateTelemetry L r (c\<lparr>pending_telemetry := n\<rparr>))"
| click: "target_index g < length (command_buttons (the_view c)) \<Longrightarrow> step L c (Click g) (command_clicked g c)"
| command_reply: "k < length (pending_commands c) \<Longrightarrow> step L c (CommandReply k ok) (command_answered k ok c)"
| clear_trajectory: "step L c ClearTrajectory (snd (clearTrajectory L c))"
| center_on_drone: "step L c CenterOnDrone (snd (centerOnDrone L c))"
| destroyed: "step L c Destroy (snd (destroy L c))"
| map_moved: "get_lat_lng L m = get_lat_lng L (the_map c) \<Longrightarrow> step L c (MapMoved m) (c\<lparr>the_map := m\<rparr>)"

inductive reachable :: "'m leaflet \<Rightarrow> view \<Rightarrow> 'm console \<Rightarrow> bool" for L v where
  start: "reachable L v (constructor L v)"
| next_step: "reachable L v c \<Longrightarrow> step L c e d \<Longrightarrow> reachable L v d"

inductive_cases reply_stepE: "step L c (TelemetryReply r) d"
inductive_cases connection_stepE: "step L c (ConnectionReply t r) d"

end
