(* ===== verification/CommandPath.thy ===== *)
theory CommandPath
  imports DroneLink Console
begin

text \<open>
  What holds of a command on its way from the console page to the autopilot, through the server, the
  poller, the pipe and the controller, in every interleaving of their steps, and how it can be lost.
\<close>

section \<open>Superseded commands\<close>

text \<open>The row the poller carries or is about to mark.\<close>

fun carried :: "poller \<Rightarrow> nat option" where
  "carried (Fetched c i) = i"
| "carried (Waiting c i) = i"
| "carried (Opened c i) = i"
| "carried (Written i) = i"
| "carried (Marking n) = Some n"
| "carried p = None"

text \<open>Row \<open>n\<close> is not done, not sent, not carried, and a later command has been posted.\<close>

definition superseded :: "nat \<Rightarrow> link \<Rightarrow> bool" where
  "superseded n s \<longleftrightarrow> n \<notin> set (sent_ids s) \<and> carried (poller s) \<noteq> Some n \<and>
     (\<forall>r \<in> set (commands (db s)). row_id r = n \<longrightarrow> row_done r = 0 \<and> (\<exists>q \<in> set (commands (db s)). row_created r < row_created q)) \<and>
     n \<le> command_seq (db s)"

lemma superseded_same:
  "superseded n s \<Longrightarrow> sent t = sent s \<Longrightarrow> commands (db t) = commands (db s) \<Longrightarrow> command_seq (db t) = command_seq (db s) \<Longrightarrow>
   carried (poller t) = carried (poller s) \<or> carried (poller t) = None \<Longrightarrow> superseded n t"
  by (auto simp: superseded_def sent_ids_def)

lemma superseded_sent:
  "superseded n s \<Longrightarrow> poller s = Opened c i \<Longrightarrow> superseded n (s\<lparr>poller := Written i, pipe := p, sent := sent s @ [(i, c)]\<rparr>)"
  by (auto simp: superseded_def sent_ids_def split: option.splits)

lemma superseded_done:
  assumes "superseded n s" and "m \<noteq> n" and "carried p = None"
  shows "superseded n (s\<lparr>poller := p, db := done_route valid m (db s)\<rparr>)"
proof -
  have "row_done (complete m r) = 0 \<and> (\<exists>q \<in> set (commands (db s)). row_created r < row_created (complete m q))"
    if "r \<in> set (commands (db s))" "row_id r = n" for r
    using assms(1,2) that by (auto simp: superseded_def)
  then show ?thesis using assms(1,3) by (auto simp: superseded_def sent_ids_def)
qed

lemma superseded_poller: "poller_step on_error valid s t \<Longrightarrow> superseded n s \<Longrightarrow> superseded n t"
proof (induction rule: poller_step.induct)
  case (poll s a)
  have "carried (polled a) \<noteq> Some n"
  proof (cases a)
    case (A_command i c d)
    then obtain r where r: "r \<in> set (latest_commands (db s))" "row_id r = i" using poll(2) by (auto simp: fetch_answers_command)
    have "i \<noteq> n"
    proof
      assume "i = n"
      then obtain q where "q \<in> set (commands (db s))" "row_created r < row_created q"
        using poll(3) r latest_in[OF r(1)] by (auto simp: superseded_def)
      then show False using r(1) by (auto simp: latest_commands_def list_all_iff)
    qed
    then show ?thesis by (simp add: A_command)
  qed simp_all
  then show ?case using poll by (simp add: superseded_def sent_ids_def)
next
  case (write_pipe s c i)
  then show ?case by (intro superseded_sent)
next
  case (write_nothing s c i)
  then show ?case using superseded_sent[OF write_nothing(4,1), of "pipe s"] by simp
next
  case (close_pipe s i)
  then show ?case by (intro superseded_same[OF close_pipe(2)]) (simp_all add: closed_def split: option.splits)
next
  case (mark_done s m)
  then have "m \<noteq> n" by (auto simp: superseded_def)
  then show ?case using superseded_done[OF mark_done(2)] by simp
next
  case (mark_fails s m d)
  then have "m \<noteq> n" by (auto simp: superseded_def)
  then show ?case using mark_fails(2) superseded_done[OF mark_fails(3), of m Stopped valid]
      superseded_same[OF mark_fails(3), of "s\<lparr>poller := Stopped, db := db s\<rparr>"] by auto
next
  case (poll_offline s d)
  then show ?case by (intro superseded_same[OF poll_offline(3)]) auto
next
  case (poll_garbled s d)
  then show ?case by (intro superseded_same[OF poll_garbled(3)]) auto
qed (erule superseded_same; simp)+

lemma superseded_step: "link_step on_error valid s t \<Longrightarrow> superseded n s \<Longrightarrow> superseded n t"
proof (induction rule: link_step.induct)
  case (tick s)
  then show ?case by (rule superseded_same) simp_all
next
  case (post s form)
  then show ?case by (fastforce simp: superseded_def command_def insert_command_def sent_ids_def split: option.splits)
next
  case (by_poller s t)
  then show ?case by (rule superseded_poller)
next
  case (by_controller s t)
  then show ?case using controller_apart[of s t] by (intro superseded_same[OF by_controller(2)]) simp_all
qed

lemma superseded_steps: "link_steps on_error valid s t \<Longrightarrow> superseded n s \<Longrightarrow> superseded n t"
  by (induction rule: link_steps.induct) (auto intro: superseded_step)

section \<open>Runs\<close>

lemma step_steps: "link_step on_error valid s t \<Longrightarrow> link_steps on_error valid t u \<Longrightarrow> link_steps on_error valid s u"
proof -
  have "link_steps on_error valid t u \<Longrightarrow> link_step on_error valid s t \<Longrightarrow> link_steps on_error valid s u"
    by (induction rule: link_steps.induct) (auto intro: no_step more_steps)
  then show "link_step on_error valid s t \<Longrightarrow> link_steps on_error valid t u \<Longrightarrow> link_steps on_error valid s u" by blast
qed

lemma steps_trans: "link_steps on_error valid t u \<Longrightarrow> link_steps on_error valid s t \<Longrightarrow> link_steps on_error valid s u"
  by (induction rule: link_steps.induct) (auto intro: more_steps)

text \<open>Nothing is under way.\<close>

definition idle :: "link \<Rightarrow> bool" where
  "idle s \<longleftrightarrow> poller s = Polling \<and> reader s = Asleep \<and> pipe s = [] \<and> command_queue s = [] \<and> controller_up s"

lemma code_action: "code_of c = Some k \<Longrightarrow> \<exists>a. action_of [k] = Some a \<and> action_code a = k"
  by (auto simp: code_of_def action_of_def split: if_splits)

text \<open>The poller waits in \<open>open\<close> before the controller reads.\<close>

lemma delivery:
  assumes "idle s" and "r \<in> set (latest_commands (db s))" and "row_done r = 0" and "code_of (row_command r) = Some k"
    and "action_of [k] = Some a"
  shows "\<exists>t. link_steps on_error True s t \<and> idle t \<and> obeyed t = obeyed s @ [a] \<and> sent t = sent s @ [(Some (row_id r), row_command r)] \<and>
    db t = complete_command (row_id r) (insert_ping (clock s) (db s)) \<and> clock t = clock s"
proof -
  let ?n = "row_id r" and ?c = "row_command r" and ?d = "fetch True (clock s) (db s)"
  note i = assms(1)[unfolded idle_def]
  have a: "A_command ?n ?c 0 \<in> set (fetch_answers True (db s))" using assms(2,3) by (auto simp: fetch_answers_command)
  define s1 where "s1 = s\<lparr>poller := Fetched ?c (Some ?n), db := ?d\<rparr>"
  define s2 where "s2 = s1\<lparr>poller := Waiting ?c (Some ?n)\<rparr>"
  define s3 where "s3 = s2\<lparr>reader := Ready\<rparr>"
  define s4 where "s4 = s3\<lparr>reader := Blocked\<rparr>"
  define s5 where "s5 = s4\<lparr>poller := Opened ?c (Some ?n)\<rparr>"
  define s6 where "s6 = s5\<lparr>poller := Written (Some ?n), pipe := [k], sent := sent s @ [(Some ?n, ?c)]\<rparr>"
  define s7 where "s7 = queue_text [k] (s6\<lparr>reader := Closing, pipe := []\<rparr>)"
  define s8 where "s8 = s7\<lparr>reader := Asleep, pipe := []\<rparr>"
  define s9 where "s9 = s8\<lparr>poller := Marking ?n, pipe := []\<rparr>"
  define s10 where "s10 = s9\<lparr>poller := Polling, db := done_route True ?n ?d\<rparr>"
  define t where "t = s10\<lparr>command_queue := [], obeyed := obeyed s @ [a]\<rparr>"
  note d = s1_def s2_def s3_def s4_def s5_def s6_def s7_def s8_def s9_def s10_def t_def queue_text_def
  let ?st = "link_step on_error True"
  have "?st s s1" using by_poller[OF poll[OF _ a, of on_error]] i by (simp add: d)
  moreover have "?st s1 s2" using by_poller[OF call_open[of s1 ?c "Some ?n" on_error True]] i by (simp add: d)
  moreover have "?st s2 s3" using by_controller[OF read_open[of s2], of on_error True] i by (simp add: d)
  moreover have "?st s3 s4" using by_controller[OF would_block[of s3], of on_error True] i by (simp add: d)
  moreover have "?st s4 s5" using by_poller[OF open_pipe[of s4 ?c "Some ?n" on_error True]] by (simp add: d)
  moreover have "?st s5 s6" using by_poller[OF write_pipe[of s5 ?c "Some ?n" on_error True]] i assms(4) by (simp add: d write_code_def)
  moreover have "?st s6 s7" using by_controller[OF second_byte[of s6 k "[]"], of on_error True] by (simp add: d)
  moreover have "?st s7 s8" using by_controller[OF read_close[of s7], of on_error True] by (simp add: d)
  moreover have "?st s8 s9" using by_poller[OF close_pipe[of s8 "Some ?n" on_error True]] by (simp add: d closed_def)
  moreover have "?st s9 s10" using by_poller[OF mark_done[of s9 ?n on_error True]] by (simp add: d)
  moreover have "?st s10 t" using by_controller[OF obey[of s10 "[k]" "[]" a], of on_error True] i assms(5) by (simp add: d)
  ultimately have "link_steps on_error True s t" by - ((rule step_steps, assumption)+, rule no_step)
  moreover have "idle t" using i by (simp add: idle_def d)
  ultimately show ?thesis by (intro exI[of _ t]) (simp add: d done_route_def fetch_def)
qed

text \<open>A command that is in the pipe when the controller reads it first.\<close>

lemma loss:
  assumes "idle s" and "r \<in> set (latest_commands (db s))" and "row_done r = 0" and "code_of (row_command r) = Some k"
  shows "\<exists>t. link_steps on_error True s t \<and> idle t \<and> obeyed t = obeyed s \<and>
    db t = complete_command (row_id r) (insert_ping (clock s) (db s))"
proof -
  let ?n = "row_id r" and ?c = "row_command r" and ?d = "fetch True (clock s) (db s)"
  note i = assms(1)[unfolded idle_def]
  have a: "A_command ?n ?c 0 \<in> set (fetch_answers True (db s))" using assms(2,3) by (auto simp: fetch_answers_command)
  define s1 where "s1 = s\<lparr>poller := Fetched ?c (Some ?n), db := ?d\<rparr>"
  define s2 where "s2 = s1\<lparr>reader := Ready\<rparr>"
  define s3 where "s3 = s2\<lparr>poller := Opened ?c (Some ?n)\<rparr>"
  define s4 where "s4 = s3\<lparr>poller := Written (Some ?n), pipe := [k], sent := sent s @ [(Some ?n, ?c)]\<rparr>"
  define s5 where "s5 = s4\<lparr>reader := Closing, pipe := []\<rparr>"
  define s6 where "s6 = s5\<lparr>reader := Asleep, pipe := []\<rparr>"
  define s7 where "s7 = s6\<lparr>poller := Marking ?n, pipe := []\<rparr>"
  define t where "t = s7\<lparr>poller := Polling, db := done_route True ?n ?d\<rparr>"
  note d = s1_def s2_def s3_def s4_def s5_def s6_def s7_def t_def
  let ?st = "link_step on_error True"
  have "?st s s1" using by_poller[OF poll[OF _ a, of on_error]] i by (simp add: d)
  moreover have "?st s1 s2" using by_controller[OF read_open[of s1], of on_error True] i by (simp add: d)
  moreover have "?st s2 s3" using by_poller[OF call_open[of s2 ?c "Some ?n" on_error True]] by (simp add: d)
  moreover have "?st s3 s4" using by_poller[OF write_pipe[of s3 ?c "Some ?n" on_error True]] i assms(4) by (simp add: d write_code_def)
  moreover have "?st s4 s5" using by_controller[OF first_byte[of s4 k "[]"], of on_error True] by (simp add: d)
  moreover have "?st s5 s6" using by_controller[OF read_close[of s5], of on_error True] by (simp add: d)
  moreover have "?st s6 s7" using by_poller[OF close_pipe[of s6 "Some ?n" on_error True]] by (simp add: d closed_def)
  moreover have "?st s7 t" using by_poller[OF mark_done[of s7 ?n on_error True]] by (simp add: d)
  ultimately have "link_steps on_error True s t" by - ((rule step_steps, assumption)+, rule no_step)
  moreover have "idle t" using i by (simp add: idle_def d)
  ultimately show ?thesis by (intro exI[of _ t]) (simp add: d done_route_def fetch_def)
qed

text \<open>The first command, and the system after it was posted.\<close>

definition first_row :: "string \<Rightarrow> command_row" where
  "first_row c = \<lparr>row_id = 1, row_command = c, row_done = 0, row_created = 0\<rparr>"

definition one_command :: "string \<Rightarrow> link" where
  "one_command c = start_link\<lparr>db := insert_command 0 c init_db\<rparr>"

lemma one_command_reachable: "c \<noteq> [] \<Longrightarrow> link_reachable on_error valid (one_command c)"
  using link_next[OF link_start post[of on_error valid start_link "Some c"]]
  by (simp add: one_command_def start_link_def command_def)

lemma one_command_idle: "idle (one_command c)" and one_command_rows: "commands (db (one_command c)) = [first_row c]"
  and one_command_fields: "obeyed (one_command c) = []" "sent (one_command c) = []" "clock (one_command c) = 0"
    "command_seq (db (one_command c)) = 1"
  by (simp_all add: idle_def one_command_def start_link_def insert_command_def init_db_def first_row_def)

lemma one_command_latest: "first_row c \<in> set (latest_commands (db (one_command c)))"
  by (simp add: latest_commands_def one_command_rows)

lemma code_not_Nil: "code_of c = Some k \<Longrightarrow> c \<noteq> []"
  by (auto simp: code_of_def)

section \<open>Properties\<close>

text \<open>
  C6: What the drone does. In every interleaving of the server, the poller and the controller the autopilot
  carries out, in order, some of the commands the poller has sent; each posted command is sent at most
  once; and nothing is sent but posted commands, and the command for the loss of the connection.
\<close>

theorem drone_obeys:
  assumes "link_reachable on_error valid s"
  shows "subseq (map action_code (obeyed s)) (sent_codes s) \<and> distinct (sent_ids s) \<and>
    list_all (entry_ok on_error valid (db s)) (sent s)"
proof -
  have "subseq (map action_code (obeyed s)) (under_way s)" by (simp add: under_way_def prefix_imp_subseq)
  then have "subseq (map action_code (obeyed s)) (sent_codes s)"
    using order_reachable[OF assms] subseq_order.order_trans unfolding order_kept_def by blast
  then show ?thesis using sound_reachable[OF assms] by (simp add: link_sound_def sent_sound_def)
qed

theorem drone_obeys_witness:
  "\<exists>s. obeyed s = [Land] \<and> subseq (map action_code (obeyed s)) (sent_codes s) \<and> sent_ids s = [1]"
proof -
  have k: "code_of (row_command (first_row ''land'')) = Some (CHR ''l'')" "row_done (first_row ''land'') = 0" "row_id (first_row ''land'') = 1"
    by (simp_all add: first_row_def code_of_def)
  obtain t where t: "link_steps ''loiter'' True (one_command ''land'') t" "obeyed t = [Land]"
      "sent t = [(Some 1, row_command (first_row ''land''))]"
    using delivery[OF one_command_idle one_command_latest k(2,1), of Land "''loiter''"]
    by (auto simp: action_of_def one_command_fields k(3))
  have "link_reachable ''loiter'' True t" by (rule reachable_steps[OF t(1) one_command_reachable]) simp
  from drone_obeys[OF this] t show ?thesis by (intro exI[of _ t]) (simp add: sent_ids_def)
qed

text \<open>
  C7: The latest command wins. A command that has not reached the poller when one with a later time is posted is
  never sent to the drone, however long the system runs, and stays undone.
\<close>

theorem superseded_never_sent:
  assumes "link_reachable on_error valid s" and "r \<in> set (commands (db s))" and "q \<in> set (commands (db s))"
    and "row_created r < row_created q" and "row_done r = 0" and "carried (poller s) \<noteq> Some (row_id r)"
    and "row_id r \<notin> set (sent_ids s)" and "link_steps on_error valid s t"
  shows "row_id r \<notin> set (sent_ids t) \<and> list_all (\<lambda>p. row_id p = row_id r \<longrightarrow> row_done p = 0) (commands (db t))"
proof -
  have "rows_numbered (db s)" using sound_reachable[OF assms(1)] by (simp add: link_sound_def)
  then have u: "p = r" if "p \<in> set (commands (db s))" "row_id p = row_id r" for p
    using that assms(2) by (auto simp: rows_numbered_def distinct_map inj_on_def)
  have "row_id r \<le> command_seq (db s)" using \<open>rows_numbered (db s)\<close> assms(2) by (simp add: rows_numbered_def list_all_iff)
  then have "superseded (row_id r) s" using assms(3-7) u by (auto simp: superseded_def)
  from superseded_steps[OF assms(8) this] show ?thesis by (auto simp: superseded_def list_all_iff)
qed

definition two_commands :: link where
  "two_commands = (one_command ''land'')\<lparr>clock := 1, db := insert_command 1 ''loiter'' (db (one_command ''land''))\<rparr>"

lemma two_commands_reachable: "link_reachable on_error valid two_commands"
proof -
  have "link_reachable on_error valid ((one_command ''land'')\<lparr>clock := 1\<rparr>)"
    using link_next[OF one_command_reachable tick[of on_error valid "one_command ''land''"]]
    by (simp add: one_command_fields)
  from link_next[OF this post[of _ _ _ "Some ''loiter''"]] show ?thesis
    by (simp add: two_commands_def command_def)
qed

theorem superseded_never_sent_witness:
  "1 \<notin> set (sent_ids two_commands)"
proof -
  let ?q = "\<lparr>row_id = 2, row_command = ''loiter'', row_done = 0, row_created = 1\<rparr>"
  have c: "commands (db two_commands) = [first_row ''land'', ?q]"
    by (simp add: two_commands_def one_command_rows insert_command_def one_command_fields)
  have f: "row_id (first_row ''land'') = 1" "row_created (first_row ''land'') = 0" "row_done (first_row ''land'') = 0"
    by (simp_all add: first_row_def)
  have s: "sent_ids two_commands = []" "poller two_commands = Polling"
    by (simp_all add: two_commands_def sent_ids_def one_command_def start_link_def)
  from superseded_never_sent[OF two_commands_reachable[of "''loiter''" True], of "first_row ''land''" ?q two_commands]
  show ?thesis using c f s by (simp add: no_step)
qed

text \<open>
  C15: A command can get through. From any state in which nothing is under way the latest command, if it is not
  done and is one of the three, has a run in which the autopilot carries it out, its row is marked done, and
  nothing is under way again.
\<close>

theorem command_delivered:
  assumes "idle s" and "r \<in> set (latest_commands (db s))" and "row_done r = 0" and "code_of (row_command r) = Some k"
  shows "\<exists>t a. link_steps on_error True s t \<and> idle t \<and> obeyed t = obeyed s @ [a] \<and> action_code a = k \<and>
    commands (db t) = map (complete (row_id r)) (commands (db s))"
proof -
  obtain a where "action_of [k] = Some a" "action_code a = k" using code_action[OF assms(4)] by blast
  then show ?thesis
    using delivery[OF assms, of a on_error] by (auto simp: complete_command_def insert_ping_def)
qed

theorem command_delivered_witness:
  "\<exists>t a. link_steps ''loiter'' True (one_command ''rtl'') t \<and> obeyed t = [a] \<and> action_code a = CHR ''r''"
proof -
  have "row_done (first_row ''rtl'') = 0" "code_of (row_command (first_row ''rtl'')) = Some (CHR ''r'')"
    by (simp_all add: first_row_def code_of_def)
  from command_delivered[OF one_command_idle one_command_latest this, of "''loiter''"]
  show ?thesis by (auto simp: one_command_fields)
qed

text \<open>
  C16: A command can be lost without trace. If the poller writes between the controller's opening of the pipe and
  its first read, the byte is read and thrown away: there is a run that ends with the command marked
  done, nothing under way, both programs alive, and nothing carried out.
\<close>

theorem command_lost:
  assumes "code_of c = Some k"
  shows "\<exists>t. link_reachable on_error True t \<and> idle t \<and> obeyed t = [] \<and>
    commands (db t) = [\<lparr>row_id = 1, row_command = c, row_done = 1, row_created = 0\<rparr>]"
proof -
  have r: "row_done (first_row c) = 0" "code_of (row_command (first_row c)) = Some k" "row_id (first_row c) = 1"
    using assms by (simp_all add: first_row_def)
  obtain t where t: "link_steps on_error True (one_command c) t" "idle t" "obeyed t = []"
      "db t = complete_command 1 (insert_ping 0 (db (one_command c)))"
    using loss[OF one_command_idle one_command_latest r(1,2), of on_error] by (auto simp: one_command_fields r(3))
  have "link_reachable on_error True t" by (rule reachable_steps[OF t(1) one_command_reachable[OF code_not_Nil[OF assms]]])
  moreover have "commands (db t) = [\<lparr>row_id = 1, row_command = c, row_done = 1, row_created = 0\<rparr>]"
    by (simp add: t(4) complete_command_def insert_ping_def one_command_rows first_row_def complete_def)
  ultimately show ?thesis using t(2,3) by blast
qed

theorem command_lost_witness:
  "\<exists>t. link_reachable ''loiter'' True t \<and> idle t \<and> obeyed t = [] \<and>
    commands (db t) = [\<lparr>row_id = 1, row_command = ''land'', row_done = 1, row_created = 0\<rparr>]"
  by (rule command_lost) (simp add: code_of_def)

end
