(* ===== verification/ConsoleFacts.thy ===== *)
theory ConsoleFacts
  imports Console
begin

text \<open>
  Facts about the console: what a telemetry reply does as one equation, the rendering of the
  telemetry, the invariants of every reachable state, the trajectory as the latest positions, and
  the connection indicator.
\<close>

named_theorems console_defs \<open>the handlers that only assign fields\<close>

declare showError_def [console_defs] clearError_def [console_defs] updateConnectionUI_def [console_defs]
  updateTelemetryUI_def [console_defs] push_point_def [console_defs] shift_point_def [console_defs]

section \<open>The sections of a telemetry reply\<close>

definition prop_of :: "js \<Rightarrow> string \<Rightarrow> js" where
  "prop_of v k = (case get v k of None \<Rightarrow> Undefined | Some x \<Rightarrow> x)"

definition defined :: "js \<Rightarrow> bool" where
  "defined v \<longleftrightarrow> v \<noteq> Undefined \<and> v \<noteq> Null"

lemma get_defined: "defined v \<Longrightarrow> get v k = Some (prop_of v k)"
  by (cases v) (simp_all add: defined_def prop_of_def)

lemma get_undefined: "\<not> defined v \<Longrightarrow> get v k = None"
  by (cases v) (simp_all add: defined_def)

lemma truthy_defined: "truthy v \<Longrightarrow> defined v"
  by (cases v) (simp_all add: defined_def)

text \<open>The telemetry after a reply: each section that is there replaces its fields.\<close>

definition merge :: "js \<Rightarrow> telemetry \<Rightarrow> telemetry" where
  "merge data t =
     (let p = prop_of data ''position''; b = prop_of data ''battery''; m = prop_of data ''flight_mode'';
          a = prop_of data ''armed''; i = prop_of data ''in_air''
      in t\<lparr>latitude := (if truthy p then Some (parseFloat (prop_of p ''latitude'')) else latitude t),
           longitude := (if truthy p then Some (parseFloat (prop_of p ''longitude'')) else longitude t),
           altitude := (if truthy p then Some (parseFloat (prop_of p ''altitude'')) else altitude t),
           percentage := (if truthy b then prop_of b ''percentage'' else percentage t),
           battery_id := (if truthy b then prop_of b ''id'' else battery_id t),
           flight_mode := (if truthy m then prop_of m ''mode'' else flight_mode t),
           armed := (if truthy a then prop_of a ''armed'' else armed t),
           in_air := (if truthy i then prop_of i ''in_air'' else in_air t)\<rparr>)"

lemma take_section_undefined: "\<not> defined data \<Longrightarrow> take_section data k f c = (Thrown, c)"
  by (simp add: take_section_def attempt_def get_undefined)

definition sections :: "js \<Rightarrow> 'm console stm" where
  "sections data = block [take_section data ''position'' take_position,
     take_section data ''battery'' take_battery, take_section data ''flight_mode'' take_mode,
     take_section data ''armed'' take_armed, take_section data ''in_air'' take_in_air]"

lemma take_some:
  "defined v \<Longrightarrow> take_position v t = Some (t\<lparr>latitude := Some (parseFloat (prop_of v ''latitude'')),
     longitude := Some (parseFloat (prop_of v ''longitude'')), altitude := Some (parseFloat (prop_of v ''altitude''))\<rparr>)"
  "defined v \<Longrightarrow> take_battery v t = Some (t\<lparr>percentage := prop_of v ''percentage'', battery_id := prop_of v ''id''\<rparr>)"
  "defined v \<Longrightarrow> take_mode v t = Some (t\<lparr>flight_mode := prop_of v ''mode''\<rparr>)"
  "defined v \<Longrightarrow> take_armed v t = Some (t\<lparr>armed := prop_of v ''armed''\<rparr>)"
  "defined v \<Longrightarrow> take_in_air v t = Some (t\<lparr>in_air := prop_of v ''in_air''\<rparr>)"
  by (simp_all add: take_position_def take_battery_def take_mode_def take_armed_def take_in_air_def get_defined)

lemma take_sections_defined:
  assumes "defined data"
  defines "v \<equiv> prop_of data"
  shows "take_section data k take_position c = (Normal, c\<lparr>telemetry := (telemetry c)
      \<lparr>latitude := (if truthy (v k) then Some (parseFloat (prop_of (v k) ''latitude'')) else latitude (telemetry c)),
       longitude := (if truthy (v k) then Some (parseFloat (prop_of (v k) ''longitude'')) else longitude (telemetry c)),
       altitude := (if truthy (v k) then Some (parseFloat (prop_of (v k) ''altitude'')) else altitude (telemetry c))\<rparr>\<rparr>)"
    and "take_section data k take_battery c = (Normal, c\<lparr>telemetry := (telemetry c)
      \<lparr>percentage := (if truthy (v k) then prop_of (v k) ''percentage'' else percentage (telemetry c)),
       battery_id := (if truthy (v k) then prop_of (v k) ''id'' else battery_id (telemetry c))\<rparr>\<rparr>)"
    and "take_section data k take_mode c = (Normal, c\<lparr>telemetry := (telemetry c)
      \<lparr>flight_mode := (if truthy (v k) then prop_of (v k) ''mode'' else flight_mode (telemetry c))\<rparr>\<rparr>)"
    and "take_section data k take_armed c = (Normal, c\<lparr>telemetry := (telemetry c)
      \<lparr>armed := (if truthy (v k) then prop_of (v k) ''armed'' else armed (telemetry c))\<rparr>\<rparr>)"
    and "take_section data k take_in_air c = (Normal, c\<lparr>telemetry := (telemetry c)
      \<lparr>in_air := (if truthy (v k) then prop_of (v k) ''in_air'' else in_air (telemetry c))\<rparr>\<rparr>)"
  unfolding v_def using truthy_defined[of "prop_of data k"]
  by (cases "truthy (prop_of data k)"; simp add: take_section_def attempt_def get_defined[OF assms(1)] take_some)+

lemma sections_defined:
  assumes "defined data"
  shows "sections data c = (Normal, c\<lparr>telemetry := merge data (telemetry c)\<rparr>)"
  by (simp only: sections_def block.simps and_then_def take_sections_defined[OF assms] prod.case completion.case run_def id_def)
    (simp add: merge_def Let_def)

lemma sections_undefined: "\<not> defined data \<Longrightarrow> sections data c = (Thrown, c)"
  by (simp add: sections_def and_then_def take_section_undefined)

section \<open>A telemetry reply\<close>

definition rendered :: "'m console \<Rightarrow> js \<Rightarrow> 'm console" where
  "rendered c data = updateTelemetryUI (c\<lparr>telemetry := merge data (telemetry c)\<rparr>)"

lemma updateTelemetry_defined:
  assumes "defined data"
  shows "updateTelemetry L (Some data) c =
    (case updateMapPosition L (rendered c data) of
       (Normal, d) \<Rightarrow> clearError (d\<lparr>loadingTelemetry := False\<rparr>) | (Thrown, d) \<Rightarrow> showError telemetry_failed d)"
proof -
  have "updateTelemetry L (Some data) c = try_catch (and_then (sections data)
      (block [run updateTelemetryUI, updateMapPosition L, run (\<lambda>c. c\<lparr>loadingTelemetry := False\<rparr>), run clearError]))
      (showError telemetry_failed) c"
    by (simp only: updateTelemetry_def option.case sections_def block_append[symmetric] append.simps)
  also have "\<dots> = (case updateMapPosition L (rendered c data) of
       (Normal, d) \<Rightarrow> clearError (d\<lparr>loadingTelemetry := False\<rparr>) | (Thrown, d) \<Rightarrow> showError telemetry_failed d)"
    by (simp add: try_catch_def and_then_def sections_defined[OF assms] run_def rendered_def
      split: prod.splits completion.splits)
  finally show ?thesis .
qed

lemma updateTelemetry_undefined:
  assumes "\<not> defined data"
  shows "updateTelemetry L (Some data) c = showError telemetry_failed c"
proof -
  have "updateTelemetry L (Some data) c = try_catch (and_then (sections data)
      (block [run updateTelemetryUI, updateMapPosition L, run (\<lambda>c. c\<lparr>loadingTelemetry := False\<rparr>), run clearError]))
      (showError telemetry_failed) c"
    by (simp only: updateTelemetry_def option.case sections_def block_append[symmetric] append.simps)
  then show ?thesis by (simp add: try_catch_def and_then_def sections_undefined[OF assms])
qed

section \<open>Map operations\<close>

lemma on_map_keeps: "(\<And>c m. P c \<Longrightarrow> P (c\<lparr>the_map := m\<rparr>)) \<Longrightarrow> keeps P (on_map f)"
  unfolding on_map_def by (rule keeps_attempt) auto

section \<open>The trajectory\<close>

definition latest :: "nat \<Rightarrow> 'a list \<Rightarrow> 'a list" where
  "latest n xs = drop (length xs - n) xs"

lemma length_latest [simp]: "length (latest n xs) = min n (length xs)"
  by (simp add: latest_def)

lemma latest_append: "latest n (latest n xs @ ys) = latest n (xs @ ys)"
  by (simp add: latest_def add.commute) (cases "length xs \<le> n"; simp add: add.commute)

lemma latest_short: "length xs \<le> n \<Longrightarrow> latest n xs = xs"
  by (simp add: latest_def)

definition position :: "telemetry \<Rightarrow> latlng option" where
  "position t = (case (latitude t, longitude t) of (Some lat, Some lng) \<Rightarrow> Some (lat, lng) | _ \<Rightarrow> None)"

definition place_marker :: "'m leaflet \<Rightarrow> latlng \<Rightarrow> 'm console stm" where
  "place_marker L p = block
     [whenever (\<lambda>c. unplaced (get_lat_lng L (the_map c))) (block [on_map (add_marker L), on_map (set_view L p 16)]),
      on_map (set_lat_lng L p),
      whenever (\<lambda>c. has_element L (the_map c))
        (run (\<lambda>c. c\<lparr>the_map := mark_armed L (truthy (armed (telemetry c))) (the_map c)\<rparr>))]"

definition draw_line :: "'m leaflet \<Rightarrow> latlng \<Rightarrow> 'm console stm" where
  "draw_line L p = block
     [(\<lambda>c. on_map (set_line L (trajectoryPoints c)) c),
      on_map (\<lambda>m. case in_bounds L p m of None \<Rightarrow> None
        | Some inside \<Rightarrow> if inside then Some m else pan_to L p m)]"

lemma updateMapPosition_None: "position (telemetry c) = None \<Longrightarrow> updateMapPosition L c = (Normal, c)"
  by (simp add: updateMapPosition_def position_def split: option.splits)

lemma updateMapPosition_Some:
  assumes "position (telemetry c) = Some p"
  shows "updateMapPosition L c = and_then (place_marker L p) (and_then
    (block [run (push_point p), whenever (\<lambda>c. maxTrajectoryPoints < length (trajectoryPoints c)) (run shift_point)])
    (draw_line L p)) c"
proof -
  obtain lat lng where p: "latitude (telemetry c) = Some lat" "longitude (telemetry c) = Some lng" "p = (lat, lng)"
    using assms by (auto simp: position_def split: option.splits)
  show ?thesis
    by (simp add: updateMapPosition_def p Let_def place_marker_def draw_line_def
      block_append[symmetric] del: block.simps)
qed

lemma limit_points:
  assumes "length (trajectoryPoints c) \<le> maxTrajectoryPoints"
  shows "block [run (push_point p), whenever (\<lambda>c. maxTrajectoryPoints < length (trajectoryPoints c)) (run shift_point)] c =
    (Normal, c\<lparr>trajectoryPoints := latest maxTrajectoryPoints (trajectoryPoints c @ [p])\<rparr>)"
proof (cases "length (trajectoryPoints c) = maxTrajectoryPoints")
  case True
  then have "tl (trajectoryPoints c @ [p]) = latest maxTrajectoryPoints (trajectoryPoints c @ [p])"
    by (simp add: latest_def drop_Suc del: drop_append)
  then show ?thesis using True by (simp add: and_then_def run_def whenever_def push_point_def shift_point_def)
next
  case False
  then show ?thesis using assms by (simp add: and_then_def run_def whenever_def push_point_def latest_short)
qed

lemma place_marker_keeps: "(\<And>c m. P c \<Longrightarrow> P (c\<lparr>the_map := m\<rparr>)) \<Longrightarrow> keeps P (place_marker L p)"
  unfolding place_marker_def by (intro keeps_block) (auto intro!: keeps_whenever keeps_and_then on_map_keeps keeps_run)

lemma draw_line_keeps:
  assumes "\<And>c m. P c \<Longrightarrow> P (c\<lparr>the_map := m\<rparr>)"
  shows "keeps P (draw_line L p)"
proof -
  have "keeps P (\<lambda>c. on_map (set_line L (trajectoryPoints c)) c)"
    using on_map_keeps[of P, OF assms] by (simp add: keeps_def)
  then show ?thesis unfolding draw_line_def by (intro keeps_block) (auto intro!: on_map_keeps assms)
qed

lemma updateMapPosition_keeps:
  assumes "\<And>c m. P c \<Longrightarrow> P (c\<lparr>the_map := m\<rparr>)" and "\<And>c ps. P c \<Longrightarrow> P (c\<lparr>trajectoryPoints := ps\<rparr>)"
  shows "keeps P (updateMapPosition L)"
proof -
  have "P (snd (updateMapPosition L c))" if "P c" for c
  proof (cases "position (telemetry c)")
    case (Some p)
    have "keeps P (block [run (push_point p),
        whenever (\<lambda>c. maxTrajectoryPoints < length (trajectoryPoints c)) (run shift_point)])"
      by (intro keeps_block) (auto intro!: keeps_run keeps_whenever simp: push_point_def shift_point_def assms(2))
    then have "keeps P (and_then (place_marker L p) (and_then (block [run (push_point p),
        whenever (\<lambda>c. maxTrajectoryPoints < length (trajectoryPoints c)) (run shift_point)]) (draw_line L p)))"
      by (intro keeps_and_then place_marker_keeps draw_line_keeps assms(1))
    then show ?thesis using that unfolding updateMapPosition_Some[OF Some] keeps_def by blast
  qed (use that in \<open>simp add: updateMapPosition_None\<close>)
  then show ?thesis by (simp add: keeps_def)
qed

lemma updateMapPosition_points:
  assumes "length (trajectoryPoints c) \<le> maxTrajectoryPoints" and "position (telemetry c) = Some p"
    and "updateMapPosition L c = (r, d)"
  shows "trajectoryPoints d = latest maxTrajectoryPoints (trajectoryPoints c @ [p]) \<or>
    r = Thrown \<and> trajectoryPoints d = trajectoryPoints c"
proof -
  let ?new = "latest maxTrajectoryPoints (trajectoryPoints c @ [p])"
  obtain r1 c1 where 1: "place_marker L p c = (r1, c1)" by (cases "place_marker L p c")
  have p1: "trajectoryPoints c1 = trajectoryPoints c"
    by (rule keepsD[OF place_marker_keeps[of "\<lambda>d. trajectoryPoints d = trajectoryPoints c"] _ 1]) simp_all
  show ?thesis
  proof (cases r1)
    case Normal
    let ?c2 = "c1\<lparr>trajectoryPoints := ?new\<rparr>"
    obtain r3 c3 where 3: "draw_line L p ?c2 = (r3, c3)" by (cases "draw_line L p ?c2")
    have "trajectoryPoints c3 = ?new"
      by (rule keepsD[OF draw_line_keeps[of "\<lambda>d. trajectoryPoints d = ?new"] _ 3]) simp_all
    moreover have "(r, d) = (r3, c3)"
      using assms(3) limit_points[of c1 p] assms(1) p1 1 3 Normal
      by (simp add: updateMapPosition_Some[OF assms(2)] and_then_def[of "place_marker L p"]
        and_then_def[of _ "draw_line L p"] del: block.simps)
    ultimately show ?thesis by auto
  next
    case Thrown
    then have "(r, d) = (Thrown, c1)"
      using assms(3) 1 by (simp add: updateMapPosition_Some[OF assms(2)] and_then_def[of "place_marker L p"])
    then show ?thesis using p1 by auto
  qed
qed

end
