(* ===== verification/ConsoleRuns.thy ===== *)
theory ConsoleRuns
  imports ConsoleFacts
begin

text \<open>
  Every reachable state of the console: the page shows what the object holds, the trajectory is
  bounded, the error box is open exactly while there is an error. The start needs a page whose
  placeholders are those of \<open>index.html\<close>.
\<close>

section \<open>The page shows the state\<close>

definition shows_text :: "string \<Rightarrow> string option \<Rightarrow> bool" where
  "shows_text s x \<longleftrightarrow> x = None \<or> x = Some s"

definition telemetry_shown :: "telemetry \<Rightarrow> view \<Rightarrow> bool" where
  "telemetry_shown t v \<longleftrightarrow> shows_text (coordinate_text (latitude t)) (latitude_text v) \<and>
     shows_text (coordinate_text (longitude t)) (longitude_text v) \<and>
     shows_text (height_text (altitude t)) (altitude_text v) \<and>
     shows_text (charge_text (percentage t)) (battery_text v) \<and>
     shows_text (mode_text (flight_mode t)) (flight_mode_text v) \<and>
     (percentage t \<noteq> Null \<longrightarrow> battery_icon v = None \<or> battery_icon v = Some (charge_icon (percentage t))) \<and>
     (armed_checked v = None \<or> armed_checked v = Some (truthy (armed t))) \<and>
     (air_checked v = None \<or> air_checked v = Some (truthy (in_air t)))"

definition error_shown :: "string option \<Rightarrow> view \<Rightarrow> bool" where
  "error_shown e v \<longleftrightarrow> (case error_box v of None \<Rightarrow> True | Some (text, display) \<Rightarrow>
     (case e of None \<Rightarrow> display = ''none'' | Some m \<Rightarrow> text = m \<and> display = ''block''))"

text \<open>The indicator is red only while the state says disconnected.\<close>

definition status_shown :: "bool \<Rightarrow> view \<Rightarrow> bool" where
  "status_shown b v \<longleftrightarrow> (status_class v = Some ''status-indicator status-disconnected'' \<longrightarrow> \<not> b)"

definition consistent :: "'m console \<Rightarrow> bool" where
  "consistent c \<longleftrightarrow> telemetry_shown (telemetry c) (the_view c) \<and> error_shown (error_message c) (the_view c) \<and>
     status_shown (connected c) (the_view c) \<and> length (trajectoryPoints c) \<le> maxTrajectoryPoints"

text \<open>The page as \<open>index.html\<close> has it, apart from the buttons and the connection text.\<close>

definition fresh_page :: "view \<Rightarrow> bool" where
  "fresh_page v \<longleftrightarrow> shows_text (''---.------'' @ degree) (latitude_text v) \<and>
     shows_text (''---.------'' @ degree) (longitude_text v) \<and> shows_text ''--- m'' (altitude_text v) \<and>
     shows_text ''--%'' (battery_text v) \<and> shows_text ''---'' (flight_mode_text v) \<and>
     armed_checked v \<in> {None, Some False} \<and> air_checked v \<in> {None, Some False} \<and>
     (case error_box v of None \<Rightarrow> True | Some b \<Rightarrow> snd b = ''none'')"

lemmas shown_defs = consistent_def telemetry_shown_def error_shown_def status_shown_def

lemma consistent_start: "fresh_page v \<Longrightarrow> consistent (constructor L v)"
  by (auto simp: fresh_page_def shown_defs constructor_def no_telemetry_def coordinate_text_def height_text_def
    charge_text_def mode_text_def split: option.splits)

lemma consistent_fields [simp]:
  "consistent (c\<lparr>the_map := m\<rparr>) = consistent c"
  "consistent (c\<lparr>pending_connection := n\<rparr>) = consistent c" "consistent (c\<lparr>pending_telemetry := n\<rparr>) = consistent c"
  "consistent (c\<lparr>pending_commands := gs\<rparr>) = consistent c" "consistent (c\<lparr>posted := ps\<rparr>) = consistent c"
  "consistent (c\<lparr>loadingTelemetry := b\<rparr>) = consistent c" "consistent (c\<lparr>loadingConnection := b\<rparr>) = consistent c"
  "consistent (c\<lparr>connectionInterval := b\<rparr>) = consistent c" "consistent (c\<lparr>telemetryInterval := b\<rparr>) = consistent c"
  by (simp_all add: consistent_def)

lemma shows_text_map [simp]: "shows_text s (map_option (\<lambda>_. s) x)"
  by (cases x) (simp_all add: shows_text_def)

lemma map_const_cases: "map_option (\<lambda>_. s) x = None \<or> map_option (\<lambda>_. s) x = Some s"
  by (cases x) simp_all

lemma telemetry_shown_fields [simp]:
  "telemetry_shown t (v\<lparr>error_box := b\<rparr>) = telemetry_shown t v"
  "telemetry_shown t (v\<lparr>status_class := s\<rparr>) = telemetry_shown t v"
  "telemetry_shown t (v\<lparr>last_connection := s\<rparr>) = telemetry_shown t v"
  "telemetry_shown t (v\<lparr>command_buttons := bs\<rparr>) = telemetry_shown t v"
  by (simp_all add: telemetry_shown_def)

lemma error_shown_open: "error_shown (Some m) (v\<lparr>error_box := map_option (\<lambda>_. (m, ''block'')) b\<rparr>)"
  and error_shown_closed: "error_shown None (v\<lparr>error_box := map_option (\<lambda>(text, _). (text, ''none'')) b\<rparr>)"
  by (cases b; simp add: error_shown_def split: prod.splits)+

lemma consistent_error:
  assumes "consistent c"
  shows "consistent (showError m c)" and "consistent (clearError c)"
  using assms by (simp_all add: consistent_def showError_def clearError_def error_shown_open error_shown_closed status_shown_def)

lemma consistent_connectionUI:
  assumes "consistent (c\<lparr>connected := False\<rparr>)"
  shows "consistent (updateConnectionUI c)"
proof -
  have "status_shown (connected c) (the_view (updateConnectionUI c))"
    by (cases "connected c"; cases "status_class (the_view c)") (simp_all add: status_shown_def updateConnectionUI_def)
  then show ?thesis using assms by (simp add: consistent_def updateConnectionUI_def error_shown_def)
qed

lemma consistent_connection:
  assumes "consistent c"
  shows "consistent (updateConnectionStatus t r c)"
proof (cases r)
  case Failed
  have "consistent (c\<lparr>connected := False\<rparr>)" using assms by (simp add: consistent_def status_shown_def)
  then show ?thesis using Failed consistent_error by (simp add: updateConnectionStatus_def)
next
  case (Body s)
  have "consistent (updateConnectionUI (c\<lparr>connected := b, lastConnection := l\<rparr>))" for b l
    by (rule consistent_connectionUI) (use assms in \<open>simp add: consistent_def status_shown_def\<close>)
  then show ?thesis by (simp add: Body updateConnectionStatus_def Let_def)
qed

lemma telemetry_shownI:
  assumes "latitude_text v = map_option (\<lambda>_. coordinate_text (latitude t)) x1"
    and "longitude_text v = map_option (\<lambda>_. coordinate_text (longitude t)) x2"
    and "altitude_text v = map_option (\<lambda>_. height_text (altitude t)) x3"
    and "battery_text v = map_option (\<lambda>_. charge_text (percentage t)) x4"
    and "flight_mode_text v = map_option (\<lambda>_. mode_text (flight_mode t)) x5"
    and "percentage t \<noteq> Null \<Longrightarrow> battery_icon v = map_option (\<lambda>_. charge_icon (percentage t)) x6"
    and "armed_checked v = map_option (\<lambda>_. truthy (armed t)) x7"
    and "air_checked v = map_option (\<lambda>_. truthy (in_air t)) x8"
  shows "telemetry_shown t v"
  unfolding telemetry_shown_def assms(1-5,7,8)
  by (intro conjI impI) (simp_all only: shows_text_map map_const_cases assms(6) not_False_eq_True)

lemma telemetry_shown_map: "telemetry_shown (telemetry c) (the_view (updateTelemetryUI c))"
  by (rule telemetry_shownI) (simp_all add: updateTelemetryUI_def Let_def)

lemma updateTelemetryUI_others:
  "telemetry (updateTelemetryUI c) = telemetry c" "error_message (updateTelemetryUI c) = error_message c"
  "connected (updateTelemetryUI c) = connected c" "trajectoryPoints (updateTelemetryUI c) = trajectoryPoints c"
  "error_box (the_view (updateTelemetryUI c)) = error_box (the_view c)"
  "status_class (the_view (updateTelemetryUI c)) = status_class (the_view c)"
  by (simp_all add: updateTelemetryUI_def Let_def)

lemma consistent_rendered: "consistent c \<Longrightarrow> consistent (rendered c data)"
  using telemetry_shown_map[of "c\<lparr>telemetry := merge data (telemetry c)\<rparr>"]
  by (simp add: consistent_def rendered_def updateTelemetryUI_others error_shown_def status_shown_def)

lemma consistent_position:
  assumes "consistent c"
  shows "consistent (snd (updateMapPosition L c))"
proof -
  let ?d = "snd (updateMapPosition L c)"
  have len: "length (trajectoryPoints c) \<le> maxTrajectoryPoints" using assms by (simp add: consistent_def)
  have rest: "telemetry_shown (telemetry ?d) (the_view ?d) \<and> error_shown (error_message ?d) (the_view ?d) \<and>
      status_shown (connected ?d) (the_view ?d)"
    using updateMapPosition_keeps[of "\<lambda>c. telemetry_shown (telemetry c) (the_view c) \<and>
      error_shown (error_message c) (the_view c) \<and> status_shown (connected c) (the_view c)" L] assms
    by (simp add: keeps_def consistent_def)
  have "length (trajectoryPoints ?d) \<le> maxTrajectoryPoints"
  proof (cases "position (telemetry c)")
    case (Some p)
    then show ?thesis
      using updateMapPosition_points[OF len Some, of L "fst (updateMapPosition L c)" ?d] len
      by auto
  qed (use len in \<open>simp add: updateMapPosition_None\<close>)
  with rest show ?thesis by (simp add: consistent_def)
qed

lemma consistent_telemetry:
  assumes "consistent c"
  shows "consistent (updateTelemetry L r c)"
proof (cases r)
  case None
  then show ?thesis using consistent_error assms by (simp add: updateTelemetry_def)
next
  case (Some data)
  show ?thesis
  proof (cases "defined data")
    case True
    obtain q d where d: "updateMapPosition L (rendered c data) = (q, d)" by fastforce
    have "consistent d"
      using consistent_position[OF consistent_rendered[OF assms], of L data] by (simp add: d)
    then show ?thesis
      by (cases q) (simp_all add: Some updateTelemetry_defined[OF True] d consistent_error)
  qed (simp add: Some updateTelemetry_undefined consistent_error assms)
qed

lemma consistent_on_map: "keeps consistent (on_map f)"
  by (rule on_map_keeps) simp

lemma consistent_command: "consistent c \<Longrightarrow> consistent (command_clicked g c)"
    "consistent c \<Longrightarrow> consistent (command_answered k ok c)"
  by (auto simp: command_clicked_def sendCommand_def command_answered_def Let_def)
    (auto simp: shown_defs press_target_def)

lemma consistent_step: "step L c e d \<Longrightarrow> consistent c \<Longrightarrow> consistent d"
proof (induction rule: step.induct)
  case (clear_trajectory c)
  have "consistent (c\<lparr>trajectoryPoints := []\<rparr>)" using clear_trajectory by (simp add: shown_defs)
  moreover have "keeps consistent (block [on_map (set_line L [])])"
    by (intro keeps_block) (simp add: consistent_on_map)
  ultimately have "consistent (snd (block [on_map (set_line L [])] (c\<lparr>trajectoryPoints := []\<rparr>)))"
    unfolding keeps_def by blast
  then show ?case by (simp add: clearTrajectory_def and_then_def[of "run _"] run_def[of "\<lambda>c. c\<lparr>trajectoryPoints := []\<rparr>"])
next
  case (center_on_drone c)
  then show ?case using consistent_on_map by (auto simp: centerOnDrone_def keeps_def split: option.splits)
next
  case (destroyed c)
  have "keeps consistent (destroy L)"
    unfolding destroy_def by (intro keeps_block) (auto intro!: keeps_run consistent_on_map)
  then show ?case using destroyed by (simp add: keeps_def)
qed (simp_all add: consistent_connection consistent_telemetry consistent_command)

lemma reachable_consistent: "reachable L v c \<Longrightarrow> fresh_page v \<Longrightarrow> consistent c"
  by (induction rule: reachable.induct) (auto intro: consistent_start consistent_step)

end
