(* ===== verification/ConsoleTheorems.thy ===== *)
theory ConsoleTheorems
  imports ConsoleRuns
begin

text \<open>
  The properties of the console, with a map library and a page to compute with: a map that keeps
  its centre, marker and line and refuses coordinates that are not numbers.
\<close>

section \<open>A page and a map to compute with\<close>

record sheet =
  centre :: latlng
  marker :: latlng
  on_sheet :: bool
  line :: "latlng list"

definition is_place :: "latlng \<Rightarrow> bool" where
  "is_place p \<longleftrightarrow> \<not> is_nan (fst p) \<and> \<not> is_nan (snd p)"

definition sheet_map :: "sheet leaflet" where
  "sheet_map = \<lparr>new_map = (\<lambda>p z. \<lparr>centre = p, marker = (0, 0), on_sheet = False, line = []\<rparr>),
     tile_layer = (\<lambda>u z m. m), new_marker = (\<lambda>p m. m\<lparr>marker := p\<rparr>), new_line = (\<lambda>ps m. m\<lparr>line := ps\<rparr>),
     set_view = (\<lambda>p z m. if is_place p then Some (m\<lparr>centre := p\<rparr>) else None),
     add_marker = (\<lambda>m. Some (m\<lparr>on_sheet := True\<rparr>)), get_lat_lng = (\<lambda>m. Some (marker m)),
     set_lat_lng = (\<lambda>p m. if is_place p then Some (m\<lparr>marker := p\<rparr>) else None),
     has_element = on_sheet, mark_armed = (\<lambda>b m. m),
     set_line = (\<lambda>ps m. if list_all is_place ps then Some (m\<lparr>line := ps\<rparr>) else None),
     in_bounds = (\<lambda>p m. if is_place p then Some (centre m = p) else None),
     pan_to = (\<lambda>p m. if is_place p then Some (m\<lparr>centre := p\<rparr>) else None),
     remove_map = Some\<rparr>"

definition index_page :: view where
  "index_page = \<lparr>status_class = Some ''status-indicator status-disconnected'', last_connection = Some ''Never'',
     latitude_text = Some (''---.------'' @ degree), longitude_text = Some (''---.------'' @ degree),
     altitude_text = Some ''--- m'', battery_text = Some ''--%'',
     battery_icon = Some ([CHR 0xF0, CHR 0x9F, CHR 0x94, CHR 0x8B], ''battery-icon''),
     flight_mode_text = Some ''---'', armed_checked = Some False, air_checked = Some False,
     error_box = Some ([], ''none''),
     command_buttons = map (\<lambda>v. \<lparr>button_value = v, button_classes = [''secondary''], icon_classes = []\<rparr>)
       [''loiter'', ''land'', ''rtl'']\<rparr>"

abbreviation opened :: "sheet console" where
  "opened \<equiv> constructor sheet_map index_page"

definition hovering :: js where
  "hovering = Obj [(''position'', Obj [(''latitude'', Num (Fin 19)), (''longitude'', Num (Fin (- 99))), (''altitude'', Num (Fin 30))]),
     (''battery'', Obj [(''percentage'', Num (Fin 62))]), (''flight_mode'', Obj [(''mode'', Str ''HOLD'')]),
     (''armed'', Obj [(''armed'', Bool True)]), (''in_air'', Null)]"

text \<open>The library accepts every coordinate that satisfies \<open>ok\<close>.\<close>

definition accepts :: "'m leaflet \<Rightarrow> (latlng \<Rightarrow> bool) \<Rightarrow> bool" where
  "accepts L ok \<longleftrightarrow> (\<forall>m. add_marker L m \<noteq> None) \<and>
     (\<forall>p m. ok p \<longrightarrow> set_view L p 16 m \<noteq> None \<and> set_lat_lng L p m \<noteq> None \<and> in_bounds L p m \<noteq> None \<and> pan_to L p m \<noteq> None) \<and>
     (\<forall>ps m. list_all ok ps \<longrightarrow> set_line L ps m \<noteq> None)"

lemma sheet_map_accepts: "accepts sheet_map is_place"
  by (simp add: accepts_def sheet_map_def)

lemma fresh_index: "fresh_page index_page"
  by (simp add: fresh_page_def index_page_def shows_text_def)

section \<open>Accepted positions\<close>

lemma and_then_Normal: "fst (f s) = Normal \<Longrightarrow> and_then f g s = g (snd (f s))"
  by (cases "f s") (simp add: and_then_def)

lemma on_map_Normal: "f (the_map c) \<noteq> None \<Longrightarrow> fst (on_map f c) = Normal"
  by (auto simp: on_map_def attempt_def)

lemma whenever_Normal: "fst (f s) = Normal \<Longrightarrow> fst (whenever b f s) = Normal"
  by (simp add: whenever_def)

lemma run_Normal [simp]: "fst (run f s) = Normal"
  by (simp add: run_def)

lemma block_Normal: "(\<And>f s. f \<in> set fs \<Longrightarrow> fst (f s) = Normal) \<Longrightarrow> fst (block fs s) = Normal"
  by (induction fs arbitrary: s) (simp_all add: and_then_Normal)

lemma block_Cons_Normal:
  "fst (f s) = Normal \<Longrightarrow> (\<And>t. fst (block fs t) = Normal) \<Longrightarrow> fst (block (f # fs) s) = Normal"
  by (simp add: and_then_Normal)

lemma acceptsD:
  assumes "accepts L ok"
  shows "add_marker L m \<noteq> None" and "ok p \<Longrightarrow> set_view L p 16 m \<noteq> None" and "ok p \<Longrightarrow> set_lat_lng L p m \<noteq> None"
    and "ok p \<Longrightarrow> in_bounds L p m \<noteq> None" and "ok p \<Longrightarrow> pan_to L p m \<noteq> None"
    and "list_all ok ps \<Longrightarrow> set_line L ps m \<noteq> None"
  using assms unfolding accepts_def by blast+

lemma place_marker_Normal:
  assumes "accepts L ok" and "ok p"
  shows "fst (place_marker L p c) = Normal"
  unfolding place_marker_def
proof (rule block_Normal)
  fix f :: "'a console stm" and s :: "'a console"
  note a = acceptsD(1)[OF assms(1)] acceptsD(2,3)[OF assms]
  have "fst (block [on_map (add_marker L), on_map (set_view L p 16)] s) = Normal"
    by (rule block_Normal) (use a in \<open>auto intro: on_map_Normal\<close>)
  moreover assume "f \<in> set [whenever (\<lambda>c. unplaced (get_lat_lng L (the_map c))) (block [on_map (add_marker L), on_map (set_view L p 16)]),
      on_map (set_lat_lng L p), whenever (\<lambda>c. has_element L (the_map c))
        (run (\<lambda>c. c\<lparr>the_map := mark_armed L (truthy (armed (telemetry c))) (the_map c)\<rparr>))]"
  ultimately show "fst (f s) = Normal" using a by (auto intro: whenever_Normal on_map_Normal simp del: block.simps)
qed

lemma draw_line_Normal:
  assumes "accepts L ok" and "ok p" and "list_all ok (trajectoryPoints c)"
  shows "fst (draw_line L p c) = Normal"
proof -
  let ?pan = "\<lambda>m. case in_bounds L p m of None \<Rightarrow> None | Some inside \<Rightarrow> if inside then Some m else pan_to L p m"
  note a = acceptsD(4,5)[OF assms(1,2)] acceptsD(6)[OF assms(1,3)]
  have pan: "?pan m \<noteq> None" for m using a(1)[of m] a(2)[of m] by (auto split: option.splits)
  have "fst (block [on_map ?pan] s) = Normal" for s :: "'a console"
    by (rule block_Normal) (simp add: on_map_Normal pan)
  then show ?thesis unfolding draw_line_def
    by (rule block_Cons_Normal[of "\<lambda>c. on_map (set_line L (trajectoryPoints c)) c", rotated]) (rule on_map_Normal, rule a(3))
qed

lemma updateMapPosition_Normal:
  assumes "accepts L ok" and "\<And>p. position (telemetry c) = Some p \<Longrightarrow> ok p" and "list_all ok (trajectoryPoints c)"
    and "length (trajectoryPoints c) \<le> maxTrajectoryPoints"
  shows "fst (updateMapPosition L c) = Normal"
proof (cases "position (telemetry c)")
  case (Some p)
  have ok: "ok p" by (rule assms(2)[OF Some])
  obtain c1 where 1: "place_marker L p c = (Normal, c1)"
    using place_marker_Normal[OF assms(1) ok, of c] by (metis prod.collapse)
  have p1: "trajectoryPoints c1 = trajectoryPoints c"
    by (rule keepsD[OF place_marker_keeps[of "\<lambda>d. trajectoryPoints d = trajectoryPoints c"] _ 1]) simp_all
  let ?c2 = "c1\<lparr>trajectoryPoints := latest maxTrajectoryPoints (trajectoryPoints c1 @ [p])\<rparr>"
  have "list_all ok (trajectoryPoints ?c2)"
    using ok assms(3) p1 by (auto simp: list_all_iff latest_def dest: in_set_dropD)
  then have "fst (draw_line L p ?c2) = Normal" by (rule draw_line_Normal[OF assms(1) ok])
  then show ?thesis
    using limit_points[of c1 p] assms(4) p1 1
    by (simp add: updateMapPosition_Some[OF Some] and_then_def[of "place_marker L p"]
      and_then_def[of _ "draw_line L p"] del: block.simps)
qed (simp add: updateMapPosition_None)

lemma telemetry_accepted:
  assumes "defined data" and "accepts L ok" and "length (trajectoryPoints c) \<le> maxTrajectoryPoints"
    and "list_all ok (trajectoryPoints c)" and "\<And>p. position (merge data (telemetry c)) = Some p \<Longrightarrow> ok p"
  defines "t \<equiv> merge data (telemetry c)"
  shows "\<exists>d. updateMapPosition L (rendered c data) = (Normal, d) \<and>
    updateTelemetry L (Some data) c = clearError (d\<lparr>loadingTelemetry := False\<rparr>) \<and> telemetry d = t \<and>
    trajectoryPoints d = (case position t of None \<Rightarrow> trajectoryPoints c
      | Some p \<Rightarrow> latest maxTrajectoryPoints (trajectoryPoints c @ [p])) \<and>
    the_view d = the_view (rendered c data)"
proof -
  let ?r = "rendered c data"
  have r: "telemetry ?r = t" "trajectoryPoints ?r = trajectoryPoints c"
    by (simp_all add: rendered_def updateTelemetryUI_others t_def)
  obtain d where d: "updateMapPosition L ?r = (Normal, d)"
  proof (cases "updateMapPosition L ?r")
    case (Pair q d)
    have "fst (updateMapPosition L ?r) = Normal"
      by (rule updateMapPosition_Normal[OF assms(2)]) (use assms(3-5) r in \<open>simp_all add: t_def\<close>)
    then show ?thesis using that Pair by simp
  qed
  have same: "telemetry d = t \<and> the_view d = the_view ?r"
    by (rule keepsD[OF updateMapPosition_keeps[of "\<lambda>d. telemetry d = t \<and> the_view d = the_view ?r"] _ d])
      (simp_all add: r(1))
  have "trajectoryPoints d = (case position t of None \<Rightarrow> trajectoryPoints c
      | Some p \<Rightarrow> latest maxTrajectoryPoints (trajectoryPoints c @ [p]))"
  proof (cases "position t")
    case (Some p)
    have "position (telemetry ?r) = Some p" "length (trajectoryPoints ?r) \<le> maxTrajectoryPoints"
      using Some r assms(3) by simp_all
    from updateMapPosition_points[OF this(2,1) d] show ?thesis by (simp add: r(2) Some)
  next
    case None
    then have "updateMapPosition L ?r = (Normal, ?r)" using r(1) by (simp add: updateMapPosition_None)
    then show ?thesis using d r(2) None by simp
  qed
  moreover have "updateTelemetry L (Some data) c = clearError (d\<lparr>loadingTelemetry := False\<rparr>)"
    unfolding updateTelemetry_defined[OF assms(1)] d by simp
  ultimately show ?thesis using d same by blast
qed

section \<open>Invariants\<close>

text \<open>C8: In every reachable state the page shows the telemetry and the error the object holds, the
  indicator is red only when the state is disconnected, and the trajectory has at most 1000 points.\<close>

theorem console_consistent:
  assumes "reachable L v c" and "fresh_page v"
  shows "consistent c"
  using assms by (rule reachable_consistent)

theorem console_consistent_witness:
  "\<exists>c. step sheet_map opened (TelemetryReply (Some hovering)) c \<and> consistent c"
proof -
  let ?c = "updateTelemetry sheet_map (Some hovering) (opened\<lparr>pending_telemetry := 0\<rparr>)"
  have s: "step sheet_map opened (TelemetryReply (Some hovering)) ?c"
    by (rule step.telemetry_reply) (simp add: constructor_def)
  then have "reachable sheet_map index_page ?c" by (rule reachable.next_step[OF reachable.start])
  from s console_consistent[OF this fresh_index] show ?thesis by blast
qed

definition button_values :: "view \<Rightarrow> string list" where
  "button_values v = map button_value (command_buttons v)"

lemma mode_button_value [simp]: "button_value (mode_button m b) = button_value b"
  by (simp add: mode_button_def)

lemma button_values_UI [simp]: "button_values (the_view (updateTelemetryUI c)) = button_values (the_view c)"
  by (simp add: button_values_def updateTelemetryUI_def Let_def comp_def)

definition posts_ok :: "view \<Rightarrow> 'm console \<Rightarrow> bool" where
  "posts_ok v c \<longleftrightarrow> button_values (the_view c) = button_values v \<and>
     set (posted c) \<subseteq> insert ''undefined'' (set (button_values v))"

lemma posts_ok_fields [simp]:
  "posts_ok v (c\<lparr>the_map := m\<rparr>) = posts_ok v c" "posts_ok v (c\<lparr>trajectoryPoints := ps\<rparr>) = posts_ok v c"
  "posts_ok v (c\<lparr>pending_connection := n\<rparr>) = posts_ok v c" "posts_ok v (c\<lparr>pending_telemetry := n\<rparr>) = posts_ok v c"
  "posts_ok v (c\<lparr>pending_commands := gs\<rparr>) = posts_ok v c" "posts_ok v (c\<lparr>telemetry := t\<rparr>) = posts_ok v c"
  "posts_ok v (c\<lparr>loadingTelemetry := b\<rparr>) = posts_ok v c" "posts_ok v (c\<lparr>loadingConnection := b\<rparr>) = posts_ok v c"
  "posts_ok v (c\<lparr>connectionInterval := b\<rparr>) = posts_ok v c" "posts_ok v (c\<lparr>telemetryInterval := b\<rparr>) = posts_ok v c"
  "posts_ok v (c\<lparr>connected := b\<rparr>) = posts_ok v c" "posts_ok v (c\<lparr>lastConnection := l\<rparr>) = posts_ok v c"
  "posts_ok v (showError s c) = posts_ok v c" "posts_ok v (clearError c) = posts_ok v c"
  "posts_ok v (updateConnectionUI c) = posts_ok v c"
  by (simp_all add: posts_ok_def button_values_def showError_def clearError_def updateConnectionUI_def)

lemma posts_ok_telemetry: "posts_ok v c \<Longrightarrow> posts_ok v (updateTelemetry L r c)"
proof (cases r)
  case (Some data)
  assume c: "posts_ok v c"
  show ?thesis
  proof (cases "defined data")
    case True
    have "posts_ok v (rendered c data)"
      using c unfolding posts_ok_def rendered_def by (simp add: updateTelemetryUI_def Let_def button_values_def comp_def)
    then have "posts_ok v (snd (updateMapPosition L (rendered c data)))"
      using updateMapPosition_keeps[of "posts_ok v" L] by (simp add: keeps_def)
    then show ?thesis
      by (auto simp: Some updateTelemetry_defined[OF True] split: prod.splits completion.splits)
  qed (use c in \<open>simp add: Some updateTelemetry_undefined\<close>)
qed (simp add: updateTelemetry_def)

lemma posts_ok_map: "posts_ok v c \<Longrightarrow> posts_ok v (snd (on_map f c))"
  using on_map_keeps[of "posts_ok v" f] by (simp add: keeps_def)

lemma posts_ok_clicked:
  assumes "posts_ok v c" and "target_index g < length (command_buttons (the_view c))"
  shows "posts_ok v (command_clicked g c)"
proof (cases g)
  case (OnButton i)
  then have "button_value (command_buttons (the_view c) ! i) \<in> set (button_values (the_view c))"
    using assms(2) by (simp add: target_index_def button_values_def)
  then show ?thesis using OnButton assms(1)
    by (simp add: posts_ok_def command_clicked_def sendCommand_def target_value_def)
qed (use assms(1) in \<open>simp add: posts_ok_def command_clicked_def sendCommand_def target_value_def\<close>)

lemma posts_ok_answered: "posts_ok v c \<Longrightarrow> posts_ok v (command_answered k ok c)"
proof -
  have "button_values (press_target g w) = button_values w" for g w
    by (cases g; cases "target_index g < length (command_buttons w)")
      (simp_all add: press_target_def button_values_def Let_def target_index_def map_update list_update_same_conv list_update_beyond)
  then show "posts_ok v c \<Longrightarrow> posts_ok v (command_answered k ok c)"
    by (simp add: posts_ok_def command_answered_def Let_def)
qed

lemma posts_ok_step: "step L c e d \<Longrightarrow> posts_ok v c \<Longrightarrow> posts_ok v d"
proof (induction rule: step.induct)
  case (connection_reply c n t r)
  then show ?case by (cases r) (simp_all add: updateConnectionStatus_def Let_def)
next
  case (clear_trajectory c)
  have "keeps (posts_ok v) (clearTrajectory L)"
    unfolding clearTrajectory_def by (intro keeps_block) (auto intro!: keeps_run on_map_keeps)
  then show ?case using clear_trajectory by (simp add: keeps_def)
next
  case (destroyed c)
  have "keeps (posts_ok v) (destroy L)"
    unfolding destroy_def by (intro keeps_block) (auto intro!: keeps_run on_map_keeps)
  then show ?case using destroyed by (simp add: keeps_def)
next
  case (center_on_drone c)
  then show ?case by (auto simp: centerOnDrone_def posts_ok_map split: option.splits)
qed (simp_all add: posts_ok_telemetry posts_ok_clicked posts_ok_answered)

text \<open>C31: Only the values of the page's command buttons, or the text \<open>undefined\<close>, are ever posted
  as commands, and the buttons keep their values.\<close>

theorem posted_commands:
  assumes "reachable L v c"
  shows "set (posted c) \<subseteq> insert ''undefined'' (set (button_values v))"
proof -
  have "posts_ok v (constructor L v)" by (simp add: posts_ok_def constructor_def)
  with assms have "posts_ok v c" by (induction rule: reachable.induct) (auto intro: posts_ok_step)
  then show ?thesis by (simp add: posts_ok_def)
qed

theorem posted_commands_witness:
  "\<exists>c. step sheet_map opened (Click (OnButton 2)) c \<and> posted c = [''rtl''] \<and>
     set (posted c) \<subseteq> insert ''undefined'' (set (button_values index_page))"
proof -
  let ?c = "command_clicked (OnButton 2) opened"
  have s: "step sheet_map opened (Click (OnButton 2)) ?c"
    by (rule step.click) (simp add: target_index_def constructor_def index_page_def)
  then have "reachable sheet_map index_page ?c" by (rule reachable.next_step[OF reachable.start])
  moreover have "posted ?c = [''rtl'']"
    by (simp add: command_clicked_def sendCommand_def target_value_def constructor_def index_page_def)
  ultimately show ?thesis using s posted_commands by blast
qed

section \<open>Telemetry replies\<close>

text \<open>C27: A reply whose position the map accepts replaces exactly the sections it has, renders the
  telemetry, appends the position to the trajectory (of which the latest 1000 stay), ends the
  loading and closes the error box.\<close>

theorem telemetry_reply:
  assumes "defined data" and "accepts L ok" and "length (trajectoryPoints c) \<le> 1000"
    and "list_all ok (trajectoryPoints c)" and "\<And>p. position (merge data (telemetry c)) = Some p \<Longrightarrow> ok p"
  defines "t \<equiv> merge data (telemetry c)" and "d \<equiv> updateTelemetry L (Some data) c"
  shows "telemetry d = t \<and> telemetry_shown t (the_view d) \<and> error_message d = None \<and> \<not> loadingTelemetry d \<and>
    trajectoryPoints d = (case position t of None \<Rightarrow> trajectoryPoints c
      | Some p \<Rightarrow> latest 1000 (trajectoryPoints c @ [p]))"
proof -
  have 3: "length (trajectoryPoints c) \<le> maxTrajectoryPoints" using assms(3) by (simp add: maxTrajectoryPoints_def)
  obtain e where e: "d = clearError (e\<lparr>loadingTelemetry := False\<rparr>)" "telemetry e = t"
    "trajectoryPoints e = (case position t of None \<Rightarrow> trajectoryPoints c
      | Some p \<Rightarrow> latest maxTrajectoryPoints (trajectoryPoints c @ [p]))" "the_view e = the_view (rendered c data)"
    using telemetry_accepted[OF assms(1,2) 3 assms(4,5)] unfolding t_def d_def by blast
  note e(3)[unfolded maxTrajectoryPoints_def]
  moreover have "telemetry_shown t (the_view (rendered c data))"
    using telemetry_shown_map[of "c\<lparr>telemetry := t\<rparr>"] by (simp add: rendered_def t_def updateTelemetryUI_others)
  ultimately show ?thesis using e(2,4) by (simp add: e(1) clearError_def)
qed

lemma hovering_place: "position (merge hovering (telemetry opened)) = Some (Fin 19, Fin (- 99))"
proof -
  have "parseFloat (Num (Fin n)) = (Fin n :: f64)" if "is_fp (Fin n :: f64)" for n
    using parse_float_number_string[OF that] by (simp add: parseFloat_def)
  then have "parseFloat (Num (Fin 19)) = (Fin 19 :: f64)" "parseFloat (Num (Fin (- 99))) = (Fin (- 99) :: f64)"
    using is_fp_f64_of_int[of 19] is_fp_f64_of_int[of "- 99"] by simp_all
  then show ?thesis by (simp add: merge_def hovering_def prop_of_def Let_def position_def)
qed

theorem telemetry_reply_witness:
  "trajectoryPoints (updateTelemetry sheet_map (Some hovering) opened) = [(Fin 19, Fin (- 99))] \<and>
   error_message (updateTelemetry sheet_map (Some hovering) opened) = None"
proof -
  have "defined hovering" "trajectoryPoints opened = []" by (simp_all add: defined_def hovering_def constructor_def)
  moreover have "is_place p" if "position (merge hovering (telemetry opened)) = Some p" for p
    using that unfolding hovering_place by (auto simp: is_place_def)
  ultimately show ?thesis
    using telemetry_reply[OF _ sheet_map_accepts, of hovering opened] by (simp add: hovering_place latest_def)
qed



fun positions :: "js list \<Rightarrow> telemetry \<Rightarrow> latlng list" where
  "positions [] t = []"
| "positions (data # ds) t = (let u = merge data t in
     (case position u of None \<Rightarrow> [] | Some p \<Rightarrow> [p]) @ positions ds u)"

fun replies :: "'m leaflet \<Rightarrow> js list \<Rightarrow> 'm console \<Rightarrow> 'm console" where
  "replies L [] c = c"
| "replies L (data # ds) c = replies L ds (updateTelemetry L (Some data) c)"

lemma list_all_latest: "list_all P xs \<Longrightarrow> list_all P (latest n xs)"
  by (auto simp: list_all_iff latest_def dest: in_set_dropD)

lemma replies_trajectory:
  assumes "accepts L ok" and "list_all defined ds" and "list_all ok (positions ds (telemetry c))"
    and "length (trajectoryPoints c) \<le> maxTrajectoryPoints" and "list_all ok (trajectoryPoints c)"
  shows "trajectoryPoints (replies L ds c) = latest maxTrajectoryPoints (trajectoryPoints c @ positions ds (telemetry c))"
  using assms(2-)
proof (induction ds arbitrary: c)
  case Nil
  then show ?case by (simp add: latest_short)
next
  case (Cons data ds)
  let ?u = "merge data (telemetry c)" and ?c = "updateTelemetry L (Some data) c"
  let ?p = "case position ?u of None \<Rightarrow> [] | Some p \<Rightarrow> [p]"
  have ok: "\<And>p. position ?u = Some p \<Longrightarrow> ok p" using Cons.prems(2) by (simp add: Let_def)
  have "defined data" using Cons.prems(1) by simp
  from telemetry_accepted[OF this assms(1) Cons.prems(3,4) ok]
  have c: "telemetry ?c = ?u" "trajectoryPoints ?c = latest maxTrajectoryPoints (trajectoryPoints c @ ?p)"
    using Cons.prems(3) by (auto simp: clearError_def latest_short split: option.splits)
  have "list_all ok ?p" using ok by (simp split: option.splits)
  then have "list_all ok (trajectoryPoints ?c)" using Cons.prems(4) c(2) by (simp add: list_all_latest)
  then have "trajectoryPoints (replies L ds ?c) =
      latest maxTrajectoryPoints (trajectoryPoints ?c @ positions ds ?u)"
    using Cons.IH[of ?c] Cons.prems(1,2) c by (simp add: Let_def)
  then show ?case by (simp add: c(2) latest_append Let_def)
qed

text \<open>C29: After any sequence of accepted replies from the start, the trajectory is the latest 1000 of
  all positions, one for each reply after which a position is known.\<close>

theorem trajectory_latest:
  assumes "accepts L ok" and "list_all defined ds" and "list_all ok (positions ds no_telemetry)"
  shows "trajectoryPoints (replies L ds (constructor L v)) = latest 1000 (positions ds no_telemetry)"
  using replies_trajectory[OF assms(1,2), of "constructor L v"] assms(3)
  by (simp add: constructor_def maxTrajectoryPoints_def)

theorem trajectory_latest_witness:
  "trajectoryPoints (replies sheet_map [hovering, Obj []] opened) = [(Fin 19, Fin (- 99)), (Fin 19, Fin (- 99))]"
proof -
  have u: "position (merge hovering no_telemetry) = Some (Fin 19, Fin (- 99))"
    using hovering_place by (simp add: constructor_def)
  have "merge (Obj []) t = t" for t by (simp add: merge_def prop_of_def Let_def)
  then have p: "positions [hovering, Obj []] no_telemetry = [(Fin 19, Fin (- 99)), (Fin 19, Fin (- 99))]"
    by (simp add: Let_def u)
  have "list_all defined [hovering, Obj []]" by (simp add: defined_def hovering_def)
  from trajectory_latest[OF sheet_map_accepts this, of index_page] show ?thesis
    unfolding p by (simp add: is_place_def latest_def)
qed

text \<open>C30: The position kept is exactly the one sent. A reply whose position has numbers as its latitude, longitude
  and altitude leaves these numbers in the telemetry of the page, each in its place, although they go through their
  decimal text and back (minus zero becomes zero), whatever the page held before and whether or not the map accepts them.\<close>

theorem position_exact:
  assumes "truthy (prop_of data ''position'')" and "prop_of (prop_of data ''position'') ''latitude'' = Num a"
    and "prop_of (prop_of data ''position'') ''longitude'' = Num b" and "prop_of (prop_of data ''position'') ''altitude'' = Num h"
    and "is_fp a" and "is_fp b" and "is_fp h"
  shows "latitude (telemetry (updateTelemetry L (Some data) c)) = Some (if a = NZero then 0 else a) \<and>
    longitude (telemetry (updateTelemetry L (Some data) c)) = Some (if b = NZero then 0 else b) \<and>
    altitude (telemetry (updateTelemetry L (Some data) c)) = Some (if h = NZero then 0 else h)"
proof -
  have d: "defined data" using assms(1) by (auto simp: defined_def prop_of_def)
  have "telemetry (updateTelemetry L (Some data) c) = merge data (telemetry c)"
  proof -
    obtain r d where q: "updateMapPosition L (rendered c data) = (r, d)" by fastforce
    have "telemetry d = merge data (telemetry c)"
      by (rule keepsD[OF updateMapPosition_keeps[of "\<lambda>d. telemetry d = merge data (telemetry c)"] _ q])
        (simp_all add: rendered_def updateTelemetryUI_others)
    then show ?thesis by (cases r) (simp_all add: updateTelemetry_defined[OF d] q clearError_def showError_def)
  qed
  then show ?thesis using assms parse_float_number_string by (simp add: merge_def Let_def parseFloat_def)
qed

theorem position_exact_witness:
  "latitude (telemetry (updateTelemetry sheet_map (Some hovering) opened)) = Some (Fin 19) \<and>
   longitude (telemetry (updateTelemetry sheet_map (Some hovering) opened)) = Some (Fin (- 99)) \<and>
   altitude (telemetry (updateTelemetry sheet_map (Some hovering) opened)) = Some (Fin 30)"
proof -
  have "is_fp (Fin 19 :: f64)" "is_fp (Fin (- 99) :: f64)" "is_fp (Fin 30 :: f64)"
    using is_fp_f64_of_int[of 19] is_fp_f64_of_int[of "- 99"] is_fp_f64_of_int[of 30] by simp_all
  with position_exact[of hovering "Fin 19" "Fin (- 99)" "Fin 30"] show ?thesis
    by (simp add: hovering_def prop_of_def)
qed

text \<open>A coordinate below 10^21 is shown with its sign, at least one digit, a point and six decimals, and
  the decimal shown is nearest to the coordinate.\<close>

theorem coordinate_decimals:
  assumes "is_fin x" and "\<bar>val x\<bar> < 10 ^ 21"
  shows "\<exists>ip fp. coordinate_text (Some x) = (if val x < 0 then ''-'' else []) @ ip @ CHR ''.'' # fp @ degree \<and>
    ip \<noteq> [] \<and> length fp = 6 \<and> list_all is_digit (ip @ fp) \<and>
    \<bar>of_int (number_of (ip @ fp)) / 10 ^ 6 - \<bar>val x\<bar>\<bar> \<le> 1 / (2 * 10 ^ 6)"
proof -
  obtain ip fp where t: "to_fixed 6 x = (if val x < 0 then ''-'' else []) @ ip @ CHR ''.'' # fp"
    "ip \<noteq> []" "length fp = 6" "list_all is_digit (ip @ fp)" "\<bar>of_int (number_of (ip @ fp)) - \<bar>val x\<bar> * 10 ^ 6\<bar> \<le> 1 / 2"
    using to_fixed_decimal[OF assms, of 6] by auto
  have "\<bar>of_int (number_of (ip @ fp)) / 10 ^ 6 - \<bar>val x\<bar>\<bar> \<le> 1 / (2 * 10 ^ 6)"
    using t(5) by (simp add: abs_le_iff field_simps)
  then show ?thesis using t(1-4) by (intro exI[of _ ip] exI[of _ fp]) (simp add: coordinate_text_def)
qed

theorem coordinate_decimals_witness:
  "\<exists>ip fp. coordinate_text (Some (Fin (- 99))) = ''-'' @ ip @ CHR ''.'' # fp @ degree \<and> length fp = 6 \<and>
    \<bar>of_int (number_of (ip @ fp)) / 10 ^ 6 - 99\<bar> \<le> (1 :: rat) / (2 * 10 ^ 6)"
  using coordinate_decimals[of "Fin (- 99)"] by auto

section \<open>Buttons and battery\<close>

text \<open>After the display of the telemetry exactly the button of the flight mode is primary, so at
  most one where the buttons' values differ; every other button is secondary.\<close>

theorem mode_buttons:
  assumes "distinct (button_values (the_view c))"
  defines "bs \<equiv> command_buttons (the_view (updateTelemetryUI c))"
  shows "(\<forall>b \<in> set bs. ''primary'' \<in> set (button_classes b) \<longleftrightarrow>
      FLIGHT_MODE_TO_COMMAND (js_string (flight_mode (telemetry c))) = Some (button_value b)) \<and>
    (\<forall>b \<in> set bs. ''secondary'' \<in> set (button_classes b) \<longleftrightarrow> ''primary'' \<notin> set (button_classes b)) \<and>
    length (filter (\<lambda>b. ''primary'' \<in> set (button_classes b)) bs) \<le> 1"
proof -
  let ?m = "flight_mode (telemetry c)"
  have bs: "bs = map (mode_button ?m) (command_buttons (the_view c))"
    by (simp add: bs_def updateTelemetryUI_def Let_def)
  have p: "''primary'' \<in> set (button_classes b) \<longleftrightarrow> FLIGHT_MODE_TO_COMMAND (js_string ?m) = Some (button_value b)"
    "''secondary'' \<in> set (button_classes b) \<longleftrightarrow> ''primary'' \<notin> set (button_classes b)" if "b \<in> set bs" for b
    using that by (auto simp: bs mode_button_def add_class_def split: if_splits)
  let ?ps = "filter (\<lambda>b. ''primary'' \<in> set (button_classes b)) bs"
  have "distinct (map button_value bs)"
    using assms(1) by (simp add: bs button_values_def comp_def)
  then have d: "distinct (map button_value ?ps)" by (rule distinct_map_filter)
  have "set (map button_value ?ps) \<subseteq> {the (FLIGHT_MODE_TO_COMMAND (js_string ?m))}"
  proof
    fix v assume "v \<in> set (map button_value ?ps)"
    then obtain b where "b \<in> set bs" "''primary'' \<in> set (button_classes b)" "v = button_value b" by auto
    then show "v \<in> {the (FLIGHT_MODE_TO_COMMAND (js_string ?m))}" using p(1)[of b] by simp
  qed
  from card_mono[OF _ this] have "card (set (map button_value ?ps)) \<le> 1" by simp
  then have "length ?ps \<le> 1" using distinct_card[OF d] by simp
  then show ?thesis using p by (intro conjI ballI) simp_all
qed

theorem mode_buttons_witness:
  "length (filter (\<lambda>b. ''primary'' \<in> set (button_classes b)) (command_buttons (the_view (updateTelemetryUI opened)))) \<le> 1"
  using mode_buttons[of opened] by (simp add: constructor_def index_page_def button_values_def)

text \<open>For a numeric charge the battery is shown good above 60, medium above 30 and low otherwise, and
  the full symbol is shown exactly when it is not low.\<close>

theorem battery_levels:
  assumes "is_fin x"
  shows "snd (charge_icon (Num x)) = ''battery-icon '' @ (if 60 < val x then ''battery-good''
      else if 30 < val x then ''battery-medium'' else ''battery-low'') \<and>
    (fst (charge_icon (Num x)) = [CHR 0xF0, CHR 0x9F, CHR 0x94, CHR 0x8B] \<longleftrightarrow> 30 < val x)"
  using assms by (cases x) (simp_all add: charge_icon_def above_def less_fp_def)

theorem battery_levels_witness: "snd (charge_icon (Num (Fin 62))) = ''battery-icon battery-good''"
  using battery_levels[of "Fin 62"] by simp

section \<open>The connection\<close>

text \<open>C32: The indicator turns green exactly when the ping the server reported, read from the text of
  its route, is less than ten seconds old by the browser's clock; the reply also ends the loading.\<close>

theorem connection_read:
  fixes t :: clock
  assumes "legal m" and "0 \<le> year m" and "year m \<le> 9999" and "status_class (the_view c) \<noteq> None"
  defines "d \<equiv> updateConnectionStatus t (Body (connection_text m)) c"
  shows "connected d = (now t - time_value m (- 360) < 10000) \<and>
    status_class (the_view d) = Some (if now t - time_value m (- 360) < 10000
      then ''status-indicator status-connected'' else ''status-indicator status-disconnected'') \<and>
    lastConnection d = formatDateTime t (Some (time_value m (- 360))) \<and> \<not> loadingConnection d"
  using connection_text_read[OF assms(1-3)] assms(4)
  by (auto simp: d_def updateConnectionStatus_def Let_def date_of_def recent_def updateConnectionUI_def)

definition noon :: moment where
  "noon = \<lparr>year = 2024, month = 2, day = 29, hour = 12, minute = 0, second = 0\<rparr>"

theorem connection_read_witness:
  "connected (updateConnectionStatus \<lparr>now = time_value noon (- 360) + 4000, other_date = (\<lambda>_. None), formatDateTime = (\<lambda>_. [])\<rparr>
     (Body (connection_text noon)) opened)"
proof -
  have "legal noon" by (simp add: noon_def legal_def month_length_def leap_year_def)
  moreover have "status_class (the_view opened) \<noteq> None" by (simp add: constructor_def index_page_def)
  ultimately show ?thesis
    using connection_read[of noon opened "\<lparr>now = time_value noon (- 360) + 4000, other_date = (\<lambda>_. None), formatDateTime = (\<lambda>_. [])\<rparr>"]
    by (simp add: noon_def)
qed

text \<open>When the connection request fails, the state becomes disconnected but the indicator and the
  time beside it stay as they were: a green indicator stays green.\<close>

theorem connection_failure_indicator:
  "\<not> connected (updateConnectionStatus t Failed c) \<and>
   status_class (the_view (updateConnectionStatus t Failed c)) = status_class (the_view c) \<and>
   last_connection (the_view (updateConnectionStatus t Failed c)) = last_connection (the_view c) \<and>
   error_message (updateConnectionStatus t Failed c) = Some connection_failed"
  by (simp add: updateConnectionStatus_def showError_def)

section \<open>Clicks\<close>

text \<open>A click on the icon inside a command button posts the text \<open>undefined\<close>, whatever the
  button; only a click on the button beside the icon posts the command.\<close>

theorem icon_click:
  assumes "i < length (command_buttons (the_view c))"
  shows "(\<exists>d. step L c (Click (OnIcon i)) d \<and> posted d = posted c @ [''undefined'']) \<and>
    (\<exists>d. step L c (Click (OnButton i)) d \<and> posted d = posted c @ [button_values (the_view c) ! i])"
proof -
  have "step L c (Click (OnIcon i)) (command_clicked (OnIcon i) c)" "step L c (Click (OnButton i)) (command_clicked (OnButton i) c)"
    by (rule step.click, simp add: target_index_def assms)+
  moreover have "posted (command_clicked (OnIcon i) c) = posted c @ [''undefined'']"
    "posted (command_clicked (OnButton i) c) = posted c @ [button_values (the_view c) ! i]"
    using assms by (simp_all add: command_clicked_def sendCommand_def target_value_def button_values_def)
  ultimately show ?thesis by blast
qed

theorem icon_click_witness: "\<exists>d. step sheet_map opened (Click (OnIcon 0)) d \<and> posted d = [''undefined'']"
  using icon_click[of 0 opened sheet_map] by (simp add: constructor_def index_page_def)

end
