(* ===== verification/CommandCases.thy ===== *)
theory CommandCases
  imports CommandPath ConsoleTheorems
begin

text \<open>
  Cases of the way of a command: two commands in the same second, a poller without a valid token, and a
  click on the picture of a button of the console page.
\<close>

section \<open>Two commands in the same second\<close>

lemma idle_poll:
  assumes "idle s" and "q \<in> set (latest_commands (db s))" and "row_done q \<noteq> 0"
  shows "link_step on_error True s (s\<lparr>db := insert_ping (clock s) (db s)\<rparr>)"
proof -
  have "A_command (row_id q) (row_command q) (row_done q) \<in> set (fetch_answers True (db s))"
    using assms(2) by (auto simp: fetch_answers_command)
  from by_poller[OF poll[OF _ this, of on_error]] assms(1,3) show ?thesis
    by (simp add: idle_def fetch_def) (metis (no_types, lifting) link.surjective link.update_convs(3))
qed

text \<open>As long as the answers are a done row, nothing else is sent.\<close>

lemma idle_polls:
  assumes "idle s" and "q \<in> set (latest_commands (db s))" and "row_done q \<noteq> 0"
  shows "\<exists>t. link_steps on_error True s t \<and> idle t \<and> sent t = sent s \<and> obeyed t = obeyed s \<and> commands (db t) = commands (db s) \<and>
    length (pings (db t)) = length (pings (db s)) + n \<and> clock t = clock s"
proof (induction n)
  case 0
  then show ?case using assms(1) by (intro exI[of _ s]) (simp add: no_step)
next
  case (Suc n)
  then obtain t where t: "link_steps on_error True s t" "idle t" "sent t = sent s" "obeyed t = obeyed s"
      "commands (db t) = commands (db s)" "length (pings (db t)) = length (pings (db s)) + n" "clock t = clock s" by blast
  have "q \<in> set (latest_commands (db t))" using assms(2) t(5) by (simp add: latest_commands_def)
  from more_steps[OF t(1) idle_poll[OF t(2) this assms(3)]] show ?case
    using t by (intro exI[of _ "t\<lparr>db := insert_ping (clock t) (db t)\<rparr>"]) (simp add: idle_def insert_ping_def)
qed

lemma ticks: "link_steps on_error valid s (s\<lparr>clock := clock s + m\<rparr>)"
proof (induction m)
  case 0
  then show ?case by (simp add: no_step)
next
  case (Suc m)
  from more_steps[OF this tick] show ?case by simp
qed

text \<open>The first command has been carried out, and another is posted in the same second.\<close>

lemma second_command:
  assumes "code_of c = Some k" and "code_of d = Some l"
  obtains s where "link_reachable on_error True s" and "idle s" and "sent_ids s = [1]" and "clock s = 0"
    and "commands (db s) = [(first_row c)\<lparr>row_done := 1\<rparr>, (first_row d)\<lparr>row_id := 2\<rparr>]" and "length (pings (db s)) = 1"
proof -
  obtain a where a: "action_of [k] = Some a" using code_action[OF assms(1)] by blast
  have r: "row_done (first_row c) = 0" "code_of (row_command (first_row c)) = Some k" using assms(1) by (simp_all add: first_row_def)
  obtain t where t: "link_steps on_error True (one_command c) t" "idle t" "sent t = sent (one_command c) @ [(Some (row_id (first_row c)), row_command (first_row c))]"
      "db t = complete_command (row_id (first_row c)) (insert_ping (clock (one_command c)) (db (one_command c)))" "clock t = clock (one_command c)"
    using delivery[OF one_command_idle one_command_latest r a, of on_error] by blast
  let ?s = "t\<lparr>db := command (clock t) (Some d) (db t)\<rparr>"
  have "link_reachable on_error True t" by (rule reachable_steps[OF t(1) one_command_reachable[OF code_not_Nil[OF assms(1)]]])
  then have "link_reachable on_error True ?s" by (rule link_next[OF _ post])
  moreover have "idle ?s" using t(2) by (simp add: idle_def)
  moreover have "sent_ids ?s = [1]" using t(3) by (simp add: sent_ids_def one_command_fields first_row_def)
  moreover have "commands (db ?s) = [(first_row c)\<lparr>row_done := 1\<rparr>, (first_row d)\<lparr>row_id := 2\<rparr>]"
    using t(4,5) code_not_Nil[OF assms(2)]
    by (simp add: command_def insert_command_def complete_command_def insert_ping_def one_command_rows one_command_fields
        complete_def first_row_def)
  moreover have "length (pings (db ?s)) = 1"
    using t(4) code_not_Nil[OF assms(2)]
    by (simp add: command_def insert_command_def complete_command_def insert_ping_def one_command_def init_db_def)
  ultimately show thesis using that t(5) one_command_fields by simp
qed

section \<open>A poller without a valid token\<close>

definition untouched :: "database \<Rightarrow> bool" where
  "untouched d \<longleftrightarrow> list_all (\<lambda>r. row_done r = 0) (commands d) \<and> pings d = []"

lemma untouched_poller: "poller_step on_error False s t \<Longrightarrow> untouched (db s) \<Longrightarrow> untouched (db t)"
  by (induction rule: poller_step.induct) (auto simp: fetch_def done_route_def)

lemma untouched_step: "link_step on_error False s t \<Longrightarrow> untouched (db s) \<Longrightarrow> untouched (db t)"
proof (induction rule: link_step.induct)
  case (post s form)
  then show ?case by (auto simp: untouched_def command_def insert_command_def split: option.splits)
next
  case (by_controller s t)
  then show ?case using controller_apart[of s t] by simp
qed (auto intro: untouched_poller)

lemma untouched_reachable: "link_reachable on_error False s \<Longrightarrow> untouched (db s)"
proof (induction rule: link_reachable.induct)
  case link_start
  then show ?case by (simp add: untouched_def start_link_def init_db_def)
qed (rule untouched_step)

lemma nothing_sent: "link_reachable on_error False s \<Longrightarrow> set (sent s) \<subseteq> {(None, on_error)}"
proof -
  assume "link_reachable on_error False s"
  from sound_reachable[OF this] have "list_all (entry_ok on_error False (db s)) (sent s)" by (simp add: link_sound_def sent_sound_def)
  then show ?thesis by (auto simp: list_all_iff) (metis entry_ok.simps not_None_eq)+
qed

section \<open>Properties\<close>

text \<open>
  C17: A command can starve. When a command has been carried out and another is posted in the same second, the
  server may keep answering with the first, as both have the same time: however often the poller polls
  and however much time passes, there is a run in which the second command is neither sent nor done.
\<close>

theorem same_second_ignored:
  assumes "code_of c = Some k" and "code_of d = Some l"
  shows "\<exists>t. link_reachable on_error True t \<and> idle t \<and> sent_ids t = [1] \<and> length (pings (db t)) = Suc n \<and> clock t = m \<and>
    map row_command (commands (db t)) = [c, d] \<and> map row_done (commands (db t)) = [1, 0]"
proof -
  obtain s where s: "link_reachable on_error True s" "idle s" "sent_ids s = [1]" "clock s = 0"
      "commands (db s) = [(first_row c)\<lparr>row_done := 1\<rparr>, (first_row d)\<lparr>row_id := 2\<rparr>]" "length (pings (db s)) = 1"
    by (rule second_command[OF assms])
  have "(first_row c)\<lparr>row_done := 1\<rparr> \<in> set (latest_commands (db s))" by (simp add: latest_commands_def s(5) first_row_def)
  from idle_polls[OF s(2) this, of on_error n] obtain t where
    t: "link_steps on_error True s t" "idle t" "sent t = sent s" "commands (db t) = commands (db s)"
      "length (pings (db t)) = length (pings (db s)) + n" "clock t = clock s" by auto
  have "link_reachable on_error True (t\<lparr>clock := m\<rparr>)"
    using reachable_steps[OF ticks[of on_error True t m] reachable_steps[OF t(1) s(1)]] t(6) s(4) by simp
  moreover have "idle (t\<lparr>clock := m\<rparr>)" using t(2) by (simp add: idle_def)
  moreover have "sent_ids t = sent_ids s" using t(3) by (simp add: sent_ids_def)
  ultimately show ?thesis using s t
    by (intro exI[of _ "t\<lparr>clock := m\<rparr>"]) (simp add: sent_ids_def first_row_def)
qed

theorem same_second_ignored_witness:
  "\<exists>t. link_reachable ''loiter'' True t \<and> idle t \<and> sent_ids t = [1] \<and> length (pings (db t)) = Suc 36000 \<and> clock t = 3600 \<and>
    map row_command (commands (db t)) = [''rtl'', ''land''] \<and> map row_done (commands (db t)) = [1, 0]"
  by (rule same_second_ignored) (simp_all add: code_of_def)

text \<open>
  C18: Tokens are checked. If the server rejects the token of the poller, then in every interleaving no posted
  command is sent to the drone or marked done and no ping is recorded; the poller sends at most the
  command for the loss of the connection.
\<close>

theorem unauthorized_poller:
  assumes "get_and_validate_token J cfg header = None"
    and "link_reachable on_error (get_and_validate_token J cfg header \<noteq> None) s"
  shows "set (sent s) \<subseteq> {(None, on_error)} \<and> list_all (\<lambda>r. row_done r = 0) (commands (db s)) \<and> pings (db s) = []"
  using assms nothing_sent untouched_reachable by (auto simp: untouched_def)

definition signing :: jwt where
  "signing = \<lparr>jwt_encode = (\<lambda>c k. ''e.'' @ k @ ''.'' @ concat (map (\<lambda>(a, b). a @ ''='' @ b) c)),
     jwt_decode = (\<lambda>t k. if t = ''e.'' @ k @ ''.issuer=Cherum'' then Some [(''issuer'', ''Cherum'')] else None)\<rparr>"

definition cherum :: config where
  "cherum = \<lparr>APP_NAME = ''Cherum'', SECRET_KEY = ''dev''\<rparr>"

theorem unauthorized_poller_witness:
  "pings (db (one_command ''land'')) = []"
proof -
  let ?h = "Some ''Bearer e.guess.issuer=Cherum''"
  have u: "get_and_validate_token signing cherum ?h = None"
    by (simp add: get_and_validate_token_def get_token_def decode_token_def signing_def cherum_def)
  have "link_reachable ''loiter'' (get_and_validate_token signing cherum ?h \<noteq> None) (one_command ''land'')"
    by (rule one_command_reachable) simp
  from unauthorized_poller[OF u this] show ?thesis by simp
qed

text \<open>
  The server accepts its own token. If the library decodes what it has encoded, into a token without
  blanks, the token of \<open>jwt:create\<close>, sent as the poller sends it, passes the check; and whatever passes
  was decoded with the key of the server and has its name as the issuer.
\<close>

theorem own_token_accepted:
  assumes "jwt_decode J (jwt_encode J [(''issuer'', APP_NAME cfg)] (SECRET_KEY cfg)) (SECRET_KEY cfg) = Some [(''issuer'', APP_NAME cfg)]"
    and "CHR '' '' \<notin> set (jwt_encode J [(''issuer'', APP_NAME cfg)] (SECRET_KEY cfg))"
  shows "get_and_validate_token J cfg (Some (''Bearer '' @ create_token J cfg)) = Some [(''issuer'', APP_NAME cfg)] \<and>
    (get_and_validate_token J cfg header = Some obj \<longrightarrow>
      (\<exists>token. get_token header = Some (Some token) \<and> jwt_decode J token (SECRET_KEY cfg) = Some obj \<and> map_of obj ''issuer'' = Some (APP_NAME cfg)))"
proof -
  have "split_blank (''Bearer '' @ create_token J cfg) = [''Bearer'', create_token J cfg]"
    using split_blank_append[of "''Bearer''" "create_token J cfg"] split_blank_word[OF assms(2)]
    by (simp add: create_token_def)
  then show ?thesis
    by (auto simp: get_and_validate_token_def get_token_def decode_token_def create_token_def assms(1) split: option.splits if_splits)
qed

theorem own_token_accepted_witness:
  "get_and_validate_token signing cherum (Some ''Bearer e.dev.issuer=Cherum'') = Some [(''issuer'', ''Cherum'')]"
  using own_token_accepted[of signing cherum] by (simp add: signing_def cherum_def create_token_def)

text \<open>
  C19: A click on the picture of a button cancels. The page then posts the text of the value of the picture, which has
  none, so that the command is not one of the three; and a command that was posted at an earlier time and
  is still waiting for the poller is never sent.
\<close>

theorem icon_cancels:
  assumes "step L p (Click (OnIcon i)) p'" and "link_reachable on_error valid s" and "r \<in> set (commands (db s))"
    and "row_done r = 0" and "row_created r < clock s" and "carried (poller s) \<noteq> Some (row_id r)" and "row_id r \<notin> set (sent_ids s)"
    and "link_steps on_error valid (s\<lparr>db := command (clock s) (Some (last (posted p'))) (db s)\<rparr>) t"
  shows "last (posted p') = ''undefined'' \<and> code_of (last (posted p')) = None \<and> row_id r \<notin> set (sent_ids t)"
proof -
  let ?s = "s\<lparr>db := command (clock s) (Some (last (posted p'))) (db s)\<rparr>"
  have c: "last (posted p') = ''undefined''"
    using assms(1) by cases (simp_all add: command_clicked_def sendCommand_def target_value_def Let_def)
  have n: "rows_numbered (db s)" using sound_reachable[OF assms(2)] by (simp add: link_sound_def)
  then have "p = r" if "p \<in> set (commands (db s))" "row_id p = row_id r" for p
    using that assms(3) by (auto simp: rows_numbered_def distinct_map inj_on_def)
  moreover have "row_id r \<le> command_seq (db s)" using n assms(3) by (simp add: rows_numbered_def list_all_iff)
  ultimately have "superseded (row_id r) ?s" using assms(3-7) c
    by (auto simp: superseded_def sent_ids_def command_def insert_command_def)
  from superseded_steps[OF assms(8) this] show ?thesis using c by (simp add: superseded_def code_of_def)
qed

text \<open>The page is clicked on the picture of its first button one second after the first command.\<close>

theorem icon_cancels_witness:
  "\<exists>t. 1 \<notin> set (sent_ids t) \<and> commands (db t) = [first_row ''land'', \<lparr>row_id = 2, row_command = ''undefined'', row_done = 0, row_created = 1\<rparr>]"
proof -
  let ?p = "command_clicked (OnIcon 0) opened" and ?s = "(one_command ''land'')\<lparr>clock := 1\<rparr>"
  let ?t = "?s\<lparr>db := command (clock ?s) (Some (last (posted ?p))) (db ?s)\<rparr>"
  have p: "step sheet_map opened (Click (OnIcon 0)) ?p"
    by (rule step.click) (simp add: constructor_def index_page_def target_index_def)
  have l: "posted ?p = [''undefined'']"
    by (simp add: constructor_def command_clicked_def sendCommand_def target_value_def Let_def)
  have "link_reachable ''loiter'' True ?s"
    using link_next[OF one_command_reachable tick[of "''loiter''" True "one_command ''land''"]] by (simp add: one_command_fields)
  from icon_cancels[OF p this, of "first_row ''land''" ?t]
  have "1 \<notin> set (sent_ids ?t)"
    using one_command_idle[of "''land''"] by (simp add: one_command_rows one_command_fields first_row_def idle_def sent_ids_def no_step)
  moreover have "commands (db ?t) = [first_row ''land'', \<lparr>row_id = 2, row_command = ''undefined'', row_done = 0, row_created = 1\<rparr>]"
    by (simp add: l command_def insert_command_def one_command_rows one_command_fields)
  ultimately show ?thesis by blast
qed

end
