(* ===== verification/MapView.thy ===== *)
theory MapView
  imports ConsoleTheorems
begin

text \<open>
  What a position update of the console page (\<open>updateMapPosition\<close> in \<open>js/app.js\<close>) does to the part of the map the
  operator looks at. The frame of a map is its zoom level and its centre, as the map library has them.
\<close>

section \<open>The frame of a map\<close>

text \<open>
  What the operations of the library do to the frame: \<open>setView\<close> sets both, \<open>panTo\<close> moves the centre, and markers and
  lines leave the frame alone.
\<close>

definition frames_map :: "'m leaflet \<Rightarrow> ('m \<Rightarrow> nat \<times> latlng) \<Rightarrow> bool" where
  "frames_map L frame \<longleftrightarrow> (\<forall>m m'. add_marker L m = Some m' \<longrightarrow> frame m' = frame m) \<and>
     (\<forall>p m m'. set_lat_lng L p m = Some m' \<longrightarrow> frame m' = frame m) \<and> (\<forall>b m. frame (mark_armed L b m) = frame m) \<and>
     (\<forall>ps m m'. set_line L ps m = Some m' \<longrightarrow> frame m' = frame m) \<and>
     (\<forall>p z m m'. set_view L p z m = Some m' \<longrightarrow> frame m' = (z, p)) \<and>
     (\<forall>p m m'. pan_to L p m = Some m' \<longrightarrow> frame m' = (fst (frame m), p))"

lemma frames_mapD:
  assumes "frames_map L frame"
  shows "add_marker L m = Some m' \<Longrightarrow> frame m' = frame m" "set_lat_lng L p m = Some m' \<Longrightarrow> frame m' = frame m"
    "frame (mark_armed L b m) = frame m" "set_line L ps m = Some m' \<Longrightarrow> frame m' = frame m"
    "set_view L p z m = Some m' \<Longrightarrow> frame m' = (z, p)" "pan_to L p m = Some m' \<Longrightarrow> frame m' = (fst (frame m), p)"
  using assms unfolding frames_map_def by metis+

lemma keeps_on_map: "(\<And>m m'. Q m \<Longrightarrow> f m = Some m' \<Longrightarrow> Q m') \<Longrightarrow> keeps (\<lambda>c. Q (the_map c)) (on_map f)"
  unfolding on_map_def by (rule keeps_attempt) auto

text \<open>What follows the placing of the marker does not change the frame, except that \<open>panTo\<close> moves it to a place out of sight.\<close>

definition followed :: "'m leaflet \<Rightarrow> ('m \<Rightarrow> nat \<times> latlng) \<Rightarrow> nat \<times> latlng \<Rightarrow> latlng \<Rightarrow> 'm \<Rightarrow> bool" where
  "followed L frame F p m \<longleftrightarrow> frame m = F \<or> frame m = (fst F, p) \<and> (\<exists>m'. frame m' = F \<and> in_bounds L p m' = Some False)"

lemma placed_frame:
  assumes "frames_map L frame"
  shows "keeps (\<lambda>c. frame (the_map c) = F) (block [on_map (set_lat_lng L p), whenever (\<lambda>c. has_element L (the_map c))
    (run (\<lambda>c. c\<lparr>the_map := mark_armed L (truthy (armed (telemetry c))) (the_map c)\<rparr>))])"
  using frames_mapD(3)[OF assms]
  by (intro keeps_block) (auto intro!: keeps_whenever keeps_run keeps_on_map[of "\<lambda>m. frame m = F"] dest: frames_mapD(2)[OF assms])

lemma points_frame:
  "keeps (\<lambda>c. frame (the_map c) = F) (block [run (push_point p),
     whenever (\<lambda>c. maxTrajectoryPoints < length (trajectoryPoints c)) (run shift_point)])"
  by (intro keeps_block) (auto intro!: keeps_run keeps_whenever simp: push_point_def shift_point_def)

lemma line_frame:
  assumes "frames_map L frame" and "frame (the_map c) = F"
  shows "followed L frame F p (the_map (snd (draw_line L p c)))"
proof (cases "set_line L (trajectoryPoints c) (the_map c)")
  case (Some m)
  have m: "frame m = F" using frames_mapD(4)[OF assms(1) Some] assms(2) by simp
  show ?thesis
  proof (cases "in_bounds L p m")
    case None
    then show ?thesis by (simp add: draw_line_def stm_defs on_map_def Some followed_def m)
  next
    case (Some inside)
    then show ?thesis using m \<open>set_line L (trajectoryPoints c) (the_map c) = Some m\<close> frames_mapD(6)[OF assms(1), of p m]
      by (cases inside; cases "pan_to L p m") (auto simp: draw_line_def stm_defs on_map_def followed_def)
  qed
qed (simp add: draw_line_def stm_defs on_map_def followed_def assms(2))

lemma marker_frame:
  assumes "frames_map L frame" and "frame (the_map c) = F"
  shows "followed L frame F p (the_map (snd (and_then (block [on_map (set_lat_lng L p), whenever (\<lambda>c. has_element L (the_map c))
      (run (\<lambda>c. c\<lparr>the_map := mark_armed L (truthy (armed (telemetry c))) (the_map c)\<rparr>))])
    (and_then (block [run (push_point p), whenever (\<lambda>c. maxTrajectoryPoints < length (trajectoryPoints c)) (run shift_point)])
      (draw_line L p)) c)))"
    (is "followed L frame F p (the_map (snd (and_then ?f (and_then ?g ?h) c)))")
proof -
  obtain r1 c1 where 1: "?f c = (r1, c1)" by fastforce
  obtain r2 c2 where 2: "?g c1 = (r2, c2)" by fastforce
  have m1: "frame (the_map c1) = F" by (rule keepsD[OF placed_frame[OF assms(1)] assms(2) 1])
  have m2: "frame (the_map c2) = F" by (rule keepsD[OF points_frame[of frame F p] m1 2])
  show ?thesis using line_frame[OF assms(1) m2] m1 m2
    by (cases r1; cases r2) (simp_all add: and_then_def[of ?f] and_then_def[of ?g] 1 2 followed_def del: block.simps)
qed

section \<open>The property\<close>

text \<open>
  C33: The operator's view. Once the marker has a place other than (0, 0), a position update, whether it completes
  or throws, leaves the zoom level and the centre of the map as the operator set them, except that it
  moves the centre to the drone when the drone is out of sight. An update that finds the marker without
  such a place and completes leaves the map at the zoom level 16 with the drone in the centre.
\<close>

theorem view_kept:
  assumes "frames_map L frame" and "latitude (telemetry c) = Some x" and "longitude (telemetry c) = Some y"
    and "updateMapPosition L c = (r, d)"
  shows "(\<not> unplaced (get_lat_lng L (the_map c)) \<longrightarrow>
      frame (the_map d) = frame (the_map c) \<or>
      frame (the_map d) = (fst (frame (the_map c)), (x, y)) \<and> (\<exists>m. frame m = frame (the_map c) \<and> in_bounds L (x, y) m = Some False)) \<and>
    (unplaced (get_lat_lng L (the_map c)) \<and> r = Normal \<longrightarrow> frame (the_map d) = (16, (x, y)))"
proof -
  let ?p = "(x, y)"
  let ?a = "whenever (\<lambda>c. unplaced (get_lat_lng L (the_map c))) (block [on_map (add_marker L), on_map (set_view L ?p 16)])"
  let ?f = "block [on_map (set_lat_lng L ?p), whenever (\<lambda>c. has_element L (the_map c))
      (run (\<lambda>c. c\<lparr>the_map := mark_armed L (truthy (armed (telemetry c))) (the_map c)\<rparr>))]"
  let ?g = "and_then (block [run (push_point ?p), whenever (\<lambda>c. maxTrajectoryPoints < length (trajectoryPoints c)) (run shift_point)])
      (draw_line L ?p)"
  have "position (telemetry c) = Some ?p" using assms(2,3) by (simp add: position_def)
  then have u: "updateMapPosition L c = and_then ?a (and_then ?f ?g) c"
    by (simp only: updateMapPosition_Some place_marker_def block.simps(2)[of ?a] and_then_assoc)
  show ?thesis
  proof (cases "unplaced (get_lat_lng L (the_map c))")
    case False
    then have "?a c = (Normal, c)" by (simp add: whenever_def)
    then have "and_then ?f ?g c = (r, d)" using assms(4) unfolding u by (simp only: and_then_def[of ?a] prod.case completion.case)
    then show ?thesis using marker_frame[OF assms(1) refl, where p = ?p and c = c] False by (simp add: followed_def del: block.simps)
  next
    case True
    have "frame (the_map d) = (16, ?p)" if n: "r = Normal"
    proof -
      obtain q e where e: "?a c = (q, e)" by fastforce
      then have q: "q = Normal" "and_then ?f ?g e = (r, d)"
        using assms(4) n unfolding u by (simp_all only: and_then_def[of ?a] prod.case) (cases q; simp del: block.simps)+
      have "frame (the_map e) = (16, ?p)"
        using e True q(1) frames_mapD(5)[OF assms(1)] by (auto simp: whenever_def stm_defs on_map_def split: option.splits)
      from marker_frame[OF assms(1) this, where p = ?p] show ?thesis by (simp add: q(2) followed_def del: block.simps) auto
    qed
    then show ?thesis using True by simp
  qed
qed

text \<open>A map with a zoom level, of which one degree around the centre is in sight.\<close>

record chart =
  chart_frame :: "nat \<times> latlng"
  pin :: latlng
  drawn_line :: "latlng list"

definition in_sight :: "latlng \<Rightarrow> chart \<Rightarrow> bool" where
  "in_sight p m \<longleftrightarrow> \<bar>val (fst p) - val (fst (snd (chart_frame m)))\<bar> \<le> 1 \<and> \<bar>val (snd p) - val (snd (snd (chart_frame m)))\<bar> \<le> 1"

definition chart_map :: "chart leaflet" where
  "chart_map = \<lparr>new_map = (\<lambda>p z. \<lparr>chart_frame = (z, p), pin = (0, 0), drawn_line = []\<rparr>),
     tile_layer = (\<lambda>u z m. m), new_marker = (\<lambda>p m. m\<lparr>pin := p\<rparr>), new_line = (\<lambda>ps m. m\<lparr>drawn_line := ps\<rparr>),
     set_view = (\<lambda>p z m. Some (m\<lparr>chart_frame := (z, p)\<rparr>)), add_marker = Some, get_lat_lng = (\<lambda>m. Some (pin m)),
     set_lat_lng = (\<lambda>p m. Some (m\<lparr>pin := p\<rparr>)), has_element = (\<lambda>m. True), mark_armed = (\<lambda>b m. m),
     set_line = (\<lambda>ps m. Some (m\<lparr>drawn_line := ps\<rparr>)), in_bounds = (\<lambda>p m. Some (in_sight p m)),
     pan_to = (\<lambda>p m. Some (m\<lparr>chart_frame := (fst (chart_frame m), p)\<rparr>)), remove_map = Some\<rparr>"

text \<open>The drone at (19, -99), with a marker, and the operator at zoom level 10 with the drone in sight.\<close>

definition chart_console :: "latlng \<Rightarrow> chart console" where
  "chart_console place = (let c = constructor chart_map index_page in
     c\<lparr>telemetry := (telemetry c)\<lparr>latitude := Some (Fin 19), longitude := Some (Fin (- 99))\<rparr>,
       the_map := \<lparr>chart_frame = (10, (Fin 18, Fin (- 98))), pin = place, drawn_line = []\<rparr>\<rparr>)"

theorem view_kept_witness:
  "chart_frame (the_map (snd (updateMapPosition chart_map (chart_console (Fin 18, Fin (- 98)))))) = (10, (Fin 18, Fin (- 98))) \<and>
   chart_frame (the_map (snd (updateMapPosition chart_map (chart_console (0, 0))))) = (16, (Fin 19, Fin (- 99)))"
proof -
  have f: "frames_map chart_map chart_frame" by (simp add: frames_map_def chart_map_def)
  have t: "latitude (telemetry (chart_console q)) = Some (Fin 19)" "longitude (telemetry (chart_console q)) = Some (Fin (- 99))"
    "the_map (chart_console q) = \<lparr>chart_frame = (10, (Fin 18, Fin (- 98))), pin = q, drawn_line = []\<rparr>" for q
    by (simp_all add: chart_console_def Let_def)
  have n: "fst (updateMapPosition chart_map (chart_console (0, 0))) = Normal"
    by (rule updateMapPosition_Normal[of _ "\<lambda>_. True"])
      (simp_all add: accepts_def chart_map_def chart_console_def constructor_def list_all_iff Let_def)
  have s: "in_sight (Fin 19, Fin (- 99)) m" if "chart_frame m = (10, (Fin 18, Fin (- 98)))" for m
    using that by (simp add: in_sight_def)
  have g: "get_lat_lng chart_map m = Some (pin m)" "in_bounds chart_map p m = Some (in_sight p m)" for p m
    by (simp_all add: chart_map_def)
  show ?thesis
    using view_kept[OF f t(1,2) prod.collapse[symmetric], of "(Fin 18, Fin (- 98))"]
      view_kept[OF f t(1,2) prod.collapse[symmetric], of "(0, 0)"] n s
    by (auto simp: t g unplaced_def feq_def)
qed

end
