(* ===== verification/TelemetryStore.thy ===== *)
theory TelemetryStore
  imports Prelude
begin

text \<open>
  The buffer of \<open>server/cherum/telemetry_store.py\<close>, which collects the points of the telemetry requests and hands
  them to InfluxDB in batches. The server runs requests in several threads that share the buffer, so
  the operations are steps of threads; the database is up, and takes every batch, or may raise.
  \<open>create_app\<close> registers \<open>close\<close> to run at the end of every request, where it flushes the buffer once more.
\<close>

section \<open>Points\<close>

record 'v point =
  measurement :: string
  point_tags :: "(string \<times> string) list"
  point_fields :: "(string \<times> 'v) list"
  point_time :: "int option"

definition store_armed :: "'v \<Rightarrow> string \<Rightarrow> 'v point" where
  "store_armed armed drone = \<lparr>measurement = ''armed'', point_tags = [(''drone_id'', drone)],
     point_fields = [(''armed'', armed)], point_time = None\<rparr>"

definition store_in_air :: "'v \<Rightarrow> string \<Rightarrow> 'v point" where
  "store_in_air in_air drone = \<lparr>measurement = ''in_air'', point_tags = [(''drone_id'', drone)],
     point_fields = [(''in_air'', in_air)], point_time = None\<rparr>"

definition store_position :: "int \<Rightarrow> 'v \<Rightarrow> 'v \<Rightarrow> 'v \<Rightarrow> string \<Rightarrow> 'v point" where
  "store_position utc lat lon alt drone = \<lparr>measurement = ''position'', point_tags = [(''drone_id'', drone)],
     point_fields = [(''latitude'', lat), (''longitude'', lon), (''altitude'', alt)], point_time = Some utc\<rparr>"

definition store_battery :: "int \<Rightarrow> string \<Rightarrow> 'v \<Rightarrow> string \<Rightarrow> 'v point" where
  "store_battery utc battery percent drone = \<lparr>measurement = ''battery'', point_tags = [(''drone_id'', drone), (''battery_id'', battery)],
     point_fields = [(''remaining_percent'', percent)], point_time = Some utc\<rparr>"

definition store_flight_mode :: "int \<Rightarrow> 'v \<Rightarrow> string \<Rightarrow> 'v point" where
  "store_flight_mode utc mode drone = \<lparr>measurement = ''flight_mode'', point_tags = [(''drone_id'', drone)],
     point_fields = [(''mode'', mode)], point_time = Some utc\<rparr>"

section \<open>The buffer\<close>

text \<open>
  Where a thread is: between two requests; after \<open>append\<close>; in \<open>flush\<close>, before its test, before the write, after
  the write, and after the reset of the buffer; or at the end of a request, before \<open>close\<close>. The flag tells the flush of
  \<open>close\<close> from that of \<open>_check_flush\<close>.
\<close>

datatype phase = Outside | Appended | Flushing bool | Writing bool | Handed_over bool | Emptied bool | Closing

definition flushed :: "bool \<Rightarrow> phase" where
  "flushed closing = (if closing then Outside else Closing)"

text \<open>
  The threads are numbered. The last two fields are for the statements only: the points in the order of
  the calls of \<open>append\<close>, and those handed to the database.
\<close>

record 'v store =
  buffer :: "'v point list"
  last_flush :: int
  threads :: "nat \<Rightarrow> phase"
  arrived :: "'v point list"
  written :: "'v point list"

definition buffer_size :: nat where
  "buffer_size = 100"

definition flush_interval :: int where
  "flush_interval = 5"

definition new_store :: "int \<Rightarrow> 'v store" where
  "new_store t = \<lparr>buffer = [], last_flush = t, threads = (\<lambda>_. Outside), arrived = [], written = []\<rparr>"

text \<open>The attribute \<open>seconds\<close> of a difference of times, in microseconds: days are not counted.\<close>

definition timedelta_seconds :: "int \<Rightarrow> int" where
  "timedelta_seconds d = (d div 1000000) mod 86400"

definition flush_due :: "int \<Rightarrow> 'v store \<Rightarrow> bool" where
  "flush_due now s \<longleftrightarrow> buffer_size \<le> length (buffer s) \<or> flush_interval \<le> timedelta_seconds (now - last_flush s)"

definition goto :: "nat \<Rightarrow> phase \<Rightarrow> 'v store \<Rightarrow> 'v store" where
  "goto i p s = s\<lparr>threads := (threads s)(i := p)\<rparr>"

text \<open>The clock may be set, so that times are arbitrary. A request appends at most one point.\<close>

inductive buffer_step :: "nat set \<Rightarrow> bool \<Rightarrow> 'v store \<Rightarrow> 'v store \<Rightarrow> bool" for T :: "nat set" and up :: bool where
  append: "i \<in> T \<Longrightarrow> threads s i = Outside \<Longrightarrow>
    buffer_step T up s (goto i Appended (s\<lparr>buffer := buffer s @ [p], arrived := arrived s @ [p]\<rparr>))"
| other_request: "i \<in> T \<Longrightarrow> threads s i = Outside \<Longrightarrow> buffer_step T up s (goto i Closing s)"
| not_due: "i \<in> T \<Longrightarrow> threads s i = Appended \<Longrightarrow> \<not> flush_due now s \<Longrightarrow> buffer_step T up s (goto i Closing s)"
| due: "i \<in> T \<Longrightarrow> threads s i = Appended \<Longrightarrow> flush_due now s \<Longrightarrow> buffer_step T up s (goto i (Flushing False) s)"
| close: "i \<in> T \<Longrightarrow> threads s i = Closing \<Longrightarrow> buffer_step T up s (goto i (Flushing True) s)"
| nothing: "i \<in> T \<Longrightarrow> threads s i = Flushing b \<Longrightarrow> buffer s = [] \<Longrightarrow> buffer_step T up s (goto i (flushed b) s)"
| something: "i \<in> T \<Longrightarrow> threads s i = Flushing b \<Longrightarrow> buffer s \<noteq> [] \<Longrightarrow> buffer_step T up s (goto i (Writing b) s)"
| hand_over: "i \<in> T \<Longrightarrow> threads s i = Writing b \<Longrightarrow>
    buffer_step T up s (goto i (Handed_over b) (s\<lparr>written := written s @ buffer s\<rparr>))"
| write_raises: "i \<in> T \<Longrightarrow> threads s i = Writing b \<Longrightarrow> \<not> up \<Longrightarrow> buffer_step T up s (goto i (flushed b) s)"
| empty_buffer: "i \<in> T \<Longrightarrow> threads s i = Handed_over b \<Longrightarrow> buffer_step T up s (goto i (Emptied b) (s\<lparr>buffer := []\<rparr>))"
| stamp: "i \<in> T \<Longrightarrow> threads s i = Emptied b \<Longrightarrow> buffer_step T up s (goto i (flushed b) (s\<lparr>last_flush := now\<rparr>))"

inductive buffer_reachable :: "nat set \<Rightarrow> bool \<Rightarrow> 'v store \<Rightarrow> bool" for T :: "nat set" and up :: bool where
  store_start: "buffer_reachable T up (new_store t)"
| store_next: "buffer_reachable T up s \<Longrightarrow> buffer_step T up s s' \<Longrightarrow> buffer_reachable T up s'"

lemma goto_fields [simp]:
  "buffer (goto i p s) = buffer s" "last_flush (goto i p s) = last_flush s" "arrived (goto i p s) = arrived s"
  "written (goto i p s) = written s" "threads (goto i p s) = (threads s)(i := p)"
  by (simp_all add: goto_def)

section \<open>One thread\<close>

text \<open>What is handed over and what waits, in the phases of the only thread.\<close>

definition one_sound :: "nat \<Rightarrow> bool \<Rightarrow> 'v store \<Rightarrow> bool" where
  "one_sound i up s \<longleftrightarrow> (case threads s i of
       Handed_over b \<Rightarrow> written s = arrived s
     | Emptied b \<Rightarrow> written s = arrived s \<and> buffer s = []
     | Outside \<Rightarrow> written s @ buffer s = arrived s \<and> (up \<longrightarrow> buffer s = [])
     | _ \<Rightarrow> written s @ buffer s = arrived s)"

lemma one_step: "buffer_step {i} up s t \<Longrightarrow> one_sound i up s \<Longrightarrow> one_sound i up t"
  by (induction rule: buffer_step.induct) (auto simp: one_sound_def flushed_def)

lemma one_reachable: "buffer_reachable {i} up s \<Longrightarrow> one_sound i up s"
proof (induction rule: buffer_reachable.induct)
  case (store_start t)
  then show ?case by (simp add: one_sound_def new_store_def)
qed (rule one_step)

text \<open>A request of thread \<open>i\<close> that stores a point into the empty buffer, up to the flush of \<open>close\<close>.\<close>

lemma stored:
  assumes "buffer_reachable T up s" and "i \<in> T" and "threads s i = Outside" and "buffer s = []"
  shows "buffer_reachable T up (goto i (Writing True) (s\<lparr>buffer := [p], arrived := arrived s @ [p]\<rparr>))"
proof -
  let ?s = "s\<lparr>buffer := [p], arrived := arrived s @ [p]\<rparr>"
  have "buffer_reachable T up (goto i Appended ?s)" using store_next[OF assms(1) append[OF assms(2,3), of up p]] assms(4) by simp
  moreover have "\<not> flush_due (last_flush s) (goto i Appended ?s)"
    by (simp add: flush_due_def buffer_size_def flush_interval_def timedelta_seconds_def)
  ultimately have "buffer_reachable T up (goto i Closing (goto i Appended ?s))"
    using assms(2) by (intro store_next[OF _ not_due[of i]]) simp_all
  then have "buffer_reachable T up (goto i (Flushing True) (goto i Closing (goto i Appended ?s)))"
    using assms(2) by (intro store_next[OF _ close[of i]]) simp_all
  from store_next[OF this something[of i]] assms(2) show ?thesis by (simp add: goto_def)
qed

section \<open>Properties\<close>

text \<open>
  C20: One thread loses nothing. With a single thread the points handed to the database and those still in the
  buffer are at every moment between two requests all the points that came, each once and in order; and as long as the
  database takes every batch none is left in the buffer then.
\<close>

theorem telemetry_kept:
  assumes "buffer_reachable {i} up s" and "threads s i = Outside"
  shows "written s @ buffer s = arrived s \<and> (up \<longrightarrow> buffer s = [])"
  using one_reachable[OF assms(1)] assms(2) by (simp add: one_sound_def)

definition armed_at :: "bool \<Rightarrow> bool point" where
  "armed_at b = store_armed b ''default''"

theorem telemetry_kept_witness:
  "\<exists>s :: bool store. arrived s = [armed_at True] \<and> written s = [armed_at True] \<and> buffer s = []"
proof -
  have n: "threads (new_store 0) 0 = Outside" "buffer (new_store 0) = []" by (simp_all add: new_store_def)
  let ?w = "goto 0 (Writing True) ((new_store 0)\<lparr>buffer := [armed_at True], arrived := arrived (new_store 0) @ [armed_at True]\<rparr>)"
  let ?h = "goto 0 (Handed_over True) (?w\<lparr>written := written ?w @ buffer ?w\<rparr>)"
  let ?e = "goto 0 (Emptied True) (?h\<lparr>buffer := []\<rparr>)"
  let ?s = "goto 0 (flushed True) (?e\<lparr>last_flush := 1\<rparr>)"
  have "buffer_reachable {0} True ?w" by (rule stored[OF store_start _ n]) simp
  then have "buffer_reachable {0} True ?h" by (rule store_next[OF _ hand_over[of 0]]) simp_all
  then have "buffer_reachable {0} True ?e" by (rule store_next[OF _ empty_buffer[of 0]]) simp_all
  then have "buffer_reachable {0} True ?s" by (rule store_next[OF _ stamp[of 0]]) simp_all
  from telemetry_kept[OF this] show ?thesis by (intro exI[of _ ?s]) (simp add: flushed_def new_store_def)
qed

text \<open>A pause of whole days is not counted by the check.\<close>

lemma days_not_counted:
  assumes "length (buffer s) < 100" and "0 \<le> r" and "r < 5000000"
  shows "\<not> flush_due (last_flush s + d * 86400000000 + r) s"
proof -
  have "(d * 86400000000 + r) div 1000000 = d * 86400 + r div 1000000" by simp
  moreover have "0 \<le> r div 1000000" "r div 1000000 < 5" using assms(2,3) by (simp_all add: div_less_iff_less_mult flip: zdiv_int)
  ultimately have "timedelta_seconds (d * 86400000000 + r) < 5" by (simp add: timedelta_seconds_def)
  then show ?thesis using assms(1) by (simp add: flush_due_def buffer_size_def flush_interval_def add.assoc)
qed

text \<open>
  C21: Two threads can lose a point. There is a run of two requests, each of which stores a point, in which the second
  point is appended after the first request has handed the buffer to the database and before it empties it: both
  requests end, the buffer is empty, and the second point was never handed over although the database took every batch.
\<close>

theorem telemetry_lost:
  "\<exists>s. buffer_reachable {0, 1} True s \<and> threads s = (\<lambda>_. Outside) \<and> arrived s = [p, q] \<and> written s = [p] \<and> buffer s = []"
proof -
  have n: "threads (new_store 0) 0 = Outside" "buffer (new_store 0) = []" by (simp_all add: new_store_def)
  let ?w = "goto 0 (Writing True) ((new_store 0)\<lparr>buffer := [p], arrived := arrived (new_store 0) @ [p]\<rparr>)"
  let ?a = "goto 0 (Handed_over True) (?w\<lparr>written := written ?w @ buffer ?w\<rparr>)"
  let ?b = "goto 1 Appended (?a\<lparr>buffer := buffer ?a @ [q], arrived := arrived ?a @ [q]\<rparr>)"
  let ?c = "goto 0 (Emptied True) (?b\<lparr>buffer := []\<rparr>)"
  let ?d = "goto 0 (flushed True) (?c\<lparr>last_flush := 0\<rparr>)"
  let ?e = "goto 1 Closing ?d"
  let ?f = "goto 1 (Flushing True) ?e"
  let ?g = "goto 1 (flushed True) ?f"
  have "buffer_reachable {0, 1} True ?w" by (rule stored[OF store_start _ n]) simp
  then have "buffer_reachable {0, 1} True ?a" by (rule store_next[OF _ hand_over[of 0]]) simp_all
  then have "buffer_reachable {0, 1} True ?b" by (rule store_next[OF _ append[of 1]]) (simp_all add: new_store_def)
  then have "buffer_reachable {0, 1} True ?c" by (rule store_next[OF _ empty_buffer[of 0]]) simp_all
  then have "buffer_reachable {0, 1} True ?d" by (rule store_next[OF _ stamp[of 0]]) simp_all
  moreover have "\<not> flush_due 0 ?d" by (simp add: flush_due_def buffer_size_def flush_interval_def timedelta_seconds_def)
  ultimately have "buffer_reachable {0, 1} True ?e" by (intro store_next[OF _ not_due[of 1]]) simp_all
  then have "buffer_reachable {0, 1} True ?f" by (rule store_next[OF _ close[of 1]]) simp_all
  moreover have "buffer_step {0, 1} True ?f ?g" by (rule nothing) simp_all
  ultimately have "buffer_reachable {0, 1} True ?g" by (rule store_next)
  moreover have "threads ?g = (\<lambda>_. Outside)" by (auto simp: flushed_def new_store_def)
  ultimately show ?thesis by (intro exI[of _ ?g]) (simp add: new_store_def)
qed

end
