(* ===== verification/PageLoop.thy ===== *)
theory PageLoop
  imports VideoTheorems
begin

text \<open>
  The life of the video page (\<open>js/video.js\<close>): \<open>main\<close>, which negotiates the stream, the events of the stream, and
  the loop of frames. The peer connection is outside: each of its promises may be rejected, and it
  may report tracks.
\<close>

section \<open>The canvas\<close>

text \<open>An assignment to the size of a canvas clears it and resets the state of its context.\<close>

definition blank_ctx :: ctx where
  "blank_ctx = \<lparr>stroke_style = ''#000000'', fill_style = ''#000000'', line_width = 1, font = ''10px sans-serif'', calls = []\<rparr>"

definition onloadedmetadata :: "nat \<Rightarrow> nat \<Rightarrow> player \<Rightarrow> player" where
  "onloadedmetadata clientWidth clientHeight p =
     p\<lparr>canvas_width := clientWidth, canvas_height := clientHeight, canvas_ctx := blank_ctx\<rparr>"

section \<open>The page\<close>

text \<open>
  How far \<open>main\<close> is: not called before the page has loaded; at one of its awaits, of which the last, with the
  handler of tracks in place, is \<open>Describing\<close>; at its end; or rejected, which is only logged.
\<close>

datatype negotiation = Loading | Offering | Setting_local | Posting | Reading | Describing | Connected | Rejected

fun next_await :: "negotiation \<Rightarrow> negotiation" where
  "next_await Offering = Setting_local"
| "next_await Setting_local = Posting"
| "next_await Posting = Reading"
| "next_await Reading = Describing"
| "next_await Describing = Connected"
| "next_await n = n"

definition awaiting :: "negotiation \<Rightarrow> bool" where
  "awaiting n \<longleftrightarrow> n \<in> {Offering, Setting_local, Posting, Reading, Describing}"

text \<open>
  Frames that have begun and neither ended nor thrown are running. The last two fields are for the
  statements only: the tracks reported, and the frames that have thrown.
\<close>

record page =
  main_at :: negotiation
  ontrack_set :: bool
  player :: player
  running :: nat
  tracks :: nat
  thrown :: nat

definition load_page :: "player \<Rightarrow> page" where
  "load_page p = \<lparr>main_at = Loading, ontrack_set = False, player = p, running = 0, tracks = 0, thrown = 0\<rparr>"

definition ontrack :: "page \<Rightarrow> page" where
  "ontrack s = s\<lparr>player := request_frame (player s), tracks := Suc (tracks s)\<rparr>"

text \<open>What a frame does is taken as a whole at its end; nothing else changes what it reads but the size of the canvas.\<close>

definition frame_ended :: "string list \<Rightarrow> frame_input \<Rightarrow> page \<Rightarrow> page" where
  "frame_ended colors e s = (let (r, p) = processFrame colors e (player s) in
     s\<lparr>player := p, running := running s - 1, thrown := (case r of Normal \<Rightarrow> thrown s | Thrown \<Rightarrow> Suc (thrown s))\<rparr>)"

inductive page_step :: "string list \<Rightarrow> page \<Rightarrow> page \<Rightarrow> bool" for colors :: "string list" where
  loaded: "main_at s = Loading \<Longrightarrow> n \<in> {Offering, Rejected} \<Longrightarrow> page_step colors s (s\<lparr>main_at := n\<rparr>)"
| settled: "awaiting (main_at s) \<Longrightarrow>
    page_step colors s (s\<lparr>main_at := next_await (main_at s), ontrack_set := ontrack_set s \<or> next_await (main_at s) = Describing\<rparr>)"
| rejected: "awaiting (main_at s) \<Longrightarrow> page_step colors s (s\<lparr>main_at := Rejected\<rparr>)"
| track: "ontrack_set s \<Longrightarrow> page_step colors s (ontrack s)"
| metadata: "0 < tracks s \<Longrightarrow> page_step colors s (s\<lparr>player := onloadedmetadata w h (player s)\<rparr>)"
| frame_begins: "requested (player s) = Suc n \<Longrightarrow>
    page_step colors s (s\<lparr>player := (player s)\<lparr>requested := n\<rparr>, running := Suc (running s)\<rparr>)"
| frame_ends: "0 < running s \<Longrightarrow> page_step colors s (frame_ended colors e s)"

inductive page_reachable :: "string list \<Rightarrow> player \<Rightarrow> page \<Rightarrow> bool" for colors :: "string list" and p :: player where
  page_start: "page_reachable colors p (load_page p)"
| page_next: "page_reachable colors p s \<Longrightarrow> page_step colors s t \<Longrightarrow> page_reachable colors p t"

section \<open>The loop\<close>

definition one_loop_per_track :: "page \<Rightarrow> bool" where
  "one_loop_per_track s \<longleftrightarrow> requested (player s) + running s + thrown s = tracks s"

lemma frame_ended_loop:
  assumes "0 < running s" and "one_loop_per_track s"
  shows "one_loop_per_track (frame_ended colors e s)"
proof -
  obtain r q where q: "processFrame colors e (player s) = (r, q)" by fastforce
  then have "requested q = (if r = Normal then Suc (requested (player s)) else requested (player s))"
    using frame_requests[of colors e "player s"] by simp
  then show ?thesis using assms by (cases r) (auto simp: one_loop_per_track_def frame_ended_def q)
qed

lemma loop_step: "page_step colors s t \<Longrightarrow> one_loop_per_track s \<Longrightarrow> one_loop_per_track t"
proof (induction rule: page_step.induct)
  case (frame_ends s e)
  then show ?case by (rule frame_ended_loop)
qed (simp_all add: one_loop_per_track_def ontrack_def request_frame_def onloadedmetadata_def)

lemma loop_reachable: "page_reachable colors p s \<Longrightarrow> requested p = 0 \<Longrightarrow> one_loop_per_track s"
proof (induction rule: page_reachable.induct)
  case page_start
  then show ?case by (simp add: one_loop_per_track_def load_page_def)
qed (rule loop_step)

text \<open>Without the handler there is no track.\<close>

definition handler_first :: "page \<Rightarrow> bool" where
  "handler_first s \<longleftrightarrow> (0 < tracks s \<longrightarrow> ontrack_set s) \<and> (main_at s \<in> {Loading, Offering, Setting_local, Posting, Reading} \<longrightarrow> \<not> ontrack_set s)"

lemma handler_step: "page_step colors s t \<Longrightarrow> handler_first s \<Longrightarrow> handler_first t"
proof (induction rule: page_step.induct)
  case (settled s)
  then show ?case by (cases "main_at s") (auto simp: handler_first_def awaiting_def)
next
  case (frame_ends s e)
  then show ?case by (simp add: handler_first_def frame_ended_def split: prod.split)
qed (auto simp: handler_first_def ontrack_def)

lemma handler_reachable: "page_reachable colors p s \<Longrightarrow> handler_first s"
proof (induction rule: page_reachable.induct)
  case page_start
  then show ?case by (simp add: handler_first_def load_page_def)
qed (rule handler_step)

text \<open>
  C22: One loop of frames per track. In every order of the events of the page, the frames requested, running and
  thrown are together as many as the tracks the stream has reported: with the one track the page asks for
  two frames never overlap, and as long as no frame throws exactly one is requested or running. Before the
  answer of the server has been read there is none.
\<close>

theorem frames_one_at_a_time:
  assumes "page_reachable colors p s" and "requested p = 0"
  shows "requested (player s) + running s + thrown s = tracks s \<and>
    (main_at s \<in> {Loading, Offering, Setting_local, Posting, Reading} \<longrightarrow> tracks s = 0)"
  using loop_reachable[OF assms] handler_reachable[OF assms(1)] by (auto simp: one_loop_per_track_def handler_first_def)

text \<open>The page after one track.\<close>

definition tracked_page :: page where
  "tracked_page = ontrack ((load_page idle_player)\<lparr>main_at := Describing, ontrack_set := True\<rparr>)"

lemma tracked_page_reachable: "page_reachable colors idle_player tracked_page"
proof -
  let ?at = "\<lambda>n. (load_page idle_player)\<lparr>main_at := n\<rparr>"
  have "page_reachable colors idle_player (?at Offering)" by (intro page_next[OF page_start loaded]) (simp_all add: load_page_def)
  from page_next[OF this settled] have "page_reachable colors idle_player (?at Setting_local)" by (simp add: awaiting_def load_page_def)
  from page_next[OF this settled] have "page_reachable colors idle_player (?at Posting)" by (simp add: awaiting_def load_page_def)
  from page_next[OF this settled] have "page_reachable colors idle_player (?at Reading)" by (simp add: awaiting_def load_page_def)
  from page_next[OF this settled] have "page_reachable colors idle_player ((?at Describing)\<lparr>ontrack_set := True\<rparr>)"
    by (simp add: awaiting_def load_page_def)
  from page_next[OF this track] show ?thesis by (simp add: tracked_page_def)
qed

theorem frames_one_at_a_time_witness:
  "requested (player tracked_page) = 1 \<and> requested (player tracked_page) + running tracked_page + thrown tracked_page = tracks tracked_page"
  using frames_one_at_a_time[OF tracked_page_reachable]
  by (simp add: idle_player_def tracked_page_def ontrack_def load_page_def request_frame_def)

end
