(* ===== verification/Spec2Isabelle.thy ===== *)
theory Spec2Isabelle
  imports Frames Concatenation CommandCases MapView TelemetryStore PageLoop
begin

text \<open>
  A verification library for cherum, a browser console for a drone: a map with the drone's
  telemetry, the commands the operator may send, and the live video in which a YOLOv8 object
  detector (59 classes, 640 x 640 input), compiled to WebGPU compute shaders, marks what it
  sees. The code modelled is that of \<open>server/cherum/static\<close>: the console page \<open>js/app.js\<close>, the
  video page \<open>js/video.js\<close>, and the detector \<open>net.js\<close>, whose 11,000 lines are a list of shaders
  and the function \<open>setupNet\<close> that loads the weights and runs the shaders; and of the Python programs
  the way of a command to the drone: the routes and tokens of \<open>server/cherum\<close>, \<open>client/poller.py\<close> and
  the reader of commands in \<open>client/controller.py\<close>, and the buffer of \<open>telemetry_store.py\<close>.

  How the parts interact. The video page loads the detector once (\<open>yolov8.load\<close>), takes each
  frame through a letterbox to three planes of 640 x 640 numbers, awaits the detector on them, and
  draws the rows it returns. The detector keeps all its state in 355 buffers of the GPU, 298 of them weights; a call
  is a list of 225 passes, each a shader bound to at most eight buffers and dispatched over a
  grid. Passes 0 to 84 compute the feature maps of the network, 85 to 94 decode them to class
  probabilities and corners of 8400 anchors, 95 to 224 rank the anchors, select the 300 best and
  suppress overlaps. The console page is independent of the detector: an object whose handlers
  are called by timers, replies and clicks. A click posts a command, which the server stores as a row; the poller on
  the drone fetches the latest row ten times a second, writes the code of a command that is not done
  into a named pipe and reports it done; the controller reads the pipe and calls the autopilot.

  Foundations. \<open>Prelude\<close> has the collections and arithmetic facts all parts share. \<open>Rounding\<close>, \<open>Ieee\<close>
  and \<open>Intervals\<close> are IEEE-754 arithmetic with exact rounding to nearest even: Numbers of
  JavaScript are \<open>f64\<close>, those of the shaders \<open>f32\<close>. \<open>Js\<close>, \<open>JsNumber\<close> and \<open>Dates\<close> are what the pages use
  of JavaScript: values of JSON, statements that may throw, numbers as text, dates as text. \<open>Wgsl\<close>
  is the execution of a compute shader: 32-bit words with wrap-around for \<open>i32\<close>, loads that
  return an arbitrary value out of bounds and stores that are dropped there, workgroups with
  barriers; a dispatch is any order of the stores of its invocations. Its locale
  \<open>kernel_contract\<close> is the interface of a kernel: if no two invocations store to the same
  element and together they store one value for each, the outcome is the same for every order.
  \<open>Tiles\<close>, \<open>SortLocales\<close>, \<open>Heads\<close>, \<open>Boxes\<close> and \<open>Tensors\<close> refine it for the shapes of grids the shaders have,
  and every shader is an interpretation of one of them. \<open>Device\<close> is \<open>addComputePass\<close> and a list of
  passes, \<open>Buffers\<close> the buffers \<open>setupNet\<close> creates.

  The detector from the end to the start. \<open>Bitonic\<close> and \<open>BitonicSort\<close> prove the sorting network,
  \<open>SortKernels\<close> and \<open>Sort\<close> that passes 101 to 217 compute it. \<open>Scores\<close>, \<open>Pad\<close>, \<open>TopK\<close>, \<open>Gather\<close>, \<open>Nms\<close> and
  \<open>Detector\<close> are the other shaders after the boxes, \<open>Ranking\<close> and \<open>Postprocess\<close> show that together
  they rank the anchors and suppress overlaps (C3, C10, C11, C38, C39). \<open>Anchors\<close>, \<open>Heads\<close>, \<open>Boxes\<close> and
  \<open>Decoding\<close> are the passes that make anchors, probabilities and corners, with the bounds of
  \<open>Inference\<close> (C4, C14). \<open>Network\<close> has the tables of \<open>setupNet\<close>: weights and passes, and the flow
  of data through them (C12). \<open>Layers\<close> defines what a layer of the network is, \<open>LayerPasses\<close> what a
  pass that computes one does, and \<open>Joining\<close>, \<open>Pointwise80\<close>, \<open>Pointwise40\<close>, \<open>Pointwise20\<close>, \<open>Logits\<close>,
  \<open>Windows160\<close>, \<open>Windows80\<close>, \<open>Windows40\<close> and \<open>Windows20\<close> have the 56 shaders of the layers, each with the
  proof that it computes its layer. \<open>Backbone\<close> has the abstract network, the list of the 79 layers,
  and that the passes implement it; \<open>Concatenation\<close> what its joins are on lists (C13). \<open>Weights\<close> is the
  reading of the safetensors file and the filling of the buffers (C23, C24, C25). \<open>Program\<close> puts
  all together (C5, C1), and \<open>Calls\<close> has sequences of calls on one device (C9, C26).

  The pages. \<open>Console\<close> is \<open>DroneControl\<close> with its page, one definition per method and a step
  relation over all events in any order; \<open>ConsoleFacts\<close>, \<open>ConsoleRuns\<close>, \<open>ConsoleTheorems\<close> and \<open>MapView\<close> have its
  invariants and properties (C8, C27 to C33). \<open>Video\<close> is the frame loop, \<open>Suppression\<close> the page's own
  decoder for networks without one, \<open>Hues\<close> the loop that makes the colours; \<open>VideoTheorems\<close> and
  \<open>Pipeline\<close> have their properties (C34 to C40), and \<open>Frames\<close> a frame from the pixels to the canvas
  with the detector as the network (C2). \<open>PageLoop\<close> is the life of the video page: \<open>main\<close> with its
  awaits, the events of the stream and the frames, in any order (C22).

  The way of a command. \<open>Server\<close> has the tables, the check of tokens and the routes; \<open>DroneLink\<close> the poller
  and the controller, with the pipe between them, each as a step relation whose steps are the requests and
  system calls of the program, any of which may fail where the source lets it; the system interleaves them. Its invariants are
  that the bytes on their way are, in order, among those sent, and that no row is sent twice.
  \<open>CommandPath\<close> and \<open>CommandCases\<close> say what that means for a command: which actions the drone carries out (C6),
  that the latest command wins (C7), that a command can get through (C15), be lost (C16) or starve
  (C17), what a poller without a valid token can do (C18), and what a click on the picture of a button does
  to a waiting command (C19). \<open>TelemetryStore\<close> is the buffer of telemetry points, shared by the threads of the
  server (C20, C21).

  Assumptions. The functions \<open>exp2\<close> and \<open>sqrt\<close> of the GPU are parameters. Nothing is asked of the
  root; of the exponential, where it matters, \<open>exp_like\<close>: finite for finite arguments up to 96,
  not negative, at most 2 for negative arguments, at least 1/2 at zero, which the accuracy WGSL
  requires gives. The other operations are rounded to nearest even, in the order of the source,
  although WGSL allows a less exact division and the fusing of products with sums. \<open>heads_calm\<close>
  bounds the logits by 64. The decoding of a JSON text, the map library Leaflet, the browser's
  date formats, and the measures of a text on a canvas are parameters as well. Calls of the
  detector do not overlap, as the page awaits each before the next frame (C22). A request to the
  server is one step, and the rows that tie for the latest time may be given in any order. The library of tokens and the
  autopilot are parameters.

  Termination. Every definition is total. Loops of the shaders have a fixed number of rounds and
  are folds. The suppression loop of the page may not end, so it is a partial function with the
  value none then, and C36 shows that it ends; so is the loop over the hues (\<open>class_colors\<close>). A dispatch
  and a list of passes always have an outcome (\<open>runs_total\<close>), as does a call (\<open>call_total\<close>).

  Observations. The pooling kernel starts its maximum with minus infinity but reads zeros beyond the
  edges, so that near the border of the 20 x 20 grid the result is never negative. \<open>setupNet\<close> accepts
  tensors that are too short and leaves the rest of their buffers zero (C24). A call with too many
  numbers makes every later one throw (C26). The controller throws away a byte that is already in the
  pipe at its first read (C16). Rows are ordered by a time in seconds (C17). The store empties its
  buffer in a step after the write (C21); its check does not count days (\<open>days_not_counted\<close>), which does not matter as
  long as every request ends with a flush (C20).

  Not modelled: the creation of pipelines, layouts and shader modules, which only calls browser
  interfaces; the fetching of the weights; of the server the index page, the queries to InfluxDB and
  the routes of telemetry, which pass values on to them and to the store; of the drone client the monitors of the
  autopilot's library and the pipe of telemetry to \<open>telemetry.py\<close>; page markup and styles.
\<close>

section \<open>The detector's post-processing\<close>

text \<open>C3: Whatever the order of the invocations, the passes from the class probabilities to the
  output leave the 300 best anchors in it: ranked by thresholded score, equal scores by anchor
  number, each with its corners, score and class, and zero when a better ranked box of the same
  class overlaps it by more than 0.45.\<close>

theorem detector_output:
  assumes "runs post_passes D D'" and "ready D"
  shows "\<exists>\<pi>. ranking (conf (elem (fmem D (Buf 331)))) 8400 \<pi> \<and> fmem D' Output = detections (anchor_rows D) \<pi>"
  using assms by (rule post_passes_result)

theorem detector_output_witness:
  "\<exists>D' \<pi>. runs post_passes scored_device D' \<and> ranking (conf (elem (fmem scored_device (Buf 331)))) 8400 \<pi> \<and>
     fmem D' Output = detections (anchor_rows scored_device) \<pi>"
proof -
  obtain D' where D': "runs post_passes scored_device D'" using runs_total by blast
  from detector_output[OF D' scored_device_ready] D' show ?thesis by blast
qed

text \<open>C10: The output does not depend on the order in which the GPU runs the invocations: two
  runs of the passes from the same state give the same 300 rows.\<close>

theorem detector_deterministic:
  assumes "runs post_passes D D1" and "runs post_passes D D2" and "ready D"
  shows "fmem D1 Output = fmem D2 Output"
  using post_passes_result[OF assms(1,3)] post_passes_output[OF assms(2,3)] by force

theorem detector_deterministic_witness:
  "\<exists>D1 D2. runs post_passes scored_device D1 \<and> runs post_passes scored_device D2 \<and> fmem D1 Output = fmem D2 Output"
proof -
  obtain D1 where D1: "runs post_passes scored_device D1" using runs_total by blast
  from detector_deterministic[OF D1 D1 scored_device_ready] D1 show ?thesis by blast
qed

section \<open>The sort of the scores\<close>

definition sort_input :: "f32 list" where
  "sort_input = 1 # replicate 16383 0"

definition sort_device :: device where
  "sort_device = \<lparr>fmem = (\<lambda>_. pairs_reversed sort_input), imem = (\<lambda>_. [])\<rparr>"

text \<open>C11: The 117 passes of the bitonic sort leave in buffer 346 the keys of buffer 343 in
  descending order and as a permutation of the keys, whatever the order of the invocations.\<close>

theorem sort_passes_correct:
  assumes "runs sort_passes D D'" and "fmem D (Buf 343) = pairs_reversed xs"
    and "length (fmem D (Buf 346)) = 16384" and "length xs = 16384" and "list_all plain xs"
  shows "descending (fmem D' (Buf 346)) \<and> mset (fmem D' (Buf 346)) = mset xs"
  using network_sorts[OF assms(5,4)] sort_passes_network[OF assms(1-4)] by simp

theorem sort_passes_correct_witness:
  "\<exists>D'. runs sort_passes sort_device D' \<and> descending (fmem D' (Buf 346)) \<and>
     mset (fmem D' (Buf 346)) = mset sort_input"
proof -
  obtain D' where D': "runs sort_passes sort_device D'" using runs_total by blast
  have "length (pairs_reversed sort_input) = 16384" by (simp add: pairs_reversed_def)
  moreover have "list_all plain sort_input"
    by (simp add: sort_input_def list_all_iff plain_def zero_fp_def one_fp_def)
  moreover have "length sort_input = 16384" by (simp add: sort_input_def)
  ultimately have "descending (fmem D' (Buf 346)) \<and> mset (fmem D' (Buf 346)) = mset sort_input"
    by (intro sort_passes_correct[OF D']) (simp_all add: sort_device_def)
  then show ?thesis using D' by blast
qed

end
